(* ===== verification/Prelude.thy ===== *)
theory Prelude
  imports Main "HOL-Library.Word" "HOL-Library.Signed_Division" "HOL-Library.State_Monad"
begin

text \<open>
  What the components share: the byte-level view of the process's memory
  (little-endian cells of one, two, four and eight bytes, with the interface
  every width satisfies), the state of the process the translated system calls
  run in, the interface to the code outside \<open>src/\<close> (the host's C
  library and kernel and the external guest-memory library), and the small
  monad in which the C functions are written.
\<close>

unbundle bit_operations_syntax

named_theorems run_simps \<open>running the state monad one operation at a time\<close>
named_theorems mem_simps \<open>loads, stores and separation\<close>

type_synonym byte = "8 word"
type_synonym bytes = "8 word list"
type_synonym addr = "64 word"
type_synonym memory = "64 word \<Rightarrow> 8 word"
type_synonym abi_long = "32 word"
type_synonym abi_ulong = "32 word"

section \<open>Little-endian encodings\<close>

definition le :: "nat \<Rightarrow> 'a::len word \<Rightarrow> bytes" where
  "le n w = map (\<lambda>i. ucast (drop_bit (8 * i) w)) [0..<n]"

primrec un_le :: "bytes \<Rightarrow> 'a::len word" where
  "un_le [] = 0"
| "un_le (b # bs) = ucast b OR push_bit 8 (un_le bs)"

abbreviation le16 :: "16 word \<Rightarrow> bytes" where "le16 \<equiv> le 2"
abbreviation le32 :: "32 word \<Rightarrow> bytes" where "le32 \<equiv> le 4"
abbreviation le64 :: "64 word \<Rightarrow> bytes" where "le64 \<equiv> le 8"

lemma length_le [simp]: "length (le n w) = n"
  by (simp add: le_def)

lemma nth_le [simp]: "i < n \<Longrightarrow> le n w ! i = ucast (drop_bit (8 * i) w)"
  by (simp add: le_def)

lemma le_0 [simp]: "le 0 w = []"
  by (simp add: le_def)

lemma le_Suc: "le (Suc n) w = ucast w # le n (drop_bit 8 w)"
  by (rule nth_equalityI) (auto simp: nth_Cons le_def drop_bit_drop_bit add.commute split: nat.splits
      simp del: upt_Suc)

lemma bit_un_le:
  "bit (un_le bs :: 'a::len word) n \<longleftrightarrow>
     n < LENGTH('a) \<and> n div 8 < length bs \<and> bit (bs ! (n div 8)) (n mod 8)"
proof (induction bs arbitrary: n)
  case (Cons b bs)
  show ?case
  proof (cases "n < 8")
    case True
    then show ?thesis
      by (auto simp: bit_or_iff bit_push_bit_iff bit_ucast_iff dest: bit_imp_le_length)
  next
    case False
    then have *: "n div 8 = Suc ((n - 8) div 8)" "n mod 8 = (n - 8) mod 8"
      by (simp_all add: le_div_geq le_mod_geq)
    have "\<not> bit b n"
      using False by (auto dest: bit_imp_le_length)
    then show ?thesis
      using Cons.IH [of "n - 8"] False
      by (auto simp: bit_or_iff bit_push_bit_iff bit_ucast_iff *)
  qed
qed simp

lemma un_le_le [simp]: "LENGTH('a) \<le> 8 * n \<Longrightarrow> un_le (le n w) = (w :: 'a::len word)"
  by (rule bit_eqI)
    (auto simp: bit_un_le bit_ucast_iff bit_drop_bit_eq less_mult_imp_div_less mult.commute
      intro: less_mult_imp_div_less dest: bit_imp_le_length)

lemma le_un_le: "8 * length bs \<le> LENGTH('a) \<Longrightarrow> le (length bs) (un_le bs :: 'a::len word) = bs"
proof (rule nth_equalityI)
  fix i assume "8 * length bs \<le> LENGTH('a)" and i: "i < length (le (length bs) (un_le bs :: 'a word))"
  then have "8 * i + 8 \<le> LENGTH('a)" by simp
  then show "le (length bs) (un_le bs :: 'a word) ! i = bs ! i"
    using i by (intro bit_eqI) (auto simp: bit_ucast_iff bit_drop_bit_eq bit_un_le div_mult_self4)
qed simp

section \<open>Memory\<close>

definition mrd :: "memory \<Rightarrow> addr \<Rightarrow> nat \<Rightarrow> bytes" where
  "mrd m a n = map (\<lambda>i. m (a + of_nat i)) [0..<n]"

definition mwr :: "memory \<Rightarrow> addr \<Rightarrow> bytes \<Rightarrow> memory" where
  "mwr m a bs = (\<lambda>x. if unat (x - a) < length bs then bs ! unat (x - a) else m x)"

text \<open>Two byte ranges are disjoint; no range here is longer than the address space.\<close>

definition sep :: "addr \<Rightarrow> nat \<Rightarrow> addr \<Rightarrow> nat \<Rightarrow> bool" where
  "sep a n b k \<longleftrightarrow> n \<le> unat (b - a) \<and> k \<le> unat (a - b)"

lemma length_mrd [simp]: "length (mrd m a n) = n"
  by (simp add: mrd_def)

lemma nth_mrd [simp]: "i < n \<Longrightarrow> mrd m a n ! i = m (a + of_nat i)"
  by (simp add: mrd_def)

lemma mrd_0 [simp]: "mrd m a 0 = []"
  by (simp add: mrd_def)

lemma mwr_Nil [simp]: "mwr m a [] = m"
  by (simp add: mwr_def)

lemma mrd_mwr [mem_simps]: "length bs \<le> 2 ^ 64 \<Longrightarrow> mrd (mwr m a bs) a (length bs) = bs"
  by (rule nth_equalityI) (auto simp: mwr_def unat_of_nat take_bit_nat_eq_self)

lemma sep_commute: "sep a n b k \<longleftrightarrow> sep b k a n"
  by (auto simp: sep_def)

lemma unat_uminus:
  assumes "w \<noteq> 0"
  shows "unat (- w) = 2 ^ LENGTH('a) - unat (w :: 'a::len word)"
proof -
  have "- w = of_nat (2 ^ LENGTH('a) - unat w)"
    using unsigned_less [of w, where ?'a = nat]
    by (subst of_nat_diff) (simp_all add: less_imp_le)
  moreover have "0 < unat w"
    using assms by (simp add: unat_gt_0)
  ultimately show ?thesis
    by (simp only:) (simp add: unat_of_nat take_bit_nat_eq_self)
qed

lemma unat_add_no_wrap:
  fixes w :: addr
  assumes "i < unat (- w)"
  shows "unat (w + of_nat i) = unat w + i"
proof (cases "w = 0")
  case True
  then show ?thesis using assms by simp
next
  case False
  have "unat (- w) = 2 ^ 64 - unat w"
    using False unat_uminus [of w] by simp
  then have "unat w + i < 2 ^ 64"
    using assms by linarith
  then show ?thesis
    by (simp add: unat_word_ariths unat_of_nat)
qed

lemma sep_outside:
  assumes "sep a n b k" and "i < k"
  shows "\<not> unat (b + of_nat i - a) < n"
proof -
  have "unat ((b - a) + of_nat i) = unat (b - a) + i"
    using assms by (intro unat_add_no_wrap) (auto simp: sep_def)
  then show ?thesis
    using assms by (simp add: sep_def algebra_simps)
qed

lemma mrd_mwr_sep [mem_simps]:
  "sep a (length bs) b n \<Longrightarrow> mrd (mwr m a bs) b n = mrd m b n"
  by (rule nth_equalityI) (auto simp: mwr_def sep_outside)

lemma mwr_commute:
  assumes "sep a (length xs) b (length ys)"
  shows "mwr (mwr m a xs) b ys = mwr (mwr m b ys) a xs"
proof
  fix x
  have "\<not> (unat (x - a) < length xs \<and> unat (x - b) < length ys)"
    using sep_outside [OF assms, of "unat (x - b)"] by auto
  then show "mwr (mwr m a xs) b ys x = mwr (mwr m b ys) a xs x"
    by (auto simp: mwr_def)
qed

lemma unat_beyond:
  fixes x d :: addr
  assumes "k \<le> unat (x - d)"
  shows "unat (x - (d + of_nat k)) = unat (x - d) - k"
proof -
  have "k < 2 ^ 64"
    using assms unsigned_less [of "x - d", where ?'a = nat] by simp
  then have "unat ((x - d) - of_nat k) = unat (x - d) - k"
    using assms by (subst unat_sub) (simp_all add: word_le_nat_alt unat_of_nat take_bit_nat_eq_self)
  then show ?thesis by (simp add: algebra_simps)
qed

text \<open>Ranges at constant offsets from one pointer.\<close>

lemma sep_offset:
  assumes "i + n \<le> j" "i < j" "0 < k" "j + k \<le> 2 ^ 64 + i"
  shows "sep (p + of_nat i) n (p + of_nat j) k" (is ?A) and "sep (p + of_nat j) k (p + of_nat i) n" (is ?B)
proof -
  have ji: "(p + of_nat j) - (p + of_nat i) = of_nat (j - i)" "(p + of_nat i) - (p + of_nat j) = - of_nat (j - i)"
    using assms by (simp_all add: of_nat_diff)
  have "unat (of_nat (j - i) :: addr) = j - i"
    using assms by (simp add: unat_of_nat take_bit_nat_eq_self del: of_nat_diff)
  moreover from this have "unat (- of_nat (j - i) :: addr) = 2 ^ 64 - (j - i)"
    using assms(2) by (subst unat_uminus) (auto simp del: of_nat_diff)
  ultimately show ?A
    using assms unfolding sep_def ji by auto
  then show ?B by (simp add: sep_commute)
qed

section \<open>Cells of the memory\<close>

definition ld8 :: "memory \<Rightarrow> addr \<Rightarrow> 8 word" where "ld8 m a = m a"
definition ld16 :: "memory \<Rightarrow> addr \<Rightarrow> 16 word" where "ld16 m a = un_le (mrd m a 2)"
definition ld32 :: "memory \<Rightarrow> addr \<Rightarrow> 32 word" where "ld32 m a = un_le (mrd m a 4)"
definition ld64 :: "memory \<Rightarrow> addr \<Rightarrow> 64 word" where "ld64 m a = un_le (mrd m a 8)"

definition st8 :: "memory \<Rightarrow> addr \<Rightarrow> 8 word \<Rightarrow> memory" where "st8 m a w = m(a := w)"
definition st16 :: "memory \<Rightarrow> addr \<Rightarrow> 16 word \<Rightarrow> memory" where "st16 m a w = mwr m a (le16 w)"
definition st32 :: "memory \<Rightarrow> addr \<Rightarrow> 32 word \<Rightarrow> memory" where "st32 m a w = mwr m a (le32 w)"
definition st64 :: "memory \<Rightarrow> addr \<Rightarrow> 64 word \<Rightarrow> memory" where "st64 m a w = mwr m a (le64 w)"

primrec load_list :: "(memory \<Rightarrow> addr \<Rightarrow> 'w) \<Rightarrow> nat \<Rightarrow> memory \<Rightarrow> addr \<Rightarrow> nat \<Rightarrow> 'w list" where
  "load_list ld k m a 0 = []"
| "load_list ld k m a (Suc n) = ld m a # load_list ld k m (a + of_nat k) n"

primrec store_list ::
  "(memory \<Rightarrow> addr \<Rightarrow> 'w \<Rightarrow> memory) \<Rightarrow> nat \<Rightarrow> memory \<Rightarrow> addr \<Rightarrow> 'w list \<Rightarrow> memory" where
  "store_list st k m a [] = m"
| "store_list st k m a (x # xs) = store_list st k (st m a x) (a + of_nat k) xs"

lemma length_load_list [simp]: "length (load_list ld k m a n) = n"
  by (induction n arbitrary: a) simp_all

lemma nth_load_list: "i < n \<Longrightarrow> load_list ld k m a n ! i = ld m (a + of_nat (k * i))"
  by (induction n arbitrary: a i) (auto simp: nth_Cons algebra_simps split: nat.split)

text \<open>
  What every width promises: a load sees the last store to the same cell, a
  store changes the bytes of its cell only, and a load depends on the bytes of
  its cell only.
\<close>

locale cell =
  fixes ld :: "memory \<Rightarrow> addr \<Rightarrow> 'w"
    and st :: "memory \<Rightarrow> addr \<Rightarrow> 'w \<Rightarrow> memory"
    and k :: nat
  assumes ld_st: "ld (st m a x) a = x"
    and st_frame: "k \<le> unat (b - a) \<Longrightarrow> st m a x b = m b"
    and ld_cong: "(\<And>i. i < k \<Longrightarrow> m (a + of_nat i) = m' (a + of_nat i)) \<Longrightarrow> ld m a = ld m' a"
    and st_ld: "st m a (ld m a) = m"
    and width: "k < 2 ^ 64"
begin

lemma store_load_list: "store_list st k m a (load_list ld k m a n) = m"
  by (induction n arbitrary: a) (simp_all add: st_ld)

lemma ld_far:
  assumes "sep a k b k"
  shows "ld (st m a x) b = ld m b"
  using sep_outside [OF assms] by (intro ld_cong st_frame) (simp add: not_less)

lemma store_list_frame:
  "length xs * k \<le> unat (b - a) \<Longrightarrow> store_list st k m a xs b = m b"
proof (induction xs arbitrary: m a)
  case (Cons x xs)
  have "k \<le> unat (b - a)" using Cons.prems by simp
  then show ?case
    using Cons by (simp add: st_frame unat_beyond)
qed simp

lemma load_store_list:
  "length xs * k \<le> 2 ^ 64 \<Longrightarrow> load_list ld k (store_list st k m a xs) a (length xs) = xs"
proof (induction xs arbitrary: m a)
  case (Cons x xs)
  have "ld (store_list st k (st m a x) (a + of_nat k) xs) a = ld (st m a x) a"
  proof (rule ld_cong, rule store_list_frame)
    fix i assume i: "i < k"
    have "a + of_nat i - (a + of_nat k) = - of_nat (k - i)"
      using i by (simp add: of_nat_diff)
    moreover have "unat (of_nat (k - i) :: addr) = k - i"
      using width by (simp add: unat_of_nat take_bit_nat_eq_self del: of_nat_diff)
    moreover from this have "(of_nat (k - i) :: addr) \<noteq> 0"
      using i by (metis unat_0 zero_less_diff less_irrefl)
    ultimately have "unat (a + of_nat i - (a + of_nat k)) = 2 ^ 64 - (k - i)"
      using unat_uminus [of "of_nat (k - i) :: addr"] by simp
    then show "length xs * k \<le> unat (a + of_nat i - (a + of_nat k))"
      using Cons.prems by simp
  qed
  then show ?case
    using Cons by (simp add: ld_st)
qed simp

lemma load_list_cong:
  "(\<And>i. i < n * k \<Longrightarrow> m (a + of_nat i) = m' (a + of_nat i)) \<Longrightarrow> load_list ld k m a n = load_list ld k m' a n"
proof (induction n arbitrary: a)
  case (Suc n)
  have "m (a + of_nat k + of_nat i) = m' (a + of_nat k + of_nat i)" if "i < n * k" for i
    using Suc.prems [of "k + i"] that by (simp add: add.assoc)
  then show ?case
    using Suc.IH [of "a + of_nat k"] Suc.prems by (simp add: ld_cong [where m = m and m' = m'])
qed simp

lemma load_list_sep:
  assumes "sep d c a (n * k)" "\<And>x. c \<le> unat (x - d) \<Longrightarrow> m' x = m x"
  shows "load_list ld k m' a n = load_list ld k m a n"
  using sep_outside [OF assms(1)] assms(2) by (intro load_list_cong) (simp add: not_less)

end

lemma mwr_frame: "length bs \<le> unat (b - a) \<Longrightarrow> mwr m a bs b = m b"
  by (simp add: mwr_def)

lemma mwr_mrd: "mwr m a (mrd m a n) = m"
  by (auto simp: mwr_def)

lemma mrd_cong: "(\<And>i. i < n \<Longrightarrow> m (a + of_nat i) = m' (a + of_nat i)) \<Longrightarrow> mrd m a n = mrd m' a n"
  by (simp add: mrd_def)

interpretation c8: cell ld8 st8 1
  by unfold_locales (auto simp: ld8_def st8_def)

lemma le_un_le_mrd: "8 * n \<le> LENGTH('a) \<Longrightarrow> le n (un_le (mrd m a n) :: 'a::len word) = mrd m a n"
  using le_un_le [of "mrd m a n", where ?'a = 'a] by simp

interpretation c16: cell ld16 st16 2
  by unfold_locales
    (auto simp: ld16_def st16_def mwr_frame mrd_mwr [of "le16 _", simplified] le_un_le_mrd mwr_mrd
      intro: arg_cong [OF mrd_cong])

interpretation c32: cell ld32 st32 4
  by unfold_locales
    (auto simp: ld32_def st32_def mwr_frame mrd_mwr [of "le32 _", simplified] le_un_le_mrd mwr_mrd
      intro: arg_cong [OF mrd_cong])

interpretation c64: cell ld64 st64 8
  by unfold_locales
    (auto simp: ld64_def st64_def mwr_frame mrd_mwr [of "le64 _", simplified] le_un_le_mrd mwr_mrd
      intro: arg_cong [OF mrd_cong])

lemmas ld_st_simps [mem_simps] = c8.ld_st c16.ld_st c32.ld_st c64.ld_st c8.ld_far c16.ld_far c32.ld_far c64.ld_far

section \<open>Structures in memory\<close>

text \<open>
  A structure stored at one pointer: byte strings at constant offsets. Fields that
  do not overlap can be read back whatever the order they were stored in, and the
  bytes outside the structure keep their values.
\<close>

definition store_fields :: "memory \<Rightarrow> addr \<Rightarrow> (nat \<times> bytes) list \<Rightarrow> memory" where
  "store_fields m p fs = fold (\<lambda>(off, bs) m. mwr m (p + of_nat off) bs) fs m"

fun disjoint_fields :: "(nat \<times> bytes) list \<Rightarrow> bool" where
  "disjoint_fields [] \<longleftrightarrow> True"
| "disjoint_fields ((off, bs) # fs) \<longleftrightarrow>
     list_all (\<lambda>(off', bs'). off + length bs \<le> off' \<or> off' + length bs' \<le> off) fs \<and> disjoint_fields fs"

definition fields_within :: "nat \<Rightarrow> (nat \<times> bytes) list \<Rightarrow> bool" where
  "fields_within n fs \<longleftrightarrow> list_all (\<lambda>(off, bs). off + length bs \<le> n) fs"

lemma store_fields_outside:
  assumes "fields_within n fs" "n \<le> unat (x - p)"
  shows "store_fields m p fs x = m x"
  using assms(1)
proof (induction fs arbitrary: m)
  case (Cons f fs)
  obtain off bs where f: "f = (off, bs)" by force
  have le: "off + length bs \<le> unat (x - p)"
    using Cons.prems assms(2) by (simp add: f fields_within_def)
  then have "length bs \<le> unat (x - (p + of_nat off))"
    using unat_beyond [of off x p] by simp
  then show ?case
    using Cons by (simp add: f store_fields_def fields_within_def mwr_frame)
qed (simp add: store_fields_def)

lemma fields_apart:
  fixes p :: addr
  assumes "off + n \<le> off' \<or> off' + k \<le> off" "off + n \<le> N" "off' + k \<le> N" "N < 2 ^ 63" "i < k"
  shows "n \<le> unat ((p + of_nat off' + of_nat i) - (p + of_nat off))"
  using assms(1)
proof
  assume le: "off + n \<le> off'"
  have "(p + of_nat off' + of_nat i) - (p + of_nat off) = (of_nat (off' + i - off) :: addr)"
    using le by (simp add: of_nat_diff)
  moreover have "off' + i - off < 2 ^ 64"
    using assms(3-5) by simp
  ultimately show ?thesis
    using le by (simp add: unat_of_nat take_bit_nat_eq_self del: of_nat_diff of_nat_add)
next
  assume le: "off' + k \<le> off"
  have "(p + of_nat off' + of_nat i) - (p + of_nat off) = - (of_nat (off - (off' + i)) :: addr)"
    using le assms(5) by (simp add: of_nat_diff)
  moreover have u: "unat (of_nat (off - (off' + i)) :: addr) = off - (off' + i)"
    using assms by (simp add: unat_of_nat take_bit_nat_eq_self del: of_nat_diff of_nat_add)
  moreover have "(of_nat (off - (off' + i)) :: addr) \<noteq> 0"
  proof
    assume "(of_nat (off - (off' + i)) :: addr) = 0"
    then have "off - (off' + i) = 0" using u by (metis unat_0)
    then show False using le assms(5) by simp
  qed
  ultimately show ?thesis
    using unat_uminus [of "of_nat (off - (off' + i)) :: addr"] assms by simp
qed

lemma store_fields_skip:
  assumes "list_all (\<lambda>(off', bs'). off + n \<le> off' \<or> off' + length bs' \<le> off) fs"
    and "fields_within N fs" "off + n \<le> N" "N < 2 ^ 63"
  shows "mrd (store_fields m p fs) (p + of_nat off) n = mrd m (p + of_nat off) n"
  using assms(1,2)
proof (induction fs arbitrary: m)
  case (Cons f fs)
  obtain off' bs' where f: "f = (off', bs')" by force
  have "mrd (mwr m (p + of_nat off') bs') (p + of_nat off) n = mrd m (p + of_nat off) n"
  proof (rule mrd_cong, rule mwr_frame)
    fix i assume "i < n"
    then show "length bs' \<le> unat (p + of_nat off + of_nat i - (p + of_nat off'))"
      using Cons.prems assms(3,4) by (intro fields_apart [where N = N and k = n]) (auto simp: f fields_within_def)
  qed
  then show ?case
    using Cons by (simp add: f store_fields_def fields_within_def)
qed (simp add: store_fields_def)

lemma store_fields_read:
  assumes "disjoint_fields fs" "fields_within N fs" "N < 2 ^ 63" "(off, bs) \<in> set fs"
  shows "mrd (store_fields m p fs) (p + of_nat off) (length bs) = bs"
  using assms(1,2,4)
proof (induction fs arbitrary: m)
  case (Cons f fs)
  obtain off' bs' where f: "f = (off', bs')" by force
  show ?case
  proof (cases "(off, bs) = f")
    case True
    have "mrd (store_fields (mwr m (p + of_nat off) bs) p fs) (p + of_nat off) (length bs) =
        mrd (mwr m (p + of_nat off) bs) (p + of_nat off) (length bs)"
      using Cons.prems True assms(3)
      by (intro store_fields_skip [where N = N]) (auto simp: f fields_within_def)
    also have "\<dots> = bs"
      using Cons.prems True assms(3) by (intro mrd_mwr) (simp add: f fields_within_def)
    finally show ?thesis
      using True by (simp add: f store_fields_def)
  next
    case False
    then show ?thesis
      using Cons by (auto simp: f store_fields_def fields_within_def)
  qed
qed simp

lemma store_fields_ld:
  assumes "disjoint_fields fs" "fields_within N fs" "N < 2 ^ 63"
  shows "(off, le16 h) \<in> set fs \<Longrightarrow> ld16 (store_fields m p fs) (p + of_nat off) = h"
    and "(off, le32 w) \<in> set fs \<Longrightarrow> ld32 (store_fields m p fs) (p + of_nat off) = w"
    and "(off, le64 d) \<in> set fs \<Longrightarrow> ld64 (store_fields m p fs) (p + of_nat off) = d"
  using store_fields_read [OF assms, of off "le16 h" m p] store_fields_read [OF assms, of off "le32 w" m p]
    store_fields_read [OF assms, of off "le64 d" m p]
  by (simp_all add: ld16_def ld32_def ld64_def)

text \<open>A word that is not negative, read as a signed number.\<close>

lemma sint_nonneg:
  fixes w :: "'a::len word"
  assumes "0 \<le> sint w"
  shows "sint w = uint w"
proof -
  obtain n where n: "LENGTH('a) = Suc n" by (cases "LENGTH('a)") auto
  have "\<not> bit (uint w) n"
    using assms n by (simp add: sint_uint flip: signed_take_bit_nonnegative_iff)
  then have "sint w = take_bit n (uint w)"
    using n by (simp add: sint_uint signed_take_bit_eq_if_positive)
  also have "\<dots> = take_bit (Suc n) (uint w)"
    using \<open>\<not> bit (uint w) n\<close> by (simp add: take_bit_Suc_from_most)
  also have "\<dots> = uint w"
    by (simp flip: n unsigned_take_bit_eq)
  finally show ?thesis .
qed

lemma sint_below:
  fixes w :: "32 word"
  assumes "w < 0x80000000"
  shows "sint w = uint w"
proof -
  have "uint w < 2147483648"
    using assms by (simp add: word_less_def)
  then show ?thesis
    unfolding sint_uint using order_trans [OF _ uint_ge_0, of "- 2147483648" w]
    by (intro signed_take_bit_int_eq_self) simp_all
qed

lemma sless_iff_below:
  fixes w :: "32 word"
  assumes "c < 0x80000000"
  shows "c <s w \<longleftrightarrow> c < w \<and> w < 0x80000000"
proof
  assume lt: "c <s w"
  have "uint c < sint w"
    using lt sint_below [OF assms] by (simp add: word_sless_alt)
  then have "0 \<le> sint w"
    using order_trans [OF uint_ge_0, of c "sint w"] by simp
  then have w: "sint w = uint w"
    by (rule sint_nonneg)
  then show "c < w \<and> w < 0x80000000"
    using lt sint_below [OF assms] sint_lt [of w] by (simp add: word_sless_alt word_less_def)
next
  assume "c < w \<and> w < 0x80000000"
  then show "c <s w"
    using sint_below [OF assms] sint_below [of w] by (simp add: word_sless_alt word_less_def)
qed

end
