(* ===== verification/Machine.thy ===== *)
theory Machine
  imports Prelude
begin

text \<open>
  The state the translated system calls run in, the interface to the code
  outside \<open>src/\<close>, and the access macros of \<open>translatedutil.h\<close>.

  The process is the 64-bit host process: \<open>mem\<close> is its whole address space,
  and the guest's 32-bit address space lies in it at \<open>base\<close>, the value of
  \<open>g_mem->getBase()\<close>. Everything outside \<open>src/\<close> (the host's system calls
  and C library, and the operations of the external class \<open>GuestMem\<close>) is one
  parameter, the host: it takes the function's name and its arguments, and
  answers with the value returned, the final bytes of the local buffers it was
  given a pointer to, and the memory, \<open>errno\<close> and kernel state it leaves.
\<close>

record 'k hstate =
  mem :: memory
  errno :: "32 word"
  kern :: 'k

record 'k st = "'k hstate" +
  base :: addr

text \<open>
  An argument of a host function: a scalar (or an address in the process), a
  pointer to an initialised local object, given by its bytes, or a pointer to a
  local object of some size that the callee fills in.
\<close>

datatype harg = W "64 word" | In bytes | Out nat

type_synonym 'k host = "string \<Rightarrow> harg list \<Rightarrow> 'k hstate \<Rightarrow> (64 word \<times> bytes list) \<times> 'k hstate"

type_synonym ('k, 'z, 'a) C = "(('k, 'z) st_scheme, 'a) state"

abbreviation ret :: "'a \<Rightarrow> ('s, 'a) state" where "ret \<equiv> State_Monad.return"

definition gets :: "('s \<Rightarrow> 'a) \<Rightarrow> ('s, 'a) state" where
  "gets f = State (\<lambda>s. (f s, s))"

definition modify :: "('s \<Rightarrow> 's) \<Rightarrow> ('s, unit) state" where
  "modify f = State (\<lambda>s. ((), f s))"

definition hcall :: "'k host \<Rightarrow> string \<Rightarrow> harg list \<Rightarrow> ('k, 'z, 64 word \<times> bytes list) C" where
  "hcall H f as = State (\<lambda>s.
     let (r, h) = H f as \<lparr>mem = mem s, errno = errno s, kern = kern s\<rparr>
     in (r, s\<lparr>mem := mem h, errno := errno h, kern := kern h\<rparr>))"

definition call :: "'k host \<Rightarrow> string \<Rightarrow> harg list \<Rightarrow> ('k, 'z, 64 word) C" where
  "call H f as = do { r \<leftarrow> hcall H f as; ret (fst r) }"

text \<open>The functions that return a C int.\<close>

definition call32 :: "'k host \<Rightarrow> string \<Rightarrow> harg list \<Rightarrow> ('k, 'z, 32 word) C" where
  "call32 H f as = do { r \<leftarrow> hcall H f as; ret (ucast (fst r)) }"

lemma run_gets [run_simps]: "run_state (gets f) s = (f s, s)"
  by (simp add: gets_def)

lemma run_modify [run_simps]: "run_state (modify f) s = ((), f s)"
  by (simp add: modify_def)

lemmas run_basic [run_simps] = run_state_bind run_state_return

text \<open>
  A host function answers with one entry per argument, the final contents of the
  buffer for an argument that is one.
\<close>

definition out :: "bytes list \<Rightarrow> nat \<Rightarrow> bytes" where
  "out outs i = (if i < length outs then outs ! i else [])"

text \<open>A host that answers every call with zero and changes nothing, on which examples run.\<close>

definition null_host :: "'k host" where
  "null_host f as h = ((0, []), h)"

text \<open>
  A host that also notes the calls it gets, in order, and the calls an operation
  makes from a state: what is asked of the host, whatever it answers.
\<close>

type_synonym calls = "(string \<times> harg list) list"

definition noting :: "'k host \<Rightarrow> ('k \<times> calls) host" where
  "noting H f as h =
     (let (r, h') = H f as \<lparr>mem = mem h, errno = errno h, kern = fst (kern h)\<rparr>
      in (r, \<lparr>mem = mem h', errno = errno h', kern = (kern h', snd (kern h) @ [(f, as)])\<rparr>))"

definition calls_of :: "('k \<times> calls, 'z, 'a) C \<Rightarrow> ('k \<times> calls, 'z) st_scheme \<Rightarrow> calls" where
  "calls_of m s = snd (kern (snd (run_state m (s\<lparr>kern := (fst (kern s), [])\<rparr>))))"

lemma run_noting [run_simps]:
  "run_state (hcall (noting H) f as) s =
     (let (r, h) = H f as \<lparr>mem = mem s, errno = errno s, kern = fst (kern s)\<rparr>
      in (r, s\<lparr>mem := mem h, errno := errno h, kern := (kern h, snd (kern s) @ [(f, as)])\<rparr>))"
  by (simp add: hcall_def noting_def Let_def split: prod.split)

text \<open>A loop over a list.\<close>

primrec for_each :: "'a list \<Rightarrow> ('a \<Rightarrow> ('s, unit) state) \<Rightarrow> ('s, unit) state" where
  "for_each [] f = ret ()"
| "for_each (x # xs) f = do { f x; for_each xs f }"

section \<open>Accesses to the process's memory\<close>

definition rd8 :: "addr \<Rightarrow> ('k, 'z, 8 word) C" where "rd8 a = gets (\<lambda>s. ld8 (mem s) a)"
definition rd16 :: "addr \<Rightarrow> ('k, 'z, 16 word) C" where "rd16 a = gets (\<lambda>s. ld16 (mem s) a)"
definition rd32 :: "addr \<Rightarrow> ('k, 'z, 32 word) C" where "rd32 a = gets (\<lambda>s. ld32 (mem s) a)"
definition rd64 :: "addr \<Rightarrow> ('k, 'z, 64 word) C" where "rd64 a = gets (\<lambda>s. ld64 (mem s) a)"
definition rdb :: "addr \<Rightarrow> nat \<Rightarrow> ('k, 'z, bytes) C" where "rdb a n = gets (\<lambda>s. mrd (mem s) a n)"

definition wr8 :: "addr \<Rightarrow> 8 word \<Rightarrow> ('k, 'z, unit) C" where
  "wr8 a w = modify (\<lambda>s. s\<lparr>mem := st8 (mem s) a w\<rparr>)"
definition wr16 :: "addr \<Rightarrow> 16 word \<Rightarrow> ('k, 'z, unit) C" where
  "wr16 a w = modify (\<lambda>s. s\<lparr>mem := st16 (mem s) a w\<rparr>)"
definition wr32 :: "addr \<Rightarrow> 32 word \<Rightarrow> ('k, 'z, unit) C" where
  "wr32 a w = modify (\<lambda>s. s\<lparr>mem := st32 (mem s) a w\<rparr>)"
definition wr64 :: "addr \<Rightarrow> 64 word \<Rightarrow> ('k, 'z, unit) C" where
  "wr64 a w = modify (\<lambda>s. s\<lparr>mem := st64 (mem s) a w\<rparr>)"
definition wrb :: "addr \<Rightarrow> bytes \<Rightarrow> ('k, 'z, unit) C" where
  "wrb a bs = modify (\<lambda>s. s\<lparr>mem := mwr (mem s) a bs\<rparr>)"

lemma run_access [run_simps]:
  "run_state (rd8 a) s = (ld8 (mem s) a, s)" "run_state (rd16 a) s = (ld16 (mem s) a, s)"
  "run_state (rd32 a) s = (ld32 (mem s) a, s)" "run_state (rd64 a) s = (ld64 (mem s) a, s)"
  "run_state (rdb a n) s = (mrd (mem s) a n, s)"
  "run_state (wr8 a b) s = ((), s\<lparr>mem := st8 (mem s) a b\<rparr>)"
  "run_state (wr16 a h) s = ((), s\<lparr>mem := st16 (mem s) a h\<rparr>)"
  "run_state (wr32 a w) s = ((), s\<lparr>mem := st32 (mem s) a w\<rparr>)"
  "run_state (wr64 a d) s = ((), s\<lparr>mem := st64 (mem s) a d\<rparr>)"
  "run_state (wrb a bs) s = ((), s\<lparr>mem := mwr (mem s) a bs\<rparr>)"
  by (simp_all add: rd8_def rd16_def rd32_def rd64_def rdb_def wr8_def wr16_def wr32_def wr64_def wrb_def run_simps)

text \<open>Fields of a local object given by its bytes.\<close>

definition fld16 :: "bytes \<Rightarrow> nat \<Rightarrow> 16 word" where "fld16 bs i = un_le (take 2 (drop i bs))"
definition fld32 :: "bytes \<Rightarrow> nat \<Rightarrow> 32 word" where "fld32 bs i = un_le (take 4 (drop i bs))"
definition fld64 :: "bytes \<Rightarrow> nat \<Rightarrow> 64 word" where "fld64 bs i = un_le (take 8 (drop i bs))"

section \<open>The access macros of translatedutil.h\<close>

text \<open>\<open>g2h\<close>, \<open>lock_user\<close>, \<open>lock_user_struct\<close> and \<open>lock_user_string\<close> are the
  same computation; the pointer is null exactly when the sum is zero.\<close>

definition g2h :: "abi_ulong \<Rightarrow> ('k, 'z, addr) C" where
  "g2h a = gets (\<lambda>s. base s + ucast a)"

definition h2g :: "addr \<Rightarrow> ('k, 'z, abi_ulong) C" where
  "h2g p = gets (\<lambda>s. ucast (p - base s))"

definition lock_user :: "abi_ulong \<Rightarrow> ('k, 'z, addr) C" where
  "lock_user a = gets (\<lambda>s. base s + ucast a)"

lemma run_lock [run_simps]:
  "run_state (g2h a) s = (base s + ucast a, s)" "run_state (h2g p) s = (ucast (p - base s), s)"
  "run_state (lock_user a) s = (base s + ucast a, s)"
  by (simp_all add: g2h_def h2g_def lock_user_def run_simps)

text \<open>The accesses through the external \<open>GuestMem\<close> object, named by its base.\<close>

definition gm_read :: "'k host \<Rightarrow> nat \<Rightarrow> abi_ulong \<Rightarrow> ('k, 'z, 64 word) C" where
  "gm_read H n a = do { b \<leftarrow> gets base; call H ''GuestMem::read'' [W b, W (of_nat n), W (ucast a)] }"

definition gm_write :: "'k host \<Rightarrow> nat \<Rightarrow> abi_ulong \<Rightarrow> 64 word \<Rightarrow> ('k, 'z, unit) C" where
  "gm_write H n a v = do {
     b \<leftarrow> gets base; call H ''GuestMem::write'' [W b, W (of_nat n), W (ucast a), W v]; ret () }"

text \<open>
  \<open>get_user_ual\<close> and its like. Two of the overloads are not what their names say:
  \<open>get_user_u8\<close> into an int reads a signed \<open>char\<close>, and \<open>get_user_ual\<close> into a
  \<open>size_t\<close> reads eight bytes of the guest's memory.
\<close>

definition get_user_u32 :: "'k host \<Rightarrow> abi_ulong \<Rightarrow> ('k, 'z, 32 word) C" where
  "get_user_u32 H a = do { v \<leftarrow> gm_read H 4 a; ret (ucast v) }"

definition get_user_u8 :: "'k host \<Rightarrow> abi_ulong \<Rightarrow> ('k, 'z, 32 word) C" where
  "get_user_u8 H a = do { v \<leftarrow> gm_read H 1 a; ret (scast (ucast v :: 8 word)) }"

definition get_user_size_t :: "'k host \<Rightarrow> abi_ulong \<Rightarrow> ('k, 'z, 64 word) C" where
  "get_user_size_t H a = gm_read H 8 a"

definition put_user_u32 :: "'k host \<Rightarrow> 32 word \<Rightarrow> abi_ulong \<Rightarrow> ('k, 'z, unit) C" where
  "put_user_u32 H v a = gm_write H 4 a (ucast v)"

definition put_user_u8 :: "'k host \<Rightarrow> 32 word \<Rightarrow> abi_ulong \<Rightarrow> ('k, 'z, unit) C" where
  "put_user_u8 H v a = gm_write H 1 a (ucast v)"

definition put_user_s64 :: "'k host \<Rightarrow> 64 word \<Rightarrow> abi_ulong \<Rightarrow> ('k, 'z, unit) C" where
  "put_user_s64 H v a = gm_write H 8 a v"

definition put_user_u16 :: "'k host \<Rightarrow> 32 word \<Rightarrow> abi_ulong \<Rightarrow> ('k, 'z, unit) C" where
  "put_user_u16 H v a = gm_write H 2 a (ucast v)"

definition copy_to_user :: "'k host \<Rightarrow> abi_ulong \<Rightarrow> bytes \<Rightarrow> ('k, 'z, 32 word) C" where
  "copy_to_user H d bs = do {
     b \<leftarrow> gets base; call H ''GuestMem::memcpy'' [W b, W (ucast d), In bs, W (of_nat (length bs))]; ret 0 }"

text \<open>A C string in memory, read up to its terminator or the given bound.\<close>

fun cstr :: "memory \<Rightarrow> addr \<Rightarrow> nat \<Rightarrow> bytes" where
  "cstr m a n = (if n = 0 \<or> m a = 0 then [] else m a # cstr m (a + 1) (n - 1))"

declare cstr.simps [simp del]

text \<open>
  \<open>path\<close>: an absolute path gets the configured root in front of it, in a fresh
  heap copy (given to the callee by its bytes); any other path is passed as it
  is. A guest string is shorter than the guest's address space, so \<open>2 ^ 32\<close>
  bytes reach its end.
\<close>

definition path :: "bytes \<Rightarrow> addr \<Rightarrow> ('k, 'z, harg) C" where
  "path chroot p = gets (\<lambda>s.
     if mem s p \<noteq> 0x2f then W p
     else In (chroot @ cstr (mem s) p (2 ^ 32) @ [0]))"

text \<open>\<open>pstrcpy\<close>, on a local buffer of \<open>sz\<close> bytes: at most \<open>sz - 1\<close> bytes and a terminator.\<close>

definition pstrcpy :: "nat \<Rightarrow> bytes \<Rightarrow> bytes" where
  "pstrcpy sz str = (if sz = 0 then [] else take (sz - 1) (takeWhile (\<lambda>c. c \<noteq> 0) str) @ [0])"

definition mmap_find_vma_flags :: "'k host \<Rightarrow> abi_ulong \<Rightarrow> ('k, 'z, abi_ulong) C" where
  "mmap_find_vma_flags H sz = do {
     b \<leftarrow> gets base;
     (found, outs) \<leftarrow> hcall H ''GuestMem::findFreeRegion'' [W b, W (ucast sz), Out 8];
     if found = 0 then ret (- 12) else ret (ucast (fld64 (out outs 2) 0)) }"

definition page_set_flags :: "'k host \<Rightarrow> abi_ulong \<Rightarrow> abi_ulong \<Rightarrow> 32 word \<Rightarrow> ('k, 'z, unit) C" where
  "page_set_flags H start pend flags = do {
     b \<leftarrow> gets base;
     res \<leftarrow> call H ''GuestMem::mprotect'' [W b, W (ucast start), W (ucast (pend - start)), W (ucast flags)];
     if res = 0 then ret () else do { call H ''__assert_fail'' []; ret () } }"

end
