(* ===== verification/Errno.thy ===== *)
theory Errno
  imports Machine
begin

text \<open>
  Error numbers: the tables of \<open>translatedsyscall.c\<close> between the host's and the
  guest's errno values (\<open>translatederrno.h\<close> for the guest's, the values of
  \<open>asm-generic/errno.h\<close>, which an x86-64 Linux host uses, for the host's), and
  \<open>get_errno\<close>, by which every translated call returns its error.
\<close>

section \<open>The guest's error numbers (translatederrno.h)\<close>

abbreviation (input) TARGET_EPERM :: "32 word" where "TARGET_EPERM \<equiv> 1"
abbreviation (input) TARGET_ENOENT :: "32 word" where "TARGET_ENOENT \<equiv> 2"
abbreviation (input) TARGET_ESRCH :: "32 word" where "TARGET_ESRCH \<equiv> 3"
abbreviation (input) TARGET_EINTR :: "32 word" where "TARGET_EINTR \<equiv> 4"
abbreviation (input) TARGET_EIO :: "32 word" where "TARGET_EIO \<equiv> 5"
abbreviation (input) TARGET_ENXIO :: "32 word" where "TARGET_ENXIO \<equiv> 6"
abbreviation (input) TARGET_E2BIG :: "32 word" where "TARGET_E2BIG \<equiv> 7"
abbreviation (input) TARGET_ENOEXEC :: "32 word" where "TARGET_ENOEXEC \<equiv> 8"
abbreviation (input) TARGET_EBADF :: "32 word" where "TARGET_EBADF \<equiv> 9"
abbreviation (input) TARGET_ECHILD :: "32 word" where "TARGET_ECHILD \<equiv> 10"
abbreviation (input) TARGET_EAGAIN :: "32 word" where "TARGET_EAGAIN \<equiv> 11"
abbreviation (input) TARGET_ENOMEM :: "32 word" where "TARGET_ENOMEM \<equiv> 12"
abbreviation (input) TARGET_EACCES :: "32 word" where "TARGET_EACCES \<equiv> 13"
abbreviation (input) TARGET_EFAULT :: "32 word" where "TARGET_EFAULT \<equiv> 14"
abbreviation (input) TARGET_ENOTBLK :: "32 word" where "TARGET_ENOTBLK \<equiv> 15"
abbreviation (input) TARGET_EBUSY :: "32 word" where "TARGET_EBUSY \<equiv> 16"
abbreviation (input) TARGET_EEXIST :: "32 word" where "TARGET_EEXIST \<equiv> 17"
abbreviation (input) TARGET_EXDEV :: "32 word" where "TARGET_EXDEV \<equiv> 18"
abbreviation (input) TARGET_ENODEV :: "32 word" where "TARGET_ENODEV \<equiv> 19"
abbreviation (input) TARGET_ENOTDIR :: "32 word" where "TARGET_ENOTDIR \<equiv> 20"
abbreviation (input) TARGET_EISDIR :: "32 word" where "TARGET_EISDIR \<equiv> 21"
abbreviation (input) TARGET_EINVAL :: "32 word" where "TARGET_EINVAL \<equiv> 22"
abbreviation (input) TARGET_ENFILE :: "32 word" where "TARGET_ENFILE \<equiv> 23"
abbreviation (input) TARGET_EMFILE :: "32 word" where "TARGET_EMFILE \<equiv> 24"
abbreviation (input) TARGET_ENOTTY :: "32 word" where "TARGET_ENOTTY \<equiv> 25"
abbreviation (input) TARGET_ETXTBSY :: "32 word" where "TARGET_ETXTBSY \<equiv> 26"
abbreviation (input) TARGET_EFBIG :: "32 word" where "TARGET_EFBIG \<equiv> 27"
abbreviation (input) TARGET_ENOSPC :: "32 word" where "TARGET_ENOSPC \<equiv> 28"
abbreviation (input) TARGET_ESPIPE :: "32 word" where "TARGET_ESPIPE \<equiv> 29"
abbreviation (input) TARGET_EROFS :: "32 word" where "TARGET_EROFS \<equiv> 30"
abbreviation (input) TARGET_EMLINK :: "32 word" where "TARGET_EMLINK \<equiv> 31"
abbreviation (input) TARGET_EPIPE :: "32 word" where "TARGET_EPIPE \<equiv> 32"
abbreviation (input) TARGET_EDOM :: "32 word" where "TARGET_EDOM \<equiv> 33"
abbreviation (input) TARGET_ERANGE :: "32 word" where "TARGET_ERANGE \<equiv> 34"
abbreviation (input) TARGET_EDEADLK :: "32 word" where "TARGET_EDEADLK \<equiv> 35"
abbreviation (input) TARGET_ENAMETOOLONG :: "32 word" where "TARGET_ENAMETOOLONG \<equiv> 36"
abbreviation (input) TARGET_ENOLCK :: "32 word" where "TARGET_ENOLCK \<equiv> 37"
abbreviation (input) TARGET_ENOSYS :: "32 word" where "TARGET_ENOSYS \<equiv> 38"
abbreviation (input) TARGET_ENOTEMPTY :: "32 word" where "TARGET_ENOTEMPTY \<equiv> 39"
abbreviation (input) TARGET_ELOOP :: "32 word" where "TARGET_ELOOP \<equiv> 40"
abbreviation (input) TARGET_ENOMSG :: "32 word" where "TARGET_ENOMSG \<equiv> 42"
abbreviation (input) TARGET_EIDRM :: "32 word" where "TARGET_EIDRM \<equiv> 43"
abbreviation (input) TARGET_ECHRNG :: "32 word" where "TARGET_ECHRNG \<equiv> 44"
abbreviation (input) TARGET_EL2NSYNC :: "32 word" where "TARGET_EL2NSYNC \<equiv> 45"
abbreviation (input) TARGET_EL3HLT :: "32 word" where "TARGET_EL3HLT \<equiv> 46"
abbreviation (input) TARGET_EL3RST :: "32 word" where "TARGET_EL3RST \<equiv> 47"
abbreviation (input) TARGET_ELNRNG :: "32 word" where "TARGET_ELNRNG \<equiv> 48"
abbreviation (input) TARGET_EUNATCH :: "32 word" where "TARGET_EUNATCH \<equiv> 49"
abbreviation (input) TARGET_ENOCSI :: "32 word" where "TARGET_ENOCSI \<equiv> 50"
abbreviation (input) TARGET_EL2HLT :: "32 word" where "TARGET_EL2HLT \<equiv> 51"
abbreviation (input) TARGET_EBADE :: "32 word" where "TARGET_EBADE \<equiv> 52"
abbreviation (input) TARGET_EBADR :: "32 word" where "TARGET_EBADR \<equiv> 53"
abbreviation (input) TARGET_EXFULL :: "32 word" where "TARGET_EXFULL \<equiv> 54"
abbreviation (input) TARGET_ENOANO :: "32 word" where "TARGET_ENOANO \<equiv> 55"
abbreviation (input) TARGET_EBADRQC :: "32 word" where "TARGET_EBADRQC \<equiv> 56"
abbreviation (input) TARGET_EBADSLT :: "32 word" where "TARGET_EBADSLT \<equiv> 57"
abbreviation (input) TARGET_EBFONT :: "32 word" where "TARGET_EBFONT \<equiv> 59"
abbreviation (input) TARGET_ENOSTR :: "32 word" where "TARGET_ENOSTR \<equiv> 60"
abbreviation (input) TARGET_ENODATA :: "32 word" where "TARGET_ENODATA \<equiv> 61"
abbreviation (input) TARGET_ETIME :: "32 word" where "TARGET_ETIME \<equiv> 62"
abbreviation (input) TARGET_ENOSR :: "32 word" where "TARGET_ENOSR \<equiv> 63"
abbreviation (input) TARGET_ENONET :: "32 word" where "TARGET_ENONET \<equiv> 64"
abbreviation (input) TARGET_ENOPKG :: "32 word" where "TARGET_ENOPKG \<equiv> 65"
abbreviation (input) TARGET_EREMOTE :: "32 word" where "TARGET_EREMOTE \<equiv> 66"
abbreviation (input) TARGET_ENOLINK :: "32 word" where "TARGET_ENOLINK \<equiv> 67"
abbreviation (input) TARGET_EADV :: "32 word" where "TARGET_EADV \<equiv> 68"
abbreviation (input) TARGET_ESRMNT :: "32 word" where "TARGET_ESRMNT \<equiv> 69"
abbreviation (input) TARGET_ECOMM :: "32 word" where "TARGET_ECOMM \<equiv> 70"
abbreviation (input) TARGET_EPROTO :: "32 word" where "TARGET_EPROTO \<equiv> 71"
abbreviation (input) TARGET_EMULTIHOP :: "32 word" where "TARGET_EMULTIHOP \<equiv> 72"
abbreviation (input) TARGET_EDOTDOT :: "32 word" where "TARGET_EDOTDOT \<equiv> 73"
abbreviation (input) TARGET_EBADMSG :: "32 word" where "TARGET_EBADMSG \<equiv> 74"
abbreviation (input) TARGET_EOVERFLOW :: "32 word" where "TARGET_EOVERFLOW \<equiv> 75"
abbreviation (input) TARGET_ENOTUNIQ :: "32 word" where "TARGET_ENOTUNIQ \<equiv> 76"
abbreviation (input) TARGET_EBADFD :: "32 word" where "TARGET_EBADFD \<equiv> 77"
abbreviation (input) TARGET_EREMCHG :: "32 word" where "TARGET_EREMCHG \<equiv> 78"
abbreviation (input) TARGET_ELIBACC :: "32 word" where "TARGET_ELIBACC \<equiv> 79"
abbreviation (input) TARGET_ELIBBAD :: "32 word" where "TARGET_ELIBBAD \<equiv> 80"
abbreviation (input) TARGET_ELIBSCN :: "32 word" where "TARGET_ELIBSCN \<equiv> 81"
abbreviation (input) TARGET_ELIBMAX :: "32 word" where "TARGET_ELIBMAX \<equiv> 82"
abbreviation (input) TARGET_ELIBEXEC :: "32 word" where "TARGET_ELIBEXEC \<equiv> 83"
abbreviation (input) TARGET_EILSEQ :: "32 word" where "TARGET_EILSEQ \<equiv> 84"
abbreviation (input) TARGET_ERESTART :: "32 word" where "TARGET_ERESTART \<equiv> 85"
abbreviation (input) TARGET_ESTRPIPE :: "32 word" where "TARGET_ESTRPIPE \<equiv> 86"
abbreviation (input) TARGET_EUSERS :: "32 word" where "TARGET_EUSERS \<equiv> 87"
abbreviation (input) TARGET_ENOTSOCK :: "32 word" where "TARGET_ENOTSOCK \<equiv> 88"
abbreviation (input) TARGET_EDESTADDRREQ :: "32 word" where "TARGET_EDESTADDRREQ \<equiv> 89"
abbreviation (input) TARGET_EMSGSIZE :: "32 word" where "TARGET_EMSGSIZE \<equiv> 90"
abbreviation (input) TARGET_EPROTOTYPE :: "32 word" where "TARGET_EPROTOTYPE \<equiv> 91"
abbreviation (input) TARGET_ENOPROTOOPT :: "32 word" where "TARGET_ENOPROTOOPT \<equiv> 92"
abbreviation (input) TARGET_EPROTONOSUPPORT :: "32 word" where "TARGET_EPROTONOSUPPORT \<equiv> 93"
abbreviation (input) TARGET_ESOCKTNOSUPPORT :: "32 word" where "TARGET_ESOCKTNOSUPPORT \<equiv> 94"
abbreviation (input) TARGET_EOPNOTSUPP :: "32 word" where "TARGET_EOPNOTSUPP \<equiv> 95"
abbreviation (input) TARGET_EPFNOSUPPORT :: "32 word" where "TARGET_EPFNOSUPPORT \<equiv> 96"
abbreviation (input) TARGET_EAFNOSUPPORT :: "32 word" where "TARGET_EAFNOSUPPORT \<equiv> 97"
abbreviation (input) TARGET_EADDRINUSE :: "32 word" where "TARGET_EADDRINUSE \<equiv> 98"
abbreviation (input) TARGET_EADDRNOTAVAIL :: "32 word" where "TARGET_EADDRNOTAVAIL \<equiv> 99"
abbreviation (input) TARGET_ENETDOWN :: "32 word" where "TARGET_ENETDOWN \<equiv> 100"
abbreviation (input) TARGET_ENETUNREACH :: "32 word" where "TARGET_ENETUNREACH \<equiv> 101"
abbreviation (input) TARGET_ENETRESET :: "32 word" where "TARGET_ENETRESET \<equiv> 102"
abbreviation (input) TARGET_ECONNABORTED :: "32 word" where "TARGET_ECONNABORTED \<equiv> 103"
abbreviation (input) TARGET_ECONNRESET :: "32 word" where "TARGET_ECONNRESET \<equiv> 104"
abbreviation (input) TARGET_ENOBUFS :: "32 word" where "TARGET_ENOBUFS \<equiv> 105"
abbreviation (input) TARGET_EISCONN :: "32 word" where "TARGET_EISCONN \<equiv> 106"
abbreviation (input) TARGET_ENOTCONN :: "32 word" where "TARGET_ENOTCONN \<equiv> 107"
abbreviation (input) TARGET_ESHUTDOWN :: "32 word" where "TARGET_ESHUTDOWN \<equiv> 108"
abbreviation (input) TARGET_ETOOMANYREFS :: "32 word" where "TARGET_ETOOMANYREFS \<equiv> 109"
abbreviation (input) TARGET_ETIMEDOUT :: "32 word" where "TARGET_ETIMEDOUT \<equiv> 110"
abbreviation (input) TARGET_ECONNREFUSED :: "32 word" where "TARGET_ECONNREFUSED \<equiv> 111"
abbreviation (input) TARGET_EHOSTDOWN :: "32 word" where "TARGET_EHOSTDOWN \<equiv> 112"
abbreviation (input) TARGET_EHOSTUNREACH :: "32 word" where "TARGET_EHOSTUNREACH \<equiv> 113"
abbreviation (input) TARGET_EALREADY :: "32 word" where "TARGET_EALREADY \<equiv> 114"
abbreviation (input) TARGET_EINPROGRESS :: "32 word" where "TARGET_EINPROGRESS \<equiv> 115"
abbreviation (input) TARGET_ESTALE :: "32 word" where "TARGET_ESTALE \<equiv> 116"
abbreviation (input) TARGET_EUCLEAN :: "32 word" where "TARGET_EUCLEAN \<equiv> 117"
abbreviation (input) TARGET_ENOTNAM :: "32 word" where "TARGET_ENOTNAM \<equiv> 118"
abbreviation (input) TARGET_ENAVAIL :: "32 word" where "TARGET_ENAVAIL \<equiv> 119"
abbreviation (input) TARGET_EISNAM :: "32 word" where "TARGET_EISNAM \<equiv> 120"
abbreviation (input) TARGET_EREMOTEIO :: "32 word" where "TARGET_EREMOTEIO \<equiv> 121"
abbreviation (input) TARGET_EDQUOT :: "32 word" where "TARGET_EDQUOT \<equiv> 122"
abbreviation (input) TARGET_ENOMEDIUM :: "32 word" where "TARGET_ENOMEDIUM \<equiv> 123"
abbreviation (input) TARGET_EMEDIUMTYPE :: "32 word" where "TARGET_EMEDIUMTYPE \<equiv> 124"
abbreviation (input) TARGET_ECANCELED :: "32 word" where "TARGET_ECANCELED \<equiv> 125"
abbreviation (input) TARGET_ENOKEY :: "32 word" where "TARGET_ENOKEY \<equiv> 126"
abbreviation (input) TARGET_EKEYEXPIRED :: "32 word" where "TARGET_EKEYEXPIRED \<equiv> 127"
abbreviation (input) TARGET_EKEYREVOKED :: "32 word" where "TARGET_EKEYREVOKED \<equiv> 128"
abbreviation (input) TARGET_EKEYREJECTED :: "32 word" where "TARGET_EKEYREJECTED \<equiv> 129"
abbreviation (input) TARGET_EOWNERDEAD :: "32 word" where "TARGET_EOWNERDEAD \<equiv> 130"
abbreviation (input) TARGET_ENOTRECOVERABLE :: "32 word" where "TARGET_ENOTRECOVERABLE \<equiv> 131"

section \<open>The host's error numbers\<close>

abbreviation (input) EDEADLK :: nat where "EDEADLK \<equiv> 35"
abbreviation (input) ENAMETOOLONG :: nat where "ENAMETOOLONG \<equiv> 36"
abbreviation (input) ENOLCK :: nat where "ENOLCK \<equiv> 37"
abbreviation (input) ENOSYS :: nat where "ENOSYS \<equiv> 38"
abbreviation (input) ENOTEMPTY :: nat where "ENOTEMPTY \<equiv> 39"
abbreviation (input) ELOOP :: nat where "ELOOP \<equiv> 40"
abbreviation (input) ENOMSG :: nat where "ENOMSG \<equiv> 42"
abbreviation (input) EIDRM :: nat where "EIDRM \<equiv> 43"
abbreviation (input) ECHRNG :: nat where "ECHRNG \<equiv> 44"
abbreviation (input) EL2NSYNC :: nat where "EL2NSYNC \<equiv> 45"
abbreviation (input) EL3HLT :: nat where "EL3HLT \<equiv> 46"
abbreviation (input) EL3RST :: nat where "EL3RST \<equiv> 47"
abbreviation (input) ELNRNG :: nat where "ELNRNG \<equiv> 48"
abbreviation (input) EUNATCH :: nat where "EUNATCH \<equiv> 49"
abbreviation (input) ENOCSI :: nat where "ENOCSI \<equiv> 50"
abbreviation (input) EL2HLT :: nat where "EL2HLT \<equiv> 51"
abbreviation (input) EBADE :: nat where "EBADE \<equiv> 52"
abbreviation (input) EBADR :: nat where "EBADR \<equiv> 53"
abbreviation (input) EXFULL :: nat where "EXFULL \<equiv> 54"
abbreviation (input) ENOANO :: nat where "ENOANO \<equiv> 55"
abbreviation (input) EBADRQC :: nat where "EBADRQC \<equiv> 56"
abbreviation (input) EBADSLT :: nat where "EBADSLT \<equiv> 57"
abbreviation (input) EBFONT :: nat where "EBFONT \<equiv> 59"
abbreviation (input) ENOSTR :: nat where "ENOSTR \<equiv> 60"
abbreviation (input) ENODATA :: nat where "ENODATA \<equiv> 61"
abbreviation (input) ETIME :: nat where "ETIME \<equiv> 62"
abbreviation (input) ENOSR :: nat where "ENOSR \<equiv> 63"
abbreviation (input) ENONET :: nat where "ENONET \<equiv> 64"
abbreviation (input) ENOPKG :: nat where "ENOPKG \<equiv> 65"
abbreviation (input) EREMOTE :: nat where "EREMOTE \<equiv> 66"
abbreviation (input) ENOLINK :: nat where "ENOLINK \<equiv> 67"
abbreviation (input) EADV :: nat where "EADV \<equiv> 68"
abbreviation (input) ESRMNT :: nat where "ESRMNT \<equiv> 69"
abbreviation (input) ECOMM :: nat where "ECOMM \<equiv> 70"
abbreviation (input) EPROTO :: nat where "EPROTO \<equiv> 71"
abbreviation (input) EMULTIHOP :: nat where "EMULTIHOP \<equiv> 72"
abbreviation (input) EDOTDOT :: nat where "EDOTDOT \<equiv> 73"
abbreviation (input) EBADMSG :: nat where "EBADMSG \<equiv> 74"
abbreviation (input) EOVERFLOW :: nat where "EOVERFLOW \<equiv> 75"
abbreviation (input) ENOTUNIQ :: nat where "ENOTUNIQ \<equiv> 76"
abbreviation (input) EBADFD :: nat where "EBADFD \<equiv> 77"
abbreviation (input) EREMCHG :: nat where "EREMCHG \<equiv> 78"
abbreviation (input) ELIBACC :: nat where "ELIBACC \<equiv> 79"
abbreviation (input) ELIBBAD :: nat where "ELIBBAD \<equiv> 80"
abbreviation (input) ELIBSCN :: nat where "ELIBSCN \<equiv> 81"
abbreviation (input) ELIBMAX :: nat where "ELIBMAX \<equiv> 82"
abbreviation (input) ELIBEXEC :: nat where "ELIBEXEC \<equiv> 83"
abbreviation (input) EILSEQ :: nat where "EILSEQ \<equiv> 84"
abbreviation (input) ERESTART :: nat where "ERESTART \<equiv> 85"
abbreviation (input) ESTRPIPE :: nat where "ESTRPIPE \<equiv> 86"
abbreviation (input) EUSERS :: nat where "EUSERS \<equiv> 87"
abbreviation (input) ENOTSOCK :: nat where "ENOTSOCK \<equiv> 88"
abbreviation (input) EDESTADDRREQ :: nat where "EDESTADDRREQ \<equiv> 89"
abbreviation (input) EMSGSIZE :: nat where "EMSGSIZE \<equiv> 90"
abbreviation (input) EPROTOTYPE :: nat where "EPROTOTYPE \<equiv> 91"
abbreviation (input) ENOPROTOOPT :: nat where "ENOPROTOOPT \<equiv> 92"
abbreviation (input) EPROTONOSUPPORT :: nat where "EPROTONOSUPPORT \<equiv> 93"
abbreviation (input) ESOCKTNOSUPPORT :: nat where "ESOCKTNOSUPPORT \<equiv> 94"
abbreviation (input) EOPNOTSUPP :: nat where "EOPNOTSUPP \<equiv> 95"
abbreviation (input) EPFNOSUPPORT :: nat where "EPFNOSUPPORT \<equiv> 96"
abbreviation (input) EAFNOSUPPORT :: nat where "EAFNOSUPPORT \<equiv> 97"
abbreviation (input) EADDRINUSE :: nat where "EADDRINUSE \<equiv> 98"
abbreviation (input) EADDRNOTAVAIL :: nat where "EADDRNOTAVAIL \<equiv> 99"
abbreviation (input) ENETDOWN :: nat where "ENETDOWN \<equiv> 100"
abbreviation (input) ENETUNREACH :: nat where "ENETUNREACH \<equiv> 101"
abbreviation (input) ENETRESET :: nat where "ENETRESET \<equiv> 102"
abbreviation (input) ECONNABORTED :: nat where "ECONNABORTED \<equiv> 103"
abbreviation (input) ECONNRESET :: nat where "ECONNRESET \<equiv> 104"
abbreviation (input) ENOBUFS :: nat where "ENOBUFS \<equiv> 105"
abbreviation (input) EISCONN :: nat where "EISCONN \<equiv> 106"
abbreviation (input) ENOTCONN :: nat where "ENOTCONN \<equiv> 107"
abbreviation (input) ESHUTDOWN :: nat where "ESHUTDOWN \<equiv> 108"
abbreviation (input) ETOOMANYREFS :: nat where "ETOOMANYREFS \<equiv> 109"
abbreviation (input) ETIMEDOUT :: nat where "ETIMEDOUT \<equiv> 110"
abbreviation (input) ECONNREFUSED :: nat where "ECONNREFUSED \<equiv> 111"
abbreviation (input) EHOSTDOWN :: nat where "EHOSTDOWN \<equiv> 112"
abbreviation (input) EHOSTUNREACH :: nat where "EHOSTUNREACH \<equiv> 113"
abbreviation (input) EALREADY :: nat where "EALREADY \<equiv> 114"
abbreviation (input) EINPROGRESS :: nat where "EINPROGRESS \<equiv> 115"
abbreviation (input) ESTALE :: nat where "ESTALE \<equiv> 116"
abbreviation (input) EUCLEAN :: nat where "EUCLEAN \<equiv> 117"
abbreviation (input) ENOTNAM :: nat where "ENOTNAM \<equiv> 118"
abbreviation (input) ENAVAIL :: nat where "ENAVAIL \<equiv> 119"
abbreviation (input) EISNAM :: nat where "EISNAM \<equiv> 120"
abbreviation (input) EREMOTEIO :: nat where "EREMOTEIO \<equiv> 121"
abbreviation (input) EDQUOT :: nat where "EDQUOT \<equiv> 122"
abbreviation (input) ENOMEDIUM :: nat where "ENOMEDIUM \<equiv> 123"
abbreviation (input) EMEDIUMTYPE :: nat where "EMEDIUMTYPE \<equiv> 124"
abbreviation (input) ECANCELED :: nat where "ECANCELED \<equiv> 125"
abbreviation (input) ENOKEY :: nat where "ENOKEY \<equiv> 126"
abbreviation (input) EKEYEXPIRED :: nat where "EKEYEXPIRED \<equiv> 127"
abbreviation (input) EKEYREVOKED :: nat where "EKEYREVOKED \<equiv> 128"
abbreviation (input) EKEYREJECTED :: nat where "EKEYREJECTED \<equiv> 129"
abbreviation (input) EOWNERDEAD :: nat where "EOWNERDEAD \<equiv> 130"
abbreviation (input) ENOTRECOVERABLE :: nat where "ENOTRECOVERABLE \<equiv> 131"

section \<open>The tables\<close>

definition ERRNO_TABLE_SIZE :: nat where "ERRNO_TABLE_SIZE = 1200"

definition errno_assignments :: "(nat \<times> abi_long) list" where
  "errno_assignments =
    [(EIDRM, TARGET_EIDRM),
     (ECHRNG, TARGET_ECHRNG),
     (EL2NSYNC, TARGET_EL2NSYNC),
     (EL3HLT, TARGET_EL3HLT),
     (EL3RST, TARGET_EL3RST),
     (ELNRNG, TARGET_ELNRNG),
     (EUNATCH, TARGET_EUNATCH),
     (ENOCSI, TARGET_ENOCSI),
     (EL2HLT, TARGET_EL2HLT),
     (EDEADLK, TARGET_EDEADLK),
     (ENOLCK, TARGET_ENOLCK),
     (EBADE, TARGET_EBADE),
     (EBADR, TARGET_EBADR),
     (EXFULL, TARGET_EXFULL),
     (ENOANO, TARGET_ENOANO),
     (EBADRQC, TARGET_EBADRQC),
     (EBADSLT, TARGET_EBADSLT),
     (EBFONT, TARGET_EBFONT),
     (ENOSTR, TARGET_ENOSTR),
     (ENODATA, TARGET_ENODATA),
     (ETIME, TARGET_ETIME),
     (ENOSR, TARGET_ENOSR),
     (ENONET, TARGET_ENONET),
     (ENOPKG, TARGET_ENOPKG),
     (EREMOTE, TARGET_EREMOTE),
     (ENOLINK, TARGET_ENOLINK),
     (EADV, TARGET_EADV),
     (ESRMNT, TARGET_ESRMNT),
     (ECOMM, TARGET_ECOMM),
     (EPROTO, TARGET_EPROTO),
     (EDOTDOT, TARGET_EDOTDOT),
     (EMULTIHOP, TARGET_EMULTIHOP),
     (EBADMSG, TARGET_EBADMSG),
     (ENAMETOOLONG, TARGET_ENAMETOOLONG),
     (EOVERFLOW, TARGET_EOVERFLOW),
     (ENOTUNIQ, TARGET_ENOTUNIQ),
     (EBADFD, TARGET_EBADFD),
     (EREMCHG, TARGET_EREMCHG),
     (ELIBACC, TARGET_ELIBACC),
     (ELIBBAD, TARGET_ELIBBAD),
     (ELIBSCN, TARGET_ELIBSCN),
     (ELIBMAX, TARGET_ELIBMAX),
     (ELIBEXEC, TARGET_ELIBEXEC),
     (EILSEQ, TARGET_EILSEQ),
     (ENOSYS, TARGET_ENOSYS),
     (ELOOP, TARGET_ELOOP),
     (ERESTART, TARGET_ERESTART),
     (ESTRPIPE, TARGET_ESTRPIPE),
     (ENOTEMPTY, TARGET_ENOTEMPTY),
     (EUSERS, TARGET_EUSERS),
     (ENOTSOCK, TARGET_ENOTSOCK),
     (EDESTADDRREQ, TARGET_EDESTADDRREQ),
     (EMSGSIZE, TARGET_EMSGSIZE),
     (EPROTOTYPE, TARGET_EPROTOTYPE),
     (ENOPROTOOPT, TARGET_ENOPROTOOPT),
     (EPROTONOSUPPORT, TARGET_EPROTONOSUPPORT),
     (ESOCKTNOSUPPORT, TARGET_ESOCKTNOSUPPORT),
     (EOPNOTSUPP, TARGET_EOPNOTSUPP),
     (EPFNOSUPPORT, TARGET_EPFNOSUPPORT),
     (EAFNOSUPPORT, TARGET_EAFNOSUPPORT),
     (EADDRINUSE, TARGET_EADDRINUSE),
     (EADDRNOTAVAIL, TARGET_EADDRNOTAVAIL),
     (ENETDOWN, TARGET_ENETDOWN),
     (ENETUNREACH, TARGET_ENETUNREACH),
     (ENETRESET, TARGET_ENETRESET),
     (ECONNABORTED, TARGET_ECONNABORTED),
     (ECONNRESET, TARGET_ECONNRESET),
     (ENOBUFS, TARGET_ENOBUFS),
     (EISCONN, TARGET_EISCONN),
     (ENOTCONN, TARGET_ENOTCONN),
     (EUCLEAN, TARGET_EUCLEAN),
     (ENOTNAM, TARGET_ENOTNAM),
     (ENAVAIL, TARGET_ENAVAIL),
     (EISNAM, TARGET_EISNAM),
     (EREMOTEIO, TARGET_EREMOTEIO),
     (ESHUTDOWN, TARGET_ESHUTDOWN),
     (ETOOMANYREFS, TARGET_ETOOMANYREFS),
     (ETIMEDOUT, TARGET_ETIMEDOUT),
     (ECONNREFUSED, TARGET_ECONNREFUSED),
     (EHOSTDOWN, TARGET_EHOSTDOWN),
     (EHOSTUNREACH, TARGET_EHOSTUNREACH),
     (EALREADY, TARGET_EALREADY),
     (EINPROGRESS, TARGET_EINPROGRESS),
     (ESTALE, TARGET_ESTALE),
     (ECANCELED, TARGET_ECANCELED),
     (ENOMEDIUM, TARGET_ENOMEDIUM),
     (EMEDIUMTYPE, TARGET_EMEDIUMTYPE),
     (ENOKEY, TARGET_ENOKEY),
     (EKEYEXPIRED, TARGET_EKEYEXPIRED),
     (EKEYREVOKED, TARGET_EKEYREVOKED),
     (EKEYREJECTED, TARGET_EKEYREJECTED),
     (EOWNERDEAD, TARGET_EOWNERDEAD),
     (ENOTRECOVERABLE, TARGET_ENOTRECOVERABLE)]"

text \<open>\<open>fill_host_to_target_errno_table\<close>: the assignments, in order, to a zeroed table.\<close>

definition host_to_target_errno_table :: "16 word list" where
  "host_to_target_errno_table =
     fold (\<lambda>(i, v) t. t[i := ucast v]) errno_assignments (replicate ERRNO_TABLE_SIZE 0)"

text \<open>The loop of \<open>syscall_init\<close> that inverts the table.\<close>

definition invert_errno_table :: "16 word list \<Rightarrow> 16 word list" where
  "invert_errno_table tab =
     fold (\<lambda>i t. t[unat (tab ! i) := of_nat i]) [0..<ERRNO_TABLE_SIZE] (replicate ERRNO_TABLE_SIZE 0)"

definition target_to_host_errno_table :: "16 word list" where
  "target_to_host_errno_table = invert_errno_table host_to_target_errno_table"

text \<open>
  A lookup. The C code indexes the table with any int and checks no bound. A read
  outside the table is undefined in C, and its value is left unspecified here
  (\<open>undefined\<close>, of which nothing is known): no theorem says what becomes of
  a negative number or one of 1200 and above.
\<close>

definition errno_lookup :: "16 word list \<Rightarrow> 32 word \<Rightarrow> 32 word" where
  "errno_lookup tab err =
     (if unat err < length tab
      then (if tab ! unat err \<noteq> 0 then ucast (tab ! unat err) else err)
      else undefined tab err)"

definition host_to_target_errno :: "32 word \<Rightarrow> 32 word" where
  "host_to_target_errno err = errno_lookup host_to_target_errno_table err"

definition target_to_host_errno :: "32 word \<Rightarrow> 32 word" where
  "target_to_host_errno err = errno_lookup target_to_host_errno_table err"

definition get_errno :: "abi_long \<Rightarrow> ('k, 'z, abi_long) C" where
  "get_errno r =
     (if r = - 1 then do { e \<leftarrow> gets errno; ret (- host_to_target_errno e) } else ret r)"

definition is_error :: "abi_long \<Rightarrow> bool" where
  "is_error r \<longleftrightarrow> - 4096 \<le> r"

definition target_strerror :: "'k host \<Rightarrow> 32 word \<Rightarrow> ('k, 'z, 64 word) C" where
  "target_strerror H err = call H ''strerror'' [W (scast (target_to_host_errno err))]"

section \<open>What the tables do\<close>

lemma length_host_table: "length (fold (\<lambda>(i, v) t. t[i := f v]) xs t) = length t"
  by (induction xs arbitrary: t) auto

lemma fold_update_agree:
  assumes "\<forall>(i, v) \<in> set xs. f v = of_nat i"
    and "\<forall>j < length t. t ! j = 0 \<or> t ! j = (of_nat j :: 16 word)" and "j < length t"
  shows "fold (\<lambda>(i, v) t. t[i := f v]) xs t ! j \<in> {0, of_nat j}"
  using assms
proof (induction xs arbitrary: t)
  case (Cons p xs)
  obtain i v where p: "p = (i, v)" by force
  have "fold (\<lambda>(i, v) t. t[i := f v]) xs (t[i := f v]) ! j \<in> {0, of_nat j}"
  proof (rule Cons.IH)
    show "\<forall>j < length (t[i := f v]). t[i := f v] ! j = 0 \<or> t[i := f v] ! j = of_nat j"
    proof (intro allI impI)
      fix j assume "j < length (t[i := f v])"
      then show "t[i := f v] ! j = 0 \<or> t[i := f v] ! j = of_nat j"
        using Cons.prems(1,2) by (cases "j = i") (auto simp: p)
    qed
  qed (use Cons.prems in \<open>simp_all add: p\<close>)
  then show ?case by (simp add: p)
qed auto

lemma host_table_length [simp]: "length host_to_target_errno_table = ERRNO_TABLE_SIZE"
  by (simp add: host_to_target_errno_table_def length_host_table)

lemma errno_assignments_agree:
  "\<forall>(i, v) \<in> set errno_assignments. (ucast v :: 16 word) = of_nat i"
  by (simp add: errno_assignments_def)

lemma host_table_nth:
  assumes "j < ERRNO_TABLE_SIZE"
  shows "host_to_target_errno_table ! j = 0 \<or> host_to_target_errno_table ! j = of_nat j"
proof -
  have "host_to_target_errno_table ! j \<in> {0, of_nat j}"
    unfolding host_to_target_errno_table_def
    using assms by (intro fold_update_agree errno_assignments_agree) simp_all
  then show ?thesis by simp
qed

lemma errno_lookup_same:
  assumes "\<And>j. j < length tab \<Longrightarrow> tab ! j = 0 \<or> tab ! j = of_nat j" and "length tab \<le> 2 ^ 16"
    and "unat err < length tab"
  shows "errno_lookup tab err = err"
proof -
  have "ucast (of_nat (unat err) :: 16 word) = err"
    using assms(2,3) by (intro word_unat_eq_iff [THEN iffD2]) (simp add: unsigned_ucast_eq unat_of_nat take_bit_nat_eq_self unsigned_take_bit_eq)
  then show ?thesis
    using assms(1) [OF assms(3)] assms(3) by (auto simp: errno_lookup_def)
qed

lemma host_to_target_errno_id: "unat err < ERRNO_TABLE_SIZE \<Longrightarrow> host_to_target_errno err = err"
  unfolding host_to_target_errno_def
  by (rule errno_lookup_same) (auto simp: host_table_nth ERRNO_TABLE_SIZE_def)

lemma run_get_errno [run_simps]:
  "run_state (get_errno r) s = (if r = - 1 then - host_to_target_errno (errno s) else r, s)"
  by (simp add: get_errno_def run_simps)

text \<open>
  The inverted table, for any table that holds at each index 0 or the index:
  an index maps to itself where the table has an entry for it, and index 0
  receives the last index without one.
\<close>

lemma invert_prefix:
  fixes tab :: "16 word list"
  assumes "\<And>i. i < ERRNO_TABLE_SIZE \<Longrightarrow> tab ! i = 0 \<or> tab ! i = of_nat i"
    and "0 < j" "j < ERRNO_TABLE_SIZE" "n \<le> ERRNO_TABLE_SIZE"
  shows "fold (\<lambda>i t. t[unat (tab ! i) := of_nat i]) [0..<n] (replicate ERRNO_TABLE_SIZE 0) ! j =
           (if j < n \<and> tab ! j \<noteq> 0 then of_nat j else (0 :: 16 word)) \<and>
         length (fold (\<lambda>i t. t[unat (tab ! i) := of_nat i]) [0..<n] (replicate ERRNO_TABLE_SIZE (0 :: 16 word)))
           = ERRNO_TABLE_SIZE"
  using assms(4)
proof (induction n)
  case (Suc n)
  then have n: "n < ERRNO_TABLE_SIZE" by simp
  have un: "unat (of_nat n :: 16 word) = n"
    using n by (simp add: unat_of_nat take_bit_nat_eq_self ERRNO_TABLE_SIZE_def)
  from assms(1) [OF n] show ?case
  proof
    assume "tab ! n = 0"
    with Suc assms(2) n show ?thesis by (auto simp: less_Suc_eq)
  next
    assume tn: "tab ! n = of_nat n"
    show ?thesis
    proof (cases "n = 0")
      case True
      with Suc assms(2) n tn show ?thesis by (auto simp: less_Suc_eq)
    next
      case False
      then have "unat (tab ! n) \<noteq> 0" using tn un by simp
      then have "tab ! n \<noteq> 0" by auto
      with Suc assms(2,3) n tn un show ?thesis by (auto simp: less_Suc_eq nth_list_update)
    qed
  qed
qed (use assms in simp)

lemma invert_zero:
  assumes "unat (tab ! n) = 0" and "n < ERRNO_TABLE_SIZE"
    and "\<And>i. n < i \<Longrightarrow> i < ERRNO_TABLE_SIZE \<Longrightarrow> unat (tab ! i) \<noteq> 0"
  shows "invert_errno_table tab ! 0 = of_nat n"
proof -
  have len: "length (fold (\<lambda>i t. t[f i := g i]) xs t) = length t" for f :: "nat \<Rightarrow> nat" and g :: "nat \<Rightarrow> 16 word" and xs t
    by (induction xs arbitrary: t) auto
  have keep: "fold (\<lambda>i t. t[unat (tab ! i) := of_nat i]) xs t ! 0 = t ! 0"
    if "\<forall>i \<in> set xs. unat (tab ! i) \<noteq> 0" for xs and t :: "16 word list"
    using that by (induction xs arbitrary: t) (auto simp: nth_list_update_neq)
  have "[0..<ERRNO_TABLE_SIZE] = [0..<n] @ n # [Suc n..<ERRNO_TABLE_SIZE]"
    using assms(2) by (metis less_imp_le upt_add_eq_append upt_conv_Cons le_Suc_ex zero_le)
  moreover have "0 < ERRNO_TABLE_SIZE" by (simp add: ERRNO_TABLE_SIZE_def)
  ultimately show ?thesis
    using assms(1,3) by (simp add: invert_errno_table_def keep len)
qed

lemma target_table_nth:
  assumes "0 < j" "j < ERRNO_TABLE_SIZE"
  shows "target_to_host_errno_table ! j = (if host_to_target_errno_table ! j \<noteq> 0 then of_nat j else 0)"
  unfolding target_to_host_errno_table_def invert_errno_table_def
  using invert_prefix [of host_to_target_errno_table j ERRNO_TABLE_SIZE] host_table_nth assms by simp

lemma target_table_length [simp]: "length target_to_host_errno_table = ERRNO_TABLE_SIZE"
  unfolding target_to_host_errno_table_def invert_errno_table_def
  using invert_prefix [of host_to_target_errno_table 1 ERRNO_TABLE_SIZE] host_table_nth
  by (simp add: ERRNO_TABLE_SIZE_def)

lemma host_table_outside:
  assumes "j < ERRNO_TABLE_SIZE" "j \<notin> fst ` set errno_assignments"
  shows "host_to_target_errno_table ! j = 0"
proof -
  have "fold (\<lambda>(i, v) t. t[i := f v]) xs t ! j = t ! j" if "j \<notin> fst ` set xs"
    for xs :: "(nat \<times> abi_long) list" and f :: "abi_long \<Rightarrow> 16 word" and t
    using that by (induction xs arbitrary: t) auto
  then show ?thesis
    using assms by (simp add: host_to_target_errno_table_def)
qed

lemma target_to_host_errno_pos:
  assumes "err \<noteq> 0" "unat err < ERRNO_TABLE_SIZE" shows "target_to_host_errno err = err"
proof -
  have "unat err \<noteq> 0" using assms(1) by (simp add: unat_0_iff)
  moreover have "ucast (of_nat (unat err) :: 16 word) = err"
    using assms(2) by (intro word_unat_eq_iff [THEN iffD2])
      (simp add: unsigned_ucast_eq unat_of_nat take_bit_nat_eq_self unsigned_take_bit_eq ERRNO_TABLE_SIZE_def)
  ultimately show ?thesis
    using assms(2) by (auto simp: target_to_host_errno_def errno_lookup_def target_table_nth)
qed

lemma target_table_0: "target_to_host_errno_table ! 0 = 1199"
proof -
  have "invert_errno_table host_to_target_errno_table ! 0 = of_nat (1199::nat)"
  proof (rule invert_zero)
    show "unat (host_to_target_errno_table ! 1199) = 0"
      by (subst host_table_outside) (auto simp: ERRNO_TABLE_SIZE_def errno_assignments_def)
  qed (auto simp: ERRNO_TABLE_SIZE_def)
  then show ?thesis by (simp add: target_to_host_errno_table_def)
qed

text \<open>
  C36: an error number within the tables (0 to 1199) reaches the guest unchanged and
  survives the trip back to the host; the one exception is zero, which the inverted
  table sends to 1199 because the inversion overwrites entry 0 with every index the
  first table leaves empty. A host call that failed with such a number is
  therefore answered with its negative. Nothing is said of a number outside the tables,
  which the code reads without a bound.
\<close>
theorem errno_round_trip:
  assumes "unat err < ERRNO_TABLE_SIZE"
  shows "host_to_target_errno err = err
    \<and> target_to_host_errno (host_to_target_errno err) = (if err = 0 then 1199 else err)
    \<and> (errno s = err \<longrightarrow> run_state (get_errno (- 1)) s = (- err, s))"
proof (cases "err = 0")
  case True
  then show ?thesis
    using assms by (simp add: run_get_errno host_to_target_errno_id target_to_host_errno_def errno_lookup_def target_table_0)
qed (use assms in \<open>simp add: run_get_errno host_to_target_errno_id target_to_host_errno_pos\<close>)

theorem errno_round_trip_witness:
  "host_to_target_errno 11 = 11 \<and> target_to_host_errno (host_to_target_errno 11) = 11
   \<and> target_to_host_errno (host_to_target_errno 0) = 1199 \<and> fst (run_state (get_errno (- 1)) \<lparr>mem = (\<lambda>_. 0), errno = 11, kern = (), base = 0\<rparr>) = - 11"
  using errno_round_trip [of 11 "\<lparr>mem = (\<lambda>_. 0), errno = 11, kern = (), base = 0\<rparr>"]
    errno_round_trip [of 0 "\<lparr>mem = (\<lambda>_. 0), errno = 0, kern = (), base = 0\<rparr>"]
  by (auto simp: ERRNO_TABLE_SIZE_def)

end
