(* ===== verification/Structs.thy ===== *)
theory Structs
  imports Errno
begin

text \<open>
  The small structures \<open>translatedsyscall.c\<close> copies between the guest and the
  host: times, resource usage and limits, message-queue attributes, the file
  status, the system name. A host structure is a local object given by its
  bytes in the layout of the x86-64 C library; a guest structure lies in the
  process's memory in the layout of \<open>translatedsyscalldefs.h\<close> for an i386 guest.
\<close>

text \<open>The result of reading a guest structure: an error, or the host's object.\<close>

type_synonym copied = "abi_long + bytes"

section \<open>Clock ticks\<close>

definition HOST_HZ :: nat where "HOST_HZ = 100"
definition TARGET_HZ :: nat where "TARGET_HZ = 100"

definition host_to_target_clock_t :: "64 word \<Rightarrow> abi_long" where
  "host_to_target_clock_t ticks = (if HOST_HZ = TARGET_HZ then ucast ticks
     else ucast (of_int (sint ticks * int TARGET_HZ) div of_nat HOST_HZ :: 64 word))"

section \<open>struct rusage\<close>

text \<open>
  Both structures are eighteen longs in the same order (the two times, then
  maxrss to nivcsw), of eight bytes in the host's and four in the guest's.
\<close>

definition host_to_target_rusage :: "abi_ulong \<Rightarrow> bytes \<Rightarrow> ('k, 'z, abi_long) C" where
  "host_to_target_rusage target_addr rusage = do {
     p \<leftarrow> lock_user target_addr;
     if p = 0 then ret (- TARGET_EFAULT)
     else do {
       for_each [0..<18] (\<lambda>i. wr32 (p + of_nat (4 * i)) (ucast (fld64 rusage (8 * i))));
       ret 0 } }"

section \<open>Resource limits\<close>

definition TARGET_RLIM_INFINITY :: "32 word" where "TARGET_RLIM_INFINITY = - 1"
definition RLIM_INFINITY :: "64 word" where "RLIM_INFINITY = - 1"

definition target_to_host_rlim :: "32 word \<Rightarrow> 64 word" where
  "target_to_host_rlim r = (if r = TARGET_RLIM_INFINITY then RLIM_INFINITY else ucast r)"

definition host_to_target_rlim :: "64 word \<Rightarrow> 32 word" where
  "host_to_target_rlim r =
     (if r = RLIM_INFINITY \<or> r \<noteq> scast (ucast r :: abi_long) then TARGET_RLIM_INFINITY else ucast r)"

section \<open>struct timeval and struct timespec\<close>

text \<open>
  \<open>__get_user\<close> reads the guest's field as its signed type, so both fields are
  sign extended into the host's longs; \<open>__put_user\<close> keeps the low half.
\<close>

definition copy_from_user_timeval :: "abi_ulong \<Rightarrow> ('k, 'z, copied) C" where
  "copy_from_user_timeval target_tv_addr = do {
     p \<leftarrow> lock_user target_tv_addr;
     if p = 0 then ret (Inl (- TARGET_EFAULT))
     else do {
       sec \<leftarrow> rd32 p;
       usec \<leftarrow> rd32 (p + 4);
       ret (Inr (le64 (scast sec) @ le64 (scast usec))) } }"

definition copy_to_user_timeval :: "abi_ulong \<Rightarrow> bytes \<Rightarrow> ('k, 'z, abi_long) C" where
  "copy_to_user_timeval target_tv_addr tv = do {
     p \<leftarrow> lock_user target_tv_addr;
     if p = 0 then ret (- TARGET_EFAULT)
     else do {
       wr32 p (ucast (fld64 tv 0));
       wr32 (p + 4) (ucast (fld64 tv 8));
       ret 0 } }"

definition target_to_host_timespec :: "abi_ulong \<Rightarrow> ('k, 'z, copied) C" where
  "target_to_host_timespec target_addr = do {
     p \<leftarrow> lock_user target_addr;
     if p = 0 then ret (Inl (- TARGET_EFAULT))
     else do {
       sec \<leftarrow> rd32 p;
       nsec \<leftarrow> rd32 (p + 4);
       ret (Inr (le64 (scast sec) @ le64 (scast nsec))) } }"

definition host_to_target_timespec :: "abi_ulong \<Rightarrow> bytes \<Rightarrow> ('k, 'z, abi_long) C" where
  "host_to_target_timespec target_addr ts = do {
     p \<leftarrow> lock_user target_addr;
     if p = 0 then ret (- TARGET_EFAULT)
     else do {
       wr32 p (ucast (fld64 ts 0));
       wr32 (p + 4) (ucast (fld64 ts 8));
       ret 0 } }"

section \<open>struct mq_attr\<close>

definition copy_from_user_mq_attr :: "abi_ulong \<Rightarrow> ('k, 'z, copied) C" where
  "copy_from_user_mq_attr target_mq_attr_addr = do {
     p \<leftarrow> lock_user target_mq_attr_addr;
     if p = 0 then ret (Inl (- TARGET_EFAULT))
     else do {
       flags \<leftarrow> rd32 p; maxmsg \<leftarrow> rd32 (p + 4); msgsize \<leftarrow> rd32 (p + 8); curmsgs \<leftarrow> rd32 (p + 12);
       ret (Inr (le64 (scast flags) @ le64 (scast maxmsg) @ le64 (scast msgsize) @ le64 (scast curmsgs)
                 @ replicate 32 0)) } }"

definition copy_to_user_mq_attr :: "abi_ulong \<Rightarrow> bytes \<Rightarrow> ('k, 'z, abi_long) C" where
  "copy_to_user_mq_attr target_mq_attr_addr attr = do {
     p \<leftarrow> lock_user target_mq_attr_addr;
     if p = 0 then ret (- TARGET_EFAULT)
     else do {
       wr32 p (ucast (fld64 attr 0)); wr32 (p + 4) (ucast (fld64 attr 8));
       wr32 (p + 8) (ucast (fld64 attr 16)); wr32 (p + 12) (ucast (fld64 attr 24));
       ret 0 } }"

section \<open>struct stat64\<close>

text \<open>
  The guest's structure is packed, 96 bytes. The host's fields: st_dev at 0,
  st_ino 8, st_nlink 16, st_mode 24, st_uid 28, st_gid 32, st_rdev 40, st_size
  48, st_blksize 56, st_blocks 64 and the seconds of the three times at 72, 88
  and 104.
\<close>

definition host_to_target_stat64 :: "abi_ulong \<Rightarrow> bytes \<Rightarrow> ('k, 'z, abi_long) C" where
  "host_to_target_stat64 target_addr st = do {
     p \<leftarrow> lock_user target_addr;
     if p = 0 then ret (- TARGET_EFAULT)
     else do {
       wrb p (replicate 96 0);
       wr16 p (ucast (fld64 st 0));
       wr64 (p + 88) (fld64 st 8);
       wr32 (p + 12) (ucast (fld64 st 8));
       wr32 (p + 16) (fld32 st 24);
       wr32 (p + 20) (ucast (fld64 st 16));
       wr32 (p + 24) (fld32 st 28);
       wr32 (p + 28) (fld32 st 32);
       wr16 (p + 32) (ucast (fld64 st 40));
       wr64 (p + 44) (fld64 st 48);
       wr32 (p + 52) (ucast (fld64 st 56));
       wr32 (p + 56) (ucast (fld64 st 64));
       wr32 (p + 64) (ucast (fld64 st 72));
       wr32 (p + 72) (ucast (fld64 st 88));
       wr32 (p + 80) (ucast (fld64 st 104));
       ret 0 } }"

section \<open>File offsets\<close>

definition target_offset64 :: "32 word \<Rightarrow> 32 word \<Rightarrow> 64 word" where
  "target_offset64 word0 word1 = push_bit 32 (ucast word1) OR ucast word0"

definition target_truncate64 :: "'k host \<Rightarrow> harg \<Rightarrow> abi_long \<Rightarrow> abi_long \<Rightarrow> ('k, 'z, abi_long) C" where
  "target_truncate64 H arg1 arg2 arg3 = do {
     r \<leftarrow> call32 H ''truncate64'' [arg1, W (target_offset64 arg2 arg3)];
     get_errno r }"

definition target_ftruncate64 :: "'k host \<Rightarrow> abi_long \<Rightarrow> abi_long \<Rightarrow> abi_long \<Rightarrow> ('k, 'z, abi_long) C" where
  "target_ftruncate64 H arg1 arg2 arg3 = do {
     r \<leftarrow> call32 H ''ftruncate64'' [W (scast arg1), W (target_offset64 arg2 arg3)];
     get_errno r }"

section \<open>The system's name, directory and version\<close>

text \<open>\<open>COPY_UTSNAME_FIELD\<close>: \<open>strncpy\<close> of 64 bytes, padded with zeros, and a terminator.\<close>

definition copy_utsname_field :: "bytes \<Rightarrow> bytes" where
  "copy_utsname_field src =
     (let s = take 64 (takeWhile (\<lambda>c. c \<noteq> 0) src) in s @ replicate (65 - length s) 0)"

definition sys_uname :: "'k host \<Rightarrow> addr \<Rightarrow> ('k, 'z, 32 word) C" where
  "sys_uname H buf = do {
     (r, outs) \<leftarrow> hcall H ''uname'' [Out 390];
     if (ucast r :: 32 word) <s 0 then ret (- 1)
     else do {
       let uts = out outs 0;
       wrb buf (replicate 390 0);
       for_each [0..<6] (\<lambda>i. wrb (buf + of_nat (65 * i)) (copy_utsname_field (take 65 (drop (65 * i) uts))));
       ret 0 } }"

definition sys_getcwd1 :: "'k host \<Rightarrow> addr \<Rightarrow> 64 word \<Rightarrow> ('k, 'z, 32 word) C" where
  "sys_getcwd1 H buf sz = do {
     r \<leftarrow> call H ''getcwd'' [W buf, W sz];
     if r = 0 then ret (- 1)
     else do { m \<leftarrow> gets mem; ret (of_nat (length (cstr m buf (2 ^ 32)) + 1)) } }"

text \<open>\<open>get_osversion\<close> on the made-up release: three numbers, a dot skipped after each.\<close>

definition qemu_uname_release :: string where
  "qemu_uname_release = ''2.6.38-8-generic''"

fun parse_number :: "string \<Rightarrow> int \<Rightarrow> int \<times> string" where
  "parse_number [] n = (n, [])"
| "parse_number (c # s) n =
     (if of_char CHR ''0'' \<le> (of_char c :: int) \<and> of_char c \<le> (of_char CHR ''9'' :: int)
      then parse_number s (10 * n + (of_char c - of_char CHR ''0'')) else (n, c # s))"

fun osversion_loop :: "nat \<Rightarrow> string \<Rightarrow> int \<Rightarrow> int" where
  "osversion_loop 0 s tmp = tmp"
| "osversion_loop (Suc i) s tmp =
     (let (n, s') = parse_number s 0;
          s'' = (case s' of c # r \<Rightarrow> if c = CHR ''.'' then r else s' | [] \<Rightarrow> s')
      in osversion_loop i s'' (push_bit 8 tmp + n))"

definition get_osversion :: int where
  "get_osversion = osversion_loop 3 qemu_uname_release 0"


lemma get_osversion_value: "get_osversion = 0x020626"
  by code_simp

section \<open>What the copies do\<close>

text \<open>A loop of stores to consecutive cells is the store of a list.\<close>

lemma run_for_each_append:
  "run_state (for_each (xs @ ys) f) s = run_state (for_each ys f) (snd (run_state (for_each xs f) s))"
  by (induction xs arbitrary: s) (simp_all add: run_simps split: prod.split)

lemma store_list_append:
  "store_list st k m a (xs @ ys) = store_list st k (store_list st k m a xs) (a + of_nat (k * length xs)) ys"
  by (induction xs arbitrary: m a) (simp_all add: algebra_simps)

lemma run_for_each_wr32:
  "run_state (for_each [0..<n] (\<lambda>i. wr32 (p + of_nat (4 * i)) (f i))) s =
     ((), s\<lparr>mem := store_list st32 4 (mem s) p (map f [0..<n])\<rparr>)"
  by (induction n) (simp_all add: run_simps run_for_each_append store_list_append)

lemmas run_for_each_wr32_simp [run_simps] = run_for_each_wr32 [unfolded of_nat_mult of_nat_numeral]

lemma fld64_le64 [simp]: "fld64 (le64 a @ xs) 0 = a"
  by (simp add: fld64_def)

lemma fld64_skip [simp]: "8 \<le> i \<Longrightarrow> fld64 (le64 a @ xs) i = fld64 xs (i - 8)"
  by (simp add: fld64_def)

lemma fld64_single [simp]: "fld64 (le64 a) 0 = a"
  by (simp add: fld64_def)

text \<open>A long that fits the guest's.\<close>

definition fits32 :: "64 word \<Rightarrow> bool" where
  "fits32 w \<longleftrightarrow> - (2 ^ 31) \<le> sint w \<and> sint w < 2 ^ 31"

lemma scast_ucast_fits:
  assumes "fits32 w"
  shows "scast (ucast w :: 32 word) = w"
proof -
  have "sint (ucast w :: 32 word) = signed_take_bit 31 (sint w)"
    by (simp add: signed_ucast_eq sint_uint [of w] signed_take_bit_signed_take_bit)
  also have "\<dots> = sint w"
    using assms by (intro signed_take_bit_int_eq_self) (simp_all add: fits32_def)
  finally have "sint (ucast w :: 32 word) = sint w" .
  then have "sint (scast (ucast w :: 32 word) :: 64 word) = sint w"
    using assms by (simp add: signed_scast_eq fits32_def signed_take_bit_int_eq_self)
  then show ?thesis
    by (rule signed_word_eqI)
qed

lemma st32_pair:
  "ld32 (st32 (st32 m p v) (p + 4) w) p = v" "ld32 (st32 (st32 m p v) (p + 4) w) (p + 4) = w"
  "8 \<le> unat (x - p) \<Longrightarrow> st32 (st32 m p v) (p + 4) w x = m x"
proof -
  have two: "st32 (st32 m p v) (p + 4) w = store_list st32 4 m p [v, w]"
    by simp
  have "load_list ld32 4 (store_list st32 4 m p [v, w]) p (length [v, w]) = [v, w]"
    by (rule c32.load_store_list) simp
  then show "ld32 (st32 (st32 m p v) (p + 4) w) p = v" "ld32 (st32 (st32 m p v) (p + 4) w) (p + 4) = w"
    by simp_all
  show "st32 (st32 m p v) (p + 4) w x = m x" if "8 \<le> unat (x - p)"
    unfolding two by (rule c32.store_list_frame) (use that in simp)
qed

text \<open>
  A time stored in the guest's memory and read back is the same time, whenever
  its seconds and nanoseconds fit the guest's signed words; the store succeeds and
  changes no byte outside the guest's eight.
\<close>
theorem timespec_round_trip:
  assumes "base s + ucast a \<noteq> 0" and "fits32 sec" and "fits32 nsec"
  shows "case run_state (host_to_target_timespec a (le64 sec @ le64 nsec)) s of (r, s') \<Rightarrow>
     r = 0 \<and> fst (run_state (target_to_host_timespec a) s') = Inr (le64 sec @ le64 nsec) \<and>
     (\<forall>x. 8 \<le> unat (x - (base s + ucast a)) \<longrightarrow> mem s' x = mem s x)"
  using assms
  by (simp add: host_to_target_timespec_def target_to_host_timespec_def run_simps st32_pair scast_ucast_fits)

theorem timespec_round_trip_witness:
  "case run_state (host_to_target_timespec 0x1000 (le64 (- 1) @ le64 999999999))
       \<lparr>mem = (\<lambda>_. 0), errno = 0, kern = (), base = 0x10000\<rparr> of (r, s') \<Rightarrow>
     r = 0 \<and> fst (run_state (target_to_host_timespec 0x1000) s') = Inr (le64 (- 1) @ le64 999999999) \<and>
     (\<forall>x. 8 \<le> unat (x - 0x11000) \<longrightarrow> mem s' x = 0)"
  using timespec_round_trip [where s = "\<lparr>mem = (\<lambda>_. 0), errno = 0, kern = (), base = 0x10000\<rparr>"
      and a = "0x1000" and sec = "- 1" and nsec = "999999999"]
  by (simp add: fits32_def)

text \<open>
  Resource usage arrives in the guest's memory as eighteen words, each the low
  half of the host's field at the same position, and no other byte changes.
\<close>
theorem rusage_copied:
  assumes "base s + ucast a \<noteq> 0"
  shows "case run_state (host_to_target_rusage a ru) s of (r, s') \<Rightarrow>
     r = 0 \<and>
     load_list ld32 4 (mem s') (base s + ucast a) 18 = map (\<lambda>i. ucast (fld64 ru (8 * i))) [0..<18] \<and>
     (\<forall>x. 72 \<le> unat (x - (base s + ucast a)) \<longrightarrow> mem s' x = mem s x)"
proof -
  let ?xs = "map (\<lambda>i. ucast (fld64 ru (8 * i)) :: 32 word) [0..<18]"
  have "load_list ld32 4 (store_list st32 4 m p ?xs) p (length ?xs) = ?xs" for m p
    by (rule c32.load_store_list) simp
  moreover have "store_list st32 4 m p ?xs x = m x" if "72 \<le> unat (x - p)" for m p x
    by (rule c32.store_list_frame) (use that in simp)
  ultimately show ?thesis
    using assms
    by (simp add: host_to_target_rusage_def run_simps run_for_each_wr32 del: upt_rec_numeral upt_Suc)
qed

theorem rusage_copied_witness:
  "case run_state (host_to_target_rusage 0x1000 (concat (replicate 18 (le64 7))))
       \<lparr>mem = (\<lambda>_. 0), errno = 0, kern = (), base = 0x10000\<rparr> of (r, s') \<Rightarrow> r = 0 \<and> mem s' 0 = 0"
  using rusage_copied [where s = "\<lparr>mem = (\<lambda>_. 0), errno = 0, kern = (), base = 0x10000\<rparr>"
      and a = "0x1000" and ru = "concat (replicate 18 (le64 7))"]
  by (simp split: prod.splits)

text \<open>
  A guest's resource limit survives the trip to the host and back exactly when
  it is below two gigabytes or unlimited; every other limit comes back as unlimited.
\<close>
theorem rlim_round_trip:
  "host_to_target_rlim (target_to_host_rlim r) = (if r < 0x80000000 then r else TARGET_RLIM_INFINITY)"
proof -
  have up: "n = 31" if "bit r n" "31 \<le> n" for n
    using bit_imp_le_length [OF that(1)] that(2) by simp
  have "scast r = (ucast r :: 64 word) \<longleftrightarrow> \<not> bit r 31"
  proof
    assume "scast r = (ucast r :: 64 word)"
    then have "bit (scast r :: 64 word) 40 = bit (ucast r :: 64 word) 40" by simp
    then show "\<not> bit r 31" by (auto simp: bit_simps dest: bit_imp_le_length)
  next
    assume "\<not> bit r 31"
    then show "scast r = (ucast r :: 64 word)"
      by (intro bit_eqI) (auto simp: bit_simps min_def not_le dest: up)
  qed
  also have "bit r 31 \<longleftrightarrow> bit (unat r) 31"
    by (simp add: bit_simps)
  also have "\<dots> \<longleftrightarrow> odd (unat r div 2 ^ 31)"
    by (rule bit_iff_odd)
  also have "\<not> odd (unat r div 2 ^ 31) \<longleftrightarrow> r < 0x80000000"
  proof -
    have "unat r div 2 ^ 31 < 2"
      using unsigned_less [of r, where ?'a = nat] by (simp add: less_mult_imp_div_less)
    then have "\<not> odd (unat r div 2 ^ 31) \<longleftrightarrow> unat r div 2 ^ 31 = 0"
      by (auto simp: less_2_cases_iff)
    then show ?thesis
      by (simp add: word_less_nat_alt div_eq_0_iff)
  qed
  finally have in_range: "scast r = (ucast r :: 64 word) \<longleftrightarrow> r < 0x80000000" .
  have narrow: "ucast (ucast r :: 64 word) = r"
    by (rule bit_eqI) (auto simp: bit_simps)
  have "(ucast r :: 64 word) \<noteq> - 1"
  proof
    assume "(ucast r :: 64 word) = - 1"
    then have "bit (ucast r :: 64 word) 40" by simp
    then show False by (auto simp: bit_simps dest: bit_imp_le_length)
  qed
  then have "host_to_target_rlim (ucast r) = (if scast r = (ucast r :: 64 word) then r else - 1)"
    by (simp add: host_to_target_rlim_def narrow TARGET_RLIM_INFINITY_def RLIM_INFINITY_def eq_commute)
  moreover have "host_to_target_rlim (- 1) = - 1" and "\<not> (- 1 :: 32 word) < 0x80000000"
    by (simp_all add: host_to_target_rlim_def RLIM_INFINITY_def TARGET_RLIM_INFINITY_def)
  ultimately show ?thesis
    by (cases "r = - 1") (simp_all only: in_range target_to_host_rlim_def TARGET_RLIM_INFINITY_def RLIM_INFINITY_def
        if_True if_False refl simp_thms)
qed

text \<open>
  The guest's stat64 receives every field of the host's at its own place - the
  two inode fields, the mode, the counts and owners, the size with all its 64 bits,
  the blocks and the three times - and no byte outside its 96 changes.
\<close>
theorem stat64_fields:
  assumes "base s + ucast a \<noteq> 0"
  shows "case run_state (host_to_target_stat64 a st) s of (r, s') \<Rightarrow>
     let p = base s + ucast a; m = mem s' in
     r = 0 \<and>
     ld16 m p = ucast (fld64 st 0) \<and> ld32 m (p + 12) = ucast (fld64 st 8) \<and> ld64 m (p + 88) = fld64 st 8 \<and>
     ld32 m (p + 16) = fld32 st 24 \<and> ld32 m (p + 20) = ucast (fld64 st 16) \<and>
     ld32 m (p + 24) = fld32 st 28 \<and> ld32 m (p + 28) = fld32 st 32 \<and> ld64 m (p + 44) = fld64 st 48 \<and>
     ld32 m (p + 52) = ucast (fld64 st 56) \<and> ld32 m (p + 56) = ucast (fld64 st 64) \<and>
     ld32 m (p + 64) = ucast (fld64 st 72) \<and> ld32 m (p + 72) = ucast (fld64 st 88) \<and>
     ld32 m (p + 80) = ucast (fld64 st 104) \<and>
     (\<forall>x. 96 \<le> unat (x - p) \<longrightarrow> m x = mem s x)"
proof -
  let ?p = "base s + ucast a"
  let ?fs = "[(0, le16 (ucast (fld64 st 0))), (88, le64 (fld64 st 8)), (12, le32 (ucast (fld64 st 8))),
    (16, le32 (fld32 st 24)), (20, le32 (ucast (fld64 st 16))), (24, le32 (fld32 st 28)),
    (28, le32 (fld32 st 32)), (32, le16 (ucast (fld64 st 40))), (44, le64 (fld64 st 48)),
    (52, le32 (ucast (fld64 st 56))), (56, le32 (ucast (fld64 st 64))), (64, le32 (ucast (fld64 st 72))),
    (72, le32 (ucast (fld64 st 88))), (80, le32 (ucast (fld64 st 104)))]"
  let ?m = "store_fields (mwr (mem s) ?p (replicate 96 0)) ?p ?fs"
  have run: "run_state (host_to_target_stat64 a st) s = (0, s\<lparr>mem := ?m\<rparr>)"
    using assms by (simp add: host_to_target_stat64_def run_simps store_fields_def st16_def st32_def st64_def)
  have ok: "disjoint_fields ?fs" "fields_within 96 ?fs"
    by (simp_all add: fields_within_def)
  note ld = store_fields_ld [OF ok, of _ _ "mwr (mem s) ?p (replicate 96 0)" ?p]
  have "?m x = mem s x" if "96 \<le> unat (x - ?p)" for x
    using store_fields_outside [OF ok(2), of x ?p] that by (simp add: mwr_frame)
  then show ?thesis
    unfolding run Let_def prod.case
    using ld(1) [of 0] ld(2) [of 12] ld(3) [of 88] ld(2) [of 16] ld(2) [of 20] ld(2) [of 24] ld(2) [of 28]
      ld(3) [of 44] ld(2) [of 52] ld(2) [of 56] ld(2) [of 64] ld(2) [of 72] ld(2) [of 80]
    by (simp)
qed

theorem stat64_fields_witness:
  "case run_state (host_to_target_stat64 0x1000 (concat (map le64 [0, 1, 2, 3, 4, 5, 6])))
       \<lparr>mem = (\<lambda>_. 0), errno = 0, kern = (), base = 0x10000\<rparr> of (r, s') \<Rightarrow>
     r = 0 \<and> ld64 (mem s') 0x1102c = 6 \<and> mem s' 0x11060 = 0"
proof -
  have "fld64 (concat (map le64 [0, 1, 2, 3, 4, 5, 6])) 48 = 6"
    by simp
  then show ?thesis
    using stat64_fields [where s = "\<lparr>mem = (\<lambda>_. 0), errno = 0, kern = (), base = 0x10000\<rparr>"
        and a = "0x1000" and st = "concat (map le64 [0, 1, 2, 3, 4, 5, 6])"]
    by (simp add: Let_def split: prod.splits)
qed

end
