(* ===== verification/Signal.thy ===== *)
theory Signal
  imports Errno
begin

text \<open>
  The parts of \<open>translatedsignal.c\<close> that are compiled: the tables between the
  host's and the guest's signal numbers, signal sets, siginfo, the guest's
  alternate signal stack and its table of actions. The guest (i386) and the host
  (x86-64) use the same numbers; the tables exchange the first and the last
  real-time signal, 32 and 64, to keep clear of the host's threading signals.
\<close>

section \<open>Signal numbers\<close>

abbreviation (input) SIGHUP :: nat where "SIGHUP \<equiv> 1"
abbreviation (input) SIGINT :: nat where "SIGINT \<equiv> 2"
abbreviation (input) SIGQUIT :: nat where "SIGQUIT \<equiv> 3"
abbreviation (input) SIGILL :: nat where "SIGILL \<equiv> 4"
abbreviation (input) SIGTRAP :: nat where "SIGTRAP \<equiv> 5"
abbreviation (input) SIGABRT :: nat where "SIGABRT \<equiv> 6"
abbreviation (input) SIGBUS :: nat where "SIGBUS \<equiv> 7"
abbreviation (input) SIGFPE :: nat where "SIGFPE \<equiv> 8"
abbreviation (input) SIGKILL :: nat where "SIGKILL \<equiv> 9"
abbreviation (input) SIGUSR1 :: nat where "SIGUSR1 \<equiv> 10"
abbreviation (input) SIGSEGV :: nat where "SIGSEGV \<equiv> 11"
abbreviation (input) SIGUSR2 :: nat where "SIGUSR2 \<equiv> 12"
abbreviation (input) SIGPIPE :: nat where "SIGPIPE \<equiv> 13"
abbreviation (input) SIGALRM :: nat where "SIGALRM \<equiv> 14"
abbreviation (input) SIGTERM :: nat where "SIGTERM \<equiv> 15"
abbreviation (input) SIGSTKFLT :: nat where "SIGSTKFLT \<equiv> 16"
abbreviation (input) SIGCHLD :: nat where "SIGCHLD \<equiv> 17"
abbreviation (input) SIGCONT :: nat where "SIGCONT \<equiv> 18"
abbreviation (input) SIGSTOP :: nat where "SIGSTOP \<equiv> 19"
abbreviation (input) SIGTSTP :: nat where "SIGTSTP \<equiv> 20"
abbreviation (input) SIGTTIN :: nat where "SIGTTIN \<equiv> 21"
abbreviation (input) SIGTTOU :: nat where "SIGTTOU \<equiv> 22"
abbreviation (input) SIGURG :: nat where "SIGURG \<equiv> 23"
abbreviation (input) SIGXCPU :: nat where "SIGXCPU \<equiv> 24"
abbreviation (input) SIGXFSZ :: nat where "SIGXFSZ \<equiv> 25"
abbreviation (input) SIGVTALRM :: nat where "SIGVTALRM \<equiv> 26"
abbreviation (input) SIGPROF :: nat where "SIGPROF \<equiv> 27"
abbreviation (input) SIGWINCH :: nat where "SIGWINCH \<equiv> 28"
abbreviation (input) SIGIO :: nat where "SIGIO \<equiv> 29"
abbreviation (input) SIGPWR :: nat where "SIGPWR \<equiv> 30"
abbreviation (input) SIGSYS :: nat where "SIGSYS \<equiv> 31"
abbreviation (input) SIGRTMIN' :: nat where "SIGRTMIN' \<equiv> 32"
abbreviation (input) SIGRTMAX' :: nat where "SIGRTMAX' \<equiv> 64"

text \<open>
  The assignments of \<open>fill_host_to_target_signal_table\<close>: the guest's number of a
  signal equals the host's for every name but the last two.
\<close>

definition signal_assignments :: "(nat \<times> nat) list" where
  "signal_assignments =
    [(SIGHUP, 1), (SIGINT, 2), (SIGQUIT, 3), (SIGILL, 4), (SIGTRAP, 5), (SIGABRT, 6), (SIGBUS, 7),
     (SIGFPE, 8), (SIGKILL, 9), (SIGUSR1, 10), (SIGSEGV, 11), (SIGUSR2, 12), (SIGPIPE, 13),
     (SIGALRM, 14), (SIGTERM, 15), (SIGSTKFLT, 16), (SIGCHLD, 17), (SIGCONT, 18), (SIGSTOP, 19),
     (SIGTSTP, 20), (SIGTTIN, 21), (SIGTTOU, 22), (SIGURG, 23), (SIGXCPU, 24), (SIGXFSZ, 25),
     (SIGVTALRM, 26), (SIGPROF, 27), (SIGWINCH, 28), (SIGIO, 29), (SIGPWR, 30), (SIGSYS, 31),
     (SIGRTMIN', SIGRTMAX'), (SIGRTMAX', SIGRTMIN')]"

definition NSIG_HOST :: nat where "NSIG_HOST = 65"
definition TARGET_NSIG :: nat where "TARGET_NSIG = 64"

definition filled_signal_table :: "nat list" where
  "filled_signal_table = fold (\<lambda>(i, v) t. t[i := v]) signal_assignments (replicate NSIG_HOST 0)"

text \<open>The two loops of \<open>signal_init\<close>.\<close>

definition host_to_target_signal_table :: "nat list" where
  "host_to_target_signal_table =
     fold (\<lambda>i t. if t ! i = 0 then t[i := i] else t) [1..<NSIG_HOST] filled_signal_table"

definition target_to_host_signal_table :: "nat list" where
  "target_to_host_signal_table =
     fold (\<lambda>i t. t[host_to_target_signal_table ! i := i]) [1..<NSIG_HOST] (replicate NSIG_HOST 0)"

text \<open>
  A signal at or above \<open>_NSIG\<close> is returned unchanged. A negative number reads in
  front of the table, which C leaves undefined; its value is left unspecified here.
\<close>

definition signal_lookup :: "nat list \<Rightarrow> 32 word \<Rightarrow> 32 word" where
  "signal_lookup tab sig =
     (if of_nat NSIG_HOST \<le>s sig then sig
      else if unat sig < length tab then of_nat (tab ! unat sig) else undefined tab sig)"

definition host_to_target_signal :: "32 word \<Rightarrow> 32 word" where
  "host_to_target_signal sig = signal_lookup host_to_target_signal_table sig"

definition target_to_host_signal :: "32 word \<Rightarrow> 32 word" where
  "target_to_host_signal sig = signal_lookup target_to_host_signal_table sig"

section \<open>Wait status\<close>

definition WIFSIGNALED :: "32 word \<Rightarrow> bool" where
  "WIFSIGNALED status \<longleftrightarrow> status AND 0x7f \<noteq> 0 \<and> status AND 0x7f \<noteq> 0x7f"

definition WIFSTOPPED :: "32 word \<Rightarrow> bool" where
  "WIFSTOPPED status \<longleftrightarrow> status AND 0xff = 0x7f"

definition host_to_target_waitstatus :: "32 word \<Rightarrow> 32 word" where
  "host_to_target_waitstatus status =
     (if WIFSIGNALED status then host_to_target_signal (status AND 0x7f) OR (status AND NOT 0x7f)
      else if WIFSTOPPED status then
        push_bit 8 (host_to_target_signal (drop_bit 8 (status AND 0xff00))) OR (status AND 0xff)
      else status)"

section \<open>Signal sets\<close>

text \<open>
  The guest's set is two 32-bit words. Of the host's \<open>sigset_t\<close> only the first
  long holds signals the loops look at; it is the 64-bit word here.
\<close>

type_synonym target_sigset_t = "32 word list"
type_synonym sigset_t = "64 word"

abbreviation (input) TARGET_NSIG_BPW :: nat where "TARGET_NSIG_BPW \<equiv> 32"
abbreviation (input) TARGET_NSIG_WORDS :: nat where "TARGET_NSIG_WORDS \<equiv> 2"

definition sigismember :: "sigset_t \<Rightarrow> nat \<Rightarrow> bool" where
  "sigismember s i = bit s (i - 1)"

definition sigaddset :: "sigset_t \<Rightarrow> nat \<Rightarrow> sigset_t" where
  "sigaddset s i = s OR push_bit (i - 1) 1"

definition target_sigemptyset :: target_sigset_t where
  "target_sigemptyset = replicate TARGET_NSIG_WORDS 0"

definition target_sigaddset :: "target_sigset_t \<Rightarrow> nat \<Rightarrow> target_sigset_t" where
  "target_sigaddset ts signum =
     (let n = signum - 1; mask = push_bit (n mod TARGET_NSIG_BPW) 1 in
      ts[n div TARGET_NSIG_BPW := ts ! (n div TARGET_NSIG_BPW) OR mask])"

definition target_sigismember :: "target_sigset_t \<Rightarrow> nat \<Rightarrow> bool" where
  "target_sigismember ts signum =
     (let n = signum - 1; mask = push_bit (n mod TARGET_NSIG_BPW) 1 in
      ts ! (n div TARGET_NSIG_BPW) AND mask \<noteq> 0)"

definition host_to_target_sigset :: "sigset_t \<Rightarrow> target_sigset_t" where
  "host_to_target_sigset s =
     fold (\<lambda>i d. if sigismember s i
                 then target_sigaddset d (unat (host_to_target_signal (of_nat i))) else d)
       [1..<Suc TARGET_NSIG] target_sigemptyset"

definition target_to_host_sigset :: "target_sigset_t \<Rightarrow> sigset_t" where
  "target_to_host_sigset s =
     fold (\<lambda>i d. if target_sigismember s i
                 then sigaddset d (unat (target_to_host_signal (of_nat i))) else d)
       [1..<Suc TARGET_NSIG] 0"

definition host_to_target_old_sigset :: "sigset_t \<Rightarrow> abi_ulong" where
  "host_to_target_old_sigset s = host_to_target_sigset s ! 0"

definition target_to_host_old_sigset :: "abi_ulong \<Rightarrow> sigset_t" where
  "target_to_host_old_sigset old = target_to_host_sigset [old, 0]"

text \<open>The sets where they lie: in the guest's memory, and as the host's 128-byte object.\<close>

definition rd_sigset :: "addr \<Rightarrow> ('k, 'z, target_sigset_t) C" where
  "rd_sigset p = do { a \<leftarrow> rd32 p; b \<leftarrow> rd32 (p + 4); ret [a, b] }"

definition wr_sigset :: "addr \<Rightarrow> target_sigset_t \<Rightarrow> ('k, 'z, unit) C" where
  "wr_sigset p d = do { wr32 p (d ! 0); wr32 (p + 4) (d ! 1) }"

definition sigset_bytes :: "sigset_t \<Rightarrow> bytes" where
  "sigset_bytes s = le64 s @ replicate 120 0"

section \<open>siginfo\<close>

text \<open>
  The guest's structure: si_signo at 0, si_errno 4, si_code 8, then the union at
  12 (fault address at 12; band 12, fd 16; pid 12, uid 16, value 20). The
  host's: si_signo 0, si_errno 4, si_code 8, si_pid 16, si_uid 20, si_value and
  si_fd 24. The byte swaps are the identity.
\<close>

definition host_to_target_siginfo :: "addr \<Rightarrow> bytes \<Rightarrow> ('k, 'z, unit) C" where
  "host_to_target_siginfo tinfo info = do {
     let sig = host_to_target_signal (fld32 info 0);
     wr32 tinfo sig;
     wr32 (tinfo + 4) 0;
     wr32 (tinfo + 8) (fld32 info 8);
     if sig \<in> {of_nat SIGILL, of_nat SIGFPE, of_nat SIGSEGV, of_nat SIGBUS, of_nat SIGTRAP} then
       wr32 (tinfo + 12) 0
     else if sig = of_nat SIGIO then
       wr32 (tinfo + 16) (fld32 info 24)
     else if of_nat SIGRTMIN' \<le>s sig then do {
       wr32 (tinfo + 12) (fld32 info 16);
       wr32 (tinfo + 16) (fld32 info 20);
       wr32 (tinfo + 20) (ucast (fld64 info 24)) }
     else ret () }"

definition target_to_host_siginfo :: "addr \<Rightarrow> ('k, 'z, bytes) C" where
  "target_to_host_siginfo tinfo = do {
     signo \<leftarrow> rd32 tinfo; errn \<leftarrow> rd32 (tinfo + 4); code \<leftarrow> rd32 (tinfo + 8);
     pid \<leftarrow> rd32 (tinfo + 12); uid \<leftarrow> rd32 (tinfo + 16); val \<leftarrow> rd32 (tinfo + 20);
     ret (le32 signo @ le32 errn @ le32 code @ replicate 4 0 @ le32 pid @ le32 uid
          @ le64 (ucast val) @ replicate 96 0) }"

definition fatal_signal :: "nat \<Rightarrow> bool" where
  "fatal_signal sig =
     (if sig \<in> {SIGCHLD, SIGURG, SIGWINCH} then False
      else if sig \<in> {SIGCONT, SIGSTOP, SIGTSTP, SIGTTIN, SIGTTOU} then False
      else True)"

definition core_dump_signal :: "nat \<Rightarrow> bool" where
  "core_dump_signal sig \<longleftrightarrow> sig \<in> {SIGABRT, SIGFPE, SIGILL, SIGQUIT, SIGSEGV, SIGTRAP, SIGBUS}"

section \<open>The state\<close>

record target_sigaction =
  sa_handler :: "32 word"
  sa_flags :: "32 word"
  sa_restorer :: "32 word"
  sa_mask :: target_sigset_t

text \<open>The action of a signal nobody set one for.\<close>

definition default_action :: target_sigaction where
  "default_action = \<lparr>sa_handler = 0, sa_flags = 0, sa_restorer = 0, sa_mask = [0, 0]\<rparr>"

text \<open>
  The statics of the file: the table of the guest's actions and the alternate
  stack. The field \<open>ss_flags\<close> of the stack is initialised and never read.
\<close>

record 'k sig_st = "'k st" +
  sigact_table :: "target_sigaction list"
  altstack_sp :: "32 word"
  altstack_size :: "32 word"

type_synonym ('k, 'z, 'a) S = "(('k, 'z) sig_st_scheme, 'a) state"

section \<open>The alternate signal stack\<close>

abbreviation (input) TARGET_SS_ONSTACK :: "32 word" where "TARGET_SS_ONSTACK \<equiv> 1"
abbreviation (input) TARGET_SS_DISABLE :: "32 word" where "TARGET_SS_DISABLE \<equiv> 2"
abbreviation (input) MINSIGSTKSZ :: "32 word" where "MINSIGSTKSZ \<equiv> 2048"

definition on_sig_stack :: "32 word \<Rightarrow> 32 word \<Rightarrow> 64 word \<Rightarrow> bool" where
  "on_sig_stack ss_sp ss_size sp \<longleftrightarrow> sp - ucast ss_sp < ucast ss_size"

definition sas_ss_flags :: "32 word \<Rightarrow> 32 word \<Rightarrow> 64 word \<Rightarrow> 32 word" where
  "sas_ss_flags ss_sp ss_size sp =
     (if ss_size = 0 then TARGET_SS_DISABLE
      else if on_sig_stack ss_sp ss_size sp then TARGET_SS_ONSTACK else 0)"

text \<open>The part of \<open>do_sigaltstack\<close> that installs the new stack; \<open>None\<close> is success.\<close>

definition set_sigaltstack :: "abi_ulong \<Rightarrow> abi_ulong \<Rightarrow> ('k, 'z, abi_long option) S" where
  "set_sigaltstack uss_addr sp = do {
     uss \<leftarrow> lock_user uss_addr;
     if uss = 0 then ret (Some (- TARGET_EFAULT)) else do {
     new_sp \<leftarrow> rd32 uss;
     new_size \<leftarrow> rd32 (uss + 8);
     flags \<leftarrow> rd32 (uss + 4);
     on \<leftarrow> gets (\<lambda>s. on_sig_stack (altstack_sp s) (altstack_size s) (ucast sp));
     if on then ret (Some (- TARGET_EPERM))
     else if flags \<noteq> TARGET_SS_DISABLE \<and> flags \<noteq> TARGET_SS_ONSTACK \<and> flags \<noteq> 0 then
       ret (Some (- TARGET_EINVAL))
     else if flags = TARGET_SS_DISABLE then do {
       modify (\<lambda>s. s\<lparr>altstack_sp := 0, altstack_size := 0\<rparr>); ret None }
     else if new_size < MINSIGSTKSZ then ret (Some (- TARGET_ENOMEM))
     else do {
       modify (\<lambda>s. s\<lparr>altstack_sp := new_sp, altstack_size := new_size\<rparr>); ret None } } }"

definition do_sigaltstack :: "'k host \<Rightarrow> abi_ulong \<Rightarrow> abi_ulong \<Rightarrow> abi_ulong \<Rightarrow> ('k, 'z, abi_long) S" where
  "do_sigaltstack H uss_addr uoss_addr sp = do {
     oss \<leftarrow> gets (\<lambda>s. le32 (altstack_sp s)
                      @ le32 (sas_ss_flags (altstack_sp s) (altstack_size s) (ucast sp))
                      @ le32 (altstack_size s));
     e \<leftarrow> if uss_addr \<noteq> 0 then set_sigaltstack uss_addr sp else ret None;
     case e of Some r \<Rightarrow> ret r | None \<Rightarrow>
       if uoss_addr \<noteq> 0 then do {
         f \<leftarrow> copy_to_user H uoss_addr oss;
         if f \<noteq> 0 then ret (- TARGET_EFAULT) else ret 0 }
       else ret 0 }"

section \<open>Actions\<close>

abbreviation (input) TARGET_SA_RESTART :: "32 word" where "TARGET_SA_RESTART \<equiv> 0x10000000"

text \<open>
  The action installed on the host: \<open>hsh\<close> is the address of
  \<open>host_signal_handler\<close>; \<open>SIG_DFL\<close> is 0, \<open>SIG_IGN\<close> is 1, \<open>SA_SIGINFO\<close> is 4 and
  \<open>SA_RESTART\<close> 0x10000000.
\<close>

definition host_action :: "64 word \<Rightarrow> nat \<Rightarrow> target_sigaction \<Rightarrow> bytes \<Rightarrow> bytes" where
  "host_action hsh sig k mk =
     (let fl = 4 OR (if sa_flags k AND TARGET_SA_RESTART \<noteq> 0 then 0x10000000 else 0);
          h = (if sa_handler k = 1 then 1
               else if sa_handler k = 0 then (if fatal_signal sig then hsh else 0)
               else hsh)
      in le64 h @ mk @ le32 fl @ replicate 12 0)"

text \<open>
  \<open>do_sigaction\<close>. The new action is read through \<open>act\<close> and the old one stored
  through \<open>oact\<close> where the pointers are not null, in the order of the code: the
  old action is stored first. The second result is what \<open>*oact\<close> received.
\<close>

definition do_sigaction ::
  "'k host \<Rightarrow> 64 word \<Rightarrow> 32 word \<Rightarrow> ('k, 'z, target_sigaction) S option \<Rightarrow>
   (target_sigaction \<Rightarrow> ('k, 'z, unit) S) option \<Rightarrow> ('k, 'z, 32 word \<times> target_sigaction option) S" where
  "do_sigaction H hsh sig act oact =
     (if sig <s 1 \<or> of_nat TARGET_NSIG <s sig \<or> sig = of_nat SIGKILL \<or> sig = of_nat SIGSTOP
      then ret (- of_nat (22 :: nat), None)
      else do {
        k \<leftarrow> gets (\<lambda>s. sigact_table s ! (unat sig - 1));
        (case oact of None \<Rightarrow> ret () | Some put \<Rightarrow> put k);
        (case act of
           None \<Rightarrow> ret (0, Some k)
         | Some rd \<Rightarrow> do {
             a \<leftarrow> rd;
             modify (\<lambda>s. s\<lparr>sigact_table := (sigact_table s)[unat sig - 1 := a]\<rparr>);
             let host_sig = target_to_host_signal sig;
             if host_sig \<noteq> of_nat SIGSEGV \<and> host_sig \<noteq> of_nat SIGBUS then do {
               (_, m) \<leftarrow> hcall H ''sigfillset'' [Out 128];
               r \<leftarrow> call32 H ''sigaction''
                      [W (scast host_sig), In (host_action hsh (unat sig) a (out m 0)), W 0];
               ret (r, Some k) }
             else ret (0, Some k) }) })"

text \<open>A guest action in memory: handler, flags, restorer, mask.\<close>

definition rd_sigaction :: "addr \<Rightarrow> ('k, 'z, target_sigaction) C" where
  "rd_sigaction p = do {
     h \<leftarrow> rd32 p; f \<leftarrow> rd32 (p + 4); r \<leftarrow> rd32 (p + 8); m \<leftarrow> rd_sigset (p + 12);
     ret \<lparr>sa_handler = h, sa_flags = f, sa_restorer = r, sa_mask = m\<rparr> }"

definition wr_sigaction :: "addr \<Rightarrow> target_sigaction \<Rightarrow> ('k, 'z, unit) C" where
  "wr_sigaction p k = do {
     wr32 p (sa_handler k); wr32 (p + 4) (sa_flags k); wr32 (p + 8) (sa_restorer k);
     wr_sigset (p + 12) (sa_mask k) }"


section \<open>The tables are a bijection\<close>

lemma host_table_eq:
  "host_to_target_signal_table = [0..<32] @ 64 # [33..<64] @ [32]"
  by code_simp

lemma target_table_eq: "target_to_host_signal_table = [0..<32] @ 64 # [33..<64] @ [32]"
  by code_simp


text \<open>The number a signal has on the other side, in both directions.\<close>

definition swap_rt :: "nat \<Rightarrow> nat" where
  "swap_rt n = (if n = 32 then 64 else if n = 64 then 32 else n)"

lemma swap_rt_swap_rt [simp]: "swap_rt (swap_rt n) = n"
  by (simp add: swap_rt_def)

lemma swap_rt_range: "1 \<le> n \<Longrightarrow> n \<le> 64 \<Longrightarrow> 1 \<le> swap_rt n \<and> swap_rt n \<le> 64"
  by (simp add: swap_rt_def)

lemma nth_table: "n < 65 \<Longrightarrow> ([0..<32] @ 64 # [33..<64] @ [32]) ! n = swap_rt n"
  by (auto simp: nth_append nth_Cons swap_rt_def simp del: upt_rec_numeral upt_Suc split: nat.split)

lemma signal_lookup_of_nat:
  "n < 65 \<Longrightarrow> host_to_target_signal (of_nat n) = of_nat (swap_rt n)"
  "n < 65 \<Longrightarrow> target_to_host_signal (of_nat n) = of_nat (swap_rt n)"
proof -
  assume n: "n < 65"
  then have u: "unat (of_nat n :: 32 word) = n"
    by (simp add: unat_of_nat take_bit_nat_eq_self)
  have "sint (of_nat n :: 32 word) = int n"
    using n by (simp add: sint_uint uint_nat u signed_take_bit_int_eq_self)
  then have le: "\<not> of_nat NSIG_HOST \<le>s (of_nat n :: 32 word)"
    using n by (simp add: word_sle_eq NSIG_HOST_def)
  show "host_to_target_signal (of_nat n) = of_nat (swap_rt n)" "target_to_host_signal (of_nat n) = of_nat (swap_rt n)"
    using n le by (simp_all add: host_to_target_signal_def target_to_host_signal_def signal_lookup_def u
        host_table_eq target_table_eq nth_table del: upt_rec_numeral upt_Suc)
qed

lemma translate_signal:
  assumes "0 \<le>s sig"
  shows "host_to_target_signal sig = (if sig = 32 then 64 else if sig = 64 then 32 else sig) \<and>
    target_to_host_signal sig = (if sig = 32 then 64 else if sig = 64 then 32 else sig)"
proof (cases "65 \<le>s sig")
  case True
  then have "sig \<noteq> 32" "sig \<noteq> 64"
    by (auto simp: word_sle_eq)
  with True show ?thesis
    by (simp add: host_to_target_signal_def target_to_host_signal_def signal_lookup_def NSIG_HOST_def)
next
  case False
  define n where "n = unat sig"
  have sig: "sig = of_nat n" by (simp add: n_def)
  have "sint sig = uint sig"
    using assms by (intro sint_nonneg) (simp add: word_sle_eq)
  moreover have "sint sig < 65"
    using False by (simp add: word_sle_eq)
  ultimately have n: "n < 65"
    unfolding n_def unat_eq_nat_uint by (simp only: nat_less_iff uint_ge_0)
  then have "swap_rt n < 65"
    by (simp add: swap_rt_def)
  moreover have "sig = 32 \<longleftrightarrow> n = 32" "sig = 64 \<longleftrightarrow> n = 64"
    using n unfolding sig by (simp_all add: word_unat_eq_iff unat_of_nat take_bit_nat_eq_self)
  ultimately show ?thesis
    using n by (simp add: sig signal_lookup_of_nat swap_rt_def)
qed

text \<open>
  Translating a signal number between the guest and the host exchanges the
  first and the last real-time signal and keeps every other number that is not
  negative, in both directions, so going there and back again is the identity.
\<close>
theorem signal_round_trip:
  assumes "0 \<le>s sig"
  shows "host_to_target_signal sig = (if sig = 32 then 64 else if sig = 64 then 32 else sig) \<and>
    target_to_host_signal sig = host_to_target_signal sig \<and>
    target_to_host_signal (host_to_target_signal sig) = sig"
  using translate_signal [OF assms] translate_signal [of 32] translate_signal [of 64]
  by (simp add: word_sle_eq)

theorem signal_round_trip_witness:
  "host_to_target_signal 64 = 32 \<and> target_to_host_signal (host_to_target_signal 11) = 11"
  using signal_round_trip [of 64] signal_round_trip [of 11] by (simp add: word_sle_eq)


section \<open>Signal sets, on either side\<close>

text \<open>
  What the two kinds of set have in common, and the translation loop from one kind
  to the other, with the numbers renamed.
\<close>

abbreviation (input) signals :: "nat set" where "signals \<equiv> {1..64}"

locale signal_set =
  fixes emp :: 's and mem :: "'s \<Rightarrow> nat \<Rightarrow> bool" and add :: "'s \<Rightarrow> nat \<Rightarrow> 's" and good :: "'s \<Rightarrow> bool"
  assumes good_emp: "good emp"
    and good_add: "good s \<Longrightarrow> i \<in> signals \<Longrightarrow> good (add s i)"
    and mem_emp: "i \<in> signals \<Longrightarrow> \<not> mem emp i"
    and mem_add: "good s \<Longrightarrow> i \<in> signals \<Longrightarrow> j \<in> signals \<Longrightarrow> mem (add s j) i \<longleftrightarrow> i = j \<or> mem s i"
    and set_eqI: "good s \<Longrightarrow> good t \<Longrightarrow> \<forall>i \<in> signals. mem s i = mem t i \<Longrightarrow> s = t"

locale sigset_translation =
  src: signal_set emp mem add good + dst: signal_set emp' mem' add' good'
  for emp :: 's and mem add good and emp' :: 't and mem' add' good' +
  fixes f :: "nat \<Rightarrow> nat"
  assumes f_range: "i \<in> signals \<Longrightarrow> f i \<in> signals"
    and f_inj: "i \<in> signals \<Longrightarrow> j \<in> signals \<Longrightarrow> f i = f j \<longleftrightarrow> i = j"
begin

lemma mem_loop:
  assumes "set xs \<subseteq> signals" "good' d"
  shows "good' (fold (\<lambda>i d. if mem s i then add' d (f i) else d) xs d) \<and>
    (\<forall>j \<in> signals. mem' (fold (\<lambda>i d. if mem s i then add' d (f i) else d) xs d) j \<longleftrightarrow>
       mem' d j \<or> (\<exists>i \<in> set xs. mem s i \<and> f i = j))"
  using assms
proof (induction xs arbitrary: d)
  case (Cons i xs)
  have i: "i \<in> signals" using Cons.prems by simp
  have "good' (if mem s i then add' d (f i) else d)"
    using Cons.prems f_range [OF i] by (simp add: dst.good_add)
  moreover have "mem' (if mem s i then add' d (f i) else d) j \<longleftrightarrow> mem' d j \<or> mem s i \<and> f i = j" if "j \<in> signals" for j
    using dst.mem_add [OF Cons.prems(2) that f_range [OF i]] by auto
  ultimately show ?case
    using Cons.IH Cons.prems(1) by auto
qed simp

lemma mem_translated:
  assumes "t = fold (\<lambda>i d. if mem s i then add' d (f i) else d) [1..<65] emp'"
  shows "good' t" and "i \<in> signals \<Longrightarrow> mem' t (f i) \<longleftrightarrow> mem s i"
proof -
  have all: "set [1..<65] = signals"
    by (auto simp del: upt_rec_numeral)
  then show "good' t"
    unfolding assms using mem_loop [of "[1..<65]"] dst.good_emp by simp
  assume i: "i \<in> signals"
  then have "(\<exists>k \<in> set [1..<65]. mem s k \<and> f k = f i) \<longleftrightarrow> mem s i"
    using f_inj unfolding all by blast
  then show "mem' t (f i) \<longleftrightarrow> mem s i"
    unfolding assms using mem_loop [of "[1..<65]"] dst.good_emp all f_range [OF i] dst.mem_emp by simp
qed

end

lemma bit_sigaddset: "j \<in> signals \<Longrightarrow> bit (sigaddset s j) k \<longleftrightarrow> k = j - 1 \<or> bit s k"
  by (auto simp: sigaddset_def bit_or_iff bit_exp_iff possible_bit_word)

interpretation host_set: signal_set 0 sigismember sigaddset "\<lambda>_. True"
proof
  fix s t :: sigset_t
  assume *: "\<forall>i \<in> signals. sigismember s i = sigismember t i"
  show "s = t"
  proof (rule bit_word_eqI)
    fix n assume "n < LENGTH(64)"
    then show "bit s n = bit t n"
      using bspec [OF *, of "Suc n"] by (simp add: sigismember_def)
  qed
qed (auto simp: sigismember_def bit_sigaddset)

lemma target_sigismember_bit: "target_sigismember ts i \<longleftrightarrow> bit (ts ! ((i - 1) div 32)) ((i - 1) mod 32)"
  by (simp add: target_sigismember_def Let_def del: push_bit_of_1 flip: bit_iff_and_push_bit_not_eq_0)

lemma target_sigaddset_bit:
  assumes "length ts = 2" "i \<in> signals" "j \<in> signals"
  shows "target_sigismember (target_sigaddset ts j) i \<longleftrightarrow> i = j \<or> target_sigismember ts i"
proof -
  have eq: "i = j \<longleftrightarrow> (i - 1) div 32 = (j - 1) div 32 \<and> (i - 1) mod 32 = (j - 1) mod 32"
    using assms(2,3) by (metis atLeastAtMost_iff diff_add div_mult_mod_eq)
  have "(j - 1) div 32 < 2"
    using assms(3) by auto
  then show ?thesis
    using assms(1)
    by (auto simp: target_sigismember_bit target_sigaddset_def Let_def nth_list_update bit_or_iff bit_exp_iff
        possible_bit_word eq)
qed

interpretation target_set: signal_set target_sigemptyset target_sigismember target_sigaddset "\<lambda>ts. length ts = 2"
proof
  fix i :: nat assume "i \<in> signals"
  then have "(i - 1) div 32 < 2" by auto
  then show "\<not> target_sigismember target_sigemptyset i"
    unfolding target_sigismember_bit target_sigemptyset_def by simp
next
  fix s t :: target_sigset_t
  assume *: "length s = 2" "length t = 2" "\<forall>i \<in> signals. target_sigismember s i = target_sigismember t i"
  show "s = t"
  proof (rule nth_equalityI)
    fix k assume "k < length s"
    then have k: "k < 2" using *(1) by simp
    show "s ! k = t ! k"
    proof (rule bit_word_eqI)
      fix n assume "n < LENGTH(32)"
      then show "bit (s ! k) n = bit (t ! k) n"
        using bspec [OF *(3), of "Suc (32 * k + n)"] k by (simp add: target_sigismember_bit)
    qed
  qed (use * in simp)
next
  fix s :: target_sigset_t and i j :: nat
  assume "length s = 2" "i \<in> signals" "j \<in> signals"
  then show "target_sigismember (target_sigaddset s j) i \<longleftrightarrow> i = j \<or> target_sigismember s i"
    by (rule target_sigaddset_bit)
qed (simp_all add: target_sigaddset_def target_sigemptyset_def Let_def)

lemma swap_rt_inj: "swap_rt i = swap_rt j \<longleftrightarrow> i = j"
  by (metis swap_rt_swap_rt)

interpretation to_target: sigset_translation 0 sigismember sigaddset "\<lambda>_. True"
    target_sigemptyset target_sigismember target_sigaddset "\<lambda>ts. length ts = 2" swap_rt
  by unfold_locales (auto simp: swap_rt_inj swap_rt_def)

interpretation to_host: sigset_translation target_sigemptyset target_sigismember target_sigaddset "\<lambda>ts. length ts = 2"
    0 sigismember sigaddset "\<lambda>_. True" swap_rt
  by unfold_locales (auto simp: swap_rt_inj swap_rt_def)

text \<open>The loops of the code are those of the translation.\<close>

lemma unat_swap_rt: "n < 65 \<Longrightarrow> unat (of_nat (swap_rt n) :: 32 word) = swap_rt n"
  by (auto simp: swap_rt_def unat_of_nat take_bit_nat_eq_self)

lemma host_to_target_sigset_loop:
  "host_to_target_sigset s =
     fold (\<lambda>i d. if sigismember s i then target_sigaddset d (swap_rt i) else d) [1..<65] target_sigemptyset"
  unfolding host_to_target_sigset_def TARGET_NSIG_def
  by (rule fold_cong) (auto simp: signal_lookup_of_nat unat_swap_rt fun_eq_iff simp del: upt_rec_numeral)

lemma target_to_host_sigset_loop:
  "target_to_host_sigset s = fold (\<lambda>i d. if target_sigismember s i then sigaddset d (swap_rt i) else d) [1..<65] 0"
  unfolding target_to_host_sigset_def TARGET_NSIG_def
  by (rule fold_cong) (auto simp: signal_lookup_of_nat unat_swap_rt fun_eq_iff simp del: upt_rec_numeral)

lemmas mem_host_to_target_sigset = to_target.mem_translated [OF host_to_target_sigset_loop]
lemmas mem_target_to_host_sigset = to_host.mem_translated [OF target_to_host_sigset_loop]

text \<open>
  C37: a signal set survives the way to the guest and back, and the way to the host
  and back: nothing is lost and nothing is added, although the two real-time
  signals change places on the way.
\<close>
theorem sigset_round_trip:
  assumes "length ts = 2"
  shows "target_to_host_sigset (host_to_target_sigset s) = s \<and>
    host_to_target_sigset (target_to_host_sigset ts) = ts"
proof
  have range: "swap_rt i \<in> signals" if "i \<in> signals" for i
    using to_target.f_range [OF that] .
  have "sigismember (target_to_host_sigset (host_to_target_sigset s)) i = sigismember s i" if "i \<in> signals" for i
    using mem_target_to_host_sigset(2) [OF range [OF that], of "host_to_target_sigset s"]
      mem_host_to_target_sigset(2) [OF that, of s] by simp
  then show "target_to_host_sigset (host_to_target_sigset s) = s"
    by (intro host_set.set_eqI) simp_all
  have "target_sigismember (host_to_target_sigset (target_to_host_sigset ts)) i = target_sigismember ts i"
    if "i \<in> signals" for i
    using mem_host_to_target_sigset(2) [OF range [OF that], of "target_to_host_sigset ts"]
      mem_target_to_host_sigset(2) [OF that, of ts] by simp
  then show "host_to_target_sigset (target_to_host_sigset ts) = ts"
    using mem_host_to_target_sigset(1) [of "target_to_host_sigset ts"] assms by (intro target_set.set_eqI) simp_all
qed

theorem sigset_round_trip_witness: "host_to_target_sigset (target_to_host_sigset [0x80000000, 5]) = [0x80000000, 5]"
  using sigset_round_trip [of "[0x80000000, 5]" 0] by simp


text \<open>
  The old calls, with a mask of one word, keep exactly the signals whose number
  in the guest is at most 32: the first 31 signals, and the host's 64. The host's
  signals from 32 to 63 are lost on the way.
\<close>
theorem old_sigset_round_trip:
  "target_to_host_old_sigset (host_to_target_old_sigset s) = s AND 0x800000007fffffff"
proof (rule host_set.set_eqI)
  show "\<forall>i \<in> signals. sigismember (target_to_host_old_sigset (host_to_target_old_sigset s)) i =
      sigismember (s AND 0x800000007fffffff) i"
  proof
    fix i assume i: "i \<in> signals"
    let ?ts = "[host_to_target_sigset s ! 0, 0]"
    have len: "length (host_to_target_sigset s) = 2"
      by (rule mem_host_to_target_sigset(1))
    have swap: "swap_rt i \<in> signals"
      using to_target.f_range [OF i] .
    have "sigismember (target_to_host_sigset ?ts) i = target_sigismember ?ts (swap_rt i)"
      using mem_target_to_host_sigset(2) [OF swap, of ?ts] by simp
    also have "\<dots> \<longleftrightarrow> swap_rt i \<le> 32 \<and> target_sigismember (host_to_target_sigset s) (swap_rt i)"
    proof (cases "swap_rt i \<le> 32")
      case True
      then have "(swap_rt i - 1) div 32 = 0" using swap by simp
      then show ?thesis using True by (simp add: target_sigismember_bit)
    next
      case False
      then have "(swap_rt i - 1) div 32 = 1" using swap by auto
      then show ?thesis using False by (simp add: target_sigismember_bit)
    qed
    also have "\<dots> \<longleftrightarrow> (i \<le> 31 \<or> i = 64) \<and> sigismember s i"
      using mem_host_to_target_sigset(2) [OF i, of s] i by (auto simp: swap_rt_def)
    also have "\<dots> \<longleftrightarrow> sigismember (s AND 0x800000007fffffff) i"
    proof -
      have "(0x800000007fffffff :: 64 word) = mask 31 OR push_bit 63 1"
        by (simp add: mask_eq_exp_minus_1)
      then have "bit (0x800000007fffffff :: 64 word) k \<longleftrightarrow> k < 31 \<or> k = 63" if "k < 64" for k
        using that by (simp only: bit_or_iff bit_mask_iff bit_push_bit_iff bit_1_iff possible_bit_word) auto
      from this [of "i - 1"] show ?thesis
        using i by (auto simp: sigismember_def bit_and_iff)
    qed
    finally show "sigismember (target_to_host_old_sigset (host_to_target_old_sigset s)) i =
        sigismember (s AND 0x800000007fffffff) i"
      by (simp add: target_to_host_old_sigset_def host_to_target_old_sigset_def)
  qed
qed simp_all


section \<open>What a waiting parent sees\<close>

lemma nonneg_and:
  assumes "m < 0x80000000"
  shows "0 \<le>s (w AND m :: 32 word)"
proof -
  have "w AND m < 0x80000000"
    using word_and_le1 [of w m] assms by (rule le_less_trans)
  then show ?thesis
    by (simp add: word_sle_eq sint_below)
qed

lemma second_byte:
  "drop_bit 8 (push_bit 8 (y AND 0xff)) = (y AND 0xff :: 32 word)" "push_bit 8 y AND 0xff = (0 :: 32 word)"
proof -
  have m: "(0xff :: 32 word) = mask 8" by (simp add: mask_eq_exp_minus_1)
  show "drop_bit 8 (push_bit 8 (y AND 0xff)) = (y AND 0xff :: 32 word)" "push_bit 8 y AND 0xff = (0 :: 32 word)"
    unfolding m by (auto intro!: bit_word_eqI simp: bit_simps)
qed

text \<open>
  A parent that waits sees the state of its child with the signal translated
  and nothing else changed: a killing signal in the low seven bits with the
  core-dump flag above them, a stopping signal in the second byte. The status of a
  child that exited is passed on as it is, and of a stopped child everything above
  the second byte is dropped.
\<close>
theorem waitstatus_translated:
  "let r = host_to_target_waitstatus status in
   if WIFSIGNALED status then
     WIFSIGNALED r \<and> r AND 0x7f = host_to_target_signal (status AND 0x7f) \<and> r AND NOT 0x7f = status AND NOT 0x7f
   else if WIFSTOPPED status then
     WIFSTOPPED r \<and> drop_bit 8 r = host_to_target_signal (drop_bit 8 (status AND 0xff00))
   else r = status"
proof -
  have sig: "host_to_target_signal (status AND 0x7f) =
      (if status AND 0x7f = 32 then 64 else if status AND 0x7f = 64 then 32 else status AND 0x7f)"
    using translate_signal [OF nonneg_and] by simp
  have keep: "host_to_target_signal (status AND 0x7f) AND 0x7f = host_to_target_signal (status AND 0x7f)"
    "host_to_target_signal (status AND 0x7f) AND NOT 0x7f = 0"
    unfolding sig by (simp_all add: and.assoc)
  have stop: "drop_bit 8 (status AND 0xff00) = drop_bit 8 status AND 0xff"
    by (simp add: drop_bit_and)
  have "host_to_target_signal (drop_bit 8 status AND 0xff) =
      (if drop_bit 8 status AND 0xff = 32 then 64 else if drop_bit 8 status AND 0xff = 64 then 32
       else drop_bit 8 status AND 0xff)"
    using translate_signal [OF nonneg_and] by simp
  then have small: "host_to_target_signal (drop_bit 8 status AND 0xff) AND 0xff =
      host_to_target_signal (drop_bit 8 status AND 0xff)"
    by (simp add: and.assoc)
  show ?thesis
  proof (cases "WIFSIGNALED status")
    case True
    have "host_to_target_waitstatus status = host_to_target_signal (status AND 0x7f) OR (status AND NOT 0x7f)"
      using True by (simp add: host_to_target_waitstatus_def)
    moreover have "(status AND NOT 0x7f) AND 0x7f = 0" "(status AND NOT 0x7f) AND NOT 0x7f = status AND NOT 0x7f"
      by (simp_all add: and.assoc)
    ultimately have "host_to_target_waitstatus status AND 0x7f = host_to_target_signal (status AND 0x7f)"
      "host_to_target_waitstatus status AND NOT 0x7f = status AND NOT 0x7f"
      by (simp_all only: bit.conj_disj_distrib2 keep or.left_neutral or.right_neutral)
    moreover have "host_to_target_signal (status AND 0x7f) \<noteq> 0" "host_to_target_signal (status AND 0x7f) \<noteq> 0x7f"
      using True unfolding sig by (simp_all add: WIFSIGNALED_def)
    ultimately show ?thesis
      using True by (simp add: WIFSIGNALED_def)
  next
    case False
    show ?thesis
    proof (cases "WIFSTOPPED status")
      case True
      let ?x = "host_to_target_signal (drop_bit 8 status AND 0xff)"
      have r: "host_to_target_waitstatus status = push_bit 8 (?x AND 0xff) OR 0x7f"
        using True False stop by (simp add: host_to_target_waitstatus_def WIFSTOPPED_def small)
      have "drop_bit 8 (host_to_target_waitstatus status) = ?x"
        unfolding r drop_bit_or second_byte(1) by (simp add: small)
      moreover have "host_to_target_waitstatus status AND 0xff = 0x7f"
        unfolding r bit.conj_disj_distrib2 second_byte(2) by simp
      ultimately show ?thesis
        using True False stop by (simp add: WIFSTOPPED_def)
    qed (use False in \<open>simp add: host_to_target_waitstatus_def\<close>)
  qed
qed


section \<open>Installing an action\<close>

lemma run_rd_sigaction:
  "run_state (rd_sigaction p) s =
     (let w = load_list ld32 4 (mem s) p 5 in
      (\<lparr>sa_handler = w ! 0, sa_flags = w ! 1, sa_restorer = w ! 2, sa_mask = [w ! 3, w ! 4]\<rparr>, s))"
  by (simp add: rd_sigaction_def rd_sigset_def run_simps numeral_eq_Suc add.assoc)

lemma run_wr_sigaction:
  "run_state (wr_sigaction p k) s =
     ((), s\<lparr>mem := store_list st32 4 (mem s) p [sa_handler k, sa_flags k, sa_restorer k, sa_mask k ! 0, sa_mask k ! 1]\<rparr>)"
  by (simp add: wr_sigaction_def wr_sigset_def run_simps add.assoc)

lemma actions_hcall [simp]: "sigact_table (snd (run_state (hcall H f as) s)) = sigact_table s"
  by (simp add: hcall_def split: prod.split)

lemma table_do_sigaction:
  assumes "1 \<le>s sig" "sig \<le>s 64" "sig \<noteq> 9" "sig \<noteq> 19"
    and "run_state (put (sigact_table s ! (unat sig - 1))) s = (u, t)" and "sigact_table t = sigact_table s"
    and "run_state rd t = (a, t)"
  shows "sigact_table (snd (run_state (do_sigaction H hsh sig (Some rd) (Some put)) s)) = (sigact_table s)[unat sig - 1 := a]"
proof -
  have "\<not> (sig <s 1 \<or> of_nat TARGET_NSIG <s sig \<or> sig = of_nat SIGKILL \<or> sig = of_nat SIGSTOP)"
    using assms(1-4) by (simp add: TARGET_NSIG_def word_sless_alt word_sle_eq)
  then show ?thesis
    using assms(5-7) by (simp add: do_sigaction_def run_simps call32_def Let_def case_prod_beta)
qed

text \<open>
  C38: setting the action of a signal through two pointers, as rt_sigaction does: the
  table receives at the signal's slot, and nowhere else, the action the guest
  passed, if the two structures do not overlap. The old action is written before the
  new one is read, so when both pointers are the same the new action is lost and
  the table stays as it was.
\<close>
theorem sigaction_installs:
  assumes "1 \<le>s sig" "sig \<le>s 64" "sig \<noteq> 9" "sig \<noteq> 19"
    and "length (sa_mask (sigact_table s ! (unat sig - 1))) = 2" and "q = p \<or> sep q 20 p 20"
  shows "sigact_table (snd (run_state (do_sigaction H hsh sig (Some (rd_sigaction p)) (Some (wr_sigaction q))) s)) =
    (if q = p then sigact_table s
     else (sigact_table s)[unat sig - 1 := fst (run_state (rd_sigaction p) s)])"
proof -
  let ?k = "sigact_table s ! (unat sig - 1)"
  let ?xs = "[sa_handler ?k, sa_flags ?k, sa_restorer ?k, sa_mask ?k ! 0, sa_mask ?k ! 1]"
  let ?t = "s\<lparr>mem := store_list st32 4 (mem s) q ?xs\<rparr>"
  have table: "sigact_table (snd (run_state (do_sigaction H hsh sig (Some (rd_sigaction p)) (Some (wr_sigaction q))) s)) =
      (sigact_table s)[unat sig - 1 := fst (run_state (rd_sigaction p) ?t)]"
    by (rule table_do_sigaction [OF assms(1-4) run_wr_sigaction]) (simp_all add: run_rd_sigaction Let_def)
  show ?thesis
  proof (cases "q = p")
    case True
    have five: "(5 :: nat) = length ?xs" by simp
    have "load_list ld32 4 (store_list st32 4 (mem s) p ?xs) p 5 = ?xs"
      unfolding five by (rule c32.load_store_list) simp
    moreover obtain m0 m1 where "sa_mask ?k = [m0, m1]"
      using assms(5) by (auto simp: numeral_2_eq_2 length_Suc_conv)
    ultimately have "fst (run_state (rd_sigaction p) ?t) = ?k"
      using True by (simp add: run_rd_sigaction Let_def del: load_list.simps store_list.simps)
    then show ?thesis
      using table True by simp
  next
    case False
    then have "load_list ld32 4 (store_list st32 4 (mem s) q ?xs) p 5 = load_list ld32 4 (mem s) p 5"
      using assms(6) c32.store_list_frame [of ?xs] by (intro c32.load_list_sep [where d = q and c = 20]) simp_all
    then have "fst (run_state (rd_sigaction p) ?t) = fst (run_state (rd_sigaction p) s)"
      by (simp add: run_rd_sigaction Let_def del: load_list.simps store_list.simps)
    then show ?thesis
      using table False by simp
  qed
qed

theorem sigaction_installs_witness:
  "sigact_table (snd (run_state (do_sigaction null_host 0 2 (Some (rd_sigaction 0x1000)) (Some (wr_sigaction 0x2000)))
     \<lparr>mem = (\<lambda>_. 1), errno = 0, kern = (), base = 0, sigact_table = replicate 64 default_action,
       altstack_sp = 0, altstack_size = 0\<rparr>)) ! 1 =
   \<lparr>sa_handler = 0x1010101, sa_flags = 0x1010101, sa_restorer = 0x1010101, sa_mask = [0x1010101, 0x1010101]\<rparr>"
proof -
  let ?s = "\<lparr>mem = (\<lambda>_. 1), errno = 0, kern = (), base = 0, sigact_table = replicate 64 default_action,
       altstack_sp = 0, altstack_size = 0\<rparr> :: unit sig_st"
  have ones: "ld32 (\<lambda>_. 1) a = 0x1010101" for a
    by (simp add: ld32_def mrd_def numeral_eq_Suc)
  have read: "fst (run_state (rd_sigaction 0x1000) ?s) = \<lparr>sa_handler = 0x1010101, sa_flags = 0x1010101,
      sa_restorer = 0x1010101, sa_mask = [0x1010101, 0x1010101]\<rparr>"
    by (simp add: rd_sigaction_def rd_sigset_def run_simps ones)
  have "sep 0x2000 20 0x1000 20"
    by (simp add: sep_def)
  then show ?thesis
    using sigaction_installs [of 2 ?s "0x2000" "0x1000" null_host 0] read
    by (simp add: word_sle_eq default_action_def)
qed

end
