(* ===== verification/Select.thy ===== *)
theory Select
  imports Structs
begin

text \<open>
  File-descriptor sets, \<open>do_select\<close> and \<open>do_pipe\<close> of \<open>translatedsyscall.c\<close>.
  The guest's set is an array of 32-bit words, the host's \<open>fd_set\<close> sixteen
  64-bit words (1024 descriptors).
\<close>

section \<open>The host's fd_set\<close>

type_synonym fd_set = "64 word list"

definition FD_ZERO :: fd_set where "FD_ZERO = replicate 16 0"

text \<open>A write behind the sixteen words is undefined in C; the set it leaves is unspecified here.
  A descriptor behind them is in no set.\<close>

definition FD_SET :: "nat \<Rightarrow> fd_set \<Rightarrow> fd_set" where
  "FD_SET k fds =
     (if k div 64 < length fds then fds[k div 64 := fds ! (k div 64) OR push_bit (k mod 64) 1]
      else undefined k fds)"

definition FD_ISSET :: "nat \<Rightarrow> fd_set \<Rightarrow> bool" where
  "FD_ISSET k fds \<longleftrightarrow> k div 64 < length fds \<and> bit (fds ! (k div 64)) (k mod 64)"

definition fdset_bytes :: "fd_set \<Rightarrow> bytes" where
  "fdset_bytes fds = concat (map le64 fds)"

definition bytes_fdset :: "bytes \<Rightarrow> fd_set" where
  "bytes_fdset bs = map (\<lambda>i. fld64 bs (8 * i)) [0..<16]"

section \<open>Copying a set\<close>

text \<open>The number of guest words for \<open>n\<close> descriptors; none for a negative \<open>n\<close>.\<close>

definition fdset_words :: "32 word \<Rightarrow> nat" where
  "fdset_words n = nat ((sint n + 31) div 32)"

text \<open>The inner loops: the bits of one word, at the descriptors \<open>k\<close> upwards.\<close>

primrec set_bits_of :: "32 word \<Rightarrow> nat \<Rightarrow> nat \<Rightarrow> fd_set \<Rightarrow> fd_set" where
  "set_bits_of b k 0 fds = fds"
| "set_bits_of b k (Suc j) fds =
     (let fds' = set_bits_of b k j fds in
      if drop_bit j b AND 1 \<noteq> 0 then FD_SET (k + j) fds' else fds')"

primrec word_of_bits :: "fd_set \<Rightarrow> nat \<Rightarrow> nat \<Rightarrow> 32 word" where
  "word_of_bits fds k 0 = 0"
| "word_of_bits fds k (Suc j) =
     word_of_bits fds k j OR push_bit j (if FD_ISSET (k + j) fds then 1 else 0)"

primrec from_words :: "32 word list \<Rightarrow> nat \<Rightarrow> fd_set \<Rightarrow> fd_set" where
  "from_words [] k fds = fds"
| "from_words (b # bs) k fds = from_words bs (k + 32) (set_bits_of b k 32 fds)"

definition to_words :: "fd_set \<Rightarrow> nat \<Rightarrow> 32 word list" where
  "to_words fds nw = map (\<lambda>i. word_of_bits fds (32 * i) 32) [0..<nw]"

definition copy_from_user_fdset :: "abi_ulong \<Rightarrow> 32 word \<Rightarrow> ('k, 'z, abi_long + fd_set) C" where
  "copy_from_user_fdset target_fds_addr n = do {
     p \<leftarrow> lock_user target_fds_addr;
     if p = 0 then ret (Inl (- TARGET_EFAULT))
     else do {
       bs \<leftarrow> gets (\<lambda>s. load_list ld32 4 (mem s) p (fdset_words n));
       ret (Inr (from_words bs 0 FD_ZERO)) } }"

definition copy_to_user_fdset :: "abi_ulong \<Rightarrow> fd_set \<Rightarrow> 32 word \<Rightarrow> ('k, 'z, abi_long) C" where
  "copy_to_user_fdset target_fds_addr fds n = do {
     p \<leftarrow> lock_user target_fds_addr;
     if p = 0 then ret (- TARGET_EFAULT)
     else do {
       modify (\<lambda>s. s\<lparr>mem := store_list st32 4 (mem s) p (to_words fds (fdset_words n))\<rparr>);
       ret 0 } }"

section \<open>do_select\<close>

text \<open>An optional argument: absent for a null guest address.\<close>

definition opt_fdset :: "abi_ulong \<Rightarrow> 32 word \<Rightarrow> ('k, 'z, abi_long + fd_set option) C" where
  "opt_fdset addr n =
     (if addr = 0 then ret (Inr None)
      else do { r \<leftarrow> copy_from_user_fdset addr n;
                ret (case r of Inl e \<Rightarrow> Inl e | Inr f \<Rightarrow> Inr (Some f)) })"

definition opt_timeval :: "abi_ulong \<Rightarrow> ('k, 'z, abi_long + bytes option) C" where
  "opt_timeval addr =
     (if addr = 0 then ret (Inr None)
      else do { r \<leftarrow> copy_from_user_timeval addr;
                ret (case r of Inl e \<Rightarrow> Inl e | Inr f \<Rightarrow> Inr (Some f)) })"

definition ptr_arg :: "bytes option \<Rightarrow> harg" where
  "ptr_arg b = (case b of None \<Rightarrow> W 0 | Some bs \<Rightarrow> In bs)"

definition select_copy_out ::
  "32 word \<Rightarrow> abi_ulong \<Rightarrow> abi_ulong \<Rightarrow> abi_ulong \<Rightarrow> abi_ulong \<Rightarrow> bytes list \<Rightarrow> abi_long \<Rightarrow> ('k, 'z, abi_long) C" where
  "select_copy_out n rfd_addr wfd_addr efd_addr target_tv_addr outs r = do {
     a \<leftarrow> if rfd_addr \<noteq> 0 then copy_to_user_fdset rfd_addr (bytes_fdset (out outs 1)) n else ret 0;
     if a \<noteq> 0 then ret (- TARGET_EFAULT) else do {
     b \<leftarrow> if wfd_addr \<noteq> 0 then copy_to_user_fdset wfd_addr (bytes_fdset (out outs 2)) n else ret 0;
     if b \<noteq> 0 then ret (- TARGET_EFAULT) else do {
     c \<leftarrow> if efd_addr \<noteq> 0 then copy_to_user_fdset efd_addr (bytes_fdset (out outs 3)) n else ret 0;
     if c \<noteq> 0 then ret (- TARGET_EFAULT) else do {
     d \<leftarrow> if target_tv_addr \<noteq> 0 then copy_to_user_timeval target_tv_addr (out outs 4) else ret 0;
     if d \<noteq> 0 then ret (- TARGET_EFAULT) else ret r } } } }"

definition do_select ::
  "'k host \<Rightarrow> 32 word \<Rightarrow> abi_ulong \<Rightarrow> abi_ulong \<Rightarrow> abi_ulong \<Rightarrow> abi_ulong \<Rightarrow> ('k, 'z, abi_long) C" where
  "do_select H n rfd_addr wfd_addr efd_addr target_tv_addr = do {
     rr \<leftarrow> opt_fdset rfd_addr n;
     case rr of Inl _ \<Rightarrow> ret (- TARGET_EFAULT) | Inr rfds \<Rightarrow> do {
     ww \<leftarrow> opt_fdset wfd_addr n;
     case ww of Inl _ \<Rightarrow> ret (- TARGET_EFAULT) | Inr wfds \<Rightarrow> do {
     ee \<leftarrow> opt_fdset efd_addr n;
     case ee of Inl _ \<Rightarrow> ret (- TARGET_EFAULT) | Inr efds \<Rightarrow> do {
     tt \<leftarrow> opt_timeval target_tv_addr;
     case tt of Inl _ \<Rightarrow> ret (- TARGET_EFAULT) | Inr tv \<Rightarrow> do {
       (r, outs) \<leftarrow> hcall H ''select'' [W (scast n), ptr_arg (map_option fdset_bytes rfds),
          ptr_arg (map_option fdset_bytes wfds), ptr_arg (map_option fdset_bytes efds), ptr_arg tv];
       r' \<leftarrow> get_errno (ucast r);
       if is_error r' then ret r'
       else select_copy_out n rfd_addr wfd_addr efd_addr target_tv_addr outs r' } } } } }"

section \<open>Pipes\<close>

text \<open>\<open>CONFIG_PIPE2\<close> is not defined: a pipe with flags is not implemented.\<close>

definition do_pipe2 :: "32 word \<Rightarrow> abi_long" where
  "do_pipe2 flags = - of_nat ENOSYS"

definition do_pipe :: "'k host \<Rightarrow> abi_ulong \<Rightarrow> 32 word \<Rightarrow> bool \<Rightarrow> ('k, 'z, abi_long) C" where
  "do_pipe H pipedes flags is_pipe2 = do {
     (r, outs) \<leftarrow> if flags \<noteq> 0 then ret (ucast (do_pipe2 flags), [])
                 else hcall H ''pipe'' [Out 8];
     let r = (ucast r :: abi_long);
     if is_error r then get_errno r
     else do {
       gm_write H 4 pipedes (ucast (fld32 (out outs 0) 0));
       gm_write H 4 (pipedes + 4) (ucast (fld32 (out outs 0) 4));
       get_errno r } }"


section \<open>What the copies of a set do\<close>

lemma length_set_bits_of: "k + n \<le> 64 * length fds \<Longrightarrow> length (set_bits_of b k n fds) = length fds"
  by (induction n) (simp_all add: Let_def FD_SET_def less_mult_imp_div_less)

lemma FD_ISSET_SET: "j < 64 * length fds \<Longrightarrow> FD_ISSET k (FD_SET j fds) \<longleftrightarrow> k = j \<or> FD_ISSET k fds"
proof -
  assume j: "j < 64 * length fds"
  have "k = j \<longleftrightarrow> k div 64 = j div 64 \<and> k mod 64 = j mod 64"
    by (metis div_mult_mod_eq)
  then show ?thesis
    using j by (auto simp: FD_ISSET_def FD_SET_def less_mult_imp_div_less nth_list_update bit_or_iff bit_exp_iff possible_bit_word)
qed

lemma FD_ISSET_set_bits_of:
  "k + n \<le> 64 * length fds \<Longrightarrow> FD_ISSET i (set_bits_of b k n fds) \<longleftrightarrow> FD_ISSET i fds \<or> k \<le> i \<and> i < k + n \<and> bit b (i - k)"
proof (induction n)
  case (Suc n)
  have "drop_bit n b AND 1 \<noteq> 0 \<longleftrightarrow> bit b n"
    by (simp add: bit_iff_odd_drop_bit odd_iff_mod_2_eq_one and_one_eq)
  moreover have "i < k + Suc n \<longleftrightarrow> i < k + n \<or> i = k + n" by auto
  ultimately show ?case
    using Suc by (auto simp: Let_def FD_ISSET_SET length_set_bits_of)
qed auto

lemma FD_ISSET_from_words:
  "k + 32 * length bs \<le> 64 * length fds \<Longrightarrow>
     FD_ISSET i (from_words bs k fds) \<longleftrightarrow>
       FD_ISSET i fds \<or> k \<le> i \<and> i < k + 32 * length bs \<and> bit (bs ! ((i - k) div 32)) ((i - k) mod 32)"
proof (induction bs arbitrary: k fds)
  case (Cons b bs)
  consider "i < k + 32" | "k + 32 \<le> i" by linarith
  then show ?case
  proof cases
    case 1
    then show ?thesis
      using Cons by (auto simp: FD_ISSET_set_bits_of length_set_bits_of)
  next
    case 2
    then have "(i - k) div 32 = Suc ((i - (k + 32)) div 32)" "(i - k) mod 32 = (i - (k + 32)) mod 32"
      by (simp_all add: le_div_geq le_mod_geq)
    then show ?thesis
      using Cons 2 by (auto simp: FD_ISSET_set_bits_of length_set_bits_of)
  qed
qed auto

lemma bit_word_of_bits: "n \<le> 32 \<Longrightarrow> bit (word_of_bits fds k n) j \<longleftrightarrow> j < n \<and> FD_ISSET (k + j) fds"
  by (induction n) (auto simp: bit_or_iff bit_exp_iff possible_bit_word less_Suc_eq)

lemma nth_to_words: "i < n \<Longrightarrow> bit (to_words fds n ! i) j \<longleftrightarrow> j < 32 \<and> FD_ISSET (32 * i + j) fds"
  by (simp add: to_words_def bit_word_of_bits)

lemma length_to_words [simp]: "length (to_words fds n) = n"
  by (simp add: to_words_def)

lemma FD_ISSET_ZERO [simp]: "\<not> FD_ISSET k FD_ZERO"
  by (simp add: FD_ISSET_def FD_ZERO_def)

lemma length_ZERO: "length FD_ZERO = 16"
  by (simp add: FD_ZERO_def)

lemma to_words_from_words:
  assumes "length bs \<le> 32"
  shows "to_words (from_words bs 0 FD_ZERO) (length bs) = bs"
proof (rule nth_equalityI)
  fix i assume "i < length (to_words (from_words bs 0 FD_ZERO) (length bs))"
  then have i: "i < length bs" by simp
  show "to_words (from_words bs 0 FD_ZERO) (length bs) ! i = bs ! i"
  proof (rule bit_word_eqI)
    fix j assume "j < LENGTH(32)"
    then show "bit (to_words (from_words bs 0 FD_ZERO) (length bs) ! i) j = bit (bs ! i) j"
      using i assms by (simp add: nth_to_words FD_ISSET_from_words length_ZERO)
  qed
qed simp

lemma fdset_words_le:
  assumes "n \<le>s 1024"
  shows "fdset_words n \<le> 32"
  using assms by (simp add: fdset_words_def word_sle_eq)

text \<open>
  C39: for at most 1024 descriptors, the guest's set arrives with exactly the guest's
  descriptors in it, and copying the host's set out again without a change leaves
  the guest's memory as it was. For more descriptors the copy would run over the end
  of the host's set.
\<close>
theorem fdset_round_trip:
  assumes "base s + ucast a \<noteq> 0" and "n \<le>s 1024"
  shows "\<exists>fds. run_state (copy_from_user_fdset a n) s = (Inr fds, s) \<and>
    (\<forall>k. FD_ISSET k fds \<longleftrightarrow>
       k < 32 * fdset_words n \<and> bit (ld32 (mem s) (base s + ucast a + of_nat (4 * (k div 32)))) (k mod 32)) \<and>
    run_state (copy_to_user_fdset a fds n) s = (0, s)"
proof -
  let ?p = "base s + ucast a"
  let ?bs = "load_list ld32 4 (mem s) ?p (fdset_words n)"
  have len: "length ?bs = fdset_words n"
    by simp
  then have le: "length ?bs \<le> 32"
    using fdset_words_le [OF assms(2)] by simp
  have "FD_ISSET k (from_words ?bs 0 FD_ZERO) \<longleftrightarrow>
      k < 32 * fdset_words n \<and> bit (ld32 (mem s) (?p + of_nat (4 * (k div 32)))) (k mod 32)" for k
    using le len by (auto simp: FD_ISSET_from_words length_ZERO nth_load_list less_mult_imp_div_less mult.commute)
  moreover have "to_words (from_words ?bs 0 FD_ZERO) (fdset_words n) = ?bs"
    using to_words_from_words [OF le] len by simp
  then have "run_state (copy_to_user_fdset a (from_words ?bs 0 FD_ZERO) n) s = (0, s)"
    using assms(1) by (simp add: copy_to_user_fdset_def run_simps c32.store_load_list)
  ultimately show ?thesis
    using assms(1) by (intro exI [of _ "from_words ?bs 0 FD_ZERO"]) (simp add: copy_from_user_fdset_def run_simps)
qed

theorem fdset_round_trip_witness:
  "\<exists>fds. run_state (copy_from_user_fdset 0x1000 40) \<lparr>mem = (\<lambda>_. 4), errno = 0, kern = (), base = 0\<rparr> =
      (Inr fds, \<lparr>mem = (\<lambda>_. 4), errno = 0, kern = (), base = 0\<rparr>) \<and> \<not> FD_ISSET 64 fds"
proof -
  have "(40 :: 32 word) \<le>s 1024"
    by (simp add: word_sle_eq)
  from fdset_round_trip [OF _ this, of "\<lparr>mem = (\<lambda>_. 4), errno = 0, kern = (), base = 0\<rparr>" "0x1000"]
  show ?thesis
    by (auto simp: fdset_words_def)
qed

text \<open>
  After a set is copied out, the guest's words hold exactly the host's
  descriptors, bit by bit, for every set and every number of descriptors, and no
  byte outside those words changes.
\<close>
theorem fdset_copied_out:
  assumes "base s + ucast a \<noteq> 0" and "run_state (copy_to_user_fdset a fds n) s = (r, s')"
    and "k < 32 * fdset_words n" and "4 * fdset_words n \<le> unat (x - (base s + ucast a))"
  shows "r = 0 \<and> (bit (ld32 (mem s') (base s + ucast a + of_nat (4 * (k div 32)))) (k mod 32) \<longleftrightarrow> FD_ISSET k fds) \<and>
    mem s' x = mem s x"
proof -
  let ?p = "base s + ucast a"
  let ?ws = "to_words fds (fdset_words n)"
  have m: "r = 0" "mem s' = store_list st32 4 (mem s) ?p ?ws"
    using assms(1,2) by (auto simp: copy_to_user_fdset_def run_simps)
  have "4 * fdset_words n < 2 ^ 64"
    using assms(4) unsigned_less [of "x - ?p", where ?'a = nat] by simp
  then have "load_list ld32 4 (mem s') ?p (fdset_words n) = ?ws"
    using c32.load_store_list [of ?ws "mem s" ?p] m(2) by simp
  moreover have "k div 32 < fdset_words n"
    using assms(3) by (simp add: less_mult_imp_div_less mult.commute)
  ultimately have "ld32 (mem s') (?p + of_nat (4 * (k div 32))) = ?ws ! (k div 32)"
    using nth_load_list [of "k div 32" "fdset_words n" ld32 4 "mem s'" ?p] by simp
  moreover have "mem s' x = mem s x"
    unfolding m(2) using assms(4) by (intro c32.store_list_frame) (simp add: mult.commute)
  ultimately show ?thesis
    using m(1) nth_to_words [OF \<open>k div 32 < fdset_words n\<close>, of fds "k mod 32"] by simp
qed

theorem fdset_copied_out_witness:
  "bit (ld32 (mem (snd (run_state (copy_to_user_fdset 0x1000 (FD_SET 35 FD_ZERO) 40)
     \<lparr>mem = (\<lambda>_. 4), errno = 0, kern = (), base = 0\<rparr>))) (0x1000 + of_nat (4 * (35 div 32)))) (35 mod 32)"
  using fdset_copied_out [OF _ surjective_pairing, where s = "\<lparr>mem = (\<lambda>_. 4), errno = 0, kern = (), base = 0\<rparr>"
      and a = "0x1000" and fds = "FD_SET 35 FD_ZERO" and n = 40 and k = 35 and x = "0x2000"]
  by (simp add: fdset_words_def FD_ISSET_SET length_ZERO)

end
