(* ===== verification/Thunk.thy ===== *)
theory Thunk
  imports Machine
begin

text \<open>
  The conversion engine of \<open>translatedthunk.c\<close> and \<open>translatedthunk.h\<close>: type
  descriptors as the C code has them (a stream of ints), the size and alignment
  of a type on either side, the layout of registered structures, the generic
  conversion between the guest's and the host's representation in memory, and
  the table-driven translation of bit masks.
\<close>

section \<open>Descriptors\<close>

type_synonym argtype = int

abbreviation (input) TYPE_NULL :: argtype where "TYPE_NULL \<equiv> 0"
abbreviation (input) TYPE_CHAR :: argtype where "TYPE_CHAR \<equiv> 1"
abbreviation (input) TYPE_SHORT :: argtype where "TYPE_SHORT \<equiv> 2"
abbreviation (input) TYPE_INT :: argtype where "TYPE_INT \<equiv> 3"
abbreviation (input) TYPE_LONG :: argtype where "TYPE_LONG \<equiv> 4"
abbreviation (input) TYPE_ULONG :: argtype where "TYPE_ULONG \<equiv> 5"
abbreviation (input) TYPE_PTRVOID :: argtype where "TYPE_PTRVOID \<equiv> 6"
abbreviation (input) TYPE_LONGLONG :: argtype where "TYPE_LONGLONG \<equiv> 7"
abbreviation (input) TYPE_ULONGLONG :: argtype where "TYPE_ULONGLONG \<equiv> 8"
abbreviation (input) TYPE_PTR :: argtype where "TYPE_PTR \<equiv> 9"
abbreviation (input) TYPE_ARRAY :: argtype where "TYPE_ARRAY \<equiv> 10"
abbreviation (input) TYPE_STRUCT :: argtype where "TYPE_STRUCT \<equiv> 11"

abbreviation (input) HOST_LONG_SIZE :: int where "HOST_LONG_SIZE \<equiv> 8"
abbreviation (input) TARGET_ABI_BITS :: int where "TARGET_ABI_BITS \<equiv> 32"

text \<open>
  A structure. The two-element C arrays \<open>field_offsets\<close>, \<open>size\<close> and \<open>align\<close>
  are functions of the side (\<open>True\<close> is \<open>THUNK_HOST\<close>, index 1); the pair of
  conversion functions, when present, maps the memory for a side, a destination
  and a source.
\<close>

record StructEntry =
  field_types :: "argtype list"
  nb_fields :: nat
  field_offsets :: "bool \<Rightarrow> int list"
  convert :: "(bool \<Rightarrow> memory \<Rightarrow> addr \<Rightarrow> addr \<Rightarrow> memory) option"
  se_size :: "bool \<Rightarrow> int"
  se_align :: "bool \<Rightarrow> int"
  se_name :: string

type_synonym struct_entries = "int \<Rightarrow> StructEntry"

text \<open>The zero-initialised static entry.\<close>

definition null_entry :: StructEntry where
  "null_entry = \<lparr>field_types = [], nb_fields = 0, field_offsets = (\<lambda>_. []), convert = None,
     se_size = (\<lambda>_. 0), se_align = (\<lambda>_. 0), se_name = ''''\<rparr>"

text \<open>
  A pointer into a descriptor is the rest of the stream. \<open>NULL\<close>, and the read
  behind the end of a stream that C leaves undefined, are \<open>None\<close>.
\<close>

fun thunk_type_next :: "argtype list \<Rightarrow> argtype list option" where
  "thunk_type_next [] = None"
| "thunk_type_next (ty # tp) =
     (if ty \<in> {TYPE_CHAR, TYPE_SHORT, TYPE_INT, TYPE_LONGLONG, TYPE_ULONGLONG, TYPE_LONG,
               TYPE_ULONG, TYPE_PTRVOID} then Some tp
      else if ty = TYPE_PTR then thunk_type_next tp
      else if ty = TYPE_ARRAY then (case tp of [] \<Rightarrow> None | _ # tp' \<Rightarrow> thunk_type_next tp')
      else if ty = TYPE_STRUCT then (case tp of [] \<Rightarrow> None | _ # tp' \<Rightarrow> Some tp')
      else None)"

fun thunk_type_size :: "struct_entries \<Rightarrow> argtype list \<Rightarrow> bool \<Rightarrow> int" where
  "thunk_type_size E [] is_host = - 1"
| "thunk_type_size E (ty # tp) is_host =
     (if ty = TYPE_CHAR then 1
      else if ty = TYPE_SHORT then 2
      else if ty = TYPE_INT then 4
      else if ty \<in> {TYPE_LONGLONG, TYPE_ULONGLONG} then 8
      else if ty \<in> {TYPE_LONG, TYPE_ULONG, TYPE_PTRVOID, TYPE_PTR} then
        (if is_host then HOST_LONG_SIZE else TARGET_ABI_BITS div 8)
      else if ty = TYPE_ARRAY then
        (case tp of [] \<Rightarrow> - 1 | n # tp' \<Rightarrow> n * thunk_type_size E tp' is_host)
      else if ty = TYPE_STRUCT then
        (case tp of [] \<Rightarrow> - 1 | i # _ \<Rightarrow> se_size (E i) is_host)
      else - 1)"

fun thunk_type_align :: "struct_entries \<Rightarrow> argtype list \<Rightarrow> bool \<Rightarrow> int" where
  "thunk_type_align E [] is_host = - 1"
| "thunk_type_align E (ty # tp) is_host =
     (if ty = TYPE_CHAR then 1
      else if ty = TYPE_SHORT then 2
      else if ty = TYPE_INT then 4
      else if ty \<in> {TYPE_LONGLONG, TYPE_ULONGLONG} then 8
      else if ty \<in> {TYPE_LONG, TYPE_ULONG, TYPE_PTRVOID, TYPE_PTR} then
        (if is_host then HOST_LONG_SIZE else TARGET_ABI_BITS div 8)
      else if ty = TYPE_ARRAY then
        (case tp of [] \<Rightarrow> - 1 | n # tp' \<Rightarrow> thunk_type_align E tp' is_host)
      else if ty = TYPE_STRUCT then
        (case tp of [] \<Rightarrow> - 1 | i # _ \<Rightarrow> se_align (E i) is_host)
      else - 1)"

section \<open>Registering a structure\<close>

lemma thunk_type_next_shorter: "thunk_type_next tp = Some tp' \<Longrightarrow> length tp' < length tp"
  by (induction tp rule: thunk_type_next.induct) (auto split: if_splits list.splits)

text \<open>The counting loop: \<open>None\<close> where the stream is malformed.\<close>

function count_fields :: "argtype list \<Rightarrow> nat option" where
  "count_fields [] = None"
| "count_fields (ty # tp) =
     (if ty = TYPE_NULL then Some 0
      else case thunk_type_next (ty # tp) of
             None \<Rightarrow> None
           | Some tp' \<Rightarrow> map_option Suc (count_fields tp'))"
  by pat_completeness auto
termination
  by (relation "measure length") (auto dest: thunk_type_next_shorter simp del: thunk_type_next.simps)

definition align_up :: "int \<Rightarrow> int \<Rightarrow> int" where
  "align_up off al = (off + al - 1) AND NOT (al - 1)"

text \<open>The layout loop for one side: the offsets, the end of the last field and the largest alignment.\<close>

fun layout_fields ::
  "struct_entries \<Rightarrow> bool \<Rightarrow> nat \<Rightarrow> argtype list \<Rightarrow> int \<Rightarrow> int \<Rightarrow> (int list \<times> int \<times> int) option" where
  "layout_fields E i 0 tp off mx = Some ([], off, mx)"
| "layout_fields E i (Suc n) tp off mx =
     (let sz = thunk_type_size E tp i; al = thunk_type_align E tp i; off' = align_up off al in
      case thunk_type_next tp of
        None \<Rightarrow> None
      | Some tp' \<Rightarrow>
          (case layout_fields E i n tp' (off' + sz) (if al > mx then al else mx) of
             None \<Rightarrow> None
           | Some (offs, e, mx') \<Rightarrow> Some (off' # offs, e, mx')))"

definition thunk_register_struct ::
  "struct_entries \<Rightarrow> int \<Rightarrow> string \<Rightarrow> argtype list \<Rightarrow> struct_entries option" where
  "thunk_register_struct E sid nm types =
     (case count_fields types of
        None \<Rightarrow> None
      | Some n \<Rightarrow>
          (case (layout_fields E False n types 0 1, layout_fields E True n types 0 1) of
             (Some (toffs, tend, tmx), Some (hoffs, hend, hmx)) \<Rightarrow>
               Some (E(sid := (E sid)\<lparr>field_types := types, nb_fields := n, se_name := nm,
                       field_offsets := (\<lambda>h. if h then hoffs else toffs),
                       se_size := (\<lambda>h. if h then align_up hend hmx else align_up tend tmx),
                       se_align := (\<lambda>h. if h then hmx else tmx)\<rparr>))
           | _ \<Rightarrow> None))"

definition thunk_register_struct_direct ::
  "struct_entries \<Rightarrow> int \<Rightarrow> string \<Rightarrow> StructEntry \<Rightarrow> struct_entries" where
  "thunk_register_struct_direct E sid nm se1 = E(sid := se1\<lparr>se_name := nm\<rparr>)"

section \<open>Conversion\<close>

text \<open>
  One scalar, for a 64-bit host and a 32-bit guest. \<open>TYPE_LONG\<close> is sign
  extended towards the host, the unsigned and pointer types are zero extended,
  and towards the guest the low half is kept.
\<close>

definition convert_long :: "memory \<Rightarrow> addr \<Rightarrow> addr \<Rightarrow> argtype \<Rightarrow> bool \<Rightarrow> memory" where
  "convert_long m dst src ty to_host =
     (if to_host then
        (if ty = TYPE_LONG then st64 m dst (scast (ld32 m src)) else st64 m dst (ucast (ld32 m src)))
      else st32 m dst (ucast (ld64 m src AND 0xffffffff)))"

text \<open>The two loops, over the elements of an array and over the fields of a structure.\<close>

primrec convert_elems ::
  "(memory \<Rightarrow> addr \<Rightarrow> addr \<Rightarrow> memory option) \<Rightarrow> nat \<Rightarrow> int \<Rightarrow> int \<Rightarrow> memory \<Rightarrow> addr \<Rightarrow> addr \<Rightarrow> memory option" where
  "convert_elems conv 0 dsz ssz m d s = Some m"
| "convert_elems conv (Suc n) dsz ssz m d s =
     (case conv m d s of
        None \<Rightarrow> None
      | Some m' \<Rightarrow> convert_elems conv n dsz ssz m' (d + of_int dsz) (s + of_int ssz))"

fun convert_fields ::
  "(memory \<Rightarrow> addr \<Rightarrow> addr \<Rightarrow> argtype list \<Rightarrow> (memory \<times> argtype list) option) \<Rightarrow> (int \<times> int) list \<Rightarrow>
   memory \<Rightarrow> addr \<Rightarrow> addr \<Rightarrow> argtype list \<Rightarrow> memory option" where
  "convert_fields conv [] m d s ft = Some m"
| "convert_fields conv ((doff, soff) # offs) m d s ft =
     (case conv m (d + of_int doff) (s + of_int soff) ft of
        None \<Rightarrow> None
      | Some (m', ft') \<Rightarrow> convert_fields conv offs m' d s ft')"

text \<open>
  \<open>thunk_convert\<close>. The recursion goes into array elements and structure
  fields; its depth is the fuel. An invalid type writes a message and changes
  nothing.
\<close>

primrec thunk_convert ::
  "nat \<Rightarrow> struct_entries \<Rightarrow> memory \<Rightarrow> addr \<Rightarrow> addr \<Rightarrow> argtype list \<Rightarrow> bool \<Rightarrow> (memory \<times> argtype list) option" where
  "thunk_convert 0 E m dst src tps to_host = None"
| "thunk_convert (Suc fuel) E m dst src tps to_host =
     (case tps of
        [] \<Rightarrow> None
      | ty # tp \<Rightarrow>
          (if ty = TYPE_CHAR then Some (st8 m dst (ld8 m src), tp)
           else if ty = TYPE_SHORT then Some (st16 m dst (ld16 m src), tp)
           else if ty = TYPE_INT then Some (st32 m dst (ld32 m src), tp)
           else if ty \<in> {TYPE_LONGLONG, TYPE_ULONGLONG} then Some (st64 m dst (ld64 m src), tp)
           else if ty \<in> {TYPE_LONG, TYPE_ULONG, TYPE_PTRVOID} then
             Some (convert_long m dst src ty to_host, tp)
           else if ty = TYPE_ARRAY then
             (case tp of
                [] \<Rightarrow> None
              | len # et \<Rightarrow>
                  (case convert_elems
                          (\<lambda>m d s. map_option fst (thunk_convert fuel E m d s et to_host))
                          (nat len) (thunk_type_size E et to_host) (thunk_type_size E et (\<not> to_host)) m dst src of
                     None \<Rightarrow> None
                   | Some m' \<Rightarrow> map_option (\<lambda>tp'. (m', tp')) (thunk_type_next et)))
           else if ty = TYPE_STRUCT then
             (case tp of
                [] \<Rightarrow> None
              | i # tp' \<Rightarrow>
                  (let se = E i in
                   case convert se of
                     Some conv \<Rightarrow> Some (conv to_host m dst src, tp')
                   | None \<Rightarrow>
                       map_option (\<lambda>m'. (m', tp'))
                         (convert_fields (\<lambda>m d s ft. thunk_convert fuel E m d s ft to_host)
                            (take (nb_fields se) (zip (field_offsets se to_host) (field_offsets se (\<not> to_host))))
                            m dst src (field_types se))))
           else Some (m, tp)))"

section \<open>Bit masks\<close>

record bitmask_transtbl =
  x86_mask :: "32 word"
  x86_bits :: "32 word"
  alpha_mask :: "32 word"
  alpha_bits :: "32 word"

fun target_to_host_bitmask_loop :: "32 word \<Rightarrow> bitmask_transtbl list \<Rightarrow> 32 word \<Rightarrow> 32 word" where
  "target_to_host_bitmask_loop x [] acc = acc"
| "target_to_host_bitmask_loop x (b # bs) acc =
     (if x86_mask b \<noteq> 0 \<and> alpha_mask b \<noteq> 0 then
        target_to_host_bitmask_loop x bs (if x AND x86_mask b = x86_bits b then acc OR alpha_bits b else acc)
      else acc)"

definition target_to_host_bitmask :: "32 word \<Rightarrow> bitmask_transtbl list \<Rightarrow> 32 word" where
  "target_to_host_bitmask x tbl = target_to_host_bitmask_loop x tbl 0"

fun host_to_target_bitmask_loop :: "32 word \<Rightarrow> bitmask_transtbl list \<Rightarrow> 32 word \<Rightarrow> 32 word" where
  "host_to_target_bitmask_loop a [] acc = acc"
| "host_to_target_bitmask_loop a (b # bs) acc =
     (if x86_mask b \<noteq> 0 \<and> alpha_mask b \<noteq> 0 then
        host_to_target_bitmask_loop a bs (if a AND alpha_mask b = alpha_bits b then acc OR x86_bits b else acc)
      else acc)"

definition host_to_target_bitmask :: "32 word \<Rightarrow> bitmask_transtbl list \<Rightarrow> 32 word" where
  "host_to_target_bitmask a tbl = host_to_target_bitmask_loop a tbl 0"

definition tblent :: "32 word \<Rightarrow> 32 word \<Rightarrow> 32 word \<Rightarrow> 32 word \<Rightarrow> bitmask_transtbl" where
  "tblent a b c d = \<lparr>x86_mask = a, x86_bits = b, alpha_mask = c, alpha_bits = d\<rparr>"

section \<open>What the tables do\<close>

text \<open>The entries a loop looks at: those in front of the first with a zero mask.\<close>

definition live_entries :: "bitmask_transtbl list \<Rightarrow> bitmask_transtbl list" where
  "live_entries tbl = takeWhile (\<lambda>b. x86_mask b \<noteq> 0 \<and> alpha_mask b \<noteq> 0) tbl"

lemma bit_target_to_host_loop:
  "bit (target_to_host_bitmask_loop x tbl acc) n \<longleftrightarrow>
     bit acc n \<or> (\<exists>b \<in> set (live_entries tbl). x AND x86_mask b = x86_bits b \<and> bit (alpha_bits b) n)"
  by (induction x tbl acc rule: target_to_host_bitmask_loop.induct) (auto simp: live_entries_def bit_or_iff)

lemma bit_host_to_target_loop:
  "bit (host_to_target_bitmask_loop a tbl acc) n \<longleftrightarrow>
     bit acc n \<or> (\<exists>b \<in> set (live_entries tbl). a AND alpha_mask b = alpha_bits b \<and> bit (x86_bits b) n)"
  by (induction a tbl acc rule: host_to_target_bitmask_loop.induct) (auto simp: live_entries_def bit_or_iff)

text \<open>
  An entry of one bit that is the same on both sides; a table of such entries keeps
  the bits it knows and drops the others, in both directions.
\<close>

definition single_bits :: "32 word list" where
  "single_bits =
    [0x1, 0x2, 0x4, 0x8, 0x10, 0x20, 0x40, 0x80, 0x100, 0x200, 0x400, 0x800, 0x1000, 0x2000, 0x4000,
     0x8000, 0x10000, 0x20000, 0x40000, 0x80000, 0x100000, 0x200000, 0x400000, 0x800000, 0x1000000,
     0x2000000, 0x4000000, 0x8000000, 0x10000000, 0x20000000, 0x40000000, 0x80000000]"

lemma single_bits_eq: "single_bits = map (\<lambda>k. 2 ^ k) [0..<32]"
  by (simp add: single_bits_def upt_rec)

lemma single_bitD: "m \<in> set single_bits \<Longrightarrow> \<exists>k < 32. m = 2 ^ k"
  by (auto simp: single_bits_eq)

definition one_bit_entry :: "bitmask_transtbl \<Rightarrow> bool" where
  "one_bit_entry b \<longleftrightarrow> x86_mask b \<in> set single_bits \<and>
     x86_bits b = x86_mask b \<and> alpha_mask b = x86_mask b \<and> alpha_bits b = x86_mask b"

definition known_bits :: "bitmask_transtbl list \<Rightarrow> 32 word" where
  "known_bits tbl = foldr (OR) (map x86_mask tbl) 0"

lemma bit_known_bits: "bit (known_bits tbl) n \<longleftrightarrow> (\<exists>b \<in> set tbl. bit (x86_mask b) n)"
  by (induction tbl) (auto simp: known_bits_def bit_or_iff)

lemma and_bit_eq:
  fixes x :: "'a::len word"
  assumes "k < LENGTH('a)"
  shows "x AND 2 ^ k = 2 ^ k \<longleftrightarrow> bit x k"
proof
  assume "x AND 2 ^ k = 2 ^ k"
  then have "bit (x AND 2 ^ k) k = bit (2 ^ k :: 'a word) k" by simp
  then show "bit x k" using assms by (simp add: bit_and_iff bit_exp_iff)
next
  assume "bit x k"
  then show "x AND 2 ^ k = 2 ^ k"
    by (intro bit_word_eqI) (auto simp: bit_and_iff bit_exp_iff)
qed

lemma and_one_bit:
  fixes x :: "'a::len word"
  assumes "k < LENGTH('a)"
  shows "x AND 2 ^ k = 0 \<or> x AND 2 ^ k = 2 ^ k"
proof (cases "bit x k")
  case False
  then have "x AND 2 ^ k = 0"
    by (intro bit_word_eqI) (auto simp: bit_and_iff bit_exp_iff)
  then show ?thesis ..
qed (use assms in \<open>simp add: and_bit_eq\<close>)

lemma one_bit_table:
  assumes "list_all one_bit_entry (live_entries tbl)"
  shows "target_to_host_bitmask x tbl = x AND known_bits (live_entries tbl)"
    and "host_to_target_bitmask x tbl = x AND known_bits (live_entries tbl)"
proof -
  have entry: "(x AND x86_mask b = x86_mask b \<and> bit (x86_mask b) n) = (bit x n \<and> bit (x86_mask b) n)"
    if b: "b \<in> set (live_entries tbl)" for b n
  proof -
    obtain k where k: "k < 32" "x86_mask b = 2 ^ k"
      using assms b by (auto simp: list_all_iff one_bit_entry_def dest!: single_bitD)
    show ?thesis
      unfolding k(2) using k(1) by (auto simp: and_bit_eq bit_exp_iff)
  qed
  have same: "x86_bits b = x86_mask b" "alpha_mask b = x86_mask b" "alpha_bits b = x86_mask b"
    if "b \<in> set (live_entries tbl)" for b
    using assms that by (auto simp: list_all_iff one_bit_entry_def)
  show "target_to_host_bitmask x tbl = x AND known_bits (live_entries tbl)"
    by (rule bit_eqI)
      (auto simp: target_to_host_bitmask_def bit_target_to_host_loop bit_and_iff bit_known_bits same entry)
  show "host_to_target_bitmask x tbl = x AND known_bits (live_entries tbl)"
    by (rule bit_eqI)
      (auto simp: host_to_target_bitmask_def bit_host_to_target_loop bit_and_iff bit_known_bits same entry)
qed

text \<open>
  A table whose entries are the same on both sides translates both ways alike, and
  one built from fields (a mask with the values that are known for it) and single
  bits keeps each field when its value is known and each bit.
\<close>

definition same_entry :: "bitmask_transtbl \<Rightarrow> bool" where
  "same_entry b \<longleftrightarrow> alpha_mask b = x86_mask b \<and> alpha_bits b = x86_bits b"

lemma same_table:
  "list_all same_entry tbl \<Longrightarrow> host_to_target_bitmask x tbl = target_to_host_bitmask x tbl"
proof -
  have "list_all same_entry tbl \<Longrightarrow> host_to_target_bitmask_loop x tbl acc = target_to_host_bitmask_loop x tbl acc" for acc
    by (induction tbl arbitrary: acc) (auto simp: same_entry_def)
  then show "list_all same_entry tbl \<Longrightarrow> host_to_target_bitmask x tbl = target_to_host_bitmask x tbl"
    by (simp add: host_to_target_bitmask_def target_to_host_bitmask_def)
qed

definition field_entries :: "32 word \<Rightarrow> 32 word list \<Rightarrow> bitmask_transtbl list" where
  "field_entries m vs = map (\<lambda>v. tblent m v m v) vs"

definition bit_entries :: "32 word list \<Rightarrow> bitmask_transtbl list" where
  "bit_entries ms = map (\<lambda>m. tblent m m m m) ms"

lemma loop_field_entries:
  assumes "m \<noteq> 0"
  shows "target_to_host_bitmask_loop x (field_entries m vs @ tbl) acc =
     target_to_host_bitmask_loop x tbl (acc OR (if x AND m \<in> set vs then x AND m else 0))"
proof (induction vs arbitrary: acc)
  case (Cons v vs)
  show ?case
    using assms Cons.IH [unfolded field_entries_def]
    by (auto simp: field_entries_def tblent_def or.assoc)
qed (simp add: field_entries_def)

lemma loop_full_field:
  assumes "m \<noteq> 0" and "x AND m \<in> set vs"
  shows "target_to_host_bitmask_loop x (field_entries m vs @ tbl) acc =
     target_to_host_bitmask_loop x tbl (acc OR (x AND m))"
  using assms by (simp add: loop_field_entries)

lemma loop_bit_entries:
  assumes "set ms \<subseteq> set single_bits"
  shows "target_to_host_bitmask_loop x (bit_entries ms @ tbl) acc =
     target_to_host_bitmask_loop x tbl (acc OR (x AND foldr (OR) ms 0))"
  using assms
proof (induction ms arbitrary: acc)
  case (Cons m ms)
  then obtain k where k: "m = 2 ^ k" "k < 32" by (auto dest: single_bitD)
  have "m \<noteq> 0" using k by simp
  moreover have "x AND m = 0 \<or> x AND m = m"
    using and_one_bit [of k x] k by auto
  ultimately show ?case
    using Cons.IH [unfolded bit_entries_def] Cons.prems
    by (auto simp: bit_entries_def tblent_def bit.conj_disj_distrib or.assoc)
qed (simp add: bit_entries_def)

lemma loop_end: "target_to_host_bitmask_loop x [tblent 0 0 0 0] acc = acc"
  by (simp add: tblent_def)

text \<open>The way back is the way there on the table with its sides exchanged.\<close>

definition swap_entry :: "bitmask_transtbl \<Rightarrow> bitmask_transtbl" where
  "swap_entry b = tblent (alpha_mask b) (alpha_bits b) (x86_mask b) (x86_bits b)"

lemma host_to_target_swap: "host_to_target_bitmask_loop a tbl acc = target_to_host_bitmask_loop a (map swap_entry tbl) acc"
  by (induction tbl arbitrary: acc) (simp_all add: swap_entry_def tblent_def)

lemma swap_entries [simp]:
  "map swap_entry (field_entries m vs) = field_entries m vs" "map swap_entry (bit_entries ms) = bit_entries ms"
  "swap_entry (tblent a b c d) = tblent c d a b"
  by (simp_all add: field_entries_def bit_entries_def swap_entry_def tblent_def)

section \<open>What the layout is\<close>

text \<open>The alignments of the basic types, and so of every structure made of them.\<close>

definition good_align :: "int \<Rightarrow> bool" where
  "good_align al \<longleftrightarrow> al \<in> {1, 2, 4, 8}"

lemma and_not_mask_int: "(x :: int) AND NOT (2 ^ k - 1) = (x div 2 ^ k) * 2 ^ k"
proof -
  have "(x :: int) AND NOT (mask k) = push_bit k (drop_bit k x)"
    by (rule bit_eqI) (auto simp: bit_simps)
  then show ?thesis
    by (simp add: mask_eq_exp_minus_1 push_bit_eq_mult drop_bit_eq_div)
qed

lemma align_up_good:
  assumes "good_align al"
  shows "al dvd align_up off al" "off \<le> align_up off al" "align_up off al < off + al"
proof -
  obtain k where al: "al = 2 ^ k"
    using assms that [of 0] that [of 1] that [of 2] that [of 3] by (auto simp: good_align_def)
  have eq: "align_up off al = (off + al - 1) div al * al"
    by (simp add: align_up_def al and_not_mask_int)
  have pos: "0 < al" by (simp add: al)
  show "al dvd align_up off al" by (simp add: eq)
  have "(off + al - 1) div al * al = (off + al - 1) - (off + al - 1) mod al"
    by (simp add: minus_mod_eq_div_mult)
  moreover have "0 \<le> (off + al - 1) mod al" "(off + al - 1) mod al < al"
    using pos by simp_all
  ultimately show "off \<le> align_up off al" "align_up off al < off + al"
    by (simp_all add: eq)
qed

text \<open>The descriptors of the first \<open>n\<close> fields of a stream.\<close>

fun fields_from :: "nat \<Rightarrow> argtype list \<Rightarrow> argtype list list" where
  "fields_from 0 tp = []"
| "fields_from (Suc n) tp =
     tp # (case thunk_type_next tp of None \<Rightarrow> [] | Some tp' \<Rightarrow> fields_from n tp')"

text \<open>A layout: every field aligned, in order, without overlap, between \<open>lo\<close> and \<open>hi\<close>.\<close>

fun laid_out :: "struct_entries \<Rightarrow> bool \<Rightarrow> argtype list list \<Rightarrow> int list \<Rightarrow> int \<Rightarrow> int \<Rightarrow> bool" where
  "laid_out E h [] [] lo hi \<longleftrightarrow> lo \<le> hi"
| "laid_out E h (f # fs) (off # offs) lo hi \<longleftrightarrow>
     lo \<le> off \<and> thunk_type_align E f h dvd off \<and> laid_out E h fs offs (off + thunk_type_size E f h) hi"
| "laid_out E h _ _ lo hi \<longleftrightarrow> False"

definition good_fields :: "struct_entries \<Rightarrow> bool \<Rightarrow> argtype list list \<Rightarrow> bool" where
  "good_fields E h fs \<longleftrightarrow> list_all (\<lambda>f. good_align (thunk_type_align E f h) \<and> 0 \<le> thunk_type_size E f h) fs"

lemma laid_out_mono: "laid_out E h fs offs lo hi \<Longrightarrow> hi \<le> hi' \<Longrightarrow> laid_out E h fs offs lo hi'"
  by (induction E h fs offs lo hi rule: laid_out.induct) auto

lemma layout_fields_laid_out:
  assumes "layout_fields E h n tp off mx = Some (offs, e, mx')"
    and "good_fields E h (fields_from n tp)" and "good_align mx"
  shows "laid_out E h (fields_from n tp) offs off e \<and> good_align mx' \<and> mx dvd mx'
    \<and> list_all (\<lambda>f. thunk_type_align E f h dvd mx') (fields_from n tp)"
  using assms
proof (induction n arbitrary: tp off mx offs e mx')
  case (Suc n)
  let ?al = "thunk_type_align E tp h"
  let ?mx = "if ?al > mx then ?al else mx"
  from Suc.prems(1) obtain tp' offs' where
    tp': "thunk_type_next tp = Some tp'" and
    rest: "layout_fields E h n tp' (align_up off ?al + thunk_type_size E tp h) ?mx = Some (offs', e, mx')" and
    offs: "offs = align_up off ?al # offs'"
    by (auto simp: Let_def split: option.splits)
  have good: "good_align ?al" "good_align ?mx" "mx dvd ?mx" "?al dvd ?mx"
    using Suc.prems(2,3) tp' by (auto simp: good_fields_def good_align_def)
  have "good_fields E h (fields_from n tp')"
    using Suc.prems(2) tp' by (simp add: good_fields_def)
  from Suc.IH [OF rest this good(2)] show ?case
    using good(3,4) tp' align_up_good [OF good(1), of off]
    by (auto simp: offs intro: dvd_trans)
qed auto

text \<open>
  Registering a structure lays out its fields, on each side, in order, each at a
  multiple of its alignment, without overlap, inside the structure; the structure's
  size is a multiple of its alignment, and its alignment of that of every field.
\<close>
theorem registered_layout:
  assumes "thunk_register_struct E sid nm types = Some E'"
    and "count_fields types = Some n" and "good_fields E h (fields_from n types)"
  shows "nb_fields (E' sid) = n \<and>
    laid_out E h (fields_from n types) (field_offsets (E' sid) h) 0 (se_size (E' sid) h) \<and>
    se_align (E' sid) h dvd se_size (E' sid) h \<and>
    list_all (\<lambda>f. thunk_type_align E f h dvd se_align (E' sid) h) (fields_from n types)"
proof -
  from assms(1,2) obtain toffs tend tmx hoffs hend hmx where
    t: "layout_fields E False n types 0 1 = Some (toffs, tend, tmx)" and
    hh: "layout_fields E True n types 0 1 = Some (hoffs, hend, hmx)" and
    E': "E' = E(sid := (E sid)\<lparr>field_types := types, nb_fields := n, se_name := nm,
                       field_offsets := (\<lambda>h. if h then hoffs else toffs),
                       se_size := (\<lambda>h. if h then align_up hend hmx else align_up tend tmx),
                       se_align := (\<lambda>h. if h then hmx else tmx)\<rparr>)"
    by (auto simp: thunk_register_struct_def split: option.splits)
  have one: "good_align 1" by (simp add: good_align_def)
  show ?thesis
  proof (cases h)
    case True
    then show ?thesis
      using layout_fields_laid_out [OF hh _ one] assms(3) by (auto simp: E' align_up_good intro: laid_out_mono)
  next
    case False
    then show ?thesis
      using layout_fields_laid_out [OF t _ one] assms(3) by (auto simp: E' align_up_good intro: laid_out_mono)
  qed
qed

theorem registered_layout_witness:
  "\<exists>E'. thunk_register_struct (\<lambda>_. null_entry) 7 ''s'' [TYPE_CHAR, TYPE_LONG, TYPE_SHORT, TYPE_NULL] = Some E' \<and>
     field_offsets (E' 7) True = [0, 8, 16] \<and> se_align (E' 7) True dvd se_size (E' 7) True"
proof -
  let ?ts = "[TYPE_CHAR, TYPE_LONG, TYPE_SHORT, TYPE_NULL]"
  obtain E' where E': "thunk_register_struct (\<lambda>_. null_entry) 7 ''s'' ?ts = Some E'"
      and offs: "field_offsets (E' 7) True = [0, 8, 16]"
    by (simp add: thunk_register_struct_def align_up_def numeral_eq_Suc)
  have "count_fields ?ts = Some 3" by (simp add: numeral_eq_Suc)
  moreover have "good_fields (\<lambda>_. null_entry) True (fields_from 3 ?ts)"
    by (simp add: good_fields_def good_align_def numeral_3_eq_3)
  ultimately show ?thesis
    using registered_layout [OF E', of 3 True] E' offs by blast
qed

section \<open>What a conversion changes\<close>

text \<open>The types a conversion handles: the scalars, arrays of such types, structures.\<close>

fun convertible :: "struct_entries \<Rightarrow> bool \<Rightarrow> argtype list \<Rightarrow> bool" where
  "convertible E h [] \<longleftrightarrow> False"
| "convertible E h [ty] \<longleftrightarrow> 1 \<le> ty \<and> ty \<le> 8"
| "convertible E h (ty # n # tp) \<longleftrightarrow>
     1 \<le> ty \<and> ty \<le> 8 \<or> ty = TYPE_ARRAY \<and> 0 \<le> n \<and> convertible E h tp \<or>
     ty = TYPE_STRUCT \<and> 0 \<le> se_size (E n) h"

lemma scalar_types: "1 \<le> ty \<and> ty \<le> (8 :: int) \<longleftrightarrow> ty \<in> {1, 2, 3, 4, 5, 6, 7, 8}"
  by auto

lemma convertible_size: "convertible E h tps \<Longrightarrow> 0 \<le> thunk_type_size E tps h"
  by (induction E h tps rule: convertible.induct) (auto simp: scalar_types)

lemma convertible_next:
  "convertible E h tps \<Longrightarrow> thunk_convert fuel E m dst src tps to_host = Some (m', tps') \<Longrightarrow> thunk_type_next tps = Some tps'"
proof -
  assume c: "convertible E h tps" and t: "thunk_convert fuel E m dst src tps to_host = Some (m', tps')"
  from t obtain f where f: "fuel = Suc f" by (cases fuel) auto
  from c obtain ty tp where tps: "tps = ty # tp" by (cases tps) auto
  show ?thesis
  proof (cases "ty \<in> {1, 2, 3, 4, 5, 6, 7, 8}")
    case True
    then show ?thesis using t by (auto simp: f tps)
  next
    case False
    then obtain n et where "tp = n # et" and "ty = TYPE_ARRAY \<or> ty = TYPE_STRUCT"
      using c by (cases tp) (auto simp: tps scalar_types)
    then show ?thesis
      using t by (elim disjE) (auto simp: f tps Let_def split: option.splits)
  qed
qed

text \<open>
  Structures are well formed on the side written to: their fields are convertible
  and laid out inside them, and a converter of their own stays inside.
\<close>

definition wf_entry :: "struct_entries \<Rightarrow> bool \<Rightarrow> StructEntry \<Rightarrow> bool" where
  "wf_entry E h se \<longleftrightarrow>
     (case convert se of
        Some conv \<Rightarrow> (\<forall>m d s x. nat (se_size se h) \<le> unat (x - d) \<longrightarrow> conv h m d s x = m x)
      | None \<Rightarrow>
          laid_out E h (fields_from (nb_fields se) (field_types se)) (field_offsets se h) 0 (se_size se h) \<and>
          list_all (convertible E h) (fields_from (nb_fields se) (field_types se)))"

lemma laid_out_le: "laid_out E h fs offs lo hi \<Longrightarrow> list_all (convertible E h) fs \<Longrightarrow> lo \<le> hi"
  by (induction E h fs offs lo hi rule: laid_out.induct) (auto dest: convertible_size)

lemma laid_out_length: "laid_out E h fs offs lo hi \<Longrightarrow> length offs = length fs"
  by (induction E h fs offs lo hi rule: laid_out.induct) auto

lemma length_fields_from: "length (fields_from n tp) \<le> n"
  by (induction n arbitrary: tp) (auto split: option.splits)

lemma convert_elems_frame:
  assumes "\<And>m d s m' x. conv m d s = Some m' \<Longrightarrow> nat esz \<le> unat (x - d) \<Longrightarrow> m' x = m x" and "0 \<le> esz"
  shows "convert_elems conv n esz ssz m d s = Some m' \<Longrightarrow> nat (int n * esz) \<le> unat (x - d) \<Longrightarrow> m' x = m x"
proof (induction n arbitrary: m d s)
  case (Suc n)
  from Suc.prems(1) obtain m1 where m1: "conv m d s = Some m1"
      and rest: "convert_elems conv n esz ssz m1 (d + of_int esz) (s + of_int ssz) = Some m'"
    by (auto split: option.splits)
  have split: "nat (int (Suc n) * esz) = nat esz + nat (int n * esz)"
    using assms(2) by (simp add: algebra_simps nat_add_distrib)
  then have "unat (x - (d + of_nat (nat esz))) = unat (x - d) - nat esz"
    using Suc.prems(2) by (intro unat_beyond) linarith
  moreover have "(of_int esz :: addr) = of_nat (nat esz)"
    using assms(2) by simp
  ultimately have "nat (int n * esz) \<le> unat (x - (d + of_int esz))"
    using Suc.prems(2) split by (simp only:) linarith
  with Suc.IH [OF rest] have "m' x = m1 x" by simp
  also have "m1 x = m x"
    using assms(1) [OF m1] Suc.prems(2) split by simp
  finally show ?case .
qed simp

lemma convert_fields_frame:
  assumes conv: "\<And>m d s ft m' ft' x. convertible E h ft \<Longrightarrow> conv m d s ft = Some (m', ft') \<Longrightarrow>
      thunk_type_next ft = Some ft' \<and> (nat (thunk_type_size E ft h) \<le> unat (x - d) \<longrightarrow> m' x = m x)"
  shows "convert_fields conv (zip doffs soffs) m d s tp = Some m' \<Longrightarrow>
     laid_out E h (fields_from n tp) doffs lo hi \<Longrightarrow> list_all (convertible E h) (fields_from n tp) \<Longrightarrow>
     0 \<le> lo \<Longrightarrow> nat hi \<le> unat (x - d) \<Longrightarrow> m' x = m x"
proof (induction n arbitrary: tp doffs soffs m lo)
  case 0
  then show ?case by (cases doffs) auto
next
  case (Suc n)
  show ?case
  proof (cases "doffs = [] \<or> soffs = []")
    case True
    then show ?thesis using Suc.prems(1) by (cases doffs) auto
  next
    case False
    then obtain off offs so sos where ds: "doffs = off # offs" "soffs = so # sos"
      by (auto simp: neq_Nil_conv)
    let ?sz = "thunk_type_size E tp h"
    from Suc.prems(1) obtain m1 ft where m1: "conv m (d + of_int off) (s + of_int so) tp = Some (m1, ft)"
        and rest: "convert_fields conv (zip offs sos) m1 d s ft = Some m'"
      by (auto simp: ds split: option.splits)
    have c: "convertible E h tp" using Suc.prems(3) by simp
    have nx: "thunk_type_next tp = Some ft" using conv [OF c m1] by simp
    have lay: "lo \<le> off" "laid_out E h (fields_from n ft) offs (off + ?sz) hi"
      using Suc.prems(2) nx by (simp_all add: ds)
    have sz: "0 \<le> ?sz" by (rule convertible_size [OF c])
    have all: "list_all (convertible E h) (fields_from n ft)" using Suc.prems(3) nx by simp
    have "off + ?sz \<le> hi" by (rule laid_out_le [OF lay(2) all])
    moreover have off: "(of_int off :: addr) = of_nat (nat off)" "0 \<le> off"
      using lay(1) Suc.prems(4) by simp_all
    ultimately have "nat ?sz \<le> unat (x - (d + of_int off))"
      using Suc.prems(5) sz unat_beyond [of "nat off" x d] by simp
    with conv [OF c m1] have "m1 x = m x" by simp
    moreover have "m' x = m1 x"
      using Suc.IH [OF rest lay(2) all] Suc.prems(5) off sz by simp
    ultimately show ?thesis by simp
  qed
qed

text \<open>
  A conversion into a buffer never writes outside it, given that the table is well formed
  (which the registered one is, see the theory of the ioctl requests): whatever the type and
  whatever the bytes converted, only the bytes of the destination that belong to
  the type, as many as its size on the destination's side, can change.
\<close>
theorem thunk_convert_stays_inside:
  assumes "\<forall>i. wf_entry E to_host (E i)"
    and "convertible E to_host tps"
    and "thunk_convert fuel E m dst src tps to_host = Some (m', tps')"
    and "nat (thunk_type_size E tps to_host) \<le> unat (x - dst)"
  shows "m' x = m x"
  using assms(2-4)
proof (induction fuel arbitrary: m dst src tps m' tps' x)
  case (Suc fuel)
  have conv: "thunk_type_next ft = Some ft' \<and> (nat (thunk_type_size E ft to_host) \<le> unat (x - d) \<longrightarrow> m' x = m x)"
    if "convertible E to_host ft" "thunk_convert fuel E m d s ft to_host = Some (m', ft')" for m d s ft m' ft' x
    using Suc.IH [OF that] convertible_next [OF that] by blast
  from Suc.prems(1) obtain ty tp where tps: "tps = ty # tp" by (cases tps) auto
  consider "1 \<le> ty \<and> ty \<le> 8" | n et where "ty = TYPE_ARRAY" "tp = n # et" "0 \<le> n" "convertible E to_host et"
    | i tp' where "ty = TYPE_STRUCT" "tp = i # tp'" "0 \<le> se_size (E i) to_host"
    using Suc.prems(1) by (cases tp) (auto simp: tps)
  then show ?case
  proof cases
    case 1
    then show ?thesis
      using Suc.prems(2,3)
      by (auto simp: scalar_types tps convert_long_def c8.st_frame c16.st_frame c32.st_frame c64.st_frame split: if_splits)
  next
    case 2
    let ?conv = "\<lambda>m d s. map_option fst (thunk_convert fuel E m d s et to_host)"
    from Suc.prems(2) 2 have
      "convert_elems ?conv (nat n) (thunk_type_size E et to_host) (thunk_type_size E et (\<not> to_host)) m dst src = Some m'"
      by (auto simp: tps split: option.splits)
    then show ?thesis
    proof (rule convert_elems_frame [rotated 2])
      show "nat (int (nat n) * thunk_type_size E et to_host) \<le> unat (x - dst)"
        using Suc.prems(3) 2 by (simp add: tps)
    qed (use conv [OF 2(4)] convertible_size [OF 2(4)] in auto)
  next
    case 3
    have wf: "wf_entry E to_host (E i)" using assms(1) by blast
    show ?thesis
    proof (cases "convert (E i)")
      case (Some cv)
      then show ?thesis
        using Suc.prems(2,3) 3 wf by (auto simp: tps wf_entry_def)
    next
      case None
      let ?fs = "fields_from (nb_fields (E i)) (field_types (E i))"
      have lay: "laid_out E to_host ?fs (field_offsets (E i) to_host) 0 (se_size (E i) to_host)"
          and all: "list_all (convertible E to_host) ?fs"
        using wf None by (simp_all add: wf_entry_def)
      have "take (nb_fields (E i)) (zip (field_offsets (E i) to_host) (field_offsets (E i) (\<not> to_host)))
          = zip (field_offsets (E i) to_host) (field_offsets (E i) (\<not> to_host))"
        using laid_out_length [OF lay] length_fields_from [of "nb_fields (E i)" "field_types (E i)"] by simp
      then have "convert_fields (\<lambda>m d s ft. thunk_convert fuel E m d s ft to_host)
          (zip (field_offsets (E i) to_host) (field_offsets (E i) (\<not> to_host))) m dst src (field_types (E i)) = Some m'"
        using Suc.prems(2) 3 None by (auto simp: tps Let_def)
      then show ?thesis
        by (rule convert_fields_frame [rotated, OF _ lay all]) (use conv Suc.prems(3) 3 in \<open>auto simp: tps\<close>)
    qed
  qed
qed simp

theorem thunk_convert_stays_inside_witness:
  "\<exists>m' tps'. thunk_convert 2 (\<lambda>_. null_entry) (\<lambda>_. 7) 0x1000 0x2000 [TYPE_ARRAY, 2, TYPE_LONG] True = Some (m', tps') \<and>
     m' 0x1010 = 7"
proof -
  obtain m' tps' where c: "thunk_convert 2 (\<lambda>_. null_entry) (\<lambda>_. 7) 0x1000 0x2000 [TYPE_ARRAY, 2, TYPE_LONG] True
      = Some (m', tps')"
    by (simp add: numeral_2_eq_2 convert_long_def)
  have "m' 0x1010 = 7"
    by (rule thunk_convert_stays_inside [OF _ _ c]) (simp_all add: wf_entry_def null_entry_def)
  with c show ?thesis by blast
qed

section \<open>What the converted values are\<close>

text \<open>Two byte ranges without a byte in common.\<close>

definition apart :: "addr \<Rightarrow> nat \<Rightarrow> addr \<Rightarrow> nat \<Rightarrow> bool" where
  "apart a n b k \<longleftrightarrow> (\<forall>i < n. \<forall>j < k. a + of_nat i \<noteq> b + of_nat j)"

lemma sep_apart: "sep a n b k \<Longrightarrow> n < 2 ^ 64 \<Longrightarrow> apart a n b k"
  unfolding apart_def
proof (intro allI impI notI)
  fix i j assume "sep a n b k" "n < 2 ^ 64" "i < n" "j < k" and eq: "a + of_nat i = b + of_nat j"
  then have "\<not> unat (b + of_nat j - a) < n"
    by (intro sep_outside)
  then show False
    unfolding eq [symmetric] using \<open>i < n\<close> \<open>n < 2 ^ 64\<close> by (simp add: unat_of_nat take_bit_nat_eq_self)
qed

lemma apart_sym: "apart a n b k \<Longrightarrow> apart b k a n"
  by (auto simp: apart_def) metis

lemma apartD:
  assumes "apart a n b k" "j < k"
  shows "n \<le> unat (b + of_nat j - a)"
proof (rule ccontr)
  assume "\<not> n \<le> unat (b + of_nat j - a)"
  then have "a + of_nat (unat (b + of_nat j - a)) \<noteq> b + of_nat j"
    using assms unfolding apart_def not_le by blast
  then show False by simp
qed

lemma apart_tail:
  assumes "apart a (n + i) b (k + j)"
  shows "apart (a + of_nat i) n (b + of_nat j) k"
  unfolding apart_def
proof (intro allI impI)
  fix i' j' assume "i' < n" "j' < k"
  then have "a + of_nat (i + i') \<noteq> b + of_nat (j + j')"
    using assms by (simp add: apart_def del: of_nat_add)
  then show "a + of_nat i + of_nat i' \<noteq> b + of_nat j + of_nat j'"
    by (simp add: add.assoc)
qed

text \<open>
  An array conversion with one load and one store per element, for any two cell
  widths: as long as the two arrays do not overlap it stores the converted list.
\<close>

locale converter =
  src: cell lds sts ks + dst: cell ldd std kd
  for lds :: "memory \<Rightarrow> addr \<Rightarrow> 'v" and sts ks
    and ldd :: "memory \<Rightarrow> addr \<Rightarrow> 'w" and std kd +
  fixes f :: "'v \<Rightarrow> 'w"
begin

lemma load_list_store:
  "apart d kd s (n * ks) \<Longrightarrow> load_list lds ks (std m d v) s n = load_list lds ks m s n"
proof (induction n arbitrary: s)
  case (Suc n)
  have "lds (std m d v) s = lds m s"
    by (rule src.ld_cong, rule dst.st_frame, rule apartD [OF Suc.prems]) simp
  moreover have "apart d kd (s + of_nat ks) (n * ks)"
    using apart_tail [of d kd 0 s "n * ks" ks] Suc.prems by (simp add: add.commute)
  ultimately show ?case using Suc.IH by simp
qed simp

lemma convert_elems_store:
  "apart d (n * kd) s (n * ks) \<Longrightarrow>
     convert_elems (\<lambda>m d s. Some (std m d (f (lds m s)))) n (int kd) (int ks) m d s =
     Some (store_list std kd m d (map f (load_list lds ks m s n)))"
proof (induction n arbitrary: m d s)
  case (Suc n)
  have first: "apart d kd (s + of_nat ks) (n * ks)"
    unfolding apart_def
  proof (intro allI impI)
    fix i j assume "i < kd" "j < n * ks"
    then have "d + of_nat i \<noteq> s + of_nat (ks + j)"
      using Suc.prems by (simp add: apart_def del: of_nat_add)
    then show "d + of_nat i \<noteq> s + of_nat ks + of_nat j"
      by (simp add: add.assoc)
  qed
  have rest: "apart (d + of_nat kd) (n * kd) (s + of_nat ks) (n * ks)"
    using apart_tail [of d "n * kd" kd s "n * ks" ks] Suc.prems by (simp add: add.commute)
  show ?case
    using Suc.IH [OF rest] by (simp add: load_list_store [OF first])
qed simp

end

interpretation long_in: converter ld32 st32 4 ld64 st64 8 scast ..
interpretation ulong_in: converter ld32 st32 4 ld64 st64 8 ucast ..
interpretation long_out: converter ld64 st64 8 ld32 st32 4 "\<lambda>w. ucast (w AND 0xffffffff)" ..

lemma narrow_long: "ucast ((scast w :: 64 word) AND 0xffffffff) = (w :: 32 word)"
  and narrow_ulong: "ucast ((ucast w :: 64 word) AND 0xffffffff) = (w :: 32 word)"
proof -
  have m: "(0xffffffff :: 64 word) = mask 32" by (simp add: mask_eq_exp_minus_1)
  have top: "(if 31 \<le> n then 31 else n) = n" if "n < 32" for n :: nat
    using that by auto
  show "ucast ((scast w :: 64 word) AND 0xffffffff) = w" "ucast ((ucast w :: 64 word) AND 0xffffffff) = w"
    unfolding m by (auto intro!: bit_eqI simp: bit_simps min_def top cong: conj_cong split del: if_split)
qed

text \<open>
  An array of longs is widened element by element on its way to the host - sign
  extended for signed longs, zero extended for unsigned ones and pointers - and
  converting the result back restores the guest's array, for any length.
\<close>
theorem long_array_round_trip:
  assumes "ty \<in> {TYPE_LONG, TYPE_ULONG, TYPE_PTRVOID}" and "sep h (8 * n) g (4 * n)" and "n < 2 ^ 60"
  shows "\<exists>m1 m2.
     thunk_convert (Suc (Suc k)) E m h g (TYPE_ARRAY # int n # ty # tp) True = Some (m1, tp) \<and>
     load_list ld64 8 m1 h n = map (if ty = TYPE_LONG then scast else ucast) (load_list ld32 4 m g n) \<and>
     thunk_convert (Suc (Suc k)) E m1 g h (TYPE_ARRAY # int n # ty # tp) False = Some (m2, tp) \<and>
     load_list ld32 4 m2 g n = load_list ld32 4 m g n"
proof -
  let ?f = "if ty = TYPE_LONG then scast else ucast :: 32 word \<Rightarrow> 64 word"
  let ?xs = "load_list ld32 4 m g n"
  let ?m1 = "store_list st64 8 m h (map ?f ?xs)"
  let ?m2 = "store_list st32 4 ?m1 g ?xs"
  have ap: "apart h (n * 8) g (n * 4)" "apart g (n * 4) h (n * 8)"
    using sep_apart [OF assms(2)] assms(3) by (simp_all add: mult.commute apart_sym)
  have in_host: "load_list ld64 8 ?m1 h n = map ?f ?xs"
    using c64.load_store_list [of "map ?f ?xs" m h] assms(3) by simp
  have "thunk_convert (Suc (Suc k)) E m h g (TYPE_ARRAY # int n # ty # tp) True = Some (?m1, tp)"
    using assms(1) long_in.convert_elems_store [OF ap(1), of m] ulong_in.convert_elems_store [OF ap(1), of m]
    by (auto simp: convert_long_def)
  moreover have "map (\<lambda>w. ucast (w AND 0xffffffff)) (map ?f ?xs) = ?xs"
    by (rule nth_equalityI) (simp_all add: narrow_long narrow_ulong)
  then have "thunk_convert (Suc (Suc k)) E ?m1 g h (TYPE_ARRAY # int n # ty # tp) False = Some (?m2, tp)"
    using assms(1) long_out.convert_elems_store [OF ap(2), of ?m1]
    by (auto simp: convert_long_def in_host simp del: map_map)
  moreover have "load_list ld32 4 ?m2 g n = ?xs"
    using c32.load_store_list [of ?xs ?m1 g] assms(3) by simp
  ultimately show ?thesis
    using in_host by blast
qed

theorem long_array_round_trip_witness:
  "\<exists>m1 m2.
     thunk_convert (Suc (Suc 0)) (\<lambda>_. null_entry) (\<lambda>_. 0xff) 0x1000 0x2000 [TYPE_ARRAY, int 3, TYPE_LONG] True =
       Some (m1, []) \<and>
     load_list ld64 8 m1 0x1000 3 = map scast (load_list ld32 4 (\<lambda>_. 0xff) 0x2000 3) \<and>
     thunk_convert (Suc (Suc 0)) (\<lambda>_. null_entry) m1 0x2000 0x1000 [TYPE_ARRAY, int 3, TYPE_LONG] False =
       Some (m2, [])"
proof -
  have ty: "TYPE_LONG \<in> {TYPE_LONG, TYPE_ULONG, TYPE_PTRVOID}" and sep: "sep 0x1000 (8 * 3) 0x2000 (4 * 3)"
    and n: "(3 :: nat) < 2 ^ 60"
    by (simp_all add: sep_def)
  show ?thesis
    using long_array_round_trip [OF ty sep n, of 0 "\<lambda>_. null_entry" "\<lambda>_. 0xff" "[]"]
    unfolding if_P [OF refl] by blast
qed

end
