(* ===== verification/Fcntl.thy ===== *)
theory Fcntl
  imports Errno Thunk
begin

text \<open>
  Fcntl in \<open>translatedsyscall.c\<close>: the table of open flags, the command numbers,
  \<open>do_fcntl\<close> with its two lock structures, and the 16-bit user and group ids.
\<close>

section \<open>Open flags\<close>

text \<open>
  ACCMODE (WRONLY, RDWR), CREAT, EXCL, NOCTTY, TRUNC, APPEND, NONBLOCK, SYNC,
  ASYNC, DIRECTORY, NOFOLLOW, LARGEFILE, DIRECT: the numbers of an i386 guest
  (\<open>translatedsyscalldefs.h\<close>) and of the x86-64 C library, whose SYNC has two
  bits and whose LARGEFILE is 0.
\<close>

definition fcntl_flags_tbl :: "bitmask_transtbl list" where
  "fcntl_flags_tbl =
    [tblent 0x3 0x1 0x3 0x1, tblent 0x3 0x2 0x3 0x2,
     tblent 0x40 0x40 0x40 0x40, tblent 0x80 0x80 0x80 0x80,
     tblent 0x100 0x100 0x100 0x100, tblent 0x200 0x200 0x200 0x200,
     tblent 0x400 0x400 0x400 0x400, tblent 0x800 0x800 0x800 0x800,
     tblent 0x1000 0x1000 0x101000 0x101000, tblent 0x2000 0x2000 0x2000 0x2000,
     tblent 0x10000 0x10000 0x10000 0x10000, tblent 0x20000 0x20000 0x20000 0x20000,
     tblent 0x8000 0x8000 0 0, tblent 0x4000 0x4000 0x4000 0x4000,
     tblent 0 0 0 0]"

section \<open>Commands\<close>

text \<open>
  DUPFD 0, GETFD 1, SETFD 2, GETFL 3, SETFL 4, GETLK 5, SETLK 6, SETLKW 7,
  SETOWN 8, GETOWN 9, SETSIG 10, GETSIG 11, GETLK64 12, SETLK64 13, SETLKW64 14,
  SETLEASE 1024, GETLEASE 1025, NOTIFY 1026, DUPFD_CLOEXEC 1030; on the x86-64
  host the 64-bit lock commands are the plain ones, 5 to 7.
\<close>

definition target_to_host_fcntl_cmd :: "32 word \<Rightarrow> 32 word" where
  "target_to_host_fcntl_cmd cmd =
     (if cmd \<in> {0, 1, 2, 3, 4} then cmd
      else if cmd = 5 then 5 else if cmd = 6 then 6 else if cmd = 7 then 7
      else if cmd = 9 then 9 else if cmd = 8 then 8
      else if cmd = 11 then 11 else if cmd = 10 then 10
      else if cmd = 12 then 5 else if cmd = 13 then 6 else if cmd = 14 then 7
      else if cmd = 1024 then 1024 else if cmd = 1025 then 1025
      else if cmd = 1030 then 1030 else if cmd = 1026 then 1026
      else - TARGET_EINVAL)"

section \<open>Lock structures\<close>

text \<open>
  The guest's \<open>flock\<close>: type at 0, whence 2, start 4, len 8, pid 12. The packed
  \<open>flock64\<close>: start 4, len 12, pid 20, the two middle fields of eight bytes. The
  host's: type 0, whence 2, start 8, len 16, pid 24; 32 bytes.
\<close>

definition host_flock :: "16 word \<Rightarrow> 16 word \<Rightarrow> 64 word \<Rightarrow> 64 word \<Rightarrow> 32 word \<Rightarrow> bytes" where
  "host_flock ty whence start len pid =
     le16 ty @ le16 whence @ replicate 4 0 @ le64 start @ le64 len @ le32 pid @ replicate 4 0"

definition rd_flock :: "addr \<Rightarrow> ('k, 'z, bytes) C" where
  "rd_flock p = do {
     ty \<leftarrow> rd16 p; whence \<leftarrow> rd16 (p + 2); start \<leftarrow> rd32 (p + 4); len \<leftarrow> rd32 (p + 8); pid \<leftarrow> rd32 (p + 12);
     ret (host_flock ty whence (ucast start) (ucast len) pid) }"

definition wr_flock :: "addr \<Rightarrow> bytes \<Rightarrow> ('k, 'z, unit) C" where
  "wr_flock p fl = do {
     wr16 p (fld16 fl 0); wr16 (p + 2) (fld16 fl 2); wr32 (p + 4) (ucast (fld64 fl 8));
     wr32 (p + 8) (ucast (fld64 fl 16)); wr32 (p + 12) (fld32 fl 24) }"

text \<open>The 64-bit variants of \<open>do_fcntl\<close> shift the signed lock type right by one, in both directions.\<close>

definition rd_flock64_shifted :: "addr \<Rightarrow> ('k, 'z, bytes) C" where
  "rd_flock64_shifted p = do {
     ty \<leftarrow> rd16 p; whence \<leftarrow> rd16 (p + 2); start \<leftarrow> rd64 (p + 4); len \<leftarrow> rd64 (p + 12); pid \<leftarrow> rd32 (p + 20);
     ret (host_flock (signed_drop_bit 1 ty) whence start len pid) }"

definition wr_flock64_shifted :: "addr \<Rightarrow> bytes \<Rightarrow> ('k, 'z, unit) C" where
  "wr_flock64_shifted p fl = do {
     wr16 p (signed_drop_bit 1 (fld16 fl 0)); wr16 (p + 2) (fld16 fl 2); wr64 (p + 4) (fld64 fl 8);
     wr64 (p + 12) (fld64 fl 16); wr32 (p + 20) (fld32 fl 24) }"

text \<open>The two variants of the fcntl64 system call itself do not shift.\<close>

definition rd_flock64 :: "addr \<Rightarrow> ('k, 'z, bytes) C" where
  "rd_flock64 p = do {
     ty \<leftarrow> rd16 p; whence \<leftarrow> rd16 (p + 2); start \<leftarrow> rd64 (p + 4); len \<leftarrow> rd64 (p + 12); pid \<leftarrow> rd32 (p + 20);
     ret (host_flock ty whence start len pid) }"

definition wr_flock64 :: "addr \<Rightarrow> bytes \<Rightarrow> ('k, 'z, unit) C" where
  "wr_flock64 p fl = do {
     wr16 p (fld16 fl 0); wr16 (p + 2) (fld16 fl 2); wr64 (p + 4) (fld64 fl 8);
     wr64 (p + 12) (fld64 fl 16); wr32 (p + 20) (fld32 fl 24) }"

section \<open>do_fcntl\<close>

text \<open>A lock command: the structure in, the host's call, and for a query that succeeded the structure out.\<close>

definition fcntl_lock ::
  "'k host \<Rightarrow> (addr \<Rightarrow> ('k, 'z, bytes) C) \<Rightarrow> (addr \<Rightarrow> bytes \<Rightarrow> ('k, 'z, unit) C) option \<Rightarrow>
   32 word \<Rightarrow> 32 word \<Rightarrow> abi_ulong \<Rightarrow> ('k, 'z, abi_long) C" where
  "fcntl_lock H rd wr fd hcmd arg = do {
     p \<leftarrow> lock_user arg;
     if p = 0 then ret (- TARGET_EFAULT)
     else do {
       fl \<leftarrow> rd p;
       (r, outs) \<leftarrow> hcall H ''fcntl'' [W (scast fd), W (scast hcmd), In fl];
       r' \<leftarrow> get_errno (ucast r);
       (case wr of
          None \<Rightarrow> ret r'
        | Some put \<Rightarrow>
            if r' = 0 then do {
              q \<leftarrow> lock_user arg;
              if q = 0 then ret (- TARGET_EFAULT)
              else do { put q (out outs 2); ret r' } }
            else ret r') } }"

definition do_fcntl :: "'k host \<Rightarrow> 32 word \<Rightarrow> 32 word \<Rightarrow> abi_ulong \<Rightarrow> ('k, 'z, abi_long) C" where
  "do_fcntl H fd cmd arg =
     (let hcmd = target_to_host_fcntl_cmd cmd in
      if hcmd = - TARGET_EINVAL then ret hcmd
      else if cmd = 5 then fcntl_lock H rd_flock (Some wr_flock) fd hcmd arg
      else if cmd \<in> {6, 7} then fcntl_lock H rd_flock None fd hcmd arg
      else if cmd = 12 then fcntl_lock H rd_flock64_shifted (Some wr_flock64_shifted) fd hcmd arg
      else if cmd \<in> {13, 14} then fcntl_lock H rd_flock64_shifted None fd hcmd arg
      else if cmd = 3 then do {
        r \<leftarrow> call32 H ''fcntl'' [W (scast fd), W (scast hcmd), W (ucast arg)];
        r' \<leftarrow> get_errno r;
        ret (if 0 \<le>s r' then host_to_target_bitmask r' fcntl_flags_tbl else r') }
      else if cmd = 4 then do {
        r \<leftarrow> call32 H ''fcntl''
               [W (scast fd), W (scast hcmd), W (ucast (target_to_host_bitmask arg fcntl_flags_tbl))];
        get_errno r }
      else if cmd \<in> {8, 9, 10, 11, 1024, 1025} then do {
        r \<leftarrow> call32 H ''fcntl'' [W (scast fd), W (scast hcmd), W (ucast arg)];
        get_errno r }
      else do {
        r \<leftarrow> call32 H ''fcntl'' [W (scast fd), W (scast cmd), W (ucast arg)];
        get_errno r })"

section \<open>16-bit user and group ids\<close>

definition high2lowuid :: "32 word \<Rightarrow> 32 word" where
  "high2lowuid uid = (if 65535 <s uid then 65534 else uid)"

definition high2lowgid :: "32 word \<Rightarrow> 32 word" where
  "high2lowgid gid = (if 65535 <s gid then 65534 else gid)"

definition low2highuid :: "32 word \<Rightarrow> 32 word" where
  "low2highuid uid = (if (ucast uid :: 16 word) = - 1 then - 1 else uid)"

definition low2highgid :: "32 word \<Rightarrow> 32 word" where
  "low2highgid gid = (if (ucast gid :: 16 word) = - 1 then - 1 else gid)"

definition tswapid :: "32 word \<Rightarrow> 32 word" where
  "tswapid i = i"

section \<open>What the flags become\<close>

lemma fcntl_flags_tbl_parts:
  "fcntl_flags_tbl = field_entries 3 [1, 2] @ bit_entries [0x40, 0x80, 0x100, 0x200, 0x400, 0x800]
     @ tblent 0x1000 0x1000 0x101000 0x101000 # bit_entries [0x2000, 0x10000, 0x20000]
     @ [tblent 0x8000 0x8000 0 0, tblent 0x4000 0x4000 0x4000 0x4000, tblent 0 0 0 0]"
  by (simp add: fcntl_flags_tbl_def field_entries_def bit_entries_def)

lemma loop_sync: "target_to_host_bitmask_loop x (tblent 0x1000 0x1000 0x101000 0x101000 # tbl) acc =
    target_to_host_bitmask_loop x tbl (acc OR (if bit x 12 then 0x101000 else 0))"
  using and_bit_eq [of 12 x] by (simp add: tblent_def)

lemma open_bits: "set [0x40, 0x80, 0x100, 0x200, 0x400, 0x800] \<subseteq> set single_bits"
  "set [0x2000, 0x10000, 0x20000] \<subseteq> set single_bits"
  by (simp_all add: single_bits_def)

text \<open>
  C40: the guest's open flags become the host's: write-only or read-write as they
  are, the nine one-bit flags from O_CREAT to O_NOFOLLOW as they are, O_SYNC as the
  host's two bits. The entry of O_LARGEFILE is zero on the host and ends the loop,
  so O_DIRECT, which is behind it, is dropped whatever the guest asked for.
\<close>
theorem open_flags_translated:
  "target_to_host_bitmask x fcntl_flags_tbl =
     (if x AND 3 \<in> {1, 2} then x AND 3 else 0) OR (x AND 0x32fc0) OR (if bit x 12 then 0x101000 else 0)"
proof -
  have three: "(3 :: 32 word) \<noteq> 0" by simp
  have "target_to_host_bitmask x fcntl_flags_tbl =
      0 OR (if x AND 3 \<in> set [1, 2] then x AND 3 else 0) OR (x AND foldr (OR) [0x40, 0x80, 0x100, 0x200, 0x400, 0x800] 0)
        OR (if bit x 12 then 0x101000 else 0) OR (x AND foldr (OR) [0x2000, 0x10000, 0x20000] 0)"
    unfolding target_to_host_bitmask_def fcntl_flags_tbl_parts
    by (simp only: append.assoc append_Cons loop_field_entries [OF three]
        loop_bit_entries [OF open_bits(1)] loop_bit_entries [OF open_bits(2)] loop_sync or.assoc) (simp add: tblent_def)
  moreover have "x AND foldr (OR) [0x40, 0x80, 0x100, 0x200, 0x400, 0x800] 0 = x AND 0xfc0"
    and "x AND foldr (OR) [0x2000, 0x10000, 0x20000] 0 = x AND 0x32000"
    by simp_all
  moreover have "x AND 0x32fc0 = (x AND 0xfc0) OR (x AND 0x32000)"
    by (simp flip: bit.conj_disj_distrib)
  ultimately show ?thesis
    by (simp only: or.assoc or.left_commute or.commute) (simp add: or.assoc or.left_commute or.commute)
qed

section \<open>Locks\<close>

lemma snd_get_errno [simp]: "snd (run_state (get_errno r) s) = s"
  by (simp add: get_errno_def run_simps)

text \<open>The one call a lock command makes, when the structure is mapped.\<close>

lemma calls_fcntl_lock:
  assumes "base s + ucast arg \<noteq> 0" and "\<And>t. run_state (rd (base s + ucast arg)) t = (f (mem t), t)"
  shows "calls_of (fcntl_lock (noting H) rd None fd cmd arg) s =
    [(''fcntl'', [W (scast fd), W (scast cmd), In (f (mem s))])]"
  using assms by (simp add: calls_of_def fcntl_lock_def run_simps Let_def case_prod_beta)

text \<open>
  Setting a 64-bit lock through fcntl, and not through fcntl64, asks the host
  for the lock type shifted right by one bit, everything else being as the guest
  passed it: a write lock (1) becomes a read lock (0), and an unlock (2) becomes a
  write lock (1).
\<close>
theorem setlk64_shifts_type:
  assumes "base s + ucast arg \<noteq> 0" and "cmd \<in> {13, 14}"
  shows "\<exists>b. calls_of (do_fcntl (noting H) fd cmd arg) s = [(''fcntl'', [W (scast fd), W (scast (cmd - 7)), In b])] \<and>
    b = host_flock (signed_drop_bit 1 (ld16 (mem s) (base s + ucast arg))) (ld16 (mem s) (base s + ucast arg + 2))
      (ld64 (mem s) (base s + ucast arg + 4)) (ld64 (mem s) (base s + ucast arg + 12)) (ld32 (mem s) (base s + ucast arg + 20))"
  using assms(2)
  by (auto simp: do_fcntl_def target_to_host_fcntl_cmd_def rd_flock64_shifted_def run_simps calls_fcntl_lock [OF assms(1)])

theorem setlk64_shifts_type_witness:
  "calls_of (do_fcntl (noting null_host) 3 13 0x1000) \<lparr>mem = (\<lambda>_. 0)(0x1000 := 1), errno = 0, kern = ((), []), base = 0\<rparr> =
     [(''fcntl'', [W 3, W 6, In (host_flock 0 0 0 0 0)])]"
proof -
  let ?s = "\<lparr>mem = (\<lambda>_. 0)(0x1000 := 1), errno = 0, kern = ((), []), base = 0\<rparr> :: (unit \<times> calls) st"
  have "ld16 (mem ?s) 0x1000 = 1" "ld16 (mem ?s) 0x1002 = 0" "ld64 (mem ?s) 0x1004 = 0" "ld64 (mem ?s) 0x100c = 0"
    "ld32 (mem ?s) 0x1014 = 0"
    by (simp_all add: ld16_def ld32_def ld64_def mrd_def upt_conv_Cons)
  then show ?thesis
    using setlk64_shifts_type [of ?s "0x1000" 13 null_host 3] by simp
qed

section \<open>Narrow ids\<close>

text \<open>
  An id the old calls return fits in sixteen bits when it is stored: ids from
  65536 up are reported as 65534, except those the signed comparison takes for
  negative, which are cut off; and an id of sixteen bits the guest passes in is kept,
  but for 65535, which stands for no change.
\<close>
theorem narrow_ids:
  "(ucast (high2lowuid uid) :: 16 word) = (if 0xffff < uid \<and> uid < 0x80000000 then 0xfffe else ucast uid) \<and>
   low2highuid (ucast (w :: 16 word)) = (if w = 0xffff then - 1 else ucast w) \<and>
   high2lowgid uid = high2lowuid uid \<and> low2highgid uid = low2highuid uid"
proof -
  have "ucast (ucast w :: 32 word) = w"
    by (rule bit_word_eqI) (simp add: bit_ucast_iff)
  then show ?thesis
    using sless_iff_below [of 65535 uid]
    by (simp add: high2lowuid_def high2lowgid_def low2highuid_def low2highgid_def)
qed

end
