(* ===== verification/Syscall_Numbers.thy ===== *)
theory Syscall_Numbers
  imports Machine
begin

text \<open>The system call numbers of an i386 guest (\<open>i386syscallnumbers.h\<close>).\<close>

abbreviation (input) TARGET_NR_restart_syscall :: "32 word" where "TARGET_NR_restart_syscall \<equiv> 0"
abbreviation (input) TARGET_NR_exit :: "32 word" where "TARGET_NR_exit \<equiv> 1"
abbreviation (input) TARGET_NR_fork :: "32 word" where "TARGET_NR_fork \<equiv> 2"
abbreviation (input) TARGET_NR_read :: "32 word" where "TARGET_NR_read \<equiv> 3"
abbreviation (input) TARGET_NR_write :: "32 word" where "TARGET_NR_write \<equiv> 4"
abbreviation (input) TARGET_NR_open :: "32 word" where "TARGET_NR_open \<equiv> 5"
abbreviation (input) TARGET_NR_close :: "32 word" where "TARGET_NR_close \<equiv> 6"
abbreviation (input) TARGET_NR_waitpid :: "32 word" where "TARGET_NR_waitpid \<equiv> 7"
abbreviation (input) TARGET_NR_creat :: "32 word" where "TARGET_NR_creat \<equiv> 8"
abbreviation (input) TARGET_NR_link :: "32 word" where "TARGET_NR_link \<equiv> 9"
abbreviation (input) TARGET_NR_unlink :: "32 word" where "TARGET_NR_unlink \<equiv> 10"
abbreviation (input) TARGET_NR_execve :: "32 word" where "TARGET_NR_execve \<equiv> 11"
abbreviation (input) TARGET_NR_chdir :: "32 word" where "TARGET_NR_chdir \<equiv> 12"
abbreviation (input) TARGET_NR_time :: "32 word" where "TARGET_NR_time \<equiv> 13"
abbreviation (input) TARGET_NR_mknod :: "32 word" where "TARGET_NR_mknod \<equiv> 14"
abbreviation (input) TARGET_NR_chmod :: "32 word" where "TARGET_NR_chmod \<equiv> 15"
abbreviation (input) TARGET_NR_lchown :: "32 word" where "TARGET_NR_lchown \<equiv> 16"
abbreviation (input) TARGET_NR_break :: "32 word" where "TARGET_NR_break \<equiv> 17"
abbreviation (input) TARGET_NR_oldstat :: "32 word" where "TARGET_NR_oldstat \<equiv> 18"
abbreviation (input) TARGET_NR_lseek :: "32 word" where "TARGET_NR_lseek \<equiv> 19"
abbreviation (input) TARGET_NR_getpid :: "32 word" where "TARGET_NR_getpid \<equiv> 20"
abbreviation (input) TARGET_NR_mount :: "32 word" where "TARGET_NR_mount \<equiv> 21"
abbreviation (input) TARGET_NR_umount :: "32 word" where "TARGET_NR_umount \<equiv> 22"
abbreviation (input) TARGET_NR_setuid :: "32 word" where "TARGET_NR_setuid \<equiv> 23"
abbreviation (input) TARGET_NR_getuid :: "32 word" where "TARGET_NR_getuid \<equiv> 24"
abbreviation (input) TARGET_NR_stime :: "32 word" where "TARGET_NR_stime \<equiv> 25"
abbreviation (input) TARGET_NR_ptrace :: "32 word" where "TARGET_NR_ptrace \<equiv> 26"
abbreviation (input) TARGET_NR_alarm :: "32 word" where "TARGET_NR_alarm \<equiv> 27"
abbreviation (input) TARGET_NR_oldfstat :: "32 word" where "TARGET_NR_oldfstat \<equiv> 28"
abbreviation (input) TARGET_NR_pause :: "32 word" where "TARGET_NR_pause \<equiv> 29"
abbreviation (input) TARGET_NR_utime :: "32 word" where "TARGET_NR_utime \<equiv> 30"
abbreviation (input) TARGET_NR_stty :: "32 word" where "TARGET_NR_stty \<equiv> 31"
abbreviation (input) TARGET_NR_gtty :: "32 word" where "TARGET_NR_gtty \<equiv> 32"
abbreviation (input) TARGET_NR_access :: "32 word" where "TARGET_NR_access \<equiv> 33"
abbreviation (input) TARGET_NR_nice :: "32 word" where "TARGET_NR_nice \<equiv> 34"
abbreviation (input) TARGET_NR_ftime :: "32 word" where "TARGET_NR_ftime \<equiv> 35"
abbreviation (input) TARGET_NR_sync :: "32 word" where "TARGET_NR_sync \<equiv> 36"
abbreviation (input) TARGET_NR_kill :: "32 word" where "TARGET_NR_kill \<equiv> 37"
abbreviation (input) TARGET_NR_rename :: "32 word" where "TARGET_NR_rename \<equiv> 38"
abbreviation (input) TARGET_NR_mkdir :: "32 word" where "TARGET_NR_mkdir \<equiv> 39"
abbreviation (input) TARGET_NR_rmdir :: "32 word" where "TARGET_NR_rmdir \<equiv> 40"
abbreviation (input) TARGET_NR_dup :: "32 word" where "TARGET_NR_dup \<equiv> 41"
abbreviation (input) TARGET_NR_pipe :: "32 word" where "TARGET_NR_pipe \<equiv> 42"
abbreviation (input) TARGET_NR_times :: "32 word" where "TARGET_NR_times \<equiv> 43"
abbreviation (input) TARGET_NR_prof :: "32 word" where "TARGET_NR_prof \<equiv> 44"
abbreviation (input) TARGET_NR_brk :: "32 word" where "TARGET_NR_brk \<equiv> 45"
abbreviation (input) TARGET_NR_setgid :: "32 word" where "TARGET_NR_setgid \<equiv> 46"
abbreviation (input) TARGET_NR_getgid :: "32 word" where "TARGET_NR_getgid \<equiv> 47"
abbreviation (input) TARGET_NR_signal :: "32 word" where "TARGET_NR_signal \<equiv> 48"
abbreviation (input) TARGET_NR_geteuid :: "32 word" where "TARGET_NR_geteuid \<equiv> 49"
abbreviation (input) TARGET_NR_getegid :: "32 word" where "TARGET_NR_getegid \<equiv> 50"
abbreviation (input) TARGET_NR_acct :: "32 word" where "TARGET_NR_acct \<equiv> 51"
abbreviation (input) TARGET_NR_umount2 :: "32 word" where "TARGET_NR_umount2 \<equiv> 52"
abbreviation (input) TARGET_NR_lock :: "32 word" where "TARGET_NR_lock \<equiv> 53"
abbreviation (input) TARGET_NR_ioctl :: "32 word" where "TARGET_NR_ioctl \<equiv> 54"
abbreviation (input) TARGET_NR_fcntl :: "32 word" where "TARGET_NR_fcntl \<equiv> 55"
abbreviation (input) TARGET_NR_mpx :: "32 word" where "TARGET_NR_mpx \<equiv> 56"
abbreviation (input) TARGET_NR_setpgid :: "32 word" where "TARGET_NR_setpgid \<equiv> 57"
abbreviation (input) TARGET_NR_ulimit :: "32 word" where "TARGET_NR_ulimit \<equiv> 58"
abbreviation (input) TARGET_NR_oldolduname :: "32 word" where "TARGET_NR_oldolduname \<equiv> 59"
abbreviation (input) TARGET_NR_umask :: "32 word" where "TARGET_NR_umask \<equiv> 60"
abbreviation (input) TARGET_NR_chroot :: "32 word" where "TARGET_NR_chroot \<equiv> 61"
abbreviation (input) TARGET_NR_ustat :: "32 word" where "TARGET_NR_ustat \<equiv> 62"
abbreviation (input) TARGET_NR_dup2 :: "32 word" where "TARGET_NR_dup2 \<equiv> 63"
abbreviation (input) TARGET_NR_getppid :: "32 word" where "TARGET_NR_getppid \<equiv> 64"
abbreviation (input) TARGET_NR_getpgrp :: "32 word" where "TARGET_NR_getpgrp \<equiv> 65"
abbreviation (input) TARGET_NR_setsid :: "32 word" where "TARGET_NR_setsid \<equiv> 66"
abbreviation (input) TARGET_NR_sigaction :: "32 word" where "TARGET_NR_sigaction \<equiv> 67"
abbreviation (input) TARGET_NR_sgetmask :: "32 word" where "TARGET_NR_sgetmask \<equiv> 68"
abbreviation (input) TARGET_NR_ssetmask :: "32 word" where "TARGET_NR_ssetmask \<equiv> 69"
abbreviation (input) TARGET_NR_setreuid :: "32 word" where "TARGET_NR_setreuid \<equiv> 70"
abbreviation (input) TARGET_NR_setregid :: "32 word" where "TARGET_NR_setregid \<equiv> 71"
abbreviation (input) TARGET_NR_sigsuspend :: "32 word" where "TARGET_NR_sigsuspend \<equiv> 72"
abbreviation (input) TARGET_NR_sigpending :: "32 word" where "TARGET_NR_sigpending \<equiv> 73"
abbreviation (input) TARGET_NR_sethostname :: "32 word" where "TARGET_NR_sethostname \<equiv> 74"
abbreviation (input) TARGET_NR_setrlimit :: "32 word" where "TARGET_NR_setrlimit \<equiv> 75"
abbreviation (input) TARGET_NR_getrlimit :: "32 word" where "TARGET_NR_getrlimit \<equiv> 76"
abbreviation (input) TARGET_NR_getrusage :: "32 word" where "TARGET_NR_getrusage \<equiv> 77"
abbreviation (input) TARGET_NR_gettimeofday :: "32 word" where "TARGET_NR_gettimeofday \<equiv> 78"
abbreviation (input) TARGET_NR_settimeofday :: "32 word" where "TARGET_NR_settimeofday \<equiv> 79"
abbreviation (input) TARGET_NR_getgroups :: "32 word" where "TARGET_NR_getgroups \<equiv> 80"
abbreviation (input) TARGET_NR_setgroups :: "32 word" where "TARGET_NR_setgroups \<equiv> 81"
abbreviation (input) TARGET_NR_select :: "32 word" where "TARGET_NR_select \<equiv> 82"
abbreviation (input) TARGET_NR_symlink :: "32 word" where "TARGET_NR_symlink \<equiv> 83"
abbreviation (input) TARGET_NR_oldlstat :: "32 word" where "TARGET_NR_oldlstat \<equiv> 84"
abbreviation (input) TARGET_NR_readlink :: "32 word" where "TARGET_NR_readlink \<equiv> 85"
abbreviation (input) TARGET_NR_uselib :: "32 word" where "TARGET_NR_uselib \<equiv> 86"
abbreviation (input) TARGET_NR_swapon :: "32 word" where "TARGET_NR_swapon \<equiv> 87"
abbreviation (input) TARGET_NR_reboot :: "32 word" where "TARGET_NR_reboot \<equiv> 88"
abbreviation (input) TARGET_NR_readdir :: "32 word" where "TARGET_NR_readdir \<equiv> 89"
abbreviation (input) TARGET_NR_mmap :: "32 word" where "TARGET_NR_mmap \<equiv> 90"
abbreviation (input) TARGET_NR_munmap :: "32 word" where "TARGET_NR_munmap \<equiv> 91"
abbreviation (input) TARGET_NR_truncate :: "32 word" where "TARGET_NR_truncate \<equiv> 92"
abbreviation (input) TARGET_NR_ftruncate :: "32 word" where "TARGET_NR_ftruncate \<equiv> 93"
abbreviation (input) TARGET_NR_fchmod :: "32 word" where "TARGET_NR_fchmod \<equiv> 94"
abbreviation (input) TARGET_NR_fchown :: "32 word" where "TARGET_NR_fchown \<equiv> 95"
abbreviation (input) TARGET_NR_getpriority :: "32 word" where "TARGET_NR_getpriority \<equiv> 96"
abbreviation (input) TARGET_NR_setpriority :: "32 word" where "TARGET_NR_setpriority \<equiv> 97"
abbreviation (input) TARGET_NR_profil :: "32 word" where "TARGET_NR_profil \<equiv> 98"
abbreviation (input) TARGET_NR_statfs :: "32 word" where "TARGET_NR_statfs \<equiv> 99"
abbreviation (input) TARGET_NR_fstatfs :: "32 word" where "TARGET_NR_fstatfs \<equiv> 100"
abbreviation (input) TARGET_NR_ioperm :: "32 word" where "TARGET_NR_ioperm \<equiv> 101"
abbreviation (input) TARGET_NR_socketcall :: "32 word" where "TARGET_NR_socketcall \<equiv> 102"
abbreviation (input) TARGET_NR_syslog :: "32 word" where "TARGET_NR_syslog \<equiv> 103"
abbreviation (input) TARGET_NR_setitimer :: "32 word" where "TARGET_NR_setitimer \<equiv> 104"
abbreviation (input) TARGET_NR_getitimer :: "32 word" where "TARGET_NR_getitimer \<equiv> 105"
abbreviation (input) TARGET_NR_stat :: "32 word" where "TARGET_NR_stat \<equiv> 106"
abbreviation (input) TARGET_NR_lstat :: "32 word" where "TARGET_NR_lstat \<equiv> 107"
abbreviation (input) TARGET_NR_fstat :: "32 word" where "TARGET_NR_fstat \<equiv> 108"
abbreviation (input) TARGET_NR_olduname :: "32 word" where "TARGET_NR_olduname \<equiv> 109"
abbreviation (input) TARGET_NR_iopl :: "32 word" where "TARGET_NR_iopl \<equiv> 110"
abbreviation (input) TARGET_NR_vhangup :: "32 word" where "TARGET_NR_vhangup \<equiv> 111"
abbreviation (input) TARGET_NR_idle :: "32 word" where "TARGET_NR_idle \<equiv> 112"
abbreviation (input) TARGET_NR_vm86old :: "32 word" where "TARGET_NR_vm86old \<equiv> 113"
abbreviation (input) TARGET_NR_wait4 :: "32 word" where "TARGET_NR_wait4 \<equiv> 114"
abbreviation (input) TARGET_NR_swapoff :: "32 word" where "TARGET_NR_swapoff \<equiv> 115"
abbreviation (input) TARGET_NR_sysinfo :: "32 word" where "TARGET_NR_sysinfo \<equiv> 116"
abbreviation (input) TARGET_NR_ipc :: "32 word" where "TARGET_NR_ipc \<equiv> 117"
abbreviation (input) TARGET_NR_fsync :: "32 word" where "TARGET_NR_fsync \<equiv> 118"
abbreviation (input) TARGET_NR_sigreturn :: "32 word" where "TARGET_NR_sigreturn \<equiv> 119"
abbreviation (input) TARGET_NR_clone :: "32 word" where "TARGET_NR_clone \<equiv> 120"
abbreviation (input) TARGET_NR_setdomainname :: "32 word" where "TARGET_NR_setdomainname \<equiv> 121"
abbreviation (input) TARGET_NR_uname :: "32 word" where "TARGET_NR_uname \<equiv> 122"
abbreviation (input) TARGET_NR_modify_ldt :: "32 word" where "TARGET_NR_modify_ldt \<equiv> 123"
abbreviation (input) TARGET_NR_adjtimex :: "32 word" where "TARGET_NR_adjtimex \<equiv> 124"
abbreviation (input) TARGET_NR_mprotect :: "32 word" where "TARGET_NR_mprotect \<equiv> 125"
abbreviation (input) TARGET_NR_sigprocmask :: "32 word" where "TARGET_NR_sigprocmask \<equiv> 126"
abbreviation (input) TARGET_NR_create_module :: "32 word" where "TARGET_NR_create_module \<equiv> 127"
abbreviation (input) TARGET_NR_init_module :: "32 word" where "TARGET_NR_init_module \<equiv> 128"
abbreviation (input) TARGET_NR_delete_module :: "32 word" where "TARGET_NR_delete_module \<equiv> 129"
abbreviation (input) TARGET_NR_get_kernel_syms :: "32 word" where "TARGET_NR_get_kernel_syms \<equiv> 130"
abbreviation (input) TARGET_NR_quotactl :: "32 word" where "TARGET_NR_quotactl \<equiv> 131"
abbreviation (input) TARGET_NR_getpgid :: "32 word" where "TARGET_NR_getpgid \<equiv> 132"
abbreviation (input) TARGET_NR_fchdir :: "32 word" where "TARGET_NR_fchdir \<equiv> 133"
abbreviation (input) TARGET_NR_bdflush :: "32 word" where "TARGET_NR_bdflush \<equiv> 134"
abbreviation (input) TARGET_NR_sysfs :: "32 word" where "TARGET_NR_sysfs \<equiv> 135"
abbreviation (input) TARGET_NR_personality :: "32 word" where "TARGET_NR_personality \<equiv> 136"
abbreviation (input) TARGET_NR_afs_syscall :: "32 word" where "TARGET_NR_afs_syscall \<equiv> 137"
abbreviation (input) TARGET_NR_setfsuid :: "32 word" where "TARGET_NR_setfsuid \<equiv> 138"
abbreviation (input) TARGET_NR_setfsgid :: "32 word" where "TARGET_NR_setfsgid \<equiv> 139"
abbreviation (input) TARGET_NR_u_llseek :: "32 word" where "TARGET_NR_u_llseek \<equiv> 140"
abbreviation (input) TARGET_NR_getdents :: "32 word" where "TARGET_NR_getdents \<equiv> 141"
abbreviation (input) TARGET_NR_u_newselect :: "32 word" where "TARGET_NR_u_newselect \<equiv> 142"
abbreviation (input) TARGET_NR_flock :: "32 word" where "TARGET_NR_flock \<equiv> 143"
abbreviation (input) TARGET_NR_msync :: "32 word" where "TARGET_NR_msync \<equiv> 144"
abbreviation (input) TARGET_NR_readv :: "32 word" where "TARGET_NR_readv \<equiv> 145"
abbreviation (input) TARGET_NR_writev :: "32 word" where "TARGET_NR_writev \<equiv> 146"
abbreviation (input) TARGET_NR_getsid :: "32 word" where "TARGET_NR_getsid \<equiv> 147"
abbreviation (input) TARGET_NR_fdatasync :: "32 word" where "TARGET_NR_fdatasync \<equiv> 148"
abbreviation (input) TARGET_NR_u_sysctl :: "32 word" where "TARGET_NR_u_sysctl \<equiv> 149"
abbreviation (input) TARGET_NR_mlock :: "32 word" where "TARGET_NR_mlock \<equiv> 150"
abbreviation (input) TARGET_NR_munlock :: "32 word" where "TARGET_NR_munlock \<equiv> 151"
abbreviation (input) TARGET_NR_mlockall :: "32 word" where "TARGET_NR_mlockall \<equiv> 152"
abbreviation (input) TARGET_NR_munlockall :: "32 word" where "TARGET_NR_munlockall \<equiv> 153"
abbreviation (input) TARGET_NR_sched_setparam :: "32 word" where "TARGET_NR_sched_setparam \<equiv> 154"
abbreviation (input) TARGET_NR_sched_getparam :: "32 word" where "TARGET_NR_sched_getparam \<equiv> 155"
abbreviation (input) TARGET_NR_sched_setscheduler :: "32 word" where "TARGET_NR_sched_setscheduler \<equiv> 156"
abbreviation (input) TARGET_NR_sched_getscheduler :: "32 word" where "TARGET_NR_sched_getscheduler \<equiv> 157"
abbreviation (input) TARGET_NR_sched_yield :: "32 word" where "TARGET_NR_sched_yield \<equiv> 158"
abbreviation (input) TARGET_NR_sched_get_priority_max :: "32 word" where "TARGET_NR_sched_get_priority_max \<equiv> 159"
abbreviation (input) TARGET_NR_sched_get_priority_min :: "32 word" where "TARGET_NR_sched_get_priority_min \<equiv> 160"
abbreviation (input) TARGET_NR_sched_rr_get_interval :: "32 word" where "TARGET_NR_sched_rr_get_interval \<equiv> 161"
abbreviation (input) TARGET_NR_nanosleep :: "32 word" where "TARGET_NR_nanosleep \<equiv> 162"
abbreviation (input) TARGET_NR_mremap :: "32 word" where "TARGET_NR_mremap \<equiv> 163"
abbreviation (input) TARGET_NR_setresuid :: "32 word" where "TARGET_NR_setresuid \<equiv> 164"
abbreviation (input) TARGET_NR_getresuid :: "32 word" where "TARGET_NR_getresuid \<equiv> 165"
abbreviation (input) TARGET_NR_vm86 :: "32 word" where "TARGET_NR_vm86 \<equiv> 166"
abbreviation (input) TARGET_NR_query_module :: "32 word" where "TARGET_NR_query_module \<equiv> 167"
abbreviation (input) TARGET_NR_poll :: "32 word" where "TARGET_NR_poll \<equiv> 168"
abbreviation (input) TARGET_NR_nfsservctl :: "32 word" where "TARGET_NR_nfsservctl \<equiv> 169"
abbreviation (input) TARGET_NR_setresgid :: "32 word" where "TARGET_NR_setresgid \<equiv> 170"
abbreviation (input) TARGET_NR_getresgid :: "32 word" where "TARGET_NR_getresgid \<equiv> 171"
abbreviation (input) TARGET_NR_prctl :: "32 word" where "TARGET_NR_prctl \<equiv> 172"
abbreviation (input) TARGET_NR_rt_sigreturn :: "32 word" where "TARGET_NR_rt_sigreturn \<equiv> 173"
abbreviation (input) TARGET_NR_rt_sigaction :: "32 word" where "TARGET_NR_rt_sigaction \<equiv> 174"
abbreviation (input) TARGET_NR_rt_sigprocmask :: "32 word" where "TARGET_NR_rt_sigprocmask \<equiv> 175"
abbreviation (input) TARGET_NR_rt_sigpending :: "32 word" where "TARGET_NR_rt_sigpending \<equiv> 176"
abbreviation (input) TARGET_NR_rt_sigtimedwait :: "32 word" where "TARGET_NR_rt_sigtimedwait \<equiv> 177"
abbreviation (input) TARGET_NR_rt_sigqueueinfo :: "32 word" where "TARGET_NR_rt_sigqueueinfo \<equiv> 178"
abbreviation (input) TARGET_NR_rt_sigsuspend :: "32 word" where "TARGET_NR_rt_sigsuspend \<equiv> 179"
abbreviation (input) TARGET_NR_pread :: "32 word" where "TARGET_NR_pread \<equiv> 180"
abbreviation (input) TARGET_NR_pwrite :: "32 word" where "TARGET_NR_pwrite \<equiv> 181"
abbreviation (input) TARGET_NR_chown :: "32 word" where "TARGET_NR_chown \<equiv> 182"
abbreviation (input) TARGET_NR_getcwd :: "32 word" where "TARGET_NR_getcwd \<equiv> 183"
abbreviation (input) TARGET_NR_capget :: "32 word" where "TARGET_NR_capget \<equiv> 184"
abbreviation (input) TARGET_NR_capset :: "32 word" where "TARGET_NR_capset \<equiv> 185"
abbreviation (input) TARGET_NR_sigaltstack :: "32 word" where "TARGET_NR_sigaltstack \<equiv> 186"
abbreviation (input) TARGET_NR_sendfile :: "32 word" where "TARGET_NR_sendfile \<equiv> 187"
abbreviation (input) TARGET_NR_getpmsg :: "32 word" where "TARGET_NR_getpmsg \<equiv> 188"
abbreviation (input) TARGET_NR_putpmsg :: "32 word" where "TARGET_NR_putpmsg \<equiv> 189"
abbreviation (input) TARGET_NR_vfork :: "32 word" where "TARGET_NR_vfork \<equiv> 190"
abbreviation (input) TARGET_NR_ugetrlimit :: "32 word" where "TARGET_NR_ugetrlimit \<equiv> 191"
abbreviation (input) TARGET_NR_mmap2 :: "32 word" where "TARGET_NR_mmap2 \<equiv> 192"
abbreviation (input) TARGET_NR_truncate64 :: "32 word" where "TARGET_NR_truncate64 \<equiv> 193"
abbreviation (input) TARGET_NR_ftruncate64 :: "32 word" where "TARGET_NR_ftruncate64 \<equiv> 194"
abbreviation (input) TARGET_NR_stat64 :: "32 word" where "TARGET_NR_stat64 \<equiv> 195"
abbreviation (input) TARGET_NR_lstat64 :: "32 word" where "TARGET_NR_lstat64 \<equiv> 196"
abbreviation (input) TARGET_NR_fstat64 :: "32 word" where "TARGET_NR_fstat64 \<equiv> 197"
abbreviation (input) TARGET_NR_lchown32 :: "32 word" where "TARGET_NR_lchown32 \<equiv> 198"
abbreviation (input) TARGET_NR_getuid32 :: "32 word" where "TARGET_NR_getuid32 \<equiv> 199"
abbreviation (input) TARGET_NR_getgid32 :: "32 word" where "TARGET_NR_getgid32 \<equiv> 200"
abbreviation (input) TARGET_NR_geteuid32 :: "32 word" where "TARGET_NR_geteuid32 \<equiv> 201"
abbreviation (input) TARGET_NR_getegid32 :: "32 word" where "TARGET_NR_getegid32 \<equiv> 202"
abbreviation (input) TARGET_NR_setreuid32 :: "32 word" where "TARGET_NR_setreuid32 \<equiv> 203"
abbreviation (input) TARGET_NR_setregid32 :: "32 word" where "TARGET_NR_setregid32 \<equiv> 204"
abbreviation (input) TARGET_NR_getgroups32 :: "32 word" where "TARGET_NR_getgroups32 \<equiv> 205"
abbreviation (input) TARGET_NR_setgroups32 :: "32 word" where "TARGET_NR_setgroups32 \<equiv> 206"
abbreviation (input) TARGET_NR_fchown32 :: "32 word" where "TARGET_NR_fchown32 \<equiv> 207"
abbreviation (input) TARGET_NR_setresuid32 :: "32 word" where "TARGET_NR_setresuid32 \<equiv> 208"
abbreviation (input) TARGET_NR_getresuid32 :: "32 word" where "TARGET_NR_getresuid32 \<equiv> 209"
abbreviation (input) TARGET_NR_setresgid32 :: "32 word" where "TARGET_NR_setresgid32 \<equiv> 210"
abbreviation (input) TARGET_NR_getresgid32 :: "32 word" where "TARGET_NR_getresgid32 \<equiv> 211"
abbreviation (input) TARGET_NR_chown32 :: "32 word" where "TARGET_NR_chown32 \<equiv> 212"
abbreviation (input) TARGET_NR_setuid32 :: "32 word" where "TARGET_NR_setuid32 \<equiv> 213"
abbreviation (input) TARGET_NR_setgid32 :: "32 word" where "TARGET_NR_setgid32 \<equiv> 214"
abbreviation (input) TARGET_NR_setfsuid32 :: "32 word" where "TARGET_NR_setfsuid32 \<equiv> 215"
abbreviation (input) TARGET_NR_setfsgid32 :: "32 word" where "TARGET_NR_setfsgid32 \<equiv> 216"
abbreviation (input) TARGET_NR_pivot_root :: "32 word" where "TARGET_NR_pivot_root \<equiv> 217"
abbreviation (input) TARGET_NR_mincore :: "32 word" where "TARGET_NR_mincore \<equiv> 218"
abbreviation (input) TARGET_NR_madvise :: "32 word" where "TARGET_NR_madvise \<equiv> 219"
abbreviation (input) TARGET_NR_madvise1 :: "32 word" where "TARGET_NR_madvise1 \<equiv> 219"
abbreviation (input) TARGET_NR_getdents64 :: "32 word" where "TARGET_NR_getdents64 \<equiv> 220"
abbreviation (input) TARGET_NR_fcntl64 :: "32 word" where "TARGET_NR_fcntl64 \<equiv> 221"
abbreviation (input) TARGET_NR_gettid :: "32 word" where "TARGET_NR_gettid \<equiv> 224"
abbreviation (input) TARGET_NR_readahead :: "32 word" where "TARGET_NR_readahead \<equiv> 225"
abbreviation (input) TARGET_NR_setxattr :: "32 word" where "TARGET_NR_setxattr \<equiv> 226"
abbreviation (input) TARGET_NR_lsetxattr :: "32 word" where "TARGET_NR_lsetxattr \<equiv> 227"
abbreviation (input) TARGET_NR_fsetxattr :: "32 word" where "TARGET_NR_fsetxattr \<equiv> 228"
abbreviation (input) TARGET_NR_getxattr :: "32 word" where "TARGET_NR_getxattr \<equiv> 229"
abbreviation (input) TARGET_NR_lgetxattr :: "32 word" where "TARGET_NR_lgetxattr \<equiv> 230"
abbreviation (input) TARGET_NR_fgetxattr :: "32 word" where "TARGET_NR_fgetxattr \<equiv> 231"
abbreviation (input) TARGET_NR_listxattr :: "32 word" where "TARGET_NR_listxattr \<equiv> 232"
abbreviation (input) TARGET_NR_llistxattr :: "32 word" where "TARGET_NR_llistxattr \<equiv> 233"
abbreviation (input) TARGET_NR_flistxattr :: "32 word" where "TARGET_NR_flistxattr \<equiv> 234"
abbreviation (input) TARGET_NR_removexattr :: "32 word" where "TARGET_NR_removexattr \<equiv> 235"
abbreviation (input) TARGET_NR_lremovexattr :: "32 word" where "TARGET_NR_lremovexattr \<equiv> 236"
abbreviation (input) TARGET_NR_fremovexattr :: "32 word" where "TARGET_NR_fremovexattr \<equiv> 237"
abbreviation (input) TARGET_NR_tkill :: "32 word" where "TARGET_NR_tkill \<equiv> 238"
abbreviation (input) TARGET_NR_sendfile64 :: "32 word" where "TARGET_NR_sendfile64 \<equiv> 239"
abbreviation (input) TARGET_NR_futex :: "32 word" where "TARGET_NR_futex \<equiv> 240"
abbreviation (input) TARGET_NR_sched_setaffinity :: "32 word" where "TARGET_NR_sched_setaffinity \<equiv> 241"
abbreviation (input) TARGET_NR_sched_getaffinity :: "32 word" where "TARGET_NR_sched_getaffinity \<equiv> 242"
abbreviation (input) TARGET_NR_set_thread_area :: "32 word" where "TARGET_NR_set_thread_area \<equiv> 243"
abbreviation (input) TARGET_NR_get_thread_area :: "32 word" where "TARGET_NR_get_thread_area \<equiv> 244"
abbreviation (input) TARGET_NR_io_setup :: "32 word" where "TARGET_NR_io_setup \<equiv> 245"
abbreviation (input) TARGET_NR_io_destroy :: "32 word" where "TARGET_NR_io_destroy \<equiv> 246"
abbreviation (input) TARGET_NR_io_getevents :: "32 word" where "TARGET_NR_io_getevents \<equiv> 247"
abbreviation (input) TARGET_NR_io_submit :: "32 word" where "TARGET_NR_io_submit \<equiv> 248"
abbreviation (input) TARGET_NR_io_cancel :: "32 word" where "TARGET_NR_io_cancel \<equiv> 249"
abbreviation (input) TARGET_NR_fadvise64 :: "32 word" where "TARGET_NR_fadvise64 \<equiv> 250"
abbreviation (input) TARGET_NR_exit_group :: "32 word" where "TARGET_NR_exit_group \<equiv> 252"
abbreviation (input) TARGET_NR_lookup_dcookie :: "32 word" where "TARGET_NR_lookup_dcookie \<equiv> 253"
abbreviation (input) TARGET_NR_epoll_create :: "32 word" where "TARGET_NR_epoll_create \<equiv> 254"
abbreviation (input) TARGET_NR_epoll_ctl :: "32 word" where "TARGET_NR_epoll_ctl \<equiv> 255"
abbreviation (input) TARGET_NR_epoll_wait :: "32 word" where "TARGET_NR_epoll_wait \<equiv> 256"
abbreviation (input) TARGET_NR_remap_file_pages :: "32 word" where "TARGET_NR_remap_file_pages \<equiv> 257"
abbreviation (input) TARGET_NR_set_tid_address :: "32 word" where "TARGET_NR_set_tid_address \<equiv> 258"
abbreviation (input) TARGET_NR_timer_create :: "32 word" where "TARGET_NR_timer_create \<equiv> 259"
abbreviation (input) TARGET_NR_timer_settime :: "32 word" where "TARGET_NR_timer_settime \<equiv> 260"
abbreviation (input) TARGET_NR_timer_gettime :: "32 word" where "TARGET_NR_timer_gettime \<equiv> 261"
abbreviation (input) TARGET_NR_timer_getoverrun :: "32 word" where "TARGET_NR_timer_getoverrun \<equiv> 262"
abbreviation (input) TARGET_NR_timer_delete :: "32 word" where "TARGET_NR_timer_delete \<equiv> 263"
abbreviation (input) TARGET_NR_clock_settime :: "32 word" where "TARGET_NR_clock_settime \<equiv> 264"
abbreviation (input) TARGET_NR_clock_gettime :: "32 word" where "TARGET_NR_clock_gettime \<equiv> 265"
abbreviation (input) TARGET_NR_clock_getres :: "32 word" where "TARGET_NR_clock_getres \<equiv> 266"
abbreviation (input) TARGET_NR_clock_nanosleep :: "32 word" where "TARGET_NR_clock_nanosleep \<equiv> 267"
abbreviation (input) TARGET_NR_statfs64 :: "32 word" where "TARGET_NR_statfs64 \<equiv> 268"
abbreviation (input) TARGET_NR_fstatfs64 :: "32 word" where "TARGET_NR_fstatfs64 \<equiv> 269"
abbreviation (input) TARGET_NR_tgkill :: "32 word" where "TARGET_NR_tgkill \<equiv> 270"
abbreviation (input) TARGET_NR_utimes :: "32 word" where "TARGET_NR_utimes \<equiv> 271"
abbreviation (input) TARGET_NR_fadvise64_64 :: "32 word" where "TARGET_NR_fadvise64_64 \<equiv> 272"
abbreviation (input) TARGET_NR_vserver :: "32 word" where "TARGET_NR_vserver \<equiv> 273"
abbreviation (input) TARGET_NR_mbind :: "32 word" where "TARGET_NR_mbind \<equiv> 274"
abbreviation (input) TARGET_NR_get_mempolicy :: "32 word" where "TARGET_NR_get_mempolicy \<equiv> 275"
abbreviation (input) TARGET_NR_set_mempolicy :: "32 word" where "TARGET_NR_set_mempolicy \<equiv> 276"
abbreviation (input) TARGET_NR_mq_open :: "32 word" where "TARGET_NR_mq_open \<equiv> 277"
abbreviation (input) TARGET_NR_mq_unlink :: "32 word" where "TARGET_NR_mq_unlink \<equiv> 278"
abbreviation (input) TARGET_NR_mq_timedsend :: "32 word" where "TARGET_NR_mq_timedsend \<equiv> 279"
abbreviation (input) TARGET_NR_mq_timedreceive :: "32 word" where "TARGET_NR_mq_timedreceive \<equiv> 280"
abbreviation (input) TARGET_NR_mq_notify :: "32 word" where "TARGET_NR_mq_notify \<equiv> 281"
abbreviation (input) TARGET_NR_mq_getsetattr :: "32 word" where "TARGET_NR_mq_getsetattr \<equiv> 282"
abbreviation (input) TARGET_NR_kexec_load :: "32 word" where "TARGET_NR_kexec_load \<equiv> 283"
abbreviation (input) TARGET_NR_waitid :: "32 word" where "TARGET_NR_waitid \<equiv> 284"
abbreviation (input) TARGET_NR_sys_setaltroot :: "32 word" where "TARGET_NR_sys_setaltroot \<equiv> 285"
abbreviation (input) TARGET_NR_add_key :: "32 word" where "TARGET_NR_add_key \<equiv> 286"
abbreviation (input) TARGET_NR_request_key :: "32 word" where "TARGET_NR_request_key \<equiv> 287"
abbreviation (input) TARGET_NR_keyctl :: "32 word" where "TARGET_NR_keyctl \<equiv> 288"
abbreviation (input) TARGET_NR_ioprio_set :: "32 word" where "TARGET_NR_ioprio_set \<equiv> 289"
abbreviation (input) TARGET_NR_ioprio_get :: "32 word" where "TARGET_NR_ioprio_get \<equiv> 290"
abbreviation (input) TARGET_NR_inotify_init :: "32 word" where "TARGET_NR_inotify_init \<equiv> 291"
abbreviation (input) TARGET_NR_inotify_add_watch :: "32 word" where "TARGET_NR_inotify_add_watch \<equiv> 292"
abbreviation (input) TARGET_NR_inotify_rm_watch :: "32 word" where "TARGET_NR_inotify_rm_watch \<equiv> 293"
abbreviation (input) TARGET_NR_migrate_pages :: "32 word" where "TARGET_NR_migrate_pages \<equiv> 294"
abbreviation (input) TARGET_NR_openat :: "32 word" where "TARGET_NR_openat \<equiv> 295"
abbreviation (input) TARGET_NR_mkdirat :: "32 word" where "TARGET_NR_mkdirat \<equiv> 296"
abbreviation (input) TARGET_NR_mknodat :: "32 word" where "TARGET_NR_mknodat \<equiv> 297"
abbreviation (input) TARGET_NR_fchownat :: "32 word" where "TARGET_NR_fchownat \<equiv> 298"
abbreviation (input) TARGET_NR_futimesat :: "32 word" where "TARGET_NR_futimesat \<equiv> 299"
abbreviation (input) TARGET_NR_fstatat64 :: "32 word" where "TARGET_NR_fstatat64 \<equiv> 300"
abbreviation (input) TARGET_NR_unlinkat :: "32 word" where "TARGET_NR_unlinkat \<equiv> 301"
abbreviation (input) TARGET_NR_renameat :: "32 word" where "TARGET_NR_renameat \<equiv> 302"
abbreviation (input) TARGET_NR_linkat :: "32 word" where "TARGET_NR_linkat \<equiv> 303"
abbreviation (input) TARGET_NR_symlinkat :: "32 word" where "TARGET_NR_symlinkat \<equiv> 304"
abbreviation (input) TARGET_NR_readlinkat :: "32 word" where "TARGET_NR_readlinkat \<equiv> 305"
abbreviation (input) TARGET_NR_fchmodat :: "32 word" where "TARGET_NR_fchmodat \<equiv> 306"
abbreviation (input) TARGET_NR_faccessat :: "32 word" where "TARGET_NR_faccessat \<equiv> 307"
abbreviation (input) TARGET_NR_pselect6 :: "32 word" where "TARGET_NR_pselect6 \<equiv> 308"
abbreviation (input) TARGET_NR_ppoll :: "32 word" where "TARGET_NR_ppoll \<equiv> 309"
abbreviation (input) TARGET_NR_unshare :: "32 word" where "TARGET_NR_unshare \<equiv> 310"
abbreviation (input) TARGET_NR_set_robust_list :: "32 word" where "TARGET_NR_set_robust_list \<equiv> 311"
abbreviation (input) TARGET_NR_get_robust_list :: "32 word" where "TARGET_NR_get_robust_list \<equiv> 312"
abbreviation (input) TARGET_NR_splice :: "32 word" where "TARGET_NR_splice \<equiv> 313"
abbreviation (input) TARGET_NR_sync_file_range :: "32 word" where "TARGET_NR_sync_file_range \<equiv> 314"
abbreviation (input) TARGET_NR_tee :: "32 word" where "TARGET_NR_tee \<equiv> 315"
abbreviation (input) TARGET_NR_vmsplice :: "32 word" where "TARGET_NR_vmsplice \<equiv> 316"
abbreviation (input) TARGET_NR_move_pages :: "32 word" where "TARGET_NR_move_pages \<equiv> 317"
abbreviation (input) TARGET_NR_getcpu :: "32 word" where "TARGET_NR_getcpu \<equiv> 318"
abbreviation (input) TARGET_NR_epoll_pwait :: "32 word" where "TARGET_NR_epoll_pwait \<equiv> 319"
abbreviation (input) TARGET_NR_utimensat :: "32 word" where "TARGET_NR_utimensat \<equiv> 320"
abbreviation (input) TARGET_NR_signalfd :: "32 word" where "TARGET_NR_signalfd \<equiv> 321"
abbreviation (input) TARGET_NR_timerfd :: "32 word" where "TARGET_NR_timerfd \<equiv> 322"
abbreviation (input) TARGET_NR_eventfd :: "32 word" where "TARGET_NR_eventfd \<equiv> 323"
abbreviation (input) TARGET_NR_fallocate :: "32 word" where "TARGET_NR_fallocate \<equiv> 324"
abbreviation (input) TARGET_NR_timerfd_settime :: "32 word" where "TARGET_NR_timerfd_settime \<equiv> 325"
abbreviation (input) TARGET_NR_timerfd_gettime :: "32 word" where "TARGET_NR_timerfd_gettime \<equiv> 326"
abbreviation (input) TARGET_NR_signalfd4 :: "32 word" where "TARGET_NR_signalfd4 \<equiv> 327"
abbreviation (input) TARGET_NR_eventfd2 :: "32 word" where "TARGET_NR_eventfd2 \<equiv> 328"
abbreviation (input) TARGET_NR_epoll_create1 :: "32 word" where "TARGET_NR_epoll_create1 \<equiv> 329"
abbreviation (input) TARGET_NR_dup3 :: "32 word" where "TARGET_NR_dup3 \<equiv> 330"
abbreviation (input) TARGET_NR_pipe2 :: "32 word" where "TARGET_NR_pipe2 \<equiv> 331"
abbreviation (input) TARGET_NR_inotify_init1 :: "32 word" where "TARGET_NR_inotify_init1 \<equiv> 332"

end
