(* ===== verification/Sys_File.thy ===== *)
theory Sys_File
  imports Structs Signal Select Fcntl Syscall_Numbers
begin

text \<open>
  The cases of \<open>do_syscall\<close> that work on files and paths. A group of cases is a
  function of the call's number and arguments that is \<open>None\<close> for a number that is
  not in the group; each case is translated with its early exits, where
  \<open>goto efault\<close> returns -EFAULT. A call that does not return (an exit, a failed
  assertion) is a host call like any other.
\<close>

section \<open>Shapes of cases\<close>

abbreviation (input) sx :: "32 word \<Rightarrow> harg" where "sx a \<equiv> W (scast a)"

text \<open>\<open>get_errno(f(args))\<close>, for a function that returns an int, a long or a size.\<close>

definition sysc :: "'k host \<Rightarrow> string \<Rightarrow> harg list \<Rightarrow> ('k, 'z, abi_long) C" where
  "sysc H f args = do { r \<leftarrow> call H f args; get_errno (ucast r) }"

definition syscb :: "'k host \<Rightarrow> string \<Rightarrow> harg list \<Rightarrow> ('k, 'z, abi_long \<times> bytes list) C" where
  "syscb H f args = do { (r, outs) \<leftarrow> hcall H f args; r' \<leftarrow> get_errno (ucast r); ret (r', outs) }"

definition assert_fail :: "'k host \<Rightarrow> ('k, 'z, abi_long) C" where
  "assert_fail H = do { call H ''__assert_fail'' []; ret 0 }"

definition with_string :: "abi_ulong \<Rightarrow> (addr \<Rightarrow> ('k, 'z, abi_long) C) \<Rightarrow> ('k, 'z, abi_long) C" where
  "with_string a f = do { p \<leftarrow> lock_user a; if p = 0 then ret (- TARGET_EFAULT) else f p }"

definition with_path :: "bytes \<Rightarrow> abi_ulong \<Rightarrow> (harg \<Rightarrow> ('k, 'z, abi_long) C) \<Rightarrow> ('k, 'z, abi_long) C" where
  "with_path chroot a f = with_string a (\<lambda>p. do { q \<leftarrow> path chroot p; f q })"

text \<open>\<open>get_errno(f(pre, path(p), post))\<close> and the call with two paths.\<close>

definition path_call ::
  "'k host \<Rightarrow> bytes \<Rightarrow> string \<Rightarrow> harg list \<Rightarrow> abi_ulong \<Rightarrow> harg list \<Rightarrow> ('k, 'z, abi_long) C" where
  "path_call H chroot f pre a post = with_path chroot a (\<lambda>q. sysc H f (pre @ [q] @ post))"

definition path_call2 ::
  "'k host \<Rightarrow> bytes \<Rightarrow> string \<Rightarrow> harg list \<Rightarrow> abi_ulong \<Rightarrow> harg list \<Rightarrow> abi_ulong \<Rightarrow> harg list \<Rightarrow> ('k, 'z, abi_long) C" where
  "path_call2 H chroot f pre a mid b post = do {
     p \<leftarrow> lock_user a;
     p2 \<leftarrow> lock_user b;
     if p = 0 \<or> p2 = 0 then ret (- TARGET_EFAULT)
     else do {
       q \<leftarrow> path chroot p;
       q2 \<leftarrow> path chroot p2;
       sysc H f (pre @ [q] @ mid @ [q2] @ post) } }"

section \<open>exit to unlinkat\<close>

definition sys_waitpid :: "'k host \<Rightarrow> 32 word \<Rightarrow> 32 word \<Rightarrow> 32 word \<Rightarrow> ('k, 'z, abi_long) C" where
  "sys_waitpid H arg1 arg2 arg3 = do {
     (r, outs) \<leftarrow> syscb H ''waitpid'' [sx arg1, Out 4, sx arg3];
     (if \<not> is_error r \<and> arg2 \<noteq> 0 then put_user_u32 H (host_to_target_waitstatus (fld32 (out outs 1) 0)) arg2
      else ret ());
     ret r }"

definition sys_waitid :: "'k host \<Rightarrow> 32 word \<Rightarrow> 32 word \<Rightarrow> 32 word \<Rightarrow> 32 word \<Rightarrow> ('k, 'z, abi_long) C" where
  "sys_waitid H arg1 arg2 arg3 arg4 = do {
     (r, outs) \<leftarrow> syscb H ''waitid'' [sx arg1, sx arg2, In (replicate 128 0), sx arg4];
     if \<not> is_error r \<and> arg3 \<noteq> 0 \<and> fld32 (out outs 2) 16 \<noteq> 0
     then with_string arg3 (\<lambda>p. do { host_to_target_siginfo p (out outs 2); ret r })
     else ret r }"

definition syscall_open_close ::
  "'k host \<Rightarrow> bytes \<Rightarrow> 32 word \<Rightarrow> 32 word \<Rightarrow> 32 word \<Rightarrow> 32 word \<Rightarrow> 32 word \<Rightarrow> 32 word \<Rightarrow> ('k, 'z, abi_long) C option" where
  "syscall_open_close H chroot num arg1 arg2 arg3 arg4 arg5 =
     (if num = TARGET_NR_exit then Some (do { call H ''_exit'' [sx arg1]; ret 0 })
      else if num = TARGET_NR_read then
        Some (if arg3 = 0 then ret 0 else with_string arg2 (\<lambda>p. sysc H ''read'' [sx arg1, W p, sx arg3]))
      else if num = TARGET_NR_write then
        Some (with_string arg2 (\<lambda>p. sysc H ''write'' [sx arg1, W p, sx arg3]))
      else if num = TARGET_NR_open then
        Some (path_call H chroot ''open'' [] arg1 [sx (target_to_host_bitmask arg2 fcntl_flags_tbl), sx arg3])
      else if num = TARGET_NR_openat then
        Some (path_call H chroot ''sys_openat'' [sx arg1] arg2
                [sx (target_to_host_bitmask arg3 fcntl_flags_tbl), sx arg4])
      else if num = TARGET_NR_close then Some (sysc H ''close'' [sx arg1])
      else if num = TARGET_NR_brk then Some (assert_fail H)
      else if num = TARGET_NR_waitpid then Some (sys_waitpid H arg1 arg2 arg3)
      else if num = TARGET_NR_waitid then Some (sys_waitid H arg1 arg2 arg3 arg4)
      else if num = TARGET_NR_creat then Some (path_call H chroot ''creat'' [] arg1 [sx arg2])
      else if num = TARGET_NR_link then Some (path_call2 H chroot ''link'' [] arg1 [] arg2 [])
      else if num = TARGET_NR_linkat then
        Some (if arg2 = 0 \<or> arg4 = 0 then ret (- TARGET_EFAULT)
              else path_call2 H chroot ''sys_linkat'' [sx arg1] arg2 [sx arg3] arg4 [sx arg5])
      else if num = TARGET_NR_unlink then Some (path_call H chroot ''unlink'' [] arg1 [])
      else if num = TARGET_NR_unlinkat then Some (path_call H chroot ''sys_unlinkat'' [sx arg1] arg2 [sx arg3])
      else None)"

section \<open>chdir to utimes\<close>

definition sys_time :: "'k host \<Rightarrow> 32 word \<Rightarrow> ('k, 'z, abi_long) C" where
  "sys_time H arg1 = do {
     (r, outs) \<leftarrow> syscb H ''time'' [Out 8];
     (if \<not> is_error r \<and> arg1 \<noteq> 0 then put_user_u32 H (ucast (fld64 (out outs 0) 0)) arg1 else ret ());
     ret r }"

definition sys_mount ::
  "'k host \<Rightarrow> bytes \<Rightarrow> 32 word \<Rightarrow> 32 word \<Rightarrow> 32 word \<Rightarrow> 32 word \<Rightarrow> 32 word \<Rightarrow> ('k, 'z, abi_long) C" where
  "sys_mount H chroot arg1 arg2 arg3 arg4 arg5 = do {
     p \<leftarrow> lock_user arg1; p2 \<leftarrow> lock_user arg2; p3 \<leftarrow> lock_user arg3;
     if p = 0 \<or> p2 = 0 \<or> p3 = 0 then ret (- TARGET_EFAULT)
     else do {
       d \<leftarrow> g2h arg5;
       q \<leftarrow> path chroot p;
       q2 \<leftarrow> path chroot p2;
       sysc H ''mount'' [q, q2, W p3, sx arg4, W (if arg5 = 0 then 0 else d)] } }"

text \<open>
  \<open>stime\<close>: the host reads a \<open>time_t\<close> of eight bytes through a pointer to a local
  variable of four. \<open>junk4\<close> is what follows the variable.
\<close>

definition sys_stime :: "'k host \<Rightarrow> bytes \<Rightarrow> 32 word \<Rightarrow> ('k, 'z, abi_long) C" where
  "sys_stime H junk4 arg1 = do {
     t \<leftarrow> get_user_u32 H arg1;
     sysc H ''stime'' [In (le32 t @ take 4 (junk4 @ replicate 4 0))] }"

definition sys_utime :: "'k host \<Rightarrow> bytes \<Rightarrow> 32 word \<Rightarrow> 32 word \<Rightarrow> ('k, 'z, abi_long) C" where
  "sys_utime H chroot arg1 arg2 =
     (if arg2 = 0 then path_call H chroot ''utime'' [] arg1 [W 0]
      else with_string arg2 (\<lambda>t. do {
        act \<leftarrow> rd32 t;
        md \<leftarrow> rd32 (t + 4);
        path_call H chroot ''utime'' [] arg1 [In (le64 (scast act) @ le64 (scast md))] }))"

text \<open>Two times in a row, as \<open>utimes\<close> and its like take them.\<close>

definition two_timevals :: "abi_ulong \<Rightarrow> ('k, 'z, abi_long + harg) C" where
  "two_timevals a =
     (if a = 0 then ret (Inr (W 0))
      else do {
        t0 \<leftarrow> copy_from_user_timeval a;
        (case t0 of Inl _ \<Rightarrow> ret (Inl (- TARGET_EFAULT))
         | Inr b0 \<Rightarrow> do {
             t1 \<leftarrow> copy_from_user_timeval (a + 8);
             (case t1 of Inl _ \<Rightarrow> ret (Inl (- TARGET_EFAULT)) | Inr b1 \<Rightarrow> ret (Inr (In (b0 @ b1)))) }) })"

definition sys_utimes :: "'k host \<Rightarrow> bytes \<Rightarrow> string \<Rightarrow> harg list \<Rightarrow> 32 word \<Rightarrow> 32 word \<Rightarrow> ('k, 'z, abi_long) C" where
  "sys_utimes H chroot f pre a tv = do {
     t \<leftarrow> two_timevals tv;
     (case t of Inl e \<Rightarrow> ret e | Inr tvp \<Rightarrow> path_call H chroot f pre a [tvp]) }"

definition syscall_chdir_utimes ::
  "'k host \<Rightarrow> bytes \<Rightarrow> bytes \<Rightarrow> 32 word \<Rightarrow> 32 word \<Rightarrow> 32 word \<Rightarrow> 32 word \<Rightarrow> 32 word \<Rightarrow> 32 word \<Rightarrow> ('k, 'z, abi_long) C option" where
  "syscall_chdir_utimes H chroot junk num arg1 arg2 arg3 arg4 arg5 =
     (if num = TARGET_NR_chdir then Some (path_call H chroot ''chdir'' [] arg1 [])
      else if num = TARGET_NR_time then Some (sys_time H arg1)
      else if num = TARGET_NR_mknod then Some (path_call H chroot ''mknod'' [] arg1 [sx arg2, sx arg3])
      else if num = TARGET_NR_mknodat then
        Some (path_call H chroot ''sys_mknodat'' [sx arg1] arg2 [sx arg3, sx arg4])
      else if num = TARGET_NR_chmod then Some (path_call H chroot ''chmod'' [] arg1 [sx arg2])
      else if num = TARGET_NR_break \<or> num = TARGET_NR_oldstat then Some (ret (- TARGET_ENOSYS))
      else if num = TARGET_NR_lseek then Some (sysc H ''lseek'' [sx arg1, sx arg2, sx arg3])
      else if num = TARGET_NR_getpid then Some (sysc H ''getpid'' [])
      else if num = TARGET_NR_mount then Some (sys_mount H chroot arg1 arg2 arg3 arg4 arg5)
      else if num = TARGET_NR_umount then Some (path_call H chroot ''umount'' [] arg1 [])
      else if num = TARGET_NR_stime then Some (sys_stime H junk arg1)
      else if num = TARGET_NR_ptrace then Some (ret (- TARGET_ENOSYS))
      else if num = TARGET_NR_alarm then Some (do { r \<leftarrow> call32 H ''alarm'' [sx arg1]; ret r })
      else if num = TARGET_NR_oldfstat then Some (ret (- TARGET_ENOSYS))
      else if num = TARGET_NR_pause then Some (sysc H ''pause'' [])
      else if num = TARGET_NR_utime then Some (sys_utime H chroot arg1 arg2)
      else if num = TARGET_NR_utimes then Some (sys_utimes H chroot ''utimes'' [] arg1 arg2)
      else if num = TARGET_NR_futimesat then
        Some (sys_utimes H chroot ''sys_futimesat'' [sx arg1] arg2 arg3)
      else None)"

section \<open>Errors and paths\<close>

text \<open>
  When the host refuses a call with an error number within the tables (1 to 1199), the guest
  gets its negation, which it recognises as an error and which names the same error
  on the host, and the state is the one the host left.
\<close>
theorem failed_call_reported:
  assumes "H f args \<lparr>mem = mem s, errno = errno s, kern = kern s\<rparr> = ((- 1, outs), h)"
    and "1 \<le> errno h" and "errno h \<le> 1199"
  shows "run_state (sysc H f args) s = (- errno h, s\<lparr>mem := mem h, errno := errno h, kern := kern h\<rparr>) \<and>
    is_error (- errno h) \<and> target_to_host_errno (errno h) = errno h"
proof -
  have "errno h \<noteq> 0" using assms(2) by auto
  have small: "unat (errno h) \<le> 1199"
    using assms(3) by (simp add: word_le_nat_alt)
  with \<open>errno h \<noteq> 0\<close> have err: "is_error (- errno h)"
    unfolding is_error_def word_le_nat_alt using unat_uminus [of "4096 :: 32 word"] by (simp add: unat_uminus)
  have "(ucast (- 1 :: 64 word) :: 32 word) = - 1"
    by (rule bit_word_eqI) (simp add: bit_ucast_iff)
  then show ?thesis
    using err small assms \<open>errno h \<noteq> 0\<close> by (simp add: sysc_def call_def hcall_def run_simps target_to_host_errno_pos
      host_to_target_errno_id ERRNO_TABLE_SIZE_def)
qed

theorem failed_call_reported_witness:
  "is_error (fst (run_state (sysc (\<lambda>f as h. ((- 1, []), h\<lparr>errno := 2\<rparr>)) ''open'' [])
     \<lparr>mem = (\<lambda>_. 0), errno = 0, kern = (), base = 0\<rparr>))"
  using failed_call_reported [of "\<lambda>f as h. ((- 1, []), h\<lparr>errno := 2\<rparr>)" "''open''" "[]"
      "\<lparr>mem = (\<lambda>_. 0), errno = 0, kern = (), base = 0\<rparr>"] by simp

text \<open>
  Every call on a path passes the host exactly one path: an absolute one with
  the configured root in front of it, the guest's own string otherwise.
\<close>
theorem absolute_paths_rooted:
  assumes "base s + ucast a \<noteq> 0"
  shows "calls_of (path_call (noting H) root f pre a post) s =
    [(f, pre @ [if mem s (base s + ucast a) = 0x2f
                then In (root @ cstr (mem s) (base s + ucast a) (2 ^ 32) @ [0])
                else W (base s + ucast a)] @ post)]"
  using assms
  by (simp add: calls_of_def path_call_def with_path_def with_string_def path_def sysc_def call_def run_simps
      case_prod_beta Let_def)

theorem absolute_paths_rooted_witness:
  "calls_of (path_call (noting null_host) [0x2f, 0x72] ''open'' [] 0x1000 [])
     \<lparr>mem = (\<lambda>_. 0)(0x1000 := 0x2f), errno = 0, kern = ((), []), base = 0\<rparr> = [(''open'', [In [0x2f, 0x72, 0x2f, 0]])]"
  using absolute_paths_rooted [of "\<lparr>mem = (\<lambda>_. 0)(0x1000 := 0x2f), errno = 0, kern = ((), []), base = 0\<rparr>" "0x1000"
      null_host "[0x2f, 0x72]" "''open''" "[]" "[]"]
  by (simp add: cstr.simps)

end
