(* ===== verification/Termios.thy ===== *)
theory Termios
  imports Thunk
begin

text \<open>
  Terminal settings in \<open>translatedsyscall.c\<close>: the four flag tables, the
  conversion of \<open>struct termios\<close> in both directions, and the table of mmap
  flags. The guest's constants are those of \<open>i386termbits.h\<close>; the host's, of the
  kernel's \<open>asm-generic/termbits.h\<close>, are the same numbers.
\<close>

section \<open>Flag tables\<close>

text \<open>IGNBRK, BRKINT, IGNPAR, PARMRK, INPCK, ISTRIP, INLCR, IGNCR, ICRNL, IUCLC, IXON, IXANY, IXOFF, IMAXBEL.\<close>

definition iflag_tbl :: "bitmask_transtbl list" where
  "iflag_tbl =
    [tblent 0x1 0x1 0x1 0x1, tblent 0x2 0x2 0x2 0x2, tblent 0x4 0x4 0x4 0x4,
     tblent 0x8 0x8 0x8 0x8, tblent 0x10 0x10 0x10 0x10, tblent 0x20 0x20 0x20 0x20,
     tblent 0x40 0x40 0x40 0x40, tblent 0x80 0x80 0x80 0x80, tblent 0x100 0x100 0x100 0x100,
     tblent 0x200 0x200 0x200 0x200, tblent 0x400 0x400 0x400 0x400,
     tblent 0x800 0x800 0x800 0x800, tblent 0x1000 0x1000 0x1000 0x1000,
     tblent 0x2000 0x2000 0x2000 0x2000, tblent 0 0 0 0]"

text \<open>OPOST, OLCUC, ONLCR, OCRNL, ONOCR, ONLRET, OFILL, OFDEL, then the delays NL, CR, TAB, BS, VT, FF.\<close>

definition oflag_tbl :: "bitmask_transtbl list" where
  "oflag_tbl =
    [tblent 0x1 0x1 0x1 0x1, tblent 0x2 0x2 0x2 0x2, tblent 0x4 0x4 0x4 0x4,
     tblent 0x8 0x8 0x8 0x8, tblent 0x10 0x10 0x10 0x10, tblent 0x20 0x20 0x20 0x20,
     tblent 0x40 0x40 0x40 0x40, tblent 0x80 0x80 0x80 0x80, tblent 0x100 0x0 0x100 0x0,
     tblent 0x100 0x100 0x100 0x100, tblent 0x600 0x0 0x600 0x0,
     tblent 0x600 0x200 0x600 0x200, tblent 0x600 0x400 0x600 0x400,
     tblent 0x600 0x600 0x600 0x600, tblent 0x1800 0x0 0x1800 0x0,
     tblent 0x1800 0x800 0x1800 0x800, tblent 0x1800 0x1000 0x1800 0x1000,
     tblent 0x1800 0x1800 0x1800 0x1800, tblent 0x2000 0x0 0x2000 0x0,
     tblent 0x2000 0x2000 0x2000 0x2000, tblent 0x4000 0x0 0x4000 0x0,
     tblent 0x4000 0x4000 0x4000 0x4000, tblent 0x8000 0x0 0x8000 0x0,
     tblent 0x8000 0x8000 0x8000 0x8000, tblent 0 0 0 0]"

text \<open>The speeds B0 to B460800, the sizes CS5 to CS8, CSTOPB, CREAD, PARENB, PARODD, HUPCL, CLOCAL, CRTSCTS.\<close>

definition cflag_tbl :: "bitmask_transtbl list" where
  "cflag_tbl =
    [tblent 0x100f 0x0 0x100f 0x0, tblent 0x100f 0x1 0x100f 0x1,
     tblent 0x100f 0x2 0x100f 0x2, tblent 0x100f 0x3 0x100f 0x3,
     tblent 0x100f 0x4 0x100f 0x4, tblent 0x100f 0x5 0x100f 0x5,
     tblent 0x100f 0x6 0x100f 0x6, tblent 0x100f 0x7 0x100f 0x7,
     tblent 0x100f 0x8 0x100f 0x8, tblent 0x100f 0x9 0x100f 0x9,
     tblent 0x100f 0xa 0x100f 0xa, tblent 0x100f 0xb 0x100f 0xb,
     tblent 0x100f 0xc 0x100f 0xc, tblent 0x100f 0xd 0x100f 0xd,
     tblent 0x100f 0xe 0x100f 0xe, tblent 0x100f 0xf 0x100f 0xf,
     tblent 0x100f 0x1001 0x100f 0x1001, tblent 0x100f 0x1002 0x100f 0x1002,
     tblent 0x100f 0x1003 0x100f 0x1003, tblent 0x100f 0x1004 0x100f 0x1004,
     tblent 0x30 0x0 0x30 0x0, tblent 0x30 0x10 0x30 0x10, tblent 0x30 0x20 0x30 0x20,
     tblent 0x30 0x30 0x30 0x30, tblent 0x40 0x40 0x40 0x40, tblent 0x80 0x80 0x80 0x80,
     tblent 0x100 0x100 0x100 0x100, tblent 0x200 0x200 0x200 0x200,
     tblent 0x400 0x400 0x400 0x400, tblent 0x800 0x800 0x800 0x800,
     tblent 0x80000000 0x80000000 0x80000000 0x80000000, tblent 0 0 0 0]"

text \<open>ISIG, ICANON, XCASE, ECHO, ECHOE, ECHOK, ECHONL, NOFLSH, TOSTOP, ECHOCTL, ECHOPRT, ECHOKE, FLUSHO, PENDIN, IEXTEN.\<close>

definition lflag_tbl :: "bitmask_transtbl list" where
  "lflag_tbl =
    [tblent 0x1 0x1 0x1 0x1, tblent 0x2 0x2 0x2 0x2, tblent 0x4 0x4 0x4 0x4,
     tblent 0x8 0x8 0x8 0x8, tblent 0x10 0x10 0x10 0x10, tblent 0x20 0x20 0x20 0x20,
     tblent 0x40 0x40 0x40 0x40, tblent 0x80 0x80 0x80 0x80, tblent 0x100 0x100 0x100 0x100,
     tblent 0x200 0x200 0x200 0x200, tblent 0x400 0x400 0x400 0x400,
     tblent 0x800 0x800 0x800 0x800, tblent 0x1000 0x1000 0x1000 0x1000,
     tblent 0x4000 0x4000 0x4000 0x4000, tblent 0x8000 0x8000 0x8000 0x8000, tblent 0 0 0 0]"

text \<open>SHARED, PRIVATE, FIXED, ANONYMOUS, GROWSDOWN, DENYWRITE, EXECUTABLE, LOCKED.\<close>

definition mmap_flags_tbl :: "bitmask_transtbl list" where
  "mmap_flags_tbl =
    [tblent 0x1 0x1 0x1 0x1, tblent 0x2 0x2 0x2 0x2,
     tblent 0x10 0x10 0x10 0x10, tblent 0x20 0x20 0x20 0x20,
     tblent 0x100 0x100 0x100 0x100, tblent 0x800 0x800 0x800 0x800,
     tblent 0x1000 0x1000 0x1000 0x1000, tblent 0x2000 0x2000 0x2000 0x2000,
     tblent 0 0 0 0]"

section \<open>struct termios\<close>

text \<open>
  Both structures have the four flag words at 0, 4, 8 and 12, the line discipline
  at 16 and the control characters from 17 on. The guest's has nineteen of them and 36 bytes; the
  host's is the one of the C library (\<open>termios.h\<close>), with 32 of them and two speeds behind, 60
  bytes. The indices of the control characters (VINTR 0 to VEOL2 16) are the same on both sides.
\<close>

definition cc_indices :: "(nat \<times> nat) list" where
  "cc_indices = [(0, 0), (1, 1), (2, 2), (3, 3), (4, 4), (5, 5), (6, 6), (7, 7), (8, 8), (9, 9), (10, 10),
     (11, 11), (12, 12), (13, 13), (14, 14), (15, 15), (16, 16)]"

definition copy_cc :: "nat \<Rightarrow> memory \<Rightarrow> addr \<Rightarrow> addr \<Rightarrow> memory" where
  "copy_cc nccs m dst src =
     fold (\<lambda>(d, s) m. st8 m (dst + 17 + of_nat d) (ld8 m (src + 17 + of_nat s))) cc_indices
       (mwr m (dst + 17) (replicate nccs 0))"

definition target_to_host_termios :: "memory \<Rightarrow> addr \<Rightarrow> addr \<Rightarrow> memory" where
  "target_to_host_termios m dst src =
     (let m = st32 m dst (target_to_host_bitmask (ld32 m src) iflag_tbl);
          m = st32 m (dst + 4) (target_to_host_bitmask (ld32 m (src + 4)) oflag_tbl);
          m = st32 m (dst + 8) (target_to_host_bitmask (ld32 m (src + 8)) cflag_tbl);
          m = st32 m (dst + 12) (target_to_host_bitmask (ld32 m (src + 12)) lflag_tbl);
          m = st8 m (dst + 16) (ld8 m (src + 16))
      in copy_cc 32 m dst src)"

definition host_to_target_termios :: "memory \<Rightarrow> addr \<Rightarrow> addr \<Rightarrow> memory" where
  "host_to_target_termios m dst src =
     (let m = st32 m dst (host_to_target_bitmask (ld32 m src) iflag_tbl);
          m = st32 m (dst + 4) (host_to_target_bitmask (ld32 m (src + 4)) oflag_tbl);
          m = st32 m (dst + 8) (host_to_target_bitmask (ld32 m (src + 8)) cflag_tbl);
          m = st32 m (dst + 12) (host_to_target_bitmask (ld32 m (src + 12)) lflag_tbl);
          m = st8 m (dst + 16) (ld8 m (src + 16))
      in copy_cc 19 m dst src)"

definition struct_termios_def :: StructEntry where
  "struct_termios_def = \<lparr>field_types = [], nb_fields = 0, field_offsets = (\<lambda>_. []),
     convert = Some (\<lambda>to_host. if to_host then target_to_host_termios else host_to_target_termios),
     se_size = (\<lambda>to_host. if to_host then 60 else 36), se_align = (\<lambda>_. 4), se_name = ''''\<rparr>"

section \<open>What the tables keep\<close>

definition known_bauds :: "32 word list" where
  "known_bauds = map of_nat [0..<16] @ [0x1001, 0x1002, 0x1003, 0x1004]"

lemma cflag_tbl_parts:
  "cflag_tbl = field_entries 0x100f known_bauds @ field_entries 0x30 [0, 0x10, 0x20, 0x30]
     @ bit_entries [0x40, 0x80, 0x100, 0x200, 0x400, 0x800, 0x80000000] @ [tblent 0 0 0 0]"
  by (simp add: cflag_tbl_def field_entries_def bit_entries_def known_bauds_def upt_rec)

lemma cflag_same: "list_all same_entry cflag_tbl"
  by (simp add: cflag_tbl_def same_entry_def tblent_def)

text \<open>
  The control flags of a terminal are translated the same way in both
  directions: the size, stop, parity and flow bits pass unchanged, the line speed
  passes when it is one of the twenty listed, and any other speed becomes zero.
\<close>
theorem cflag_translated:
  "target_to_host_bitmask x cflag_tbl =
     (if x AND 0x100f \<in> set known_bauds then x AND 0x100f else 0) OR (x AND 0x80000ff0) \<and>
   host_to_target_bitmask x cflag_tbl = target_to_host_bitmask x cflag_tbl"
proof
  have "x AND 0x30 = (x AND 0x10) OR (x AND 0x20)"
    by (simp flip: bit.conj_disj_distrib)
  then have csize: "x AND 0x30 \<in> set [0, 0x10, 0x20, 0x30]"
    using and_one_bit [of 4 x] and_one_bit [of 5 x] by auto
  have bits: "set [0x40, 0x80, 0x100, 0x200, 0x400, 0x800, 0x80000000] \<subseteq> set single_bits"
    by (simp add: single_bits_def)
  show "target_to_host_bitmask x cflag_tbl =
     (if x AND 0x100f \<in> set known_bauds then x AND 0x100f else 0) OR (x AND 0x80000ff0)"
    unfolding target_to_host_bitmask_def cflag_tbl_parts
    using csize
    by (simp add: loop_field_entries loop_bit_entries [OF bits] loop_end or.assoc tblent_def flip: bit.conj_disj_distrib)
  show "host_to_target_bitmask x cflag_tbl = target_to_host_bitmask x cflag_tbl"
    by (rule same_table [OF cflag_same])
qed

lemma oflag_tbl_parts:
  "oflag_tbl = bit_entries [1, 2, 4, 8, 0x10, 0x20, 0x40, 0x80] @ field_entries 0x100 [0, 0x100]
     @ field_entries 0x600 [0, 0x200, 0x400, 0x600] @ field_entries 0x1800 [0, 0x800, 0x1000, 0x1800]
     @ field_entries 0x2000 [0, 0x2000] @ field_entries 0x4000 [0, 0x4000] @ field_entries 0x8000 [0, 0x8000]
     @ [tblent 0 0 0 0]"
  by (simp add: oflag_tbl_def field_entries_def bit_entries_def)

lemma oflag_same: "list_all same_entry oflag_tbl"
  by (simp add: oflag_tbl_def same_entry_def tblent_def)

lemma oflag_translated: "target_to_host_bitmask x oflag_tbl = x AND 0xffff"
proof -
  have halves: "x AND 0x600 = (x AND 0x200) OR (x AND 0x400)" "x AND 0x1800 = (x AND 0x800) OR (x AND 0x1000)"
    by (simp_all flip: bit.conj_disj_distrib)
  have fields: "x AND 0x600 \<in> set [0, 0x200, 0x400, 0x600]" "x AND 0x1800 \<in> set [0, 0x800, 0x1000, 0x1800]"
    "x AND 0x100 \<in> set [0, 0x100]" "x AND 0x2000 \<in> set [0, 0x2000]" "x AND 0x4000 \<in> set [0, 0x4000]"
    "x AND 0x8000 \<in> set [0, 0x8000]"
    subgoal using halves(1) and_one_bit [of 9 x] and_one_bit [of 10 x] by auto
    subgoal using halves(2) and_one_bit [of 11 x] and_one_bit [of 12 x] by auto
    subgoal using and_one_bit [of 8 x] by simp
    subgoal using and_one_bit [of 13 x] by simp
    subgoal using and_one_bit [of 14 x] by simp
    subgoal using and_one_bit [of 15 x] by simp
    done
  have bits: "set [1, 2, 4, 8, 0x10, 0x20, 0x40, 0x80] \<subseteq> set single_bits"
    by (simp add: single_bits_def)
  have ne: "(0x600 :: 32 word) \<noteq> 0" "(0x1800 :: 32 word) \<noteq> 0" "(0x100 :: 32 word) \<noteq> 0"
    "(0x2000 :: 32 word) \<noteq> 0" "(0x4000 :: 32 word) \<noteq> 0" "(0x8000 :: 32 word) \<noteq> 0"
    by simp_all
  have "target_to_host_bitmask x oflag_tbl =
     0 OR (x AND foldr (OR) [1, 2, 4, 8, 0x10, 0x20, 0x40, 0x80] 0) OR (x AND 0x100) OR (x AND 0x600) OR (x AND 0x1800)
       OR (x AND 0x2000) OR (x AND 0x4000) OR (x AND 0x8000)"
    unfolding target_to_host_bitmask_def oflag_tbl_parts
    by (simp only: loop_bit_entries [OF bits] loop_full_field [OF ne(1) fields(1)] loop_full_field [OF ne(2) fields(2)]
        loop_full_field [OF ne(3) fields(3)] loop_full_field [OF ne(4) fields(4)] loop_full_field [OF ne(5) fields(5)]
        loop_full_field [OF ne(6) fields(6)] loop_end or.assoc)
  then show ?thesis
    by (simp flip: bit.conj_disj_distrib)
qed

text \<open>
  The input, output and local flags of a terminal are masked with the bits
  their tables know, and nothing else happens to them, in either direction.
\<close>
theorem tty_flags_translated:
  "target_to_host_bitmask x iflag_tbl = x AND 0x3fff \<and> host_to_target_bitmask x iflag_tbl = x AND 0x3fff \<and>
   target_to_host_bitmask x oflag_tbl = x AND 0xffff \<and> host_to_target_bitmask x oflag_tbl = x AND 0xffff \<and>
   target_to_host_bitmask x lflag_tbl = x AND 0xdfff \<and> host_to_target_bitmask x lflag_tbl = x AND 0xdfff"
proof -
  have one: "list_all one_bit_entry (live_entries iflag_tbl)" "list_all one_bit_entry (live_entries lflag_tbl)"
    by code_simp+
  have known: "known_bits (live_entries iflag_tbl) = 0x3fff" "known_bits (live_entries lflag_tbl) = 0xdfff"
    by code_simp+
  show ?thesis
    using one_bit_table [OF one(1), of x] one_bit_table [OF one(2), of x] same_table [OF oflag_same, of x]
    by (simp only: known oflag_translated)
qed

end
