(* ===== verification/Ioctl.thy ===== *)
theory Ioctl
  imports Errno Termios
begin

text \<open>
  Ioctl in \<open>translatedsyscall.c\<close>: the structures of \<open>translatedsyscalltypes.h\<close>,
  their registration and the patching of the command table in \<open>syscall_init\<close>, and
  the table-driven \<open>do_ioctl\<close> with its one special handler. The table itself is
  an argument; its terminal and loop-device entries are given below.
\<close>

section \<open>Structures\<close>

abbreviation (input) STRUCT_termios :: argtype where "STRUCT_termios \<equiv> 0"
abbreviation (input) STRUCT_winsize :: argtype where "STRUCT_winsize \<equiv> 1"
abbreviation (input) STRUCT_serial_multiport_struct :: argtype where "STRUCT_serial_multiport_struct \<equiv> 2"
abbreviation (input) STRUCT_serial_icounter_struct :: argtype where "STRUCT_serial_icounter_struct \<equiv> 3"
abbreviation (input) STRUCT_sockaddr :: argtype where "STRUCT_sockaddr \<equiv> 4"
abbreviation (input) STRUCT_rtentry :: argtype where "STRUCT_rtentry \<equiv> 5"
abbreviation (input) STRUCT_ifmap :: argtype where "STRUCT_ifmap \<equiv> 6"
abbreviation (input) STRUCT_sockaddr_ifreq :: argtype where "STRUCT_sockaddr_ifreq \<equiv> 7"
abbreviation (input) STRUCT_short_ifreq :: argtype where "STRUCT_short_ifreq \<equiv> 8"
abbreviation (input) STRUCT_int_ifreq :: argtype where "STRUCT_int_ifreq \<equiv> 9"
abbreviation (input) STRUCT_ifmap_ifreq :: argtype where "STRUCT_ifmap_ifreq \<equiv> 10"
abbreviation (input) STRUCT_char_ifreq :: argtype where "STRUCT_char_ifreq \<equiv> 11"
abbreviation (input) STRUCT_ptr_ifreq :: argtype where "STRUCT_ptr_ifreq \<equiv> 12"
abbreviation (input) STRUCT_ifconf :: argtype where "STRUCT_ifconf \<equiv> 13"
abbreviation (input) STRUCT_arpreq :: argtype where "STRUCT_arpreq \<equiv> 14"
abbreviation (input) STRUCT_arpreq_old :: argtype where "STRUCT_arpreq_old \<equiv> 15"
abbreviation (input) STRUCT_cdrom_read_audio :: argtype where "STRUCT_cdrom_read_audio \<equiv> 16"
abbreviation (input) STRUCT_hd_geometry :: argtype where "STRUCT_hd_geometry \<equiv> 17"
abbreviation (input) STRUCT_dirent :: argtype where "STRUCT_dirent \<equiv> 18"
abbreviation (input) STRUCT_kbentry :: argtype where "STRUCT_kbentry \<equiv> 19"
abbreviation (input) STRUCT_kbsentry :: argtype where "STRUCT_kbsentry \<equiv> 20"
abbreviation (input) STRUCT_audio_buf_info :: argtype where "STRUCT_audio_buf_info \<equiv> 21"
abbreviation (input) STRUCT_count_info :: argtype where "STRUCT_count_info \<equiv> 22"
abbreviation (input) STRUCT_mixer_info :: argtype where "STRUCT_mixer_info \<equiv> 23"
abbreviation (input) STRUCT_loop_info :: argtype where "STRUCT_loop_info \<equiv> 24"
abbreviation (input) STRUCT_loop_info64 :: argtype where "STRUCT_loop_info64 \<equiv> 25"
abbreviation (input) STRUCT_mtop :: argtype where "STRUCT_mtop \<equiv> 26"
abbreviation (input) STRUCT_mtget :: argtype where "STRUCT_mtget \<equiv> 27"
abbreviation (input) STRUCT_mtpos :: argtype where "STRUCT_mtpos \<equiv> 28"
abbreviation (input) STRUCT_fb_fix_screeninfo :: argtype where "STRUCT_fb_fix_screeninfo \<equiv> 29"
abbreviation (input) STRUCT_fb_var_screeninfo :: argtype where "STRUCT_fb_var_screeninfo \<equiv> 30"
abbreviation (input) STRUCT_vt_stat :: argtype where "STRUCT_vt_stat \<equiv> 31"
abbreviation (input) STRUCT_fiemap_extent :: argtype where "STRUCT_fiemap_extent \<equiv> 32"
abbreviation (input) STRUCT_fiemap :: argtype where "STRUCT_fiemap \<equiv> 33"

text \<open>The descriptor of every registered structure, in the order of registration.\<close>

definition struct_defs :: "(argtype \<times> string \<times> argtype list) list" where
  "struct_defs =
    [(STRUCT_winsize, ''winsize'',
       [TYPE_SHORT, TYPE_SHORT, TYPE_SHORT, TYPE_SHORT, TYPE_NULL]),
     (STRUCT_serial_multiport_struct, ''serial_multiport_struct'',
       [TYPE_INT, TYPE_INT, TYPE_CHAR, TYPE_CHAR, TYPE_INT, TYPE_CHAR, TYPE_CHAR,
        TYPE_INT, TYPE_CHAR, TYPE_CHAR, TYPE_INT, TYPE_CHAR, TYPE_CHAR, TYPE_INT,
        TYPE_ARRAY, 32, TYPE_INT, TYPE_NULL]),
     (STRUCT_serial_icounter_struct, ''serial_icounter_struct'',
       [TYPE_INT, TYPE_INT, TYPE_INT, TYPE_INT, TYPE_ARRAY, 16, TYPE_INT, TYPE_NULL]),
     (STRUCT_sockaddr, ''sockaddr'',
       [TYPE_SHORT, TYPE_ARRAY, 14, TYPE_CHAR, TYPE_NULL]),
     (STRUCT_rtentry, ''rtentry'',
       [TYPE_ULONG, TYPE_STRUCT, STRUCT_sockaddr, TYPE_STRUCT, STRUCT_sockaddr,
        TYPE_STRUCT, STRUCT_sockaddr, TYPE_SHORT, TYPE_SHORT, TYPE_ULONG, TYPE_PTRVOID,
        TYPE_SHORT, TYPE_PTRVOID, TYPE_ULONG, TYPE_ULONG, TYPE_SHORT, TYPE_NULL]),
     (STRUCT_ifmap, ''ifmap'',
       [TYPE_ULONG, TYPE_ULONG, TYPE_SHORT, TYPE_CHAR, TYPE_CHAR, TYPE_CHAR, TYPE_CHAR,
        TYPE_CHAR, TYPE_CHAR, TYPE_NULL]),
     (STRUCT_sockaddr_ifreq, ''sockaddr_ifreq'',
       [TYPE_ARRAY, 16, TYPE_CHAR, TYPE_STRUCT, STRUCT_sockaddr, TYPE_NULL]),
     (STRUCT_short_ifreq, ''short_ifreq'',
       [TYPE_ARRAY, 16, TYPE_CHAR, TYPE_SHORT, TYPE_NULL]),
     (STRUCT_int_ifreq, ''int_ifreq'',
       [TYPE_ARRAY, 16, TYPE_CHAR, TYPE_INT, TYPE_NULL]),
     (STRUCT_ifmap_ifreq, ''ifmap_ifreq'',
       [TYPE_ARRAY, 16, TYPE_CHAR, TYPE_STRUCT, STRUCT_ifmap, TYPE_NULL]),
     (STRUCT_char_ifreq, ''char_ifreq'',
       [TYPE_ARRAY, 16, TYPE_CHAR, TYPE_ARRAY, 16, TYPE_CHAR, TYPE_NULL]),
     (STRUCT_ptr_ifreq, ''ptr_ifreq'',
       [TYPE_ARRAY, 16, TYPE_CHAR, TYPE_PTRVOID, TYPE_NULL]),
     (STRUCT_ifconf, ''ifconf'',
       [TYPE_INT, TYPE_PTRVOID, TYPE_NULL]),
     (STRUCT_arpreq, ''arpreq'',
       [TYPE_STRUCT, STRUCT_sockaddr, TYPE_STRUCT, STRUCT_sockaddr, TYPE_INT,
        TYPE_STRUCT, STRUCT_sockaddr, TYPE_ARRAY, 16, TYPE_CHAR, TYPE_NULL]),
     (STRUCT_arpreq_old, ''arpreq_old'',
       [TYPE_STRUCT, STRUCT_sockaddr, TYPE_STRUCT, STRUCT_sockaddr, TYPE_INT,
        TYPE_STRUCT, STRUCT_sockaddr, TYPE_NULL]),
     (STRUCT_cdrom_read_audio, ''cdrom_read_audio'',
       [TYPE_CHAR, TYPE_CHAR, TYPE_CHAR, TYPE_CHAR, TYPE_CHAR, TYPE_INT, TYPE_PTRVOID,
        TYPE_NULL, TYPE_NULL]),
     (STRUCT_hd_geometry, ''hd_geometry'',
       [TYPE_CHAR, TYPE_CHAR, TYPE_SHORT, TYPE_ULONG, TYPE_NULL]),
     (STRUCT_dirent, ''dirent'',
       [TYPE_LONG, TYPE_LONG, TYPE_SHORT, TYPE_ARRAY, 256, TYPE_CHAR, TYPE_NULL]),
     (STRUCT_kbentry, ''kbentry'',
       [TYPE_CHAR, TYPE_CHAR, TYPE_SHORT, TYPE_NULL]),
     (STRUCT_kbsentry, ''kbsentry'',
       [TYPE_CHAR, TYPE_ARRAY, 512, TYPE_CHAR, TYPE_NULL]),
     (STRUCT_audio_buf_info, ''audio_buf_info'',
       [TYPE_INT, TYPE_INT, TYPE_INT, TYPE_INT, TYPE_NULL]),
     (STRUCT_count_info, ''count_info'',
       [TYPE_INT, TYPE_INT, TYPE_INT, TYPE_NULL]),
     (STRUCT_mixer_info, ''mixer_info'',
       [TYPE_ARRAY, 16, TYPE_CHAR, TYPE_ARRAY, 32, TYPE_CHAR, TYPE_INT,
        TYPE_ARRAY, 10, TYPE_INT, TYPE_NULL]),
     (STRUCT_loop_info, ''loop_info'',
       [TYPE_INT, TYPE_SHORT, TYPE_ULONG, TYPE_SHORT, TYPE_INT, TYPE_INT, TYPE_INT,
        TYPE_INT, TYPE_ARRAY, 64, TYPE_CHAR, TYPE_ARRAY, 32, TYPE_CHAR,
        TYPE_ARRAY, 2, TYPE_ULONG, TYPE_ARRAY, 4, TYPE_CHAR, TYPE_NULL]),
     (STRUCT_loop_info64, ''loop_info64'',
       [TYPE_ULONGLONG, TYPE_ULONGLONG, TYPE_ULONGLONG, TYPE_ULONGLONG, TYPE_ULONG,
        TYPE_ULONG, TYPE_ULONG, TYPE_ULONG, TYPE_ARRAY, 64, TYPE_CHAR,
        TYPE_ARRAY, 64, TYPE_CHAR, TYPE_ARRAY, 32, TYPE_CHAR,
        TYPE_ARRAY, 2, TYPE_ULONGLONG, TYPE_NULL]),
     (STRUCT_mtop, ''mtop'',
       [TYPE_SHORT, TYPE_INT, TYPE_NULL]),
     (STRUCT_mtget, ''mtget'',
       [TYPE_LONG, TYPE_LONG, TYPE_LONG, TYPE_LONG, TYPE_LONG, TYPE_INT, TYPE_INT,
        TYPE_NULL]),
     (STRUCT_mtpos, ''mtpos'',
       [TYPE_LONG, TYPE_NULL]),
     (STRUCT_fb_fix_screeninfo, ''fb_fix_screeninfo'',
       [TYPE_ARRAY, 16, TYPE_CHAR, TYPE_ULONG, TYPE_INT, TYPE_INT, TYPE_INT, TYPE_INT,
        TYPE_SHORT, TYPE_SHORT, TYPE_SHORT, TYPE_INT, TYPE_ULONG, TYPE_INT, TYPE_INT,
        TYPE_ARRAY, 3, TYPE_CHAR, TYPE_NULL]),
     (STRUCT_fb_var_screeninfo, ''fb_var_screeninfo'',
       [TYPE_INT, TYPE_INT, TYPE_INT, TYPE_INT, TYPE_INT, TYPE_INT, TYPE_INT, TYPE_INT,
        TYPE_ARRAY, 3, TYPE_INT, TYPE_ARRAY, 3, TYPE_INT, TYPE_ARRAY, 3, TYPE_INT,
        TYPE_ARRAY, 3, TYPE_INT, TYPE_INT, TYPE_INT, TYPE_INT, TYPE_INT, TYPE_INT,
        TYPE_INT, TYPE_INT, TYPE_INT, TYPE_INT, TYPE_INT, TYPE_INT, TYPE_INT, TYPE_INT,
        TYPE_INT, TYPE_INT, TYPE_ARRAY, 5, TYPE_INT, TYPE_NULL]),
     (STRUCT_vt_stat, ''vt_stat'',
       [TYPE_SHORT, TYPE_SHORT, TYPE_SHORT, TYPE_NULL]),
     (STRUCT_fiemap_extent, ''fiemap_extent'',
       [TYPE_ULONGLONG, TYPE_ULONGLONG, TYPE_ULONGLONG, TYPE_ARRAY, 2, TYPE_ULONGLONG,
        TYPE_INT, TYPE_ARRAY, 3, TYPE_INT, TYPE_NULL]),
     (STRUCT_fiemap, ''fiemap'',
       [TYPE_ULONGLONG, TYPE_ULONGLONG, TYPE_INT, TYPE_INT, TYPE_INT, TYPE_INT,
        TYPE_NULL])]"

text \<open>The registrations of \<open>syscall_init\<close>: the termios converter first, then the others in order.\<close>

fun register_structs :: "(argtype \<times> string \<times> argtype list) list \<Rightarrow> struct_entries \<Rightarrow> struct_entries option" where
  "register_structs [] E = Some E"
| "register_structs ((i, nm, ts) # ds) E =
     (case thunk_register_struct E i nm ts of
        None \<Rightarrow> None
      | Some E' \<Rightarrow> register_structs ds E')"

definition registered_structs :: "struct_entries option" where
  "registered_structs =
     register_structs struct_defs
       (thunk_register_struct_direct (\<lambda>_. null_entry) STRUCT_termios ''termios'' struct_termios_def)"

section \<open>The table\<close>

record IOCTLEntry =
  target_cmd :: "32 word"
  host_cmd :: "32 word"
  ioctl_name :: string
  access :: nat
  special :: bool
  arg_type :: "argtype list"

abbreviation (input) IOC_R :: nat where "IOC_R \<equiv> 1"
abbreviation (input) IOC_W :: nat where "IOC_W \<equiv> 2"
abbreviation (input) IOC_RW :: nat where "IOC_RW \<equiv> 3"

text \<open>An entry whose number is the same on both sides and that has no handler of its own.\<close>

definition ioc :: "32 word \<Rightarrow> string \<Rightarrow> nat \<Rightarrow> argtype list \<Rightarrow> IOCTLEntry" where
  "ioc cmd nm acc ts = \<lparr>target_cmd = cmd, host_cmd = cmd, ioctl_name = nm, access = acc, special = False,
     arg_type = ts @ [TYPE_NULL]\<rparr>"

definition tty_ioctls :: "IOCTLEntry list" where
  "tty_ioctls =
    [ioc 0x5401 ''TCGETS'' 1 [TYPE_PTR, TYPE_STRUCT, STRUCT_termios],
     ioc 0x5402 ''TCSETS'' 2 [TYPE_PTR, TYPE_STRUCT, STRUCT_termios],
     ioc 0x5404 ''TCSETSF'' 2 [TYPE_PTR, TYPE_STRUCT, STRUCT_termios],
     ioc 0x5403 ''TCSETSW'' 2 [TYPE_PTR, TYPE_STRUCT, STRUCT_termios],
     ioc 0x5413 ''TIOCGWINSZ'' 1 [TYPE_PTR, TYPE_STRUCT, STRUCT_winsize],
     ioc 0x5414 ''TIOCSWINSZ'' 2 [TYPE_PTR, TYPE_STRUCT, STRUCT_winsize],
     ioc 0x541b ''FIONREAD'' 1 [TYPE_PTR, TYPE_INT],
     ioc 0x5405 ''TCGETA'' 1 [TYPE_PTR, TYPE_INT],
     ioc 0x5406 ''TCSETA'' 2 [TYPE_PTR, TYPE_INT],
     ioc 0x5407 ''TCSETAW'' 2 [TYPE_PTR, TYPE_INT],
     ioc 0x5408 ''TCSETAF'' 2 [TYPE_PTR, TYPE_INT],
     ioc 0x5409 ''TCSBRK'' 0 [TYPE_INT],
     ioc 0x5425 ''TCSBRKP'' 0 [TYPE_INT],
     ioc 0x540a ''TCXONC'' 0 [TYPE_INT],
     ioc 0x540b ''TCFLSH'' 0 [TYPE_INT],
     ioc 0x540c ''TIOCEXCL'' 0 [TYPE_NULL],
     ioc 0x540d ''TIOCNXCL'' 0 [TYPE_NULL],
     ioc 0x540e ''TIOCSCTTY'' 0 [TYPE_INT],
     ioc 0x540f ''TIOCGPGRP'' 1 [TYPE_PTR, TYPE_INT],
     ioc 0x5410 ''TIOCSPGRP'' 2 [TYPE_PTR, TYPE_INT],
     ioc 0x5411 ''TIOCOUTQ'' 1 [TYPE_PTR, TYPE_INT],
     ioc 0x5412 ''TIOCSTI'' 2 [TYPE_PTR, TYPE_INT],
     ioc 0x5415 ''TIOCMGET'' 1 [TYPE_PTR, TYPE_INT],
     ioc 0x5416 ''TIOCMBIS'' 2 [TYPE_PTR, TYPE_INT],
     ioc 0x5417 ''TIOCMBIC'' 2 [TYPE_PTR, TYPE_INT],
     ioc 0x5418 ''TIOCMSET'' 2 [TYPE_PTR, TYPE_INT],
     ioc 0x5419 ''TIOCGSOFTCAR'' 1 [TYPE_PTR, TYPE_INT],
     ioc 0x541a ''TIOCSSOFTCAR'' 2 [TYPE_PTR, TYPE_INT],
     ioc 0x541c ''TIOCLINUX'' 3 [TYPE_PTR, TYPE_INT],
     ioc 0x541d ''TIOCCONS'' 0 [TYPE_NULL],
     ioc 0x541e ''TIOCGSERIAL'' 1 [TYPE_PTR, TYPE_INT],
     ioc 0x541f ''TIOCSSERIAL'' 2 [TYPE_PTR, TYPE_INT],
     ioc 0x5420 ''TIOCPKT'' 2 [TYPE_PTR, TYPE_INT],
     ioc 0x5421 ''FIONBIO'' 2 [TYPE_PTR, TYPE_INT],
     ioc 0x5422 ''TIOCNOTTY'' 0 [TYPE_NULL],
     ioc 0x5424 ''TIOCGETD'' 1 [TYPE_PTR, TYPE_INT],
     ioc 0x5423 ''TIOCSETD'' 2 [TYPE_PTR, TYPE_INT],
     ioc 0x80045430 ''TIOCGPTN'' 1 [TYPE_PTR, TYPE_INT],
     ioc 0x40045431 ''TIOCSPTLCK'' 2 [TYPE_PTR, TYPE_INT],
     ioc 0x5451 ''FIOCLEX'' 0 [TYPE_NULL],
     ioc 0x5450 ''FIONCLEX'' 0 [TYPE_NULL],
     ioc 0x5452 ''FIOASYNC'' 2 [TYPE_PTR, TYPE_INT],
     ioc 0x5456 ''TIOCGLCKTRMIOS'' 1 [TYPE_PTR, TYPE_STRUCT, STRUCT_termios],
     ioc 0x5457 ''TIOCSLCKTRMIOS'' 2 [TYPE_PTR, TYPE_STRUCT, STRUCT_termios],
     ioc 0x5453 ''TIOCSERCONFIG'' 0 [TYPE_NULL],
     ioc 0x5459 ''TIOCSERGETLSR'' 1 [TYPE_PTR, TYPE_INT],
     ioc 0x545a ''TIOCSERGETMULTI'' 1 [TYPE_PTR, TYPE_STRUCT, STRUCT_serial_multiport_struct],
     ioc 0x545b ''TIOCSERSETMULTI'' 2 [TYPE_PTR, TYPE_STRUCT, STRUCT_serial_multiport_struct],
     ioc 0x545c ''TIOCMIWAIT'' 0 [TYPE_INT],
     ioc 0x545d ''TIOCGICOUNT'' 1 [TYPE_PTR, TYPE_STRUCT, STRUCT_serial_icounter_struct]]"

definition loop_ioctls :: "IOCTLEntry list" where
  "loop_ioctls =
    [ioc 0x4c00 ''LOOP_SET_FD'' 0 [TYPE_INT],
     ioc 0x4c01 ''LOOP_CLR_FD'' 0 [TYPE_INT],
     ioc 0x4c02 ''LOOP_SET_STATUS'' 2 [TYPE_PTR, TYPE_STRUCT, STRUCT_loop_info],
     ioc 0x4c03 ''LOOP_GET_STATUS'' 2 [TYPE_PTR, TYPE_STRUCT, STRUCT_loop_info],
     ioc 0x4c04 ''LOOP_SET_STATUS64'' 2 [TYPE_PTR, TYPE_STRUCT, STRUCT_loop_info64],
     ioc 0x4c05 ''LOOP_GET_STATUS64'' 2 [TYPE_PTR, TYPE_STRUCT, STRUCT_loop_info64],
     ioc 0x4c06 ''LOOP_CHANGE_FD'' 0 [TYPE_INT]]"

text \<open>
  The patching of a size field that has all its bits set: the size of the guest's
  type takes its place. \<open>None\<close> is the exit on an entry without a pointer type.
\<close>

definition patch_ioctl :: "struct_entries \<Rightarrow> IOCTLEntry \<Rightarrow> IOCTLEntry option" where
  "patch_ioctl E ie =
     (if drop_bit 16 (target_cmd ie) AND 0x3fff = 0x3fff then
        (case arg_type ie of
           ty # tp \<Rightarrow>
             if ty \<noteq> TYPE_PTR then None
             else Some (ie\<lparr>target_cmd :=
                     (target_cmd ie AND NOT (push_bit 16 0x3fff)) OR push_bit 16 (of_int (thunk_type_size E tp False))\<rparr>)
         | [] \<Rightarrow> None)
      else Some ie)"

fun patch_ioctls :: "struct_entries \<Rightarrow> IOCTLEntry list \<Rightarrow> IOCTLEntry list option" where
  "patch_ioctls E [] = Some []"
| "patch_ioctls E (ie # ies) =
     (if target_cmd ie = 0 then Some (ie # ies)
      else case patch_ioctl E ie of
             None \<Rightarrow> None
           | Some ie' \<Rightarrow> map_option ((#) ie') (patch_ioctls E ies))"

section \<open>do_ioctl\<close>

text \<open>
  The conversions, on the process's memory. \<open>buf_temp\<close> is the address of the
  local 4096-byte buffer. No registered type nests deeper than the fuel (proved below); a
  malformed descriptor converts nothing.
\<close>

definition conversion_depth :: nat where "conversion_depth = 16"

definition convert_mem :: "struct_entries \<Rightarrow> addr \<Rightarrow> addr \<Rightarrow> argtype list \<Rightarrow> bool \<Rightarrow> ('k, 'z, unit) C" where
  "convert_mem E dst src ts to_host =
     modify (\<lambda>s. case thunk_convert conversion_depth E (mem s) dst src ts to_host of
                   None \<Rightarrow> s
                 | Some (m, _) \<Rightarrow> s\<lparr>mem := m\<rparr>)"

fun find_ioctl :: "32 word \<Rightarrow> IOCTLEntry list \<Rightarrow> IOCTLEntry option" where
  "find_ioctl cmd [] = None"
| "find_ioctl cmd (ie # ies) =
     (if target_cmd ie = 0 then None else if target_cmd ie = cmd then Some ie else find_ioctl cmd ies)"

definition host_ioctl :: "'k host \<Rightarrow> 32 word \<Rightarrow> IOCTLEntry \<Rightarrow> addr \<Rightarrow> ('k, 'z, abi_long) C" where
  "host_ioctl H fd ie p = do {
     r \<leftarrow> call32 H ''ioctl'' [W (scast fd), W (ucast (host_cmd ie)), W p];
     get_errno r }"

definition ioctl_in :: "struct_entries \<Rightarrow> addr \<Rightarrow> abi_long \<Rightarrow> argtype list \<Rightarrow> ('k, 'z, bool) C" where
  "ioctl_in E buf_temp arg ts = do {
     p \<leftarrow> lock_user arg;
     if p = 0 then ret False
     else do { convert_mem E buf_temp p ts True; ret True } }"

definition ioctl_out :: "struct_entries \<Rightarrow> addr \<Rightarrow> abi_long \<Rightarrow> argtype list \<Rightarrow> abi_long \<Rightarrow> ('k, 'z, abi_long) C" where
  "ioctl_out E buf_temp arg ts r =
     (if is_error r then ret r
      else do {
        p \<leftarrow> lock_user arg;
        if p = 0 then ret (- TARGET_EFAULT)
        else do { convert_mem E p buf_temp ts False; ret r } })"

definition ioctl_ptr ::
  "'k host \<Rightarrow> struct_entries \<Rightarrow> addr \<Rightarrow> 32 word \<Rightarrow> IOCTLEntry \<Rightarrow> abi_long \<Rightarrow> argtype list \<Rightarrow> ('k, 'z, abi_long) C" where
  "ioctl_ptr H E buf_temp fd ie arg ts =
     (if access ie = IOC_R then do {
        r \<leftarrow> host_ioctl H fd ie buf_temp;
        ioctl_out E buf_temp arg ts r }
      else do {
        ok \<leftarrow> ioctl_in E buf_temp arg ts;
        if \<not> ok then ret (- TARGET_EFAULT)
        else do {
          r \<leftarrow> host_ioctl H fd ie buf_temp;
          if access ie = IOC_W then ret r else ioctl_out E buf_temp arg ts r } })"

text \<open>
  \<open>do_ioctl_ifconf\<close>: the guest's list of interfaces has entries of the guest's
  \<open>sockaddr_ifreq\<close>, the host's of 40 bytes. The host's list follows its 16-byte
  header in \<open>buf_temp\<close>, or in a block from \<open>malloc\<close> when it does not fit.
\<close>

definition ifconf_buffer :: "'k host \<Rightarrow> addr \<Rightarrow> 32 word \<Rightarrow> ('k, 'z, addr) C" where
  "ifconf_buffer H buf_temp outbufsz =
     (if 4096 < outbufsz then do {
        b \<leftarrow> call H ''malloc'' [W (ucast outbufsz)];
        if b = 0 then ret 0
        else do { bs \<leftarrow> rdb buf_temp 16; wrb b bs; ret b } }
      else ret buf_temp)"

definition ifconf_out ::
  "struct_entries \<Rightarrow> addr \<Rightarrow> abi_long \<Rightarrow> argtype list \<Rightarrow> abi_long \<Rightarrow> abi_long \<Rightarrow> ('k, 'z, abi_long) C" where
  "ifconf_out E ifc arg ts target_ifc_buf r = do {
     ifc_len \<leftarrow> rd32 ifc;
     let ifreq = [TYPE_STRUCT, STRUCT_sockaddr_ifreq];
     let tsize = (of_int (thunk_type_size E ifreq False) :: 32 word);
     let nb = (ucast ((scast ifc_len :: 64 word) div 40) :: 32 word);
     wr32 ifc (nb * tsize);
     wr64 (ifc + 8) (scast target_ifc_buf);
     p \<leftarrow> lock_user arg;
     if p = 0 then ret (- TARGET_EFAULT)
     else do {
       convert_mem E p ifc ts False;
       q \<leftarrow> lock_user target_ifc_buf;
       for_each [0..<nat (sint nb)]
         (\<lambda>i. convert_mem E (q + of_nat i * scast tsize) (ifc + 16 + of_nat (40 * i)) ifreq False);
       ret r } }"

definition do_ioctl_ifconf ::
  "'k host \<Rightarrow> struct_entries \<Rightarrow> addr \<Rightarrow> 32 word \<Rightarrow> IOCTLEntry \<Rightarrow> abi_long \<Rightarrow> ('k, 'z, abi_long) C" where
  "do_ioctl_ifconf H E buf_temp fd ie arg = do {
     let ts = tl (arg_type ie);
     ok \<leftarrow> ioctl_in E buf_temp arg ts;
     if \<not> ok then ret (- TARGET_EFAULT)
     else do {
       tlen \<leftarrow> rd32 buf_temp;
       tbuf \<leftarrow> rd64 (buf_temp + 8);
       let tsize = (of_int (thunk_type_size E [TYPE_STRUCT, STRUCT_sockaddr_ifreq] False) :: 32 word);
       let hlen = (of_int (sint tlen sdiv sint tsize) :: 32 word) * 40;
       ifc \<leftarrow> ifconf_buffer H buf_temp (16 + hlen);
       if ifc = 0 then ret (- TARGET_ENOMEM)
       else do {
         wr32 ifc hlen;
         wr64 (ifc + 8) (ifc + 16);
         r \<leftarrow> host_ioctl H fd ie ifc;
         r' \<leftarrow> if is_error r then ret r else ifconf_out E ifc arg ts (ucast tbuf) r;
         (if ifc \<noteq> buf_temp \<and> (is_error r \<or> r' = r)
          then do { call H ''free'' [W ifc]; ret () } else ret ());
         ret r' } } }"

definition do_ioctl ::
  "'k host \<Rightarrow> struct_entries \<Rightarrow> IOCTLEntry list \<Rightarrow> addr \<Rightarrow> 32 word \<Rightarrow> abi_long \<Rightarrow> abi_long \<Rightarrow> ('k, 'z, abi_long) C" where
  "do_ioctl H E tbl buf_temp fd cmd arg =
     (case find_ioctl cmd tbl of
        None \<Rightarrow> ret (- TARGET_ENOSYS)
      | Some ie \<Rightarrow>
          if special ie then do_ioctl_ifconf H E buf_temp fd ie arg
          else (case arg_type ie of
                  [] \<Rightarrow> ret (- TARGET_ENOSYS)
                | ty # ts \<Rightarrow>
                    if ty = TYPE_NULL then do {
                      r \<leftarrow> call32 H ''ioctl'' [W (scast fd), W (ucast (host_cmd ie))];
                      get_errno r }
                    else if ty = TYPE_PTRVOID \<or> ty = TYPE_INT then do {
                      r \<leftarrow> call32 H ''ioctl'' [W (scast fd), W (ucast (host_cmd ie)), W (scast arg)];
                      get_errno r }
                    else if ty = TYPE_PTR then ioctl_ptr H E buf_temp fd ie arg ts
                    else ret (- TARGET_ENOSYS)))"

section \<open>What the conversion of a registered structure changes\<close>

lemma fold_cells_frame:
  "(\<And>d s. (d, s) \<in> set ps \<Longrightarrow> d < n) \<Longrightarrow> n \<le> unat (x - a) \<Longrightarrow>
   fold (\<lambda>(d, s) m. st8 m (a + of_nat d) (f m s)) ps m x = m x"
proof (induction ps arbitrary: m)
  case (Cons p ps)
  obtain d s where p: "p = (d, s)" by fastforce
  have "d < n" by (rule Cons.prems(1) [of d s]) (simp add: p)
  then have "unat (x - (a + of_nat d)) = unat (x - a) - d" using Cons.prems(2) by (intro unat_beyond) simp
  then have "1 \<le> unat (x - (a + of_nat d))" using \<open>d < n\<close> Cons.prems(2) by linarith
  then have "st8 m (a + of_nat d) (f m s) x = m x" by (rule c8.st_frame)
  moreover have "fold (\<lambda>(d, s) m. st8 m (a + of_nat d) (f m s)) ps (st8 m (a + of_nat d) (f m s)) x = st8 m (a + of_nat d) (f m s) x"
    by (rule Cons.IH [OF _ Cons.prems(2)]) (erule Cons.prems(1) [OF list.set_intros(2)])
  ultimately show ?case by (simp add: p)
qed simp

lemma copy_cc_frame:
  assumes "17 + n \<le> unat (x - d)" and "17 \<le> n"
  shows "copy_cc n m d s x = m x"
proof -
  have a: "n \<le> unat (x - (d + 17))" using unat_beyond [of 17 x d] assms(1) by simp
  have "fold (\<lambda>(i, j) m. st8 m (d + 17 + of_nat i) (ld8 m (s + 17 + of_nat j))) cc_indices m' x = m' x" for m'
    by (rule fold_cells_frame [where n = n, OF _ a]) (use assms(2) in \<open>auto simp: cc_indices_def\<close>)
  then show ?thesis using a by (simp add: copy_cc_def mwr_def)
qed

lemma flags_frame:
  fixes x d :: addr
  assumes "36 \<le> unat (x - d)"
  shows "4 \<le> unat (x - d)" "4 \<le> unat (x - (d + 4))" "4 \<le> unat (x - (d + 8))" "4 \<le> unat (x - (d + 12))" "1 \<le> unat (x - (d + 16))"
  using assms unat_beyond [of 4 x d] unat_beyond [of 8 x d] unat_beyond [of 12 x d] unat_beyond [of 16 x d] by simp_all

lemma termios_frame:
  "60 \<le> unat (x - d) \<Longrightarrow> target_to_host_termios m d s x = m x"
  "36 \<le> unat (x - d) \<Longrightarrow> host_to_target_termios m d s x = m x"
proof -
  assume "60 \<le> unat (x - d)"
  then have "36 \<le> unat (x - d)" "17 + 32 \<le> unat (x - d)" by simp_all
  then show "target_to_host_termios m d s x = m x"
    using flags_frame [of x d] copy_cc_frame [of 32 x d]
    by (simp add: target_to_host_termios_def Let_def c32.st_frame c8.st_frame)
next
  assume "36 \<le> unat (x - d)"
  then have "36 \<le> unat (x - d)" "17 + 19 \<le> unat (x - d)" by simp_all
  then show "host_to_target_termios m d s x = m x"
    using flags_frame [of x d] copy_cc_frame [of 19 x d]
    by (simp add: host_to_target_termios_def Let_def c32.st_frame c8.st_frame)
qed

text \<open>The depth to which a type nests, and what is checked of each entry of the table.\<close>

fun nests :: "struct_entries \<Rightarrow> nat \<Rightarrow> argtype list \<Rightarrow> bool" where
  "nests E 0 tps \<longleftrightarrow> False"
| "nests E (Suc k) [] \<longleftrightarrow> False"
| "nests E (Suc k) (ty # tp) \<longleftrightarrow>
     (if ty = TYPE_ARRAY then (case tp of [] \<Rightarrow> False | n # et \<Rightarrow> nests E k et)
      else if ty = TYPE_STRUCT then (case tp of [] \<Rightarrow> False
        | i # _ \<Rightarrow> (case convert (E i) of Some f \<Rightarrow> True
            | None \<Rightarrow> list_all (nests E k) (fields_from (nb_fields (E i)) (field_types (E i)))))
      else True)"

definition entry_ok :: "struct_entries \<Rightarrow> bool \<Rightarrow> int \<Rightarrow> bool" where
  "entry_ok E h i \<longleftrightarrow> 0 < se_size (E i) h \<and> se_size (E i) h \<le> 4096
     \<and> (case convert (E i) of Some f \<Rightarrow> i = STRUCT_termios
        | None \<Rightarrow> laid_out E h (fields_from (nb_fields (E i)) (field_types (E i))) (field_offsets (E i) h) 0 (se_size (E i) h)
            \<and> list_all (convertible E h) (fields_from (nb_fields (E i)) (field_types (E i))))"

lemma host_side_checked: "case registered_structs of None \<Rightarrow> False | Some E \<Rightarrow> list_all (entry_ok E True) [0..33]"
  by code_simp

lemma target_side_checked: "case registered_structs of None \<Rightarrow> False | Some E \<Rightarrow> list_all (entry_ok E False) [0..33]"
  by code_simp

lemma nesting_checked: "case registered_structs of None \<Rightarrow> False | Some E \<Rightarrow> list_all (\<lambda>i. nests E conversion_depth [TYPE_STRUCT, i]) [0..33]"
  by code_simp

lemma table_checked:
  obtains E where "registered_structs = Some E" "\<And>i h. 0 \<le> i \<and> i \<le> 33 \<Longrightarrow> nests E conversion_depth [TYPE_STRUCT, i] \<and> entry_ok E h i"
proof -
  obtain E where R: "registered_structs = Some E" using host_side_checked by (auto split: option.splits)
  have E: "list_all (entry_ok E True) [0..33]" "list_all (entry_ok E False) [0..33]"
    "list_all (\<lambda>i. nests E conversion_depth [TYPE_STRUCT, i]) [0..33]"
    using host_side_checked target_side_checked nesting_checked unfolding R option.case by blast+
  have "nests E conversion_depth [TYPE_STRUCT, i] \<and> entry_ok E h i" if "0 \<le> i \<and> i \<le> 33" for i h
  proof -
    have "i \<in> set [0..33]" using that by simp
    then show ?thesis using E by (cases h) (auto simp: list_all_iff simp del: set_upto)
  qed
  then show thesis by (rule that [OF R])
qed

lemma register_others:
  "register_structs ds E = Some E' \<Longrightarrow> i \<notin> fst ` set ds \<Longrightarrow> E' i = E i"
proof (induction ds arbitrary: E)
  case (Cons d ds)
  obtain j nm ts where d: "d = (j, nm, ts)" by (cases d)
  obtain E1 where E1: "thunk_register_struct E j nm ts = Some E1" "register_structs ds E1 = Some E'"
    using Cons.prems(1) by (auto simp: d split: option.splits)
  then have "E1 i = E i" using Cons.prems(2) by (auto simp: d thunk_register_struct_def split: option.splits)
  then show ?case using Cons.IH [OF E1(2)] Cons.prems(2) by simp
qed simp

lemma struct_ids: "fst ` set struct_defs = {1..33}"
proof -
  have "map fst struct_defs = [1..33]" by code_simp
  then have "set (map fst struct_defs) = set [1..33 :: int]" by (rule arg_cong)
  then show ?thesis by (simp only: set_map set_upto)
qed

lemma registered_others:
  assumes "registered_structs = Some E"
  shows "E STRUCT_termios = struct_termios_def\<lparr>se_name := ''termios''\<rparr>" "i < 0 \<or> 33 < i \<Longrightarrow> E i = null_entry"
  using assms register_others [of struct_defs _ E] unfolding registered_structs_def struct_ids
  by (fastforce simp: thunk_register_struct_direct_def)+

lemma convertible_proceeds: "convertible E h tps \<Longrightarrow> \<exists>tps'. thunk_type_next tps = Some tps'"
proof (induction E h tps rule: convertible.induct)
  case (3 E h ty n tp)
  then show ?case by (auto simp: scalar_types)
qed (auto simp: scalar_types)

text \<open>Conversion at a sufficient depth returns.\<close>

lemma convert_elems_total:
  "(\<And>m d s. \<exists>m'. conv m d s = Some m') \<Longrightarrow> \<exists>m'. convert_elems conv n dsz ssz m d s = Some m'"
proof (induction n arbitrary: m d s)
  case (Suc n)
  obtain m1 where "conv m d s = Some m1" using Suc.prems by blast
  then show ?case using Suc.IH [OF Suc.prems] by simp
qed simp

lemma convert_fields_total:
  "(\<And>ft m d s. ft \<in> set (fields_from n tp) \<Longrightarrow> \<exists>m' ft'. conv m d s ft = Some (m', ft') \<and> thunk_type_next ft = Some ft') \<Longrightarrow>
   length offs \<le> length (fields_from n tp) \<Longrightarrow> \<exists>m'. convert_fields conv offs m d s tp = Some m'"
proof (induction n arbitrary: tp offs m)
  case (Suc n)
  show ?case
  proof (cases offs)
    case (Cons o1 os)
    obtain doff soff where o1: "o1 = (doff, soff)" by fastforce
    obtain m1 ft where m1: "conv m (d + of_int doff) (s + of_int soff) tp = Some (m1, ft)" "thunk_type_next tp = Some ft"
      using Suc.prems(1) [of tp] by fastforce
    have "\<exists>m'. convert_fields conv os m1 d s ft = Some m'"
      using Suc.prems m1(2) by (intro Suc.IH) (auto simp: Cons)
    then show ?thesis by (simp add: Cons o1 m1(1))
  qed simp
qed simp

lemma conversion_total:
  assumes "\<forall>i. wf_entry E h (E i)"
  shows "nests E k tps \<Longrightarrow> convertible E h tps \<Longrightarrow> \<exists>m' tps'. thunk_convert k E m d s tps h = Some (m', tps')"
proof (induction k arbitrary: m d s tps)
  case (Suc k)
  have conv: "\<exists>m' tps'. thunk_convert k E m d s ft h = Some (m', tps') \<and> thunk_type_next ft = Some tps'"
    if "nests E k ft" "convertible E h ft" for m d s ft
    using Suc.IH [OF that, of m d s] convertible_next [OF that(2)] by blast
  from Suc.prems(2) obtain ty tp where tps: "tps = ty # tp" by (cases tps) auto
  consider "1 \<le> ty \<and> ty \<le> 8" | n et where "ty = TYPE_ARRAY" "tp = n # et" "0 \<le> n" "convertible E h et"
    | i tp' where "ty = TYPE_STRUCT" "tp = i # tp'"
    using Suc.prems(2) by (cases tp) (auto simp: tps)
  then show ?case
  proof cases
    case 1
    then show ?thesis by (auto simp: scalar_types tps)
  next
    case 2
    then have n: "nests E k et" using Suc.prems(1) by (simp add: tps)
    obtain et' where "thunk_type_next et = Some et'" using convertible_proceeds [OF 2(4)] by blast
    moreover have "\<exists>m'. map_option fst (thunk_convert k E m d s et h) = Some m'" for m d s
      using conv [OF n 2(4), of m d s] by auto
    from convert_elems_total [of "\<lambda>m d s. map_option fst (thunk_convert k E m d s et h)", OF this]
    obtain m' where "convert_elems (\<lambda>m d s. map_option fst (thunk_convert k E m d s et h)) (nat n) (thunk_type_size E et h)
        (thunk_type_size E et (\<not> h)) m d s = Some m'" by blast
    ultimately show ?thesis using 2 by (simp add: tps)
  next
    case 3
    show ?thesis
    proof (cases "convert (E i)")
      case None
      let ?fs = "fields_from (nb_fields (E i)) (field_types (E i))"
      have n: "list_all (nests E k) ?fs" using Suc.prems(1) 3 None by (simp add: tps)
      have lay: "laid_out E h ?fs (field_offsets (E i) h) 0 (se_size (E i) h)" and all: "list_all (convertible E h) ?fs"
        using assms None by (auto simp: wf_entry_def split: option.splits dest: spec [of _ i])
      have "\<exists>m'. convert_fields (\<lambda>m d s ft. thunk_convert k E m d s ft h)
          (take (nb_fields (E i)) (zip (field_offsets (E i) h) (field_offsets (E i) (\<not> h)))) m d s (field_types (E i)) = Some m'"
        using conv n all laid_out_length [OF lay] by (intro convert_fields_total) (auto simp: list_all_iff)
      then show ?thesis using 3 None by (auto simp: tps)
    qed (use 3 in \<open>simp add: tps\<close>)
  qed
qed simp

lemma registered_wf:
  assumes E: "registered_structs = Some E" and ok: "\<And>i h. 0 \<le> i \<and> i \<le> 33 \<Longrightarrow> nests E conversion_depth [TYPE_STRUCT, i] \<and> entry_ok E h i"
  shows "wf_entry E h (E i)"
proof (cases "0 \<le> i \<and> i \<le> 33")
  case True
  note i = conjunct2 [OF ok [OF True, of h]]
  show ?thesis
  proof (cases "convert (E i)")
    case (Some f)
    then have "i = STRUCT_termios" using i by (simp add: entry_ok_def)
    then have "convert (E i) = Some (\<lambda>to_host. if to_host then target_to_host_termios else host_to_target_termios)" "se_size (E i) h = (if h then 60 else 36)"
      using registered_others(1) [OF E] by (simp_all add: struct_termios_def_def)
    then show ?thesis by (simp add: wf_entry_def termios_frame)
  qed (use i in \<open>simp add: entry_ok_def wf_entry_def\<close>)
next
  case False
  then have "E i = null_entry" using registered_others(2) [OF E, of i] by linarith
  then show ?thesis by (simp add: wf_entry_def null_entry_def)
qed

text \<open>C34: Every structure that is registered (the 33 laid out from their descriptors and termios, which
  has converters of its own) is converted in either direction without running out of the depth,
  whatever the bytes: the conversion returns, and it has changed no byte of memory but those of
  the destination that belong to the structure, as many as its size on the destination's side. No
  structure is larger than the buffer of 4096 bytes that the requests are converted in.\<close>

theorem registered_conversion_stays_inside:
  "\<exists>E. registered_structs = Some E \<and> (\<forall>i. 0 \<le> i \<and> i \<le> 33 \<longrightarrow> 0 < se_size (E i) to_host \<and> se_size (E i) to_host \<le> 4096
     \<and> (\<exists>m'. thunk_convert conversion_depth E m dst src (TYPE_STRUCT # i # tps) to_host = Some (m', tps)
          \<and> (\<forall>x. nat (se_size (E i) to_host) \<le> unat (x - dst) \<longrightarrow> m' x = m x)))"
proof -
  obtain E where E: "registered_structs = Some E"
    and ok: "\<And>i h. 0 \<le> i \<and> i \<le> 33 \<Longrightarrow> nests E conversion_depth [TYPE_STRUCT, i] \<and> entry_ok E h i" by (rule table_checked) blast
  have wf: "\<forall>i. wf_entry E to_host (E i)" using registered_wf [OF E ok] by blast
  have "0 < se_size (E i) to_host \<and> se_size (E i) to_host \<le> 4096
     \<and> (\<exists>m'. thunk_convert conversion_depth E m dst src (TYPE_STRUCT # i # tps) to_host = Some (m', tps)
          \<and> (\<forall>x. nat (se_size (E i) to_host) \<le> unat (x - dst) \<longrightarrow> m' x = m x))" if "0 \<le> i \<and> i \<le> 33" for i
  proof -
    note i = conjunct2 [OF ok [OF that, of to_host]]
    have c: "convertible E to_host (TYPE_STRUCT # i # tps)" using i by (simp add: entry_ok_def)
    have "nests E conversion_depth [TYPE_STRUCT, i]" by (rule conjunct1 [OF ok [OF that]])
    then have "nests E conversion_depth (TYPE_STRUCT # i # tps)" by (simp add: conversion_depth_def numeral_eq_Suc)
    from conversion_total [OF wf this c] obtain m' tps' where m':
      "thunk_convert conversion_depth E m dst src (TYPE_STRUCT # i # tps) to_host = Some (m', tps')" by blast
    moreover have "tps' = tps" using convertible_next [OF c m'] by simp
    moreover have "m' x = m x" if "nat (se_size (E i) to_host) \<le> unat (x - dst)" for x
      using thunk_convert_stays_inside [OF wf c m', of x] that by simp
    ultimately show ?thesis using i by (simp add: entry_ok_def)
  qed
  then show ?thesis using E by blast
qed

lemma registered_conversion_stays_inside_witness:
  "\<exists>E m'. registered_structs = Some E \<and> thunk_convert conversion_depth E (\<lambda>_. 7) 0x1000 0x2000 [TYPE_STRUCT, STRUCT_termios] True = Some (m', [])
     \<and> m' 0x2000 = 7"
proof -
  obtain E m' where E: "registered_structs = Some E" "se_size (E STRUCT_termios) True \<le> 4096"
    "thunk_convert conversion_depth E (\<lambda>_. 7) 0x1000 0x2000 [TYPE_STRUCT, STRUCT_termios] True = Some (m', [])"
    "\<forall>x. nat (se_size (E STRUCT_termios) True) \<le> unat (x - 0x1000) \<longrightarrow> m' x = 7"
    using registered_conversion_stays_inside [of True "\<lambda>_. 7" "0x1000" "0x2000" "[]"] by (auto dest: spec [of _ 0])
  have "unat (0x2000 - 0x1000 :: addr) = 4096" by simp
  then have "m' 0x2000 = 7" using E(2,4) by (simp add: nat_le_iff)
  then show ?thesis using E(1,3) by blast
qed

end
