(* ===== verification/Sys_Proc.thy ===== *)
theory Sys_Proc
  imports Sys_File Ioctl
begin

text \<open>
  The cases of \<open>do_syscall\<close> from access to setsid. The cases \<open>goto unimplemented\<close>
  of the source return -ENOSYS. An uninitialised local of the source that
  reaches a host call has the value zero here.
\<close>

text \<open>A call the host has, and a call with no counterpart.\<close>

abbreviation (input) unimplemented :: "('s, abi_long) state" where
  "unimplemented \<equiv> ret (- TARGET_ENOSYS)"

definition syscall_access_pipe ::
  "'k host \<Rightarrow> bytes \<Rightarrow> 32 word \<Rightarrow> 32 word \<Rightarrow> 32 word \<Rightarrow> 32 word \<Rightarrow> 32 word \<Rightarrow> ('k, 'z, abi_long) C option" where
  "syscall_access_pipe H chroot num arg1 arg2 arg3 arg4 =
     (if num = TARGET_NR_stty \<or> num = TARGET_NR_gtty then Some unimplemented
      else if num = TARGET_NR_access then Some (path_call H chroot ''access'' [] arg1 [sx arg2])
      else if num = TARGET_NR_faccessat then Some (path_call H chroot ''sys_faccessat'' [sx arg1] arg2 [sx arg3])
      else if num = TARGET_NR_nice then Some (sysc H ''nice'' [sx arg1])
      else if num = TARGET_NR_ftime then Some unimplemented
      else if num = TARGET_NR_sync then Some (do { call H ''sync'' []; ret 0 })
      else if num = TARGET_NR_kill then Some (sysc H ''kill'' [sx arg1, sx (target_to_host_signal arg2)])
      else if num = TARGET_NR_rename then Some (path_call2 H chroot ''rename'' [] arg1 [] arg2 [])
      else if num = TARGET_NR_renameat then
        Some (path_call2 H chroot ''sys_renameat'' [sx arg1] arg2 [sx arg3] arg4 [])
      else if num = TARGET_NR_mkdir then Some (path_call H chroot ''mkdir'' [] arg1 [sx arg2])
      else if num = TARGET_NR_mkdirat then Some (path_call H chroot ''sys_mkdirat'' [sx arg1] arg2 [sx arg3])
      else if num = TARGET_NR_rmdir then Some (path_call H chroot ''rmdir'' [] arg1 [])
      else if num = TARGET_NR_dup then Some (sysc H ''dup'' [sx arg1])
      else if num = TARGET_NR_pipe then Some (do_pipe H arg1 0 False)
      else if num = TARGET_NR_pipe2 then Some (do_pipe H arg1 arg2 True)
      else None)"

text \<open>\<open>times\<close>: the four counts are stored even when the host's call failed.\<close>

definition sys_times :: "'k host \<Rightarrow> 32 word \<Rightarrow> ('k, 'z, abi_long) C" where
  "sys_times H arg1 = do {
     (r, outs) \<leftarrow> syscb H ''times'' [Out 32];
     let tms = out outs 0;
     let r' = (if is_error r then r else host_to_target_clock_t (scast r));
     if arg1 = 0 then ret r'
     else do {
       p \<leftarrow> lock_user arg1;
       if p = 0 then ret (- TARGET_EFAULT)
       else do {
         for_each [0..<4] (\<lambda>i. wr32 (p + of_nat (4 * i)) (host_to_target_clock_t (fld64 tms (8 * i))));
         ret r' } } }"

definition syscall_times_setsid ::
  "'k host \<Rightarrow> bytes \<Rightarrow> struct_entries \<Rightarrow> IOCTLEntry list \<Rightarrow> addr \<Rightarrow>
   32 word \<Rightarrow> 32 word \<Rightarrow> 32 word \<Rightarrow> 32 word \<Rightarrow> ('k, 'z, abi_long) C option" where
  "syscall_times_setsid H chroot E tbl buf_temp num arg1 arg2 arg3 =
     (if num = TARGET_NR_times then Some (sys_times H arg1)
      else if num = TARGET_NR_prof \<or> num = TARGET_NR_signal then Some unimplemented
      else if num = TARGET_NR_acct then
        Some (if arg1 = 0 then sysc H ''acct'' [W 0] else path_call H chroot ''acct'' [] arg1 [])
      else if num = TARGET_NR_umount2 then Some (path_call H chroot ''umount2'' [] arg1 [sx arg2])
      else if num = TARGET_NR_lock then Some unimplemented
      else if num = TARGET_NR_ioctl then Some (do_ioctl H E tbl buf_temp arg1 arg2 arg3)
      else if num = TARGET_NR_fcntl then Some (do_fcntl H arg1 arg2 arg3)
      else if num = TARGET_NR_mpx then Some unimplemented
      else if num = TARGET_NR_setpgid then Some (sysc H ''setpgid'' [sx arg1, sx arg2])
      else if num = TARGET_NR_ulimit \<or> num = TARGET_NR_oldolduname then Some unimplemented
      else if num = TARGET_NR_umask then Some (sysc H ''umask'' [sx arg1])
      else if num = TARGET_NR_chroot then Some (path_call H chroot ''chroot'' [] arg1 [])
      else if num = TARGET_NR_ustat then Some unimplemented
      else if num = TARGET_NR_dup2 then Some (sysc H ''dup2'' [sx arg1, sx arg2])
      else if num = TARGET_NR_getppid then Some (sysc H ''getppid'' [])
      else if num = TARGET_NR_getpgrp then Some (sysc H ''getpgrp'' [])
      else if num = TARGET_NR_setsid then Some (sysc H ''setsid'' [])
      else None)"

end
