(* ===== verification/Sys_Signal.thy ===== *)
theory Sys_Signal
  imports Sys_Proc
begin

text \<open>
  The cases of \<open>do_syscall\<close> on signals: the two sigaction calls, the masks, the
  pending and waiting calls. \<open>hsh\<close> is the address of the host's signal handler.
\<close>

section \<open>Actions\<close>

text \<open>The old structure: handler at 0, mask 4 (one word), flags 8, restorer 12.\<close>

definition rd_old_sigaction :: "addr \<Rightarrow> ('k, 'z, target_sigaction) C" where
  "rd_old_sigaction p = do {
     h \<leftarrow> rd32 p; m \<leftarrow> rd32 (p + 4); f \<leftarrow> rd32 (p + 8); r \<leftarrow> rd32 (p + 12);
     ret \<lparr>sa_handler = h, sa_flags = f, sa_restorer = r, sa_mask = [m, 0]\<rparr> }"

definition wr_old_sigaction :: "addr \<Rightarrow> target_sigaction \<Rightarrow> ('k, 'z, unit) C" where
  "wr_old_sigaction p k = do {
     wr32 p (sa_handler k); wr32 (p + 4) (sa_mask k ! 0); wr32 (p + 8) (sa_flags k);
     wr32 (p + 12) (sa_restorer k) }"

definition sys_sigaction :: "'k host \<Rightarrow> 64 word \<Rightarrow> 32 word \<Rightarrow> 32 word \<Rightarrow> 32 word \<Rightarrow> ('k, 'z, abi_long) S" where
  "sys_sigaction H hsh arg1 arg2 arg3 = do {
     pact \<leftarrow>
       if arg2 = 0 then ret (Inr None)
       else do {
         p \<leftarrow> lock_user arg2;
         if p = 0 then ret (Inl ()) else do { a \<leftarrow> rd_old_sigaction p; ret (Inr (Some a)) } };
     case pact of
       Inl _ \<Rightarrow> ret (- TARGET_EFAULT)
     | Inr act \<Rightarrow> do {
         (r, k) \<leftarrow> do_sigaction H hsh arg1 (map_option ret act) (Some (\<lambda>_. ret ()));
         r' \<leftarrow> get_errno r;
         if \<not> is_error r' \<and> arg3 \<noteq> 0 then do {
           p \<leftarrow> lock_user arg3;
           if p = 0 then ret (- TARGET_EFAULT)
           else do { (case k of None \<Rightarrow> ret () | Some oact \<Rightarrow> wr_old_sigaction p oact); ret r' } }
         else ret r' } }"

text \<open>The new call hands pointers into the guest's memory to \<open>do_sigaction\<close>.\<close>

definition sys_rt_sigaction :: "'k host \<Rightarrow> 64 word \<Rightarrow> 32 word \<Rightarrow> 32 word \<Rightarrow> 32 word \<Rightarrow> ('k, 'z, abi_long) S" where
  "sys_rt_sigaction H hsh arg1 arg2 arg3 = do {
     act \<leftarrow> lock_user arg2;
     oact \<leftarrow> lock_user arg3;
     if arg2 \<noteq> 0 \<and> act = 0 then ret (- TARGET_EFAULT)
     else if arg3 \<noteq> 0 \<and> oact = 0 then ret (- TARGET_EFAULT)
     else do {
       (r, _) \<leftarrow> do_sigaction H hsh arg1
                  (if arg2 = 0 then None else Some (rd_sigaction act))
                  (if arg3 = 0 then None else Some (wr_sigaction oact));
       get_errno r } }"

section \<open>Masks\<close>

text \<open>SIG_BLOCK, SIG_UNBLOCK and SIG_SETMASK are 0, 1 and 2 in the guest and on the host.\<close>

definition host_sigmask_how :: "32 word \<Rightarrow> 32 word option" where
  "host_sigmask_how arg =
     (if arg = 0 then Some 0 else if arg = 1 then Some 1 else if arg = 2 then Some 2 else None)"

definition rd_old_sigset_host :: "addr \<Rightarrow> ('k, 'z, sigset_t) C" where
  "rd_old_sigset_host p = do { w \<leftarrow> rd32 p; ret (target_to_host_old_sigset w) }"

definition wr_old_sigset_target :: "addr \<Rightarrow> sigset_t \<Rightarrow> ('k, 'z, unit) C" where
  "wr_old_sigset_target p sg = wr32 p (host_to_target_old_sigset sg)"

definition rd_sigset_host :: "addr \<Rightarrow> ('k, 'z, sigset_t) C" where
  "rd_sigset_host p = do { d \<leftarrow> rd_sigset p; ret (target_to_host_sigset d) }"

definition wr_sigset_target :: "addr \<Rightarrow> sigset_t \<Rightarrow> ('k, 'z, unit) C" where
  "wr_sigset_target p sg = wr_sigset p (host_to_target_sigset sg)"

definition sys_sgetmask :: "'k host \<Rightarrow> ('k, 'z, abi_long) C" where
  "sys_sgetmask H = do {
     (_, outs) \<leftarrow> hcall H ''sigprocmask'' [W 0, W 0, Out 128];
     ret (host_to_target_old_sigset (fld64 (out outs 2) 0)) }"

definition sys_ssetmask :: "'k host \<Rightarrow> 32 word \<Rightarrow> ('k, 'z, abi_long) C" where
  "sys_ssetmask H arg1 = do {
     (_, cur) \<leftarrow> hcall H ''sigprocmask'' [W 0, W 0, Out 128];
     let sg = target_to_host_old_sigset arg1 OR fld64 (out cur 2) 0;
     (_, outs) \<leftarrow> hcall H ''sigprocmask'' [W 2, In (sigset_bytes sg), Out 128];
     ret (host_to_target_old_sigset (fld64 (out outs 2) 0)) }"

text \<open>\<open>sigprocmask\<close> and \<open>rt_sigprocmask\<close> differ in the sets they read and write.\<close>

definition sys_sigprocmask ::
  "'k host \<Rightarrow> (addr \<Rightarrow> ('k, 'z, sigset_t) C) \<Rightarrow> (addr \<Rightarrow> sigset_t \<Rightarrow> ('k, 'z, unit) C) \<Rightarrow>
   32 word \<Rightarrow> 32 word \<Rightarrow> 32 word \<Rightarrow> ('k, 'z, abi_long) C" where
  "sys_sigprocmask H rd wr arg1 arg2 arg3 = do {
     q \<leftarrow>
       if arg2 = 0 then ret (Inr (0, W 0))
       else (case host_sigmask_how arg1 of
               None \<Rightarrow> ret (Inl (- TARGET_EINVAL))
             | Some how \<Rightarrow> do {
                 p \<leftarrow> lock_user arg2;
                 if p = 0 then ret (Inl (- TARGET_EFAULT))
                 else do { sg \<leftarrow> rd p; ret (Inr (how, In (sigset_bytes sg))) } });
     case q of
       Inl e \<Rightarrow> ret e
     | Inr (how, set_ptr) \<Rightarrow> do {
         (r, outs) \<leftarrow> syscb H ''sigprocmask'' [sx how, set_ptr, Out 128];
         if \<not> is_error r \<and> arg3 \<noteq> 0 then
           with_string arg3 (\<lambda>p. do { wr p (fld64 (out outs 2) 0); ret r })
         else ret r } }"

section \<open>Pending signals, waiting\<close>

definition sys_sigpending ::
  "'k host \<Rightarrow> (addr \<Rightarrow> sigset_t \<Rightarrow> ('k, 'z, unit) C) \<Rightarrow> 32 word \<Rightarrow> ('k, 'z, abi_long) C" where
  "sys_sigpending H wr arg1 = do {
     (r, outs) \<leftarrow> syscb H ''sigpending'' [Out 128];
     if is_error r then ret r
     else with_string arg1 (\<lambda>p. do { wr p (fld64 (out outs 0) 0); ret r }) }"

definition sys_sigsuspend ::
  "'k host \<Rightarrow> (addr \<Rightarrow> ('k, 'z, sigset_t) C) \<Rightarrow> 32 word \<Rightarrow> ('k, 'z, abi_long) C" where
  "sys_sigsuspend H rd arg1 =
     with_string arg1 (\<lambda>p. do { sg \<leftarrow> rd p; sysc H ''sigsuspend'' [In (sigset_bytes sg)] })"

text \<open>A timespec argument whose copy may fail unnoticed.\<close>

definition timespec_or_zero :: "abi_ulong \<Rightarrow> ('k, 'z, bytes) C" where
  "timespec_or_zero a = do {
     t \<leftarrow> target_to_host_timespec a;
     ret (case t of Inl _ \<Rightarrow> replicate 16 0 | Inr b \<Rightarrow> b) }"

definition sys_rt_sigtimedwait :: "'k host \<Rightarrow> 32 word \<Rightarrow> 32 word \<Rightarrow> 32 word \<Rightarrow> ('k, 'z, abi_long) C" where
  "sys_rt_sigtimedwait H arg1 arg2 arg3 =
     with_string arg1 (\<lambda>p. do {
       sg \<leftarrow> rd_sigset_host p;
       puts \<leftarrow> if arg3 = 0 then ret (W 0) else do { b \<leftarrow> timespec_or_zero arg3; ret (In b) };
       (r, outs) \<leftarrow> syscb H ''sigtimedwait'' [In (sigset_bytes sg), Out 128, puts];
       if \<not> is_error r \<and> arg2 \<noteq> 0 then
         with_string arg2 (\<lambda>q. do { host_to_target_siginfo q (out outs 1); ret r })
       else ret r })"

definition sys_rt_sigqueueinfo :: "'k host \<Rightarrow> 32 word \<Rightarrow> 32 word \<Rightarrow> 32 word \<Rightarrow> ('k, 'z, abi_long) C" where
  "sys_rt_sigqueueinfo H arg1 arg2 arg3 =
     with_string arg3 (\<lambda>p. do {
       uinfo \<leftarrow> target_to_host_siginfo p;
       sysc H ''sys_rt_sigqueueinfo'' [sx arg1, sx arg2, In uinfo] })"

section \<open>The group\<close>

definition syscall_signal ::
  "'k host \<Rightarrow> 64 word \<Rightarrow> 32 word \<Rightarrow> 32 word \<Rightarrow> 32 word \<Rightarrow> 32 word \<Rightarrow> ('k, 'z, abi_long) S option" where
  "syscall_signal H hsh num arg1 arg2 arg3 =
     (if num = TARGET_NR_sigaction then Some (sys_sigaction H hsh arg1 arg2 arg3)
      else if num = TARGET_NR_rt_sigaction then Some (sys_rt_sigaction H hsh arg1 arg2 arg3)
      else if num = TARGET_NR_sgetmask then Some (sys_sgetmask H)
      else if num = TARGET_NR_ssetmask then Some (sys_ssetmask H arg1)
      else if num = TARGET_NR_sigprocmask then
        Some (sys_sigprocmask H rd_old_sigset_host wr_old_sigset_target arg1 arg2 arg3)
      else if num = TARGET_NR_rt_sigprocmask then
        Some (sys_sigprocmask H rd_sigset_host wr_sigset_target arg1 arg2 arg3)
      else if num = TARGET_NR_sigpending then Some (sys_sigpending H wr_old_sigset_target arg1)
      else if num = TARGET_NR_rt_sigpending then Some (sys_sigpending H wr_sigset_target arg1)
      else if num = TARGET_NR_sigsuspend then Some (sys_sigsuspend H rd_old_sigset_host arg1)
      else if num = TARGET_NR_rt_sigsuspend then Some (sys_sigsuspend H rd_sigset_host arg1)
      else if num = TARGET_NR_rt_sigtimedwait then Some (sys_rt_sigtimedwait H arg1 arg2 arg3)
      else if num = TARGET_NR_rt_sigqueueinfo then Some (sys_rt_sigqueueinfo H arg1 arg2 arg3)
      else if num = TARGET_NR_sigreturn then Some (assert_fail H)
      else if num = TARGET_NR_rt_sigreturn then Some (assert_fail H)
      else None)"

end
