(* ===== verification/Sys_Limits.thy ===== *)
theory Sys_Limits
  imports Sys_Signal
begin

text \<open>
  The cases of \<open>do_syscall\<close> from sethostname to fstatfs64: limits and usage, the
  clock, select, symbolic links, the memory calls and the file-system status.
\<close>

section \<open>Limits, usage and the clock\<close>

text \<open>The guest's \<open>rlimit\<close> is two words, the host's two longs.\<close>

definition sys_setrlimit :: "'k host \<Rightarrow> 32 word \<Rightarrow> 32 word \<Rightarrow> ('k, 'z, abi_long) C" where
  "sys_setrlimit H arg1 arg2 =
     with_string arg2 (\<lambda>p. do {
       cur \<leftarrow> rd32 p; mx \<leftarrow> rd32 (p + 4);
       sysc H ''setrlimit'' [sx arg1, In (le64 (target_to_host_rlim cur) @ le64 (target_to_host_rlim mx))] })"

definition sys_getrlimit :: "'k host \<Rightarrow> 32 word \<Rightarrow> 32 word \<Rightarrow> ('k, 'z, abi_long) C" where
  "sys_getrlimit H arg1 arg2 = do {
     (r, outs) \<leftarrow> syscb H ''getrlimit'' [sx arg1, Out 16];
     if is_error r then ret r
     else with_string arg2 (\<lambda>p. do {
       wr32 p (host_to_target_rlim (fld64 (out outs 1) 0));
       wr32 (p + 4) (host_to_target_rlim (fld64 (out outs 1) 8));
       ret r }) }"

definition sys_getrusage :: "'k host \<Rightarrow> 32 word \<Rightarrow> 32 word \<Rightarrow> ('k, 'z, abi_long) C" where
  "sys_getrusage H arg1 arg2 = do {
     (r, outs) \<leftarrow> syscb H ''getrusage'' [sx arg1, Out 144];
     if is_error r then ret r
     else do { host_to_target_rusage arg2 (out outs 1); ret r } }"

definition sys_gettimeofday :: "'k host \<Rightarrow> 32 word \<Rightarrow> ('k, 'z, abi_long) C" where
  "sys_gettimeofday H arg1 = do {
     (r, outs) \<leftarrow> syscb H ''gettimeofday'' [Out 16, W 0];
     if is_error r then ret r
     else do {
       e \<leftarrow> copy_to_user_timeval arg1 (out outs 0);
       ret (if e \<noteq> 0 then - TARGET_EFAULT else r) } }"

definition sys_settimeofday :: "'k host \<Rightarrow> 32 word \<Rightarrow> ('k, 'z, abi_long) C" where
  "sys_settimeofday H arg1 = do {
     t \<leftarrow> copy_from_user_timeval arg1;
     case t of Inl _ \<Rightarrow> ret (- TARGET_EFAULT) | Inr tv \<Rightarrow> sysc H ''settimeofday'' [In tv, W 0] }"

text \<open>The old select takes one pointer to its five arguments.\<close>

definition sys_select :: "'k host \<Rightarrow> 32 word \<Rightarrow> ('k, 'z, abi_long) C" where
  "sys_select H arg1 =
     with_string arg1 (\<lambda>p. do {
       nsel \<leftarrow> rd32 p; inp \<leftarrow> rd32 (p + 4); outp \<leftarrow> rd32 (p + 8); exc \<leftarrow> rd32 (p + 12); tvp \<leftarrow> rd32 (p + 16);
       do_select H nsel inp outp exc tvp })"

section \<open>Links\<close>

definition proc_self_exe :: bytes where
  "proc_self_exe = map of_char ''/proc/self/exe''"

text \<open>
  The link's path is compared with the name of the process's own executable on
  its first fourteen bytes; that case is an assertion failure. The output buffer
  goes through \<open>path\<close> too: when its old contents begin with a slash, the
  host writes into the heap copy and not into the guest's buffer.
\<close>

definition sys_readlink :: "'k host \<Rightarrow> bytes \<Rightarrow> 32 word \<Rightarrow> 32 word \<Rightarrow> 32 word \<Rightarrow> ('k, 'z, abi_long) C" where
  "sys_readlink H chroot arg1 arg2 arg3 = do {
     p \<leftarrow> lock_user arg1;
     p2 \<leftarrow> lock_user arg2;
     if p = 0 \<or> p2 = 0 then ret (- TARGET_EFAULT)
     else do {
       name \<leftarrow> gets (\<lambda>s. cstr (mem s) p 14);
       if name = proc_self_exe then assert_fail H
       else do {
         q \<leftarrow> path chroot p;
         q2 \<leftarrow> path chroot p2;
         sysc H ''readlink'' [q, q2, sx arg3] } } }"

definition syscall_hostname_swapon ::
  "'k host \<Rightarrow> bytes \<Rightarrow> 32 word \<Rightarrow> 32 word \<Rightarrow> 32 word \<Rightarrow> 32 word \<Rightarrow> 32 word \<Rightarrow> ('k, 'z, abi_long) C option" where
  "syscall_hostname_swapon H chroot num arg1 arg2 arg3 arg4 =
     (if num = TARGET_NR_sethostname then
        Some (with_string arg1 (\<lambda>p. sysc H ''sethostname'' [W p, sx arg2]))
      else if num = TARGET_NR_setrlimit then Some (sys_setrlimit H arg1 arg2)
      else if num = TARGET_NR_getrlimit then Some (sys_getrlimit H arg1 arg2)
      else if num = TARGET_NR_getrusage then Some (sys_getrusage H arg1 arg2)
      else if num = TARGET_NR_gettimeofday then Some (sys_gettimeofday H arg1)
      else if num = TARGET_NR_settimeofday then Some (sys_settimeofday H arg1)
      else if num = TARGET_NR_select then Some (sys_select H arg1)
      else if num = TARGET_NR_pselect6 then Some unimplemented
      else if num = TARGET_NR_symlink then Some (path_call2 H chroot ''symlink'' [] arg1 [] arg2 [])
      else if num = TARGET_NR_symlinkat then
        Some (path_call2 H chroot ''sys_symlinkat'' [] arg1 [sx arg2] arg3 [])
      else if num = TARGET_NR_oldlstat then Some unimplemented
      else if num = TARGET_NR_readlink then Some (sys_readlink H chroot arg1 arg2 arg3)
      else if num = TARGET_NR_readlinkat then
        Some (path_call2 H chroot ''sys_readlinkat'' [sx arg1] arg2 [] arg3 [sx arg4])
      else if num = TARGET_NR_uselib then Some unimplemented
      else if num = TARGET_NR_swapon then Some (path_call H chroot ''swapon'' [] arg1 [sx arg2])
      else None)"

section \<open>Memory and the file system\<close>

definition mem_call :: "'k host \<Rightarrow> string \<Rightarrow> 32 word \<Rightarrow> harg list \<Rightarrow> ('k, 'z, abi_long) C" where
  "mem_call H f a post = do { p \<leftarrow> g2h a; sysc H f (W p # post) }"

text \<open>
  The host's \<open>statfs\<close> is 120 bytes: type at 0, bsize 8, blocks 16, bfree 24,
  bavail 32, files 40, ffree 48, fsid 56 and 60, namelen 64. The guest's has words
  throughout; \<open>statfs64\<close> has the five counts as double words.
\<close>

definition convert_statfs :: "32 word \<Rightarrow> bytes \<Rightarrow> abi_long \<Rightarrow> ('k, 'z, abi_long) C" where
  "convert_statfs arg2 stfs r =
     (if is_error r then ret r
      else with_string arg2 (\<lambda>p. do {
        for_each [0..<7] (\<lambda>i. wr32 (p + of_nat (4 * i)) (ucast (fld64 stfs (8 * i))));
        wr32 (p + 28) (fld32 stfs 56);
        wr32 (p + 32) (fld32 stfs 60);
        wr32 (p + 36) (ucast (fld64 stfs 64));
        ret r }))"

definition convert_statfs64 :: "32 word \<Rightarrow> bytes \<Rightarrow> abi_long \<Rightarrow> ('k, 'z, abi_long) C" where
  "convert_statfs64 arg3 stfs r =
     (if is_error r then ret r
      else with_string arg3 (\<lambda>p. do {
        wr32 p (ucast (fld64 stfs 0));
        wr32 (p + 4) (ucast (fld64 stfs 8));
        for_each [0..<5] (\<lambda>i. wr64 (p + of_nat (8 + 8 * i)) (fld64 stfs (16 + 8 * i)));
        wr32 (p + 48) (fld32 stfs 56);
        wr32 (p + 52) (fld32 stfs 60);
        wr32 (p + 56) (ucast (fld64 stfs 64));
        ret r }))"

definition sys_statfs ::
  "'k host \<Rightarrow> bytes \<Rightarrow> (bytes \<Rightarrow> abi_long \<Rightarrow> ('k, 'z, abi_long) C) \<Rightarrow> 32 word \<Rightarrow> ('k, 'z, abi_long) C" where
  "sys_statfs H chroot conv arg1 =
     with_path chroot arg1 (\<lambda>q. do {
       (r, outs) \<leftarrow> syscb H ''statfs'' [q, Out 120];
       conv (out outs 1) r })"

definition sys_fstatfs ::
  "'k host \<Rightarrow> (bytes \<Rightarrow> abi_long \<Rightarrow> ('k, 'z, abi_long) C) \<Rightarrow> 32 word \<Rightarrow> ('k, 'z, abi_long) C" where
  "sys_fstatfs H conv arg1 = do {
     (r, outs) \<leftarrow> syscb H ''fstatfs'' [sx arg1, Out 120];
     conv (out outs 1) r }"

definition syscall_mmap_statfs ::
  "'k host \<Rightarrow> bytes \<Rightarrow> 32 word \<Rightarrow> 32 word \<Rightarrow> 32 word \<Rightarrow> 32 word \<Rightarrow> ('k, 'z, abi_long) C option" where
  "syscall_mmap_statfs H chroot num arg1 arg2 arg3 =
     (if num = TARGET_NR_reboot \<or> num = TARGET_NR_readdir then Some unimplemented
      else if num = TARGET_NR_mmap \<or> num = TARGET_NR_mmap2 \<or> num = TARGET_NR_munmap
              \<or> num = TARGET_NR_mprotect \<or> num = TARGET_NR_mremap then Some (assert_fail H)
      else if num = TARGET_NR_msync then Some (mem_call H ''msync'' arg1 [sx arg2, sx arg3])
      else if num = TARGET_NR_mlock then Some (mem_call H ''mlock'' arg1 [sx arg2])
      else if num = TARGET_NR_munlock then Some (mem_call H ''munlock'' arg1 [sx arg2])
      else if num = TARGET_NR_mlockall then Some (sysc H ''mlockall'' [sx arg1])
      else if num = TARGET_NR_munlockall then Some (sysc H ''munlockall'' [])
      else if num = TARGET_NR_truncate then Some (path_call H chroot ''truncate'' [] arg1 [sx arg2])
      else if num = TARGET_NR_ftruncate then Some (sysc H ''ftruncate'' [sx arg1, sx arg2])
      else if num = TARGET_NR_fchmod then Some (sysc H ''fchmod'' [sx arg1, sx arg2])
      else if num = TARGET_NR_fchmodat then Some (path_call H chroot ''sys_fchmodat'' [sx arg1] arg2 [sx arg3])
      else if num = TARGET_NR_getpriority then Some (sysc H ''sys_getpriority'' [sx arg1, sx arg2])
      else if num = TARGET_NR_setpriority then Some (sysc H ''setpriority'' [sx arg1, sx arg2, sx arg3])
      else if num = TARGET_NR_profil then Some unimplemented
      else if num = TARGET_NR_statfs then Some (sys_statfs H chroot (convert_statfs arg2) arg1)
      else if num = TARGET_NR_fstatfs then Some (sys_fstatfs H (convert_statfs arg2) arg1)
      else if num = TARGET_NR_statfs64 then Some (sys_statfs H chroot (convert_statfs64 arg3) arg1)
      else if num = TARGET_NR_fstatfs64 then Some (sys_fstatfs H (convert_statfs64 arg3) arg1)
      else None)"

end
