(* ===== verification/Socket.thy ===== *)
theory Socket
  imports Structs
begin

text \<open>
  The socket calls of \<open>translatedsyscall.c\<close>: addresses, ancillary data, options,
  I/O vectors, and the calls themselves up to \<open>do_socketcall\<close>. The option and
  family constants of an i386 guest (\<open>translatedsocket.h\<close>) and of an x86-64
  host are the same numbers. \<open>chroot\<close> is the static \<open>Syscalls::chroot\<close>, the root
  directory put in front of absolute paths.
\<close>

definition upd_bytes :: "bytes \<Rightarrow> nat \<Rightarrow> bytes \<Rightarrow> bytes" where
  "upd_bytes bs off new = take off bs @ new @ drop (off + length new) bs"

section \<open>Multicast requests\<close>

definition target_to_host_ip_mreq :: "abi_ulong \<Rightarrow> 32 word \<Rightarrow> ('k, 'z, copied) C" where
  "target_to_host_ip_mreq target_addr len = do {
     p \<leftarrow> lock_user target_addr;
     if p = 0 then ret (Inl (- TARGET_EFAULT))
     else do {
       multiaddr \<leftarrow> rd32 p;
       address \<leftarrow> rd32 (p + 4);
       if len = 12 then do { ifindex \<leftarrow> rd32 (p + 8); ret (Inr (le32 multiaddr @ le32 address @ le32 ifindex)) }
       else ret (Inr (le32 multiaddr @ le32 address)) } }"

section \<open>Addresses\<close>

abbreviation (input) AF_UNIX :: "16 word" where "AF_UNIX \<equiv> 1"
abbreviation (input) unix_maxlen :: "32 word" where "unix_maxlen \<equiv> 110"

text \<open>The adjustment of an AF_UNIX address's length: a missing terminator is counted, and the maximum kept.\<close>

definition unix_len :: "addr \<Rightarrow> 32 word \<Rightarrow> ('k, 'z, 32 word) C" where
  "unix_len p len = do {
     len' \<leftarrow> if len < unix_maxlen \<and> 0 < len then do {
               a \<leftarrow> rd8 (p + ucast len - 1);
               b \<leftarrow> rd8 (p + ucast len);
               ret (if a \<noteq> 0 \<and> b = 0 then len + 1 else len) }
             else ret len;
     ret (if unix_maxlen < len' then unix_maxlen else len') }"

text \<open>
  The path of an AF_UNIX address copied to a local buffer, after \<open>path\<close> and the
  copy back over it. A path without a terminator ends with the copied bytes.
\<close>

definition unix_path :: "bytes \<Rightarrow> bytes \<Rightarrow> bytes" where
  "unix_path chroot bs =
     (let s = takeWhile (\<lambda>c. c \<noteq> 0) (drop 2 bs) in
      if s \<noteq> [] \<and> hd s = 0x2f then chroot @ s else s)"

definition target_to_host_sockaddr ::
  "'k host \<Rightarrow> bytes \<Rightarrow> abi_ulong \<Rightarrow> 32 word \<Rightarrow> ('k, 'z, copied) C" where
  "target_to_host_sockaddr H chroot target_addr len = do {
     p \<leftarrow> lock_user target_addr;
     if p = 0 then ret (Inl (- TARGET_EFAULT))
     else do {
       sa_family \<leftarrow> rd16 p;
       len' \<leftarrow> if sa_family = AF_UNIX then unix_len p len else ret len;
       bs \<leftarrow> rdb p (unat len');
       bs' \<leftarrow> if sa_family = AF_UNIX then do {
                let q = unix_path chroot bs;
                (if length q + 2 < unat unix_maxlen then ret ()
                 else do { call H ''__assert_fail'' []; ret () });
                ret (upd_bytes bs 2 (q @ [0])) }
              else ret bs;
       ret (Inr (upd_bytes bs' 0 (le16 sa_family))) } }"

definition host_to_target_sockaddr :: "abi_ulong \<Rightarrow> bytes \<Rightarrow> 32 word \<Rightarrow> ('k, 'z, abi_long) C" where
  "host_to_target_sockaddr target_addr addr len = do {
     p \<leftarrow> lock_user target_addr;
     if p = 0 then ret (- TARGET_EFAULT)
     else do {
       wrb p (take (unat len) addr);
       wr16 p (fld16 addr 0);
       ret 0 } }"

section \<open>Ancillary data\<close>

text \<open>
  The host's control buffer is a local object; a header in it is 16 bytes
  (length, level, type) and its contents are aligned to 8. The guest's header
  lies in memory, 12 bytes, aligned to 4.
\<close>

definition CMSG_ALIGN :: "64 word \<Rightarrow> 64 word" where "CMSG_ALIGN len = (len + 7) AND NOT 7"
definition CMSG_SPACE :: "64 word \<Rightarrow> 64 word" where "CMSG_SPACE len = CMSG_ALIGN len + CMSG_ALIGN 16"
definition CMSG_LEN :: "64 word \<Rightarrow> 64 word" where "CMSG_LEN len = CMSG_ALIGN 16 + len"

definition TARGET_CMSG_ALIGN :: "64 word \<Rightarrow> 64 word" where "TARGET_CMSG_ALIGN len = (len + 3) AND NOT 3"
definition TARGET_CMSG_SPACE :: "64 word \<Rightarrow> 64 word" where
  "TARGET_CMSG_SPACE len = TARGET_CMSG_ALIGN len + TARGET_CMSG_ALIGN 12"
definition TARGET_CMSG_LEN :: "64 word \<Rightarrow> 64 word" where
  "TARGET_CMSG_LEN len = TARGET_CMSG_ALIGN 12 + len"

text \<open>\<open>CMSG_FIRSTHDR\<close> and \<open>CMSG_NXTHDR\<close> of the C library, as offsets into the control buffer.\<close>

definition cmsg_firsthdr :: "64 word \<Rightarrow> nat option" where
  "cmsg_firsthdr controllen = (if 16 \<le> controllen then Some 0 else None)"

definition cmsg_nxthdr :: "bytes \<Rightarrow> 64 word \<Rightarrow> nat \<Rightarrow> nat option" where
  "cmsg_nxthdr ctl controllen c =
     (let len = fld64 ctl c; n = c + unat (CMSG_ALIGN len) in
      if len < 16 then None
      else if unat controllen < n + 16 then None
      else if unat controllen < n + unat (CMSG_ALIGN (fld64 ctl n)) then None
      else Some n)"

text \<open>
  \<open>__target_cmsg_nxthdr\<close> of \<open>translatedsyscalldefs.h\<close>: it computes the address of
  the next header, compares it with the guest's control address, and returns the
  header it was given.
\<close>

definition target_cmsg_nxthdr :: "addr \<Rightarrow> addr \<Rightarrow> ('k, 'z, addr) C" where
  "target_cmsg_nxthdr mhdr cmsg = do {
     clen \<leftarrow> rd32 cmsg;
     control \<leftarrow> rd32 (mhdr + 16);
     controllen \<leftarrow> rd32 (mhdr + 20);
     let nxt = cmsg + TARGET_CMSG_ALIGN (scast clen);
     if scast controllen < (nxt + 12) - scast control then ret 0
     else ret cmsg }"

text \<open>
  The loop of \<open>target_to_host_cmsg\<close>: the host header at offset \<open>c\<close>, the guest
  header at \<open>t\<close>, the space used so far. It ends with the contents of the control
  buffer and the space. A negative length would be passed to \<open>memcpy\<close> as a huge
  one; nothing is copied here. The host header advances by 16 bytes at least, so
  the buffer's size bounds the iterations.
\<close>

fun to_host_cmsg_loop ::
  "nat \<Rightarrow> addr \<Rightarrow> 64 word \<Rightarrow> nat option \<Rightarrow> addr \<Rightarrow> 32 word \<Rightarrow> bytes \<Rightarrow> ('k, 'z, bytes \<times> 32 word) C" where
  "to_host_cmsg_loop 0 mhdr controllen c t space ctl = ret (ctl, space)"
| "to_host_cmsg_loop (Suc n) mhdr controllen c t space ctl =
     (case c of None \<Rightarrow> ret (ctl, space) | Some c \<Rightarrow>
      if t = 0 then ret (ctl, space) else do {
        tlen \<leftarrow> rd32 t; level \<leftarrow> rd32 (t + 4); type \<leftarrow> rd32 (t + 8);
        let len = tlen - 12;
        let space' = space + ucast (CMSG_SPACE (scast len));
        if controllen < ucast space' then ret (ctl, space' - ucast (CMSG_SPACE (scast len)))
        else do {
          let ctl1 = upd_bytes ctl c (le64 (CMSG_LEN (scast len)) @ le32 level @ le32 type);
          dat \<leftarrow> rdb (t + 12)
                  (if len <s 0 then 0
                   else if level \<noteq> 1 \<or> type \<noteq> 1 then unat len else 4 * (unat len div 4));
          let ctl2 = upd_bytes ctl1 (c + 16) dat;
          t' \<leftarrow> target_cmsg_nxthdr mhdr t;
          to_host_cmsg_loop n mhdr controllen (cmsg_nxthdr ctl2 controllen c) t' space' ctl2 } })"

definition target_to_host_cmsg ::
  "addr \<Rightarrow> 64 word \<Rightarrow> bytes \<Rightarrow> ('k, 'z, abi_long + bytes \<times> 64 word) C" where
  "target_to_host_cmsg msgp controllen ctl = do {
     msg_controllen \<leftarrow> rd32 (msgp + 20);
     if (scast msg_controllen :: 64 word) < 12 then ret (Inr (ctl, 0))
     else do {
       target_cmsg_addr \<leftarrow> rd32 (msgp + 16);
       t \<leftarrow> lock_user target_cmsg_addr;
       if t = 0 then ret (Inl (- TARGET_EFAULT))
       else do {
         (ctl', space) \<leftarrow> to_host_cmsg_loop (Suc (length ctl)) msgp controllen
                            (cmsg_firsthdr controllen) t 0 ctl;
         ret (Inr (ctl', ucast space)) } } }"

fun to_target_cmsg_loop ::
  "nat \<Rightarrow> addr \<Rightarrow> 64 word \<Rightarrow> 32 word \<Rightarrow> nat option \<Rightarrow> addr \<Rightarrow> 32 word \<Rightarrow> bytes \<Rightarrow> ('k, 'z, 32 word) C" where
  "to_target_cmsg_loop 0 mhdr controllen msg_controllen c t space ctl = ret space"
| "to_target_cmsg_loop (Suc n) mhdr controllen msg_controllen c t space ctl =
     (case c of None \<Rightarrow> ret space | Some c \<Rightarrow>
      if t = 0 then ret space else do {
        let len = (ucast (fld64 ctl c - 16) :: 32 word);
        let level = fld32 ctl (c + 8);
        let type = fld32 ctl (c + 12);
        let space' = space + ucast (TARGET_CMSG_SPACE (scast len));
        if msg_controllen < space' then ret (space' - ucast (TARGET_CMSG_SPACE (scast len)))
        else do {
          wr32 (t + 4) level;
          wr32 (t + 8) type;
          wr32 t (ucast (TARGET_CMSG_LEN (scast len)));
          wrb (t + 12) (take (if len <s 0 then 0
                              else if level \<noteq> 1 \<or> type \<noteq> 1 then unat len else 4 * (unat len div 4))
                          (drop (c + 16) ctl));
          t' \<leftarrow> target_cmsg_nxthdr mhdr t;
          to_target_cmsg_loop n mhdr controllen msg_controllen (cmsg_nxthdr ctl controllen c) t' space' ctl } })"

definition host_to_target_cmsg :: "addr \<Rightarrow> 64 word \<Rightarrow> bytes \<Rightarrow> ('k, 'z, abi_long) C" where
  "host_to_target_cmsg msgp controllen ctl = do {
     msg_controllen \<leftarrow> rd32 (msgp + 20);
     if (scast msg_controllen :: 64 word) < 12 then do { wr32 (msgp + 20) 0; ret 0 }
     else do {
       target_cmsg_addr \<leftarrow> rd32 (msgp + 16);
       t \<leftarrow> lock_user target_cmsg_addr;
       if t = 0 then ret (- TARGET_EFAULT)
       else do {
         space \<leftarrow> to_target_cmsg_loop (Suc (length ctl)) msgp controllen msg_controllen
                    (cmsg_firsthdr controllen) t 0 ctl;
         wr32 (msgp + 20) space;
         ret 0 } } }"


section \<open>Options\<close>

abbreviation (input) SOL_IP :: "32 word" where "SOL_IP \<equiv> 0"
abbreviation (input) SOL_SOCKET :: "32 word" where "SOL_SOCKET \<equiv> 1"
abbreviation (input) SOL_TCP :: "32 word" where "SOL_TCP \<equiv> 6"

text \<open>
  TOS, TTL, HDRINCL, ROUTER_ALERT, RECVOPTS, RETOPTS, PKTINFO, MTU_DISCOVER,
  RECVERR, RECVTOS, FREEBIND, MULTICAST_TTL, MULTICAST_LOOP.
\<close>

definition ip_int_options :: "32 word list" where
  "ip_int_options = [1, 2, 3, 5, 6, 7, 8, 10, 11, 13, 15, 33, 34]"

text \<open>
  The guest's and the host's number of DEBUG, REUSEADDR, TYPE, ERROR, DONTROUTE,
  BROADCAST, SNDBUF, RCVBUF, KEEPALIVE, OOBINLINE, NO_CHECK, PRIORITY, BSDCOMPAT,
  PASSCRED, TIMESTAMP, RCVLOWAT.
\<close>

definition socket_int_options :: "(32 word \<times> 32 word) list" where
  "socket_int_options =
    [(1, 1), (2, 2), (3, 3), (4, 4), (5, 5), (6, 6), (7, 7), (8, 8), (9, 9), (10, 10), (11, 11),
     (12, 12), (14, 14), (16, 16), (29, 29), (18, 18)]"

text \<open>\<open>do_setsockopt\<close> takes RCVTIMEO and SNDTIMEO as int options too.\<close>

definition setsockopt_options :: "(32 word \<times> 32 word) list" where
  "setsockopt_options = socket_int_options @ [(20, 20), (21, 21)]"

definition setsockopt_int ::
  "'k host \<Rightarrow> 32 word \<Rightarrow> 32 word \<Rightarrow> 32 word \<Rightarrow> 32 word \<Rightarrow> ('k, 'z, abi_long) C" where
  "setsockopt_int H sockfd level optname val = do {
     r \<leftarrow> call32 H ''setsockopt'' [W (scast sockfd), W (scast level), W (scast optname), In (le32 val), W 4];
     get_errno r }"

definition do_setsockopt ::
  "'k host \<Rightarrow> 32 word \<Rightarrow> 32 word \<Rightarrow> 32 word \<Rightarrow> abi_ulong \<Rightarrow> 32 word \<Rightarrow> ('k, 'z, abi_long) C" where
  "do_setsockopt H sockfd level optname optval_addr optlen =
     (if level = SOL_TCP then
        (if optlen < 4 then ret (- TARGET_EINVAL)
         else do {
           val \<leftarrow> get_user_u32 H optval_addr;
           setsockopt_int H sockfd level optname val })
      else if level = SOL_IP then
        (if optname \<in> set ip_int_options then do {
           val \<leftarrow> if 4 \<le> optlen then get_user_u32 H optval_addr
                 else if 1 \<le> optlen then get_user_u8 H optval_addr
                 else ret 0;
           setsockopt_int H sockfd level optname val }
         else if optname \<in> {35, 36} then
           (if optlen < 8 \<or> 12 < optlen then ret (- TARGET_EINVAL)
            else do {
              m \<leftarrow> target_to_host_ip_mreq optval_addr optlen;
              r \<leftarrow> call32 H ''setsockopt'' [W (scast sockfd), W (scast level), W (scast optname),
                     (case m of Inl _ \<Rightarrow> Out (unat optlen) | Inr bs \<Rightarrow> In bs), W (ucast optlen)];
              get_errno r })
         else if optname \<in> {38, 37, 39, 40} then
           (if optlen \<noteq> 12 then ret (- TARGET_EINVAL)
            else do {
              p \<leftarrow> lock_user optval_addr;
              r \<leftarrow> call32 H ''setsockopt'' [W (scast sockfd), W (scast level), W (scast optname), W p, W (ucast optlen)];
              get_errno r })
         else ret (- TARGET_ENOPROTOOPT))
      else if level = SOL_SOCKET then
        (case map_of setsockopt_options optname of
           None \<Rightarrow> ret (- TARGET_ENOPROTOOPT)
         | Some optname' \<Rightarrow>
             if optlen < 4 then ret (- TARGET_EINVAL)
             else do {
               val \<leftarrow> get_user_u32 H optval_addr;
               setsockopt_int H sockfd SOL_SOCKET optname' val })
      else ret (- TARGET_ENOPROTOOPT))"

text \<open>The int case: the value is stored as four bytes when the guest asked for four or more, as one byte otherwise.\<close>

definition getsockopt_int ::
  "'k host \<Rightarrow> 32 word \<Rightarrow> 32 word \<Rightarrow> 32 word \<Rightarrow> abi_ulong \<Rightarrow> abi_ulong \<Rightarrow> ('k, 'z, abi_long) C" where
  "getsockopt_int H sockfd level optname optval_addr optlen = do {
     len \<leftarrow> get_user_u32 H optlen;
     if len <s 0 then ret (- TARGET_EINVAL)
     else do {
       (r, outs) \<leftarrow> hcall H ''getsockopt''
          [W (scast sockfd), W (scast level), W (scast optname), Out 4, In (le32 4)];
       r' \<leftarrow> get_errno (ucast r);
       if r' <s 0 then ret r'
       else do {
         let val = fld32 (out outs 3) 0;
         let lv = fld32 (out outs 4) 0;
         let len' = (if lv < len then lv else len);
         (if len' = 4 then put_user_u32 H val optval_addr else put_user_u8 H val optval_addr);
         put_user_u32 H len' optlen;
         ret r' } } }"

definition getsockopt_ip ::
  "'k host \<Rightarrow> 32 word \<Rightarrow> 32 word \<Rightarrow> 32 word \<Rightarrow> abi_ulong \<Rightarrow> abi_ulong \<Rightarrow> ('k, 'z, abi_long) C" where
  "getsockopt_ip H sockfd level optname optval_addr optlen = do {
     len \<leftarrow> get_user_u32 H optlen;
     if len <s 0 then ret (- TARGET_EINVAL)
     else do {
       (r, outs) \<leftarrow> hcall H ''getsockopt''
          [W (scast sockfd), W (scast level), W (scast optname), Out 4, In (le32 4)];
       r' \<leftarrow> get_errno (ucast r);
       if r' <s 0 then ret r'
       else do {
         let val = fld32 (out outs 3) 0;
         (if len < 4 \<and> 0 < len \<and> 0 \<le>s val \<and> val <s 255 then do {
            put_user_u32 H 1 optlen;
            put_user_u8 H val optval_addr }
          else do {
            put_user_u32 H (if 4 < len then 4 else len) optlen;
            put_user_u32 H val optval_addr });
         ret r' } } }"

definition do_getsockopt ::
  "'k host \<Rightarrow> 32 word \<Rightarrow> 32 word \<Rightarrow> 32 word \<Rightarrow> abi_ulong \<Rightarrow> abi_ulong \<Rightarrow> ('k, 'z, abi_long) C" where
  "do_getsockopt H sockfd level optname optval_addr optlen =
     (if level = SOL_SOCKET then
        (if optname \<in> {13, 20, 21, 17, 28} then ret (- TARGET_EOPNOTSUPP)
         else getsockopt_int H sockfd SOL_SOCKET
                (case map_of socket_int_options optname of None \<Rightarrow> optname | Some h \<Rightarrow> h) optval_addr optlen)
      else if level = SOL_TCP then getsockopt_int H sockfd level optname optval_addr optlen
      else if level = SOL_IP then
        (if optname \<in> set ip_int_options then getsockopt_ip H sockfd level optname optval_addr optlen
         else ret (- TARGET_ENOPROTOOPT))
      else ret (- TARGET_EOPNOTSUPP))"

section \<open>I/O vectors\<close>

text \<open>
  The number of entries is an int. A guest entry is an address and a signed
  length; a host entry a pointer and a \<open>size_t\<close>, null for an empty entry.
\<close>

definition host_iovec :: "memory \<Rightarrow> addr \<Rightarrow> addr \<Rightarrow> bytes" where
  "host_iovec m b e =
     (let len = (scast (ld32 m (e + 4)) :: 64 word) in
      le64 (if len \<noteq> 0 then b + ucast (ld32 m e) else 0) @ le64 len)"

definition lock_iovec :: "abi_ulong \<Rightarrow> 32 word \<Rightarrow> ('k, 'z, copied) C" where
  "lock_iovec target_addr count = do {
     p \<leftarrow> lock_user target_addr;
     if p = 0 then ret (Inl (- TARGET_EFAULT))
     else gets (\<lambda>s. Inr (concat (map (\<lambda>i. host_iovec (mem s) (base s) (p + of_nat (8 * i)))
                                     [0..<nat (sint count)]))) }"

text \<open>Unlocking is a no-op on every entry; only the vector itself can fail.\<close>

definition unlock_iovec :: "abi_ulong \<Rightarrow> ('k, 'z, abi_long) C" where
  "unlock_iovec target_addr = do {
     p \<leftarrow> lock_user target_addr;
     ret (if p = 0 then - TARGET_EFAULT else 0) }"

end
