(* ===== verification/Sockcall.thy ===== *)
theory Sockcall
  imports Socket
begin

text \<open>
  The socket system calls of \<open>translatedsyscall.c\<close>, from \<open>do_socket\<close> to the
  multiplexer \<open>do_socketcall\<close>. A host address argument is a local buffer.
\<close>

section \<open>Single calls\<close>

text \<open>\<open>PF_NETLINK\<close> is 16; no netlink connections are possible.\<close>

definition do_socket :: "'k host \<Rightarrow> 32 word \<Rightarrow> 32 word \<Rightarrow> 32 word \<Rightarrow> ('k, 'z, abi_long) C" where
  "do_socket H domain type protocol =
     (if domain = 16 then ret (- of_nat EAFNOSUPPORT)
      else do {
        r \<leftarrow> call32 H ''socket'' [W (scast domain), W (scast type), W (scast protocol)];
        get_errno r })"

definition do_bind :: "'k host \<Rightarrow> bytes \<Rightarrow> 32 word \<Rightarrow> abi_ulong \<Rightarrow> 32 word \<Rightarrow> ('k, 'z, abi_long) C" where
  "do_bind H chroot sockfd target_addr addrlen =
     (if addrlen <s 0 then ret (- TARGET_EINVAL)
      else do {
        a \<leftarrow> target_to_host_sockaddr H chroot target_addr addrlen;
        case a of Inl e \<Rightarrow> ret e
        | Inr addr \<Rightarrow> do {
            r \<leftarrow> call32 H ''bind'' [W (scast sockfd), In addr, W (ucast addrlen)];
            get_errno r } })"

definition do_connect :: "'k host \<Rightarrow> bytes \<Rightarrow> 32 word \<Rightarrow> abi_ulong \<Rightarrow> 32 word \<Rightarrow> ('k, 'z, abi_long) C" where
  "do_connect H chroot sockfd target_addr addrlen =
     (if addrlen <s 0 then ret (- TARGET_EINVAL)
      else do {
        a \<leftarrow> target_to_host_sockaddr H chroot target_addr addrlen;
        case a of Inl e \<Rightarrow> ret e
        | Inr addr \<Rightarrow> do {
            r \<leftarrow> call32 H ''connect'' [W (scast sockfd), In addr, W (ucast addrlen)];
            get_errno r } })"

text \<open>
  The calls that return an address (accept, getpeername, getsockname): the guest's
  length is read, a local buffer of that length is filled, and the address and the
  new length are stored.
\<close>

definition store_sockaddr ::
  "'k host \<Rightarrow> abi_ulong \<Rightarrow> abi_ulong \<Rightarrow> bytes \<Rightarrow> 32 word \<Rightarrow> abi_long \<Rightarrow> ('k, 'z, abi_long) C" where
  "store_sockaddr H target_addr target_addrlen_addr addr addrlen r = do {
     host_to_target_sockaddr target_addr addr addrlen;
     put_user_u32 H addrlen target_addrlen_addr;
     ret r }"

definition do_accept :: "'k host \<Rightarrow> 32 word \<Rightarrow> abi_ulong \<Rightarrow> abi_ulong \<Rightarrow> ('k, 'z, abi_long) C" where
  "do_accept H fd target_addr target_addrlen_addr =
     (if target_addr = 0 then do { r \<leftarrow> call32 H ''accept'' [W (scast fd), W 0, W 0]; get_errno r }
      else do {
        addrlen \<leftarrow> get_user_u32 H target_addrlen_addr;
        if addrlen <s 0 then ret (- TARGET_EINVAL)
        else do {
          (r, outs) \<leftarrow> hcall H ''accept'' [W (scast fd), Out (unat addrlen), In (le32 addrlen)];
          r' \<leftarrow> get_errno (ucast r);
          if is_error r' then ret r'
          else store_sockaddr H target_addr target_addrlen_addr (out outs 1) (fld32 (out outs 2) 0) r' } })"

definition do_getpeername :: "'k host \<Rightarrow> 32 word \<Rightarrow> abi_ulong \<Rightarrow> abi_ulong \<Rightarrow> ('k, 'z, abi_long) C" where
  "do_getpeername H fd target_addr target_addrlen_addr = do {
     addrlen \<leftarrow> get_user_u32 H target_addrlen_addr;
     if addrlen <s 0 then ret (- TARGET_EINVAL)
     else do {
       (r, outs) \<leftarrow> hcall H ''getpeername'' [W (scast fd), Out (unat addrlen), In (le32 addrlen)];
       r' \<leftarrow> get_errno (ucast r);
       if is_error r' then ret r'
       else store_sockaddr H target_addr target_addrlen_addr (out outs 1) (fld32 (out outs 2) 0) r' } }"

definition do_getsockname :: "'k host \<Rightarrow> 32 word \<Rightarrow> abi_ulong \<Rightarrow> abi_ulong \<Rightarrow> ('k, 'z, abi_long) C" where
  "do_getsockname H fd target_addr target_addrlen_addr = do {
     addrlen \<leftarrow> get_user_u32 H target_addrlen_addr;
     if addrlen <s 0 then ret (- TARGET_EINVAL)
     else do {
       (r, outs) \<leftarrow> hcall H ''getsockname'' [W (scast fd), Out (unat addrlen), In (le32 addrlen)];
       r' \<leftarrow> get_errno (ucast r);
       if is_error r' then ret r'
       else store_sockaddr H target_addr target_addrlen_addr (out outs 1) (fld32 (out outs 2) 0) r' } }"

definition do_socketpair ::
  "'k host \<Rightarrow> 32 word \<Rightarrow> 32 word \<Rightarrow> 32 word \<Rightarrow> abi_ulong \<Rightarrow> ('k, 'z, abi_long) C" where
  "do_socketpair H domain type protocol target_tab_addr = do {
     (r, outs) \<leftarrow> hcall H ''socketpair'' [W (scast domain), W (scast type), W (scast protocol), Out 8];
     r' \<leftarrow> get_errno (ucast r);
     if is_error r' then ret r'
     else do {
       put_user_u32 H (fld32 (out outs 3) 0) target_tab_addr;
       put_user_u32 H (fld32 (out outs 3) 4) (target_tab_addr + 4);
       ret r' } }"

definition do_sendto ::
  "'k host \<Rightarrow> bytes \<Rightarrow> 32 word \<Rightarrow> abi_ulong \<Rightarrow> 64 word \<Rightarrow> 32 word \<Rightarrow> abi_ulong \<Rightarrow> 32 word \<Rightarrow> ('k, 'z, abi_long) C" where
  "do_sendto H chroot fd msg len flags target_addr addrlen =
     (if addrlen <s 0 then ret (- TARGET_EINVAL)
      else do {
        host_msg \<leftarrow> lock_user msg;
        if host_msg = 0 then ret (- TARGET_EFAULT)
        else if target_addr \<noteq> 0 then do {
          a \<leftarrow> target_to_host_sockaddr H chroot target_addr addrlen;
          case a of Inl e \<Rightarrow> ret e
          | Inr addr \<Rightarrow> do {
              r \<leftarrow> call H ''sendto'' [W (scast fd), W host_msg, W len, W (scast flags), In addr, W (ucast addrlen)];
              get_errno (ucast r) } }
        else do {
          r \<leftarrow> call H ''send'' [W (scast fd), W host_msg, W len, W (scast flags)];
          get_errno (ucast r) } })"

definition do_recvfrom ::
  "'k host \<Rightarrow> 32 word \<Rightarrow> abi_ulong \<Rightarrow> 64 word \<Rightarrow> 32 word \<Rightarrow> abi_ulong \<Rightarrow> abi_ulong \<Rightarrow> ('k, 'z, abi_long) C" where
  "do_recvfrom H fd msg len flags target_addr target_addrlen = do {
     host_msg \<leftarrow> lock_user msg;
     if host_msg = 0 then ret (- TARGET_EFAULT)
     else if target_addr \<noteq> 0 then do {
       addrlen \<leftarrow> get_user_u32 H target_addrlen;
       if addrlen <s 0 then ret (- TARGET_EINVAL)
       else do {
         (r, outs) \<leftarrow> hcall H ''recvfrom''
            [W (scast fd), W host_msg, W len, W (scast flags), Out (unat addrlen), In (le32 addrlen)];
         r' \<leftarrow> get_errno (ucast r);
         if is_error r' then ret r'
         else store_sockaddr H target_addr target_addrlen (out outs 4) (fld32 (out outs 5) 0) r' } }
     else do {
       r \<leftarrow> call H ''recv'' [W (scast fd), W host_msg, W len, W (scast flags)];
       get_errno (ucast r) } }"

section \<open>sendmsg and recvmsg\<close>

text \<open>
  The guest's header: msg_name at 0, msg_namelen 4, msg_iov 8, msg_iovlen 12,
  msg_control 16, msg_controllen 20, msg_flags 24. The host's header is a local
  object that points to local objects; its fields are given one by one: name,
  name length, vector, count, control buffer, control length, flags. \<open>junk\<close> is
  what the control buffer holds before it is written.
\<close>

definition msg_name_of :: "'k host \<Rightarrow> bytes \<Rightarrow> addr \<Rightarrow> ('k, 'z, abi_long + harg \<times> 32 word) C" where
  "msg_name_of H chroot msgp = do {
     name \<leftarrow> rd32 msgp;
     if name = 0 then ret (Inr (W 0, 0))
     else do {
       namelen \<leftarrow> rd32 (msgp + 4);
       a \<leftarrow> target_to_host_sockaddr H chroot name namelen;
       ret (case a of Inl e \<Rightarrow> Inl e | Inr addr \<Rightarrow> Inr (In addr, namelen)) } }"

definition do_sendrecvmsg ::
  "'k host \<Rightarrow> bytes \<Rightarrow> bytes \<Rightarrow> 32 word \<Rightarrow> abi_ulong \<Rightarrow> 32 word \<Rightarrow> bool \<Rightarrow> ('k, 'z, abi_long) C" where
  "do_sendrecvmsg H chroot junk fd target_msg flags send = do {
     msgp \<leftarrow> lock_user target_msg;
     if msgp = 0 then ret (- TARGET_EFAULT)
     else do {
       nm \<leftarrow> msg_name_of H chroot msgp;
       case nm of Inl e \<Rightarrow> ret e | Inr (name, namelen) \<Rightarrow> do {
         tclen \<leftarrow> rd32 (msgp + 20);
         let controllen = (scast (2 * tclen) :: 64 word);
         let ctl = take (unat controllen) (junk @ replicate (unat controllen) 0);
         mflags \<leftarrow> rd32 (msgp + 24);
         count \<leftarrow> rd32 (msgp + 12);
         target_vec \<leftarrow> rd32 (msgp + 8);
         v \<leftarrow> lock_iovec target_vec count;
         let vec = (case v of Inl _ \<Rightarrow> Out (16 * unat count) | Inr bs \<Rightarrow> In bs);
         r \<leftarrow> if send then do {
                c \<leftarrow> target_to_host_cmsg msgp controllen ctl;
                case c of Inl e \<Rightarrow> ret e
                | Inr (ctl', clen) \<Rightarrow> do {
                    r \<leftarrow> call H ''sendmsg'' [W (scast fd), name, W (ucast namelen), vec, W (scast count),
                           In ctl', W clen, W (ucast mflags), W (scast flags)];
                    get_errno (ucast r) } }
              else do {
                (r, outs) \<leftarrow> hcall H ''recvmsg'' [W (scast fd), name, W (ucast namelen), vec, W (scast count),
                           In ctl, In (le64 controllen), W (ucast mflags), W (scast flags)];
                len \<leftarrow> get_errno (ucast r);
                if is_error len then ret len
                else do {
                  e \<leftarrow> host_to_target_cmsg msgp (fld64 (out outs 6) 0) (out outs 5);
                  ret (if is_error e then e else len) } };
         unlock_iovec target_vec;
         ret r } } }"

section \<open>socketcall\<close>

text \<open>The arguments of a multiplexed call, read as 32-bit words from the guest's array.\<close>

fun get_args :: "'k host \<Rightarrow> abi_ulong \<Rightarrow> nat \<Rightarrow> ('k, 'z, 32 word list) C" where
  "get_args H vptr 0 = ret []"
| "get_args H vptr (Suc n) = do { a \<leftarrow> get_user_u32 H vptr; as \<leftarrow> get_args H (vptr + 4) n; ret (a # as) }"

text \<open>
  The send and receive calls keep the length in a \<open>size_t\<close>, which is read as
  eight bytes.
\<close>

definition socketcall_transfer ::
  "'k host \<Rightarrow> bytes \<Rightarrow> 32 word \<Rightarrow> abi_ulong \<Rightarrow> ('k, 'z, abi_long) C" where
  "socketcall_transfer H chroot num vptr = do {
     sockfd \<leftarrow> get_user_u32 H vptr;
     msg \<leftarrow> get_user_u32 H (vptr + 4);
     len \<leftarrow> get_user_size_t H (vptr + 8);
     flags \<leftarrow> get_user_u32 H (vptr + 12);
     if num = 9 then do_sendto H chroot sockfd msg len flags 0 0
     else if num = 10 then do_recvfrom H sockfd msg len flags 0 0
     else do {
       addr \<leftarrow> get_user_u32 H (vptr + 16);
       addrlen \<leftarrow> get_user_u32 H (vptr + 20);
       if num = 11 then do_sendto H chroot sockfd msg len flags addr addrlen
       else do_recvfrom H sockfd msg len flags addr addrlen } }"

text \<open>
  SOCKOP numbers: 1 socket, 2 bind, 3 connect, 4 listen, 5 accept, 6 getsockname,
  7 getpeername, 8 socketpair, 9 send, 10 recv, 11 sendto, 12 recvfrom,
  13 shutdown, 14 setsockopt, 15 getsockopt, 16 sendmsg, 17 recvmsg.
\<close>

definition do_socketcall ::
  "'k host \<Rightarrow> bytes \<Rightarrow> bytes \<Rightarrow> 32 word \<Rightarrow> abi_ulong \<Rightarrow> ('k, 'z, abi_long) C" where
  "do_socketcall H chroot junk num vptr =
     (if num = 1 then do { a \<leftarrow> get_args H vptr 3; do_socket H (a ! 0) (a ! 1) (a ! 2) }
      else if num = 2 then do { a \<leftarrow> get_args H vptr 3; do_bind H chroot (a ! 0) (a ! 1) (a ! 2) }
      else if num = 3 then do { a \<leftarrow> get_args H vptr 3; do_connect H chroot (a ! 0) (a ! 1) (a ! 2) }
      else if num = 4 then do {
        a \<leftarrow> get_args H vptr 2;
        r \<leftarrow> call32 H ''listen'' [W (scast (a ! 0)), W (scast (a ! 1))];
        get_errno r }
      else if num = 5 then do { a \<leftarrow> get_args H vptr 3; do_accept H (a ! 0) (a ! 1) (a ! 2) }
      else if num = 6 then do { a \<leftarrow> get_args H vptr 3; do_getsockname H (a ! 0) (a ! 1) (a ! 2) }
      else if num = 7 then do { a \<leftarrow> get_args H vptr 3; do_getpeername H (a ! 0) (a ! 1) (a ! 2) }
      else if num = 8 then do {
        a \<leftarrow> get_args H vptr 4; do_socketpair H (a ! 0) (a ! 1) (a ! 2) (a ! 3) }
      else if num \<in> {9, 10, 11, 12} then socketcall_transfer H chroot num vptr
      else if num = 13 then do {
        a \<leftarrow> get_args H vptr 2;
        r \<leftarrow> call32 H ''shutdown'' [W (scast (a ! 0)), W (scast (a ! 1))];
        get_errno r }
      else if num \<in> {16, 17} then do {
        a \<leftarrow> get_args H vptr 3;
        do_sendrecvmsg H chroot junk (a ! 0) (a ! 1) (a ! 2) (num = 16) }
      else if num = 14 then do {
        a \<leftarrow> get_args H vptr 5; do_setsockopt H (a ! 0) (a ! 1) (a ! 2) (a ! 3) (a ! 4) }
      else if num = 15 then do {
        a \<leftarrow> get_args H vptr 5; do_getsockopt H (a ! 0) (a ! 1) (a ! 2) (a ! 3) (a ! 4) }
      else ret (- TARGET_ENOSYS))"

end
