(* ===== verification/Ipc.thy ===== *)
theory Ipc
  imports Structs Signal "HOL-Library.Multiset"
begin

text \<open>
  System V IPC in \<open>translatedsyscall.c\<close>: semaphores, message queues and shared
  memory with the table of attached regions, and the multiplexer \<open>do_ipc\<close>. The
  command numbers are those of Linux on every platform: RMID 0, SET 1, STAT 2,
  INFO 3, and per kind GETPID to SEM_INFO 11 to 19, MSG_STAT 11, MSG_INFO 12,
  SHM_LOCK 11, SHM_UNLOCK 12, SHM_STAT 13, SHM_INFO 14.
\<close>

section \<open>The state\<close>

record shm_region =
  shm_start :: "32 word"
  shm_len :: "32 word"

record 'k ipc_st = "'k sig_st" +
  shm_regions :: "shm_region list"

type_synonym ('k, 'z, 'a) I = "(('k, 'z) ipc_st_scheme, 'a) state"

definition N_SHM_REGIONS :: nat where "N_SHM_REGIONS = 32"

section \<open>Permissions and semaphore sets\<close>

text \<open>
  The guest's \<open>ipc_perm\<close>: key at 0, uid 4, gid 8, cuid 12, cgid 16, mode 20 (two
  bytes), 36 bytes in all. The host's has the same offsets and 48 bytes.
\<close>

definition target_to_host_ipc_perm :: "abi_ulong \<Rightarrow> ('k, 'z, copied) C" where
  "target_to_host_ipc_perm target_addr = do {
     p \<leftarrow> lock_user target_addr;
     if p = 0 then ret (Inl (- TARGET_EFAULT))
     else do {
       key \<leftarrow> rd32 p; uid \<leftarrow> rd32 (p + 4); gid \<leftarrow> rd32 (p + 8);
       cuid \<leftarrow> rd32 (p + 12); cgid \<leftarrow> rd32 (p + 16); mode \<leftarrow> rd16 (p + 20);
       ret (Inr (le32 key @ le32 uid @ le32 gid @ le32 cuid @ le32 cgid @ le16 mode @ replicate 26 0)) } }"

definition host_to_target_ipc_perm :: "abi_ulong \<Rightarrow> bytes \<Rightarrow> ('k, 'z, abi_long) C" where
  "host_to_target_ipc_perm target_addr ip = do {
     p \<leftarrow> lock_user target_addr;
     if p = 0 then ret (- TARGET_EFAULT)
     else do {
       wr32 p (fld32 ip 0); wr32 (p + 4) (fld32 ip 4); wr32 (p + 8) (fld32 ip 8);
       wr32 (p + 12) (fld32 ip 12); wr32 (p + 16) (fld32 ip 16); wr16 (p + 20) (fld16 ip 20);
       ret 0 } }"

text \<open>
  \<open>semid_ds\<close>: in the guest otime at 36, ctime 44, nsems 52; in the host otime at
  48, ctime 64, nsems 80, 104 bytes in all.
\<close>

definition target_to_host_semid_ds :: "abi_ulong \<Rightarrow> ('k, 'z, copied) C" where
  "target_to_host_semid_ds target_addr = do {
     p \<leftarrow> lock_user target_addr;
     if p = 0 then ret (Inl (- TARGET_EFAULT))
     else do {
       q \<leftarrow> target_to_host_ipc_perm target_addr;
       case q of Inl _ \<Rightarrow> ret (Inl (- TARGET_EFAULT))
       | Inr perm \<Rightarrow> do {
           nsems \<leftarrow> rd32 (p + 52); otime \<leftarrow> rd32 (p + 36); ctime \<leftarrow> rd32 (p + 44);
           ret (Inr (perm @ le64 (ucast otime) @ replicate 8 0 @ le64 (ucast ctime) @ replicate 8 0
                     @ le64 (ucast nsems) @ replicate 16 0)) } } }"

definition host_to_target_semid_ds :: "abi_ulong \<Rightarrow> bytes \<Rightarrow> ('k, 'z, abi_long) C" where
  "host_to_target_semid_ds target_addr sd = do {
     p \<leftarrow> lock_user target_addr;
     if p = 0 then ret (- TARGET_EFAULT)
     else do {
       e \<leftarrow> host_to_target_ipc_perm target_addr sd;
       if e \<noteq> 0 then ret (- TARGET_EFAULT)
       else do {
         wr32 (p + 52) (ucast (fld64 sd 80));
         wr32 (p + 36) (ucast (fld64 sd 48));
         wr32 (p + 44) (ucast (fld64 sd 64));
         ret 0 } } }"

definition host_to_target_seminfo :: "abi_ulong \<Rightarrow> bytes \<Rightarrow> ('k, 'z, abi_long) C" where
  "host_to_target_seminfo target_addr si = do {
     p \<leftarrow> lock_user target_addr;
     if p = 0 then ret (- TARGET_EFAULT)
     else do {
       for_each [0..<10] (\<lambda>i. wr32 (p + of_nat (4 * i)) (fld32 si (4 * i)));
       ret 0 } }"

text \<open>The number of semaphores of a set, an int, asked from the host; or the error.\<close>

definition sem_count :: "'k host \<Rightarrow> 32 word \<Rightarrow> ('k, 'z, abi_long + nat) C" where
  "sem_count H semid = do {
     (r, outs) \<leftarrow> hcall H ''semctl'' [W (scast semid), W 0, W 2, Out 104];
     if (ucast r :: 32 word) = - 1 then do { e \<leftarrow> get_errno (- 1); ret (Inl e) }
     else ret (Inr (nat (sint (ucast (fld64 (out outs 3) 80) :: 32 word)))) }"

definition target_to_host_semarray ::
  "'k host \<Rightarrow> 32 word \<Rightarrow> abi_ulong \<Rightarrow> ('k, 'z, abi_long + 16 word list) C" where
  "target_to_host_semarray H semid target_addr = do {
     n \<leftarrow> sem_count H semid;
     case n of Inl e \<Rightarrow> ret (Inl e)
     | Inr nsems \<Rightarrow> do {
         p \<leftarrow> lock_user target_addr;
         if p = 0 then ret (Inl (- TARGET_EFAULT))
         else gets (\<lambda>s. Inr (load_list ld16 2 (mem s) p nsems)) } }"

text \<open>The elements behind the host's array, which are not allocated, are zero here.\<close>

definition host_to_target_semarray ::
  "'k host \<Rightarrow> 32 word \<Rightarrow> abi_ulong \<Rightarrow> 16 word list \<Rightarrow> ('k, 'z, abi_long) C" where
  "host_to_target_semarray H semid target_addr host_array = do {
     n \<leftarrow> sem_count H semid;
     case n of Inl e \<Rightarrow> ret e
     | Inr nsems \<Rightarrow> do {
         p \<leftarrow> lock_user target_addr;
         if p = 0 then ret (- TARGET_EFAULT)
         else do {
           modify (\<lambda>s. s\<lparr>mem := store_list st16 2 (mem s) p
                      (take nsems host_array @ replicate (nsems - length host_array) 0)\<rparr>);
           ret 0 } } }"

definition array_bytes :: "16 word list \<Rightarrow> bytes" where
  "array_bytes xs = concat (map le16 xs)"

definition bytes_array :: "bytes \<Rightarrow> 16 word list" where
  "bytes_array bs = map (\<lambda>i. fld16 bs (2 * i)) [0..<length bs div 2]"

definition do_semctl :: "'k host \<Rightarrow> 32 word \<Rightarrow> 32 word \<Rightarrow> 32 word \<Rightarrow> 32 word \<Rightarrow> ('k, 'z, abi_long) C" where
  "do_semctl H semid semnum cmd0 target_su =
     (let cmd = cmd0 AND 0xff; args = [W (scast semid), W (scast semnum), W (scast cmd)] in
      if cmd \<in> {12, 16} then do {
        r \<leftarrow> call32 H ''semctl'' (args @ [W (scast target_su)]);
        get_errno r }
      else if cmd \<in> {13, 17} then do {
        a \<leftarrow> target_to_host_semarray H semid target_su;
        case a of Inl e \<Rightarrow> ret e
        | Inr arr \<Rightarrow> do {
            (r, outs) \<leftarrow> hcall H ''semctl'' (args @ [In (array_bytes arr)]);
            r' \<leftarrow> get_errno (ucast r);
            e \<leftarrow> host_to_target_semarray H semid target_su (bytes_array (out outs 3));
            ret (if e \<noteq> 0 then e else r') } }
      else if cmd \<in> {2, 1, 18} then do {
        a \<leftarrow> target_to_host_semid_ds target_su;
        case a of Inl e \<Rightarrow> ret e
        | Inr ds \<Rightarrow> do {
            (r, outs) \<leftarrow> hcall H ''semctl'' (args @ [In ds]);
            r' \<leftarrow> get_errno (ucast r);
            e \<leftarrow> host_to_target_semid_ds target_su (out outs 3);
            ret (if e \<noteq> 0 then e else r') } }
      else if cmd \<in> {3, 19} then do {
        (r, outs) \<leftarrow> hcall H ''semctl'' (args @ [Out 40]);
        r' \<leftarrow> get_errno (ucast r);
        e \<leftarrow> host_to_target_seminfo target_su (out outs 3);
        ret (if e \<noteq> 0 then e else r') }
      else if cmd \<in> {0, 11, 14, 15} then do {
        r \<leftarrow> call32 H ''semctl'' (args @ [W 0]);
        get_errno r }
      else ret (- TARGET_EINVAL))"

text \<open>A semaphore operation is three shorts on both sides.\<close>

definition target_to_host_sembuf :: "abi_ulong \<Rightarrow> 32 word \<Rightarrow> ('k, 'z, copied) C" where
  "target_to_host_sembuf target_addr nsops = do {
     p \<leftarrow> lock_user target_addr;
     if p = 0 then ret (Inl (- TARGET_EFAULT))
     else gets (\<lambda>s. Inr (array_bytes (load_list ld16 2 (mem s) p (3 * unat nsops)))) }"

text \<open>\<open>do_semop\<close> returns the host call's result as it is.\<close>

definition do_semop :: "'k host \<Rightarrow> 32 word \<Rightarrow> abi_long \<Rightarrow> 32 word \<Rightarrow> ('k, 'z, abi_long) C" where
  "do_semop H semid ptr nsops = do {
     sops \<leftarrow> target_to_host_sembuf ptr nsops;
     case sops of Inl _ \<Rightarrow> ret (- TARGET_EFAULT)
     | Inr bs \<Rightarrow> call32 H ''semop'' [W (scast semid), In bs, W (ucast nsops)] }"


section \<open>Message queues\<close>

text \<open>
  \<open>msqid_ds\<close>: in the guest stime at 36, rtime 44, ctime 52, cbytes 60, qnum 64,
  qbytes 68, lspid 72, lrpid 76; in the host 48, 56, 64, 72, 80, 88, and the two
  process ids of four bytes at 96 and 100, 120 bytes in all.
\<close>

definition target_to_host_msqid_ds :: "abi_ulong \<Rightarrow> ('k, 'z, copied) C" where
  "target_to_host_msqid_ds target_addr = do {
     p \<leftarrow> lock_user target_addr;
     if p = 0 then ret (Inl (- TARGET_EFAULT))
     else do {
       q \<leftarrow> target_to_host_ipc_perm target_addr;
       case q of Inl _ \<Rightarrow> ret (Inl (- TARGET_EFAULT))
       | Inr perm \<Rightarrow> do {
           stime \<leftarrow> rd32 (p + 36); rtime \<leftarrow> rd32 (p + 44); ctime \<leftarrow> rd32 (p + 52);
           cbytes \<leftarrow> rd32 (p + 60); qnum \<leftarrow> rd32 (p + 64); qbytes \<leftarrow> rd32 (p + 68);
           lspid \<leftarrow> rd32 (p + 72); lrpid \<leftarrow> rd32 (p + 76);
           ret (Inr (perm @ le64 (ucast stime) @ le64 (ucast rtime) @ le64 (ucast ctime)
                     @ le64 (ucast cbytes) @ le64 (ucast qnum) @ le64 (ucast qbytes)
                     @ le32 lspid @ le32 lrpid @ replicate 16 0)) } } }"

definition host_to_target_msqid_ds :: "abi_ulong \<Rightarrow> bytes \<Rightarrow> ('k, 'z, abi_long) C" where
  "host_to_target_msqid_ds target_addr md = do {
     p \<leftarrow> lock_user target_addr;
     if p = 0 then ret (- TARGET_EFAULT)
     else do {
       e \<leftarrow> host_to_target_ipc_perm target_addr md;
       if e \<noteq> 0 then ret (- TARGET_EFAULT)
       else do {
         wr32 (p + 36) (ucast (fld64 md 48)); wr32 (p + 44) (ucast (fld64 md 56));
         wr32 (p + 52) (ucast (fld64 md 64)); wr32 (p + 60) (ucast (fld64 md 72));
         wr32 (p + 64) (ucast (fld64 md 80)); wr32 (p + 68) (ucast (fld64 md 88));
         wr32 (p + 72) (fld32 md 96); wr32 (p + 76) (fld32 md 100);
         ret 0 } } }"

definition host_to_target_msginfo :: "abi_ulong \<Rightarrow> bytes \<Rightarrow> ('k, 'z, abi_long) C" where
  "host_to_target_msginfo target_addr mi = do {
     p \<leftarrow> lock_user target_addr;
     if p = 0 then ret (- TARGET_EFAULT)
     else do {
       for_each [0..<7] (\<lambda>i. wr32 (p + of_nat (4 * i)) (fld32 mi (4 * i)));
       wr16 (p + 28) (fld16 mi 28);
       ret 0 } }"

definition do_msgctl :: "'k host \<Rightarrow> 32 word \<Rightarrow> 32 word \<Rightarrow> abi_long \<Rightarrow> ('k, 'z, abi_long) C" where
  "do_msgctl H msgid cmd0 ptr =
     (let cmd = cmd0 AND 0xff; args = [W (scast msgid), W (scast cmd)] in
      if cmd \<in> {2, 1, 11} then do {
        a \<leftarrow> target_to_host_msqid_ds ptr;
        case a of Inl _ \<Rightarrow> ret (- TARGET_EFAULT)
        | Inr ds \<Rightarrow> do {
            (r, outs) \<leftarrow> hcall H ''msgctl'' (args @ [In ds]);
            r' \<leftarrow> get_errno (ucast r);
            e \<leftarrow> host_to_target_msqid_ds ptr (out outs 2);
            ret (if e \<noteq> 0 then - TARGET_EFAULT else r') } }
      else if cmd = 0 then do {
        r \<leftarrow> call32 H ''msgctl'' (args @ [W 0]);
        get_errno r }
      else if cmd \<in> {3, 12} then do {
        (r, outs) \<leftarrow> hcall H ''msgctl'' (args @ [Out 32]);
        r' \<leftarrow> get_errno (ucast r);
        e \<leftarrow> host_to_target_msginfo ptr (out outs 2);
        ret (if e \<noteq> 0 then - TARGET_EFAULT else r') }
      else ret (- TARGET_EINVAL))"

text \<open>A message: a type, four bytes in the guest and eight in the host, then the text.\<close>

definition do_msgsnd :: "'k host \<Rightarrow> 32 word \<Rightarrow> abi_long \<Rightarrow> 32 word \<Rightarrow> 32 word \<Rightarrow> ('k, 'z, abi_long) C" where
  "do_msgsnd H msqid msgp msgsz msgflg = do {
     p \<leftarrow> lock_user msgp;
     if p = 0 then ret (- TARGET_EFAULT)
     else do {
       mtype \<leftarrow> rd32 p;
       mtext \<leftarrow> rdb (p + 4) (unat msgsz);
       r \<leftarrow> call32 H ''msgsnd''
              [W (scast msqid), In (le64 (scast mtype) @ mtext), W (ucast msgsz), W (scast msgflg)];
       get_errno r } }"

definition do_msgrcv ::
  "'k host \<Rightarrow> 32 word \<Rightarrow> abi_long \<Rightarrow> 32 word \<Rightarrow> abi_long \<Rightarrow> 32 word \<Rightarrow> ('k, 'z, abi_long) C" where
  "do_msgrcv H msqid msgp msgsz msgtyp msgflg = do {
     p \<leftarrow> lock_user msgp;
     if p = 0 then ret (- TARGET_EFAULT)
     else do {
       (r, outs) \<leftarrow> hcall H ''msgrcv''
          [W (scast msqid), Out (unat msgsz + 8), W (ucast msgsz), W (scast msgtyp), W (scast msgflg)];
       r' \<leftarrow> get_errno (ucast r);
       let host_mb = out outs 1;
       if 0 <s r' then do {
         q \<leftarrow> lock_user (msgp + 4);
         if q = 0 then ret (- TARGET_EFAULT)
         else do {
           wrb (p + 4) (take (unat r') (drop 8 host_mb));
           wr32 p (ucast (fld64 host_mb 0));
           ret r' } }
       else do {
         wr32 p (ucast (fld64 host_mb 0));
         ret r' } } }"

section \<open>Shared memory\<close>

text \<open>
  \<open>shmid_ds\<close>: in the guest segsz at 36, atime 40, dtime 48, ctime 56, cpid 64,
  lpid 68, nattch 72; in the host 48, 56, 64, 72, 80, 84, 88, 112 bytes in all.
\<close>

definition target_to_host_shmid_ds :: "abi_ulong \<Rightarrow> ('k, 'z, copied) C" where
  "target_to_host_shmid_ds target_addr = do {
     p \<leftarrow> lock_user target_addr;
     if p = 0 then ret (Inl (- TARGET_EFAULT))
     else do {
       q \<leftarrow> target_to_host_ipc_perm target_addr;
       case q of Inl _ \<Rightarrow> ret (Inl (- TARGET_EFAULT))
       | Inr perm \<Rightarrow> do {
           segsz \<leftarrow> rd32 (p + 36); atime \<leftarrow> rd32 (p + 40); dtime \<leftarrow> rd32 (p + 48); ctime \<leftarrow> rd32 (p + 56);
           cpid \<leftarrow> rd32 (p + 64); lpid \<leftarrow> rd32 (p + 68); nattch \<leftarrow> rd32 (p + 72);
           ret (Inr (perm @ le64 (ucast segsz) @ le64 (ucast atime) @ le64 (ucast dtime) @ le64 (ucast ctime)
                     @ le32 cpid @ le32 lpid @ le64 (ucast nattch) @ replicate 16 0)) } } }"

definition host_to_target_shmid_ds :: "abi_ulong \<Rightarrow> bytes \<Rightarrow> ('k, 'z, abi_long) C" where
  "host_to_target_shmid_ds target_addr sd = do {
     p \<leftarrow> lock_user target_addr;
     if p = 0 then ret (- TARGET_EFAULT)
     else do {
       e \<leftarrow> host_to_target_ipc_perm target_addr sd;
       if e \<noteq> 0 then ret (- TARGET_EFAULT)
       else do {
         wr32 (p + 36) (ucast (fld64 sd 48)); wr32 (p + 40) (ucast (fld64 sd 56));
         wr32 (p + 48) (ucast (fld64 sd 64)); wr32 (p + 56) (ucast (fld64 sd 72));
         wr32 (p + 64) (fld32 sd 80); wr32 (p + 68) (fld32 sd 84);
         wr32 (p + 72) (ucast (fld64 sd 88));
         ret 0 } } }"

definition host_to_target_shminfo :: "abi_ulong \<Rightarrow> bytes \<Rightarrow> ('k, 'z, abi_long) C" where
  "host_to_target_shminfo target_addr si = do {
     p \<leftarrow> lock_user target_addr;
     if p = 0 then ret (- TARGET_EFAULT)
     else do {
       for_each [0..<5] (\<lambda>i. wr32 (p + of_nat (4 * i)) (ucast (fld64 si (8 * i))));
       ret 0 } }"

definition host_to_target_shm_info :: "abi_ulong \<Rightarrow> bytes \<Rightarrow> ('k, 'z, abi_long) C" where
  "host_to_target_shm_info target_addr si = do {
     p \<leftarrow> lock_user target_addr;
     if p = 0 then ret (- TARGET_EFAULT)
     else do {
       wr32 p (fld32 si 0);
       for_each [1..<6] (\<lambda>i. wr32 (p + of_nat (4 * i)) (ucast (fld64 si (8 * i))));
       ret 0 } }"

definition do_shmctl :: "'k host \<Rightarrow> 32 word \<Rightarrow> 32 word \<Rightarrow> abi_long \<Rightarrow> ('k, 'z, abi_long) C" where
  "do_shmctl H shmid cmd0 buf =
     (let cmd = cmd0 AND 0xff; args = [W (scast shmid), W (scast cmd)] in
      if cmd \<in> {2, 1, 13} then do {
        a \<leftarrow> target_to_host_shmid_ds buf;
        case a of Inl _ \<Rightarrow> ret (- TARGET_EFAULT)
        | Inr ds \<Rightarrow> do {
            (r, outs) \<leftarrow> hcall H ''shmctl'' (args @ [In ds]);
            r' \<leftarrow> get_errno (ucast r);
            e \<leftarrow> host_to_target_shmid_ds buf (out outs 2);
            ret (if e \<noteq> 0 then - TARGET_EFAULT else r') } }
      else if cmd = 3 then do {
        (r, outs) \<leftarrow> hcall H ''shmctl'' (args @ [Out 72]);
        r' \<leftarrow> get_errno (ucast r);
        e \<leftarrow> host_to_target_shminfo buf (out outs 2);
        ret (if e \<noteq> 0 then - TARGET_EFAULT else r') }
      else if cmd = 14 then do {
        (r, outs) \<leftarrow> hcall H ''shmctl'' (args @ [Out 48]);
        r' \<leftarrow> get_errno (ucast r);
        e \<leftarrow> host_to_target_shm_info buf (out outs 2);
        ret (if e \<noteq> 0 then - TARGET_EFAULT else r') }
      else if cmd \<in> {0, 11, 12} then do {
        r \<leftarrow> call32 H ''shmctl'' (args @ [W 0]);
        get_errno r }
      else ret (- TARGET_EINVAL))"

section \<open>The table of attached regions\<close>

text \<open>The two loops over the table, each ending at the first match.\<close>

fun add_region :: "32 word \<Rightarrow> 32 word \<Rightarrow> shm_region list \<Rightarrow> shm_region list" where
  "add_region start len [] = []"
| "add_region start len (r # rs) =
     (if shm_start r = 0 then r\<lparr>shm_start := start, shm_len := len\<rparr> # rs
      else r # add_region start len rs)"

fun del_region :: "32 word \<Rightarrow> shm_region list \<Rightarrow> (32 word \<times> shm_region list) option" where
  "del_region addr [] = None"
| "del_region addr (r # rs) =
     (if shm_start r = addr then Some (shm_len r, r\<lparr>shm_start := 0\<rparr> # rs)
      else map_option (\<lambda>(n, rs'). (n, r # rs')) (del_region addr rs))"

text \<open>\<open>PAGE_VALID\<close> is 8, \<open>PAGE_READ\<close> 1, \<open>PAGE_WRITE\<close> 2; \<open>SHM_RDONLY\<close> 0x1000, \<open>SHM_REMAP\<close> 0x4000.\<close>

definition do_shmat :: "'k host \<Rightarrow> 32 word \<Rightarrow> abi_ulong \<Rightarrow> 32 word \<Rightarrow> ('k, 'z, abi_ulong) I" where
  "do_shmat H shmid shmaddr shmflg = do {
     (r, outs) \<leftarrow> hcall H ''shmctl'' [W (scast shmid), W 2, Out 112];
     r' \<leftarrow> get_errno (ucast r);
     if is_error r' then ret r'
     else do {
       let segsz = (ucast (fld64 (out outs 2) 48) :: 32 word);
       host_raddr \<leftarrow>
         if shmaddr \<noteq> 0 then do {
           p \<leftarrow> g2h shmaddr; call H ''shmat'' [W (scast shmid), W p, W (scast shmflg)] }
         else do {
           mmap_start \<leftarrow> mmap_find_vma_flags H segsz;
           if mmap_start = - 1 then do {
             modify (\<lambda>s. s\<lparr>errno := of_nat (12 :: nat)\<rparr>); ret (- 1) }
           else do {
             p \<leftarrow> g2h mmap_start;
             call H ''shmat'' [W (scast shmid), W p, W (scast (shmflg OR 0x4000))] } };
       if host_raddr = - 1 then get_errno (- 1)
       else do {
         raddr \<leftarrow> h2g host_raddr;
         page_set_flags H raddr (raddr + segsz) (8 OR 1 OR (if shmflg AND 0x1000 \<noteq> 0 then 0 else 2));
         modify (\<lambda>s. s\<lparr>shm_regions := add_region raddr segsz (shm_regions s)\<rparr>);
         ret raddr } } }"

definition do_shmdt :: "'k host \<Rightarrow> abi_ulong \<Rightarrow> ('k, 'z, abi_long) I" where
  "do_shmdt H shmaddr = do {
     rs \<leftarrow> gets shm_regions;
     (case del_region shmaddr rs of
        None \<Rightarrow> ret ()
      | Some (len, rs') \<Rightarrow> do {
          modify (\<lambda>s. s\<lparr>shm_regions := rs'\<rparr>);
          page_set_flags H shmaddr (shmaddr + len) 0 });
     p \<leftarrow> g2h shmaddr;
     r \<leftarrow> call32 H ''shmdt'' [W p];
     get_errno r }"

section \<open>do_ipc\<close>

definition ipc_msgrcv ::
  "'k host \<Rightarrow> 32 word \<Rightarrow> 32 word \<Rightarrow> 32 word \<Rightarrow> 32 word \<Rightarrow> abi_long \<Rightarrow> abi_long \<Rightarrow> ('k, 'z, abi_long) C" where
  "ipc_msgrcv H version first second third ptr fifth =
     (if version = 0 then do {
        tmp \<leftarrow> lock_user ptr;
        if tmp = 0 then ret (- TARGET_EFAULT)
        else do {
          msgp \<leftarrow> rd32 tmp; msgtyp \<leftarrow> rd32 (tmp + 4);
          do_msgrcv H first msgp second msgtyp third } }
      else do_msgrcv H first ptr second fifth third)"

definition ipc_shmat ::
  "'k host \<Rightarrow> 32 word \<Rightarrow> 32 word \<Rightarrow> 32 word \<Rightarrow> 32 word \<Rightarrow> abi_long \<Rightarrow> ('k, 'z, abi_long) I" where
  "ipc_shmat H version first second third ptr =
     (if version = 1 then ret (- TARGET_EINVAL)
      else do {
        raddr \<leftarrow> do_shmat H first ptr second;
        if is_error raddr then get_errno raddr
        else do { put_user_u32 H raddr third; ret 0 } })"

definition do_ipc ::
  "'k host \<Rightarrow> 32 word \<Rightarrow> 32 word \<Rightarrow> 32 word \<Rightarrow> 32 word \<Rightarrow> abi_long \<Rightarrow> abi_long \<Rightarrow> ('k, 'z, abi_long) I" where
  "do_ipc H call0 first second third ptr fifth =
     (let version = drop_bit 16 call0; cl = call0 AND 0xffff in
      if cl = 1 then do_semop H first ptr second
      else if cl = 2 then do {
        r \<leftarrow> call32 H ''semget'' [W (scast first), W (scast second), W (scast third)]; get_errno r }
      else if cl = 3 then do_semctl H first second third ptr
      else if cl = 13 then do {
        r \<leftarrow> call32 H ''msgget'' [W (scast first), W (scast second)]; get_errno r }
      else if cl = 11 then do_msgsnd H first ptr second third
      else if cl = 14 then do_msgctl H first second ptr
      else if cl = 12 then ipc_msgrcv H version first second third ptr fifth
      else if cl = 21 then ipc_shmat H version first second third ptr
      else if cl = 22 then do_shmdt H ptr
      else if cl = 23 then do {
        r \<leftarrow> call32 H ''shmget'' [W (scast first), W (scast second), W (scast third)]; get_errno r }
      else if cl = 24 then do_shmctl H first second third
      else ret (- TARGET_ENOSYS))"


section \<open>The table as a collection of regions\<close>

text \<open>
  What the table stands for: the regions in its used slots, as a multiset, because
  a region can be attached twice at one address. A slot is free when its start is 0.
\<close>

definition attached :: "shm_region list \<Rightarrow> (32 word \<times> 32 word) multiset" where
  "attached rs = mset (map (\<lambda>r. (shm_start r, shm_len r)) (filter (\<lambda>r. shm_start r \<noteq> 0) rs))"

definition has_free_slot :: "shm_region list \<Rightarrow> bool" where
  "has_free_slot rs \<longleftrightarrow> (\<exists>r \<in> set rs. shm_start r = 0)"

text \<open>The contract the attach and detach calls rely on.\<close>

locale region_table =
  fixes add :: "32 word \<Rightarrow> 32 word \<Rightarrow> 't \<Rightarrow> 't"
    and del :: "32 word \<Rightarrow> 't \<Rightarrow> (32 word \<times> 't) option"
    and abs :: "'t \<Rightarrow> (32 word \<times> 32 word) multiset"
    and room :: "'t \<Rightarrow> bool"
  assumes add: "a \<noteq> 0 \<Longrightarrow> abs (add a n t) = (if room t then add_mset (a, n) (abs t) else abs t)"
    and del_Some: "a \<noteq> 0 \<Longrightarrow> del a t = Some (n, t') \<Longrightarrow> (a, n) \<in># abs t \<and> abs t' = abs t - {#(a, n)#} \<and> room t'"
    and del_None: "a \<noteq> 0 \<Longrightarrow> del a t = None \<Longrightarrow> (a, n) \<notin># abs t"
begin

lemma del_iff: "a \<noteq> 0 \<Longrightarrow> del a t = None \<longleftrightarrow> (\<forall>n. (a, n) \<notin># abs t)"
  using del_None del_Some by (metis option.exhaust surj_pair)

lemma del_add:
  assumes "a \<noteq> 0" "room t" "\<forall>n. (a, n) \<notin># abs t"
  shows "\<exists>t'. del a (add a n t) = Some (n, t') \<and> abs t' = abs t"
proof -
  have new: "abs (add a n t) = add_mset (a, n) (abs t)"
    using add assms by simp
  then have "del a (add a n t) \<noteq> None"
    using del_iff [OF assms(1)] by auto
  then obtain k t' where d: "del a (add a n t) = Some (k, t')"
    by force
  from del_Some [OF assms(1) d] new assms(3) have "k = n" "abs t' = abs t"
    by auto
  with d show ?thesis by blast
qed

text \<open>Other addresses are not disturbed.\<close>

lemma del_other:
  assumes "a \<noteq> 0" "b \<noteq> 0" "a \<noteq> b" "del a t = Some (n, t')"
  shows "del b t' = None \<longleftrightarrow> del b t = None"
proof -
  have "(b, k) \<in># abs t' \<longleftrightarrow> (b, k) \<in># abs t" for k
    using del_Some [OF assms(1,4)] assms(3) by (auto simp: in_diff_count dest: in_diffD)
  then show ?thesis
    by (simp add: del_iff [OF assms(2)])
qed

end

lemma attached_simps [simp]:
  "attached [] = {#}"
  "attached (r # rs) = (if shm_start r \<noteq> 0 then add_mset (shm_start r, shm_len r) (attached rs) else attached rs)"
  by (simp_all add: attached_def)

lemma attached_add_region:
  "a \<noteq> 0 \<Longrightarrow> attached (add_region a n rs) = (if has_free_slot rs then add_mset (a, n) (attached rs) else attached rs)"
  by (induction rs) (auto simp: has_free_slot_def)

lemma attached_del_region:
  "a \<noteq> 0 \<Longrightarrow> del_region a rs = Some (n, rs') \<Longrightarrow>
     (a, n) \<in># attached rs \<and> attached rs' = attached rs - {#(a, n)#} \<and> has_free_slot rs'"
  by (induction rs arbitrary: rs') (auto simp: has_free_slot_def split: if_splits)

lemma attached_no_region: "a \<noteq> 0 \<Longrightarrow> del_region a rs = None \<Longrightarrow> (a, n) \<notin># attached rs"
  by (induction rs) (auto split: if_splits)

interpretation shm: region_table add_region del_region attached has_free_slot
  by standard (simp_all add: attached_add_region attached_del_region attached_no_region)


section \<open>Attaching and detaching\<close>

lemma regions_hcall [simp]: "shm_regions (snd (run_state (hcall H f as) s)) = shm_regions s"
  by (simp add: hcall_def split: prod.split)

lemma regions_page_set_flags [simp]: "shm_regions (snd (run_state (page_set_flags H a b f) s)) = shm_regions s"
  by (simp add: page_set_flags_def call_def run_simps hcall_def split: prod.split)

lemma regions_get_errno [simp]: "snd (run_state (get_errno r) s) = s"
  by (simp add: get_errno_def run_simps)

lemma do_shmat_regions:
  assumes "run_state (do_shmat H shmid shmaddr flg) s = (raddr, s')"
  shows "shm_regions s' = shm_regions s \<or> (\<exists>n. shm_regions s' = add_region raddr n (shm_regions s))"
proof -
  have hc: "shm_regions t' = shm_regions t" if "run_state (hcall H f as) t = (x, t')" for t t' :: "('a, 'b) ipc_st_scheme" and f as x
    using regions_hcall [of H f as t] that by simp
  have pg: "shm_regions t' = shm_regions t" if "run_state (page_set_flags H a b f) t = (x, t')" for t t' :: "('a, 'b) ipc_st_scheme" and a b f x
    using regions_page_set_flags [of H a b f t] that by simp
  have ge: "t' = t" if "run_state (get_errno r) t = (x, t')" for t t' :: "('a, 'b) ipc_st_scheme" and r x
    using regions_get_errno [of r t] that by simp
  show ?thesis
    using assms
    by (auto simp: do_shmat_def call_def mmap_find_vma_flags_def run_simps Let_def split: prod.splits if_splits
        dest!: hc pg ge)
qed

lemma do_shmdt_regions:
  "shm_regions (snd (run_state (do_shmdt H a) s)) =
     (case del_region a (shm_regions s) of None \<Rightarrow> shm_regions s | Some (n, rs) \<Rightarrow> rs)"
  by (simp add: do_shmdt_def call32_def run_simps case_prod_beta split: option.split)

text \<open>
  C35: detaching undoes attaching. When an attach entered a region, at an address no
  other region is attached at, the table held exactly one region more, at the
  address returned to the guest; detaching that address, whatever the host answers,
  takes exactly this region out again.
\<close>
theorem shmat_shmdt:
  assumes "run_state (do_shmat H shmid shmaddr flg) s = (raddr, s1)" and "shm_regions s1 \<noteq> shm_regions s"
    and "raddr \<noteq> 0" and "\<forall>n. (raddr, n) \<notin># attached (shm_regions s)"
  shows "(\<exists>n. attached (shm_regions s1) = add_mset (raddr, n) (attached (shm_regions s))) \<and>
    attached (shm_regions (snd (run_state (do_shmdt H raddr) s1))) = attached (shm_regions s)"
proof -
  obtain n where n: "shm_regions s1 = add_region raddr n (shm_regions s)"
    using do_shmat_regions [OF assms(1)] assms(2) by blast
  have "add_region a k rs = rs" if "\<not> has_free_slot rs" for a k rs
    using that by (induction rs) (auto simp: has_free_slot_def)
  then have room: "has_free_slot (shm_regions s)"
    using n assms(2) by metis
  obtain rs' where "del_region raddr (shm_regions s1) = Some (n, rs')" "attached rs' = attached (shm_regions s)"
    using shm.del_add [OF assms(3) room assms(4), of n] n by auto
  then show ?thesis
    using shm.add [OF assms(3), of n "shm_regions s"] room n by (simp add: do_shmdt_regions)
qed

text \<open>A host that attaches every segment, of 16 kB, at 0x40000000, and the table at the start.\<close>

definition shm_host :: "unit host" where
  "shm_host f as h =
     (if f = ''shmctl'' then ((0, [[], [], replicate 48 0 @ le64 0x4000 @ replicate 56 0]), h)
      else if f = ''shmat'' then ((0x40000000, []), h)
      else ((0, []), h))"

theorem shmat_shmdt_witness:
  "\<exists>s1. run_state (do_shmat shm_host 7 0x40000000 0)
       \<lparr>mem = (\<lambda>_. 0), errno = 0, kern = (), base = 0, sigact_table = [], altstack_sp = 0, altstack_size = 0,
        shm_regions = [\<lparr>shm_start = 0, shm_len = 0\<rparr>]\<rparr> = (0x40000000, s1) \<and>
     attached (shm_regions s1) = {#(0x40000000, 0x4000)#} \<and>
     attached (shm_regions (snd (run_state (do_shmdt shm_host 0x40000000) s1))) = {#}"
proof -
  let ?s = "\<lparr>mem = (\<lambda>_. 0), errno = 0, kern = (), base = 0, sigact_table = [], altstack_sp = 0, altstack_size = 0,
        shm_regions = [\<lparr>shm_start = 0, shm_len = 0\<rparr>]\<rparr> :: unit ipc_st"
  have run: "run_state (do_shmat shm_host 7 0x40000000 0) ?s =
      (0x40000000, ?s\<lparr>shm_regions := [\<lparr>shm_start = 0x40000000, shm_len = 0x4000\<rparr>]\<rparr>)"
    by (simp add: do_shmat_def hcall_def call_def get_errno_def page_set_flags_def shm_host_def run_simps out_def
        is_error_def fld64_def)
  show ?thesis
    using shmat_shmdt [OF run] by (simp add: run)
qed


section \<open>Control structures copied in and out\<close>

lemma fld_skip [simp]:
  "4 \<le> i \<Longrightarrow> fld32 (le32 w @ xs) i = fld32 xs (i - 4)" "4 \<le> i \<Longrightarrow> fld16 (le32 w @ xs) i = fld16 xs (i - 4)"
  "4 \<le> i \<Longrightarrow> fld64 (le32 w @ xs) i = fld64 xs (i - 4)"
  "8 \<le> i \<Longrightarrow> fld32 (le64 d @ xs) i = fld32 xs (i - 8)"
  "2 \<le> i \<Longrightarrow> fld64 (le16 h @ xs) i = fld64 xs (i - 2)" "2 \<le> i \<Longrightarrow> fld32 (le16 h @ xs) i = fld32 xs (i - 2)"
  "n \<le> i \<Longrightarrow> fld64 (replicate n 0 @ xs) i = fld64 xs (i - n)" "n \<le> i \<Longrightarrow> fld32 (replicate n 0 @ xs) i = fld32 xs (i - n)"
  "fld32 (le32 w @ xs) 0 = w" "fld16 (le16 h @ xs) 0 = h"
  by (simp_all add: fld16_def fld32_def fld64_def)

text \<open>Storing what a cell holds changes nothing.\<close>

lemma st_ld_updates [simp]: "st32 m a (ld32 m a) = m" "st16 m a (ld16 m a) = m" "st64 m a (ld64 m a) = m"
  by (rule c32.st_ld, rule c16.st_ld, rule c64.st_ld)

lemma narrow_widen [simp]: "ucast (ucast (w :: 32 word) :: 64 word) = w"
  by (rule bit_word_eqI) (simp add: bit_ucast_iff)

text \<open>
  The control structures of semaphore sets, message queues and shared-memory
  segments survive the copy to the host and back: storing what was just loaded, as
  the calls that set them do when the host leaves the structure alone, succeeds and
  changes no byte of the guest's memory.
\<close>
theorem ipc_structures_round_trip:
  assumes "base s + ucast a \<noteq> 0"
  shows "(\<exists>sd. run_state (target_to_host_semid_ds a) s = (Inr sd, s) \<and> run_state (host_to_target_semid_ds a sd) s = (0, s)) \<and>
    (\<exists>md. run_state (target_to_host_msqid_ds a) s = (Inr md, s) \<and> run_state (host_to_target_msqid_ds a md) s = (0, s)) \<and>
    (\<exists>sd. run_state (target_to_host_shmid_ds a) s = (Inr sd, s) \<and> run_state (host_to_target_shmid_ds a sd) s = (0, s))"
  using assms
  by (simp add: target_to_host_semid_ds_def host_to_target_semid_ds_def target_to_host_msqid_ds_def
      host_to_target_msqid_ds_def target_to_host_shmid_ds_def host_to_target_shmid_ds_def
      target_to_host_ipc_perm_def host_to_target_ipc_perm_def run_simps)

theorem ipc_structures_round_trip_witness:
  "\<exists>md. run_state (target_to_host_msqid_ds 0x1000) \<lparr>mem = (\<lambda>_. 4), errno = 0, kern = (), base = 0\<rparr> =
      (Inr md, \<lparr>mem = (\<lambda>_. 4), errno = 0, kern = (), base = 0\<rparr>)"
  using ipc_structures_round_trip [of "\<lparr>mem = (\<lambda>_. 4), errno = 0, kern = (), base = 0\<rparr>" "0x1000"] by auto

end
