(* ===== verification/Sys_Stat.thy ===== *)
theory Sys_Stat
  imports Sys_Limits Sockcall Ipc
begin

text \<open>
  The cases of \<open>do_syscall\<close> from ioperm to the new select: the socket and IPC
  multiplexers, timers, the file status, waiting, the system's description,
  seeking and reading directories.
\<close>

section \<open>Timers\<close>

definition put_itimerval :: "32 word \<Rightarrow> bytes \<Rightarrow> abi_long \<Rightarrow> ('k, 'z, abi_long) C" where
  "put_itimerval a v r = do {
     e \<leftarrow> copy_to_user_timeval a (take 16 v);
     if e \<noteq> 0 then ret (- TARGET_EFAULT)
     else do {
       e2 \<leftarrow> copy_to_user_timeval (a + 8) (drop 16 v);
       ret (if e2 \<noteq> 0 then - TARGET_EFAULT else r) } }"

definition sys_setitimer :: "'k host \<Rightarrow> 32 word \<Rightarrow> 32 word \<Rightarrow> 32 word \<Rightarrow> ('k, 'z, abi_long) C" where
  "sys_setitimer H arg1 arg2 arg3 = do {
     v \<leftarrow> two_timevals arg2;
     case v of
       Inl e \<Rightarrow> ret e
     | Inr pvalue \<Rightarrow> do {
         (r, outs) \<leftarrow> syscb H ''setitimer'' [sx arg1, pvalue, Out 32];
         if \<not> is_error r \<and> arg3 \<noteq> 0 then put_itimerval arg3 (out outs 2) r else ret r } }"

definition sys_getitimer :: "'k host \<Rightarrow> 32 word \<Rightarrow> 32 word \<Rightarrow> ('k, 'z, abi_long) C" where
  "sys_getitimer H arg1 arg2 = do {
     (r, outs) \<leftarrow> syscb H ''getitimer'' [sx arg1, Out 32];
     if \<not> is_error r \<and> arg2 \<noteq> 0 then put_itimerval arg2 (out outs 1) r else ret r }"

section \<open>File status\<close>

text \<open>The guest's old \<open>stat\<close>, 64 bytes; the host's fields as for \<open>host_to_target_stat64\<close>.\<close>

definition do_stat :: "32 word \<Rightarrow> bytes \<Rightarrow> abi_long \<Rightarrow> ('k, 'z, abi_long) C" where
  "do_stat arg2 st r =
     (if is_error r then ret r
      else with_string arg2 (\<lambda>p. do {
        wrb p (replicate 64 0);
        wr16 p (ucast (fld64 st 0));
        wr32 (p + 4) (ucast (fld64 st 8));
        wr16 (p + 8) (ucast (fld32 st 24));
        wr16 (p + 12) (ucast (fld32 st 28));
        wr16 (p + 14) (ucast (fld32 st 32));
        wr16 (p + 10) (ucast (fld64 st 16));
        wr16 (p + 16) (ucast (fld64 st 40));
        wr32 (p + 20) (ucast (fld64 st 48));
        wr32 (p + 24) (ucast (fld64 st 56));
        wr32 (p + 28) (ucast (fld64 st 64));
        wr32 (p + 32) (ucast (fld64 st 72));
        wr32 (p + 40) (ucast (fld64 st 88));
        wr32 (p + 48) (ucast (fld64 st 104));
        ret r }))"

definition sys_stat :: "'k host \<Rightarrow> bytes \<Rightarrow> string \<Rightarrow> 32 word \<Rightarrow> 32 word \<Rightarrow> ('k, 'z, abi_long) C" where
  "sys_stat H chroot f arg1 arg2 =
     with_path chroot arg1 (\<lambda>q. do {
       (r, outs) \<leftarrow> syscb H f [q, Out 144];
       do_stat arg2 (out outs 1) r })"

definition sys_fstat :: "'k host \<Rightarrow> 32 word \<Rightarrow> 32 word \<Rightarrow> ('k, 'z, abi_long) C" where
  "sys_fstat H arg1 arg2 = do {
     (r, outs) \<leftarrow> syscb H ''fstat'' [sx arg1, Out 144];
     do_stat arg2 (out outs 1) r }"

section \<open>Waiting and system information\<close>

definition sys_wait4 :: "'k host \<Rightarrow> 32 word \<Rightarrow> 32 word \<Rightarrow> 32 word \<Rightarrow> 32 word \<Rightarrow> ('k, 'z, abi_long) C" where
  "sys_wait4 H arg1 arg2 arg3 arg4 = do {
     (r, outs) \<leftarrow> syscb H ''wait4'' [sx arg1, Out 4, sx arg3, if arg4 \<noteq> 0 then Out 144 else W 0];
     if is_error r then ret r
     else do {
       (if arg2 \<noteq> 0 then put_user_u32 H (host_to_target_waitstatus (fld32 (out outs 1) 0)) arg2 else ret ());
       (if arg4 \<noteq> 0 then do { host_to_target_rusage arg4 (out outs 3); ret () } else ret ());
       ret r } }"

text \<open>
  \<open>struct sysinfo\<close>: ten longs (uptime, three loads, six sizes), procs at 80, two
  longs at 88 and 96, mem_unit at 104; the guest's has words, procs at 40.
\<close>

definition sys_sysinfo :: "'k host \<Rightarrow> 32 word \<Rightarrow> ('k, 'z, abi_long) C" where
  "sys_sysinfo H arg1 = do {
     (r, outs) \<leftarrow> syscb H ''sysinfo'' [Out 112];
     let v = out outs 0;
     if \<not> is_error r \<and> arg1 \<noteq> 0 then
       with_string arg1 (\<lambda>p. do {
         for_each [0..<10] (\<lambda>i. wr32 (p + of_nat (4 * i)) (ucast (fld64 v (8 * i))));
         wr16 (p + 40) (fld16 v 80);
         wr32 (p + 44) (ucast (fld64 v 88));
         wr32 (p + 48) (ucast (fld64 v 96));
         wr32 (p + 52) (fld32 v 104);
         ret r })
     else ret r }"

text \<open>The machine's name is the guest's, the release the made-up one.\<close>

definition sys_uname_case :: "'k host \<Rightarrow> 32 word \<Rightarrow> ('k, 'z, abi_long) C" where
  "sys_uname_case H arg1 =
     with_string arg1 (\<lambda>buf. do {
       r0 \<leftarrow> sys_uname H buf;
       r \<leftarrow> get_errno r0;
       (if is_error r then ret ()
        else do {
          wrb (buf + 260) (map of_char ''i386'' @ [0]);
          wrb (buf + 130) (map of_char qemu_uname_release @ [0]) });
       ret r })"

section \<open>Seeking and directories\<close>

text \<open>The low word of the offset is sign extended before it is combined with the high word.\<close>

definition sys_llseek :: "'k host \<Rightarrow> 32 word \<Rightarrow> 32 word \<Rightarrow> 32 word \<Rightarrow> 32 word \<Rightarrow> 32 word \<Rightarrow> ('k, 'z, abi_long) C" where
  "sys_llseek H arg1 arg2 arg3 arg4 arg5 = do {
     res \<leftarrow> call H ''lseek'' [sx arg1, W (push_bit 32 (scast arg2) OR scast arg3), sx arg5];
     r \<leftarrow> if res = - 1 then get_errno (ucast res) else ret 0;
     (if r = 0 then put_user_s64 H res arg4 else ret ());
     ret r }"

text \<open>
  The loop of \<open>getdents\<close>: \<open>de\<close> and \<open>tde\<close> are the next host and guest records,
  \<open>len\<close> the host's bytes left, \<open>count1\<close> the guest's bytes written. A host record
  is inode, offset, length at 16, name at 18; a guest record is eight bytes
  shorter, with the length at 8 and the name at 10. Each record takes at least
  one byte off \<open>len\<close>, so \<open>len\<close> rounds are enough; a record of length zero, which
  the host's kernel does not produce, would make the loop of the source run
  forever and stops the rounds here.
\<close>

definition getdents_name :: "addr \<Rightarrow> addr \<Rightarrow> int \<Rightarrow> ('k, 'z, unit) C" where
  "getdents_name dst src tnamelen =
     (if tnamelen \<le> 0 then ret ()
      else do {
        s \<leftarrow> gets (\<lambda>s. cstr (mem s) src (nat tnamelen));
        wrb dst (pstrcpy (nat tnamelen) s) })"

fun getdents_loop :: "nat \<Rightarrow> addr \<Rightarrow> addr \<Rightarrow> int \<Rightarrow> int \<Rightarrow> ('k, 'z, int) C" where
  "getdents_loop 0 de tde len count1 = ret count1"
| "getdents_loop (Suc n) de tde len count1 =
     (if len \<le> 0 then ret count1
      else do {
        rl \<leftarrow> rd16 (de + 16);
        let reclen = uint rl;
        let treclen = reclen - 8;
        wr16 (tde + 8) (of_int treclen);
        ino \<leftarrow> rd64 de;
        wr32 tde (ucast ino);
        off \<leftarrow> rd64 (de + 8);
        wr32 (tde + 4) (ucast off);
        getdents_name (tde + 10) (de + 18) (min 256 (treclen - 10));
        getdents_loop n (de + of_int reclen) (tde + of_int treclen) (len - reclen) (count1 + treclen) })"

definition sys_getdents_case :: "'k host \<Rightarrow> 32 word \<Rightarrow> 32 word \<Rightarrow> 32 word \<Rightarrow> ('k, 'z, abi_long) C" where
  "sys_getdents_case H arg1 arg2 arg3 = do {
     dirp \<leftarrow> call H ''malloc'' [sx arg3];
     if dirp = 0 then ret (- TARGET_ENOMEM)
     else do {
       r \<leftarrow> sysc H ''sys_getdents'' [sx arg1, W dirp, sx arg3];
       if is_error r then do { call H ''free'' [W dirp]; ret r }
       else with_string arg2 (\<lambda>target_dirp. do {
         count1 \<leftarrow> getdents_loop (nat (sint r)) dirp target_dirp (sint r) 0;
         call H ''free'' [W dirp];
         ret (of_int count1) }) } }"

section \<open>The groups\<close>

definition syscall_socketcall_wait4 ::
  "'k host \<Rightarrow> bytes \<Rightarrow> bytes \<Rightarrow> 32 word \<Rightarrow> 32 word \<Rightarrow> 32 word \<Rightarrow> 32 word \<Rightarrow> 32 word \<Rightarrow> ('k, 'z, abi_long) C option" where
  "syscall_socketcall_wait4 H chroot junk num arg1 arg2 arg3 arg4 =
     (if num = TARGET_NR_ioperm then Some unimplemented
      else if num = TARGET_NR_socketcall then Some (do_socketcall H chroot junk arg1 arg2)
      else if num = TARGET_NR_syslog then
        Some (with_string arg2 (\<lambda>p. sysc H ''sys_syslog'' [sx arg1, W p, sx arg3]))
      else if num = TARGET_NR_setitimer then Some (sys_setitimer H arg1 arg2 arg3)
      else if num = TARGET_NR_getitimer then Some (sys_getitimer H arg1 arg2)
      else if num = TARGET_NR_stat then Some (sys_stat H chroot ''stat'' arg1 arg2)
      else if num = TARGET_NR_lstat then Some (sys_stat H chroot ''lstat'' arg1 arg2)
      else if num = TARGET_NR_fstat then Some (sys_fstat H arg1 arg2)
      else if num = TARGET_NR_olduname \<or> num = TARGET_NR_iopl then Some unimplemented
      else if num = TARGET_NR_vhangup then Some (sysc H ''vhangup'' [])
      else if num = TARGET_NR_idle then Some unimplemented
      else if num = TARGET_NR_wait4 then Some (sys_wait4 H arg1 arg2 arg3 arg4)
      else None)"

text \<open>
  \<open>junk_ret\<close> is the uninitialised result of modify_ldt, whose assertion is on a
  string that is never null.
\<close>

definition syscall_swapoff_select ::
  "'k host \<Rightarrow> abi_long \<Rightarrow> 32 word \<Rightarrow> 32 word \<Rightarrow> 32 word \<Rightarrow> 32 word \<Rightarrow> 32 word \<Rightarrow> 32 word \<Rightarrow> 32 word \<Rightarrow>
   ('k, 'z, abi_long) I option" where
  "syscall_swapoff_select H junk_ret num arg1 arg2 arg3 arg4 arg5 arg6 =
     (if num = TARGET_NR_swapoff then Some (with_string arg1 (\<lambda>p. sysc H ''swapoff'' [W p]))
      else if num = TARGET_NR_sysinfo then Some (sys_sysinfo H arg1)
      else if num = TARGET_NR_ipc then Some (do_ipc H arg1 arg2 arg3 arg4 arg5 arg6)
      else if num = TARGET_NR_fsync then Some (sysc H ''fsync'' [sx arg1])
      else if num = TARGET_NR_exit_group then Some (sysc H ''exit_group'' [sx arg1])
      else if num = TARGET_NR_setdomainname then
        Some (with_string arg1 (\<lambda>p. sysc H ''setdomainname'' [W p, sx arg2]))
      else if num = TARGET_NR_uname then Some (sys_uname_case H arg1)
      else if num = TARGET_NR_modify_ldt then Some (ret junk_ret)
      else if num = TARGET_NR_vm86old then Some unimplemented
      else if num = TARGET_NR_vm86 then Some (assert_fail H)
      else if num \<in> {TARGET_NR_adjtimex, TARGET_NR_create_module, TARGET_NR_init_module,
                     TARGET_NR_delete_module, TARGET_NR_get_kernel_syms, TARGET_NR_quotactl}
      then Some unimplemented
      else if num = TARGET_NR_getpgid then Some (sysc H ''getpgid'' [sx arg1])
      else if num = TARGET_NR_fchdir then Some (sysc H ''fchdir'' [sx arg1])
      else if num = TARGET_NR_bdflush \<or> num = TARGET_NR_sysfs then Some unimplemented
      else if num = TARGET_NR_personality then Some (sysc H ''personality'' [sx arg1])
      else if num = TARGET_NR_afs_syscall then Some unimplemented
      else if num = TARGET_NR_u_llseek then Some (sys_llseek H arg1 arg2 arg3 arg4 arg5)
      else if num = TARGET_NR_getdents then Some (sys_getdents_case H arg1 arg2 arg3)
      else if num = TARGET_NR_getdents64 then
        Some (with_string arg2 (\<lambda>p. sysc H ''sys_getdents64'' [sx arg1, W p, sx arg3]))
      else if num = TARGET_NR_u_newselect then Some (do_select H arg1 arg2 arg3 arg4 arg5)
      else None)"

end
