(* ===== verification/Sys_Io.thy ===== *)
theory Sys_Io
  imports Sys_Stat
begin

text \<open>
  The cases of \<open>do_syscall\<close> from poll to fstatat64: polling, vectors, scheduling,
  sleeping, positioned reads and writes, the 64-bit file calls.
\<close>

section \<open>Polling\<close>

text \<open>A \<open>pollfd\<close> is eight bytes on both sides: fd at 0, events 4, revents 6.\<close>

definition rd_pollfds :: "addr \<Rightarrow> nat \<Rightarrow> ('k, 'z, bytes) C" where
  "rd_pollfds p nfds = gets (\<lambda>s. concat (map (\<lambda>i.
     le32 (ld32 (mem s) (p + of_nat (8 * i))) @ le16 (ld16 (mem s) (p + of_nat (8 * i) + 4)) @ [0, 0]) [0..<nfds]))"

definition wr_revents :: "addr \<Rightarrow> nat \<Rightarrow> bytes \<Rightarrow> ('k, 'z, unit) C" where
  "wr_revents p nfds pfd =
     for_each [0..<nfds] (\<lambda>i. wr16 (p + of_nat (8 * i) + 6) (fld16 pfd (8 * i + 6)))"

text \<open>The signal set of \<open>ppoll\<close>; the size passed to the host is \<open>_NSIG / 8\<close>, 8.\<close>

definition opt_sigset :: "abi_ulong \<Rightarrow> ('k, 'z, abi_long + harg) C" where
  "opt_sigset a =
     (if a = 0 then ret (Inr (W 0))
      else do {
        p \<leftarrow> lock_user a;
        if p = 0 then ret (Inl (- TARGET_EFAULT))
        else do { sg \<leftarrow> rd_sigset_host p; ret (Inr (In (sigset_bytes sg))) } })"

definition opt_timespec :: "abi_ulong \<Rightarrow> ('k, 'z, abi_long + harg) C" where
  "opt_timespec a =
     (if a = 0 then ret (Inr (W 0))
      else do {
        t \<leftarrow> target_to_host_timespec a;
        ret (case t of Inl _ \<Rightarrow> Inl (- TARGET_EFAULT) | Inr b \<Rightarrow> Inr (In b)) })"

definition ppoll_call ::
  "'k host \<Rightarrow> bytes \<Rightarrow> 32 word \<Rightarrow> 32 word \<Rightarrow> 32 word \<Rightarrow> ('k, 'z, abi_long + abi_long \<times> bytes list) C" where
  "ppoll_call H pfd arg2 arg3 arg4 = do {
     t \<leftarrow> opt_timespec arg3;
     case t of Inl e \<Rightarrow> ret (Inl e) | Inr timeout_ts \<Rightarrow> do {
     g \<leftarrow> opt_sigset arg4;
     case g of Inl e \<Rightarrow> ret (Inl e) | Inr sg \<Rightarrow> do {
       (r, outs) \<leftarrow> syscb H ''sys_ppoll'' [In pfd, W (ucast arg2), timeout_ts, sg, W 8];
       (if \<not> is_error r \<and> arg3 \<noteq> 0 then do { host_to_target_timespec arg3 (out outs 2); ret () } else ret ());
       ret (Inr (r, outs)) } } }"

definition sys_poll :: "'k host \<Rightarrow> bool \<Rightarrow> 32 word \<Rightarrow> 32 word \<Rightarrow> 32 word \<Rightarrow> 32 word \<Rightarrow> ('k, 'z, abi_long) C" where
  "sys_poll H is_ppoll arg1 arg2 arg3 arg4 =
     with_string arg1 (\<lambda>target_pfd. do {
       pfd \<leftarrow> rd_pollfds target_pfd (unat arg2);
       q \<leftarrow> if is_ppoll then ppoll_call H pfd arg2 arg3 arg4
           else do { ro \<leftarrow> syscb H ''poll'' [In pfd, W (ucast arg2), sx arg3]; ret (Inr ro) };
       case q of
         Inl e \<Rightarrow> ret e
       | Inr (r, outs) \<Rightarrow> do {
           (if is_error r then ret () else wr_revents target_pfd (unat arg2) (out outs 0));
           ret r } })"

section \<open>Vectors\<close>

definition sys_iov :: "'k host \<Rightarrow> string \<Rightarrow> 32 word \<Rightarrow> 32 word \<Rightarrow> 32 word \<Rightarrow> ('k, 'z, abi_long) C" where
  "sys_iov H f arg1 arg2 arg3 = do {
     v \<leftarrow> lock_iovec arg2 arg3;
     case v of
       Inl _ \<Rightarrow> ret (- TARGET_EFAULT)
     | Inr vec \<Rightarrow> do {
         r \<leftarrow> sysc H f [sx arg1, In vec, sx arg3];
         unlock_iovec arg2;
         ret r } }"

section \<open>Scheduling\<close>

text \<open>The host's mask is rounded up to a multiple of its eight-byte long.\<close>

definition affinity_mask_size :: "32 word \<Rightarrow> 32 word" where
  "affinity_mask_size arg2 = ucast ((scast arg2 + 7) AND NOT 7 :: 64 word)"

definition sys_sched_getaffinity_case :: "'k host \<Rightarrow> 32 word \<Rightarrow> 32 word \<Rightarrow> 32 word \<Rightarrow> ('k, 'z, abi_long) C" where
  "sys_sched_getaffinity_case H arg1 arg2 arg3 =
     (if arg2 AND 3 \<noteq> 0 then ret (- TARGET_EINVAL)
      else do {
        let mask_size = affinity_mask_size arg2;
        (r, outs) \<leftarrow> syscb H ''sys_sched_getaffinity'' [sx arg1, W (ucast mask_size), Out (unat mask_size)];
        if is_error r then ret r
        else do {
          e \<leftarrow> copy_to_user H arg3 (take (unat r) (out outs 2));
          ret (if e \<noteq> 0 then - TARGET_EFAULT else r) } })"

definition sys_sched_setaffinity_case :: "'k host \<Rightarrow> 32 word \<Rightarrow> 32 word \<Rightarrow> 32 word \<Rightarrow> ('k, 'z, abi_long) C" where
  "sys_sched_setaffinity_case H arg1 arg2 arg3 =
     (if arg2 AND 3 \<noteq> 0 then ret (- TARGET_EINVAL)
      else with_string arg3 (\<lambda>p. do {
        let mask_size = affinity_mask_size arg2;
        bs \<leftarrow> rdb p (unat arg2);
        sysc H ''sys_sched_setaffinity''
          [sx arg1, W (ucast mask_size), In (bs @ replicate (unat mask_size - unat arg2) 0)] }))"

definition sys_sched_setparam :: "'k host \<Rightarrow> string \<Rightarrow> harg list \<Rightarrow> 32 word \<Rightarrow> ('k, 'z, abi_long) C" where
  "sys_sched_setparam H f pre a =
     with_string a (\<lambda>p. do { prio \<leftarrow> rd32 p; sysc H f (pre @ [In (le32 prio)]) })"

definition sys_sched_getparam :: "'k host \<Rightarrow> 32 word \<Rightarrow> 32 word \<Rightarrow> ('k, 'z, abi_long) C" where
  "sys_sched_getparam H arg1 arg2 = do {
     (r, outs) \<leftarrow> syscb H ''sched_getparam'' [sx arg1, Out 4];
     if is_error r then ret r
     else with_string arg2 (\<lambda>p. do { wr32 p (fld32 (out outs 1) 0); ret r }) }"

text \<open>A call that fills in a timespec, copied out when it succeeded; a failing copy is ignored.\<close>

definition sys_timespec_out :: "'k host \<Rightarrow> string \<Rightarrow> 32 word \<Rightarrow> 32 word \<Rightarrow> ('k, 'z, abi_long) C" where
  "sys_timespec_out H f arg1 arg2 = do {
     (r, outs) \<leftarrow> syscb H f [sx arg1, Out 16];
     if is_error r then ret r
     else do { host_to_target_timespec arg2 (out outs 1); ret r } }"

definition sys_nanosleep :: "'k host \<Rightarrow> 32 word \<Rightarrow> 32 word \<Rightarrow> ('k, 'z, abi_long) C" where
  "sys_nanosleep H arg1 arg2 = do {
     req \<leftarrow> timespec_or_zero arg1;
     (r, outs) \<leftarrow> syscb H ''nanosleep'' [In req, Out 16];
     if is_error r \<and> arg2 \<noteq> 0 then do { host_to_target_timespec arg2 (out outs 1); ret r }
     else ret r }"

definition sys_prctl :: "'k host \<Rightarrow> 32 word \<Rightarrow> 32 word \<Rightarrow> 32 word \<Rightarrow> 32 word \<Rightarrow> 32 word \<Rightarrow> ('k, 'z, abi_long) C" where
  "sys_prctl H arg1 arg2 arg3 arg4 arg5 =
     (if arg1 = 2 then do {
        (r, outs) \<leftarrow> syscb H ''prctl'' [sx arg1, Out 4, sx arg3, sx arg4, sx arg5];
        (if \<not> is_error r \<and> arg2 \<noteq> 0 then put_user_u32 H (fld32 (out outs 1) 0) arg2 else ret ());
        ret r }
      else sysc H ''prctl'' [sx arg1, sx arg2, sx arg3, sx arg4, sx arg5])"

definition syscall_poll_yield ::
  "'k host \<Rightarrow> 32 word \<Rightarrow> 32 word \<Rightarrow> 32 word \<Rightarrow> 32 word \<Rightarrow> 32 word \<Rightarrow> ('k, 'z, abi_long) C option" where
  "syscall_poll_yield H num arg1 arg2 arg3 arg4 =
     (if num = TARGET_NR_poll \<or> num = TARGET_NR_ppoll then
        Some (sys_poll H (num = TARGET_NR_ppoll) arg1 arg2 arg3 arg4)
      else if num = TARGET_NR_flock then Some (sysc H ''flock'' [sx arg1, sx arg2])
      else if num = TARGET_NR_readv then Some (sys_iov H ''readv'' arg1 arg2 arg3)
      else if num = TARGET_NR_writev then Some (sys_iov H ''writev'' arg1 arg2 arg3)
      else if num = TARGET_NR_getsid then Some (sysc H ''getsid'' [sx arg1])
      else if num = TARGET_NR_fdatasync then Some (sysc H ''fdatasync'' [sx arg1])
      else if num = TARGET_NR_u_sysctl then Some (ret (- TARGET_ENOTDIR))
      else if num = TARGET_NR_sched_getaffinity then Some (sys_sched_getaffinity_case H arg1 arg2 arg3)
      else if num = TARGET_NR_sched_setaffinity then Some (sys_sched_setaffinity_case H arg1 arg2 arg3)
      else if num = TARGET_NR_sched_setparam then Some (sys_sched_setparam H ''sched_setparam'' [sx arg1] arg2)
      else if num = TARGET_NR_sched_getparam then Some (sys_sched_getparam H arg1 arg2)
      else if num = TARGET_NR_sched_setscheduler then
        Some (sys_sched_setparam H ''sched_setscheduler'' [sx arg1, sx arg2] arg3)
      else if num = TARGET_NR_sched_getscheduler then Some (sysc H ''sched_getscheduler'' [sx arg1])
      else if num = TARGET_NR_sched_yield then Some (sysc H ''sched_yield'' [])
      else None)"

section \<open>Positions, directories, 64-bit files\<close>

definition sys_getcwd_case :: "'k host \<Rightarrow> 32 word \<Rightarrow> 32 word \<Rightarrow> ('k, 'z, abi_long) C" where
  "sys_getcwd_case H arg1 arg2 =
     with_string arg1 (\<lambda>p. do { r \<leftarrow> sys_getcwd1 H p (scast arg2); get_errno r })"

definition sys_stat64 :: "'k host \<Rightarrow> bytes \<Rightarrow> string \<Rightarrow> harg list \<Rightarrow> 32 word \<Rightarrow> harg list \<Rightarrow> 32 word \<Rightarrow> ('k, 'z, abi_long) C" where
  "sys_stat64 H chroot f pre a post buf =
     with_path chroot a (\<lambda>q. do {
       (r, outs) \<leftarrow> syscb H f (pre @ [q, Out 144] @ post);
       if is_error r then ret r else host_to_target_stat64 buf (out outs (Suc (length pre))) })"

definition sys_fstat64 :: "'k host \<Rightarrow> 32 word \<Rightarrow> 32 word \<Rightarrow> ('k, 'z, abi_long) C" where
  "sys_fstat64 H arg1 arg2 = do {
     (r, outs) \<leftarrow> syscb H ''fstat'' [sx arg1, Out 144];
     if is_error r then ret r else host_to_target_stat64 arg2 (out outs 1) }"

definition syscall_prio_fstatat ::
  "'k host \<Rightarrow> bytes \<Rightarrow> 32 word \<Rightarrow> 32 word \<Rightarrow> 32 word \<Rightarrow> 32 word \<Rightarrow> 32 word \<Rightarrow> 32 word \<Rightarrow> ('k, 'z, abi_long) C option" where
  "syscall_prio_fstatat H chroot num arg1 arg2 arg3 arg4 arg5 =
     (if num = TARGET_NR_sched_get_priority_max then Some (sysc H ''sched_get_priority_max'' [sx arg1])
      else if num = TARGET_NR_sched_get_priority_min then Some (sysc H ''sched_get_priority_min'' [sx arg1])
      else if num = TARGET_NR_sched_rr_get_interval then
        Some (sys_timespec_out H ''sched_rr_get_interval'' arg1 arg2)
      else if num = TARGET_NR_nanosleep then Some (sys_nanosleep H arg1 arg2)
      else if num = TARGET_NR_query_module \<or> num = TARGET_NR_nfsservctl then Some unimplemented
      else if num = TARGET_NR_prctl then Some (sys_prctl H arg1 arg2 arg3 arg4 arg5)
      else if num = TARGET_NR_pread then
        Some (with_string arg2 (\<lambda>p. sysc H ''pread'' [sx arg1, W p, sx arg3, sx arg4]))
      else if num = TARGET_NR_pwrite then
        Some (with_string arg2 (\<lambda>p. sysc H ''pwrite'' [sx arg1, W p, sx arg3, sx arg4]))
      else if num = TARGET_NR_getcwd then Some (sys_getcwd_case H arg1 arg2)
      else if num = TARGET_NR_capget \<or> num = TARGET_NR_capset then Some unimplemented
      else if num = TARGET_NR_sigaltstack then Some (assert_fail H)
      else if num \<in> {TARGET_NR_sendfile, TARGET_NR_getpmsg, TARGET_NR_putpmsg} then Some unimplemented
      else if num = TARGET_NR_ugetrlimit then Some (sys_getrlimit H arg1 arg2)
      else if num = TARGET_NR_truncate64 then
        Some (with_path chroot arg1 (\<lambda>q. target_truncate64 H q arg2 arg3))
      else if num = TARGET_NR_ftruncate64 then Some (target_ftruncate64 H arg1 arg2 arg3)
      else if num = TARGET_NR_stat64 then Some (sys_stat64 H chroot ''stat'' [] arg1 [] arg2)
      else if num = TARGET_NR_lstat64 then Some (sys_stat64 H chroot ''lstat'' [] arg1 [] arg2)
      else if num = TARGET_NR_fstat64 then Some (sys_fstat64 H arg1 arg2)
      else if num = TARGET_NR_fstatat64 then
        Some (sys_stat64 H chroot ''sys_newfstatat'' [sx arg1] arg2 [sx arg4] arg3)
      else None)"

end
