(* ===== verification/Sys_Ids.thy ===== *)
theory Sys_Ids
  imports Sys_Io
begin

text \<open>
  The cases of \<open>do_syscall\<close> on user and group ids, from lchown to setfsgid32: the
  old calls with ids of sixteen bits, and the calls with full ids.
\<close>

section \<open>Ids of sixteen bits\<close>

text \<open>An id of 16 bits is widened through \<open>low2highuid\<close>, and narrowed through \<open>high2lowuid\<close>.\<close>

abbreviation (input) uidx :: "32 word \<Rightarrow> harg" where "uidx a \<equiv> sx (low2highuid a)"
abbreviation (input) gidx :: "32 word \<Rightarrow> harg" where "gidx a \<equiv> sx (low2highgid a)"

definition get_id :: "'k host \<Rightarrow> string \<Rightarrow> (32 word \<Rightarrow> 32 word) \<Rightarrow> ('k, 'z, abi_long) C" where
  "get_id H f narrow = do { r \<leftarrow> call32 H f []; get_errno (narrow r) }"

definition sys_getgroups :: "'k host \<Rightarrow> 32 word \<Rightarrow> 32 word \<Rightarrow> ('k, 'z, abi_long) C" where
  "sys_getgroups H gidsetsize arg2 = do {
     (r, outs) \<leftarrow> syscb H ''getgroups'' [sx gidsetsize, Out (4 * nat (sint gidsetsize))];
     if gidsetsize = 0 \<or> is_error r then ret r
     else with_string arg2 (\<lambda>p. do {
       for_each [0..<nat (sint r)] (\<lambda>i.
         wr16 (p + of_nat (2 * i)) (ucast (tswapid (high2lowgid (fld32 (out outs 1) (4 * i))))));
       ret r }) }"

definition sys_setgroups :: "'k host \<Rightarrow> 32 word \<Rightarrow> 32 word \<Rightarrow> ('k, 'z, abi_long) C" where
  "sys_setgroups H gidsetsize arg2 =
     with_string arg2 (\<lambda>p. do {
       ids \<leftarrow> gets (\<lambda>s. load_list ld16 2 (mem s) p (nat (sint gidsetsize)));
       sysc H ''setgroups''
         [sx gidsetsize, In (concat (map (\<lambda>g. le32 (low2highgid (tswapid (ucast g)))) ids))] })"

text \<open>\<open>getresuid\<close> and its like: three ids, each stored by \<open>put\<close>.\<close>

definition sys_getres ::
  "'k host \<Rightarrow> string \<Rightarrow> (32 word \<Rightarrow> 32 word \<Rightarrow> ('k, 'z, unit) C) \<Rightarrow>
   32 word \<Rightarrow> 32 word \<Rightarrow> 32 word \<Rightarrow> ('k, 'z, abi_long) C" where
  "sys_getres H f put arg1 arg2 arg3 = do {
     (r, outs) \<leftarrow> syscb H f [Out 4, Out 4, Out 4];
     if is_error r then ret r
     else do {
       put (fld32 (out outs 0) 0) arg1;
       put (fld32 (out outs 1) 0) arg2;
       put (fld32 (out outs 2) 0) arg3;
       ret r } }"

definition syscall_ids16 ::
  "'k host \<Rightarrow> bytes \<Rightarrow> 32 word \<Rightarrow> 32 word \<Rightarrow> 32 word \<Rightarrow> 32 word \<Rightarrow> 32 word \<Rightarrow> 32 word \<Rightarrow> ('k, 'z, abi_long) C option" where
  "syscall_ids16 H chroot num arg1 arg2 arg3 arg4 arg5 =
     (if num = TARGET_NR_lchown then Some (path_call H chroot ''lchown'' [] arg1 [uidx arg2, gidx arg3])
      else if num = TARGET_NR_getuid then Some (get_id H ''getuid'' high2lowuid)
      else if num = TARGET_NR_getgid then Some (get_id H ''getgid'' high2lowgid)
      else if num = TARGET_NR_geteuid then Some (get_id H ''geteuid'' high2lowuid)
      else if num = TARGET_NR_getegid then Some (get_id H ''getegid'' high2lowgid)
      else if num = TARGET_NR_setreuid then Some (sysc H ''setreuid'' [uidx arg1, uidx arg2])
      else if num = TARGET_NR_setregid then Some (sysc H ''setregid'' [gidx arg1, gidx arg2])
      else if num = TARGET_NR_getgroups then Some (sys_getgroups H arg1 arg2)
      else if num = TARGET_NR_setgroups then Some (sys_setgroups H arg1 arg2)
      else if num = TARGET_NR_fchown then Some (sysc H ''fchown'' [sx arg1, uidx arg2, gidx arg3])
      else if num = TARGET_NR_fchownat then
        Some (path_call H chroot ''sys_fchownat'' [sx arg1] arg2 [uidx arg3, gidx arg4, sx arg5])
      else if num = TARGET_NR_setresuid then Some (sysc H ''setresuid'' [uidx arg1, uidx arg2, uidx arg3])
      else if num = TARGET_NR_getresuid then
        Some (sys_getres H ''getresuid'' (\<lambda>v. put_user_u16 H (high2lowuid v)) arg1 arg2 arg3)
      else if num = TARGET_NR_setresgid then Some (sysc H ''setresgid'' [gidx arg1, gidx arg2, gidx arg3])
      else if num = TARGET_NR_getresgid then
        Some (sys_getres H ''getresgid'' (\<lambda>v. put_user_u16 H (high2lowgid v)) arg1 arg2 arg3)
      else if num = TARGET_NR_chown then Some (path_call H chroot ''chown'' [] arg1 [uidx arg2, gidx arg3])
      else if num = TARGET_NR_setuid then Some (sysc H ''setuid'' [uidx arg1])
      else if num = TARGET_NR_setgid then Some (sysc H ''setgid'' [gidx arg1])
      else if num = TARGET_NR_setfsuid then Some (sysc H ''setfsuid'' [sx arg1])
      else if num = TARGET_NR_setfsgid then Some (sysc H ''setfsgid'' [sx arg1])
      else None)"

section \<open>Full ids\<close>

definition sys_getgroups32 :: "'k host \<Rightarrow> 32 word \<Rightarrow> 32 word \<Rightarrow> ('k, 'z, abi_long) C" where
  "sys_getgroups32 H gidsetsize arg2 = do {
     (r, outs) \<leftarrow> syscb H ''getgroups'' [sx gidsetsize, Out (4 * nat (sint gidsetsize))];
     if gidsetsize = 0 \<or> is_error r then ret r
     else with_string arg2 (\<lambda>p. do {
       for_each [0..<nat (sint r)] (\<lambda>i. wr32 (p + of_nat (4 * i)) (fld32 (out outs 1) (4 * i)));
       ret r }) }"

definition sys_setgroups32 :: "'k host \<Rightarrow> 32 word \<Rightarrow> 32 word \<Rightarrow> ('k, 'z, abi_long) C" where
  "sys_setgroups32 H gidsetsize arg2 =
     with_string arg2 (\<lambda>p. do {
       ids \<leftarrow> gets (\<lambda>s. load_list ld32 4 (mem s) p (nat (sint gidsetsize)));
       sysc H ''setgroups'' [sx gidsetsize, In (concat (map le32 ids))] })"

definition syscall_ids32 ::
  "'k host \<Rightarrow> bytes \<Rightarrow> 32 word \<Rightarrow> 32 word \<Rightarrow> 32 word \<Rightarrow> 32 word \<Rightarrow> ('k, 'z, abi_long) C option" where
  "syscall_ids32 H chroot num arg1 arg2 arg3 =
     (if num = TARGET_NR_lchown32 then Some (path_call H chroot ''lchown'' [] arg1 [sx arg2, sx arg3])
      else if num = TARGET_NR_getuid32 then Some (sysc H ''getuid'' [])
      else if num = TARGET_NR_getgid32 then Some (sysc H ''getgid'' [])
      else if num = TARGET_NR_geteuid32 then Some (sysc H ''geteuid'' [])
      else if num = TARGET_NR_getegid32 then Some (sysc H ''getegid'' [])
      else if num = TARGET_NR_setreuid32 then Some (sysc H ''setreuid'' [sx arg1, sx arg2])
      else if num = TARGET_NR_setregid32 then Some (sysc H ''setregid'' [sx arg1, sx arg2])
      else if num = TARGET_NR_getgroups32 then Some (sys_getgroups32 H arg1 arg2)
      else if num = TARGET_NR_setgroups32 then Some (sys_setgroups32 H arg1 arg2)
      else if num = TARGET_NR_fchown32 then Some (sysc H ''fchown'' [sx arg1, sx arg2, sx arg3])
      else if num = TARGET_NR_setresuid32 then Some (sysc H ''setresuid'' [sx arg1, sx arg2, sx arg3])
      else if num = TARGET_NR_getresuid32 then Some (sys_getres H ''getresuid'' (put_user_u32 H) arg1 arg2 arg3)
      else if num = TARGET_NR_setresgid32 then Some (sysc H ''setresgid'' [sx arg1, sx arg2, sx arg3])
      else if num = TARGET_NR_getresgid32 then Some (sys_getres H ''getresgid'' (put_user_u32 H) arg1 arg2 arg3)
      else if num = TARGET_NR_chown32 then Some (path_call H chroot ''chown'' [] arg1 [sx arg2, sx arg3])
      else if num = TARGET_NR_setuid32 then Some (sysc H ''setuid'' [sx arg1])
      else if num = TARGET_NR_setgid32 then Some (sysc H ''setgid'' [sx arg1])
      else if num = TARGET_NR_setfsuid32 then Some (sysc H ''setfsuid'' [sx arg1])
      else if num = TARGET_NR_setfsgid32 then Some (sysc H ''setfsgid'' [sx arg1])
      else None)"

end
