(* ===== verification/Syscall.thy ===== *)
theory Syscall
  imports Sys_Ids
begin

text \<open>
  The last cases of \<open>do_syscall\<close>, from pivot_root to mq_getsetattr, and the
  dispatcher itself: a switch over the call's number, whose cases are the groups
  of the theories before this one, and -ENOSYS for any other number.
\<close>

section \<open>Futexes\<close>

text \<open>WAIT 0, WAKE 1, FD 2, REQUEUE 3, CMP_REQUEUE 4, WAKE_OP 5; the private and clock flags are masked off.\<close>

definition do_futex ::
  "'k host \<Rightarrow> abi_ulong \<Rightarrow> 32 word \<Rightarrow> 32 word \<Rightarrow> abi_ulong \<Rightarrow> abi_ulong \<Rightarrow> 32 word \<Rightarrow> ('k, 'z, abi_long) C" where
  "do_futex H uaddr op val timeout uaddr2 val3 = do {
     p \<leftarrow> g2h uaddr;
     p2 \<leftarrow> g2h uaddr2;
     let base_op = op AND NOT (128 OR 256);
     if base_op = 0 then do {
       pts \<leftarrow> if timeout = 0 then ret (W 0) else do { b \<leftarrow> timespec_or_zero timeout; ret (In b) };
       sysc H ''sys_futex'' [W p, sx op, sx val, pts, W 0, W 0] }
     else if base_op = 1 \<or> base_op = 2 then
       sysc H ''sys_futex'' [W p, sx op, sx val, W 0, W 0, W 0]
     else if base_op \<in> {3, 4, 5} then
       sysc H ''sys_futex'' [W p, sx op, sx val, W (ucast timeout), W p2, sx val3]
     else ret (- TARGET_ENOSYS) }"

section \<open>pivot_root to utimensat\<close>

definition sys_mincore :: "'k host \<Rightarrow> 32 word \<Rightarrow> 32 word \<Rightarrow> 32 word \<Rightarrow> ('k, 'z, abi_long) C" where
  "sys_mincore H arg1 arg2 arg3 =
     with_string arg1 (\<lambda>a. with_string arg3 (\<lambda>p. sysc H ''mincore'' [W a, sx arg2, W p]))"

definition sys_fcntl64 :: "'k host \<Rightarrow> 32 word \<Rightarrow> 32 word \<Rightarrow> 32 word \<Rightarrow> ('k, 'z, abi_long) C" where
  "sys_fcntl64 H arg1 arg2 arg3 =
     (let cmd = target_to_host_fcntl_cmd arg2 in
      if cmd = - TARGET_EINVAL then ret cmd
      else if arg2 = 12 then fcntl_lock H rd_flock64 (Some wr_flock64) arg1 cmd arg3
      else if arg2 = 13 \<or> arg2 = 14 then fcntl_lock H rd_flock64 None arg1 cmd arg3
      else do_fcntl H arg1 arg2 arg3)"

definition sys_clock_nanosleep :: "'k host \<Rightarrow> 32 word \<Rightarrow> 32 word \<Rightarrow> 32 word \<Rightarrow> 32 word \<Rightarrow> ('k, 'z, abi_long) C" where
  "sys_clock_nanosleep H arg1 arg2 arg3 arg4 = do {
     ts \<leftarrow> timespec_or_zero arg3;
     (r, outs) \<leftarrow> syscb H ''clock_nanosleep'' [sx arg1, sx arg2, In ts, if arg4 \<noteq> 0 then In ts else W 0];
     (if arg4 \<noteq> 0 then do { host_to_target_timespec arg4 (out outs 3); ret () } else ret ());
     ret r }"

definition sys_utimensat ::
  "'k host \<Rightarrow> bytes \<Rightarrow> 32 word \<Rightarrow> 32 word \<Rightarrow> 32 word \<Rightarrow> 32 word \<Rightarrow> ('k, 'z, abi_long) C" where
  "sys_utimensat H chroot arg1 arg2 arg3 arg4 = do {
     tsp \<leftarrow> if arg3 = 0 then ret (W 0)
           else do { a \<leftarrow> timespec_or_zero arg3; b \<leftarrow> timespec_or_zero (arg3 + 8); ret (In (a @ b)) };
     if arg2 = 0 then sysc H ''sys_utimensat'' [sx arg1, W 0, tsp, sx arg4]
     else path_call H chroot ''sys_utimensat'' [sx arg1] arg2 [tsp, sx arg4] }"

definition xattr_calls :: "32 word list" where
  "xattr_calls =
     [TARGET_NR_setxattr, TARGET_NR_lsetxattr, TARGET_NR_fsetxattr, TARGET_NR_getxattr,
      TARGET_NR_lgetxattr, TARGET_NR_fgetxattr, TARGET_NR_listxattr, TARGET_NR_llistxattr,
      TARGET_NR_flistxattr, TARGET_NR_removexattr, TARGET_NR_lremovexattr, TARGET_NR_fremovexattr]"

definition syscall_mincore_thread_area ::
  "'k host \<Rightarrow> 32 word \<Rightarrow> 32 word \<Rightarrow> 32 word \<Rightarrow> 32 word \<Rightarrow> 32 word \<Rightarrow> ('k, 'z, abi_long) C option" where
  "syscall_mincore_thread_area H num arg1 arg2 arg3 arg4 =
     (if num = TARGET_NR_pivot_root then Some unimplemented
      else if num = TARGET_NR_mincore then Some (sys_mincore H arg1 arg2 arg3)
      else if num = TARGET_NR_fadvise64_64 \<or> num = TARGET_NR_fadvise64 then
        Some (do { r \<leftarrow> call32 H ''posix_fadvise'' [sx arg1, sx arg2, sx arg3, sx arg4]; ret (- r) })
      else if num = TARGET_NR_madvise then Some (get_errno 0)
      else if num = TARGET_NR_fcntl64 then Some (sys_fcntl64 H arg1 arg2 arg3)
      else if num = TARGET_NR_gettid then Some (sysc H ''gettid'' [])
      else if num = TARGET_NR_readahead then
        Some (sysc H ''readahead'' [sx arg1, W (push_bit 32 (scast arg3) OR scast arg2), sx arg4])
      else if num \<in> set xattr_calls then Some (ret (- TARGET_EOPNOTSUPP))
      else if num = TARGET_NR_set_thread_area \<or> num = TARGET_NR_get_thread_area then Some (assert_fail H)
      else None)"

section \<open>Clocks, threads and message queues\<close>

text \<open>An attribute argument; an absent one, or one that could not be copied, is an uninitialised local.\<close>

definition mq_attr_or_zero :: "abi_ulong \<Rightarrow> ('k, 'z, bytes) C" where
  "mq_attr_or_zero a =
     (if a = 0 then ret (replicate 64 0)
      else do {
        t \<leftarrow> copy_from_user_mq_attr a;
        ret (case t of Inl _ \<Rightarrow> replicate 64 0 | Inr b \<Rightarrow> b) })"

definition sys_mq_open :: "'k host \<Rightarrow> 32 word \<Rightarrow> 32 word \<Rightarrow> 32 word \<Rightarrow> 32 word \<Rightarrow> ('k, 'z, abi_long) C" where
  "sys_mq_open H arg1 arg2 arg3 arg4 = do {
     p \<leftarrow> lock_user (arg1 - 1);
     attr \<leftarrow> mq_attr_or_zero arg4;
     sysc H ''mq_open'' [W p, sx arg2, sx arg3, In attr] }"

definition sys_mq_timedsend ::
  "'k host \<Rightarrow> 32 word \<Rightarrow> 32 word \<Rightarrow> 32 word \<Rightarrow> 32 word \<Rightarrow> 32 word \<Rightarrow> ('k, 'z, abi_long) C" where
  "sys_mq_timedsend H arg1 arg2 arg3 arg4 arg5 = do {
     p \<leftarrow> lock_user arg2;
     if arg5 \<noteq> 0 then do {
       ts \<leftarrow> timespec_or_zero arg5;
       (r, outs) \<leftarrow> syscb H ''mq_timedsend'' [sx arg1, W p, sx arg3, sx arg4, In ts];
       host_to_target_timespec arg5 (out outs 4);
       ret r }
     else sysc H ''mq_send'' [sx arg1, W p, sx arg3, sx arg4] }"

definition sys_mq_timedreceive ::
  "'k host \<Rightarrow> 32 word \<Rightarrow> 32 word \<Rightarrow> 32 word \<Rightarrow> 32 word \<Rightarrow> 32 word \<Rightarrow> ('k, 'z, abi_long) C" where
  "sys_mq_timedreceive H arg1 arg2 arg3 arg4 arg5 = do {
     p \<leftarrow> lock_user arg2;
     (r, prio) \<leftarrow>
       if arg5 \<noteq> 0 then do {
         ts \<leftarrow> timespec_or_zero arg5;
         (r, outs) \<leftarrow> syscb H ''mq_timedreceive'' [sx arg1, W p, sx arg3, Out 4, In ts];
         host_to_target_timespec arg5 (out outs 4);
         ret (r, fld32 (out outs 3) 0) }
       else do {
         (r, outs) \<leftarrow> syscb H ''mq_receive'' [sx arg1, W p, sx arg3, Out 4];
         ret (r, fld32 (out outs 3) 0) };
     (if arg4 \<noteq> 0 then put_user_u32 H prio arg4 else ret ());
     ret r }"

text \<open>The results of the two calls are combined as they are, without the error number.\<close>

definition sys_mq_getsetattr :: "'k host \<Rightarrow> 32 word \<Rightarrow> 32 word \<Rightarrow> 32 word \<Rightarrow> ('k, 'z, abi_long) C" where
  "sys_mq_getsetattr H arg1 arg2 arg3 = do {
     r \<leftarrow> if arg3 = 0 then ret 0
         else do {
           (r, outs) \<leftarrow> hcall H ''mq_getattr'' [sx arg1, Out 64];
           copy_to_user_mq_attr arg3 (out outs 1);
           ret (ucast r) };
     if arg2 = 0 then ret r
     else do {
       attr_in \<leftarrow> mq_attr_or_zero arg2;
       r2 \<leftarrow> call32 H ''mq_setattr'' [sx arg1, In attr_in, Out 64];
       ret (r OR r2) } }"

definition syscall_clock_mq ::
  "'k host \<Rightarrow> bytes \<Rightarrow> 32 word \<Rightarrow> 32 word \<Rightarrow> 32 word \<Rightarrow> 32 word \<Rightarrow> 32 word \<Rightarrow> 32 word \<Rightarrow> 32 word \<Rightarrow>
   ('k, 'z, abi_long) C option" where
  "syscall_clock_mq H chroot num arg1 arg2 arg3 arg4 arg5 arg6 =
     (if num = TARGET_NR_clock_gettime then Some (sys_timespec_out H ''clock_gettime'' arg1 arg2)
      else if num = TARGET_NR_clock_getres then Some (sys_timespec_out H ''clock_getres'' arg1 arg2)
      else if num = TARGET_NR_clock_nanosleep then Some (sys_clock_nanosleep H arg1 arg2 arg3 arg4)
      else if num = TARGET_NR_set_tid_address then Some (mem_call H ''set_tid_address'' arg1 [])
      else if num = TARGET_NR_tkill then Some (sysc H ''sys_tkill'' [sx arg1, sx (target_to_host_signal arg2)])
      else if num = TARGET_NR_tgkill then
        Some (sysc H ''sys_tgkill'' [sx arg1, sx arg2, sx (target_to_host_signal arg3)])
      else if num = TARGET_NR_set_robust_list then Some unimplemented
      else if num = TARGET_NR_utimensat then Some (sys_utimensat H chroot arg1 arg2 arg3 arg4)
      else if num = TARGET_NR_futex then Some (do_futex H arg1 arg2 arg3 arg4 arg5 arg6)
      else if num = TARGET_NR_mq_open then Some (sys_mq_open H arg1 arg2 arg3 arg4)
      else if num = TARGET_NR_mq_unlink then
        Some (do { p \<leftarrow> lock_user (arg1 - 1); sysc H ''mq_unlink'' [W p] })
      else if num = TARGET_NR_mq_timedsend then Some (sys_mq_timedsend H arg1 arg2 arg3 arg4 arg5)
      else if num = TARGET_NR_mq_timedreceive then Some (sys_mq_timedreceive H arg1 arg2 arg3 arg4 arg5)
      else if num = TARGET_NR_mq_getsetattr then Some (sys_mq_getsetattr H arg1 arg2 arg3)
      else None)"

section \<open>The dispatcher\<close>

text \<open>
  What the process has fixed before the first call: the configured root, the
  bytes behind a local variable that is read too far, the uninitialised result of
  modify_ldt, the host's signal handler, the tables of ioctl requests and the
  address of the static buffer of \<open>do_ioctl\<close>.
\<close>

record env =
  env_chroot :: bytes
  env_junk :: bytes
  env_ret :: abi_long
  env_handler :: "64 word"
  env_structs :: struct_entries
  env_ioctls :: "IOCTLEntry list"
  env_buf_temp :: addr

fun first_some :: "'a option list \<Rightarrow> 'a option" where
  "first_some [] = None"
| "first_some (Some x # xs) = Some x"
| "first_some (None # xs) = first_some xs"

definition do_syscall ::
  "'k host \<Rightarrow> env \<Rightarrow> 32 word \<Rightarrow> abi_long \<Rightarrow> abi_long \<Rightarrow> abi_long \<Rightarrow> abi_long \<Rightarrow> abi_long \<Rightarrow> abi_long \<Rightarrow>
   ('k, 'z, abi_long) I" where
  "do_syscall H e num arg1 arg2 arg3 arg4 arg5 arg6 =
     (case first_some
        [syscall_open_close H (env_chroot e) num arg1 arg2 arg3 arg4 arg5,
         syscall_chdir_utimes H (env_chroot e) (env_junk e) num arg1 arg2 arg3 arg4 arg5,
         syscall_access_pipe H (env_chroot e) num arg1 arg2 arg3 arg4,
         syscall_times_setsid H (env_chroot e) (env_structs e) (env_ioctls e) (env_buf_temp e) num arg1 arg2 arg3,
         syscall_signal H (env_handler e) num arg1 arg2 arg3,
         syscall_hostname_swapon H (env_chroot e) num arg1 arg2 arg3 arg4,
         syscall_mmap_statfs H (env_chroot e) num arg1 arg2 arg3,
         syscall_socketcall_wait4 H (env_chroot e) (env_junk e) num arg1 arg2 arg3 arg4,
         syscall_swapoff_select H (env_ret e) num arg1 arg2 arg3 arg4 arg5 arg6,
         syscall_poll_yield H num arg1 arg2 arg3 arg4,
         syscall_prio_fstatat H (env_chroot e) num arg1 arg2 arg3 arg4 arg5,
         syscall_ids16 H (env_chroot e) num arg1 arg2 arg3 arg4 arg5,
         syscall_ids32 H (env_chroot e) num arg1 arg2 arg3,
         syscall_mincore_thread_area H num arg1 arg2 arg3 arg4,
         syscall_clock_mq H (env_chroot e) num arg1 arg2 arg3 arg4 arg5 arg6]
      of None \<Rightarrow> ret (- TARGET_ENOSYS)
       | Some m \<Rightarrow> m)"

end
