(* ===== verification/Footprint.thy ===== *)
theory Footprint
  imports Syscall
begin

text \<open>
  What a translated call leaves alone. An operation is quiet when it changes
  nothing but the memory, \<open>errno\<close> and the kernel: the guest's base address and
  the statics of the layer (the table of signal actions, the alternate stack, the
  table of shared-memory regions) stay as they are. Every operation is quiet but
  the few that are there to change a static.
\<close>

section \<open>Quiet operations\<close>

definition quiet :: "(('k, 'z) st_scheme, 'a) state \<Rightarrow> bool" where
  "quiet m \<longleftrightarrow> (\<forall>s. base (snd (run_state m s)) = base s \<and> st.more (snd (run_state m s)) = st.more s)"

text \<open>A case of the switch: quiet where the number belongs to it.\<close>

definition quiet_case :: "(('k, 'z) st_scheme, 'a) state option \<Rightarrow> bool" where
  "quiet_case c \<longleftrightarrow> pred_option quiet c"

named_theorems quiet_intros \<open>quiet operations, by their syntax\<close>

lemma quiet_basic [quiet_intros]:
  "quiet (ret x)" "quiet (gets f)" "quiet (hcall H nm as)"
  "quiet (rd8 a)" "quiet (rd16 a)" "quiet (rd32 a)" "quiet (rd64 a)" "quiet (rdb a n)"
  "quiet (wr8 a b)" "quiet (wr16 a h)" "quiet (wr32 a w)" "quiet (wr64 a d)" "quiet (wrb a bs)"
  by (simp_all add: quiet_def run_simps hcall_def split: prod.split)

lemma quiet_bind [quiet_intros]: "quiet m \<Longrightarrow> (\<And>x. quiet (f x)) \<Longrightarrow> quiet (State_Monad.bind m f)"
  by (simp add: quiet_def run_simps split: prod.split) (metis snd_conv)

lemma quiet_control [quiet_intros]:
  "\<And>b m n. (b \<Longrightarrow> quiet m) \<Longrightarrow> (\<not> b \<Longrightarrow> quiet n) \<Longrightarrow> quiet (if b then m else n)"
  "\<And>x f. (\<And>y. quiet (f y)) \<Longrightarrow> quiet (Let x f)"
  "\<And>p f. (\<And>a b. quiet (f a b)) \<Longrightarrow> quiet (case p of (a, b) \<Rightarrow> f a b)"
  "\<And>c m f. quiet m \<Longrightarrow> (\<And>x. quiet (f x)) \<Longrightarrow> quiet (case c of None \<Rightarrow> m | Some x \<Rightarrow> f x)"
  "\<And>c f g. (\<And>e. quiet (f e)) \<Longrightarrow> (\<And>x. quiet (g x)) \<Longrightarrow> quiet (case c of Inl e \<Rightarrow> f e | Inr x \<Rightarrow> g x)"
  "\<And>xs m f. quiet m \<Longrightarrow> (\<And>x ys. quiet (f x ys)) \<Longrightarrow> quiet (case xs of [] \<Rightarrow> m | x # ys \<Rightarrow> f x ys)"
  by (auto split: prod.split option.split sum.split list.split)

lemma quiet_for_each [quiet_intros]: "(\<And>x. quiet (f x)) \<Longrightarrow> quiet (for_each xs f)"
  by (induction xs) (simp_all add: quiet_intros)

lemma quiet_modify_mem [quiet_intros]: "quiet (modify (\<lambda>s. s\<lparr>mem := f s\<rparr>))" "quiet (modify (\<lambda>s. s\<lparr>errno := e\<rparr>))"
  by (simp_all add: quiet_def run_simps)

lemma quiet_case_control [quiet_intros]:
  "quiet_case None" "quiet m \<Longrightarrow> quiet_case (Some m)"
  "\<And>b c d. (b \<Longrightarrow> quiet_case c) \<Longrightarrow> (\<not> b \<Longrightarrow> quiet_case d) \<Longrightarrow> quiet_case (if b then c else d)"
  by (simp_all add: quiet_case_def)

text \<open>The operations, component by component.\<close>

lemma quiet_machine [quiet_intros]:
  "\<And>H f as. quiet (call H f as)" "\<And>H f as. quiet (call32 H f as)" "\<And>a. quiet (g2h a)"
  "\<And>p. quiet (h2g p)" "\<And>a. quiet (lock_user a)" "\<And>H n a. quiet (gm_read H n a)"
  "\<And>H n a v. quiet (gm_write H n a v)" "\<And>H a. quiet (get_user_u32 H a)"
  "\<And>H a. quiet (get_user_u8 H a)" "\<And>H a. quiet (get_user_size_t H a)"
  "\<And>H v a. quiet (put_user_u32 H v a)" "\<And>H v a. quiet (put_user_u8 H v a)"
  "\<And>H v a. quiet (put_user_s64 H v a)" "\<And>H v a. quiet (put_user_u16 H v a)"
  "\<And>H d bs. quiet (copy_to_user H d bs)" "\<And>chroot p. quiet (path chroot p)"
  "\<And>H sz. quiet (mmap_find_vma_flags H sz)"
  "\<And>H start pend flags. quiet (page_set_flags H start pend flags)"
  unfolding
    call_def call32_def g2h_def h2g_def lock_user_def gm_read_def gm_write_def get_user_u32_def
    get_user_u8_def get_user_size_t_def put_user_u32_def put_user_u8_def put_user_s64_def put_user_u16_def
    copy_to_user_def path_def mmap_find_vma_flags_def page_set_flags_def
  by (intro quiet_intros)+

lemma quiet_errno [quiet_intros]:
  "\<And>r. quiet (get_errno r)" "\<And>H err. quiet (target_strerror H err)"
  unfolding
    get_errno_def target_strerror_def
  by (intro quiet_intros)+

lemma quiet_structs [quiet_intros]:
  "\<And>target_addr rusage. quiet (host_to_target_rusage target_addr rusage)"
  "\<And>target_tv_addr. quiet (copy_from_user_timeval target_tv_addr)"
  "\<And>target_tv_addr tv. quiet (copy_to_user_timeval target_tv_addr tv)"
  "\<And>target_addr. quiet (target_to_host_timespec target_addr)"
  "\<And>target_addr ts. quiet (host_to_target_timespec target_addr ts)"
  "\<And>target_mq_attr_addr. quiet (copy_from_user_mq_attr target_mq_attr_addr)"
  "\<And>target_mq_attr_addr attr. quiet (copy_to_user_mq_attr target_mq_attr_addr attr)"
  "\<And>target_addr st. quiet (host_to_target_stat64 target_addr st)"
  "\<And>H arg1 arg2 arg3. quiet (target_truncate64 H arg1 arg2 arg3)"
  "\<And>H arg1 arg2 arg3. quiet (target_ftruncate64 H arg1 arg2 arg3)"
  "\<And>H buf. quiet (sys_uname H buf)" "\<And>H buf sz. quiet (sys_getcwd1 H buf sz)"
  unfolding
    host_to_target_rusage_def copy_from_user_timeval_def copy_to_user_timeval_def target_to_host_timespec_def
    host_to_target_timespec_def copy_from_user_mq_attr_def copy_to_user_mq_attr_def host_to_target_stat64_def
    target_truncate64_def target_ftruncate64_def sys_uname_def sys_getcwd1_def
  by (intro quiet_intros)+

lemma quiet_copy_to_user_fdset [quiet_intros]: "quiet (copy_to_user_fdset a fds n)"
  unfolding copy_to_user_fdset_def by (intro quiet_intros)

lemma quiet_select [quiet_intros]:
  "\<And>target_fds_addr n. quiet (copy_from_user_fdset target_fds_addr n)"
  "\<And>addr n. quiet (opt_fdset addr n)" "\<And>addr. quiet (opt_timeval addr)"
  "\<And>n rfd_addr wfd_addr efd_addr target_tv_addr outs r. quiet (select_copy_out n rfd_addr wfd_addr efd_addr target_tv_addr outs r)"
  "\<And>H n rfd_addr wfd_addr efd_addr target_tv_addr. quiet (do_select H n rfd_addr wfd_addr efd_addr target_tv_addr)"
  "\<And>H pipedes flags is_pipe2. quiet (do_pipe H pipedes flags is_pipe2)"
  unfolding
    copy_from_user_fdset_def opt_fdset_def opt_timeval_def select_copy_out_def do_select_def do_pipe_def
  by (intro quiet_intros)+

lemma quiet_signal [quiet_intros]:
  "\<And>p. quiet (rd_sigset p)" "\<And>p d. quiet (wr_sigset p d)"
  "\<And>tinfo info. quiet (host_to_target_siginfo tinfo info)"
  "\<And>tinfo. quiet (target_to_host_siginfo tinfo)" "\<And>p. quiet (rd_sigaction p)"
  "\<And>p k. quiet (wr_sigaction p k)"
  unfolding
    rd_sigset_def wr_sigset_def host_to_target_siginfo_def target_to_host_siginfo_def rd_sigaction_def
    wr_sigaction_def
  by (intro quiet_intros)+

lemma quiet_cmsg_nxthdr [quiet_intros]: "quiet (target_cmsg_nxthdr m c)"
  unfolding target_cmsg_nxthdr_def by (intro quiet_intros)

lemma quiet_cmsg_loops [quiet_intros]:
  "quiet (to_host_cmsg_loop n mhdr cl c t space ctl)"
  "quiet (to_target_cmsg_loop n mhdr cl mcl c t space ctl)"
proof -
  show "quiet (to_host_cmsg_loop n mhdr cl c t space ctl)"
    by (induction n arbitrary: c t space ctl) (simp only: to_host_cmsg_loop.simps, intro quiet_intros, assumption?)+
  show "quiet (to_target_cmsg_loop n mhdr cl mcl c t space ctl)"
    by (induction n arbitrary: c t space ctl) (simp only: to_target_cmsg_loop.simps, intro quiet_intros, assumption?)+
qed

lemma quiet_socket [quiet_intros]:
  "\<And>target_addr len. quiet (target_to_host_ip_mreq target_addr len)"
  "\<And>p len. quiet (unix_len p len)"
  "\<And>H chroot target_addr len. quiet (target_to_host_sockaddr H chroot target_addr len)"
  "\<And>target_addr addr len. quiet (host_to_target_sockaddr target_addr addr len)"
  "\<And>msgp controllen ctl. quiet (target_to_host_cmsg msgp controllen ctl)"
  "\<And>msgp controllen ctl. quiet (host_to_target_cmsg msgp controllen ctl)"
  "\<And>H sockfd level optname val. quiet (setsockopt_int H sockfd level optname val)"
  "\<And>H sockfd level optname optval_addr optlen. quiet (do_setsockopt H sockfd level optname optval_addr optlen)"
  "\<And>H sockfd level optname optval_addr optlen. quiet (getsockopt_int H sockfd level optname optval_addr optlen)"
  "\<And>H sockfd level optname optval_addr optlen. quiet (getsockopt_ip H sockfd level optname optval_addr optlen)"
  "\<And>H sockfd level optname optval_addr optlen. quiet (do_getsockopt H sockfd level optname optval_addr optlen)"
  "\<And>target_addr count. quiet (lock_iovec target_addr count)"
  "\<And>target_addr. quiet (unlock_iovec target_addr)"
  unfolding
    target_to_host_ip_mreq_def unix_len_def target_to_host_sockaddr_def host_to_target_sockaddr_def
    target_to_host_cmsg_def host_to_target_cmsg_def setsockopt_int_def do_setsockopt_def getsockopt_int_def
    getsockopt_ip_def do_getsockopt_def lock_iovec_def unlock_iovec_def
  by (intro quiet_intros)+

lemma quiet_get_args [quiet_intros]: "quiet (get_args H v n)"
  by (induction n arbitrary: v) (simp only: get_args.simps, intro quiet_intros, assumption?)+

lemma quiet_sockcall [quiet_intros]:
  "\<And>H domain type protocol. quiet (do_socket H domain type protocol)"
  "\<And>H chroot sockfd target_addr addrlen. quiet (do_bind H chroot sockfd target_addr addrlen)"
  "\<And>H chroot sockfd target_addr addrlen. quiet (do_connect H chroot sockfd target_addr addrlen)"
  "\<And>H target_addr target_addrlen_addr addr addrlen r. quiet (store_sockaddr H target_addr target_addrlen_addr addr addrlen r)"
  "\<And>H fd target_addr target_addrlen_addr. quiet (do_accept H fd target_addr target_addrlen_addr)"
  "\<And>H fd target_addr target_addrlen_addr. quiet (do_getpeername H fd target_addr target_addrlen_addr)"
  "\<And>H fd target_addr target_addrlen_addr. quiet (do_getsockname H fd target_addr target_addrlen_addr)"
  "\<And>H domain type protocol target_tab_addr. quiet (do_socketpair H domain type protocol target_tab_addr)"
  "\<And>H chroot fd msg len flags target_addr addrlen. quiet (do_sendto H chroot fd msg len flags target_addr addrlen)"
  "\<And>H fd msg len flags target_addr target_addrlen. quiet (do_recvfrom H fd msg len flags target_addr target_addrlen)"
  "\<And>H chroot msgp. quiet (msg_name_of H chroot msgp)"
  "\<And>H chroot junk fd target_msg flags send. quiet (do_sendrecvmsg H chroot junk fd target_msg flags send)"
  "\<And>H chroot num vptr. quiet (socketcall_transfer H chroot num vptr)"
  "\<And>H chroot junk num vptr. quiet (do_socketcall H chroot junk num vptr)"
  unfolding
    do_socket_def do_bind_def do_connect_def store_sockaddr_def do_accept_def do_getpeername_def
    do_getsockname_def do_socketpair_def do_sendto_def do_recvfrom_def msg_name_of_def do_sendrecvmsg_def
    socketcall_transfer_def do_socketcall_def
  by (intro quiet_intros)+

lemma quiet_host_to_target_semarray [quiet_intros]: "quiet (host_to_target_semarray H i a xs)"
  unfolding host_to_target_semarray_def sem_count_def by (intro quiet_intros)

lemma quiet_ipc [quiet_intros]:
  "\<And>target_addr. quiet (target_to_host_ipc_perm target_addr)"
  "\<And>target_addr ip. quiet (host_to_target_ipc_perm target_addr ip)"
  "\<And>target_addr. quiet (target_to_host_semid_ds target_addr)"
  "\<And>target_addr sd. quiet (host_to_target_semid_ds target_addr sd)"
  "\<And>target_addr si. quiet (host_to_target_seminfo target_addr si)"
  "\<And>H semid. quiet (sem_count H semid)"
  "\<And>H semid target_addr. quiet (target_to_host_semarray H semid target_addr)"
  "\<And>H semid semnum cmd0 target_su. quiet (do_semctl H semid semnum cmd0 target_su)"
  "\<And>target_addr nsops. quiet (target_to_host_sembuf target_addr nsops)"
  "\<And>H semid ptr nsops. quiet (do_semop H semid ptr nsops)"
  "\<And>target_addr. quiet (target_to_host_msqid_ds target_addr)"
  "\<And>target_addr md. quiet (host_to_target_msqid_ds target_addr md)"
  "\<And>target_addr mi. quiet (host_to_target_msginfo target_addr mi)"
  "\<And>H msgid cmd0 ptr. quiet (do_msgctl H msgid cmd0 ptr)"
  "\<And>H msqid msgp msgsz msgflg. quiet (do_msgsnd H msqid msgp msgsz msgflg)"
  "\<And>H msqid msgp msgsz msgtyp msgflg. quiet (do_msgrcv H msqid msgp msgsz msgtyp msgflg)"
  "\<And>target_addr. quiet (target_to_host_shmid_ds target_addr)"
  "\<And>target_addr sd. quiet (host_to_target_shmid_ds target_addr sd)"
  "\<And>target_addr si. quiet (host_to_target_shminfo target_addr si)"
  "\<And>target_addr si. quiet (host_to_target_shm_info target_addr si)"
  "\<And>H shmid cmd0 buf. quiet (do_shmctl H shmid cmd0 buf)"
  "\<And>H version first second third ptr fifth. quiet (ipc_msgrcv H version first second third ptr fifth)"
  unfolding
    target_to_host_ipc_perm_def host_to_target_ipc_perm_def target_to_host_semid_ds_def
    host_to_target_semid_ds_def host_to_target_seminfo_def sem_count_def target_to_host_semarray_def
    do_semctl_def target_to_host_sembuf_def do_semop_def target_to_host_msqid_ds_def
    host_to_target_msqid_ds_def host_to_target_msginfo_def do_msgctl_def do_msgsnd_def do_msgrcv_def
    target_to_host_shmid_ds_def host_to_target_shmid_ds_def host_to_target_shminfo_def
    host_to_target_shm_info_def do_shmctl_def ipc_msgrcv_def
  by (intro quiet_intros)+

lemma quiet_convert_mem [quiet_intros]: "quiet (convert_mem E d s ts b)"
  by (simp add: quiet_def convert_mem_def run_simps split: option.split)

lemma quiet_ioctl [quiet_intros]:
  "\<And>H fd ie p. quiet (host_ioctl H fd ie p)"
  "\<And>E buf_temp arg ts. quiet (ioctl_in E buf_temp arg ts)"
  "\<And>E buf_temp arg ts r. quiet (ioctl_out E buf_temp arg ts r)"
  "\<And>H E buf_temp fd ie arg ts. quiet (ioctl_ptr H E buf_temp fd ie arg ts)"
  "\<And>H buf_temp outbufsz. quiet (ifconf_buffer H buf_temp outbufsz)"
  "\<And>E ifc arg ts target_ifc_buf r. quiet (ifconf_out E ifc arg ts target_ifc_buf r)"
  "\<And>H E buf_temp fd ie arg. quiet (do_ioctl_ifconf H E buf_temp fd ie arg)"
  "\<And>H E tbl buf_temp fd cmd arg. quiet (do_ioctl H E tbl buf_temp fd cmd arg)"
  unfolding
    host_ioctl_def ioctl_in_def ioctl_out_def ioctl_ptr_def ifconf_buffer_def ifconf_out_def
    do_ioctl_ifconf_def do_ioctl_def
  by (intro quiet_intros)+

lemma quiet_fcntl_lock [quiet_intros]:
  "(\<And>p. quiet (rd p)) \<Longrightarrow> quiet (fcntl_lock H rd None fd cmd a)"
  "(\<And>p. quiet (rd p)) \<Longrightarrow> (\<And>p b. quiet (put p b)) \<Longrightarrow> quiet (fcntl_lock H rd (Some put) fd cmd a)"
  unfolding fcntl_lock_def option.case by (intro quiet_intros | assumption)+

lemma quiet_fcntl [quiet_intros]:
  "\<And>p. quiet (rd_flock p)" "\<And>p fl. quiet (wr_flock p fl)" "\<And>p. quiet (rd_flock64_shifted p)"
  "\<And>p fl. quiet (wr_flock64_shifted p fl)" "\<And>p. quiet (rd_flock64 p)"
  "\<And>p fl. quiet (wr_flock64 p fl)" "\<And>H fd cmd arg. quiet (do_fcntl H fd cmd arg)"
  unfolding
    rd_flock_def wr_flock_def rd_flock64_shifted_def wr_flock64_shifted_def rd_flock64_def wr_flock64_def
    do_fcntl_def
  by (intro quiet_intros)+

lemma quiet_with [quiet_intros]: "(\<And>p. quiet (f p)) \<Longrightarrow> quiet (with_string a f)"
  "(\<And>q. quiet (g q)) \<Longrightarrow> quiet (with_path chroot a g)"
  unfolding with_string_def with_path_def by (intro quiet_intros | assumption)+

lemma quiet_sys_file [quiet_intros]:
  "\<And>H f args. quiet (sysc H f args)" "\<And>H f args. quiet (syscb H f args)"
  "\<And>H. quiet (assert_fail H)" "\<And>H chroot f pre a post. quiet (path_call H chroot f pre a post)"
  "\<And>H chroot f pre a mid b post. quiet (path_call2 H chroot f pre a mid b post)"
  "\<And>H arg1 arg2 arg3. quiet (sys_waitpid H arg1 arg2 arg3)"
  "\<And>H arg1 arg2 arg3 arg4. quiet (sys_waitid H arg1 arg2 arg3 arg4)"
  "\<And>H chroot num arg1 arg2 arg3 arg4 arg5. quiet_case (syscall_open_close H chroot num arg1 arg2 arg3 arg4 arg5)"
  "\<And>H arg1. quiet (sys_time H arg1)"
  "\<And>H chroot arg1 arg2 arg3 arg4 arg5. quiet (sys_mount H chroot arg1 arg2 arg3 arg4 arg5)"
  "\<And>H junk4 arg1. quiet (sys_stime H junk4 arg1)"
  "\<And>H chroot arg1 arg2. quiet (sys_utime H chroot arg1 arg2)" "\<And>a. quiet (two_timevals a)"
  "\<And>H chroot f pre a tv. quiet (sys_utimes H chroot f pre a tv)"
  "\<And>H chroot junk num arg1 arg2 arg3 arg4 arg5. quiet_case (syscall_chdir_utimes H chroot junk num arg1 arg2 arg3 arg4 arg5)"
  unfolding
    sysc_def syscb_def assert_fail_def path_call_def path_call2_def sys_waitpid_def sys_waitid_def
    syscall_open_close_def sys_time_def sys_mount_def sys_stime_def sys_utime_def two_timevals_def
    sys_utimes_def syscall_chdir_utimes_def
  by (intro quiet_intros)+

lemma quiet_sys_proc [quiet_intros]:
  "\<And>H chroot num arg1 arg2 arg3 arg4. quiet_case (syscall_access_pipe H chroot num arg1 arg2 arg3 arg4)"
  "\<And>H arg1. quiet (sys_times H arg1)"
  "\<And>H chroot E tbl buf_temp num arg1 arg2 arg3. quiet_case (syscall_times_setsid H chroot E tbl buf_temp num arg1 arg2 arg3)"
  unfolding
    syscall_access_pipe_def sys_times_def syscall_times_setsid_def
  by (intro quiet_intros)+

lemma quiet_signal_calls [quiet_intros]:
  "(\<And>p. quiet (rd p)) \<Longrightarrow> (\<And>p b. quiet (wr p b)) \<Longrightarrow> quiet (sys_sigprocmask H rd wr a1 a2 a3)"
  "(\<And>p b. quiet (wr p b)) \<Longrightarrow> quiet (sys_sigpending H wr a1)"
  "(\<And>p. quiet (rd p)) \<Longrightarrow> quiet (sys_sigsuspend H rd a1)"
  unfolding sys_sigprocmask_def sys_sigpending_def sys_sigsuspend_def by (intro quiet_intros | assumption)+

lemma quiet_sys_signal [quiet_intros]:
  "\<And>p. quiet (rd_old_sigaction p)" "\<And>p k. quiet (wr_old_sigaction p k)"
  "\<And>p. quiet (rd_old_sigset_host p)" "\<And>p sg. quiet (wr_old_sigset_target p sg)"
  "\<And>p. quiet (rd_sigset_host p)" "\<And>p sg. quiet (wr_sigset_target p sg)"
  "\<And>H. quiet (sys_sgetmask H)" "\<And>H arg1. quiet (sys_ssetmask H arg1)"
  "\<And>a. quiet (timespec_or_zero a)"
  "\<And>H arg1 arg2 arg3. quiet (sys_rt_sigtimedwait H arg1 arg2 arg3)"
  "\<And>H arg1 arg2 arg3. quiet (sys_rt_sigqueueinfo H arg1 arg2 arg3)"
  unfolding
    rd_old_sigaction_def wr_old_sigaction_def rd_old_sigset_host_def wr_old_sigset_target_def
    rd_sigset_host_def wr_sigset_target_def sys_sgetmask_def sys_ssetmask_def timespec_or_zero_def
    sys_rt_sigtimedwait_def sys_rt_sigqueueinfo_def
  by (intro quiet_intros)+

lemma quiet_statfs [quiet_intros]:
  "(\<And>b r. quiet (conv b r)) \<Longrightarrow> quiet (sys_statfs H chroot conv a)"
  "(\<And>b r. quiet (conv b r)) \<Longrightarrow> quiet (sys_fstatfs H conv a)"
  unfolding sys_statfs_def sys_fstatfs_def by (intro quiet_intros | assumption)+

lemma quiet_sys_limits [quiet_intros]:
  "\<And>H arg1 arg2. quiet (sys_setrlimit H arg1 arg2)"
  "\<And>H arg1 arg2. quiet (sys_getrlimit H arg1 arg2)"
  "\<And>H arg1 arg2. quiet (sys_getrusage H arg1 arg2)" "\<And>H arg1. quiet (sys_gettimeofday H arg1)"
  "\<And>H arg1. quiet (sys_settimeofday H arg1)" "\<And>H arg1. quiet (sys_select H arg1)"
  "\<And>H chroot arg1 arg2 arg3. quiet (sys_readlink H chroot arg1 arg2 arg3)"
  "\<And>H chroot num arg1 arg2 arg3 arg4. quiet_case (syscall_hostname_swapon H chroot num arg1 arg2 arg3 arg4)"
  "\<And>H f a post. quiet (mem_call H f a post)" "\<And>arg2 stfs r. quiet (convert_statfs arg2 stfs r)"
  "\<And>arg3 stfs r. quiet (convert_statfs64 arg3 stfs r)"
  "\<And>H chroot num arg1 arg2 arg3. quiet_case (syscall_mmap_statfs H chroot num arg1 arg2 arg3)"
  unfolding
    sys_setrlimit_def sys_getrlimit_def sys_getrusage_def sys_gettimeofday_def sys_settimeofday_def
    sys_select_def sys_readlink_def syscall_hostname_swapon_def mem_call_def convert_statfs_def
    convert_statfs64_def syscall_mmap_statfs_def
  by (intro quiet_intros)+

lemma quiet_getdents_loop [quiet_intros]: "quiet (getdents_name d s l)" "quiet (getdents_loop n de tde len c)"
proof -
  show *: "quiet (getdents_name d s l)" for d s l
    unfolding getdents_name_def by (intro quiet_intros)
  show "quiet (getdents_loop n de tde len c)"
    by (induction n arbitrary: de tde len c) (simp only: getdents_loop.simps, intro quiet_intros *, assumption?)+
qed

lemma quiet_sys_stat [quiet_intros]:
  "\<And>a v r. quiet (put_itimerval a v r)" "\<And>H arg1 arg2 arg3. quiet (sys_setitimer H arg1 arg2 arg3)"
  "\<And>H arg1 arg2. quiet (sys_getitimer H arg1 arg2)" "\<And>arg2 st r. quiet (do_stat arg2 st r)"
  "\<And>H chroot f arg1 arg2. quiet (sys_stat H chroot f arg1 arg2)"
  "\<And>H arg1 arg2. quiet (sys_fstat H arg1 arg2)"
  "\<And>H arg1 arg2 arg3 arg4. quiet (sys_wait4 H arg1 arg2 arg3 arg4)"
  "\<And>H arg1. quiet (sys_sysinfo H arg1)" "\<And>H arg1. quiet (sys_uname_case H arg1)"
  "\<And>H arg1 arg2 arg3 arg4 arg5. quiet (sys_llseek H arg1 arg2 arg3 arg4 arg5)"
  "\<And>H arg1 arg2 arg3. quiet (sys_getdents_case H arg1 arg2 arg3)"
  "\<And>H chroot junk num arg1 arg2 arg3 arg4. quiet_case (syscall_socketcall_wait4 H chroot junk num arg1 arg2 arg3 arg4)"
  unfolding
    put_itimerval_def sys_setitimer_def sys_getitimer_def do_stat_def sys_stat_def sys_fstat_def
    sys_wait4_def sys_sysinfo_def sys_uname_case_def sys_llseek_def sys_getdents_case_def
    syscall_socketcall_wait4_def
  by (intro quiet_intros)+

lemma quiet_sys_io [quiet_intros]:
  "\<And>p nfds. quiet (rd_pollfds p nfds)" "\<And>p nfds pfd. quiet (wr_revents p nfds pfd)"
  "\<And>a. quiet (opt_sigset a)" "\<And>a. quiet (opt_timespec a)"
  "\<And>H pfd arg2 arg3 arg4. quiet (ppoll_call H pfd arg2 arg3 arg4)"
  "\<And>H is_ppoll arg1 arg2 arg3 arg4. quiet (sys_poll H is_ppoll arg1 arg2 arg3 arg4)"
  "\<And>H f arg1 arg2 arg3. quiet (sys_iov H f arg1 arg2 arg3)"
  "\<And>H arg1 arg2 arg3. quiet (sys_sched_getaffinity_case H arg1 arg2 arg3)"
  "\<And>H arg1 arg2 arg3. quiet (sys_sched_setaffinity_case H arg1 arg2 arg3)"
  "\<And>H f pre a. quiet (sys_sched_setparam H f pre a)"
  "\<And>H arg1 arg2. quiet (sys_sched_getparam H arg1 arg2)"
  "\<And>H f arg1 arg2. quiet (sys_timespec_out H f arg1 arg2)"
  "\<And>H arg1 arg2. quiet (sys_nanosleep H arg1 arg2)"
  "\<And>H arg1 arg2 arg3 arg4 arg5. quiet (sys_prctl H arg1 arg2 arg3 arg4 arg5)"
  "\<And>H num arg1 arg2 arg3 arg4. quiet_case (syscall_poll_yield H num arg1 arg2 arg3 arg4)"
  "\<And>H arg1 arg2. quiet (sys_getcwd_case H arg1 arg2)"
  "\<And>H chroot f pre a post buf. quiet (sys_stat64 H chroot f pre a post buf)"
  "\<And>H arg1 arg2. quiet (sys_fstat64 H arg1 arg2)"
  "\<And>H chroot num arg1 arg2 arg3 arg4 arg5. quiet_case (syscall_prio_fstatat H chroot num arg1 arg2 arg3 arg4 arg5)"
  unfolding
    rd_pollfds_def wr_revents_def opt_sigset_def opt_timespec_def ppoll_call_def sys_poll_def sys_iov_def
    sys_sched_getaffinity_case_def sys_sched_setaffinity_case_def sys_sched_setparam_def
    sys_sched_getparam_def sys_timespec_out_def sys_nanosleep_def sys_prctl_def syscall_poll_yield_def
    sys_getcwd_case_def sys_stat64_def sys_fstat64_def syscall_prio_fstatat_def
  by (intro quiet_intros)+

lemma quiet_getres [quiet_intros]: "(\<And>v a. quiet (put v a)) \<Longrightarrow> quiet (sys_getres H f put a1 a2 a3)"
  unfolding sys_getres_def by (intro quiet_intros | assumption)+

lemma quiet_sys_ids [quiet_intros]:
  "\<And>H f narrow. quiet (get_id H f narrow)"
  "\<And>H gidsetsize arg2. quiet (sys_getgroups H gidsetsize arg2)"
  "\<And>H gidsetsize arg2. quiet (sys_setgroups H gidsetsize arg2)"
  "\<And>H chroot num arg1 arg2 arg3 arg4 arg5. quiet_case (syscall_ids16 H chroot num arg1 arg2 arg3 arg4 arg5)"
  "\<And>H gidsetsize arg2. quiet (sys_getgroups32 H gidsetsize arg2)"
  "\<And>H gidsetsize arg2. quiet (sys_setgroups32 H gidsetsize arg2)"
  "\<And>H chroot num arg1 arg2 arg3. quiet_case (syscall_ids32 H chroot num arg1 arg2 arg3)"
  unfolding
    get_id_def sys_getgroups_def sys_setgroups_def syscall_ids16_def sys_getgroups32_def sys_setgroups32_def
    syscall_ids32_def
  by (intro quiet_intros)+

lemma quiet_syscall [quiet_intros]:
  "\<And>H uaddr op val timeout uaddr2 val3. quiet (do_futex H uaddr op val timeout uaddr2 val3)"
  "\<And>H arg1 arg2 arg3. quiet (sys_mincore H arg1 arg2 arg3)"
  "\<And>H arg1 arg2 arg3. quiet (sys_fcntl64 H arg1 arg2 arg3)"
  "\<And>H arg1 arg2 arg3 arg4. quiet (sys_clock_nanosleep H arg1 arg2 arg3 arg4)"
  "\<And>H chroot arg1 arg2 arg3 arg4. quiet (sys_utimensat H chroot arg1 arg2 arg3 arg4)"
  "\<And>H num arg1 arg2 arg3 arg4. quiet_case (syscall_mincore_thread_area H num arg1 arg2 arg3 arg4)"
  "\<And>a. quiet (mq_attr_or_zero a)"
  "\<And>H arg1 arg2 arg3 arg4. quiet (sys_mq_open H arg1 arg2 arg3 arg4)"
  "\<And>H arg1 arg2 arg3 arg4 arg5. quiet (sys_mq_timedsend H arg1 arg2 arg3 arg4 arg5)"
  "\<And>H arg1 arg2 arg3 arg4 arg5. quiet (sys_mq_timedreceive H arg1 arg2 arg3 arg4 arg5)"
  "\<And>H arg1 arg2 arg3. quiet (sys_mq_getsetattr H arg1 arg2 arg3)"
  "\<And>H chroot num arg1 arg2 arg3 arg4 arg5 arg6. quiet_case (syscall_clock_mq H chroot num arg1 arg2 arg3 arg4 arg5 arg6)"
  unfolding
    do_futex_def sys_mincore_def sys_fcntl64_def sys_clock_nanosleep_def sys_utimensat_def
    syscall_mincore_thread_area_def mq_attr_or_zero_def sys_mq_open_def sys_mq_timedsend_def
    sys_mq_timedreceive_def sys_mq_getsetattr_def syscall_clock_mq_def
  by (intro quiet_intros)+

end
