(* ===== verification/Statics.thy ===== *)
theory Statics
  imports Footprint
begin

text \<open>
  The statics of the layer as a state machine: what every reachable state of the
  table of signal actions, the alternate stack and the table of shared-memory
  regions satisfies, and which calls can change them.
\<close>

section \<open>Preserved properties\<close>

text \<open>
  An operation preserves a property of the state. The rules follow the syntax, as
  those of quiet operations do; the value an operation yields may be needed for
  what comes after it.
\<close>

definition preserves :: "('s \<Rightarrow> bool) \<Rightarrow> ('s, 'a) state \<Rightarrow> bool" where
  "preserves I m \<longleftrightarrow> (\<forall>s. I s \<longrightarrow> I (snd (run_state m s)))"

named_theorems preserves_intros \<open>operations that preserve a property, by their syntax\<close>

definition yields :: "('s \<Rightarrow> bool) \<Rightarrow> ('s, 'a) state \<Rightarrow> ('a \<Rightarrow> bool) \<Rightarrow> bool" where
  "yields I m P \<longleftrightarrow> (\<forall>s. I s \<longrightarrow> P (fst (run_state m s)))"

lemma preservesD: "preserves I m \<Longrightarrow> run_state m s = (r, s') \<Longrightarrow> I s \<Longrightarrow> I s'"
  unfolding preserves_def by (metis snd_conv)

lemma preserves_basic [preserves_intros]: "preserves I (ret x)" "preserves I (gets f)"
  by (simp_all add: preserves_def run_simps)

lemma preserves_modify: "(\<And>s. I s \<Longrightarrow> I (f s)) \<Longrightarrow> preserves I (modify f)"
  by (simp add: preserves_def run_simps)

lemma preserves_bind_yields:
  "preserves I m \<Longrightarrow> yields I m P \<Longrightarrow> (\<And>x. P x \<Longrightarrow> preserves I (f x)) \<Longrightarrow> preserves I (State_Monad.bind m f)"
  by (simp add: preserves_def yields_def run_simps split: prod.split) (metis fst_conv snd_conv)

lemma preserves_bind [preserves_intros]:
  "preserves I m \<Longrightarrow> (\<And>x. preserves I (f x)) \<Longrightarrow> preserves I (State_Monad.bind m f)"
  by (rule preserves_bind_yields [where P = "\<lambda>_. True"]) (simp_all add: yields_def)

lemma preserves_control [preserves_intros]:
  "\<And>b m n. (b \<Longrightarrow> preserves I m) \<Longrightarrow> (\<not> b \<Longrightarrow> preserves I n) \<Longrightarrow> preserves I (if b then m else n)"
  "\<And>x f. (\<And>y. preserves I (f y)) \<Longrightarrow> preserves I (Let x f)"
  "\<And>p f. (\<And>a b. preserves I (f a b)) \<Longrightarrow> preserves I (case p of (a, b) \<Rightarrow> f a b)"
  "\<And>c m f. preserves I m \<Longrightarrow> (\<And>x. c = Some x \<Longrightarrow> preserves I (f x)) \<Longrightarrow>
     preserves I (case c of None \<Rightarrow> m | Some x \<Rightarrow> f x)"
  "\<And>c f g. (\<And>e. c = Inl e \<Longrightarrow> preserves I (f e)) \<Longrightarrow> (\<And>x. c = Inr x \<Longrightarrow> preserves I (g x)) \<Longrightarrow>
     preserves I (case c of Inl e \<Rightarrow> f e | Inr x \<Rightarrow> g x)"
  by (auto split: prod.split option.split sum.split)

text \<open>The cases of the switch.\<close>

definition preserves_case :: "('s \<Rightarrow> bool) \<Rightarrow> ('s, 'a) state option \<Rightarrow> bool" where
  "preserves_case I c \<longleftrightarrow> pred_option (preserves I) c"

lemma preserves_case_control [preserves_intros]:
  "preserves_case I None" "preserves I m \<Longrightarrow> preserves_case I (Some m)"
  "\<And>b c d. (b \<Longrightarrow> preserves_case I c) \<Longrightarrow> (\<not> b \<Longrightarrow> preserves_case I d) \<Longrightarrow> preserves_case I (if b then c else d)"
  by (simp_all add: preserves_case_def)

lemma preserves_switch:
  "list_all (preserves_case I) cs \<Longrightarrow> preserves I d \<Longrightarrow>
     preserves I (case first_some cs of None \<Rightarrow> d | Some m \<Rightarrow> m)"
  by (induction cs rule: first_some.induct) (simp_all add: preserves_case_def)

text \<open>A property of the base address and the statics alone, which every quiet operation preserves.\<close>

locale statics_property =
  fixes I :: "('k, 'z) st_scheme \<Rightarrow> bool"
  assumes statics: "base s = base t \<Longrightarrow> st.more s = st.more t \<Longrightarrow> I s \<Longrightarrow> I t"
begin

lemma preserves_quiet: "quiet m \<Longrightarrow> preserves I m"
  unfolding quiet_def preserves_def using statics by metis

lemma preserves_quiet_bind: "quiet m \<Longrightarrow> (\<And>x. preserves I (f x)) \<Longrightarrow> preserves I (State_Monad.bind m f)"
  by (rule preserves_bind [OF preserves_quiet])

lemma preserves_quiet_case: "quiet_case c \<Longrightarrow> preserves_case I c"
  unfolding quiet_case_def preserves_case_def by (cases c) (simp_all add: preserves_quiet)

end

text \<open>
  What holds of the statics: the base address stays, the table has an action for
  each of the 64 signals and the default one for SIGKILL and SIGSTOP, an alternate
  stack is absent or has the minimal size, and the region table has its 32 slots.
\<close>

definition good_action :: "target_sigaction \<Rightarrow> bool" where
  "good_action a \<longleftrightarrow> length (sa_mask a) = TARGET_NSIG_WORDS"

definition statics_ok :: "addr \<Rightarrow> ('k, 'z) ipc_st_scheme \<Rightarrow> bool" where
  "statics_ok b s \<longleftrightarrow>
     base s = b \<and> length (sigact_table s) = TARGET_NSIG \<and> list_all good_action (sigact_table s) \<and>
     sigact_table s ! (SIGKILL - 1) = default_action \<and> sigact_table s ! (SIGSTOP - 1) = default_action \<and>
     (altstack_size s = 0 \<or> MINSIGSTKSZ \<le> altstack_size s) \<and> length (shm_regions s) = N_SHM_REGIONS"

lemma same_statics:
  assumes "st.more s = st.more t"
  shows "sigact_table s = sigact_table t" "altstack_sp s = altstack_sp t" "altstack_size s = altstack_size t"
    "sig_st.more s = sig_st.more t"
  using assms by (cases s, cases t, simp)+

lemma same_regions: "sig_st.more s = sig_st.more t \<Longrightarrow> shm_regions s = shm_regions t"
  by (cases s, cases t, simp)

interpretation ok: statics_property "statics_ok b" for b
proof
  fix s t :: "('k, 'z) ipc_st_scheme"
  assume *: "base s = base t" "st.more s = st.more t" "statics_ok b s"
  have "shm_regions s = shm_regions t"
    by (rule same_regions, rule same_statics, rule *(2))
  then show "statics_ok b t"
    using * same_statics(1,3) [OF *(2)] by (simp add: statics_ok_def)
qed


lemma ok_update_action:
  assumes "statics_ok b s" "good_action a" "k \<noteq> SIGKILL - 1" "k \<noteq> SIGSTOP - 1"
  shows "statics_ok b (s\<lparr>sigact_table := (sigact_table s)[k := a]\<rparr>)"
proof -
  have "\<forall>x \<in> set ((sigact_table s)[k := a]). good_action x"
    using assms(1,2) set_update_subset_insert [of "sigact_table s" k a] by (auto simp: statics_ok_def list_all_iff)
  then show ?thesis
    using assms by (simp add: statics_ok_def list_all_iff)
qed

text \<open>\<open>do_sigaction\<close> with an action read from good memory, and its two callers.\<close>

lemma ok_do_sigaction:
  assumes "\<And>rd. act = Some rd \<Longrightarrow> quiet rd \<and> yields (statics_ok b) rd good_action"
    and "\<And>put k. oact = Some put \<Longrightarrow> quiet (put k)"
  shows "preserves (statics_ok b) (do_sigaction H hsh sig act oact)"
proof (cases "sig <s 1 \<or> of_nat TARGET_NSIG <s sig \<or> sig = of_nat SIGKILL \<or> sig = of_nat SIGSTOP")
  case True
  then show ?thesis by (simp add: do_sigaction_def preserves_intros)
next
  case False
  have "sig = of_nat (Suc k)" if "unat sig - 1 = k" "0 < k" for k
  proof -
    have "unat sig = Suc k" using that by linarith
    moreover have "of_nat (unat sig) = sig" by simp
    ultimately show ?thesis by metis
  qed
  from this [of "SIGKILL - 1"] this [of "SIGSTOP - 1"]
  have k: "unat sig - 1 \<noteq> SIGKILL - 1" "unat sig - 1 \<noteq> SIGSTOP - 1"
    using False by auto
  have install: "preserves (statics_ok b) (modify (\<lambda>s. s\<lparr>sigact_table := (sigact_table s)[unat sig - 1 := a]\<rparr>))"
    if "good_action a" for a
    using that k by (intro preserves_modify ok_update_action)
  have put: "quiet (case oact of None \<Rightarrow> ret () | Some put \<Rightarrow> put k)" for k
    using assms(2) by (cases oact) (simp_all add: quiet_intros)
  show ?thesis
    unfolding do_sigaction_def if_not_P [OF False]
  proof (rule ok.preserves_quiet_bind [OF quiet_basic(2)], rule ok.preserves_quiet_bind [OF put],
      rule preserves_control(4) [OF preserves_basic(1)])
    fix rd old assume "act = Some rd"
    note rd = assms(1) [OF this]
    show "preserves (statics_ok b) (do {
        a \<leftarrow> rd;
        modify (\<lambda>s. s\<lparr>sigact_table := (sigact_table s)[unat sig - 1 := a]\<rparr>);
        let host_sig = target_to_host_signal sig;
        if host_sig \<noteq> of_nat SIGSEGV \<and> host_sig \<noteq> of_nat SIGBUS then do {
          (_, m) \<leftarrow> hcall H ''sigfillset'' [Out 128];
          r \<leftarrow> call32 H ''sigaction'' [W (scast host_sig), In (host_action hsh (unat sig) a (out m 0)), W 0];
          ret (r, Some old) }
        else ret (0, Some old) })"
      by (rule preserves_bind_yields [OF ok.preserves_quiet conjunct2 [OF rd]], rule conjunct1 [OF rd],
          rule preserves_bind, erule install, intro ok.preserves_quiet quiet_intros)
  qed
qed

text \<open>What the two readers of an action produce, and the calls that hand them over.\<close>

lemma yields_rd_sigaction: "yields I (rd_sigaction p) good_action"
  by (simp add: yields_def rd_sigaction_def rd_sigset_def run_simps good_action_def)

lemma ok_sys_rt_sigaction: "preserves (statics_ok b) (sys_rt_sigaction H hsh arg1 arg2 arg3)"
  unfolding sys_rt_sigaction_def
  by (intro preserves_intros ok_do_sigaction ok.preserves_quiet quiet_intros)
    (auto simp: yields_rd_sigaction intro: quiet_intros split: if_splits)

lemma ok_sys_sigaction: "preserves (statics_ok b) (sys_sigaction H hsh arg1 arg2 arg3)"
  unfolding sys_sigaction_def
proof (rule preserves_bind_yields [where P = "\<lambda>x. \<forall>a. x = Inr (Some a) \<longrightarrow> good_action a"])
  show "preserves (statics_ok b) (if arg2 = 0 then ret (Inr None) else do {
      p \<leftarrow> lock_user arg2;
      if p = 0 then ret (Inl ()) else do { a \<leftarrow> rd_old_sigaction p; ret (Inr (Some a)) } })"
    by (intro ok.preserves_quiet quiet_intros)
  show "yields (statics_ok b) (if arg2 = 0 then ret (Inr None) else do {
      p \<leftarrow> lock_user arg2;
      if p = 0 then ret (Inl ()) else do { a \<leftarrow> rd_old_sigaction p; ret (Inr (Some a)) } })
      (\<lambda>x. \<forall>a. x = Inr (Some a) \<longrightarrow> good_action a)"
    by (simp add: yields_def run_simps rd_old_sigaction_def good_action_def)
  fix x :: "unit + target_sigaction option"
  assume x: "\<forall>a. x = Inr (Some a) \<longrightarrow> good_action a"
  show "preserves (statics_ok b) (case x of
      Inl _ \<Rightarrow> ret (- TARGET_EFAULT)
    | Inr act \<Rightarrow> do {
        (r, k) \<leftarrow> do_sigaction H hsh arg1 (map_option ret act) (Some (\<lambda>_. ret ()));
        r' \<leftarrow> get_errno r;
        if \<not> is_error r' \<and> arg3 \<noteq> 0 then do {
          p \<leftarrow> lock_user arg3;
          if p = 0 then ret (- TARGET_EFAULT)
          else do { (case k of None \<Rightarrow> ret () | Some oact \<Rightarrow> wr_old_sigaction p oact); ret r' } }
        else ret r' })"
  proof (cases x)
    case (Inr act)
    have "preserves (statics_ok b) (do_sigaction H hsh arg1 (map_option ret act) (Some (\<lambda>_. ret ())))"
      using x Inr by (intro ok_do_sigaction) (auto simp: quiet_intros yields_def run_simps)
    then show ?thesis
      unfolding Inr sum.case
      by (rule preserves_bind) (intro preserves_control(3) ok.preserves_quiet quiet_intros)
  qed (simp add: preserves_intros)
qed

lemma ok_do_sigaltstack: "preserves (statics_ok b) (do_sigaltstack H uss uoss sp)"
proof -
  have "preserves (statics_ok b) (set_sigaltstack uss sp)"
    unfolding set_sigaltstack_def
    by ((rule ok.preserves_quiet, (intro quiet_intros; fail))[1] | rule preserves_control(1) preserves_bind
        | (rule preserves_modify, (simp add: statics_ok_def not_less; fail))[1])+
  note set = this
  show ?thesis
    unfolding do_sigaltstack_def
    by (rule set | (rule ok.preserves_quiet, (intro quiet_intros; fail))[1] | rule preserves_control(1) preserves_bind)+
qed

lemma length_add_region: "length (add_region start len rs) = length rs"
  by (induction rs) auto

lemma length_del_region: "del_region addr rs = Some (n, rs') \<Longrightarrow> length rs' = length rs"
  by (induction rs arbitrary: n rs') (auto split: if_splits)

lemma ok_do_shmat: "preserves (statics_ok b) (do_shmat H shmid shmaddr shmflg)"
proof -
  have add: "preserves (statics_ok b) (modify (\<lambda>s. s\<lparr>shm_regions := add_region a n (shm_regions s)\<rparr>))" for a n
    by (intro preserves_modify) (simp add: statics_ok_def length_add_region)
  show ?thesis
    unfolding do_shmat_def
    by (rule add | (rule ok.preserves_quiet, (intro quiet_intros; fail))[1] | rule preserves_control(1,2,3) preserves_bind)+
qed

lemma ok_do_shmdt: "preserves (statics_ok b) (do_shmdt H shmaddr)"
  unfolding do_shmdt_def
proof (rule preserves_bind_yields [where P = "\<lambda>rs. length rs = N_SHM_REGIONS"])
  fix rs :: "shm_region list"
  assume rs: "length rs = N_SHM_REGIONS"
  have "preserves (statics_ok b) (modify (\<lambda>s. s\<lparr>shm_regions := rs'\<rparr>))" if "del_region shmaddr rs = Some (n, rs')" for n rs'
    using rs length_del_region [OF that] by (intro preserves_modify) (simp add: statics_ok_def)
  note del = this
  show "preserves (statics_ok b) (do {
     (case del_region shmaddr rs of
        None \<Rightarrow> ret ()
      | Some (len, rs') \<Rightarrow> do {
          modify (\<lambda>s. s\<lparr>shm_regions := rs'\<rparr>);
          page_set_flags H shmaddr (shmaddr + len) 0 });
     p \<leftarrow> g2h shmaddr;
     r \<leftarrow> call32 H ''shmdt'' [W p];
     get_errno r })"
  proof (rule preserves_bind)
    show "preserves (statics_ok b) (case del_region shmaddr rs of
        None \<Rightarrow> ret ()
      | Some (len, rs') \<Rightarrow> do {
          modify (\<lambda>s. s\<lparr>shm_regions := rs'\<rparr>);
          page_set_flags H shmaddr (shmaddr + len) 0 })"
      by (cases "del_region shmaddr rs")
        (auto simp: preserves_basic intro!: preserves_bind [OF del] ok.preserves_quiet [OF quiet_machine(18)])
  qed (intro ok.preserves_quiet quiet_intros)
qed (simp_all add: preserves_intros yields_def run_simps statics_ok_def)

lemma ok_do_ipc: "preserves (statics_ok b) (do_ipc H call0 first second third ptr fifth)"
  unfolding do_ipc_def ipc_shmat_def
  by (rule ok_do_shmat ok_do_shmdt | (rule ok.preserves_quiet, (intro quiet_intros; fail))[1]
      | rule preserves_control(1,2) preserves_bind)+


lemma ok_syscall_signal: "preserves_case (statics_ok b) (syscall_signal H hsh num arg1 arg2 arg3)"
  unfolding syscall_signal_def
  by (rule ok_sys_sigaction ok_sys_rt_sigaction | (rule ok.preserves_quiet, (intro quiet_intros; fail))[1]
      | rule preserves_case_control)+

lemma ok_syscall_swapoff_select:
  "preserves_case (statics_ok b) (syscall_swapoff_select H r num arg1 arg2 arg3 arg4 arg5 arg6)"
  unfolding syscall_swapoff_select_def
  by (rule ok_do_ipc | (rule ok.preserves_quiet, (intro quiet_intros; fail))[1] | rule preserves_case_control)+

text \<open>All other groups of cases are quiet.\<close>

lemma preserves_do_syscall:
  assumes "statics_property I"
    and "preserves_case I (syscall_signal H (env_handler e) num arg1 arg2 arg3)"
    and "preserves_case I (syscall_swapoff_select H (env_ret e) num arg1 arg2 arg3 arg4 arg5 arg6)"
  shows "preserves I (do_syscall H e num arg1 arg2 arg3 arg4 arg5 arg6)"
  unfolding do_syscall_def
  by (intro preserves_switch preserves_basic)
    (simp add: assms statics_property.preserves_quiet_case [OF assms(1)] quiet_intros)

lemma ok_do_syscall: "preserves (statics_ok b) (do_syscall H e num arg1 arg2 arg3 arg4 arg5 arg6)"
  by (intro preserves_do_syscall ok.statics_property_axioms ok_syscall_signal ok_syscall_swapoff_select)

section \<open>The layer as a state machine\<close>

text \<open>
  What moves the process: a system call, a change of the alternate stack (which
  the guest's signal frames make), and the guest's own instructions, which change
  the memory.
\<close>

inductive layer_step :: "'k host \<Rightarrow> env \<Rightarrow> 'k ipc_st \<Rightarrow> 'k ipc_st \<Rightarrow> bool" for H e where
  syscall: "run_state (do_syscall H e num arg1 arg2 arg3 arg4 arg5 arg6) s = (r, s') \<Longrightarrow> layer_step H e s s'"
| altstack: "run_state (do_sigaltstack H uss uoss sp) s = (r, s') \<Longrightarrow> layer_step H e s s'"
| guest: "layer_step H e s (s\<lparr>mem := m\<rparr>)"

inductive reachable :: "'k host \<Rightarrow> env \<Rightarrow> 'k ipc_st \<Rightarrow> bool" for H e where
  start: "sigact_table s = replicate TARGET_NSIG default_action \<Longrightarrow> altstack_sp s = 0 \<Longrightarrow> altstack_size s = 0 \<Longrightarrow>
     shm_regions s = replicate N_SHM_REGIONS \<lparr>shm_start = 0, shm_len = 0\<rparr> \<Longrightarrow> reachable H e s"
| step: "reachable H e s \<Longrightarrow> layer_step H e s s' \<Longrightarrow> reachable H e s'"

inductive_cases layer_stepE: "layer_step H e s s'"

lemma ok_layer_step: "layer_step H e s s' \<Longrightarrow> statics_ok b s \<Longrightarrow> statics_ok b s'"
  by (erule layer_stepE) (auto dest: preservesD [OF ok_do_syscall] preservesD [OF ok_do_sigaltstack] simp: statics_ok_def)

text \<open>
  C32: in every state the layer can reach, by any sequence of system calls, changes
  of the alternate stack and guest instructions, whatever the host answers, the
  table of signal actions has its 64 entries with two mask words each, SIGKILL and
  SIGSTOP keep the default action, an alternate signal stack has the minimal size,
  and the table of shared-memory regions has its 32 slots.
\<close>
theorem reachable_statics_ok:
  assumes "reachable H e s"
  shows "statics_ok (base s) s"
  using assms
proof induction
  case (start s)
  then show ?case
    by (simp add: statics_ok_def good_action_def default_action_def N_SHM_REGIONS_def TARGET_NSIG_def list_all_iff)
next
  case (step s s')
  then show ?case
    using ok_layer_step [OF step.hyps(2) step.IH] by (simp add: statics_ok_def)
qed


text \<open>The state the process starts in.\<close>

definition start_state :: "memory \<Rightarrow> unit ipc_st" where
  "start_state m = \<lparr>mem = m, errno = 0, kern = (), base = 0x10000,
     sigact_table = replicate TARGET_NSIG default_action, altstack_sp = 0, altstack_size = 0,
     shm_regions = replicate N_SHM_REGIONS \<lparr>shm_start = 0, shm_len = 0\<rparr>\<rparr>"

lemma reachable_start: "reachable H e (start_state m)"
  by (rule reachable.start) (simp_all add: start_state_def)

theorem reachable_statics_ok_witness:
  "\<forall>e. \<exists>s. reachable (null_host :: unit host) e s \<and> altstack_size s = 4096 \<and> statics_ok 0x10000 s"
proof
  fix e
  let ?m = "store_list st32 4 (\<lambda>_. 0) 0x11000 [0x5000, 0, 4096]"
  let ?s = "(start_state ?m)\<lparr>altstack_sp := 0x5000, altstack_size := 4096\<rparr>"
  have "load_list ld32 4 ?m 0x11000 (length [0x5000, 0, 4096 :: 32 word]) = [0x5000, 0, 4096]"
    by (rule c32.load_store_list) simp
  then have "ld32 ?m 0x11000 = 0x5000" "ld32 ?m 0x11004 = 0" "ld32 ?m 0x11008 = 4096"
    by simp_all
  then have "run_state (do_sigaltstack null_host 0x1000 0 0) (start_state ?m) = (0, ?s)"
    by (simp add: do_sigaltstack_def set_sigaltstack_def run_simps start_state_def on_sig_stack_def
        del: store_list.simps)
  then have reach: "reachable null_host e ?s"
    by (rule reachable.step [OF reachable_start layer_step.altstack])
  have "statics_ok 0x10000 ?s"
    using reachable_statics_ok [OF reach] by (simp add: start_state_def)
  with reach have "reachable null_host e ?s \<and> altstack_size ?s = 4096 \<and> statics_ok 0x10000 ?s"
    by (simp add: start_state_def)
  then show "\<exists>s. reachable (null_host :: unit host) e s \<and> altstack_size s = 4096 \<and> statics_ok 0x10000 s"
    by blast
qed

section \<open>Who changes what\<close>

definition actions_kept :: "addr \<Rightarrow> target_sigaction list \<Rightarrow> ('k, 'z) ipc_st_scheme \<Rightarrow> bool" where
  "actions_kept b t s \<longleftrightarrow> base s = b \<and> sigact_table s = t"

definition others_kept ::
  "addr \<Rightarrow> 32 word \<Rightarrow> 32 word \<Rightarrow> shm_region list \<Rightarrow> ('k, 'z) ipc_st_scheme \<Rightarrow> bool" where
  "others_kept b p z rs s \<longleftrightarrow> base s = b \<and> altstack_sp s = p \<and> altstack_size s = z \<and> shm_regions s = rs"

interpretation acts: statics_property "actions_kept b t" for b t
  by standard (metis actions_kept_def same_statics(1))

interpretation oth: statics_property "others_kept b p z rs" for b p z rs
  by standard (metis others_kept_def same_statics(2-4) same_regions)

definition stack_kept :: "32 word \<Rightarrow> 32 word \<Rightarrow> ('k, 'z) ipc_st_scheme \<Rightarrow> bool" where
  "stack_kept p z s \<longleftrightarrow> altstack_sp s = p \<and> altstack_size s = z"

interpretation stk: statics_property "stack_kept p z" for p z
  by standard (metis stack_kept_def same_statics(2-3))

lemma ipc_keeps: "preserves (actions_kept b t) (do_ipc H call0 first second third ptr fifth)"
    "preserves (stack_kept p z) (do_ipc H call0 first second third ptr fifth)"
  unfolding do_ipc_def ipc_shmat_def do_shmat_def do_shmdt_def
  by ((rule acts.preserves_quiet stk.preserves_quiet, (intro quiet_intros; fail))[1]
      | (rule preserves_modify, (simp add: actions_kept_def stack_kept_def; fail))[1]
      | rule preserves_basic preserves_control preserves_bind)+

lemma others_kept_do_sigaction:
  assumes "\<And>rd. act = Some rd \<Longrightarrow> quiet rd" and "\<And>put k. oact = Some put \<Longrightarrow> quiet (put k)"
  shows "preserves (others_kept b p z rs) (do_sigaction H hsh sig act oact)"
  unfolding do_sigaction_def
  by ((rule oth.preserves_quiet, (intro quiet_intros; fail))[1]
      | (rule preserves_modify, (simp add: others_kept_def; fail))[1]
      | (rule oth.preserves_quiet, (erule assms; fail))[1]
      | rule preserves_basic preserves_control preserves_bind)+

lemma sigaction_keeps: "preserves (others_kept b p z rs) (sys_sigaction H hsh arg1 arg2 arg3)"
    "preserves (others_kept b p z rs) (sys_rt_sigaction H hsh arg1 arg2 arg3)"
  unfolding sys_sigaction_def sys_rt_sigaction_def
  by ((rule oth.preserves_quiet, (intro quiet_intros; fail))[1]
      | (rule others_kept_do_sigaction, (auto intro: quiet_intros split: if_splits; fail),
          (auto intro: quiet_intros split: if_splits; fail))[1]
      | rule preserves_control preserves_bind)+

lemma stack_kept_if_others: "(\<And>b rs. preserves (others_kept b p z rs) m) \<Longrightarrow> preserves (stack_kept p z) m"
  unfolding preserves_def others_kept_def stack_kept_def by blast

lemma actions_kept_do_syscall:
  assumes "num \<noteq> TARGET_NR_sigaction" "num \<noteq> TARGET_NR_rt_sigaction"
  shows "preserves (actions_kept b t) (do_syscall H e num arg1 arg2 arg3 arg4 arg5 arg6)"
  unfolding syscall_signal_def if_not_P [OF assms(1)] if_not_P [OF assms(2)] syscall_swapoff_select_def
  by (rule preserves_do_syscall [OF acts.statics_property_axioms];
      unfold syscall_signal_def if_not_P [OF assms(1)] if_not_P [OF assms(2)] syscall_swapoff_select_def;
      (rule ipc_keeps(1) | (rule acts.preserves_quiet, (intro quiet_intros; fail))[1] | rule preserves_case_control)+)

lemma others_kept_do_syscall:
  assumes "num \<noteq> TARGET_NR_ipc"
  shows "preserves (others_kept b p z rs) (do_syscall H e num arg1 arg2 arg3 arg4 arg5 arg6)"
  by (rule preserves_do_syscall [OF oth.statics_property_axioms];
      unfold syscall_signal_def syscall_swapoff_select_def if_not_P [OF assms];
      (rule sigaction_keeps | (rule oth.preserves_quiet, (intro quiet_intros; fail))[1] | rule preserves_case_control)+)

lemma stack_kept_do_syscall: "preserves (stack_kept p z) (do_syscall H e num arg1 arg2 arg3 arg4 arg5 arg6)"
  by (rule preserves_do_syscall [OF stk.statics_property_axioms];
      unfold syscall_signal_def syscall_swapoff_select_def;
      (rule ipc_keeps(2) | (rule stack_kept_if_others, rule sigaction_keeps; fail)[1]
        | (rule stk.preserves_quiet, (intro quiet_intros; fail))[1] | rule preserves_case_control)+)

text \<open>
  C33: a system call changes none of the layer's statics it is not there to change:
  the guest's base address and the alternate stack stay in every call, the table of
  signal actions in every call but the two that set an action, and the table of
  shared-memory regions in every call but the IPC multiplexer.
\<close>
theorem statics_changed_only_by:
  assumes "run_state (do_syscall H e num arg1 arg2 arg3 arg4 arg5 arg6) s = (r, s')"
  shows "base s' = base s \<and> altstack_sp s' = altstack_sp s \<and> altstack_size s' = altstack_size s \<and>
    (sigact_table s' = sigact_table s \<or> num \<in> {TARGET_NR_sigaction, TARGET_NR_rt_sigaction}) \<and>
    (shm_regions s' = shm_regions s \<or> num = TARGET_NR_ipc)"
proof (intro conjI)
  show "altstack_sp s' = altstack_sp s" "altstack_size s' = altstack_size s"
    using preservesD [OF stack_kept_do_syscall assms] by (simp_all add: stack_kept_def)
  show "sigact_table s' = sigact_table s \<or> num \<in> {TARGET_NR_sigaction, TARGET_NR_rt_sigaction}"
    using preservesD [OF actions_kept_do_syscall assms] by (auto simp: actions_kept_def)
  show "shm_regions s' = shm_regions s \<or> num = TARGET_NR_ipc"
    using preservesD [OF others_kept_do_syscall assms] by (auto simp: others_kept_def)
  show "base s' = base s"
  proof (cases "num = TARGET_NR_ipc")
    case True
    then show ?thesis using preservesD [OF actions_kept_do_syscall assms] by (simp add: actions_kept_def)
  next
    case False
    then show ?thesis using preservesD [OF others_kept_do_syscall assms] by (simp add: others_kept_def)
  qed
qed

theorem statics_changed_only_by_witness:
  "\<forall>e. shm_regions (snd (run_state (do_syscall null_host e TARGET_NR_getpid 0 0 0 0 0 0) (start_state (\<lambda>_. 0)))) =
     replicate N_SHM_REGIONS \<lparr>shm_start = 0, shm_len = 0\<rparr>"
proof
  fix e
  show "shm_regions (snd (run_state (do_syscall null_host e TARGET_NR_getpid 0 0 0 0 0 0) (start_state (\<lambda>_. 0)))) =
     replicate N_SHM_REGIONS \<lparr>shm_start = 0, shm_len = 0\<rparr>"
    using statics_changed_only_by [OF surjective_pairing [of "run_state (do_syscall null_host e TARGET_NR_getpid 0 0 0 0 0 0)
      (start_state (\<lambda>_. 0))"]] by (simp add: start_state_def)
qed

end
