(* ===== verification/Dispatch.thy ===== *)
theory Dispatch
  imports Statics
begin

text \<open>
  The switch of \<open>do_syscall\<close> as a whole: which numbers each group of cases
  handles, that no number belongs to two groups (so that trying the groups in turn
  is the switch of the source), and what happens to every other number.
\<close>

section \<open>The numbers of each group\<close>

lemma syscall_open_close_numbers:
  "syscall_open_close H chroot num arg1 arg2 arg3 arg4 arg5 = None \<longleftrightarrow> num \<notin> set
    [1, 3, 4, 5, 295, 6, 45, 7, 284, 8, 9, 303, 10, 301]"
  by (simp add: syscall_open_close_def)

lemma syscall_chdir_utimes_numbers:
  "syscall_chdir_utimes H chroot junk num arg1 arg2 arg3 arg4 arg5 = None \<longleftrightarrow> num \<notin> set
    [12, 13, 14, 297, 15, 17, 18, 19, 20, 21, 22, 25, 26, 27, 28, 29, 30, 271, 299]"
  by (simp add: syscall_chdir_utimes_def)

lemma syscall_access_pipe_numbers:
  "syscall_access_pipe H chroot num arg1 arg2 arg3 arg4 = None \<longleftrightarrow> num \<notin> set
    [31, 32, 33, 307, 34, 35, 36, 37, 38, 302, 39, 296, 40, 41, 42, 331]"
  by (simp add: syscall_access_pipe_def)

lemma syscall_times_setsid_numbers:
  "syscall_times_setsid H chroot E tbl buf_temp num arg1 arg2 arg3 = None \<longleftrightarrow> num \<notin> set
    [43, 44, 48, 51, 52, 53, 54, 55, 56, 57, 58, 59, 60, 61, 62, 63, 64, 65, 66]"
  by (simp add: syscall_times_setsid_def)

lemma syscall_signal_numbers:
  "syscall_signal H hsh num arg1 arg2 arg3 = None \<longleftrightarrow> num \<notin> set
    [67, 174, 68, 69, 126, 175, 73, 176, 72, 179, 177, 178, 119, 173]"
  by (simp add: syscall_signal_def)

lemma syscall_hostname_swapon_numbers:
  "syscall_hostname_swapon H chroot num arg1 arg2 arg3 arg4 = None \<longleftrightarrow> num \<notin> set
    [74, 75, 76, 77, 78, 79, 82, 308, 83, 304, 84, 85, 305, 86, 87]"
  by (simp add: syscall_hostname_swapon_def)

lemma syscall_mmap_statfs_numbers:
  "syscall_mmap_statfs H chroot num arg1 arg2 arg3 = None \<longleftrightarrow> num \<notin> set
    [88, 89, 90, 192, 91, 125, 163, 144, 150, 151, 152, 153, 92, 93, 94, 306, 96, 97, 98, 99, 100, 268, 269]"
  by (simp add: syscall_mmap_statfs_def)

lemma syscall_socketcall_wait4_numbers:
  "syscall_socketcall_wait4 H chroot junk num arg1 arg2 arg3 arg4 = None \<longleftrightarrow> num \<notin> set
    [101, 102, 103, 104, 105, 106, 107, 108, 109, 110, 111, 112, 114]"
  by (simp add: syscall_socketcall_wait4_def)

lemma syscall_swapoff_select_numbers:
  "syscall_swapoff_select H junk_ret num arg1 arg2 arg3 arg4 arg5 arg6 = None \<longleftrightarrow> num \<notin> set
    [115, 116, 117, 118, 252, 121, 122, 123, 113, 166, 124, 127, 128, 129, 130, 131, 132, 133, 134, 135,
     136, 137, 140, 141, 220, 142]"
  by (simp add: syscall_swapoff_select_def)

lemma syscall_poll_yield_numbers:
  "syscall_poll_yield H num arg1 arg2 arg3 arg4 = None \<longleftrightarrow> num \<notin> set
    [168, 309, 143, 145, 146, 147, 148, 149, 242, 241, 154, 155, 156, 157, 158]"
  by (simp add: syscall_poll_yield_def)

lemma syscall_prio_fstatat_numbers:
  "syscall_prio_fstatat H chroot num arg1 arg2 arg3 arg4 arg5 = None \<longleftrightarrow> num \<notin> set
    [159, 160, 161, 162, 167, 169, 172, 180, 181, 183, 184, 185, 186, 187, 188, 189, 191, 193, 194, 195,
     196, 197, 300]"
  by (simp add: syscall_prio_fstatat_def)

lemma syscall_ids16_numbers:
  "syscall_ids16 H chroot num arg1 arg2 arg3 arg4 arg5 = None \<longleftrightarrow> num \<notin> set
    [16, 24, 47, 49, 50, 70, 71, 80, 81, 95, 298, 164, 165, 170, 171, 182, 23, 46, 138, 139]"
  by (simp add: syscall_ids16_def)

lemma syscall_ids32_numbers:
  "syscall_ids32 H chroot num arg1 arg2 arg3 = None \<longleftrightarrow> num \<notin> set
    [198, 199, 200, 201, 202, 203, 204, 205, 206, 207, 208, 209, 210, 211, 212, 213, 214, 215, 216]"
  by (simp add: syscall_ids32_def)

lemma syscall_mincore_thread_area_numbers:
  "syscall_mincore_thread_area H num arg1 arg2 arg3 arg4 = None \<longleftrightarrow> num \<notin> set
    [217, 218, 272, 250, 219, 221, 224, 225, 243, 244, 226, 227, 228, 229, 230, 231, 232, 233, 234, 235,
     236, 237]"
  by (simp add: syscall_mincore_thread_area_def xattr_calls_def)

lemma syscall_clock_mq_numbers:
  "syscall_clock_mq H chroot num arg1 arg2 arg3 arg4 arg5 arg6 = None \<longleftrightarrow> num \<notin> set
    [265, 266, 267, 258, 238, 270, 311, 320, 240, 277, 278, 279, 280, 282]"
  by (simp add: syscall_clock_mq_def)

definition handled_calls :: "32 word list list" where
  "handled_calls =
    [[1, 3, 4, 5, 295, 6, 45, 7, 284, 8, 9, 303, 10, 301],
     [12, 13, 14, 297, 15, 17, 18, 19, 20, 21, 22, 25, 26, 27, 28, 29, 30, 271, 299],
     [31, 32, 33, 307, 34, 35, 36, 37, 38, 302, 39, 296, 40, 41, 42, 331],
     [43, 44, 48, 51, 52, 53, 54, 55, 56, 57, 58, 59, 60, 61, 62, 63, 64, 65, 66],
     [67, 174, 68, 69, 126, 175, 73, 176, 72, 179, 177, 178, 119, 173],
     [74, 75, 76, 77, 78, 79, 82, 308, 83, 304, 84, 85, 305, 86, 87],
     [88, 89, 90, 192, 91, 125, 163, 144, 150, 151, 152, 153, 92, 93, 94, 306, 96, 97, 98, 99, 100, 268, 269],
     [101, 102, 103, 104, 105, 106, 107, 108, 109, 110, 111, 112, 114],
     [115, 116, 117, 118, 252, 121, 122, 123, 113, 166, 124, 127, 128, 129, 130, 131, 132, 133, 134, 135,
      136, 137, 140, 141, 220, 142],
     [168, 309, 143, 145, 146, 147, 148, 149, 242, 241, 154, 155, 156, 157, 158],
     [159, 160, 161, 162, 167, 169, 172, 180, 181, 183, 184, 185, 186, 187, 188, 189, 191, 193, 194, 195,
      196, 197, 300],
     [16, 24, 47, 49, 50, 70, 71, 80, 81, 95, 298, 164, 165, 170, 171, 182, 23, 46, 138, 139],
     [198, 199, 200, 201, 202, 203, 204, 205, 206, 207, 208, 209, 210, 211, 212, 213, 214, 215, 216],
     [217, 218, 272, 250, 219, 221, 224, 225, 243, 244, 226, 227, 228, 229, 230, 231, 232, 233, 234, 235,
      236, 237],
     [265, 266, 267, 258, 238, 270, 311, 320, 240, 277, 278, 279, 280, 282]]"

text \<open>
  Lists of numbers as bit sets: checking that they are disjoint is one conjunction
  of integers for each list.
\<close>

definition bit_set :: "nat list \<Rightarrow> int" where
  "bit_set ns = foldr (\<lambda>n a. a OR 2 ^ n) ns 0"

fun disjoint_from :: "int \<Rightarrow> nat list list \<Rightarrow> bool" where
  "disjoint_from acc [] = True"
| "disjoint_from acc (ns # nss) =
     (acc AND bit_set ns = 0 \<and> disjoint_from (acc OR bit_set ns) nss)"

lemma bit_bit_set: "bit (bit_set ns) k \<longleftrightarrow> k \<in> set ns"
  by (induction ns) (auto simp: bit_set_def bit_or_iff bit_exp_iff)

lemma disjoint_from_count:
  "disjoint_from acc nss \<Longrightarrow> length (filter (\<lambda>ns. k \<in> set ns) nss) \<le> (if bit acc k then 0 else 1)"
proof (induction acc nss rule: disjoint_from.induct)
  case (2 acc ns nss)
  have "\<not> (bit acc k \<and> k \<in> set ns)"
    using "2.prems" bit_and_iff [of acc "bit_set ns" k] by (auto simp: bit_bit_set)
  then show ?case
    using "2" by (auto simp: bit_or_iff bit_bit_set split: if_splits)
qed simp

lemma handled_calls_disjoint: "disjoint_from 0 (map (map unat) handled_calls)"
  by code_simp

lemma at_most_one_group: "length (filter (\<lambda>ns. num \<in> set ns) handled_calls) \<le> 1"
proof -
  have "num \<in> set ns \<longleftrightarrow> unat num \<in> set (map unat ns)" for ns
    by (auto dest: unsigned_word_eqI)
  then have "length (filter (\<lambda>ns. num \<in> set ns) handled_calls) =
      length (filter (\<lambda>ns. unat num \<in> set ns) (map (map unat) handled_calls))"
    by (simp add: filter_map comp_def)
  then show ?thesis
    using disjoint_from_count [OF handled_calls_disjoint, of "unat num"] by simp
qed

section \<open>The switch\<close>

lemmas group_numbers =
  syscall_open_close_numbers
  syscall_chdir_utimes_numbers
  syscall_access_pipe_numbers
  syscall_times_setsid_numbers
  syscall_signal_numbers
  syscall_hostname_swapon_numbers
  syscall_mmap_statfs_numbers
  syscall_socketcall_wait4_numbers
  syscall_swapoff_select_numbers
  syscall_poll_yield_numbers
  syscall_prio_fstatat_numbers
  syscall_ids16_numbers
  syscall_ids32_numbers
  syscall_mincore_thread_area_numbers
  syscall_clock_mq_numbers

text \<open>
  A number that no case of the switch names is answered with -ENOSYS, and the
  state is not touched.
\<close>
lemma unhandled_call:
  assumes "num \<notin> set (concat handled_calls)"
  shows "run_state (do_syscall H e num arg1 arg2 arg3 arg4 arg5 arg6) s = (- TARGET_ENOSYS, s)"
proof -
  have "\<forall>ns \<in> set handled_calls. num \<notin> set ns"
    using assms by auto
  then show ?thesis
    unfolding do_syscall_def handled_calls_def
    by (simp add: group_numbers [THEN iffD2] run_simps)
qed

text \<open>
  No number belongs to two groups of cases, whatever the arguments: the order in
  which the groups are tried does not matter, and each call is one case of the
  switch.
\<close>
theorem one_group_per_call:
  "length (filter id
    [syscall_open_close H chroot num arg1 arg2 arg3 arg4 arg5 \<noteq> None,
     syscall_chdir_utimes H chroot junk num arg1 arg2 arg3 arg4 arg5 \<noteq> None,
     syscall_access_pipe H chroot num arg1 arg2 arg3 arg4 \<noteq> None,
     syscall_times_setsid H chroot E tbl buf_temp num arg1 arg2 arg3 \<noteq> None,
     syscall_signal H hsh num arg1 arg2 arg3 \<noteq> None,
     syscall_hostname_swapon H chroot num arg1 arg2 arg3 arg4 \<noteq> None,
     syscall_mmap_statfs H chroot num arg1 arg2 arg3 \<noteq> None,
     syscall_socketcall_wait4 H chroot junk num arg1 arg2 arg3 arg4 \<noteq> None,
     syscall_swapoff_select H junk_ret num arg1 arg2 arg3 arg4 arg5 arg6 \<noteq> None,
     syscall_poll_yield H num arg1 arg2 arg3 arg4 \<noteq> None,
     syscall_prio_fstatat H chroot num arg1 arg2 arg3 arg4 arg5 \<noteq> None,
     syscall_ids16 H chroot num arg1 arg2 arg3 arg4 arg5 \<noteq> None,
     syscall_ids32 H chroot num arg1 arg2 arg3 \<noteq> None,
     syscall_mincore_thread_area H num arg1 arg2 arg3 arg4 \<noteq> None,
     syscall_clock_mq H chroot num arg1 arg2 arg3 arg4 arg5 arg6 \<noteq> None]) \<le> 1"
proof -
  have "length (filter id (map (\<lambda>ns. num \<in> set ns) handled_calls)) \<le> 1"
    using at_most_one_group [of num] by (simp add: filter_map comp_def)
  then show ?thesis
    unfolding handled_calls_def list.map group_numbers not_not .
qed

end
