(* ===== verification/I386syscalls.thy ===== *)
theory I386syscalls
  imports Dispatch
begin

text \<open>
  The entry of system calls of a 32-bit guest (cpu/i386syscalls.cc): the tables that relate the
  numbers of the guest's calls to the host's, and \<open>apply\<close>, which handles mmap2 itself,
  offers the call to the pass-through, and hands any other call to \<open>do_syscall\<close>. The list of
  relations (syscall/syscallsmapping.h), the pass-through and the host's mmap are parameters.
\<close>

section \<open>The tables\<close>

datatype 'a entry = Entry 'a | Past_end

definition table_get :: "'a list \<Rightarrow> nat \<Rightarrow> 'a entry" where
  "table_get t i = (if i < length t then Entry (t ! i) else Past_end)"

definition digit :: "nat \<Rightarrow> char" where "digit d = ''0123456789'' ! d"

fun decimal :: "nat \<Rightarrow> string" where
  "decimal n = (if n < 10 then [digit n] else decimal (n div 10) @ [digit (n mod 10)])"

declare decimal.simps [simp del]

definition decimal_int :: "int \<Rightarrow> string" where
  "decimal_int i = (if i < 0 then ''-'' @ decimal (nat (- i)) else decimal (nat i))"

record sc_tables =
  g_host_to_guest_syscalls :: "int list"
  g_guest_to_host_syscalls :: "int list"
  g_guest_syscall_names :: "string list"

datatype relation = SYSCALL_RELATION nat nat | GUEST_SYSCALL string nat

definition table_put :: "nat \<Rightarrow> 'a \<Rightarrow> 'a list \<Rightarrow> 'a list option" where
  "table_put i x t = (if i < length t then Some (t[i := x]) else None)"

fun apply_relation :: "relation \<Rightarrow> sc_tables \<Rightarrow> sc_tables option" where
  "apply_relation (SYSCALL_RELATION host guest) t =
     (case table_put host (int guest) (g_host_to_guest_syscalls t) of None \<Rightarrow> None
      | Some hg \<Rightarrow> (case table_put guest (int host) (g_guest_to_host_syscalls t) of None \<Rightarrow> None
          | Some gh \<Rightarrow> Some (t\<lparr>g_host_to_guest_syscalls := hg, g_guest_to_host_syscalls := gh\<rparr>)))"
| "apply_relation (GUEST_SYSCALL name guest) t =
     (case table_put guest name (g_guest_syscall_names t) of None \<Rightarrow> None
      | Some ns \<Rightarrow> Some (t\<lparr>g_guest_syscall_names := ns\<rparr>))"

primrec apply_relations :: "relation list \<Rightarrow> sc_tables \<Rightarrow> sc_tables option" where
  "apply_relations [] t = Some t"
| "apply_relations (r # rs) t = (case apply_relation r t of None \<Rightarrow> None | Some t' \<Rightarrow> apply_relations rs t')"

definition no_relations :: sc_tables where
  "no_relations = \<lparr>g_host_to_guest_syscalls = replicate 512 (- 1), g_guest_to_host_syscalls = replicate 512 (- 1),
     g_guest_syscall_names = map decimal [0..<512]\<rparr>"

definition syscall_mapping_init :: "relation list \<Rightarrow> sc_tables option" where
  "syscall_mapping_init rs = apply_relations rs no_relations"

text \<open>The number is compared unsigned, and with \<open>>\<close>: the number that is the size passes.\<close>

definition translateSyscall :: "sc_tables \<Rightarrow> 32 word \<Rightarrow> int entry" where
  "translateSyscall t sys_nr =
     (if unat sys_nr > length (g_guest_to_host_syscalls t) then Entry (- 1)
      else table_get (g_guest_to_host_syscalls t) (unat sys_nr))"

definition getSyscallName :: "sc_tables \<Rightarrow> 32 word \<Rightarrow> string entry" where
  "getSyscallName t sys_nr =
     (if unat sys_nr > length (g_guest_syscall_names t) then Entry (decimal_int (sint sys_nr))
      else table_get (g_guest_syscall_names t) (unat sys_nr))"

section \<open>Applying a call\<close>

record SyscallParams =
  getSyscall :: "32 word"
  getArg :: "nat \<Rightarrow> 64 word"

definition I386_mmap2 :: "'k host \<Rightarrow> SyscallParams \<Rightarrow> ('k, 'z, 64 word) C" where
  "I386_mmap2 H args = do {
     (r, outs) \<leftarrow> hcall H ''GuestMem::mmap''
       [Out 8, W (getArg args 0), W (getArg args 1), W (getArg args 2), W (getArg args 3), W (getArg args 4), W (getArg args 5 * 4096)];
     ret (if r = 0 then fld64 (out outs 0) 0 else r) }"

text \<open>The pass-through may change the parameters; it answers with the result if it made the call.\<close>

type_synonym ('k, 'z) passthrough = "SyscallParams \<Rightarrow> ('k, 'z, 64 word option \<times> SyscallParams) I"

definition apply_syscall :: "'k host \<Rightarrow> env \<Rightarrow> ('k, 'z) passthrough \<Rightarrow> SyscallParams \<Rightarrow> ('k, 'z, 64 word) I" where
  "apply_syscall H e tryPassthrough args =
     (if getSyscall args = TARGET_NR_mmap2 then I386_mmap2 H args
      else do {
        (passed, args) \<leftarrow> tryPassthrough args;
        (case passed of Some sc_ret \<Rightarrow> ret sc_ret
         | None \<Rightarrow> do {
             r \<leftarrow> do_syscall H e (getSyscall args) (ucast (getArg args 0)) (ucast (getArg args 1)) (ucast (getArg args 2))
                    (ucast (getArg args 3)) (ucast (getArg args 4)) (ucast (getArg args 5));
             ret (scast r) }) })"


section \<open>What the tables hold\<close>

primrec relation_fits :: "relation \<Rightarrow> bool" where
  "relation_fits (SYSCALL_RELATION host guest) \<longleftrightarrow> host < 512 \<and> guest < 512"
| "relation_fits (GUEST_SYSCALL name guest) \<longleftrightarrow> guest < 512"

text \<open>The last relation of a number counts.\<close>

fun host_of :: "relation list \<Rightarrow> nat \<Rightarrow> int \<Rightarrow> int" where
  "host_of [] g i = i"
| "host_of (SYSCALL_RELATION h g' # rs) g i = host_of rs g (if g' = g then int h else i)"
| "host_of (GUEST_SYSCALL _ _ # rs) g i = host_of rs g i"

fun name_of :: "relation list \<Rightarrow> nat \<Rightarrow> string \<Rightarrow> string" where
  "name_of [] g n = n"
| "name_of (SYSCALL_RELATION _ _ # rs) g n = name_of rs g n"
| "name_of (GUEST_SYSCALL n' g' # rs) g n = name_of rs g (if g' = g then n' else n)"

definition tables_sized :: "sc_tables \<Rightarrow> bool" where
  "tables_sized t \<longleftrightarrow> length (g_host_to_guest_syscalls t) = 512 \<and> length (g_guest_to_host_syscalls t) = 512 \<and> length (g_guest_syscall_names t) = 512"

lemma apply_relations_tables:
  "tables_sized t \<Longrightarrow> list_all relation_fits rs \<Longrightarrow> \<exists>t'. apply_relations rs t = Some t' \<and> tables_sized t'
    \<and> (\<forall>g<512. g_guest_to_host_syscalls t' ! g = host_of rs g (g_guest_to_host_syscalls t ! g)
         \<and> g_guest_syscall_names t' ! g = name_of rs g (g_guest_syscall_names t ! g))"
proof (induction rs arbitrary: t)
  case (Cons r rs)
  obtain t1 where t1: "apply_relation r t = Some t1" "tables_sized t1"
    "\<forall>g<512. host_of (r # rs) g (g_guest_to_host_syscalls t ! g) = host_of rs g (g_guest_to_host_syscalls t1 ! g)
       \<and> name_of (r # rs) g (g_guest_syscall_names t ! g) = name_of rs g (g_guest_syscall_names t1 ! g)"
  proof (cases r)
    case (SYSCALL_RELATION h g)
    then show thesis using Cons.prems that by (simp add: table_put_def tables_sized_def nth_list_update)
  next
    case (GUEST_SYSCALL n g)
    then show thesis using Cons.prems that by (simp add: table_put_def tables_sized_def nth_list_update)
  qed
  obtain t2 where "apply_relations rs t1 = Some t2" "tables_sized t2"
    "\<forall>g<512. g_guest_to_host_syscalls t2 ! g = host_of rs g (g_guest_to_host_syscalls t1 ! g)
       \<and> g_guest_syscall_names t2 ! g = name_of rs g (g_guest_syscall_names t1 ! g)"
    using Cons.IH [OF t1(2)] Cons.prems(2) by auto
  then show ?case using t1 by simp
qed simp

text \<open>C31: For relations whose numbers are below 512, the tables are built and translate each of the
  512 guest numbers to the host number and the name of its last relation, to -1 and its decimal
  digits when it has none; every greater or negative number is answered with -1 and its digits,
  except 512 itself, for which both look behind the end of their table.\<close>

theorem syscall_numbers_translated:
  assumes "list_all relation_fits rs"
  shows "\<exists>t. syscall_mapping_init rs = Some t \<and> (\<forall>sys_nr.
     translateSyscall t sys_nr = (if unat sys_nr < 512 then Entry (host_of rs (unat sys_nr) (- 1))
       else if sys_nr = 512 then Past_end else Entry (- 1))
     \<and> getSyscallName t sys_nr = (if unat sys_nr < 512 then Entry (name_of rs (unat sys_nr) (decimal (unat sys_nr)))
       else if sys_nr = 512 then Past_end else Entry (decimal_int (sint sys_nr))))"
proof -
  have "tables_sized no_relations" by (simp add: tables_sized_def no_relations_def)
  from apply_relations_tables [OF this assms] obtain t where t: "syscall_mapping_init rs = Some t" "tables_sized t"
    "\<forall>g<512. g_guest_to_host_syscalls t ! g = host_of rs g (- 1) \<and> g_guest_syscall_names t ! g = name_of rs g (decimal g)"
    by (auto simp: syscall_mapping_init_def no_relations_def)
  have "unat sys_nr = 512 \<longleftrightarrow> sys_nr = 512" for sys_nr :: "32 word" by (simp add: word_unat_eq_iff)
  then show ?thesis using t
    by (intro exI [of _ t]) (auto simp: translateSyscall_def getSyscallName_def table_get_def tables_sized_def)
qed

lemma syscall_numbers_translated_witness:
  "\<exists>t. syscall_mapping_init [SYSCALL_RELATION 60 1, GUEST_SYSCALL ''exit'' 1] = Some t
     \<and> translateSyscall t 1 = Entry 60 \<and> getSyscallName t 1 = Entry ''exit'' \<and> translateSyscall t 2 = Entry (- 1) \<and> translateSyscall t 512 = Past_end"
proof -
  obtain t where "syscall_mapping_init [SYSCALL_RELATION 60 1, GUEST_SYSCALL ''exit'' 1] = Some t"
    and "\<forall>sys_nr. translateSyscall t sys_nr = (if unat sys_nr < 512 then Entry (host_of [SYSCALL_RELATION 60 1, GUEST_SYSCALL ''exit'' 1] (unat sys_nr) (- 1))
       else if sys_nr = 512 then Past_end else Entry (- 1))
     \<and> getSyscallName t sys_nr = (if unat sys_nr < 512 then Entry (name_of [SYSCALL_RELATION 60 1, GUEST_SYSCALL ''exit'' 1] (unat sys_nr) (decimal (unat sys_nr)))
       else if sys_nr = 512 then Past_end else Entry (decimal_int (sint sys_nr)))"
    using syscall_numbers_translated [of "[SYSCALL_RELATION 60 1, GUEST_SYSCALL ''exit'' 1]"] by auto
  then show ?thesis by simp
qed

section \<open>What a call answers\<close>

lemma mod_of_signed: "- (2 ^ n) \<le> (i :: int) \<Longrightarrow> i < 2 ^ n \<Longrightarrow> i mod 2 ^ Suc n = (if i < 0 then i + 2 ^ Suc n else i)"
proof (cases "i < 0")
  case True
  assume "- (2 ^ n) \<le> i"
  then have "(i + 2 ^ Suc n) mod 2 ^ Suc n = i + 2 ^ Suc n" using True by (intro mod_pos_pos_trivial) simp_all
  then show ?thesis using True by simp
qed (simp add: mod_pos_pos_trivial)

lemma error_range32: "- 4096 \<le> (w :: 32 word) \<longleftrightarrow> - 4096 \<le> sint w \<and> sint w < 0"
  using sint_ge [of w] sint_lt [of w] uint_sint [of w] mod_of_signed [of 31 "sint w"] by (simp add: take_bit_eq_mod word_le_def split: if_splits) linarith

lemma error_range64: "- 4096 \<le> (w :: 64 word) \<longleftrightarrow> - 4096 \<le> sint w \<and> sint w < 0"
  using sint_ge [of w] sint_lt [of w] uint_sint [of w] mod_of_signed [of 63 "sint w"] by (simp add: take_bit_eq_mod word_le_def split: if_splits) linarith

lemma sint_extended: "sint (scast (r :: 32 word) :: 64 word) = sint r"
  using sint_ge [of r] sint_lt [of r] by (simp add: signed_scast_eq signed_take_bit_int_eq_self)
lemma is_error_extended: "is_error r \<longleftrightarrow> - 4096 \<le> (scast r :: 64 word)"
  by (simp add: is_error_def error_range32 error_range64 sint_extended)

text \<open>The cases of the switch, group by group, each with what it runs for the number if it has it.\<close>

definition syscall_cases ::
  "'k host \<Rightarrow> env \<Rightarrow> 32 word \<Rightarrow> abi_long \<Rightarrow> abi_long \<Rightarrow> abi_long \<Rightarrow> abi_long \<Rightarrow> abi_long \<Rightarrow> abi_long \<Rightarrow>
   ('k, 'z, abi_long) I option list" where
  "syscall_cases H e num arg1 arg2 arg3 arg4 arg5 arg6 =
    [syscall_open_close H (env_chroot e) num arg1 arg2 arg3 arg4 arg5,
     syscall_chdir_utimes H (env_chroot e) (env_junk e) num arg1 arg2 arg3 arg4 arg5,
     syscall_access_pipe H (env_chroot e) num arg1 arg2 arg3 arg4,
     syscall_times_setsid H (env_chroot e) (env_structs e) (env_ioctls e) (env_buf_temp e) num arg1 arg2 arg3,
     syscall_signal H (env_handler e) num arg1 arg2 arg3,
     syscall_hostname_swapon H (env_chroot e) num arg1 arg2 arg3 arg4,
     syscall_mmap_statfs H (env_chroot e) num arg1 arg2 arg3,
     syscall_socketcall_wait4 H (env_chroot e) (env_junk e) num arg1 arg2 arg3 arg4,
     syscall_swapoff_select H (env_ret e) num arg1 arg2 arg3 arg4 arg5 arg6,
     syscall_poll_yield H num arg1 arg2 arg3 arg4,
     syscall_prio_fstatat H (env_chroot e) num arg1 arg2 arg3 arg4 arg5,
     syscall_ids16 H (env_chroot e) num arg1 arg2 arg3 arg4 arg5,
     syscall_ids32 H (env_chroot e) num arg1 arg2 arg3,
     syscall_mincore_thread_area H num arg1 arg2 arg3 arg4,
     syscall_clock_mq H (env_chroot e) num arg1 arg2 arg3 arg4 arg5 arg6]"

lemma first_some_unique: "length (filter id (map (\<lambda>x. x \<noteq> None) xs)) \<le> 1 \<Longrightarrow> Some m \<in> set xs \<Longrightarrow> first_some xs = Some m"
proof (induction xs rule: first_some.induct)
  case (2 x xs)
  then have "\<forall>y \<in> set xs. y = None" by (simp add: filter_empty_conv)
  then show ?case using "2.prems"(2) by auto
qed simp_all

lemma do_syscall_case:
  assumes "Some m \<in> set (syscall_cases H e num arg1 arg2 arg3 arg4 arg5 arg6)"
  shows "do_syscall H e num arg1 arg2 arg3 arg4 arg5 arg6 = m"
proof -
  have "length (filter id (map (\<lambda>x. x \<noteq> None) (syscall_cases H e num arg1 arg2 arg3 arg4 arg5 arg6))) \<le> 1"
    unfolding syscall_cases_def list.map by (rule one_group_per_call)
  from first_some_unique [OF this assms] show ?thesis
    unfolding do_syscall_def syscall_cases_def by simp
qed

text \<open>C30: mmap2 is answered here, by the host's mmap with the offset counted in pages of 4096: the
  mapped address, or the host's error as it is, and neither the pass-through nor the switch is
  tried. Any other call which the pass-through makes is answered with its result, in the state it
  leaves. What the pass-through leaves alone is answered with the result of the switch for the
  number and the low halves of the six arguments it leaves, extended by its sign and in the state
  the switch leaves: it is an error for the guest exactly when the switch reports one. That is
  the result of whichever case of the switch has the number, in whatever order the cases are
  tried, and -ENOSYS in an untouched state when none has.\<close>

theorem i386_call_applied:
  assumes "H ''GuestMem::mmap''
      [Out 8, W (getArg args 0), W (getArg args 1), W (getArg args 2), W (getArg args 3), W (getArg args 4), W (getArg args 5 * 4096)]
      \<lparr>mem = mem s, errno = errno s, kern = kern s\<rparr> = ((res, outs), h)"
    and "run_state (tryPassthrough args) s = ((passed, args'), s')"
    and "run_state (do_syscall H e (getSyscall args') (ucast (getArg args' 0)) (ucast (getArg args' 1)) (ucast (getArg args' 2))
      (ucast (getArg args' 3)) (ucast (getArg args' 4)) (ucast (getArg args' 5))) s' = (r, s'')"
  shows "run_state (apply_syscall H e tryPassthrough args) s =
      (if getSyscall args = TARGET_NR_mmap2
       then (if res = 0 then fld64 (out outs 0) 0 else res, s\<lparr>mem := mem h, errno := errno h, kern := kern h\<rparr>)
       else case passed of Some v \<Rightarrow> (v, s') | None \<Rightarrow> (scast r, s''))
    \<and> (is_error r \<longleftrightarrow> - 4096 \<le> (scast r :: 64 word))
    \<and> (\<forall>m. Some m \<in> set (syscall_cases H e (getSyscall args') (ucast (getArg args' 0)) (ucast (getArg args' 1)) (ucast (getArg args' 2))
          (ucast (getArg args' 3)) (ucast (getArg args' 4)) (ucast (getArg args' 5))) \<longrightarrow> run_state m s' = (r, s''))
    \<and> (getSyscall args' \<notin> set (concat handled_calls) \<longrightarrow> r = - TARGET_ENOSYS \<and> s'' = s')"
proof (intro conjI allI impI)
  show "run_state (apply_syscall H e tryPassthrough args) s =
      (if getSyscall args = TARGET_NR_mmap2
       then (if res = 0 then fld64 (out outs 0) 0 else res, s\<lparr>mem := mem h, errno := errno h, kern := kern h\<rparr>)
       else case passed of Some v \<Rightarrow> (v, s') | None \<Rightarrow> (scast r, s''))"
    using assms by (simp add: apply_syscall_def I386_mmap2_def hcall_def run_simps split: option.split)
  show "is_error r \<longleftrightarrow> - 4096 \<le> (scast r :: 64 word)" by (rule is_error_extended)
qed (use assms(3) in \<open>simp_all add: do_syscall_case unhandled_call\<close>)

lemma i386_call_applied_witness:
  "\<forall>e. run_state (apply_syscall null_host e (\<lambda>a. ret (None, a)) \<lparr>getSyscall = TARGET_NR_getpid, getArg = (\<lambda>_. 0)\<rparr>) (start_state (\<lambda>_. 0))
     = (0, start_state (\<lambda>_. 0))"
proof
  fix e
  let ?a = "\<lparr>getSyscall = TARGET_NR_getpid, getArg = (\<lambda>_. 0)\<rparr>" and ?s = "start_state (\<lambda>_. 0)"
  have "Some (sysc null_host ''getpid'' []) \<in> set (syscall_cases null_host e TARGET_NR_getpid 0 0 0 0 0 0 :: (unit, unit, abi_long) I option list)"
    by (simp add: syscall_cases_def syscall_chdir_utimes_def)
  from do_syscall_case [OF this] have d: "run_state (do_syscall null_host e TARGET_NR_getpid 0 0 0 0 0 0) ?s = (0, ?s)"
    by (simp add: sysc_def call_def hcall_def null_host_def run_simps start_state_def)
  have h: "null_host f as h = ((0, []), h)" for f :: string and as and h :: "unit hstate" by (simp add: null_host_def)
  have p: "run_state (ret (None, ?a)) ?s = ((None, ?a), ?s)" by (simp add: run_simps)
  have "run_state (do_syscall null_host e (getSyscall ?a) (ucast (getArg ?a 0)) (ucast (getArg ?a 1)) (ucast (getArg ?a 2))
      (ucast (getArg ?a 3)) (ucast (getArg ?a 4)) (ucast (getArg ?a 5))) ?s = (0, ?s)"
    using d by simp
  from i386_call_applied [where H = null_host and args = ?a and s = ?s and tryPassthrough = "\<lambda>a. ret (None, a)", OF h p this]
  have "run_state (apply_syscall null_host e (\<lambda>a. ret (None, a)) ?a) ?s = (scast (0 :: 32 word), ?s)"
    by simp
  then show "run_state (apply_syscall null_host e (\<lambda>a. ret (None, a)) ?a) ?s = (0, ?s)" by simp
qed

end
