(* ===== verification/Vexcount.thy ===== *)
theory Vexcount
  imports Prelude
begin

text \<open>
  The helpers that count bits (support/vexops.c), which translated code calls for the count
  operators: loops over the value, which end on every value they are started on. The
  comparisons and minima of floating-point values are left out.
\<close>

section \<open>The loops\<close>

definition top_bit :: "'a::len word" where
  "top_bit = push_bit (LENGTH('a) - 1) 1"

definition shl1 :: "'a::len word \<Rightarrow> 'a word" where
  "shl1 v = push_bit 1 v"

partial_function (option) ctz_loop :: "'a::len word \<Rightarrow> 32 word \<Rightarrow> 32 word option" where
  "ctz_loop v r = (if v AND 1 = 0 then ctz_loop (drop_bit 1 v) (r + 1) else Some r)"

partial_function (option) clz_loop :: "'a::len word \<Rightarrow> 32 word \<Rightarrow> 32 word option" where
  "clz_loop v r = (if v AND top_bit = 0 then clz_loop (shl1 v) (r + 1) else Some r)"

partial_function (option) cls_loop :: "'a::len word \<Rightarrow> 32 word \<Rightarrow> 32 word option" where
  "cls_loop v r = (if v AND top_bit \<noteq> 0 then cls_loop (shl1 v) (r + 1) else Some r)"

text \<open>The counter is an \<open>int\<close> or an \<open>unsigned\<close>, the result as wide as the value.\<close>

definition vexop_ctz64 :: "64 word \<Rightarrow> 64 word option" where
  "vexop_ctz64 v = (if v = 0 then Some 64 else map_option scast (ctz_loop v 0))"

definition vexop_clz64 :: "64 word \<Rightarrow> 64 word option" where
  "vexop_clz64 v = (if v = 0 then Some 64 else map_option scast (clz_loop v 0))"

definition vexop_ctz32 :: "32 word \<Rightarrow> 32 word option" where
  "vexop_ctz32 v = (if v = 0 then Some 32 else ctz_loop v 0)"

definition vexop_clz32 :: "32 word \<Rightarrow> 32 word option" where
  "vexop_clz32 v = (if v = 0 then Some 32 else clz_loop v 0)"

definition vexop_cls32 :: "32 word \<Rightarrow> 32 word option" where
  "vexop_cls32 v = (if v AND 0x80000000 = 0 then Some 0 else cls_loop (shl1 v) 0)"

definition vexop_cls64 :: "64 word \<Rightarrow> 64 word option" where
  "vexop_cls64 v = (if v AND 0x8000000000000000 = 0 then Some 0 else map_option ucast (cls_loop (shl1 v) 0))"

section \<open>Counting the bits of a list\<close>

definition bits_up :: "'a::len word \<Rightarrow> bool list" where
  "bits_up v = map (bit v) [0..<LENGTH('a)]"

definition bits_down :: "'a::len word \<Rightarrow> bool list" where
  "bits_down v = rev (bits_up v)"

definition count_while :: "bool \<Rightarrow> bool list \<Rightarrow> nat" where
  "count_while b xs = length (takeWhile (\<lambda>x. x = b) xs)"

lemma length_bits [simp]: "length (bits_up v) = LENGTH('a)" "length (bits_down v) = LENGTH('a)" for v :: "'a::len word"
  by (simp_all add: bits_up_def bits_down_def)

lemma nth_bits: "i < LENGTH('a) \<Longrightarrow> bits_up v ! i = bit v i" "i < LENGTH('a) \<Longrightarrow> bits_down v ! i = bit v (LENGTH('a) - Suc i)"
  for v :: "'a::len word"
  by (simp_all add: bits_up_def bits_down_def rev_nth)

lemma count_whileI:
  assumes "k < length xs" and "\<forall>i<k. xs ! i = b" and "xs ! k \<noteq> b"
  shows "count_while b xs = k"
proof -
  have "takeWhile (\<lambda>x. x = b) xs = take k xs" using assms by (intro takeWhile_eq_take_P_nth) auto
  then show ?thesis using assms(1) by (simp add: count_while_def)
qed

lemma count_while_all: "\<forall>i<length xs. xs ! i = b \<Longrightarrow> count_while b xs = length xs"
proof -
  assume "\<forall>i<length xs. xs ! i = b"
  then have "takeWhile (\<lambda>x. x = b) xs = xs" unfolding takeWhile_eq_all_conv all_set_conv_all_nth .
  then show ?thesis by (simp only: count_while_def)
qed

lemma count_while_stops:
  assumes "i < length xs" and "xs ! i \<noteq> b"
  obtains k where "count_while b xs = k" "k < length xs" "\<forall>i<k. xs ! i = b" "xs ! k \<noteq> b"
proof -
  obtain k where k: "k < length xs \<and> xs ! k \<noteq> b" "\<And>i. i < k \<Longrightarrow> \<not> (i < length xs \<and> xs ! i \<noteq> b)"
    using exists_least_iff [of "\<lambda>i. i < length xs \<and> xs ! i \<noteq> b"] assms by blast
  then have "\<forall>i<k. xs ! i = b" by (auto dest: less_trans)
  then show thesis using that [OF count_whileI [of k xs b]] k(1) by blast
qed

section \<open>The loops count\<close>

lemma bit_shl1: "bit (shl1 v) n \<longleftrightarrow> 0 < n \<and> n < LENGTH('a) \<and> bit v (n - 1)" for v :: "'a::len word"
  unfolding shl1_def bit_push_bit_iff by (cases n) (auto dest: bit_imp_le_length)

lemma and_top_bit: "v AND top_bit = 0 \<longleftrightarrow> \<not> bit v (LENGTH('a) - Suc 0)" for v :: "'a::len word"
proof -
  have t: "bit (top_bit :: 'a word) n \<longleftrightarrow> n = LENGTH('a) - Suc 0" for n
    unfolding top_bit_def bit_push_bit_iff by (auto simp: bit_1_iff)
  show ?thesis
  proof
    assume "v AND top_bit = 0"
    then have "\<not> bit (v AND top_bit) (LENGTH('a) - Suc 0)" by simp
    then show "\<not> bit v (LENGTH('a) - Suc 0)" by (simp only: bit_and_iff t) simp
  next
    assume "\<not> bit v (LENGTH('a) - Suc 0)"
    then show "v AND top_bit = 0" by (intro bit_word_eqI) (simp only: bit_and_iff t, auto)
  qed
qed

lemma and_low_bit: "v AND 1 = 0 \<longleftrightarrow> \<not> bit v 0" for v :: "'a::len word"
  by (simp add: and_one_eq bit_0 odd_iff_mod_2_eq_one)

lemma ctz_loop_counts:
  "k < LENGTH('a) \<Longrightarrow> \<forall>i<k. \<not> bit v i \<Longrightarrow> bit v k \<Longrightarrow> ctz_loop v r = Some (r + of_nat k)" for v :: "'a::len word"
proof (induction k arbitrary: v r)
  case 0
  then show ?case by (subst ctz_loop.simps) (simp only: and_low_bit, simp)
next
  case (Suc k)
  have "\<not> bit v 0" using Suc.prems(2) by blast
  then have "v AND 1 = 0" by (simp only: and_low_bit) simp
  moreover have "ctz_loop (drop_bit 1 v) (r + 1) = Some (r + 1 + of_nat k)"
    using Suc.prems by (intro Suc.IH) (auto simp: bit_simps)
  ultimately show ?case by (subst ctz_loop.simps) (simp add: add.assoc)
qed

lemma shifted_down: "i < LENGTH('a) - Suc 0 \<Longrightarrow> bit (shl1 v) (LENGTH('a) - Suc i) = bit v (LENGTH('a) - Suc (Suc i))" for v :: "'a::len word"
  by (auto simp: bit_shl1)

lemma clz_loop_counts:
  "k < LENGTH('a) \<Longrightarrow> \<forall>i<k. \<not> bit v (LENGTH('a) - Suc i) \<Longrightarrow> bit v (LENGTH('a) - Suc k) \<Longrightarrow> clz_loop v r = Some (r + of_nat k)" for v :: "'a::len word"
proof (induction k arbitrary: v r)
  case 0
  then show ?case by (subst clz_loop.simps) (simp add: and_top_bit)
next
  case (Suc k)
  have "v AND top_bit = 0" using Suc.prems(2) by (auto simp: and_top_bit)
  moreover have "clz_loop (shl1 v) (r + 1) = Some (r + 1 + of_nat k)"
    using Suc.prems by (intro Suc.IH) (auto simp: shifted_down)
  ultimately show ?case by (subst clz_loop.simps) (simp add: add.assoc)
qed

lemma cls_loop_counts:
  "k < LENGTH('a) \<Longrightarrow> \<forall>i<k. bit v (LENGTH('a) - Suc i) \<Longrightarrow> \<not> bit v (LENGTH('a) - Suc k) \<Longrightarrow> cls_loop v r = Some (r + of_nat k)" for v :: "'a::len word"
proof (induction k arbitrary: v r)
  case 0
  then show ?case by (subst cls_loop.simps) (simp add: and_top_bit)
next
  case (Suc k)
  have "v AND top_bit \<noteq> 0" using Suc.prems(2) by (auto simp: and_top_bit)
  moreover have "cls_loop (shl1 v) (r + 1) = Some (r + 1 + of_nat k)"
    using Suc.prems by (intro Suc.IH) (auto simp: shifted_down)
  ultimately show ?case by (subst cls_loop.simps) (simp add: add.assoc)
qed

lemma ctz_loop_eq: "v \<noteq> 0 \<Longrightarrow> ctz_loop v 0 = Some (of_nat (count_while False (bits_up v)))" for v :: "'a::len word"
proof -
  assume "v \<noteq> 0"
  then obtain i where "i < LENGTH('a)" "bit v i" by (auto simp: bit_eq_iff dest: bit_imp_le_length)
  then obtain k where "count_while False (bits_up v) = k" "k < LENGTH('a)" "\<forall>i<k. bits_up v ! i = False" "bits_up v ! k \<noteq> False"
    using count_while_stops [of i "bits_up v" False] by (auto simp: nth_bits)
  then show ?thesis using ctz_loop_counts [of k v 0] by (simp add: nth_bits)
qed

lemma clz_loop_eq: "v \<noteq> 0 \<Longrightarrow> clz_loop v 0 = Some (of_nat (count_while False (bits_down v)))" for v :: "'a::len word"
proof -
  assume "v \<noteq> 0"
  then obtain i where i: "i < LENGTH('a)" "bit v i" by (auto simp: bit_eq_iff dest: bit_imp_le_length)
  have "bits_down v ! (LENGTH('a) - Suc i) \<noteq> False" using i by (simp add: nth_bits)
  then obtain k where "count_while False (bits_down v) = k" "k < LENGTH('a)" "\<forall>i<k. bits_down v ! i = False" "bits_down v ! k \<noteq> False"
    using count_while_stops [of "LENGTH('a) - Suc i" "bits_down v" False] i by auto
  then show ?thesis using clz_loop_counts [of k v 0] by (simp add: nth_bits)
qed

lemma cls_loop_eq: "bit v (LENGTH('a) - Suc 0) \<Longrightarrow> cls_loop (shl1 v) 0 = Some (of_nat (count_while True (bits_down v) - 1))" for v :: "'a::len word"
proof -
  assume v: "bit v (LENGTH('a) - Suc 0)"
  let ?w = "shl1 v"
  have "\<not> bit ?w 0" by (simp add: bit_shl1)
  then have "bits_down ?w ! (LENGTH('a) - 1) \<noteq> True" by (simp add: nth_bits)
  then obtain k where k: "k < LENGTH('a)" "\<forall>i<k. bits_down ?w ! i = True" "bits_down ?w ! k \<noteq> True"
    using count_while_stops [of "LENGTH('a) - 1" "bits_down ?w" True] by auto
  have "count_while True (bits_down v) = Suc k"
  proof (cases "Suc k < LENGTH('a)")
    case True
    have "bits_down v ! i = True" if "i < Suc k" for i
      using that v k(2) True by (cases i) (auto simp: nth_bits shifted_down)
    moreover have "bits_down v ! Suc k \<noteq> True" using k(3) True by (simp add: nth_bits shifted_down)
    ultimately show ?thesis using True by (intro count_whileI) auto
  next
    case False
    then have "LENGTH('a) = Suc k" using k(1) by simp
    moreover have "bits_down v ! i = True" if "i < Suc k" for i
      using that v k(2) k(1) \<open>LENGTH('a) = Suc k\<close> shifted_down [of "i - 1" v] by (cases i) (auto simp: nth_bits)
    ultimately show ?thesis using count_while_all [of "bits_down v" True] by simp
  qed
  then show ?thesis using cls_loop_counts [of k ?w 0] k by (simp add: nth_bits)
qed

lemma count_le: "count_while b (bits_up v) \<le> LENGTH('a)" "count_while b (bits_down v) \<le> LENGTH('a)" for v :: "'a::len word"
  using length_takeWhile_le [of "\<lambda>x. x = b" "bits_up v"] length_takeWhile_le [of "\<lambda>x. x = b" "bits_down v"]
  by (simp_all add: count_while_def)

lemma count_zero: "count_while False (bits_up (0 :: 'a::len word)) = LENGTH('a)" "count_while False (bits_down (0 :: 'a::len word)) = LENGTH('a)"
  using count_while_all [of "bits_up (0 :: 'a word)" False] count_while_all [of "bits_down (0 :: 'a word)" False] by (simp_all add: nth_bits)

lemma scast_count: "n \<le> 64 \<Longrightarrow> scast (of_nat n :: 32 word) = (of_nat n :: 64 word)"
proof -
  assume "n \<le> 64"
  then have "sint (of_nat n :: 32 word) = int n" by (simp add: sint_word_ariths signed_take_bit_int_eq_self signed_of_nat)
  then show ?thesis by (metis of_int_of_nat_eq of_int_sint)
qed

lemma ucast_count: "n \<le> 64 \<Longrightarrow> ucast (of_nat n :: 32 word) = (of_nat n :: 64 word)"
  by (simp add: unsigned_of_nat take_bit_nat_eq_self)

lemma top_bits: "(top_bit :: 32 word) = 0x80000000" "(top_bit :: 64 word) = 0x8000000000000000"
  by (simp_all add: top_bit_def)

lemma count_no_sign: "\<not> bit v (LENGTH('a) - Suc 0) \<Longrightarrow> count_while True (bits_down v) = 0" for v :: "'a::len word"
  by (rule count_whileI) (simp_all add: nth_bits)

lemma count_le_64: "count_while b (bits_up v) \<le> 64" "count_while b (bits_down v) \<le> 64" for v :: "64 word"
  using count_le [of b v] by simp_all

lemmas count_results = ctz_loop_eq clz_loop_eq count_zero scast_count count_le_64

lemma ctz64_counts: "vexop_ctz64 v = Some (of_nat (count_while False (bits_up v)))"
  by (cases "v = 0") (simp_all add: vexop_ctz64_def count_results)

lemma clz64_counts: "vexop_clz64 v = Some (of_nat (count_while False (bits_down v)))"
  by (cases "v = 0") (simp_all add: vexop_clz64_def count_results)

lemma ctz32_counts: "vexop_ctz32 v = Some (of_nat (count_while False (bits_up v)))"
  by (cases "v = 0") (simp_all add: vexop_ctz32_def count_results)

lemma clz32_counts: "vexop_clz32 v = Some (of_nat (count_while False (bits_down v)))"
  by (cases "v = 0") (simp_all add: vexop_clz32_def count_results)

lemma cls32_counts: "vexop_cls32 v = Some (of_nat (count_while True (bits_down v) - 1))"
proof (cases "bit v (LENGTH(32) - Suc 0)")
  case True
  then show ?thesis using and_top_bit [of v] cls_loop_eq [of v] by (simp only: vexop_cls32_def top_bits) simp
next
  case False
  then show ?thesis using and_top_bit [of v] count_no_sign [of v] by (simp only: vexop_cls32_def top_bits) simp
qed

lemma cls64_counts: "vexop_cls64 v = Some (of_nat (count_while True (bits_down v) - 1))"
proof (cases "bit v (LENGTH(64) - Suc 0)")
  case True
  have "count_while True (bits_down v) - 1 \<le> 64" using count_le_64(2) [of True v] by simp
  then show ?thesis using True and_top_bit [of v] cls_loop_eq [of v] ucast_count by (simp only: vexop_cls64_def top_bits) simp
next
  case False
  then show ?thesis using and_top_bit [of v] count_no_sign [of v] by (simp only: vexop_cls64_def top_bits) simp
qed

text \<open>C21: The helpers end on every value and count: trailing zeros from the lowest bit on,
  leading zeros from the highest bit on, all of them for zero; and the leading sign bits behind
  the highest bit, but only of a negative value, and none of any other, where the comment of the
  helpers announces the leading sign bits of any value. The comment at the translator's operators gives
  other trailing counts (1, 2, 1 and 3 for the values 1 to 4) than the 0, 1, 0 and 2 that the
  helpers give.\<close>

theorem count_helpers_count:
  "vexop_ctz64 v = Some (of_nat (count_while False (bits_up v))) \<and> vexop_clz64 v = Some (of_nat (count_while False (bits_down v)))
   \<and> vexop_ctz32 w = Some (of_nat (count_while False (bits_up w))) \<and> vexop_clz32 w = Some (of_nat (count_while False (bits_down w)))
   \<and> vexop_cls64 v = Some (of_nat (count_while True (bits_down v) - 1)) \<and> vexop_cls32 w = Some (of_nat (count_while True (bits_down w) - 1))
   \<and> map vexop_ctz32 [1, 2, 3, 4] = [Some 0, Some 1, Some 0, Some 2] \<and> vexop_cls32 1 = Some 0"
proof (intro conjI ctz64_counts clz64_counts ctz32_counts clz32_counts cls64_counts cls32_counts)
  show "map vexop_ctz32 [1, 2, 3, 4] = [Some 0, Some 1, Some 0, Some 2]"
    by (simp add: ctz32_counts count_while_def bits_up_def upt_rec [of 0] upt_rec [of 1] upt_rec [of 2] numeral_eq_Suc)
  show "vexop_cls32 1 = Some 0" by (simp add: vexop_cls32_def)
qed

end
