(* ===== verification/Llvm.thy ===== *)
theory Llvm
  imports Prelude "HOL-Library.Monad_Syntax"
begin

text \<open>
  The part of LLVM that the generated code consists of, as its language reference
  documents it: integer, floating-point and vector types, the values an IR builder
  returns (a pure instruction is kept as the expression it computes; one that reads
  memory, calls or joins control flow is a numbered instruction of a basic block),
  the builder's insertion point, and the execution of the blocks on a register file,
  the guest context and the guest's memory. A lane that is poison, or that an
  instruction leaves undefined, is \<^const>\<open>None\<close>. Floating-point arithmetic and the
  helper functions, which are linked in as bitcode, are parameters.
\<close>

section \<open>Types\<close>

datatype scalar_ty = IntTy nat | FloatTy | DoubleTy | PtrTy

datatype ty = Scalar scalar_ty | VectorTy nat scalar_ty

fun scalar_bits :: "scalar_ty \<Rightarrow> nat" where
  "scalar_bits (IntTy w) = w"
| "scalar_bits FloatTy = 32"
| "scalar_bits DoubleTy = 64"
| "scalar_bits PtrTy = 64"

fun getScalarType :: "ty \<Rightarrow> scalar_ty" where
  "getScalarType (Scalar s) = s"
| "getScalarType (VectorTy n s) = s"

fun getNumElements :: "ty \<Rightarrow> nat" where
  "getNumElements (Scalar s) = 1"
| "getNumElements (VectorTy n s) = n"

abbreviation elem_bits :: "ty \<Rightarrow> nat" where "elem_bits t \<equiv> scalar_bits (getScalarType t)"

definition getBitWidth :: "ty \<Rightarrow> nat" where
  "getBitWidth t = getNumElements t * elem_bits t"

fun with_elem :: "ty \<Rightarrow> scalar_ty \<Rightarrow> ty" where
  "with_elem (Scalar s) s' = Scalar s'"
| "with_elem (VectorTy n s) s' = VectorTy n s'"

lemma with_elem_simps [simp]:
  "getScalarType (with_elem t s) = s" "getNumElements (with_elem t s) = getNumElements t"
  by (cases t; simp)+

section \<open>Lanes\<close>

type_synonym lane = "int option"

definition lanes_ok :: "ty \<Rightarrow> lane list \<Rightarrow> bool" where
  "lanes_ok t xs \<longleftrightarrow> length xs = getNumElements t \<and> (\<forall>x\<in>set xs. map_option (take_bit (elem_bits t)) x = x)"

definition fit :: "ty \<Rightarrow> lane list \<Rightarrow> lane list" where
  "fit t xs = map (map_option (take_bit (elem_bits t))) (take (getNumElements t) (xs @ replicate (getNumElements t) None))"

lemma fit_ok [simp]: "lanes_ok t (fit t xs)"
  by (auto simp: lanes_ok_def fit_def option.map_comp o_def)

lemma fit_id: "lanes_ok t xs \<Longrightarrow> fit t xs = xs"
  by (auto simp: lanes_ok_def fit_def intro: map_idI)

lemma length_fit [simp]: "length (fit t xs) = getNumElements t"
  by (simp add: fit_def)

lemma lanes_ok_nth:
  assumes "lanes_ok t xs" and "i < getNumElements t" and "xs ! i = Some x"
  shows "take_bit (elem_bits t) x = x"
proof -
  have "xs ! i \<in> set xs" using assms unfolding lanes_ok_def by (intro nth_mem) simp
  then have "map_option (take_bit (elem_bits t)) (xs ! i) = xs ! i" using assms(1) by (auto simp: lanes_ok_def)
  then show ?thesis using assms(3) by simp
qed

definition signed_lane :: "nat \<Rightarrow> int \<Rightarrow> int" where
  "signed_lane w x = signed_take_bit (w - 1) x"

primrec join_lanes :: "nat \<Rightarrow> lane list \<Rightarrow> int" where
  "join_lanes w [] = 0"
| "join_lanes w (x # xs) = (case x of None \<Rightarrow> 0 | Some k \<Rightarrow> k) + push_bit w (join_lanes w xs)"

definition cut_lane :: "nat \<Rightarrow> lane list \<Rightarrow> nat \<Rightarrow> nat \<Rightarrow> lane" where
  "cut_lane w xs w' i = (if None \<in> set (take ((i * w' + w' - 1) div w + 1 - i * w' div w) (drop (i * w' div w) xs)) then None
     else Some (take_bit w' (drop_bit (i * w') (join_lanes w xs))))"

definition regroup :: "nat \<Rightarrow> lane list \<Rightarrow> nat \<Rightarrow> nat \<Rightarrow> lane list" where
  "regroup w xs w' n = map (cut_lane w xs w') [0..<n]"

section \<open>Values\<close>

text \<open>The builder folds an instruction whose operands are constants, a call of an intrinsic
  function excepted.\<close>

datatype opcode = Add | Sub | Mul | And | Or | Xor | Shl | LShr | AShr | UDiv | SDiv | URem | SRem

datatype predicate = ICmpEQ | ICmpNE | ICmpUGT | ICmpULT | ICmpULE | ICmpSGT | ICmpSLT | ICmpSLE

datatype cast_op = ZExt | SExt | Trunc | BitCast

datatype irvalue =
    ConstantV ty "lane list"
  | Inst nat ty
  | CtxBase
  | BinaryOp opcode irvalue irvalue
  | ICmp predicate irvalue irvalue
  | Cast cast_op irvalue ty
  | Select irvalue irvalue irvalue
  | ExtractElement irvalue irvalue
  | InsertElement irvalue irvalue irvalue
  | ShuffleVector irvalue irvalue "nat list"
  | ConstantVector "irvalue list"
  | FpUnary string irvalue ty
  | FpBinary string irvalue irvalue ty
  | PureCall string ty "irvalue list"

fun getType :: "irvalue \<Rightarrow> ty" where
  "getType (ConstantV t xs) = t"
| "getType (Inst i t) = t"
| "getType CtxBase = Scalar PtrTy"
| "getType (BinaryOp f a b) = getType a"
| "getType (ICmp p a b) = with_elem (getType a) (IntTy 1)"
| "getType (Cast c a t) = t"
| "getType (Select c a b) = getType a"
| "getType (ExtractElement a i) = Scalar (getScalarType (getType a))"
| "getType (InsertElement a x i) = getType a"
| "getType (ShuffleVector a b m) = VectorTy (length m) (getScalarType (getType a))"
| "getType (ConstantVector vs) = VectorTy (length vs) (case vs of [] \<Rightarrow> IntTy 1 | v # us \<Rightarrow> getScalarType (getType v))"
| "getType (FpUnary f a t) = t"
| "getType (FpBinary f a b t) = t"
| "getType (PureCall f t as) = t"

fun isConstant :: "irvalue \<Rightarrow> bool" where
  "isConstant (ConstantV t xs) = True"
| "isConstant (Inst i t) = False"
| "isConstant CtxBase = False"
| "isConstant (BinaryOp f a b) = (isConstant a \<and> isConstant b)"
| "isConstant (ICmp p a b) = (isConstant a \<and> isConstant b)"
| "isConstant (Cast c a t) = isConstant a"
| "isConstant (Select c a b) = (isConstant c \<and> isConstant a \<and> isConstant b)"
| "isConstant (ExtractElement a i) = (isConstant a \<and> isConstant i)"
| "isConstant (InsertElement a x i) = (isConstant a \<and> isConstant x \<and> isConstant i)"
| "isConstant (ShuffleVector a b m) = (isConstant a \<and> isConstant b)"
| "isConstant (ConstantVector vs) = (\<forall>v\<in>set vs. isConstant v)"
| "isConstant (FpUnary f a t) = (f \<noteq> ''sqrt'' \<and> isConstant a)"
| "isConstant (FpBinary f a b t) = (isConstant a \<and> isConstant b)"
| "isConstant (PureCall f t as) = False"

text \<open>A lane whose operation has no value is None, poison, which spreads to what is computed from
  it. For a zero divisor and for the overflow of a signed division LLVM is stricter, the whole
  run is undefined then; the model gives a poison lane there as well, which is stored as undefined
  bytes and stops execution where it is branched on or used as an address.\<close>

fun lane_op :: "opcode \<Rightarrow> nat \<Rightarrow> int \<Rightarrow> int \<Rightarrow> int option" where
  "lane_op Add w x y = Some (x + y)"
| "lane_op Sub w x y = Some (x - y)"
| "lane_op Mul w x y = Some (x * y)"
| "lane_op And w x y = Some (x AND y)"
| "lane_op Or w x y = Some (x OR y)"
| "lane_op Xor w x y = Some (x XOR y)"
| "lane_op Shl w x y = (if y < int w then Some (push_bit (nat y) x) else None)"
| "lane_op LShr w x y = (if y < int w then Some (drop_bit (nat y) x) else None)"
| "lane_op AShr w x y = (if y < int w then Some (drop_bit (nat y) (signed_lane w x)) else None)"
| "lane_op UDiv w x y = (if y = 0 then None else Some (x div y))"
| "lane_op URem w x y = (if y = 0 then None else Some (x mod y))"
| "lane_op SDiv w x y = (if y = 0 \<or> signed_lane w x sdiv signed_lane w y = 2 ^ (w - 1) then None
     else Some (signed_lane w x sdiv signed_lane w y))"
| "lane_op SRem w x y = (if y = 0 \<or> signed_lane w x sdiv signed_lane w y = 2 ^ (w - 1) then None
     else Some (signed_lane w x smod signed_lane w y))"

fun lane_cmp :: "predicate \<Rightarrow> nat \<Rightarrow> int \<Rightarrow> int \<Rightarrow> bool" where
  "lane_cmp ICmpEQ w x y \<longleftrightarrow> x = y"
| "lane_cmp ICmpNE w x y \<longleftrightarrow> x \<noteq> y"
| "lane_cmp ICmpUGT w x y \<longleftrightarrow> x > y"
| "lane_cmp ICmpULT w x y \<longleftrightarrow> x < y"
| "lane_cmp ICmpULE w x y \<longleftrightarrow> x \<le> y"
| "lane_cmp ICmpSGT w x y \<longleftrightarrow> signed_lane w x > signed_lane w y"
| "lane_cmp ICmpSLT w x y \<longleftrightarrow> signed_lane w x < signed_lane w y"
| "lane_cmp ICmpSLE w x y \<longleftrightarrow> signed_lane w x \<le> signed_lane w y"

definition lift2 :: "(int \<Rightarrow> int \<Rightarrow> int option) \<Rightarrow> lane \<Rightarrow> lane \<Rightarrow> lane" where
  "lift2 f a b = Option.bind a (\<lambda>x. Option.bind b (f x))"

lemma lift2_simps [simp]:
  "lift2 f None b = None" "lift2 f a None = None" "lift2 f (Some x) (Some y) = f x y"
  by (cases a; simp add: lift2_def)+

fun cast_lanes :: "cast_op \<Rightarrow> ty \<Rightarrow> ty \<Rightarrow> lane list \<Rightarrow> lane list" where
  "cast_lanes ZExt s t xs = xs"
| "cast_lanes SExt s t xs = map (map_option (signed_lane (elem_bits s))) xs"
| "cast_lanes Trunc s t xs = xs"
| "cast_lanes BitCast s t xs = regroup (elem_bits s) xs (elem_bits t) (getNumElements t)"

text \<open>The code outside the generated blocks: the floating-point unit (by the name of the
  instruction or intrinsic and the widths of the operand and the result), the helpers that only compute
  and those that change the guest's state, the address of the guest context.\<close>

record llvm_env =
  fp_unary :: "string \<Rightarrow> nat \<Rightarrow> nat \<Rightarrow> int \<Rightarrow> int"
  fp_binary :: "string \<Rightarrow> nat \<Rightarrow> int \<Rightarrow> int \<Rightarrow> int"
  pure_helper :: "string \<Rightarrow> lane list list \<Rightarrow> lane list"
  ctx_address :: int

type_synonym regfile = "nat \<Rightarrow> lane list"

fun select_lanes :: "lane list \<Rightarrow> lane list \<Rightarrow> lane list \<Rightarrow> lane list" where
  "select_lanes (Some c # cs) xs ys = (if c = 0 then ys else xs)"
| "select_lanes cs xs ys = []"

fun extract_lane :: "lane list \<Rightarrow> lane list \<Rightarrow> lane list" where
  "extract_lane xs (Some i # is) = (if 0 \<le> i \<and> i < int (length xs) then [xs ! nat i] else [])"
| "extract_lane xs is = []"

fun insert_lane :: "lane list \<Rightarrow> lane list \<Rightarrow> lane list \<Rightarrow> lane list" where
  "insert_lane xs (x # us) (Some i # is) = (if 0 \<le> i \<and> i < int (length xs) then xs[nat i := x] else [])"
| "insert_lane xs us is = []"

fun ev :: "llvm_env \<Rightarrow> regfile \<Rightarrow> irvalue \<Rightarrow> lane list" where
  "ev E R (ConstantV t xs) = fit t xs"
| "ev E R (Inst i t) = fit t (R i)"
| "ev E R CtxBase = fit (Scalar PtrTy) [Some (ctx_address E)]"
| "ev E R (BinaryOp f a b) = fit (getType a) (map2 (lift2 (lane_op f (elem_bits (getType a)))) (ev E R a) (ev E R b))"
| "ev E R (ICmp p a b) = fit (with_elem (getType a) (IntTy 1))
     (map2 (lift2 (\<lambda>x y. Some (of_bool (lane_cmp p (elem_bits (getType a)) x y)))) (ev E R a) (ev E R b))"
| "ev E R (Cast c a t) = fit t (cast_lanes c (getType a) t (ev E R a))"
| "ev E R (Select c a b) = fit (getType a) (select_lanes (ev E R c) (ev E R a) (ev E R b))"
| "ev E R (ExtractElement a i) = fit (Scalar (getScalarType (getType a))) (extract_lane (ev E R a) (ev E R i))"
| "ev E R (InsertElement a x i) = fit (getType a) (insert_lane (ev E R a) (ev E R x) (ev E R i))"
| "ev E R (ShuffleVector a b m) = fit (VectorTy (length m) (getScalarType (getType a)))
     (map (\<lambda>i. let xs = ev E R a @ ev E R b in if i < length xs then xs ! i else None) m)"
| "ev E R (ConstantVector vs) = fit (getType (ConstantVector vs)) (concat (map (ev E R) vs))"
| "ev E R (FpUnary f a t) = fit t (map (map_option (fp_unary E f (elem_bits (getType a)) (elem_bits t))) (ev E R a))"
| "ev E R (FpBinary f a b t) = fit t (map2 (lift2 (\<lambda>x y. Some (fp_binary E f (elem_bits t) x y))) (ev E R a) (ev E R b))"
| "ev E R (PureCall f t as) = fit t (pure_helper E f (map (ev E R) as))"

lemma ev_ok [simp]: "lanes_ok (getType v) (ev E R v)"
  by (cases v) simp_all

lemma length_ev [simp]: "length (ev E R v) = getNumElements (getType v)"
  using ev_ok [of v E R] by (simp add: lanes_ok_def)

section \<open>Basic blocks and the builder\<close>

text \<open>A pointer is into the guest context (an index in units of the accessed type) or
  comes from an integer, an address of the guest's memory.\<close>

datatype irptr = CtxPtr irvalue ty | MemPtr irvalue ty

datatype irinst =
    LoadI nat irptr
  | StoreI irvalue irptr
  | CallI nat ty string "irvalue list"
  | PhiI nat ty "(irvalue \<times> nat) list"
  | FenceI
  | BrI nat
  | CondBrI irvalue nat nat
  | RetI irvalue

record irfunction =
  blocks :: "irinst list list"
  insert_block :: nat
  next_id :: nat

definition add_inst :: "irinst \<Rightarrow> ('a) irfunction_scheme \<Rightarrow> 'a irfunction_scheme" where
  "add_inst i b = b\<lparr>blocks := (blocks b)[insert_block b := blocks b ! insert_block b @ [i]]\<rparr>"

definition CreateBlock :: "'a irfunction_scheme \<Rightarrow> nat \<times> 'a irfunction_scheme" where
  "CreateBlock b = (length (blocks b), b\<lparr>blocks := blocks b @ [[]]\<rparr>)"

definition SetInsertPoint :: "nat \<Rightarrow> 'a irfunction_scheme \<Rightarrow> 'a irfunction_scheme" where
  "SetInsertPoint k b = b\<lparr>insert_block := k\<rparr>"

definition CreateBr :: "nat \<Rightarrow> 'a irfunction_scheme \<Rightarrow> 'a irfunction_scheme" where
  "CreateBr k b = add_inst (BrI k) b"

definition CreateCondBr :: "irvalue \<Rightarrow> nat \<Rightarrow> nat \<Rightarrow> 'a irfunction_scheme \<Rightarrow> 'a irfunction_scheme" where
  "CreateCondBr v k l b = add_inst (CondBrI v k l) b"

definition CreateRet :: "irvalue \<Rightarrow> 'a irfunction_scheme \<Rightarrow> 'a irfunction_scheme" where
  "CreateRet v b = add_inst (RetI v) b"

definition CreateFence :: "'a irfunction_scheme \<Rightarrow> 'a irfunction_scheme" where
  "CreateFence b = add_inst FenceI b"

fun accessed_type :: "irptr \<Rightarrow> ty" where
  "accessed_type (CtxPtr v t) = t"
| "accessed_type (MemPtr v t) = t"

definition CreateLoad :: "irptr \<Rightarrow> 'a irfunction_scheme \<Rightarrow> irvalue \<times> 'a irfunction_scheme" where
  "CreateLoad p b = (Inst (next_id b) (accessed_type p), add_inst (LoadI (next_id b) p) (b\<lparr>next_id := next_id b + 1\<rparr>))"

definition CreateStore :: "irvalue \<Rightarrow> irptr \<Rightarrow> 'a irfunction_scheme \<Rightarrow> 'a irfunction_scheme" where
  "CreateStore v p b = add_inst (StoreI v p) b"

definition CreateCall :: "ty \<Rightarrow> string \<Rightarrow> irvalue list \<Rightarrow> 'a irfunction_scheme \<Rightarrow> irvalue \<times> 'a irfunction_scheme" where
  "CreateCall t f as b = (Inst (next_id b) t, add_inst (CallI (next_id b) t f as) (b\<lparr>next_id := next_id b + 1\<rparr>))"

definition CreatePHI :: "ty \<Rightarrow> (irvalue \<times> nat) list \<Rightarrow> 'a irfunction_scheme \<Rightarrow> irvalue \<times> 'a irfunction_scheme" where
  "CreatePHI t as b = (Inst (next_id b) t, add_inst (PhiI (next_id b) t as) (b\<lparr>next_id := next_id b + 1\<rparr>))"

section \<open>Execution\<close>

text \<open>The guest context and the guest's memory, byte by byte; a byte an instruction left
  undefined is \<^const>\<open>None\<close>. The context is not reached through the guest's addresses.\<close>

record guest_mem =
  ctx_bytes :: "int \<Rightarrow> lane"
  mem_bytes :: "64 word \<Rightarrow> lane"

definition store_bytes :: "ty \<Rightarrow> nat" where
  "store_bytes t = getBitWidth t div 8"

definition of_bytes :: "ty \<Rightarrow> lane list \<Rightarrow> lane list" where
  "of_bytes t bs = fit t (regroup 8 bs (elem_bits t) (getNumElements t))"

definition to_bytes :: "ty \<Rightarrow> lane list \<Rightarrow> lane list" where
  "to_bytes t xs = regroup (elem_bits t) xs 8 (store_bytes t)"

definition read_ctx :: "int \<Rightarrow> ty \<Rightarrow> guest_mem \<Rightarrow> lane list" where
  "read_ctx a t m = of_bytes t (map (\<lambda>i. ctx_bytes m (a + int i)) [0..<store_bytes t])"

definition write_ctx :: "int \<Rightarrow> ty \<Rightarrow> lane list \<Rightarrow> guest_mem \<Rightarrow> guest_mem" where
  "write_ctx a t xs m = m\<lparr>ctx_bytes := (\<lambda>k. if a \<le> k \<and> k < a + int (store_bytes t)
     then to_bytes t xs ! nat (k - a) else ctx_bytes m k)\<rparr>"

definition read_mem :: "64 word \<Rightarrow> ty \<Rightarrow> guest_mem \<Rightarrow> lane list" where
  "read_mem a t m = of_bytes t (map (\<lambda>i. mem_bytes m (a + of_nat i)) [0..<store_bytes t])"

definition write_mem :: "64 word \<Rightarrow> ty \<Rightarrow> lane list \<Rightarrow> guest_mem \<Rightarrow> guest_mem" where
  "write_mem a t xs m = m\<lparr>mem_bytes := (\<lambda>k. if unat (k - a) < store_bytes t
     then to_bytes t xs ! unat (k - a) else mem_bytes m k)\<rparr>"

fun read_ptr :: "llvm_env \<Rightarrow> regfile \<Rightarrow> irptr \<Rightarrow> guest_mem \<Rightarrow> lane list option" where
  "read_ptr E R (CtxPtr v t) m = (case ev E R v of
     [Some k] \<Rightarrow> Some (read_ctx (signed_lane (elem_bits (getType v)) k * int (store_bytes t)) t m) | _ \<Rightarrow> None)"
| "read_ptr E R (MemPtr v t) m = (case ev E R v of [Some a] \<Rightarrow> Some (read_mem (word_of_int a) t m) | _ \<Rightarrow> None)"

fun write_ptr :: "llvm_env \<Rightarrow> regfile \<Rightarrow> irptr \<Rightarrow> lane list \<Rightarrow> guest_mem \<Rightarrow> guest_mem option" where
  "write_ptr E R (CtxPtr v t) xs m = (case ev E R v of
     [Some k] \<Rightarrow> Some (write_ctx (signed_lane (elem_bits (getType v)) k * int (store_bytes t)) t xs m) | _ \<Rightarrow> None)"
| "write_ptr E R (MemPtr v t) xs m = (case ev E R v of [Some a] \<Rightarrow> Some (write_mem (word_of_int a) t xs m) | _ \<Rightarrow> None)"

type_synonym dirty_env = "string \<Rightarrow> lane list list \<Rightarrow> guest_mem \<Rightarrow> lane list \<times> guest_mem"

datatype config = Running nat nat nat regfile guest_mem | Returned "lane list" guest_mem

fun exec_inst :: "llvm_env \<Rightarrow> dirty_env \<Rightarrow> irinst \<Rightarrow> nat \<Rightarrow> nat \<Rightarrow> nat \<Rightarrow> regfile \<Rightarrow> guest_mem \<Rightarrow> config option" where
  "exec_inst E D (LoadI i p) bb pc prev R m =
     map_option (\<lambda>xs. Running bb (pc + 1) prev (R(i := xs)) m) (read_ptr E R p m)"
| "exec_inst E D (StoreI v p) bb pc prev R m =
     map_option (Running bb (pc + 1) prev R) (write_ptr E R p (ev E R v) m)"
| "exec_inst E D (CallI i t f as) bb pc prev R m =
     (case D f (map (ev E R) as) m of (xs, m') \<Rightarrow> Some (Running bb (pc + 1) prev (R(i := xs)) m'))"
| "exec_inst E D (PhiI i t as) bb pc prev R m =
     map_option (\<lambda>v. Running bb (pc + 1) prev (R(i := ev E R v)) m) (map_of (map (\<lambda>(v, k). (k, v)) as) prev)"
| "exec_inst E D FenceI bb pc prev R m = Some (Running bb (pc + 1) prev R m)"
| "exec_inst E D (BrI k) bb pc prev R m = Some (Running k 0 bb R m)"
| "exec_inst E D (CondBrI v k l) bb pc prev R m =
     (case ev E R v of [Some c] \<Rightarrow> Some (Running (if c = 0 then l else k) 0 bb R m) | _ \<Rightarrow> None)"
| "exec_inst E D (RetI v) bb pc prev R m = Some (Returned (ev E R v) m)"

fun exec_step :: "llvm_env \<Rightarrow> dirty_env \<Rightarrow> irinst list list \<Rightarrow> config \<Rightarrow> config option" where
  "exec_step E D F (Running bb pc prev R m) = (if bb < length F \<and> pc < length (F ! bb)
     then exec_inst E D (F ! bb ! pc) bb pc prev R m else None)"
| "exec_step E D F (Returned xs m) = None"

primrec run_function :: "nat \<Rightarrow> llvm_env \<Rightarrow> dirty_env \<Rightarrow> irinst list list \<Rightarrow> config \<Rightarrow> config option" where
  "run_function 0 E D F c = Some c"
| "run_function (Suc n) E D F c = (case exec_step E D F c of
     None \<Rightarrow> (case c of Returned xs m \<Rightarrow> Some c | Running bb pc prev R m \<Rightarrow> None) | Some c' \<Rightarrow> run_function n E D F c')"

definition reaches :: "llvm_env \<Rightarrow> dirty_env \<Rightarrow> irinst list list \<Rightarrow> config \<Rightarrow> config \<Rightarrow> bool" where
  "reaches E D F = (\<lambda>c c'. exec_step E D F c = Some c')\<^sup>*\<^sup>*"

lemma reaches_refl [intro!, simp]: "reaches E D F c c"
  by (simp add: reaches_def)

lemma reaches_trans [trans]: "reaches E D F c c' \<Longrightarrow> reaches E D F c' c'' \<Longrightarrow> reaches E D F c c''"
  unfolding reaches_def by (rule rtranclp_trans)

lemma reaches_step: "exec_step E D F c = Some c' \<Longrightarrow> reaches E D F c c'"
  unfolding reaches_def by (rule r_into_rtranclp)

lemma run_function_steps:
  "reaches E D F c (Returned xs m) \<Longrightarrow> \<exists>n. \<forall>k\<ge>n. run_function k E D F c = Some (Returned xs m)"
  unfolding reaches_def
proof (induction rule: converse_rtranclp_induct)
  case base
  have "run_function k E D F (Returned xs m) = Some (Returned xs m)" for k by (cases k) auto
  then show ?case by blast
next
  case (step c c')
  then obtain n where n: "\<forall>k\<ge>n. run_function k E D F c' = Some (Returned xs m)" by blast
  have "run_function k E D F c = Some (Returned xs m)" if "Suc n \<le> k" for k
    using that step.hyps(1) n by (cases k) auto
  then show ?case by blast
qed

end
