(* ===== verification/Vexop.thy ===== *)
theory Vexop
  imports Llvm
begin

text \<open>
  The code the operators of the VEX intermediate representation are translated to:
  \<open>src/vexop.cc\<close>, \<open>src/vexop_fp.cc\<close> and the macros of \<open>src/vexop_macros.h\<close>. Every
  macro is a function from the values of the operands to the value it returns; the
  operators that are instances of the macros are in the theory of the tables.
\<close>

section \<open>Types and constants\<close>

abbreviation get_i :: "nat \<Rightarrow> ty" where "get_i b \<equiv> Scalar (IntTy b)"
abbreviation get_f :: ty where "get_f \<equiv> Scalar FloatTy"
abbreviation get_d :: ty where "get_d \<equiv> Scalar DoubleTy"
abbreviation get_vt :: "nat \<Rightarrow> nat \<Rightarrow> ty" where "get_vt w b \<equiv> VectorTy w (IntTy b)"
abbreviation get_vtf :: "nat \<Rightarrow> ty" where "get_vtf w \<equiv> VectorTy w FloatTy"
abbreviation get_vtd :: "nat \<Rightarrow> ty" where "get_vtd w \<equiv> VectorTy w DoubleTy"
abbreviation get_c :: "nat \<Rightarrow> int \<Rightarrow> irvalue" where "get_c b v \<equiv> ConstantV (get_i b) [Some v]"
abbreviation get_32i :: "int \<Rightarrow> irvalue" where "get_32i v \<equiv> get_c 32 v"

definition DBL_0 :: irvalue where "DBL_0 = ConstantV get_d [Some 0]"
definition FLT_0 :: irvalue where "FLT_0 = ConstantV get_f [Some 0]"
definition DBL_1 :: irvalue where "DBL_1 = ConstantV get_d [Some 0x3FF0000000000000]"
definition FLT_1 :: irvalue where "FLT_1 = ConstantV get_f [Some 0x3F800000]"

text \<open>The integer of all ones, which the builder's negation takes the exclusive or with.\<close>

definition CreateNot :: "irvalue \<Rightarrow> irvalue" where
  "CreateNot v = BinaryOp Xor v (ConstantV (getType v) (replicate (getNumElements (getType v)) (Some (- 1))))"

abbreviation CreateFp :: "string \<Rightarrow> irvalue \<Rightarrow> irvalue \<Rightarrow> irvalue" where
  "CreateFp f a b \<equiv> FpBinary f a b (getType a)"
abbreviation CreateFCmp :: "string \<Rightarrow> irvalue \<Rightarrow> irvalue \<Rightarrow> irvalue" where
  "CreateFCmp f a b \<equiv> FpBinary f a b (with_elem (getType a) (IntTy 1))"
abbreviation CreateFpCast :: "string \<Rightarrow> irvalue \<Rightarrow> ty \<Rightarrow> irvalue" where
  "CreateFpCast f a t \<equiv> FpUnary f a t"

text \<open>The loops that build a vector one element at a time.\<close>

definition insert_elements :: "nat \<Rightarrow> (nat \<Rightarrow> irvalue) \<Rightarrow> irvalue \<Rightarrow> irvalue" where
  "insert_elements n f = fold (\<lambda>i result. InsertElement result (f i) (get_32i (int i))) [0..<n]"

section \<open>Conversions\<close>

definition X_TO_Y_EMIT :: "(irvalue \<Rightarrow> ty \<Rightarrow> irvalue) \<Rightarrow> ty \<Rightarrow> ty \<Rightarrow> irvalue \<Rightarrow> irvalue" where
  "X_TO_Y_EMIT y w z v1 = (
     let bits = getBitWidth (getType v1);
         v1 = (if bits < getBitWidth w then Cast ZExt (Cast BitCast v1 (get_i bits)) w
               else if getBitWidth w < bits then Cast Trunc (Cast BitCast v1 (get_i bits)) w
               else v1)
     in y (Cast BitCast v1 w) z)"

definition X_TO_Y_EMIT_ROUND :: "(irvalue \<Rightarrow> ty \<Rightarrow> irvalue) \<Rightarrow> ty \<Rightarrow> ty \<Rightarrow> irvalue \<Rightarrow> irvalue \<Rightarrow> irvalue" where
  "X_TO_Y_EMIT_ROUND y w z v1 v2 = y (Cast BitCast v2 w) z"

definition XHI_TO_Y_EMIT :: "nat \<Rightarrow> ty \<Rightarrow> ty \<Rightarrow> irvalue \<Rightarrow> irvalue" where
  "XHI_TO_Y_EMIT y w z v1 = Cast Trunc (BinaryOp LShr (Cast BitCast v1 w) (get_c (y * 2) (int y))) z"

definition X_HL_TO_Y_EMIT :: "nat \<Rightarrow> nat \<Rightarrow> irvalue \<Rightarrow> irvalue \<Rightarrow> irvalue" where
  "X_HL_TO_Y_EMIT x y v1 v2 = (
     let v_hi = Cast ZExt v1 (get_i y);
         v_lo = Cast ZExt v2 (get_i y)
     in BinaryOp Or v_lo (BinaryOp Shl v_hi (get_c y (int x))))"

definition V128to64_emit :: "irvalue \<Rightarrow> irvalue" where
  "V128to64_emit v1 = ExtractElement (Cast BitCast v1 (get_vt 2 64)) (get_32i 0)"

definition V128HIto64_emit :: "irvalue \<Rightarrow> irvalue" where
  "V128HIto64_emit v1 = ExtractElement (Cast BitCast v1 (get_vt 2 64)) (get_32i 1)"

definition HLto128_emit :: "irvalue \<Rightarrow> irvalue \<Rightarrow> irvalue" where
  "HLto128_emit v1 v2 = (
     let v_hi = Cast ZExt v1 (get_i 128);
         v_lo = Cast ZExt v2 (get_i 128)
     in BinaryOp Or v_lo (BinaryOp Shl v_hi (get_c 128 64)))"

definition i128HIto64_emit :: "irvalue \<Rightarrow> irvalue option" where
  "i128HIto64_emit v1 = (if getBitWidth (getType v1) = 128
     then Some (ExtractElement (Cast BitCast v1 (get_vt 2 64)) (get_32i 1)) else None)"

definition UtoV128_emit :: "irvalue \<Rightarrow> irvalue" where
  "UtoV128_emit v1 = Cast BitCast (Cast ZExt v1 (get_i 128)) (get_vt 16 8)"

definition HLtoV128_emit :: "irvalue \<Rightarrow> irvalue \<Rightarrow> irvalue" where
  "HLtoV128_emit v1 v2 = (
     let v1 = Cast BitCast v1 (get_i 64);
         v2 = Cast BitCast v2 (get_i 64);
         v_hi = Cast ZExt v1 (get_i 128);
         v_lo = Cast ZExt v2 (get_i 128);
         v_128hl = BinaryOp Or v_lo (BinaryOp Shl v_hi (get_c 128 64))
     in Cast BitCast v_128hl (get_vt 16 8))"

definition Dup8x16_emit :: "irvalue \<Rightarrow> irvalue" where
  "Dup8x16_emit v1 = fold (\<lambda>i v. BinaryOp Or v (BinaryOp Shl v (get_c 128 (push_bit (i - 1) 8)))) [1..<5]
     (Cast ZExt v1 (get_i (8 * 16)))"

definition GETMSBS_8xN_EMIT :: "nat \<Rightarrow> irvalue \<Rightarrow> irvalue" where
  "GETMSBS_8xN_EMIT x v1 = (
     let vec = Cast BitCast v1 (get_vt x 8) in
     fold (\<lambda>i ret.
       let cur_v = ExtractElement vec (get_32i (int i));
           cur_v = BinaryOp LShr cur_v (get_c 8 7);
           cur_v = Cast ZExt cur_v (get_i x);
           cur_v = BinaryOp Shl cur_v (get_c x (int i))
       in BinaryOp Or ret cur_v) [0..<x] (get_c x 0))"

definition GET_ELEM_EMIT :: "nat \<Rightarrow> nat \<Rightarrow> irvalue \<Rightarrow> irvalue \<Rightarrow> irvalue" where
  "GET_ELEM_EMIT w e v1 v2 = ExtractElement (Cast BitCast v1 (get_vt e w)) v2"

definition SET_ELEM_EMIT :: "nat \<Rightarrow> nat \<Rightarrow> irvalue \<Rightarrow> irvalue \<Rightarrow> irvalue \<Rightarrow> irvalue" where
  "SET_ELEM_EMIT w e v1 v2 v3 = InsertElement (Cast BitCast v1 (get_vt e w)) v3 v2"

definition SetV128lo64_emit :: "irvalue \<Rightarrow> irvalue \<Rightarrow> irvalue" where
  "SetV128lo64_emit v1 v2 = InsertElement (Cast BitCast v1 (get_vt 2 64)) v2 (get_32i 0)"

definition SetV128lo32_emit :: "irvalue \<Rightarrow> irvalue \<Rightarrow> irvalue" where
  "SetV128lo32_emit v1 v2 = InsertElement (Cast BitCast v1 (get_vt 4 32)) v2 (get_32i 0)"

section \<open>Scalar arithmetic\<close>

definition BINOP_EMIT :: "(irvalue \<Rightarrow> irvalue \<Rightarrow> irvalue) \<Rightarrow> irvalue \<Rightarrow> irvalue \<Rightarrow> irvalue" where
  "BINOP_EMIT y v1 v2 = y v1 (Cast ZExt v2 (getType v1))"

definition BINOP_EXPAND_EMIT :: "(irvalue \<Rightarrow> ty \<Rightarrow> irvalue) \<Rightarrow> ty \<Rightarrow> (irvalue \<Rightarrow> irvalue \<Rightarrow> irvalue) \<Rightarrow> irvalue \<Rightarrow> irvalue \<Rightarrow> irvalue" where
  "BINOP_EXPAND_EMIT y z w v1 v2 = w (y v1 z) (y v2 z)"

definition TRIOP_EXPAND_EMIT :: "(irvalue \<Rightarrow> ty \<Rightarrow> irvalue) \<Rightarrow> ty \<Rightarrow> (irvalue \<Rightarrow> irvalue \<Rightarrow> irvalue) \<Rightarrow> irvalue \<Rightarrow> irvalue \<Rightarrow> irvalue \<Rightarrow> irvalue" where
  "TRIOP_EXPAND_EMIT y z w v1 v2 v3 = w (y v2 z) (y v3 z)"

definition SHIFT_EMIT :: "(irvalue \<Rightarrow> irvalue \<Rightarrow> irvalue) \<Rightarrow> nat \<Rightarrow> irvalue \<Rightarrow> irvalue \<Rightarrow> irvalue" where
  "SHIFT_EMIT y b v1 v2 = y v1 (Cast ZExt (Cast Trunc v2 (get_i b)) (getType v1))"

definition DIVMOD_EMIT :: "opcode \<Rightarrow> opcode \<Rightarrow> cast_op \<Rightarrow> nat \<Rightarrow> irvalue \<Rightarrow> irvalue \<Rightarrow> irvalue" where
  "DIVMOD_EMIT ydiv yrem z w v1 v2 = (
     let v1 = Cast BitCast v1 (get_i w);
         v2 = Cast z v2 (get_i w);
         dv = BinaryOp ydiv v1 v2;
         rm = BinaryOp yrem v1 v2;
         rm = BinaryOp Shl rm (get_c w (int (w div 2)));
         dv = Cast ZExt (Cast Trunc dv (get_i (w div 2))) (get_i w)
     in BinaryOp Or dv rm)"

section \<open>Helper calls\<close>

text \<open>The return types of the helpers of \<open>support/vexops.c\<close>.\<close>

definition vexops_return :: "(string \<times> ty) list" where
  "vexops_return = [(''vexop_cls32'', get_i 32), (''vexop_cls64'', get_i 64), (''vexop_ctz64'', get_i 64),
     (''vexop_clz64'', get_i 64), (''vexop_ctz32'', get_i 32), (''vexop_clz32'', get_i 32),
     (''vexop_cmpf64'', get_i 32), (''vexop_cmpf32'', get_i 32), (''vexop_minf64'', get_d),
     (''vexop_maxf32'', get_f), (''vexop_absf64'', get_d), (''vexop_absf32'', get_f)]"

definition call_vexop :: "string \<Rightarrow> irvalue list \<Rightarrow> irvalue option" where
  "call_vexop f vs = map_option (\<lambda>t. PureCall f t vs) (map_of vexops_return f)"

definition EMIT_HELPER_UNOP :: "string \<Rightarrow> irvalue \<Rightarrow> irvalue option" where
  "EMIT_HELPER_UNOP y v = call_vexop y [v]"

definition EMIT_HELPER_BINOP :: "string \<Rightarrow> ty \<Rightarrow> irvalue \<Rightarrow> irvalue \<Rightarrow> irvalue option" where
  "EMIT_HELPER_BINOP y z v1 v2 = call_vexop y [Cast BitCast v1 z, Cast BitCast v2 z]"

definition EMIT_HELPER_UNOP_VEC :: "ty \<Rightarrow> string \<Rightarrow> irvalue \<Rightarrow> irvalue option" where
  "EMIT_HELPER_UNOP_VEC y fn v = (
     let res = Cast BitCast (get_c (getBitWidth y) 0) y;
         v = Cast BitCast v y
     in if map_of vexops_return fn = None then None
        else Some (insert_elements (getNumElements y) (\<lambda>i. the (call_vexop fn [ExtractElement v (get_32i (int i))])) res))"

section \<open>Vector operations\<close>

definition BINCMP_EMIT :: "ty \<Rightarrow> (irvalue \<Rightarrow> irvalue \<Rightarrow> irvalue) \<Rightarrow> irvalue \<Rightarrow> irvalue \<Rightarrow> irvalue" where
  "BINCMP_EMIT y z v1 v2 = (
     let v1 = Cast BitCast v1 y;
         v2 = Cast BitCast v2 y;
         result = Cast BitCast (get_c (getBitWidth y) 0) y
     in insert_elements (getNumElements y) (\<lambda>i.
          let e1 = ExtractElement v1 (get_32i (int i));
              e2 = ExtractElement v2 (get_32i (int i))
          in Select (z e1 e2) e1 e2) result)"

definition OPV_EMIT :: "ty \<Rightarrow> (irvalue \<Rightarrow> irvalue \<Rightarrow> irvalue) \<Rightarrow> irvalue \<Rightarrow> irvalue \<Rightarrow> irvalue" where
  "OPV_EMIT y z v1 v2 = z (Cast BitCast v1 y) (Cast BitCast v2 y)"

definition UNOPV_EMIT :: "ty \<Rightarrow> (irvalue \<Rightarrow> irvalue) \<Rightarrow> irvalue \<Rightarrow> irvalue" where
  "UNOPV_EMIT y z v1 = z (Cast BitCast v1 y)"

definition OPV_CMP_T_EMIT :: "ty \<Rightarrow> (irvalue \<Rightarrow> irvalue \<Rightarrow> irvalue) \<Rightarrow> ty \<Rightarrow> irvalue \<Rightarrow> irvalue \<Rightarrow> irvalue" where
  "OPV_CMP_T_EMIT y z w v1 v2 = Cast SExt (z (Cast BitCast v1 y) (Cast BitCast v2 y)) w"

definition OPV_EXT_EMIT :: "ty \<Rightarrow> cast_op \<Rightarrow> ty \<Rightarrow> nat \<Rightarrow> opcode \<Rightarrow> irvalue \<Rightarrow> irvalue \<Rightarrow> irvalue option" where
  "OPV_EXT_EMIT y z w s opc v1 v2 = (
     let v1 = Cast z (Cast BitCast v1 y) w;
         v2 = Cast z (Cast BitCast v2 y) w;
         full = BinaryOp opc v1 v2;
         shift = get_c (s * 2) (int s)
     in if getNumElements y \<le> 8 then
          (let shift = Cast ZExt shift (get_i (getBitWidth w));
               shift = Cast BitCast shift w;
               cv = take (getNumElements y) (replicate 8 0);
               shift = ShuffleVector shift shift cv
           in Some (Cast Trunc (BinaryOp LShr full shift) y))
        else None)"

text \<open>The narrowing operators assert that they are never used.\<close>

definition OPNRW_EMIT :: "ty \<Rightarrow> irvalue \<Rightarrow> irvalue \<Rightarrow> irvalue option" where
  "OPNRW_EMIT w v1 v2 = None"

definition clamp_elem :: "irvalue \<Rightarrow> irvalue \<Rightarrow> ty \<Rightarrow> irvalue \<Rightarrow> irvalue" where
  "clamp_elem c neg_c w elem = (
     let elem = Select (ICmp ICmpSGT elem c) c elem;
         elem = Select (ICmp ICmpSLT elem neg_c) neg_c elem
     in Cast Trunc elem (Scalar (getScalarType w)))"

definition OPNRWSS_EMIT :: "ty \<Rightarrow> ty \<Rightarrow> irvalue \<Rightarrow> irvalue \<Rightarrow> irvalue \<Rightarrow> irvalue \<Rightarrow> irvalue" where
  "OPNRWSS_EMIT y w c neg_c v1 v2 = (
     let v1 = Cast BitCast v1 y;
         v2 = Cast BitCast v2 y;
         result = Cast BitCast (get_c (getBitWidth w) 0) w;
         result = fold (\<lambda>i result. InsertElement result
           (clamp_elem c neg_c w (ExtractElement v2 (get_32i (int i)))) (get_32i (int i))) [0..<getNumElements y] result
     in fold (\<lambda>i result. InsertElement result
           (clamp_elem c neg_c w (ExtractElement v1 (get_32i (int i)))) (get_32i (int (i + getNumElements y)))) [0..<getNumElements y] result)"

definition SHIGH :: "nat \<Rightarrow> int \<Rightarrow> cast_op \<Rightarrow> predicate \<Rightarrow> ty \<Rightarrow> irvalue \<Rightarrow> irvalue" where
  "SHIGH w c x e v elem = (
     let hi = Cast x (get_c w c) (Scalar (getScalarType v))
     in Select (ICmp e elem hi) hi elem)"

definition SLOW :: "nat \<Rightarrow> int \<Rightarrow> cast_op \<Rightarrow> predicate \<Rightarrow> ty \<Rightarrow> irvalue \<Rightarrow> irvalue" where
  "SLOW w c x e v elem = (
     let lo = Cast x (get_c w c) (Scalar (getScalarType v))
     in Select (ICmp e elem lo) lo elem)"

definition OPSAT_EMIT :: "ty \<Rightarrow> cast_op \<Rightarrow> ty \<Rightarrow> opcode \<Rightarrow> (irvalue \<Rightarrow> irvalue) \<Rightarrow> (irvalue \<Rightarrow> irvalue) \<Rightarrow> irvalue \<Rightarrow> irvalue \<Rightarrow> irvalue" where
  "OPSAT_EMIT y ext w opc one two v1 v2 = (
     let v1 = Cast ext (Cast BitCast v1 y) w;
         v2 = Cast ext (Cast BitCast v2 y) w;
         result = Cast BitCast (get_c (getBitWidth y) 0) y;
         partial = BinaryOp opc v1 v2
     in insert_elements (getNumElements y) (\<lambda>i.
          let elem = ExtractElement partial (get_32i (int i))
          in Cast Trunc (two (one elem)) (Scalar (getScalarType y))) result)"

definition OPSATS_ADD_EMIT :: "ty \<Rightarrow> ty \<Rightarrow> nat \<Rightarrow> int \<Rightarrow> int \<Rightarrow> irvalue \<Rightarrow> irvalue \<Rightarrow> irvalue" where
  "OPSATS_ADD_EMIT b d e f g = OPSAT_EMIT b SExt d Add (SHIGH e f SExt ICmpSGT d) (SLOW e g SExt ICmpSLT d)"

definition OPSATS_SUB_EMIT :: "ty \<Rightarrow> ty \<Rightarrow> nat \<Rightarrow> int \<Rightarrow> int \<Rightarrow> irvalue \<Rightarrow> irvalue \<Rightarrow> irvalue" where
  "OPSATS_SUB_EMIT b d e f g = OPSAT_EMIT b SExt d Sub (SHIGH e f SExt ICmpSGT d) (SLOW e g SExt ICmpSLT d)"

definition OPSATU_ADD_EMIT :: "ty \<Rightarrow> ty \<Rightarrow> nat \<Rightarrow> int \<Rightarrow> int \<Rightarrow> irvalue \<Rightarrow> irvalue \<Rightarrow> irvalue" where
  "OPSATU_ADD_EMIT b d e f g = OPSAT_EMIT b ZExt d Add (SHIGH e f ZExt ICmpUGT d) (\<lambda>elem. elem)"

definition OPSATU_SUB_EMIT :: "ty \<Rightarrow> ty \<Rightarrow> nat \<Rightarrow> int \<Rightarrow> int \<Rightarrow> irvalue \<Rightarrow> irvalue \<Rightarrow> irvalue" where
  "OPSATU_SUB_EMIT b d e f g = OPSAT_EMIT b ZExt d Sub (\<lambda>elem. elem) (SLOW e g ZExt ICmpSLT d)"

definition OPAVG_EMIT :: "ty \<Rightarrow> cast_op \<Rightarrow> ty \<Rightarrow> irvalue \<Rightarrow> irvalue \<Rightarrow> irvalue" where
  "OPAVG_EMIT y ext w v1 v2 = (
     let v1 = Cast ext (Cast BitCast v1 y) w;
         v2 = Cast ext (Cast BitCast v2 y) w;
         result = Cast BitCast (get_c (getBitWidth y) 0) y;
         partial = BinaryOp Add v1 v2
     in insert_elements (getNumElements y) (\<lambda>i.
          let e = ExtractElement partial (get_32i (int i));
              e = BinaryOp Add e (get_c (getBitWidth (getType e)) 1);
              e = BinaryOp LShr e (get_c (getBitWidth (getType e)) 1)
          in Cast Trunc e (Scalar (getScalarType y))) result)"

definition OPHOP_EMIT :: "ty \<Rightarrow> opcode \<Rightarrow> cast_op \<Rightarrow> irvalue \<Rightarrow> irvalue \<Rightarrow> irvalue" where
  "OPHOP_EMIT vt aop ext v1 v2 = (
     let prim_sz = getBitWidth vt div getNumElements vt;
         v1 = Cast BitCast v1 vt;
         v2 = Cast BitCast v2 vt;
         ret = Cast BitCast (get_c (getBitWidth vt) 0) vt;
         ret = insert_elements (getNumElements vt) (\<lambda>i.
           let lhs = Cast ext (ExtractElement v1 (get_32i (int i))) (get_i (2 * prim_sz));
               rhs = Cast ext (ExtractElement v2 (get_32i (int i))) (get_i (2 * prim_sz));
               e = BinaryOp aop lhs rhs;
               e = BinaryOp LShr e (get_c (prim_sz * 2) 1)
           in Cast Trunc e (Scalar (getScalarType vt))) ret
     in Cast BitCast ret (get_i (getBitWidth vt)))"

definition OPVS_EMIT :: "ty \<Rightarrow> (irvalue \<Rightarrow> irvalue \<Rightarrow> irvalue) \<Rightarrow> irvalue \<Rightarrow> irvalue \<Rightarrow> irvalue option" where
  "OPVS_EMIT y z v1 v2 = (if getNumElements y \<le> 16 then
     (let v1 = Cast BitCast v1 y;
          v2 = Cast ZExt v2 (get_i (getBitWidth y));
          v2 = (if \<not> isConstant v2 then
                  (let v2 = Cast BitCast v2 y;
                       cv = take (getNumElements y) (replicate 16 0)
                   in ShuffleVector v2 v2 cv)
                else ConstantVector (replicate (getNumElements y) (Cast Trunc v2 (get_i (getBitWidth y div getNumElements y)))))
      in Some (z v1 v2)) else None)"

definition OPSHUF_EMIT :: "ty \<Rightarrow> irvalue \<Rightarrow> irvalue \<Rightarrow> irvalue" where
  "OPSHUF_EMIT y v1 v2 = (
     let v1 = Cast BitCast v1 y;
         v2 = Cast BitCast v2 y;
         result = Cast BitCast (get_c (getBitWidth y) 0) y
     in insert_elements (getNumElements y) (\<lambda>i.
          let perm_idx = Cast ZExt (ExtractElement v2 (get_32i (int i))) (get_i 32)
          in ExtractElement v1 perm_idx) result)"

definition EMIT_ILEAVE :: "nat list \<Rightarrow> ty \<Rightarrow> irvalue \<Rightarrow> irvalue \<Rightarrow> irvalue" where
  "EMIT_ILEAVE y w v1 v2 = (
     let v1 = Cast BitCast v1 w;
         v2 = Cast BitCast v2 w
     in ShuffleVector v1 v2 y)"

definition ileave_lo8x16 :: "nat list" where "ileave_lo8x16 = [16, 0, 17, 1, 18, 2, 19, 3, 20, 4, 21, 5, 22, 6, 23, 7]"
definition ileave_hi8x16 :: "nat list" where "ileave_hi8x16 = [24, 8, 25, 9, 26, 10, 27, 11, 28, 12, 29, 13, 30, 14, 31, 15]"
definition ileave_lo16x8 :: "nat list" where "ileave_lo16x8 = [8, 0, 9, 1, 10, 2, 11, 3]"
definition ileave_hi16x8 :: "nat list" where "ileave_hi16x8 = [12, 4, 13, 5, 14, 6, 15, 7]"
definition ileave_lo32x4 :: "nat list" where "ileave_lo32x4 = [4, 0, 5, 1]"
definition ileave_hi32x4 :: "nat list" where "ileave_hi32x4 = [6, 2, 7, 3]"
definition ileave_lo64x2 :: "nat list" where "ileave_lo64x2 = [2, 0]"
definition ileave_hi64x2 :: "nat list" where "ileave_hi64x2 = [3, 1]"
abbreviation ileave_lo8x8 :: "nat list" where "ileave_lo8x8 \<equiv> ileave_lo16x8"
abbreviation ileave_hi8x8 :: "nat list" where "ileave_hi8x8 \<equiv> ileave_hi16x8"
abbreviation ileave_lo16x4 :: "nat list" where "ileave_lo16x4 \<equiv> ileave_lo32x4"
abbreviation ileave_hi16x4 :: "nat list" where "ileave_hi16x4 \<equiv> ileave_hi32x4"
abbreviation ileave_lo32x2 :: "nat list" where "ileave_lo32x2 \<equiv> ileave_lo64x2"
abbreviation ileave_hi32x2 :: "nat list" where "ileave_hi32x2 \<equiv> ileave_hi64x2"

section \<open>Floating point\<close>

definition OPF0X_EMIT :: "ty \<Rightarrow> (irvalue \<Rightarrow> irvalue \<Rightarrow> irvalue) \<Rightarrow> irvalue \<Rightarrow> irvalue \<Rightarrow> irvalue" where
  "OPF0X_EMIT y z v1 v2 = (
     let v1 = Cast BitCast v1 y;
         v2 = Cast BitCast v2 y;
         result = z (ExtractElement v1 (get_32i 0)) (ExtractElement v2 (get_32i 0))
     in InsertElement v1 result (get_32i 0))"

definition OPF0X_CMP_EMIT :: "ty \<Rightarrow> (irvalue \<Rightarrow> irvalue \<Rightarrow> irvalue) \<Rightarrow> irvalue \<Rightarrow> irvalue \<Rightarrow> irvalue" where
  "OPF0X_CMP_EMIT y z v1 v2 = (
     let v1 = Cast BitCast v1 y;
         v2 = Cast BitCast v2 y;
         result = z (ExtractElement v1 (get_32i 0)) (ExtractElement v2 (get_32i 0));
         result = Cast SExt result (get_i (elem_bits y));
         result = Cast BitCast result (Scalar (getScalarType y))
     in InsertElement v1 result (get_32i 0))"

definition OPF0X_SEL_EMIT :: "ty \<Rightarrow> (irvalue \<Rightarrow> irvalue \<Rightarrow> irvalue) \<Rightarrow> irvalue \<Rightarrow> irvalue \<Rightarrow> irvalue" where
  "OPF0X_SEL_EMIT y z v1 v2 = (
     let v1 = Cast BitCast v1 y;
         v2 = Cast BitCast v2 y;
         a = ExtractElement v1 (get_32i 0);
         b = ExtractElement v2 (get_32i 0);
         result = Select (z a b) a b
     in InsertElement v1 result (get_32i 0))"

definition F0XINT :: "string \<Rightarrow> irvalue \<Rightarrow> irvalue" where "F0XINT z a1 = FpUnary z a1 (getType a1)"
definition F0XRCP :: "irvalue \<Rightarrow> irvalue \<Rightarrow> irvalue" where "F0XRCP c a1 = CreateFp ''FDiv'' c a1"

definition OPF0X_RSQ :: "ty \<Rightarrow> (irvalue \<Rightarrow> irvalue) \<Rightarrow> (irvalue \<Rightarrow> irvalue) \<Rightarrow> irvalue \<Rightarrow> irvalue" where
  "OPF0X_RSQ y a b v1 = (
     let v1 = Cast BitCast v1 y
     in InsertElement v1 (b (a (ExtractElement v1 (get_32i 0)))) (get_32i 0))"

definition VINT :: "string \<Rightarrow> irvalue \<Rightarrow> irvalue" where "VINT z v1 = FpUnary z v1 (getType v1)"
definition VRCP :: "irvalue \<Rightarrow> irvalue \<Rightarrow> irvalue" where "VRCP c v1 = CreateFp ''FDiv'' c v1"

definition OPV_RSQ :: "ty \<Rightarrow> (irvalue \<Rightarrow> irvalue) \<Rightarrow> (irvalue \<Rightarrow> irvalue) \<Rightarrow> irvalue \<Rightarrow> irvalue" where
  "OPV_RSQ y a b v1 = b (a (Cast BitCast v1 y))"

definition UNOP_NEG_EMIT :: "ty \<Rightarrow> irvalue \<Rightarrow> irvalue \<Rightarrow> irvalue" where
  "UNOP_NEG_EMIT y c v1 = CreateFp ''FSub'' c (Cast BitCast v1 y)"

definition g_flt_0x2 :: "irvalue list" where "g_flt_0x2 = [FLT_0, FLT_0]"
definition g_flt_0x4 :: "irvalue list" where "g_flt_0x4 = [FLT_0, FLT_0, FLT_0, FLT_0]"
definition FLT_1x4 :: irvalue where "FLT_1x4 = ConstantVector [FLT_1, FLT_1, FLT_1, FLT_1]"

definition RoundF32toInt_emit :: "irvalue \<Rightarrow> irvalue \<Rightarrow> irvalue" where
  "RoundF32toInt_emit v1 v2 = (let v2 = Cast BitCast v2 get_f in CreateFp ''FSub'' v2 (CreateFp ''FRem'' v2 FLT_1))"

definition RoundF64toInt_emit :: "irvalue \<Rightarrow> irvalue \<Rightarrow> irvalue" where
  "RoundF64toInt_emit v1 v2 = (let v2 = Cast BitCast v2 get_d in CreateFp ''FSub'' v2 (CreateFp ''FRem'' v2 DBL_1))"

definition PRemF64_emit :: "irvalue \<Rightarrow> irvalue \<Rightarrow> irvalue \<Rightarrow> irvalue" where
  "PRemF64_emit v1 v2 v3 = CreateFp ''FRem'' (Cast BitCast v2 get_d) (Cast BitCast v3 get_d)"

definition PRemC3210F64_emit :: "irvalue \<Rightarrow> irvalue \<Rightarrow> irvalue \<Rightarrow> irvalue" where
  "PRemC3210F64_emit v1 v2 v3 = (
     let v2 = Cast BitCast v2 get_d;
         v3 = Cast BitCast v3 get_d;
         quotient = CreateFp ''FDiv'' v2 v3;
         quotient = CreateFpCast ''FPToSI'' quotient (get_i 32);
         result = get_32i 0;
         result = BinaryOp Or result (Select (Cast Trunc quotient (get_i 1)) (get_32i 0x200) (get_32i 0));
         result = BinaryOp Or result (Select (Cast Trunc (BinaryOp LShr quotient (get_32i 1)) (get_i 1)) (get_32i 0x4000) (get_32i 0))
     in BinaryOp Or result (Select (Cast Trunc (BinaryOp LShr quotient (get_32i 2)) (get_i 1)) (get_32i 0x100) (get_32i 0)))"

definition MAddF64_emit :: "irvalue \<Rightarrow> irvalue \<Rightarrow> irvalue \<Rightarrow> irvalue \<Rightarrow> irvalue" where
  "MAddF64_emit v1 v2 v3 v4 = CreateFp ''FAdd'' (CreateFp ''FMul'' v2 v3) v4"

end
