(* ===== verification/Vexop_Tables.thy ===== *)
theory Vexop_Tables
  imports Vexop
begin

text \<open>
  The operators of the VEX intermediate representation: which macro each is an instance
  of and with what arguments (\<open>src/vexop.cc\<close> and \<open>src/vexop_fp.cc\<close>), and what
  \<open>getVexOpName\<close> prints for them. Operators are named as the enumeration of the library
  names them, without its prefix.
\<close>

abbreviation total1 :: "(irvalue \<Rightarrow> irvalue) \<Rightarrow> irvalue \<Rightarrow> irvalue option" where
  "total1 f \<equiv> (\<lambda>v. Some (f v))"
abbreviation total2 :: "(irvalue \<Rightarrow> irvalue \<Rightarrow> irvalue) \<Rightarrow> irvalue \<Rightarrow> irvalue \<Rightarrow> irvalue option" where
  "total2 f \<equiv> (\<lambda>v w. Some (f v w))"
abbreviation total3 :: "(irvalue \<Rightarrow> irvalue \<Rightarrow> irvalue \<Rightarrow> irvalue) \<Rightarrow> irvalue \<Rightarrow> irvalue \<Rightarrow> irvalue \<Rightarrow> irvalue option" where
  "total3 f \<equiv> (\<lambda>u v w. Some (f u v w))"

type_synonym unop_table = "(string \<times> (irvalue \<Rightarrow> irvalue option)) list"
type_synonym binop_table = "(string \<times> (irvalue \<Rightarrow> irvalue \<Rightarrow> irvalue option)) list"
type_synonym triop_table = "(string \<times> (irvalue \<Rightarrow> irvalue \<Rightarrow> irvalue \<Rightarrow> irvalue option)) list"

definition conversion_unops :: unop_table where
  "conversion_unops = [
     (''16HIto8'', total1 (XHI_TO_Y_EMIT 8 (get_i 16) (get_i 8))),
     (''64HIto32'', total1 (XHI_TO_Y_EMIT 32 (get_i 64) (get_i 32))),
     (''32HIto16'', total1 (XHI_TO_Y_EMIT 16 (get_i 32) (get_i 16))),
     (''16to8'', total1 (X_TO_Y_EMIT (Cast Trunc) (get_i 16) (get_i 8))),
     (''64to32'', total1 (X_TO_Y_EMIT (Cast Trunc) (get_i 64) (get_i 32))),
     (''32Uto64'', total1 (X_TO_Y_EMIT (Cast ZExt) (get_i 32) (get_i 64))),
     (''32Sto64'', total1 (X_TO_Y_EMIT (Cast SExt) (get_i 32) (get_i 64))),
     (''32to8'', total1 (X_TO_Y_EMIT (Cast Trunc) (get_i 32) (get_i 8))),
     (''32to16'', total1 (X_TO_Y_EMIT (Cast Trunc) (get_i 32) (get_i 16))),
     (''64to1'', total1 (X_TO_Y_EMIT (Cast Trunc) (get_i 64) (get_i 1))),
     (''32to1'', total1 (X_TO_Y_EMIT (Cast Trunc) (get_i 32) (get_i 1))),
     (''64to8'', total1 (X_TO_Y_EMIT (Cast Trunc) (get_i 64) (get_i 8))),
     (''64to16'', total1 (X_TO_Y_EMIT (Cast Trunc) (get_i 64) (get_i 16))),
     (''1Uto8'', total1 (X_TO_Y_EMIT (Cast ZExt) (get_i 1) (get_i 8))),
     (''1Uto32'', total1 (X_TO_Y_EMIT (Cast ZExt) (get_i 1) (get_i 32))),
     (''1Uto64'', total1 (X_TO_Y_EMIT (Cast ZExt) (get_i 1) (get_i 64))),
     (''16Uto64'', total1 (X_TO_Y_EMIT (Cast ZExt) (get_i 16) (get_i 64))),
     (''16Sto64'', total1 (X_TO_Y_EMIT (Cast SExt) (get_i 16) (get_i 64))),
     (''16Uto32'', total1 (X_TO_Y_EMIT (Cast ZExt) (get_i 16) (get_i 32))),
     (''16Sto32'', total1 (X_TO_Y_EMIT (Cast SExt) (get_i 16) (get_i 32))),
     (''8Uto16'', total1 (X_TO_Y_EMIT (Cast ZExt) (get_i 8) (get_i 16))),
     (''8Sto16'', total1 (X_TO_Y_EMIT (Cast SExt) (get_i 8) (get_i 16))),
     (''8Uto32'', total1 (X_TO_Y_EMIT (Cast ZExt) (get_i 8) (get_i 32))),
     (''8Sto32'', total1 (X_TO_Y_EMIT (Cast SExt) (get_i 8) (get_i 32))),
     (''8Uto64'', total1 (X_TO_Y_EMIT (Cast ZExt) (get_i 8) (get_i 64))),
     (''8Sto64'', total1 (X_TO_Y_EMIT (Cast SExt) (get_i 8) (get_i 64))),
     (''128to64'', total1 (X_TO_Y_EMIT (Cast Trunc) (get_i 128) (get_i 64))), (''Not1'', total1 (CreateNot)),
     (''Not8'', total1 (CreateNot)), (''Not16'', total1 (CreateNot)), (''Not32'', total1 (CreateNot)),
     (''Not64'', total1 (CreateNot)),
     (''ReinterpF64asI64'', total1 (X_TO_Y_EMIT (Cast BitCast) get_d (get_i 64))),
     (''ReinterpI64asF64'', total1 (X_TO_Y_EMIT (Cast BitCast) (get_i 64) get_d)),
     (''ReinterpF32asI32'', total1 (X_TO_Y_EMIT (Cast BitCast) get_f (get_i 32))),
     (''ReinterpI32asF32'', total1 (X_TO_Y_EMIT (Cast BitCast) (get_i 32) get_f))]"

definition set_elem_triops :: triop_table where
  "set_elem_triops = [
     (''SetElem8x8'', total3 (SET_ELEM_EMIT 8 8)), (''SetElem32x2'', total3 (SET_ELEM_EMIT 32 2))]"

definition get_elem_binops :: binop_table where
  "get_elem_binops = [
     (''GetElem8x8'', total2 (GET_ELEM_EMIT 8 8)), (''GetElem32x2'', total2 (GET_ELEM_EMIT 32 2))]"

definition getmsbs_unops :: unop_table where
  "getmsbs_unops = [
     (''GetMSBs8x16'', total1 (GETMSBS_8xN_EMIT 16)), (''GetMSBs8x8'', total1 (GETMSBS_8xN_EMIT 8))]"

definition concat_binops :: binop_table where
  "concat_binops = [
     (''16HLto32'', total2 (X_HL_TO_Y_EMIT 16 32)), (''8HLto16'', total2 (X_HL_TO_Y_EMIT 8 16)),
     (''32HLto64'', total2 (X_HL_TO_Y_EMIT 32 64))]"

definition arith_binops :: binop_table where
  "arith_binops = [
     (''Add8'', total2 (BINOP_EMIT (BinaryOp Add))), (''Add16'', total2 (BINOP_EMIT (BinaryOp Add))),
     (''Add32'', total2 (BINOP_EMIT (BinaryOp Add))), (''Add64'', total2 (BINOP_EMIT (BinaryOp Add))),
     (''And8'', total2 (BINOP_EMIT (BinaryOp And))), (''And16'', total2 (BINOP_EMIT (BinaryOp And))),
     (''And32'', total2 (BINOP_EMIT (BinaryOp And))), (''And64'', total2 (BINOP_EMIT (BinaryOp And))),
     (''Mul8'', total2 (BINOP_EMIT (BinaryOp Mul))), (''Mul16'', total2 (BINOP_EMIT (BinaryOp Mul))),
     (''Mul32'', total2 (BINOP_EMIT (BinaryOp Mul))), (''Mul64'', total2 (BINOP_EMIT (BinaryOp Mul)))]"

definition widening_binops :: binop_table where
  "widening_binops = [
     (''MullS8'', total2 (BINOP_EXPAND_EMIT (Cast SExt) (get_i 16) (BinaryOp Mul))),
     (''MullS16'', total2 (BINOP_EXPAND_EMIT (Cast SExt) (get_i 32) (BinaryOp Mul))),
     (''MullS32'', total2 (BINOP_EXPAND_EMIT (Cast SExt) (get_i 64) (BinaryOp Mul))),
     (''MullS64'', total2 (BINOP_EXPAND_EMIT (Cast SExt) (get_i 128) (BinaryOp Mul))),
     (''MullU8'', total2 (BINOP_EXPAND_EMIT (Cast ZExt) (get_i 16) (BinaryOp Mul))),
     (''MullU16'', total2 (BINOP_EXPAND_EMIT (Cast ZExt) (get_i 32) (BinaryOp Mul))),
     (''MullU32'', total2 (BINOP_EXPAND_EMIT (Cast ZExt) (get_i 64) (BinaryOp Mul))),
     (''MullU64'', total2 (BINOP_EXPAND_EMIT (Cast ZExt) (get_i 128) (BinaryOp Mul))),
     (''Max8Ux8'', total2 (BINCMP_EMIT (get_vt 8 8) (ICmp ICmpUGT))),
     (''Max8Ux16'', total2 (BINCMP_EMIT (get_vt 16 8) (ICmp ICmpUGT))),
     (''Max16Sx4'', total2 (BINCMP_EMIT (get_vt 4 16) (ICmp ICmpSGT))),
     (''Max16Sx8'', total2 (BINCMP_EMIT (get_vt 8 16) (ICmp ICmpSGT))),
     (''Min8Ux8'', total2 (BINCMP_EMIT (get_vt 8 8) (ICmp ICmpULT))),
     (''Min8Ux16'', total2 (BINCMP_EMIT (get_vt 16 8) (ICmp ICmpULT))),
     (''Min16Sx4'', total2 (BINCMP_EMIT (get_vt 4 16) (ICmp ICmpSLT))),
     (''Min16Sx8'', total2 (BINCMP_EMIT (get_vt 8 16) (ICmp ICmpSLT))),
     (''Or8'', total2 (BINOP_EMIT (BinaryOp Or))), (''Or16'', total2 (BINOP_EMIT (BinaryOp Or))),
     (''Or32'', total2 (BINOP_EMIT (BinaryOp Or))), (''Or64'', total2 (BINOP_EMIT (BinaryOp Or)))]"

definition shift_binops :: binop_table where
  "shift_binops = [
     (''Shl8'', total2 (SHIFT_EMIT (BinaryOp Shl) 3)), (''Shl16'', total2 (SHIFT_EMIT (BinaryOp Shl) 4)),
     (''Shl32'', total2 (SHIFT_EMIT (BinaryOp Shl) 5)), (''Shl64'', total2 (SHIFT_EMIT (BinaryOp Shl) 6)),
     (''Shr8'', total2 (SHIFT_EMIT (BinaryOp LShr) 3)), (''Shr16'', total2 (SHIFT_EMIT (BinaryOp LShr) 4)),
     (''Shr32'', total2 (SHIFT_EMIT (BinaryOp LShr) 5)), (''Shr64'', total2 (SHIFT_EMIT (BinaryOp LShr) 6)),
     (''Sar8'', total2 (SHIFT_EMIT (BinaryOp AShr) 3)), (''Sar16'', total2 (SHIFT_EMIT (BinaryOp AShr) 4)),
     (''Sar32'', total2 (SHIFT_EMIT (BinaryOp AShr) 5)), (''Sar64'', total2 (SHIFT_EMIT (BinaryOp AShr) 6)),
     (''Sub8'', total2 (BINOP_EMIT (BinaryOp Sub))), (''Sub16'', total2 (BINOP_EMIT (BinaryOp Sub))),
     (''Sub32'', total2 (BINOP_EMIT (BinaryOp Sub))), (''Sub64'', total2 (BINOP_EMIT (BinaryOp Sub))),
     (''Xor8'', total2 (BINOP_EMIT (BinaryOp Xor))), (''Xor16'', total2 (BINOP_EMIT (BinaryOp Xor))),
     (''Xor32'', total2 (BINOP_EMIT (BinaryOp Xor))), (''Xor64'', total2 (BINOP_EMIT (BinaryOp Xor))),
     (''CmpEQ8'', total2 (BINOP_EMIT (ICmp ICmpEQ))), (''CmpEQ16'', total2 (BINOP_EMIT (ICmp ICmpEQ))),
     (''CmpEQ32'', total2 (BINOP_EMIT (ICmp ICmpEQ))), (''CmpEQ64'', total2 (BINOP_EMIT (ICmp ICmpEQ))),
     (''CmpNE8'', total2 (BINOP_EMIT (ICmp ICmpNE))), (''CmpNE16'', total2 (BINOP_EMIT (ICmp ICmpNE))),
     (''CmpNE32'', total2 (BINOP_EMIT (ICmp ICmpNE))), (''CmpNE64'', total2 (BINOP_EMIT (ICmp ICmpNE))),
     (''ExpCmpNE8'', total2 (BINOP_EMIT (ICmp ICmpNE))), (''ExpCmpNE16'', total2 (BINOP_EMIT (ICmp ICmpNE))),
     (''ExpCmpNE32'', total2 (BINOP_EMIT (ICmp ICmpNE))), (''ExpCmpNE64'', total2 (BINOP_EMIT (ICmp ICmpNE))),
     (''CasCmpEQ8'', total2 (BINOP_EMIT (ICmp ICmpEQ))), (''CasCmpEQ16'', total2 (BINOP_EMIT (ICmp ICmpEQ))),
     (''CasCmpEQ32'', total2 (BINOP_EMIT (ICmp ICmpEQ))), (''CasCmpEQ64'', total2 (BINOP_EMIT (ICmp ICmpEQ))),
     (''CasCmpNE8'', total2 (BINOP_EMIT (ICmp ICmpNE))), (''CasCmpNE16'', total2 (BINOP_EMIT (ICmp ICmpNE))),
     (''CasCmpNE32'', total2 (BINOP_EMIT (ICmp ICmpNE))), (''CasCmpNE64'', total2 (BINOP_EMIT (ICmp ICmpNE)))]"

definition divmod_binops :: binop_table where
  "divmod_binops = [
     (''DivModU128to64'', total2 (DIVMOD_EMIT UDiv URem ZExt 128)),
     (''DivModS128to64'', total2 (DIVMOD_EMIT SDiv SRem SExt 128)),
     (''DivModU64to32'', total2 (DIVMOD_EMIT UDiv URem ZExt 64)),
     (''DivModS64to32'', total2 (DIVMOD_EMIT SDiv SRem SExt 64))]"

definition compare_binops :: binop_table where
  "compare_binops = [
     (''CmpLE64S'', total2 (BINOP_EMIT (ICmp ICmpSLE))), (''CmpLE64U'', total2 (BINOP_EMIT (ICmp ICmpULE))),
     (''CmpLT64S'', total2 (BINOP_EMIT (ICmp ICmpSLT))), (''CmpLT64U'', total2 (BINOP_EMIT (ICmp ICmpULT))),
     (''CmpLE32S'', total2 (BINOP_EMIT (ICmp ICmpSLE))), (''CmpLE32U'', total2 (BINOP_EMIT (ICmp ICmpULE))),
     (''CmpLT32S'', total2 (BINOP_EMIT (ICmp ICmpSLT))), (''CmpLT32U'', total2 (BINOP_EMIT (ICmp ICmpULT)))]"

definition count_unops :: unop_table where
  "count_unops = [
     (''Ctz64'', EMIT_HELPER_UNOP ''vexop_ctz64''), (''Clz64'', EMIT_HELPER_UNOP ''vexop_clz64''),
     (''Ctz32'', EMIT_HELPER_UNOP ''vexop_ctz32''), (''Clz32'', EMIT_HELPER_UNOP ''vexop_clz32'')]"

definition cls_abs_unops :: unop_table where
  "cls_abs_unops = [
     (''Cls32x4'', EMIT_HELPER_UNOP_VEC (get_vt 32 4) ''vexop_cls32''),
     (''Cls32x2'', EMIT_HELPER_UNOP_VEC (get_vt 32 2) ''vexop_cls32''),
     (''AbsF64'', EMIT_HELPER_UNOP ''vexop_absf64''), (''AbsF32'', EMIT_HELPER_UNOP ''vexop_absf32'')]"

definition interleave_binops :: binop_table where
  "interleave_binops = [
     (''InterleaveLO8x8'', total2 (EMIT_ILEAVE ileave_lo8x8 (get_vt 8 8))),
     (''InterleaveHI8x8'', total2 (EMIT_ILEAVE ileave_hi8x8 (get_vt 8 8))),
     (''InterleaveLO8x16'', total2 (EMIT_ILEAVE ileave_lo8x16 (get_vt 16 8))),
     (''InterleaveHI8x16'', total2 (EMIT_ILEAVE ileave_hi8x16 (get_vt 16 8))),
     (''InterleaveLO16x4'', total2 (EMIT_ILEAVE ileave_lo16x4 (get_vt 4 16))),
     (''InterleaveHI16x4'', total2 (EMIT_ILEAVE ileave_hi16x4 (get_vt 4 16))),
     (''InterleaveLO16x8'', total2 (EMIT_ILEAVE ileave_lo16x8 (get_vt 8 16))),
     (''InterleaveHI16x8'', total2 (EMIT_ILEAVE ileave_hi16x8 (get_vt 8 16))),
     (''InterleaveLO32x2'', total2 (EMIT_ILEAVE ileave_lo32x2 (get_vt 2 32))),
     (''InterleaveHI32x2'', total2 (EMIT_ILEAVE ileave_hi32x2 (get_vt 2 32))),
     (''InterleaveLO32x4'', total2 (EMIT_ILEAVE ileave_lo32x4 (get_vt 4 32))),
     (''InterleaveHI32x4'', total2 (EMIT_ILEAVE ileave_hi32x4 (get_vt 4 32))),
     (''InterleaveLO64x2'', total2 (EMIT_ILEAVE ileave_lo64x2 (get_vt 2 64))),
     (''InterleaveHI64x2'', total2 (EMIT_ILEAVE ileave_hi64x2 (get_vt 2 64)))]"

definition v128_binops :: binop_table where
  "v128_binops = [
     (''OrV128'', total2 (OPV_EMIT (get_i 128) (BinaryOp Or))),
     (''XorV128'', total2 (OPV_EMIT (get_i 128) (BinaryOp Xor))),
     (''AndV128'', total2 (OPV_EMIT (get_i 128) (BinaryOp And)))]"

definition v128_unops :: unop_table where
  "v128_unops = [
     (''NotV128'', total1 (UNOPV_EMIT (get_i 128) CreateNot))]"

definition vector_binops :: binop_table where
  "vector_binops = [
     (''Shl8x8'', total2 (OPV_EMIT (get_vt 8 8) (BinaryOp Shl))),
     (''Shr8x8'', total2 (OPV_EMIT (get_vt 8 8) (BinaryOp LShr))),
     (''Sar8x8'', total2 (OPV_EMIT (get_vt 8 8) (BinaryOp AShr))),
     (''Sal8x8'', total2 (OPV_EMIT (get_vt 8 8) (BinaryOp Shl))),
     (''Shl8x16'', total2 (OPV_EMIT (get_vt 16 8) (BinaryOp Shl))),
     (''Shr8x16'', total2 (OPV_EMIT (get_vt 16 8) (BinaryOp LShr))),
     (''Sar8x16'', total2 (OPV_EMIT (get_vt 16 8) (BinaryOp AShr))),
     (''Sal8x16'', total2 (OPV_EMIT (get_vt 16 8) (BinaryOp Shl))),
     (''Shl16x4'', total2 (OPV_EMIT (get_vt 4 16) (BinaryOp Shl))),
     (''Shr16x4'', total2 (OPV_EMIT (get_vt 4 16) (BinaryOp LShr))),
     (''Sar16x4'', total2 (OPV_EMIT (get_vt 4 16) (BinaryOp AShr))),
     (''Sal16x4'', total2 (OPV_EMIT (get_vt 4 16) (BinaryOp Shl))),
     (''Shl16x8'', total2 (OPV_EMIT (get_vt 8 16) (BinaryOp Shl))),
     (''Shr16x8'', total2 (OPV_EMIT (get_vt 8 16) (BinaryOp LShr))),
     (''Sar16x8'', total2 (OPV_EMIT (get_vt 8 16) (BinaryOp AShr))),
     (''Sal16x8'', total2 (OPV_EMIT (get_vt 8 16) (BinaryOp Shl))),
     (''Shl32x2'', total2 (OPV_EMIT (get_vt 2 32) (BinaryOp Shl))),
     (''Shr32x2'', total2 (OPV_EMIT (get_vt 2 32) (BinaryOp LShr))),
     (''Sar32x2'', total2 (OPV_EMIT (get_vt 2 32) (BinaryOp AShr))),
     (''Sal32x2'', total2 (OPV_EMIT (get_vt 2 32) (BinaryOp Shl))),
     (''Shl32x4'', total2 (OPV_EMIT (get_vt 4 32) (BinaryOp Shl))),
     (''Shr32x4'', total2 (OPV_EMIT (get_vt 4 32) (BinaryOp LShr))),
     (''Sar32x4'', total2 (OPV_EMIT (get_vt 4 32) (BinaryOp AShr))),
     (''Sal32x4'', total2 (OPV_EMIT (get_vt 4 32) (BinaryOp Shl))),
     (''Shl64x2'', total2 (OPV_EMIT (get_vt 2 64) (BinaryOp Shl))),
     (''Shr64x2'', total2 (OPV_EMIT (get_vt 2 64) (BinaryOp LShr))),
     (''Sar64x2'', total2 (OPV_EMIT (get_vt 2 64) (BinaryOp AShr))),
     (''Sal64x2'', total2 (OPV_EMIT (get_vt 2 64) (BinaryOp Shl))),
     (''Add8x8'', total2 (OPV_EMIT (get_vt 8 8) (BinaryOp Add))),
     (''Add8x16'', total2 (OPV_EMIT (get_vt 16 8) (BinaryOp Add))),
     (''Add16x4'', total2 (OPV_EMIT (get_vt 4 16) (BinaryOp Add))),
     (''Add16x8'', total2 (OPV_EMIT (get_vt 8 16) (BinaryOp Add))),
     (''Add32x2'', total2 (OPV_EMIT (get_vt 2 32) (BinaryOp Add))),
     (''Add32x4'', total2 (OPV_EMIT (get_vt 4 32) (BinaryOp Add))),
     (''Add64x2'', total2 (OPV_EMIT (get_vt 2 64) (BinaryOp Add))),
     (''Sub8x8'', total2 (OPV_EMIT (get_vt 8 8) (BinaryOp Sub))),
     (''Sub8x16'', total2 (OPV_EMIT (get_vt 16 8) (BinaryOp Sub))),
     (''Sub16x4'', total2 (OPV_EMIT (get_vt 4 16) (BinaryOp Sub))),
     (''Sub16x8'', total2 (OPV_EMIT (get_vt 8 16) (BinaryOp Sub))),
     (''Sub32x2'', total2 (OPV_EMIT (get_vt 2 32) (BinaryOp Sub))),
     (''Sub32x4'', total2 (OPV_EMIT (get_vt 4 32) (BinaryOp Sub))),
     (''Sub64x2'', total2 (OPV_EMIT (get_vt 2 64) (BinaryOp Sub))),
     (''Mul8x8'', total2 (OPV_EMIT (get_vt 8 8) (BinaryOp Mul))),
     (''Mul8x16'', total2 (OPV_EMIT (get_vt 16 8) (BinaryOp Mul))),
     (''Mul16x4'', total2 (OPV_EMIT (get_vt 4 16) (BinaryOp Mul))),
     (''Mul16x8'', total2 (OPV_EMIT (get_vt 8 16) (BinaryOp Mul))),
     (''Mul32x2'', total2 (OPV_EMIT (get_vt 2 32) (BinaryOp Mul))),
     (''Mul32x4'', total2 (OPV_EMIT (get_vt 4 32) (BinaryOp Mul)))]"

definition mulhi_binops :: binop_table where
  "mulhi_binops = [
     (''MulHi16Ux4'', OPV_EXT_EMIT (get_vt 4 16) ZExt (get_vt 4 32) 16 Mul),
     (''MulHi16Sx4'', OPV_EXT_EMIT (get_vt 4 16) SExt (get_vt 4 32) 16 Mul),
     (''MulHi16Ux8'', OPV_EXT_EMIT (get_vt 8 16) ZExt (get_vt 8 32) 16 Mul),
     (''MulHi16Sx8'', OPV_EXT_EMIT (get_vt 8 16) SExt (get_vt 8 32) 16 Mul),
     (''MulHi32Ux4'', OPV_EXT_EMIT (get_vt 4 32) ZExt (get_vt 4 64) 32 Mul),
     (''MulHi32Sx4'', OPV_EXT_EMIT (get_vt 4 32) SExt (get_vt 4 64) 32 Mul)]"

definition narrow_binops :: binop_table where
  "narrow_binops = [
     (''NarrowBin16to8x16'', OPNRW_EMIT (get_vt 16 8)), (''NarrowBin32to16x8'', OPNRW_EMIT (get_vt 8 16))]"

definition qnarrow_binops :: binop_table where
  "qnarrow_binops = [
     (''QNarrowUn16Sto8Ux8'', total2 (OPNRWSS_EMIT (get_vt 4 16) (get_vt 8 8) (get_c 16 255) (get_c 16 0))),
     (''QNarrowBin16Sto8Ux16'', total2 (OPNRWSS_EMIT (get_vt 8 16) (get_vt 16 8) (get_c 16 255) (get_c 16 0))),
     (''QNarrowBin16Sto8Ux8'', total2 (OPNRWSS_EMIT (get_vt 4 16) (get_vt 8 8) (get_c 16 255) (get_c 16 0))),
     (''QNarrowBin32Sto16Ux8'', total2 (OPNRWSS_EMIT (get_vt 4 32) (get_vt 8 16) (get_c 32 65535) (get_c 32 0))),
     (''QNarrowBin16Sto8Sx8'', total2 (OPNRWSS_EMIT (get_vt 4 16) (get_vt 8 8) (get_c 16 127) (get_c 16 65408))),
     (''QNarrowBin16Sto8Sx16'', total2 (OPNRWSS_EMIT (get_vt 8 16) (get_vt 16 8) (get_c 16 127) (get_c 16 65408))),
     (''QNarrowBin32Sto16Sx4'', total2 (OPNRWSS_EMIT (get_vt 2 32) (get_vt 4 16) (get_c 32 32767) (get_c 32 4294934528))),
     (''QNarrowBin32Sto16Sx8'', total2 (OPNRWSS_EMIT (get_vt 4 32) (get_vt 8 16) (get_c 32 32767) (get_c 32 4294934528)))]"

definition sats_binops :: binop_table where
  "sats_binops = [
     
     (''QAdd64Sx1'', total2 (OPSATS_ADD_EMIT (get_vt 1 64) (get_vt 1 65) 64 9223372036854775807 9223372036854775808)),
     (''QSub64Sx1'', total2 (OPSATS_SUB_EMIT (get_vt 1 64) (get_vt 1 65) 64 9223372036854775807 9223372036854775808)),
     (''QAdd64Sx2'', total2 (OPSATS_ADD_EMIT (get_vt 2 64) (get_vt 2 65) 64 9223372036854775807 9223372036854775808)),
     (''QSub64Sx2'', total2 (OPSATS_SUB_EMIT (get_vt 2 64) (get_vt 2 65) 64 9223372036854775807 9223372036854775808)),
     (''QAdd32Sx2'', total2 (OPSATS_ADD_EMIT (get_vt 2 32) (get_vt 2 33) 32 2147483647 2147483648)),
     (''QSub32Sx2'', total2 (OPSATS_SUB_EMIT (get_vt 2 32) (get_vt 2 33) 32 2147483647 2147483648)),
     (''QAdd32Sx4'', total2 (OPSATS_ADD_EMIT (get_vt 4 32) (get_vt 4 33) 32 2147483647 2147483648)),
     (''QSub32Sx4'', total2 (OPSATS_SUB_EMIT (get_vt 4 32) (get_vt 4 33) 32 2147483647 2147483648)),
     (''QAdd16Sx2'', total2 (OPSATS_ADD_EMIT (get_vt 2 16) (get_vt 2 17) 16 32767 32768)),
     (''QSub16Sx2'', total2 (OPSATS_SUB_EMIT (get_vt 2 16) (get_vt 2 17) 16 32767 32768)),
     (''QAdd16Sx4'', total2 (OPSATS_ADD_EMIT (get_vt 4 16) (get_vt 4 17) 16 32767 32768)),
     (''QSub16Sx4'', total2 (OPSATS_SUB_EMIT (get_vt 4 16) (get_vt 4 17) 16 32767 32768)),
     (''QAdd16Sx8'', total2 (OPSATS_ADD_EMIT (get_vt 8 16) (get_vt 8 17) 16 32767 32768)),
     (''QSub16Sx8'', total2 (OPSATS_SUB_EMIT (get_vt 8 16) (get_vt 8 17) 16 32767 32768)),
     (''QAdd8Sx4'', total2 (OPSATS_ADD_EMIT (get_vt 4 8) (get_vt 4 9) 8 127 128)),
     (''QSub8Sx4'', total2 (OPSATS_SUB_EMIT (get_vt 4 8) (get_vt 4 9) 8 127 128)),
     (''QAdd8Sx8'', total2 (OPSATS_ADD_EMIT (get_vt 8 8) (get_vt 8 9) 8 127 128)),
     (''QSub8Sx8'', total2 (OPSATS_SUB_EMIT (get_vt 8 8) (get_vt 8 9) 8 127 128)),
     (''QAdd8Sx16'', total2 (OPSATS_ADD_EMIT (get_vt 16 8) (get_vt 16 9) 8 127 128)),
     (''QSub8Sx16'', total2 (OPSATS_SUB_EMIT (get_vt 16 8) (get_vt 16 9) 8 127 128))]"

definition satu_binops :: binop_table where
  "satu_binops = [
     (''QAdd64Ux1'', total2 (OPSATU_ADD_EMIT (get_vt 1 64) (get_vt 1 65) 64 18446744073709551615 0)),
     (''QSub64Ux1'', total2 (OPSATU_SUB_EMIT (get_vt 1 64) (get_vt 1 65) 64 18446744073709551615 0)),
     (''QAdd64Ux2'', total2 (OPSATU_ADD_EMIT (get_vt 2 64) (get_vt 2 65) 64 18446744073709551615 0)),
     (''QSub64Ux2'', total2 (OPSATU_SUB_EMIT (get_vt 2 64) (get_vt 2 65) 64 18446744073709551615 0)),
     (''QAdd32Ux2'', total2 (OPSATU_ADD_EMIT (get_vt 2 32) (get_vt 2 33) 32 4294967295 0)),
     (''QSub32Ux2'', total2 (OPSATU_SUB_EMIT (get_vt 2 32) (get_vt 2 33) 32 4294967295 0)),
     (''QAdd32Ux4'', total2 (OPSATU_ADD_EMIT (get_vt 4 32) (get_vt 4 33) 32 4294967295 0)),
     (''QSub32Ux4'', total2 (OPSATU_SUB_EMIT (get_vt 4 32) (get_vt 4 33) 32 4294967295 0)),
     (''QAdd16Ux2'', total2 (OPSATU_ADD_EMIT (get_vt 2 16) (get_vt 2 17) 16 65535 0)),
     (''QSub16Ux2'', total2 (OPSATU_SUB_EMIT (get_vt 2 16) (get_vt 2 17) 16 65535 0)),
     (''QAdd16Ux4'', total2 (OPSATU_ADD_EMIT (get_vt 4 16) (get_vt 4 17) 16 65535 0)),
     (''QSub16Ux4'', total2 (OPSATU_SUB_EMIT (get_vt 4 16) (get_vt 4 17) 16 65535 0)),
     (''QAdd16Ux8'', total2 (OPSATU_ADD_EMIT (get_vt 8 16) (get_vt 8 17) 16 65535 0)),
     (''QSub16Ux8'', total2 (OPSATU_SUB_EMIT (get_vt 8 16) (get_vt 8 17) 16 65535 0)),
     (''QAdd8Ux4'', total2 (OPSATU_ADD_EMIT (get_vt 4 8) (get_vt 4 9) 8 255 0)),
     (''QSub8Ux4'', total2 (OPSATU_SUB_EMIT (get_vt 4 8) (get_vt 4 9) 8 255 0)),
     (''QAdd8Ux8'', total2 (OPSATU_ADD_EMIT (get_vt 8 8) (get_vt 8 9) 8 255 0)),
     (''QSub8Ux8'', total2 (OPSATU_SUB_EMIT (get_vt 8 8) (get_vt 8 9) 8 255 0)),
     (''QAdd8Ux16'', total2 (OPSATU_ADD_EMIT (get_vt 16 8) (get_vt 16 9) 8 255 0)),
     (''QSub8Ux16'', total2 (OPSATU_SUB_EMIT (get_vt 16 8) (get_vt 16 9) 8 255 0))]"

definition avg_binops :: binop_table where
  "avg_binops = [
     (''Avg8Ux8'', total2 (OPAVG_EMIT (get_vt 8 8) ZExt (get_vt 8 16))),
     (''Avg8Ux16'', total2 (OPAVG_EMIT (get_vt 16 8) ZExt (get_vt 16 16))),
     (''Avg8Sx16'', total2 (OPAVG_EMIT (get_vt 16 8) SExt (get_vt 16 16))),
     (''Avg16Ux4'', total2 (OPAVG_EMIT (get_vt 4 16) ZExt (get_vt 4 32))),
     (''Avg16Ux8'', total2 (OPAVG_EMIT (get_vt 8 16) ZExt (get_vt 8 32))),
     (''Avg16Sx8'', total2 (OPAVG_EMIT (get_vt 8 16) SExt (get_vt 8 32))),
     (''Avg32Ux4'', total2 (OPAVG_EMIT (get_vt 4 32) ZExt (get_vt 4 64))),
     (''Avg32Sx4'', total2 (OPAVG_EMIT (get_vt 4 32) SExt (get_vt 4 64)))]"

definition half_compare_binops :: binop_table where
  "half_compare_binops = [
     (''HAdd16Ux2'', total2 (OPHOP_EMIT (get_vt 2 16) Add ZExt)),
     (''HAdd16Sx2'', total2 (OPHOP_EMIT (get_vt 2 16) Add SExt)),
     (''HSub16Ux2'', total2 (OPHOP_EMIT (get_vt 2 16) Sub ZExt)),
     (''HSub16Sx2'', total2 (OPHOP_EMIT (get_vt 2 16) Sub SExt)),
     (''HAdd8Ux4'', total2 (OPHOP_EMIT (get_vt 4 8) Add ZExt)),
     (''HAdd8Sx4'', total2 (OPHOP_EMIT (get_vt 4 8) Add SExt)),
     (''HSub8Ux4'', total2 (OPHOP_EMIT (get_vt 4 8) Sub ZExt)),
     (''HSub8Sx4'', total2 (OPHOP_EMIT (get_vt 4 8) Sub SExt)),
     (''CmpEQ8x8'', total2 (OPV_CMP_T_EMIT (get_vt 8 8) (ICmp ICmpEQ) (get_vt 8 8))),
     (''CmpEQ8x16'', total2 (OPV_CMP_T_EMIT (get_vt 16 8) (ICmp ICmpEQ) (get_vt 16 8))),
     (''CmpEQ16x4'', total2 (OPV_CMP_T_EMIT (get_vt 4 16) (ICmp ICmpEQ) (get_vt 4 16))),
     (''CmpEQ16x8'', total2 (OPV_CMP_T_EMIT (get_vt 8 16) (ICmp ICmpEQ) (get_vt 8 16))),
     (''CmpEQ32x2'', total2 (OPV_CMP_T_EMIT (get_vt 2 32) (ICmp ICmpEQ) (get_vt 2 32))),
     (''CmpEQ32x4'', total2 (OPV_CMP_T_EMIT (get_vt 4 32) (ICmp ICmpEQ) (get_vt 4 32))),
     (''CmpGT8Sx8'', total2 (OPV_CMP_T_EMIT (get_vt 8 8) (ICmp ICmpSGT) (get_vt 8 8))),
     (''CmpGT8Sx16'', total2 (OPV_CMP_T_EMIT (get_vt 16 8) (ICmp ICmpSGT) (get_vt 16 8))),
     (''CmpGT16Sx4'', total2 (OPV_CMP_T_EMIT (get_vt 4 16) (ICmp ICmpSGT) (get_vt 4 16))),
     (''CmpGT16Sx8'', total2 (OPV_CMP_T_EMIT (get_vt 8 16) (ICmp ICmpSGT) (get_vt 8 16))),
     (''CmpGT32Sx2'', total2 (OPV_CMP_T_EMIT (get_vt 2 32) (ICmp ICmpSGT) (get_vt 2 32))),
     (''CmpGT32Sx4'', total2 (OPV_CMP_T_EMIT (get_vt 4 32) (ICmp ICmpSGT) (get_vt 4 32))),
     (''CmpGT64Sx2'', total2 (OPV_CMP_T_EMIT (get_vt 2 64) (ICmp ICmpSGT) (get_vt 2 64))),
     (''CmpGT8Ux8'', total2 (OPV_CMP_T_EMIT (get_vt 8 8) (ICmp ICmpUGT) (get_vt 8 8))),
     (''CmpGT8Ux16'', total2 (OPV_CMP_T_EMIT (get_vt 16 8) (ICmp ICmpUGT) (get_vt 16 8))),
     (''CmpGT16Ux4'', total2 (OPV_CMP_T_EMIT (get_vt 4 16) (ICmp ICmpUGT) (get_vt 4 16))),
     (''CmpGT16Ux8'', total2 (OPV_CMP_T_EMIT (get_vt 8 16) (ICmp ICmpUGT) (get_vt 8 16))),
     (''CmpGT32Ux2'', total2 (OPV_CMP_T_EMIT (get_vt 2 32) (ICmp ICmpUGT) (get_vt 2 32))),
     (''CmpGT32Ux4'', total2 (OPV_CMP_T_EMIT (get_vt 4 32) (ICmp ICmpUGT) (get_vt 4 32)))]"

definition shift_by_binops :: binop_table where
  "shift_by_binops = [
     (''ShlN8x8'', OPVS_EMIT (get_vt 8 8) (BinaryOp Shl)),
     (''SarN8x8'', OPVS_EMIT (get_vt 8 8) (BinaryOp AShr)),
     (''ShrN8x8'', OPVS_EMIT (get_vt 8 8) (BinaryOp LShr)),
     (''ShlN8x16'', OPVS_EMIT (get_vt 16 8) (BinaryOp Shl)),
     (''SarN8x16'', OPVS_EMIT (get_vt 16 8) (BinaryOp AShr)),
     (''ShrN8x16'', OPVS_EMIT (get_vt 16 8) (BinaryOp LShr)),
     (''ShlN16x4'', OPVS_EMIT (get_vt 4 16) (BinaryOp Shl)),
     (''SarN16x4'', OPVS_EMIT (get_vt 4 16) (BinaryOp AShr)),
     (''ShrN16x4'', OPVS_EMIT (get_vt 4 16) (BinaryOp LShr)),
     (''ShlN16x8'', OPVS_EMIT (get_vt 8 16) (BinaryOp Shl)),
     (''SarN16x8'', OPVS_EMIT (get_vt 8 16) (BinaryOp AShr)),
     (''ShrN16x8'', OPVS_EMIT (get_vt 8 16) (BinaryOp LShr)),
     (''ShlN32x2'', OPVS_EMIT (get_vt 2 32) (BinaryOp Shl)),
     (''SarN32x2'', OPVS_EMIT (get_vt 2 32) (BinaryOp AShr)),
     (''ShrN32x2'', OPVS_EMIT (get_vt 2 32) (BinaryOp LShr)),
     (''ShlN32x4'', OPVS_EMIT (get_vt 4 32) (BinaryOp Shl)),
     (''SarN32x4'', OPVS_EMIT (get_vt 4 32) (BinaryOp AShr)),
     (''ShrN32x4'', OPVS_EMIT (get_vt 4 32) (BinaryOp LShr)),
     (''ShlN64x2'', OPVS_EMIT (get_vt 2 64) (BinaryOp Shl)),
     (''SarN64x2'', OPVS_EMIT (get_vt 2 64) (BinaryOp AShr)),
     (''ShrN64x2'', OPVS_EMIT (get_vt 2 64) (BinaryOp LShr))]"

definition perm_binops :: binop_table where
  "perm_binops = [
     (''Perm8x8'', total2 (OPSHUF_EMIT (get_vt 8 8))), (''Perm8x16'', total2 (OPSHUF_EMIT (get_vt 16 8)))]"

definition fp_conversion_unops :: unop_table where
  "fp_conversion_unops = [
     (''F32toF64'', total1 (X_TO_Y_EMIT (CreateFpCast ''FPExt'') get_f get_d)),
     (''I32StoF64'', total1 (X_TO_Y_EMIT (CreateFpCast ''SIToFP'') (get_i 32) get_d)),
     (''I32UtoF64'', total1 (X_TO_Y_EMIT (CreateFpCast ''UIToFP'') (get_i 32) get_d))]"

definition fp_binops :: binop_table where
  "fp_binops = [
     (''F64toF32'', total2 (X_TO_Y_EMIT_ROUND (CreateFpCast ''FPTrunc'') get_d get_f)),
     (''I64StoF64'', total2 (X_TO_Y_EMIT_ROUND (CreateFpCast ''SIToFP'') (get_i 64) get_d)),
     (''I64UtoF64'', total2 (X_TO_Y_EMIT_ROUND (CreateFpCast ''UIToFP'') (get_i 64) get_d)),
     (''F64toI32S'', total2 (X_TO_Y_EMIT_ROUND (CreateFpCast ''FPToSI'') get_d (get_i 32))),
     (''F64toI32U'', total2 (X_TO_Y_EMIT_ROUND (CreateFpCast ''FPToSI'') get_d (get_i 32))),
     (''F64toI64S'', total2 (X_TO_Y_EMIT_ROUND (CreateFpCast ''FPToSI'') get_d (get_i 64))),
     (''Min32Fx2'', total2 (BINCMP_EMIT (get_vtf 2) (CreateFCmp ''FCmpULT''))),
     (''Max32Fx2'', total2 (BINCMP_EMIT (get_vtf 2) (CreateFCmp ''FCmpUGT''))),
     (''Min32Fx4'', total2 (BINCMP_EMIT (get_vtf 4) (CreateFCmp ''FCmpULT''))),
     (''Max32Fx4'', total2 (BINCMP_EMIT (get_vtf 4) (CreateFCmp ''FCmpUGT''))),
     (''Max64Fx2'', total2 (BINCMP_EMIT (get_vtd 2) (CreateFCmp ''FCmpUGT''))),
     (''Min64Fx2'', total2 (BINCMP_EMIT (get_vtd 2) (CreateFCmp ''FCmpULT''))),
     (''Mul64F0x2'', total2 (OPF0X_EMIT (get_vtd 2) (CreateFp ''FMul''))),
     (''Div64F0x2'', total2 (OPF0X_EMIT (get_vtd 2) (CreateFp ''FDiv''))),
     (''Add64F0x2'', total2 (OPF0X_EMIT (get_vtd 2) (CreateFp ''FAdd''))),
     (''Sub64F0x2'', total2 (OPF0X_EMIT (get_vtd 2) (CreateFp ''FSub''))),
     (''Mul32F0x4'', total2 (OPF0X_EMIT (get_vtf 4) (CreateFp ''FMul''))),
     (''Div32F0x4'', total2 (OPF0X_EMIT (get_vtf 4) (CreateFp ''FDiv''))),
     (''Add32F0x4'', total2 (OPF0X_EMIT (get_vtf 4) (CreateFp ''FAdd''))),
     (''Sub32F0x4'', total2 (OPF0X_EMIT (get_vtf 4) (CreateFp ''FSub''))),
     (''CmpLT32F0x4'', total2 (OPF0X_CMP_EMIT (get_vtf 4) (CreateFCmp ''FCmpOLT''))),
     (''CmpLE32F0x4'', total2 (OPF0X_CMP_EMIT (get_vtf 4) (CreateFCmp ''FCmpOLE''))),
     (''CmpEQ32F0x4'', total2 (OPF0X_CMP_EMIT (get_vtf 4) (CreateFCmp ''FCmpOEQ''))),
     (''CmpUN32F0x4'', total2 (OPF0X_CMP_EMIT (get_vtf 4) (CreateFCmp ''FCmpUNO''))),
     (''CmpLT64F0x2'', total2 (OPF0X_CMP_EMIT (get_vtd 2) (CreateFCmp ''FCmpOLT''))),
     (''CmpLE64F0x2'', total2 (OPF0X_CMP_EMIT (get_vtd 2) (CreateFCmp ''FCmpOLE''))),
     (''CmpEQ64F0x2'', total2 (OPF0X_CMP_EMIT (get_vtd 2) (CreateFCmp ''FCmpOEQ''))),
     (''CmpUN64F0x2'', total2 (OPF0X_CMP_EMIT (get_vtd 2) (CreateFCmp ''FCmpUNO''))),
     (''Max32F0x4'', total2 (OPF0X_SEL_EMIT (get_vtf 4) (CreateFCmp ''FCmpUGT''))),
     (''Min32F0x4'', total2 (OPF0X_SEL_EMIT (get_vtf 4) (CreateFCmp ''FCmpULT''))),
     (''Max64F0x2'', total2 (OPF0X_SEL_EMIT (get_vtd 2) (CreateFCmp ''FCmpUGT''))),
     (''Min64F0x2'', total2 (OPF0X_SEL_EMIT (get_vtd 2) (CreateFCmp ''FCmpULT'')))]"

definition fp_low_unops :: unop_table where
  "fp_low_unops = [
     (''Sqrt64F0x2'', total1 (OPF0X_RSQ (get_vtd 2) id (F0XINT ''sqrt''))),
     (''Sqrt32F0x4'', total1 (OPF0X_RSQ (get_vtf 4) id (F0XINT ''sqrt''))),
     (''RecipEst32F0x4'', total1 (OPF0X_RSQ (get_vtf 4) id (F0XRCP FLT_1))),
     (''RSqrtEst32F0x4'', total1 (OPF0X_RSQ (get_vtf 4) (F0XINT ''sqrt'') (F0XRCP FLT_1)))]"

definition fp_vector_binops :: binop_table where
  "fp_vector_binops = [
     (''CmpF64'', EMIT_HELPER_BINOP ''vexop_cmpf64'' get_d),
     (''CmpEQ32Fx2'', total2 (OPV_CMP_T_EMIT (get_vtf 2) (CreateFCmp ''FCmpOEQ'') (get_vt 2 32))),
     (''CmpEQ32Fx4'', total2 (OPV_CMP_T_EMIT (get_vtf 4) (CreateFCmp ''FCmpOEQ'') (get_vt 4 32))),
     (''CmpEQ64Fx2'', total2 (OPV_CMP_T_EMIT (get_vtd 2) (CreateFCmp ''FCmpOEQ'') (get_vt 2 64))),
     (''CmpGT32Fx2'', total2 (OPV_CMP_T_EMIT (get_vtf 2) (CreateFCmp ''FCmpOGT'') (get_vt 2 32))),
     (''CmpGT32Fx4'', total2 (OPV_CMP_T_EMIT (get_vtf 4) (CreateFCmp ''FCmpOGT'') (get_vt 4 32))),
     (''CmpGE32Fx2'', total2 (OPV_CMP_T_EMIT (get_vtf 2) (CreateFCmp ''FCmpOGE'') (get_vt 2 32))),
     (''CmpGE32Fx4'', total2 (OPV_CMP_T_EMIT (get_vtf 4) (CreateFCmp ''FCmpOGE'') (get_vt 4 32))),
     (''CmpLT32Fx4'', total2 (OPV_CMP_T_EMIT (get_vtf 4) (CreateFCmp ''FCmpOLT'') (get_vt 4 32))),
     (''CmpLT64Fx2'', total2 (OPV_CMP_T_EMIT (get_vtd 2) (CreateFCmp ''FCmpOLT'') (get_vt 2 64))),
     (''CmpLE32Fx4'', total2 (OPV_CMP_T_EMIT (get_vtf 4) (CreateFCmp ''FCmpOLE'') (get_vt 4 32))),
     (''CmpLE64Fx2'', total2 (OPV_CMP_T_EMIT (get_vtd 2) (CreateFCmp ''FCmpOLE'') (get_vt 2 64))),
     (''CmpUN32Fx4'', total2 (OPV_CMP_T_EMIT (get_vtf 4) (CreateFCmp ''FCmpUNO'') (get_vt 4 32))),
     (''CmpUN64Fx2'', total2 (OPV_CMP_T_EMIT (get_vtd 2) (CreateFCmp ''FCmpUNO'') (get_vt 2 64))),
     (''Add32Fx2'', total2 (OPV_EMIT (get_vtf 2) (CreateFp ''FAdd''))),
     (''Add32Fx4'', total2 (OPV_EMIT (get_vtf 4) (CreateFp ''FAdd''))),
     (''Add64Fx2'', total2 (OPV_EMIT (get_vtd 2) (CreateFp ''FAdd''))),
     (''Sub32Fx2'', total2 (OPV_EMIT (get_vtf 2) (CreateFp ''FSub''))),
     (''Sub32Fx4'', total2 (OPV_EMIT (get_vtf 4) (CreateFp ''FSub''))),
     (''Sub64Fx2'', total2 (OPV_EMIT (get_vtd 2) (CreateFp ''FSub''))),
     (''Mul32Fx2'', total2 (OPV_EMIT (get_vtf 2) (CreateFp ''FMul''))),
     (''Mul32Fx4'', total2 (OPV_EMIT (get_vtf 4) (CreateFp ''FMul''))),
     (''Mul64Fx2'', total2 (OPV_EMIT (get_vtd 2) (CreateFp ''FMul''))),
     (''Div32Fx4'', total2 (OPV_EMIT (get_vtf 4) (CreateFp ''FDiv''))),
     (''Div64Fx2'', total2 (OPV_EMIT (get_vtd 2) (CreateFp ''FDiv'')))]"

definition fp_neg_unops :: unop_table where
  "fp_neg_unops = [
     (''NegF32'', total1 (UNOP_NEG_EMIT get_f FLT_0)), (''NegF64'', total1 (UNOP_NEG_EMIT get_d DBL_0)),
     (''Neg32Fx2'', total1 (UNOP_NEG_EMIT (get_vtf 2) (ConstantVector g_flt_0x2))),
     (''Neg32Fx4'', total1 (UNOP_NEG_EMIT (get_vtf 4) (ConstantVector g_flt_0x4)))]"

definition fp_triops :: triop_table where
  "fp_triops = [
     (''AddF64'', total3 (TRIOP_EXPAND_EMIT (Cast BitCast) get_d (CreateFp ''FAdd''))),
     (''SubF64'', total3 (TRIOP_EXPAND_EMIT (Cast BitCast) get_d (CreateFp ''FSub''))),
     (''DivF64'', total3 (TRIOP_EXPAND_EMIT (Cast BitCast) get_d (CreateFp ''FDiv''))),
     (''MulF64'', total3 (TRIOP_EXPAND_EMIT (Cast BitCast) get_d (CreateFp ''FMul''))),
     (''AddF32'', total3 (TRIOP_EXPAND_EMIT (Cast BitCast) get_f (CreateFp ''FAdd''))),
     (''SubF32'', total3 (TRIOP_EXPAND_EMIT (Cast BitCast) get_f (CreateFp ''FSub''))),
     (''DivF32'', total3 (TRIOP_EXPAND_EMIT (Cast BitCast) get_f (CreateFp ''FDiv''))),
     (''MulF32'', total3 (TRIOP_EXPAND_EMIT (Cast BitCast) get_f (CreateFp ''FMul'')))]"

definition fp_vector_unops :: unop_table where
  "fp_vector_unops = [
     (''Sqrt64Fx2'', total1 (OPV_RSQ (get_vtd 2) id (VINT ''sqrt''))),
     (''Sqrt32Fx4'', total1 (OPV_RSQ (get_vtf 4) id (VINT ''sqrt''))),
     (''RecipEst32Fx4'', total1 (OPV_RSQ (get_vtf 4) id (VRCP FLT_1x4))),
     (''RSqrtEst32Fx4'', total1 (OPV_RSQ (get_vtf 4) (VINT ''sqrt'') (VRCP FLT_1x4)))]"

text \<open>The operators written out one by one.\<close>

definition single_unops :: unop_table where
  "single_unops = [
     (''Dup8x16'', total1 (Dup8x16_emit)), (''V128to64'', total1 (V128to64_emit)),
     (''V128HIto64'', total1 (V128HIto64_emit)), (''128HIto64'', i128HIto64_emit),
     (''32UtoV128'', total1 (UtoV128_emit)), (''64UtoV128'', total1 (UtoV128_emit))]"

definition single_binops :: binop_table where
  "single_binops = [
     (''64HLto128'', total2 (HLto128_emit)), (''64HLtoV128'', total2 (HLtoV128_emit)),
     (''SetV128lo64'', total2 (SetV128lo64_emit)), (''SetV128lo32'', total2 (SetV128lo32_emit)),
     (''RoundF32toInt'', total2 (RoundF32toInt_emit)), (''RoundF64toInt'', total2 (RoundF64toInt_emit))]"

definition single_triops :: triop_table where
  "single_triops = [
     (''PRemF64'', total3 (PRemF64_emit)), (''PRemC3210F64'', total3 (PRemC3210F64_emit))]"

definition unops :: unop_table where
  "unops = conversion_unops @ getmsbs_unops @ count_unops @ cls_abs_unops @ v128_unops @ fp_conversion_unops @ fp_low_unops @ fp_neg_unops @ fp_vector_unops @ single_unops"

definition binops :: binop_table where
  "binops = get_elem_binops @ concat_binops @ arith_binops @ widening_binops @ shift_binops @ divmod_binops @ compare_binops @ interleave_binops @ v128_binops @ vector_binops @ mulhi_binops @ narrow_binops @ qnarrow_binops @ sats_binops @ satu_binops @ avg_binops @ half_compare_binops @ shift_by_binops @ perm_binops @ fp_binops @ fp_vector_binops @ single_binops"

definition triops :: triop_table where
  "triops = set_elem_triops @ fp_triops @ single_triops"

definition qops :: "(string \<times> (irvalue \<Rightarrow> irvalue \<Rightarrow> irvalue \<Rightarrow> irvalue \<Rightarrow> irvalue option)) list" where
  "qops = [(''MAddF64'', \<lambda>v1 v2 v3 v4. Some (MAddF64_emit v1 v2 v3 v4))]"

definition op_names1 :: "string list" where
  "op_names1 = [
     ''SqrtF32'', ''SqrtF64'', ''NegF32'', ''NegF64'', ''AbsF32'', ''AbsF64'', ''AddF64r32'', ''SubF64r32'',
     ''MulF64r32'', ''DivF64r32'', ''Add8'', ''Add16'', ''Add32'', ''Add64'', ''Sub8'', ''Sub16'', ''Sub32'',
     ''Sub64'', ''Mul8'', ''Mul16'', ''Mul32'', ''Mul64'', ''Or8'', ''Or16'', ''Or32'', ''Or64'', ''And8'',
     ''And16'', ''And32'', ''And64'', ''Xor8'', ''Xor16'', ''Xor32'', ''Xor64'', ''Shl8'', ''Shl16'',
     ''Shl32'', ''Shl64'', ''Shr8'', ''Shr16'', ''Shr32'', ''Shr64'', ''Sar8'', ''Sar16'', ''Sar32'',
     ''Sar64'', ''CmpEQ8'', ''CmpEQ16'', ''CmpEQ32'', ''CmpEQ64'', ''CmpNE8'', ''CmpNE16'', ''CmpNE32'',
     ''CmpNE64'', ''Not8'', ''Not16'', ''Not32'', ''Not64'', ''CasCmpEQ8'', ''CasCmpEQ16'', ''CasCmpEQ32'',
     ''CasCmpEQ64'', ''CasCmpNE8'', ''CasCmpNE16'', ''CasCmpNE32'', ''CasCmpNE64'', ''MullS8'', ''MullS16'',
     ''MullS32'', ''MullS64'', ''MullU8'', ''MullU16'', ''MullU32'', ''MullU64'', ''Clz64'', ''Clz32'',
     ''Ctz64'', ''Ctz32'', ''CmpLT32S'', ''CmpLT64S'', ''CmpLE32S'', ''CmpLE64S'', ''CmpLT32U'', ''CmpLT64U'',
     ''CmpLE32U'', ''CmpLE64U'', ''CmpNEZ8'', ''CmpNEZ16'', ''CmpNEZ32'', ''CmpNEZ64'', ''CmpwNEZ32'',
     ''CmpwNEZ64'', ''Left8'', ''Left16'', ''Left32'', ''Left64'', ''Max32U'', ''CmpORD32U'', ''CmpORD64U'',
     ''CmpORD32S'', ''CmpORD64S'', ''DivU32'', ''DivU64'', ''DivS32'', ''DivS64'', ''DivModU64to32'',
     ''DivModS64to32'', ''DivModU128to64'', ''DivModS128to64'', ''8Uto16'', ''8Uto32'', ''8Uto64'',
     ''16Uto32'', ''16Uto64'', ''32Uto64'', ''8Sto16'', ''8Sto32'', ''8Sto64'', ''16Sto32'', ''16Sto64'',
     ''32Sto64'', ''64to8'', ''32to8'', ''64to16'', ''16to8'', ''16HIto8'', ''8HLto16'', ''32to16'',
     ''32HIto16'', ''16HLto32'', ''64to32'', ''64HIto32'', ''32HLto64'', ''128to64'', ''128HIto64'',
     ''64HLto128'', ''Not1'', ''32to1'', ''64to1'', ''1Uto8'', ''1Uto32'', ''1Uto64'', ''1Sto8'', ''1Sto16'',
     ''1Sto32'', ''1Sto64'', ''32UtoV128'', ''64HLtoV128'', ''V128to64'', ''InterleaveLO8x16'', ''AddF64'',
     ''SubF64'', ''MulF64'', ''DivF64'', ''AddF32'', ''SubF32'', ''MulF32'', ''DivF32'', ''CmpF64'',
     ''Add64Fx2'', ''Sub64Fx2'', ''Mul64Fx2'', ''Div64Fx2'', ''Max64Fx2'', ''Min64Fx2'', ''CmpEQ64Fx2'',
     ''CmpLT64Fx2'', ''CmpLE64Fx2'', ''CmpUN64Fx2'', ''Sqrt64Fx2'']"

definition op_names2 :: "string list" where
  "op_names2 = [
     ''Add64F0x2'', ''Sub64F0x2'', ''Mul64F0x2'', ''Div64F0x2'', ''Max64F0x2'', ''Min64F0x2'',
     ''CmpEQ64F0x2'', ''CmpLT64F0x2'', ''CmpLE64F0x2'', ''CmpUN64F0x2'', ''Sqrt64F0x2'', ''InterleaveLO64x2'',
     ''Shl8x8'', ''Shl16x4'', ''Shl32x2'', ''Shr8x8'', ''Shr16x4'', ''Shr32x2'', ''Sar8x8'', ''Sar16x4'',
     ''Sar32x2'', ''Sal8x8'', ''Sal16x4'', ''Sal32x2'', ''ShlN8x8'', ''ShlN16x4'', ''ShlN32x2'', ''ShrN8x8'',
     ''ShrN16x4'', ''ShrN32x2'', ''SarN8x8'', ''SarN16x4'', ''SarN32x2'', ''Perm8x8'', ''Perm8x16'',
     ''ReinterpF64asI64'', ''ReinterpI64asF64'', ''ReinterpF32asI32'', ''ReinterpI32asF32'', ''F64toI16S'',
     ''F64toI32S'', ''F64toI64S'', ''F64toI32U'', ''I32StoF64'', ''I64StoF64'', ''I64UtoF64'', ''I32UtoF64'',
     ''F32toF64'', ''F64toF32'', ''AtanF64'', ''Yl2xF64'', ''Yl2xp1F64'', ''PRemF64'', ''PRemC3210F64'',
     ''PRem1F64'', ''PRem1C3210F64'', ''ScaleF64'', ''SinF64'', ''CosF64'', ''TanF64'', ''2xm1F64'',
     ''RoundF64toInt'', ''RoundF32toInt'', ''MAddF64'', ''MSubF64'', ''MAddF64r32'', ''MSubF64r32'',
     ''RSqrtEst5GoodF64'', ''RoundF64toF64_NEAREST'', ''RoundF64toF64_NegINF'', ''RoundF64toF64_PosINF'',
     ''RoundF64toF64_ZERO'', ''TruncF64asF32'', ''RoundF64toF32'', ''Add16x2'', ''Sub16x2'', ''QAdd16Sx2'',
     ''QAdd16Ux2'', ''QSub16Sx2'', ''QSub16Ux2'', ''HAdd16Ux2'', ''HAdd16Sx2'', ''HSub16Ux2'', ''HSub16Sx2'',
     ''Add8x4'', ''Sub8x4'', ''QAdd8Sx4'', ''QAdd8Ux4'', ''QSub8Sx4'', ''QSub8Ux4'', ''HAdd8Ux4'',
     ''HAdd8Sx4'', ''HSub8Ux4'', ''HSub8Sx4'', ''Sad8Ux4'', ''CmpNEZ16x2'', ''CmpNEZ8x4'',
     ''I32UtoF32x2_DEP'', ''I32StoF32x2_DEP'', ''F32toI32Ux2_RZ'', ''F32toI32Sx2_RZ'', ''F32ToFixed32Ux2_RZ'',
     ''F32ToFixed32Sx2_RZ'', ''Fixed32UToF32x2_RN'', ''Fixed32SToF32x2_RN'', ''Max32Fx2'', ''Min32Fx2'',
     ''PwMax32Fx2'', ''PwMin32Fx2'', ''CmpEQ32Fx2'', ''CmpGT32Fx2'', ''CmpGE32Fx2'', ''RecipEst32Fx2'',
     ''RecipStep32Fx2'', ''RSqrtEst32Fx2'', ''RSqrtStep32Fx2'', ''Neg32Fx2'', ''Abs32Fx2'', ''CmpNEZ8x8'',
     ''CmpNEZ16x4'', ''CmpNEZ32x2'', ''Add8x8'', ''Add16x4'', ''Add32x2'', ''QAdd8Ux8'', ''QAdd16Ux4'',
     ''QAdd32Ux2'', ''QAdd64Ux1'', ''QAdd8Sx8'', ''QAdd16Sx4'', ''QAdd32Sx2'', ''QAdd64Sx1'', ''PwAdd8x8'',
     ''PwAdd16x4'', ''PwAdd32x2'', ''PwMax8Sx8'', ''PwMax16Sx4'', ''PwMax32Sx2'', ''PwMax8Ux8'',
     ''PwMax16Ux4'', ''PwMax32Ux2'', ''PwMin8Sx8'', ''PwMin16Sx4'', ''PwMin32Sx2'']"

definition op_names3 :: "string list" where
  "op_names3 = [
     ''PwMin8Ux8'', ''PwMin16Ux4'', ''PwMin32Ux2'', ''PwAddL8Ux8'', ''PwAddL16Ux4'', ''PwAddL32Ux2'',
     ''PwAddL8Sx8'', ''PwAddL16Sx4'', ''PwAddL32Sx2'', ''Sub8x8'', ''Sub16x4'', ''Sub32x2'', ''QSub8Ux8'',
     ''QSub16Ux4'', ''QSub32Ux2'', ''QSub64Ux1'', ''QSub8Sx8'', ''QSub16Sx4'', ''QSub32Sx2'', ''QSub64Sx1'',
     ''Abs8x8'', ''Abs16x4'', ''Abs32x2'', ''Mul8x8'', ''Mul16x4'', ''Mul32x2'', ''Mul32Fx2'', ''MulHi16Ux4'',
     ''MulHi16Sx4'', ''PolynomialMul8x8'', ''QDMulHi16Sx4'', ''QDMulHi32Sx2'', ''QRDMulHi16Sx4'',
     ''QRDMulHi32Sx2'', ''Avg8Ux8'', ''Avg16Ux4'', ''Max8Sx8'', ''Max16Sx4'', ''Max32Sx2'', ''Max8Ux8'',
     ''Max16Ux4'', ''Max32Ux2'', ''Min8Sx8'', ''Min16Sx4'', ''Min32Sx2'', ''Min8Ux8'', ''Min16Ux4'',
     ''Min32Ux2'', ''CmpEQ8x8'', ''CmpEQ16x4'', ''CmpEQ32x2'', ''CmpGT8Ux8'', ''CmpGT16Ux4'', ''CmpGT32Ux2'',
     ''CmpGT8Sx8'', ''CmpGT16Sx4'', ''CmpGT32Sx2'', ''Cnt8x8'', ''Clz8x8'', ''Clz16x4'', ''Clz32x2'',
     ''Cls8x8'', ''Cls16x4'', ''Cls32x2'', ''Sal64x1'', ''QShl8x8'', ''QShl16x4'', ''QShl32x2'', ''QShl64x1'',
     ''QSal8x8'', ''QSal16x4'', ''QSal32x2'', ''QSal64x1'', ''NarrowBin16to8x16'', ''NarrowBin32to16x8'',
     ''QNarrowBin16Sto8Sx8'', ''QNarrowBin16Sto8Sx16'', ''QNarrowBin32Sto16Sx4'', ''QNarrowBin32Sto16Sx8'',
     ''QNarrowUn16Sto8Ux8'', ''QNarrowBin16Sto8Ux16'', ''QNarrowBin32Sto16Ux8'', ''InterleaveHI8x8'',
     ''InterleaveHI16x4'', ''InterleaveHI32x2'', ''InterleaveLO8x8'', ''InterleaveLO16x4'',
     ''InterleaveLO32x2'', ''InterleaveOddLanes8x8'', ''InterleaveEvenLanes8x8'', ''InterleaveOddLanes16x4'',
     ''InterleaveEvenLanes16x4'', ''CatOddLanes8x8'', ''CatOddLanes16x4'', ''CatEvenLanes8x8'',
     ''CatEvenLanes16x4'', ''GetElem8x8'', ''GetElem16x4'', ''GetElem32x2'', ''SetElem8x8'', ''SetElem16x4'',
     ''SetElem32x2'', ''Dup8x8'', ''Dup16x4'', ''Dup32x2'', ''Add32Fx4'', ''Sub32Fx4'', ''Mul32Fx4'',
     ''Div32Fx4'', ''Max32Fx4'', ''Min32Fx4'', ''Add32Fx2'', ''Sub32Fx2'', ''CmpEQ32Fx4'', ''CmpLT32Fx4'',
     ''CmpLE32Fx4'', ''CmpUN32Fx4'', ''CmpGT32Fx4'', ''CmpGE32Fx4'', ''Abs32Fx4'', ''PwMax32Fx4'',
     ''PwMin32Fx4'', ''Sqrt32Fx4'', ''Neg32Fx4'', ''RSqrtEst32Fx4'', ''RecipEst32Fx4'']"

definition op_names4 :: "string list" where
  "op_names4 = [
     ''RecipStep32Fx4'', ''RSqrtStep32Fx4'', ''I32UtoF32x4_DEP'', ''I32StoF32x4_DEP'', ''F32toI32Ux4_RZ'',
     ''F32toI32Sx4_RZ'', ''QF32toI32Ux4_RZ'', ''QF32toI32Sx4_RZ'', ''RoundF32x4_RM'', ''RoundF32x4_RP'',
     ''RoundF32x4_RN'', ''RoundF32x4_RZ'', ''F32ToFixed32Ux4_RZ'', ''F32ToFixed32Sx4_RZ'',
     ''Fixed32UToF32x4_RN'', ''Fixed32SToF32x4_RN'', ''F32toF16x4'', ''F16toF32x4'', ''Add32F0x4'',
     ''Sub32F0x4'', ''Mul32F0x4'', ''Div32F0x4'', ''Max32F0x4'', ''Min32F0x4'', ''CmpEQ32F0x4'',
     ''CmpLT32F0x4'', ''CmpLE32F0x4'', ''CmpUN32F0x4'', ''Sqrt32F0x4'', ''V128HIto64'', ''64UtoV128'',
     ''SetV128lo64'', ''V128to32'', ''SetV128lo32'', ''NotV128'', ''AndV128'', ''OrV128'', ''XorV128'',
     ''ShlV128'', ''ShrV128'', ''CmpNEZ8x16'', ''CmpNEZ16x8'', ''CmpNEZ32x4'', ''CmpNEZ64x2'', ''Add8x16'',
     ''Add16x8'', ''Add32x4'', ''Add64x2'', ''QAdd8Ux16'', ''QAdd16Ux8'', ''QAdd32Ux4'', ''QAdd64Ux2'',
     ''QAdd8Sx16'', ''QAdd16Sx8'', ''QAdd32Sx4'', ''QAdd64Sx2'', ''Sub8x16'', ''Sub16x8'', ''Sub32x4'',
     ''Sub64x2'', ''QSub8Ux16'', ''QSub16Ux8'', ''QSub32Ux4'', ''QSub64Ux2'', ''QSub8Sx16'', ''QSub16Sx8'',
     ''QSub32Sx4'', ''QSub64Sx2'', ''Mul8x16'', ''Mul16x8'', ''Mul32x4'', ''MulHi16Ux8'', ''MulHi32Ux4'',
     ''MulHi16Sx8'', ''MulHi32Sx4'', ''MullEven8Ux16'', ''MullEven16Ux8'', ''MullEven8Sx16'',
     ''MullEven16Sx8'', ''Mull8Ux8'', ''Mull8Sx8'', ''Mull16Ux4'', ''Mull16Sx4'', ''Mull32Ux2'',
     ''Mull32Sx2'', ''QDMulHi16Sx8'', ''QDMulHi32Sx4'', ''QRDMulHi16Sx8'', ''QRDMulHi32Sx4'',
     ''PolynomialMul8x16'', ''PolynomialMull8x8'', ''PwAdd8x16'', ''PwAdd16x8'', ''PwAdd32x4'',
     ''PwAdd32Fx2'', ''PwAddL8Ux16'', ''PwAddL16Ux8'', ''PwAddL32Ux4'', ''PwAddL8Sx16'', ''PwAddL16Sx8'',
     ''PwAddL32Sx4'', ''Abs8x16'', ''Abs16x8'', ''Abs32x4'', ''Avg8Ux16'', ''Avg16Ux8'', ''Avg32Ux4'',
     ''Avg8Sx16'', ''Avg16Sx8'', ''Avg32Sx4'', ''Max8Sx16'', ''Max16Sx8'', ''Max32Sx4'', ''Max8Ux16'',
     ''Max16Ux8'', ''Max32Ux4'', ''Min8Sx16'', ''Min16Sx8'', ''Min32Sx4'', ''Min8Ux16'', ''Min16Ux8'',
     ''Min32Ux4'', ''CmpEQ8x16'', ''CmpEQ16x8'', ''CmpEQ32x4'', ''CmpGT8Sx16'', ''CmpGT16Sx8'',
     ''CmpGT32Sx4'', ''CmpGT64Sx2'', ''CmpGT8Ux16'', ''CmpGT16Ux8'', ''CmpGT32Ux4'', ''Cnt8x16'', ''Clz8x16'',
     ''Clz16x8'', ''Clz32x4'', ''Cls8x16'', ''Cls16x8'', ''Cls32x4'', ''ShlN8x16'', ''ShlN16x8'',
     ''ShlN32x4'', ''ShlN64x2'', ''ShrN8x16'', ''ShrN16x8'', ''ShrN32x4'', ''ShrN64x2'', ''SarN8x16'',
     ''SarN16x8'', ''SarN32x4'']"

definition op_names5 :: "string list" where
  "op_names5 = [
     ''SarN64x2'', ''Shl8x16'', ''Shl16x8'', ''Shl32x4'', ''Shl64x2'', ''Shr8x16'', ''Shr16x8'', ''Shr32x4'',
     ''Shr64x2'', ''Sar8x16'', ''Sar16x8'', ''Sar32x4'', ''Sar64x2'', ''Sal8x16'', ''Sal16x8'', ''Sal32x4'',
     ''Sal64x2'', ''Rol8x16'', ''Rol16x8'', ''Rol32x4'', ''QShl8x16'', ''QShl16x8'', ''QShl32x4'',
     ''QShl64x2'', ''QSal8x16'', ''QSal16x8'', ''QSal32x4'', ''QSal64x2'', ''InterleaveHI8x16'',
     ''InterleaveHI16x8'', ''InterleaveHI32x4'', ''InterleaveHI64x2'', ''InterleaveLO16x8'',
     ''InterleaveLO32x4'', ''InterleaveOddLanes8x16'', ''InterleaveEvenLanes8x16'',
     ''InterleaveOddLanes16x8'', ''InterleaveEvenLanes16x8'', ''InterleaveOddLanes32x4'',
     ''InterleaveEvenLanes32x4'', ''CatOddLanes8x16'', ''CatOddLanes16x8'', ''CatOddLanes32x4'',
     ''CatEvenLanes8x16'', ''CatEvenLanes16x8'', ''CatEvenLanes32x4'', ''GetElem8x16'', ''GetElem16x8'',
     ''GetElem32x4'', ''GetElem64x2'', ''Dup8x16'', ''Dup16x8'', ''Dup32x4'', ''RSqrtEst32Ux4'']"

definition op_names :: "string list" where
  "op_names = op_names1 @ op_names2 @ op_names3 @ op_names4 @ op_names5"

definition getVexOpName :: "string \<Rightarrow> string" where
  "getVexOpName p = (if p \<in> set op_names \<or> p = ''INVALID'' then ''Iop_'' @ p else ''???Op???'')"

end
