(* ===== verification/Genllvm.thy ===== *)
theory Genllvm
  imports Vexop_Tables
begin

text \<open>
  The code generator's access to the guest (\<open>src/genllvm.cc\<close>): the function being built,
  the translation of types, reads and writes of the guest context, through pointers that
  are kept while the entry block is filled, and loads and stores of the guest's memory.
  An assertion that fails, or a null pointer that is followed, is \<^const>\<open>None\<close>. The log
  of the last store, a debugging aid off unless asked for, is left out.
\<close>

datatype IRType = Ity_I1 | Ity_I8 | Ity_I16 | Ity_I32 | Ity_I64 | Ity_I128 | Ity_F32 | Ity_F64 | Ity_V128 | Ity_V256 | Ity_other

text \<open>What the generator is told of the guest, of the helper modules and of the machine the
  code is for, with whose arithmetic the builder folds constants; and the function under
  construction with the values of the temporaries of the block.\<close>

record genllvm =
  is32Bit :: bool
  mem_base :: int
  use_reloc :: bool
  fake_vsys_reads :: bool
  sys_host_bytes :: "int \<Rightarrow> lane list option"
  exit_type_offset :: nat
  helper_type :: "string \<Rightarrow> ty option"
  helper_param :: "string \<Rightarrow> ty option"
  default_ptr :: "64 word"
  target :: llvm_env
  use_linux_sysenter :: bool

record builder = irfunction +
  gepbyte_map :: "nat \<times> nat \<Rightarrow> irptr option"
  reg_values :: "nat \<Rightarrow> irvalue option"

definition vexTy2LLVM :: "IRType \<Rightarrow> ty option" where
  "vexTy2LLVM t = (case t of
     Ity_I1 \<Rightarrow> Some (get_i 1) | Ity_I8 \<Rightarrow> Some (get_i 8) | Ity_I16 \<Rightarrow> Some (get_i 16)
   | Ity_I32 \<Rightarrow> Some (get_i 32) | Ity_I64 \<Rightarrow> Some (get_i 64)
   | Ity_F32 \<Rightarrow> Some get_f | Ity_F64 \<Rightarrow> Some get_d
   | Ity_V128 \<Rightarrow> Some (get_vt 16 8) | Ity_V256 \<Rightarrow> Some (get_vt 32 8)
   | _ \<Rightarrow> None)"

definition beginBB :: builder where
  "beginBB = \<lparr>blocks = [[]], insert_block = 0, next_id = 0, gepbyte_map = (\<lambda>k. None), reg_values = (\<lambda>r. None)\<rparr>"

definition endBB :: "irvalue \<Rightarrow> builder \<Rightarrow> irinst list list" where
  "endBB retVal b = blocks (CreateRet retVal b)"

definition getCtxTyGEP :: "irvalue \<Rightarrow> ty \<Rightarrow> irptr" where
  "getCtxTyGEP off accessTy = CtxPtr off accessTy"

definition getCtxByteGEP :: "nat \<Rightarrow> ty \<Rightarrow> builder \<Rightarrow> (irptr \<times> builder) option" where
  "getCtxByteGEP byteOff accessTy b = (
     let tyBytes = getBitWidth accessTy div 8;
         gep = getCtxTyGEP (get_32i (int (byteOff div tyBytes))) accessTy
     in if tyBytes = 0 then None
        else (case gepbyte_map b (byteOff, tyBytes) of
          Some p \<Rightarrow> if insert_block b = 0 \<and> accessed_type p = accessTy then Some (p, b) else Some (gep, b)
        | None \<Rightarrow> Some (gep, b\<lparr>gepbyte_map := (gepbyte_map b)((byteOff, tyBytes) \<mapsto> gep)\<rparr>)))"

definition readCtx :: "nat \<Rightarrow> IRType \<Rightarrow> builder \<Rightarrow> (irvalue \<times> builder) option" where
  "readCtx byteOff t b = do {
     t' \<leftarrow> vexTy2LLVM t;
     (p, b) \<leftarrow> getCtxByteGEP byteOff t' b;
     Some (CreateLoad p b) }"

definition ctx_index :: "nat \<Rightarrow> int \<Rightarrow> int \<Rightarrow> irvalue \<Rightarrow> ty \<Rightarrow> irvalue option" where
  "ctx_index byteOff bias len ix accessTy = (
     let bytes = getBitWidth accessTy div 8 in
     if bytes = 0 \<or> byteOff mod bytes \<noteq> 0 then None
     else (let offset = BinaryOp Add (Cast BitCast ix (get_i 32)) (get_c 32 bias);
               base_v = get_c 32 (int (byteOff div bytes))
           in Some (BinaryOp Add (BinaryOp URem offset (get_c 32 len)) base_v)))"

definition readCtxI :: "nat \<Rightarrow> int \<Rightarrow> int \<Rightarrow> irvalue \<Rightarrow> ty \<Rightarrow> builder \<Rightarrow> (irvalue \<times> builder) option" where
  "readCtxI byteOff bias len ix accessTy b = do {
     offset \<leftarrow> ctx_index byteOff bias len ix accessTy;
     Some (CreateLoad (getCtxTyGEP offset accessTy) b) }"

definition writeCtx :: "nat \<Rightarrow> irvalue \<Rightarrow> builder \<Rightarrow> builder option" where
  "writeCtx byteOff v b = do {
     (p, b) \<leftarrow> getCtxByteGEP byteOff (getType v) b;
     Some (CreateStore v p b) }"

definition writeCtxI :: "nat \<Rightarrow> int \<Rightarrow> int \<Rightarrow> irvalue \<Rightarrow> irvalue \<Rightarrow> builder \<Rightarrow> builder option" where
  "writeCtxI byteOff bias len ix v b = do {
     offset \<leftarrow> ctx_index byteOff bias len ix (getType v);
     Some (CreateStore v (getCtxTyGEP offset (getType v)) b) }"

definition widen_addr :: "genllvm \<Rightarrow> irvalue \<Rightarrow> irvalue" where
  "widen_addr G addr_v = (if is32Bit G then Cast ZExt addr_v (get_i 64) else addr_v)"

definition relocate :: "genllvm \<Rightarrow> irvalue \<Rightarrow> irvalue" where
  "relocate G addr_v = (if mem_base G \<noteq> 0 \<and> use_reloc G then BinaryOp Add addr_v (get_c 64 (mem_base G)) else addr_v)"

definition store :: "genllvm \<Rightarrow> irvalue \<Rightarrow> irvalue \<Rightarrow> builder \<Rightarrow> builder" where
  "store G addr_v data_v b = CreateStore data_v (MemPtr (relocate G (widen_addr G addr_v)) (getType data_v)) b"

text \<open>A constant address in the system page is read while the code is generated, when the
  generator is told to.\<close>

definition load_ty :: "genllvm \<Rightarrow> irvalue \<Rightarrow> ty \<Rightarrow> builder \<Rightarrow> (irvalue \<times> builder) option" where
  "load_ty G addr_v t b = (
     let addr_v = widen_addr G addr_v;
         sys = (if fake_vsys_reads G \<and> isConstant addr_v \<and> getBitWidth (getType addr_v) \<le> 64
           then (case ev (target G) (\<lambda>i. []) addr_v of
             [Some a] \<Rightarrow> sys_host_bytes G a | _ \<Rightarrow> None) else None)
     in case sys of
       Some bytes \<Rightarrow> if 0 < getBitWidth t \<and> getBitWidth t \<le> 64
         then Some (ConstantV (get_i (getBitWidth t)) (of_bytes (get_i (getBitWidth t)) (take (getBitWidth t div 8) bytes)), b) else None
     | None \<Rightarrow> Some (CreateLoad (MemPtr (relocate G addr_v) t) b))"

definition load_irty :: "genllvm \<Rightarrow> irvalue \<Rightarrow> IRType \<Rightarrow> builder \<Rightarrow> (irvalue \<times> builder) option" where
  "load_irty G addr_v vex_type b = do {
     t \<leftarrow> vexTy2LLVM vex_type;
     load_ty G addr_v t b }"

text \<open>The link of a load-linked is not kept track of: it is always there.\<close>

definition markLinked :: "builder \<Rightarrow> builder" where
  "markLinked b = b"

definition getLinked :: irvalue where
  "getLinked = get_c 1 1"

definition setExitType :: "genllvm \<Rightarrow> int \<Rightarrow> builder \<Rightarrow> builder option" where
  "setExitType G exit_type b = writeCtx (exit_type_offset G) (get_c 8 exit_type) b"

definition to16x8i :: "irvalue \<Rightarrow> irvalue" where
  "to16x8i v = Cast BitCast v (get_vt 16 8)"

definition to32x8i :: "irvalue \<Rightarrow> irvalue" where
  "to32x8i v = Cast BitCast v (get_vt 32 8)"

definition memFence :: "builder \<Rightarrow> builder" where
  "memFence b = CreateFence b"

text \<open>The values of the temporaries, each set once and set before it is read.\<close>

definition setRegValue :: "nat \<Rightarrow> irvalue \<Rightarrow> builder \<Rightarrow> builder option" where
  "setRegValue r v b = (if reg_values b r = None then Some (b\<lparr>reg_values := (reg_values b)(r \<mapsto> v)\<rparr>) else None)"

definition getRegValue :: "nat \<Rightarrow> builder \<Rightarrow> irvalue option" where
  "getRegValue r b = reg_values b r"

end
