(* ===== verification/Vexexpr.thy ===== *)
theory Vexexpr
  imports Genllvm
begin

text \<open>
  Expressions (\<open>src/vexexpr.cc\<close>): the objects made from the expressions of the VEX
  library's intermediate representation, and the code each emits. The object for an
  operator the translator does not know asserts when it is asked for its code, one that
  could not be made is a null pointer.
\<close>

section \<open>The intermediate representation\<close>

datatype IRConst = Ico_U1 bool | Ico_U8 "8 word" | Ico_U16 "16 word" | Ico_U32 "32 word" | Ico_U64 "64 word"
  | Ico_F32 "32 word" | Ico_F32i "32 word" | Ico_F64 "64 word" | Ico_F64i "64 word" | Ico_V128 "16 word" | Ico_V256 "32 word"

datatype IRExpr =
    Iex_Binder
  | Iex_Get nat IRType
  | Iex_GetI nat IRType int IRExpr int
  | Iex_RdTmp nat
  | Iex_Qop string IRExpr IRExpr IRExpr IRExpr
  | Iex_Triop string IRExpr IRExpr IRExpr
  | Iex_Binop string IRExpr IRExpr
  | Iex_Unop string IRExpr
  | Iex_Load bool IRType IRExpr
  | Iex_Const IRConst
  | Iex_CCall string "IRExpr list"
  | Iex_ITE IRExpr IRExpr IRExpr
  | Iex_GSPTR

datatype op_class = UnopK | BinopK | TriopK | QopK

datatype vexexpr =
    ExprNULL
  | ExprGet nat IRType
  | ExprGetI nat int vexexpr int ty
  | ExprRdTmp nat
  | ExprOp op_class string "vexexpr list"
  | ExprUnknownOp op_class "vexexpr list"
  | ExprLoad IRType vexexpr
  | ExprConst IRConst
  | ExprCCall string ty "vexexpr list"
  | ExprMux0X vexexpr vexexpr vexexpr
  | ExprGSPTR

section \<open>Making the objects\<close>

text \<open>The operators \<open>createOp\<close> knows, with the class of which it makes an instance.\<close>

definition known_ops1 :: "(op_class \<times> string) list" where
  "known_ops1 = [
     (BinopK, ''CmpEQ8''), (BinopK, ''CmpEQ16''), (BinopK, ''CmpEQ32''), (BinopK, ''CmpEQ64''),
     (BinopK, ''ExpCmpNE8''), (BinopK, ''ExpCmpNE16''), (BinopK, ''ExpCmpNE32''), (BinopK, ''ExpCmpNE64''),
     (UnopK, ''GetMSBs8x8''), (UnopK, ''GetMSBs8x16''), (QopK, ''MAddF64''), (BinopK, ''CmpNE8''),
     (BinopK, ''CmpNE16''), (BinopK, ''CmpNE32''), (BinopK, ''CmpNE64''), (BinopK, ''CmpF64''),
     (BinopK, ''CasCmpEQ8''), (BinopK, ''CasCmpEQ16''), (BinopK, ''CasCmpEQ32''), (BinopK, ''CasCmpEQ64''),
     (BinopK, ''CasCmpNE8''), (BinopK, ''CasCmpNE16''), (BinopK, ''CasCmpNE32''), (BinopK, ''CasCmpNE64''),
     (BinopK, ''CmpLE64S''), (BinopK, ''CmpLE64U''), (BinopK, ''CmpLT64S''), (BinopK, ''CmpLT64U''),
     (BinopK, ''CmpLE32S''), (BinopK, ''CmpLE32U''), (BinopK, ''CmpLT32S''), (BinopK, ''CmpLT32U''),
     (BinopK, ''Add8''), (BinopK, ''Add16''), (BinopK, ''Add32''), (BinopK, ''Add64''), (BinopK, ''And8''),
     (BinopK, ''And16''), (BinopK, ''And32''), (BinopK, ''And64''), (BinopK, ''AndV128''),
     (BinopK, ''DivModU128to64''), (BinopK, ''DivModS128to64''), (BinopK, ''DivModU64to32''),
     (BinopK, ''DivModS64to32''), (BinopK, ''Mul64F0x2''), (BinopK, ''Div64F0x2''), (BinopK, ''Add64F0x2''),
     (BinopK, ''Sub64F0x2''), (BinopK, ''Mul32F0x4''), (BinopK, ''Div32F0x4''), (BinopK, ''Add32F0x4''),
     (BinopK, ''Sub32F0x4''), (UnopK, ''Sqrt32F0x4''), (UnopK, ''Sqrt64F0x2''), (BinopK, ''Min64F0x2''),
     (BinopK, ''Max32F0x4''), (BinopK, ''Min32F0x4''), (BinopK, ''Max64F0x2''), (BinopK, ''CmpLT32F0x4''),
     (BinopK, ''CmpLE32F0x4''), (BinopK, ''CmpEQ32F0x4''), (BinopK, ''CmpUN32F0x4''),
     (BinopK, ''CmpLT64F0x2''), (BinopK, ''CmpLE64F0x2''), (BinopK, ''CmpEQ64F0x2''),
     (BinopK, ''CmpUN64F0x2''), (BinopK, ''SetV128lo64''), (BinopK, ''SetV128lo32''),
     (BinopK, ''InterleaveLO8x8''), (BinopK, ''InterleaveHI8x8''), (BinopK, ''InterleaveLO8x16''),
     (BinopK, ''InterleaveHI8x16''), (BinopK, ''InterleaveLO16x4''), (BinopK, ''InterleaveHI16x4''),
     (BinopK, ''InterleaveLO16x8''), (BinopK, ''InterleaveHI16x8''), (BinopK, ''InterleaveLO64x2''),
     (BinopK, ''InterleaveHI64x2''), (BinopK, ''InterleaveLO32x4''), (BinopK, ''InterleaveHI32x4''),
     (BinopK, ''InterleaveLO32x2''), (BinopK, ''InterleaveHI32x2''), (BinopK, ''Mul8''), (BinopK, ''Mul16''),
     (BinopK, ''Mul32''), (BinopK, ''Mul64''), (BinopK, ''MullS8''), (BinopK, ''MullS16''),
     (BinopK, ''MullS32''), (BinopK, ''MullS64''), (BinopK, ''MullU8''), (BinopK, ''MullU16''),
     (BinopK, ''MullU32''), (BinopK, ''MullU64''), (BinopK, ''Max8Ux8''), (BinopK, ''Max8Ux16''),
     (BinopK, ''Max16Sx4''), (BinopK, ''Max16Sx8''), (BinopK, ''Min8Ux8''), (BinopK, ''Min8Ux16''),
     (BinopK, ''Min16Sx4''), (BinopK, ''Min16Sx8''), (BinopK, ''Min32Fx2''), (BinopK, ''Max32Fx2''),
     (BinopK, ''Min32Fx4''), (BinopK, ''Max32Fx4''), (BinopK, ''Max64Fx2''), (BinopK, ''Min64Fx2''),
     (UnopK, ''Sqrt32Fx4''), (UnopK, ''Sqrt64Fx2''), (UnopK, ''RSqrtEst32Fx4''), (UnopK, ''RecipEst32Fx4''),
     (BinopK, ''Or8''), (BinopK, ''Or16''), (BinopK, ''Or32''), (BinopK, ''Or64''), (BinopK, ''OrV128''),
     (BinopK, ''Shl8''), (BinopK, ''Shl16'')]"

definition known_ops2 :: "(op_class \<times> string) list" where
  "known_ops2 = [
     (BinopK, ''Shl32''), (BinopK, ''Shl64''), (BinopK, ''Sar8''), (BinopK, ''Sar16''), (BinopK, ''Sar32''),
     (BinopK, ''Sar64''), (BinopK, ''Shr8''), (BinopK, ''Shr16''), (BinopK, ''Shr32''), (BinopK, ''Shr64''),
     (BinopK, ''Sub8''), (BinopK, ''Sub16''), (BinopK, ''Sub32''), (BinopK, ''Sub64''), (BinopK, ''Xor8''),
     (BinopK, ''Xor16''), (BinopK, ''Xor32''), (BinopK, ''Xor64''), (BinopK, ''XorV128''), (UnopK, ''Not1''),
     (UnopK, ''Not8''), (UnopK, ''Not16''), (UnopK, ''Not32''), (UnopK, ''Not64''), (UnopK, ''NotV128''),
     (UnopK, ''Dup8x16''), (UnopK, ''1Uto8''), (UnopK, ''1Uto32''), (UnopK, ''1Uto64''), (UnopK, ''8Uto16''),
     (UnopK, ''8Sto16''), (UnopK, ''8Uto32''), (UnopK, ''8Sto32''), (UnopK, ''8Uto64''), (UnopK, ''8Sto64''),
     (UnopK, ''16Uto64''), (UnopK, ''16Sto64''), (UnopK, ''16Uto32''), (UnopK, ''16to8''),
     (UnopK, ''16Sto32''), (UnopK, ''32Uto64''), (UnopK, ''32Sto64''), (UnopK, ''32to8''),
     (UnopK, ''32to16''), (UnopK, ''64to32''), (UnopK, ''64to1''), (UnopK, ''32to1''), (UnopK, ''64to8''),
     (UnopK, ''64to16''), (UnopK, ''32UtoV128''), (UnopK, ''64UtoV128''), (UnopK, ''V128to64''),
     (UnopK, ''V128HIto64''), (UnopK, ''128to64''), (UnopK, ''128HIto64''), (BinopK, ''8HLto16''),
     (BinopK, ''16HLto32''), (BinopK, ''32HLto64''), (BinopK, ''64HLtoV128''), (BinopK, ''64HLto128''),
     (UnopK, ''16HIto8''), (UnopK, ''32HIto16''), (UnopK, ''64HIto32''), (UnopK, ''F32toF64''),
     (UnopK, ''AbsF32''), (UnopK, ''AbsF64''), (BinopK, ''F64toF32''), (UnopK, ''I32StoF64''),
     (UnopK, ''I32UtoF64''), (UnopK, ''ReinterpF64asI64''), (UnopK, ''ReinterpI64asF64''),
     (UnopK, ''ReinterpF32asI32''), (UnopK, ''ReinterpI32asF32''), (BinopK, ''GetElem8x8''),
     (BinopK, ''GetElem32x2''), (BinopK, ''I64StoF64''), (BinopK, ''I64UtoF64''), (BinopK, ''F64toI32S''),
     (BinopK, ''F64toI32U''), (BinopK, ''F64toI64S''), (UnopK, ''Ctz32''), (UnopK, ''Ctz64''),
     (UnopK, ''Clz64''), (UnopK, ''Clz32''), (UnopK, ''Cls32x2''), (UnopK, ''Cls32x4''), (BinopK, ''Shl8x8''),
     (BinopK, ''Shr8x8''), (BinopK, ''Sar8x8''), (BinopK, ''Sal8x8''), (BinopK, ''Shl8x16''),
     (BinopK, ''Shr8x16''), (BinopK, ''Sar8x16''), (BinopK, ''Sal8x16''), (BinopK, ''Shl16x4''),
     (BinopK, ''Shr16x4''), (BinopK, ''Sar16x4''), (BinopK, ''Sal16x4''), (BinopK, ''Shl16x8''),
     (BinopK, ''Shr16x8''), (BinopK, ''Sar16x8''), (BinopK, ''Sal16x8''), (BinopK, ''Shl32x2''),
     (BinopK, ''Shr32x2''), (BinopK, ''Sar32x2''), (BinopK, ''Sal32x2''), (BinopK, ''Shl32x4''),
     (BinopK, ''Shr32x4''), (BinopK, ''Sar32x4''), (BinopK, ''Sal32x4''), (BinopK, ''SarN8x8''),
     (BinopK, ''ShlN8x8''), (BinopK, ''ShrN8x8''), (BinopK, ''SarN8x16''), (BinopK, ''ShlN8x16''),
     (BinopK, ''ShrN8x16''), (BinopK, ''ShlN16x4''), (BinopK, ''ShrN16x4''), (BinopK, ''SarN16x4''),
     (BinopK, ''ShlN16x8''), (BinopK, ''ShrN16x8''), (BinopK, ''SarN16x8''), (BinopK, ''ShlN32x2'')]"

definition known_ops3 :: "(op_class \<times> string) list" where
  "known_ops3 = [
     (BinopK, ''ShrN32x2''), (BinopK, ''SarN32x2''), (BinopK, ''ShlN32x4''), (BinopK, ''ShrN32x4''),
     (BinopK, ''SarN32x4''), (BinopK, ''ShlN64x2''), (BinopK, ''ShrN64x2''), (BinopK, ''SarN64x2''),
     (BinopK, ''Add8x8''), (BinopK, ''Add8x16''), (BinopK, ''Add16x4''), (BinopK, ''Add16x8''),
     (BinopK, ''Add32x2''), (BinopK, ''Add32x4''), (BinopK, ''Add64x2''), (BinopK, ''Sub8x8''),
     (BinopK, ''Sub8x16''), (BinopK, ''Sub16x4''), (BinopK, ''Sub16x8''), (BinopK, ''Sub32x2''),
     (BinopK, ''Sub32x4''), (BinopK, ''Sub64x2''), (BinopK, ''Mul8x8''), (BinopK, ''Mul8x16''),
     (BinopK, ''Mul16x4''), (BinopK, ''Mul16x8''), (BinopK, ''Mul32x2''), (BinopK, ''Mul32x4''),
     (BinopK, ''MulHi16Ux4''), (BinopK, ''MulHi16Sx4''), (BinopK, ''MulHi16Ux8''), (BinopK, ''MulHi16Sx8''),
     (BinopK, ''MulHi32Ux4''), (BinopK, ''MulHi32Sx4''), (BinopK, ''NarrowBin16to8x16''),
     (BinopK, ''NarrowBin32to16x8''), (BinopK, ''QNarrowBin16Sto8Ux8''), (BinopK, ''QNarrowBin16Sto8Ux16''),
     (BinopK, ''QNarrowBin32Sto16Ux8''), (BinopK, ''QNarrowBin16Sto8Sx16''),
     (BinopK, ''QNarrowBin32Sto16Sx8''), (BinopK, ''QNarrowUn16Sto8Ux8''), (BinopK, ''QNarrowBin16Sto8Sx8''),
     (BinopK, ''QNarrowBin32Sto16Sx4''), (BinopK, ''QAdd64Sx1''), (BinopK, ''QAdd64Sx2''),
     (BinopK, ''QAdd64Ux1''), (BinopK, ''QAdd64Ux2''), (BinopK, ''QAdd32Sx2''), (BinopK, ''QAdd32Sx4''),
     (BinopK, ''QAdd32Ux2''), (BinopK, ''QAdd32Ux4''), (BinopK, ''QAdd16Sx2''), (BinopK, ''QAdd16Sx4''),
     (BinopK, ''QAdd16Sx8''), (BinopK, ''QAdd16Ux2''), (BinopK, ''QAdd16Ux4''), (BinopK, ''QAdd16Ux8''),
     (BinopK, ''QAdd8Sx4''), (BinopK, ''QAdd8Sx8''), (BinopK, ''QAdd8Sx16''), (BinopK, ''QAdd8Ux4''),
     (BinopK, ''QAdd8Ux8''), (BinopK, ''QAdd8Ux16''), (BinopK, ''QSub64Sx1''), (BinopK, ''QSub64Sx2''),
     (BinopK, ''QSub64Ux1''), (BinopK, ''QSub64Ux2''), (BinopK, ''QSub32Sx2''), (BinopK, ''QSub32Sx4''),
     (BinopK, ''QSub32Ux2''), (BinopK, ''QSub32Ux4''), (BinopK, ''QSub16Sx2''), (BinopK, ''QSub16Sx4''),
     (BinopK, ''QSub16Sx8''), (BinopK, ''QSub16Ux2''), (BinopK, ''QSub16Ux4''), (BinopK, ''QSub16Ux8''),
     (BinopK, ''QSub8Sx4''), (BinopK, ''QSub8Sx8''), (BinopK, ''QSub8Sx16''), (BinopK, ''QSub8Ux4''),
     (BinopK, ''QSub8Ux8''), (BinopK, ''QSub8Ux16''), (BinopK, ''Avg8Ux8''), (BinopK, ''Avg8Ux16''),
     (BinopK, ''Avg8Sx16''), (BinopK, ''Avg16Ux4''), (BinopK, ''Avg16Ux8''), (BinopK, ''Avg16Sx8''),
     (BinopK, ''Avg32Ux4''), (BinopK, ''Avg32Sx4''), (BinopK, ''HAdd16Ux2''), (BinopK, ''HAdd16Sx2''),
     (BinopK, ''HSub16Ux2''), (BinopK, ''HSub16Sx2''), (BinopK, ''HAdd8Ux4''), (BinopK, ''HAdd8Sx4''),
     (BinopK, ''HSub8Ux4''), (BinopK, ''HSub8Sx4''), (BinopK, ''Add32Fx2''), (BinopK, ''Add32Fx4''),
     (BinopK, ''Add64Fx2''), (BinopK, ''Sub32Fx2''), (BinopK, ''Sub32Fx4''), (BinopK, ''Sub64Fx2''),
     (BinopK, ''Mul32Fx2''), (BinopK, ''Mul32Fx4''), (BinopK, ''Mul64Fx2'')]"

definition known_ops4 :: "(op_class \<times> string) list" where
  "known_ops4 = [
     (BinopK, ''Div32Fx4''), (BinopK, ''Div64Fx2''), (TriopK, ''AddF64''), (TriopK, ''SubF64''),
     (TriopK, ''MulF64''), (TriopK, ''DivF64''), (UnopK, ''NegF64''), (TriopK, ''AddF32''),
     (TriopK, ''SubF32''), (TriopK, ''MulF32''), (TriopK, ''DivF32''), (UnopK, ''NegF32''),
     (BinopK, ''RoundF32toInt''), (BinopK, ''RoundF64toInt''), (BinopK, ''CmpEQ8x8''),
     (BinopK, ''CmpEQ8x16''), (BinopK, ''CmpEQ16x4''), (BinopK, ''CmpEQ16x8''), (BinopK, ''CmpEQ32x2''),
     (BinopK, ''CmpEQ32x4''), (BinopK, ''CmpGT8Sx8''), (BinopK, ''CmpGT8Sx16''), (BinopK, ''CmpGT16Sx4''),
     (BinopK, ''CmpGT16Sx8''), (BinopK, ''CmpGT32Sx2''), (BinopK, ''CmpGT32Sx4''), (BinopK, ''CmpGT64Sx2''),
     (BinopK, ''CmpGT8Ux8''), (BinopK, ''CmpGT8Ux16''), (BinopK, ''CmpGT16Ux4''), (BinopK, ''CmpGT16Ux8''),
     (BinopK, ''CmpGT32Ux2''), (BinopK, ''CmpGT32Ux4''), (BinopK, ''CmpEQ32Fx2''), (BinopK, ''CmpEQ32Fx4''),
     (BinopK, ''CmpEQ64Fx2''), (BinopK, ''CmpGT32Fx2''), (BinopK, ''CmpGT32Fx4''), (BinopK, ''CmpGE32Fx2''),
     (BinopK, ''CmpGE32Fx4''), (BinopK, ''CmpLT32Fx4''), (BinopK, ''CmpLT64Fx2''), (BinopK, ''CmpLE32Fx4''),
     (BinopK, ''CmpLE64Fx2''), (BinopK, ''CmpUN32Fx4''), (BinopK, ''CmpUN64Fx2''), (BinopK, ''Perm8x8''),
     (BinopK, ''Perm8x16''), (TriopK, ''PRemF64''), (TriopK, ''PRemC3210F64''), (TriopK, ''SetElem8x8''),
     (TriopK, ''SetElem32x2'')]"

definition known_ops :: "(op_class \<times> string) list" where
  "known_ops = known_ops1 @ known_ops2 @ known_ops3 @ known_ops4"

fun arity :: "op_class \<Rightarrow> nat" where
  "arity UnopK = 1" | "arity BinopK = 2" | "arity TriopK = 3" | "arity QopK = 4"

definition known_class :: "string \<Rightarrow> op_class option" where
  "known_class p = map_of (map (\<lambda>(k, n). (n, k)) known_ops) p"

text \<open>An instance of a class takes as many operands as the class has, whatever the
  expression has; what lies behind the last of them is no expression.\<close>

definition take_args :: "nat \<Rightarrow> vexexpr list \<Rightarrow> vexexpr list" where
  "take_args n as = take n (as @ replicate n ExprNULL)"

definition createOp :: "op_class \<Rightarrow> string \<Rightarrow> vexexpr list \<Rightarrow> vexexpr" where
  "createOp tag p as = (case known_class p of
     Some k \<Rightarrow> ExprOp k p (take_args (arity k) as)
   | None \<Rightarrow> ExprUnknownOp tag (take_args (arity tag) as))"

fun createConst :: "IRConst \<Rightarrow> vexexpr option" where
  "createConst (Ico_F32 x) = None"
| "createConst (Ico_F32i x) = None"
| "createConst c = Some (ExprConst c)"

fun create_expr :: "genllvm \<Rightarrow> IRExpr \<Rightarrow> vexexpr option"
  and create_exprs :: "genllvm \<Rightarrow> IRExpr list \<Rightarrow> vexexpr list option" where
  "create_expr G Iex_Binder = Some ExprNULL"
| "create_expr G (Iex_Get off t) = Some (ExprGet off t)"
| "create_expr G (Iex_GetI base t n ix bias) = do {
     ix \<leftarrow> create_expr G ix;
     t \<leftarrow> vexTy2LLVM t;
     Some (ExprGetI base n ix bias t) }"
| "create_expr G (Iex_RdTmp r) = Some (ExprRdTmp r)"
| "create_expr G (Iex_Qop p a b c d) = do {
     a \<leftarrow> create_expr G a; b \<leftarrow> create_expr G b; c \<leftarrow> create_expr G c; d \<leftarrow> create_expr G d;
     Some (createOp QopK p [a, b, c, d]) }"
| "create_expr G (Iex_Triop p a b c) = do {
     a \<leftarrow> create_expr G a; b \<leftarrow> create_expr G b; c \<leftarrow> create_expr G c;
     Some (createOp TriopK p [a, b, c]) }"
| "create_expr G (Iex_Binop p a b) = do {
     a \<leftarrow> create_expr G a; b \<leftarrow> create_expr G b;
     Some (createOp BinopK p [a, b]) }"
| "create_expr G (Iex_Unop p a) = do {
     a \<leftarrow> create_expr G a;
     Some (createOp UnopK p [a]) }"
| "create_expr G (Iex_Load lend t a) = (if lend then do {
     a \<leftarrow> create_expr G a;
     Some (ExprLoad t a) } else None)"
| "create_expr G (Iex_Const c) = createConst c"
| "create_expr G (Iex_CCall f as) = do {
     as \<leftarrow> create_exprs G as;
     t \<leftarrow> helper_type G f;
     Some (ExprCCall f t as) }"
| "create_expr G (Iex_ITE c t f) = do {
     c \<leftarrow> create_expr G c; f \<leftarrow> create_expr G f; t \<leftarrow> create_expr G t;
     Some (ExprMux0X c f t) }"
| "create_expr G Iex_GSPTR = Some ExprGSPTR"
| "create_exprs G [] = Some []"
| "create_exprs G (a # as) = do {
     a \<leftarrow> create_expr G a; as \<leftarrow> create_exprs G as;
     Some (a # as) }"

section \<open>Constants\<close>

definition bitmask8_to_bytemask64 :: "int \<Rightarrow> int" where
  "bitmask8_to_bytemask64 w8 = fold (\<lambda>i w64. if w8 AND push_bit i 1 \<noteq> 0 then w64 OR push_bit (8 * i) 0xFF else w64) [0..<8] 0"

fun emit_const :: "IRConst \<Rightarrow> irvalue option" where
  "emit_const (Ico_U1 x) = Some (get_c 1 (of_bool x))"
| "emit_const (Ico_U8 x) = Some (get_c 8 (uint x))"
| "emit_const (Ico_U16 x) = Some (get_c 16 (uint x))"
| "emit_const (Ico_U32 x) = Some (get_c 32 (uint x))"
| "emit_const (Ico_U64 x) = Some (get_c 64 (uint x))"
| "emit_const (Ico_F64 x) = Some (ConstantV get_d [Some (uint x)])"
| "emit_const (Ico_F64i x) = Some (ConstantV get_d [Some (uint x)])"
| "emit_const (Ico_V128 x) = Some (to16x8i (ConstantVector
     [get_c 64 (bitmask8_to_bytemask64 (uint x AND 0xFF)), get_c 64 (bitmask8_to_bytemask64 (drop_bit 8 (uint x) AND 0xFF))]))"
| "emit_const (Ico_V256 x) = Some (to32x8i (ConstantVector
     [get_c 64 (bitmask8_to_bytemask64 (uint x AND 0xFF)), get_c 64 (bitmask8_to_bytemask64 (drop_bit 8 (uint x) AND 0xFF)),
      get_c 64 (bitmask8_to_bytemask64 (drop_bit 16 (uint x) AND 0xFF)), get_c 64 (bitmask8_to_bytemask64 (drop_bit 24 (uint x) AND 0xFF))]))"
| "emit_const c = None"

section \<open>Code\<close>

definition emit_op :: "op_class \<Rightarrow> string \<Rightarrow> irvalue list \<Rightarrow> irvalue option" where
  "emit_op k p vs = (case k of
     UnopK \<Rightarrow> (case vs of [v1] \<Rightarrow> Option.bind (map_of unops p) (\<lambda>f. f v1) | _ \<Rightarrow> None)
   | BinopK \<Rightarrow> (case vs of [v1, v2] \<Rightarrow> Option.bind (map_of binops p) (\<lambda>f. f v1 v2) | _ \<Rightarrow> None)
   | TriopK \<Rightarrow> (case vs of [v1, v2, v3] \<Rightarrow> Option.bind (map_of triops p) (\<lambda>f. f v1 v2 v3) | _ \<Rightarrow> None)
   | QopK \<Rightarrow> (case vs of [v1, v2, v3, v4] \<Rightarrow> Option.bind (map_of qops p) (\<lambda>f. f v1 v2 v3 v4) | _ \<Rightarrow> None))"

fun flattenType :: "irvalue \<Rightarrow> irvalue" where
  "flattenType v = (case getType v of
     VectorTy n s \<Rightarrow> if 64 < getBitWidth (getType v) then v else Cast BitCast v (get_i (getBitWidth (getType v)))
   | Scalar s \<Rightarrow> v)"

fun emit_expr :: "genllvm \<Rightarrow> vexexpr \<Rightarrow> builder \<Rightarrow> (irvalue \<times> builder) option"
  and emit_exprs :: "genllvm \<Rightarrow> vexexpr list \<Rightarrow> builder \<Rightarrow> (irvalue list \<times> builder) option" where
  "emit_expr G ExprNULL b = None"
| "emit_expr G (ExprGet off t) b = readCtx off t b"
| "emit_expr G (ExprGetI base len ix bias t) b = do {
     (ix_v, b) \<leftarrow> emit_expr G ix b;
     readCtxI base bias len ix_v t b }"
| "emit_expr G (ExprRdTmp r) b = do {
     v \<leftarrow> getRegValue r b;
     Some (v, b) }"
| "emit_expr G (ExprOp k p as) b = do {
     (vs, b) \<leftarrow> emit_exprs G as b;
     v \<leftarrow> emit_op k p vs;
     Some (v, b) }"
| "emit_expr G (ExprUnknownOp k as) b = None"
| "emit_expr G (ExprLoad t a) b = do {
     (addr_v, b) \<leftarrow> emit_expr G a b;
     load_irty G addr_v t b }"
| "emit_expr G (ExprConst c) b = do {
     v \<leftarrow> emit_const c;
     Some (v, b) }"
| "emit_expr G (ExprCCall f t as) b = do {
     (args_v, b) \<leftarrow> emit_exprs G as b;
     Some (PureCall f t args_v, b) }"
| "emit_expr G (ExprMux0X cond expr0 exprX) b = (
     let (bb_zero, b) = CreateBlock b;
         (bb_nonzero, b) = CreateBlock b;
         (bb_merge, b) = CreateBlock b
     in do {
       (cmp_val, b) \<leftarrow> emit_expr G cond b;
       let b = CreateCondBr (ICmp ICmpEQ cmp_val (get_c (getBitWidth (getType cmp_val)) 0)) bb_zero bb_nonzero b;
       (nonzero_val, b) \<leftarrow> emit_expr G exprX (SetInsertPoint bb_nonzero b);
       let nonzero_val = flattenType nonzero_val;
       let bb_nz = insert_block b;
       (zero_val, b) \<leftarrow> emit_expr G expr0 (SetInsertPoint bb_zero (CreateBr bb_merge b));
       let zero_val = flattenType zero_val;
       let bb_z = insert_block b;
       let b = SetInsertPoint bb_merge (CreateBr bb_merge b);
       if getType nonzero_val = getType zero_val
       then Some (CreatePHI (getType zero_val) [(zero_val, bb_z), (nonzero_val, bb_nz)] b) else None })"
| "emit_expr G ExprGSPTR b = Some (CtxBase, b)"
| "emit_exprs G [] b = Some ([], b)"
| "emit_exprs G (a # as) b = do {
     (v, b) \<leftarrow> emit_expr G a b;
     (vs, b) \<leftarrow> emit_exprs G as b;
     Some (v # vs, b) }"

end
