(* ===== verification/Vexstmt.thy ===== *)
theory Vexstmt
  imports Vexexpr
begin

text \<open>
  Statements (\<open>src/vexstmt.cc\<close>): the object made from each statement of a block of the
  intermediate representation and the code it emits. Null pointers and failing assertions
  are \<^const>\<open>None\<close>, as in \<open>Vexexpr\<close>. The address of the last store is not logged.
\<close>

section \<open>The intermediate representation\<close>

datatype IRJumpKind = Ijk_INVALID | Ijk_Boring | Ijk_Call | Ijk_Ret | Ijk_ClientReq | Ijk_Yield | Ijk_EmWarn
  | Ijk_NoDecode | Ijk_MapFail | Ijk_NoRedir | Ijk_SigTRAP | Ijk_SigSEGV | Ijk_SigBUS | Ijk_Sys_syscall
  | Ijk_Sys_int128 | Ijk_Sys_sysenter | Ijk_other

text \<open>A fact about every kind of jump is a computation over the list of them.\<close>

instantiation IRJumpKind :: enum
begin

definition enum_IRJumpKind :: "IRJumpKind list" where
  "enum_IRJumpKind = [Ijk_INVALID, Ijk_Boring, Ijk_Call, Ijk_Ret, Ijk_ClientReq, Ijk_Yield, Ijk_EmWarn,
     Ijk_NoDecode, Ijk_MapFail, Ijk_NoRedir, Ijk_SigTRAP, Ijk_SigSEGV, Ijk_SigBUS, Ijk_Sys_syscall,
     Ijk_Sys_int128, Ijk_Sys_sysenter, Ijk_other]"

definition enum_all_IRJumpKind :: "(IRJumpKind \<Rightarrow> bool) \<Rightarrow> bool" where
  "enum_all_IRJumpKind P \<longleftrightarrow> list_all P enum_class.enum"

definition enum_ex_IRJumpKind :: "(IRJumpKind \<Rightarrow> bool) \<Rightarrow> bool" where
  "enum_ex_IRJumpKind P \<longleftrightarrow> list_ex P enum_class.enum"

lemma every_jump_kind: "jk \<in> set (enum_class.enum :: IRJumpKind list)"
  by (cases jk) (simp_all add: enum_IRJumpKind_def)

instance
proof
  show "(UNIV :: IRJumpKind set) = set enum_class.enum" using every_jump_kind by auto
  show "distinct (enum_class.enum :: IRJumpKind list)" by (simp add: enum_IRJumpKind_def)
  fix P :: "IRJumpKind \<Rightarrow> bool"
  show "enum_class.enum_all P \<longleftrightarrow> Ball UNIV P" using every_jump_kind by (auto simp: enum_all_IRJumpKind_def list_all_iff)
  show "enum_class.enum_ex P \<longleftrightarrow> Bex UNIV P" using every_jump_kind by (auto simp: enum_ex_IRJumpKind_def list_ex_iff)
qed

end

datatype IRLoadGOp = ILGop_INVALID | ILGop_IdentV128 | ILGop_Ident32 | ILGop_16Uto32 | ILGop_16Sto32
  | ILGop_8Uto32 | ILGop_8Sto32

text \<open>A compare-and-swap has a low part and, when two words are swapped at once, a high
  one: the temporary that gets the old value, the expected value and the new one.\<close>

datatype IRStmt =
    Ist_NoOp
  | Ist_IMark "64 word" nat
  | Ist_AbiHint
  | Ist_Put nat IRExpr
  | Ist_PutI nat int IRExpr int IRExpr
  | Ist_WrTmp nat IRExpr
  | Ist_Store bool IRExpr IRExpr
  | Ist_CAS nat IRExpr IRExpr IRExpr "(nat \<times> IRExpr \<times> IRExpr) option"
  | Ist_LLSC nat IRExpr "IRExpr option"
  | Ist_Dirty IRExpr string "IRExpr list" "nat option"
  | Ist_MBE
  | Ist_Exit IRExpr IRJumpKind IRConst
  | Ist_StoreG bool IRExpr IRExpr IRExpr
  | Ist_LoadG bool IRLoadGOp nat IRExpr IRExpr IRExpr
  | Ist_other

datatype vexstmt =
    StmtNoOp
  | StmtIMark "64 word" nat
  | StmtAbiHint
  | StmtPut nat vexexpr
  | StmtPutI nat int vexexpr int vexexpr
  | StmtWrTmp nat vexexpr
  | StmtStore bool vexexpr vexexpr
  | StmtCAS nat vexexpr vexexpr vexexpr "(nat \<times> vexexpr \<times> vexexpr) option"
  | StmtLLSC nat vexexpr "vexexpr option"
  | StmtDirty vexexpr string ty "vexexpr list" "nat option"
  | StmtMBE
  | StmtExit vexexpr int IRJumpKind "64 word"
  | StmtStoreG vexexpr vexexpr vexexpr
  | StmtLoadG IRLoadGOp nat vexexpr vexexpr vexexpr

section \<open>Making the objects\<close>

definition GE_IGNORE :: int where "GE_IGNORE = 0"
definition GE_SIGTRAP :: int where "GE_SIGTRAP = 1"
definition GE_SIGSEGV :: int where "GE_SIGSEGV = 2"
definition GE_EMWARN :: int where "GE_EMWARN = 4"
definition GE_SYSCALL :: int where "GE_SYSCALL = 5"
definition GE_CALL :: int where "GE_CALL = 6"
definition GE_RETURN :: int where "GE_RETURN = 7"
definition GE_YIELD :: int where "GE_YIELD = 8"
definition GE_INT :: int where "GE_INT = 9"

lemmas exit_types = GE_IGNORE_def GE_SIGTRAP_def GE_SIGSEGV_def GE_EMWARN_def GE_SYSCALL_def GE_CALL_def
  GE_RETURN_def GE_YIELD_def GE_INT_def

fun exit_type_of :: "IRJumpKind \<Rightarrow> int option" where
  "exit_type_of Ijk_Boring = Some GE_IGNORE"
| "exit_type_of Ijk_Call = Some GE_CALL"
| "exit_type_of Ijk_Ret = Some GE_RETURN"
| "exit_type_of Ijk_Sys_int128 = Some GE_INT"
| "exit_type_of Ijk_Sys_syscall = Some GE_SYSCALL"
| "exit_type_of Ijk_Sys_sysenter = Some GE_SYSCALL"
| "exit_type_of Ijk_MapFail = Some GE_SIGSEGV"
| "exit_type_of Ijk_SigSEGV = Some GE_SIGSEGV"
| "exit_type_of Ijk_EmWarn = Some GE_EMWARN"
| "exit_type_of Ijk_NoDecode = Some GE_EMWARN"
| "exit_type_of k = None"

fun exit_dst :: "genllvm \<Rightarrow> IRConst \<Rightarrow> 64 word" where
  "exit_dst G (Ico_U1 x) = of_bool x"
| "exit_dst G (Ico_U8 x) = ucast x"
| "exit_dst G (Ico_U16 x) = ucast x"
| "exit_dst G (Ico_U32 x) = ucast x"
| "exit_dst G (Ico_U64 x) = x"
| "exit_dst G (Ico_F64i x) = x"
| "exit_dst G c = default_ptr G"

definition create_opt :: "genllvm \<Rightarrow> IRExpr option \<Rightarrow> vexexpr option option" where
  "create_opt G e = (case e of None \<Rightarrow> Some None | Some e \<Rightarrow> map_option Some (create_expr G e))"

text \<open>\<open>loadNextInstruction\<close> makes the object of the class of the tag.\<close>

fun create_stmt :: "genllvm \<Rightarrow> IRStmt \<Rightarrow> vexstmt option" where
  "create_stmt G Ist_NoOp = Some StmtNoOp"
| "create_stmt G (Ist_IMark a n) = Some (StmtIMark a n)"
| "create_stmt G Ist_AbiHint = Some StmtAbiHint"
| "create_stmt G (Ist_Put off e) = do {
     e \<leftarrow> create_expr G e;
     if e = ExprNULL then None else Some (StmtPut off e) }"
| "create_stmt G (Ist_PutI base n ix bias e) = do {
     ix \<leftarrow> create_expr G ix;
     e \<leftarrow> create_expr G e;
     if ix = ExprNULL \<or> e = ExprNULL then None else Some (StmtPutI base n ix bias e) }"
| "create_stmt G (Ist_WrTmp r e) = do {
     e \<leftarrow> create_expr G e;
     Some (StmtWrTmp r e) }"
| "create_stmt G (Ist_Store isLE a d) = do {
     a \<leftarrow> create_expr G a; d \<leftarrow> create_expr G d;
     Some (StmtStore isLE a d) }"
| "create_stmt G (Ist_CAS oldLo a expdLo dataLo hi) = do {
     a \<leftarrow> create_expr G a;
     x \<leftarrow> create_expr G expdLo;
     n \<leftarrow> create_expr G dataLo;
     case hi of
       None \<Rightarrow> Some (StmtCAS oldLo a x n None)
     | Some (oldHi, expdHi, dataHi) \<Rightarrow> do {
         xH \<leftarrow> create_expr G expdHi;
         nH \<leftarrow> create_expr G dataHi;
         Some (StmtCAS oldLo a x n (Some (oldHi, xH, nH))) } }"
| "create_stmt G (Ist_LLSC r a d) = do {
     a \<leftarrow> create_expr G a;
     d \<leftarrow> create_opt G d;
     Some (StmtLLSC r a (if d = Some ExprNULL then None else d)) }"
| "create_stmt G (Ist_Dirty g f as tmp) = do {
     g \<leftarrow> create_expr G g;
     t \<leftarrow> helper_type G f;
     as \<leftarrow> create_exprs G as;
     Some (StmtDirty g f t as tmp) }"
| "create_stmt G Ist_MBE = Some StmtMBE"
| "create_stmt G (Ist_Exit g jk dst) = do {
     g \<leftarrow> create_expr G g;
     t \<leftarrow> exit_type_of jk;
     Some (StmtExit g t jk (exit_dst G dst)) }"
| "create_stmt G (Ist_StoreG isLE a d g) = do {
     a \<leftarrow> create_expr G a; d \<leftarrow> create_expr G d; g \<leftarrow> create_expr G g;
     if isLE then Some (StmtStoreG a d g) else None }"
| "create_stmt G (Ist_LoadG isLE cvt r a alt g) = do {
     a \<leftarrow> create_expr G a; alt \<leftarrow> create_expr G alt; g \<leftarrow> create_expr G g;
     if isLE then Some (StmtLoadG cvt r a alt g) else None }"
| "create_stmt G Ist_other = None"

section \<open>Code\<close>

text \<open>The type of a temporary; a type without a counterpart is a null pointer.\<close>

definition getRegType :: "IRType list \<Rightarrow> nat \<Rightarrow> ty option" where
  "getRegType types r = (if r < length types then vexTy2LLVM (types ! r) else None)"

definition emitLoad :: "genllvm \<Rightarrow> IRType list \<Rightarrow> nat \<Rightarrow> vexexpr \<Rightarrow> builder \<Rightarrow> builder option" where
  "emitLoad G types result addr_expr b = do {
     (addr_v, b) \<leftarrow> emit_expr G addr_expr b;
     t \<leftarrow> getRegType types result;
     (v, b) \<leftarrow> load_ty G addr_v t b;
     b \<leftarrow> setRegValue result v b;
     Some (markLinked b) }"

definition emitStore :: "genllvm \<Rightarrow> nat \<Rightarrow> vexexpr \<Rightarrow> vexexpr \<Rightarrow> builder \<Rightarrow> builder option" where
  "emitStore G result addr_expr data_expr b = (
     let (bb_linked, b) = CreateBlock b;
         (bb_unlinked, b) = CreateBlock b;
         b = CreateCondBr getLinked bb_linked bb_unlinked b;
         b = SetInsertPoint bb_linked b
     in do {
       (v_addr, b) \<leftarrow> emit_expr G addr_expr b;
       (v, b) \<leftarrow> emit_expr G data_expr b;
       let b = SetInsertPoint bb_unlinked (CreateBr bb_unlinked (store G v_addr v b));
       setRegValue result getLinked b })"

text \<open>Compare and swap: the old values are loaded first, one comparison decides, and the
  new value is stored at both addresses when there are two.\<close>

definition high_addr :: "irvalue \<Rightarrow> ty \<Rightarrow> irvalue" where
  "high_addr v_addr t = BinaryOp Add v_addr (get_c (getBitWidth (getType v_addr)) (int (getBitWidth t div 8)))"

definition cas_match :: "irvalue \<Rightarrow> irvalue \<Rightarrow> (irvalue \<times> irvalue) option \<Rightarrow> irvalue" where
  "cas_match v_expected v_load hi = (case hi of
     None \<Rightarrow> ICmp ICmpEQ v_expected v_load
   | Some (xH, lH) \<Rightarrow> ICmp ICmpEQ (ICmp ICmpEQ v_expected v_load) (ICmp ICmpEQ xH lH))"

definition emit_cas :: "genllvm \<Rightarrow> nat \<Rightarrow> vexexpr \<Rightarrow> vexexpr \<Rightarrow> vexexpr \<Rightarrow> (nat \<times> vexexpr \<times> vexexpr) option
    \<Rightarrow> builder \<Rightarrow> builder option" where
  "emit_cas G oldVal_tmp addr expected_val new_val high b = do {
     (v_addr, b) \<leftarrow> emit_expr G addr b;
     (v_expected, b) \<leftarrow> emit_expr G expected_val b;
     (v_load, b) \<leftarrow> load_ty G v_addr (getType v_expected) b;
     (hi, b) \<leftarrow> (case high of
         None \<Rightarrow> Some (None, b)
       | Some (tmpHI, xH, nH) \<Rightarrow> do {
           (xH_v, b) \<leftarrow> emit_expr G xH b;
           (lH_v, b) \<leftarrow> load_ty G (high_addr v_addr (getType v_expected)) (getType v_expected) b;
           Some (Some (tmpHI, xH_v, lH_v), b) });
     let (bb_then, b) = CreateBlock b;
     let (bb_merge, b) = CreateBlock b;
     let v_cmp = cas_match v_expected v_load (map_option snd hi);
     let b = SetInsertPoint bb_then (CreateCondBr v_cmp bb_then bb_merge b);
     (v_new, b) \<leftarrow> emit_expr G new_val b;
     let b = store G v_addr v_new b;
     b \<leftarrow> (case hi of
         None \<Rightarrow> Some b
       | Some (tmpHI, xH_v, lH_v) \<Rightarrow> do {
           (v_new, b) \<leftarrow> emit_expr G new_val b;
           Some (store G (high_addr v_addr (getType v_expected)) v_new b) });
     let b = SetInsertPoint bb_merge (CreateBr bb_merge b);
     b \<leftarrow> setRegValue oldVal_tmp v_load b;
     case hi of None \<Rightarrow> Some b | Some (tmpHI, xH_v, lH_v) \<Rightarrow> setRegValue tmpHI lH_v b }"

text \<open>A call that changes the guest's state, with its guard. The first argument is given
  the type of the helper's first parameter, so there has to be one; the result is given
  the width of the temporary.\<close>

definition CreatePointerCast :: "irvalue \<Rightarrow> ty \<Rightarrow> irvalue option" where
  "CreatePointerCast v t = (if getType v = t then Some v
     else if getType v = Scalar PtrTy \<and> t = get_i (getBitWidth t)
       then Some (Cast (if getBitWidth t \<le> 64 then Trunc else ZExt) v t) else None)"

definition fit_result :: "irvalue \<Rightarrow> ty \<Rightarrow> irvalue" where
  "fit_result v tmp_type = (
     let ret_bits = getBitWidth (getType v); tmp_bits = getBitWidth tmp_type; compat_type = get_i ret_bits
     in if ret_bits < tmp_bits then Cast ZExt (Cast BitCast v compat_type) tmp_type
        else if ret_bits > tmp_bits then Cast Trunc (Cast BitCast v compat_type) tmp_type
        else v)"

definition isOneValue :: "genllvm \<Rightarrow> irvalue \<Rightarrow> bool" where
  "isOneValue G v \<longleftrightarrow> isConstant v \<and> ev (target G) (\<lambda>i. []) v = [Some 1]"

definition emit_call :: "genllvm \<Rightarrow> IRType list \<Rightarrow> string \<Rightarrow> ty \<Rightarrow> vexexpr list \<Rightarrow> nat option \<Rightarrow> builder \<Rightarrow> builder option" where
  "emit_call G types f t args tmp_reg b = do {
     (args_v, b) \<leftarrow> emit_exprs G args b;
     a0 \<leftarrow> (case args_v of [] \<Rightarrow> None | v # vs \<Rightarrow> do { p \<leftarrow> helper_param G f; CreatePointerCast v p });
     let (v_call, b) = CreateCall t f (a0 # tl args_v) b;
     case tmp_reg of
       None \<Rightarrow> Some b
     | Some r \<Rightarrow> do {
         tmp_type \<leftarrow> getRegType types r;
         setRegValue r (fit_result v_call tmp_type) b } }"

definition emit_dirty :: "genllvm \<Rightarrow> IRType list \<Rightarrow> vexexpr \<Rightarrow> string \<Rightarrow> ty \<Rightarrow> vexexpr list \<Rightarrow> nat option
    \<Rightarrow> builder \<Rightarrow> builder option" where
  "emit_dirty G types guard f t args tmp_reg b = do {
     (v_cmp, b) \<leftarrow> emit_expr G guard b;
     if isOneValue G v_cmp then emit_call G types f t args tmp_reg b
     else (let (bb_then, b) = CreateBlock b;
               (bb_merge, b) = CreateBlock b;
               b = SetInsertPoint bb_then (CreateCondBr v_cmp bb_then bb_merge b)
           in do {
             b \<leftarrow> emit_call G types f t args tmp_reg b;
             Some (SetInsertPoint bb_merge (CreateBr bb_merge b)) }) }"

definition emit_exit :: "genllvm \<Rightarrow> vexexpr \<Rightarrow> int \<Rightarrow> IRJumpKind \<Rightarrow> 64 word \<Rightarrow> builder \<Rightarrow> builder option" where
  "emit_exit G guard exit_type jk dst b = (
     let (bb_then, b) = CreateBlock b;
         (bb_else, b) = CreateBlock b
     in do {
       (v_cmp, b) \<leftarrow> emit_expr G guard b;
       let b = SetInsertPoint bb_then (CreateCondBr v_cmp bb_then bb_else b);
       b \<leftarrow> (if jk \<noteq> Ijk_Boring then setExitType G exit_type b else Some b);
       Some (SetInsertPoint bb_else (CreateRet (get_c 64 (uint dst)) b)) })"

definition emit_storeg :: "genllvm \<Rightarrow> vexexpr \<Rightarrow> vexexpr \<Rightarrow> vexexpr \<Rightarrow> builder \<Rightarrow> builder option" where
  "emit_storeg G addr data guard b = do {
     (guard_v, b) \<leftarrow> emit_expr G guard b;
     let (bb_then, b) = CreateBlock b;
     let (bb_merge, b) = CreateBlock b;
     let b = SetInsertPoint bb_then (CreateCondBr guard_v bb_then bb_merge b);
     (addr_v, b) \<leftarrow> emit_expr G addr b;
     (data_v, b) \<leftarrow> emit_expr G data b;
     Some (SetInsertPoint bb_merge (CreateBr bb_merge (store G addr_v data_v b))) }"

fun loadg_type :: "IRLoadGOp \<Rightarrow> ty option" where
  "loadg_type ILGop_Ident32 = Some (get_i 32)"
| "loadg_type ILGop_IdentV128 = vexTy2LLVM Ity_V128"
| "loadg_type ILGop_8Sto32 = Some (get_i 8)"
| "loadg_type ILGop_8Uto32 = Some (get_i 8)"
| "loadg_type ILGop_16Uto32 = Some (get_i 16)"
| "loadg_type ILGop_16Sto32 = Some (get_i 16)"
| "loadg_type ILGop_INVALID = None"

fun loadg_widen :: "IRLoadGOp \<Rightarrow> irvalue \<Rightarrow> irvalue" where
  "loadg_widen ILGop_16Uto32 v = Cast ZExt v (get_i 32)"
| "loadg_widen ILGop_8Uto32 v = Cast ZExt v (get_i 32)"
| "loadg_widen ILGop_8Sto32 v = Cast SExt v (get_i 32)"
| "loadg_widen ILGop_16Sto32 v = Cast SExt v (get_i 32)"
| "loadg_widen cvt v = v"

definition emit_loadg :: "genllvm \<Rightarrow> IRLoadGOp \<Rightarrow> nat \<Rightarrow> vexexpr \<Rightarrow> vexexpr \<Rightarrow> vexexpr \<Rightarrow> builder \<Rightarrow> builder option" where
  "emit_loadg G loadg_op dst_tmp addr alt guard b = do {
     (guard_v, b) \<leftarrow> emit_expr G guard b;
     (addr_v, b) \<leftarrow> emit_expr G addr b;
     (alt_v, b) \<leftarrow> emit_expr G alt b;
     let (bb_then, b) = CreateBlock b;
     let (bb_alt, b) = CreateBlock b;
     let (bb_merge, b) = CreateBlock b;
     let b = SetInsertPoint bb_then (CreateCondBr guard_v bb_then bb_alt b);
     t \<leftarrow> loadg_type loadg_op;
     (c_v, b) \<leftarrow> load_ty G addr_v t b;
     let c_v = loadg_widen loadg_op c_v;
     let b = SetInsertPoint bb_alt (CreateBr bb_merge b);
     let b = SetInsertPoint bb_merge (CreateBr bb_merge b);
     if getType alt_v = getType c_v
     then (let (pn, b) = CreatePHI (getType c_v) [(c_v, bb_then), (alt_v, bb_alt)] b in setRegValue dst_tmp pn b)
     else None }"

fun emit_stmt :: "genllvm \<Rightarrow> IRType list \<Rightarrow> vexstmt \<Rightarrow> builder \<Rightarrow> builder option" where
  "emit_stmt G types StmtNoOp b = Some b"
| "emit_stmt G types (StmtIMark a n) b = Some b"
| "emit_stmt G types StmtAbiHint b = Some b"
| "emit_stmt G types (StmtPut offset data_expr) b = do {
     (out_v, b) \<leftarrow> emit_expr G data_expr b;
     writeCtx offset out_v b }"
| "emit_stmt G types (StmtPutI base len ix_expr bias data_expr) b = do {
     (out_v, b) \<leftarrow> emit_expr G data_expr b;
     (ix_v, b) \<leftarrow> emit_expr G ix_expr b;
     writeCtxI base bias len ix_v out_v b }"
| "emit_stmt G types (StmtWrTmp tmp_reg expr) b = do {
     (v, b) \<leftarrow> emit_expr G expr b;
     setRegValue tmp_reg v b }"
| "emit_stmt G types (StmtStore isLE addr_expr data_expr) b = do {
     (data_v, b) \<leftarrow> emit_expr G data_expr b;
     (addr_v, b) \<leftarrow> emit_expr G addr_expr b;
     Some (store G addr_v data_v b) }"
| "emit_stmt G types (StmtLLSC result addr_expr data_expr) b = (case data_expr of
     Some data_expr \<Rightarrow> emitStore G result addr_expr data_expr b
   | None \<Rightarrow> emitLoad G types result addr_expr b)"
| "emit_stmt G types (StmtCAS old a x n high) b = emit_cas G old a x n high b"
| "emit_stmt G types (StmtDirty guard f t args tmp_reg) b = emit_dirty G types guard f t args tmp_reg b"
| "emit_stmt G types StmtMBE b = Some (memFence b)"
| "emit_stmt G types (StmtExit guard exit_type jk dst) b = emit_exit G guard exit_type jk dst b"
| "emit_stmt G types (StmtStoreG addr data guard) b = emit_storeg G addr data guard b"
| "emit_stmt G types (StmtLoadG cvt dst addr alt guard) b = emit_loadg G cvt dst addr alt guard b"

end
