(* ===== verification/Vexsb.thy ===== *)
theory Vexsb
  imports Vexstmt
begin

text \<open>
  A block of the intermediate representation as the translator keeps it
  (\<open>src/vexsb.cc\<close>): its statements, where its instructions lie, how it ends, and the
  function emitted for it. \<open>None\<close> is a failed assertion or a null pointer; a block that
  \<open>create\<close> declines is \<open>Some None\<close>.
\<close>

section \<open>Blocks\<close>

record IRSB =
  tyenv :: "IRType list"
  ir_stmts :: "IRStmt list"
  ir_next :: IRExpr
  jumpkind :: IRJumpKind

record vexsb =
  guest_addr :: "64 word"
  reg_types :: "IRType list"
  stmts :: "vexstmt list"
  last_imark :: "(64 word \<times> nat) option"
  jump_kind :: IRJumpKind
  jump_expr :: vexexpr

definition getTypeBitWidth :: "IRType \<Rightarrow> nat" where
  "getTypeBitWidth t = (case t of
     Ity_I1 \<Rightarrow> 1 | Ity_I8 \<Rightarrow> 8 | Ity_I16 \<Rightarrow> 16 | Ity_I32 \<Rightarrow> 32 | Ity_I64 \<Rightarrow> 64 | Ity_I128 \<Rightarrow> 128
   | Ity_F32 \<Rightarrow> 32 | Ity_F64 \<Rightarrow> 64 | Ity_V128 \<Rightarrow> 128 | _ \<Rightarrow> 0)"

definition getTypeStr :: "IRType \<Rightarrow> string option" where
  "getTypeStr t = (case t of
     Ity_I1 \<Rightarrow> Some ''I1'' | Ity_I8 \<Rightarrow> Some ''I8'' | Ity_I16 \<Rightarrow> Some ''I16'' | Ity_I32 \<Rightarrow> Some ''I32''
   | Ity_I64 \<Rightarrow> Some ''I64'' | Ity_I128 \<Rightarrow> Some ''I128'' | Ity_F32 \<Rightarrow> Some ''F32'' | Ity_F64 \<Rightarrow> Some ''F64''
   | Ity_V128 \<Rightarrow> Some ''V128'' | _ \<Rightarrow> None)"

section \<open>Loading\<close>

fun imark :: "vexstmt \<Rightarrow> (64 word \<times> nat) option" where
  "imark (StmtIMark a n) = Some (a, n)"
| "imark s = None"

primrec loadInstructions :: "genllvm \<Rightarrow> IRStmt list \<Rightarrow> vexstmt list \<times> (64 word \<times> nat) option
    \<Rightarrow> (vexstmt list \<times> (64 word \<times> nat) option) option" where
  "loadInstructions G [] st = Some st"
| "loadInstructions G (i # is) st = do {
     s \<leftarrow> create_stmt G i;
     loadInstructions G is (fst st @ [s], case imark s of None \<Rightarrow> snd st | Some m \<Rightarrow> Some m) }"

definition LINUX_SYSENTER_TRAMPOLINE_OFFSET :: "genllvm \<Rightarrow> 64 word" where
  "LINUX_SYSENTER_TRAMPOLINE_OFFSET G = (if use_linux_sysenter G then 9 else 0)"

definition getEndAddr :: "vexsb \<Rightarrow> 64 word option" where
  "getEndAddr sb = map_option (\<lambda>(a, n). a + of_nat n) (last_imark sb)"

definition getSize :: "vexsb \<Rightarrow> 32 word option" where
  "getSize sb = map_option (\<lambda>e. ucast (e - guest_addr sb)) (getEndAddr sb)"

definition loadJump :: "genllvm \<Rightarrow> IRJumpKind \<Rightarrow> vexexpr \<Rightarrow> vexsb \<Rightarrow> vexsb option" where
  "loadJump G jk blk_next sb = (
     let sb = sb\<lparr>jump_kind := jk\<rparr> in
     if jk = Ijk_Sys_sysenter then do {
       e \<leftarrow> getEndAddr sb;
       Some (sb\<lparr>jump_expr := ExprConst (Ico_U32 (ucast (e + LINUX_SYSENTER_TRAMPOLINE_OFFSET G)))\<rparr>) }
     else if jk \<in> {Ijk_Yield, Ijk_Call, Ijk_Ret, Ijk_Boring, Ijk_NoRedir, Ijk_Sys_syscall, Ijk_Sys_int128,
       Ijk_SigTRAP, Ijk_ClientReq} then Some (sb\<lparr>jump_expr := blk_next\<rparr>)
     else None)"

definition empty_sb :: "64 word \<Rightarrow> IRType list \<Rightarrow> vexsb" where
  "empty_sb a types = \<lparr>guest_addr = a, reg_types = types, stmts = [], last_imark = None,
     jump_kind = Ijk_INVALID, jump_expr = ExprNULL\<rparr>"

text \<open>The last statement is looked at, so there has to be one.\<close>

definition new_sb :: "genllvm \<Rightarrow> 64 word \<Rightarrow> IRSB \<Rightarrow> vexsb option" where
  "new_sb G a irsb = do {
     (ss, im) \<leftarrow> loadInstructions G (ir_stmts irsb) ([], None);
     next_expr \<leftarrow> (if ss = [] then None else create_expr G (ir_next irsb));
     loadJump G (jumpkind irsb) next_expr ((empty_sb a (tyenv irsb))\<lparr>stmts := ss, last_imark := im\<rparr>) }"

definition create_sb :: "genllvm \<Rightarrow> 64 word \<Rightarrow> IRSB option \<Rightarrow> vexsb option option" where
  "create_sb G a in_irsb = (case in_irsb of
     None \<Rightarrow> Some None
   | Some irsb \<Rightarrow> if jumpkind irsb = Ijk_NoDecode then Some None else map_option Some (new_sb G a irsb))"

primrec load_imarks :: "vexstmt list \<Rightarrow> (64 word \<times> nat) option \<Rightarrow> (64 word \<times> nat) option" where
  "load_imarks [] im = im"
| "load_imarks (s # ss) im = load_imarks ss (case imark s of None \<Rightarrow> im | Some m \<Rightarrow> Some m)"

definition load_sb :: "genllvm \<Rightarrow> vexstmt list \<Rightarrow> IRJumpKind \<Rightarrow> vexexpr \<Rightarrow> vexsb \<Rightarrow> vexsb option" where
  "load_sb G in_stmts irjk next_expr sb = (if stmts sb \<noteq> [] then None
     else if irjk = Ijk_Sys_sysenter \<and> in_stmts = [] then None
     else loadJump G irjk next_expr (sb\<lparr>stmts := in_stmts, last_imark := load_imarks in_stmts (last_imark sb)\<rparr>))"

definition getInstExtents :: "vexsb \<Rightarrow> (64 word \<times> 8 word) list" where
  "getInstExtents sb = List.map_filter (\<lambda>s. map_option (\<lambda>(a, n). (a, of_nat n)) (imark s)) (stmts sb)"

definition isSyscall :: "vexsb \<Rightarrow> bool" where
  "isSyscall sb \<longleftrightarrow> jump_kind sb \<in> {Ijk_Sys_syscall, Ijk_Sys_int128, Ijk_Sys_sysenter}"

section \<open>Code\<close>

primrec emit_stmts :: "genllvm \<Rightarrow> IRType list \<Rightarrow> vexstmt list \<Rightarrow> builder \<Rightarrow> builder option" where
  "emit_stmts G types [] b = Some b"
| "emit_stmts G types (s # ss) b = do { b \<leftarrow> emit_stmt G types s b; emit_stmts G types ss b }"

fun jump_exit_type :: "IRJumpKind \<Rightarrow> int option option" where
  "jump_exit_type Ijk_Boring = Some None"
| "jump_exit_type Ijk_NoRedir = Some None"
| "jump_exit_type Ijk_ClientReq = Some None"
| "jump_exit_type Ijk_Call = Some (Some GE_CALL)"
| "jump_exit_type Ijk_Ret = Some (Some GE_RETURN)"
| "jump_exit_type Ijk_Yield = Some (Some GE_YIELD)"
| "jump_exit_type Ijk_Sys_sysenter = Some (Some GE_SYSCALL)"
| "jump_exit_type Ijk_Sys_syscall = Some (Some GE_SYSCALL)"
| "jump_exit_type Ijk_Sys_int128 = Some (Some GE_INT)"
| "jump_exit_type Ijk_SigTRAP = Some (Some GE_SIGTRAP)"
| "jump_exit_type jk = None"

definition emit_sb :: "genllvm \<Rightarrow> vexsb \<Rightarrow> irinst list list option" where
  "emit_sb G sb = do {
     b \<leftarrow> emit_stmts G (reg_types sb) (stmts sb) beginBB;
     (ret_v, b) \<leftarrow> emit_expr G (jump_expr sb) b;
     t \<leftarrow> jump_exit_type (jump_kind sb);
     b \<leftarrow> (case t of None \<Rightarrow> Some b | Some t \<Rightarrow> setExitType G t b);
     Some (endBB ret_v b) }"

section \<open>What is loaded\<close>

lemma loadInstructions_split:
  "loadInstructions G is st = Some st' \<longleftrightarrow>
     (\<exists>ts. those (map (create_stmt G) is) = Some ts \<and> st' = (fst st @ ts, load_imarks ts (snd st)))"
  by (induction "is" arbitrary: st) (auto split: option.splits bind_splits)

end
