(* ===== verification/Containers.thy ===== *)
theory Containers
  imports Prelude
begin

text \<open>
  What the translator's caches are built from: \<open>std::map\<close> as a list of entries
  ordered by key, with the iterator ranges the code walks, and the direct-mapped cache
  of directcache.h that stands in front of such a map. Two interfaces, an ordered map
  and a cache that may forget, and what follows for the pair of them: as long as every
  change of the map is entered into the cache, or clears its slot, a hit in the cache is
  always what the map holds.
\<close>

section \<open>Faults\<close>

text \<open>What stops the C++ code: a failed assertion, or a use of memory that is undefined.\<close>

datatype fault = Assert_failed | Divide_by_zero | Use_after_free | Past_end | Out_of_fuel

primrec and_then :: "'e + 'a \<Rightarrow> ('a \<Rightarrow> 'e + 'b) \<Rightarrow> 'e + 'b" where
  "and_then (Inl e) f = Inl e"
| "and_then (Inr a) f = f a"

lemma and_then_Inr [simp]: "and_then r f = Inr b \<longleftrightarrow> (\<exists>a. r = Inr a \<and> f a = Inr b)"
  by (cases r) auto

lemma and_then_Inl [simp]: "and_then r f = Inl e \<longleftrightarrow> r = Inl e \<or> (\<exists>a. r = Inr a \<and> f a = Inl e)"
  by (cases r) auto

section \<open>std::map\<close>

type_synonym ('k, 'v) stdmap = "('k \<times> 'v) list"

fun map_insert :: "'k::linorder \<Rightarrow> 'v \<Rightarrow> ('k, 'v) stdmap \<Rightarrow> ('k, 'v) stdmap" where
  "map_insert k v [] = [(k, v)]"
| "map_insert k v ((k', v') # m) =
     (if k < k' then (k, v) # (k', v') # m
      else if k = k' then (k, v) # m
      else (k', v') # map_insert k v m)"

definition map_erase :: "'k \<Rightarrow> ('k, 'v) stdmap \<Rightarrow> ('k, 'v) stdmap" where
  "map_erase k m = filter (\<lambda>e. fst e \<noteq> k) m"

text \<open>
  The entries between \<open>lower_bound(b)\<close> and \<open>upper_bound(e)\<close>; a walk that starts
  behind its end runs off the map.
\<close>

definition map_range :: "'k::linorder \<Rightarrow> 'k \<Rightarrow> ('k, 'v) stdmap \<Rightarrow> fault + ('k \<times> 'v) list" where
  "map_range b e m =
     (let lb = length (takeWhile (\<lambda>x. fst x < b) m); ub = length (takeWhile (\<lambda>x. fst x \<le> e) m)
      in if ub < lb then Inl Past_end else Inr (take (ub - lb) (drop lb m)))"

definition map_ok :: "('k::linorder, 'v) stdmap \<Rightarrow> bool" where
  "map_ok m \<longleftrightarrow> sorted_wrt (<) (map fst m)"

lemma map_ok_simps [simp]:
  "map_ok []"
  "map_ok ((k, v) # m) \<longleftrightarrow> (\<forall>x\<in>set m. k < fst x) \<and> map_ok m"
  by (auto simp: map_ok_def)

lemma set_map_insert: "set (map_insert k v m) \<subseteq> insert (k, v) (set m)"
  by (induction k v m rule: map_insert.induct) auto

lemma map_of_insert: "map_ok m \<Longrightarrow> map_of (map_insert k v m) = (map_of m)(k \<mapsto> v)"
  by (induction k v m rule: map_insert.induct) (auto simp: fun_eq_iff)

lemma map_ok_insert [simp]: "map_ok m \<Longrightarrow> map_ok (map_insert k v m)"
  by (induction k v m rule: map_insert.induct) (auto dest!: subsetD [OF set_map_insert])

lemma map_of_erase: "map_of (map_erase k m) = (map_of m)(k := None)"
  by (induction m) (auto simp: map_erase_def fun_eq_iff)

lemma map_ok_erase [simp]: "map_ok m \<Longrightarrow> map_ok (map_erase k m)"
  by (induction m) (auto simp: map_erase_def)

lemma map_ok_distinct: "map_ok m \<Longrightarrow> distinct (map fst m)"
  unfolding map_ok_def by (metis strict_sorted_iff)

lemma map_of_eq_Some: "map_ok m \<Longrightarrow> map_of m k = Some v \<longleftrightarrow> (k, v) \<in> set m"
  by (simp add: map_ok_distinct)

lemma length_map: "map_ok m \<Longrightarrow> length m = card (dom (map_of m))"
  by (metis distinct_card dom_map_of_conv_image_fst length_map list.set_map map_ok_distinct)

lemma length_map_insert:
  "map_ok m \<Longrightarrow> length (map_insert k v m) = (if k \<in> dom (map_of m) then length m else Suc (length m))"
  by (simp add: length_map map_of_insert finite_dom_map_of card_insert_if)

lemma length_map_erase: "length (map_erase k m) \<le> length m"
  by (simp add: map_erase_def)

lemma length_map_erase_less: "k \<in> dom (map_of m) \<Longrightarrow> length (map_erase k m) < length m"
  by (auto simp: map_erase_def dom_def dest!: map_of_SomeD intro!: length_filter_less)

lemma map_of_filter_key: "map_of (filter (\<lambda>x. P (fst x)) m) k = (if P k then map_of m k else None)"
  by (induction m) auto

text \<open>A range that does not run off the map holds exactly the keys between its bounds.\<close>

lemma takeWhile_eq_filter_key:
  assumes "map_ok m" and P: "\<And>x y. x \<le> y \<Longrightarrow> P y \<Longrightarrow> P x"
  shows "takeWhile (\<lambda>x. P (fst x)) m = filter (\<lambda>x. P (fst x)) m"
  using assms(1)
proof (induction m)
  case (Cons x m)
  have "\<not> P (fst x) \<Longrightarrow> \<forall>y\<in>set m. \<not> P (fst y)"
    using Cons.prems P by (cases x) (auto dest: less_imp_le)
  with Cons show ?case by (cases x) (auto simp: filter_empty_conv)
qed simp

lemma dropWhile_eq_filter_key:
  assumes "map_ok m" and "\<And>x y. x \<le> y \<Longrightarrow> P y \<Longrightarrow> P x"
  shows "dropWhile (\<lambda>x. P (fst x)) m = filter (\<lambda>x. \<not> P (fst x)) m"
  using assms(1)
proof (induction m)
  case (Cons x m)
  then show ?case using assms(2)
    by (cases x) (auto intro!: filter_True [symmetric] dest: less_imp_le)
qed simp

lemma map_ok_filter [simp]: "map_ok m \<Longrightarrow> map_ok (filter P m)"
  by (induction m) auto

lemma map_range_filter:
  assumes m: "map_ok m" and r: "map_range b e m = Inr xs"
  shows "xs = filter (\<lambda>x. b \<le> fst x \<and> fst x \<le> e) m"
proof -
  define T where "T = takeWhile (\<lambda>x. fst x < b) m"
  define D where "D = dropWhile (\<lambda>x. fst x < b) m"
  have TD: "m = T @ D" by (simp add: T_def D_def)
  define U where "U = takeWhile (\<lambda>x. fst x \<le> e) m"
  have le: "length T \<le> length U" and xs: "xs = take (length U - length T) (drop (length T) m)"
    using r by (auto simp: map_range_def Let_def T_def U_def split: if_splits)
  have "T = take (length T) U"
    using le TD by (metis U_def append_eq_conv_conj take_take takeWhile_eq_take min.absorb1)
  then have "\<forall>x\<in>set T. fst x \<le> e"
    by (metis U_def in_set_takeD set_takeWhileD)
  then have "U = T @ takeWhile (\<lambda>x. fst x \<le> e) D"
    unfolding U_def by (subst TD) (rule takeWhile_append2, simp)
  then have "xs = takeWhile (\<lambda>x. fst x \<le> e) D"
    using xs TD by (simp add: takeWhile_eq_take [symmetric])
  also have "D = filter (\<lambda>x. \<not> fst x < b) m"
    unfolding D_def using m by (rule dropWhile_eq_filter_key) auto
  also have "takeWhile (\<lambda>x. fst x \<le> e) \<dots> = filter (\<lambda>x. fst x \<le> e) \<dots>"
    using m by (intro takeWhile_eq_filter_key) auto
  finally show ?thesis
    by (simp add: not_less conj_commute)
qed

lemma map_range_ok:
  assumes m: "map_ok m" and "b \<le> e"
  shows "map_range b e m = Inr (filter (\<lambda>x. b \<le> fst x \<and> fst x \<le> e) m)"
proof -
  have "length (takeWhile (\<lambda>x. fst x < b) m) \<le> length (takeWhile (\<lambda>x. fst x \<le> e) m)"
    using assms(2) by (induction m) (auto dest: order.strict_trans2)
  then obtain xs where "map_range b e m = Inr xs"
    by (auto simp: map_range_def Let_def)
  then show ?thesis using map_range_filter [OF m] by simp
qed

section \<open>directcache.h\<close>

definition DC_SIZE :: nat where "DC_SIZE = 4096"

text \<open>An entry is the address and the pointer; \<open>None\<close> is the null pointer.\<close>

type_synonym 'v DirectCache = "nat \<Rightarrow> 64 word \<times> 'v option"

definition ptr2slot :: "64 word \<Rightarrow> nat" where
  "ptr2slot p = unat (drop_bit 2 p) mod DC_SIZE"

definition dc_flush :: "'v DirectCache" where
  "dc_flush = (\<lambda>_. (0, None))"

definition dc_put :: "64 word \<Rightarrow> 'v option \<Rightarrow> 'v DirectCache \<Rightarrow> 'v DirectCache" where
  "dc_put p t ents = ents(ptr2slot p := (p, t))"

definition dc_get :: "'v DirectCache \<Rightarrow> 64 word \<Rightarrow> 'v option" where
  "dc_get ents p = (let e = ents (ptr2slot p) in if fst e = p then snd e else None)"

section \<open>The interfaces\<close>

text \<open>A map whose keys can be entered and taken out.\<close>

locale keyed_map =
  fixes find :: "'m \<Rightarrow> 'k \<Rightarrow> 'v option"
    and enter :: "'k \<Rightarrow> 'v \<Rightarrow> 'm \<Rightarrow> 'm"
    and erase :: "'k \<Rightarrow> 'm \<Rightarrow> 'm"
    and inv :: "'m \<Rightarrow> bool"
  assumes find_enter: "inv m \<Longrightarrow> find (enter k v m) = (find m)(k \<mapsto> v)"
    and find_erase: "inv m \<Longrightarrow> find (erase k m) = (find m)(k := None)"
    and inv_enter: "inv m \<Longrightarrow> inv (enter k v m)"
    and inv_erase: "inv m \<Longrightarrow> inv (erase k m)"
begin

lemma find_erase_all:
  "inv m \<Longrightarrow> inv (fold erase ks m) \<and> find (fold erase ks m) = find m |` (- set ks)"
proof (induction ks arbitrary: m)
  case (Cons k ks)
  then show ?case
    by (auto simp: find_erase inv_erase restrict_map_def fun_eq_iff)
qed (simp add: restrict_map_def)

end

text \<open>A cache that holds what was last put, or forgets it.\<close>

locale forgetful =
  fixes get :: "'c \<Rightarrow> 'k \<Rightarrow> 'v option"
    and put :: "'k \<Rightarrow> 'v option \<Rightarrow> 'c \<Rightarrow> 'c"
  assumes get_put: "get (put k v c) \<subseteq>\<^sub>m (get c)(k := v)"
begin

lemma get_put_same: "get (put k (Some v) c) k = Some v \<or> get (put k (Some v) c) k = None"
  using get_put [of k "Some v" c] by (auto simp: map_le_def dom_def)

end

text \<open>The cache in front of the map.\<close>

locale fronted_map = keyed_map find enter erase inv + forgetful get put
  for find :: "'m \<Rightarrow> 'k \<Rightarrow> 'v option" and enter erase inv and get :: "'c \<Rightarrow> 'k \<Rightarrow> 'v option" and put
begin

lemma fill: "get c \<subseteq>\<^sub>m find m \<Longrightarrow> find m k = Some v \<Longrightarrow> get (put k (Some v) c) \<subseteq>\<^sub>m find m"
  by (rule map_le_trans [OF get_put]) (auto simp: map_le_def)

lemma enter_both:
  "inv m \<Longrightarrow> get c \<subseteq>\<^sub>m find m \<Longrightarrow> get (put k (Some v) c) \<subseteq>\<^sub>m find (enter k v m)"
  by (rule map_le_trans [OF get_put]) (auto simp: find_enter map_le_def)

lemma put_upd: "get c \<subseteq>\<^sub>m f \<Longrightarrow> get (put k v c) \<subseteq>\<^sub>m f(k := v)"
  by (rule map_le_trans [OF get_put]) (auto simp: map_le_def)

lemma erase_both:
  "inv m \<Longrightarrow> get c \<subseteq>\<^sub>m find m \<Longrightarrow> get (put k None c) \<subseteq>\<^sub>m find (erase k m)"
  by (rule map_le_trans [OF get_put]) (auto simp: find_erase map_le_def)

lemma erase_all:
  assumes "inv m" and "get c \<subseteq>\<^sub>m find m"
  shows "get (fold (\<lambda>k. put k None) ks c) \<subseteq>\<^sub>m find (fold erase ks m)"
  using assms
proof (induction ks arbitrary: m c)
  case (Cons k ks)
  show ?case
    using Cons.IH [OF inv_erase [OF Cons.prems(1)] erase_both [OF Cons.prems]] by simp
qed simp

lemma hit: "get c \<subseteq>\<^sub>m find m \<Longrightarrow> get c k = Some v \<Longrightarrow> find m k = Some v"
  by (auto simp: map_le_def dom_def)

end

interpretation stdmap: keyed_map map_of map_insert map_erase "map_ok :: ('k::linorder, 'v) stdmap \<Rightarrow> bool"
  by unfold_locales (simp_all add: map_of_insert map_of_erase)

lemma dc_get_put:
  "dc_get (dc_put p v c) q = (if q = p then v else if ptr2slot q = ptr2slot p then None else dc_get c q)"
  by (simp add: dc_get_def dc_put_def)

interpretation dcache: forgetful dc_get dc_put
  by unfold_locales (auto simp: map_le_def dom_def dc_get_put)

interpretation fronted: fronted_map map_of map_insert map_erase
  "map_ok :: (64 word, 'v) stdmap \<Rightarrow> bool" dc_get dc_put
  by unfold_locales

lemma dc_get_put_same [simp]: "dc_get (dc_put p v c) p = v"
  by (simp add: dc_get_def dc_put_def)

lemma dc_get_flush [simp]: "dc_get dc_flush p = None"
  by (simp add: dc_get_def dc_flush_def)

end
