(* ===== verification/Vexexecchk.thy ===== *)
theory Vexexecchk
  imports Vexsb Containers
begin

text \<open>
  Checking the emulation against a process that is traced (vexexecchk.cc, vexexecchk.h): the
  traced process, the shadow, is stepped through the instructions of each block after the
  block has run, and its state is compared with the guest's. A block that ends inside of
  itself is not compared at once: the shadow stays where it is until the guest has left
  the block. The guest, the shadow and the code of the blocks are parameters.
\<close>

section \<open>State\<close>

record ('g, 'p, 'a) chk_env =
  isMatch :: "'g \<Rightarrow> 'p \<Rightarrow> bool"
  stepThroughBounds :: "64 word \<Rightarrow> 64 word \<Rightarrow> 'p \<Rightarrow> 'p"
  run_block :: "vexsb \<Rightarrow> 'g \<Rightarrow> 64 word \<times> 'g"
  cpu_getPC :: "'g \<Rightarrow> 64 word"
  cpu_setPC :: "64 word \<Rightarrow> 'g \<Rightarrow> 'g"
  isMapped :: "'g \<Rightarrow> 64 word \<Rightarrow> bool"
  isSigSegv :: "'p \<Rightarrow> bool"
  fixup :: "(64 word \<times> 8 word) list \<Rightarrow> 'g \<Rightarrow> 'p \<Rightarrow> bool \<times> 'g \<times> 'p"
  getSyscallParams :: "'g \<Rightarrow> 'a"
  is_brk :: "'a \<Rightarrow> bool"
  setArg0 :: "64 word \<Rightarrow> 'a \<Rightarrow> 'a"
  guest_syscall :: "'a \<Rightarrow> 'g \<Rightarrow> 'g"
  shadow_syscall :: "'g \<Rightarrow> 'p \<Rightarrow> 'g \<times> 'p"
  getSysCallResult :: "'p \<Rightarrow> 64 word"
  resetSyscall :: "'g \<Rightarrow> 'g"

record ('g, 'p) VexExecChk =
  cpu :: 'g
  shadow :: 'p
  hit_syscall :: bool
  is_deferred :: bool
  deferred_bound_start :: "64 word"
  deferred_bound_end :: "64 word"
  chk_next_addr :: "64 word"

text \<open>How a check can end the process.\<close>

datatype chk_halt = Diverged | Bad_jump | Chk_assert

section \<open>Blocks\<close>

definition verifyBlockRun :: "('g, 'p, 'a) chk_env \<Rightarrow> vexsb \<Rightarrow> ('g, 'p) VexExecChk \<Rightarrow> chk_halt + ('g, 'p) VexExecChk" where
  "verifyBlockRun E vsb s = (
     if isMatch E (cpu s) (shadow s) then Inr s
     else if \<not> isMapped E (cpu s) (cpu_getPC E (cpu s)) \<and> isSigSegv E (shadow s) then Inl Bad_jump
     else case fixup E (getInstExtents vsb) (cpu s) (shadow s) of (fixed, g, p) \<Rightarrow>
       if fixed then Inr (s\<lparr>cpu := g, shadow := p, chk_next_addr := cpu_getPC E g\<rparr>) else Inl Diverged)"

definition chk_doVexSB :: "('g, 'p, 'a) chk_env \<Rightarrow> vexsb \<Rightarrow> ('g, 'p) VexExecChk \<Rightarrow> chk_halt + 64 word \<times> ('g, 'p) VexExecChk" where
  "chk_doVexSB E vsb s = (
     if \<not> is_deferred s \<and> \<not> isMatch E (cpu s) (shadow s) then Inl Diverged
     else case (run_block E vsb (cpu s), getEndAddr vsb) of
       (_, None) \<Rightarrow> Inl Chk_assert
     | ((new_ip, g), Some sb_end) \<Rightarrow>
         let s = s\<lparr>cpu := cpu_setPC E new_ip g\<rparr>;
             new_ip_in_bounds = (vexsb.guest_addr vsb \<le> new_ip \<and> new_ip < sb_end);
             states_should_be_equal = (\<lambda>s. and_then (verifyBlockRun E vsb s) (\<lambda>s. Inr (cpu_getPC E (cpu s), s)))
         in if is_deferred s \<and> new_ip_in_bounds then Inr (new_ip, s)
            else if \<not> is_deferred s \<and> \<not> new_ip_in_bounds then
              (let s = s\<lparr>shadow := stepThroughBounds E (vexsb.guest_addr vsb) sb_end (shadow s), is_deferred := False\<rparr>
               in if isSyscall vsb then Inr (new_ip, s\<lparr>hit_syscall := True\<rparr>) else states_should_be_equal s)
            else if is_deferred s \<and> \<not> new_ip_in_bounds then
              states_should_be_equal (s\<lparr>shadow := stepThroughBounds E (deferred_bound_start s) (deferred_bound_end s) (shadow s),
                is_deferred := False, deferred_bound_start := 0, deferred_bound_end := 0\<rparr>)
            else Inr (new_ip, s\<lparr>is_deferred := True, deferred_bound_start := vexsb.guest_addr vsb, deferred_bound_end := sb_end\<rparr>))"

section \<open>System calls\<close>

definition stepSysCall :: "('g, 'p, 'a) chk_env \<Rightarrow> ('g, 'p) VexExecChk \<Rightarrow> ('g, 'p) VexExecChk" where
  "stepSysCall E s = (case shadow_syscall E (cpu s) (shadow s) of (g, p) \<Rightarrow> s\<lparr>cpu := resetSyscall E g, shadow := p\<rparr>)"

definition doSysCallCore :: "('g, 'p, 'a) chk_env \<Rightarrow> ('g, 'p) VexExecChk \<Rightarrow> ('g, 'p) VexExecChk" where
  "doSysCallCore E s = (
     let sp = getSyscallParams E (cpu s) in
     if is_brk E sp then
       (let s = stepSysCall E s; sp = setArg0 E (getSysCallResult E (shadow s)) sp
        in s\<lparr>cpu := guest_syscall E sp (cpu s)\<rparr>)
     else stepSysCall E (s\<lparr>cpu := guest_syscall E sp (cpu s)\<rparr>))"

definition chk_doSysCall :: "('g, 'p, 'a) chk_env \<Rightarrow> ('g, 'p) VexExecChk \<Rightarrow> chk_halt + ('g, 'p) VexExecChk" where
  "chk_doSysCall E s = (
     if \<not> (hit_syscall s \<and> \<not> is_deferred s) then Inl Chk_assert
     else let s = doSysCallCore E s in
       if \<not> isMatch E (cpu s) (shadow s) then Inl Diverged else Inr (s\<lparr>hit_syscall := False\<rparr>))"

section \<open>Checking an emulation that is right\<close>

text \<open>One instruction of the guest's machine, run as often as it takes.\<close>

definition in_bounds :: "64 word \<Rightarrow> 64 word \<Rightarrow> 64 word \<Rightarrow> bool" where
  "in_bounds b e a \<longleftrightarrow> b \<le> a \<and> a < e"

definition stays :: "('g, 'p, 'a) chk_env \<Rightarrow> ('g \<Rightarrow> 'g) \<Rightarrow> 64 word \<Rightarrow> 64 word \<Rightarrow> 'g \<Rightarrow> nat \<Rightarrow> bool" where
  "stays E f b e g n \<longleftrightarrow> (\<forall>i<n. in_bounds b e (cpu_getPC E ((f ^^ i) g)))"

text \<open>What is relied on when nothing is wrong: the shadow is stepped until it is out of the
  bounds, and a block runs at least one instruction and, but for where it goes in the end,
  only its own.\<close>

definition steps_out :: "('g, 'g, 'a) chk_env \<Rightarrow> ('g \<Rightarrow> 'g) \<Rightarrow> 64 word \<Rightarrow> 64 word \<Rightarrow> 'g \<Rightarrow> bool" where
  "steps_out E f b e p \<longleftrightarrow> (\<forall>n. 0 < n \<longrightarrow> stays E f b e p n \<longrightarrow> \<not> in_bounds b e (cpu_getPC E ((f ^^ n) p))
     \<longrightarrow> stepThroughBounds E b e p = (f ^^ n) p)"

lemma steps_outD: "steps_out E f b e p \<Longrightarrow> 0 < n \<Longrightarrow> stays E f b e p n \<Longrightarrow> \<not> in_bounds b e (cpu_getPC E ((f ^^ n) p))
    \<Longrightarrow> stepThroughBounds E b e p = (f ^^ n) p"
  unfolding steps_out_def by blast

lemma steps_outI:
  assumes "0 < k" and k: "stays E f b e p k" "\<not> in_bounds b e (cpu_getPC E ((f ^^ k) p))" and "stepThroughBounds E b e p = (f ^^ k) p"
  shows "steps_out E f b e p"
  unfolding steps_out_def
proof (intro allI impI)
  fix n assume n: "stays E f b e p n" "\<not> in_bounds b e (cpu_getPC E ((f ^^ n) p))"
  have "\<not> k < n" "\<not> n < k" using k n unfolding stays_def by blast+
  then show "stepThroughBounds E b e p = (f ^^ n) p" using assms(4) by simp
qed

definition block_emulated :: "('g, 'g, 'a) chk_env \<Rightarrow> ('g \<Rightarrow> 'g) \<Rightarrow> vexsb \<Rightarrow> 64 word \<Rightarrow> 'g \<Rightarrow> bool" where
  "block_emulated E f vsb e g \<longleftrightarrow> getEndAddr vsb = Some e \<and> cpu_getPC E g = vexsb.guest_addr vsb \<and>
     (\<exists>n. 0 < n \<and> stays E f (vexsb.guest_addr vsb) e g n \<and>
        (case run_block E vsb g of (ip, g') \<Rightarrow> cpu_setPC E ip g' = (f ^^ n) g \<and> ip = cpu_getPC E ((f ^^ n) g)))"

text \<open>The shadow is where the guest is, or where the block that is put off began, with the
  guest still in it.\<close>

definition in_step :: "('g, 'g, 'a) chk_env \<Rightarrow> ('g \<Rightarrow> 'g) \<Rightarrow> ('g, 'g) VexExecChk \<Rightarrow> bool" where
  "in_step E f s \<longleftrightarrow> (if is_deferred s
     then \<exists>n. 0 < n \<and> cpu s = (f ^^ n) (shadow s) \<and> stays E f (deferred_bound_start s) (deferred_bound_end s) (shadow s) (Suc n)
     else cpu s = shadow s)"

lemma stays_0 [simp]: "stays E f b e g 0"
  by (simp add: stays_def)

lemma stays_Suc [simp]: "stays E f b e g (Suc n) \<longleftrightarrow> in_bounds b e (cpu_getPC E g) \<and> stays E f b e (f g) n"
  by (simp add: stays_def All_less_Suc2 funpow_Suc_right del: funpow.simps)

lemma stays_add:
  "stays E f b e g m \<Longrightarrow> stays E f b' e' ((f ^^ m) g) n \<Longrightarrow> b \<le> b' \<Longrightarrow> e' \<le> e \<Longrightarrow> stays E f b e g (m + n)"
  unfolding stays_def in_bounds_def
proof (intro allI impI)
  fix i assume a: "\<forall>i<m. b \<le> cpu_getPC E ((f ^^ i) g) \<and> cpu_getPC E ((f ^^ i) g) < e"
    "\<forall>i<n. b' \<le> cpu_getPC E ((f ^^ i) ((f ^^ m) g)) \<and> cpu_getPC E ((f ^^ i) ((f ^^ m) g)) < e'" "b \<le> b'" "e' \<le> e" "i < m + n"
  show "b \<le> cpu_getPC E ((f ^^ i) g) \<and> cpu_getPC E ((f ^^ i) g) < e"
  proof (cases "i < m")
    case False
    then have "(f ^^ i) g = (f ^^ (i - m)) ((f ^^ m) g)" using funpow_add [of "i - m" m f] by simp
    moreover have "i - m < n" using a(5) False by simp
    ultimately show ?thesis using a(2,3,4) by (metis order_less_le_trans order_trans)
  qed (use a(1) in blast)
qed


lemma deferred_run:
  assumes "in_step E f s" and "is_deferred s" and "block_emulated E f vsb e (cpu s)"
    and "deferred_bound_start s \<le> vexsb.guest_addr vsb" and "e \<le> deferred_bound_end s"
  shows "\<exists>m>0. stays E f (deferred_bound_start s) (deferred_bound_end s) (shadow s) m
    \<and> (case run_block E vsb (cpu s) of (ip, g) \<Rightarrow> cpu_setPC E ip g = (f ^^ m) (shadow s) \<and> ip = cpu_getPC E ((f ^^ m) (shadow s)))"
proof -
  obtain n where n: "0 < n" "stays E f (vexsb.guest_addr vsb) e (cpu s) n"
      "case run_block E vsb (cpu s) of (ip, g) \<Rightarrow> cpu_setPC E ip g = (f ^^ n) (cpu s) \<and> ip = cpu_getPC E ((f ^^ n) (cpu s))"
    using assms(3) by (auto simp: block_emulated_def)
  obtain m where m: "0 < m" "cpu s = (f ^^ m) (shadow s)" "stays E f (deferred_bound_start s) (deferred_bound_end s) (shadow s) m"
    using assms(1,2) by (auto simp: in_step_def stays_def)
  have "stays E f (deferred_bound_start s) (deferred_bound_end s) (shadow s) (m + n)"
    using stays_add [OF m(3) _ assms(4), of e n] n(2) m(2) assms(5) by simp
  moreover have "(f ^^ n) (cpu s) = (f ^^ (m + n)) (shadow s)" using m(2) funpow_add [of n m f] by (simp add: add.commute)
  ultimately show ?thesis using n(1,3) assms(5) by (intro exI [of _ "m + n"]) simp
qed


text \<open>C13: The check can report a right emulation. When the block that runs next goes back to a
  place before it in the block that is put off, the shadow is stepped out of the bounds of the
  block put off although the guest is within them; they differ, and unless the difference is
  fixed by taking over one state for the other, the process is ended.\<close>

theorem right_emulation_reported:
  assumes match: "\<forall>g p. isMatch E g p \<longleftrightarrow> g = p" and out: "steps_out E f (deferred_bound_start s) (deferred_bound_end s) (shadow s)"
    and step: "in_step E f s" and blk: "block_emulated E f vsb e (cpu s)" and deferred: "is_deferred s"
    and nested: "deferred_bound_start s \<le> vexsb.guest_addr vsb" "e = deferred_bound_end s"
    and back_jump: "in_bounds (deferred_bound_start s) (vexsb.guest_addr vsb) (fst (run_block E vsb (cpu s)))"
    and leaves: "0 < k" "stays E f (deferred_bound_start s) (deferred_bound_end s) (shadow s) k"
      "\<not> in_bounds (deferred_bound_start s) (deferred_bound_end s) (cpu_getPC E ((f ^^ k) (shadow s)))"
    and unfixed: "\<not> isSigSegv E ((f ^^ k) (shadow s))" "\<And>g. \<not> fst (fixup E (getInstExtents vsb) g ((f ^^ k) (shadow s)))"
  shows "chk_doVexSB E vsb s = Inl Diverged"
proof -
  obtain ip g where r: "run_block E vsb (cpu s) = (ip, g)" by force
  have e: "getEndAddr vsb = Some e" and pc: "cpu_getPC E (cpu s) = vexsb.guest_addr vsb" using blk by (simp_all add: block_emulated_def)
  obtain m where m: "cpu_setPC E ip g = (f ^^ m) (shadow s)" "ip = cpu_getPC E ((f ^^ m) (shadow s))"
    using deferred_run [OF step deferred blk nested(1)] nested(2) unfolding r by auto
  have "vexsb.guest_addr vsb < e" using blk by (auto simp: block_emulated_def stays_def in_bounds_def)
  then have ip: "in_bounds (deferred_bound_start s) e ip" "\<not> in_bounds (vexsb.guest_addr vsb) e ip"
    using back_jump r by (auto simp: in_bounds_def)
  let ?p = "stepThroughBounds E (deferred_bound_start s) (deferred_bound_end s) (shadow s)"
  have p: "?p = (f ^^ k) (shadow s)" using steps_outD [OF out leaves] .
  then have "cpu_setPC E ip g \<noteq> ?p" using m leaves(3) ip(1) nested(2) by auto
  then have "verifyBlockRun E vsb t = Inl Diverged" if "cpu t = cpu_setPC E ip g" "shadow t = ?p" for t :: "('a, 'a) VexExecChk"
    using that match unfixed p by (auto simp: verifyBlockRun_def split: prod.splits) (metis fst_conv)
  then show ?thesis using deferred ip(2) r e by (simp add: chk_doVexSB_def in_bounds_def Let_def)
qed

text \<open>A system call at the end of a block that ends the putting off fails: the block is
  compared, but that a system call has been hit is not noted, and the call fails its
  assertion.\<close>

theorem deferred_syscall_fails:
  assumes "is_deferred s" and "\<not> hit_syscall s" and "getEndAddr vsb = Some e"
    and "\<not> in_bounds (vexsb.guest_addr vsb) e (fst (run_block E vsb (cpu s)))" and "chk_doVexSB E vsb s = Inr (ip, s')"
  shows "chk_doSysCall E s' = Inl Chk_assert"
proof -
  obtain a g where r: "run_block E vsb (cpu s) = (a, g)" by force
  have keeps: "verifyBlockRun E vsb t = Inr t' \<Longrightarrow> hit_syscall t' = hit_syscall t" for t t'
    by (auto simp: verifyBlockRun_def split: if_splits prod.splits)
  have "\<not> hit_syscall s'" using assms r keeps by (auto simp: chk_doVexSB_def in_bounds_def Let_def)
  then show ?thesis by (simp add: chk_doSysCall_def)
qed

section \<open>A loop of two blocks\<close>

text \<open>A machine whose state is its program counter and a flag: from 100 it goes to 102, from
  there back to 100 once, and then on to 104.\<close>

definition loop_step :: "64 word \<times> bool \<Rightarrow> 64 word \<times> bool" where
  "loop_step g = (if g = (102, False) then (100, True) else (fst g + 2, snd g))"

definition loop_env :: "(64 word \<times> bool, 64 word \<times> bool, unit) chk_env" where
  "loop_env = \<lparr>isMatch = (\<lambda>g p. g = p), stepThroughBounds = (\<lambda>b e p. (104, True)), run_block = (\<lambda>vsb g. (fst (loop_step g), loop_step g)),
     cpu_getPC = fst, cpu_setPC = (\<lambda>a g. (a, snd g)), isMapped = (\<lambda>g a. True), isSigSegv = (\<lambda>p. False), fixup = (\<lambda>x g p. (False, g, p)),
     getSyscallParams = (\<lambda>g. ()), is_brk = (\<lambda>a. False), setArg0 = (\<lambda>x a. a), guest_syscall = (\<lambda>a g. g), shadow_syscall = Pair,
     getSysCallResult = (\<lambda>p. 0), resetSyscall = (\<lambda>g. g)\<rparr>"

definition second_block :: vexsb where
  "second_block = \<lparr>guest_addr = 102, reg_types = [], stmts = [], last_imark = Some (102, 2), jump_kind = Ijk_Boring, jump_expr = ExprNULL\<rparr>"

definition put_off :: "bool \<Rightarrow> (64 word \<times> bool, 64 word \<times> bool) VexExecChk" where
  "put_off k = \<lparr>cpu = (102, k), shadow = (100, k), hit_syscall = False, is_deferred = True, deferred_bound_start = 100,
     deferred_bound_end = 104, chk_next_addr = 102\<rparr>"

lemma put_off_in_step: "in_step loop_env loop_step (put_off k)"
  by (auto simp: in_step_def put_off_def stays_def in_bounds_def loop_env_def loop_step_def less_Suc_eq intro!: exI [of _ "Suc 0"])

lemma second_emulated: "block_emulated loop_env loop_step second_block 104 (102, k)"
  by (auto simp: block_emulated_def second_block_def getEndAddr_def loop_env_def stays_def in_bounds_def loop_step_def intro!: exI [of _ "Suc 0"])

lemmas loop_run = put_off_def loop_env_def loop_step_def second_block_def getEndAddr_def isSyscall_def in_bounds_def

lemma loop_leaves:
  "stays loop_env loop_step 100 104 (100, True) (Suc (Suc 0))"
  "\<not> in_bounds 100 104 (cpu_getPC loop_env ((loop_step ^^ Suc (Suc 0)) (100, True)))"
  "stays loop_env loop_step 100 104 (100, False) (Suc (Suc (Suc (Suc 0))))"
  "\<not> in_bounds 100 104 (cpu_getPC loop_env ((loop_step ^^ Suc (Suc (Suc (Suc 0)))) (100, False)))"
  by (simp_all add: loop_env_def loop_step_def in_bounds_def)

lemma loop_steps_out: "steps_out loop_env loop_step 100 104 (100, True)" "steps_out loop_env loop_step 100 104 (100, False)"
  by (rule steps_outI [OF _ loop_leaves(1,2)], simp, simp add: loop_env_def loop_step_def)
    (rule steps_outI [OF _ loop_leaves(3,4)], simp, simp add: loop_env_def loop_step_def)


theorem right_emulation_reported_witness: "chk_doVexSB loop_env second_block (put_off False) = Inl Diverged"
proof (rule right_emulation_reported [where f = loop_step and e = 104 and k = "Suc (Suc (Suc (Suc 0)))"])
  show "steps_out loop_env loop_step (deferred_bound_start (put_off False)) (deferred_bound_end (put_off False)) (shadow (put_off False))"
    using loop_steps_out(2) by (simp add: put_off_def)
  show "block_emulated loop_env loop_step second_block 104 (cpu (put_off False))" using second_emulated by (simp add: put_off_def)
qed (use loop_leaves(3,4) put_off_in_step in \<open>simp_all add: put_off_def\<close>, simp_all add: loop_run)

theorem deferred_syscall_fails_witness:
  "\<exists>ip s'. chk_doVexSB loop_env (second_block\<lparr>jump_kind := Ijk_Sys_syscall\<rparr>) (put_off True) = Inr (ip, s')
     \<and> chk_doSysCall loop_env s' = Inl Chk_assert"
proof -
  let ?b = "second_block\<lparr>jump_kind := Ijk_Sys_syscall\<rparr>"
  obtain ip s' where r: "chk_doVexSB loop_env ?b (put_off True) = Inr (ip, s')"
    by (simp add: chk_doVexSB_def verifyBlockRun_def loop_run)
  from deferred_syscall_fails [OF _ _ _ _ r, of 104] r show ?thesis by (simp add: loop_run)
qed

end
