(* ===== verification/Ptimgchk.thy ===== *)
theory Ptimgchk
  imports Prelude
begin

unbundle bit_operations_syntax

text \<open>
  The comparison of the emulated guest with a traced process that runs the same program
  (ptimgchk.cc), and the record of the last store it uses (memlog.cc). The memory of the
  emulated guest and that of the traced process are byte-addressed memories; reading a word
  through ptrace yields -1 where the process has nothing mapped. The guest's mapping of an
  address is a parameter which gives, for a mapped address, whether writing to it was asked
  for; so are the comparison of registers and the choice of a fix-up, which belong to the
  architecture. Stack traces and messages are left out.
\<close>

section \<open>The last store\<close>

record memlog =
  ml_address :: addr
  ml_size :: "64 word"
  ml_data :: bytes

definition MAX_STORE_SIZE :: nat where "MAX_STORE_SIZE = 128"

definition MemLog_clear :: memlog where
  "MemLog_clear = \<lparr>ml_address = 0, ml_size = 0, ml_data = replicate (MAX_STORE_SIZE div 8) 0\<rparr>"

definition wasWritten :: "memlog \<Rightarrow> bool" where
  "wasWritten l \<longleftrightarrow> ml_address l \<noteq> 0"

text \<open>The entry which the emitted instructions write for a store of a value: its address, its
  size in bytes, and the value extended by zeros to the size of the field.\<close>

definition recordStore :: "addr \<Rightarrow> 'a::len word \<Rightarrow> memlog" where
  "recordStore a v = \<lparr>ml_address = a, ml_size = of_nat (LENGTH('a) div 8), ml_data = le (MAX_STORE_SIZE div 8) (ucast v :: 128 word)\<rparr>"

section \<open>The traced process\<close>

record traced =
  pt_mem :: memory
  pt_mapped :: "addr \<Rightarrow> bool"

definition peek :: "traced \<Rightarrow> addr \<Rightarrow> 64 word" where
  "peek t a = (if list_all (\<lambda>i. pt_mapped t (a + of_nat i)) [0..<8] then ld64 (pt_mem t) a else - 1)"

section \<open>Comparing the last store\<close>

text \<open>The buffer holds \<open>MEMLOG_BUF_SZ\<close> bytes. \<open>None\<close> is an access outside of it.\<close>

definition MEMLOG_BUF_SZ :: nat where "MEMLOG_BUF_SZ = MAX_STORE_SIZE div 8 + 8"

definition poke_long :: "bytes \<Rightarrow> nat \<Rightarrow> 64 word \<Rightarrow> bytes option" where
  "poke_long data i w = (if 8 * i + 8 \<le> length data then Some (take (8 * i) data @ le 8 w @ drop (8 * i + 8) data) else None)"

lemma poke_long_length: "poke_long data i w = Some d \<Longrightarrow> 8 * i + 8 \<le> length data \<and> length d = length data"
  by (auto simp: poke_long_def split: if_splits)

function read_longs :: "traced \<Rightarrow> addr \<Rightarrow> addr \<Rightarrow> nat \<Rightarrow> bytes \<Rightarrow> bytes option" where
  "read_longs t aligned e i data = (if aligned < e then
     (case poke_long data i (peek t aligned) of None \<Rightarrow> None | Some d \<Rightarrow> read_longs t (aligned + 8) e (Suc i) d)
   else Some data)"
  by auto
termination
  by (relation "measure (\<lambda>(t, a, e, i, data). length data - 8 * i)") (auto dest: poke_long_length)

declare read_longs.simps [simp del]

definition readMemLogData :: "traced \<Rightarrow> memlog \<Rightarrow> bytes option" where
  "readMemLogData t l =
     (let base = ml_address l; aligned = base AND NOT 7; e = base + ml_size l; extra = unat (base - aligned); n = unat (ml_size l) in
      case read_longs t aligned e 0 (replicate MEMLOG_BUF_SZ 0) of None \<Rightarrow> None
      | Some data \<Rightarrow> if extra = 0 then Some data
          else if extra + n \<le> length data then Some (take n (drop extra data) @ drop n data) else None)"

definition isMatchMemLog :: "memlog option \<Rightarrow> traced \<Rightarrow> memory \<Rightarrow> bool option" where
  "isMatchMemLog ml t vex = (case ml of None \<Rightarrow> Some True
     | Some l \<Rightarrow> (case readMemLogData t l of None \<Rightarrow> None
         | Some data \<Rightarrow> if unat (ml_size l) \<le> length data
             then Some (take (unat (ml_size l)) data = mrd vex (ml_address l) (unat (ml_size l))) else None))"

section \<open>Comparing the stack\<close>

definition STACK_XCHK_LONGS :: int where "STACK_XCHK_LONGS = (1024 + 128) div 8"

definition isStackMatch :: "bool \<Rightarrow> traced \<Rightarrow> memory \<Rightarrow> addr \<Rightarrow> bool" where
  "isStackMatch xchk_stack t vex stack_base \<longleftrightarrow> \<not> xchk_stack
     \<or> list_all (\<lambda>i. let p = stack_base + 8 * word_of_int i in peek t p = ld64 vex p) [- (128 div 8)..STACK_XCHK_LONGS - 1]"

section \<open>Comparing the watched pointer and the pages of the registers\<close>

definition isWatchPtrMatch :: "(addr \<Rightarrow> bool option) \<Rightarrow> addr \<Rightarrow> traced \<Rightarrow> memory \<Rightarrow> bool" where
  "isWatchPtrMatch look watchptr t vex = (let p = watchptr AND NOT 7 in
     case look p of None \<Rightarrow> True | Some _ \<Rightarrow> ld64 (pt_mem t) p = ld64 vex p)"

definition page_of :: "addr \<Rightarrow> addr" where
  "page_of p = p AND NOT 0xfff"

fun first_difference :: "addr \<Rightarrow> bytes \<Rightarrow> bytes \<Rightarrow> addr" where
  "first_difference p (x # xs) (y # ys) = (if x \<noteq> y then p else first_difference (p + 1) xs ys)"
| "first_difference p _ _ = 0"

definition getPageMismatch :: "(addr \<Rightarrow> bool option) \<Rightarrow> traced \<Rightarrow> memory \<Rightarrow> addr \<Rightarrow> addr" where
  "getPageMismatch look t vex p0 = (let p = page_of p0 in case look p of None \<Rightarrow> 0
     | Some w \<Rightarrow> if \<not> w then 0 else first_difference p (mrd (pt_mem t) p 4096) (mrd vex p 4096))"

text \<open>The addresses found to differ and the pages already looked at.\<close>

type_synonym ptrs = "addr set \<times> addr set"

definition check_page :: "(addr \<Rightarrow> bool option) \<Rightarrow> traced \<Rightarrow> memory \<Rightarrow> addr \<Rightarrow> ptrs \<Rightarrow> ptrs" where
  "check_page look t vex chk_ptr = (\<lambda>(mptrs, cptrs).
     (if chk_ptr \<notin> cptrs then
        (let m = getPageMismatch look t vex chk_ptr in if m \<noteq> 0 then insert m mptrs else mptrs)
      else mptrs, insert chk_ptr cptrs))"

definition printRootTraceDat :: "(addr \<Rightarrow> bool option) \<Rightarrow> traced \<Rightarrow> memory \<Rightarrow> 64 word \<Rightarrow> ptrs \<Rightarrow> ptrs" where
  "printRootTraceDat look t vex d ps =
     check_page look t vex (page_of d) (check_page look t vex (page_of (d - 4096)) ps)"

definition printRootTrace :: "(addr \<Rightarrow> bool option) \<Rightarrow> traced \<Rightarrow> memory \<Rightarrow> 64 word list \<Rightarrow> bool" where
  "printRootTrace look t vex dat \<longleftrightarrow> fst (fold (printRootTraceDat look t vex) dat ({}, {})) = {}"

section \<open>The comparison\<close>

datatype FixupDir = FIXUP_NONE | FIXUP_NATIVE | FIXUP_GUEST

text \<open>The state of the comparison: its settings, the traced process with its registers, the
  guest's memory and the words of its processor state.\<close>

record 'r ptimgchk =
  mem_log :: "memlog option"
  xchk_stack :: bool
  xchk_rootptrs :: bool
  xchk_watchptr :: addr
  fixup_c :: "32 word"
  pt :: traced
  pt_regs :: 'r
  vex_mem :: memory
  state_data :: "64 word list"

record 'r chk_arch =
  lookupMapping :: "addr \<Rightarrow> bool option"
  shadow_isMatch :: "'r \<Rightarrow> 64 word list \<Rightarrow> bool"
  getStackPtr :: "'r \<Rightarrow> addr"
  canFixup :: "(addr \<times> 8 word) list \<Rightarrow> bool \<Rightarrow> FixupDir"
  pushRegisters :: "64 word list \<Rightarrow> 'r \<Rightarrow> 'r"
  slurpRegisters :: "'r \<Rightarrow> 64 word list \<Rightarrow> 64 word list"

definition isMatch :: "'r chk_arch \<Rightarrow> 'r ptimgchk \<Rightarrow> bool option" where
  "isMatch A s =
     (if \<not> shadow_isMatch A (pt_regs s) (state_data s) then Some False
      else if \<not> isStackMatch (xchk_stack s) (pt s) (vex_mem s) (getStackPtr A (pt_regs s)) then Some False
      else case isMatchMemLog (mem_log s) (pt s) (vex_mem s) of None \<Rightarrow> None
        | Some b \<Rightarrow>
            if \<not> b then Some False
            else if xchk_watchptr s \<noteq> 0 \<and> \<not> isWatchPtrMatch (lookupMapping A) (xchk_watchptr s) (pt s) (vex_mem s) then Some False
            else if xchk_rootptrs s \<and> \<not> printRootTrace (lookupMapping A) (pt s) (vex_mem s) (state_data s) then Some False
            else Some True)"

section \<open>Fix-ups\<close>

definition pushPage :: "'r chk_arch \<Rightarrow> addr \<Rightarrow> 'r ptimgchk \<Rightarrow> 'r ptimgchk" where
  "pushPage A p0 s = (let p = page_of p0 in case lookupMapping A p of None \<Rightarrow> s
     | Some w \<Rightarrow> if \<not> w then s else s\<lparr>pt := (pt s)\<lparr>pt_mem := mwr (pt_mem (pt s)) p (mrd (vex_mem s) p 4096)\<rparr>\<rparr>)"

definition push_near :: "'r chk_arch \<Rightarrow> 64 word \<Rightarrow> 'r ptimgchk \<Rightarrow> 'r ptimgchk" where
  "push_near A reg s = (if reg < 0x1000 then s else pushPage A reg (pushPage A (reg - 4096) s))"

definition doFixupNative :: "'r chk_arch \<Rightarrow> 'r ptimgchk \<Rightarrow> 'r ptimgchk" where
  "doFixupNative A s = fold (push_near A) (state_data s) (s\<lparr>pt_regs := pushRegisters A (state_data s) (pt_regs s)\<rparr>)"

definition pull_page :: "'r chk_arch \<Rightarrow> 64 word \<Rightarrow> 'r ptimgchk \<Rightarrow> 'r ptimgchk" where
  "pull_page A reg s = (case lookupMapping A reg of None \<Rightarrow> s
     | Some w \<Rightarrow> if \<not> w then s else s\<lparr>vex_mem := mwr (vex_mem s) (page_of reg) (mrd (pt_mem (pt s)) (page_of reg) 4096)\<rparr>)"

definition doFixupGuest :: "'r chk_arch \<Rightarrow> 'r ptimgchk \<Rightarrow> 'r ptimgchk" where
  "doFixupGuest A s0 = (let s = s0\<lparr>state_data := slurpRegisters A (pt_regs s0) (state_data s0)\<rparr> in
     fold (pull_page A) (state_data s) s)"

definition fixup :: "'r chk_arch \<Rightarrow> (addr \<times> 8 word) list \<Rightarrow> 'r ptimgchk \<Rightarrow> bool \<times> 'r ptimgchk" where
  "fixup A insts s = (let f = canFixup A insts (mem_log s \<noteq> None) in
     if f = FIXUP_NONE then (False, s)
     else (let s1 = s\<lparr>fixup_c := fixup_c s + 1\<rparr>;
               s2 = (if f = FIXUP_NATIVE then doFixupNative A s1 else doFixupGuest A s1)
           in (True, s2\<lparr>mem_log := map_option (\<lambda>_. MemLog_clear) (mem_log s2)\<rparr>)))"

section \<open>Bytes and words\<close>

lemma mrd_append: "mrd m a (i + j) = mrd m a i @ mrd m (a + of_nat i) j"
  by (rule nth_equalityI) (auto simp: nth_append algebra_simps)

lemma mrd_eq_iff: "mrd m a n = mrd m' a n \<longleftrightarrow> (\<forall>i<n. m (a + of_nat i) = m' (a + of_nat i))"
  by (simp add: list_eq_iff_nth_eq)

lemma ld64_eq_iff: "ld64 m a = ld64 m' a \<longleftrightarrow> mrd m a 8 = mrd m' a 8"
proof
  assume "ld64 m a = ld64 m' a"
  then have "le 8 (ld64 m a) = le 8 (ld64 m' a)" by simp
  then show "mrd m a 8 = mrd m' a 8" by (simp add: ld64_def le_un_le_mrd)
qed (simp add: ld64_def)

lemma mrd_longs: "mrd m a (8 * n) = mrd m' a (8 * n) \<longleftrightarrow> (\<forall>k<n. ld64 m (a + 8 * of_nat k) = ld64 m' (a + 8 * of_nat k))"
proof (induction n)
  case (Suc n)
  have "8 * Suc n = 8 * n + 8" by simp
  then have "mrd m a (8 * Suc n) = mrd m' a (8 * Suc n) \<longleftrightarrow> mrd m a (8 * n) = mrd m' a (8 * n) \<and> ld64 m (a + 8 * of_nat n) = ld64 m' (a + 8 * of_nat n)"
    by (simp only: mrd_append ld64_eq_iff append_eq_append_conv length_mrd) simp
  then show ?case using Suc.IH by (auto simp: less_Suc_eq)
qed simp

definition mapped_at :: "traced \<Rightarrow> addr \<Rightarrow> nat \<Rightarrow> bool" where
  "mapped_at t a n \<longleftrightarrow> (\<forall>i<n. pt_mapped t (a + of_nat i))"

lemma peek_mapped: "mapped_at t a 8 \<Longrightarrow> peek t a = ld64 (pt_mem t) a"
  by (simp add: peek_def mapped_at_def list_all_iff)

lemma mapped_at_part: "mapped_at t a n \<Longrightarrow> i + k \<le> n \<Longrightarrow> mapped_at t (a + of_nat i) k"
  unfolding mapped_at_def by (metis (no_types, lifting) add.assoc add_le_cancel_left le_trans less_le_trans nat_add_left_cancel_less of_nat_add)

section \<open>The last store is compared byte by byte\<close>

lemma read_longs_end: "\<not> a < e \<Longrightarrow> read_longs t a e i data = Some data"
  by (simp add: read_longs.simps [of t a])

lemma read_longs_step:
  "a < e \<Longrightarrow> 8 * i + 8 \<le> length data \<Longrightarrow> mapped_at t a 8 \<Longrightarrow>
   read_longs t a e i data = read_longs t (a + 8) e (Suc i) (take (8 * i) data @ mrd (pt_mem t) a 8 @ drop (8 * i + 8) data)"
  by (simp add: read_longs.simps [of t a] poke_long_def peek_mapped ld64_def le_un_le_mrd)

lemma read_longs_reads:
  "\<forall>j<k. a + 8 * of_nat j < e \<Longrightarrow> \<not> a + 8 * of_nat k < e \<Longrightarrow> 8 * (i + k) \<le> length data \<Longrightarrow> mapped_at t a (8 * k) \<Longrightarrow>
   read_longs t a e i data = Some (take (8 * i) data @ mrd (pt_mem t) a (8 * k) @ drop (8 * (i + k)) data)"
proof (induction k arbitrary: a i data)
  case 0
  then show ?case by (simp add: read_longs_end)
next
  case (Suc k)
  let ?d = "take (8 * i) data @ mrd (pt_mem t) a 8 @ drop (8 * i + 8) data"
  have 1: "a < e" using Suc.prems(1) by force
  have 2: "mapped_at t a 8" "mapped_at t (a + 8) (8 * k)"
    using mapped_at_part [OF Suc.prems(4), of 0 8] mapped_at_part [OF Suc.prems(4), of 8 "8 * k"] by simp_all
  have 3: "\<forall>j<k. a + 8 + 8 * of_nat j < e" "\<not> a + 8 + 8 * of_nat k < e"
    using Suc.prems(1,2) by (auto simp: algebra_simps dest: spec [of _ "Suc _"])
  have "mrd (pt_mem t) a (8 * Suc k) = mrd (pt_mem t) a 8 @ mrd (pt_mem t) (a + 8) (8 * k)"
    using mrd_append [of "pt_mem t" a 8 "8 * k"] by simp
  then have 4: "(take (8 * i) data @ mrd (pt_mem t) a 8) @ mrd (pt_mem t) (a + 8) (8 * k) = take (8 * i) data @ mrd (pt_mem t) a (8 * Suc k)" by simp
  have "read_longs t a e i data = read_longs t (a + 8) e (Suc i) ?d"
    using 1 2(1) Suc.prems(3) by (intro read_longs_step) simp_all
  also have "\<dots> = Some (take (8 * Suc i) ?d @ mrd (pt_mem t) (a + 8) (8 * k) @ drop (8 * (Suc i + k)) ?d)"
    using Suc.prems(3) 3 2(2) by (intro Suc.IH) simp_all
  also have "take (8 * Suc i) ?d = take (8 * i) data @ mrd (pt_mem t) a 8" using Suc.prems(3) by simp
  also have "drop (8 * (Suc i + k)) ?d = drop (8 * (i + Suc k)) data"
    using Suc.prems(3) by (simp add: add.commute add.left_commute)
  finally show ?case using 4 by (metis append.assoc)
qed

lemma aligned_down:
  fixes b :: addr
  shows "unat (b - (b AND NOT 7)) = unat b mod 8" and "b AND NOT 7 = b - (b AND 7)" and "unat (b AND NOT 7) = unat b - unat b mod 8"
proof -
  have low: "unat (b AND 7) = unat b mod 8"
    using take_bit_eq_mask [of 3 b] unsigned_take_bit_eq [of 3 b, where ?'a = nat] by (simp add: take_bit_eq_mod mask_numeral)
  have sum: "(b AND 7) + (b AND NOT 7) = b" by (subst disjunctive_add) (auto intro: bit_word_eqI simp: bit_simps)
  then show diff: "b AND NOT 7 = b - (b AND 7)" by (simp add: algebra_simps)
  show "unat (b - (b AND NOT 7)) = unat b mod 8" using diff low by simp
  have "b AND 7 \<le> b" by (rule word_and_le2)
  then show "unat (b AND NOT 7) = unat b - unat b mod 8" using diff low by (simp add: unat_sub)
qed

definition log_fits :: "traced \<Rightarrow> memlog \<Rightarrow> bool" where
  "log_fits t l \<longleftrightarrow> unat (ml_size l) \<le> MAX_STORE_SIZE div 8 \<and> unat (ml_address l) + 24 < 2 ^ 64 \<and> mapped_at t (ml_address l AND NOT 7) 24"

lemma readMemLogData_reads:
  assumes "log_fits t l"
  shows "\<exists>data. readMemLogData t l = Some data \<and> length data = MEMLOG_BUF_SZ
    \<and> take (unat (ml_size l)) data = mrd (pt_mem t) (ml_address l) (unat (ml_size l))"
proof -
  define b n a x k where "b = ml_address l" and "n = unat (ml_size l)" and "a = b AND NOT 7" and "x = unat b mod 8" and "k = (x + n + 7) div 8"
  have h: "n \<le> 16" "unat b + 24 < 2 ^ 64" "mapped_at t a 24"
    using assms by (simp_all add: log_fits_def MAX_STORE_SIZE_def b_def n_def a_def)
  have x: "x < 8" "unat (b - a) = x" "unat a = unat b - x" "x \<le> unat b" using aligned_down [of b] by (simp_all add: a_def x_def)
  have k: "k \<le> 3" "x + n \<le> 8 * k" "8 * k < x + n + 8" using h(1) x(1) by (auto simp: k_def)
  have "b - a = of_nat x" unfolding x(2) [symmetric] by simp
  then have b: "b = a + of_nat x" by (metis add.commute diff_add_cancel)
  have e: "unat (b + ml_size l) = unat b + n" using h by (simp add: unat_word_ariths n_def)
  have j: "unat (a + 8 * of_nat j) = unat a + 8 * j" if "j \<le> 3" for j
  proof -
    have "unat a + 8 * j < 2 ^ 64" using that h(2) x by linarith
    then show ?thesis using that by (simp add: unat_word_ariths unat_of_nat)
  qed
  have "\<forall>j<k. a + 8 * of_nat j < b + ml_size l" "\<not> a + 8 * of_nat k < b + ml_size l"
    unfolding word_less_nat_alt e using k j x by (auto)
  then have r: "read_longs t a (b + ml_size l) 0 (replicate MEMLOG_BUF_SZ 0) = Some (mrd (pt_mem t) a (8 * k) @ drop (8 * k) (replicate MEMLOG_BUF_SZ 0))"
    using k(1) mapped_at_part [OF h(3), of 0 "8 * k"] read_longs_reads [of k a "b + ml_size l" 0 "replicate MEMLOG_BUF_SZ 0" t]
    by (simp add: MEMLOG_BUF_SZ_def MAX_STORE_SIZE_def)
  have split: "mrd (pt_mem t) a (8 * k) = mrd (pt_mem t) a x @ mrd (pt_mem t) b n @ mrd (pt_mem t) (b + of_nat n) (8 * k - x - n)"
    using k(2) mrd_append [of "pt_mem t" a x "8 * k - x"] mrd_append [of "pt_mem t" b n "8 * k - x - n"] by (simp add: b)
  let ?rest = "drop (8 * k) (replicate MEMLOG_BUF_SZ 0)"
  have len: "length (mrd (pt_mem t) a (8 * k) @ ?rest) = MEMLOG_BUF_SZ" using k(1) by (simp add: MEMLOG_BUF_SZ_def MAX_STORE_SIZE_def)
  have eq: "readMemLogData t l = (case read_longs t a (b + ml_size l) 0 (replicate MEMLOG_BUF_SZ 0) of None \<Rightarrow> None
      | Some data \<Rightarrow> if x = 0 then Some data
          else if x + n \<le> length data then Some (take n (drop x data) @ drop n data) else None)"
    by (simp only: readMemLogData_def Let_def b_def [symmetric] n_def [symmetric] a_def [symmetric] x(2))
  have fits: "x + n \<le> MEMLOG_BUF_SZ" using h(1) x(1) by (simp add: MEMLOG_BUF_SZ_def MAX_STORE_SIZE_def)
  have "\<exists>data. readMemLogData t l = Some data \<and> length data = MEMLOG_BUF_SZ \<and> take n data = mrd (pt_mem t) b n"
  proof (cases "x = 0")
    case True
    then show ?thesis using len by (simp add: eq r split)
  next
    case False
    have "n \<le> MEMLOG_BUF_SZ" using fits by simp
    then show ?thesis using False len fits by (simp add: eq r split)
  qed
  then show ?thesis by (simp only: b_def n_def)
qed

lemma isMatchMemLog_iff:
  assumes "case ml of None \<Rightarrow> True | Some l \<Rightarrow> log_fits t l"
  shows "isMatchMemLog ml t vex = Some (case ml of None \<Rightarrow> True
    | Some l \<Rightarrow> mrd (pt_mem t) (ml_address l) (unat (ml_size l)) = mrd vex (ml_address l) (unat (ml_size l)))"
proof (cases ml)
  case (Some l)
  then obtain data where "readMemLogData t l = Some data" "length data = MEMLOG_BUF_SZ"
      "take (unat (ml_size l)) data = mrd (pt_mem t) (ml_address l) (unat (ml_size l))" and "unat (ml_size l) \<le> 16"
    using assms readMemLogData_reads [of t l] by (auto simp: log_fits_def MAX_STORE_SIZE_def)
  then show ?thesis using Some by (simp add: isMatchMemLog_def MEMLOG_BUF_SZ_def MAX_STORE_SIZE_def)
qed (simp add: isMatchMemLog_def)

lemma isMatchMemLog_clear: "isMatchMemLog (Some MemLog_clear) t vex = Some True"
  by (simp add: isMatchMemLog_def readMemLogData_def MemLog_clear_def read_longs_end)

section \<open>The stack is compared as one range\<close>

definition STACK_BYTES :: nat where "STACK_BYTES = 128 + 1024 + 128"

lemma isStackMatch_iff:
  assumes "xchk \<Longrightarrow> mapped_at t (sp - 128) STACK_BYTES"
  shows "isStackMatch xchk t vex sp \<longleftrightarrow> (xchk \<longrightarrow> mrd (pt_mem t) (sp - 128) STACK_BYTES = mrd vex (sp - 128) STACK_BYTES)"
proof (cases xchk)
  case True
  let ?p = "\<lambda>k. (sp - 128) + 8 * of_nat k :: addr"
  have upto: "set [- (128 div 8)..STACK_XCHK_LONGS - 1] = (\<lambda>k. int k - 16) ` {..<160}"
  proof (intro equalityI subsetI)
    fix i assume "i \<in> set [- (128 div 8)..STACK_XCHK_LONGS - 1]"
    then have "nat (i + 16) < 160" "i = int (nat (i + 16)) - 16" by (simp_all only: set_upto) (auto simp: STACK_XCHK_LONGS_def)
    then show "i \<in> (\<lambda>k. int k - 16) ` {..<160}" by blast
  next
    fix i assume "i \<in> (\<lambda>k. int k - 16) ` {..<160}"
    then show "i \<in> set [- (128 div 8)..STACK_XCHK_LONGS - 1]" by (simp only: set_upto) (auto simp: STACK_XCHK_LONGS_def)
  qed
  have p: "sp + 8 * word_of_int (int k - 16) = ?p k" for k by (simp add: algebra_simps wi_hom_sub [symmetric])
  have m: "peek t (?p k) = ld64 (pt_mem t) (?p k)" if "k < 160" for k
    using that mapped_at_part [OF assms [OF True], of "8 * k" 8] by (intro peek_mapped) (simp add: STACK_BYTES_def)
  have "isStackMatch xchk t vex sp \<longleftrightarrow> (\<forall>k<160. peek t (?p k) = ld64 vex (?p k))"
    using True unfolding isStackMatch_def list_all_iff upto Let_def by (simp only: ball_simps p) auto
  also have "\<dots> \<longleftrightarrow> (\<forall>k<160. ld64 (pt_mem t) (?p k) = ld64 vex (?p k))" using m by simp
  also have "\<dots> \<longleftrightarrow> mrd (pt_mem t) (sp - 128) STACK_BYTES = mrd vex (sp - 128) STACK_BYTES"
    using mrd_longs [of "pt_mem t" "sp - 128" 160 vex] by (simp add: STACK_BYTES_def)
  finally show ?thesis using True by simp
qed (simp add: isStackMatch_def)


section \<open>The pages of the registers\<close>

lemma page_of_page [simp]: "page_of (page_of p) = page_of p"
  by (simp add: page_of_def and.assoc)

lemma getPageMismatch_page [simp]: "getPageMismatch look t vex (page_of p) = getPageMismatch look t vex p"
  by (simp add: getPageMismatch_def)

lemma fst_check_page: "fst (check_page look t vex c (m, cs)) = {} \<longleftrightarrow> m = {} \<and> (c \<in> cs \<or> getPageMismatch look t vex c = 0)"
  by (auto simp: check_page_def Let_def)

lemma snd_check_page: "snd (check_page look t vex c ps) = insert c (snd ps)"
  by (simp add: check_page_def split_beta)

definition pages_checked :: "(addr \<Rightarrow> bool option) \<Rightarrow> traced \<Rightarrow> memory \<Rightarrow> ptrs \<Rightarrow> bool" where
  "pages_checked look t vex ps \<longleftrightarrow> (fst ps = {} \<longleftrightarrow> (\<forall>c\<in>snd ps. getPageMismatch look t vex c = 0))"

lemma check_page_checked: "pages_checked look t vex ps \<Longrightarrow> pages_checked look t vex (check_page look t vex c ps)"
  by (cases ps) (auto simp: pages_checked_def fst_check_page snd_check_page)

lemma fold_checked:
  "pages_checked look t vex ps \<Longrightarrow> pages_checked look t vex (fold (printRootTraceDat look t vex) ds ps)
   \<and> snd (fold (printRootTraceDat look t vex) ds ps) = snd ps \<union> (\<Union>d\<in>set ds. {page_of (d - 4096), page_of d})"
  by (induction ds arbitrary: ps) (auto simp: printRootTraceDat_def check_page_checked snd_check_page)

lemma printRootTrace_iff:
  "printRootTrace look t vex dat \<longleftrightarrow> (\<forall>d\<in>set dat. \<forall>c\<in>{d - 4096, d}. getPageMismatch look t vex c = 0)"
proof -
  have "pages_checked look t vex ({}, {})" by (simp add: pages_checked_def)
  from fold_checked [OF this, of dat] show ?thesis by (auto simp: printRootTrace_def pages_checked_def)
qed

lemma first_difference_same [simp]: "first_difference p xs xs = 0"
  by (induction xs arbitrary: p) auto

lemma first_difference_zero:
  "length xs = length ys \<Longrightarrow> \<forall>i<length xs. i \<noteq> 0 \<longrightarrow> p + of_nat i \<noteq> 0 \<Longrightarrow>
   first_difference p xs ys = 0 \<longleftrightarrow> xs = ys \<or> p = 0 \<and> xs \<noteq> [] \<and> hd xs \<noteq> hd ys"
proof (induction p xs ys rule: first_difference.induct)
  case (1 p x xs y ys)
  have n: "\<forall>i<length xs. p + 1 + of_nat i \<noteq> 0"
  proof (intro allI impI)
    fix i assume "i < length xs"
    then show "p + 1 + of_nat i \<noteq> 0" using 1(3) [THEN spec [of _ "Suc i"]] by (simp add: add.assoc)
  qed
  show ?case
  proof (cases "x = y")
    case True
    have "\<forall>i<length xs. i \<noteq> 0 \<longrightarrow> p + 1 + of_nat i \<noteq> 0" using n by blast
    moreover have "p + 1 = 0 \<Longrightarrow> xs = []" using n by (cases xs) auto
    ultimately show ?thesis using True 1(1) [OF _ ] 1(2) by auto
  qed (use 1(2) in auto)
qed auto

text \<open>A page is reported when a writable page differs; a difference in the very first byte of
  the address space cannot be told from none.\<close>

definition page_reported :: "(addr \<Rightarrow> bool option) \<Rightarrow> memory \<Rightarrow> memory \<Rightarrow> addr \<Rightarrow> bool" where
  "page_reported look pm vex p \<longleftrightarrow> look p = Some True \<and> mrd pm p 4096 \<noteq> mrd vex p 4096 \<and> \<not> (p = 0 \<and> pm 0 \<noteq> vex 0)"

lemma page_no_wrap: "i < 4096 \<Longrightarrow> i \<noteq> 0 \<Longrightarrow> page_of p + of_nat i \<noteq> 0"
proof
  assume i: "i < 4096" "i \<noteq> 0" and z: "page_of p + of_nat i = 0"
  have "(0xfff :: addr) = mask 12" by (simp add: mask_eq_exp_minus_1)
  then have "page_of p = p AND NOT (mask 12)" by (simp only: page_of_def)
  moreover have "(p AND NOT (mask 12)) AND mask 12 = 0" by (intro bit_word_eqI) (auto simp: bit_simps)
  ultimately have "take_bit 12 (page_of p) = 0" by (simp only: take_bit_eq_mask)
  then have "unat (take_bit 12 (page_of p)) = 0" by (simp only: unat_0)
  then have "take_bit 12 (unat (page_of p)) = 0" by (simp only: unsigned_take_bit_eq)
  then have "unat (page_of p) mod 4096 = 0" by (simp add: take_bit_eq_mod)
  moreover have "(unat (page_of p) + i) mod 2 ^ 64 = 0"
    using arg_cong [OF z, of unat] i(1) by (simp add: unat_word_ariths unat_of_nat)
  then have "(unat (page_of p) + i) mod 2 ^ 64 mod 4096 = 0" by (simp only: mod_0)
  then have "(unat (page_of p) + i) mod 4096 = 0" by (simp add: mod_mod_cancel)
  ultimately have "i mod 4096 = 0" using mod_add_left_eq [of "unat (page_of p)" 4096 i] by (simp only: add_0)
  then show False using i by simp
qed

lemma first_difference_mrd:
  assumes "\<And>i. i < n \<Longrightarrow> i \<noteq> 0 \<Longrightarrow> p + of_nat i \<noteq> 0" and "0 < n"
  shows "first_difference p (mrd m p n) (mrd m' p n) = 0 \<longleftrightarrow> mrd m p n = mrd m' p n \<or> p = 0 \<and> m 0 \<noteq> m' 0"
proof -
  have ne: "mrd m a n \<noteq> []" for m a using assms(2) by (simp add: mrd_def)
  have hd: "hd (mrd m a n) = m a" for m a using nth_mrd [OF assms(2), of m a] by (simp add: hd_conv_nth ne)
  have "first_difference p (mrd m p n) (mrd m' p n) = 0 \<longleftrightarrow>
      mrd m p n = mrd m' p n \<or> p = 0 \<and> mrd m p n \<noteq> [] \<and> hd (mrd m p n) \<noteq> hd (mrd m' p n)"
    using assms(1) by (intro first_difference_zero) (simp_all only: length_mrd, blast)
  then show ?thesis by (simp only: hd ne) blast
qed

lemma getPageMismatch_iff: "getPageMismatch look t vex p = 0 \<longleftrightarrow> \<not> page_reported look (pt_mem t) vex (page_of p)"
proof -
  have "first_difference (page_of p) (mrd (pt_mem t) (page_of p) 4096) (mrd vex (page_of p) 4096) = 0 \<longleftrightarrow>
      mrd (pt_mem t) (page_of p) 4096 = mrd vex (page_of p) 4096 \<or> page_of p = 0 \<and> pt_mem t 0 \<noteq> vex 0"
    by (rule first_difference_mrd [OF page_no_wrap]) simp_all
  then show ?thesis
    by (cases "look (page_of p)") (auto simp only: getPageMismatch_def page_reported_def Let_def option.case option.inject if_True if_False split: if_splits)
qed

section \<open>The comparison compares\<close>

definition same_state :: "'r chk_arch \<Rightarrow> 'r ptimgchk \<Rightarrow> bool" where
  "same_state A s \<longleftrightarrow> (let pm = pt_mem (pt s); vm = vex_mem s; sp = getStackPtr A (pt_regs s) - 128; w = xchk_watchptr s AND NOT 7 in
     shadow_isMatch A (pt_regs s) (state_data s)
     \<and> (xchk_stack s \<longrightarrow> mrd pm sp STACK_BYTES = mrd vm sp STACK_BYTES)
     \<and> (case mem_log s of None \<Rightarrow> True | Some l \<Rightarrow> mrd pm (ml_address l) (unat (ml_size l)) = mrd vm (ml_address l) (unat (ml_size l)))
     \<and> (xchk_watchptr s \<noteq> 0 \<and> lookupMapping A w \<noteq> None \<longrightarrow> mrd pm w 8 = mrd vm w 8)
     \<and> (xchk_rootptrs s \<longrightarrow> (\<forall>d\<in>set (state_data s). \<forall>c\<in>{page_of (d - 4096), page_of d}. \<not> page_reported (lookupMapping A) pm vm c)))"

lemma watch_iff:
  "isWatchPtrMatch look w t vex \<longleftrightarrow> (look (w AND NOT 7) \<noteq> None \<longrightarrow> mrd (pt_mem t) (w AND NOT 7) 8 = mrd vex (w AND NOT 7) 8)"
  by (cases "look (w AND NOT 7)") (simp_all only: isWatchPtrMatch_def Let_def ld64_eq_iff option.case, simp_all)

lemma roots_iff:
  "printRootTrace look t vex dat \<longleftrightarrow> (\<forall>d\<in>set dat. \<forall>c\<in>{page_of (d - 4096), page_of d}. \<not> page_reported look (pt_mem t) vex c)"
  by (simp add: printRootTrace_iff getPageMismatch_iff)

definition reads_mapped :: "'r chk_arch \<Rightarrow> 'r ptimgchk \<Rightarrow> bool" where
  "reads_mapped A s \<longleftrightarrow> (xchk_stack s \<longrightarrow> mapped_at (pt s) (getStackPtr A (pt_regs s) - 128) STACK_BYTES)
     \<and> (case mem_log s of None \<Rightarrow> True | Some l \<Rightarrow> log_fits (pt s) l)"

lemma checks_conjoined:
  "(if \<not> a then Some False else if \<not> b then Some False else if \<not> c then Some False
    else if w \<and> \<not> d then Some False else if r \<and> \<not> e then Some False else Some True) = Some (a \<and> b \<and> c \<and> (w \<longrightarrow> d) \<and> (r \<longrightarrow> e))"
  by auto

lemma states_matched:
  assumes "reads_mapped A s"
  shows "isMatch A s = Some (same_state A s)"
proof -
  have "isMatchMemLog (mem_log s) (pt s) (vex_mem s) = Some (case mem_log s of None \<Rightarrow> True
      | Some l \<Rightarrow> mrd (pt_mem (pt s)) (ml_address l) (unat (ml_size l)) = mrd (vex_mem s) (ml_address l) (unat (ml_size l)))"
    using assms by (intro isMatchMemLog_iff) (simp add: reads_mapped_def)
  moreover have "isStackMatch (xchk_stack s) (pt s) (vex_mem s) (getStackPtr A (pt_regs s)) \<longleftrightarrow>
      (xchk_stack s \<longrightarrow> mrd (pt_mem (pt s)) (getStackPtr A (pt_regs s) - 128) STACK_BYTES = mrd (vex_mem s) (getStackPtr A (pt_regs s) - 128) STACK_BYTES)"
    using assms by (intro isStackMatch_iff) (simp add: reads_mapped_def)
  ultimately show ?thesis
    unfolding isMatch_def same_state_def Let_def watch_iff roots_iff by (simp only: option.case checks_conjoined imp_conjL)
qed

text \<open>C14: Where the traced process has its stack and the words around the last store mapped and the
  store is one of at most sixteen bytes, the comparison stays within its buffer and answers whether
  the registers agree and, as far as each is asked for, the 1280 bytes around the stack pointer, the
  bytes of the last store, the word at the watched address if it is mapped, and the writable pages
  at and before the address in each register; a page at address zero which differs in its first
  byte is taken to agree.\<close>

theorem states_compared:
  assumes "reads_mapped A s"
  shows "isMatch A s = Some (same_state A s)"
  using assms by (rule states_matched)

definition sample_arch :: "unit chk_arch" where
  "sample_arch = \<lparr>lookupMapping = (\<lambda>p. if 0x1000 \<le> p \<and> p < 0x8000 then Some True else None), shadow_isMatch = (\<lambda>_ _. True), getStackPtr = (\<lambda>_. 0x7000),
     canFixup = (\<lambda>_ _. FIXUP_NATIVE), pushRegisters = (\<lambda>_ r. r), slurpRegisters = (\<lambda>_ d. d)\<rparr>"

definition sample_state :: "unit ptimgchk" where
  "sample_state = \<lparr>mem_log = Some (recordStore 0x1003 (7 :: 32 word)), xchk_stack = True, xchk_rootptrs = True, xchk_watchptr = 0, fixup_c = 0,
     pt = \<lparr>pt_mem = (\<lambda>_. 0), pt_mapped = (\<lambda>_. True)\<rparr>, pt_regs = (), vex_mem = (\<lambda>a. if a = 0x1003 then 7 else 0), state_data = [0x1003, 0x7000]\<rparr>"

lemma states_compared_witness: "isMatch sample_arch sample_state = Some False"
proof -
  have "reads_mapped sample_arch sample_state"
    by (simp add: reads_mapped_def sample_state_def mapped_at_def log_fits_def recordStore_def MAX_STORE_SIZE_def)
  moreover have "pt_mem (pt sample_state) 0x1003 \<noteq> vex_mem sample_state 0x1003" by (simp add: sample_state_def)
  then have "mrd (pt_mem (pt sample_state)) 0x1003 4 \<noteq> mrd (vex_mem sample_state) 0x1003 4" unfolding mrd_eq_iff by (auto intro!: exI [of _ 0])
  then have "\<not> same_state sample_arch sample_state"
    by (simp add: same_state_def Let_def) (simp add: sample_state_def recordStore_def)
  ultimately show ?thesis using states_compared [of sample_arch sample_state] by simp
qed

section \<open>A native fix-up brings the pages together\<close>

lemma pushPage_fields [simp]:
  "vex_mem (pushPage A p s) = vex_mem s" "pt_regs (pushPage A p s) = pt_regs s" "xchk_stack (pushPage A p s) = xchk_stack s" "xchk_watchptr (pushPage A p s) = xchk_watchptr s"
  "fixup_c (pushPage A p s) = fixup_c s" "state_data (pushPage A p s) = state_data s" "mem_log (pushPage A p s) = mem_log s"
  by (simp_all add: pushPage_def Let_def split: option.split)

lemma push_near_fields [simp]:
  "vex_mem (push_near A d s) = vex_mem s" "pt_regs (push_near A d s) = pt_regs s" "xchk_stack (push_near A d s) = xchk_stack s" "xchk_watchptr (push_near A d s) = xchk_watchptr s"
  "fixup_c (push_near A d s) = fixup_c s" "state_data (push_near A d s) = state_data s" "mem_log (push_near A d s) = mem_log s"
  by (simp_all add: push_near_def)

lemma push_all_fields [simp]:
  "vex_mem (fold (push_near A) ds s) = vex_mem s" "pt_regs (fold (push_near A) ds s) = pt_regs s" "xchk_stack (fold (push_near A) ds s) = xchk_stack s" "xchk_watchptr (fold (push_near A) ds s) = xchk_watchptr s"
  "fixup_c (fold (push_near A) ds s) = fixup_c s" "state_data (fold (push_near A) ds s) = state_data s" "mem_log (fold (push_near A) ds s) = mem_log s"
  by (induction ds arbitrary: s) simp_all

definition in_sync :: "'r ptimgchk \<Rightarrow> addr \<Rightarrow> bool" where
  "in_sync s x \<longleftrightarrow> pt_mem (pt s) x = vex_mem s x"

lemma push_keeps_sync: "in_sync s x \<Longrightarrow> in_sync (pushPage A p s) x"
  by (auto simp: in_sync_def pushPage_def Let_def mwr_def split: option.split)

lemma push_near_keeps_sync: "in_sync s x \<Longrightarrow> in_sync (push_near A d s) x"
  by (simp add: push_near_def push_keeps_sync)

lemma push_syncs: "lookupMapping A (page_of p) = Some True \<Longrightarrow> i < 4096 \<Longrightarrow> in_sync (pushPage A p s) (page_of p + of_nat i)"
  by (simp add: in_sync_def pushPage_def Let_def mwr_def unat_of_nat take_bit_nat_eq_self)

lemma push_near_syncs:
  "0x1000 \<le> d \<Longrightarrow> c \<in> {d - 4096, d} \<Longrightarrow> lookupMapping A (page_of c) = Some True \<Longrightarrow> i < 4096 \<Longrightarrow> in_sync (push_near A d s) (page_of c + of_nat i)"
  by (auto simp: push_near_def push_syncs push_keeps_sync not_less [symmetric])

lemma push_all_keeps_sync: "in_sync s x \<Longrightarrow> in_sync (fold (push_near A) ds s) x"
  by (induction ds arbitrary: s) (simp_all add: push_near_keeps_sync)

lemma push_all_syncs:
  "d \<in> set ds \<Longrightarrow> 0x1000 \<le> d \<Longrightarrow> c \<in> {d - 4096, d} \<Longrightarrow> lookupMapping A (page_of c) = Some True \<Longrightarrow> i < 4096 \<Longrightarrow>
   in_sync (fold (push_near A) ds s) (page_of c + of_nat i)"
proof (induction ds arbitrary: s)
  case (Cons e ds)
  show ?case
  proof (cases "d = e")
    case True
    then show ?thesis using Cons.prems push_near_syncs [of d c A i s] by (simp add: push_all_keeps_sync)
  next
    case False
    then show ?thesis using Cons by simp
  qed
qed simp

lemma in_sync_not_reported:
  "(\<And>i. look p = Some True \<Longrightarrow> i < 4096 \<Longrightarrow> in_sync s (p + of_nat i)) \<Longrightarrow> \<not> page_reported look (pt_mem (pt s)) (vex_mem s) p"
  by (auto simp: page_reported_def in_sync_def mrd_eq_iff)

text \<open>A register that points into the first page is not followed; of the two pages that the
  comparison looks at for it, one is the first and the other the last of the address space.\<close>

lemma low_register_pages:
  assumes "d < 0x1000" shows "page_of d = 0" "page_of (d - 4096) = - 0x1000"
proof -
  have m: "(0xfff :: addr) = mask 12" by (simp add: mask_eq_exp_minus_1)
  have d: "take_bit 12 d = d" using assms by (simp add: less_mask_eq take_bit_eq_mask)
  then have b: "bit d n \<longrightarrow> n < 12" for n by (metis bit_take_bit_iff)
  show "page_of d = 0" unfolding page_of_def m by (rule bit_word_eqI) (use b in \<open>auto simp: bit_simps\<close>)
  have "- 4096 = NOT (mask 12 :: addr)" by (simp add: m [symmetric])
  then have "d - 4096 = d + NOT (mask 12)" by simp
  also have "\<dots> = d OR NOT (mask 12)" by (rule disjunctive_add) (use b in \<open>auto simp: bit_simps\<close>)
  finally have "page_of (d - 4096) = (d OR NOT (mask 12)) AND NOT (mask 12)" by (simp add: page_of_def m)
  also have "\<dots> = NOT (mask 12)" by (rule bit_word_eqI) (auto simp: bit_simps)
  finally show "page_of (d - 4096) = - 0x1000" by (simp add: m [symmetric])
qed

text \<open>The pages at the ends of the address space are not mapped for writing.\<close>

definition ends_unmapped :: "'r chk_arch \<Rightarrow> bool" where
  "ends_unmapped A \<longleftrightarrow> lookupMapping A 0 \<noteq> Some True \<and> lookupMapping A (- 0x1000) \<noteq> Some True"

definition pages_equal :: "'r chk_arch \<Rightarrow> 'r ptimgchk \<Rightarrow> bool" where
  "pages_equal A s \<longleftrightarrow> (\<forall>d\<in>set (state_data s). \<forall>c\<in>{page_of (d - 4096), page_of d}.
     lookupMapping A c = Some True \<longrightarrow> mrd (pt_mem (pt s)) c 4096 = mrd (vex_mem s) c 4096)"

lemma pages_equal_traced: "pages_equal A s \<Longrightarrow> printRootTrace (lookupMapping A) (pt s) (vex_mem s) (state_data s)"
  unfolding roots_iff pages_equal_def page_reported_def by blast

lemma pushed_pages_equal:
  assumes "ends_unmapped A" shows "pages_equal A (fold (push_near A) (state_data s) s)"
  unfolding pages_equal_def
proof (intro ballI impI)
  let ?s2 = "fold (push_near A) (state_data s) s"
  fix d c assume c: "d \<in> set (state_data ?s2)" "c \<in> {page_of (d - 4096), page_of d}" and w: "lookupMapping A c = Some True"
  then obtain e where e: "d \<in> set (state_data s)" "e \<in> {d - 4096, d}" "c = page_of e" by auto
  have "0x1000 \<le> d"
  proof (rule ccontr)
    assume "\<not> 0x1000 \<le> d"
    then have "c \<in> {- 0x1000, 0}" using c(2) low_register_pages [of d] by (simp add: not_le)
    then show False using w assms by (auto simp: ends_unmapped_def)
  qed
  then have "in_sync ?s2 (c + of_nat i)" if "i < 4096" for i
    using push_all_syncs [OF e(1) _ e(2), of A i s] w that unfolding e(3) by blast
  then show "mrd (pt_mem (pt ?s2)) c 4096 = mrd (vex_mem ?s2) c 4096"
    unfolding mrd_eq_iff in_sync_def by blast
qed

text \<open>A native fix-up is counted, copies the guest's writable pages at and before the address in
  every register over the traced process, and forgets the last store.\<close>

lemma native_fixup_syncs:
  assumes "canFixup A insts (mem_log s \<noteq> None) = FIXUP_NATIVE" and "ends_unmapped A"
  shows "\<exists>s'. fixup A insts s = (True, s') \<and> fixup_c s' = fixup_c s + 1 \<and> vex_mem s' = vex_mem s
    \<and> pt_regs s' = pushRegisters A (state_data s) (pt_regs s) \<and> state_data s' = state_data s
    \<and> xchk_stack s' = xchk_stack s \<and> xchk_watchptr s' = xchk_watchptr s
    \<and> mem_log s' = map_option (\<lambda>_. MemLog_clear) (mem_log s) \<and> pages_equal A s'"
proof -
  let ?s1 = "s\<lparr>fixup_c := fixup_c s + 1, pt_regs := pushRegisters A (state_data s) (pt_regs s)\<rparr>"
  let ?s2 = "fold (push_near A) (state_data s) ?s1"
  let ?s3 = "?s2\<lparr>mem_log := map_option (\<lambda>_. MemLog_clear) (mem_log ?s2)\<rparr>"
  have "fixup A insts s = (True, ?s3)" using assms(1) by (simp add: fixup_def doFixupNative_def)
  moreover have "pages_equal A ?s3" using pushed_pages_equal [OF assms(2), of ?s1] by (simp add: pages_equal_def)
  moreover have "fixup_c ?s3 = fixup_c s + 1" "vex_mem ?s3 = vex_mem s" "pt_regs ?s3 = pushRegisters A (state_data s) (pt_regs s)"
    "state_data ?s3 = state_data s" "xchk_stack ?s3 = xchk_stack s" "xchk_watchptr ?s3 = xchk_watchptr s"
    "mem_log ?s3 = map_option (\<lambda>_. MemLog_clear) (mem_log s)" by simp_all
  ultimately show ?thesis by blast
qed

lemma cleared_log_matches: "isMatchMemLog (map_option (\<lambda>_. MemLog_clear) l) t vex = Some True"
  by (cases l) (simp_all add: isMatchMemLog_clear, simp add: isMatchMemLog_def)

end
