(* ===== verification/Crosscheck.thy ===== *)
theory Crosscheck
  imports Vexexecchk Ptimgchk
begin

text \<open>
  The cross-check of a block (\<open>vexexecchk.cc\<close>) over the comparison and the fix-ups of the
  traced process (\<open>ptimgchk.cc\<close>): the guest's side is its memory and the words of its
  processor state, the other side everything else the comparison keeps.
\<close>

type_synonym guest_side = "memory \<times> 64 word list"

definition with_guest :: "guest_side \<Rightarrow> 'r ptimgchk \<Rightarrow> 'r ptimgchk" where
  "with_guest g p = p\<lparr>vex_mem := fst g, state_data := snd g\<rparr>"

text \<open>The calls \<open>cross_check->isMatch()\<close> and \<open>cross_check->fixup(insts)\<close>.\<close>

definition cross_check :: "'r chk_arch \<Rightarrow> (guest_side, 'r ptimgchk, 'a) chk_env \<Rightarrow> (guest_side, 'r ptimgchk, 'a) chk_env" where
  "cross_check A E = E\<lparr>
     chk_env.isMatch := (\<lambda>g p. Ptimgchk.isMatch A (with_guest g p) = Some True),
     chk_env.fixup := (\<lambda>insts g p. case Ptimgchk.fixup A insts (with_guest g p) of (b, s) \<Rightarrow> (b, (vex_mem s, state_data s), s))\<rparr>"

lemma cross_check_simps [simp]:
  "chk_env.isMatch (cross_check A E) g p \<longleftrightarrow> Ptimgchk.isMatch A (with_guest g p) = Some True"
  "chk_env.fixup (cross_check A E) insts g p = (case Ptimgchk.fixup A insts (with_guest g p) of (b, s) \<Rightarrow> (b, (vex_mem s, state_data s), s))"
  "isMapped (cross_check A E) = isMapped E" "cpu_getPC (cross_check A E) = cpu_getPC E" "isSigSegv (cross_check A E) = isSigSegv E"
  by (simp_all add: cross_check_def)

lemma with_guest_simps [simp]:
  "mem_log (with_guest g p) = mem_log p" "pt_regs (with_guest g p) = pt_regs p" "fixup_c (with_guest g p) = fixup_c p"
  "xchk_stack (with_guest g p) = xchk_stack p" "xchk_watchptr (with_guest g p) = xchk_watchptr p"
  "vex_mem (with_guest g p) = fst g" "state_data (with_guest g p) = snd g"
  by (simp_all add: with_guest_def)

lemma with_own_guest [simp]: "with_guest (vex_mem p, state_data p) p = p"
  by (simp add: with_guest_def)

text \<open>C15: When the states differ after a block that the architecture fixes up natively, the check of
  the block does not end as a divergence, unless the guest has jumped where nothing is mapped:
  the guest stays as it is, the fix-up is counted, the traced process receives the guest's
  registers, and each page at and before the address in a register that is mapped for writing
  then has the same bytes on both sides, given that the first and the last page of the address
  space are not mapped so. The block is compared equal from then on exactly when the
  registers, the stack and the watched word compare equal: neither the last store nor a page can
  differ any more.\<close>

theorem native_fixup_resumes_check:
  assumes "\<not> chk_env.isMatch (cross_check A E) (cpu s) (shadow s)"
    and "isMapped E (cpu s) (cpu_getPC E (cpu s)) \<or> \<not> isSigSegv E (shadow s)"
    and "canFixup A (getInstExtents vsb) (mem_log (shadow s) \<noteq> None) = FIXUP_NATIVE" and "ends_unmapped A"
  shows "\<exists>s'. verifyBlockRun (cross_check A E) vsb s = Inr s' \<and> cpu s' = cpu s
    \<and> fixup_c (shadow s') = fixup_c (shadow s) + 1
    \<and> pt_regs (shadow s') = pushRegisters A (snd (cpu s)) (pt_regs (shadow s))
    \<and> (\<forall>d\<in>set (snd (cpu s)). \<forall>c\<in>{page_of (d - 4096), page_of d}. lookupMapping A c = Some True \<longrightarrow>
         mrd (pt_mem (pt (shadow s'))) c 4096 = mrd (fst (cpu s)) c 4096)
    \<and> (chk_env.isMatch (cross_check A E) (cpu s') (shadow s') \<longleftrightarrow>
         shadow_isMatch A (pt_regs (shadow s')) (snd (cpu s))
         \<and> isStackMatch (xchk_stack (shadow s)) (pt (shadow s')) (fst (cpu s)) (getStackPtr A (pt_regs (shadow s')))
         \<and> (xchk_watchptr (shadow s) \<noteq> 0 \<longrightarrow>
              isWatchPtrMatch (lookupMapping A) (xchk_watchptr (shadow s)) (pt (shadow s')) (fst (cpu s))))"
proof -
  let ?g = "with_guest (cpu s) (shadow s)"
  have "canFixup A (getInstExtents vsb) (mem_log ?g \<noteq> None) = FIXUP_NATIVE" using assms(3) by simp
  from native_fixup_syncs [OF this assms(4)] obtain p where p: "Ptimgchk.fixup A (getInstExtents vsb) ?g = (True, p)"
    "fixup_c p = fixup_c (shadow s) + 1" "vex_mem p = fst (cpu s)" "pt_regs p = pushRegisters A (snd (cpu s)) (pt_regs (shadow s))"
    "state_data p = snd (cpu s)" "xchk_stack p = xchk_stack (shadow s)" "xchk_watchptr p = xchk_watchptr (shadow s)"
    "mem_log p = map_option (\<lambda>_. MemLog_clear) (mem_log (shadow s))" "pages_equal A p"
    by auto
  have own: "with_guest (cpu s) p = p" using with_own_guest [of p] p(3,5) by simp
  have "verifyBlockRun (cross_check A E) vsb s = Inr (s\<lparr>cpu := cpu s, shadow := p, chk_next_addr := cpu_getPC E (cpu s)\<rparr>)"
    using assms(1,2) p(1,3,5) by (auto simp: verifyBlockRun_def)
  moreover have "Ptimgchk.isMatch A p = Some (shadow_isMatch A (pt_regs p) (snd (cpu s))
      \<and> isStackMatch (xchk_stack (shadow s)) (pt p) (fst (cpu s)) (getStackPtr A (pt_regs p))
      \<and> (xchk_watchptr (shadow s) \<noteq> 0 \<longrightarrow> isWatchPtrMatch (lookupMapping A) (xchk_watchptr (shadow s)) (pt p) (fst (cpu s))))"
    using pages_equal_traced [OF p(9)] p(3,5,6,7,8) by (simp add: Ptimgchk.isMatch_def cleared_log_matches)
  ultimately show ?thesis
    using p(2,4,9) own unfolding pages_equal_def p(3,5) by (intro exI conjI) (assumption | simp)+
qed

definition sample_chk_env :: "(guest_side, unit ptimgchk, unit) chk_env" where
  "sample_chk_env = \<lparr>chk_env.isMatch = (\<lambda>g p. False), stepThroughBounds = (\<lambda>b e p. p), run_block = (\<lambda>b g. (0, g)),
     cpu_getPC = (\<lambda>g. 0), cpu_setPC = (\<lambda>a g. g), isMapped = (\<lambda>g a. True), isSigSegv = (\<lambda>p. False), chk_env.fixup = (\<lambda>is g p. (False, g, p)),
     getSyscallParams = (\<lambda>g. ()), is_brk = (\<lambda>a. False), setArg0 = (\<lambda>w a. a), guest_syscall = (\<lambda>a g. g),
     shadow_syscall = (\<lambda>g p. (g, p)), getSysCallResult = (\<lambda>p. 0), resetSyscall = (\<lambda>g. g)\<rparr>"

definition sample_check :: "(guest_side, unit ptimgchk) VexExecChk" where
  "sample_check = \<lparr>cpu = (\<lambda>a. if a = 0x1003 then 7 else 0, [0x1003, 0x7000]), shadow = sample_state\<lparr>xchk_stack := False\<rparr>, hit_syscall = False,
     is_deferred = False, deferred_bound_start = 0, deferred_bound_end = 0, chk_next_addr = 0\<rparr>"

lemma native_fixup_resumes_check_witness:
  "\<exists>s'. verifyBlockRun (cross_check sample_arch sample_chk_env) second_block sample_check = Inr s' \<and> cpu s' = cpu sample_check
    \<and> chk_env.isMatch (cross_check sample_arch sample_chk_env) (cpu s') (shadow s')"
proof -
  let ?g = "with_guest (cpu sample_check) (shadow sample_check)"
  have "reads_mapped sample_arch ?g"
    by (simp add: reads_mapped_def sample_check_def sample_state_def mapped_at_def log_fits_def recordStore_def MAX_STORE_SIZE_def with_guest_def)
  moreover have "pt_mem (pt ?g) 0x1003 \<noteq> vex_mem ?g 0x1003" by (simp add: sample_check_def sample_state_def with_guest_def)
  then have "mrd (pt_mem (pt ?g)) 0x1003 4 \<noteq> mrd (vex_mem ?g) 0x1003 4" unfolding mrd_eq_iff by (auto intro!: exI [of _ 0])
  then have "\<not> same_state sample_arch ?g"
    by (simp add: same_state_def Let_def) (simp add: sample_check_def sample_state_def recordStore_def with_guest_def)
  ultimately have differ: "\<not> chk_env.isMatch (cross_check sample_arch sample_chk_env) (cpu sample_check) (shadow sample_check)"
    using states_matched [of sample_arch ?g] by simp
  have "isMapped sample_chk_env (cpu sample_check) (cpu_getPC sample_chk_env (cpu sample_check)) \<or> \<not> isSigSegv sample_chk_env (shadow sample_check)"
    "canFixup sample_arch (getInstExtents second_block) (mem_log (shadow sample_check) \<noteq> None) = FIXUP_NATIVE" "ends_unmapped sample_arch"
    by (simp_all add: sample_chk_env_def sample_arch_def ends_unmapped_def)
  from native_fixup_resumes_check [OF differ this] obtain s' where
    s': "verifyBlockRun (cross_check sample_arch sample_chk_env) second_block sample_check = Inr s'" "cpu s' = cpu sample_check"
    "chk_env.isMatch (cross_check sample_arch sample_chk_env) (cpu s') (shadow s') \<longleftrightarrow>
         shadow_isMatch sample_arch (pt_regs (shadow s')) (snd (cpu sample_check))
         \<and> isStackMatch (xchk_stack (shadow sample_check)) (pt (shadow s')) (fst (cpu sample_check)) (getStackPtr sample_arch (pt_regs (shadow s')))
         \<and> (xchk_watchptr (shadow sample_check) \<noteq> 0 \<longrightarrow>
              isWatchPtrMatch (lookupMapping sample_arch) (xchk_watchptr (shadow sample_check)) (pt (shadow s')) (fst (cpu sample_check)))"
    by blast
  have "chk_env.isMatch (cross_check sample_arch sample_chk_env) (cpu s') (shadow s')"
    unfolding s'(3) by (simp add: sample_arch_def sample_check_def sample_state_def isStackMatch_def)
  then show ?thesis using s'(1,2) by blast
qed

end
