(* ===== verification/Vexop_Facts.thy ===== *)
theory Vexop_Facts
  imports Vexop_Tables
begin

text \<open>
  What the translated operators compute, lane by lane: the values of scalars and of
  vectors built one element at a time, then each family of operators against the
  arithmetic the intermediate representation documents.
\<close>

section \<open>Values of scalars and of built vectors\<close>

definition lane1 :: "llvm_env \<Rightarrow> regfile \<Rightarrow> irvalue \<Rightarrow> lane" where
  "lane1 E R v = hd (ev E R v)"

fun is_scalar :: "ty \<Rightarrow> bool" where
  "is_scalar (Scalar s) \<longleftrightarrow> True"
| "is_scalar (VectorTy n s) \<longleftrightarrow> False"

lemma elements_scalar [simp]: "is_scalar t \<Longrightarrow> getNumElements t = 1"
  by (cases t) auto

lemma is_scalar_with_elem [simp]: "is_scalar (with_elem t s) = is_scalar t"
  by (cases t) auto

lemma ev_scalar: "is_scalar (getType v) \<Longrightarrow> ev E R v = [lane1 E R v]"
  using length_ev [of E R v] by (cases "ev E R v") (auto simp: lane1_def)

lemma lane_fits:
  assumes "i < getNumElements (getType v)"
  shows "map_option (take_bit (elem_bits (getType v))) (ev E R v ! i) = ev E R v ! i"
  using ev_ok [of v E R] assms by (auto simp: lanes_ok_def)

lemma lane1_fits: "is_scalar (getType v) \<Longrightarrow> map_option (take_bit (elem_bits (getType v))) (lane1 E R v) = lane1 E R v"
  using lane_fits [of 0 v E R] by (simp add: ev_scalar)

lemma fit_one: "is_scalar t \<Longrightarrow> fit t [x] = [map_option (take_bit (elem_bits t)) x]"
  by (simp add: fit_def)

lemma lane1_constant [simp]: "lane1 E R (get_c b k) = Some (take_bit b k)"
  by (simp add: lane1_def fit_one)

lemma lane1_op [simp]:
  assumes "is_scalar (getType a)" and "is_scalar (getType b)"
  shows "lane1 E R (BinaryOp f a b) = map_option (take_bit (elem_bits (getType a)))
    (lift2 (lane_op f (elem_bits (getType a))) (lane1 E R a) (lane1 E R b))"
  using assms by (simp add: lane1_def [of E R "BinaryOp f a b"] ev_scalar fit_one)

lemma lane1_icmp [simp]:
  assumes "is_scalar (getType a)" and "is_scalar (getType b)"
  shows "lane1 E R (ICmp p a b) = lift2 (\<lambda>x y. Some (of_bool (lane_cmp p (elem_bits (getType a)) x y))) (lane1 E R a) (lane1 E R b)"
proof -
  have "map_option (take_bit 1) (lift2 (\<lambda>x y. Some (of_bool (P x y))) u v) = lift2 (\<lambda>x y. Some (of_bool (P x y) :: int)) u v" for P u v
    by (cases u; cases v; simp)
  then show ?thesis using assms by (simp add: lane1_def [of E R "ICmp p a b"] ev_scalar fit_one)
qed

lemma lane1_select [simp]:
  assumes "is_scalar (getType c)" and "is_scalar (getType a)" and "getType b = getType a"
  shows "lane1 E R (Select c a b) = (case lane1 E R c of None \<Rightarrow> None | Some k \<Rightarrow> if k = 0 then lane1 E R b else lane1 E R a)"
proof -
  have "map_option (take_bit (elem_bits (getType a))) (lane1 E R b) = lane1 E R b"
    using lane1_fits [of b] assms by simp
  then show ?thesis
    using assms lane1_fits [of a E R]
    by (cases "lane1 E R c") (auto simp: lane1_def [of E R "Select c a b"] ev_scalar fit_one fit_def)
qed

lemma lane1_zext [simp]: "is_scalar (getType a) \<Longrightarrow> is_scalar t \<Longrightarrow> lane1 E R (Cast ZExt a t) = map_option (take_bit (elem_bits t)) (lane1 E R a)"
  by (simp add: lane1_def [of E R "Cast ZExt a t"] ev_scalar fit_one)

lemma lane1_trunc [simp]: "is_scalar (getType a) \<Longrightarrow> is_scalar t \<Longrightarrow> lane1 E R (Cast Trunc a t) = map_option (take_bit (elem_bits t)) (lane1 E R a)"
  by (simp add: lane1_def [of E R "Cast Trunc a t"] ev_scalar fit_one)

lemma lane1_sext [simp]:
  "is_scalar (getType a) \<Longrightarrow> is_scalar t \<Longrightarrow>
    lane1 E R (Cast SExt a t) = map_option (\<lambda>x. take_bit (elem_bits t) (signed_lane (elem_bits (getType a)) x)) (lane1 E R a)"
  by (simp add: lane1_def [of E R "Cast SExt a t"] ev_scalar fit_one option.map_comp o_def)

lemma index_fits: "i < n \<Longrightarrow> n \<le> 65536 \<Longrightarrow> take_bit 32 (int i) = int i"
  by (simp add: take_bit_int_eq_self)

lemma lane1_extract [simp]:
  assumes "i < getNumElements (getType v)" and "getNumElements (getType v) \<le> 65536"
  shows "lane1 E R (ExtractElement v (get_32i (int i))) = ev E R v ! i"
  using assms lane_fits [OF assms(1), of E R] index_fits [OF assms]
  by (simp add: lane1_def [of E R "ExtractElement v w" for w] fit_one)

lemma getType_insert_elements [simp]: "getType (insert_elements n f r) = getType r"
proof -
  have "getType (fold (\<lambda>i result. InsertElement result (f i) (get_32i (int i))) is r) = getType r" for "is"
    by (induction "is" arbitrary: r) simp_all
  then show ?thesis by (simp add: insert_elements_def)
qed

lemma ev_insert:
  assumes "i < getNumElements (getType r)" and "getNumElements (getType r) \<le> 65536"
    and "getType x = Scalar (getScalarType (getType r))"
  shows "ev E R (InsertElement r x (get_32i (int i))) = (ev E R r)[i := lane1 E R x]"
proof -
  have "map_option (take_bit (elem_bits (getType r))) (lane1 E R x) = lane1 E R x"
    using lane1_fits [of x E R] assms(3) by simp
  then have "lanes_ok (getType r) ((ev E R r)[i := lane1 E R x])"
    using ev_ok [of r E R] assms(1) by (auto simp: lanes_ok_def dest!: subsetD [OF set_update_subset_insert])
  then show ?thesis
    using assms index_fits [OF assms(1,2)] by (simp add: ev_scalar fit_id fit_one)
qed

lemma insert_elements_prefix:
  assumes "\<And>i. i < n \<Longrightarrow> getType (f i) = Scalar (getScalarType (getType r))" and "n \<le> getNumElements (getType r)"
    and "getNumElements (getType r) \<le> 65536"
  shows "ev E R (insert_elements n f r) = map (\<lambda>i. lane1 E R (f i)) [0..<n] @ drop n (ev E R r)"
  using assms
proof (induction n)
  case 0 then show ?case by (simp add: insert_elements_def)
next
  case (Suc n)
  have "insert_elements (Suc n) f r = InsertElement (insert_elements n f r) (f n) (get_32i (int n))"
    by (simp add: insert_elements_def)
  moreover have "drop n (ev E R r) = ev E R r ! n # drop (Suc n) (ev E R r)"
    using Suc.prems(2) by (intro Cons_nth_drop_Suc [symmetric]) simp
  ultimately show ?case
    using Suc by (simp add: ev_insert list_update_append del: ev.simps)
qed

lemma ev_insert_elements:
  assumes "\<And>i. i < n \<Longrightarrow> getType (f i) = Scalar (getScalarType (getType r))" and "getNumElements (getType r) = n"
    and "n \<le> 65536"
  shows "ev E R (insert_elements n f r) = map (\<lambda>i. lane1 E R (f i)) [0..<n]"
  using insert_elements_prefix [of n f r E R] assms by simp

lemma ev_lanes:
  assumes "getNumElements (getType v) = n" and "\<And>i. i < n \<Longrightarrow> ev E R v ! i = f i"
  shows "ev E R v = map f [0..<n]"
  using assms by (auto intro: nth_equalityI)

declare ev.simps [simp del]

text \<open>An operand read as a vector of the operator's type.\<close>

definition as_lanes :: "llvm_env \<Rightarrow> regfile \<Rightarrow> ty \<Rightarrow> irvalue \<Rightarrow> lane list" where
  "as_lanes E R t v = ev E R (Cast BitCast v t)"

lemma length_as_lanes [simp]: "length (as_lanes E R t v) = getNumElements t"
  unfolding as_lanes_def by (simp)

lemma as_lanes_range:
  assumes "i < getNumElements t" and "as_lanes E R t v ! i = Some x"
  shows "0 \<le> x \<and> x < 2 ^ elem_bits t"
proof -
  have "take_bit (elem_bits t) x = x"
    using lane_fits [of i "Cast BitCast v t" E R] assms by (simp add: as_lanes_def)
  then show ?thesis by (metis take_bit_nonnegative take_bit_int_less_exp)
qed

lemma ev_cast_lanes:
  assumes "i < getNumElements t" and "getNumElements (getType v) = getNumElements t"
  shows "ev E R (Cast ZExt v t) ! i = map_option (take_bit (elem_bits t)) (ev E R v ! i)"
    and "ev E R (Cast Trunc v t) ! i = map_option (take_bit (elem_bits t)) (ev E R v ! i)"
    and "ev E R (Cast SExt v t) ! i = map_option (\<lambda>x. take_bit (elem_bits t) (signed_lane (elem_bits (getType v)) x)) (ev E R v ! i)"
  using assms by (simp_all add: ev.simps fit_def nth_append option.map_comp o_def)

lemma ev_binary_lanes:
  assumes "i < getNumElements (getType a)" and "getNumElements (getType b) = getNumElements (getType a)"
  shows "ev E R (BinaryOp f a b) ! i = map_option (take_bit (elem_bits (getType a)))
    (lift2 (lane_op f (elem_bits (getType a))) (ev E R a ! i) (ev E R b ! i))"
  using assms by (simp add: ev.simps fit_def nth_append)

section \<open>Lane arithmetic\<close>

text \<open>The reading of a lane as a signed or unsigned number, and the nearest such number.\<close>

definition lane_value :: "bool \<Rightarrow> nat \<Rightarrow> int \<Rightarrow> int" where
  "lane_value sg w x = (if sg then signed_lane w x else x)"

definition saturate :: "bool \<Rightarrow> nat \<Rightarrow> int \<Rightarrow> int" where
  "saturate sg w k = (if sg then max (- (2 ^ (w - 1))) (min (2 ^ (w - 1) - 1) k) else max 0 (min (2 ^ w - 1) k))"

lemma signed_lane_range: "0 < w \<Longrightarrow> - (2 ^ (w - 1)) \<le> signed_lane w x \<and> signed_lane w x < 2 ^ (w - 1)"
  by (simp add: signed_lane_def signed_take_bit_int_greater_eq_minus_exp signed_take_bit_int_less_exp)

lemma signed_lane_wide:
  assumes "- (2 ^ w) \<le> k" and "k < 2 ^ w"
  shows "signed_lane (Suc w) (take_bit (Suc w) k) = k"
  using assms by (simp add: signed_lane_def signed_take_bit_take_bit signed_take_bit_int_eq_self)

lemma take_bit_wide: "take_bit w (take_bit (Suc w) k) = take_bit w (k :: int)"
  by (simp add: take_bit_take_bit)

lemma power_pred: "0 < w \<Longrightarrow> (2 :: int) ^ w = 2 * 2 ^ (w - 1)"
  by (cases w) simp_all

lemma sats_lane:
  assumes w: "0 < w" and k: "- (2 ^ w) \<le> k" "k < 2 ^ w"
  defines "hi \<equiv> take_bit (Suc w) (signed_lane w (take_bit w (2 ^ (w - 1) - 1)))"
    and "lo \<equiv> take_bit (Suc w) (signed_lane w (take_bit w (2 ^ (w - 1))))"
  defines "e \<equiv> take_bit (Suc w) k"
  defines "e' \<equiv> if signed_lane (Suc w) e > signed_lane (Suc w) hi then hi else e"
  shows "take_bit w (if signed_lane (Suc w) e' < signed_lane (Suc w) lo then lo else e') = take_bit w (saturate True w k)"
proof -
  obtain u where u: "w = Suc u" using w by (cases w) auto
  have hi: "signed_lane w (take_bit w (2 ^ u - 1)) = 2 ^ u - 1"
    using signed_lane_wide [of u "2 ^ u - 1"] by (simp add: u)
  have "take_bit w (- (2 ^ u)) = (2 ^ u + (- 1) * 2 ^ w :: int) mod 2 ^ w"
    by (simp add: take_bit_eq_mod u)
  also have "\<dots> = 2 ^ u mod 2 ^ w" by (rule mod_mult_self1)
  finally have "take_bit w (2 ^ u :: int) = take_bit w (- (2 ^ u))" by (simp add: take_bit_eq_mod)
  then have lo: "signed_lane w (take_bit w (2 ^ u)) = - (2 ^ u)"
    using signed_lane_wide [of u "- (2 ^ u)"] by (simp add: u)
  have s: "signed_lane (Suc w) hi = 2 ^ u - 1" "signed_lane (Suc w) lo = - (2 ^ u)" "signed_lane (Suc w) e = k"
    using k hi lo by (simp_all add: hi_def lo_def e_def signed_lane_wide u)
  have h: "take_bit w hi = take_bit w (2 ^ u - 1)" and l: "take_bit w lo = take_bit w (- (2 ^ u))" and e: "take_bit w e = take_bit w k"
    using hi lo by (simp_all add: hi_def lo_def e_def take_bit_wide u)
  have q: "\<not> 2 * 2 ^ u < (1 :: int)" using one_le_power [of "2 :: int" u] by linarith
  consider "2 ^ u - 1 < k" | "- (2 ^ u) \<le> k" "k \<le> 2 ^ u - 1" | "k < - (2 ^ u)" by linarith
  then show ?thesis
  proof cases
    case 1
    then have "e' = hi" "saturate True w k = 2 ^ u - 1" "\<not> signed_lane (Suc w) hi < signed_lane (Suc w) lo"
      using s by (auto simp: e'_def saturate_def u q)
    then show ?thesis using h by simp
  next
    case 2
    then have "e' = e" "saturate True w k = k" "\<not> signed_lane (Suc w) e < signed_lane (Suc w) lo"
      using s by (auto simp: e'_def saturate_def u)
    then show ?thesis using e by simp
  next
    case 3
    moreover from this have "\<not> 2 ^ u - 1 < k" using q by linarith
    ultimately have "e' = e" "saturate True w k = - (2 ^ u)" "signed_lane (Suc w) e < signed_lane (Suc w) lo"
      using s by (auto simp: e'_def saturate_def u q)
    then show ?thesis using l by simp
  qed
qed

lemma satu_add_lane:
  assumes "0 \<le> x" and "x < 2 ^ w" and "0 \<le> y" and "y < 2 ^ w"
  defines "hi \<equiv> take_bit (Suc w) (take_bit w (2 ^ w - 1))" and "e \<equiv> take_bit (Suc w) (x + y)"
  shows "take_bit w (if e > hi then hi else e) = take_bit w (saturate False w (x + y))"
proof -
  have m: "take_bit w (2 ^ w - 1 :: int) = 2 ^ w - 1" by (intro take_bit_int_eq_self) simp_all
  have "(2 :: int) ^ w - 1 < 2 ^ Suc w" using zero_less_power [of "2 :: int" w] unfolding power_Suc by linarith
  then have hi: "hi = 2 ^ w - 1" unfolding hi_def m by (intro take_bit_int_eq_self) simp_all
  have e: "e = x + y" unfolding e_def using assms(1-4) by (intro take_bit_int_eq_self) auto
  show ?thesis
  proof (cases "2 ^ w - 1 < x + y")
    case True
    then have "saturate False w (x + y) = 2 ^ w - 1" by (simp add: saturate_def)
    then show ?thesis using True hi e by simp
  next
    case False
    then have "saturate False w (x + y) = x + y" using assms(1,3) by (simp add: saturate_def)
    then show ?thesis using False hi e by simp
  qed
qed

lemma satu_sub_lane:
  assumes "0 \<le> x" and "x < 2 ^ w" and "0 \<le> y" and "y < 2 ^ w"
  defines "lo \<equiv> take_bit (Suc w) (take_bit w 0)" and "e \<equiv> take_bit (Suc w) (x - y)"
  shows "take_bit w (if signed_lane (Suc w) e < signed_lane (Suc w) lo then lo else e) = take_bit w (saturate False w (x - y))"
proof -
  have "lo = 0" "signed_lane (Suc w) lo = 0" by (simp_all add: lo_def signed_lane_def)
  moreover have "signed_lane (Suc w) e = x - y"
    unfolding e_def using assms(1-4) by (intro signed_lane_wide) auto
  ultimately have "lo = 0" "signed_lane (Suc w) lo = 0" "signed_lane (Suc w) e = x - y" by blast+
  moreover have "saturate False w (x - y) = (if x - y < 0 then 0 else x - y)"
    using assms(1-4) by (simp add: saturate_def)
  ultimately show ?thesis by (simp add: e_def take_bit_wide)
qed

section \<open>Saturating arithmetic\<close>

text \<open>A vector instance of a lane function, poison where an operand is.\<close>

definition lanewise :: "(int \<Rightarrow> int \<Rightarrow> int) \<Rightarrow> ty \<Rightarrow> lane list \<Rightarrow> lane list \<Rightarrow> lane list" where
  "lanewise f t xs ys = map2 (lift2 (\<lambda>x y. Some (take_bit (elem_bits t) (f x y)))) xs ys"

definition computes :: "(irvalue \<Rightarrow> irvalue \<Rightarrow> irvalue) \<Rightarrow> ty \<Rightarrow> (int \<Rightarrow> int \<Rightarrow> int) \<Rightarrow> bool" where
  "computes op t f \<longleftrightarrow> (\<forall>E R v w. getType (op v w) = t \<and> ev E R (op v w) = lanewise f t (as_lanes E R t v) (as_lanes E R t w))"

lemma computesI:
  assumes "\<And>v w. getType (op v w) = t" and "getNumElements t = n" and "n \<le> 65536"
    and "\<And>E R v w i. i < n \<Longrightarrow> ev E R (op v w) ! i =
      lift2 (\<lambda>x y. Some (take_bit (elem_bits t) (f x y))) (as_lanes E R t v ! i) (as_lanes E R t w ! i)"
  shows "computes op t f"
  unfolding computes_def lanewise_def using assms
  by (auto intro!: nth_equalityI)

lemma lift2_cong:
  "(\<And>x y. a = Some x \<Longrightarrow> b = Some y \<Longrightarrow> f x y = g x y) \<Longrightarrow> lift2 f a b = lift2 g a b"
  by (cases a; cases b; simp)

lemma computes_inserted:
  assumes "\<And>v w. op v w = insert_elements n (g v w) (r v w)" and "\<And>v w. getType (r v w) = VectorTy n s" and "n \<le> 65536"
    and "\<And>v w i. i < n \<Longrightarrow> getType (g v w i) = Scalar s"
    and "\<And>E R v w i. i < n \<Longrightarrow> lane1 E R (g v w i) =
      lift2 (\<lambda>x y. Some (take_bit (scalar_bits s) (f x y))) (as_lanes E R (VectorTy n s) v ! i) (as_lanes E R (VectorTy n s) w ! i)"
  shows "computes op (VectorTy n s) f"
  using assms by (intro computesI [of _ _ n]) (simp_all add: ev_insert_elements)

lemma lift2_map: "lift2 g (map_option h a) (map_option k d) = lift2 (\<lambda>x y. g (h x) (k y)) a d"
  by (cases a; cases d; simp)

lemma partial_zext:
  assumes "i < n"
  shows "ev E R (BinaryOp f (Cast ZExt (Cast BitCast v (get_vt n b)) (get_vt n b')) (Cast ZExt (Cast BitCast w (get_vt n b)) (get_vt n b'))) ! i =
    map_option (take_bit b') (lift2 (\<lambda>x y. lane_op f b' (take_bit b' x) (take_bit b' y))
      (as_lanes E R (get_vt n b) v ! i) (as_lanes E R (get_vt n b) w ! i))"
  using assms by (simp add: as_lanes_def ev_binary_lanes ev_cast_lanes lift2_map)

lemma partial_sext:
  assumes "i < n"
  shows "ev E R (BinaryOp f (Cast SExt (Cast BitCast v (get_vt n b)) (get_vt n b')) (Cast SExt (Cast BitCast w (get_vt n b)) (get_vt n b'))) ! i =
    map_option (take_bit b') (lift2 (\<lambda>x y. lane_op f b' (take_bit b' (signed_lane b x)) (take_bit b' (signed_lane b y)))
      (as_lanes E R (get_vt n b) v ! i) (as_lanes E R (get_vt n b) w ! i))"
  using assms by (simp add: as_lanes_def ev_binary_lanes ev_cast_lanes lift2_map)

lemma take_bit_op_wide:
  "take_bit b (take_bit b x + take_bit b y) = take_bit b (x + y :: int)"
  "take_bit b (take_bit b x - take_bit b y) = take_bit b (x - y :: int)"
  by (simp_all add: take_bit_add take_bit_diff)

lemma lane1_clamp:
  assumes "getType a = get_i b" and "getType h = get_i b" and "lane1 E R h = Some c"
  shows "lane1 E R (Select (ICmp p a h) h a) = map_option (\<lambda>k. if lane_cmp p b k c then c else k) (lane1 E R a)"
  using assms by (cases "lane1 E R a") simp_all

definition clamps :: "nat \<Rightarrow> (irvalue \<Rightarrow> irvalue) \<Rightarrow> (int \<Rightarrow> int) \<Rightarrow> bool" where
  "clamps b one g \<longleftrightarrow> (\<forall>a. getType a = get_i b \<longrightarrow> getType (one a) = get_i b \<and>
     (\<forall>E R. lane1 E R (one a) = map_option g (lane1 E R a)))"

lemma clamps_id: "clamps b (\<lambda>a. a) (\<lambda>k. k)"
  by (simp add: clamps_def option.map_ident)

lemma clamps_SHIGH:
  "clamps b (SHIGH w c SExt p (get_vt n b)) (\<lambda>k. let h = take_bit b (signed_lane w (take_bit w c)) in if lane_cmp p b k h then h else k)"
  "clamps b (SHIGH w c ZExt p (get_vt n b)) (\<lambda>k. let h = take_bit b (take_bit w c) in if lane_cmp p b k h then h else k)"
  unfolding clamps_def SHIGH_def Let_def by (intro allI impI conjI lane1_clamp; simp)+

lemma clamps_SLOW:
  "clamps b (SLOW w c SExt p (get_vt n b)) (\<lambda>k. let h = take_bit b (signed_lane w (take_bit w c)) in if lane_cmp p b k h then h else k)"
  "clamps b (SLOW w c ZExt p (get_vt n b)) (\<lambda>k. let h = take_bit b (take_bit w c) in if lane_cmp p b k h then h else k)"
  unfolding clamps_def SLOW_def Let_def by (intro allI impI conjI lane1_clamp; simp)+

lemma opsat_emit:
  assumes n: "n \<le> 65536" and one: "clamps (Suc w) one g1" and two: "clamps (Suc w) two g2"
    and ext: "ext = SExt \<and> X = signed_lane w \<or> ext = ZExt \<and> X = (\<lambda>x. x)"
    and op: "\<And>u v. lane_op opc (Suc w) u v = Some (k u v)"
    and f: "\<And>x y. 0 \<le> x \<Longrightarrow> x < 2 ^ w \<Longrightarrow> 0 \<le> y \<Longrightarrow> y < 2 ^ w \<Longrightarrow>
      take_bit w (g2 (g1 (take_bit (Suc w) (k (take_bit (Suc w) (X x)) (take_bit (Suc w) (X y)))))) = take_bit w (f x y)"
  shows "computes (OPSAT_EMIT (get_vt n w) ext (get_vt n (Suc w)) opc one two) (get_vt n w) f"
  unfolding OPSAT_EMIT_def Let_def getNumElements.simps
proof (rule computes_inserted [OF refl _ n], goal_cases)
  case (3 E R v v' i)
  define e where "e = ExtractElement (BinaryOp opc (Cast ext (Cast BitCast v (get_vt n w)) (get_vt n (Suc w)))
    (Cast ext (Cast BitCast v' (get_vt n w)) (get_vt n (Suc w)))) (get_32i (int i))"
  have te: "getType e = get_i (Suc w)" by (simp add: e_def)
  then have "lane1 E R (Cast Trunc (two (one e)) (get_i w)) = map_option (\<lambda>x. take_bit w (g2 (g1 x))) (lane1 E R e)"
    using one two by (simp add: clamps_def option.map_comp o_def)
  also have "lane1 E R e = map_option (take_bit (Suc w)) (lift2 (\<lambda>x y. Some (k (take_bit (Suc w) (X x)) (take_bit (Suc w) (X y))))
      (as_lanes E R (get_vt n w) v ! i) (as_lanes E R (get_vt n w) v' ! i))"
    using ext 3 n op by (auto simp: e_def partial_sext partial_zext)
  also have "map_option (\<lambda>x. take_bit w (g2 (g1 x))) \<dots> = lift2 (\<lambda>x y. Some (take_bit w (f x y)))
      (as_lanes E R (get_vt n w) v ! i) (as_lanes E R (get_vt n w) v' ! i)"
    using as_lanes_range [of i "get_vt n w" E R v] as_lanes_range [of i "get_vt n w" E R v'] 3
    by (cases "as_lanes E R (get_vt n w) v ! i"; cases "as_lanes E R (get_vt n w) v' ! i") (auto simp: f)
  finally show ?case by (simp add: e_def)
qed (use one two in \<open>simp_all add: clamps_def\<close>)

lemma sats_emit:
  assumes w: "0 < w" and n: "n \<le> 65536"
  shows "computes (OPSATS_ADD_EMIT (get_vt n w) (get_vt n (Suc w)) w (2 ^ (w - 1) - 1) (2 ^ (w - 1))) (get_vt n w)
      (\<lambda>x y. saturate True w (signed_lane w x + signed_lane w y))" (is ?add)
    and "computes (OPSATS_SUB_EMIT (get_vt n w) (get_vt n (Suc w)) w (2 ^ (w - 1) - 1) (2 ^ (w - 1))) (get_vt n w)
      (\<lambda>x y. saturate True w (signed_lane w x - signed_lane w y))" (is ?sub)
proof -
  have r: "- (2 ^ w) \<le> signed_lane w x + signed_lane w y \<and> signed_lane w x + signed_lane w y < 2 ^ w"
    "- (2 ^ w) \<le> signed_lane w x - signed_lane w y \<and> signed_lane w x - signed_lane w y < 2 ^ w" for x y
    using signed_lane_range [OF w, of x] signed_lane_range [OF w, of y] power_pred [OF w] by auto
  show ?add
    unfolding OPSATS_ADD_EMIT_def
    by (rule opsat_emit [where k = "(+)", OF n clamps_SHIGH(1) clamps_SLOW(1), of _ "signed_lane w"])
      (auto simp only: take_bit_op_wide Let_def lane_cmp.simps lane_op.simps intro!: sats_lane [OF w] r [THEN conjunct1] r [THEN conjunct2])
  show ?sub
    unfolding OPSATS_SUB_EMIT_def
    by (rule opsat_emit [where k = "(-)", OF n clamps_SHIGH(1) clamps_SLOW(1), of _ "signed_lane w"])
      (auto simp only: take_bit_op_wide Let_def lane_cmp.simps lane_op.simps intro!: sats_lane [OF w] r [THEN conjunct1] r [THEN conjunct2])
qed

lemma satu_emit:
  assumes n: "n \<le> 65536"
  shows "computes (OPSATU_ADD_EMIT (get_vt n w) (get_vt n (Suc w)) w (2 ^ w - 1) 0) (get_vt n w)
      (\<lambda>x y. saturate False w (x + y))" (is ?add)
    and "computes (OPSATU_SUB_EMIT (get_vt n w) (get_vt n (Suc w)) w (2 ^ w - 1) 0) (get_vt n w)
      (\<lambda>x y. saturate False w (x - y))" (is ?sub)
proof -
  show ?add
    unfolding OPSATU_ADD_EMIT_def
    by (rule opsat_emit [where k = "(+)", OF n clamps_SHIGH(2) clamps_id, of _ "\<lambda>x. x"])
      (auto simp only: take_bit_op_wide Let_def lane_cmp.simps lane_op.simps intro!: satu_add_lane)
  show ?sub
    unfolding OPSATU_SUB_EMIT_def
    by (rule opsat_emit [where k = "(-)", OF n clamps_id clamps_SLOW(2), of _ "\<lambda>x. x"])
      (auto simp only: take_bit_op_wide Let_def lane_cmp.simps lane_op.simps intro!: satu_sub_lane)
qed

section \<open>High halves, averages and halved sums\<close>

definition extends :: "cast_op \<Rightarrow> nat \<Rightarrow> (int \<Rightarrow> int) \<Rightarrow> bool" where
  "extends ext w X \<longleftrightarrow> ext = SExt \<and> X = signed_lane w \<or> ext = ZExt \<and> X = (\<lambda>x. x)"

lemma extends_intros [intro!]: "extends SExt w (signed_lane w)" "extends ZExt w (\<lambda>x. x)"
  by (simp_all add: extends_def)

lemma extended_lane:
  assumes "extends ext w X" and "i < n"
  shows "ev E R (Cast ext (Cast BitCast v (get_vt n w)) (get_vt n b)) ! i = map_option (\<lambda>x. take_bit b (X x)) (as_lanes E R (get_vt n w) v ! i)"
  using assms by (auto simp: extends_def as_lanes_def ev_cast_lanes)

lemma map_option_lift2: "map_option h (lift2 (\<lambda>x y. Some (g x y)) a b) = lift2 (\<lambda>x y. Some (h (g x y))) a b"
  by (cases a; cases b; simp)

lemma cut_lane_single: "cut_lane w [x] b 0 = map_option (take_bit b) x"
proof (cases x)
  case None
  then show ?thesis by (simp add: cut_lane_def)
next
  case (Some s)
  have "None \<notin> set (take k [x])" for k using Some by (cases k) simp_all
  then show ?thesis using Some by (simp add: cut_lane_def)
qed

lemma splat_shift_lane:
  assumes i: "i < n" and n: "n \<le> 8" and b: "0 < b" and s: "0 \<le> s" "s < 2 ^ b"
  shows "ev E R (ShuffleVector (Cast BitCast (Cast ZExt (get_c b s) (get_i (n * b))) (get_vt n b)) u (take n (replicate 8 0))) ! i = Some s"
proof -
  have "b \<le> n * b" using i by (cases n) simp_all
  then have "take_bit (n * b) s = s"
    using s order.strict_trans2 [OF s(2) power_increasing [OF \<open>b \<le> n * b\<close>]] by (intro take_bit_int_eq_self) simp_all
  moreover have sb: "take_bit b s = s" using s by (rule take_bit_int_eq_self)
  ultimately have "ev E R (Cast ZExt (get_c b s) (get_i (n * b))) = [Some s]"
    by (simp add: ev_scalar)
  then have "ev E R (Cast BitCast (Cast ZExt (get_c b s) (get_i (n * b))) (get_vt n b)) ! 0 = Some s"
    using i sb by (simp add: ev.simps(6) fit_def nth_append regroup_def cut_lane_single)
  moreover have "take n (replicate 8 0) ! i = 0" using i n by simp
  ultimately show ?thesis
    using i n sb by (simp add: ev.simps(10) fit_def nth_append Let_def)
qed

lemma mulhi_lane:
  "take_bit w (drop_bit w (take_bit (w * 2) (take_bit (w * 2) x * take_bit (w * 2) y))) = take_bit w (x * y div 2 ^ w)" for x y :: int
proof -
  have "take_bit (w * 2) (take_bit (w * 2) x * take_bit (w * 2) y) = take_bit (w * 2) (x * y)"
    by (rule take_bit_mult)
  then show ?thesis by (simp add: drop_bit_take_bit flip: drop_bit_eq_div)
qed

lemma mulhi_emit:
  assumes n: "0 < n" "n \<le> 8" and w: "0 < w" and ext: "extends ext w X"
  shows "\<exists>f. OPV_EXT_EMIT (get_vt n w) ext (get_vt n (w * 2)) w Mul = (\<lambda>v u. Some (f v u)) \<and>
    computes f (get_vt n w) (\<lambda>x y. X x * X y div 2 ^ w)"
proof -
  define f where "f = (\<lambda>v u. the (OPV_EXT_EMIT (get_vt n w) ext (get_vt n (w * 2)) w Mul v u))"
  have f: "OPV_EXT_EMIT (get_vt n w) ext (get_vt n (w * 2)) w Mul v u = Some (f v u)" for v u
    using n by (simp add: f_def OPV_EXT_EMIT_def Let_def)
  have "int w < int (2 ^ w)" by (simp only: of_nat_less_iff less_exp)
  then have "int w < 2 ^ w" by simp
  also have "(2 :: int) ^ w \<le> 2 ^ (w * 2)" by (rule power_increasing) simp_all
  finally have s: "ev E R (ShuffleVector (Cast BitCast (Cast ZExt (get_c (w * 2) (int w)) (get_i (n * (w * 2)))) (get_vt n (w * 2))) u (take n (replicate 8 0))) ! i = Some (int w)"
    if "i < n" for E R u i using splat_shift_lane [OF that n(2), of "w * 2" "int w"] w by simp
  have "computes f (get_vt n w) (\<lambda>x y. X x * X y div 2 ^ w)"
  proof (rule computesI [of _ _ n])
    fix E R v u i assume i: "i < n"
    show "ev E R (f v u) ! i = lift2 (\<lambda>x y. Some (take_bit (elem_bits (get_vt n w)) (X x * X y div 2 ^ w)))
        (as_lanes E R (get_vt n w) v ! i) (as_lanes E R (get_vt n w) u ! i)"
      using i n w s [OF i]
      by (cases "as_lanes E R (get_vt n w) v ! i"; cases "as_lanes E R (get_vt n w) u ! i")
        (simp_all add: f_def OPV_EXT_EMIT_def Let_def getBitWidth_def ev_cast_lanes ev_binary_lanes extended_lane [OF ext]
          mulhi_lane)
  qed (use n in \<open>simp_all add: f_def OPV_EXT_EMIT_def Let_def\<close>)
  with f show ?thesis by blast
qed

lemma halved_lane:
  fixes k :: int
  assumes "w < b"
  shows "take_bit w (drop_bit (Suc 0) (take_bit b k)) = take_bit w (k div 2)"
proof -
  have "drop_bit (Suc 0) (take_bit b k) = take_bit (b - Suc 0) (k div 2)"
    by (simp only: drop_bit_take_bit drop_bit_Suc drop_bit_0 id_apply)
  then show ?thesis using assms by (simp add: min_def)
qed

lemma take_bit_one: "0 < b \<Longrightarrow> take_bit b (1 :: int) = 1"
  by (simp add: take_bit_int_eq_self)

lemma lane1_shift_right:
  assumes "getType a = get_i b" and "1 < b"
  shows "lane1 E R (BinaryOp LShr a (get_c b 1)) = map_option (\<lambda>k. take_bit b (drop_bit 1 k)) (lane1 E R a)"
  using assms by (cases "lane1 E R a") (simp_all add: take_bit_one)

lemma avg_emit:
  assumes n: "n \<le> 65536" and w: "0 < w" "w < b" and ext: "extends ext w X"
  shows "computes (OPAVG_EMIT (get_vt n w) ext (get_vt n b)) (get_vt n w) (\<lambda>x y. (X x + X y + 1) div 2)"
  unfolding OPAVG_EMIT_def Let_def getNumElements.simps
proof (rule computes_inserted [OF refl _ n], goal_cases)
  case (3 E R v u i)
  define e where "e = ExtractElement (BinaryOp Add (Cast ext (Cast BitCast v (get_vt n w)) (get_vt n b))
    (Cast ext (Cast BitCast u (get_vt n w)) (get_vt n b))) (get_32i (int i))"
  have te: "getType e = get_i b" by (simp add: e_def)
  have e: "lane1 E R e = lift2 (\<lambda>x y. Some (take_bit b (X x + X y))) (as_lanes E R (get_vt n w) v ! i) (as_lanes E R (get_vt n w) u ! i)"
    using 3 n by (simp add: e_def ev_binary_lanes extended_lane [OF ext] lift2_map map_option_lift2 take_bit_op_wide)
  have k: "take_bit b (take_bit b k + 1) = take_bit b (k + 1)" for k :: int
    using take_bit_add [of b k 1] take_bit_add [of b "take_bit b k" 1] by simp
  have "lane1 E R (BinaryOp Add e (get_c b 1)) = lift2 (\<lambda>x y. Some (take_bit b (X x + X y + 1)))
      (as_lanes E R (get_vt n w) v ! i) (as_lanes E R (get_vt n w) u ! i)"
    using w by (cases "as_lanes E R (get_vt n w) v ! i"; cases "as_lanes E R (get_vt n w) u ! i")
      (simp_all add: te e take_bit_one k)
  then show ?case
    using w by (cases "as_lanes E R (get_vt n w) v ! i"; cases "as_lanes E R (get_vt n w) u ! i")
      (simp_all add: te e_def [symmetric] getBitWidth_def lane1_shift_right halved_lane min_def del: lane1_op)
qed (simp_all add: getBitWidth_def)

lemma half_emit:
  assumes n: "0 < n" "n \<le> 65536" and w: "0 < w" and ext: "extends ext w X"
    and op: "opc = Add \<and> k = (+) \<or> opc = Sub \<and> k = (-)"
  shows "\<exists>g. OPHOP_EMIT (get_vt n w) opc ext = (\<lambda>v u. Cast BitCast (g v u) (get_i (n * w))) \<and>
    computes g (get_vt n w) (\<lambda>x y. k (X x) (X y) div 2)"
proof (intro exI conjI)
  have p: "getBitWidth (get_vt n w) div n = w" using n by (simp add: getBitWidth_def)
  define h where "h = (\<lambda>v u i. BinaryOp opc (Cast ext (ExtractElement (Cast BitCast v (get_vt n w)) (get_32i (int i))) (get_i (2 * w)))
    (Cast ext (ExtractElement (Cast BitCast u (get_vt n w)) (get_32i (int i))) (get_i (2 * w))))"
  define g where "g = (\<lambda>v u. insert_elements n (\<lambda>i. Cast Trunc (BinaryOp LShr (h v u i) (get_c (2 * w) 1)) (get_i w))
    (Cast BitCast (get_c (n * w) 0) (get_vt n w)))"
  show "OPHOP_EMIT (get_vt n w) opc ext = (\<lambda>v u. Cast BitCast (g v u) (get_i (n * w)))"
    using n by (simp add: OPHOP_EMIT_def g_def h_def fun_eq_iff getBitWidth_def Let_def mult.commute)
  show "computes g (get_vt n w) (\<lambda>x y. k (X x) (X y) div 2)"
  proof (rule computes_inserted [OF _ _ n(2), where g = "\<lambda>v u i. Cast Trunc (BinaryOp LShr (h v u i) (get_c (2 * w) 1)) (get_i w)"
        and r = "\<lambda>v u. Cast BitCast (get_c (n * w) 0) (get_vt n w)"], goal_cases)
    case (4 E R v u i)
    have t: "getType (h v u i) = get_i (2 * w)" by (simp add: h_def)
    have x: "lane1 E R (Cast ext (ExtractElement (Cast BitCast v (get_vt n w)) (get_32i (int i))) (get_i (2 * w))) =
      map_option (\<lambda>x. take_bit (2 * w) (X x)) (as_lanes E R (get_vt n w) v ! i)" for v
      using 4 n ext by (auto simp: extends_def as_lanes_def)
    have "lane1 E R (h v u i) = lift2 (\<lambda>x y. Some (take_bit (2 * w) (k (X x) (X y)))) (as_lanes E R (get_vt n w) v ! i) (as_lanes E R (get_vt n w) u ! i)"
      using op by (auto simp: h_def x lift2_map map_option_lift2 take_bit_op_wide)
    then show ?case
      using w t by (cases "as_lanes E R (get_vt n w) v ! i"; cases "as_lanes E R (get_vt n w) u ! i")
        (simp_all add: lane1_shift_right halved_lane min_def del: lane1_op)
  qed (simp_all add: g_def)
qed

section \<open>Permutations and narrowing\<close>

lemma ev_shuffle:
  assumes "getType b = getType a" and "\<forall>k\<in>set m. k < 2 * getNumElements (getType a)"
  shows "ev E R (ShuffleVector a b m) = map (\<lambda>k. (ev E R a @ ev E R b) ! k) m"
proof -
  have "map_option (take_bit (elem_bits (getType a))) ((ev E R a @ ev E R b) ! k) = (ev E R a @ ev E R b) ! k"
    if "k < 2 * getNumElements (getType a)" for k
    using that assms(1) lane_fits [of k a E R] lane_fits [of "k - getNumElements (getType a)" b E R] by (auto simp: nth_append)
  then have ok: "lanes_ok (VectorTy (length m) (getScalarType (getType a))) (map (\<lambda>k. (ev E R a @ ev E R b) ! k) m)"
    using assms(2) by (auto simp: lanes_ok_def)
  have eq: "map (\<lambda>k. let xs = ev E R a @ ev E R b in if k < length xs then xs ! k else None) m =
      map (\<lambda>k. (ev E R a @ ev E R b) ! k) m"
    using assms by (auto simp: Let_def)
  show ?thesis unfolding ev.simps(10) eq by (rule fit_id) (rule ok)
qed

text \<open>The lanes of two halves, the second operand's first, one after another.\<close>

definition interleaved :: "nat \<Rightarrow> nat \<Rightarrow> 'a list \<Rightarrow> 'a list \<Rightarrow> 'a list" where
  "interleaved n from xs ys = map (\<lambda>k. (if even k then ys else xs) ! (from + k div 2)) [0..<n]"

lemma ileave_emit:
  assumes m: "m = map (\<lambda>k. (if even k then n else 0) + from + k div 2) [0..<n]" and "from + (n - 1) div 2 < n"
  shows "ev E R (EMIT_ILEAVE m (get_vt n b) v w) = interleaved n from (as_lanes E R (get_vt n b) v) (as_lanes E R (get_vt n b) w)"
proof -
  have lt: "from + k div 2 < n" if "k < n" for k
    using assms(2) that div_le_mono [of k "n - 1" 2] by linarith
  have "m ! k < 2 * n" if "k < n" for k
    using that lt [OF that] by (auto simp: m)
  then have "\<forall>k\<in>set m. k < 2 * n"
    by (auto simp: m)
  then have "ev E R (EMIT_ILEAVE m (get_vt n b) v w) =
      map (\<lambda>k. (as_lanes E R (get_vt n b) v @ as_lanes E R (get_vt n b) w) ! k) m"
    by (simp add: EMIT_ILEAVE_def Let_def ev_shuffle as_lanes_def)
  also have "\<dots> = interleaved n from (as_lanes E R (get_vt n b) v) (as_lanes E R (get_vt n b) w)"
    using lt by (auto simp: interleaved_def nth_append m intro!: nth_equalityI)
  finally show ?thesis .
qed

lemma fold_insert_twice:
  "fold (\<lambda>i r. InsertElement r (g i) (get_32i (int (i + n)))) [0..<n] (fold (\<lambda>i r. InsertElement r (f i) (get_32i (int i))) [0..<n] r) =
   insert_elements (2 * n) (\<lambda>i. if i < n then f i else g (i - n)) r"
proof -
  define h where "h = (\<lambda>i r. InsertElement r (if i < n then f i else g (i - n)) (get_32i (int i)))"
  have "[0..<2 * n] = [0..<n] @ map (\<lambda>i. i + n) [0..<n]"
    by (simp add: map_add_upt mult_2 flip: upt_add_eq_append [of 0 n n, simplified])
  then have "fold h [0..<2 * n] r = fold (\<lambda>i. h (i + n)) [0..<n] (fold h [0..<n] r)"
    by (simp add: fold_map comp_def)
  moreover have "fold h [0..<n] r = fold (\<lambda>i r. InsertElement r (f i) (get_32i (int i))) [0..<n] r"
    by (rule fold_cong) (auto simp: h_def fun_eq_iff)
  moreover have "(\<lambda>i. h (i + n)) = (\<lambda>i r. InsertElement r (g i) (get_32i (int (i + n))))"
    by (simp add: h_def fun_eq_iff)
  ultimately show ?thesis by (simp add: insert_elements_def h_def)
qed

lemma take_bit_signed_lane: "b' \<le> b \<Longrightarrow> 0 < b \<Longrightarrow> take_bit b' (signed_lane b x) = take_bit b' x"
  by (cases b) (simp_all add: signed_lane_def take_bit_signed_take_bit)

lemma signed_lane_take: "0 < b \<Longrightarrow> signed_lane b (take_bit b x) = signed_lane b x"
  by (cases b) (simp_all add: signed_lane_def signed_take_bit_take_bit)

lemma lane1_clamp_elem:
  assumes t: "getType a = get_i b" and b: "0 < b" "b' \<le> b" and c: "signed_lane b lo \<le> signed_lane b hi"
  shows "lane1 E R (clamp_elem (get_c b hi) (get_c b lo) (get_vt n b') a) =
    map_option (\<lambda>x. take_bit b' (max (signed_lane b lo) (min (signed_lane b hi) (signed_lane b x)))) (lane1 E R a)"
proof -
  have "lane1 E R (clamp_elem (get_c b hi) (get_c b lo) (get_vt n b') a) =
    map_option (\<lambda>x. take_bit b' (let k = (if signed_lane b x > signed_lane b hi then take_bit b hi else x)
      in if signed_lane b k < signed_lane b lo then take_bit b lo else k)) (lane1 E R a)"
    using t b by (cases "lane1 E R a") (simp_all add: clamp_elem_def Let_def lane1_clamp signed_lane_take)
  moreover have "take_bit b' (let k = (if signed_lane b x > signed_lane b hi then take_bit b hi else x)
      in if signed_lane b k < signed_lane b lo then take_bit b lo else k) =
    take_bit b' (max (signed_lane b lo) (min (signed_lane b hi) (signed_lane b x)))" (is "take_bit b' ?k = _") for x
  proof -
    have "signed_lane b ?k = max (signed_lane b lo) (min (signed_lane b hi) (signed_lane b x))"
      using b c by (simp add: Let_def signed_lane_take min_def max_def)
    then show ?thesis using take_bit_signed_lane [OF b(2,1), of ?k] by simp
  qed
  ultimately show ?thesis by simp
qed

lemma narrow_emit:
  assumes b: "0 < b" "b' \<le> b" and n: "2 * n \<le> 65536" and c: "signed_lane b lo \<le> signed_lane b hi"
  shows "ev E R (OPNRWSS_EMIT (get_vt n b) (get_vt (2 * n) b') (get_c b hi) (get_c b lo) v w) =
    map (map_option (\<lambda>x. take_bit b' (max (signed_lane b lo) (min (signed_lane b hi) (signed_lane b x)))))
      (as_lanes E R (get_vt n b) w @ as_lanes E R (get_vt n b) v)"
proof -
  define f where "f = (\<lambda>u i. clamp_elem (get_c b hi) (get_c b lo) (get_vt (2 * n) b') (ExtractElement (Cast BitCast u (get_vt n b)) (get_32i (int i))))"
  have t: "getType (f u i) = get_i b'" for u i by (simp add: f_def clamp_elem_def Let_def)
  have l: "lane1 E R (f u i) = map_option (\<lambda>x. take_bit b' (max (signed_lane b lo) (min (signed_lane b hi) (signed_lane b x)))) (as_lanes E R (get_vt n b) u ! i)"
    if "i < n" for u i
    using that n b c by (simp add: f_def lane1_clamp_elem as_lanes_def)
  have e: "OPNRWSS_EMIT (get_vt n b) (get_vt (2 * n) b') (get_c b hi) (get_c b lo) v w =
      insert_elements (2 * n) (\<lambda>i. if i < n then f w i else f v (i - n)) (Cast BitCast (get_c (getBitWidth (get_vt (2 * n) b')) 0) (get_vt (2 * n) b'))"
    by (simp only: OPNRWSS_EMIT_def Let_def getNumElements.simps fold_insert_twice f_def)
  have "ev E R (OPNRWSS_EMIT (get_vt n b) (get_vt (2 * n) b') (get_c b hi) (get_c b lo) v w) =
      map (\<lambda>i. lane1 E R (if i < n then f w i else f v (i - n))) [0..<2 * n]"
    using n t unfolding e by (intro ev_insert_elements) simp_all
  also have "\<dots> = map (map_option (\<lambda>x. take_bit b' (max (signed_lane b lo) (min (signed_lane b hi) (signed_lane b x)))))
      (as_lanes E R (get_vt n b) w @ as_lanes E R (get_vt n b) v)"
    by (auto intro!: nth_equalityI simp: l nth_append)
  finally show ?thesis .
qed

section \<open>Scalar shifts and divisions\<close>

lemma shift_emit:
  assumes t: "getType v = get_i w" "getType s = get_i 8" and b: "w = 2 ^ b" "b \<le> 8"
  shows "lane1 E R (SHIFT_EMIT (BinaryOp Shl) b v s) = lift2 (\<lambda>x k. Some (take_bit w (push_bit (nat (k mod int w)) x))) (lane1 E R v) (lane1 E R s)" (is ?shl)
    and "lane1 E R (SHIFT_EMIT (BinaryOp LShr) b v s) = lift2 (\<lambda>x k. Some (take_bit w (drop_bit (nat (k mod int w)) x))) (lane1 E R v) (lane1 E R s)" (is ?shr)
    and "lane1 E R (SHIFT_EMIT (BinaryOp AShr) b v s) = lift2 (\<lambda>x k. Some (take_bit w (drop_bit (nat (k mod int w)) (signed_lane w x)))) (lane1 E R v) (lane1 E R s)" (is ?sar)
proof -
  have k: "take_bit w (take_bit b k) = k mod int w" "k mod int w < int w" for k :: int
  proof -
    have "b \<le> w" using less_exp [of b] b(1) by simp
    then have "take_bit w (take_bit b k) = take_bit b k" by (simp add: take_bit_take_bit min_def)
    then show "take_bit w (take_bit b k) = k mod int w" by (simp add: take_bit_eq_mod b(1))
    have "0 < int w" unfolding b(1) by simp
    then show "k mod int w < int w" by (rule pos_mod_bound)
  qed
  show ?shl and ?shr and ?sar
    using t k by (cases "lane1 E R v"; cases "lane1 E R s"; simp add: SHIFT_EMIT_def)+
qed

lemma lane1_bitcast:
  "is_scalar (getType a) \<Longrightarrow> is_scalar t \<Longrightarrow> lane1 E R (Cast BitCast a t) = map_option (take_bit (elem_bits t)) (lane1 E R a)"
  by (simp add: lane1_def [of E R "Cast BitCast a t"] ev.simps ev_scalar fit_one regroup_def cut_lane_single option.map_comp o_def)

lemma take_bit_push_take: "take_bit w (push_bit h (take_bit w r)) = take_bit w (push_bit h r)" for r :: int
  by (rule bit_eqI) (auto simp: bit_simps)

lemma signed_lane_widen:
  assumes "0 < h"
  shows "signed_lane (2 * h) (take_bit (2 * h) (signed_lane h y)) = signed_lane h y"
    and "take_bit (2 * h) (signed_lane h y) = 0 \<longleftrightarrow> signed_lane h y = 0"
proof -
  have p: "(2 :: int) ^ (h - 1) \<le> 2 ^ (2 * h - 1)" using assms by (intro power_increasing) auto
  have "- (2 ^ (2 * h - 1)) \<le> signed_lane h y" "signed_lane h y < 2 ^ (2 * h - 1)"
    using signed_lane_range [OF assms, of y] p by linarith+
  moreover have "Suc (2 * h - 1) = 2 * h" using assms by simp
  ultimately show s: "signed_lane (2 * h) (take_bit (2 * h) (signed_lane h y)) = signed_lane h y"
    using signed_lane_wide [of "2 * h - 1" "signed_lane h y"] by simp
  show "take_bit (2 * h) (signed_lane h y) = 0 \<longleftrightarrow> signed_lane h y = 0"
  proof
    assume "take_bit (2 * h) (signed_lane h y) = 0"
    then have "signed_lane h y = signed_lane (2 * h) 0" using s by simp
    then show "signed_lane h y = 0" by (simp add: signed_lane_def)
  qed simp
qed

lemma divmod_emit:
  assumes t: "getType v = get_i (2 * h)" "getType u = get_i h" and h: "0 < h"
  shows "lane1 E R (DIVMOD_EMIT UDiv URem ZExt (2 * h) v u) = lift2 (\<lambda>x y. if y = 0 then None
      else Some (take_bit (2 * h) (take_bit h (x div y) OR push_bit h (x mod y)))) (lane1 E R v) (lane1 E R u)" (is ?u)
    and "lane1 E R (DIVMOD_EMIT SDiv SRem SExt (2 * h) v u) = lift2 (\<lambda>x y. let x = signed_lane (2 * h) x; y = signed_lane h y in
      if y = 0 \<or> x sdiv y = 2 ^ (2 * h - 1) then None
      else Some (take_bit (2 * h) (take_bit h (x sdiv y) OR push_bit h (x smod y)))) (lane1 E R v) (lane1 E R u)" (is ?s)
proof -
  have b: "lane1 E R (Cast BitCast v (get_i (2 * h))) = lane1 E R v"
    using lane1_fits [of v E R] t by (simp add: lane1_bitcast)
  have small: "take_bit (2 * h) (int h) = int h" "int h < int (2 * h)"
  proof -
    have "int h < int (2 ^ h)" by (simp only: of_nat_less_iff less_exp)
    also have "\<dots> \<le> 2 ^ (2 * h)" by (simp add: power_increasing)
    finally show "take_bit (2 * h) (int h) = int h" by (intro take_bit_int_eq_self) simp_all
  qed (use h in simp)
  have y: "take_bit (2 * h) y = y" if "lane1 E R u = Some y" for y
  proof -
    have "take_bit (2 * h) (take_bit h y) = take_bit h y" by (simp add: take_bit_take_bit min_def)
    moreover have "take_bit h y = y" using lane1_fits [of u E R] t that by simp
    ultimately show ?thesis by simp
  qed
  show ?u
    using t b small y
    by (cases "lane1 E R v"; cases "lane1 E R u")
      (simp_all add: DIVMOD_EMIT_def Let_def take_bit_push_take)
  show ?s
    using t b small h
    by (cases "lane1 E R v"; cases "lane1 E R u")
      (simp_all add: DIVMOD_EMIT_def Let_def take_bit_push_take signed_lane_widen)
qed

section \<open>The families of operators\<close>

text \<open>The saturating operators in the order of the tables: the name, whether it adds or
  subtracts, whether the lanes are signed, their width and their number.\<close>

definition saturating_ops :: "(string \<times> bool \<times> bool \<times> nat \<times> nat) list" where
  "saturating_ops = [
     (''QAdd64Sx1'', True, True, 64, 1), (''QSub64Sx1'', False, True, 64, 1),
     (''QAdd64Sx2'', True, True, 64, 2), (''QSub64Sx2'', False, True, 64, 2),
     (''QAdd32Sx2'', True, True, 32, 2), (''QSub32Sx2'', False, True, 32, 2),
     (''QAdd32Sx4'', True, True, 32, 4), (''QSub32Sx4'', False, True, 32, 4),
     (''QAdd16Sx2'', True, True, 16, 2), (''QSub16Sx2'', False, True, 16, 2),
     (''QAdd16Sx4'', True, True, 16, 4), (''QSub16Sx4'', False, True, 16, 4),
     (''QAdd16Sx8'', True, True, 16, 8), (''QSub16Sx8'', False, True, 16, 8),
     (''QAdd8Sx4'', True, True, 8, 4), (''QSub8Sx4'', False, True, 8, 4), (''QAdd8Sx8'', True, True, 8, 8),
     (''QSub8Sx8'', False, True, 8, 8), (''QAdd8Sx16'', True, True, 8, 16),
     (''QSub8Sx16'', False, True, 8, 16), (''QAdd64Ux1'', True, False, 64, 1),
     (''QSub64Ux1'', False, False, 64, 1), (''QAdd64Ux2'', True, False, 64, 2),
     (''QSub64Ux2'', False, False, 64, 2), (''QAdd32Ux2'', True, False, 32, 2),
     (''QSub32Ux2'', False, False, 32, 2), (''QAdd32Ux4'', True, False, 32, 4),
     (''QSub32Ux4'', False, False, 32, 4), (''QAdd16Ux2'', True, False, 16, 2),
     (''QSub16Ux2'', False, False, 16, 2), (''QAdd16Ux4'', True, False, 16, 4),
     (''QSub16Ux4'', False, False, 16, 4), (''QAdd16Ux8'', True, False, 16, 8),
     (''QSub16Ux8'', False, False, 16, 8), (''QAdd8Ux4'', True, False, 8, 4),
     (''QSub8Ux4'', False, False, 8, 4), (''QAdd8Ux8'', True, False, 8, 8),
     (''QSub8Ux8'', False, False, 8, 8), (''QAdd8Ux16'', True, False, 8, 16),
     (''QSub8Ux16'', False, False, 8, 16)]"

lemmas sats_instances = sats_emit [of 8 4, simplified] sats_emit [of 8 8, simplified] sats_emit [of 8 16, simplified] sats_emit [of 16 2, simplified] sats_emit [of 16 4, simplified] sats_emit [of 16 8, simplified] sats_emit [of 32 2, simplified] sats_emit [of 32 4, simplified] sats_emit [of 64 1, simplified, folded One_nat_def] sats_emit [of 64 2, simplified]
lemmas satu_instances = satu_emit [of 4 8, simplified] satu_emit [of 8 8, simplified] satu_emit [of 16 8, simplified] satu_emit [of 2 16, simplified] satu_emit [of 4 16, simplified] satu_emit [of 8 16, simplified] satu_emit [of 2 32, simplified] satu_emit [of 4 32, simplified] satu_emit [of 1 64, simplified, folded One_nat_def] satu_emit [of 2 64, simplified]

text \<open>
  C16: the saturating additions and subtractions saturate. Every operator of the two tables
  is the one its name says, and each lane of its result is the sum or difference of the
  lanes of its operands, read as signed or unsigned numbers, or the nearest number the
  lane can hold.
\<close>
theorem saturating_ops_saturate:
  "list_all2 (\<lambda>(name, add, sg, w, n) (op, emit). op = name \<and> (\<exists>f. emit = total2 f \<and>
     computes f (get_vt n w) (\<lambda>x y. saturate sg w
       (if add then lane_value sg w x + lane_value sg w y else lane_value sg w x - lane_value sg w y))))
   saturating_ops (sats_binops @ satu_binops)"
  unfolding saturating_ops_def sats_binops_def satu_binops_def append.simps list_all2_Cons list_all2_Nil
    prod.case lane_value_def if_True if_False
  by (rule conjI refl exI TrueI sats_instances satu_instances)+

text \<open>The averaging, high-half and halving operators: signedness, width, number of lanes.\<close>

definition averaging_ops :: "(string \<times> bool \<times> nat \<times> nat) list" where
  "averaging_ops = [
     (''Avg8Ux8'', False, 8, 8), (''Avg8Ux16'', False, 8, 16), (''Avg8Sx16'', True, 8, 16),
     (''Avg16Ux4'', False, 16, 4), (''Avg16Ux8'', False, 16, 8), (''Avg16Sx8'', True, 16, 8),
     (''Avg32Ux4'', False, 32, 4), (''Avg32Sx4'', True, 32, 4)]"

definition multiplying_ops :: "(string \<times> bool \<times> nat \<times> nat) list" where
  "multiplying_ops = [
     (''MulHi16Ux4'', False, 16, 4), (''MulHi16Sx4'', True, 16, 4), (''MulHi16Ux8'', False, 16, 8),
     (''MulHi16Sx8'', True, 16, 8), (''MulHi32Ux4'', False, 32, 4), (''MulHi32Sx4'', True, 32, 4)]"

definition halving_ops :: "(string \<times> bool \<times> bool \<times> nat \<times> nat) list" where
  "halving_ops = [
     (''HAdd16Ux2'', True, False, 16, 2), (''HAdd16Sx2'', True, True, 16, 2),
     (''HSub16Ux2'', False, False, 16, 2), (''HSub16Sx2'', False, True, 16, 2),
     (''HAdd8Ux4'', True, False, 8, 4), (''HAdd8Sx4'', True, True, 8, 4), (''HSub8Ux4'', False, False, 8, 4),
     (''HSub8Sx4'', False, True, 8, 4)]"

lemma avg_row: "n \<le> 65536 \<Longrightarrow> 0 < w \<Longrightarrow> w < b \<Longrightarrow>
    computes (OPAVG_EMIT (get_vt n w) (if sg then SExt else ZExt) (get_vt n b)) (get_vt n w) (\<lambda>x y. (lane_value sg w x + lane_value sg w y + 1) div 2)"
  by (cases sg) (auto simp: lane_value_def intro!: avg_emit)

lemma mulhi_row:
  assumes "b = w * 2" and "0 < n" and "n \<le> 8" and "0 < w"
  shows "\<exists>f. OPV_EXT_EMIT (get_vt n w) (if sg then SExt else ZExt) (get_vt n b) w Mul = total2 f \<and>
    computes f (get_vt n w) (\<lambda>x y. lane_value sg w x * lane_value sg w y div 2 ^ w)"
  using mulhi_emit [OF assms(2-), of SExt "signed_lane w"] mulhi_emit [OF assms(2-), of ZExt "\<lambda>x. x"]
  by (cases sg) (auto simp: lane_value_def assms(1))

lemma half_row:
  assumes "0 < n" and "n \<le> 65536" and "0 < w"
  shows "\<exists>g. total2 (OPHOP_EMIT (get_vt n w) (if add then Add else Sub) (if sg then SExt else ZExt)) = total2 (\<lambda>v u. Cast BitCast (g v u) (get_i (n * w))) \<and>
    computes g (get_vt n w) (\<lambda>x y. (if add then lane_value sg w x + lane_value sg w y else lane_value sg w x - lane_value sg w y) div 2)"
proof -
  have "\<exists>g. OPHOP_EMIT (get_vt n w) (if add then Add else Sub) (if sg then SExt else ZExt) = (\<lambda>v u. Cast BitCast (g v u) (get_i (n * w))) \<and>
    computes g (get_vt n w) (\<lambda>x y. (if add then (+) else (-)) (lane_value sg w x) (lane_value sg w y) div 2)"
    by (rule half_emit [OF assms]) (auto simp: lane_value_def extends_def fun_eq_iff)
  then show ?thesis by (cases add) auto
qed

lemmas avg_rows = avg_row [where sg = True, unfolded if_True] avg_row [where sg = False, unfolded if_False]
lemmas mulhi_rows = mulhi_row [where sg = True, unfolded if_True] mulhi_row [where sg = False, unfolded if_False]
lemmas half_rows = half_row [where sg = True and add = True, unfolded if_True] half_row [where sg = False and add = True, unfolded if_True if_False]
  half_row [where sg = True and add = False, unfolded if_True if_False] half_row [where sg = False and add = False, unfolded if_False]
lemmas row_simps = append.simps take_Suc_Cons list_all2_Cons list_all2_Nil prod.case if_True if_False

lemma eight_rows: "take 8 xs = take (Suc (Suc (Suc (Suc (Suc (Suc (Suc (Suc 0)))))))) xs" "take 0 xs = []"
  by (simp_all add: eval_nat_numeral)

text \<open>
  C17: the averages, the high halves of products and the halved sums and differences are
  what their names say. Every operator of these tables computes, lane by lane on the
  lanes read as signed or unsigned numbers, the average rounded up, the product divided
  by two to the width of a lane, or half of the sum or difference rounded down.
\<close>
theorem averages_and_high_halves:
  "list_all2 (\<lambda>(name, sg, w, n) (op, emit). op = name \<and> (\<exists>f. emit = total2 f \<and>
     computes f (get_vt n w) (\<lambda>x y. (lane_value sg w x + lane_value sg w y + 1) div 2))) averaging_ops avg_binops \<and>
   list_all2 (\<lambda>(name, sg, w, n) (op, emit). op = name \<and> (\<exists>f. emit = total2 f \<and>
     computes f (get_vt n w) (\<lambda>x y. lane_value sg w x * lane_value sg w y div 2 ^ w))) multiplying_ops mulhi_binops \<and>
   list_all2 (\<lambda>(name, add, sg, w, n) (op, emit). op = name \<and> (\<exists>g. emit = total2 (\<lambda>v u. Cast BitCast (g v u) (get_i (n * w))) \<and>
     computes g (get_vt n w) (\<lambda>x y. (if add then lane_value sg w x + lane_value sg w y else lane_value sg w x - lane_value sg w y) div 2)))
     halving_ops (take 8 half_compare_binops)"
proof (intro conjI)
  show "list_all2 (\<lambda>(name, sg, w, n) (op, emit). op = name \<and> (\<exists>f. emit = total2 f \<and>
     computes f (get_vt n w) (\<lambda>x y. (lane_value sg w x + lane_value sg w y + 1) div 2))) averaging_ops avg_binops"
    unfolding averaging_ops_def avg_binops_def row_simps
    by (rule conjI refl exI TrueI avg_rows | simp)+
  show "list_all2 (\<lambda>(name, sg, w, n) (op, emit). op = name \<and> (\<exists>f. emit = total2 f \<and>
     computes f (get_vt n w) (\<lambda>x y. lane_value sg w x * lane_value sg w y div 2 ^ w))) multiplying_ops mulhi_binops"
    unfolding multiplying_ops_def mulhi_binops_def row_simps
    by (rule conjI refl TrueI mulhi_rows | simp)+
  show "list_all2 (\<lambda>(name, add, sg, w, n) (op, emit). op = name \<and> (\<exists>g. emit = total2 (\<lambda>v u. Cast BitCast (g v u) (get_i (n * w))) \<and>
     computes g (get_vt n w) (\<lambda>x y. (if add then lane_value sg w x + lane_value sg w y else lane_value sg w x - lane_value sg w y) div 2)))
     halving_ops (take 8 half_compare_binops)"
    unfolding halving_ops_def half_compare_binops_def eight_rows row_simps
    by (rule conjI refl TrueI half_rows | simp)+
qed

text \<open>The interleaving operators with which half they take, the number of lanes and their
  width; the narrowing ones with the signedness of the result, the width of the source
  and the number of lanes of one operand.\<close>

definition interleaving_ops :: "(string \<times> bool \<times> nat \<times> nat) list" where
  "interleaving_ops = [
     (''InterleaveLO8x8'', False, 8, 8), (''InterleaveHI8x8'', True, 8, 8),
     (''InterleaveLO8x16'', False, 16, 8), (''InterleaveHI8x16'', True, 16, 8),
     (''InterleaveLO16x4'', False, 4, 16), (''InterleaveHI16x4'', True, 4, 16),
     (''InterleaveLO16x8'', False, 8, 16), (''InterleaveHI16x8'', True, 8, 16),
     (''InterleaveLO32x2'', False, 2, 32), (''InterleaveHI32x2'', True, 2, 32),
     (''InterleaveLO32x4'', False, 4, 32), (''InterleaveHI32x4'', True, 4, 32),
     (''InterleaveLO64x2'', False, 2, 64), (''InterleaveHI64x2'', True, 2, 64)]"

definition narrowing_ops :: "(string \<times> bool \<times> nat \<times> nat) list" where
  "narrowing_ops = [
     (''QNarrowUn16Sto8Ux8'', False, 16, 4), (''QNarrowBin16Sto8Ux16'', False, 16, 8),
     (''QNarrowBin16Sto8Ux8'', False, 16, 4), (''QNarrowBin32Sto16Ux8'', False, 32, 4),
     (''QNarrowBin16Sto8Sx8'', True, 16, 4), (''QNarrowBin16Sto8Sx16'', True, 16, 8),
     (''QNarrowBin32Sto16Sx4'', True, 32, 2), (''QNarrowBin32Sto16Sx8'', True, 32, 4)]"

lemma ileave_masks:
  "ileave_hi16x8 = map (\<lambda>k. (if even k then 8 else 0) + 4 + k div 2) [0..<8]"
  "ileave_hi32x4 = map (\<lambda>k. (if even k then 4 else 0) + 2 + k div 2) [0..<4]"
  "ileave_hi64x2 = map (\<lambda>k. (if even k then 2 else 0) + 1 + k div 2) [0..<2]"
  "ileave_hi8x16 = map (\<lambda>k. (if even k then 16 else 0) + 8 + k div 2) [0..<16]"
  "ileave_lo16x8 = map (\<lambda>k. (if even k then 8 else 0) + 0 + k div 2) [0..<8]"
  "ileave_lo32x4 = map (\<lambda>k. (if even k then 4 else 0) + 0 + k div 2) [0..<4]"
  "ileave_lo64x2 = map (\<lambda>k. (if even k then 2 else 0) + 0 + k div 2) [0..<2]"
  "ileave_lo8x16 = map (\<lambda>k. (if even k then 16 else 0) + 0 + k div 2) [0..<16]"
  by code_simp+

lemmas ileave_rows = ileave_emit [OF ileave_masks(1), simplified, folded One_nat_def] ileave_emit [OF ileave_masks(2), simplified, folded One_nat_def] ileave_emit [OF ileave_masks(3), simplified, folded One_nat_def] ileave_emit [OF ileave_masks(4), simplified, folded One_nat_def] ileave_emit [OF ileave_masks(5), simplified, folded One_nat_def] ileave_emit [OF ileave_masks(6), simplified, folded One_nat_def] ileave_emit [OF ileave_masks(7), simplified, folded One_nat_def] ileave_emit [OF ileave_masks(8), simplified, folded One_nat_def]

lemma lane_halves: "16 div 2 = (8 :: nat)" "8 div 2 = (4 :: nat)" "4 div 2 = (2 :: nat)" "2 div 2 = (1 :: nat)"
  by simp_all

lemma narrow_row:
  assumes "b = 2 * h" and "0 < h" and "m = 2 * n" and "2 * n \<le> 65536"
    and "signed_lane b hi = (if sg then 2 ^ (h - 1) - 1 else 2 ^ h - 1)" and "signed_lane b lo = (if sg then - (2 ^ (h - 1)) else 0)"
  shows "ev E R (OPNRWSS_EMIT (get_vt n b) (get_vt m h) (get_c b hi) (get_c b lo) v w) =
    map (map_option (\<lambda>x. take_bit (b div 2) (saturate sg (b div 2) (signed_lane b x)))) (as_lanes E R (get_vt n b) w @ as_lanes E R (get_vt n b) v)"
proof -
  have "(1 :: int) \<le> 2 ^ (h - 1)" "(1 :: int) \<le> 2 ^ h" by simp_all
  then have le: "signed_lane b lo \<le> signed_lane b hi"
    unfolding assms(5,6) by (cases sg) auto
  have "saturate sg h k = max (signed_lane b lo) (min (signed_lane b hi) k)" for k
    by (simp add: saturate_def assms(5,6))
  then show ?thesis
    using narrow_emit [OF _ _ assms(4) le, of h E R v w] assms(1-3) by simp
qed

lemma clamp_constants:
  "signed_lane 16 255 = 255" "signed_lane 16 0 = 0" "signed_lane 16 127 = 127" "signed_lane 16 65408 = - 128"
  "signed_lane 32 65535 = 65535" "signed_lane 32 0 = 0" "signed_lane 32 32767 = 32767" "signed_lane 32 4294934528 = - 32768"
  by code_simp+

text \<open>
  C18: interleaving and narrowing permute and clamp. An interleaving operator yields the
  lanes of the low or high halves of its operands in turn, the second operand's first,
  and a narrowing one the lanes of the second operand and then of the first, each the
  nearest number that fits half the width.
\<close>
theorem interleaving_and_narrowing:
  "list_all2 (\<lambda>(name, hi, n, b) (op, emit). op = name \<and> (\<exists>f. emit = total2 f \<and> (\<forall>E R v u.
     ev E R (f v u) = interleaved n (if hi then n div 2 else 0) (as_lanes E R (get_vt n b) v) (as_lanes E R (get_vt n b) u))))
     interleaving_ops interleave_binops \<and>
   list_all2 (\<lambda>(name, sg, b, n) (op, emit). op = name \<and> (\<exists>f. emit = total2 f \<and> (\<forall>E R v u.
     ev E R (f v u) = map (map_option (\<lambda>x. take_bit (b div 2) (saturate sg (b div 2) (signed_lane b x))))
       (as_lanes E R (get_vt n b) u @ as_lanes E R (get_vt n b) v))))
     narrowing_ops qnarrow_binops"
proof (intro conjI)
  show "list_all2 (\<lambda>(name, hi, n, b) (op, emit). op = name \<and> (\<exists>f. emit = total2 f \<and> (\<forall>E R v u.
     ev E R (f v u) = interleaved n (if hi then n div 2 else 0) (as_lanes E R (get_vt n b) v) (as_lanes E R (get_vt n b) u))))
     interleaving_ops interleave_binops"
    unfolding interleaving_ops_def interleave_binops_def row_simps lane_halves
    by (rule conjI refl exI allI TrueI ileave_rows)+
  show "list_all2 (\<lambda>(name, sg, b, n) (op, emit). op = name \<and> (\<exists>f. emit = total2 f \<and> (\<forall>E R v u.
     ev E R (f v u) = map (map_option (\<lambda>x. take_bit (b div 2) (saturate sg (b div 2) (signed_lane b x))))
       (as_lanes E R (get_vt n b) u @ as_lanes E R (get_vt n b) v))))
     narrowing_ops qnarrow_binops"
    unfolding narrowing_ops_def qnarrow_binops_def row_simps
    by (rule conjI refl exI allI TrueI narrow_row | simp add: clamp_constants)+
qed

text \<open>The scalar shifts with the width of the operand; the divisions with their signedness
  and the width of the divisor.\<close>

definition shifting_ops :: "(string \<times> opcode \<times> nat) list" where
  "shifting_ops = [
     (''Shl8'', Shl, 8), (''Shl16'', Shl, 16), (''Shl32'', Shl, 32), (''Shl64'', Shl, 64),
     (''Shr8'', LShr, 8), (''Shr16'', LShr, 16), (''Shr32'', LShr, 32), (''Shr64'', LShr, 64),
     (''Sar8'', AShr, 8), (''Sar16'', AShr, 16), (''Sar32'', AShr, 32), (''Sar64'', AShr, 64)]"

definition dividing_ops :: "(string \<times> bool \<times> nat) list" where
  "dividing_ops = [(''DivModU128to64'', False, 64), (''DivModS128to64'', True, 64), (''DivModU64to32'', False, 32), (''DivModS64to32'', True, 32)]"

definition shifted :: "opcode \<Rightarrow> nat \<Rightarrow> nat \<Rightarrow> int \<Rightarrow> int" where
  "shifted opc w k x = (if opc = Shl then push_bit k x else if opc = LShr then drop_bit k x else drop_bit k (signed_lane w x))"

text \<open>Quotient in the low half and remainder in the high one; undefined for a divisor of
  zero and for the one signed quotient that does not fit.\<close>

definition divided :: "bool \<Rightarrow> nat \<Rightarrow> int \<Rightarrow> int \<Rightarrow> int option" where
  "divided sg h x y = (if sg then
     (let x = signed_lane (2 * h) x; y = signed_lane h y in
      if y = 0 \<or> x sdiv y = 2 ^ (2 * h - 1) then None else Some (take_bit (2 * h) (take_bit h (x sdiv y) OR push_bit h (x smod y))))
     else if y = 0 then None else Some (take_bit (2 * h) (take_bit h (x div y) OR push_bit h (x mod y))))"

lemma twelve_rows: "take 12 xs = take (Suc (Suc (Suc (Suc (Suc (Suc (Suc (Suc (Suc (Suc (Suc (Suc 0)))))))))))) xs"
  by (simp add: eval_nat_numeral)

lemma shift_row:
  assumes "w = 2 ^ b" and "b \<le> 8"
  shows "opc \<in> {Shl, LShr, AShr} \<Longrightarrow> getType v = get_i w \<longrightarrow> getType s = get_i 8 \<longrightarrow> lane1 E R (SHIFT_EMIT (BinaryOp opc) b v s) =
    lift2 (\<lambda>x k. Some (take_bit w (shifted opc w (nat (k mod int w)) x))) (lane1 E R v) (lane1 E R s)"
  using shift_emit [OF _ _ assms, of v s E R] by (auto simp: shifted_def)

lemma divmod_row:
  assumes "w = 2 * h" and "0 < h"
  shows "getType v = get_i (2 * h) \<longrightarrow> getType u = get_i h \<longrightarrow> lane1 E R (DIVMOD_EMIT UDiv URem ZExt w v u) =
      lift2 (divided False h) (lane1 E R v) (lane1 E R u)"
    and "getType v = get_i (2 * h) \<longrightarrow> getType u = get_i h \<longrightarrow> lane1 E R (DIVMOD_EMIT SDiv SRem SExt w v u) =
      lift2 (divided True h) (lane1 E R v) (lane1 E R u)"
proof -
  have "divided False h = (\<lambda>x y. if y = 0 then None else Some (take_bit (2 * h) (take_bit h (x div y) OR push_bit h (x mod y))))"
    by (simp add: divided_def fun_eq_iff)
  moreover have "divided True h = (\<lambda>x y. let x = signed_lane (2 * h) x; y = signed_lane h y in
      if y = 0 \<or> x sdiv y = 2 ^ (2 * h - 1) then None else Some (take_bit (2 * h) (take_bit h (x sdiv y) OR push_bit h (x smod y))))"
    by (simp add: divided_def fun_eq_iff)
  ultimately show "getType v = get_i (2 * h) \<longrightarrow> getType u = get_i h \<longrightarrow> lane1 E R (DIVMOD_EMIT UDiv URem ZExt w v u) =
      lift2 (divided False h) (lane1 E R v) (lane1 E R u)"
    and "getType v = get_i (2 * h) \<longrightarrow> getType u = get_i h \<longrightarrow> lane1 E R (DIVMOD_EMIT SDiv SRem SExt w v u) =
      lift2 (divided True h) (lane1 E R v) (lane1 E R u)"
    using divmod_emit [of v h u E R] assms by auto
qed

text \<open>
  C19: a scalar shift is never undefined and a division exactly when the machine's is. The
  amount of a shift is taken modulo the width before it is used, for every width and each
  of the three shifts; a division by zero and the signed quotient that overflows are
  undefined, every other gives quotient and remainder in the two halves.
\<close>
theorem shifts_and_divisions:
  "list_all2 (\<lambda>(name, opc, w) (op, emit). op = name \<and> (\<exists>f. emit = total2 f \<and> (\<forall>E R v s.
     getType v = get_i w \<longrightarrow> getType s = get_i 8 \<longrightarrow>
     lane1 E R (f v s) = lift2 (\<lambda>x k. Some (take_bit w (shifted opc w (nat (k mod int w)) x))) (lane1 E R v) (lane1 E R s))))
     shifting_ops (take 12 shift_binops) \<and>
   list_all2 (\<lambda>(name, sg, h) (op, emit). op = name \<and> (\<exists>f. emit = total2 f \<and> (\<forall>E R v u.
     getType v = get_i (2 * h) \<longrightarrow> getType u = get_i h \<longrightarrow>
     lane1 E R (f v u) = lift2 (divided sg h) (lane1 E R v) (lane1 E R u))))
     dividing_ops divmod_binops"
proof (intro conjI)
  show "list_all2 (\<lambda>(name, opc, w) (op, emit). op = name \<and> (\<exists>f. emit = total2 f \<and> (\<forall>E R v s.
     getType v = get_i w \<longrightarrow> getType s = get_i 8 \<longrightarrow>
     lane1 E R (f v s) = lift2 (\<lambda>x k. Some (take_bit w (shifted opc w (nat (k mod int w)) x))) (lane1 E R v) (lane1 E R s))))
     shifting_ops (take 12 shift_binops)"
    unfolding shifting_ops_def shift_binops_def twelve_rows row_simps eight_rows(2)
    by (rule conjI refl exI allI TrueI shift_row | simp)+
  show "list_all2 (\<lambda>(name, sg, h) (op, emit). op = name \<and> (\<exists>f. emit = total2 f \<and> (\<forall>E R v u.
     getType v = get_i (2 * h) \<longrightarrow> getType u = get_i h \<longrightarrow>
     lane1 E R (f v u) = lift2 (divided sg h) (lane1 E R v) (lane1 E R u))))
     dividing_ops divmod_binops"
    unfolding dividing_ops_def divmod_binops_def row_simps
    by (rule conjI refl exI allI TrueI divmod_row | simp)+
qed

definition no_env :: llvm_env where
  "no_env = \<lparr>fp_unary = \<lambda>f s t x. 0, fp_binary = \<lambda>f t x y. 0, pure_helper = \<lambda>f xs. [], ctx_address = 0\<rparr>"

theorem shifts_and_divisions_witness:
  "\<exists>f. snd (shift_binops ! 2) = total2 f \<and> lane1 no_env (\<lambda>i. []) (f (get_c 32 5) (get_c 8 33)) = Some 10"
proof -
  have "list_all2 (\<lambda>(name, opc, w) (op, emit). op = name \<and> (\<exists>f. emit = total2 f \<and> (\<forall>E R v s.
     getType v = get_i w \<longrightarrow> getType s = get_i 8 \<longrightarrow>
     lane1 E R (f v s) = lift2 (\<lambda>x k. Some (take_bit w (shifted opc w (nat (k mod int w)) x))) (lane1 E R v) (lane1 E R s))))
     shifting_ops (take 12 shift_binops)"
    by (rule shifts_and_divisions [THEN conjunct1])
  from list_all2_nthD [OF this, of 2]
  obtain f where "snd (shift_binops ! 2) = total2 f" and f: "\<And>E R v s. getType v = get_i 32 \<Longrightarrow> getType s = get_i 8 \<Longrightarrow>
     lane1 E R (f v s) = lift2 (\<lambda>x k. Some (take_bit 32 (shifted Shl 32 (nat (k mod int 32)) x))) (lane1 E R v) (lane1 E R s)"
    by (auto simp: shifting_ops_def split: prod.splits)
  moreover have "lane1 no_env (\<lambda>i. []) (f (get_c 32 5) (get_c 8 33)) = Some 10"
    by (subst f) (simp_all add: shifted_def take_bit_int_eq_self push_bit_eq_mult)
  ultimately show ?thesis by blast
qed

end
