(* ===== verification/Vexop_Softfloat.thy ===== *)
theory Vexop_Softfloat
  imports Vexop_Facts
begin

text \<open>
  The floating-point operators as they are emitted when the translator is built with the
  software floating-point library (\<open>src/vexop_softfloat.cc\<close>, in place of
  \<open>src/vexop_fp.cc\<close>): calls of the library's functions on the bits of the operands, for
  the operators it covers (for the lowest lane of a vector register the four arithmetic operators and the
  comparisons less and less-or-equal, for a scalar the arithmetic ones, one comparison and some
  conversions); the others fail an assertion. The library is bitcode outside the
  sources: a parameter gives the return type of each function it has.
\<close>

section \<open>Calling the library\<close>

type_synonym library = "string \<Rightarrow> ty option"

definition getHelper :: "library \<Rightarrow> string \<Rightarrow> irvalue list \<Rightarrow> irvalue option" where
  "getHelper lib f vs = map_option (\<lambda>t. PureCall f t vs) (lib f)"

fun isIntegerTy :: "ty \<Rightarrow> bool" where
  "isIntegerTy (Scalar (IntTy w)) = True"
| "isIntegerTy t = False"

definition as_integer :: "irvalue \<Rightarrow> irvalue" where
  "as_integer v = (if isIntegerTy (getType v) then v else Cast BitCast v (get_i (getBitWidth (getType v))))"

definition OPF0X_EMIT_SOFTFLOAT_OP :: "library \<Rightarrow> string \<Rightarrow> irvalue \<Rightarrow> irvalue \<Rightarrow> irvalue option" where
  "OPF0X_EMIT_SOFTFLOAT_OP lib z lo_op_lhs lo_op_rhs = getHelper lib z [as_integer lo_op_lhs, as_integer lo_op_rhs]"

definition OPF0X_EMIT_CMP_SOFTFLOAT_OP :: "library \<Rightarrow> ty \<Rightarrow> string \<Rightarrow> irvalue \<Rightarrow> irvalue \<Rightarrow> irvalue option" where
  "OPF0X_EMIT_CMP_SOFTFLOAT_OP lib y z lo_op_lhs lo_op_rhs = do {
     result \<leftarrow> OPF0X_EMIT_SOFTFLOAT_OP lib z lo_op_lhs lo_op_rhs;
     let result = ICmp ICmpNE result (get_c (getBitWidth (getType result)) 0);
     let result = Cast SExt result (get_i (elem_bits y));
     Some (Cast BitCast result (Scalar (getScalarType y))) }"

definition OPF0X_SOFTFLOAT_EMIT :: "library \<Rightarrow> ty \<Rightarrow> string \<Rightarrow> irvalue \<Rightarrow> irvalue \<Rightarrow> irvalue option" where
  "OPF0X_SOFTFLOAT_EMIT lib y z v1 v2 = (let v1 = Cast BitCast v1 y; v2 = Cast BitCast v2 y in
     do { result \<leftarrow> OPF0X_EMIT_SOFTFLOAT_OP lib z (ExtractElement v1 (get_32i 0)) (ExtractElement v2 (get_32i 0));
          Some (InsertElement v1 result (get_32i 0)) })"

definition OPF0X_CMP_SOFTFLOAT_EMIT :: "library \<Rightarrow> ty \<Rightarrow> string \<Rightarrow> irvalue \<Rightarrow> irvalue \<Rightarrow> irvalue option" where
  "OPF0X_CMP_SOFTFLOAT_EMIT lib y z v1 v2 = (let v1 = Cast BitCast v1 y; v2 = Cast BitCast v2 y in
     do { result \<leftarrow> OPF0X_EMIT_CMP_SOFTFLOAT_OP lib y z (ExtractElement v1 (get_32i 0)) (ExtractElement v2 (get_32i 0));
          Some (InsertElement v1 result (get_32i 0)) })"

definition CmpF64_softfloat :: "library \<Rightarrow> irvalue \<Rightarrow> irvalue \<Rightarrow> irvalue option" where
  "CmpF64_softfloat lib v1 v2 = getHelper lib ''vexop_softfloat_cmpf64'' [Cast BitCast v1 (get_i 64), Cast BitCast v2 (get_i 64)]"

definition EMIT_CONVERT_IGNORE_ROUNDING :: "library \<Rightarrow> string \<Rightarrow> ty \<Rightarrow> irvalue \<Rightarrow> irvalue \<Rightarrow> irvalue option" where
  "EMIT_CONVERT_IGNORE_ROUNDING lib y z v1 v2 = getHelper lib y [Cast BitCast v2 z]"

definition EMIT_HELPER_IGNORE_ROUNDING :: "library \<Rightarrow> string \<Rightarrow> ty \<Rightarrow> irvalue \<Rightarrow> irvalue \<Rightarrow> irvalue \<Rightarrow> irvalue option" where
  "EMIT_HELPER_IGNORE_ROUNDING lib y z v1 v2 v3 = getHelper lib y [Cast BitCast v2 z, Cast BitCast v3 z]"

definition EMIT_HELPER_SOFTFP_UNOP :: "library \<Rightarrow> string \<Rightarrow> ty \<Rightarrow> irvalue \<Rightarrow> irvalue option" where
  "EMIT_HELPER_SOFTFP_UNOP lib y z v1 = getHelper lib y [Cast BitCast v1 z]"

section \<open>The operators\<close>

definition softfloat_arith :: "(string \<times> nat \<times> nat \<times> string) list" where
  "softfloat_arith = [(''Add32F0x4'', 4, 32, ''float32_add''), (''Add64F0x2'', 2, 64, ''float64_add''),
     (''Div32F0x4'', 4, 32, ''float32_div''), (''Div64F0x2'', 2, 64, ''float64_div''),
     (''Mul32F0x4'', 4, 32, ''float32_mul''), (''Mul64F0x2'', 2, 64, ''float64_mul''),
     (''Sub32F0x4'', 4, 32, ''float32_sub''), (''Sub64F0x2'', 2, 64, ''float64_sub'')]"

definition softfloat_compare :: "(string \<times> ty \<times> string) list" where
  "softfloat_compare = [(''CmpLT32F0x4'', get_vtf 4, ''float32_lt''), (''CmpLE32F0x4'', get_vtf 4, ''float32_le''),
     (''CmpLT64F0x2'', get_vtd 2, ''float64_lt''), (''CmpLE64F0x2'', get_vtd 2, ''float64_le'')]"

definition softfloat_unimpl :: "string list" where
  "softfloat_unimpl = [''CmpEQ32F0x4'', ''CmpEQ64F0x2'', ''CmpUN32F0x4'', ''CmpUN64F0x2'', ''Max32F0x4'', ''Max64F0x2'',
     ''Min32F0x4'', ''Min64F0x2'', ''Add32Fx2'', ''Add32Fx4'', ''Add64Fx2'', ''CmpEQ32Fx2'', ''CmpEQ32Fx4'', ''CmpEQ64Fx2'',
     ''CmpGE32Fx2'', ''CmpGE32Fx4'', ''CmpGT32Fx2'', ''CmpGT32Fx4'', ''CmpLE32Fx4'', ''CmpLE64Fx2'', ''CmpLT32Fx4'',
     ''CmpLT64Fx2'', ''CmpUN32Fx4'', ''CmpUN64Fx2'', ''Div32Fx4'', ''Div64Fx2'', ''Max32Fx2'', ''Max32Fx4'', ''Max64Fx2'',
     ''Min32Fx2'', ''Min32Fx4'', ''Min64Fx2'', ''Mul32Fx2'', ''Mul32Fx4'', ''Mul64Fx2'', ''Sub32Fx2'', ''Sub32Fx4'',
     ''Sub64Fx2'', ''RoundF32toInt'', ''RoundF64toInt'']"

definition softfloat_convert :: "(string \<times> string) list" where
  "softfloat_convert = [(''F64toF32'', ''float64_to_float32''), (''F64toI32S'', ''float64_to_int32''),
     (''F64toI32U'', ''float64_to_int32''), (''F64toI64S'', ''float64_to_int64''),
     (''I64StoF64'', ''int64_to_float64''), (''I64UtoF64'', ''int64_to_float64'')]"

definition softfloat_binops :: "library \<Rightarrow> binop_table" where
  "softfloat_binops lib =
     map (\<lambda>(op, n, w, h). (op, OPF0X_SOFTFLOAT_EMIT lib (get_vt n w) h)) softfloat_arith
     @ map (\<lambda>(op, y, h). (op, OPF0X_CMP_SOFTFLOAT_EMIT lib y h)) softfloat_compare
     @ [(''CmpF64'', CmpF64_softfloat lib)]
     @ map (\<lambda>(op, h). (op, EMIT_CONVERT_IGNORE_ROUNDING lib h (get_i 64))) softfloat_convert
     @ map (\<lambda>op. (op, \<lambda>_ _. None)) softfloat_unimpl"

definition softfloat_triops :: "library \<Rightarrow> triop_table" where
  "softfloat_triops lib =
     map (\<lambda>(op, h, w). (op, EMIT_HELPER_IGNORE_ROUNDING lib h (get_i w)))
       [(''AddF32'', ''float32_add'', 32), (''AddF64'', ''float64_add'', 64), (''DivF32'', ''float32_div'', 32),
        (''DivF64'', ''float64_div'', 64), (''MulF32'', ''float32_mul'', 32), (''MulF64'', ''float64_mul'', 64),
        (''SubF32'', ''float32_sub'', 32), (''SubF64'', ''float64_sub'', 64)]
     @ [(''PRemC3210F64'', \<lambda>_ _ _. None), (''PRemF64'', \<lambda>_ _ _. None)]"

definition softfloat_unops :: "library \<Rightarrow> unop_table" where
  "softfloat_unops lib =
     [(''F32toF64'', EMIT_HELPER_SOFTFP_UNOP lib ''float32_to_float64'' (get_i 32)),
      (''I32StoF64'', EMIT_HELPER_SOFTFP_UNOP lib ''int32_to_float64'' (get_i 32)),
      (''I32UtoF64'', EMIT_HELPER_SOFTFP_UNOP lib ''int32_to_float64'' (get_i 32))]
     @ map (\<lambda>op. (op, \<lambda>_. None)) [''RSqrtEst32F0x4'', ''RecipEst32F0x4'', ''Sqrt32F0x4'', ''Sqrt64F0x2'', ''NegF32'', ''NegF64'',
         ''RSqrtEst32Fx4'', ''RecipEst32Fx4'', ''Sqrt32Fx4'', ''Sqrt64Fx2'']"

section \<open>What they compute\<close>

text \<open>The documented types of the library: a float is the integer of its bits, a comparison
  an integer.\<close>

definition softfloat_typed :: "library \<Rightarrow> bool" where
  "softfloat_typed lib \<longleftrightarrow> (\<forall>(op, n, w, h)\<in>set softfloat_arith. lib h = Some (get_i w))
     \<and> (\<forall>(op, y, h)\<in>set softfloat_compare. \<exists>b. lib h = Some (get_i b) \<and> 0 < b)"

text \<open>The lane a library function answers with for two operands.\<close>

definition answer :: "llvm_env \<Rightarrow> string \<Rightarrow> nat \<Rightarrow> lane \<Rightarrow> lane \<Rightarrow> lane" where
  "answer E h b x y = hd (fit (get_i b) (pure_helper E h [[x], [y]]))"

lemma call_types: "getHelper lib h vs = Some e \<Longrightarrow> lib h = Some (getType e)"
  by (auto simp: getHelper_def)

lemma as_integer_scalar:
  assumes "getType v = Scalar s" and "s \<noteq> PtrTy"
  shows "ev E R (as_integer v) = [lane1 E R v]"
proof (cases "isIntegerTy (getType v)")
  case True
  then show ?thesis using assms by (simp add: as_integer_def ev_scalar)
next
  case False
  have "lane1 E R (Cast BitCast v (get_i (getBitWidth (getType v)))) = lane1 E R v"
    using assms lane1_fits [of v E R] by (simp add: lane1_bitcast getBitWidth_def)
  moreover have "as_integer v = Cast BitCast v (get_i (getBitWidth (getType v)))" using False by (simp add: as_integer_def)
  ultimately show ?thesis by (simp add: ev_scalar)
qed

lemma lane1_call:
  assumes "getType a = Scalar s" "getType b = Scalar s" "s \<noteq> PtrTy"
  shows "lane1 E R (PureCall h (get_i w) [as_integer a, as_integer b]) = answer E h w (lane1 E R a) (lane1 E R b)"
  using assms by (simp add: lane1_def [of E R "PureCall h t vs" for h t vs] ev.simps as_integer_scalar answer_def)

lemma first_lanes:
  assumes "getNumElements y \<le> 65536" and "0 < getNumElements y"
  shows "lane1 E R (ExtractElement (Cast BitCast v y) (get_32i 0)) = as_lanes E R y v ! 0"
  using lane1_extract [of 0 "Cast BitCast v y" E R] assms by (simp add: as_lanes_def)

lemma arith_emitted:
  assumes "lib h = Some (get_i w)" and "0 < n" "n \<le> 65536"
  shows "\<exists>e. OPF0X_SOFTFLOAT_EMIT lib (get_vt n w) h v1 v2 = Some e
    \<and> ev E R e = (as_lanes E R (get_vt n w) v1)[0 := answer E h w (as_lanes E R (get_vt n w) v1 ! 0) (as_lanes E R (get_vt n w) v2 ! 0)]"
proof -
  let ?x = "\<lambda>v. ExtractElement (Cast BitCast v (get_vt n w)) (get_32i 0)"
  let ?r = "PureCall h (get_i w) [as_integer (?x v1), as_integer (?x v2)]"
  have "OPF0X_SOFTFLOAT_EMIT lib (get_vt n w) h v1 v2 = Some (InsertElement (Cast BitCast v1 (get_vt n w)) ?r (get_32i 0))"
    using assms(1) by (simp add: OPF0X_SOFTFLOAT_EMIT_def OPF0X_EMIT_SOFTFLOAT_OP_def getHelper_def Let_def)
  moreover have "lane1 E R ?r = answer E h w (as_lanes E R (get_vt n w) v1 ! 0) (as_lanes E R (get_vt n w) v2 ! 0)"
    using assms lane1_call [of "?x v1" "IntTy w" "?x v2" E R h w] first_lanes [of "get_vt n w" E R] by simp
  ultimately show ?thesis
    using assms ev_insert [of 0 "Cast BitCast v1 (get_vt n w)" ?r E R] by (simp add: as_lanes_def)
qed

definition truth_lane :: "nat \<Rightarrow> lane \<Rightarrow> lane" where
  "truth_lane w = map_option (\<lambda>k. if k \<noteq> 0 then 2 ^ w - 1 else 0)"

lemma compare_emitted:
  assumes "lib h = Some (get_i b)" "0 < b" and y: "y = VectorTy n s" "0 < n" "n \<le> 65536" "s \<in> {FloatTy, DoubleTy}"
  shows "\<exists>e. OPF0X_CMP_SOFTFLOAT_EMIT lib y h v1 v2 = Some e
    \<and> ev E R e = (as_lanes E R y v1)[0 := truth_lane (scalar_bits s) (answer E h b (as_lanes E R y v1 ! 0) (as_lanes E R y v2 ! 0))]"
proof -
  let ?x = "\<lambda>v. ExtractElement (Cast BitCast v y) (get_32i 0)"
  let ?c = "PureCall h (get_i b) [as_integer (?x v1), as_integer (?x v2)]"
  let ?m = "ICmp ICmpNE ?c (get_c b 0)"
  let ?r = "Cast BitCast (Cast SExt ?m (get_i (elem_bits y))) (Scalar (getScalarType y))"
  have bits: "elem_bits y = scalar_bits s" "0 < scalar_bits s" using y by auto
  have "OPF0X_CMP_SOFTFLOAT_EMIT lib y h v1 v2 = Some (InsertElement (Cast BitCast v1 y) ?r (get_32i 0))"
    using assms(1) by (simp add: OPF0X_CMP_SOFTFLOAT_EMIT_def OPF0X_EMIT_CMP_SOFTFLOAT_OP_def OPF0X_EMIT_SOFTFLOAT_OP_def getHelper_def getBitWidth_def Let_def)
  moreover have c: "lane1 E R ?c = answer E h b (as_lanes E R y v1 ! 0) (as_lanes E R y v2 ! 0)"
    using y lane1_call [of "?x v1" s "?x v2" E R h b] first_lanes [of y E R] by auto
  have "lane1 E R ?r = truth_lane (scalar_bits s) (lane1 E R ?c)"
  proof (cases "lane1 E R ?c")
    case None
    then show ?thesis by (simp add: lane1_bitcast truth_lane_def)
  next
    case (Some k)
    have "take_bit (scalar_bits s) (signed_lane 1 1) = 2 ^ scalar_bits s - 1"
      using bits(2) by (simp add: signed_lane_def signed_take_bit_def mask_eq_exp_minus_1 take_bit_minus_one_eq_mask)
    moreover have "signed_lane (Suc 0) 0 = 0" by (simp add: signed_lane_def)
    ultimately show ?thesis using Some bits by (simp add: lane1_bitcast truth_lane_def)
  qed
  ultimately show ?thesis
    using y c ev_insert [of 0 "Cast BitCast v1 y" ?r E R] by (simp add: as_lanes_def)
qed


definition binop_names :: "string list" where
  "binop_names = map fst softfloat_arith @ map fst softfloat_compare @ [''CmpF64''] @ map fst softfloat_convert @ softfloat_unimpl"

lemma fst_binops: "map fst (softfloat_binops lib) = binop_names"
  by (simp add: softfloat_binops_def binop_names_def o_def split_def)

lemma distinct_binops: "distinct binop_names"
  by code_simp

lemma binop_found: "(op, f) \<in> set (softfloat_binops lib) \<Longrightarrow> map_of (softfloat_binops lib) op = Some f"
  by (rule map_of_is_SomeI) (simp_all only: fst_binops distinct_binops)

lemma binops_arith: "(op, n, w, h) \<in> set softfloat_arith \<Longrightarrow> map_of (softfloat_binops lib) op = Some (OPF0X_SOFTFLOAT_EMIT lib (get_vt n w) h)"
  by (rule binop_found, unfold softfloat_binops_def set_append set_map, rule UnI1, rule image_eqI) simp_all

lemma binops_compare: "(op, y, h) \<in> set softfloat_compare \<Longrightarrow> map_of (softfloat_binops lib) op = Some (OPF0X_CMP_SOFTFLOAT_EMIT lib y h)"
  by (rule binop_found, unfold softfloat_binops_def set_append set_map, rule UnI2, rule UnI1, rule image_eqI) simp_all

lemma arith_shapes: "\<forall>(op, n, w, h)\<in>set softfloat_arith. 0 < n \<and> n \<le> 65536"
  by (simp add: softfloat_arith_def)

fun float_vector :: "ty \<Rightarrow> bool" where
  "float_vector (VectorTy n s) \<longleftrightarrow> 0 < n \<and> n \<le> 65536 \<and> (s = FloatTy \<or> s = DoubleTy)"
| "float_vector t \<longleftrightarrow> False"

lemma compare_shapes: "\<forall>(op, y, h)\<in>set softfloat_compare. float_vector y"
  by (simp add: softfloat_compare_def)

lemma softfloat_lanes:
  assumes "softfloat_typed lib"
  shows "(op, n, w, h) \<in> set softfloat_arith \<Longrightarrow> \<exists>f e. map_of (softfloat_binops lib) op = Some f \<and> f v1 v2 = Some e
     \<and> ev E R e = (as_lanes E R (get_vt n w) v1)[0 := answer E h w (as_lanes E R (get_vt n w) v1 ! 0) (as_lanes E R (get_vt n w) v2 ! 0)]"
   and "(op, y, h) \<in> set softfloat_compare \<Longrightarrow> \<exists>f e b. map_of (softfloat_binops lib) op = Some f \<and> lib h = Some (get_i b) \<and> f v1 v2 = Some e
     \<and> ev E R e = (as_lanes E R y v1)[0 := truth_lane (elem_bits y) (answer E h b (as_lanes E R y v1 ! 0) (as_lanes E R y v2 ! 0))]"
proof -
  assume op: "(op, n, w, h) \<in> set softfloat_arith"
  have "lib h = Some (get_i w)" using assms op unfolding softfloat_typed_def by blast
  moreover have "0 < n" "n \<le> 65536" using arith_shapes op by blast+
  ultimately show "\<exists>f e. map_of (softfloat_binops lib) op = Some f \<and> f v1 v2 = Some e
     \<and> ev E R e = (as_lanes E R (get_vt n w) v1)[0 := answer E h w (as_lanes E R (get_vt n w) v1 ! 0) (as_lanes E R (get_vt n w) v2 ! 0)]"
    using binops_arith [OF op, of lib] arith_emitted [of lib h w n v1 v2 E R] by blast
next
  assume op: "(op, y, h) \<in> set softfloat_compare"
  obtain b where b: "lib h = Some (get_i b)" "0 < b" using assms op unfolding softfloat_typed_def by blast
  have "float_vector y" using compare_shapes op by blast
  then obtain m s where y: "y = VectorTy m s" "0 < m" "m \<le> 65536" "s \<in> {FloatTy, DoubleTy}" by (cases y) auto
  then have "elem_bits y = scalar_bits s" by simp
  then show "\<exists>f e b. map_of (softfloat_binops lib) op = Some f \<and> lib h = Some (get_i b) \<and> f v1 v2 = Some e
     \<and> ev E R e = (as_lanes E R y v1)[0 := truth_lane (elem_bits y) (answer E h b (as_lanes E R y v1 ! 0) (as_lanes E R y v2 ! 0))]"
    using binops_compare [OF op, of lib] b compare_emitted [of lib h b y m s v1 v2 E R] y by metis
qed

lemma binops_scalar:
  "map_of (softfloat_binops lib) ''CmpF64'' = Some (CmpF64_softfloat lib)"
  "(op, h) \<in> set softfloat_convert \<Longrightarrow> map_of (softfloat_binops lib) op = Some (EMIT_CONVERT_IGNORE_ROUNDING lib h (get_i 64))"
  "op \<in> set softfloat_unimpl \<Longrightarrow> map_of (softfloat_binops lib) op = Some (\<lambda>_ _. None)"
proof -
  show "map_of (softfloat_binops lib) ''CmpF64'' = Some (CmpF64_softfloat lib)"
    by (rule binop_found) (unfold softfloat_binops_def set_append, simp)
  assume "(op, h) \<in> set softfloat_convert"
  then show "map_of (softfloat_binops lib) op = Some (EMIT_CONVERT_IGNORE_ROUNDING lib h (get_i 64))"
    by (intro binop_found, unfold softfloat_binops_def set_append set_map)
      (rule UnI2, rule UnI2, rule UnI2, rule UnI1, rule image_eqI, simp_all)
next
  assume "op \<in> set softfloat_unimpl"
  then show "map_of (softfloat_binops lib) op = Some (\<lambda>_ _. None)"
    by (intro binop_found, unfold softfloat_binops_def set_append set_map)
      (rule UnI2, rule UnI2, rule UnI2, rule UnI2, rule image_eqI, simp_all)
qed

text \<open>C20: With a library whose float and comparison functions have their documented types, each row of
  the two-operand table, and no other, has this effect. The eight operators that add, subtract,
  multiply or divide the lowest lane of a vector register answer with the first operand's lanes, the lowest
  replaced by what the library's function answers for the lowest lanes of both operands; the four
  comparisons less and less-or-equal put there ones in every bit if the library's function answers
  with anything but zero and zero otherwise. The scalar comparison and the six conversions are
  the library's answer for the operands' bits, the rounding mode ignored, and the forty
  operators listed as not implemented (equality, unordered, minimum and maximum of the lowest lane
  among them) are never translated.\<close>

theorem softfloat_lowest_lane:
  assumes "softfloat_typed lib"
  shows "(\<forall>(op, n, w, h)\<in>set softfloat_arith. \<exists>f e. map_of (softfloat_binops lib) op = Some f \<and> f v1 v2 = Some e
       \<and> ev E R e = (as_lanes E R (get_vt n w) v1)[0 := answer E h w (as_lanes E R (get_vt n w) v1 ! 0) (as_lanes E R (get_vt n w) v2 ! 0)])
   \<and> (\<forall>(op, y, h)\<in>set softfloat_compare. \<exists>f e b. map_of (softfloat_binops lib) op = Some f \<and> lib h = Some (get_i b) \<and> f v1 v2 = Some e
       \<and> ev E R e = (as_lanes E R y v1)[0 := truth_lane (elem_bits y) (answer E h b (as_lanes E R y v1 ! 0) (as_lanes E R y v2 ! 0))])
   \<and> (\<exists>f. map_of (softfloat_binops lib) ''CmpF64'' = Some f \<and> (\<forall>t. lib ''vexop_softfloat_cmpf64'' = Some t \<longrightarrow>
       (\<exists>e. f v1 v2 = Some e \<and> ev E R e = fit t (pure_helper E ''vexop_softfloat_cmpf64'' [as_lanes E R (get_i 64) v1, as_lanes E R (get_i 64) v2]))))
   \<and> (\<forall>(op, h)\<in>set softfloat_convert. \<exists>f. map_of (softfloat_binops lib) op = Some f \<and> (\<forall>t. lib h = Some t \<longrightarrow>
       (\<exists>e. f v1 v2 = Some e \<and> ev E R e = fit t (pure_helper E h [as_lanes E R (get_i 64) v2]))))
   \<and> (\<forall>op\<in>set softfloat_unimpl. \<exists>f. map_of (softfloat_binops lib) op = Some f \<and> f v1 v2 = None)
   \<and> (\<forall>op. map_of (softfloat_binops lib) op \<noteq> None \<longrightarrow> op \<in> set binop_names)"
proof (intro conjI)
  show "\<forall>(op, n, w, h)\<in>set softfloat_arith. \<exists>f e. map_of (softfloat_binops lib) op = Some f \<and> f v1 v2 = Some e
       \<and> ev E R e = (as_lanes E R (get_vt n w) v1)[0 := answer E h w (as_lanes E R (get_vt n w) v1 ! 0) (as_lanes E R (get_vt n w) v2 ! 0)]"
    using softfloat_lanes(1) [OF assms] by blast
  show "\<forall>(op, y, h)\<in>set softfloat_compare. \<exists>f e b. map_of (softfloat_binops lib) op = Some f \<and> lib h = Some (get_i b) \<and> f v1 v2 = Some e
       \<and> ev E R e = (as_lanes E R y v1)[0 := truth_lane (elem_bits y) (answer E h b (as_lanes E R y v1 ! 0) (as_lanes E R y v2 ! 0))]"
    using softfloat_lanes(2) [OF assms] by blast
  show "\<exists>f. map_of (softfloat_binops lib) ''CmpF64'' = Some f \<and> (\<forall>t. lib ''vexop_softfloat_cmpf64'' = Some t \<longrightarrow>
       (\<exists>e. f v1 v2 = Some e \<and> ev E R e = fit t (pure_helper E ''vexop_softfloat_cmpf64'' [as_lanes E R (get_i 64) v1, as_lanes E R (get_i 64) v2])))"
    by (simp add: binops_scalar(1) CmpF64_softfloat_def as_lanes_def getHelper_def ev.simps)
  show "\<forall>(op, h)\<in>set softfloat_convert. \<exists>f. map_of (softfloat_binops lib) op = Some f \<and> (\<forall>t. lib h = Some t \<longrightarrow>
       (\<exists>e. f v1 v2 = Some e \<and> ev E R e = fit t (pure_helper E h [as_lanes E R (get_i 64) v2])))"
    by (auto simp: binops_scalar(2) EMIT_CONVERT_IGNORE_ROUNDING_def as_lanes_def getHelper_def ev.simps)
  show "\<forall>op\<in>set softfloat_unimpl. \<exists>f. map_of (softfloat_binops lib) op = Some f \<and> f v1 v2 = None"
    by (simp add: binops_scalar(3))
  show "\<forall>op. map_of (softfloat_binops lib) op \<noteq> None \<longrightarrow> op \<in> set binop_names"
    unfolding map_of_eq_None_iff fst_binops [symmetric, of lib] set_map by blast
qed

definition sample_library :: library where
  "sample_library h = (if h \<in> {''float32_add'', ''float32_div'', ''float32_mul'', ''float32_sub'', ''float32_lt'', ''float32_le'', ''float64_lt'', ''float64_le''}
     then Some (get_i 32) else Some (get_i 64))"

lemma softfloat_lowest_lane_witness:
  "softfloat_typed sample_library \<and> (\<forall>E R v1 v2. \<exists>f e. map_of (softfloat_binops sample_library) ''Mul64F0x2'' = Some f \<and> f v1 v2 = Some e
     \<and> ev E R e = (as_lanes E R (get_vt 2 64) v1)[0 := answer E ''float64_mul'' 64 (as_lanes E R (get_vt 2 64) v1 ! 0) (as_lanes E R (get_vt 2 64) v2 ! 0)])"
proof -
  have t: "softfloat_typed sample_library"
    by (auto simp: softfloat_typed_def softfloat_arith_def softfloat_compare_def sample_library_def)
  moreover have "(''Mul64F0x2'', 2, 64, ''float64_mul'') \<in> set softfloat_arith" by (simp add: softfloat_arith_def)
  ultimately show ?thesis using softfloat_lowest_lane [OF t] by fast
qed

end
