(* ===== verification/Jitobjcache.thy ===== *)
theory Jitobjcache
  imports Prelude
begin

unbundle bit_operations_syntax

text \<open>
  The cache of compiled objects on disk (\<open>src/jitobjcache.cc\<close>): the identifier made from
  the digest of a module, the path of its object, storing and fetching an object. Files are a map
  from paths to contents; appending a name to a path (a function of the LLVM library, with
  its documented behaviour) and the digest are parameters.
\<close>

section \<open>Identifiers\<close>

definition hex :: "8 word \<Rightarrow> char" where
  "hex k = ''0123456789abcdef'' ! unat k"

definition getModuleHash :: "8 word list \<Rightarrow> string" where
  "getModuleHash md = ''jit:'' @ concat (map (\<lambda>b. [hex (b AND 0xf), hex (drop_bit 4 (b AND 0xf0))]) md)"

section \<open>The directory and the files in it\<close>

type_synonym files = "string \<rightharpoonup> 8 word list"

text \<open>The directory that is used, if it exists or can be made; \<open>exists\<close> and
  \<open>create_directory\<close>, true if it fails, are those of the file system.\<close>

definition create_cache ::
  "(string \<Rightarrow> string \<Rightarrow> string) \<Rightarrow> (string \<Rightarrow> bool) \<Rightarrow> (string \<Rightarrow> bool) \<Rightarrow> string \<Rightarrow> string option \<Rightarrow> string option" where
  "create_cache join dir_exists create_directory current_path udir = (case udir of None \<Rightarrow> None
     | Some u \<Rightarrow> (let dir = if u = [] then join current_path ''vexllvm_jit_cache'' else u
         in if \<not> dir_exists dir \<and> create_directory dir then None else Some dir))"

definition getCachePath :: "(string \<Rightarrow> string \<Rightarrow> string) \<Rightarrow> string \<Rightarrow> string \<Rightarrow> string" where
  "getCachePath join cache_dir mod_id =
     (if take 4 mod_id \<noteq> ''jit:'' then [] else join cache_dir (drop 4 mod_id))"

definition notifyObjectCompiled :: "(string \<Rightarrow> string \<Rightarrow> string) \<Rightarrow> string \<Rightarrow> string \<Rightarrow> 8 word list \<Rightarrow> files \<Rightarrow> files" where
  "notifyObjectCompiled join cache_dir mod_id obj fs = (let p = getCachePath join cache_dir mod_id in
     if p = [] \<or> fs p \<noteq> None then fs else fs(p \<mapsto> obj))"

definition getObject :: "(string \<Rightarrow> string \<Rightarrow> string) \<Rightarrow> string \<Rightarrow> string \<Rightarrow> files \<Rightarrow> 8 word list option" where
  "getObject join cache_dir mod_id fs = fs (getCachePath join cache_dir mod_id)"

section \<open>Identifiers tell modules apart\<close>

lemma hex_inj: "a < 16 \<Longrightarrow> b < 16 \<Longrightarrow> hex a = hex b \<Longrightarrow> a = b"
proof -
  assume "a < 16" "b < 16" "hex a = hex b"
  then have "unat a < length ''0123456789abcdef''" "unat b < length ''0123456789abcdef''" "''0123456789abcdef'' ! unat a = ''0123456789abcdef'' ! unat b"
    by (simp_all add: hex_def word_less_nat_alt)
  moreover have "distinct ''0123456789abcdef''" by simp
  ultimately show "a = b" by (metis nth_eq_iff_index_eq unsigned_word_eqI)
qed

lemma low_nibble: "(b AND 0xf) < 16" for b :: "8 word"
  by (rule le_less_trans [OF word_and_le1]) simp

lemma high_nibble: "drop_bit 4 (b AND 0xf0) < 16" for b :: "8 word"
proof -
  have "b AND 0xf0 \<le> 0xf0" by (rule word_and_le1)
  then have "unat (b AND 0xf0) \<le> 240" by (simp add: word_le_nat_alt)
  then have "unat (b AND 0xf0) div 16 < 16" by (simp add: div_less_iff_less_mult)
  moreover have "unat (drop_bit 4 (b AND 0xf0)) = unat (b AND 0xf0) div 16"
    unfolding unat_drop_bit_eq by (simp add: drop_bit_eq_div)
  ultimately show ?thesis by (simp only: word_less_nat_alt) simp
qed

lemma nibbles: "(b AND 0xf) OR push_bit 4 (drop_bit 4 (b AND 0xf0)) = b" for b :: "8 word"
proof (rule bit_word_eqI)
  fix n :: nat assume "n < LENGTH(8)"
  then have "n \<in> {0, 1, 2, 3, 4, 5, 6, 7}" by auto
  then show "bit ((b AND 0xf) OR push_bit 4 (drop_bit 4 (b AND 0xf0))) n = bit b n"
    by (elim insertE emptyE) (simp_all add: bit_simps)
qed

lemma module_hash_inj: "getModuleHash md = getModuleHash md' \<Longrightarrow> md = md'"
proof -
  have "concat (map (\<lambda>b. [hex (b AND 0xf), hex (drop_bit 4 (b AND 0xf0))]) md) = concat (map (\<lambda>b. [hex (b AND 0xf), hex (drop_bit 4 (b AND 0xf0))]) md') \<Longrightarrow> md = md'"
  proof (induction md arbitrary: md')
    case Nil
    then show ?case by (cases md') auto
  next
    case (Cons b bs)
    then obtain c cs where c: "md' = c # cs" by (cases md') auto
    have "b AND 0xf = c AND 0xf" "drop_bit 4 (b AND 0xf0) = drop_bit 4 (c AND 0xf0)"
      using Cons.prems c hex_inj [OF low_nibble low_nibble] hex_inj [OF high_nibble high_nibble] by auto
    then have "b = c" using nibbles [of b] nibbles [of c] by simp
    then show ?case using Cons c by simp
  qed
  then show "getModuleHash md = getModuleHash md' \<Longrightarrow> md = md'" by (simp add: getModuleHash_def)
qed

lemma cache_path: "getCachePath join d (getModuleHash md) = join d (drop 4 (getModuleHash md))"
  by (simp add: getCachePath_def getModuleHash_def)

lemma drop_hash: "drop 4 (getModuleHash md) = drop 4 (getModuleHash md') \<Longrightarrow> md = md'"
  by (rule module_hash_inj) (simp add: getModuleHash_def)

text \<open>What LLVM documents of \<open>sys::path::append\<close> for a component that does not start
  with a separator: it follows the path after a separator, which is added unless the path ends with one
  (\<open>/foo + bar\<close> and \<open>/foo/ + bar\<close> both give \<open>/foo/bar\<close>); an empty path takes none.
  Nothing is said of a component with a separator in front, for which appending does not tell
  \<open>x\<close> from \<open>/x\<close>.\<close>

definition append_documented :: "(string \<Rightarrow> string \<Rightarrow> string) \<Rightarrow> bool" where
  "append_documented join \<longleftrightarrow> (\<forall>d c f. c \<noteq> CHR ''/'' \<longrightarrow> join d (c # f) =
     (if d = [] then c # f else if last d = CHR ''/'' then d @ c # f else d @ ''/'' @ c # f))"

lemma append_inj:
  "append_documented join \<Longrightarrow> f \<noteq> [] \<Longrightarrow> g \<noteq> [] \<Longrightarrow> hd f \<noteq> CHR ''/'' \<Longrightarrow> hd g \<noteq> CHR ''/'' \<Longrightarrow> join d f = join d g \<longleftrightarrow> f = g"
  by (cases f; cases g) (auto simp: append_documented_def)

lemma append_nonempty: "append_documented join \<Longrightarrow> f \<noteq> [] \<Longrightarrow> hd f \<noteq> CHR ''/'' \<Longrightarrow> join d f \<noteq> []"
  by (cases f) (auto simp: append_documented_def)

lemma hex_no_separator: "a < 16 \<Longrightarrow> hex a \<noteq> CHR ''/''"
proof -
  assume "a < 16"
  then have "unat a < length ''0123456789abcdef''" by (simp add: word_less_nat_alt)
  then have "hex a \<in> set ''0123456789abcdef''" unfolding hex_def by (rule nth_mem)
  then show ?thesis by auto
qed

lemma digest_name: "md \<noteq> [] \<Longrightarrow> drop 4 (getModuleHash md) \<noteq> [] \<and> hd (drop 4 (getModuleHash md)) \<noteq> CHR ''/''"
  using hex_no_separator [OF low_nibble] by (cases md) (simp_all add: getModuleHash_def)

lemma cache_paths_differ:
  assumes "append_documented join" and "md \<noteq> []" "md' \<noteq> []"
  shows "getCachePath join d (getModuleHash md') = getCachePath join d (getModuleHash md) \<longleftrightarrow> md' = md"
    and "getCachePath join d (getModuleHash md) \<noteq> []"
  using append_inj [OF assms(1)] append_nonempty [OF assms(1)] digest_name assms(2,3)
  by (auto simp: cache_path dest: drop_hash)

text \<open>C27: With LLVM's documented appending of a name to a path, and digests of the 20 bytes of SHA-1,
  the objects on disk are a map by the digest of their module, whatever the directory: each
  identifier names a file directly in the directory, storing an object gives it to
  exactly the modules of that digest, unless there is one already, which is kept, and storing never
  touches a file of another name.\<close>

theorem object_cache_is_a_map:
  assumes "append_documented join" and "length md = 20" and "length md' = 20"
  shows "getObject join cache_dir (getModuleHash md') (notifyObjectCompiled join cache_dir (getModuleHash md) obj fs)
    = (if md' = md \<and> getObject join cache_dir (getModuleHash md) fs = None then Some obj
       else getObject join cache_dir (getModuleHash md') fs)
    \<and> (\<exists>c f. getCachePath join cache_dir (getModuleHash md) =
         (if cache_dir = [] then [] else if last cache_dir = CHR ''/'' then cache_dir else cache_dir @ ''/'') @ c # f
         \<and> c # f = drop 4 (getModuleHash md) \<and> CHR ''/'' \<notin> set (c # f))
    \<and> (p \<noteq> getCachePath join cache_dir (getModuleHash md) \<longrightarrow>
         notifyObjectCompiled join cache_dir (getModuleHash md) obj fs p = fs p)"
proof (intro conjI)
  have ne: "md \<noteq> []" "md' \<noteq> []" using assms(2,3) by auto
  note paths = cache_paths_differ [OF assms(1) ne]
  show "getObject join cache_dir (getModuleHash md') (notifyObjectCompiled join cache_dir (getModuleHash md) obj fs)
    = (if md' = md \<and> getObject join cache_dir (getModuleHash md) fs = None then Some obj
       else getObject join cache_dir (getModuleHash md') fs)"
    using paths by (auto simp: getObject_def notifyObjectCompiled_def Let_def)
  show "p \<noteq> getCachePath join cache_dir (getModuleHash md) \<longrightarrow>
      notifyObjectCompiled join cache_dir (getModuleHash md) obj fs p = fs p"
    by (simp add: notifyObjectCompiled_def Let_def)
  obtain c f where cf: "drop 4 (getModuleHash md) = c # f" using digest_name [OF ne(1)] by (cases "drop 4 (getModuleHash md)") auto
  have "CHR ''/'' \<notin> set (drop 4 (getModuleHash md))"
    using hex_no_separator [OF low_nibble, symmetric] by (auto simp: getModuleHash_def drop_bit_and)
  moreover have "c \<noteq> CHR ''/''" using digest_name [OF ne(1)] cf by simp
  ultimately show "\<exists>c f. getCachePath join cache_dir (getModuleHash md) =
         (if cache_dir = [] then [] else if last cache_dir = CHR ''/'' then cache_dir else cache_dir @ ''/'') @ c # f
         \<and> c # f = drop 4 (getModuleHash md) \<and> CHR ''/'' \<notin> set (c # f)"
    using assms(1) cf by (intro exI [of _ c] exI [of _ f]) (auto simp: append_documented_def cache_path)
qed

text \<open>The appending of a POSIX path, as LLVM does it: separators in front of the component are
  dropped after a separator, and none is added before one.\<close>

definition posix_append :: "string \<Rightarrow> string \<Rightarrow> string" where
  "posix_append d f =
     (if d \<noteq> [] \<and> last d = CHR ''/'' then d @ dropWhile (\<lambda>c. c = CHR ''/'') f
      else if d = [] \<or> f \<noteq> [] \<and> hd f = CHR ''/'' then d @ f else d @ ''/'' @ f)"

lemma object_cache_is_a_map_witness:
  "getObject posix_append ''/tmp'' (getModuleHash (replicate 20 0xab))
     (notifyObjectCompiled posix_append ''/tmp'' (getModuleHash (replicate 20 0xab)) [7] Map.empty) = Some [7]
   \<and> getObject posix_append ''/tmp'' (getModuleHash (replicate 20 1))
     (notifyObjectCompiled posix_append ''/tmp'' (getModuleHash (replicate 20 0xab)) [7] Map.empty) = None"
proof -
  have a: "append_documented posix_append" by (simp add: append_documented_def posix_append_def)
  have "replicate 20 (1 :: 8 word) \<noteq> replicate 20 0xab" by simp
  then show ?thesis
    using object_cache_is_a_map [OF a, of "replicate 20 0xab" "replicate 20 0xab" "''/tmp''" "[7]" Map.empty "[]"]
      object_cache_is_a_map [OF a, of "replicate 20 0xab" "replicate 20 1" "''/tmp''" "[7]" Map.empty "[]"]
    by (simp add: getObject_def)
qed

end
