(* ===== verification/Fcache.thy ===== *)
theory Fcache
  imports Containers
begin

text \<open>
  The cache of translated blocks and of the functions generated from them (vexfcache.h,
  vexfcache.cc): its two maps, each behind a direct-mapped cache, and its operations.
  A block is what the translator made for an address; a function is an object of LLVM's,
  known by the number of its creation, that belongs to a module. Deleting it twice, or
  using it after it was deleted, is a fault.
\<close>

section \<open>State\<close>

record 'c VexSB =
  guest_addr :: "64 word"
  sb_code :: 'c

record 'c llvm_function =
  fn_id :: nat
  fn_name :: string
  fn_sb :: "'c VexSB"

text \<open>
  What the caches ask for from outside: the n-th translation at a host pointer and guest
  address, the n-th value of \<open>rand()\<close>, the name LLVM gives a function whose wanted name
  the module has already, the addresses a function returns as constants, and the machine
  code of a function that is compiled.
\<close>

record 'c translator =
  xlate_code :: "nat \<Rightarrow> 64 word \<Rightarrow> 64 word \<Rightarrow> 'c option"
  rand_value :: "nat \<Rightarrow> nat"
  renamed :: "string list \<Rightarrow> string \<Rightarrow> string"
  ret_addrs :: "'c llvm_function \<Rightarrow> 64 word list"
  machine_code :: "'c llvm_function \<Rightarrow> 64 word"

text \<open>
  \<open>gen_mod\<close> is the module functions are generated into at the moment, \<open>freed\<close> the
  functions that are deleted; \<open>fn_count\<close>, \<open>xlate_count\<close> and \<open>rand_count\<close> count what was
  asked for.
\<close>

record 'c VexFCache =
  max_cache_ents :: "32 word"
  vexsb_cache :: "(64 word, 'c VexSB) stdmap"
  vexsb_dc :: "'c VexSB DirectCache"
  func_cache :: "(64 word, 'c llvm_function) stdmap"
  func_dc :: "'c llvm_function DirectCache"
  gen_mod :: "'c llvm_function list"
  freed :: "nat list"
  fn_count :: nat
  xlate_count :: nat
  rand_count :: nat

definition new_VexFCache :: "'c VexFCache" where
  "new_VexFCache = \<lparr>max_cache_ents = - 1, vexsb_cache = [], vexsb_dc = dc_flush, func_cache = [],
     func_dc = dc_flush, gen_mod = [], freed = [], fn_count = 0, xlate_count = 0, rand_count = 0\<rparr>"

section \<open>Looking up\<close>

definition getCachedVSB :: "64 word \<Rightarrow> ('c, 'z) VexFCache_scheme \<Rightarrow> 'c VexSB option \<times> ('c, 'z) VexFCache_scheme" where
  "getCachedVSB p s =
     (case dc_get (vexsb_dc s) p of
        Some vsb \<Rightarrow> (Some vsb, s)
      | None \<Rightarrow> (case map_of (vexsb_cache s) p of
          None \<Rightarrow> (None, s)
        | Some vsb \<Rightarrow> (Some vsb, s\<lparr>vexsb_dc := dc_put p (Some vsb) (vexsb_dc s)\<rparr>)))"

definition getCachedFunc :: "64 word \<Rightarrow> ('c, 'z) VexFCache_scheme \<Rightarrow> 'c llvm_function option \<times> ('c, 'z) VexFCache_scheme" where
  "getCachedFunc p s =
     (case dc_get (func_dc s) p of
        Some func \<Rightarrow> (Some func, s)
      | None \<Rightarrow> (case map_of (func_cache s) p of
          None \<Rightarrow> (None, s)
        | Some func \<Rightarrow> (Some func, s\<lparr>func_dc := dc_put p (Some func) (func_dc s)\<rparr>)))"

section \<open>Taking out\<close>

text \<open>\<open>Function::eraseFromParent\<close>: the function leaves its module and is deleted.\<close>

definition eraseFromParent :: "'c llvm_function \<Rightarrow> ('c, 'z) VexFCache_scheme \<Rightarrow> fault + ('c, 'z) VexFCache_scheme" where
  "eraseFromParent f s =
     (if fn_id f \<in> set (freed s) then Inl Use_after_free
      else Inr (s\<lparr>gen_mod := filter (\<lambda>g. fn_id g \<noteq> fn_id f) (gen_mod s), freed := fn_id f # freed s\<rparr>))"

definition evict :: "64 word \<Rightarrow> ('c, 'z) VexFCache_scheme \<Rightarrow> fault + ('c, 'z) VexFCache_scheme" where
  "evict p s =
     (let (func, s1) = getCachedFunc p s in
      and_then
        (case func of
           None \<Rightarrow> Inr s1
         | Some f \<Rightarrow> eraseFromParent f (s1\<lparr>func_cache := map_erase p (func_cache s1), func_dc := dc_put p None (func_dc s1)\<rparr>))
        (\<lambda>s2. let (vsb, s3) = getCachedVSB p s2 in
           Inr (case vsb of
             None \<Rightarrow> s3
           | Some _ \<Rightarrow> s3\<lparr>vexsb_dc := dc_put p None (vexsb_dc s3), vexsb_cache := map_erase p (vexsb_cache s3)\<rparr>)))"

definition flush :: "('c, 'z) VexFCache_scheme \<Rightarrow> ('c, 'z) VexFCache_scheme" where
  "flush s = s\<lparr>vexsb_cache := [], vexsb_dc := dc_flush, func_cache := [], func_dc := dc_flush\<rparr>"

fun erase_all :: "'c llvm_function list \<Rightarrow> ('c, 'z) VexFCache_scheme \<Rightarrow> fault + ('c, 'z) VexFCache_scheme" where
  "erase_all [] s = Inr s"
| "erase_all (f # fs) s = and_then (eraseFromParent f s) (erase_all fs)"

definition flush_range :: "64 word \<Rightarrow> 64 word \<Rightarrow> ('c, 'z) VexFCache_scheme \<Rightarrow> fault + ('c, 'z) VexFCache_scheme" where
  "flush_range b e s =
     and_then (map_range b e (vexsb_cache s)) (\<lambda>vsbs.
       let ks = map fst vsbs;
           s1 = s\<lparr>vexsb_dc := fold (\<lambda>k. dc_put k None) ks (vexsb_dc s),
                  vexsb_cache := fold map_erase ks (vexsb_cache s)\<rparr> in
       and_then (map_range b e (func_cache s1)) (\<lambda>funcs.
         and_then (erase_all (map snd funcs) s1) (\<lambda>s2.
           let ks' = map fst funcs in
           Inr (s2\<lparr>func_cache := fold map_erase ks' (func_cache s2),
                   func_dc := fold (\<lambda>k. dc_put k None) ks' (func_dc s2)\<rparr>))))"

text \<open>\<open>flush\<close> is virtual, so the derived class's is called.\<close>

definition setMaxCache ::
  "(('c, 'z) VexFCache_scheme \<Rightarrow> ('c, 'z) VexFCache_scheme) \<Rightarrow> 32 word \<Rightarrow> ('c, 'z) VexFCache_scheme \<Rightarrow> ('c, 'z) VexFCache_scheme" where
  "setMaxCache fl x s = (let s1 = (if x < max_cache_ents s then fl s else s) in s1\<lparr>max_cache_ents := x\<rparr>)"

section \<open>Putting in\<close>

fun nth_vsb_addr :: "nat \<Rightarrow> (64 word, 'c VexSB) stdmap \<Rightarrow> 64 word" where
  "nth_vsb_addr choice [] = 0"
| "nth_vsb_addr choice (p # ps) = (if choice = 0 then guest_addr (snd p) else nth_vsb_addr (choice - 1) ps)"

definition selectVictimAddress ::
  "'c translator \<Rightarrow> ('c, 'z) VexFCache_scheme \<Rightarrow> fault + 64 word \<times> ('c, 'z) VexFCache_scheme" where
  "selectVictimAddress E s =
     (if vexsb_cache s = [] then Inl Divide_by_zero
      else let choice = rand_value E (rand_count s) mod length (vexsb_cache s);
               evict_addr = nth_vsb_addr choice (vexsb_cache s) in
        if evict_addr = 0 then Inl Assert_failed
        else Inr (evict_addr, s\<lparr>rand_count := Suc (rand_count s)\<rparr>))"

text \<open>\<open>evict\<close> is virtual too: \<open>ev\<close> is the derived class's.\<close>

definition allocCacheVSB ::
  "'c translator \<Rightarrow> (64 word \<Rightarrow> ('c, 'z) VexFCache_scheme \<Rightarrow> fault + ('c, 'z) VexFCache_scheme) \<Rightarrow>
   64 word \<Rightarrow> 64 word \<Rightarrow> ('c, 'z) VexFCache_scheme \<Rightarrow> fault + 'c VexSB option \<times> ('c, 'z) VexFCache_scheme" where
  "allocCacheVSB E ev hostptr p s =
     (let c = xlate_code E (xlate_count s) hostptr p; s1 = s\<lparr>xlate_count := Suc (xlate_count s)\<rparr> in
      case c of
        None \<Rightarrow> Inr (None, s1)
      | Some c \<Rightarrow>
          let vsb = \<lparr>guest_addr = p, sb_code = c\<rparr> in
          and_then
            (if length (vexsb_cache s1) = unat (max_cache_ents s1)
             then and_then (selectVictimAddress E s1) (\<lambda>(a, s2). ev a s2)
             else Inr s1)
            (\<lambda>s3. if \<not> length (vexsb_cache s3) < unat (max_cache_ents s3) then Inl Assert_failed
              else Inr (Some vsb,
                s3\<lparr>vexsb_cache := map_insert p vsb (vexsb_cache s3),
                   vexsb_dc := dc_put p (Some vsb) (vexsb_dc s3)\<rparr>)))"

definition getVSB ::
  "'c translator \<Rightarrow> (64 word \<Rightarrow> ('c, 'z) VexFCache_scheme \<Rightarrow> fault + ('c, 'z) VexFCache_scheme) \<Rightarrow>
   64 word \<Rightarrow> 64 word \<Rightarrow> ('c, 'z) VexFCache_scheme \<Rightarrow> fault + 'c VexSB option \<times> ('c, 'z) VexFCache_scheme" where
  "getVSB E ev hostptr p s =
     (let (vsb, s1) = getCachedVSB p s in
      if vsb \<noteq> None then Inr (vsb, s1) else allocCacheVSB E ev hostptr p s1)"

text \<open>The name of a block's function is its address in hexadecimal, as \<open>%p\<close> prints it.\<close>

fun hex_digit :: "nat \<Rightarrow> char" where
  "hex_digit d = ''0123456789abcdef'' ! d"

fun hex_of :: "nat \<Rightarrow> string" where
  "hex_of n = (if n < 16 then [hex_digit n] else hex_of (n div 16) @ [hex_digit (n mod 16)])"

declare hex_of.simps [simp del]

definition sb_name :: "64 word \<Rightarrow> string" where
  "sb_name p = ''sb_'' @ (if p = 0 then ''(nil)'' else ''0x'' @ hex_of (unat p))"

definition emit_function :: "'c translator \<Rightarrow> 'c VexSB \<Rightarrow> string \<Rightarrow> ('c, 'z) VexFCache_scheme \<Rightarrow> 'c llvm_function \<times> ('c, 'z) VexFCache_scheme" where
  "emit_function E vsb emitstr s =
     (let names = map fn_name (gen_mod s);
          f = \<lparr>fn_id = fn_count s, fn_name = (if emitstr \<in> set names then renamed E names emitstr else emitstr), fn_sb = vsb\<rparr>
      in (f, s\<lparr>gen_mod := gen_mod s @ [f], fn_count := Suc (fn_count s)\<rparr>))"

definition genFunctionByVSB :: "'c translator \<Rightarrow> 'c VexSB \<Rightarrow> ('c, 'z) VexFCache_scheme \<Rightarrow> 'c llvm_function \<times> ('c, 'z) VexFCache_scheme" where
  "genFunctionByVSB E vsb s =
     (let (f, s1) = emit_function E vsb (sb_name (guest_addr vsb)) s in
      (f, s1\<lparr>func_cache := map_insert (guest_addr vsb) f (func_cache s1),
             func_dc := dc_put (guest_addr vsb) (Some f) (func_dc s1)\<rparr>))"

definition getFunc ::
  "'c translator \<Rightarrow> (64 word \<Rightarrow> ('c, 'z) VexFCache_scheme \<Rightarrow> fault + ('c, 'z) VexFCache_scheme) \<Rightarrow>
   64 word \<Rightarrow> 64 word \<Rightarrow> ('c, 'z) VexFCache_scheme \<Rightarrow> fault + 'c llvm_function option \<times> ('c, 'z) VexFCache_scheme" where
  "getFunc E ev hostptr p s =
     (let (ret_f, s1) = getCachedFunc p s in
      if ret_f \<noteq> None then Inr (ret_f, s1)
      else and_then (getVSB E ev hostptr p s1) (\<lambda>(vsb, s2).
        case vsb of
          None \<Rightarrow> Inr (None, s2)
        | Some vsb \<Rightarrow> (let (f, s3) = genFunctionByVSB E vsb s2 in Inr (Some f, s3))))"

section \<open>The invariant\<close>

text \<open>
  Each direct-mapped cache agrees with its map; a block is filed under its own address;
  a function is filed under the address of the block it was generated from, which is
  cached as well; no cached function is deleted, and no two addresses share one; the
  limit is kept.
\<close>

definition blocks_ok :: "('c, 'z) VexFCache_scheme \<Rightarrow> bool" where
  "blocks_ok s \<longleftrightarrow> map_ok (vexsb_cache s) \<and> dc_get (vexsb_dc s) \<subseteq>\<^sub>m map_of (vexsb_cache s) \<and>
     (\<forall>x\<in>set (vexsb_cache s). guest_addr (snd x) = fst x) \<and> length (vexsb_cache s) \<le> unat (max_cache_ents s)"

definition funcs_ok :: "('c, 'z) VexFCache_scheme \<Rightarrow> bool" where
  "funcs_ok s \<longleftrightarrow> map_ok (func_cache s) \<and> dc_get (func_dc s) \<subseteq>\<^sub>m map_of (func_cache s) \<and>
     (\<forall>p f. map_of (func_cache s) p = Some f \<longrightarrow> map_of (vexsb_cache s) p = Some (fn_sb f))"

definition live_ok :: "('c, 'z) VexFCache_scheme \<Rightarrow> bool" where
  "live_ok s \<longleftrightarrow> distinct (map (fn_id \<circ> snd) (func_cache s)) \<and>
     (\<forall>x\<in>set (func_cache s). fn_id (snd x) < fn_count s \<and> fn_id (snd x) \<notin> set (freed s)) \<and>
     (\<forall>i\<in>set (freed s). i < fn_count s)"

definition fcache_ok :: "('c, 'z) VexFCache_scheme \<Rightarrow> bool" where
  "fcache_ok s \<longleftrightarrow> blocks_ok s \<and> funcs_ok s \<and> live_ok s"

lemmas fcache_ok_defs = fcache_ok_def blocks_ok_def funcs_ok_def live_ok_def

lemma fcache_ok_counts [simp]:
  "fcache_ok (s\<lparr>xlate_count := n\<rparr>) = fcache_ok s" "fcache_ok (s\<lparr>rand_count := n\<rparr>) = fcache_ok s"
  by (simp_all add: fcache_ok_defs)

lemma fcache_ok_dc:
  "fcache_ok s \<Longrightarrow> dc_get c \<subseteq>\<^sub>m map_of (vexsb_cache s) \<Longrightarrow> fcache_ok (s\<lparr>vexsb_dc := c\<rparr>)"
  "fcache_ok s \<Longrightarrow> dc_get d \<subseteq>\<^sub>m map_of (func_cache s) \<Longrightarrow> fcache_ok (s\<lparr>func_dc := d\<rparr>)"
  by (simp_all add: fcache_ok_defs)

lemma getCachedVSB_eq:
  assumes "blocks_ok s"
  obtains c where "getCachedVSB p s = (map_of (vexsb_cache s) p, s\<lparr>vexsb_dc := c\<rparr>)"
    and "dc_get c \<subseteq>\<^sub>m map_of (vexsb_cache s)"
proof (cases "dc_get (vexsb_dc s) p")
  case None
  show thesis
  proof (cases "map_of (vexsb_cache s) p")
    case None
    with assms \<open>dc_get (vexsb_dc s) p = None\<close> show thesis
      by (intro that [of "vexsb_dc s"]) (simp_all add: getCachedVSB_def blocks_ok_def)
  next
    case (Some v)
    with assms None show thesis
      by (intro that [of "dc_put p (Some v) (vexsb_dc s)"])
        (simp_all add: getCachedVSB_def blocks_ok_def fronted.fill)
  qed
next
  case (Some v)
  with assms show thesis
    by (intro that [of "vexsb_dc s"]) (simp_all add: getCachedVSB_def blocks_ok_def fronted.hit [OF _ Some])
qed

lemma getCachedFunc_eq:
  assumes "funcs_ok s"
  obtains c where "getCachedFunc p s = (map_of (func_cache s) p, s\<lparr>func_dc := c\<rparr>)"
    and "dc_get c \<subseteq>\<^sub>m map_of (func_cache s)"
proof (cases "dc_get (func_dc s) p")
  case None
  show thesis
  proof (cases "map_of (func_cache s) p")
    case None
    with assms \<open>dc_get (func_dc s) p = None\<close> show thesis
      by (intro that [of "func_dc s"]) (simp_all add: getCachedFunc_def funcs_ok_def)
  next
    case (Some v)
    with assms None show thesis
      by (intro that [of "dc_put p (Some v) (func_dc s)"])
        (simp_all add: getCachedFunc_def funcs_ok_def fronted.fill)
  qed
next
  case (Some v)
  with assms show thesis
    by (intro that [of "func_dc s"]) (simp_all add: getCachedFunc_def funcs_ok_def fronted.hit [OF _ Some])
qed

lemma distinct_map_erase: "distinct (map g m) \<Longrightarrow> distinct (map g (map_erase k m))"
  by (simp add: map_erase_def distinct_map_filter)

lemma set_map_erase: "set (map_erase k m) = {x \<in> set m. fst x \<noteq> k}"
  by (auto simp: map_erase_def)

lemma map_erase_absent: "map_of m k = None \<Longrightarrow> map_erase k m = m"
  by (auto simp: map_erase_def map_of_eq_None_iff image_iff intro!: filter_True)

lemma evict_ok:
  assumes s: "fcache_ok s"
  shows "\<exists>s'. evict p s = Inr s' \<and> fcache_ok s' \<and> vexsb_cache s' = map_erase p (vexsb_cache s) \<and>
    func_cache s' = map_erase p (func_cache s) \<and> max_cache_ents s' = max_cache_ents s"
proof -
  obtain c where c: "getCachedFunc p s = (map_of (func_cache s) p, s\<lparr>func_dc := c\<rparr>)"
    "dc_get c \<subseteq>\<^sub>m map_of (func_cache s)"
    using s by (auto simp: fcache_ok_def intro: getCachedFunc_eq)
  define fc where "fc = map_erase p (func_cache s)"
  define md where "md = (case map_of (func_cache s) p of None \<Rightarrow> gen_mod s | Some f \<Rightarrow> filter (\<lambda>g. fn_id g \<noteq> fn_id f) (gen_mod s))"
  define fr where "fr = (case map_of (func_cache s) p of None \<Rightarrow> freed s | Some f \<Rightarrow> fn_id f # freed s)"
  define fd where "fd = (case map_of (func_cache s) p of None \<Rightarrow> c | Some f \<Rightarrow> dc_put p None c)"
  define s1 where "s1 = s\<lparr>func_cache := fc, func_dc := fd, gen_mod := md, freed := fr\<rparr>"
  have ok: "map_ok (func_cache s)" "map_ok (vexsb_cache s)" using s by (auto simp: fcache_ok_defs)
  have first: "(case map_of (func_cache s) p of None \<Rightarrow> Inr (s\<lparr>func_dc := c\<rparr>)
      | Some f \<Rightarrow> eraseFromParent f (s\<lparr>func_dc := c, func_cache := map_erase p (func_cache s), func_dc := dc_put p None c\<rparr>)) = Inr s1"
    using s by (cases "map_of (func_cache s) p")
      (auto simp: s1_def fc_def fd_def md_def fr_def map_erase_absent eraseFromParent_def fcache_ok_defs dest!: map_of_SomeD)
  have fd: "dc_get fd \<subseteq>\<^sub>m map_of fc"
    using c(2) ok(1) by (auto simp: fd_def fc_def map_erase_absent fronted.erase_both split: option.split)
  have live: "live_ok s1"
  proof -
    have "\<And>x f. (p, f) \<in> set (func_cache s) \<Longrightarrow> x \<in> set (func_cache s) \<Longrightarrow> fst x \<noteq> p \<Longrightarrow> fn_id (snd x) \<noteq> fn_id f"
      using s by (force simp: fcache_ok_def live_ok_def distinct_map inj_on_def)
    then show ?thesis using s
      by (auto simp: live_ok_def s1_def fc_def fr_def fcache_ok_def distinct_map_erase set_map_erase split: option.split dest!: map_of_SomeD)
  qed
  have b1: "blocks_ok s1" using s by (simp add: blocks_ok_def s1_def fcache_ok_def)
  obtain d where d: "getCachedVSB p s1 = (map_of (vexsb_cache s) p, s1\<lparr>vexsb_dc := d\<rparr>)" "dc_get d \<subseteq>\<^sub>m map_of (vexsb_cache s)"
    using getCachedVSB_eq [OF b1, of p] by (auto simp: s1_def)
  define vd where "vd = (if map_of (vexsb_cache s) p = None then d else dc_put p None d)"
  define s' where "s' = s1\<lparr>vexsb_dc := vd, vexsb_cache := map_erase p (vexsb_cache s)\<rparr>"
  have "evict p s = Inr s'"
    using first d by (auto simp: evict_def c(1) Let_def s'_def vd_def map_erase_absent s1_def split: option.split)
  moreover have "dc_get vd \<subseteq>\<^sub>m map_of (map_erase p (vexsb_cache s))"
    using d(2) ok(2) by (auto simp: vd_def map_erase_absent fronted.erase_both)
  then have "blocks_ok s'"
    using s length_map_erase [of p "vexsb_cache s"] by (auto simp: blocks_ok_def s'_def s1_def fcache_ok_def set_map_erase)
  moreover have "funcs_ok s'"
    using s fd by (auto simp: funcs_ok_def s'_def s1_def fc_def fcache_ok_def map_of_erase)
  moreover have "live_ok s'" using live by (simp add: live_ok_def s'_def)
  ultimately show ?thesis by (auto simp: fcache_ok_def s'_def s1_def fc_def)
qed

lemma fold_map_erase: "fold map_erase ks m = filter (\<lambda>x. fst x \<notin> set ks) m"
  by (induction ks arbitrary: m) (auto simp: map_erase_def intro: filter_cong)

lemma fold_map_erase_range:
  "fold map_erase (map fst (filter (\<lambda>x. P (fst x)) m)) m = filter (\<lambda>x. \<not> P (fst x)) m"
  unfolding fold_map_erase by (rule filter_cong) force+

lemma erase_all_eq:
  assumes "distinct (map fn_id fs)" and "\<forall>f\<in>set fs. fn_id f \<notin> set (freed s)"
  shows "erase_all fs s = Inr (s\<lparr>gen_mod := filter (\<lambda>g. fn_id g \<notin> fn_id ` set fs) (gen_mod s),
    freed := rev (map fn_id fs) @ freed s\<rparr>)"
  using assms
proof (induction fs arbitrary: s)
  case (Cons f fs)
  let ?s1 = "s\<lparr>gen_mod := filter (\<lambda>g. fn_id g \<noteq> fn_id f) (gen_mod s), freed := fn_id f # freed s\<rparr>"
  have 1: "eraseFromParent f s = Inr ?s1" using Cons.prems by (simp add: eraseFromParent_def)
  have "distinct (map fn_id fs)" "\<forall>g\<in>set fs. fn_id g \<notin> set (freed ?s1)"
    using Cons.prems by (auto simp: image_iff)
  note 2 = Cons.IH [OF this]
  show ?case unfolding erase_all.simps 1 and_then.simps 2 by simp
qed simp

lemma flush_range_eq:
  assumes s: "fcache_ok s"
    and r1: "map_range b e (vexsb_cache s) = Inr xs" and r2: "map_range b e (func_cache s) = Inr fs"
  shows "\<exists>s'. flush_range b e s = Inr s' \<and> fcache_ok s' \<and> max_cache_ents s' = max_cache_ents s \<and>
    vexsb_cache s' = filter (\<lambda>x. \<not> (b \<le> fst x \<and> fst x \<le> e)) (vexsb_cache s) \<and>
    func_cache s' = filter (\<lambda>x. \<not> (b \<le> fst x \<and> fst x \<le> e)) (func_cache s)"
proof -
  let ?in = "\<lambda>x. b \<le> fst x \<and> fst x \<le> e"
  have ok: "map_ok (vexsb_cache s)" "map_ok (func_cache s)" using s by (auto simp: fcache_ok_defs)
  have xs: "xs = filter ?in (vexsb_cache s)" and fs: "fs = filter ?in (func_cache s)"
    using map_range_filter [OF ok(1) r1] map_range_filter [OF ok(2) r2] by auto
  define s1 where "s1 = s\<lparr>vexsb_dc := fold (\<lambda>k. dc_put k None) (map fst xs) (vexsb_dc s),
                           vexsb_cache := fold map_erase (map fst xs) (vexsb_cache s)\<rparr>"
  have dist: "distinct (map fn_id (map snd fs))" and alive: "\<forall>f\<in>set (map snd fs). fn_id f \<notin> set (freed s1)"
    using s by (auto simp: fs s1_def fcache_ok_def live_ok_def distinct_map_filter)
  define s' where "s' = s1\<lparr>gen_mod := filter (\<lambda>g. fn_id g \<notin> fn_id ` set (map snd fs)) (gen_mod s1),
    freed := rev (map fn_id (map snd fs)) @ freed s1,
    func_cache := fold map_erase (map fst fs) (func_cache s), func_dc := fold (\<lambda>k. dc_put k None) (map fst fs) (func_dc s)\<rparr>"
  have eq: "flush_range b e s = Inr s'"
    using r1 r2 erase_all_eq [OF dist alive] by (simp add: flush_range_def Let_def s1_def s'_def)
  have v: "vexsb_cache s' = filter (\<lambda>x. \<not> ?in x) (vexsb_cache s)"
    and f: "func_cache s' = filter (\<lambda>x. \<not> ?in x) (func_cache s)"
    using fold_map_erase_range [of "\<lambda>p. b \<le> p \<and> p \<le> e"] by (simp_all add: s'_def s1_def xs fs)
  have "dc_get (vexsb_dc s') \<subseteq>\<^sub>m map_of (vexsb_cache s')" "dc_get (func_dc s') \<subseteq>\<^sub>m map_of (func_cache s')"
    using s by (auto simp: s'_def s1_def fcache_ok_defs intro!: fronted.erase_all)
  moreover have "map_of (vexsb_cache s') p = Some (fn_sb g)" if "map_of (func_cache s') p = Some g" for p g
  proof -
    have "map_ok (func_cache s')" "map_ok (vexsb_cache s')" using ok by (simp_all add: v f)
    then show ?thesis using that s
      by (auto simp: map_of_eq_Some v f ok fcache_ok_def funcs_ok_def)
  qed
  moreover have "live_ok s'"
  proof -
    have "\<And>x y. x \<in> set (func_cache s) \<Longrightarrow> y \<in> set (func_cache s) \<Longrightarrow> fn_id (snd x) = fn_id (snd y) \<Longrightarrow> fst x = fst y"
      using s by (force simp: fcache_ok_def live_ok_def distinct_map inj_on_def)
    then show ?thesis using s
      unfolding live_ok_def f by (fastforce simp: fcache_ok_def live_ok_def distinct_map_filter s'_def s1_def fs)
  qed
  moreover have "length (vexsb_cache s') \<le> unat (max_cache_ents s)"
    using s length_filter_le [of "\<lambda>x. \<not> ?in x" "vexsb_cache s"] by (simp add: v fcache_ok_defs del: length_filter_le)
  ultimately have "fcache_ok s'"
    using s ok v f by (auto simp: fcache_ok_def blocks_ok_def funcs_ok_def) (auto simp: s'_def s1_def)
  then show ?thesis using eq v f by (auto simp: s'_def s1_def)
qed

lemma flush_range_ok:
  assumes "fcache_ok s" and "b \<le> e"
  shows "\<exists>s'. flush_range b e s = Inr s' \<and> fcache_ok s' \<and> max_cache_ents s' = max_cache_ents s \<and>
    vexsb_cache s' = filter (\<lambda>x. \<not> (b \<le> fst x \<and> fst x \<le> e)) (vexsb_cache s) \<and>
    func_cache s' = filter (\<lambda>x. \<not> (b \<le> fst x \<and> fst x \<le> e)) (func_cache s)"
  using assms(1) by (rule flush_range_eq) (use assms in \<open>auto simp: fcache_ok_defs intro!: map_range_ok\<close>)

lemma flush_range_keeps_ok: "fcache_ok s \<Longrightarrow> flush_range b e s = Inr s' \<Longrightarrow> fcache_ok s'"
proof -
  assume s: "fcache_ok s" and r: "flush_range b e s = Inr s'"
  then obtain xs fs where "map_range b e (vexsb_cache s) = Inr xs" "map_range b e (func_cache s) = Inr fs"
    by (auto simp: flush_range_def Let_def)
  from flush_range_eq [OF s this] r show ?thesis by auto
qed

lemma flush_ok: "fcache_ok s \<Longrightarrow> fcache_ok (flush s)"
  by (auto simp: fcache_ok_defs flush_def map_le_def dom_def)

lemma setMaxCache_ok:
  assumes "fcache_ok s"
  shows "fcache_ok (setMaxCache flush x s)"
proof (cases "x < max_cache_ents s")
  case True
  then show ?thesis by (auto simp: setMaxCache_def fcache_ok_defs flush_def map_le_def dom_def) (use assms in \<open>auto simp: fcache_ok_defs\<close>)
next
  case False
  then have "unat (max_cache_ents s) \<le> unat x" by (simp add: word_le_nat_alt not_less)
  with assms False show ?thesis by (auto simp: setMaxCache_def fcache_ok_defs)
qed

lemma nth_vsb_addr: "i < length m \<Longrightarrow> nth_vsb_addr i m = guest_addr (snd (m ! i))"
  by (induction i m rule: nth_vsb_addr.induct) (auto simp: nth_Cons')

lemma allocCacheVSB_ok:
  assumes s: "fcache_ok s" and r: "allocCacheVSB E evict h p s = Inr (v, s')"
    and new: "map_of (vexsb_cache s) p = None"
  shows "fcache_ok s' \<and> (\<forall>vsb. v = Some vsb \<longrightarrow> guest_addr vsb = p \<and> map_of (vexsb_cache s') p = Some vsb)"
proof (cases "xlate_code E (xlate_count s) h p")
  case None
  with s r show ?thesis by (auto simp: allocCacheVSB_def)
next
  case (Some c)
  let ?vsb = "\<lparr>guest_addr = p, sb_code = c\<rparr>" and ?s1 = "s\<lparr>xlate_count := Suc (xlate_count s)\<rparr>"
  obtain s3 where s3: "(if length (vexsb_cache s) = unat (max_cache_ents s)
      then and_then (selectVictimAddress E ?s1) (\<lambda>(a, s2). evict a s2) else Inr ?s1) = Inr s3"
    and lt: "length (vexsb_cache s3) < unat (max_cache_ents s3)" and v: "v = Some ?vsb"
    and s': "s' = s3\<lparr>vexsb_cache := map_insert p ?vsb (vexsb_cache s3), vexsb_dc := dc_put p (Some ?vsb) (vexsb_dc s3)\<rparr>"
    using r by (auto simp: allocCacheVSB_def Some Let_def split: if_splits)
  have ok1: "fcache_ok ?s1" using s by simp
  have ok3: "fcache_ok s3 \<and> map_of (vexsb_cache s3) p = None"
  proof (cases "length (vexsb_cache s) = unat (max_cache_ents s)")
    case True
    then obtain a where "evict a (?s1\<lparr>rand_count := Suc (rand_count s)\<rparr>) = Inr s3"
      using s3 by (auto simp: selectVictimAddress_def Let_def split: if_splits)
    moreover have "fcache_ok (?s1\<lparr>rand_count := Suc (rand_count s)\<rparr>)" using s by simp
    note evict_ok [OF this, of a]
    ultimately show ?thesis using new by (auto simp: map_of_erase)
  next
    case False
    then show ?thesis using s3 ok1 new by auto
  qed
  have "fcache_ok s'"
    using ok3 lt length_map_insert [of "vexsb_cache s3" p ?vsb]
    by (auto simp: s' fcache_ok_defs map_of_insert fronted.put_upd dom_def dest: subsetD [OF set_map_insert])
  then show ?thesis using ok3 by (auto simp: v s' map_of_insert fcache_ok_defs)
qed

lemma getVSB_ok:
  assumes s: "fcache_ok s" and r: "getVSB E evict h p s = Inr (v, s')"
  shows "fcache_ok s' \<and> (\<forall>vsb. v = Some vsb \<longrightarrow> guest_addr vsb = p \<and> map_of (vexsb_cache s') p = Some vsb)"
proof -
  obtain c where c: "getCachedVSB p s = (map_of (vexsb_cache s) p, s\<lparr>vexsb_dc := c\<rparr>)" "dc_get c \<subseteq>\<^sub>m map_of (vexsb_cache s)"
    using s by (auto simp: fcache_ok_def intro: getCachedVSB_eq)
  have ok1: "fcache_ok (s\<lparr>vexsb_dc := c\<rparr>)" using s c(2) by (simp add: fcache_ok_defs)
  show ?thesis
  proof (cases "map_of (vexsb_cache s) p")
    case None
    then show ?thesis using r by (intro allocCacheVSB_ok [OF ok1]) (auto simp: getVSB_def c(1))
  next
    case (Some vsb)
    then have "guest_addr vsb = p" using s by (auto simp: fcache_ok_defs dest!: map_of_SomeD)
    then show ?thesis using r ok1 Some by (auto simp: getVSB_def c(1))
  qed
qed

lemma genFunctionByVSB_ok:
  assumes s: "fcache_ok s" and "map_of (vexsb_cache s) (guest_addr vsb) = Some vsb"
    and r: "genFunctionByVSB E vsb s = (f, s')"
  shows "fcache_ok s' \<and> fn_sb f = vsb \<and> map_of (func_cache s') (guest_addr vsb) = Some f"
proof -
  let ?p = "guest_addr vsb"
  have f: "fn_id f = fn_count s" "fn_sb f = vsb"
    and s': "func_cache s' = map_insert ?p f (func_cache s)" "func_dc s' = dc_put ?p (Some f) (func_dc s)"
      "fn_count s' = Suc (fn_count s)" "freed s' = freed s" "vexsb_cache s' = vexsb_cache s" "vexsb_dc s' = vexsb_dc s"
      "max_cache_ents s' = max_cache_ents s"
    using r by (auto simp: genFunctionByVSB_def emit_function_def Let_def)
  have "distinct (map (fn_id \<circ> snd) (map_insert ?p f (func_cache s)))"
  proof -
    have "distinct (map (fn_id \<circ> snd) m) \<Longrightarrow> \<forall>x\<in>set m. fn_id (snd x) < fn_id f \<Longrightarrow>
        distinct (map (fn_id \<circ> snd) (map_insert ?p f m))" for m
      by (induction ?p f m rule: map_insert.induct) (force dest!: subsetD [OF set_map_insert])+
    then show ?thesis using s by (simp add: fcache_ok_def live_ok_def f)
  qed
  moreover have "\<forall>x\<in>set (func_cache s'). fn_id (snd x) < fn_count s' \<and> fn_id (snd x) \<notin> set (freed s')"
    using s unfolding s' by (fastforce simp: fcache_ok_def live_ok_def f dest!: subsetD [OF set_map_insert])
  ultimately have "live_ok s'" using s by (auto simp: live_ok_def s' fcache_ok_def less_SucI)
  moreover have "funcs_ok s'"
    using s assms(2) by (auto simp: funcs_ok_def s' fcache_ok_def map_of_insert fronted.put_upd f)
  moreover have "blocks_ok s'" using s by (simp add: blocks_ok_def s' fcache_ok_def)
  ultimately show ?thesis using s by (simp add: fcache_ok_def f s' map_of_insert funcs_ok_def)
qed

lemma getFunc_ok:
  assumes s: "fcache_ok s" and r: "getFunc E evict h p s = Inr (v, s')"
  shows "fcache_ok s' \<and> (\<forall>f. v = Some f \<longrightarrow> map_of (func_cache s') p = Some f)"
proof -
  obtain c where c: "getCachedFunc p s = (map_of (func_cache s) p, s\<lparr>func_dc := c\<rparr>)" "dc_get c \<subseteq>\<^sub>m map_of (func_cache s)"
    using s by (auto simp: fcache_ok_def intro: getCachedFunc_eq)
  have ok1: "fcache_ok (s\<lparr>func_dc := c\<rparr>)" using s c(2) by (simp add: fcache_ok_defs)
  show ?thesis
  proof (cases "map_of (func_cache s) p")
    case (Some f)
    then show ?thesis using r ok1 by (auto simp: getFunc_def c(1))
  next
    case None
    then obtain vsb s2 where v: "getVSB E evict h p (s\<lparr>func_dc := c\<rparr>) = Inr (vsb, s2)"
      and k: "(case vsb of None \<Rightarrow> Inr (None, s2)
        | Some vsb \<Rightarrow> (let (f, s3) = genFunctionByVSB E vsb s2 in Inr (Some f, s3))) = (Inr (v, s') :: fault + _)"
      using r by (auto simp: getFunc_def c(1) Let_def)
    have ok2: "fcache_ok s2" and vs: "\<And>w. vsb = Some w \<Longrightarrow> guest_addr w = p \<and> map_of (vexsb_cache s2) p = Some w"
      using getVSB_ok [OF ok1 v] by auto
    show ?thesis
    proof (cases vsb)
      case None
      with k ok2 show ?thesis by auto
    next
      case (Some w)
      obtain f s3 where g: "genFunctionByVSB E w s2 = (f, s3)" by (cases "genFunctionByVSB E w s2")
      with k Some have "v = Some f" "s' = s3" by (auto simp: Let_def)
      with genFunctionByVSB_ok [OF ok2 _ g] vs [OF Some] show ?thesis by auto
    qed
  qed
qed

section \<open>Every state of the cache\<close>

inductive fcache_step :: "'c translator \<Rightarrow> 'c VexFCache \<Rightarrow> 'c VexFCache \<Rightarrow> bool" for E where
  cached_vsb: "getCachedVSB p s = (v, s') \<Longrightarrow> fcache_step E s s'"
| cached_func: "getCachedFunc p s = (f, s') \<Longrightarrow> fcache_step E s s'"
| get_vsb: "getVSB E evict h p s = Inr (v, s') \<Longrightarrow> fcache_step E s s'"
| get_func: "getFunc E evict h p s = Inr (f, s') \<Longrightarrow> fcache_step E s s'"
| evict_one: "evict p s = Inr s' \<Longrightarrow> fcache_step E s s'"
| flush_all: "flush s = s' \<Longrightarrow> fcache_step E s s'"
| flush_some: "flush_range b e s = Inr s' \<Longrightarrow> fcache_step E s s'"
| set_max: "setMaxCache flush x s = s' \<Longrightarrow> fcache_step E s s'"

inductive_cases fcache_stepE: "fcache_step E s s'"

lemma fcache_step_ok: "fcache_step E s s' \<Longrightarrow> fcache_ok s \<Longrightarrow> fcache_ok s'"
proof (induction rule: fcache_step.induct)
  case (cached_vsb p s v s')
  from cached_vsb.prems have "blocks_ok s" by (simp add: fcache_ok_def)
  then show ?case by (rule getCachedVSB_eq [of s p]) (use cached_vsb in \<open>auto intro: fcache_ok_dc\<close>)
next
  case (cached_func p s f s')
  from cached_func.prems have "funcs_ok s" by (simp add: fcache_ok_def)
  then show ?case by (rule getCachedFunc_eq [of s p]) (use cached_func in \<open>auto intro: fcache_ok_dc\<close>)
next
  case (evict_one p s s')
  then show ?case using evict_ok [of s p] by auto
qed (auto dest: getVSB_ok getFunc_ok flush_range_keeps_ok simp: flush_ok setMaxCache_ok)

lemma new_VexFCache_ok: "fcache_ok new_VexFCache"
  by (auto simp: fcache_ok_defs new_VexFCache_def map_le_def dom_def)

lemma fcache_steps_ok: "(fcache_step E)\<^sup>*\<^sup>* new_VexFCache s \<Longrightarrow> fcache_ok s"
  by (induction rule: rtranclp_induct) (auto intro: new_VexFCache_ok fcache_step_ok)

text \<open>
  C22: whatever was translated, generated, evicted and flushed before, a lookup answers
  what the maps hold, a cached block is the one of its address, a cached function is
  alive and was generated from the block that is cached at the same address, and the
  limit on the number of blocks is kept.
\<close>
theorem cached_lookups:
  assumes "(fcache_step E)\<^sup>*\<^sup>* new_VexFCache s"
  shows "fst (getCachedVSB p s) = map_of (vexsb_cache s) p \<and> fst (getCachedFunc p s) = map_of (func_cache s) p \<and>
    (\<forall>vsb. fst (getCachedVSB p s) = Some vsb \<longrightarrow> guest_addr vsb = p) \<and>
    (\<forall>f. fst (getCachedFunc p s) = Some f \<longrightarrow> fn_id f \<notin> set (freed s) \<and> fst (getCachedVSB p s) = Some (fn_sb f)) \<and>
    length (vexsb_cache s) \<le> unat (max_cache_ents s)"
proof -
  have s: "fcache_ok s" using assms by (rule fcache_steps_ok)
  have v: "fst (getCachedVSB p s) = map_of (vexsb_cache s) p"
    using s by (auto simp: fcache_ok_def elim: getCachedVSB_eq [of s p])
  have f: "fst (getCachedFunc p s) = map_of (func_cache s) p"
    using s by (auto simp: fcache_ok_def elim: getCachedFunc_eq [of s p])
  show ?thesis using s unfolding v f
    by (auto simp: fcache_ok_defs dest!: map_of_SomeD [of "vexsb_cache s"]) (auto dest!: map_of_SomeD)
qed

text \<open>
  C23: a flush of a range takes out exactly the blocks and functions from the first
  address of the range to the last, the last included, deletes the functions, and keeps
  every other entry.
\<close>
theorem flush_range_exact:
  assumes "(fcache_step E)\<^sup>*\<^sup>* new_VexFCache s" and "b \<le> e"
  shows "\<exists>s'. flush_range b e s = Inr s' \<and>
    fst (getCachedVSB p s') = (if b \<le> p \<and> p \<le> e then None else fst (getCachedVSB p s)) \<and>
    fst (getCachedFunc p s') = (if b \<le> p \<and> p \<le> e then None else fst (getCachedFunc p s))"
proof -
  have s: "fcache_ok s" using assms(1) by (rule fcache_steps_ok)
  obtain s' where s': "flush_range b e s = Inr s'" and ok: "fcache_ok s'"
    and v: "vexsb_cache s' = filter (\<lambda>x. \<not> (b \<le> fst x \<and> fst x \<le> e)) (vexsb_cache s)"
    and f: "func_cache s' = filter (\<lambda>x. \<not> (b \<le> fst x \<and> fst x \<le> e)) (func_cache s)"
    using flush_range_ok [OF s assms(2)] by blast
  have lv: "fst (getCachedVSB p t) = map_of (vexsb_cache t) p" and lf: "fst (getCachedFunc p t) = map_of (func_cache t) p"
    if "fcache_ok t" for t :: "'a VexFCache"
    using that by (auto simp: fcache_ok_def elim: getCachedVSB_eq [of t p] getCachedFunc_eq [of t p])
  show ?thesis using s'
    by (simp add: lv lf s ok v f map_of_filter_key [where P = "\<lambda>p. b \<le> p \<longrightarrow> \<not> p \<le> e"])
qed

text \<open>A translator for the examples: the code of a block is the number of its translation.\<close>

definition counting :: "nat translator" where
  "counting = \<lparr>xlate_code = (\<lambda>n h p. Some n), rand_value = (\<lambda>n. n), renamed = (\<lambda>names s. s),
     ret_addrs = (\<lambda>f. []), machine_code = (\<lambda>f. 0x1000 + of_nat (fn_id f))\<rparr>"

lemma unat_no_limit: "unat (- 1 :: 32 word) = 0xffffffff"
  by (simp add: unsigned_minus_1_eq_mask mask_eq_exp_minus_1)

lemmas fcache_run = getFunc_def getVSB_def getCachedFunc_def getCachedVSB_def allocCacheVSB_def genFunctionByVSB_def
  emit_function_def new_VexFCache_def counting_def map_range_def dc_get_put dc_get_flush Let_def unat_no_limit

lemma counting_first:
  "\<exists>s f. getFunc counting evict 4 4 new_VexFCache = Inr (Some f, s) \<and> fst (getCachedVSB 4 s) = Some \<lparr>guest_addr = 4, sb_code = 0\<rparr>"
  by (simp add: fcache_run)

theorem cached_lookups_witness:
  "\<exists>s. (fcache_step counting)\<^sup>*\<^sup>* new_VexFCache s \<and> map_of (vexsb_cache s) 4 = Some \<lparr>guest_addr = 4, sb_code = 0\<rparr>"
proof -
  obtain s f where "getFunc counting evict 4 4 new_VexFCache = Inr (Some f, s)"
    and v: "fst (getCachedVSB 4 s) = Some \<lparr>guest_addr = 4, sb_code = 0\<rparr>"
    using counting_first by blast
  then have r: "(fcache_step counting)\<^sup>*\<^sup>* new_VexFCache s" by (blast intro: fcache_step.get_func)
  then show ?thesis using cached_lookups [OF r, of 4] v by metis
qed

theorem flush_range_exact_witness:
  "\<exists>s s'. fst (getCachedVSB 4 (s :: nat VexFCache)) \<noteq> None \<and> flush_range 0 8 s = Inr s' \<and> fst (getCachedVSB 4 s') = None"
proof -
  obtain s f where "getFunc counting evict 4 4 new_VexFCache = Inr (Some f, s)"
    and v: "fst (getCachedVSB 4 s) = Some \<lparr>guest_addr = 4, sb_code = 0\<rparr>"
    using counting_first by blast
  then have r: "(fcache_step counting)\<^sup>*\<^sup>* new_VexFCache s" by (blast intro: fcache_step.get_func)
  from flush_range_exact [OF r, of 0 8 4] obtain s' where "flush_range 0 8 s = Inr s'" "fst (getCachedVSB 4 s') = None" by auto
  with v show ?thesis by (intro exI [of _ s] exI [of _ s']) simp
qed

end
