(* ===== verification/Jitcache.thy ===== *)
theory Jitcache
  imports Fcache
begin

text \<open>
  The cache of compiled functions over the cache of blocks (vexjitcache.h,
  vexjitcache.cc), with the part of the JIT engine it rests on (jitengine.cc): the
  table of compiled names, and the modules it takes over. The engine that compiles a
  module is destroyed when the call returns, and with it the module and its functions;
  a module that is not needed is destroyed as well.
\<close>

section \<open>State\<close>

record 'c VexJITCache = "'c VexFCache" +
  jit_cache :: "(64 word, 64 word) stdmap"
  jit_dc :: "64 word DirectCache"
  func_addrs :: "(string \<times> 64 word) list"

definition new_VexJITCache :: "'c VexJITCache" where
  "new_VexJITCache = VexFCache.extend new_VexFCache \<lparr>jit_cache = [], jit_dc = dc_flush, func_addrs = []\<rparr>"

section \<open>The engine\<close>

definition getPointerToNamedFunction :: "'c VexJITCache \<Rightarrow> string \<Rightarrow> 64 word" where
  "getPointerToNamedFunction s name = (case map_of (func_addrs s) name of None \<Rightarrow> 0 | Some fptr \<Rightarrow> fptr)"

definition enter_new_fn :: "'c translator \<Rightarrow> 'c llvm_function \<Rightarrow> (string \<times> 64 word) list \<Rightarrow> (string \<times> 64 word) list" where
  "enter_new_fn E f addrs =
     (if map_of addrs (fn_name f) \<noteq> None \<or> fn_name f = [] \<or> machine_code E f = 0 then addrs
      else addrs @ [(fn_name f, machine_code E f)])"

definition mod_to_engine :: "'c translator \<Rightarrow> 'c llvm_function list \<Rightarrow> 'c VexJITCache \<Rightarrow> 'c VexJITCache" where
  "mod_to_engine E m s = s\<lparr>func_addrs := fold (enter_new_fn E) m (func_addrs s)\<rparr>"

text \<open>The second argument of the code is the module that was open until now.\<close>

definition takeModule :: "'c VexJITCache \<Rightarrow> 'c llvm_function list \<times> 'c VexJITCache" where
  "takeModule s = (gen_mod s, s\<lparr>gen_mod := []\<rparr>)"

definition destroy :: "'c llvm_function list \<Rightarrow> 'c VexJITCache \<Rightarrow> 'c VexJITCache" where
  "destroy m s = s\<lparr>freed := map fn_id m @ freed s\<rparr>"

definition getPointerToFunction :: "'c translator \<Rightarrow> 'c llvm_function \<Rightarrow> 'c VexJITCache \<Rightarrow> fault + 64 word \<times> 'c VexJITCache" where
  "getPointerToFunction E f s =
     (if fn_id f \<in> set (freed s) then Inl Use_after_free
      else let (m, s1) = takeModule s; fptr = getPointerToNamedFunction s1 (fn_name f) in
        if fptr \<noteq> 0 then Inr (fptr, destroy m s1)
        else let s2 = mod_to_engine E m s1 in Inr (getPointerToNamedFunction s2 (fn_name f), destroy m s2))"

section \<open>Operations\<close>

definition getCachedFPtr :: "64 word \<Rightarrow> 'c VexJITCache \<Rightarrow> 64 word \<times> 'c VexJITCache" where
  "getCachedFPtr p s =
     (case dc_get (jit_dc s) p of
        Some fptr \<Rightarrow> (fptr, s)
      | None \<Rightarrow> (case map_of (jit_cache s) p of
          None \<Rightarrow> (0, s)
        | Some fptr \<Rightarrow> (fptr, s\<lparr>jit_dc := dc_put p (if fptr = 0 then None else Some fptr) (jit_dc s)\<rparr>)))"

definition jit_evict :: "64 word \<Rightarrow> 'c VexJITCache \<Rightarrow> fault + 'c VexJITCache" where
  "jit_evict p s =
     (let (f, s1) = getCachedFunc p s in
      and_then
        (case f of
           None \<Rightarrow> Inr s1
         | Some f \<Rightarrow> if fn_id f \<in> set (freed s1) then Inl Use_after_free else Inr (s1\<lparr>freed := fn_id f # freed s1\<rparr>))
        (\<lambda>s2. evict p (s2\<lparr>jit_cache := map_erase p (jit_cache s2), jit_dc := dc_put p None (jit_dc s2)\<rparr>)))"

definition jit_flush :: "'c VexJITCache \<Rightarrow> 'c VexJITCache" where
  "jit_flush s = flush (s\<lparr>jit_cache := [], jit_dc := dc_flush\<rparr>)"

definition jit_flush_range :: "64 word \<Rightarrow> 64 word \<Rightarrow> 'c VexJITCache \<Rightarrow> fault + 'c VexJITCache" where
  "jit_flush_range b e s =
     and_then (map_range b e (func_cache s)) (\<lambda>funcs. let ks = map fst funcs in
       flush_range b e (s\<lparr>jit_cache := fold map_erase ks (jit_cache s),
                          jit_dc := fold (\<lambda>k. dc_put k None) ks (jit_dc s)\<rparr>))"

text \<open>
  The search for further functions to put into the module: the queue, the set of
  functions in it, the set of those that are done, the addresses and names found.
\<close>

fun visit_exits ::
  "'c translator \<Rightarrow> nat list \<Rightarrow> 64 word list \<Rightarrow>
   'c llvm_function list \<times> nat list \<times> (64 word \<times> string) list \<times> 'c VexJITCache \<Rightarrow>
   fault + 'c llvm_function list \<times> nat list \<times> (64 word \<times> string) list \<times> 'c VexJITCache" where
  "visit_exits E complete [] x = Inr x"
| "visit_exits E complete (a # as) (q, workset, fnames, s) =
     (if map_of (jit_cache s) a \<noteq> None then visit_exits E complete as (q, workset, fnames, s)
      else and_then (getFunc E jit_evict a a s) (\<lambda>(new_f, s1).
        case new_f of
          None \<Rightarrow> visit_exits E complete as (q, workset, fnames, s1)
        | Some g \<Rightarrow>
            if fn_id g \<in> set workset \<or> fn_id g \<in> set complete then visit_exits E complete as (q, workset, fnames, s1)
            else if fn_id g \<in> set (freed s1) then Inl Use_after_free
            else visit_exits E complete as (q @ [g], fn_id g # workset, (a, fn_name g) # fnames, s1)))"

fun fetch_exits ::
  "'c translator \<Rightarrow> nat \<Rightarrow> 'c llvm_function list \<Rightarrow> nat list \<Rightarrow> nat list \<Rightarrow> (64 word \<times> string) list \<Rightarrow>
   'c VexJITCache \<Rightarrow> fault + (64 word \<times> string) list \<times> 'c VexJITCache" where
  "fetch_exits E 0 q workset complete fnames s = Inl Out_of_fuel"
| "fetch_exits E (Suc n) q workset complete fnames s =
     (if workset = [] then Inr (fnames, s)
      else case q of
        [] \<Rightarrow> Inl Past_end
      | f # q' \<Rightarrow>
          if fn_id f \<in> set (freed s) then Inl Use_after_free
          else and_then (visit_exits E complete (ret_addrs E f) (q', workset, fnames, s)) (\<lambda>(q2, ws2, fnames2, s2).
            let ws3 = filter (\<lambda>i. i \<noteq> fn_id f) ws2; complete2 = List.insert (fn_id f) complete in
            if length complete2 + length ws3 > 2 then Inr (fnames2, s2)
            else fetch_exits E n q2 ws3 complete2 fnames2 s2))"

definition compile_function ::
  "'c translator \<Rightarrow> 64 word \<Rightarrow> 64 word \<Rightarrow> 'c llvm_function \<Rightarrow> 'c VexJITCache \<Rightarrow> fault + 64 word \<times> 'c VexJITCache" where
  "compile_function E hostptr p f s2 =
     and_then (if hostptr = p then fetch_exits E 3 [f] [fn_id f] [] [] s2 else Inr ([], s2)) (\<lambda>(fnames, s3).
     and_then (getPointerToFunction E f s3) (\<lambda>(fptr, s4).
       if fptr = 0 then Inl Assert_failed
       else let m = fold (\<lambda>(a, n). map_insert a (getPointerToNamedFunction s4 n)) (sort_key fst fnames) (jit_cache s4)
         in Inr (fptr, s4\<lparr>jit_cache := map_insert p fptr m, jit_dc := dc_put p (Some fptr) (jit_dc s4)\<rparr>)))"

definition getFPtr :: "'c translator \<Rightarrow> 64 word \<Rightarrow> 64 word \<Rightarrow> 'c VexJITCache \<Rightarrow> fault + 64 word \<times> 'c VexJITCache" where
  "getFPtr E hostptr p s =
     (let (ret_f, s1) = getCachedFPtr p s in
      if ret_f \<noteq> 0 then Inr (ret_f, s1)
      else and_then (getFunc E jit_evict hostptr p s1) (\<lambda>(llvm_f, s2).
        case llvm_f of None \<Rightarrow> Inl Assert_failed | Some f \<Rightarrow> compile_function E hostptr p f s2))"

section \<open>Names\<close>

lemma hex_digit_inj: "m < 16 \<Longrightarrow> n < 16 \<Longrightarrow> hex_digit m = hex_digit n \<longleftrightarrow> m = n"
  unfolding hex_digit.simps by (rule nth_eq_iff_index_eq) (simp_all add: eval_nat_numeral)

lemma hex_of_nonempty [simp]: "hex_of n \<noteq> []"
  by (simp add: hex_of.simps [of n] del: hex_digit.simps)

lemma hex_of_inj: "hex_of m = hex_of n \<Longrightarrow> m = n"
proof (induction m arbitrary: n rule: less_induct)
  case (less m)
  note unfold = hex_of.simps [of m] hex_of.simps [of n]
  show ?case
  proof (cases "m < 16 \<or> n < 16")
    case True
    then show ?thesis using less.prems unfold
      by (auto simp: hex_digit_inj not_sym [OF hex_of_nonempty] simp del: hex_digit.simps split: if_splits)
  next
    case False
    then have "hex_of (m div 16) = hex_of (n div 16)" "hex_digit (m mod 16) = hex_digit (n mod 16)"
      using less.prems unfold by (auto simp del: hex_digit.simps)
    moreover have "m div 16 < m" using False by simp
    ultimately have "m div 16 = n div 16" "m mod 16 = n mod 16"
      using less.IH by (auto simp: hex_digit_inj simp del: hex_digit.simps)
    then show ?thesis by (metis div_mult_mod_eq)
  qed
qed

lemma sb_name_inj [simp]: "sb_name p = sb_name q \<longleftrightarrow> p = q"
  by (auto simp: sb_name_def word_unat_eq_iff dest: hex_of_inj split: if_splits)

section \<open>The invariant\<close>

text \<open>
  A function is filed under the address it is named after; the functions of the open
  module are cached, and every other cached function is deleted; a compiled address has a
  cached function, and its code is what the engine's table has under its name.
\<close>

definition names_ok :: "'c VexJITCache \<Rightarrow> bool" where
  "names_ok s \<longleftrightarrow> (\<forall>p f. map_of (func_cache s) p = Some f \<longrightarrow> fn_name f = sb_name p) \<and>
     (\<forall>f\<in>set (gen_mod s). map_of (func_cache s) (guest_addr (fn_sb f)) = Some f)"

definition gone_ok :: "'c VexJITCache \<Rightarrow> bool" where
  "gone_ok s \<longleftrightarrow> (\<forall>p f. map_of (func_cache s) p = Some f \<longrightarrow> f \<in> set (gen_mod s) \<or> fn_id f \<in> set (freed s))"

definition code_ok :: "'c VexJITCache \<Rightarrow> bool" where
  "code_ok s \<longleftrightarrow> map_ok (jit_cache s) \<and> dc_get (jit_dc s) \<subseteq>\<^sub>m map_of (jit_cache s) \<and>
     (\<forall>p c. map_of (jit_cache s) p = Some c \<longrightarrow>
        map_of (func_cache s) p \<noteq> None \<and> (c = 0 \<or> map_of (func_addrs s) (sb_name p) = Some c))"

definition jit_ok :: "'c VexJITCache \<Rightarrow> bool" where
  "jit_ok s \<longleftrightarrow> blocks_ok s \<and> funcs_ok s \<and> names_ok s \<and> gone_ok s \<and> code_ok s"

lemmas jit_ok_defs = jit_ok_def blocks_ok_def funcs_ok_def names_ok_def gone_ok_def code_ok_def

lemma jit_ok_counts [simp]:
  "jit_ok (s\<lparr>xlate_count := n\<rparr>) = jit_ok s" "jit_ok (s\<lparr>rand_count := n\<rparr>) = jit_ok s"
  by (simp_all add: jit_ok_defs)

lemma jit_ok_dc:
  "jit_ok s \<Longrightarrow> dc_get c \<subseteq>\<^sub>m map_of (vexsb_cache s) \<Longrightarrow> jit_ok (s\<lparr>vexsb_dc := c\<rparr>)"
  "jit_ok s \<Longrightarrow> dc_get d \<subseteq>\<^sub>m map_of (func_cache s) \<Longrightarrow> jit_ok (s\<lparr>func_dc := d\<rparr>)"
  "jit_ok s \<Longrightarrow> dc_get e \<subseteq>\<^sub>m map_of (jit_cache s) \<Longrightarrow> jit_ok (s\<lparr>jit_dc := e\<rparr>)"
  by (simp_all add: jit_ok_defs)

lemma code_okD: "jit_ok s \<Longrightarrow> map_of (jit_cache s) p = Some c \<Longrightarrow> map_of (func_cache s) p \<noteq> None"
  unfolding jit_ok_def code_ok_def by blast

lemma code_okD2: "jit_ok s \<Longrightarrow> map_of (jit_cache s) p = Some c \<Longrightarrow> c \<noteq> 0 \<Longrightarrow> map_of (func_addrs s) (sb_name p) = Some c"
  unfolding jit_ok_def code_ok_def by blast

text \<open>What an operation that does not compile keeps of the engine and of the compiled code.\<close>

definition engine_kept :: "'c VexJITCache \<Rightarrow> 'c VexJITCache \<Rightarrow> bool" where
  "engine_kept s s' \<longleftrightarrow> func_addrs s' = func_addrs s \<and> jit_cache s' = jit_cache s \<and> (\<forall>x\<in>set (gen_mod s). x \<in> set (gen_mod s')) \<and>
     (\<forall>p f. map_of (func_cache s) p = Some f \<longrightarrow> map_of (func_cache s') p = Some f)"

lemma engine_kept_refl [intro!, simp]: "engine_kept s s"
  by (simp add: engine_kept_def)

lemma engine_kept_trans: "engine_kept s t \<Longrightarrow> engine_kept t u \<Longrightarrow> engine_kept s u"
  by (auto simp: engine_kept_def)

text \<open>What an operation that only changes the blocks keeps.\<close>

definition code_kept :: "'c VexJITCache \<Rightarrow> 'c VexJITCache \<Rightarrow> bool" where
  "code_kept s s' \<longleftrightarrow> func_addrs s' = func_addrs s \<and> gen_mod s' = gen_mod s \<and> func_cache s' = func_cache s \<and>
     jit_cache s' = jit_cache s \<and> freed s' = freed s \<and> fn_count s' = fn_count s"

lemma code_kept_trans: "code_kept s t \<Longrightarrow> code_kept t u \<Longrightarrow> code_kept s u"
  by (simp add: code_kept_def)

lemma code_kept_engine: "code_kept s t \<Longrightarrow> engine_kept s t"
  by (simp add: code_kept_def engine_kept_def)

lemma jit_getCachedFunc:
  assumes "jit_ok s"
  obtains d where "getCachedFunc p s = (map_of (func_cache s) p, s\<lparr>func_dc := d\<rparr>)" "jit_ok (s\<lparr>func_dc := d\<rparr>)"
  using getCachedFunc_eq [of s p] assms by (metis jit_ok_def jit_ok_dc(2))

lemma jit_getCachedVSB:
  assumes "jit_ok s"
  obtains d where "getCachedVSB p s = (map_of (vexsb_cache s) p, s\<lparr>vexsb_dc := d\<rparr>)" "jit_ok (s\<lparr>vexsb_dc := d\<rparr>)"
  using getCachedVSB_eq [of s p] assms by (metis jit_ok_def jit_ok_dc(1))

lemma jit_getCachedFPtr:
  assumes "jit_ok s"
  obtains d where "getCachedFPtr p s = ((case map_of (jit_cache s) p of None \<Rightarrow> 0 | Some c \<Rightarrow> c), s\<lparr>jit_dc := d\<rparr>)"
    and "jit_ok (s\<lparr>jit_dc := d\<rparr>)"
proof (cases "dc_get (jit_dc s) p")
  case (Some c)
  moreover have "map_of (jit_cache s) p = Some c"
    using assms by (auto simp: jit_ok_defs intro: fronted.hit [OF _ Some])
  ultimately show thesis using assms by (intro that [of "jit_dc s"]) (auto simp: getCachedFPtr_def)
next
  case None
  show thesis
  proof (cases "map_of (jit_cache s) p")
    case None
    with assms \<open>dc_get (jit_dc s) p = None\<close> show thesis
      by (intro that [of "jit_dc s"]) (auto simp: getCachedFPtr_def)
  next
    case (Some c)
    have "jit_ok (s\<lparr>jit_dc := dc_put p (if c = 0 then None else Some c) (jit_dc s)\<rparr>)"
      using assms Some fronted.put_upd [of "jit_dc s" "map_of (jit_cache s)" p None]
      by (intro jit_ok_dc(3)) (auto simp: jit_ok_defs fronted.fill elim: map_le_trans intro: map_le_trans)
    then show thesis using Some None by (intro that) (auto simp: getCachedFPtr_def)
  qed
qed

text \<open>
  An eviction goes through only if the block has no function; then it takes out the block.
\<close>

lemma jit_evict_faults: "jit_ok s \<Longrightarrow> map_of (func_cache s) p \<noteq> None \<Longrightarrow> jit_evict p s = Inl Use_after_free"
proof -
  assume s: "jit_ok s" and p: "map_of (func_cache s) p \<noteq> None"
  then obtain f where f: "map_of (func_cache s) p = Some f" by auto
  obtain d where d: "getCachedFunc p s = (Some f, s\<lparr>func_dc := d\<rparr>)" "jit_ok (s\<lparr>func_dc := d\<rparr>)"
    using s f jit_getCachedFunc [of s p] by metis
  let ?s1 = "s\<lparr>func_dc := d, freed := fn_id f # freed s, jit_cache := map_erase p (jit_cache s), jit_dc := dc_put p None (jit_dc s)\<rparr>"
  have "funcs_ok ?s1" using d(2) by (simp add: jit_ok_def funcs_ok_def)
  then obtain e where "getCachedFunc p ?s1 = (Some f, ?s1\<lparr>func_dc := e\<rparr>)"
    using f getCachedFunc_eq [of ?s1 p] by auto
  then have "evict p ?s1 = Inl Use_after_free"
    by (simp add: evict_def eraseFromParent_def)
  then show ?thesis using d by (auto simp: jit_evict_def)
qed

lemma jit_evict_ok:
  assumes s: "jit_ok s" and r: "jit_evict p s = Inr s'"
  shows "jit_ok s' \<and> code_kept s s' \<and> vexsb_cache s' = map_erase p (vexsb_cache s)"
proof -
  have p: "map_of (func_cache s) p = None" using jit_evict_faults [OF s] r by force
  obtain d where d: "getCachedFunc p s = (None, s\<lparr>func_dc := d\<rparr>)" "jit_ok (s\<lparr>func_dc := d\<rparr>)"
    using s p jit_getCachedFunc [of s p] by metis
  have jp: "map_of (jit_cache s) p = None" using code_okD [OF s, of p] p by (cases "map_of (jit_cache s) p") auto
  let ?s1 = "s\<lparr>func_dc := d, jit_cache := map_erase p (jit_cache s), jit_dc := dc_put p None (jit_dc s)\<rparr>"
  have "dc_get (dc_put p None (jit_dc s)) \<subseteq>\<^sub>m map_of (jit_cache s)"
    using fronted.put_upd [of "jit_dc s" "map_of (jit_cache s)" p None] s jp by (simp add: jit_ok_defs fun_upd_idem)
  then have ok1: "jit_ok ?s1" using d(2) by (simp add: jit_ok_defs map_erase_absent [OF jp])
  obtain e where e: "getCachedFunc p ?s1 = (None, ?s1\<lparr>func_dc := e\<rparr>)" "jit_ok (?s1\<lparr>func_dc := e\<rparr>)"
    using p jit_getCachedFunc [OF ok1, of p] by auto
  obtain g where g: "getCachedVSB p (?s1\<lparr>func_dc := e\<rparr>) = (map_of (vexsb_cache s) p, ?s1\<lparr>func_dc := e, vexsb_dc := g\<rparr>)"
    "jit_ok (?s1\<lparr>func_dc := e, vexsb_dc := g\<rparr>)"
    using jit_getCachedVSB [OF e(2), of p] by auto
  define v where "v = (if map_of (vexsb_cache s) p = None then g else dc_put p None g)"
  have s': "s' = ?s1\<lparr>func_dc := e, vexsb_dc := v, vexsb_cache := map_erase p (vexsb_cache s)\<rparr>"
    using r e(1) g(1) by (auto simp: jit_evict_def d(1) evict_def Let_def v_def map_erase_absent split: option.splits)
  have "dc_get v \<subseteq>\<^sub>m map_of (map_erase p (vexsb_cache s))" "map_ok (vexsb_cache s)"
    using g(2) by (auto simp: v_def jit_ok_defs map_erase_absent fronted.erase_both)
  moreover have "length (map_erase p (vexsb_cache s)) \<le> unat (max_cache_ents s)"
    using s length_map_erase [of p "vexsb_cache s"] by (simp add: jit_ok_defs)
  ultimately have "jit_ok s'"
    using g(2) p by (auto simp: jit_ok_defs s' set_map_erase map_of_erase)
  then show ?thesis by (simp add: s' code_kept_def map_erase_absent [OF jp])
qed

lemma jit_allocCacheVSB:
  assumes s: "jit_ok s" and r: "allocCacheVSB E jit_evict h p s = Inr (v, s')"
    and new: "map_of (vexsb_cache s) p = None"
  shows "jit_ok s' \<and> code_kept s s' \<and> (\<forall>vsb. v = Some vsb \<longrightarrow> guest_addr vsb = p \<and> map_of (vexsb_cache s') p = Some vsb)"
proof (cases "xlate_code E (xlate_count s) h p")
  case None
  with s r show ?thesis by (auto simp: allocCacheVSB_def code_kept_def)
next
  case (Some c)
  let ?vsb = "\<lparr>guest_addr = p, sb_code = c\<rparr>" and ?s1 = "s\<lparr>xlate_count := Suc (xlate_count s)\<rparr>"
  obtain s3 where s3: "(if length (vexsb_cache s) = unat (max_cache_ents s)
      then and_then (selectVictimAddress E ?s1) (\<lambda>(a, s2). jit_evict a s2) else Inr ?s1) = Inr s3"
    and lt: "length (vexsb_cache s3) < unat (max_cache_ents s3)" and v: "v = Some ?vsb"
    and s': "s' = s3\<lparr>vexsb_cache := map_insert p ?vsb (vexsb_cache s3), vexsb_dc := dc_put p (Some ?vsb) (vexsb_dc s3)\<rparr>"
    using r by (auto simp: allocCacheVSB_def Some Let_def split: if_splits)
  have ok3: "jit_ok s3 \<and> code_kept s s3 \<and> map_of (vexsb_cache s3) p = None"
  proof (cases "length (vexsb_cache s) = unat (max_cache_ents s)")
    case True
    then obtain a where a: "jit_evict a (?s1\<lparr>rand_count := Suc (rand_count s)\<rparr>) = Inr s3"
      using s3 by (auto simp: selectVictimAddress_def Let_def split: if_splits)
    have "jit_ok (?s1\<lparr>rand_count := Suc (rand_count s)\<rparr>)" using s by simp
    from jit_evict_ok [OF this a] show ?thesis using new by (auto simp: map_of_erase code_kept_def)
  next
    case False
    then show ?thesis using s3 s new by (auto simp: code_kept_def)
  qed
  have fp: "map_of (func_cache s3) p = None" using ok3 by (cases "map_of (func_cache s3) p") (auto simp: jit_ok_def funcs_ok_def)
  have "map_ok (vexsb_cache s3)" using ok3 by (simp add: jit_ok_defs)
  note len = length_map_insert [OF this, of p ?vsb]
  have "jit_ok s'"
    using ok3 lt len fp
    by (auto simp: s' jit_ok_defs map_of_insert fronted.put_upd dom_def dest: subsetD [OF set_map_insert])
  moreover have "code_kept s s'" using ok3 by (simp add: s' code_kept_def)
  ultimately show ?thesis using ok3 by (auto simp: v s' map_of_insert jit_ok_defs)
qed

lemma jit_getVSB:
  assumes s: "jit_ok s" and r: "getVSB E jit_evict h p s = Inr (v, s')"
  shows "jit_ok s' \<and> code_kept s s' \<and> (\<forall>vsb. v = Some vsb \<longrightarrow> guest_addr vsb = p \<and> map_of (vexsb_cache s') p = Some vsb)"
proof -
  obtain c where c: "getCachedVSB p s = (map_of (vexsb_cache s) p, s\<lparr>vexsb_dc := c\<rparr>)" "jit_ok (s\<lparr>vexsb_dc := c\<rparr>)"
    using s by (rule jit_getCachedVSB)
  have k: "code_kept s (s\<lparr>vexsb_dc := c\<rparr>)" by (simp add: code_kept_def)
  show ?thesis
  proof (cases "map_of (vexsb_cache s) p")
    case None
    then have "jit_ok s' \<and> code_kept (s\<lparr>vexsb_dc := c\<rparr>) s' \<and>
        (\<forall>vsb. v = Some vsb \<longrightarrow> guest_addr vsb = p \<and> map_of (vexsb_cache s') p = Some vsb)"
      using r by (intro jit_allocCacheVSB [OF c(2)]) (auto simp: getVSB_def c(1))
    then show ?thesis using code_kept_trans [OF k] by auto
  next
    case (Some vsb)
    then have "guest_addr vsb = p" using s by (auto simp: jit_ok_defs dest!: map_of_SomeD)
    then show ?thesis using r c(2) k Some by (auto simp: getVSB_def c(1))
  qed
qed

lemma jit_genFunction:
  assumes s: "jit_ok s" and v: "map_of (vexsb_cache s) (guest_addr vsb) = Some vsb"
    and new: "map_of (func_cache s) (guest_addr vsb) = None" and r: "genFunctionByVSB E vsb s = (f, s')"
  shows "jit_ok s' \<and> engine_kept s s' \<and> map_of (func_cache s') (guest_addr vsb) = Some f"
proof -
  let ?p = "guest_addr vsb"
  have free: "sb_name ?p \<notin> set (map fn_name (gen_mod s))"
  proof
    assume "sb_name ?p \<in> set (map fn_name (gen_mod s))"
    then obtain g where g: "g \<in> set (gen_mod s)" "fn_name g = sb_name ?p" by auto
    then have "map_of (func_cache s) (guest_addr (fn_sb g)) = Some g" using s by (auto simp: jit_ok_defs)
    moreover from this have "fn_name g = sb_name (guest_addr (fn_sb g))" using s by (auto simp: jit_ok_defs)
    ultimately show False using g new by simp
  qed
  have f: "fn_name f = sb_name ?p" "fn_sb f = vsb" "fn_id f = fn_count s"
    and s': "s' = s\<lparr>gen_mod := gen_mod s @ [f], fn_count := Suc (fn_count s),
      func_cache := map_insert ?p f (func_cache s), func_dc := dc_put ?p (Some f) (func_dc s)\<rparr>"
    using r free by (auto simp: genFunctionByVSB_def emit_function_def Let_def)
  have m: "map_of (func_cache s') = (map_of (func_cache s))(?p \<mapsto> f)"
    using s by (simp add: s' map_of_insert jit_ok_defs)
  have mod: "guest_addr (fn_sb g) \<noteq> ?p" if "g \<in> set (gen_mod s)" for g
    using s new that by (auto simp: jit_ok_defs)
  have "funcs_ok s'" using s v by (auto simp: jit_ok_def funcs_ok_def s' f map_of_insert fronted.put_upd)
  moreover have "names_ok s'" using s mod unfolding names_ok_def m by (auto simp: jit_ok_defs s' f)
  moreover have "gone_ok s'" using s unfolding gone_ok_def m by (auto simp: jit_ok_defs s')
  moreover have "code_ok s'" using s unfolding code_ok_def m by (auto simp: jit_ok_defs s')
  ultimately show ?thesis using s new m
    by (auto simp: jit_ok_def engine_kept_def s' blocks_ok_def)
qed

lemma jit_getFunc:
  assumes s: "jit_ok s" and r: "getFunc E jit_evict h p s = Inr (v, s')"
  shows "jit_ok s' \<and> engine_kept s s' \<and> (\<forall>f. v = Some f \<longrightarrow> map_of (func_cache s') p = Some f)"
proof -
  obtain c where c: "getCachedFunc p s = (map_of (func_cache s) p, s\<lparr>func_dc := c\<rparr>)" "jit_ok (s\<lparr>func_dc := c\<rparr>)"
    using s by (rule jit_getCachedFunc)
  have k: "engine_kept s (s\<lparr>func_dc := c\<rparr>)" by (simp add: engine_kept_def)
  show ?thesis
  proof (cases "map_of (func_cache s) p")
    case (Some f)
    then show ?thesis using r c(2) k by (auto simp: getFunc_def c(1))
  next
    case None
    then obtain vsb s2 where v: "getVSB E jit_evict h p (s\<lparr>func_dc := c\<rparr>) = Inr (vsb, s2)"
      and g: "(case vsb of None \<Rightarrow> Inr (None, s2)
        | Some vsb \<Rightarrow> (let (f, s3) = genFunctionByVSB E vsb s2 in Inr (Some f, s3))) = (Inr (v, s') :: fault + _)"
      using r by (auto simp: getFunc_def c(1) Let_def)
    note v2 = jit_getVSB [OF c(2) v]
    have k2: "engine_kept s s2" using v2 engine_kept_trans [OF k] code_kept_engine by auto
    show ?thesis
    proof (cases vsb)
      case None
      with g v2 k2 show ?thesis by auto
    next
      case (Some w)
      obtain f s3 where f: "genFunctionByVSB E w s2 = (f, s3)" by (cases "genFunctionByVSB E w s2")
      have "v = Some f" "s' = s3" using g Some f by (auto simp: Let_def)
      moreover have "map_of (func_cache s2) p = None" using v2 None by (simp add: code_kept_def)
      ultimately show ?thesis using jit_genFunction [OF _ _ _ f] v2 Some engine_kept_trans [OF k2] by auto
    qed
  qed
qed

lemma jit_getFunc_sb:
  assumes s: "jit_ok s" and v: "map_of (vexsb_cache s) p = Some vsb" and r: "getFunc E jit_evict h p s = Inr (Some f, s')"
  shows "fn_sb f = vsb"
proof -
  obtain c where c: "getCachedFunc p s = (map_of (func_cache s) p, s\<lparr>func_dc := c\<rparr>)" "jit_ok (s\<lparr>func_dc := c\<rparr>)"
    using s by (rule jit_getCachedFunc)
  show ?thesis
  proof (cases "map_of (func_cache s) p")
    case (Some g)
    then have "fn_sb g = vsb" using s v by (auto simp: jit_ok_defs)
    then show ?thesis using r Some by (auto simp: getFunc_def c(1))
  next
    case None
    obtain d where "getCachedVSB p (s\<lparr>func_dc := c\<rparr>) = (Some vsb, s\<lparr>func_dc := c, vexsb_dc := d\<rparr>)"
      by (rule jit_getCachedVSB [OF c(2), of p]) (simp add: v)
    then show ?thesis using r None by (auto simp: getFunc_def c(1) getVSB_def genFunctionByVSB_def emit_function_def Let_def)
  qed
qed

section \<open>The search for exits\<close>

lemma visit_exits_ok:
  assumes "jit_ok s" and "visit_exits E complete as (q, ws, fnames, s) = Inr (q', ws', fnames', s')"
    and "\<forall>x\<in>set fnames. map_of (func_cache s) (fst x) \<noteq> None \<and> map_of (jit_cache s) (fst x) = None \<and> snd x = sb_name (fst x)"
  shows "jit_ok s' \<and> engine_kept s s' \<and>
    (\<forall>x\<in>set fnames'. map_of (func_cache s') (fst x) \<noteq> None \<and> map_of (jit_cache s') (fst x) = None \<and> snd x = sb_name (fst x))"
  using assms
proof (induction as arbitrary: q ws fnames s)
  case (Cons a as)
  show ?case
  proof (cases "map_of (jit_cache s) a")
    case (Some c)
    then show ?thesis using Cons.prems Cons.IH [of s q ws fnames] by simp
  next
    case None
    with Cons.prems(2) obtain new_f s1 where g: "getFunc E jit_evict a a s = Inr (new_f, s1)" by auto
    note ok = jit_getFunc [OF Cons.prems(1) g]
    have kept: "\<forall>x\<in>set fnames. map_of (func_cache s1) (fst x) \<noteq> None \<and> map_of (jit_cache s1) (fst x) = None \<and> snd x = sb_name (fst x)"
      using Cons.prems(3) ok by (fastforce simp: engine_kept_def)
    show ?thesis
    proof (cases "new_f = None \<or> fn_id (the new_f) \<in> set ws \<or> fn_id (the new_f) \<in> set complete")
      case True
      then have "visit_exits E complete as (q, ws, fnames, s1) = Inr (q', ws', fnames', s')"
        using Cons.prems(2) None g by (auto split: option.splits)
      from Cons.IH [OF _ this kept] ok show ?thesis by (auto intro: engine_kept_trans)
    next
      case False
      then obtain f where f: "new_f = Some f" by auto
      with False have v: "visit_exits E complete as (q @ [f], fn_id f # ws, (a, fn_name f) # fnames, s1) = Inr (q', ws', fnames', s')"
        using Cons.prems(2) None g by (auto split: if_splits)
      have "map_of (func_cache s1) a = Some f" "fn_name f = sb_name a" using ok f by (auto simp: jit_ok_defs)
      moreover have "map_of (jit_cache s1) a = None" using None ok by (simp add: engine_kept_def)
      ultimately have "\<forall>x\<in>set ((a, fn_name f) # fnames). map_of (func_cache s1) (fst x) \<noteq> None \<and> map_of (jit_cache s1) (fst x) = None \<and> snd x = sb_name (fst x)"
        using kept by auto
      from Cons.IH [OF _ v this] ok show ?thesis by (auto intro: engine_kept_trans)
    qed
  qed
qed auto

lemma fetch_exits_ok:
  assumes "jit_ok s" and "fetch_exits E n q ws complete fnames s = Inr (fnames', s')"
    and "\<forall>x\<in>set fnames. map_of (func_cache s) (fst x) \<noteq> None \<and> map_of (jit_cache s) (fst x) = None \<and> snd x = sb_name (fst x)"
  shows "jit_ok s' \<and> engine_kept s s' \<and>
    (\<forall>x\<in>set fnames'. map_of (func_cache s') (fst x) \<noteq> None \<and> map_of (jit_cache s') (fst x) = None \<and> snd x = sb_name (fst x))"
  using assms
proof (induction E n q ws complete fnames s rule: fetch_exits.induct)
  case (2 E n q ws complete fnames s)
  show ?case
  proof (cases "ws = []")
    case False
    with 2(3) obtain f q1 q2 ws2 fnames2 s2 where q: "q = f # q1" "fn_id f \<notin> set (freed s)"
      and v: "visit_exits E complete (ret_addrs E f) (q1, ws, fnames, s) = Inr (q2, ws2, fnames2, s2)"
      by (auto simp: Let_def split: list.splits if_splits)
    note ok = visit_exits_ok [OF 2(2) v 2(4)]
    show ?thesis
    proof (cases "length (List.insert (fn_id f) complete) + length (filter (\<lambda>i. i \<noteq> fn_id f) ws2) > 2")
      case True
      then show ?thesis using 2(3) False q v ok by (auto simp: Let_def)
    next
      case le: False
      have "fetch_exits E n q2 (filter (\<lambda>i. i \<noteq> fn_id f) ws2) (List.insert (fn_id f) complete) fnames2 s2 = Inr (fnames', s')"
        using 2(3) False q v le by (simp add: Let_def)
      from 2(1) [OF False q(1) q(2) refl refl le _ this] ok show ?thesis
        by (auto intro: engine_kept_trans)
    qed
  qed (use 2 in auto)
qed simp

section \<open>The search ends\<close>

lemma no_fuel_fault [simp]:
  "evict p s \<noteq> Inl Out_of_fuel" "jit_evict p t \<noteq> Inl Out_of_fuel"
  "getFunc E jit_evict h p t \<noteq> Inl Out_of_fuel"
proof -
  show e: "evict p s \<noteq> Inl Out_of_fuel" for p and s :: "('a, 'b) VexFCache_scheme"
    by (auto simp: evict_def eraseFromParent_def Let_def split: option.split prod.split)
  show j: "jit_evict p t \<noteq> Inl Out_of_fuel" for p and t :: "'c VexJITCache"
    by (auto simp: jit_evict_def evict_def eraseFromParent_def Let_def split: option.split prod.split)
  show "getFunc E jit_evict h p t \<noteq> Inl Out_of_fuel"
    by (auto simp: getFunc_def getVSB_def allocCacheVSB_def selectVictimAddress_def j Let_def split: option.splits prod.splits if_splits)
qed

lemma visit_exits_shape:
  "visit_exits E complete as (q, ws, fnames, s) = Inr (q', ws', fnames', s') \<Longrightarrow>
   \<exists>new. q' = q @ new \<and> ws' = rev (map fn_id new) @ ws \<and> distinct (map fn_id new) \<and>
     (\<forall>g\<in>set new. fn_id g \<notin> set ws \<union> set complete)"
proof (induction as arbitrary: q ws fnames s)
  case (Cons a as)
  show ?case
  proof (cases "map_of (jit_cache s) a = None \<and> (\<exists>f s1. getFunc E jit_evict a a s = Inr (Some f, s1) \<and>
      fn_id f \<notin> set ws \<union> set complete)")
    case True
    then obtain f s1 where g: "getFunc E jit_evict a a s = Inr (Some f, s1)" and f: "fn_id f \<notin> set ws \<union> set complete"
      by auto
    then have "visit_exits E complete as (q @ [f], fn_id f # ws, (a, fn_name f) # fnames, s1) = Inr (q', ws', fnames', s')"
      using True Cons.prems by (auto split: if_splits)
    from Cons.IH [OF this] obtain new where "q' = (q @ [f]) @ new" "ws' = rev (map fn_id new) @ fn_id f # ws"
      "distinct (map fn_id new)" "\<forall>g\<in>set new. fn_id g \<notin> set (fn_id f # ws) \<union> set complete" by blast
    then show ?thesis using f by (intro exI [of _ "f # new"]) auto
  next
    case False
    then obtain t where "visit_exits E complete as (q, ws, fnames, t) = Inr (q', ws', fnames', s')"
      using Cons.prems by (auto split: if_splits option.splits)
    then show ?thesis by (rule Cons.IH)
  qed
qed simp

lemma visit_exits_no_fuel: "visit_exits E complete as x \<noteq> Inl Out_of_fuel"
proof (induction as arbitrary: x)
  case (Cons a as)
  then show ?case by (cases x) (auto split: option.split)
qed simp

lemma fetch_exits_ends:
  assumes "set (map fn_id q) = set ws" "distinct (map fn_id q)" "distinct ws" "distinct complete"
    and "set ws \<inter> set complete = {}" "length complete + length ws \<le> 2" "3 \<le> n + length complete"
  shows "fetch_exits E n q ws complete fnames s \<noteq> Inl Out_of_fuel"
  using assms
proof (induction n arbitrary: q ws complete fnames s)
  case (Suc n)
  show ?case
  proof
    assume out: "fetch_exits E (Suc n) q ws complete fnames s = Inl Out_of_fuel"
    then obtain f q1 where q: "q = f # q1" and ws: "ws \<noteq> []" "fn_id f \<notin> set (freed s)"
      by (auto split: if_splits list.splits)
    with out visit_exits_no_fuel [of E complete] obtain q2 ws2 fnames2 s2
      where v: "visit_exits E complete (ret_addrs E f) (q1, ws, fnames, s) = Inr (q2, ws2, fnames2, s2)"
      and le: "length (List.insert (fn_id f) complete) + length (filter (\<lambda>i. i \<noteq> fn_id f) ws2) \<le> 2"
      and rec: "fetch_exits E n q2 (filter (\<lambda>i. i \<noteq> fn_id f) ws2) (List.insert (fn_id f) complete) fnames2 s2 = Inl Out_of_fuel"
      by (auto simp: Let_def split: if_splits)
    obtain new where new: "q2 = q1 @ new" "ws2 = rev (map fn_id new) @ ws" "distinct (map fn_id new)"
      "\<forall>g\<in>set new. fn_id g \<notin> set ws \<union> set complete"
      using visit_exits_shape [OF v] by blast
    have ws': "set ws = insert (fn_id f) (fn_id ` set q1)" and "fn_id f \<notin> fn_id ` set q1"
      using Suc.prems(1,2) q by auto
    then have f: "fn_id f \<notin> set complete" "\<forall>g\<in>set q1. fn_id g \<noteq> fn_id f"
      using Suc.prems(5) by (auto simp: image_iff)
    have new': "\<forall>g\<in>set new. fn_id g \<noteq> fn_id f \<and> fn_id g \<notin> fn_id ` set q1" using new(4) ws' by auto
    have "set (map fn_id q2) = set (filter (\<lambda>i. i \<noteq> fn_id f) ws2)"
      using f(2) new' by (auto simp: new(1,2) ws')
    moreover have "distinct (map fn_id q2)"
      using Suc.prems(2) new' new(3) unfolding q new(1) by (auto simp: image_iff) metis
    moreover have "distinct (filter (\<lambda>i. i \<noteq> fn_id f) ws2)" "distinct (List.insert (fn_id f) complete)"
      using Suc.prems(3,4) new by auto
    moreover have "set (filter (\<lambda>i. i \<noteq> fn_id f) ws2) \<inter> set (List.insert (fn_id f) complete) = {}"
      using Suc.prems(5) new by auto
    moreover have "3 \<le> n + length (List.insert (fn_id f) complete)" using Suc.prems(7) f by simp
    ultimately show False using Suc.IH le rec by blast
  qed
qed simp

text \<open>
  C24: the search for exits ends: the three rounds it is given are always enough, for any
  functions and whatever addresses they return, because it stops as soon as more than two
  functions are found.
\<close>
theorem getFPtr_ends: "getFPtr E hostptr p s \<noteq> Inl Out_of_fuel"
proof
  assume "getFPtr E hostptr p s = Inl Out_of_fuel"
  moreover have "getPointerToFunction E f t \<noteq> Inl Out_of_fuel" for f t
    by (simp add: getPointerToFunction_def takeModule_def Let_def)
  ultimately obtain f s2 where "fetch_exits E 3 [f] [fn_id f] [] [] s2 = Inl Out_of_fuel"
    by (auto simp: getFPtr_def compile_function_def Let_def split: prod.splits option.splits if_splits)
  then show False using fetch_exits_ends [of "[f]" "[fn_id f]" "[]" 3] by auto
qed

section \<open>Compiled code\<close>

lemma enter_new_fn_keeps: "map_of addrs n = Some c \<Longrightarrow> map_of (fold (enter_new_fn E) m addrs) n = Some c"
  by (induction m arbitrary: addrs) (auto simp: enter_new_fn_def map_add_Some_iff)

lemma enter_new_fn_from:
  "map_of (fold (enter_new_fn E) m addrs) n = Some c \<Longrightarrow> map_of addrs n = Some c \<or> (\<exists>g\<in>set m. fn_name g = n \<and> c = machine_code E g)"
proof (induction m arbitrary: addrs)
  case (Cons g m)
  have "map_of (enter_new_fn E g addrs) n = Some c \<Longrightarrow> map_of addrs n = Some c \<or> fn_name g = n \<and> c = machine_code E g"
    by (auto simp: enter_new_fn_def map_add_def split: if_splits option.splits)
  then show ?case using Cons.IH [of "enter_new_fn E g addrs"] Cons.prems by auto
qed simp

lemma enter_new_fn_other:
  "\<forall>g\<in>set m. fn_name g \<noteq> n \<Longrightarrow> map_of (fold (enter_new_fn E) m addrs) n = map_of addrs n"
proof (induction m arbitrary: addrs)
  case (Cons g m)
  have "map_of (enter_new_fn E g addrs) n = map_of addrs n"
    using Cons.prems by (auto simp: enter_new_fn_def map_add_def split: option.split)
  with Cons show ?case by simp
qed simp

lemma enter_new_fn_finds:
  assumes "f \<in> set m" "\<forall>g\<in>set m. fn_name g = fn_name f \<longrightarrow> g = f" "map_of addrs (fn_name f) = None"
    and "map_of (fold (enter_new_fn E) m addrs) (fn_name f) = Some c"
  shows "c = machine_code E f"
  using assms
proof (induction m arbitrary: addrs)
  case (Cons g m)
  show ?case
  proof (cases "map_of (enter_new_fn E g addrs) (fn_name f)")
    case None
    show ?thesis
    proof (cases "f \<in> set m")
      case True
      then show ?thesis using Cons.IH [of "enter_new_fn E g addrs"] None Cons.prems by simp
    next
      case False
      then have "\<forall>h\<in>set m. fn_name h \<noteq> fn_name f" using Cons.prems(2) by auto
      from enter_new_fn_other [OF this] show ?thesis using Cons.prems(4) None by simp
    qed
  next
    case (Some d)
    have "fn_name g = fn_name f"
      using Some Cons.prems(3) by (auto simp: enter_new_fn_def map_add_def split: if_splits)
    then have "g = f" using Cons.prems(2) by simp
    then have "d = machine_code E f"
      using Some Cons.prems(3) by (simp add: enter_new_fn_def map_add_def split: if_splits)
    then show ?thesis using Cons.prems(4) enter_new_fn_keeps [OF Some, of E m] by simp
  qed
qed simp

lemma getPointerToFunction_ok:
  assumes s: "jit_ok s" and r: "getPointerToFunction E f s = Inr (c, s')" and c: "c \<noteq> 0"
  shows "jit_ok s' \<and> gen_mod s' = [] \<and> func_cache s' = func_cache s \<and> jit_cache s' = jit_cache s \<and> jit_dc s' = jit_dc s \<and>
    map_of (func_addrs s') (fn_name f) = Some c \<and>
    (\<forall>n d. map_of (func_addrs s) n = Some d \<longrightarrow> map_of (func_addrs s') n = Some d) \<and>
    (\<forall>d. map_of (func_addrs s) (fn_name f) = Some d \<longrightarrow> d \<noteq> 0 \<longrightarrow> c = d)"
proof -
  define addrs where "addrs = func_addrs s'"
  have s': "s' = s\<lparr>gen_mod := [], freed := map fn_id (gen_mod s) @ freed s, func_addrs := addrs\<rparr>"
    and addrs: "addrs = func_addrs s \<or> addrs = fold (enter_new_fn E) (gen_mod s) (func_addrs s)"
    and name: "map_of addrs (fn_name f) = Some c"
    using r c unfolding addrs_def
    by (auto simp: getPointerToFunction_def takeModule_def destroy_def mod_to_engine_def getPointerToNamedFunction_def
        Let_def split: if_splits option.splits)
  have mono: "\<And>n d. map_of (func_addrs s) n = Some d \<Longrightarrow> map_of addrs n = Some d"
    using addrs enter_new_fn_keeps by metis
  have "code_ok s'" using s mono unfolding jit_ok_def code_ok_def s' by (simp, blast)
  moreover have "gone_ok s'" using s by (auto simp: jit_ok_def gone_ok_def s')
  ultimately have "jit_ok s'"
    using s by (auto simp: jit_ok_def blocks_ok_def funcs_ok_def names_ok_def s')
  then show ?thesis using name mono by (auto simp: s')
qed

lemma fold_map_insert:
  fixes g :: "'n \<Rightarrow> 'v"
  assumes "map_ok m"
  shows "map_ok (fold (\<lambda>(a, n). map_insert a (g n)) xs m) \<and>
    (\<forall>k. k \<notin> fst ` set xs \<longrightarrow> map_of (fold (\<lambda>(a, n). map_insert a (g n)) xs m) k = map_of m k) \<and>
    (\<forall>k v. map_of (fold (\<lambda>(a, n). map_insert a (g n)) xs m) k = Some v \<longrightarrow>
       map_of m k = Some v \<or> (\<exists>n. (k, n) \<in> set xs \<and> v = g n))"
  using assms
proof (induction xs arbitrary: m)
  case (Cons x xs)
  obtain a n where x: "x = (a, n)" by (cases x)
  have "map_ok (map_insert a (g n) m)" using Cons.prems by simp
  from Cons.IH [OF this] show ?case
    by (auto simp: x map_of_insert [OF Cons.prems] split: if_splits)
qed simp

lemma getFPtr_path:
  assumes s: "jit_ok s" and r: "getFPtr E h p s = Inr (c, s')"
    and new: "(case map_of (jit_cache s) p of None \<Rightarrow> 0 | Some c \<Rightarrow> c) = 0"
  obtains f fnames s3 s4 where "jit_ok s3" "engine_kept s s3" "map_of (func_cache s3) p = Some f"
    "fn_name f = sb_name p" "\<forall>v. map_of (vexsb_cache s) p = Some v \<longrightarrow> fn_sb f = v"
    "\<forall>x\<in>set fnames. map_of (func_cache s3) (fst x) \<noteq> None \<and> map_of (jit_cache s3) (fst x) = None \<and> snd x = sb_name (fst x)"
    "getPointerToFunction E f s3 = Inr (c, s4)" "c \<noteq> 0"
    "s' = s4\<lparr>jit_cache := map_insert p c
        (fold (\<lambda>(a, n). map_insert a (getPointerToNamedFunction s4 n)) (sort_key fst fnames) (jit_cache s4)),
      jit_dc := dc_put p (Some c) (jit_dc s4)\<rparr>"
proof -
  obtain d where d: "getCachedFPtr p s = (0, s\<lparr>jit_dc := d\<rparr>)" "jit_ok (s\<lparr>jit_dc := d\<rparr>)"
    using s new by (metis jit_getCachedFPtr)
  obtain f s2 where g: "getFunc E jit_evict h p (s\<lparr>jit_dc := d\<rparr>) = Inr (Some f, s2)"
    and k: "compile_function E h p f s2 = Inr (c, s')"
    using r by (auto simp: getFPtr_def d(1) split: option.splits)
  then obtain fnames s3 s4
    where x: "(if h = p then fetch_exits E 3 [f] [fn_id f] [] [] s2 else Inr ([], s2)) = Inr (fnames, s3)"
    and e: "getPointerToFunction E f s3 = Inr (c, s4)" "c \<noteq> 0"
    and s': "s' = s4\<lparr>jit_cache := map_insert p c
        (fold (\<lambda>(a, n). map_insert a (getPointerToNamedFunction s4 n)) (sort_key fst fnames) (jit_cache s4)),
      jit_dc := dc_put p (Some c) (jit_dc s4)\<rparr>"
    by (auto simp: compile_function_def Let_def split: if_splits)
  note ok2 = jit_getFunc [OF d(2) g]
  have ok3: "jit_ok s3 \<and> engine_kept s2 s3 \<and> (\<forall>x\<in>set fnames. map_of (func_cache s3) (fst x) \<noteq> None \<and>
      map_of (jit_cache s3) (fst x) = None \<and> snd x = sb_name (fst x))"
    using x ok2 fetch_exits_ok [of s2 E 3 "[f]" "[fn_id f]" "[]" "[]" fnames s3] by (auto split: if_splits)
  have f: "map_of (func_cache s3) p = Some f" using ok2 ok3 by (auto simp: engine_kept_def)
  then have name: "fn_name f = sb_name p" using ok3 by (auto simp: jit_ok_def names_ok_def)
  have kept: "engine_kept s s3" using ok2 ok3 by (auto simp: engine_kept_def)
  have sb: "\<forall>v. map_of (vexsb_cache s) p = Some v \<longrightarrow> fn_sb f = v" using jit_getFunc_sb [OF d(2) _ g] by simp
  show thesis
    by (rule that [OF _ kept f name sb _ e s']) (use ok3 in blast)+
qed

lemma getFPtr_ok:
  assumes s: "jit_ok s" and m: "gen_mod s = []" and r: "getFPtr E h p s = Inr (c, s')"
  shows "jit_ok s' \<and> gen_mod s' = [] \<and> c \<noteq> 0 \<and> map_of (func_addrs s') (sb_name p) = Some c \<and>
    map_of (func_cache s') p \<noteq> None \<and> map_of (jit_cache s') p = Some c \<and>
    (\<forall>n d. map_of (func_addrs s) n = Some d \<longrightarrow> map_of (func_addrs s') n = Some d) \<and>
    (\<forall>d. map_of (func_addrs s) (sb_name p) = Some d \<longrightarrow> d \<noteq> 0 \<longrightarrow> c = d)"
proof -
  obtain d where d: "getCachedFPtr p s = ((case map_of (jit_cache s) p of None \<Rightarrow> 0 | Some c \<Rightarrow> c), s\<lparr>jit_dc := d\<rparr>)"
    "jit_ok (s\<lparr>jit_dc := d\<rparr>)"
    using s by (rule jit_getCachedFPtr)
  let ?s1 = "s\<lparr>jit_dc := d\<rparr>"
  show ?thesis
  proof (cases "(case map_of (jit_cache s) p of None \<Rightarrow> 0 | Some c \<Rightarrow> c) = 0")
    case False
    then have c: "map_of (jit_cache s) p = Some c" "c \<noteq> 0" "s' = ?s1"
      using r by (auto simp: getFPtr_def d(1) split: option.splits)
    then have "map_of (func_addrs s) (sb_name p) = Some c" using s by (auto simp: jit_ok_defs)
    then show ?thesis using c d(2) m code_okD [OF s c(1)] by auto
  next
    case True
    obtain f fnames s3 s4 where ok3: "jit_ok s3" "engine_kept s s3"
      and f: "map_of (func_cache s3) p = Some f" and name: "fn_name f = sb_name p"
      and fnames: "\<forall>x\<in>set fnames. map_of (func_cache s3) (fst x) \<noteq> None \<and> map_of (jit_cache s3) (fst x) = None \<and> snd x = sb_name (fst x)"
      and e: "getPointerToFunction E f s3 = Inr (c, s4)" and c: "c \<noteq> 0"
      and s': "s' = s4\<lparr>jit_cache := map_insert p c
          (fold (\<lambda>(a, n). map_insert a (getPointerToNamedFunction s4 n)) (sort_key fst fnames) (jit_cache s4)),
        jit_dc := dc_put p (Some c) (jit_dc s4)\<rparr>"
      using s r True by (rule getFPtr_path)
    have addrs: "func_addrs s3 = func_addrs s" using ok3(2) by (simp add: engine_kept_def)
    have ok4: "jit_ok s4" "gen_mod s4 = []" "func_cache s4 = func_cache s3" "jit_cache s4 = jit_cache s3"
      "map_of (func_addrs s4) (sb_name p) = Some c"
      "\<forall>n d. map_of (func_addrs s3) n = Some d \<longrightarrow> map_of (func_addrs s4) n = Some d"
      "\<forall>d. map_of (func_addrs s3) (sb_name p) = Some d \<longrightarrow> d \<noteq> 0 \<longrightarrow> c = d"
      using getPointerToFunction_ok [OF ok3(1) e c] name by auto
    define m1 where "m1 = fold (\<lambda>(a, n). map_insert a (getPointerToNamedFunction s4 n)) (sort_key fst fnames) (jit_cache s4)"
    have s'': "s' = s4\<lparr>jit_cache := map_insert p c m1, jit_dc := dc_put p (Some c) (jit_dc s4)\<rparr>"
      by (simp add: s' m1_def)
    have m1: "map_ok m1" "\<And>k. k \<notin> fst ` set fnames \<Longrightarrow> map_of m1 k = map_of (jit_cache s4) k"
      "\<And>k v. map_of m1 k = Some v \<Longrightarrow> map_of (jit_cache s4) k = Some v \<or> (\<exists>n. (k, n) \<in> set fnames \<and> v = getPointerToNamedFunction s4 n)"
      using fold_map_insert [of "jit_cache s4" "getPointerToNamedFunction s4" "sort_key fst fnames"] ok4(1)
      by (auto simp: m1_def jit_ok_defs)
    have sub: "map_of (jit_cache s4) \<subseteq>\<^sub>m map_of m1"
      unfolding map_le_def
    proof
      fix k assume "k \<in> dom (map_of (jit_cache s4))"
      then have "k \<notin> fst ` set fnames" using fnames ok4(4) by auto
      then show "map_of (jit_cache s4) k = map_of m1 k" using m1(2) by simp
    qed
    have "code_ok s'"
    proof -
      have "dc_get (jit_dc s4) \<subseteq>\<^sub>m map_of m1"
        using ok4(1) sub by (auto simp: jit_ok_defs intro: map_le_trans)
      moreover have "map_of (func_cache s4) k \<noteq> None \<and> (v = 0 \<or> map_of (func_addrs s4) (sb_name k) = Some v)"
        if "map_of m1 k = Some v" for k v
        using m1(3) [OF that]
      proof
        assume "map_of (jit_cache s4) k = Some v"
        then show ?thesis using ok4(1) unfolding jit_ok_def code_ok_def by blast
      next
        assume "\<exists>n. (k, n) \<in> set fnames \<and> v = getPointerToNamedFunction s4 n"
        then obtain n where n: "(k, n) \<in> set fnames" "v = getPointerToNamedFunction s4 n" by auto
        then have "n = sb_name k" "map_of (func_cache s3) k \<noteq> None" using fnames by auto
        then show ?thesis using n ok4(3) by (auto simp: getPointerToNamedFunction_def split: option.split)
      qed
      ultimately show ?thesis using f ok4 m1(1)
        by (auto simp: code_ok_def s'' map_of_insert fronted.put_upd)
    qed
    then have "jit_ok s'" using ok4(1) by (auto simp: jit_ok_def blocks_ok_def funcs_ok_def names_ok_def gone_ok_def s'')
    then show ?thesis using ok4 c f addrs m1(1) by (auto simp: s'' map_of_insert)
  qed
qed

section \<open>Flushing\<close>

lemma jit_flush_ok: "jit_ok s \<Longrightarrow> gen_mod s = [] \<Longrightarrow> jit_ok (jit_flush s) \<and> gen_mod (jit_flush s) = []"
  by (auto simp: jit_ok_defs jit_flush_def flush_def map_le_def dom_def)

lemma jit_flush_range_eq:
  assumes s: "jit_ok s" and m: "gen_mod s = []"
    and v: "map_range b e (vexsb_cache s) = Inr xs" and f: "map_range b e (func_cache s) = Inr fs"
  shows "jit_flush_range b e s =
    (if fs = [] then Inr (s\<lparr>vexsb_dc := fold (\<lambda>k. dc_put k None) (map fst xs) (vexsb_dc s),
                            vexsb_cache := fold map_erase (map fst xs) (vexsb_cache s)\<rparr>)
     else Inl Use_after_free)"
proof (cases fs)
  case Nil
  then show ?thesis using v f by (simp add: jit_flush_range_def flush_range_def Let_def)
next
  case (Cons x fs')
  have ok: "map_ok (func_cache s)" using s by (simp add: jit_ok_defs)
  have "x \<in> set fs" using Cons by simp
  then have "x \<in> set (func_cache s)" using map_range_filter [OF ok f] by simp
  then have "map_of (func_cache s) (fst x) = Some (snd x)" using ok by (simp add: map_of_eq_Some)
  then have "fn_id (snd x) \<in> set (freed s)" using s m by (auto simp: jit_ok_defs)
  then show ?thesis using v f Cons
    by (simp add: jit_flush_range_def flush_range_def Let_def eraseFromParent_def)
qed

lemma jit_flush_range_ok:
  assumes s: "jit_ok s" and m: "gen_mod s = []" and r: "jit_flush_range b e s = Inr s'"
  shows "jit_ok s' \<and> gen_mod s' = [] \<and> func_addrs s' = func_addrs s"
proof -
  obtain xs fs where v: "map_range b e (vexsb_cache s) = Inr xs" and f: "map_range b e (func_cache s) = Inr fs"
    using r by (auto simp: jit_flush_range_def flush_range_def Let_def)
  then have fs: "fs = []" and s': "s' = s\<lparr>vexsb_dc := fold (\<lambda>k. dc_put k None) (map fst xs) (vexsb_dc s),
      vexsb_cache := fold map_erase (map fst xs) (vexsb_cache s)\<rparr>"
    using jit_flush_range_eq [OF s m v f] r by (auto split: if_splits)
  have ok: "map_ok (vexsb_cache s)" "map_ok (func_cache s)" using s by (auto simp: jit_ok_defs)
  have cache: "vexsb_cache s' = filter (\<lambda>x. \<not> (b \<le> fst x \<and> fst x \<le> e)) (vexsb_cache s)"
    using map_range_filter [OF ok(1) v] fold_map_erase_range [of "\<lambda>p. b \<le> p \<and> p \<le> e"] by (simp add: s')
  have none: "\<not> (b \<le> p \<and> p \<le> e)" if "map_of (func_cache s) p = Some g" for p g
  proof -
    have "filter (\<lambda>x. b \<le> fst x \<and> fst x \<le> e) (func_cache s) = []"
      using map_range_filter [OF ok(2) f] fs by simp
    then show ?thesis using that by (auto simp: filter_empty_conv dest!: map_of_SomeD)
  qed
  have "blocks_ok s'"
    unfolding blocks_ok_def cache using s ok(1) length_filter_le [of "\<lambda>x. \<not> (b \<le> fst x \<and> fst x \<le> e)" "vexsb_cache s"]
      fronted.erase_all [of "vexsb_cache s" "vexsb_dc s" "map fst xs"] cache
    by (auto simp: jit_ok_defs s' simp del: length_filter_le)
  moreover have "funcs_ok s'"
    using s none unfolding funcs_ok_def cache
    by (auto simp: jit_ok_defs s' map_of_filter_key [where P = "\<lambda>p. b \<le> p \<longrightarrow> \<not> p \<le> e"])
  ultimately have "jit_ok s'" using s by (auto simp: jit_ok_def names_ok_def gone_ok_def code_ok_def s')
  then show ?thesis using m by (simp add: s')
qed

section \<open>Every state of the cache\<close>

inductive jit_step :: "'c translator \<Rightarrow> 'c VexJITCache \<Rightarrow> 'c VexJITCache \<Rightarrow> bool" for E where
  jit_vsb: "getVSB E jit_evict h p s = Inr (v, s') \<Longrightarrow> jit_step E s s'"
| jit_fptr: "getFPtr E h p s = Inr (c, s') \<Longrightarrow> jit_step E s s'"
| jit_cached: "getCachedFPtr p s = (c, s') \<Longrightarrow> jit_step E s s'"
| jit_out: "jit_evict p s = Inr s' \<Longrightarrow> jit_step E s s'"
| jit_flush_all: "jit_flush s = s' \<Longrightarrow> jit_step E s s'"
| jit_flush_some: "jit_flush_range b e s = Inr s' \<Longrightarrow> jit_step E s s'"
| jit_set_max: "setMaxCache jit_flush x s = s' \<Longrightarrow> jit_step E s s'"

lemma setMax_jit_ok:
  assumes s: "jit_ok s" and m: "gen_mod s = []"
  shows "jit_ok (setMaxCache jit_flush x s) \<and> gen_mod (setMaxCache jit_flush x s) = [] \<and>
    func_addrs (setMaxCache jit_flush x s) = func_addrs s"
proof (cases "x < max_cache_ents s")
  case True
  then show ?thesis using jit_flush_ok [OF s m]
    by (auto simp: setMaxCache_def jit_ok_defs jit_flush_def flush_def)
next
  case False
  then have "unat (max_cache_ents s) \<le> unat x" by (simp add: word_le_nat_alt not_less)
  with s m False show ?thesis by (auto simp: setMaxCache_def jit_ok_defs)
qed

lemma jit_step_ok:
  "jit_step E s s' \<Longrightarrow> jit_ok s \<Longrightarrow> gen_mod s = [] \<Longrightarrow>
   jit_ok s' \<and> gen_mod s' = [] \<and> (\<forall>n d. map_of (func_addrs s) n = Some d \<longrightarrow> map_of (func_addrs s') n = Some d)"
proof (induction rule: jit_step.induct)
  case (jit_vsb h p s v s')
  then show ?case using jit_getVSB by (fastforce simp: code_kept_def)
next
  case (jit_fptr h p s c s')
  then show ?case using getFPtr_ok [of s E h p c s'] by auto
next
  case (jit_cached p s c s')
  from jit_cached.prems(1) show ?case by (rule jit_getCachedFPtr [of s p]) (use jit_cached in auto)
next
  case (jit_out p s s')
  then show ?case using jit_evict_ok [of s p s'] by (auto simp: code_kept_def)
next
  case (jit_flush_all s s')
  then show ?case using jit_flush_ok [of s] by (auto simp: jit_flush_def flush_def)
next
  case (jit_flush_some b e s s')
  then show ?case using jit_flush_range_ok [of s b e s'] by auto
next
  case (jit_set_max x s s')
  then show ?case using setMax_jit_ok [of s x] by auto
qed

lemma jit_steps_ok:
  assumes "(jit_step E)\<^sup>*\<^sup>* s s'" and "jit_ok s" and "gen_mod s = []"
  shows "jit_ok s' \<and> gen_mod s' = [] \<and> (\<forall>n d. map_of (func_addrs s) n = Some d \<longrightarrow> map_of (func_addrs s') n = Some d)"
  using assms by (induction rule: rtranclp_induct) (auto dest!: jit_step_ok)

lemma new_VexJITCache_ok: "jit_ok new_VexJITCache \<and> gen_mod new_VexJITCache = []"
  by (auto simp: jit_ok_defs new_VexJITCache_def new_VexFCache_def VexFCache.defs map_le_def dom_def)

lemma jit_reach_ok: "(jit_step E)\<^sup>*\<^sup>* new_VexJITCache s \<Longrightarrow> jit_ok s \<and> gen_mod s = []"
  using jit_steps_ok new_VexJITCache_ok by blast

text \<open>
  C25: the code of a block is compiled once and for all. Once the cache has given out code
  for an address, it gives out that same code for the address ever after, whatever was
  flushed or evicted in between and whatever the address was translated to anew, since
  the engine keeps the code under the name of the function, which is the address.
\<close>
theorem compiled_code_never_replaced:
  assumes "(jit_step E)\<^sup>*\<^sup>* new_VexJITCache s" and "getFPtr E h p s = Inr (c, s1)"
    and "(jit_step E)\<^sup>*\<^sup>* s1 s2" and "getFPtr E h' p s2 = Inr (d, s3)"
  shows "d = c"
proof -
  have s: "jit_ok s" "gen_mod s = []" using jit_reach_ok [OF assms(1)] by auto
  note first = getFPtr_ok [OF s assms(2)]
  have "jit_ok s2" "gen_mod s2 = []" "map_of (func_addrs s2) (sb_name p) = Some c"
    using jit_steps_ok [OF assms(3)] first by auto
  then show ?thesis using getFPtr_ok [OF _ _ assms(4)] first by auto
qed

text \<open>
  C26: a flush of a range frees memory that is freed already exactly if a function in the
  range was generated, since the engine that compiled it has deleted it; and so does the
  eviction of a block that has a function.
\<close>
theorem jit_flush_range_faults:
  assumes "(jit_step E)\<^sup>*\<^sup>* new_VexJITCache s" and "b \<le> e"
  shows "(jit_flush_range b e s = Inl Use_after_free \<longleftrightarrow> (\<exists>q. b \<le> q \<and> q \<le> e \<and> fst (getCachedFunc q s) \<noteq> None)) \<and>
    (jit_evict p s = Inl Use_after_free \<longleftrightarrow> fst (getCachedFunc p s) \<noteq> None)"
proof -
  have s: "jit_ok s" "gen_mod s = []" using jit_reach_ok [OF assms(1)] by auto
  have look: "fst (getCachedFunc q s) = map_of (func_cache s) q" for q
    using jit_getCachedFunc [OF s(1), of q] by (metis fst_conv)
  have ok: "map_ok (vexsb_cache s)" "map_ok (func_cache s)" using s by (auto simp: jit_ok_defs)
  have "filter (\<lambda>x. b \<le> fst x \<and> fst x \<le> e) (func_cache s) \<noteq> [] \<longleftrightarrow>
      (\<exists>q. b \<le> q \<and> q \<le> e \<and> map_of (func_cache s) q \<noteq> None)"
    by (force simp: filter_empty_conv map_of_eq_Some [OF ok(2)])
  moreover have "jit_evict p s \<noteq> Inl Use_after_free" if "map_of (func_cache s) p = None"
  proof -
    obtain d where d: "getCachedFunc p s = (None, s\<lparr>func_dc := d\<rparr>)" "jit_ok (s\<lparr>func_dc := d\<rparr>)"
      by (rule jit_getCachedFunc [OF s(1), of p]) (auto simp: \<open>map_of (func_cache s) p = None\<close>)
    let ?s1 = "s\<lparr>func_dc := d, jit_cache := map_erase p (jit_cache s), jit_dc := dc_put p None (jit_dc s)\<rparr>"
    have "funcs_ok ?s1" using d(2) by (simp add: jit_ok_def funcs_ok_def)
    then obtain c where "getCachedFunc p ?s1 = (None, ?s1\<lparr>func_dc := c\<rparr>)"
      by (rule getCachedFunc_eq [of ?s1 p]) (auto simp: \<open>map_of (func_cache s) p = None\<close>)
    then have "evict p ?s1 \<noteq> Inl Use_after_free" by (simp add: evict_def split: prod.split)
    then show ?thesis by (simp add: jit_evict_def d(1))
  qed
  ultimately show ?thesis
    using jit_flush_range_eq [OF s map_range_ok [OF ok(1) assms(2)] map_range_ok [OF ok(2) assms(2)]]
      jit_evict_faults [OF s(1), of p] by (auto simp: look)
qed

text \<open>
  The first code given out for an address is the machine code of the function that is
  cached for it, which was generated from the block cached at this address.
\<close>
theorem first_code_is_the_blocks:
  assumes "(jit_step E)\<^sup>*\<^sup>* new_VexJITCache s" and "map_of (func_addrs s) (sb_name p) = None"
    and "getFPtr E h p s = Inr (c, s')"
  shows "\<exists>f. fst (getCachedFunc p s') = Some f \<and> c = machine_code E f \<and>
    fst (getCachedVSB p s') = Some (fn_sb f) \<and> guest_addr (fn_sb f) = p \<and> fst (getCachedFPtr p s') = c"
proof -
  have s: "jit_ok s" "gen_mod s = []" using jit_reach_ok [OF assms(1)] by auto
  have "(case map_of (jit_cache s) p of None \<Rightarrow> 0 | Some c \<Rightarrow> c) = 0"
    using code_okD2 [OF s(1)] assms(2) by (cases "map_of (jit_cache s) p") force+
  with s(1) assms(3) obtain f fnames s3 s4 where ok3: "jit_ok s3" "engine_kept s s3"
    and f: "map_of (func_cache s3) p = Some f" and name: "fn_name f = sb_name p"
    and e: "getPointerToFunction E f s3 = Inr (c, s4)" "c \<noteq> 0" and s': "func_cache s' = func_cache s4"
    by (rule getFPtr_path) auto
  have new: "map_of (func_addrs s3) (fn_name f) = None" using ok3(2) name assms(2) by (simp add: engine_kept_def)
  then have c: "map_of (fold (enter_new_fn E) (gen_mod s3) (func_addrs s3)) (fn_name f) = Some c"
    and alive: "fn_id f \<notin> set (freed s3)"
    using e by (auto simp: getPointerToFunction_def takeModule_def mod_to_engine_def getPointerToNamedFunction_def Let_def
        split: if_splits option.splits)
  have "f \<in> set (gen_mod s3)" using ok3(1) f alive by (auto simp: jit_ok_defs)
  moreover have "\<forall>g\<in>set (gen_mod s3). fn_name g = fn_name f \<longrightarrow> g = f"
    using ok3(1) f name by (auto simp: jit_ok_defs)
  ultimately have "c = machine_code E f"
    using enter_new_fn_finds [OF _ _ new c] by auto
  moreover have ok': "jit_ok s'" "map_of (jit_cache s') p = Some c" using getFPtr_ok [OF s assms(3)] by auto
  moreover have f': "map_of (func_cache s') p = Some f" using getPointerToFunction_ok [OF ok3(1) e] f s' by simp
  then have v: "map_of (vexsb_cache s') p = Some (fn_sb f)" using ok'(1) by (simp add: jit_ok_defs)
  moreover have "guest_addr (fn_sb f) = p"
    using ok'(1) map_of_SomeD [OF v] by (fastforce simp: jit_ok_defs)
  moreover have "fst (getCachedFunc p s') = map_of (func_cache s') p" "fst (getCachedVSB p s') = map_of (vexsb_cache s') p"
    "fst (getCachedFPtr p s') = (case map_of (jit_cache s') p of None \<Rightarrow> 0 | Some c \<Rightarrow> c)"
    by (metis fst_conv jit_getCachedFunc [OF ok'(1)], metis fst_conv jit_getCachedVSB [OF ok'(1)], metis fst_conv jit_getCachedFPtr [OF ok'(1)])
  ultimately show ?thesis using f' by simp
qed

lemmas jit_run = fcache_run getFPtr_def compile_function_def getCachedFPtr_def getPointerToFunction_def takeModule_def
  destroy_def mod_to_engine_def enter_new_fn_def getPointerToNamedFunction_def jit_flush_def flush_def
  new_VexJITCache_def VexFCache.defs numeral_3_eq_3 sb_name_def hex_of.simps

lemma counting_jit:
  "\<exists>s s'. getFPtr counting 4 4 new_VexJITCache = Inr (0x1000, s) \<and> map_of (func_cache s) 4 \<noteq> None \<and>
     getFPtr counting 4 4 (jit_flush s) = Inr (0x1000, s')"
  by (simp add: jit_run)

theorem compiled_code_never_replaced_witness:
  "\<exists>s d s'. getFPtr counting 4 4 new_VexJITCache = Inr (0x1000, s) \<and>
     getFPtr counting 4 4 (jit_flush s) = Inr (d, s') \<and> d = 0x1000"
proof -
  obtain s d s' where f: "getFPtr counting 4 4 new_VexJITCache = Inr (0x1000, s)"
    and g: "getFPtr counting 4 4 (jit_flush s) = Inr (d, s')"
    using counting_jit by blast
  have "(jit_step counting)\<^sup>*\<^sup>* s (jit_flush s)" by (blast intro: jit_step.jit_flush_all)
  then show ?thesis using compiled_code_never_replaced [OF rtranclp.rtrancl_refl f _ g] f g by blast
qed

theorem jit_flush_range_faults_witness:
  "\<exists>s. (jit_step counting)\<^sup>*\<^sup>* new_VexJITCache s \<and> jit_flush_range 0 8 s = Inl Use_after_free \<and>
     jit_evict 4 s = Inl Use_after_free"
proof -
  obtain s where f: "getFPtr counting 4 4 new_VexJITCache = Inr (0x1000, s)" and m: "map_of (func_cache s) 4 \<noteq> None"
    using counting_jit by blast
  then have r: "(jit_step counting)\<^sup>*\<^sup>* new_VexJITCache s" by (blast intro: jit_step.jit_fptr)
  then have "fst (getCachedFunc 4 s) \<noteq> None"
    using m jit_getCachedFunc [of s 4] jit_reach_ok by (metis fst_conv)
  then show ?thesis using jit_flush_range_faults [OF r, of 0 8 4] r by fastforce
qed

theorem first_code_is_the_blocks_witness:
  "\<exists>s f. getFPtr counting 4 4 new_VexJITCache = Inr (0x1000, s) \<and> fst (getCachedFunc 4 s) = Some f \<and>
     machine_code counting f = 0x1000"
proof -
  obtain s where f: "getFPtr counting 4 4 new_VexJITCache = Inr (0x1000, s)"
    using counting_jit by blast
  have "map_of (func_addrs new_VexJITCache) (sb_name 4) = None"
    by (simp add: new_VexJITCache_def VexFCache.defs)
  from first_code_is_the_blocks [OF rtranclp.rtrancl_refl this f] f show ?thesis by metis
qed

end
