(* ===== verification/Fragcache.thy ===== *)
theory Fragcache
  imports Containers "HOL-Library.List_Lexorder"
begin

text \<open>
  The store of code fragments (fragcache.h, fragcache.cc): one sorted file per fragment
  length with a buffer of new fragments in front of it, a table of hashes, and the
  directory that holds them. A file is its bytes; the mapping of a file is shared, so it
  is the first \<open>f_mmap_sz\<close> bytes of the file, or nothing. Failing reads, writes and
  mappings end the program by an assertion and are left out.
\<close>

section \<open>The C library\<close>

text \<open>\<open>memcmp\<close>, by its sign, for buffers of the same size; \<open>qsort\<close> by it is \<open>sort\<close>.\<close>

fun memcmp :: "bytes \<Rightarrow> bytes \<Rightarrow> int" where
  "memcmp (x # xs) (y # ys) = (if x = y then memcmp xs ys else uint x - uint y)"
| "memcmp _ _ = 0"

function bsearch_loop :: "('a \<Rightarrow> int) \<Rightarrow> 'a list \<Rightarrow> nat \<Rightarrow> nat \<Rightarrow> nat option" where
  "bsearch_loop cmp xs l u =
     (if l < u then
        let idx = (l + u) div 2; c = cmp (xs ! idx) in
        if c < 0 then bsearch_loop cmp xs l idx
        else if c > 0 then bsearch_loop cmp xs (idx + 1) u
        else Some idx
      else None)"
  by pat_completeness auto
termination by (relation "measure (\<lambda>(cmp, xs, l, u). u - l)") auto

declare bsearch_loop.simps [simp del]

definition bsearch :: "('a \<Rightarrow> int) \<Rightarrow> 'a list \<Rightarrow> nat option" where
  "bsearch cmp xs = bsearch_loop cmp xs 0 (length xs)"

text \<open>The records of a file, \<open>n\<close> bytes each.\<close>

definition records :: "nat \<Rightarrow> bytes \<Rightarrow> bytes list" where
  "records n b = map (\<lambda>i. take n (drop (i * n) b)) [0..<length b div n]"

lemma memcmp_sign:
  "length xs = length ys \<Longrightarrow> memcmp xs ys < 0 \<longleftrightarrow> xs < ys"
  "length xs = length ys \<Longrightarrow> memcmp xs ys > 0 \<longleftrightarrow> ys < xs"
  "length xs = length ys \<Longrightarrow> memcmp xs ys = 0 \<longleftrightarrow> xs = ys"
  by (induction xs ys rule: memcmp.induct) (auto simp: word_less_def word_uint_eq_iff)

text \<open>
  What \<open>bsearch\<close> needs of the array: the comparison does not grow along it. Then it
  finds an index where the comparison is zero, if there is one.
\<close>

lemma bsearch_loop_Some: "bsearch_loop cmp xs l u = Some i \<Longrightarrow> cmp (xs ! i) = 0 \<and> l \<le> i \<and> i < u"
proof (induction cmp xs l u rule: bsearch_loop.induct)
  case (1 cmp xs l u)
  show ?case
  proof (cases "l < u")
    case True
    let ?m = "(l + u) div 2"
    have m: "l \<le> ?m" "?m < u" using True by auto
    consider "cmp (xs ! ?m) < 0" "bsearch_loop cmp xs l ?m = Some i"
      | "cmp (xs ! ?m) > 0" "bsearch_loop cmp xs (?m + 1) u = Some i" | "cmp (xs ! ?m) = 0" "i = ?m"
      using 1(3) True by (subst (asm) bsearch_loop.simps) (auto simp: Let_def split: if_splits)
    then show ?thesis
    proof cases
      case 1
      then show ?thesis using "1.IH"(1) [OF True refl refl] m by auto
    next
      case 2
      then have "\<not> cmp (xs ! ?m) < 0" by simp
      then show ?thesis using "1.IH"(2) [OF True refl refl _ 2] m by auto
    next
      case 3
      then show ?thesis using m by simp
    qed
  qed (use 1(3) in \<open>simp add: bsearch_loop.simps\<close>)
qed

lemma bsearch_loop_None:
  assumes "bsearch_loop cmp xs l u = None" and "u \<le> length xs"
    and "\<And>i j. i \<le> j \<Longrightarrow> j < length xs \<Longrightarrow> sgn (cmp (xs ! j)) \<le> sgn (cmp (xs ! i))"
  shows "\<forall>i. l \<le> i \<and> i < u \<longrightarrow> cmp (xs ! i) \<noteq> 0"
  using assms
proof (induction cmp xs l u rule: bsearch_loop.induct)
  case (1 cmp xs l u)
  show ?case
  proof (cases "l < u")
    case True
    let ?m = "(l + u) div 2"
    have m: "l \<le> ?m" "?m < u" using True by auto
    consider "cmp (xs ! ?m) < 0" "bsearch_loop cmp xs l ?m = None"
      | "cmp (xs ! ?m) > 0" "bsearch_loop cmp xs (?m + 1) u = None"
      using 1(3) True by (subst (asm) bsearch_loop.simps) (auto simp: Let_def split: if_splits)
    then show ?thesis
    proof cases
      case 1
      have "cmp (xs ! i) < 0" if "?m \<le> i" "i < u" for i
        using "1.prems"(3) [of ?m i] that 1(1) \<open>u \<le> length xs\<close> by (auto simp: sgn_if split: if_splits)
      moreover have "\<forall>i. l \<le> i \<and> i < ?m \<longrightarrow> cmp (xs ! i) \<noteq> 0"
        using "1.IH"(1) [OF True refl refl 1] "1.prems"(2,3) m by simp
      ultimately show ?thesis by (metis less_irrefl not_less)
    next
      case 2
      have "cmp (xs ! i) > 0" if "i \<le> ?m" for i
        using "1.prems"(3) [of i ?m] that 2(1) m \<open>u \<le> length xs\<close> by (auto simp: sgn_if split: if_splits)
      moreover have "\<forall>i. ?m + 1 \<le> i \<and> i < u \<longrightarrow> cmp (xs ! i) \<noteq> 0"
        using "1.IH"(2) [OF True refl refl _ 2(1)] 2 "1.prems"(2,3) by simp
      ultimately show ?thesis by (metis Suc_eq_plus1 less_irrefl not_less_eq_eq)
    qed
  qed simp
qed

lemma bsearch_sorted:
  assumes "sorted xs" and "\<forall>x\<in>set xs. length x = length k"
  shows "bsearch (memcmp k) xs \<noteq> None \<longleftrightarrow> k \<in> set xs"
    and "bsearch (memcmp k) xs = Some i \<Longrightarrow> i < length xs \<and> xs ! i = k"
proof -
  have sgn: "sgn (memcmp k (xs ! j)) \<le> sgn (memcmp k (xs ! i))" if "i \<le> j" "j < length xs" for i j
  proof -
    have "xs ! i \<le> xs ! j" using assms(1) that by (rule sorted_nth_mono)
    moreover have "length k = length (xs ! i)" "length k = length (xs ! j)" using assms(2) that by auto
    ultimately show ?thesis
      using memcmp_sign [of k "xs ! i"] memcmp_sign [of k "xs ! j"] by (auto simp: sgn_if)
  qed
  show found: "bsearch (memcmp k) xs = Some i \<Longrightarrow> i < length xs \<and> xs ! i = k" for i
    using bsearch_loop_Some [of "memcmp k" xs 0 "length xs" i] memcmp_sign(3) [of k "xs ! i"] assms(2)
    by (auto simp: bsearch_def)
  show "bsearch (memcmp k) xs \<noteq> None \<longleftrightarrow> k \<in> set xs"
  proof
    assume "k \<in> set xs"
    then obtain i where "i < length xs" "xs ! i = k" by (auto simp: in_set_conv_nth)
    then have "memcmp k (xs ! i) = 0" using memcmp_sign(3) [of k k] by simp
    then show "bsearch (memcmp k) xs \<noteq> None"
      using bsearch_loop_None [of "memcmp k" xs 0 "length xs", OF _ order.refl sgn] \<open>i < length xs\<close> by (auto simp: bsearch_def)
  qed (use found in \<open>auto simp: in_set_conv_nth\<close>)
qed

lemma length_concat_eq: "\<forall>r\<in>set rs. length r = n \<Longrightarrow> length (concat rs) = length rs * n"
  by (induction rs) auto

lemma records_concat:
  assumes "0 < n" "\<forall>r\<in>set rs. length r = n"
  shows "records n (concat rs) = rs"
proof (rule nth_equalityI)
  have len: "length (concat rs) = length rs * n" using assms(2) by (rule length_concat_eq)
  then show l: "length (records n (concat rs)) = length rs" using assms(1) by (simp add: records_def)
  have "take n (drop (i * n) (concat rs)) = rs ! i" if "i < length rs" for i
    using that assms(2)
  proof (induction rs arbitrary: i)
    case (Cons r rs)
    then show ?case by (cases i) auto
  qed simp
  then show "records n (concat rs) ! i = rs ! i" if "i < length (records n (concat rs))" for i
    using that l len assms(1) by (simp add: records_def)
qed

section \<open>FCFile\<close>

definition FLUSH_FCF_TRIGGER :: nat where "FLUSH_FCF_TRIGGER = 1024"
definition FLUSH_FCH_TRIGGER :: nat where "FLUSH_FCH_TRIGGER = 1024"

text \<open>\<open>f_mmap\<close> is the size of the mapping, if there is one; \<open>fdata\<close> is the file.\<close>

record FCFile =
  frag_len :: nat
  fdata :: bytes
  f_mmap :: "nat option"
  fbuffer :: "bytes list"

definition mmapFd :: "FCFile \<Rightarrow> fault + FCFile" where
  "mmapFd f =
     (if f_mmap f \<noteq> None \<or> length (fdata f) mod frag_len f \<noteq> 0 then Inl Assert_failed
      else Inr (f\<lparr>f_mmap := (if fdata f = [] then None else Some (length (fdata f)))\<rparr>))"

definition FCFile_open :: "bytes \<Rightarrow> nat \<Rightarrow> fault + FCFile" where
  "FCFile_open contents n =
     (if n = 0 then Inl Assert_failed else mmapFd \<lparr>frag_len = n, fdata = contents, f_mmap = None, fbuffer = []\<rparr>)"

definition mapped_records :: "nat \<Rightarrow> FCFile \<Rightarrow> bytes list" where
  "mapped_records sz f = records (frag_len f) (take sz (fdata f))"

definition containsFile :: "FCFile \<Rightarrow> bytes \<Rightarrow> bool" where
  "containsFile f g =
     (case f_mmap f of
        None \<Rightarrow> False
      | Some sz \<Rightarrow> bsearch (memcmp (take (frag_len f) g)) (mapped_records sz f) \<noteq> None)"

definition containsBuffer :: "FCFile \<Rightarrow> bytes \<Rightarrow> bool" where
  "containsBuffer f g = list_ex (\<lambda>b. memcmp (take (frag_len f) g) b = 0) (fbuffer f)"

definition fragment_known :: "FCFile \<Rightarrow> bytes \<Rightarrow> bool" where
  "fragment_known f g = (if containsFile f g then True else containsBuffer f g)"

definition sort_file :: "FCFile \<Rightarrow> fault + FCFile" where
  "sort_file f =
     and_then (mmapFd (f\<lparr>f_mmap := None\<rparr>)) (\<lambda>f1.
       Inr (case f_mmap f1 of
         None \<Rightarrow> f1
       | Some sz \<Rightarrow> f1\<lparr>fdata := concat (sort (mapped_records sz f1)) @ drop sz (fdata f1)\<rparr>))"

definition flush_file :: "FCFile \<Rightarrow> fault + FCFile" where
  "flush_file f =
     (if fbuffer f = [] then Inr f
      else sort_file (f\<lparr>fdata := fdata f @ concat (fbuffer f), fbuffer := []\<rparr>))"

definition add_fragment :: "bytes \<Rightarrow> FCFile \<Rightarrow> fault + FCFile" where
  "add_fragment g f =
     (if fragment_known f g then Inl Assert_failed
      else let f1 = f\<lparr>fbuffer := fbuffer f @ [take (frag_len f) g]\<rparr> in
        if length (fbuffer f1) > FLUSH_FCF_TRIGGER then flush_file f1 else Inr f1)"

text \<open>The destructor leaves the file.\<close>

definition close_file :: "FCFile \<Rightarrow> fault + bytes" where
  "close_file f = and_then (flush_file (f\<lparr>f_mmap := None\<rparr>)) (\<lambda>f1. Inr (fdata f1))"

subsection \<open>What a file keeps\<close>

definition sorted_file :: "nat \<Rightarrow> bytes \<Rightarrow> bool" where
  "sorted_file n b \<longleftrightarrow> 0 < n \<and> (\<exists>rs. b = concat rs \<and> (\<forall>r\<in>set rs. length r = n) \<and> sorted rs)"

definition fcfile_ok :: "FCFile \<Rightarrow> bool" where
  "fcfile_ok f \<longleftrightarrow> sorted_file (frag_len f) (fdata f) \<and> f_mmap f = (if fdata f = [] then None else Some (length (fdata f))) \<and>
     (\<forall>b\<in>set (fbuffer f). length b = frag_len f) \<and> length (fbuffer f) \<le> FLUSH_FCF_TRIGGER"

definition fragments :: "FCFile \<Rightarrow> bytes set" where
  "fragments f = set (records (frag_len f) (fdata f)) \<union> set (fbuffer f)"

lemma sorted_fileE:
  assumes "sorted_file n b"
  shows "0 < n" "sorted (records n b)" "\<forall>r\<in>set (records n b). length r = n" "b = concat (records n b)"
    "length b mod n = 0"
proof -
  obtain rs where rs: "b = concat rs" "\<forall>r\<in>set rs. length r = n" "sorted rs" and n: "0 < n"
    using assms by (auto simp: sorted_file_def)
  then have "records n b = rs" by (simp add: records_concat)
  then show "0 < n" "sorted (records n b)" "\<forall>r\<in>set (records n b). length r = n" "b = concat (records n b)"
    using rs n by auto
  have "length (concat rs) = length rs * n" using rs(2) by (rule length_concat_eq)
  then show "length b mod n = 0" using rs(1) by simp
qed

lemma fragment_known_iff:
  assumes f: "fcfile_ok f" and g: "frag_len f \<le> length g"
  shows "fragment_known f g \<longleftrightarrow> take (frag_len f) g \<in> fragments f"
proof -
  let ?k = "take (frag_len f) g"
  have srt: "sorted_file (frag_len f) (fdata f)" using f by (simp add: fcfile_ok_def)
  note s = sorted_fileE [OF srt]
  have k: "length ?k = frag_len f" using g by simp
  have "containsFile f g \<longleftrightarrow> ?k \<in> set (records (frag_len f) (fdata f))"
  proof (cases "fdata f = []")
    case True
    then show ?thesis using f by (simp add: containsFile_def fcfile_ok_def records_def)
  next
    case False
    have "\<forall>x\<in>set (records (frag_len f) (fdata f)). length x = length ?k" using s(3) k by simp
    note b = bsearch_sorted(1) [OF s(2) this]
    from False show ?thesis using f b by (simp add: containsFile_def fcfile_ok_def mapped_records_def)
  qed
  moreover have "memcmp ?k b = 0 \<longleftrightarrow> ?k = b" if "b \<in> set (fbuffer f)" for b
    using that f k by (intro memcmp_sign(3)) (simp add: fcfile_ok_def)
  then have "containsBuffer f g \<longleftrightarrow> ?k \<in> set (fbuffer f)"
    by (auto simp: containsBuffer_def list_ex_iff)
  ultimately show ?thesis by (simp add: fragment_known_def fragments_def)
qed

lemma sort_file_ok:
  assumes n: "0 < frag_len f" and d: "fdata f = concat rs" "\<forall>r\<in>set rs. length r = frag_len f"
  shows "\<exists>f'. sort_file f = Inr f' \<and> sorted_file (frag_len f') (fdata f') \<and>
    f_mmap f' = (if fdata f' = [] then None else Some (length (fdata f'))) \<and>
    fbuffer f' = fbuffer f \<and> frag_len f' = frag_len f \<and> set (records (frag_len f') (fdata f')) = set rs"
proof -
  have len: "length (concat rs) = length rs * frag_len f" using d(2) by (rule length_concat_eq)
  have len': "length (concat (sort rs)) = length rs * frag_len f"
    using d(2) length_concat_eq [of "sort rs" "frag_len f"] by simp
  have rec: "records (frag_len f) (concat rs) = rs" "records (frag_len f) (concat (sort rs)) = sort rs"
    using n d(2) by (simp_all add: records_concat)
  show ?thesis
  proof (cases "rs = []")
    case True
    then show ?thesis using n d
      by (intro exI [of _ "f\<lparr>f_mmap := None\<rparr>"]) (auto simp: sort_file_def mmapFd_def sorted_file_def records_def intro!: exI [of _ "[]"])
  next
    case False
    then have ne: "concat rs \<noteq> []" "concat (sort rs) \<noteq> []" using n len len' by (metis length_0_conv mult_is_0 not_gr0)+
    let ?f = "f\<lparr>f_mmap := Some (length (concat rs)), fdata := concat (sort rs)\<rparr>"
    have "sort_file f = Inr ?f" using n d ne len by (simp add: sort_file_def mmapFd_def mapped_records_def rec del: concat_eq_Nil_conv)
    moreover have "sorted_file (frag_len f) (concat (sort rs))"
      using n d(2) unfolding sorted_file_def by (intro conjI exI [of _ "sort rs"]) auto
    ultimately show ?thesis using ne len len' by (intro exI [of _ ?f]) (simp add: rec del: concat_eq_Nil_conv)
  qed
qed

lemma flush_file_ok:
  assumes f: "sorted_file (frag_len f) (fdata f)" "\<forall>b\<in>set (fbuffer f). length b = frag_len f"
  shows "\<exists>f'. flush_file f = Inr f' \<and> (fbuffer f = [] \<longrightarrow> f' = f) \<and>
    (fbuffer f \<noteq> [] \<longrightarrow> fdata f' \<noteq> [] \<and> f_mmap f' = Some (length (fdata f'))) \<and>
    sorted_file (frag_len f') (fdata f') \<and> fbuffer f' = [] \<and> frag_len f' = frag_len f \<and> fragments f' = fragments f"
proof (cases "fbuffer f = []")
  case True
  then show ?thesis using f by (simp add: flush_file_def)
next
  case False
  note s = sorted_fileE [OF f(1)]
  let ?rs = "records (frag_len f) (fdata f) @ fbuffer f" and ?f1 = "f\<lparr>fdata := fdata f @ concat (fbuffer f), fbuffer := []\<rparr>"
  have d: "fdata ?f1 = concat ?rs" "\<forall>r\<in>set ?rs. length r = frag_len ?f1" using s(3,4) f(2) by auto
  obtain f' where f': "sort_file ?f1 = Inr f'" "sorted_file (frag_len f') (fdata f')"
    "f_mmap f' = (if fdata f' = [] then None else Some (length (fdata f')))" "fbuffer f' = []"
    "frag_len f' = frag_len f" "set (records (frag_len f') (fdata f')) = set ?rs"
    using sort_file_ok [OF _ d] s(1) by auto
  have "fdata f' \<noteq> []" using f'(6) False by (auto simp: records_def)
  then show ?thesis using f' False by (intro exI [of _ f']) (auto simp: flush_file_def fragments_def)
qed

lemma add_fragment_ok:
  assumes f: "fcfile_ok f" and g: "frag_len f \<le> length g" and new: "\<not> fragment_known f g"
  shows "\<exists>f'. add_fragment g f = Inr f' \<and> fcfile_ok f' \<and> frag_len f' = frag_len f \<and>
    fragments f' = insert (take (frag_len f) g) (fragments f)"
proof -
  let ?f1 = "f\<lparr>fbuffer := fbuffer f @ [take (frag_len f) g]\<rparr>"
  have f1: "sorted_file (frag_len ?f1) (fdata ?f1)" "\<forall>b\<in>set (fbuffer ?f1). length b = frag_len ?f1"
    "fragments ?f1 = insert (take (frag_len f) g) (fragments f)"
    using f g by (auto simp: fcfile_ok_def fragments_def)
  show ?thesis
  proof (cases "length (fbuffer ?f1) > FLUSH_FCF_TRIGGER")
    case True
    obtain f' where "flush_file ?f1 = Inr f'" "fcfile_ok f'" "frag_len f' = frag_len f" "fragments f' = fragments ?f1"
      using flush_file_ok [OF f1(1,2)] by (auto simp: fcfile_ok_def)
    then show ?thesis using True new f1(3) by (auto simp: add_fragment_def)
  next
    case False
    then have "fcfile_ok ?f1" using f f1(2) by (simp add: fcfile_ok_def)
    then show ?thesis using False new f1(3) by (auto simp: add_fragment_def)
  qed
qed

lemma FCFile_open_ok:
  assumes "sorted_file n b"
  shows "\<exists>f. FCFile_open b n = Inr f \<and> fcfile_ok f \<and> frag_len f = n \<and> fragments f = set (records n b) \<and>
    fdata f = b \<and> fbuffer f = []"
proof -
  note s = sorted_fileE [OF assms]
  have "FCFile_open b n = Inr \<lparr>frag_len = n, fdata = b, f_mmap = (if b = [] then None else Some (length b)), fbuffer = []\<rparr>"
    using s(1,5) by (simp add: FCFile_open_def mmapFd_def)
  then show ?thesis using assms by (auto simp: fcfile_ok_def fragments_def)
qed

lemma close_file_ok:
  assumes "fcfile_ok f"
  shows "\<exists>b. close_file f = Inr b \<and> sorted_file (frag_len f) b \<and> set (records (frag_len f) b) = fragments f"
proof -
  have "sorted_file (frag_len (f\<lparr>f_mmap := None\<rparr>)) (fdata (f\<lparr>f_mmap := None\<rparr>))"
    "\<forall>b\<in>set (fbuffer (f\<lparr>f_mmap := None\<rparr>)). length b = frag_len (f\<lparr>f_mmap := None\<rparr>)"
    using assms by (auto simp: fcfile_ok_def)
  from flush_file_ok [OF this] obtain f' where f': "flush_file (f\<lparr>f_mmap := None\<rparr>) = Inr f'"
    "sorted_file (frag_len f') (fdata f')" "fbuffer f' = []" "frag_len f' = frag_len f"
    "fragments f' = fragments (f\<lparr>f_mmap := None\<rparr>)"
    by auto
  then have "set (records (frag_len f) (fdata f')) = fragments f" by (auto simp: fragments_def)
  with f' show ?thesis by (auto simp: close_file_def)
qed

fun add_all :: "bytes list \<Rightarrow> FCFile \<Rightarrow> fault + FCFile" where
  "add_all [] f = Inr f"
| "add_all (g # gs) f = (if fragment_known f g then add_all gs f else and_then (add_fragment g f) (add_all gs))"

lemma add_all_ok:
  assumes "fcfile_ok f" and "\<forall>g\<in>set gs. frag_len f \<le> length g"
  shows "\<exists>f'. add_all gs f = Inr f' \<and> fcfile_ok f' \<and> frag_len f' = frag_len f \<and>
    fragments f' = take (frag_len f) ` set gs \<union> fragments f"
  using assms
proof (induction gs arbitrary: f)
  case (Cons g gs)
  have g: "frag_len f \<le> length g" using Cons.prems(2) by simp
  show ?case
  proof (cases "fragment_known f g")
    case True
    then have "take (frag_len f) g \<in> fragments f" using fragment_known_iff [OF Cons.prems(1) g] by simp
    then show ?thesis using Cons.IH [OF Cons.prems(1)] Cons.prems(2) True by (auto simp: insert_absorb)
  next
    case False
    from add_fragment_ok [OF Cons.prems(1) g False] obtain f1 where f1: "add_fragment g f = Inr f1" "fcfile_ok f1"
      "frag_len f1 = frag_len f" "fragments f1 = insert (take (frag_len f) g) (fragments f)" by blast
    with Cons.IH [OF f1(2)] Cons.prems(2) False show ?thesis by auto
  qed
qed simp

text \<open>
  C28: a fragment file is a set of fragments. Opened on a sorted file, and after any new
  fragments were added, through however many flushes of the buffer, it knows exactly the
  fragments that were in the file or were added; closing it leaves a sorted file of the
  same fragments, so the next use can search it again.
\<close>
theorem fragment_file_is_a_set:
  assumes "sorted_file n b" and "\<forall>g\<in>set gs. n \<le> length g" and "n \<le> length h"
  shows "\<exists>f f' b'. FCFile_open b n = Inr f \<and> add_all gs f = Inr f' \<and>
    (fragment_known f' h \<longleftrightarrow> take n h \<in> set (records n b) \<union> take n ` set gs) \<and>
    close_file f' = Inr b' \<and> sorted_file n b' \<and> set (records n b') = set (records n b) \<union> take n ` set gs"
proof -
  obtain f where f: "FCFile_open b n = Inr f" "fcfile_ok f" "frag_len f = n" "fragments f = set (records n b)"
    using FCFile_open_ok [OF assms(1)] by blast
  have "\<forall>g\<in>set gs. frag_len f \<le> length g" using assms(2) f(3) by simp
  from add_all_ok [OF f(2) this] obtain f' where f': "add_all gs f = Inr f'" "fcfile_ok f'" "frag_len f' = n"
    "fragments f' = take n ` set gs \<union> set (records n b)"
    unfolding f(3,4) by blast
  obtain b' where "close_file f' = Inr b'" "sorted_file n b'" "set (records n b') = fragments f'"
    using close_file_ok [OF f'(2)] f'(3) by auto
  then show ?thesis using f f' fragment_known_iff [OF f'(2)] assms(3) by auto
qed

text \<open>
  What a client of fragment files relies on: a file knows the fragments it holds, a new
  one can be added.
\<close>

locale fragment_store =
  fixes known :: "'f \<Rightarrow> bytes \<Rightarrow> bool" and add :: "bytes \<Rightarrow> 'f \<Rightarrow> fault + 'f"
    and size_of :: "'f \<Rightarrow> nat" and elems :: "'f \<Rightarrow> bytes set" and inv :: "'f \<Rightarrow> bool"
  assumes known_iff: "inv f \<Longrightarrow> size_of f \<le> length g \<Longrightarrow> known f g \<longleftrightarrow> take (size_of f) g \<in> elems f"
    and add_new: "inv f \<Longrightarrow> size_of f \<le> length g \<Longrightarrow> \<not> known f g \<Longrightarrow>
      \<exists>f'. add g f = Inr f' \<and> inv f' \<and> size_of f' = size_of f \<and> elems f' = insert (take (size_of f) g) (elems f)"
begin

text \<open>The first file of a table that knows the bytes.\<close>

lemma first_known:
  assumes "\<forall>f\<in>set fs. inv f \<and> size_of f \<le> length g"
  shows "case find (\<lambda>f. known f g) fs of
      None \<Rightarrow> \<forall>f\<in>set fs. take (size_of f) g \<notin> elems f
    | Some f \<Rightarrow> \<exists>i<length fs. fs ! i = f \<and> take (size_of f) g \<in> elems f \<and>
        (\<forall>j<i. take (size_of (fs ! j)) g \<notin> elems (fs ! j))"
proof (cases "find (\<lambda>f. known f g) fs")
  case None
  then have "\<forall>f\<in>set fs. \<not> known f g" by (auto simp: find_None_iff)
  then show ?thesis using assms known_iff None by auto
next
  case (Some f)
  then obtain i where i: "i < length fs" "known (fs ! i) g" "f = fs ! i" "\<forall>j<i. \<not> known (fs ! j) g"
    by (auto simp: find_Some_iff)
  moreover have "known (fs ! j) g \<longleftrightarrow> take (size_of (fs ! j)) g \<in> elems (fs ! j)" if "j \<le> i" for j
    using assms i(1) that by (intro known_iff) auto
  ultimately show ?thesis using Some by auto
qed

end

interpretation fcfile: fragment_store fragment_known add_fragment frag_len fragments fcfile_ok
  by unfold_locales (auto simp: fragment_known_iff intro: add_fragment_ok)

section \<open>FCHash\<close>

text \<open>
  A record of the table is a digest of 20 bytes and a length of two. \<open>sha1\<close> is the
  digest; the search compares all 22 bytes of a record with the 20 of a digest on the
  stack, so what it reads behind the digest, in each round of a lookup, is a parameter.
\<close>

record hash_env =
  sha1 :: "bytes \<Rightarrow> bytes"
  behind_digest :: "nat \<Rightarrow> bytes"

record FCHash =
  hdata :: bytes
  h_mmap :: "nat option"
  pending :: "((bytes \<times> 16 word) \<times> int) list"

definition rec_len :: "bytes \<Rightarrow> 16 word" where
  "rec_len r = un_le (drop 20 r)"

definition findHashRec :: "FCHash \<Rightarrow> bytes \<Rightarrow> nat option" where
  "findHashRec h key =
     (case h_mmap h of None \<Rightarrow> None | Some sz \<Rightarrow> bsearch (memcmp key) (records 22 (take sz (hdata h))))"

definition findHashInFile :: "FCHash \<Rightarrow> bytes \<Rightarrow> int" where
  "findHashInFile h key =
     (case findHashRec h key of
        None \<Rightarrow> - 1
      | Some i \<Rightarrow> let l = rec_len (records 22 (hdata h) ! i) in if l = 0 then - 2 else uint l)"

definition findHashInPending :: "FCHash \<Rightarrow> bytes \<Rightarrow> int" where
  "findHashInPending h md =
     (case find (\<lambda>p. memcmp (fst (fst p)) md = 0) (pending h) of None \<Rightarrow> - 1 | Some p \<Rightarrow> uint (snd (fst p)))"

definition findHash :: "FCHash \<Rightarrow> bytes \<Rightarrow> bytes \<Rightarrow> int" where
  "findHash h md behind =
     (let ret = findHashInFile h (md @ behind) in
      if ret > 0 \<or> ret = - 2 then ret else findHashInPending h md)"

fun lookup_from :: "hash_env \<Rightarrow> FCHash \<Rightarrow> bytes \<Rightarrow> nat \<Rightarrow> nat \<Rightarrow> int" where
  "lookup_from E h g i 0 = - 1"
| "lookup_from E h g i (Suc n) =
     (let ret = findHash h (sha1 E (take (i + 1) g)) (behind_digest E i) in
      if ret > 0 \<or> ret = - 2 then ret else lookup_from E h g (i + 1) n)"

definition lookup_hash :: "hash_env \<Rightarrow> FCHash \<Rightarrow> bytes \<Rightarrow> nat \<Rightarrow> int" where
  "lookup_hash E h g max_len = lookup_from E h g 1 max_len"

definition mmapFD :: "FCHash \<Rightarrow> fault + FCHash" where
  "mmapFD h =
     (if h_mmap h \<noteq> None \<or> length (hdata h) mod 22 \<noteq> 0 then Inl Assert_failed
      else Inr (h\<lparr>h_mmap := (if hdata h = [] then None else Some (length (hdata h)))\<rparr>))"

definition FCHash_open :: "bytes \<Rightarrow> fault + FCHash" where
  "FCHash_open contents = mmapFD \<lparr>hdata = contents, h_mmap = None, pending = []\<rparr>"

text \<open>The records of known collisions are marked in the file and leave the list.\<close>

fun mark_collisions :: "((bytes \<times> 16 word) \<times> int) list \<Rightarrow> FCHash \<Rightarrow> fault + ((bytes \<times> 16 word) \<times> int) list \<times> FCHash" where
  "mark_collisions [] h = Inr ([], h)"
| "mark_collisions (p # ps) h =
     (if snd p \<le> 0 then and_then (mark_collisions ps h) (\<lambda>(qs, h'). Inr (p # qs, h'))
      else case findHashRec h (fst (fst p) @ le16 (snd (fst p))) of
        None \<Rightarrow> Inl Assert_failed
      | Some i \<Rightarrow>
          if rec_len (records 22 (hdata h) ! i) = 0 then Inl Assert_failed
          else mark_collisions ps (h\<lparr>hdata := (hdata h)[22 * i + 20 := 0, 22 * i + 21 := 0]\<rparr>))"

definition rec_bytes :: "(bytes \<times> 16 word) \<times> int \<Rightarrow> bytes" where
  "rec_bytes p = fst (fst p) @ le16 (snd (fst p))"

definition flush_hash :: "FCHash \<Rightarrow> fault + FCHash" where
  "flush_hash h =
     (if pending h = [] then Inr h
      else and_then (mark_collisions (pending h) h) (\<lambda>(ps, h1).
        if ps = [] then Inr (h1\<lparr>pending := []\<rparr>)
        else and_then (mmapFD (h1\<lparr>hdata := hdata h1 @ concat (map rec_bytes ps), pending := [], h_mmap := None\<rparr>)) (\<lambda>h2.
          if h_mmap h2 = None then Inl Assert_failed
          else Inr (h2\<lparr>hdata := concat (sort (records 22 (hdata h2)))\<rparr>))))"

text \<open>
  The length of the new record is never set; the pair is default-constructed, which makes
  it zero.
\<close>

definition add_hash :: "hash_env \<Rightarrow> bytes \<Rightarrow> nat \<Rightarrow> FCHash \<Rightarrow> fault + FCHash" where
  "add_hash E g n h =
     (let rc = lookup_hash E h g n in
      if rc = int n then Inr h
      else if rc = - 2 then Inr h
      else let h1 = h\<lparr>pending := pending h @ [((sha1 E (take n g), 0), rc)]\<rparr> in
        if length (pending h1) > FLUSH_FCH_TRIGGER then flush_hash h1 else Inr h1)"

subsection \<open>The table never gives a length\<close>

definition no_lengths :: "FCHash \<Rightarrow> bool" where
  "no_lengths h \<longleftrightarrow> (\<exists>rs. hdata h = concat rs \<and> (\<forall>r\<in>set rs. length r = 22 \<and> rec_len r = 0)) \<and>
     h_mmap h = (if hdata h = [] then None else Some (length (hdata h))) \<and>
     (\<forall>p\<in>set (pending h). length (fst (fst p)) = 20 \<and> snd (fst p) = 0 \<and> snd p \<le> 0)"

lemma no_lengths_file:
  assumes "no_lengths h"
  shows "findHashInFile h key \<in> {- 1, - 2}"
proof (cases "findHashRec h key")
  case None
  then show ?thesis by (simp add: findHashInFile_def)
next
  case (Some i)
  obtain rs where rs: "hdata h = concat rs" "\<forall>r\<in>set rs. length r = 22 \<and> rec_len r = 0"
    using assms by (auto simp: no_lengths_def)
  then have r: "records 22 (hdata h) = rs" by (simp add: records_concat)
  have "bsearch (memcmp key) rs = Some i"
    using Some assms r by (auto simp: findHashRec_def no_lengths_def split: if_splits)
  then have "i < length rs" using bsearch_loop_Some [of "memcmp key" rs 0 "length rs" i] by (simp add: bsearch_def)
  then show ?thesis using Some r rs(2) by (simp add: findHashInFile_def)
qed

lemma no_lengths_findHash: "no_lengths h \<Longrightarrow> findHash h md b \<le> 0"
proof -
  assume h: "no_lengths h"
  have "findHashInPending h md \<in> {- 1, 0}"
  proof (cases "find (\<lambda>p. memcmp (fst (fst p)) md = 0) (pending h)")
    case None
    then show ?thesis by (simp add: findHashInPending_def)
  next
    case (Some p)
    then have "p \<in> set (pending h)" by (metis find_Some_iff nth_mem)
    then have "snd (fst p) = 0" using h by (simp add: no_lengths_def)
    with Some show ?thesis by (simp add: findHashInPending_def)
  qed
  then show ?thesis using no_lengths_file [OF h, of "md @ b"] by (auto simp: findHash_def Let_def)
qed

lemma no_lengths_lookup: "no_lengths h \<Longrightarrow> lookup_hash E h g n \<in> {- 1, - 2}"
proof -
  assume h: "no_lengths h"
  have "lookup_from E h g i n \<in> {- 1, - 2}" for i
    by (induction n arbitrary: i) (use no_lengths_findHash [OF h] in \<open>auto simp: Let_def not_less\<close>)
  then show ?thesis by (simp add: lookup_hash_def)
qed

lemma mark_collisions_none: "\<forall>p\<in>set ps. snd p \<le> 0 \<Longrightarrow> mark_collisions ps h = Inr (ps, h)"
  by (induction ps) auto

lemma flush_hash_ok:
  assumes h: "no_lengths h"
  shows "\<exists>h'. flush_hash h = Inr h' \<and> no_lengths h'"
proof (cases "pending h = []")
  case True
  then show ?thesis using h by (simp add: flush_hash_def)
next
  case False
  obtain rs where rs: "hdata h = concat rs" "\<forall>r\<in>set rs. length r = 22 \<and> rec_len r = 0"
    using h by (auto simp: no_lengths_def)
  let ?new = "map rec_bytes (pending h)" and ?d = "hdata h @ concat (map rec_bytes (pending h))"
  have new: "\<forall>r\<in>set ?new. length r = 22 \<and> rec_len r = 0"
    using h by (auto simp: no_lengths_def rec_bytes_def rec_len_def)
  have d: "?d = concat (rs @ ?new)" "\<forall>r\<in>set (rs @ ?new). length r = 22" using rs new by auto
  have len: "length ?d = (length rs + length ?new) * 22" unfolding d(1) using length_concat_eq [OF d(2)] by simp
  have ne: "?d \<noteq> []" using len False by (metis add_is_0 length_0_conv list.map_disc_iff mult_is_0 zero_neq_numeral)
  let ?h' = "h\<lparr>hdata := concat (sort (rs @ ?new)), pending := [], h_mmap := Some (length ?d)\<rparr>"
  have mk: "mark_collisions (pending h) h = Inr (pending h, h)"
    using h by (intro mark_collisions_none) (auto simp: no_lengths_def)
  have "mmapFD (h\<lparr>hdata := ?d, pending := [], h_mmap := None\<rparr>) = Inr (h\<lparr>hdata := ?d, pending := [], h_mmap := Some (length ?d)\<rparr>)"
    using ne len by (simp add: mmapFD_def)
  moreover have "records 22 ?d = rs @ ?new" unfolding d(1) using d(2) by (intro records_concat) auto
  ultimately have eq: "flush_hash h = Inr ?h'" using False by (simp add: flush_hash_def mk)
  have l: "length (concat (sort (rs @ ?new))) = length ?d"
    using len length_concat_eq [of "sort (rs @ ?new)" 22] d(2) by simp
  then have "concat (sort (rs @ ?new)) \<noteq> []" using ne by (metis length_0_conv)
  moreover have "\<forall>r\<in>set (sort (rs @ ?new)). length r = 22 \<and> rec_len r = 0" using rs(2) new by auto
  ultimately have "no_lengths ?h'" using l unfolding no_lengths_def
    by (intro conjI exI [of _ "sort (rs @ ?new)"]) (simp_all del: concat_eq_Nil_conv)
  then show ?thesis using eq by blast
qed

lemma add_hash_ok:
  assumes h: "no_lengths h" and sha: "\<And>b. length (sha1 E b) = 20"
  shows "\<exists>h'. add_hash E g n h = Inr h' \<and> no_lengths h'"
proof -
  let ?h1 = "h\<lparr>pending := pending h @ [((sha1 E (take n g), 0), lookup_hash E h g n)]\<rparr>"
  have "no_lengths ?h1"
    using h sha no_lengths_lookup [OF h, of E g n] by (auto simp: no_lengths_def)
  then show ?thesis using h flush_hash_ok [of ?h1] by (simp add: add_hash_def Let_def)
qed

fun add_hashes :: "hash_env \<Rightarrow> (bytes \<times> nat) list \<Rightarrow> FCHash \<Rightarrow> fault + FCHash" where
  "add_hashes E [] h = Inr h"
| "add_hashes E (x # xs) h = and_then (add_hash E (fst x) (snd x) h) (add_hashes E xs)"

text \<open>
  C29: the table of hashes never answers a length. Begun empty, and after any fragments of
  any lengths were added, a lookup says either that nothing was found or that there was a
  collision, since the length of a record is never entered.
\<close>
theorem hash_never_gives_a_length:
  assumes "\<And>b. length (sha1 E b) = 20"
  shows "\<exists>h h'. FCHash_open [] = Inr h \<and> add_hashes E xs h = Inr h' \<and> lookup_hash E h' g n \<in> {- 1, - 2}"
proof -
  have "\<exists>h'. add_hashes E xs h = Inr h' \<and> no_lengths h'" if "no_lengths h" for h
    using that
  proof (induction xs arbitrary: h)
    case (Cons x xs)
    from add_hash_ok [OF Cons.prems assms] obtain h1 where "add_hash E (fst x) (snd x) h = Inr h1" "no_lengths h1" by blast
    with Cons.IH show ?case by simp
  qed simp
  moreover have "FCHash_open [] = Inr \<lparr>hdata = [], h_mmap = None, pending = []\<rparr>"
    "no_lengths \<lparr>hdata = [], h_mmap = None, pending = []\<rparr>"
    by (auto simp: FCHash_open_def mmapFD_def no_lengths_def intro: exI [of _ "[]"])
  ultimately show ?thesis using no_lengths_lookup by blast
qed

section \<open>FragCache\<close>

text \<open>\<open>cache_files\<close> are the files of the directory that are not open, in the order of \<open>readdir\<close>.\<close>

record FragCache =
  cachetab :: "FCFile option list"
  fchash :: FCHash
  cache_files :: "(string \<times> bytes) list"

fun dec_of :: "nat \<Rightarrow> string" where
  "dec_of n = (if n < 10 then [''0123456789'' ! n] else dec_of (n div 10) @ [''0123456789'' ! (n mod 10)])"

declare dec_of.simps [simp del]

definition digit_value :: "char \<Rightarrow> int" where
  "digit_value c = of_char c - 48"

definition is_digit :: "char \<Rightarrow> bool" where
  "is_digit c \<longleftrightarrow> 0 \<le> digit_value c \<and> digit_value c \<le> 9"

text \<open>\<open>sscanf(s, "%d", &i)\<close>: nothing if it did not convert one item.\<close>

definition sscanf_d :: "string \<Rightarrow> int option" where
  "sscanf_d s =
     (let s1 = dropWhile (\<lambda>c. c \<in> set [CHR '' '', CHR 0x09, CHR 0x0a, CHR 0x0b, CHR 0x0c, CHR 0x0d]) s;
          signed = s1 \<noteq> [] \<and> hd s1 \<in> set ''+-'';
          ds = takeWhile is_digit (if signed then tl s1 else s1);
          v = foldl (\<lambda>n c. 10 * n + digit_value c) 0 ds
      in if ds = [] then None else Some (if signed \<and> hd s1 = CHR ''-'' then - v else v))"

text \<open>\<open>open\<close> with \<open>O_CREAT\<close>: a file that is not there is created empty.\<close>

definition file_contents :: "FragCache \<Rightarrow> nat \<Rightarrow> bytes" where
  "file_contents c n = (case map_of (cache_files c) (dec_of n) of None \<Rightarrow> [] | Some b \<Rightarrow> b)"

definition loadCacheFile :: "nat \<Rightarrow> FragCache \<Rightarrow> fault + FragCache" where
  "loadCacheFile n c =
     and_then (FCFile_open (file_contents c n) n) (\<lambda>fcf.
       let tab = cachetab c; tab1 = (if length tab \<le> n then tab @ replicate (n + 1 - length tab) None else tab) in
       if tab1 ! n \<noteq> None then Inl Assert_failed
       else Inr (c\<lparr>cachetab := tab1[n := Some fcf]\<rparr>))"

fun load_names :: "string list \<Rightarrow> FragCache \<Rightarrow> fault + FragCache" where
  "load_names [] c = Inr c"
| "load_names (d # ds) c =
     (case sscanf_d d of
        None \<Rightarrow> load_names ds c
      | Some i \<Rightarrow> and_then (loadCacheFile (unat (of_int i :: 32 word)) c) (load_names ds))"

definition loadDir :: "FragCache \<Rightarrow> fault + FragCache" where
  "loadDir c = load_names (map fst (cache_files c)) c"

definition findLength :: "hash_env \<Rightarrow> bytes \<Rightarrow> FragCache \<Rightarrow> fault + int \<times> FragCache" where
  "findLength E g c =
     (let ret = lookup_hash E (fchash c) g (if cachetab c \<noteq> [] then length (cachetab c) else 1024) in
      if ret > 0 then Inr (ret, c)
      else and_then (if cachetab c = [] then loadDir c else Inr c) (\<lambda>c1.
        case find (\<lambda>f. fragment_known f g) (map the (filter (\<lambda>x. x \<noteq> None) (cachetab c1))) of
          None \<Rightarrow> Inr (- 1, c1)
        | Some fcf \<Rightarrow> Inr (int (frag_len fcf), c1)))"

definition open_file :: "nat \<Rightarrow> FragCache \<Rightarrow> FCFile option" where
  "open_file n c = (if n < length (cachetab c) then cachetab c ! n else None)"

text \<open>
  A file that is not open is created, closed and loaded; creating it leaves an empty file
  in the directory.
\<close>

definition getFCFile :: "nat \<Rightarrow> FragCache \<Rightarrow> fault + FCFile option \<times> FragCache" where
  "getFCFile n c =
     (case open_file n c of
        Some f \<Rightarrow> Inr (Some f, c)
      | None \<Rightarrow>
          and_then (FCFile_open (file_contents c n) n) (\<lambda>f.
          and_then (close_file f) (\<lambda>b.
            let c1 = c\<lparr>cache_files := (if map_of (cache_files c) (dec_of n) = None then cache_files c @ [(dec_of n, b)]
                                       else map (\<lambda>x. if fst x = dec_of n then (fst x, b) else x) (cache_files c))\<rparr> in
            and_then (loadCacheFile n c1) (\<lambda>c2. Inr (open_file n c2, c2)))))"

definition addFragment :: "hash_env \<Rightarrow> bytes \<Rightarrow> nat \<Rightarrow> FragCache \<Rightarrow> fault + bool \<times> FragCache" where
  "addFragment E g n c =
     and_then (getFCFile n c) (\<lambda>(fcf, c1).
       case fcf of
         None \<Rightarrow> Inl Assert_failed
       | Some f \<Rightarrow>
           if fragment_known f g then Inr (False, c1)
           else and_then (add_hash E g n (fchash c1)) (\<lambda>h.
                and_then (add_fragment g f) (\<lambda>f1.
                  Inr (True, c1\<lparr>fchash := h, cachetab := (cachetab c1)[n := Some f1]\<rparr>))))"

subsection \<open>Adding and finding\<close>

definition fragcache_ok :: "FragCache \<Rightarrow> bool" where
  "fragcache_ok c \<longleftrightarrow> (\<forall>n f. open_file n c = Some f \<longrightarrow> fcfile_ok f \<and> frag_len f = n) \<and> no_lengths (fchash c) \<and>
     (\<forall>n>0. open_file n c = None \<longrightarrow> sorted_file n (file_contents c n)) \<and> open_file 0 c = None"

lemma fragcache_okD: "fragcache_ok c \<Longrightarrow> open_file n c = Some f \<Longrightarrow> fcfile_ok f \<and> frag_len f = n \<and> 0 < n"
  unfolding fragcache_ok_def by (cases n) auto

text \<open>The fragments of length \<open>n\<close>, in an open file or on disk.\<close>

definition stored :: "nat \<Rightarrow> FragCache \<Rightarrow> bytes set" where
  "stored n c = (case open_file n c of Some f \<Rightarrow> fragments f | None \<Rightarrow> set (records n (file_contents c n)))"

lemma open_file_lists: "set (map the (filter (\<lambda>x. x \<noteq> None) (cachetab c))) = {f. \<exists>n. open_file n c = Some f}"
  by (force simp: open_file_def in_set_conv_nth split: if_splits)

lemma digit_of: "d < 10 \<Longrightarrow> is_digit (''0123456789'' ! d) \<and> digit_value (''0123456789'' ! d) = int d"
  by (auto simp: less_Suc_eq numeral_eq_Suc is_digit_def digit_value_def)

lemma dec_of_digits:
  "dec_of n \<noteq> [] \<and> (\<forall>c\<in>set (dec_of n). is_digit c) \<and> foldl (\<lambda>m c. 10 * m + digit_value c) 0 (dec_of n) = int n"
proof (induction n rule: less_induct)
  case (less n)
  show ?case
  proof (cases "n < 10")
    case True
    then show ?thesis using digit_of [of n] by (simp add: dec_of.simps [of n])
  next
    case False
    then have "n div 10 < n" by simp
    moreover have "10 * int (n div 10) + int (n mod 10) = int n"
      by (metis mult_div_mod_eq of_nat_add of_nat_mult of_nat_numeral)
    ultimately show ?thesis using less.IH [of "n div 10"] False digit_of [of "n mod 10"]
      by (auto simp: dec_of.simps [of n])
  qed
qed

text \<open>The name of a cache file is read back as its length.\<close>

lemma sscanf_dec_of: "sscanf_d (dec_of n) = Some (int n)"
proof -
  note d = dec_of_digits [of n]
  have "is_digit (hd (dec_of n))" using d by simp
  then have h: "hd (dec_of n) \<notin> set ''+-''" "hd (dec_of n) \<notin> set [CHR '' '', CHR 0x09, CHR 0x0a, CHR 0x0b, CHR 0x0c, CHR 0x0d]"
    by (auto simp: is_digit_def digit_value_def)
  then have "dropWhile (\<lambda>c. c \<in> set [CHR '' '', CHR 0x09, CHR 0x0a, CHR 0x0b, CHR 0x0c, CHR 0x0d]) (dec_of n) = dec_of n"
    using d by (cases "dec_of n") auto
  moreover have tw: "takeWhile is_digit (dec_of n) = dec_of n"
    by (rule takeWhile_eq_all_conv [THEN iffD2]) (use d in blast)
  ultimately show ?thesis using d h by (simp add: sscanf_d_def Let_def tw)
qed

lemma dec_of_inj [simp]: "dec_of m = dec_of n \<longleftrightarrow> m = n"
  by (metis of_nat_eq_iff option.inject sscanf_dec_of)

lemma loadCacheFile_ok:
  assumes "open_file n c = None" and "FCFile_open (file_contents c n) n = Inr f"
  shows "\<exists>c'. loadCacheFile n c = Inr c' \<and> open_file n c' = Some f \<and> fchash c' = fchash c \<and>
    cache_files c' = cache_files c \<and> (\<forall>m. m \<noteq> n \<longrightarrow> open_file m c' = open_file m c)"
proof -
  define tab where "tab = (if length (cachetab c) \<le> n then cachetab c @ replicate (n + 1 - length (cachetab c)) None else cachetab c)"
  have "tab ! n = None" "n < length tab"
    using assms(1) by (auto simp: tab_def open_file_def nth_append split: if_splits)
  moreover have "open_file m (c\<lparr>cachetab := tab[n := Some f]\<rparr>) = open_file m c" if "m \<noteq> n" for m
    using that by (auto simp: open_file_def tab_def nth_append nth_list_update)
  ultimately show ?thesis using assms(2)
    by (intro exI [of _ "c\<lparr>cachetab := tab[n := Some f]\<rparr>"]) (auto simp: loadCacheFile_def tab_def [symmetric] Let_def open_file_def)
qed

lemma getFCFile_ok:
  assumes c: "fragcache_ok c" and n: "0 < n"
  shows "\<exists>f c'. getFCFile n c = Inr (Some f, c') \<and> open_file n c' = Some f \<and> fcfile_ok f \<and> frag_len f = n \<and>
    fragments f = stored n c \<and> fchash c' = fchash c \<and> (\<forall>m. m \<noteq> n \<longrightarrow> open_file m c' = open_file m c) \<and>
    (\<forall>m. m \<noteq> n \<longrightarrow> file_contents c' m = file_contents c m)"
proof (cases "open_file n c")
  case (Some f)
  then show ?thesis using c by (auto simp: getFCFile_def fragcache_ok_def stored_def)
next
  case None
  have s: "sorted_file n (file_contents c n)" using c n None by (simp add: fragcache_ok_def)
  obtain f where f: "FCFile_open (file_contents c n) n = Inr f" "fcfile_ok f" "frag_len f = n"
    "fragments f = set (records n (file_contents c n))" "fdata f = file_contents c n" "fbuffer f = []"
    using FCFile_open_ok [OF s] by blast
  have cl: "close_file f = Inr (file_contents c n)" using f(5,6) by (simp add: close_file_def flush_file_def)
  define fs where "fs = (if map_of (cache_files c) (dec_of n) = None then cache_files c @ [(dec_of n, file_contents c n)]
      else map (\<lambda>x. if fst x = dec_of n then (fst x, file_contents c n) else x) (cache_files c))"
  define c1 where "c1 = c\<lparr>cache_files := fs\<rparr>"
  have up: "map_of (map (\<lambda>x. if fst x = k then (fst x, b) else x) m) j = (if j = k \<and> map_of m k \<noteq> None then Some b else map_of m j)"
    for k j b and m :: "(string \<times> bytes) list"
    by (induction m) auto
  have same: "file_contents c1 m = file_contents c m" for m
    by (auto simp: file_contents_def c1_def fs_def up map_add_def split: option.splits)
  have "open_file m c1 = open_file m c" for m by (simp add: open_file_def c1_def)
  with loadCacheFile_ok [of n c1 f] None f(1) same obtain c' where c': "loadCacheFile n c1 = Inr c'" "open_file n c' = Some f"
    "fchash c' = fchash c" "cache_files c' = fs" "\<forall>m. m \<noteq> n \<longrightarrow> open_file m c' = open_file m c"
    by (auto simp: c1_def)
  have "getFCFile n c = Inr (Some f, c')" using None f(1) cl c'(1,2) by (simp add: getFCFile_def c1_def fs_def Let_def)
  moreover have "file_contents c' m = file_contents c m" for m
    using same [of m] c'(4) by (simp add: file_contents_def c1_def)
  ultimately show ?thesis using c' f None by (auto simp: stored_def)
qed

lemma open_file_update:
  "open_file n c \<noteq> None \<Longrightarrow>
   open_file m (c\<lparr>fchash := h, cachetab := (cachetab c)[n := Some f]\<rparr>) = (if m = n then Some f else open_file m c)"
  by (auto simp: open_file_def split: if_splits)

lemma addFragment_ok:
  assumes c: "fragcache_ok c" and n: "0 < n" "n \<le> length g" and sha: "\<And>b. length (sha1 E b) = 20"
  shows "\<exists>c' f. addFragment E g n c = Inr (take n g \<notin> stored n c, c') \<and> fragcache_ok c' \<and>
    open_file n c' = Some f \<and> (\<forall>m. stored m c' = (if m = n then insert (take n g) (stored n c) else stored m c)) \<and>
    (\<forall>m. m \<noteq> n \<longrightarrow> open_file m c' = open_file m c)"
proof -
  obtain f c1 where g: "getFCFile n c = Inr (Some f, c1)" and o: "open_file n c1 = Some f"
    and f: "fcfile_ok f" "frag_len f = n" "fragments f = stored n c" and h: "fchash c1 = fchash c"
    and rest: "\<forall>m. m \<noteq> n \<longrightarrow> open_file m c1 = open_file m c" "\<forall>m. m \<noteq> n \<longrightarrow> file_contents c1 m = file_contents c m"
    using getFCFile_ok [OF c n(1)] by blast
  have "fcfile_ok k \<and> frag_len k = m" if "open_file m c1 = Some k" for m k
    using that c f(1,2) o rest(1) by (cases "m = n") (auto simp: fragcache_ok_def)
  moreover have "sorted_file m (file_contents c1 m)" if "0 < m" "open_file m c1 = None" for m
    using that c o rest by (cases "m = n") (auto simp: fragcache_ok_def)
  moreover have "open_file 0 c1 = None" using c n(1) rest(1) by (simp add: fragcache_ok_def)
  ultimately have c1: "fragcache_ok c1" using c h by (simp add: fragcache_ok_def)
  have st: "stored m c1 = stored m c" for m using o f(3) rest by (cases "m = n") (auto simp: stored_def split: option.split)
  have known: "fragment_known f g \<longleftrightarrow> take n g \<in> stored n c"
    using fcfile.known_iff [OF f(1)] f(2,3) n(2) by simp
  show ?thesis
  proof (cases "fragment_known f g")
    case True
    then have "addFragment E g n c = Inr (False, c1)" by (simp add: addFragment_def g)
    then show ?thesis using True known c1 o st rest(1) by (auto simp: insert_absorb)
  next
    case False
    obtain f1 where f1: "add_fragment g f = Inr f1" "fcfile_ok f1" "frag_len f1 = n" "fragments f1 = insert (take n g) (stored n c)"
      using fcfile.add_new [OF f(1) _ False] f(2,3) n(2) by auto
    obtain k where k: "add_hash E g n (fchash c1) = Inr k" "no_lengths k"
    proof -
      have "no_lengths (fchash c1)" using c1 by (simp add: fragcache_ok_def)
      from add_hash_ok [OF this sha] that show thesis by blast
    qed
    let ?c' = "c1\<lparr>fchash := k, cachetab := (cachetab c1)[n := Some f1]\<rparr>"
    have "addFragment E g n c = Inr (True, ?c')" using False k(1) f1(1) by (simp add: addFragment_def g)
    moreover have op: "open_file m ?c' = (if m = n then Some f1 else open_file m c1)" for m
      using o by (intro open_file_update) simp
    moreover have "fragcache_ok ?c'"
      using c1 k(2) f1(2,3) n(1) unfolding fragcache_ok_def op by (auto simp: file_contents_def)
    moreover have "stored m ?c' = (if m = n then insert (take n g) (stored n c) else stored m c)" for m
    proof (cases "m = n")
      case False
      then have "stored m ?c' = stored m c1" by (simp add: stored_def op file_contents_def split: option.split)
      then show ?thesis using False st by simp
    qed (simp add: stored_def op f1(4) [unfolded stored_def])
    ultimately show ?thesis using known False rest(1) by (intro exI [of _ ?c'] exI [of _ f1]) auto
  qed
qed

lemma frag_lens_ascend:
  "\<forall>i<length tab. \<forall>f. tab ! i = Some f \<longrightarrow> frag_len f = i \<Longrightarrow>
   map frag_len (map the (filter (\<lambda>x. x \<noteq> None) tab)) = filter (\<lambda>i. tab ! i \<noteq> None) [0..<length tab]"
proof (induction tab rule: rev_induct)
  case (snoc x tab)
  have "\<forall>i<length tab. \<forall>f. tab ! i = Some f \<longrightarrow> frag_len f = i"
    using snoc.prems by (metis length_append_singleton less_Suc_eq nth_append)
  note IH = snoc.IH [OF this]
  have last: "x = Some f \<Longrightarrow> frag_len f = length tab" for f using snoc.prems by (auto simp: nth_append)
  have "filter (\<lambda>i. (tab @ [x]) ! i \<noteq> None) [0..<length tab] = filter (\<lambda>i. tab ! i \<noteq> None) [0..<length tab]"
    by (rule filter_cong) (auto simp: nth_append)
  then show ?case using IH last by auto
qed simp

lemma findLength_open:
  assumes c: "fragcache_ok c" and ne: "cachetab c \<noteq> []" and long: "length (cachetab c) \<le> length g"
  shows "\<exists>r. findLength E g c = Inr (r, c) \<and>
    (if r = - 1 then \<forall>m. open_file m c \<noteq> None \<longrightarrow> take m g \<notin> stored m c
     else \<exists>m. r = int m \<and> 0 < m \<and> take m g \<in> stored m c \<and> (\<forall>k<m. open_file k c \<noteq> None \<longrightarrow> take k g \<notin> stored k c))"
proof -
  let ?L = "map the (filter (\<lambda>x. x \<noteq> None) (cachetab c))"
  have L: "f \<in> set ?L \<longleftrightarrow> (\<exists>n. open_file n c = Some f)" for f using open_file_lists [of c] by blast
  have own: "open_file (frag_len f) c = Some f \<and> fcfile_ok f \<and> stored (frag_len f) c = fragments f \<and> 0 < frag_len f \<and> frag_len f \<le> length g"
    if "f \<in> set ?L" for f
  proof -
    obtain n where n: "open_file n c = Some f" using \<open>f \<in> set ?L\<close> unfolding L by blast
    have fn: "fcfile_ok f" "frag_len f = n" "0 < n" using fragcache_okD [OF c n] by auto
    have "n < length (cachetab c)" using n by (simp add: open_file_def split: if_splits)
    then show ?thesis using n fn long by (auto simp: stored_def)
  qed
  have asc: "sorted_wrt (<) (map frag_len ?L)"
  proof -
    have "\<forall>i<length (cachetab c). \<forall>f. cachetab c ! i = Some f \<longrightarrow> frag_len f = i"
      using c by (auto simp: fragcache_ok_def open_file_def)
    from frag_lens_ascend [OF this] show ?thesis by (simp add: sorted_wrt_filter)
  qed
  have "lookup_hash E (fchash c) g n \<in> {- 1, - 2}" for n using c by (intro no_lengths_lookup) (simp add: fragcache_ok_def)
  from this [of "length (cachetab c)"] have "\<not> lookup_hash E (fchash c) g (length (cachetab c)) > 0" by auto
  then have run: "findLength E g c = (case find (\<lambda>f. fragment_known f g) ?L of None \<Rightarrow> Inr (- 1, c) | Some f \<Rightarrow> Inr (int (frag_len f), c))"
    using ne by (simp add: findLength_def Let_def)
  have first: "case find (\<lambda>f. fragment_known f g) ?L of
      None \<Rightarrow> \<forall>f\<in>set ?L. take (frag_len f) g \<notin> fragments f
    | Some f \<Rightarrow> \<exists>i<length ?L. ?L ! i = f \<and> take (frag_len f) g \<in> fragments f \<and>
        (\<forall>j<i. take (frag_len (?L ! j)) g \<notin> fragments (?L ! j))"
    by (rule fcfile.first_known) (use own in blast)
  show ?thesis
  proof (cases "find (\<lambda>f. fragment_known f g) ?L")
    case None
    have "take m g \<notin> stored m c" if "open_file m c = Some f" for m f
    proof -
      have f: "f \<in> set ?L" unfolding L using that by (rule exI)
      then have "take (frag_len f) g \<notin> fragments f" using first None by auto
      moreover have "frag_len f = m" using that c by (simp add: fragcache_ok_def)
      ultimately show ?thesis using that by (simp add: stored_def)
    qed
    then show ?thesis using run None by auto
  next
    case (Some f)
    then obtain i where i: "i < length ?L" "?L ! i = f" "take (frag_len f) g \<in> fragments f"
      "\<forall>j<i. take (frag_len (?L ! j)) g \<notin> fragments (?L ! j)"
      using first by auto
    have "take k g \<notin> stored k c" if "k < frag_len f" "open_file k c = Some h" for k h
    proof -
      have h: "frag_len h = k" using that(2) c by (simp add: fragcache_ok_def)
      obtain j where j: "j < length ?L" "?L ! j = h" using L [of h] \<open>open_file k c = Some h\<close> by (metis in_set_conv_nth)
      have "j < i"
      proof (rule ccontr)
        assume "\<not> j < i"
        then have "frag_len (?L ! i) \<le> frag_len (?L ! j)"
          using asc i(1) j(1) by (cases "i = j") (auto simp: sorted_wrt_iff_nth_less intro: less_imp_le)
        then show False using h that(1) i(2) j(2) by simp
      qed
      then show ?thesis using i(4) j(2) h that(2) by (auto simp: stored_def)
    qed
    moreover have "f \<in> set ?L" using i(1,2) by (metis nth_mem)
    ultimately show ?thesis using run Some own [of f] i(3) by (intro exI [of _ "int (frag_len f)"]) auto
  qed
qed

text \<open>
  A fragment that was added is found again. After it was added, a search for any
  bytes that begin with it answers the least length, at most its own, under which an open
  file holds a prefix of these bytes.
\<close>
theorem added_fragment_found:
  assumes "fragcache_ok c" and "0 < n" and "n \<le> length g" and "\<And>b. length (sha1 E b) = 20"
  shows "\<exists>b c'. addFragment E g n c = Inr (b, c') \<and> (b \<longleftrightarrow> take n g \<notin> stored n c) \<and>
    (\<forall>h. take n h = take n g \<and> length (cachetab c') \<le> length h \<longrightarrow>
      (\<exists>m. findLength E h c' = Inr (int m, c') \<and> 0 < m \<and> m \<le> n \<and> take m h \<in> stored m c' \<and>
        (\<forall>k<m. open_file k c' \<noteq> None \<longrightarrow> take k h \<notin> stored k c')))"
proof -
  obtain c' f where c': "addFragment E g n c = Inr (take n g \<notin> stored n c, c')" "fragcache_ok c'"
    "open_file n c' = Some f" "\<forall>m. stored m c' = (if m = n then insert (take n g) (stored n c) else stored m c)"
    using addFragment_ok [OF assms] by blast
  have ne: "cachetab c' \<noteq> []" using c'(3) by (auto simp: open_file_def)
  have "\<exists>m. findLength E h c' = Inr (int m, c') \<and> 0 < m \<and> m \<le> n \<and> take m h \<in> stored m c' \<and>
      (\<forall>k<m. open_file k c' \<noteq> None \<longrightarrow> take k h \<notin> stored k c')"
    if h: "take n h = take n g" "length (cachetab c') \<le> length h" for h
  proof -
    have known: "take n h \<in> stored n c'" "open_file n c' \<noteq> None" using c'(3,4) h(1) by auto
    obtain r where r: "findLength E h c' = Inr (r, c')"
      "if r = - 1 then \<forall>m. open_file m c' \<noteq> None \<longrightarrow> take m h \<notin> stored m c'
       else \<exists>m. r = int m \<and> 0 < m \<and> take m h \<in> stored m c' \<and> (\<forall>k<m. open_file k c' \<noteq> None \<longrightarrow> take k h \<notin> stored k c')"
      using findLength_open [OF c'(2) ne h(2)] by blast
    then obtain m where "r = int m" "0 < m" "take m h \<in> stored m c'" "\<forall>k<m. open_file k c' \<noteq> None \<longrightarrow> take k h \<notin> stored k c'"
      using known by (auto split: if_splits)
    moreover from this have "m \<le> n" using known not_less by blast
    ultimately show ?thesis using r(1) by auto
  qed
  then show ?thesis using c'(1) by blast
qed

section \<open>Examples\<close>

definition zero_hash :: hash_env where
  "zero_hash = \<lparr>sha1 = (\<lambda>b. replicate 20 0), behind_digest = (\<lambda>i. [0, 0])\<rparr>"

definition new_FragCache :: "(string \<times> bytes) list \<Rightarrow> FragCache" where
  "new_FragCache fs = \<lparr>cachetab = [], fchash = \<lparr>hdata = [], h_mmap = None, pending = []\<rparr>, cache_files = fs\<rparr>"

lemma new_FragCache_ok: "fragcache_ok (new_FragCache [])"
  by (auto simp: fragcache_ok_def new_FragCache_def open_file_def no_lengths_def file_contents_def sorted_file_def
      intro: exI [of _ "[]"])

theorem fragment_file_is_a_set_witness:
  "\<exists>f f'. FCFile_open [1, 2, 3, 4] 2 = Inr f \<and> add_all [[0, 9, 9], [3, 4]] f = Inr f' \<and> fragment_known f' [0, 9, 7]"
proof -
  have "sorted_file 2 [1, 2, 3, 4]" by (auto simp: sorted_file_def intro!: exI [of _ "[[1, 2], [3, 4]]"])
  from fragment_file_is_a_set [OF this, of "[[0, 9, 9], [3, 4]]" "[0, 9, 7]"]
  show ?thesis by (simp del: add_all.simps) blast
qed

theorem hash_never_gives_a_length_witness:
  "\<exists>h h'. FCHash_open [] = Inr h \<and> add_hashes zero_hash [([1, 2, 3], 3)] h = Inr h' \<and>
     lookup_hash zero_hash h' [1, 2, 3] 8 \<in> {- 1, - 2}"
  by (rule hash_never_gives_a_length) (simp add: zero_hash_def)

lemma added_example:
  "\<exists>c'. addFragment zero_hash [1, 2, 3] 2 (new_FragCache []) = Inr (True, c') \<and> length (cachetab c') = 3"
  by (simp add: addFragment_def getFCFile_def open_file_def new_FragCache_def file_contents_def FCFile_open_def mmapFd_def
      close_file_def flush_file_def loadCacheFile_def fragment_known_def containsFile_def containsBuffer_def
      add_hash_def lookup_hash_def findHash_def findHashInFile_def findHashRec_def findHashInPending_def
      add_fragment_def FLUSH_FCF_TRIGGER_def FLUSH_FCH_TRIGGER_def numeral_2_eq_2 Let_def)

theorem added_fragment_found_witness:
  "\<exists>c' m. addFragment zero_hash [1, 2, 3] 2 (new_FragCache []) = Inr (True, c') \<and>
     findLength zero_hash [1, 2, 8, 9] c' = Inr (int m, c') \<and> 0 < m \<and> m \<le> 2"
proof -
  obtain c' where c': "addFragment zero_hash [1, 2, 3] 2 (new_FragCache []) = Inr (True, c')" "length (cachetab c') = 3"
    using added_example by blast
  have "length (sha1 zero_hash b) = 20" for b by (simp add: zero_hash_def)
  from added_fragment_found [OF new_FragCache_ok, of 2 "[1, 2, 3]" zero_hash, OF _ _ this] c'
  show ?thesis by (auto dest!: spec [of _ "[1, 2, 8, 9]"])
qed

end
