(* ===== verification/Vexexec.thy ===== *)
theory Vexexec
  imports Vexsb Jitcache
begin

text \<open>
  The loop that executes the guest (vexexec.cc, vexexec.h, vexcpustate.h): it looks up the
  block of the next address, runs the code the cache has for it, acts on how the code ended
  and goes on at the address it returned. Pages the guest executes from are made read-only;
  a write to one of them is a signal, and the blocks of its mapping are flushed before the
  next block. The guest's library, which keeps the registers and the mappings, and the
  compiled code are parameters; the protection the host has for a known mapping is the one
  recorded last, since \<open>mprotect\<close> is always called with it. Messages, and saving the guest
  instead of running it, are left out.
\<close>

section \<open>State\<close>

definition PROT_READ :: "32 word" where "PROT_READ = 1"
definition PROT_WRITE :: "32 word" where "PROT_WRITE = 2"
definition PROT_EXEC :: "32 word" where "PROT_EXEC = 4"

record Mapping =
  m_offset :: "64 word"
  m_end :: "64 word"
  req_prot :: "32 word"
  cur_prot :: "32 word"

text \<open>The bytes of the CPU state, with the exit type behind the registers, and the rest of
  the guest.\<close>

record 'r guest =
  state_data :: "nat \<Rightarrow> 8 word"
  ram :: 'r

datatype access = Load "64 word" | Store "64 word"

primrec access_addr :: "access \<Rightarrow> 64 word" where
  "access_addr (Load a) = a"
| "access_addr (Store a) = a"

primrec access_prot :: "access \<Rightarrow> 32 word" where
  "access_prot (Load a) = PROT_READ"
| "access_prot (Store a) = PROT_WRITE"

text \<open>What is not known here: the translator and the compiler behind the cache; the table of
  mappings; what the code at a host address does to the guest, with the accesses it makes
  and the address it returns; whether the host lets it access what is in no mapping; where
  a block ends; the system calls, with whether the call was an exit.\<close>

record ('c, 'r, 'm) exec_env =
  jit_env :: "'c translator"
  state_byte_c :: nat
  getHostPtr :: "'m \<Rightarrow> 64 word \<Rightarrow> 64 word"
  lookupMapping :: "'m \<Rightarrow> 64 word \<Rightarrow> Mapping option"
  recordMapping :: "Mapping \<Rightarrow> 'm \<Rightarrow> 'm"
  run_code :: "64 word \<Rightarrow> 'r guest \<Rightarrow> access list \<times> 64 word \<times> 'r guest"
  host_allows :: "access \<Rightarrow> bool"
  getEndAddr_of :: "'c VexSB \<Rightarrow> 64 word"
  sc_apply :: "'r guest \<Rightarrow> 'm \<Rightarrow> (64 word \<times> bool) \<times> 'r guest \<times> 'm"
  setSyscallResult :: "64 word \<Rightarrow> 'r guest \<Rightarrow> 'r guest"
  getPC :: "'r guest \<Rightarrow> 64 word"

datatype TraceConf = TRACE_OFF | TRACE_LOG | TRACE_STDERR

record ('c, 'r, 'm) VexExec =
  next_addr :: "64 word"
  call_depth :: int
  sb_executed_c :: "32 word"
  exited :: bool
  exit_code :: "32 word"
  trace_conf :: TraceConf
  trace :: "(64 word \<times> int) list"
  trace_c :: "32 word"
  to_flush :: "64 word \<times> 64 word"
  jit_cache_of :: "'c VexJITCache"
  gs :: "'r guest"
  maps :: 'm

text \<open>How the process can end: undefined behaviour or a failed assertion, an exit from
  within, a fault that is handled and comes back for ever.\<close>

datatype halt = Fault fault | Exit_process int | Signal_loop

definition or_fault :: "fault + 'a \<Rightarrow> halt + 'a" where
  "or_fault r = (case r of Inl f \<Rightarrow> Inl (Fault f) | Inr a \<Rightarrow> Inr a)"

lemma or_fault_simps [simp]: "or_fault (Inl f) = Inl (Fault f)" "or_fault (Inr a) = Inr a"
  "or_fault r = Inr b \<longleftrightarrow> r = Inr b" "or_fault r = Inl (Fault g) \<longleftrightarrow> r = Inl g"
  "or_fault r \<noteq> Inl Signal_loop" "or_fault r \<noteq> Inl (Exit_process k)"
  by (auto simp: or_fault_def split: sum.splits)

definition getExitType :: "('c, 'r, 'm) exec_env \<Rightarrow> 'r guest \<Rightarrow> int" where
  "getExitType E g = uint (state_data g (state_byte_c E))"

definition setExitType_state :: "('c, 'r, 'm) exec_env \<Rightarrow> int \<Rightarrow> 'r guest \<Rightarrow> 'r guest" where
  "setExitType_state E et g = g\<lparr>state_data := (state_data g)(state_byte_c E := word_of_int et)\<rparr>"

section \<open>Signals\<close>

definition flushTamperedCode :: "64 word \<Rightarrow> 64 word \<Rightarrow> ('c, 'r, 'm) VexExec \<Rightarrow> ('c, 'r, 'm) VexExec" where
  "flushTamperedCode b e s = s\<lparr>to_flush := (b, e)\<rparr>"

definition signalHandler :: "('c, 'r, 'm) exec_env \<Rightarrow> 64 word \<Rightarrow> ('c, 'r, 'm) VexExec \<Rightarrow> halt + ('c, 'r, 'm) VexExec" where
  "signalHandler E si_addr s = (case lookupMapping E (maps s) si_addr of
     None \<Rightarrow> Inl (Exit_process 1)
   | Some m \<Rightarrow>
       if req_prot m AND PROT_EXEC \<noteq> 0 \<and> cur_prot m AND PROT_WRITE = 0
       then (let m = m\<lparr>cur_prot := req_prot m AND NOT PROT_EXEC\<rparr>
             in Inr (flushTamperedCode (m_offset m) (m_end m) (s\<lparr>maps := recordMapping E m (maps s)\<rparr>)))
       else Inl (Exit_process 1))"

definition allowed :: "('c, 'r, 'm) exec_env \<Rightarrow> access \<Rightarrow> ('c, 'r, 'm) VexExec \<Rightarrow> bool" where
  "allowed E x s = (case lookupMapping E (maps s) (access_addr x) of
     None \<Rightarrow> host_allows E x
   | Some m \<Rightarrow> cur_prot m AND access_prot x \<noteq> 0)"

text \<open>An access that is not allowed is a signal; when the handler returns it is made again.\<close>

primrec do_access :: "('c, 'r, 'm) exec_env \<Rightarrow> nat \<Rightarrow> access \<Rightarrow> ('c, 'r, 'm) VexExec \<Rightarrow> halt + ('c, 'r, 'm) VexExec" where
  "do_access E 0 x s = Inl Signal_loop"
| "do_access E (Suc n) x s = (if allowed E x s then Inr s
     else and_then (signalHandler E (access_addr x) s) (do_access E n x))"

primrec do_accesses :: "('c, 'r, 'm) exec_env \<Rightarrow> access list \<Rightarrow> ('c, 'r, 'm) VexExec \<Rightarrow> halt + ('c, 'r, 'm) VexExec" where
  "do_accesses E [] s = Inr s"
| "do_accesses E (x # xs) s = and_then (do_access E 3 x s) (do_accesses E xs)"

section \<open>Blocks\<close>

definition doVexSB :: "('c, 'r, 'm) exec_env \<Rightarrow> 'c VexSB \<Rightarrow> ('c, 'r, 'm) VexExec \<Rightarrow> halt + 64 word \<times> ('c, 'r, 'm) VexExec" where
  "doVexSB E vsb s = (
     let (func_ptr, j) = getCachedFPtr (VexSB.guest_addr vsb) (jit_cache_of s); s = s\<lparr>jit_cache_of := j\<rparr>
     in if func_ptr = 0 then Inl (Fault Assert_failed)
        else case run_code E func_ptr (gs s) of (xs, new_ip, g) \<Rightarrow>
          and_then (do_accesses E xs s) (\<lambda>s. Inr (new_ip, s\<lparr>gs := g, sb_executed_c := sb_executed_c s + 1\<rparr>)))"

definition getSBFromGuestAddr :: "('c, 'r, 'm) exec_env \<Rightarrow> 64 word \<Rightarrow> ('c, 'r, 'm) VexExec
    \<Rightarrow> halt + 'c VexSB option \<times> ('c, 'r, 'm) VexExec" where
  "getSBFromGuestAddr E elfptr s = (
     let hostptr = getHostPtr E (maps s) elfptr;
         found = lookupMapping E (maps s) elfptr;
         compile = (\<lambda>s. and_then (or_fault (getVSB (jit_env E) jit_evict hostptr elfptr (jit_cache_of s))) (\<lambda>(vsb, j).
           case vsb of
             None \<Rightarrow> Inr (None, s\<lparr>jit_cache_of := j\<rparr>)
           | Some vsb \<Rightarrow> and_then (or_fault (getFPtr (jit_env E) hostptr elfptr j)) (\<lambda>(p, j).
               if (case found of None \<Rightarrow> True | Some m \<Rightarrow> getEndAddr_of E vsb < m_end m)
               then Inr (Some vsb, s\<lparr>jit_cache_of := j\<rparr>) else Inl (Fault Assert_failed))))
     in case found of
          None \<Rightarrow> compile s
        | Some m \<Rightarrow>
            if req_prot m AND PROT_EXEC = 0 then Inr (None, s)
            else if cur_prot m AND PROT_WRITE \<noteq> 0
            then compile (s\<lparr>maps := recordMapping E (m\<lparr>cur_prot := req_prot m AND NOT PROT_WRITE\<rparr>) (maps s)\<rparr>)
            else compile s)"

section \<open>System calls\<close>

definition setExit :: "32 word \<Rightarrow> ('c, 'r, 'm) VexExec \<Rightarrow> ('c, 'r, 'm) VexExec" where
  "setExit ec s = s\<lparr>exited := True, exit_code := ec\<rparr>"

definition doSysCall :: "('c, 'r, 'm) exec_env \<Rightarrow> ('c, 'r, 'm) VexExec \<Rightarrow> ('c, 'r, 'm) VexExec" where
  "doSysCall E s = (case sc_apply E (gs s) (maps s) of ((sc_ret, isExit), g, mm) \<Rightarrow>
     let s = (if isExit then setExit (ucast sc_ret) s else s) in s\<lparr>gs := setSyscallResult E sc_ret g, maps := mm\<rparr>)"

definition doTrap :: "('c, 'r, 'm) VexExec \<Rightarrow> ('c, 'r, 'm) VexExec" where
  "doTrap s = s"

section \<open>The loop\<close>

definition TRACE_MAX :: "32 word" where "TRACE_MAX = 500"
definition MAX_CODE_BYTES :: "64 word" where "MAX_CODE_BYTES = 1024"

definition log_trace :: "64 word \<Rightarrow> ('c, 'r, 'm) VexExec \<Rightarrow> ('c, 'r, 'm) VexExec" where
  "log_trace elfptr s = (if trace_conf s = TRACE_LOG
     then (let s = (if trace_c s > TRACE_MAX then s\<lparr>trace := tl (trace s)\<rparr> else s\<lparr>trace_c := trace_c s + 1\<rparr>)
           in s\<lparr>trace := trace s @ [(elfptr, call_depth s)]\<rparr>)
     else s)"

definition flush_tampered :: "('c, 'r, 'm) VexExec \<Rightarrow> halt + ('c, 'r, 'm) VexExec" where
  "flush_tampered s = (if fst (to_flush s) \<noteq> 0
     then and_then (or_fault (jit_flush_range (fst (to_flush s) - MAX_CODE_BYTES) (snd (to_flush s) + MAX_CODE_BYTES) (jit_cache_of s)))
       (\<lambda>j. Inr (s\<lparr>jit_cache_of := j, to_flush := (0, 0)\<rparr>))
     else Inr s)"

text \<open>What is done about an exit type; whether the loop goes on.\<close>

definition special_exit :: "('c, 'r, 'm) exec_env \<Rightarrow> ('c, 'r, 'm) VexExec \<Rightarrow> halt + bool \<times> ('c, 'r, 'm) VexExec" where
  "special_exit E s = (
     let exit_type = getExitType E (gs s) in
     if exit_type = GE_IGNORE then Inr (True, s)
     else if exit_type = GE_CALL then Inr (True, s\<lparr>call_depth := call_depth s + 1\<rparr>)
     else if exit_type = GE_RETURN then Inr (True, s\<lparr>call_depth := call_depth s - 1\<rparr>)
     else if exit_type = GE_INT \<or> exit_type = GE_SYSCALL then (let s = doSysCall E s in Inr (\<not> exited s, s))
     else if exit_type = GE_SIGTRAP then (let s = doTrap s in Inr (\<not> exited s, s))
     else if exit_type = GE_EMWARN then Inr (True, s)
     else Inl (Fault Assert_failed))"

definition doNextSB :: "('c, 'r, 'm) exec_env \<Rightarrow> ('c, 'r, 'm) VexExec \<Rightarrow> halt + 'c VexSB option \<times> ('c, 'r, 'm) VexExec" where
  "doNextSB E s = (
     let elfptr = next_addr s in
     and_then (flush_tampered (log_trace elfptr s)) (\<lambda>s.
       if elfptr = 0 then Inr (None, s)
       else and_then (getSBFromGuestAddr E elfptr s) (\<lambda>(vsb, s). case vsb of
         None \<Rightarrow> Inr (None, s)
       | Some vsb \<Rightarrow> and_then (doVexSB E vsb s) (\<lambda>(new_jmpaddr, s).
           and_then (special_exit E s) (\<lambda>(go_on, s).
             let s = s\<lparr>gs := setExitType_state E GE_IGNORE (gs s)\<rparr>
             in if go_on then Inr (Some vsb, s\<lparr>next_addr := new_jmpaddr\<rparr>) else Inr (None, s))))))"

definition stepVSB :: "('c, 'r, 'm) exec_env \<Rightarrow> ('c, 'r, 'm) VexExec \<Rightarrow> halt + bool \<times> ('c, 'r, 'm) VexExec" where
  "stepVSB E s = (if exited s then Inr (False, s)
     else and_then (doNextSB E s) (\<lambda>(vsb, s). Inr (vsb \<noteq> None, s)))"

definition beginStepping :: "('c, 'r, 'm) exec_env \<Rightarrow> ('c, 'r, 'm) VexExec \<Rightarrow> ('c, 'r, 'm) VexExec" where
  "beginStepping E s = s\<lparr>next_addr := getPC E (gs s), call_depth := 0\<rparr>"

text \<open>The loop may run for ever: then it has no value.\<close>

partial_function (option) run_loop :: "('c, 'r, 'm) exec_env \<Rightarrow> ('c, 'r, 'm) VexExec \<Rightarrow> (halt + ('c, 'r, 'm) VexExec) option" where
  "run_loop E s = (case stepVSB E s of
     Inl h \<Rightarrow> Some (Inl h)
   | Inr (go_on, s) \<Rightarrow> if go_on then run_loop E s else Some (Inr s))"

definition run :: "('c, 'r, 'm) exec_env \<Rightarrow> ('c, 'r, 'm) VexExec \<Rightarrow> (halt + ('c, 'r, 'm) VexExec) option" where
  "run E s = run_loop E (beginStepping E s)"

section \<open>Every state of the loop\<close>

text \<open>A new loop, ready to step: the constructor, with the limit of the cache if one is
  given, and \<open>beginStepping\<close>.\<close>

definition new_VexExec :: "('c, 'r, 'm) exec_env \<Rightarrow> TraceConf \<Rightarrow> 32 word option \<Rightarrow> 'r guest \<Rightarrow> 'm \<Rightarrow> ('c, 'r, 'm) VexExec" where
  "new_VexExec E conf max_ents g mm = beginStepping E
     \<lparr>next_addr = 0, call_depth = 0, sb_executed_c = 0, exited = False, exit_code = 0, trace_conf = conf, trace = [], trace_c = 0,
      to_flush = (0, 0), jit_cache_of = (case max_ents of None \<Rightarrow> new_VexJITCache | Some n \<Rightarrow> setMaxCache jit_flush n new_VexJITCache),
      gs = g, maps = mm\<rparr>"

inductive exec_reach :: "('c, 'r, 'm) exec_env \<Rightarrow> ('c, 'r, 'm) VexExec \<Rightarrow> bool" for E where
  reach_new: "getExitType E g = GE_IGNORE \<Longrightarrow> exec_reach E (new_VexExec E conf max_ents g mm)"
| reach_step: "exec_reach E s \<Longrightarrow> stepVSB E s = Inr (b, s') \<Longrightarrow> exec_reach E s'"

inductive_simps jit_step_range: "jit_step E (s :: 'c VexJITCache) s'"

text \<open>The cache of a state the loop can reach is one the cache can reach.\<close>

definition only_memory :: "('c, 'r, 'm) VexExec \<Rightarrow> ('c, 'r, 'm) VexExec \<Rightarrow> bool" where
  "only_memory s s' \<longleftrightarrow> (\<exists>mm f. s' = s\<lparr>maps := mm, to_flush := f\<rparr>)"

lemma only_memory_refl [intro!, simp]: "only_memory s s"
  unfolding only_memory_def by (intro exI [of _ "maps s"] exI [of _ "to_flush s"]) simp

lemma only_memory_trans [trans]: "only_memory s t \<Longrightarrow> only_memory t u \<Longrightarrow> only_memory s u"
  unfolding only_memory_def by (elim exE) (rule exI, rule exI, simp)

lemma only_memory_upd [intro, simp]: "only_memory s (s\<lparr>maps := mm, to_flush := f\<rparr>)" "only_memory s (s\<lparr>maps := mm\<rparr>)"
  unfolding only_memory_def by (blast, intro exI [of _ mm] exI [of _ "to_flush s"], simp)

lemma signalHandler_keeps: "signalHandler E a s = Inr s' \<Longrightarrow> only_memory s s'"
  by (auto simp: signalHandler_def flushTamperedCode_def Let_def split: option.splits if_splits)

lemma do_access_keeps: "do_access E n x s = Inr s' \<Longrightarrow> only_memory s s'"
  by (induction n arbitrary: s) (auto split: if_splits dest!: signalHandler_keeps intro: only_memory_trans)

lemma do_accesses_keeps: "do_accesses E xs s = Inr s' \<Longrightarrow> only_memory s s'"
  by (induction xs arbitrary: s) (auto dest!: do_access_keeps intro: only_memory_trans simp del: do_access.simps)

lemma doVexSB_result:
  assumes "doVexSB E vsb s = Inr (ip, s')"
  obtains func_ptr j xs g t where "getCachedFPtr (VexSB.guest_addr vsb) (jit_cache_of s) = (func_ptr, j)" "func_ptr \<noteq> 0"
    "run_code E func_ptr (gs s) = (xs, ip, g)" "do_accesses E xs (s\<lparr>jit_cache_of := j\<rparr>) = Inr t" "only_memory (s\<lparr>jit_cache_of := j\<rparr>) t"
    "s' = t\<lparr>gs := g, sb_executed_c := sb_executed_c t + 1\<rparr>"
proof -
  obtain func_ptr j where j: "getCachedFPtr (VexSB.guest_addr vsb) (jit_cache_of s) = (func_ptr, j)" by force
  obtain xs ip' g where g: "run_code E func_ptr (gs s) = (xs, ip', g)" by (cases "run_code E func_ptr (gs s)") auto
  obtain t where t: "do_accesses E xs (s\<lparr>jit_cache_of := j\<rparr>) = Inr t" "func_ptr \<noteq> 0" "ip = ip'" "s' = t\<lparr>gs := g, sb_executed_c := sb_executed_c t + 1\<rparr>"
    using assms j g by (auto simp: doVexSB_def Let_def split: if_splits)
  then show thesis using that [OF j t(2) _ t(1) do_accesses_keeps [OF t(1)] t(4)] g by simp
qed

text \<open>The part of looking up a block that uses the cache, with the other state unchanged.\<close>

definition getSB_compile :: "('c, 'r, 'm) exec_env \<Rightarrow> 64 word \<Rightarrow> 64 word \<Rightarrow> Mapping option \<Rightarrow> ('c, 'r, 'm) VexExec
    \<Rightarrow> halt + 'c VexSB option \<times> ('c, 'r, 'm) VexExec" where
  "getSB_compile E hostptr elfptr found s = and_then (or_fault (getVSB (jit_env E) jit_evict hostptr elfptr (jit_cache_of s))) (\<lambda>(vsb, j).
     case vsb of
       None \<Rightarrow> Inr (None, s\<lparr>jit_cache_of := j\<rparr>)
     | Some vsb \<Rightarrow> and_then (or_fault (getFPtr (jit_env E) hostptr elfptr j)) (\<lambda>(p, j).
         if (case found of None \<Rightarrow> True | Some m \<Rightarrow> getEndAddr_of E vsb < m_end m)
         then Inr (Some vsb, s\<lparr>jit_cache_of := j\<rparr>) else Inl (Fault Assert_failed)))"

lemma compile_none:
  assumes "getSB_compile E h p found s = Inr (None, s')"
  shows "\<exists>j. getVSB (jit_env E) jit_evict h p (jit_cache_of s) = Inr (None, j) \<and> s' = s\<lparr>jit_cache_of := j\<rparr>"
proof -
  obtain v j where v: "getVSB (jit_env E) jit_evict h p (jit_cache_of s) = Inr (v, j)"
    using assms by (auto simp: getSB_compile_def)
  then show ?thesis using assms by (cases v) (auto simp: getSB_compile_def split: if_splits)
qed

lemma compile_some:
  assumes "getSB_compile E h p found s = Inr (Some vsb, s')"
  obtains j c j' where "getVSB (jit_env E) jit_evict h p (jit_cache_of s) = Inr (Some vsb, j)" "getFPtr (jit_env E) h p j = Inr (c, j')"
    "s' = s\<lparr>jit_cache_of := j'\<rparr>" "case found of None \<Rightarrow> True | Some m \<Rightarrow> getEndAddr_of E vsb < m_end m"
proof -
  obtain v j where v: "getVSB (jit_env E) jit_evict h p (jit_cache_of s) = Inr (v, j)"
    using assms by (auto simp: getSB_compile_def)
  show thesis
  proof (cases v)
    case (Some w)
    then show thesis using assms v that by (auto simp: getSB_compile_def split: if_split_asm)
  qed (use assms v in \<open>simp add: getSB_compile_def\<close>)
qed

text \<open>The mappings after a block is looked up: what the guest is about to execute is no longer
  writable.\<close>

definition write_protect :: "('c, 'r, 'm) exec_env \<Rightarrow> 64 word \<Rightarrow> 'm \<Rightarrow> 'm" where
  "write_protect E p mm = (case lookupMapping E mm p of
     None \<Rightarrow> mm
   | Some m \<Rightarrow> if cur_prot m AND PROT_WRITE \<noteq> 0 then recordMapping E (m\<lparr>cur_prot := req_prot m AND NOT PROT_WRITE\<rparr>) mm else mm)"

lemma getSB_alt: "getSBFromGuestAddr E p s = (
     if \<exists>m. lookupMapping E (maps s) p = Some m \<and> req_prot m AND PROT_EXEC = 0 then Inr (None, s)
     else getSB_compile E (getHostPtr E (maps s) p) p (lookupMapping E (maps s) p) (s\<lparr>maps := write_protect E p (maps s)\<rparr>))"
  unfolding getSBFromGuestAddr_def Let_def getSB_compile_def [symmetric] write_protect_def
  by (cases "lookupMapping E (maps s) p") simp_all

section \<open>Reachable states\<close>

text \<open>What holds between two blocks: the exit type has been consumed, and the trace is as long
  as its counter says.\<close>

definition exec_ok :: "('c, 'r, 'm) exec_env \<Rightarrow> ('c, 'r, 'm) VexExec \<Rightarrow> bool" where
  "exec_ok E s \<longleftrightarrow> getExitType E (gs s) = GE_IGNORE \<and> length (trace s) = unat (trace_c s) \<and> trace_c s \<le> TRACE_MAX + 1"

definition same_trace :: "('c, 'r, 'm) VexExec \<Rightarrow> ('c, 'r, 'm) VexExec \<Rightarrow> bool" where
  "same_trace s s' \<longleftrightarrow> trace s' = trace s \<and> trace_c s' = trace_c s"

lemma only_memory_sel: "only_memory s s' \<Longrightarrow> jit_cache_of s' = jit_cache_of s \<and> gs s' = gs s \<and> same_trace s s' \<and>
  next_addr s' = next_addr s \<and> exited s' = exited s \<and> call_depth s' = call_depth s"
  by (auto simp: only_memory_def same_trace_def)

lemma flush_tampered_keeps: "flush_tampered s = Inr s' \<Longrightarrow> same_trace s s' \<and> gs s' = gs s \<and> maps s' = maps s"
  by (auto simp: flush_tampered_def same_trace_def split: if_splits)

lemma getSB_compile_keeps:
  assumes "getSB_compile E h p found s = Inr (v, s')"
  shows "same_trace s s' \<and> gs s' = gs s"
proof (cases v)
  case None
  then show ?thesis using assms compile_none by (fastforce simp: same_trace_def)
next
  case (Some vsb)
  with assms have "getSB_compile E h p found s = Inr (Some vsb, s')" by simp
  then show ?thesis by (rule compile_some) (simp add: same_trace_def)
qed

lemma getSB_keeps: "getSBFromGuestAddr E p s = Inr (v, s') \<Longrightarrow> same_trace s s' \<and> gs s' = gs s"
  using getSB_compile_keeps [where s = "s\<lparr>maps := write_protect E p (maps s)\<rparr>"]
  by (auto simp: getSB_alt same_trace_def split: if_split_asm)

lemma doVexSB_keeps: "doVexSB E vsb s = Inr (ip, s') \<Longrightarrow> same_trace s s'"
  by (erule doVexSB_result) (auto dest!: only_memory_sel simp: same_trace_def)

lemma special_exit_keeps: "special_exit E s = Inr (b, s') \<Longrightarrow> jit_cache_of s' = jit_cache_of s \<and> to_flush s' = to_flush s \<and> same_trace s s'"
  by (auto simp: special_exit_def Let_def same_trace_def doSysCall_def setExit_def doTrap_def split: if_splits prod.splits)

lemma setExitType_ignore [simp]: "getExitType E (setExitType_state E GE_IGNORE g) = GE_IGNORE"
  by (simp add: getExitType_def setExitType_state_def GE_IGNORE_def)

lemma log_trace_ok:
  assumes "length (trace s) = unat (trace_c s)" and "trace_c s \<le> TRACE_MAX + 1"
  shows "length (trace (log_trace a s)) = unat (trace_c (log_trace a s)) \<and> trace_c (log_trace a s) \<le> TRACE_MAX + 1"
proof (cases "trace_conf s = TRACE_LOG \<and> trace_c s \<le> TRACE_MAX")
  case True
  then have "trace_c s < TRACE_MAX + 1" by (simp add: TRACE_MAX_def word_less_nat_alt word_le_nat_alt)
  then have "unat (trace_c s + 1) = unat (trace_c s) + 1" "trace_c s + 1 \<le> TRACE_MAX + 1"
    by (auto simp: TRACE_MAX_def word_less_nat_alt word_le_nat_alt unat_word_ariths)
  then show ?thesis using True assms by (simp add: log_trace_def not_less [symmetric])
next
  case False
  show ?thesis
  proof (cases "trace_conf s = TRACE_LOG")
    case True
    then have "\<not> trace_c s \<le> TRACE_MAX" using False by simp
    then have "trace_c s > TRACE_MAX" "unat (trace_c s) > 0" by (auto simp: TRACE_MAX_def word_le_nat_alt word_less_nat_alt)
    then show ?thesis using True assms by (simp add: log_trace_def)
  qed (use assms in \<open>simp add: log_trace_def\<close>)
qed

lemma log_trace_keeps [simp]: "jit_cache_of (log_trace a s) = jit_cache_of s" "gs (log_trace a s) = gs s"
  "maps (log_trace a s) = maps s" "to_flush (log_trace a s) = to_flush s" "next_addr (log_trace a s) = next_addr s"
  "exited (log_trace a s) = exited s"
  by (simp_all add: log_trace_def Let_def)

text \<open>The parts of a step.\<close>

lemma doNextSB_cases:
  assumes "doNextSB E s = Inr (v, s')"
  obtains (null) "flush_tampered (log_trace (next_addr s) s) = Inr s'" "v = None"
  | (no_block) s1 where "flush_tampered (log_trace (next_addr s) s) = Inr s1" "next_addr s \<noteq> 0"
      "getSBFromGuestAddr E (next_addr s) s1 = Inr (None, s')" "v = None"
  | (block) s1 vsb s2 ip s3 go_on s4 where "flush_tampered (log_trace (next_addr s) s) = Inr s1" "next_addr s \<noteq> 0"
      "getSBFromGuestAddr E (next_addr s) s1 = Inr (Some vsb, s2)" "doVexSB E vsb s2 = Inr (ip, s3)"
      "special_exit E s3 = Inr (go_on, s4)" "v = (if go_on then Some vsb else None)"
      "s' = (let t = s4\<lparr>gs := setExitType_state E GE_IGNORE (gs s4)\<rparr> in if go_on then t\<lparr>next_addr := ip\<rparr> else t)"
proof -
  obtain s1 where s1: "flush_tampered (log_trace (next_addr s) s) = Inr s1" using assms by (auto simp: doNextSB_def Let_def)
  show thesis
  proof (cases "next_addr s = 0")
    case True
    then show thesis using null assms s1 by (simp add: doNextSB_def)
  next
    case False
    then obtain w s2 where w: "getSBFromGuestAddr E (next_addr s) s1 = Inr (w, s2)" using assms s1 by (auto simp: doNextSB_def Let_def)
    show thesis
    proof (cases w)
      case None
      then show thesis using no_block assms s1 w False by (simp add: doNextSB_def)
    next
      case (Some vsb)
      then obtain ip s3 where x: "doVexSB E vsb s2 = Inr (ip, s3)" using assms s1 w False by (auto simp: doNextSB_def Let_def)
      then obtain go_on s4 where y: "special_exit E s3 = Inr (go_on, s4)" using assms s1 w False Some by (auto simp: doNextSB_def Let_def)
      then show thesis using block [OF s1 False w [unfolded Some] x y] assms s1 w False Some x
        by (simp add: doNextSB_def Let_def split: if_split_asm)
    qed
  qed
qed

lemma doNextSB_ok:
  assumes "exec_ok E s" and "doNextSB E s = Inr (v, s')"
  shows "exec_ok E s'"
proof -
  let ?l = "log_trace (next_addr s) s"
  have l: "length (trace ?l) = unat (trace_c ?l)" "trace_c ?l \<le> TRACE_MAX + 1"
    using assms(1) log_trace_ok [of s "next_addr s"] by (auto simp: exec_ok_def)
  have g: "getExitType E (gs ?l) = GE_IGNORE" using assms(1) by (simp add: exec_ok_def)
  from assms(2) show ?thesis
  proof (cases rule: doNextSB_cases)
    case null
    then show ?thesis using flush_tampered_keeps [of ?l s'] l g by (auto simp: exec_ok_def same_trace_def)
  next
    case (no_block s1)
    then show ?thesis using flush_tampered_keeps [of ?l s1] getSB_keeps [of E _ s1 None s'] l g
      by (auto simp: exec_ok_def same_trace_def)
  next
    case (block s1 vsb s2 ip s3 go_on s4)
    have "same_trace ?l s1" "same_trace s1 s2" "same_trace s2 s3" "same_trace s3 s4"
      using flush_tampered_keeps [OF block(1)] getSB_keeps [OF block(3)] doVexSB_keeps [OF block(4)] special_exit_keeps [OF block(5)] by auto
    then show ?thesis using l block(7) by (auto simp: exec_ok_def same_trace_def Let_def split: if_splits)
  qed
qed

lemma exec_reach_ok: "exec_reach E s \<Longrightarrow> exec_ok E s"
proof (induction rule: exec_reach.induct)
  case (reach_new g conf max_ents mm)
  then show ?case by (simp add: exec_ok_def new_VexExec_def beginStepping_def)
next
  case (reach_step s b s')
  then show ?case using doNextSB_ok by (auto simp: stepVSB_def split: if_splits)
qed

section \<open>What the loop needs of the cache\<close>

text \<open>The loop uses the cache by four operations. What holds of a new cache and is kept by them
  holds of the cache in every state the loop reaches.\<close>

locale cache_property =
  fixes T :: "'c translator" and I :: "'c VexJITCache \<Rightarrow> bool"
  assumes new: "I new_VexJITCache" "I (setMaxCache jit_flush n new_VexJITCache)"
    and vsb: "I j \<Longrightarrow> getVSB T jit_evict h p j = Inr (v, j') \<Longrightarrow> I j'"
    and fptr: "I j \<Longrightarrow> getFPtr T h p j = Inr (c, j') \<Longrightarrow> I j'"
    and cached: "I j \<Longrightarrow> getCachedFPtr p j = (c, j') \<Longrightarrow> I j'"
    and flushed: "I j \<Longrightarrow> jit_flush_range b e j = Inr j' \<Longrightarrow> I j'"
begin

lemma flush_tampered: "I (jit_cache_of s) \<Longrightarrow> flush_tampered s = Inr s' \<Longrightarrow> I (jit_cache_of s')"
  by (auto simp: flush_tampered_def split: if_splits intro: flushed)

lemma getSB_compile:
  assumes "jit_env E = T" and "I (jit_cache_of s)" and "getSB_compile E h p found s = Inr (v, s')"
  shows "I (jit_cache_of s')"
proof (cases v)
  case None
  then obtain j where "getVSB (jit_env E) jit_evict h p (jit_cache_of s) = Inr (None, j)" "s' = s\<lparr>jit_cache_of := j\<rparr>"
    using assms(3) compile_none by blast
  then show ?thesis using assms(1,2) vsb by simp
next
  case (Some w)
  with assms(3) have "getSB_compile E h p found s = Inr (Some w, s')" by simp
  then obtain j c j' where "getVSB (jit_env E) jit_evict h p (jit_cache_of s) = Inr (Some w, j)" "getFPtr (jit_env E) h p j = Inr (c, j')"
    "s' = s\<lparr>jit_cache_of := j'\<rparr>" by (rule compile_some)
  then show ?thesis using fptr [OF vsb] assms(1,2) by simp
qed

lemma getSB: "jit_env E = T \<Longrightarrow> I (jit_cache_of s) \<Longrightarrow> getSBFromGuestAddr E p s = Inr (v, s') \<Longrightarrow> I (jit_cache_of s')"
  using getSB_compile [of E "s\<lparr>maps := write_protect E p (maps s)\<rparr>"] by (auto simp: getSB_alt split: if_split_asm)

lemma doVexSB: "I (jit_cache_of s) \<Longrightarrow> doVexSB E w s = Inr (ip, s') \<Longrightarrow> I (jit_cache_of s')"
  by (erule doVexSB_result) (auto dest!: only_memory_sel intro: cached)

lemma doNextSB:
  assumes "jit_env E = T" and "I (jit_cache_of s)" and "doNextSB E s = Inr (v, s')"
  shows "I (jit_cache_of s')"
  using assms(3)
proof (cases rule: doNextSB_cases)
  case null
  then show ?thesis using flush_tampered [OF _ null(1)] assms(2) by simp
next
  case (no_block s1)
  then show ?thesis using getSB [OF assms(1) flush_tampered [OF _ no_block(1)] no_block(3)] assms(2) by simp
next
  case (block s1 w s2 ip s3 go_on s4)
  have "I (jit_cache_of s3)"
    using flush_tampered [OF _ block(1)] getSB [OF assms(1) _ block(3)] doVexSB [OF _ block(4)] assms(2) by simp
  then show ?thesis using special_exit_keeps [OF block(5)] block(7) by (auto simp: Let_def)
qed

lemma reached: "exec_reach E s \<Longrightarrow> jit_env E = T \<Longrightarrow> I (jit_cache_of s)"
proof (induction rule: exec_reach.induct)
  case (reach_new g conf max_ents mm)
  then show ?case using new by (simp add: new_VexExec_def beginStepping_def split: option.split)
next
  case (reach_step s b s')
  then show ?case using doNextSB by (auto simp: stepVSB_def split: if_splits)
qed

end

interpretation reaching: cache_property T "(jit_step T)\<^sup>*\<^sup>* new_VexJITCache" for T
  by unfold_locales (auto intro: jit_step.intros rtranclp.rtrancl_into_rtrancl)

text \<open>C9: Between two blocks, whatever blocks have run before, the exit type of the last
  one has been consumed, the dispatch trace is as long as its counter says and has at most
  501 entries, and the cache is in a state that its own operations reach from an empty one.\<close>

theorem execution_invariant:
  assumes "exec_reach E s"
  shows "getExitType E (gs s) = GE_IGNORE \<and> length (trace s) = unat (trace_c s) \<and> length (trace s) \<le> 501
    \<and> (jit_step (jit_env E))\<^sup>*\<^sup>* new_VexJITCache (jit_cache_of s)"
  using exec_reach_ok [OF assms] reaching.reached [OF assms refl] by (auto simp: exec_ok_def TRACE_MAX_def word_le_nat_alt)

section \<open>Exits\<close>

lemma getExitType_set: "0 \<le> t \<Longrightarrow> t < 256 \<Longrightarrow> getExitType E (setExitType_state E t g) = t"
  by (simp add: getExitType_def setExitType_state_def uint_word_of_int)

lemma special_exit_faults:
  "special_exit E s = Inl h \<longleftrightarrow> h = Fault Assert_failed \<and>
     getExitType E (gs s) \<notin> {GE_IGNORE, GE_CALL, GE_RETURN, GE_INT, GE_SYSCALL, GE_SIGTRAP, GE_EMWARN}"
  by (auto simp: special_exit_def Let_def)

text \<open>C10: Of the exit types that the code of a block can leave, the loop knows all but two:
  a block that ends in a pause instruction (\<open>GE_YIELD\<close>) and a side exit on a failed mapping
  or a segmentation fault (\<open>GE_SIGSEGV\<close>) fail the assertion of its default case.\<close>

theorem exits_dispatched:
  "((\<exists>t. jump_exit_type jk = Some t \<and> special_exit E (s\<lparr>gs := setExitType_state E (case t of None \<Rightarrow> GE_IGNORE | Some k \<Rightarrow> k) g\<rparr>)
        = Inl (Fault Assert_failed)) \<longleftrightarrow> jk = Ijk_Yield)
   \<and> ((\<exists>t. exit_type_of jk = Some t \<and> special_exit E (s\<lparr>gs := setExitType_state E t g\<rparr>) = Inl (Fault Assert_failed))
        \<longleftrightarrow> jk = Ijk_MapFail \<or> jk = Ijk_SigSEGV)"
  unfolding special_exit_faults by (cases jk) (auto simp: exit_types getExitType_set)

section \<open>Code that is written to\<close>

text \<open>What is relied on of the table of mappings: a mapping holds the addresses it is found
  for and is found for all of them, and recording it with another protection replaces it.\<close>

definition mappings_lawful :: "('c, 'r, 'm) exec_env \<Rightarrow> bool" where
  "mappings_lawful E \<longleftrightarrow>
     (\<forall>mm p m. lookupMapping E mm p = Some m \<longrightarrow> m_offset m \<le> p \<and> p < m_end m
        \<and> (\<forall>a. m_offset m \<le> a \<longrightarrow> a < m_end m \<longrightarrow> lookupMapping E mm a = Some m)
        \<and> (\<forall>q. lookupMapping E (recordMapping E (m\<lparr>cur_prot := q\<rparr>) mm) p = Some (m\<lparr>cur_prot := q\<rparr>)))"

lemma mapping_bounds: "mappings_lawful E \<Longrightarrow> lookupMapping E mm p = Some m \<Longrightarrow> m_offset m \<le> p \<and> p < m_end m"
  unfolding mappings_lawful_def by blast

lemma mapping_found: "mappings_lawful E \<Longrightarrow> lookupMapping E mm p = Some m \<Longrightarrow> m_offset m \<le> a \<Longrightarrow> a < m_end m
    \<Longrightarrow> lookupMapping E mm a = Some m"
  unfolding mappings_lawful_def by blast

lemma mapping_recorded: "mappings_lawful E \<Longrightarrow> lookupMapping E mm p = Some m
    \<Longrightarrow> lookupMapping E (recordMapping E (m\<lparr>cur_prot := q\<rparr>) mm) p = Some (m\<lparr>cur_prot := q\<rparr>)"
  unfolding mappings_lawful_def by blast

lemma prot_bits [simp]:
  "(r AND NOT PROT_WRITE) AND PROT_WRITE = 0" "(r AND NOT PROT_EXEC) AND PROT_WRITE = 0 \<longleftrightarrow> r AND PROT_WRITE = 0"
  by (simp_all add: PROT_WRITE_def PROT_EXEC_def and.assoc)

text \<open>The handler run for a store to a mapping the guest executes from.\<close>

lemma store_traps:
  assumes "lookupMapping E (maps s) a = Some m" and "req_prot m AND PROT_EXEC \<noteq> 0" and "cur_prot m AND PROT_WRITE = 0"
  shows "do_access E (Suc n) (Store a) s = do_access E n (Store a)
    (s\<lparr>maps := recordMapping E (m\<lparr>cur_prot := req_prot m AND NOT PROT_EXEC\<rparr>) (maps s), to_flush := (m_offset m, m_end m)\<rparr>)"
  using assms by (simp add: allowed_def signalHandler_def flushTamperedCode_def)

lemma store_loops:
  assumes "mappings_lawful E" and "lookupMapping E (maps s) a = Some m"
    and "req_prot m AND PROT_EXEC \<noteq> 0" and "req_prot m AND PROT_WRITE = 0" and "cur_prot m AND PROT_WRITE = 0"
  shows "do_access E n (Store a) s = Inl Signal_loop"
  using assms(2-)
proof (induction n arbitrary: s m)
  case (Suc n)
  show ?case
    unfolding store_traps [OF Suc.prems(1,2,4)]
    by (rule Suc.IH [of _ "m\<lparr>cur_prot := req_prot m AND NOT PROT_EXEC\<rparr>"])
       (use Suc.prems mapping_recorded [OF assms(1) Suc.prems(1)] in simp_all)
qed simp

text \<open>C8: A store to memory that the guest has executed from and may write: the handler
  makes the memory writable, notes the mapping to be flushed and the store is done when
  it is made again. But when the guest may not write the memory, the handler takes
  the signal for tampered code all the same, and the store is made again and again.\<close>

theorem store_to_executed_memory:
  assumes "mappings_lawful E" and "lookupMapping E (maps s) a = Some m"
    and "req_prot m AND PROT_EXEC \<noteq> 0" and "cur_prot m AND PROT_WRITE = 0"
  shows "do_access E (Suc (Suc n)) (Store a) s = (if req_prot m AND PROT_WRITE = 0 then Inl Signal_loop
    else Inr (s\<lparr>maps := recordMapping E (m\<lparr>cur_prot := req_prot m AND NOT PROT_EXEC\<rparr>) (maps s),
                to_flush := (m_offset m, m_end m)\<rparr>))"
proof (cases "req_prot m AND PROT_WRITE = 0")
  case True
  then show ?thesis using store_loops [OF assms(1,2,3) True assms(4)] by (simp del: do_access.simps)
next
  case False
  then show ?thesis unfolding store_traps [OF assms(2-4), of "Suc n"]
    using mapping_recorded [OF assms(1,2)] by (simp add: allowed_def)
qed

text \<open>The mapping a block was looked up in, and what is known of it while its code runs.\<close>

definition watched :: "('c, 'r, 'm) exec_env \<Rightarrow> Mapping \<Rightarrow> ('c, 'r, 'm) VexExec \<Rightarrow> bool" where
  "watched E m s \<longleftrightarrow> req_prot m AND PROT_EXEC \<noteq> 0 \<and>
     (\<exists>q. (\<forall>a. m_offset m \<le> a \<longrightarrow> a < m_end m \<longrightarrow> lookupMapping E (maps s) a = Some (m\<lparr>cur_prot := q\<rparr>))
        \<and> (q AND PROT_WRITE = 0 \<or> to_flush s = (m_offset m, m_end m)))"

definition in_mapping :: "Mapping \<Rightarrow> access \<Rightarrow> bool" where
  "in_mapping m x \<longleftrightarrow> m_offset m \<le> access_addr x \<and> access_addr x < m_end m"

lemma watched_upd [simp]: "watched E (m\<lparr>cur_prot := q\<rparr>) s = watched E m s"
  by (simp add: watched_def)

lemma watched_recorded:
  assumes "mappings_lawful E" and "lookupMapping E (maps s) a = Some m" and "req_prot m AND PROT_EXEC \<noteq> 0"
    and "q AND PROT_WRITE = 0 \<or> f = (m_offset m, m_end m)"
  shows "watched E m (s\<lparr>maps := recordMapping E (m\<lparr>cur_prot := q\<rparr>) (maps s), to_flush := f\<rparr>)"
  using assms(3,4) mapping_found [OF assms(1) mapping_recorded [OF assms(1,2)]]
  by (auto simp: watched_def intro!: exI [of _ q])

lemma watched_access:
  assumes law: "mappings_lawful E" and w: "watched E m s" and x: "in_mapping m x" and r: "do_access E n x s = Inr s'"
  shows "watched E m s' \<and> (access_prot x = PROT_WRITE \<or> to_flush s = (m_offset m, m_end m) \<longrightarrow> to_flush s' = (m_offset m, m_end m))"
  using w r
proof (induction n arbitrary: s)
  case (Suc n)
  obtain q where q: "lookupMapping E (maps s) (access_addr x) = Some (m\<lparr>cur_prot := q\<rparr>)" "req_prot m AND PROT_EXEC \<noteq> 0"
      "q AND PROT_WRITE = 0 \<or> to_flush s = (m_offset m, m_end m)"
    using Suc.prems(1) x by (auto simp: watched_def in_mapping_def)
  show ?case
  proof (cases "allowed E x s")
    case True
    then show ?thesis using Suc.prems q by (auto simp: allowed_def)
  next
    case False
    then obtain t where t: "signalHandler E (access_addr x) s = Inr t" "do_access E n x t = Inr s'" using Suc.prems(2) by auto
    then have "t = s\<lparr>maps := recordMapping E (m\<lparr>cur_prot := q\<rparr>\<lparr>cur_prot := req_prot m AND NOT PROT_EXEC\<rparr>) (maps s), to_flush := (m_offset m, m_end m)\<rparr>"
      using q(1) by (auto simp: signalHandler_def flushTamperedCode_def split: if_splits)
    then have "watched E (m\<lparr>cur_prot := q\<rparr>) t" and "to_flush t = (m_offset m, m_end m)"
      using watched_recorded [OF law q(1), of "req_prot m AND NOT PROT_EXEC" "(m_offset m, m_end m)"] q(2) by simp_all
    then show ?thesis using Suc.IH [OF _ t(2)] by simp
  qed
qed simp

lemma watched_accesses:
  assumes law: "mappings_lawful E" and "watched E m s" and "\<forall>x\<in>set xs. in_mapping m x" and "do_accesses E xs s = Inr s'"
    and "\<exists>a. Store a \<in> set xs \<or> to_flush s = (m_offset m, m_end m)"
  shows "to_flush s' = (m_offset m, m_end m)"
  using assms(2-)
proof (induction xs arbitrary: s)
  case (Cons x xs)
  obtain t where t: "do_access E 3 x s = Inr t" "do_accesses E xs t = Inr s'" using Cons.prems(3) by (auto simp del: do_access.simps)
  have w: "watched E m t" "access_prot x = PROT_WRITE \<longrightarrow> to_flush t = (m_offset m, m_end m)"
    "to_flush s = (m_offset m, m_end m) \<longrightarrow> to_flush t = (m_offset m, m_end m)"
    using watched_access [OF law Cons.prems(1) _ t(1)] Cons.prems(2) by auto
  then show ?case using Cons.IH [OF w(1) _ t(2)] w(2) Cons.prems(2,4) by (cases x) auto
qed auto

lemma jit_flush_range_frees:
  assumes s: "jit_ok s" "gen_mod s = []" and q: "b \<le> q" "q \<le> e" "map_of (func_cache s) q \<noteq> None"
  shows "jit_flush_range b e s = Inl Use_after_free"
proof -
  have be: "b \<le> e" using q(1,2) by (rule order_trans)
  have ok: "map_ok (vexsb_cache s)" "map_ok (func_cache s)" using s by (auto simp: jit_ok_defs)
  have "filter (\<lambda>x. b \<le> fst x \<and> fst x \<le> e) (func_cache s) \<noteq> []"
    using q by (force simp: filter_empty_conv map_of_eq_Some [OF ok(2)])
  then show ?thesis
    by (simp add: jit_flush_range_eq [OF s map_range_ok [OF ok(1) be] map_range_ok [OF ok(2) be]])
qed

lemma getSB_block:
  assumes "getSBFromGuestAddr E p s = Inr (Some vsb, s')" and "jit_ok (jit_cache_of s)" and "gen_mod (jit_cache_of s) = []"
  shows "maps s' = write_protect E p (maps s) \<and> to_flush s' = to_flush s \<and> jit_ok (jit_cache_of s') \<and> gen_mod (jit_cache_of s') = []
    \<and> map_of (func_cache (jit_cache_of s')) p \<noteq> None
    \<and> (\<forall>m. lookupMapping E (maps s) p = Some m \<longrightarrow> req_prot m AND PROT_EXEC \<noteq> 0)"
proof -
  have c: "getSB_compile E (getHostPtr E (maps s) p) p (lookupMapping E (maps s) p) (s\<lparr>maps := write_protect E p (maps s)\<rparr>) = Inr (Some vsb, s')"
      "\<forall>m. lookupMapping E (maps s) p = Some m \<longrightarrow> req_prot m AND PROT_EXEC \<noteq> 0"
    using assms(1) by (auto simp: getSB_alt split: if_split_asm)
  from c(1) obtain j c j' where j: "getVSB (jit_env E) jit_evict (getHostPtr E (maps s) p) p (jit_cache_of s) = Inr (Some vsb, j)"
      "getFPtr (jit_env E) (getHostPtr E (maps s) p) p j = Inr (c, j')" "s' = s\<lparr>maps := write_protect E p (maps s), jit_cache_of := j'\<rparr>"
    by (rule compile_some) simp
  have "jit_ok j \<and> gen_mod j = []" using jit_step_ok [OF jit_vsb [OF j(1)] assms(2,3)] by blast
  then show ?thesis using getFPtr_ok [OF _ _ j(2)] c(2) j(3) by simp
qed

lemma watched_block:
  assumes law: "mappings_lawful E" and m: "lookupMapping E mm p = Some m" "req_prot m AND PROT_EXEC \<noteq> 0" and "maps s = write_protect E p mm"
  shows "watched E m s"
proof (cases "cur_prot m AND PROT_WRITE = 0")
  case True
  then show ?thesis using assms mapping_found [OF law m(1)]
    by (auto simp: watched_def write_protect_def intro!: exI [of _ "cur_prot m"])
next
  case False
  then show ?thesis using assms mapping_found [OF law mapping_recorded [OF law m(1)]]
    by (auto simp: watched_def write_protect_def intro!: exI [of _ "req_prot m AND NOT PROT_WRITE"])
qed

text \<open>C7: Code that modifies itself ends the process. When a block stores into the mapping it
  was executed from, and the guest may write there, the loop flushes the mapping's blocks
  before the next one; but the function of the block that has just run is among them, and
  it was deleted with the module it was compiled from, so that it is freed again. This is so when
  every access of the block lies in that mapping, and the mapping starts no lower than
  MAX_CODE_BYTES and ends no closer than that to the end of the address space. In a lower
  mapping the range to flush wraps and nothing is flushed, and a later access to another executed
  mapping replaces the range that was noted: then the process goes on with stale code.\<close>

theorem self_modifying_code_faults:
  assumes law: "mappings_lawful E" and reach: "exec_reach E s" and step: "doNextSB E s = Inr (Some vsb, s')"
    and found: "lookupMapping E (maps s) (next_addr s) = Some m"
    and inside: "MAX_CODE_BYTES \<le> m_offset m" "m_end m \<le> m_end m + MAX_CODE_BYTES"
    and acc: "\<forall>x\<in>set (fst (run_code E (fst (getCachedFPtr (VexSB.guest_addr vsb) (jit_cache_of s'))) (gs s))). in_mapping m x"
    and store: "Store a \<in> set (fst (run_code E (fst (getCachedFPtr (VexSB.guest_addr vsb) (jit_cache_of s'))) (gs s)))"
  shows "doNextSB E s' = Inl (Fault Use_after_free)"
proof -
  note cache0 = reaching.reached [OF reach refl]
  have j': "jit_ok (jit_cache_of s')" "gen_mod (jit_cache_of s') = []"
    using reaching.doNextSB [OF refl cache0 step] jit_reach_ok by auto
  obtain s1 s2 ip s3 go_on s4 where s1: "flush_tampered (log_trace (next_addr s) s) = Inr s1"
      and s2: "getSBFromGuestAddr E (next_addr s) s1 = Inr (Some vsb, s2)" and s3: "doVexSB E vsb s2 = Inr (ip, s3)"
      and s4: "special_exit E s3 = Inr (go_on, s4)"
      and s': "s' = (let t = s4\<lparr>gs := setExitType_state E GE_IGNORE (gs s4)\<rparr> in if go_on then t\<lparr>next_addr := ip\<rparr> else t)"
    using step by (cases rule: doNextSB_cases) (auto split: if_splits)
  have m1: "maps s1 = maps s" "gs s1 = gs s" using flush_tampered_keeps [OF s1] by simp_all
  have "(jit_step (jit_env E))\<^sup>*\<^sup>* new_VexJITCache (jit_cache_of s1)" using reaching.flush_tampered [OF _ s1] cache0 by simp
  then have "jit_ok (jit_cache_of s1)" "gen_mod (jit_cache_of s1) = []" using jit_reach_ok by blast+
  note b = getSB_block [OF s2 this]
  have j2: "jit_ok (jit_cache_of s2)" "map_of (func_cache (jit_cache_of s2)) (next_addr s) \<noteq> None" "maps s2 = write_protect E (next_addr s) (maps s)"
    "req_prot m AND PROT_EXEC \<noteq> 0" "gs s2 = gs s"
    using b m1 found getSB_keeps [OF s2] by auto
  from s3 obtain f j xs g t where t: "getCachedFPtr (VexSB.guest_addr vsb) (jit_cache_of s2) = (f, j)" "run_code E f (gs s2) = (xs, ip, g)"
      "do_accesses E xs (s2\<lparr>jit_cache_of := j\<rparr>) = Inr t" "only_memory (s2\<lparr>jit_cache_of := j\<rparr>) t"
      "s3 = t\<lparr>gs := g, sb_executed_c := sb_executed_c t + 1\<rparr>"
    by (rule doVexSB_result)
  have cache: "jit_cache_of s' = j" "to_flush s' = to_flush t"
    using only_memory_sel [OF t(4)] special_exit_keeps [OF s4] by (simp_all add: s' t(5) Let_def)
  obtain d where d: "getCachedFPtr (VexSB.guest_addr vsb) (jit_cache_of s2) =
      ((case map_of (jit_cache (jit_cache_of s2)) (VexSB.guest_addr vsb) of None \<Rightarrow> 0 | Some c \<Rightarrow> c), (jit_cache_of s2)\<lparr>jit_dc := d\<rparr>)"
    by (rule jit_getCachedFPtr [OF j2(1)]) 
  then have j: "j = (jit_cache_of s2)\<lparr>jit_dc := d\<rparr>" "f = (case map_of (jit_cache j) (VexSB.guest_addr vsb) of None \<Rightarrow> 0 | Some c \<Rightarrow> c)"
    using t(1) by auto
  have "fst (getCachedFPtr (VexSB.guest_addr vsb) (jit_cache_of s')) = f"
    by (rule jit_getCachedFPtr [OF j'(1), of "VexSB.guest_addr vsb"]) (simp add: cache(1) j(2))
  then have xs: "\<forall>x\<in>set xs. in_mapping m x" "Store a \<in> set xs" using acc store t(2) j2(5) by simp_all
  have "watched E m (s2\<lparr>jit_cache_of := j\<rparr>)" by (rule watched_block [OF law found j2(4)]) (simp add: j2(3))
  then have flush: "to_flush t = (m_offset m, m_end m)" using watched_accesses [OF law _ xs(1) t(3)] xs(2) by blast
  have p: "m_offset m \<le> next_addr s" "next_addr s < m_end m" using mapping_bounds [OF law found] by auto
  have "m_offset m - MAX_CODE_BYTES \<le> next_addr s" using inside(1) p(1) by (meson order_trans word_sub_le)
  moreover have "next_addr s \<le> m_end m + MAX_CODE_BYTES" using inside(2) p(2) by simp
  moreover have "map_of (func_cache (jit_cache_of s')) (next_addr s) \<noteq> None" using j2(2) by (simp add: cache(1) j(1))
  ultimately have "jit_flush_range (m_offset m - MAX_CODE_BYTES) (m_end m + MAX_CODE_BYTES) (jit_cache_of s') = Inl Use_after_free"
    by (rule jit_flush_range_frees [OF j'])
  moreover have "m_offset m \<noteq> 0" using inside(1) by (auto simp: MAX_CODE_BYTES_def)
  ultimately show ?thesis using cache(2) flush by (simp add: doNextSB_def flush_tampered_def)
qed

section \<open>A guest that modifies itself\<close>

text \<open>One page that is readable, writable and executable; its code stores into the page.\<close>

definition demo_page :: Mapping where
  "demo_page = \<lparr>m_offset = 4096, m_end = 8192, req_prot = 7, cur_prot = 7\<rparr>"

definition demo_env :: "(nat, unit, Mapping) exec_env" where
  "demo_env = \<lparr>jit_env = counting, state_byte_c = 0, getHostPtr = (\<lambda>mm p. p + 0x100000),
     lookupMapping = (\<lambda>m p. if m_offset m \<le> p \<and> p < m_end m then Some m else None), recordMapping = (\<lambda>m mm. m),
     run_code = (\<lambda>c g. ([Load 4096, Store 4100], 4200, g)), host_allows = (\<lambda>x. False), getEndAddr_of = (\<lambda>vsb. 4110),
     sc_apply = (\<lambda>g mm. ((0, False), g, mm)), setSyscallResult = (\<lambda>r g. g), getPC = (\<lambda>g. 4096)\<rparr>"

definition demo_start :: "(nat, unit, Mapping) VexExec" where
  "demo_start = new_VexExec demo_env TRACE_LOG None \<lparr>state_data = (\<lambda>k. 0), ram = ()\<rparr> demo_page"

lemma demo_lawful: "mappings_lawful demo_env"
  by (auto simp: mappings_lawful_def demo_env_def)

lemma demo_reach: "exec_reach demo_env demo_start"
  unfolding demo_start_def by (rule reach_new) (simp add: getExitType_def demo_env_def GE_IGNORE_def)

lemma demo_start_sel [simp]: "next_addr demo_start = 4096" "maps demo_start = demo_page" "to_flush demo_start = (0, 0)"
  "jit_cache_of demo_start = new_VexJITCache" "exited demo_start = False"
  by (simp_all add: demo_start_def new_VexExec_def beginStepping_def demo_env_def)

lemma demo_gs [simp]: "gs demo_start = \<lparr>state_data = (\<lambda>k. 0), ram = ()\<rparr>"
  by (simp add: demo_start_def new_VexExec_def beginStepping_def)

lemma demo_sel [simp]: "lookupMapping demo_env m p = (if m_offset m \<le> p \<and> p < m_end m then Some m else None)"
  "recordMapping demo_env m mm = m" "run_code demo_env c g = ([Load 4096, Store 4100], 4200, g)" "jit_env demo_env = counting"
  "getHostPtr demo_env mm p = p + 0x100000" "state_byte_c demo_env = 0" "getEndAddr_of demo_env vsb = 4110"
  by (simp_all add: demo_env_def)

lemma demo_getSB: "\<exists>vsb s'. getSBFromGuestAddr demo_env 4096 (log_trace 4096 demo_start) = Inr (Some vsb, s')
    \<and> fst (getCachedFPtr (VexSB.guest_addr vsb) (jit_cache_of s')) \<noteq> 0
    \<and> maps s' = demo_page\<lparr>cur_prot := 5\<rparr> \<and> gs s' = gs demo_start"
  by (simp add: getSBFromGuestAddr_def Let_def demo_page_def PROT_EXEC_def PROT_WRITE_def jit_run)

lemma demo_step: "\<exists>vsb s'. doNextSB demo_env demo_start = Inr (Some vsb, s')"
proof -
  obtain vsb s2 where s2: "getSBFromGuestAddr demo_env 4096 (log_trace 4096 demo_start) = Inr (Some vsb, s2)"
      "fst (getCachedFPtr (VexSB.guest_addr vsb) (jit_cache_of s2)) \<noteq> 0" "maps s2 = demo_page\<lparr>cur_prot := 5\<rparr>" "gs s2 = gs demo_start"
    using demo_getSB by blast
  obtain f j where f: "getCachedFPtr (VexSB.guest_addr vsb) (jit_cache_of s2) = (f, j)" "f \<noteq> 0" using s2(2) by (cases "getCachedFPtr (VexSB.guest_addr vsb) (jit_cache_of s2)") auto
  have "\<exists>s3. do_accesses demo_env [Load 4096, Store 4100] (s2\<lparr>jit_cache_of := j\<rparr>) = Inr s3 \<and> gs s3 = gs demo_start"
    by (simp add: numeral_3_eq_3 allowed_def signalHandler_def flushTamperedCode_def PROT_READ_def PROT_WRITE_def PROT_EXEC_def
      s2(3,4) demo_page_def)
  then obtain s3 where "doVexSB demo_env vsb s2 = Inr (4200, s3\<lparr>gs := gs demo_start, sb_executed_c := sb_executed_c s3 + 1\<rparr>)"
    using f s2(4) by (auto simp: doVexSB_def)
  then show ?thesis
    using s2(1) by (simp add: doNextSB_def flush_tampered_def special_exit_def getExitType_def GE_IGNORE_def)
qed

theorem execution_invariant_witness:
  "\<exists>s. stepVSB demo_env demo_start = Inr (True, s) \<and> getExitType demo_env (gs s) = GE_IGNORE \<and> length (trace s) \<le> 501"
proof -
  obtain vsb s' where s': "doNextSB demo_env demo_start = Inr (Some vsb, s')" using demo_step by blast
  then have "stepVSB demo_env demo_start = Inr (True, s')" by (simp add: stepVSB_def)
  from execution_invariant [OF reach_step [OF demo_reach this]] this show ?thesis by blast
qed

theorem store_to_executed_memory_witness:
  "do_access demo_env (Suc (Suc 0)) (Store 4100) (demo_start\<lparr>maps := demo_page\<lparr>req_prot := 5, cur_prot := 5\<rparr>\<rparr>) = Inl Signal_loop"
proof -
  let ?m = "demo_page\<lparr>req_prot := 5, cur_prot := 5\<rparr>"
  have "lookupMapping demo_env (maps (demo_start\<lparr>maps := ?m\<rparr>)) 4100 = Some ?m" by (simp add: demo_env_def demo_page_def)
  from store_to_executed_memory [OF demo_lawful this, of 0] show ?thesis
    by (simp add: PROT_EXEC_def PROT_WRITE_def del: do_access.simps)
qed

theorem self_modifying_code_faults_witness:
  "\<exists>vsb s'. doNextSB demo_env demo_start = Inr (Some vsb, s') \<and> doNextSB demo_env s' = Inl (Fault Use_after_free)"
proof -
  obtain vsb s' where s': "doNextSB demo_env demo_start = Inr (Some vsb, s')" using demo_step by blast
  have "lookupMapping demo_env (maps demo_start) (next_addr demo_start) = Some demo_page"
    by (simp add: demo_env_def demo_page_def)
  from self_modifying_code_faults [OF demo_lawful demo_reach s' this, of 4100] s' show ?thesis
    by (auto simp: demo_env_def demo_page_def in_mapping_def MAX_CODE_BYTES_def)
qed

end
