(* ===== verification/Vexsem.thy ===== *)
theory Vexsem
  imports Vexsb
begin

text \<open>
  What a block of the intermediate representation means, as the comments of the VEX
  library's header define it: a reference interpreter over the temporaries, the guest
  context and the guest's memory, without basic blocks, cached pointers or numbered
  instructions. A value is kept with the type the translator gives it; an operator is
  applied to the values of its operands as constants, by the translator's own table of operators,
  and a jump kind leaves the exit type of the translator's table: of these two the interpreter is
  no second opinion. Undefined are temporaries that were
  not set, addresses, guards and compared values with undefined lanes, accesses of the
  guest context that are not at a multiple of their size, and big-endian accesses.
\<close>

type_synonym vval = "ty \<times> lane list"
type_synonym temps = "nat \<Rightarrow> vval option"

definition value_of :: "genllvm \<Rightarrow> irvalue \<Rightarrow> vval" where
  "value_of G v = (getType v, ev (target G) (\<lambda>i. []) v)"

definition const_of :: "vval \<Rightarrow> irvalue" where
  "const_of x = ConstantV (fst x) (snd x)"

section \<open>Expressions\<close>

fun eval_const :: "IRConst \<Rightarrow> vval option" where
  "eval_const (Ico_U1 x) = Some (get_i 1, [Some (of_bool x)])"
| "eval_const (Ico_U8 x) = Some (get_i 8, [Some (uint x)])"
| "eval_const (Ico_U16 x) = Some (get_i 16, [Some (uint x)])"
| "eval_const (Ico_U32 x) = Some (get_i 32, [Some (uint x)])"
| "eval_const (Ico_U64 x) = Some (get_i 64, [Some (uint x)])"
| "eval_const (Ico_F64 x) = Some (get_d, [Some (uint x)])"
| "eval_const (Ico_F64i x) = Some (get_d, [Some (uint x)])"
| "eval_const (Ico_V128 x) = Some (get_vt 16 8, map (\<lambda>i. Some (if bit x i then 255 else 0)) [0..<16])"
| "eval_const (Ico_V256 x) = Some (get_vt 32 8, map (\<lambda>i. Some (if bit x i then 255 else 0)) [0..<32])"
| "eval_const c = None"

definition op_value :: "genllvm \<Rightarrow> op_class \<Rightarrow> string \<Rightarrow> vval list \<Rightarrow> vval option" where
  "op_value G k p xs = (if known_class p = Some k
     then map_option (value_of G) (emit_op k p (map const_of xs)) else None)"

definition guest_address :: "genllvm \<Rightarrow> vval \<Rightarrow> 64 word option" where
  "guest_address G x = (case x of
     (t, [Some a]) \<Rightarrow> if t = get_i (if is32Bit G then 32 else 64)
       then Some (word_of_int (a + (if use_reloc G then mem_base G else 0))) else None
   | _ \<Rightarrow> None)"

text \<open>A field of the guest context, and an element of an array of them: the index is taken
  modulo the length of the array, which is a power of two.\<close>

definition ctx_field :: "nat \<Rightarrow> ty \<Rightarrow> int option" where
  "ctx_field off t = (if 0 < store_bytes t \<and> off mod store_bytes t = 0 \<and> off < 2 ^ 31 then Some (int off) else None)"

definition ctx_element :: "nat \<Rightarrow> int \<Rightarrow> int \<Rightarrow> vval \<Rightarrow> ty \<Rightarrow> int option" where
  "ctx_element base bias n ix t = (case ix of
     (it, [Some k]) \<Rightarrow> if it = get_i 32 \<and> 0 < store_bytes t \<and> base mod store_bytes t = 0 \<and> 0 < n \<and> n dvd 2 ^ 32
         \<and> int base + n * int (store_bytes t) \<le> 2 ^ 31
       then Some (int base + (signed_lane 32 k + bias) mod n * int (store_bytes t)) else None
   | _ \<Rightarrow> None)"

definition flat_value :: "genllvm \<Rightarrow> vval \<Rightarrow> vval" where
  "flat_value G x = value_of G (flattenType (const_of x))"

fun int_value :: "vval \<Rightarrow> int option" where
  "int_value (Scalar (IntTy w), [Some k]) = Some k"
| "int_value x = None"

fun_cases int_valueE: "int_value x = Some k"

fun eval_expr :: "genllvm \<Rightarrow> temps \<Rightarrow> guest_mem \<Rightarrow> IRExpr \<Rightarrow> vval option"
  and eval_exprs :: "genllvm \<Rightarrow> temps \<Rightarrow> guest_mem \<Rightarrow> IRExpr list \<Rightarrow> vval list option" where
  "eval_expr G T m Iex_Binder = None"
| "eval_expr G T m (Iex_Get off t) = do {
     t \<leftarrow> vexTy2LLVM t;
     a \<leftarrow> ctx_field off t;
     Some (t, read_ctx a t m) }"
| "eval_expr G T m (Iex_GetI base t n ix bias) = do {
     t \<leftarrow> vexTy2LLVM t;
     i \<leftarrow> eval_expr G T m ix;
     a \<leftarrow> ctx_element base bias n i t;
     Some (t, read_ctx a t m) }"
| "eval_expr G T m (Iex_RdTmp r) = T r"
| "eval_expr G T m (Iex_Qop p a b c d) = do {
     x1 \<leftarrow> eval_expr G T m a; x2 \<leftarrow> eval_expr G T m b; x3 \<leftarrow> eval_expr G T m c; x4 \<leftarrow> eval_expr G T m d;
     op_value G QopK p [x1, x2, x3, x4] }"
| "eval_expr G T m (Iex_Triop p a b c) = do {
     x1 \<leftarrow> eval_expr G T m a; x2 \<leftarrow> eval_expr G T m b; x3 \<leftarrow> eval_expr G T m c;
     op_value G TriopK p [x1, x2, x3] }"
| "eval_expr G T m (Iex_Binop p a b) = do {
     x1 \<leftarrow> eval_expr G T m a; x2 \<leftarrow> eval_expr G T m b;
     op_value G BinopK p [x1, x2] }"
| "eval_expr G T m (Iex_Unop p a) = do {
     x1 \<leftarrow> eval_expr G T m a;
     op_value G UnopK p [x1] }"
| "eval_expr G T m (Iex_Load lend t a) = do {
     t \<leftarrow> vexTy2LLVM t;
     x \<leftarrow> eval_expr G T m a;
     a \<leftarrow> guest_address G x;
     if lend then Some (t, read_mem a t m) else None }"
| "eval_expr G T m (Iex_Const c) = eval_const c"
| "eval_expr G T m (Iex_CCall f as) = do {
     xs \<leftarrow> eval_exprs G T m as;
     t \<leftarrow> helper_type G f;
     Some (t, fit t (pure_helper (target G) f (map snd xs))) }"
| "eval_expr G T m (Iex_ITE c t f) = do {
     x \<leftarrow> eval_expr G T m c;
     k \<leftarrow> int_value x;
     if k = 0 then map_option (flat_value G) (eval_expr G T m f) else map_option (flat_value G) (eval_expr G T m t) }"
| "eval_expr G T m Iex_GSPTR = Some (value_of G CtxBase)"
| "eval_exprs G T m [] = Some []"
| "eval_exprs G T m (a # as) = do {
     x \<leftarrow> eval_expr G T m a;
     xs \<leftarrow> eval_exprs G T m as;
     Some (x # xs) }"

section \<open>Statements\<close>

text \<open>A statement is followed by the next one, or leaves the block.\<close>

datatype outcome = Next temps guest_mem | Leave "lane list" guest_mem

definition guard_value :: "genllvm \<Rightarrow> temps \<Rightarrow> guest_mem \<Rightarrow> IRExpr \<Rightarrow> bool option" where
  "guard_value G T m g = (case eval_expr G T m g of Some (t, [Some k]) \<Rightarrow> Some (k \<noteq> 0) | _ \<Rightarrow> None)"

definition write_exit_type :: "genllvm \<Rightarrow> int \<Rightarrow> guest_mem \<Rightarrow> guest_mem option" where
  "write_exit_type G k m = map_option (\<lambda>a. write_ctx a (get_i 8) [Some k] m) (ctx_field (exit_type_offset G) (get_i 8))"

definition store_value :: "genllvm \<Rightarrow> vval \<Rightarrow> vval \<Rightarrow> guest_mem \<Rightarrow> guest_mem option" where
  "store_value G a x m = map_option (\<lambda>a. write_mem a (fst x) (snd x) m) (guest_address G a)"

text \<open>Two integers are compared when they have the same type and are defined.\<close>

definition equal_values :: "vval \<Rightarrow> vval \<Rightarrow> bool option" where
  "equal_values x y = (case (x, y) of
     ((Scalar (IntTy w), [Some j]), (t, [Some k])) \<Rightarrow> if t = Scalar (IntTy w) then Some (j = k) else None
   | _ \<Rightarrow> None)"

definition next_word :: "vval \<Rightarrow> ty \<Rightarrow> vval" where
  "next_word a t = (fst a, map (map_option (\<lambda>k. take_bit (elem_bits (fst a)) (k + int (store_bytes t)))) (snd a))"

text \<open>A compare-and-swap of two words matches when both match and then stores both.\<close>

definition swap_value :: "genllvm \<Rightarrow> temps \<Rightarrow> guest_mem \<Rightarrow> nat \<Rightarrow> IRExpr \<Rightarrow> IRExpr \<Rightarrow> IRExpr \<Rightarrow> (nat \<times> IRExpr \<times> IRExpr) option \<Rightarrow> outcome option" where
  "swap_value G T m oldLo a expdLo dataLo hi = do {
     x \<leftarrow> eval_expr G T m a;
     e \<leftarrow> eval_expr G T m expdLo;
     p \<leftarrow> guest_address G x;
     let old = (fst e, read_mem p (fst e) m);
     same \<leftarrow> equal_values e old;
     case hi of
       None \<Rightarrow> if same then do {
           d \<leftarrow> eval_expr G T m dataLo;
           m' \<leftarrow> store_value G x d m;
           Some (Next (T(oldLo \<mapsto> old)) m') }
         else Some (Next (T(oldLo \<mapsto> old)) m)
     | Some (oldHi, expdHi, dataHi) \<Rightarrow> do {
         eH \<leftarrow> eval_expr G T m expdHi;
         let xH = next_word x (fst e);
         pH \<leftarrow> guest_address G xH;
         let oldH = (fst e, read_mem pH (fst e) m);
         sameH \<leftarrow> equal_values eH oldH;
         if same \<and> sameH then do {
           d \<leftarrow> eval_expr G T m dataLo;
           dH \<leftarrow> eval_expr G T m dataHi;
           m' \<leftarrow> store_value G x d m;
           m' \<leftarrow> store_value G xH dH m';
           Some (Next (T(oldLo \<mapsto> old, oldHi \<mapsto> oldH)) m') }
         else Some (Next (T(oldLo \<mapsto> old, oldHi \<mapsto> oldH)) m) } }"

text \<open>A helper that changes the guest's state is called when its guard holds; else its
  temporary is not set.\<close>

definition call_value :: "genllvm \<Rightarrow> dirty_env \<Rightarrow> IRType list \<Rightarrow> temps \<Rightarrow> guest_mem \<Rightarrow> string \<Rightarrow> IRExpr list \<Rightarrow> nat option \<Rightarrow> outcome option" where
  "call_value G D types T m f as tmp = do {
     xs \<leftarrow> eval_exprs G T m as;
     t \<leftarrow> helper_type G f;
     x0 \<leftarrow> (case xs of [] \<Rightarrow> None
         | x # _ \<Rightarrow> Option.bind (helper_param G f) (\<lambda>p. map_option (value_of G) (CreatePointerCast (const_of x) p)));
     case D f (map snd (x0 # tl xs)) m of (res, m') \<Rightarrow>
       (case tmp of
          None \<Rightarrow> Some (Next T m')
        | Some r \<Rightarrow> do {
            tt \<leftarrow> getRegType types r;
            Some (Next (T(r \<mapsto> value_of G (fit_result (ConstantV t res) tt))) m') }) }"

definition loadg_value :: "IRLoadGOp \<Rightarrow> lane list \<Rightarrow> vval option" where
  "loadg_value cvt xs = (case cvt of
     ILGop_Ident32 \<Rightarrow> Some (get_i 32, xs)
   | ILGop_IdentV128 \<Rightarrow> Some (get_vt 16 8, xs)
   | ILGop_8Uto32 \<Rightarrow> Some (get_i 32, xs)
   | ILGop_16Uto32 \<Rightarrow> Some (get_i 32, xs)
   | ILGop_8Sto32 \<Rightarrow> Some (get_i 32, map (map_option (\<lambda>k. take_bit 32 (signed_lane 8 k))) xs)
   | ILGop_16Sto32 \<Rightarrow> Some (get_i 32, map (map_option (\<lambda>k. take_bit 32 (signed_lane 16 k))) xs)
   | ILGop_INVALID \<Rightarrow> None)"

fun exec_stmt :: "genllvm \<Rightarrow> dirty_env \<Rightarrow> IRType list \<Rightarrow> temps \<Rightarrow> guest_mem \<Rightarrow> IRStmt \<Rightarrow> outcome option" where
  "exec_stmt G D types T m Ist_NoOp = Some (Next T m)"
| "exec_stmt G D types T m (Ist_IMark a n) = Some (Next T m)"
| "exec_stmt G D types T m Ist_AbiHint = Some (Next T m)"
| "exec_stmt G D types T m (Ist_Put off e) = do {
     x \<leftarrow> eval_expr G T m e;
     a \<leftarrow> ctx_field off (fst x);
     Some (Next T (write_ctx a (fst x) (snd x) m)) }"
| "exec_stmt G D types T m (Ist_PutI base n ix bias e) = do {
     x \<leftarrow> eval_expr G T m e;
     i \<leftarrow> eval_expr G T m ix;
     a \<leftarrow> ctx_element base bias n i (fst x);
     Some (Next T (write_ctx a (fst x) (snd x) m)) }"
| "exec_stmt G D types T m (Ist_WrTmp r e) = do {
     x \<leftarrow> eval_expr G T m e;
     Some (Next (T(r \<mapsto> x)) m) }"
| "exec_stmt G D types T m (Ist_Store lend a d) = do {
     x \<leftarrow> eval_expr G T m d;
     a \<leftarrow> eval_expr G T m a;
     m' \<leftarrow> store_value G a x m;
     if lend then Some (Next T m') else None }"
| "exec_stmt G D types T m (Ist_CAS oldLo a expdLo dataLo hi) = swap_value G T m oldLo a expdLo dataLo hi"
| "exec_stmt G D types T m (Ist_LLSC r a d) = (case d of
     None \<Rightarrow> do {
       x \<leftarrow> eval_expr G T m a;
       t \<leftarrow> getRegType types r;
       p \<leftarrow> guest_address G x;
       Some (Next (T(r \<mapsto> (t, read_mem p t m))) m) }
   | Some d \<Rightarrow> do {
       x \<leftarrow> eval_expr G T m a;
       y \<leftarrow> eval_expr G T m d;
       m' \<leftarrow> store_value G x y m;
       Some (Next (T(r \<mapsto> (get_i 1, [Some 1]))) m') })"
| "exec_stmt G D types T m (Ist_Dirty g f as tmp) = do {
     c \<leftarrow> guard_value G T m g;
     if c then call_value G D types T m f as tmp else Some (Next T m) }"
| "exec_stmt G D types T m Ist_MBE = Some (Next T m)"
| "exec_stmt G D types T m (Ist_Exit g jk dst) = do {
     c \<leftarrow> guard_value G T m g;
     k \<leftarrow> exit_type_of jk;
     if c then (if jk = Ijk_Boring then Some (Leave [Some (uint (exit_dst G dst))] m)
       else map_option (Leave [Some (uint (exit_dst G dst))]) (write_exit_type G k m))
     else Some (Next T m) }"
| "exec_stmt G D types T m (Ist_StoreG lend a d g) = do {
     c \<leftarrow> guard_value G T m g;
     if \<not> lend then None
     else if c then do {
       x \<leftarrow> eval_expr G T m a;
       y \<leftarrow> eval_expr G T m d;
       m' \<leftarrow> store_value G x y m;
       Some (Next T m') }
     else Some (Next T m) }"
| "exec_stmt G D types T m (Ist_LoadG lend cvt r a alt g) = do {
     c \<leftarrow> guard_value G T m g;
     x \<leftarrow> eval_expr G T m a;
     y \<leftarrow> eval_expr G T m alt;
     if \<not> lend then None
     else if c then do {
       p \<leftarrow> guest_address G x;
       t \<leftarrow> loadg_type cvt;
       z \<leftarrow> loadg_value cvt (read_mem p t m);
       Some (Next (T(r \<mapsto> z)) m) }
     else Some (Next (T(r \<mapsto> y)) m) }"
| "exec_stmt G D types T m Ist_other = None"

fun exec_stmts :: "genllvm \<Rightarrow> dirty_env \<Rightarrow> IRType list \<Rightarrow> temps \<Rightarrow> guest_mem \<Rightarrow> IRStmt list \<Rightarrow> outcome option" where
  "exec_stmts G D types T m [] = Some (Next T m)"
| "exec_stmts G D types T m (s # ss) = (case exec_stmt G D types T m s of
     Some (Next T' m') \<Rightarrow> exec_stmts G D types T' m' ss
   | r \<Rightarrow> r)"

section \<open>Blocks\<close>

text \<open>Where a block goes: after a system call by \<open>sysenter\<close>, behind the last instruction
  and, on Linux, the trampoline's jump back.\<close>

primrec block_end :: "IRStmt list \<Rightarrow> 64 word option \<Rightarrow> 64 word option" where
  "block_end [] e = e"
| "block_end (s # ss) e = block_end ss (case s of Ist_IMark a n \<Rightarrow> Some (a + of_nat n) | _ \<Rightarrow> e)"

definition block_target :: "genllvm \<Rightarrow> IRSB \<Rightarrow> IRExpr option" where
  "block_target G sb = (if jumpkind sb = Ijk_Sys_sysenter
     then map_option (\<lambda>e. Iex_Const (Ico_U32 (ucast (e + (if use_linux_sysenter G then 9 else 0))))) (block_end (ir_stmts sb) None)
     else Some (ir_next sb))"

definition run_sb :: "genllvm \<Rightarrow> dirty_env \<Rightarrow> IRSB \<Rightarrow> guest_mem \<Rightarrow> (lane list \<times> guest_mem) option" where
  "run_sb G D sb m = (case exec_stmts G D (tyenv sb) Map.empty m (ir_stmts sb) of
     Some (Leave xs m') \<Rightarrow> Some (xs, m')
   | Some (Next T m') \<Rightarrow> do {
       e \<leftarrow> block_target G sb;
       x \<leftarrow> eval_expr G T m' e;
       k \<leftarrow> jump_exit_type (jumpkind sb);
       m'' \<leftarrow> (case k of None \<Rightarrow> Some m' | Some k \<Rightarrow> write_exit_type G k m');
       Some (snd x, m'') }
   | None \<Rightarrow> None)"

end
