(* ===== verification/Vexop_Relations.thy ===== *)
theory Vexop_Relations
  imports Vexop_Tables
begin

text \<open>
  The operators are parametric: a relation between values that every instruction
  preserves is preserved by the code of every operator. The contract is a locale, with
  two interpretations: values that evaluate alike, and values that only use instructions
  numbered below a bound.
\<close>

section \<open>Relations preserved by functions\<close>

definition keeps1 :: "(irvalue \<Rightarrow> irvalue \<Rightarrow> bool) \<Rightarrow> (irvalue \<Rightarrow> irvalue) \<Rightarrow> bool" where
  "keeps1 Q f \<longleftrightarrow> (\<forall>a b. Q a b \<longrightarrow> Q (f a) (f b))"
definition keeps2 :: "(irvalue \<Rightarrow> irvalue \<Rightarrow> bool) \<Rightarrow> (irvalue \<Rightarrow> irvalue \<Rightarrow> irvalue) \<Rightarrow> bool" where
  "keeps2 Q f \<longleftrightarrow> (\<forall>a a' b b'. Q a a' \<longrightarrow> Q b b' \<longrightarrow> Q (f a b) (f a' b'))"
definition keeps3 :: "(irvalue \<Rightarrow> irvalue \<Rightarrow> bool) \<Rightarrow> (irvalue \<Rightarrow> irvalue \<Rightarrow> irvalue \<Rightarrow> irvalue) \<Rightarrow> bool" where
  "keeps3 Q f \<longleftrightarrow> (\<forall>a a' b b' c c'. Q a a' \<longrightarrow> Q b b' \<longrightarrow> Q c c' \<longrightarrow> Q (f a b c) (f a' b' c'))"

definition maybe1 :: "(irvalue \<Rightarrow> irvalue \<Rightarrow> bool) \<Rightarrow> (irvalue \<Rightarrow> irvalue option) \<Rightarrow> bool" where
  "maybe1 Q f \<longleftrightarrow> (\<forall>a b. Q a b \<longrightarrow> rel_option Q (f a) (f b))"
definition maybe2 :: "(irvalue \<Rightarrow> irvalue \<Rightarrow> bool) \<Rightarrow> (irvalue \<Rightarrow> irvalue \<Rightarrow> irvalue option) \<Rightarrow> bool" where
  "maybe2 Q f \<longleftrightarrow> (\<forall>a a' b b'. Q a a' \<longrightarrow> Q b b' \<longrightarrow> rel_option Q (f a b) (f a' b'))"
definition maybe3 :: "(irvalue \<Rightarrow> irvalue \<Rightarrow> bool) \<Rightarrow> (irvalue \<Rightarrow> irvalue \<Rightarrow> irvalue \<Rightarrow> irvalue option) \<Rightarrow> bool" where
  "maybe3 Q f \<longleftrightarrow> (\<forall>a a' b b' c c'. Q a a' \<longrightarrow> Q b b' \<longrightarrow> Q c c' \<longrightarrow> rel_option Q (f a b c) (f a' b' c'))"

definition splat :: "ty \<Rightarrow> irvalue \<Rightarrow> irvalue" where
  "splat y v2 = (let v2 = Cast ZExt v2 (get_i (getBitWidth y)) in
     if \<not> isConstant v2 then (let v2 = Cast BitCast v2 y in ShuffleVector v2 v2 (take (getNumElements y) (replicate 16 0)))
     else ConstantVector (replicate (getNumElements y) (Cast Trunc v2 (get_i (getBitWidth y div getNumElements y)))))"

lemma OPVS_splat: "OPVS_EMIT y z v1 v2 = (if getNumElements y \<le> 16 then Some (z (Cast BitCast v1 y) (splat y v2)) else None)"
  by (simp add: OPVS_EMIT_def splat_def Let_def)

section \<open>The contract\<close>

locale value_relation =
  fixes Q :: "irvalue \<Rightarrow> irvalue \<Rightarrow> bool"
  assumes types: "Q a b \<Longrightarrow> getType a = getType b"
    and literal: "Q (ConstantV t xs) (ConstantV t xs)"
    and binary: "Q a a' \<Longrightarrow> Q b b' \<Longrightarrow> Q (BinaryOp f a b) (BinaryOp f a' b')"
    and compare: "Q a a' \<Longrightarrow> Q b b' \<Longrightarrow> Q (ICmp p a b) (ICmp p a' b')"
    and cast: "Q a b \<Longrightarrow> Q (Cast x a t) (Cast x b t)"
    and select: "Q a a' \<Longrightarrow> Q b b' \<Longrightarrow> Q c c' \<Longrightarrow> Q (Select a b c) (Select a' b' c')"
    and extract_elem: "Q a a' \<Longrightarrow> Q b b' \<Longrightarrow> Q (ExtractElement a b) (ExtractElement a' b')"
    and insert_elem: "Q a a' \<Longrightarrow> Q b b' \<Longrightarrow> Q c c' \<Longrightarrow> Q (InsertElement a b c) (InsertElement a' b' c')"
    and shuffle: "Q a a' \<Longrightarrow> Q b b' \<Longrightarrow> Q (ShuffleVector a b js) (ShuffleVector a' b' js)"
    and vector: "list_all2 Q as bs \<Longrightarrow> Q (ConstantVector as) (ConstantVector bs)"
    and fp_unary: "Q a b \<Longrightarrow> Q (FpUnary n a t) (FpUnary n b t)"
    and fp_binary: "Q a a' \<Longrightarrow> Q b b' \<Longrightarrow> Q (FpBinary n a b t) (FpBinary n a' b' t)"
    and call: "list_all2 Q as bs \<Longrightarrow> Q (PureCall n t as) (PureCall n t bs)"
    and splats: "0 < k \<Longrightarrow> k \<le> 16 \<Longrightarrow> 0 < w \<Longrightarrow> Q a b \<Longrightarrow> Q (splat (get_vt k w) a) (splat (get_vt k w) b)"
begin

lemma literal_eq: "t = t' \<Longrightarrow> xs = xs' \<Longrightarrow> Q (ConstantV t xs) (ConstantV t' xs')"
  by (simp add: literal)
lemma cast_eq: "Q a b \<Longrightarrow> t = t' \<Longrightarrow> Q (Cast x a t) (Cast x b t')"
  by (simp add: cast)
lemma fp_unary_eq: "Q a b \<Longrightarrow> t = t' \<Longrightarrow> Q (FpUnary n a t) (FpUnary n b t')"
  by (simp add: fp_unary)
lemma fp_binary_eq: "Q a a' \<Longrightarrow> Q b b' \<Longrightarrow> t = t' \<Longrightarrow> Q (FpBinary n a b t) (FpBinary n a' b' t')"
  by (simp add: fp_binary)

lemmas instructions = literal_eq binary compare cast_eq select extract_elem insert_elem shuffle fp_unary_eq fp_binary_eq

lemma app1: "keeps1 Q f \<Longrightarrow> Q a b \<Longrightarrow> Q (f a) (f b)"
  by (simp add: keeps1_def)
lemma app2: "keeps2 Q f \<Longrightarrow> Q a a' \<Longrightarrow> Q b b' \<Longrightarrow> Q (f a b) (f a' b')"
  by (simp add: keeps2_def)

lemma folds:
  assumes "Q r r'" and "\<And>i a b. Q a b \<Longrightarrow> Q (f i a) (g i b)"
  shows "Q (fold f xs r) (fold g xs r')"
  using assms(1) by (induction xs arbitrary: r r') (simp_all add: assms(2))

lemma inserted: "Q r r' \<Longrightarrow> (\<And>i. Q (f i) (g i)) \<Longrightarrow> Q (insert_elements n f r) (insert_elements n g r')"
  unfolding insert_elements_def by (rule folds) (auto intro: instructions)

lemma calls: "list_all2 Q as bs \<Longrightarrow> rel_option Q (call_vexop f as) (call_vexop f bs)"
  by (cases "map_of vexops_return f") (auto simp: call_vexop_def intro: call)

lemma CreateNot: "Q a b \<Longrightarrow> Q (CreateNot a) (CreateNot b)"
  unfolding CreateNot_def by (auto dest: types intro!: instructions simp: literal)

lemma keeps_instructions:
  "keeps1 Q (\<lambda>a. a)" "keeps1 Q id" "keeps1 Q CreateNot" "keeps1 Q (\<lambda>a. FpUnary n a t)"
  "keeps2 Q (BinaryOp f)" "keeps2 Q (ICmp p)" "keeps2 Q (CreateFp n)" "keeps2 Q (CreateFCmp n)"
  "keeps1 Q (VINT n)" "keeps1 Q (F0XINT n)"
  "Q c c \<Longrightarrow> keeps1 Q (VRCP c)" "Q c c \<Longrightarrow> keeps1 Q (F0XRCP c)"
  by (auto simp: keeps1_def keeps2_def VINT_def F0XINT_def VRCP_def F0XRCP_def CreateNot dest: types intro!: instructions)

lemmas by_macro = keeps1_def keeps2_def keeps3_def Let_def
lemmas built = folds inserted instructions

lemma floats: "Q FLT_0 FLT_0" "Q FLT_1 FLT_1" "Q DBL_0 DBL_0" "Q DBL_1 DBL_1"
  by (simp_all add: FLT_0_def FLT_1_def DBL_0_def DBL_1_def literal)

lemma float_vectors: "Q (ConstantVector g_flt_0x2) (ConstantVector g_flt_0x2)" "Q (ConstantVector g_flt_0x4) (ConstantVector g_flt_0x4)" "Q FLT_1x4 FLT_1x4"
  by (simp_all add: g_flt_0x2_def g_flt_0x4_def FLT_1x4_def vector floats)

lemma keeps_X_TO_Y_EMIT:
  assumes "keeps1 Q (\<lambda>v. f v z)"
  shows "keeps1 Q (X_TO_Y_EMIT f w z)"
  by (auto simp: by_macro X_TO_Y_EMIT_def dest: types intro!: built app1 [OF assms(1)])
lemma keeps_X_TO_Y_EMIT_ROUND:
  assumes "keeps1 Q (\<lambda>v. f v z)"
  shows "keeps2 Q (X_TO_Y_EMIT_ROUND f w z)"
  by (auto simp: by_macro X_TO_Y_EMIT_ROUND_def dest: types intro!: built app1 [OF assms(1)])
lemma keeps_XHI_TO_Y_EMIT: "keeps1 Q (XHI_TO_Y_EMIT y w z)"
  by (auto simp: by_macro XHI_TO_Y_EMIT_def dest: types intro!: built floats)
lemma keeps_X_HL_TO_Y_EMIT: "keeps2 Q (X_HL_TO_Y_EMIT x y)"
  by (auto simp: by_macro X_HL_TO_Y_EMIT_def dest: types intro!: built floats)
lemma keeps_V128to64_emit: "keeps1 Q V128to64_emit"
  by (auto simp: by_macro V128to64_emit_def dest: types intro!: built floats)
lemma keeps_V128HIto64_emit: "keeps1 Q V128HIto64_emit"
  by (auto simp: by_macro V128HIto64_emit_def dest: types intro!: built floats)
lemma keeps_HLto128_emit: "keeps2 Q HLto128_emit"
  by (auto simp: by_macro HLto128_emit_def dest: types intro!: built floats)
lemma keeps_UtoV128_emit: "keeps1 Q UtoV128_emit"
  by (auto simp: by_macro UtoV128_emit_def dest: types intro!: built floats)
lemma keeps_HLtoV128_emit: "keeps2 Q HLtoV128_emit"
  by (auto simp: by_macro HLtoV128_emit_def dest: types intro!: built floats)
lemma keeps_GET_ELEM_EMIT: "keeps2 Q (GET_ELEM_EMIT w e)"
  by (auto simp: by_macro GET_ELEM_EMIT_def dest: types intro!: built floats)
lemma keeps_SET_ELEM_EMIT: "keeps3 Q (SET_ELEM_EMIT w e)"
  by (auto simp: by_macro SET_ELEM_EMIT_def dest: types intro!: built floats)
lemma keeps_SetV128lo64_emit: "keeps2 Q SetV128lo64_emit"
  by (auto simp: by_macro SetV128lo64_emit_def dest: types intro!: built floats)
lemma keeps_SetV128lo32_emit: "keeps2 Q SetV128lo32_emit"
  by (auto simp: by_macro SetV128lo32_emit_def dest: types intro!: built floats)
lemma keeps_Dup8x16_emit: "keeps1 Q Dup8x16_emit"
  by (auto simp: by_macro Dup8x16_emit_def dest: types intro!: built floats)
lemma keeps_GETMSBS_8xN_EMIT: "keeps1 Q (GETMSBS_8xN_EMIT n)"
  by (auto simp: by_macro GETMSBS_8xN_EMIT_def dest: types intro!: built floats)
lemma keeps_BINOP_EMIT:
  assumes "keeps2 Q f"
  shows "keeps2 Q (BINOP_EMIT f)"
  by (auto simp: by_macro BINOP_EMIT_def dest: types intro!: built app2 [OF assms(1)])
lemma keeps_BINOP_EXPAND_EMIT:
  assumes "keeps1 Q (\<lambda>v. g v z)" "keeps2 Q f"
  shows "keeps2 Q (BINOP_EXPAND_EMIT g z f)"
  by (auto simp: by_macro BINOP_EXPAND_EMIT_def dest: types intro!: built app1 [OF assms(1)] app2 [OF assms(2)])
lemma keeps_TRIOP_EXPAND_EMIT:
  assumes "keeps1 Q (\<lambda>v. g v z)" "keeps2 Q f"
  shows "keeps3 Q (TRIOP_EXPAND_EMIT g z f)"
  by (auto simp: by_macro TRIOP_EXPAND_EMIT_def dest: types intro!: built app1 [OF assms(1)] app2 [OF assms(2)])
lemma keeps_SHIFT_EMIT:
  assumes "keeps2 Q f"
  shows "keeps2 Q (SHIFT_EMIT f n)"
  by (auto simp: by_macro SHIFT_EMIT_def dest: types intro!: built app2 [OF assms(1)])
lemma keeps_DIVMOD_EMIT: "keeps2 Q (DIVMOD_EMIT dv rm c w)"
  by (auto simp: by_macro DIVMOD_EMIT_def dest: types intro!: built floats)
lemma keeps_BINCMP_EMIT:
  assumes "keeps2 Q f"
  shows "keeps2 Q (BINCMP_EMIT y f)"
  by (auto simp: by_macro BINCMP_EMIT_def dest: types intro!: built app2 [OF assms(1)])
lemma keeps_OPV_EMIT:
  assumes "keeps2 Q f"
  shows "keeps2 Q (OPV_EMIT y f)"
  by (auto simp: by_macro OPV_EMIT_def dest: types intro!: built app2 [OF assms(1)])
lemma keeps_UNOPV_EMIT:
  assumes "keeps1 Q g"
  shows "keeps1 Q (UNOPV_EMIT y g)"
  by (auto simp: by_macro UNOPV_EMIT_def dest: types intro!: built app1 [OF assms(1)])
lemma keeps_OPV_CMP_T_EMIT:
  assumes "keeps2 Q f"
  shows "keeps2 Q (OPV_CMP_T_EMIT y f w)"
  by (auto simp: by_macro OPV_CMP_T_EMIT_def dest: types intro!: built app2 [OF assms(1)])
lemma keeps_OPSATS_ADD_EMIT: "keeps2 Q (OPSATS_ADD_EMIT b d e f g)"
  by (auto simp: by_macro OPSATS_ADD_EMIT_def OPSAT_EMIT_def SHIGH_def SLOW_def dest: types intro!: built floats)
lemma keeps_OPSATS_SUB_EMIT: "keeps2 Q (OPSATS_SUB_EMIT b d e f g)"
  by (auto simp: by_macro OPSATS_SUB_EMIT_def OPSAT_EMIT_def SHIGH_def SLOW_def dest: types intro!: built floats)
lemma keeps_OPSATU_ADD_EMIT: "keeps2 Q (OPSATU_ADD_EMIT b d e f g)"
  by (auto simp: by_macro OPSATU_ADD_EMIT_def OPSAT_EMIT_def SHIGH_def SLOW_def dest: types intro!: built floats)
lemma keeps_OPSATU_SUB_EMIT: "keeps2 Q (OPSATU_SUB_EMIT b d e f g)"
  by (auto simp: by_macro OPSATU_SUB_EMIT_def OPSAT_EMIT_def SHIGH_def SLOW_def dest: types intro!: built floats)
lemma keeps_OPAVG_EMIT: "keeps2 Q (OPAVG_EMIT y c w)"
  by (auto simp: by_macro OPAVG_EMIT_def dest: types intro!: built floats)
lemma keeps_OPHOP_EMIT: "keeps2 Q (OPHOP_EMIT y f c)"
  by (auto simp: by_macro OPHOP_EMIT_def dest: types intro!: built floats)
lemma keeps_OPSHUF_EMIT: "keeps2 Q (OPSHUF_EMIT y)"
  by (auto simp: by_macro OPSHUF_EMIT_def dest: types intro!: built floats)
lemma keeps_EMIT_ILEAVE: "keeps2 Q (EMIT_ILEAVE js w)"
  by (auto simp: by_macro EMIT_ILEAVE_def dest: types intro!: built floats)
lemma keeps_OPF0X_EMIT:
  assumes "keeps2 Q f"
  shows "keeps2 Q (OPF0X_EMIT y f)"
  by (auto simp: by_macro OPF0X_EMIT_def dest: types intro!: built app2 [OF assms(1)])
lemma keeps_OPF0X_CMP_EMIT:
  assumes "keeps2 Q f"
  shows "keeps2 Q (OPF0X_CMP_EMIT y f)"
  by (auto simp: by_macro OPF0X_CMP_EMIT_def dest: types intro!: built app2 [OF assms(1)])
lemma keeps_OPF0X_SEL_EMIT:
  assumes "keeps2 Q f"
  shows "keeps2 Q (OPF0X_SEL_EMIT y f)"
  by (auto simp: by_macro OPF0X_SEL_EMIT_def dest: types intro!: built app2 [OF assms(1)])
lemma keeps_OPF0X_RSQ:
  assumes "keeps1 Q f" "keeps1 Q g"
  shows "keeps1 Q (OPF0X_RSQ y f g)"
  by (auto simp: by_macro OPF0X_RSQ_def dest: types intro!: built app1 [OF assms(1)] app1 [OF assms(2)])
lemma keeps_OPV_RSQ:
  assumes "keeps1 Q f" "keeps1 Q g"
  shows "keeps1 Q (OPV_RSQ y f g)"
  by (auto simp: by_macro OPV_RSQ_def dest: types intro!: built app1 [OF assms(1)] app1 [OF assms(2)])
lemma keeps_UNOP_NEG_EMIT: "Q c c \<Longrightarrow> keeps1 Q (UNOP_NEG_EMIT y c)"
  by (auto simp: by_macro UNOP_NEG_EMIT_def dest: types intro!: built floats)
lemma keeps_RoundF32toInt_emit: "keeps2 Q RoundF32toInt_emit"
  by (auto simp: by_macro RoundF32toInt_emit_def dest: types intro!: built floats)
lemma keeps_RoundF64toInt_emit: "keeps2 Q RoundF64toInt_emit"
  by (auto simp: by_macro RoundF64toInt_emit_def dest: types intro!: built floats)
lemma keeps_PRemF64_emit: "keeps3 Q PRemF64_emit"
  by (auto simp: by_macro PRemF64_emit_def dest: types intro!: built floats)
lemma keeps_PRemC3210F64_emit: "keeps3 Q PRemC3210F64_emit"
  by (auto simp: by_macro PRemC3210F64_emit_def dest: types intro!: built floats)
lemma keeps_OPNRWSS_EMIT: "Q c c \<Longrightarrow> Q d d \<Longrightarrow> keeps2 Q (OPNRWSS_EMIT y w c d)"
  by (auto simp: by_macro OPNRWSS_EMIT_def clamp_elem_def dest: types intro!: built floats)

text \<open>The entries of the tables.\<close>

lemma maybe_total:
  "keeps1 Q f \<Longrightarrow> maybe1 Q (total1 f)" "keeps2 Q g \<Longrightarrow> maybe2 Q (total2 g)" "keeps3 Q h \<Longrightarrow> maybe3 Q (total3 h)"
  by (auto simp: maybe1_def maybe2_def maybe3_def keeps1_def keeps2_def keeps3_def)

lemma maybe_helpers: "maybe1 Q (EMIT_HELPER_UNOP n)" "maybe2 Q (EMIT_HELPER_BINOP n t)"
  by (auto simp: maybe1_def maybe2_def EMIT_HELPER_UNOP_def EMIT_HELPER_BINOP_def intro!: calls cast)

lemma maybe_helper_vec: "maybe1 Q (EMIT_HELPER_UNOP_VEC t n)"
  by (cases "map_of vexops_return n")
    (auto simp: maybe1_def EMIT_HELPER_UNOP_VEC_def call_vexop_def Let_def intro!: built call)

lemma maybe_OPV_EXT: "maybe2 Q (OPV_EXT_EMIT y z w n f)"
  by (auto simp: maybe2_def OPV_EXT_EMIT_def Let_def intro!: built)

lemma maybe_OPNRW: "maybe2 Q (OPNRW_EMIT w)"
  by (simp add: maybe2_def OPNRW_EMIT_def)

lemma maybe_OPVS: "keeps2 Q f \<Longrightarrow> 0 < k \<Longrightarrow> 0 < w \<Longrightarrow> maybe2 Q (OPVS_EMIT (get_vt k w) f)"
  by (auto simp: maybe2_def OPVS_splat intro!: app2 [of f] cast splats)

lemma maybe_i128HIto64: "maybe1 Q i128HIto64_emit"
  by (auto simp: maybe1_def i128HIto64_emit_def dest: types intro!: built)

lemma keeps_casts: "keeps1 Q (\<lambda>v. Cast x v t)"
  by (simp add: keeps1_def cast)

lemmas entries = maybe_total maybe_helpers maybe_helper_vec maybe_OPV_EXT maybe_OPNRW maybe_OPVS maybe_i128HIto64
  keeps_instructions keeps_casts floats float_vectors literal
  keeps_X_TO_Y_EMIT keeps_X_TO_Y_EMIT_ROUND keeps_XHI_TO_Y_EMIT keeps_X_HL_TO_Y_EMIT keeps_V128to64_emit
  keeps_V128HIto64_emit keeps_HLto128_emit keeps_UtoV128_emit keeps_HLtoV128_emit keeps_GET_ELEM_EMIT
  keeps_SET_ELEM_EMIT keeps_SetV128lo64_emit keeps_SetV128lo32_emit keeps_Dup8x16_emit keeps_GETMSBS_8xN_EMIT
  keeps_BINOP_EMIT keeps_BINOP_EXPAND_EMIT keeps_TRIOP_EXPAND_EMIT keeps_SHIFT_EMIT keeps_DIVMOD_EMIT
  keeps_BINCMP_EMIT keeps_OPV_EMIT keeps_UNOPV_EMIT keeps_OPV_CMP_T_EMIT keeps_OPSATS_ADD_EMIT keeps_OPSATS_SUB_EMIT
  keeps_OPSATU_ADD_EMIT keeps_OPSATU_SUB_EMIT keeps_OPAVG_EMIT keeps_OPHOP_EMIT keeps_OPSHUF_EMIT keeps_EMIT_ILEAVE
  keeps_OPF0X_EMIT keeps_OPF0X_CMP_EMIT keeps_OPF0X_SEL_EMIT keeps_OPF0X_RSQ keeps_OPV_RSQ keeps_UNOP_NEG_EMIT
  keeps_RoundF32toInt_emit keeps_RoundF64toInt_emit keeps_PRemF64_emit keeps_PRemC3210F64_emit keeps_OPNRWSS_EMIT

lemma keeps_unops: "list_all (\<lambda>(n, f). maybe1 Q f) unops"
  unfolding unops_def conversion_unops_def getmsbs_unops_def count_unops_def cls_abs_unops_def v128_unops_def
    fp_conversion_unops_def fp_low_unops_def fp_neg_unops_def fp_vector_unops_def single_unops_def
  by (simp add: entries del: One_nat_def)

lemma keeps_binops: "list_all (\<lambda>(n, f). maybe2 Q f) binops"
  unfolding binops_def get_elem_binops_def concat_binops_def arith_binops_def widening_binops_def shift_binops_def
    divmod_binops_def compare_binops_def interleave_binops_def v128_binops_def vector_binops_def mulhi_binops_def
    narrow_binops_def qnarrow_binops_def sats_binops_def satu_binops_def avg_binops_def half_compare_binops_def
    shift_by_binops_def perm_binops_def fp_binops_def fp_vector_binops_def single_binops_def
  by (simp add: entries del: One_nat_def)

lemma keeps_triops: "list_all (\<lambda>(n, f). maybe3 Q f) triops"
  unfolding triops_def set_elem_triops_def fp_triops_def single_triops_def
  by (simp add: entries del: One_nat_def)

end

section \<open>Values that evaluate alike\<close>

definition alike :: "llvm_env \<Rightarrow> regfile \<Rightarrow> regfile \<Rightarrow> irvalue \<Rightarrow> irvalue \<Rightarrow> bool" where
  "alike E R R' a b \<longleftrightarrow> getType a = getType b \<and> ev E R a = ev E R' b"

text \<open>Constant or not, the amount of a vector shift is the low lane everywhere.\<close>

lemma getBitWidth_vt [simp]: "getBitWidth (get_vt k w) = k * w"
  by (simp add: getBitWidth_def)

lemma cut_lane_0: "0 < w \<Longrightarrow> 0 < n \<Longrightarrow> cut_lane (n * w) [x] w 0 = map_option (take_bit w) x"
  by (cases x) (auto simp: cut_lane_def)

lemma concat_replicate: "concat (replicate k [x]) = replicate k x"
  by (induction k) simp_all

lemma type_splat: "0 < k \<Longrightarrow> k \<le> 16 \<Longrightarrow> getType (splat (get_vt k w) a) = get_vt k w"
  using nonzero_mult_div_cancel_left [of k w] by (cases k) (simp_all add: splat_def Let_def)

lemma ev_splat:
  assumes "0 < k" and "k \<le> 16" and "0 < w"
  shows "ev E R (splat (get_vt k w) a) = replicate k (map_option (take_bit w) (hd (fit (get_i (k * w)) (ev E R a))))"
proof -
  obtain x where x: "fit (get_i (k * w)) (ev E R a) = [x]"
    using length_fit [of "get_i (k * w)" "ev E R a"] by (cases "fit (get_i (k * w)) (ev E R a)") auto
  have zero: "take k (replicate 16 0) = replicate k (0 :: nat)" using assms by (simp add: min_def)
  have div: "k * w div k = w" using assms by simp
  show ?thesis
  proof (cases "isConstant a")
    case True
    have one: "fit (get_i w) [x] = [map_option (take_bit w) x]" by (simp add: fit_def)
    have "getType (splat (get_vt k w) a) = get_vt k w" using type_splat assms by blast
    then have "ev E R (splat (get_vt k w) a) = fit (get_vt k w) (replicate k (map_option (take_bit w) x))"
      using True x one div by (simp add: splat_def Let_def concat_replicate)
    then show ?thesis using x by (simp add: fit_def map_replicate_const option.map_comp o_def)
  next
    case False
    then have "ev E R (splat (get_vt k w) a) = fit (get_vt k w) (map (\<lambda>i. cut_lane (k * w) [x] w 0) (replicate k (0::nat)))"
      using x zero assms by (simp add: splat_def Let_def regroup_def fit_def nth_append cut_lane_0 option.map_comp o_def)
    also have "\<dots> = replicate k (map_option (take_bit w) x)"
      using assms by (simp add: cut_lane_0 fit_def map_replicate_const option.map_comp o_def)
    finally show ?thesis using x by simp
  qed
qed

interpretation alike: value_relation "alike E R R'"
proof
  fix as bs assume *: "list_all2 (alike E R R') as bs"
  then have ev: "map (ev E R) as = map (ev E R') bs" by (induction rule: list_all2_induct) (auto simp: alike_def)
  have "getType (ConstantVector as) = getType (ConstantVector bs)"
    using * by (cases as; cases bs) (auto simp: alike_def dest: list_all2_lengthD)
  then show "alike E R R' (ConstantVector as) (ConstantVector bs)"
    using ev by (simp add: alike_def)
  show "alike E R R' (PureCall n t as) (PureCall n t bs)" for n t
    using ev by (simp add: alike_def)
qed (simp_all add: alike_def ev_splat type_splat)

section \<open>Values made of earlier instructions\<close>

fun below :: "nat \<Rightarrow> irvalue \<Rightarrow> bool" where
  "below n (ConstantV t xs) = True"
| "below n (Inst i t) = (i < n)"
| "below n CtxBase = True"
| "below n (BinaryOp f a b) = (below n a \<and> below n b)"
| "below n (ICmp p a b) = (below n a \<and> below n b)"
| "below n (Cast c a t) = below n a"
| "below n (Select c a b) = (below n c \<and> below n a \<and> below n b)"
| "below n (ExtractElement a i) = (below n a \<and> below n i)"
| "below n (InsertElement a x i) = (below n a \<and> below n x \<and> below n i)"
| "below n (ShuffleVector a b m) = (below n a \<and> below n b)"
| "below n (ConstantVector vs) = list_all (below n) vs"
| "below n (FpUnary f a t) = below n a"
| "below n (FpBinary f a b t) = (below n a \<and> below n b)"
| "below n (PureCall f t as) = list_all (below n) as"

definition agree :: "nat \<Rightarrow> regfile \<Rightarrow> regfile \<Rightarrow> bool" where
  "agree n R R' \<longleftrightarrow> (\<forall>i<n. R i = R' i)"

lemma agree_refl [simp]: "agree n R R"
  by (simp add: agree_def)

lemma agree_trans: "agree n R R' \<Longrightarrow> agree n' R' R'' \<Longrightarrow> n \<le> n' \<Longrightarrow> agree n R R''"
  by (simp add: agree_def)

lemma agree_mono: "agree n R R' \<Longrightarrow> m \<le> n \<Longrightarrow> agree m R R'"
  by (simp add: agree_def)

lemma agree_update [simp]: "n \<le> i \<Longrightarrow> agree n R (R(i := xs))"
  by (simp add: agree_def)

lemma below_mono: "below n v \<Longrightarrow> n \<le> n' \<Longrightarrow> below n' v"
  by (induction v) (auto simp: list_all_iff)

lemma ev_agree: "below n v \<Longrightarrow> agree n R R' \<Longrightarrow> ev E R v = ev E R' v"
proof (induction v)
  case (ConstantVector vs)
  then have "map (ev E R) vs = map (ev E R') vs" by (simp add: list_all_iff)
  then show ?case by (simp del: map_eq_conv)
next
  case (PureCall f t as)
  then have "map (ev E R) as = map (ev E R') as" by (simp add: list_all_iff)
  then show ?case by (simp del: map_eq_conv)
qed (simp_all add: agree_def)

lemma isConstant_below: "isConstant v \<Longrightarrow> below 0 v"
  by (induction v) (auto simp: list_all_iff)

lemma ev_isConstant: "isConstant v \<Longrightarrow> ev E R v = ev E R' v"
  by (rule ev_agree [of 0]) (simp_all add: isConstant_below agree_def)

lemma below_splat: "below n a \<Longrightarrow> below n (splat y a)"
  by (simp add: splat_def Let_def list_all_iff)

interpretation below: value_relation "\<lambda>a b. a = b \<and> below n a"
  by unfold_locales (auto simp: below_splat list_all2_conv_all_nth list_all_length list_eq_iff_nth_eq)

end
