(* ===== verification/Emission.thy ===== *)
theory Emission
  imports Vexsem Vexop_Relations "HOL-Library.Sublist"
begin

text \<open>
  How the emission of code changes the function under construction: blocks are only
  appended to, the instructions are numbered upwards, cached pointers are what would be
  computed anew, and values are made of instructions that are there.
\<close>

section \<open>Extension of a function\<close>

definition extends :: "builder \<Rightarrow> builder \<Rightarrow> bool" where
  "extends b b' \<longleftrightarrow> length (blocks b) \<le> length (blocks b') \<and> next_id b \<le> next_id b'
     \<and> (\<forall>k<length (blocks b). prefix (blocks b ! k) (blocks b' ! k))"

definition touches :: "nat set \<Rightarrow> builder \<Rightarrow> builder \<Rightarrow> bool" where
  "touches S b b' \<longleftrightarrow> extends b b' \<and> (\<forall>k<length (blocks b). k \<notin> S \<longrightarrow> blocks b' ! k = blocks b ! k)"

definition inside :: "builder \<Rightarrow> irinst list list \<Rightarrow> bool" where
  "inside b F \<longleftrightarrow> length (blocks b) \<le> length F \<and> (\<forall>k<length (blocks b). prefix (blocks b ! k) (F ! k))"

lemma extends_refl [simp]: "extends b b"
  by (simp add: extends_def)

lemma extends_trans: "extends b b' \<Longrightarrow> extends b' b'' \<Longrightarrow> extends b b''"
  unfolding extends_def by (meson le_trans less_le_trans prefix_order.trans)

lemma extends_ids: "extends b b' \<Longrightarrow> next_id b \<le> next_id b'"
  by (simp add: extends_def)

lemma inside_extends: "extends b b' \<Longrightarrow> inside b' F \<Longrightarrow> inside b F"
  unfolding extends_def inside_def by (meson le_trans less_le_trans prefix_order.trans)

lemma touches_extends: "touches S b b' \<Longrightarrow> extends b b'"
  by (simp add: touches_def)

lemma touches_refl [simp]: "touches S b b"
  by (simp add: touches_def)

lemma touches_trans: "touches S b b' \<Longrightarrow> touches S' b' b'' \<Longrightarrow> touches (S \<union> S') b b''"
  unfolding touches_def using extends_trans by (auto simp: extends_def)

lemma touches_mono: "touches S b b' \<Longrightarrow> (\<And>k. k \<in> S \<Longrightarrow> k < length (blocks b) \<Longrightarrow> k \<in> S') \<Longrightarrow> touches S' b b'"
  by (auto simp: touches_def)

lemma touches_block: "touches S b b' \<Longrightarrow> k < length (blocks b) \<Longrightarrow> k \<notin> S \<Longrightarrow> blocks b' ! k = blocks b ! k"
  by (simp add: touches_def)

lemma touches_length: "touches S b b' \<Longrightarrow> length (blocks b) \<le> length (blocks b')"
  by (simp add: touches_def extends_def)

section \<open>Well-formed builders\<close>

definition gep_ok :: "builder \<Rightarrow> bool" where
  "gep_ok b \<longleftrightarrow> (\<forall>off n p. gepbyte_map b (off, n) = Some p \<longrightarrow> (\<exists>t. p = CtxPtr (get_32i (int (off div n))) t))"

definition wfb :: "builder \<Rightarrow> bool" where
  "wfb b \<longleftrightarrow> insert_block b < length (blocks b) \<and> (\<forall>r v. reg_values b r = Some v \<longrightarrow> below (next_id b) v) \<and> gep_ok b"

text \<open>What the emission of an expression does: it continues the current block, or ends in
  a new one, and touches no other block that was there.\<close>

definition grows :: "builder \<Rightarrow> builder \<Rightarrow> bool" where
  "grows b b' \<longleftrightarrow> touches {insert_block b} b b' \<and> reg_values b' = reg_values b
     \<and> (insert_block b' = insert_block b \<or> length (blocks b) \<le> insert_block b')"

lemma grows_refl [simp]: "grows b b"
  by (simp add: grows_def)

lemma grows_trans:
  assumes "grows b b'" and "grows b' b''"
  shows "grows b b''"
proof -
  have t: "touches {insert_block b} b b'" "touches {insert_block b'} b' b''" using assms by (auto simp: grows_def)
  have "touches {insert_block b} b b''"
    by (rule touches_mono [OF touches_trans [OF t]]) (use assms in \<open>auto simp: grows_def\<close>)
  moreover have "insert_block b'' = insert_block b \<or> length (blocks b) \<le> insert_block b''"
    using assms touches_length [OF t(1)] by (auto simp: grows_def)
  ultimately show ?thesis using assms by (simp add: grows_def)
qed

lemma grows_extends: "grows b b' \<Longrightarrow> extends b b'"
  by (simp add: grows_def touches_def)

lemma wf_ext: "wfb b \<Longrightarrow> reg_values b' = reg_values b \<Longrightarrow> next_id b \<le> next_id b' \<Longrightarrow> gepbyte_map b' = gepbyte_map b
    \<Longrightarrow> insert_block b' < length (blocks b') \<Longrightarrow> wfb b'"
  unfolding wfb_def gep_ok_def using below_mono [of "next_id b" _ "next_id b'"] by simp

section \<open>The builder's steps\<close>

lemma add_inst_simps [simp]:
  "insert_block (add_inst i b) = insert_block b" "next_id (add_inst i b) = next_id b"
  "reg_values (add_inst i b) = reg_values b" "gepbyte_map (add_inst i b) = gepbyte_map b"
  "length (blocks (add_inst i b)) = length (blocks b)"
  by (simp_all add: add_inst_def)

lemma blocks_add_inst: "k < length (blocks b) \<Longrightarrow>
  blocks (add_inst i b) ! k = (if k = insert_block b then blocks b ! k @ [i] else blocks b ! k)"
  by (simp add: add_inst_def nth_list_update)

lemma touches_add_inst [simp]: "touches {insert_block b} b (add_inst i b)"
  by (simp add: touches_def extends_def blocks_add_inst)

lemma grows_add_inst [simp]: "grows b (add_inst i b)"
  by (simp add: grows_def)

lemma wf_add_inst [simp]: "wfb (add_inst i b) = wfb b"
  by (simp add: wfb_def gep_ok_def)

lemma SetInsertPoint_simps [simp]:
  "insert_block (SetInsertPoint k b) = k" "next_id (SetInsertPoint k b) = next_id b"
  "reg_values (SetInsertPoint k b) = reg_values b" "gepbyte_map (SetInsertPoint k b) = gepbyte_map b"
  "blocks (SetInsertPoint k b) = blocks b"
  by (simp_all add: SetInsertPoint_def)

lemma touches_SetInsertPoint [simp]: "touches S b (SetInsertPoint k b)"
  by (simp add: touches_def extends_def)

lemma touches_jump [simp]: "touches {insert_block b} b (SetInsertPoint k (add_inst i b))"
  by (simp add: touches_def extends_def blocks_add_inst)

lemma wf_SetInsertPoint: "wfb b \<Longrightarrow> k < length (blocks b) \<Longrightarrow> wfb (SetInsertPoint k b)"
  by (simp add: wfb_def gep_ok_def)

definition new_block :: "builder \<Rightarrow> builder" where
  "new_block b = b\<lparr>blocks := blocks b @ [[]]\<rparr>"

lemma CreateBlock_new: "CreateBlock b = (length (blocks b), new_block b)"
  by (simp add: CreateBlock_def new_block_def)

lemma new_block_simps [simp]:
  "insert_block (new_block b) = insert_block b" "next_id (new_block b) = next_id b"
  "reg_values (new_block b) = reg_values b" "gepbyte_map (new_block b) = gepbyte_map b"
  "length (blocks (new_block b)) = Suc (length (blocks b))"
  by (simp_all add: new_block_def)

lemma blocks_new_block: "k \<le> length (blocks b) \<Longrightarrow>
  blocks (new_block b) ! k = (if k < length (blocks b) then blocks b ! k else [])"
  by (auto simp: new_block_def nth_append)

lemma touches_new_block [simp]: "touches S b (new_block b)"
  by (simp add: touches_def extends_def blocks_new_block)

lemma grows_new_block [simp]: "grows b (new_block b)"
  by (simp add: grows_def)

lemma wf_new_block [simp]: "wfb b \<Longrightarrow> wfb (new_block b)"
  by (simp add: wfb_def gep_ok_def)

lemmas builder_steps = CreateBr_def CreateCondBr_def CreateRet_def CreateFence_def CreateStore_def CreateBlock_new

text \<open>A numbered instruction.\<close>

definition numbered :: "irinst \<Rightarrow> builder \<Rightarrow> builder" where
  "numbered i b = add_inst i (b\<lparr>next_id := next_id b + 1\<rparr>)"

lemma numbered_simps [simp]:
  "insert_block (numbered i b) = insert_block b" "next_id (numbered i b) = Suc (next_id b)"
  "reg_values (numbered i b) = reg_values b" "gepbyte_map (numbered i b) = gepbyte_map b"
  "length (blocks (numbered i b)) = length (blocks b)"
  by (simp_all add: numbered_def)

lemma blocks_numbered: "k < length (blocks b) \<Longrightarrow>
  blocks (numbered i b) ! k = (if k = insert_block b then blocks b ! k @ [i] else blocks b ! k)"
  by (simp add: numbered_def blocks_add_inst)

lemma grows_numbered [simp]: "grows b (numbered i b)"
  by (simp add: grows_def touches_def extends_def blocks_numbered)

lemma wf_numbered [simp]: "wfb b \<Longrightarrow> wfb (numbered i b)"
  by (rule wf_ext) (simp_all add: wfb_def)

lemma Create_numbered:
  "CreateLoad p b = (Inst (next_id b) (accessed_type p), numbered (LoadI (next_id b) p) b)"
  "CreateCall t f as b = (Inst (next_id b) t, numbered (CallI (next_id b) t f as) b)"
  "CreatePHI t vs b = (Inst (next_id b) t, numbered (PhiI (next_id b) t vs) b)"
  by (simp_all add: CreateLoad_def CreateCall_def CreatePHI_def numbered_def)

section \<open>Accesses\<close>

lemma cached_pointer: "wfb b \<Longrightarrow> gepbyte_map b (off, n) = Some p \<Longrightarrow> \<exists>t. p = CtxPtr (get_32i (int (off div n))) t"
  unfolding wfb_def gep_ok_def by simp

lemma getCtxByteGEP_spec:
  assumes "getCtxByteGEP off t b = Some (p, b')" and "wfb b"
  shows "p = CtxPtr (get_32i (int (off div store_bytes t))) t \<and> 0 < store_bytes t
    \<and> insert_block b' = insert_block b \<and> blocks b' = blocks b \<and> next_id b' = next_id b
    \<and> reg_values b' = reg_values b \<and> wfb b'"
proof (cases "gepbyte_map b (off, store_bytes t)")
  case None
  have "gep_ok b \<Longrightarrow> gep_ok (b\<lparr>gepbyte_map := (gepbyte_map b)((off, n) \<mapsto> CtxPtr (get_32i (int (off div n))) t)\<rparr>)" for n
    by (simp add: gep_ok_def)
  then show ?thesis using None assms
    by (auto simp: getCtxByteGEP_def getCtxTyGEP_def store_bytes_def Let_def wfb_def split: if_splits)
next
  case (Some q)
  then obtain u where "q = CtxPtr (get_32i (int (off div store_bytes t))) u"
    using assms(2) cached_pointer by blast
  then show ?thesis using Some assms
    by (auto simp: getCtxByteGEP_def getCtxTyGEP_def store_bytes_def Let_def split: if_splits)
qed

lemma getCtxByteGEP_grows: "getCtxByteGEP off t b = Some (p, b') \<Longrightarrow> wfb b \<Longrightarrow> grows b b'"
  using getCtxByteGEP_spec [of off t b p b'] by (simp add: grows_def touches_def extends_def)

text \<open>Every operation that continues the current block keeps a builder well formed.\<close>

definition continues :: "builder \<Rightarrow> builder \<Rightarrow> bool" where
  "continues b b' \<longleftrightarrow> wfb b' \<and> grows b b' \<and> insert_block b' = insert_block b"

lemma readCtx_continues:
  assumes "readCtx off t b = Some (v, b')" and "wfb b"
  shows "continues b b' \<and> below (next_id b') v"
  using assms getCtxByteGEP_spec getCtxByteGEP_grows
  by (fastforce simp: readCtx_def continues_def Create_numbered bind_eq_Some_conv intro: grows_trans)

lemma readCtxI_continues:
  assumes "readCtxI off bias n ix t b = Some (v, b')" and "wfb b"
  shows "continues b b' \<and> below (next_id b') v"
  using assms by (auto simp: readCtxI_def continues_def Create_numbered bind_eq_Some_conv)

lemma writeCtx_continues:
  assumes "writeCtx off v b = Some b'" and "wfb b"
  shows "continues b b'"
  using assms getCtxByteGEP_spec getCtxByteGEP_grows
  by (fastforce simp: writeCtx_def continues_def builder_steps bind_eq_Some_conv intro: grows_trans)

lemma writeCtxI_continues:
  assumes "writeCtxI off bias n ix v b = Some b'" and "wfb b"
  shows "continues b b'"
  using assms by (auto simp: writeCtxI_def continues_def builder_steps bind_eq_Some_conv)

lemma store_continues: "wfb b \<Longrightarrow> continues b (store G a v b)"
  by (simp add: store_def continues_def builder_steps)

lemma load_ty_loads:
  assumes "\<not> fake_vsys_reads G"
  shows "load_ty G a t b = Some (Inst (next_id b) t, numbered (LoadI (next_id b) (MemPtr (relocate G (widen_addr G a)) t)) b)"
  using assms by (simp add: load_ty_def Create_numbered Let_def)

lemma load_ty_continues:
  assumes "load_ty G a t b = Some (v, b')" and "wfb b"
  shows "continues b b' \<and> below (next_id b') v"
  using assms by (auto simp: load_ty_def continues_def Create_numbered Let_def split: option.splits if_splits)

lemma setExitType_continues: "setExitType G k b = Some b' \<Longrightarrow> wfb b \<Longrightarrow> continues b b'"
  unfolding setExitType_def by (rule writeCtx_continues)

lemma setRegValue_wf: "setRegValue r v b = Some b' \<Longrightarrow> wfb b \<Longrightarrow> below (next_id b) v \<Longrightarrow>
    wfb b' \<and> extends b b' \<and> insert_block b' = insert_block b \<and> next_id b' = next_id b \<and> blocks b' = blocks b
    \<and> reg_values b r = None \<and> reg_values b' = (reg_values b)(r \<mapsto> v)"
  by (auto simp: setRegValue_def wfb_def gep_ok_def extends_def split: if_splits)

section \<open>Operators and constants\<close>

context value_relation
begin

lemma looked_up:
  "map_of unops p = Some f \<Longrightarrow> maybe1 Q f" "map_of binops p = Some g \<Longrightarrow> maybe2 Q g" "map_of triops p = Some h \<Longrightarrow> maybe3 Q h"
  using keeps_unops keeps_binops keeps_triops by (auto simp: list_all_iff dest!: map_of_SomeD)

lemma quaternary: "map_of qops p = Some f \<Longrightarrow> Q a a' \<Longrightarrow> Q b b' \<Longrightarrow> Q c c' \<Longrightarrow> Q d d' \<Longrightarrow> rel_option Q (f a b c d) (f a' b' c' d')"
  by (auto simp: qops_def MAddF64_emit_def dest: types intro!: instructions split: if_splits)

lemma bind_found: "(\<And>f. m = Some f \<Longrightarrow> rel_option Q (g f) (h f)) \<Longrightarrow> rel_option Q (Option.bind m g) (Option.bind m h)"
  by (cases m) simp_all

lemma operator_arity:
  assumes "list_all2 Q vs us" and "length vs = arity k"
  shows "rel_option Q (emit_op k p vs) (emit_op k p us)"
proof (cases k)
  case UnopK
  then obtain a a' where "vs = [a]" "us = [a']" "Q a a'"
    using assms by (auto simp: length_Suc_conv list_all2_Cons1)
  then show ?thesis using UnopK by (auto simp: emit_op_def maybe1_def intro!: bind_found dest: looked_up)
next
  case BinopK
  then obtain a a' b b' where "vs = [a, b]" "us = [a', b']" "Q a a'" "Q b b'"
    using assms by (auto simp: length_Suc_conv list_all2_Cons1 numeral_eq_Suc)
  then show ?thesis using BinopK looked_up(2) [of p] by (auto simp: emit_op_def maybe2_def intro!: bind_found)
next
  case TriopK
  then obtain a a' b b' c c' where "vs = [a, b, c]" "us = [a', b', c']" "Q a a'" "Q b b'" "Q c c'"
    using assms by (auto simp: length_Suc_conv list_all2_Cons1 numeral_eq_Suc)
  then show ?thesis using TriopK looked_up(3) [of p] by (auto simp: emit_op_def maybe3_def intro!: bind_found)
next
  case QopK
  then obtain a a' b b' c c' d d' where "vs = [a, b, c, d]" "us = [a', b', c', d']" "Q a a'" "Q b b'" "Q c c'" "Q d d'"
    using assms by (auto simp: length_Suc_conv list_all2_Cons1 numeral_eq_Suc)
  then show ?thesis using QopK by (auto simp: emit_op_def intro!: bind_found quaternary)
qed

lemma emit_op_arity: "length vs \<noteq> arity k \<Longrightarrow> emit_op k p vs = None"
  by (cases k) (auto simp: emit_op_def numeral_eq_Suc split: list.split)

lemma operator: "list_all2 Q vs us \<Longrightarrow> rel_option Q (emit_op k p vs) (emit_op k p us)"
  using operator_arity [of vs us k p] emit_op_arity [of vs k p] emit_op_arity [of us k p]
  by (cases "length vs = arity k") (auto dest: list_all2_lengthD)

lemma flattened: "Q a b \<Longrightarrow> Q (flattenType a) (flattenType b)"
  by (auto dest: types intro!: instructions split: ty.split)

end

section \<open>Expressions\<close>

definition emitted :: "builder \<Rightarrow> irvalue \<Rightarrow> builder \<Rightarrow> bool" where
  "emitted b v b' \<longleftrightarrow> wfb b' \<and> grows b b' \<and> below (next_id b') v"

lemma below_later: "below (next_id b) v \<Longrightarrow> grows b b' \<Longrightarrow> below (next_id b') v"
  using below_mono extends_ids grows_extends by blast

text \<open>A conditional: three new blocks, the condition in the current one, the alternatives
  in two of the new ones (or where their own conditionals end), the value in the third.\<close>

lemma conditional_layout:
  assumes "wfb b" and "n = length (blocks b)" and "b3 = new_block (new_block (new_block b))"
    and c: "emitted b3 v b4" and "b5 = SetInsertPoint (Suc n) (add_inst (CondBrI x n (Suc n)) b4)"
    and t: "emitted b5 v1 b6" and "b7 = SetInsertPoint n (add_inst (BrI (Suc (Suc n))) b6)"
    and f: "emitted b7 v0 b8" and "b9 = SetInsertPoint (Suc (Suc n)) (add_inst (BrI (Suc (Suc n))) b8)"
  shows "wfb b3" and "wfb b5" and "wfb b7" and "wfb b9" and "grows b b9" and "grows b b3"
    and "blocks b5 ! Suc n = []" and "blocks b7 ! n = []" and "blocks b9 ! Suc (Suc n) = []"
    and "insert_block b6 \<noteq> insert_block b8"
    and "extends b5 b6" and "extends b6 b7" and "extends b7 b8" and "extends b8 b9" and "extends b4 b5"
proof -
  have l3: "length (blocks b3) = n + 3" and i3: "insert_block b3 = insert_block b" and ib: "insert_block b < n"
    using assms by (auto simp: wfb_def)
  have e3: "blocks b3 ! n = []" "blocks b3 ! Suc n = []" "blocks b3 ! Suc (Suc n) = []"
    using assms by (simp_all add: blocks_new_block)
  have g4: "touches {insert_block b} b3 b4" and i4: "insert_block b4 = insert_block b \<or> n + 3 \<le> insert_block b4"
    and l4: "n + 3 \<le> length (blocks b4)" and w4: "wfb b4"
    using c i3 l3 touches_length [of "{insert_block b}" b3 b4] by (auto simp: emitted_def grows_def)
  have t5: "touches {insert_block b4} b4 b5"
    using assms(5) by simp
  have l5: "n + 3 \<le> length (blocks b5)" using assms(5) l4 by simp
  have e5: "blocks b5 ! k = []" if "k \<in> {n, Suc n, Suc (Suc n)}" for k
    using that e3 i4 ib l3 l4 touches_block [OF g4, of k] touches_block [OF t5, of k] by auto
  show w5: "wfb b5" using assms(5) w4 l4 by (auto intro!: wf_SetInsertPoint)
  have g6: "touches {Suc n} b5 b6" and i6: "insert_block b6 = Suc n \<or> n + 3 \<le> insert_block b6"
    and l6: "n + 3 \<le> length (blocks b6)" and w6: "wfb b6" and l56: "length (blocks b5) \<le> length (blocks b6)"
    using t assms(5) l5 touches_length [of "{Suc n}" b5 b6] by (auto simp: emitted_def grows_def)
  have t7: "touches {insert_block b6} b6 b7"
    using assms(7) by simp
  have e7: "blocks b7 ! k = []" if "k \<in> {n, Suc (Suc n)}" for k
    using that e5 [of k] i6 l5 l6 touches_block [OF g6, of k] touches_block [OF t7, of k] by auto
  show w7: "wfb b7" using assms(7) w6 l6 by (auto intro!: wf_SetInsertPoint)
  have l7: "length (blocks b6) \<le> length (blocks b7)" using assms(7) by simp
  have g8: "touches {n} b7 b8" and i8: "insert_block b8 = n \<or> length (blocks b7) \<le> insert_block b8" and w8: "wfb b8"
    using f assms(7) by (auto simp: emitted_def grows_def)
  have l8: "n + 3 \<le> length (blocks b8)" using l6 l7 touches_length [OF g8] by simp
  have t9: "touches {insert_block b8} b8 b9"
    using assms(9) by simp
  show "wfb b9" using assms(9) w8 l8 by (auto intro!: wf_SetInsertPoint)
  show "blocks b5 ! Suc n = []" and "blocks b7 ! n = []" using e5 e7 by auto
  show "blocks b9 ! Suc (Suc n) = []"
    using e7 i8 l6 l7 l8 touches_block [OF g8, of "Suc (Suc n)"] touches_block [OF t9, of "Suc (Suc n)"] by auto
  show "insert_block b6 \<noteq> insert_block b8" using i6 i8 l6 l7 w6 by (auto simp: wfb_def)
  show "extends b5 b6" "extends b6 b7" "extends b7 b8" "extends b8 b9" "extends b4 b5"
    using g6 t7 g8 t9 t5 by (simp_all add: touches_def)
  have t3: "touches {} b b3"
    using assms(3) touches_trans [OF touches_trans [OF touches_new_block touches_new_block] touches_new_block, of "{}" "{}" "{}"]
    by simp
  have "touches ({} \<union> {insert_block b} \<union> {insert_block b4} \<union> {Suc n} \<union> {insert_block b6} \<union> {n} \<union> {insert_block b8}) b b9"
    by (rule touches_trans [OF touches_trans [OF touches_trans [OF touches_trans [OF touches_trans [OF touches_trans
      [OF t3 g4] t5] g6] t7] g8] t9])
  then have "touches {insert_block b} b b9"
    by (rule touches_mono) (use i4 i6 i8 l6 l7 assms(2) in auto)
  moreover have "reg_values b9 = reg_values b"
    using assms c t f by (simp add: emitted_def grows_def)
  ultimately show "grows b b9" using assms(2,9) by (simp add: grows_def)
  show "wfb b3" and "grows b b3" using assms(1,3) grows_trans [OF grows_trans [OF grows_new_block grows_new_block] grows_new_block] by simp_all
qed

lemma below_const: "emit_const c = Some v \<Longrightarrow> below 0 v"
  by (cases c) (auto simp: to16x8i_def to32x8i_def)

lemma below_operator: "emit_op k p vs = Some v \<Longrightarrow> list_all (below n) vs \<Longrightarrow> below n v"
  using below.operator [of n vs vs k p] by (simp add: list_all2_same list_all_iff)

lemma below_flattened: "below n v \<Longrightarrow> below n (flattenType v)"
  using below.flattened [of v v n] by simp

lemma emitted_refl: "wfb b \<Longrightarrow> below (next_id b) v \<Longrightarrow> emitted b v b"
  by (simp add: emitted_def)

lemma emitted_continues: "continues b b' \<and> below (next_id b') v \<Longrightarrow> emitted b v b'"
  by (simp add: emitted_def continues_def)

lemma emitted_then: "emitted b v b' \<Longrightarrow> continues b' b'' \<and> below (next_id b'') u \<Longrightarrow> emitted b u b''"
  unfolding emitted_def continues_def using grows_trans by blast

lemma emit_conditional:
  assumes "emit_expr G (ExprMux0X c f t) b = Some (v, b')"
  obtains cv v1 v0 b4 b6 b8 where
    "emit_expr G c (new_block (new_block (new_block b))) = Some (cv, b4)"
    "emit_expr G t (SetInsertPoint (Suc (length (blocks b))) (add_inst (CondBrI (ICmp ICmpEQ cv
       (get_c (getBitWidth (getType cv)) 0)) (length (blocks b)) (Suc (length (blocks b)))) b4)) = Some (v1, b6)"
    "emit_expr G f (SetInsertPoint (length (blocks b)) (add_inst (BrI (Suc (Suc (length (blocks b))))) b6)) = Some (v0, b8)"
    "getType (flattenType v1) = getType (flattenType v0)"
    "v = Inst (next_id b8) (getType (flattenType v0))"
    "b' = numbered (PhiI (next_id b8) (getType (flattenType v0))
       [(flattenType v0, insert_block b8), (flattenType v1, insert_block b6)])
       (SetInsertPoint (Suc (Suc (length (blocks b)))) (add_inst (BrI (Suc (Suc (length (blocks b))))) b8))"
  using assms
  by (auto simp: builder_steps Create_numbered Let_def bind_eq_Some_conv numeral_eq_Suc simp del: flattenType.simps split: if_splits)

lemma emitted_wfb: "emitted b v b' \<Longrightarrow> wfb b'"
  by (simp add: emitted_def)

lemma emitted_compose: "grows b b' \<Longrightarrow> emitted b' v b'' \<Longrightarrow> emitted b v b''"
  unfolding emitted_def using grows_trans by blast

lemma emitted_numbered: "wfb b \<Longrightarrow> emitted b (Inst (next_id b) t) (numbered i b)"
  by (simp add: emitted_def)

text \<open>The steps of a conditional and their builders, each with what was emitted so far.\<close>

lemma conditional_emission:
  assumes "emit_expr G (ExprMux0X c f t) b = Some (v, b')" and "wfb b"
    and IH: "\<And>d u d'. emit_expr G c d = Some (u, d') \<Longrightarrow> wfb d \<Longrightarrow> emitted d u d'"
      "\<And>d u d'. emit_expr G t d = Some (u, d') \<Longrightarrow> wfb d \<Longrightarrow> emitted d u d'"
      "\<And>d u d'. emit_expr G f d = Some (u, d') \<Longrightarrow> wfb d \<Longrightarrow> emitted d u d'"
  obtains n cv v1 v0 b3 b4 b5 b6 b7 b8 b9 where "n = length (blocks b)" "b3 = new_block (new_block (new_block b))"
    "emit_expr G c b3 = Some (cv, b4)" "emitted b3 cv b4"
    "b5 = SetInsertPoint (Suc n) (add_inst (CondBrI (ICmp ICmpEQ cv (get_c (getBitWidth (getType cv)) 0)) n (Suc n)) b4)"
    "emit_expr G t b5 = Some (v1, b6)" "emitted b5 v1 b6"
    "b7 = SetInsertPoint n (add_inst (BrI (Suc (Suc n))) b6)"
    "emit_expr G f b7 = Some (v0, b8)" "emitted b7 v0 b8"
    "b9 = SetInsertPoint (Suc (Suc n)) (add_inst (BrI (Suc (Suc n))) b8)"
    "getType (flattenType v1) = getType (flattenType v0)" "v = Inst (next_id b9) (getType (flattenType v0))"
    "b' = numbered (PhiI (next_id b9) (getType (flattenType v0))
       [(flattenType v0, insert_block b8), (flattenType v1, insert_block b6)]) b9"
proof -
  define n where "n = length (blocks b)"
  define b3 where "b3 = new_block (new_block (new_block b))"
  obtain cv v1 v0 b4 b6 b8 where c: "emit_expr G c b3 = Some (cv, b4)"
    and t: "emit_expr G t (SetInsertPoint (Suc n) (add_inst (CondBrI (ICmp ICmpEQ cv
       (get_c (getBitWidth (getType cv)) 0)) n (Suc n)) b4)) = Some (v1, b6)"
    and f: "emit_expr G f (SetInsertPoint n (add_inst (BrI (Suc (Suc n))) b6)) = Some (v0, b8)"
    and types: "getType (flattenType v1) = getType (flattenType v0)"
    and v: "v = Inst (next_id b8) (getType (flattenType v0))"
    and b': "b' = numbered (PhiI (next_id b8) (getType (flattenType v0))
       [(flattenType v0, insert_block b8), (flattenType v1, insert_block b6)])
       (SetInsertPoint (Suc (Suc n)) (add_inst (BrI (Suc (Suc n))) b8))"
    using assms(1) unfolding n_def b3_def by (rule emit_conditional)
  define b5 where "b5 = SetInsertPoint (Suc n) (add_inst (CondBrI (ICmp ICmpEQ cv (get_c (getBitWidth (getType cv)) 0)) n (Suc n)) b4)"
  define b7 where "b7 = SetInsertPoint n (add_inst (BrI (Suc (Suc n))) b6)"
  define b9 where "b9 = SetInsertPoint (Suc (Suc n)) (add_inst (BrI (Suc (Suc n))) b8)"
  have b3: "wfb b3" using assms(2) by (simp add: b3_def)
  have e4: "emitted b3 cv b4" using IH(1) c b3 by blast
  have l4: "n + 3 \<le> length (blocks b4)"
    using e4 touches_length [of "{insert_block b3}" b3 b4] by (simp add: emitted_def grows_def b3_def n_def)
  have w5: "wfb b5" unfolding b5_def using e4 l4 by (auto simp: emitted_def intro: wf_SetInsertPoint)
  have e6: "emitted b5 v1 b6" using IH(2) t w5 by (simp add: b5_def)
  have l6: "n + 3 \<le> length (blocks b6)"
    using e6 l4 touches_length [of "{insert_block b5}" b5 b6] by (simp add: emitted_def grows_def b5_def)
  have w7: "wfb b7" unfolding b7_def using e6 l6 by (auto simp: emitted_def intro: wf_SetInsertPoint)
  have e8: "emitted b7 v0 b8" using IH(3) f w7 by (simp add: b7_def)
  show thesis
    by (rule that [OF n_def b3_def c e4 b5_def _ e6 b7_def _ e8 b9_def types]) (use t f v b' in \<open>simp_all add: b5_def b7_def b9_def\<close>)
qed

lemma emitted_conditional:
  assumes "emit_expr G (ExprMux0X c f t) b = Some (v, b')" and "wfb b"
    and "\<And>d u d'. emit_expr G c d = Some (u, d') \<Longrightarrow> wfb d \<Longrightarrow> emitted d u d'"
      "\<And>d u d'. emit_expr G t d = Some (u, d') \<Longrightarrow> wfb d \<Longrightarrow> emitted d u d'"
      "\<And>d u d'. emit_expr G f d = Some (u, d') \<Longrightarrow> wfb d \<Longrightarrow> emitted d u d'"
  shows "emitted b v b'"
  using assms
proof (rule conditional_emission)
  fix n cv v1 v0 b3 b4 b5 b6 b7 b8 b9
  assume b: "n = length (blocks b)" "b3 = new_block (new_block (new_block b))"
    and e4: "emitted b3 cv b4"
    and b5: "b5 = SetInsertPoint (Suc n) (add_inst (CondBrI (ICmp ICmpEQ cv (get_c (getBitWidth (getType cv)) 0)) n (Suc n)) b4)"
    and e6: "emitted b5 v1 b6" and b7: "b7 = SetInsertPoint n (add_inst (BrI (Suc (Suc n))) b6)" and e8: "emitted b7 v0 b8"
    and b9: "b9 = SetInsertPoint (Suc (Suc n)) (add_inst (BrI (Suc (Suc n))) b8)"
    and v: "v = Inst (next_id b9) (getType (flattenType v0))"
    and b': "b' = numbered (PhiI (next_id b9) (getType (flattenType v0))
       [(flattenType v0, insert_block b8), (flattenType v1, insert_block b6)]) b9"
  note L = conditional_layout [OF assms(2) b e4 b5 e6 b7 e8 b9]
  show ?thesis unfolding v b' by (rule emitted_compose [OF L(5) emitted_numbered [OF L(4)]])
qed

lemma emitted_list:
  assumes "\<And>e b v b'. e \<in> set es \<Longrightarrow> emit_expr G e b = Some (v, b') \<Longrightarrow> wfb b \<Longrightarrow> emitted b v b'"
    and "emit_exprs G es b = Some (vs, b')" and "wfb b"
  shows "wfb b' \<and> grows b b' \<and> list_all (below (next_id b')) vs"
  using assms
proof (induction es arbitrary: b vs)
  case (Cons a as)
  then obtain u d us where a: "emit_expr G a b = Some (u, d)" and as: "emit_exprs G as d = Some (us, b')" and vs: "vs = u # us"
    by (auto simp: bind_eq_Some_conv)
  then have e: "emitted b u d" using Cons.prems(1) [of a b u d] Cons.prems(3) by simp
  have "wfb b' \<and> grows d b' \<and> list_all (below (next_id b')) us"
    by (rule Cons.IH [OF Cons.prems(1) as emitted_wfb [OF e]]) simp_all
  then show ?case using e vs grows_trans [of b d b'] below_later [of d u b'] by (simp add: emitted_def)
qed simp

lemma emit_expr_emitted: "emit_expr G e b = Some (v, b') \<Longrightarrow> wfb b \<Longrightarrow> emitted b v b'"
proof (induction e arbitrary: b v b')
  case (ExprGet off t)
  then show ?case using emitted_continues readCtx_continues by simp
next
  case (ExprGetI base len ix bias t)
  then obtain u d where "emit_expr G ix b = Some (u, d)" and r: "readCtxI base bias len u t d = Some (v, b')"
    by (auto simp: bind_eq_Some_conv)
  then have e: "emitted b u d" using ExprGetI by simp
  then show ?case using emitted_then readCtxI_continues [OF r] emitted_wfb by blast
next
  case (ExprRdTmp r)
  then show ?case by (auto simp: bind_eq_Some_conv getRegValue_def wfb_def emitted_def)
next
  case (ExprOp k p as)
  then obtain vs where vs: "emit_exprs G as b = Some (vs, b')" and o: "emit_op k p vs = Some v"
    by (auto simp: bind_eq_Some_conv)
  have "wfb b' \<and> grows b b' \<and> list_all (below (next_id b')) vs"
    using vs ExprOp by (intro emitted_list) auto
  then show ?case using below_operator [OF o] by (simp add: emitted_def)
next
  case (ExprLoad t a)
  then obtain u d t' where "emit_expr G a b = Some (u, d)" and r: "load_ty G u t' d = Some (v, b')"
    by (auto simp: bind_eq_Some_conv load_irty_def)
  then have e: "emitted b u d" using ExprLoad by simp
  then show ?case using emitted_then load_ty_continues [OF r] emitted_wfb by blast
next
  case (ExprConst c)
  then show ?case by (auto simp: bind_eq_Some_conv intro!: emitted_refl below_mono [OF below_const])
next
  case (ExprCCall f t as)
  then obtain vs where vs: "emit_exprs G as b = Some (vs, b')" and v: "v = PureCall f t vs"
    by (auto simp: bind_eq_Some_conv)
  have "wfb b' \<and> grows b b' \<and> list_all (below (next_id b')) vs"
    using vs ExprCCall by (intro emitted_list) auto
  then show ?case using v by (simp add: emitted_def)
next
  case (ExprMux0X c f t)
  show ?case by (rule emitted_conditional [OF ExprMux0X.prems]) (use ExprMux0X.IH in blast)+
qed (auto intro: emitted_refl)

end
