(* ===== verification/Codegen.thy ===== *)
theory Codegen
  imports Emission
begin

text \<open>
  The code emitted for an expression computes the expression: from the point of insertion
  before to the point of insertion after, on any register file, the guest's state is
  unchanged and the returned value evaluates to the value the reference interpreter gives.
\<close>

section \<open>Running the emitted code\<close>

definition here :: "builder \<Rightarrow> nat \<Rightarrow> regfile \<Rightarrow> guest_mem \<Rightarrow> config" where
  "here b prev R m = Running (insert_block b) (length (blocks b ! insert_block b)) prev R m"

definition runs :: "llvm_env \<Rightarrow> dirty_env \<Rightarrow> irinst list list \<Rightarrow> builder \<Rightarrow> regfile \<Rightarrow> guest_mem
    \<Rightarrow> builder \<Rightarrow> regfile \<Rightarrow> guest_mem \<Rightarrow> bool" where
  "runs E D F b R m b' R' m' \<longleftrightarrow> (\<forall>prev. \<exists>prev'. reaches E D F (here b prev R m) (here b' prev' R' m'))"

lemma runs_refl [simp]: "runs E D F b R m b R m"
  unfolding runs_def using reaches_refl by blast

lemma runs_trans [trans]: "runs E D F b R m b' R' m' \<Longrightarrow> runs E D F b' R' m' b'' R'' m'' \<Longrightarrow> runs E D F b R m b'' R'' m''"
  unfolding runs_def using reaches_trans by blast

lemma at_added:
  assumes "inside b' F" and "insert_block b < length (blocks b)"
    and "length (blocks b) \<le> length (blocks b')" and "prefix (blocks b ! insert_block b @ [i]) (blocks b' ! insert_block b)"
  shows "exec_step E D F (here b prev R m) = exec_inst E D i (insert_block b) (length (blocks b ! insert_block b)) prev R m"
proof -
  have "prefix (blocks b ! insert_block b @ [i]) (F ! insert_block b)"
    using assms prefix_order.trans unfolding inside_def by (meson less_le_trans)
  then obtain s where "F ! insert_block b = blocks b ! insert_block b @ [i] @ s" by (auto simp: prefix_def)
  then show ?thesis using assms by (simp add: here_def inside_def)
qed

lemma step_added: "inside (add_inst i b) F \<Longrightarrow> wfb b \<Longrightarrow>
    exec_step E D F (here b prev R m) = exec_inst E D i (insert_block b) (length (blocks b ! insert_block b)) prev R m"
  by (rule at_added) (auto simp: wfb_def blocks_add_inst)

lemma step_numbered: "inside (numbered i b) F \<Longrightarrow> wfb b \<Longrightarrow>
    exec_step E D F (here b prev R m) = exec_inst E D i (insert_block b) (length (blocks b ! insert_block b)) prev R m"
  by (rule at_added) (auto simp: wfb_def blocks_numbered)

lemma here_numbered: "wfb b \<Longrightarrow> here (numbered i b) prev R m = Running (insert_block b) (length (blocks b ! insert_block b) + 1) prev R m"
  by (simp add: here_def blocks_numbered wfb_def)

lemma here_added: "wfb b \<Longrightarrow> here (add_inst i b) prev R m = Running (insert_block b) (length (blocks b ! insert_block b) + 1) prev R m"
  by (simp add: here_def blocks_add_inst wfb_def)

lemma here_new: "blocks b ! k = [] \<Longrightarrow> here (SetInsertPoint k b) prev R m = Running k 0 prev R m"
  by (simp add: here_def)

lemma runs_load:
  assumes "inside (numbered (LoadI (next_id b) p) b) F" and "wfb b" and "read_ptr E R p m = Some xs"
  shows "runs E D F b R m (numbered (LoadI (next_id b) p) b) (R(next_id b := xs)) m"
  using assms by (auto simp: runs_def step_numbered here_numbered intro!: exI reaches_step)

lemma runs_store:
  assumes "inside (add_inst (StoreI v p) b) F" and "wfb b" and "write_ptr E R p (ev E R v) m = Some m'"
  shows "runs E D F b R m (add_inst (StoreI v p) b) R m'"
  using assms by (auto simp: runs_def step_added here_added intro!: exI reaches_step)

lemma runs_jump:
  assumes "inside (add_inst (BrI k) b) F" and "wfb b"
  shows "reaches E D F (here b prev R m) (Running k 0 (insert_block b) R m)"
  using assms by (auto simp: step_added intro!: reaches_step)

lemma runs_branch:
  assumes "inside (add_inst (CondBrI v k l) b) F" and "wfb b" and "ev E R v = [Some c]"
  shows "reaches E D F (here b prev R m) (Running (if c = 0 then l else k) 0 (insert_block b) R m)"
  using assms by (auto simp: step_added intro!: reaches_step)

section \<open>Values\<close>

definition value_in :: "llvm_env \<Rightarrow> regfile \<Rightarrow> irvalue \<Rightarrow> vval" where
  "value_in E R v = (getType v, ev E R v)"

lemma value_of_in: "value_of G v = value_in (target G) (\<lambda>i. []) v"
  by (simp add: value_of_def value_in_def)

lemma value_in_agree: "below n v \<Longrightarrow> agree n R R' \<Longrightarrow> value_in E R' v = value_in E R v"
  by (simp add: value_in_def ev_agree)

lemma alike_const: "value_in E R v = x \<Longrightarrow> alike E R R' v (const_of x)"
  by (auto simp: alike_def value_in_def const_of_def fit_id)

lemma value_in_alike: "alike (target G) R (\<lambda>i. []) v u \<Longrightarrow> value_in (target G) R v = value_of G u"
  by (simp add: alike_def value_in_def value_of_in)

lemma value_in_Inst: "lanes_ok t xs \<Longrightarrow> value_in E (R(i := xs)) (Inst i t) = (t, xs)"
  by (simp add: value_in_def fit_id)

lemma lanes_read [simp]: "lanes_ok t (read_ctx a t m)" "lanes_ok t (read_mem p t m)"
  by (simp_all add: read_ctx_def read_mem_def of_bytes_def)

lemma flat_value_in: "value_in (target G) R v = x \<Longrightarrow> value_in (target G) R (flattenType v) = flat_value G x"
  unfolding flat_value_def by (rule value_in_alike) (rule alike.flattened, rule alike_const)

lemma operator_value:
  assumes "emit_op k p vs = Some v" and "op_value G k p xs = Some x" and "map (value_in (target G) R) vs = xs"
  shows "value_in (target G) R v = x"
proof -
  have "list_all2 (alike (target G) R (\<lambda>i. [])) vs (map const_of xs)"
    using assms(3) by (auto simp: list_all2_conv_all_nth intro!: alike_const)
  from alike.operator [OF this, of k p] show ?thesis
    using assms value_in_alike by (auto simp: op_value_def split: if_splits elim!: option.rel_cases)
qed

section \<open>Addresses\<close>

lemma fit_scalar [simp]: "fit (Scalar s) [x] = [map_option (take_bit (scalar_bits s)) x]"
  by (simp add: fit_def)

lemma word_of_take_bit: "word_of_int (take_bit 64 k) = (word_of_int k :: 64 word)"
  by (rule bit_word_eqI) (simp add: bit_simps)

lemma guest_address_value:
  assumes "guest_address G (value_in E R v) = Some p"
  shows "\<exists>a. ev E R (relocate G (widen_addr G v)) = [Some a] \<and> word_of_int a = p"
proof -
  let ?base = "if use_reloc G then mem_base G else 0"
  obtain a where a: "ev E R v = [Some a]" "getType v = get_i (if is32Bit G then 32 else 64)" "word_of_int (a + ?base) = p"
    using assms by (auto simp: guest_address_def value_in_def split: list.splits option.splits if_splits)
  have w: "getType (widen_addr G v) = get_i 64" "\<exists>k. ev E R (widen_addr G v) = [Some k] \<and> (word_of_int k :: 64 word) = word_of_int a"
    using a by (auto simp: widen_addr_def fit_def word_of_take_bit)
  then show ?thesis
    using a(3) by (auto simp: relocate_def fit_def word_of_take_bit wi_hom_add [symmetric])
qed

lemma ptr_value:
  assumes "guest_address G (value_in E R v) = Some p"
  shows "read_ptr E R (MemPtr (relocate G (widen_addr G v)) t) m = Some (read_mem p t m)"
    and "write_ptr E R (MemPtr (relocate G (widen_addr G v)) t) xs m = Some (write_mem p t xs m)"
  using guest_address_value [OF assms] by auto

lemma small_lane: "0 \<le> k \<Longrightarrow> k < 2 ^ 31 \<Longrightarrow> signed_lane 32 (take_bit 32 k) = k"
  by (simp add: signed_lane_def signed_take_bit_eq_take_bit_shift take_bit_eq_mod)

lemma field_value:
  assumes "ctx_field off t = Some a"
  shows "read_ptr E R (CtxPtr (get_32i (int (off div store_bytes t))) t) m = Some (read_ctx a t m)"
    and "write_ptr E R (CtxPtr (get_32i (int (off div store_bytes t))) t) xs m = Some (write_ctx a t xs m)"
proof -
  have *: "0 < store_bytes t" "off mod store_bytes t = 0" "off < 2 ^ 31" "a = int off"
    using assms by (auto simp: ctx_field_def split: if_splits)
  then have "int (off div store_bytes t) < 2 ^ 31" by (meson div_le_dividend le_less_trans of_nat_less_numeral_power_cancel_iff)
  moreover have "int (off div store_bytes t) * int (store_bytes t) = a" using * by (metis mod_0_imp_dvd dvd_div_mult_self of_nat_mult)
  ultimately show "read_ptr E R (CtxPtr (get_32i (int (off div store_bytes t))) t) m = Some (read_ctx a t m)"
    and "write_ptr E R (CtxPtr (get_32i (int (off div store_bytes t))) t) xs m = Some (write_ctx a t xs m)"
    by (simp_all add: small_lane)
qed

lemma mod_take_bit: "0 < n \<Longrightarrow> n dvd 2 ^ 32 \<Longrightarrow> take_bit 32 k mod n = (k :: int) mod n"
  by (simp add: take_bit_eq_mod mod_mod_cancel)

lemma signed_lane_mod: "n dvd 2 ^ 32 \<Longrightarrow> signed_lane 32 k mod n = (k :: int) mod n"
proof -
  assume n: "n dvd 2 ^ 32"
  have "take_bit 32 (signed_lane 32 k) = take_bit 32 k"
    by (simp add: signed_lane_def take_bit_signed_take_bit)
  then have "signed_lane 32 k mod 2 ^ 32 = k mod 2 ^ 32" unfolding take_bit_eq_mod .
  then show ?thesis using mod_mod_cancel [OF n, of k] mod_mod_cancel [OF n, of "signed_lane 32 k"] by simp
qed

lemma ctx_index_value:
  assumes "ctx_index base bias n ixv t = Some i" and "ctx_element base bias n (value_in E R ixv) t = Some a"
  shows "read_ptr E R (CtxPtr i t) m = Some (read_ctx a t m)" and "write_ptr E R (CtxPtr i t) xs m = Some (write_ctx a t xs m)"
proof -
  let ?b = "store_bytes t"
  obtain k where k: "ev E R ixv = [Some k]" "getType ixv = get_i 32"
    and b: "0 < ?b" "base mod ?b = 0" and n: "0 < n" "n dvd 2 ^ 32" and le: "int base + n * int ?b \<le> 2 ^ 31"
    and a: "a = int base + (signed_lane 32 k + bias) mod n * int ?b"
    using assms(2) by (auto simp: ctx_element_def value_in_def split: list.splits option.splits if_splits)
  define q where "q = (k + bias) mod n + int (base div ?b)"
  have base: "int base = int (base div ?b) * int ?b" using b(2) by (metis mod_0_imp_dvd dvd_div_mult_self of_nat_mult)
  have "(int (base div ?b) + n) * int ?b \<le> 2 ^ 31" using le base by (simp add: algebra_simps)
  moreover have "(int (base div ?b) + n) * 1 \<le> (int (base div ?b) + n) * int ?b"
    using b(1) n(1) by (intro mult_left_mono) auto
  ultimately have sum: "int (base div ?b) + n \<le> 2 ^ 31" by simp
  have r: "0 \<le> (k + bias) mod n" "(k + bias) mod n < n" using n(1) by simp_all
  have q: "0 \<le> q" "q < 2 ^ 31" "n \<le> 2 ^ 31" "0 \<le> int (base div ?b)" "int (base div ?b) < 2 ^ 31"
    using sum r n(1) unfolding q_def by linarith+
  have i: "i = BinaryOp Add (BinaryOp URem (BinaryOp Add (Cast BitCast ixv (get_i 32)) (get_c 32 bias)) (get_c 32 n)) (get_c 32 (int (base div ?b)))"
    using assms(1) b by (simp add: ctx_index_def store_bytes_def Let_def)
  have n32: "take_bit 32 n = n" using n(1) q(3) by (intro take_bit_int_eq_self) auto
  have "ev E R (Cast BitCast ixv (get_i 32)) = [Some (take_bit 32 k)]"
    using k cut_lane_0 [of 32 1 "Some k"] by (simp add: regroup_def)
  then have "ev E R (BinaryOp Add (Cast BitCast ixv (get_i 32)) (get_c 32 bias)) = [Some (take_bit 32 (k + bias))]"
    by (simp add: take_bit_add del: ev.simps(6)) 
  then have "ev E R (BinaryOp URem (BinaryOp Add (Cast BitCast ixv (get_i 32)) (get_c 32 bias)) (get_c 32 n))
      = [Some (take_bit 32 ((k + bias) mod n))]"
    using n n32 by (simp add: mod_take_bit del: ev.simps(4)) (simp add: ev.simps(4) n32 mod_take_bit)
  then have index: "ev E R i = [Some (take_bit 32 q)]" "getType i = get_i 32"
    unfolding i q_def by (simp_all add: take_bit_add)
  have "q * int ?b = a"
    using a base mod_add_eq [of "signed_lane 32 k" n bias] mod_add_eq [of k n bias] signed_lane_mod [OF n(2), of k]
    by (simp add: q_def algebra_simps)
  then show "read_ptr E R (CtxPtr i t) m = Some (read_ctx a t m)" and "write_ptr E R (CtxPtr i t) xs m = Some (write_ctx a t xs m)"
    using index q by (simp_all add: small_lane)
qed

section \<open>Constants\<close>

text \<open>A bit of the mask of a vector constant is a byte of the vector.\<close>

lemma bit_bytemask: "bit (bitmask8_to_bytemask64 w8) k \<longleftrightarrow> k < 64 \<and> bit w8 (k div 8)"
proof -
  have "bit (fold (\<lambda>i w64. if w8 AND push_bit i 1 \<noteq> 0 then w64 OR push_bit (8 * i) 0xFF else w64) [0..<n] (0 :: int)) k
      \<longleftrightarrow> k < 8 * n \<and> bit w8 (k div 8)" for n
  proof (induction n)
    case (Suc n)
    have ff: "(0xFF :: int) = mask 8" by (simp add: mask_eq_exp_minus_1)
    have "bit (push_bit (8 * n) (0xFF :: int)) k \<longleftrightarrow> 8 * n \<le> k \<and> k < 8 * Suc n"
      unfolding ff by (auto simp: bit_push_bit_iff bit_mask_iff)
    moreover have "8 * n \<le> k \<Longrightarrow> k < 8 * Suc n \<Longrightarrow> k div 8 = n" by simp
    moreover have "w8 AND push_bit n 1 \<noteq> 0 \<longleftrightarrow> bit w8 n" by (simp add: bit_iff_and_push_bit_not_eq_0)
    ultimately show ?case using Suc by (auto simp: bit_or_iff)
  qed simp
  from this [of 8] show ?thesis by (simp add: bitmask8_to_bytemask64_def)
qed

lemma take_bytemask [simp]: "take_bit 64 (bitmask8_to_bytemask64 w8) = bitmask8_to_bytemask64 w8"
  by (rule bit_eqI) (auto simp: bit_take_bit_iff bit_bytemask)

lemma bit_join_lanes:
  assumes "0 < w" and "\<forall>x\<in>set xs. take_bit w x = x"
  shows "bit (join_lanes w (map Some xs)) k \<longleftrightarrow> k div w < length xs \<and> bit (xs ! (k div w)) (k mod w)"
  using assms(2)
proof (induction xs arbitrary: k)
  case (Cons x xs)
  have "join_lanes w (map Some (x # xs)) = concat_bit w x (join_lanes w (map Some xs))"
    using Cons.prems by (simp add: concat_bit_eq)
  then have "bit (join_lanes w (map Some (x # xs))) k \<longleftrightarrow> k < w \<and> bit x k \<or> w \<le> k \<and> bit (join_lanes w (map Some xs)) (k - w)"
    by (auto simp: bit_concat_bit_iff)
  also have "\<dots> \<longleftrightarrow> k div w < length (x # xs) \<and> bit ((x # xs) ! (k div w)) (k mod w)"
  proof (cases "k < w")
    case False
    then have "k div w = Suc ((k - w) div w)" "(k - w) mod w = k mod w"
      using assms(1) by (simp_all add: le_div_geq le_mod_geq)
    then show ?thesis using False Cons by simp
  qed simp
  finally show ?case .
qed simp

lemma regroup_bytes:
  assumes "\<forall>x\<in>set xs. take_bit 64 x = x" and "n \<le> 8 * length xs"
  shows "regroup 64 (map Some xs) 8 n = map (\<lambda>i. Some (take_bit 8 (drop_bit (8 * (i mod 8)) (xs ! (i div 8))))) [0..<n]"
proof -
  have "cut_lane 64 (map Some xs) 8 i = Some (take_bit 8 (drop_bit (8 * (i mod 8)) (xs ! (i div 8))))" if "i < n" for i
  proof -
    have "None \<notin> set (take k (drop j (map Some xs)))" for k j by (auto dest!: in_set_takeD in_set_dropD)
    moreover have "take_bit 8 (drop_bit (i * 8) (join_lanes 64 (map Some xs))) = take_bit 8 (drop_bit (8 * (i mod 8)) (xs ! (i div 8)))"
    proof (rule bit_eqI)
      fix k
      have "i * 8 + k = 64 * (i div 8) + (8 * (i mod 8) + k)" using mult_div_mod_eq [of 8 i] by linarith
      then have "k < 8 \<Longrightarrow> (i * 8 + k) div 64 = i div 8" "k < 8 \<Longrightarrow> (i * 8 + k) mod 64 = 8 * (i mod 8) + k"
        by (simp_all only:) simp_all
      then show "bit (take_bit 8 (drop_bit (i * 8) (join_lanes 64 (map Some xs)))) k \<longleftrightarrow>
          bit (take_bit 8 (drop_bit (8 * (i mod 8)) (xs ! (i div 8)))) k"
        using that assms by (auto simp: bit_take_bit_iff bit_drop_bit_eq bit_join_lanes less_mult_imp_div_less)
    qed
    ultimately show ?thesis by (simp add: cut_lane_def)
  qed
  then show ?thesis by (simp add: regroup_def)
qed

lemma bytemask_byte: "i < 8 \<Longrightarrow> take_bit 8 (drop_bit (8 * i) (bitmask8_to_bytemask64 w8)) = (if bit w8 i then 255 else 0)"
proof -
  assume i: "i < 8"
  have ff: "(255 :: int) = mask 8" by (simp add: mask_eq_exp_minus_1)
  show ?thesis unfolding ff
    by (rule bit_eqI) (use i in \<open>auto simp: bit_take_bit_iff bit_drop_bit_eq bit_bytemask bit_mask_iff\<close>)
qed

lemma vector_constant:
  assumes "n = 8 * q"
  shows "regroup 64 (map (\<lambda>j. Some (bitmask8_to_bytemask64 (take_bit 8 (drop_bit (8 * j) x)))) [0..<q]) 8 n
    = map (\<lambda>i. Some (if bit x i then 255 else 0)) [0..<n]"
proof -
  have "bit (take_bit 8 (drop_bit (8 * (i div 8)) x)) (i mod 8) = bit x i" for i
    by (simp add: bit_take_bit_iff bit_drop_bit_eq)
  then show ?thesis
    using assms regroup_bytes [of "map (\<lambda>j. bitmask8_to_bytemask64 (take_bit 8 (drop_bit (8 * j) x))) [0..<q]" n]
    by (auto simp: bytemask_byte o_def)
qed

lemma quarters: "[0..<2] = [0, Suc 0]" "[0..<4] = [0, Suc 0, 2, 3]"
  by (simp_all add: upt_rec)

lemma uint_fits: "LENGTH('a) \<le> w \<Longrightarrow> take_bit w (uint (x :: 'a::len word)) = uint x"
  by (rule take_bit_int_eq_self) (auto intro: less_le_trans [OF uint_bounded])

lemma of_bool_fits [simp]: "take_bit (Suc 0) (of_bool P :: int) = of_bool P"
  by (cases P) simp_all

lemma fit_bytes: "n = getNumElements t \<Longrightarrow> elem_bits t = 8 \<Longrightarrow>
    fit t (map (\<lambda>i. Some (if f i then 255 else 0)) [0..<n]) = map (\<lambda>i. Some (if f i then 255 else 0)) [0..<n]"
  by (rule fit_id) (auto simp: lanes_ok_def take_bit_eq_mod)

lemma and_255: "(k :: int) AND 255 = take_bit 8 k"
  by (simp add: take_bit_eq_mask mask_eq_exp_minus_1)

lemma const_value:
  assumes "emit_const c = Some v" and "eval_const c = Some x"
  shows "value_in E R v = x"
proof (cases c)
  case (Ico_V128 y)
  have "value_in E R v = (get_vt 16 8, fit (get_vt 16 8) (regroup 64
      (map (\<lambda>j. Some (bitmask8_to_bytemask64 (take_bit 8 (drop_bit (8 * j) (uint y))))) [0..<2]) 8 16))"
    using assms(1) Ico_V128 by (auto simp: value_in_def to16x8i_def fit_def quarters and_255)
  also have "\<dots> = (get_vt 16 8, map (\<lambda>i. Some (if bit (uint y) i then 255 else 0)) [0..<16])"
    using vector_constant [of 16 2 "uint y"] by (simp add: fit_bytes)
  finally show ?thesis using assms(2) Ico_V128 by (auto simp: bit_uint_iff)
next
  case (Ico_V256 y)
  have "value_in E R v = (get_vt 32 8, fit (get_vt 32 8) (regroup 64
      (map (\<lambda>j. Some (bitmask8_to_bytemask64 (take_bit 8 (drop_bit (8 * j) (uint y))))) [0..<4]) 8 32))"
    using assms(1) Ico_V256 by (auto simp: value_in_def to32x8i_def fit_def quarters and_255)
  also have "\<dots> = (get_vt 32 8, map (\<lambda>i. Some (if bit (uint y) i then 255 else 0)) [0..<32])"
    using vector_constant [of 32 4 "uint y"] by (simp add: fit_bytes)
  finally show ?thesis using assms(2) Ico_V256 by (auto simp: bit_uint_iff)
qed (use assms in \<open>auto simp: value_in_def uint_fits\<close>)

section \<open>Expressions\<close>

definition temps_held :: "genllvm \<Rightarrow> builder \<Rightarrow> regfile \<Rightarrow> temps \<Rightarrow> bool" where
  "temps_held G b R T \<longleftrightarrow> (\<forall>r x. T r = Some x \<longrightarrow> (\<exists>v. reg_values b r = Some v \<and> value_in (target G) R v = x))"

lemma temps_later:
  assumes "temps_held G b R T" and "wfb b" and "reg_values b' = reg_values b" and "agree (next_id b) R R'"
  shows "temps_held G b' R' T"
  unfolding temps_held_def
proof (intro allI impI)
  fix r x assume "T r = Some x"
  then obtain v where v: "reg_values b r = Some v" "value_in (target G) R v = x"
    using assms(1) unfolding temps_held_def by blast
  moreover have "below (next_id b) v" using v(1) assms(2) by (simp add: wfb_def)
  ultimately show "\<exists>v. reg_values b' r = Some v \<and> value_in (target G) R' v = x"
    using assms(3,4) value_in_agree by auto
qed

text \<open>From a point of insertion with the temporaries in place, on code that ends up inside
  a function \<open>F\<close>, to the next point of insertion with the value at hand.\<close>

definition computed :: "genllvm \<Rightarrow> dirty_env \<Rightarrow> irinst list list \<Rightarrow> guest_mem \<Rightarrow> builder \<Rightarrow> regfile \<Rightarrow> irvalue \<Rightarrow> builder \<Rightarrow> vval \<Rightarrow> regfile \<Rightarrow> bool" where
  "computed G D F m b R v b' x R' \<longleftrightarrow> runs (target G) D F b R m b' R' m \<and> agree (next_id b) R R' \<and> value_in (target G) R' v = x"

definition simulates :: "genllvm \<Rightarrow> dirty_env \<Rightarrow> irinst list list \<Rightarrow> temps \<Rightarrow> guest_mem \<Rightarrow> IRExpr \<Rightarrow> bool" where
  "simulates G D F T m e \<longleftrightarrow> (\<forall>f b v b' R x. create_expr G e = Some f \<longrightarrow> emit_expr G f b = Some (v, b') \<longrightarrow> wfb b
     \<longrightarrow> inside b' F \<longrightarrow> temps_held G b R T \<longrightarrow> eval_expr G T m e = Some x \<longrightarrow> (\<exists>R'. computed G D F m b R v b' x R'))"

lemma simulatesD:
  assumes "simulates G D F T m e" and "create_expr G e = Some f" and "emit_expr G f b = Some (v, b')" and "wfb b"
    and "inside b' F" and "temps_held G b R T" and "eval_expr G T m e = Some x"
  obtains R' where "computed G D F m b R v b' x R'"
  using assms unfolding simulates_def by blast

lemma computed_runs: "computed G D F m b R v b' x R' \<Longrightarrow> runs (target G) D F b R m b' R' m"
  and computed_agree: "computed G D F m b R v b' x R' \<Longrightarrow> agree (next_id b) R R'"
  and computed_value: "computed G D F m b R v b' x R' \<Longrightarrow> value_in (target G) R' v = x"
  by (simp_all add: computed_def)

lemma temps_computed:
  assumes "temps_held G b R T" and "wfb b" and "emitted b v b'" and "computed G D F m b R v b' x R'"
  shows "temps_held G b' R' T"
  by (rule temps_later [OF assms(1,2)]) (use assms(3,4) in \<open>auto simp: emitted_def grows_def computed_def\<close>)

lemma inside_grows: "grows b b' \<Longrightarrow> inside b' F \<Longrightarrow> inside b F"
  using inside_extends grows_extends by blast

lemma simulates_list:
  assumes "\<And>e. e \<in> set es \<Longrightarrow> simulates G D F T m e" and "create_exprs G es = Some fs" and "emit_exprs G fs b = Some (vs, b')"
    and "wfb b" and "inside b' F" and "temps_held G b R T" and "eval_exprs G T m es = Some xs"
  shows "\<exists>R'. runs (target G) D F b R m b' R' m \<and> agree (next_id b) R R' \<and> map (value_in (target G) R') vs = xs"
  using assms
proof (induction es arbitrary: fs b vs xs R)
  case (Cons e es)
  obtain f fs' where f: "create_expr G e = Some f" and fs: "create_exprs G es = Some fs'" "fs = f # fs'"
    using Cons.prems(2) by (auto simp: bind_eq_Some_conv)
  obtain u d vs' where u: "emit_expr G f b = Some (u, d)" and vs: "emit_exprs G fs' d = Some (vs', b')" "vs = u # vs'"
    using Cons.prems(3) fs(2) by (auto simp: bind_eq_Some_conv)
  obtain x xs' where x: "eval_expr G T m e = Some x" and xs: "eval_exprs G T m es = Some xs'" "xs = x # xs'"
    using Cons.prems(7) by (auto simp: bind_eq_Some_conv)
  have e: "emitted b u d" using emit_expr_emitted [OF u Cons.prems(4)] .
  have rest: "wfb b' \<and> grows d b' \<and> list_all (below (next_id b')) vs'"
    by (rule emitted_list [OF _ vs(1)]) (use e emit_expr_emitted in \<open>auto simp: emitted_def\<close>)
  obtain R1 where c: "computed G D F m b R u d x R1"
    by (rule simulatesD [OF Cons.prems(1) f u Cons.prems(4) inside_grows Cons.prems(6) x])
       (use rest Cons.prems(5) in auto)
  have "\<exists>R'. runs (target G) D F d R1 m b' R' m \<and> agree (next_id d) R1 R' \<and> map (value_in (target G) R') vs' = xs'"
    by (rule Cons.IH [OF Cons.prems(1) fs(1) vs(1) emitted_wfb [OF e] Cons.prems(5) temps_computed [OF Cons.prems(6,4) e c] xs(1)]) simp
  then obtain R2 where r: "runs (target G) D F d R1 m b' R2 m" "agree (next_id d) R1 R2" "map (value_in (target G) R2) vs' = xs'"
    by blast
  have "value_in (target G) R2 u = x"
    using value_in_agree [of "next_id d" u R1 R2] e r(2) c by (simp add: emitted_def computed_def)
  moreover have "runs (target G) D F b R m b' R2 m" using computed_runs [OF c] r(1) by (rule runs_trans)
  moreover have "agree (next_id b) R R2"
    using agree_trans [OF computed_agree [OF c] r(2)] e by (simp add: emitted_def extends_ids grows_extends)
  ultimately show ?case using r(3) vs(2) xs(2) by auto
qed (auto intro: runs_refl)

lemma create_exprs_length: "create_exprs G es = Some fs \<Longrightarrow> length fs = length es"
  by (induction es arbitrary: fs) (auto simp: bind_eq_Some_conv)

lemma simulates_op:
  assumes "\<And>e. e \<in> set es \<Longrightarrow> simulates G D F T m e" and "create_exprs G es = Some fs" and "length es = arity k"
    and "emit_expr G (createOp k p fs) b = Some (v, b')" and "wfb b" and "inside b' F" and "temps_held G b R T"
    and "eval_exprs G T m es = Some xs" and "op_value G k p xs = Some x"
  shows "\<exists>R'. computed G D F m b R v b' x R'"
proof -
  have "known_class p = Some k" using assms(9) by (simp add: op_value_def split: if_splits)
  moreover have "take_args (arity k) fs = fs"
    using create_exprs_length [OF assms(2)] assms(3) by (simp add: take_args_def)
  ultimately obtain vs where vs: "emit_exprs G fs b = Some (vs, b')" and v: "emit_op k p vs = Some v"
    using assms(4) by (auto simp: createOp_def bind_eq_Some_conv)
  then show ?thesis
    using simulates_list [OF assms(1,2) vs assms(5-8)] operator_value [OF v assms(9)] unfolding computed_def by blast
qed

lemma computed_load:
  assumes "computed G D F m b R u d x R1" and "emitted b u d"
    and "inside (numbered (LoadI (next_id d) p) d) F" and "read_ptr (target G) R1 p m = Some xs" and "lanes_ok t xs"
  shows "computed G D F m b R (Inst (next_id d) t) (numbered (LoadI (next_id d) p) d) (t, xs) (R1(next_id d := xs))"
proof -
  have "runs (target G) D F d R1 m (numbered (LoadI (next_id d) p) d) (R1(next_id d := xs)) m"
    using assms(2-4) by (intro runs_load) (simp_all add: emitted_def)
  moreover have "agree (next_id b) R1 (R1(next_id d := xs))"
    using assms(2) by (simp add: emitted_def extends_ids grows_extends)
  then have "agree (next_id b) R (R1(next_id d := xs))"
    using agree_trans computed_agree [OF assms(1)] by blast
  ultimately show ?thesis
    using runs_trans [OF computed_runs [OF assms(1)]] value_in_Inst [OF assms(5)] by (simp add: computed_def)
qed

section \<open>Conditionals\<close>

lemma emitted_ids: "emitted b v b' \<Longrightarrow> next_id b \<le> next_id b'"
  unfolding emitted_def using extends_ids [OF grows_extends] by blast

lemma inside_SetInsertPoint [simp]: "inside (SetInsertPoint k b) F = inside b F"
  by (simp add: inside_def)

lemma chosen_value:
  assumes "inside (numbered (PhiI (next_id b) t [(v0, k0), (v1, k1)]) b) F" and "wfb b" and "k0 \<noteq> k1"
    and "prev = k0 \<and> v = v0 \<or> prev = k1 \<and> v = v1" and "getType v = t"
  shows "\<exists>prev'. reaches E D F (here b prev R m) (here (numbered (PhiI (next_id b) t [(v0, k0), (v1, k1)]) b) prev' (R(next_id b := ev E R v)) m)"
    and "value_in E (R(next_id b := ev E R v)) (Inst (next_id b) t) = value_in E R v"
proof -
  have "exec_step E D F (here b prev R m)
      = Some (here (numbered (PhiI (next_id b) t [(v0, k0), (v1, k1)]) b) prev (R(next_id b := ev E R v)) m)"
    using assms by (auto simp: step_numbered here_numbered)
  then show "\<exists>prev'. reaches E D F (here b prev R m) (here (numbered (PhiI (next_id b) t [(v0, k0), (v1, k1)]) b) prev' (R(next_id b := ev E R v)) m)"
    using reaches_step by blast
  show "value_in E (R(next_id b := ev E R v)) (Inst (next_id b) t) = value_in E R v"
    using assms(5) ev_ok [of v E R] by (simp add: value_in_def fit_id)
qed

text \<open>One arm: from the start of its block, where the condition has led, to the value.\<close>

lemma arm_value:
  assumes sim: "simulates G D F T m e" "create_expr G e = Some f" "emit_expr G f b5 = Some (u, b6)" "eval_expr G T m e = Some x"
    and b5: "wfb b5" "blocks b5 ! insert_block b5 = []" "temps_held G b5 R1 T"
    and in6: "inside (add_inst (BrI k) b6) F" and b9: "wfb b9" "insert_block b9 = k" "blocks b9 ! k = []"
    and phi: "inside (numbered (PhiI (next_id b9) t [(v0, k0), (v1, k1)]) b9) F" "k0 \<noteq> k1"
      "insert_block b6 = k0 \<and> flattenType u = v0 \<or> insert_block b6 = k1 \<and> flattenType u = v1" "getType (flattenType u) = t"
    and ids: "next_id b6 \<le> next_id b9"
  shows "\<exists>prev' R'. reaches (target G) D F (Running (insert_block b5) 0 prev R1 m)
      (here (numbered (PhiI (next_id b9) t [(v0, k0), (v1, k1)]) b9) prev' R' m)
    \<and> agree (next_id b5) R1 R' \<and> value_in (target G) R' (Inst (next_id b9) t) = flat_value G x"
proof -
  have e6: "emitted b5 u b6" using emit_expr_emitted [OF sim(3) b5(1)] .
  have "inside b6 F" using in6 inside_extends [OF touches_extends [OF touches_add_inst]] by blast
  then obtain R2 where c: "computed G D F m b5 R1 u b6 x R2"
    using simulatesD [OF sim(1-3) b5(1) _ b5(3) sim(4)] by blast
  obtain prev1 where r1: "reaches (target G) D F (here b5 prev R1 m) (here b6 prev1 R2 m)"
    using computed_runs [OF c] by (auto simp: runs_def)
  have "reaches (target G) D F (here b6 prev1 R2 m) (Running k 0 (insert_block b6) R2 m)"
    using in6 e6 by (intro runs_jump) (simp_all add: emitted_def)
  moreover have "Running k 0 (insert_block b6) R2 m = here b9 (insert_block b6) R2 m"
    using b9 by (simp add: here_def)
  moreover obtain prev' where "reaches (target G) D F (here b9 (insert_block b6) R2 m)
      (here (numbered (PhiI (next_id b9) t [(v0, k0), (v1, k1)]) b9) prev' (R2(next_id b9 := ev (target G) R2 (flattenType u))) m)"
    using chosen_value(1) [OF phi(1) b9(1) phi(2,3,4)] by blast
  ultimately have "reaches (target G) D F (here b5 prev R1 m)
      (here (numbered (PhiI (next_id b9) t [(v0, k0), (v1, k1)]) b9) prev' (R2(next_id b9 := ev (target G) R2 (flattenType u))) m)"
    using r1 reaches_trans by metis
  moreover have "Running (insert_block b5) 0 prev R1 m = here b5 prev R1 m" using b5 by (simp add: here_def)
  moreover have "next_id b5 \<le> next_id b9" using ids e6 extends_ids [OF grows_extends] by (fastforce simp: emitted_def)
  then have "agree (next_id b5) R1 (R2(next_id b9 := ev (target G) R2 (flattenType u)))"
    using agree_trans [OF computed_agree [OF c] agree_update] by blast
  moreover have "value_in (target G) (R2(next_id b9 := ev (target G) R2 (flattenType u))) (Inst (next_id b9) t) = flat_value G x"
    using chosen_value(2) [OF phi(1) b9(1) phi(2,3,4)] flat_value_in [OF computed_value [OF c]] by simp
  ultimately show ?thesis by metis
qed

lemma condition_value:
  assumes "value_in E R v = (Scalar (IntTy w), [Some k])"
  shows "ev E R (ICmp ICmpEQ v (get_c (getBitWidth (getType v)) 0)) = [Some (of_bool (k = 0))]"
  using assms by (auto simp: value_in_def getBitWidth_def)

lemma simulates_conditional:
  assumes sims: "simulates G D F T m c" "simulates G D F T m t" "simulates G D F T m f"
  shows "simulates G D F T m (Iex_ITE c t f)"
  unfolding simulates_def
proof (intro allI impI)
  fix g b v b' R x
  assume create: "create_expr G (Iex_ITE c t f) = Some g" and emit: "emit_expr G g b = Some (v, b')" and w: "wfb b"
    and inside: "inside b' F" and held: "temps_held G b R T" and eval: "eval_expr G T m (Iex_ITE c t f) = Some x"
  obtain gc gt gf where gs: "create_expr G c = Some gc" "create_expr G t = Some gt" "create_expr G f = Some gf" "g = ExprMux0X gc gf gt"
    using create by (auto simp: bind_eq_Some_conv)
  obtain y k where y: "eval_expr G T m c = Some y" "int_value y = Some k"
    and arm: "map_option (flat_value G) (eval_expr G T m (if k = 0 then f else t)) = Some x"
    using eval by (auto simp: bind_eq_Some_conv split: if_splits)
  obtain wd where xc: "eval_expr G T m c = Some (Scalar (IntTy wd), [Some k])"
    using y by (auto elim: int_valueE)
  show "\<exists>R'. computed G D F m b R v b' x R'"
  proof (rule conditional_emission [OF emit [unfolded gs(4)] w emit_expr_emitted emit_expr_emitted emit_expr_emitted])
    fix n cv v1 v0 b3 b4 b5 b6 b7 b8 b9
    assume b: "n = length (blocks b)" "b3 = new_block (new_block (new_block b))"
      and c: "emit_expr G gc b3 = Some (cv, b4)" and e4: "emitted b3 cv b4"
      and b5: "b5 = SetInsertPoint (Suc n) (add_inst (CondBrI (ICmp ICmpEQ cv (get_c (getBitWidth (getType cv)) 0)) n (Suc n)) b4)"
      and t: "emit_expr G gt b5 = Some (v1, b6)"
      and e6: "emitted b5 v1 b6" and b7: "b7 = SetInsertPoint n (add_inst (BrI (Suc (Suc n))) b6)"
      and f: "emit_expr G gf b7 = Some (v0, b8)" and e8: "emitted b7 v0 b8"
      and b9: "b9 = SetInsertPoint (Suc (Suc n)) (add_inst (BrI (Suc (Suc n))) b8)"
      and types: "getType (flattenType v1) = getType (flattenType v0)" and v: "v = Inst (next_id b9) (getType (flattenType v0))"
      and b': "b' = numbered (PhiI (next_id b9) (getType (flattenType v0))
         [(flattenType v0, insert_block b8), (flattenType v1, insert_block b6)]) b9"
    note L = conditional_layout [OF w b e4 b5 e6 b7 e8 b9]
    have in9: "inside b9 F" using inside unfolding b' by (rule inside_grows [OF grows_numbered])
    have in8: "inside (add_inst (BrI (Suc (Suc n))) b8) F" using in9 unfolding b9 inside_SetInsertPoint .
    have in7: "inside b7 F" by (rule inside_extends [OF L(13) inside_extends [OF L(14) in9]])
    have in6: "inside (add_inst (BrI (Suc (Suc n))) b6) F" using in7 unfolding b7 inside_SetInsertPoint .
    have in5: "inside b5 F" by (rule inside_extends [OF L(11) inside_extends [OF L(12) in7]])
    have in4: "inside (add_inst (CondBrI (ICmp ICmpEQ cv (get_c (getBitWidth (getType cv)) 0)) n (Suc n)) b4) F" using in5 unfolding b5 inside_SetInsertPoint .
    have inb4: "inside b4 F" by (rule inside_extends [OF L(15) in5])
    have held3: "temps_held G b3 R T" by (rule temps_later [OF held w]) (simp_all add: b(2))
    obtain R1 where c1: "computed G D F m b3 R cv b4 (Scalar (IntTy wd), [Some k]) R1"
      by (rule simulatesD [OF sims(1) gs(1) c L(1) inb4 held3 xc])
    have agree1: "agree (next_id b) R R1" using computed_agree [OF c1] b(2) by simp
    have regs: "reg_values b5 = reg_values b" "reg_values b7 = reg_values b"
      using b(2) b5 b7 e4 e6 by (simp_all add: emitted_def grows_def)
    have held5: "temps_held G b5 R1 T" and held7: "temps_held G b7 R1 T"
      using temps_later [OF held w _ agree1] regs by auto
    have ids: "next_id b \<le> next_id b4" "next_id b4 = next_id b5" "next_id b5 \<le> next_id b6" "next_id b6 = next_id b7"
        "next_id b7 \<le> next_id b8" "next_id b8 = next_id b9"
      using emitted_ids [OF e4] emitted_ids [OF e6] emitted_ids [OF e8] b(2) b5 b7 b9 by simp_all
    have start: "here b prev R m = here b3 prev R m" for prev
      using w unfolding b by (simp add: here_def blocks_new_block wfb_def)
    have wf4: "wfb b4" using e4 unfolding emitted_def by blast
    have branch: "reaches (target G) D F (here b prev R m) (Running (if k = 0 then n else Suc n) 0 (insert_block b4) R1 m)" for prev
    proof -
      obtain prev1 where "reaches (target G) D F (here b3 prev R m) (here b4 prev1 R1 m)"
        using computed_runs [OF c1] unfolding runs_def by blast
      then show ?thesis unfolding start
        using runs_branch [OF in4 wf4 condition_value [OF computed_value [OF c1]]] by (cases "k = 0") (auto elim!: reaches_trans)
    qed
    have final: "inside (numbered (PhiI (next_id b9) (getType (flattenType v0))
         [(flattenType v0, insert_block b8), (flattenType v1, insert_block b6)]) b9) F"
      using inside unfolding b' .
    have i: "insert_block b5 = Suc n" "insert_block b7 = n" "insert_block b9 = Suc (Suc n)"
      unfolding b5 b7 b9 by simp_all
    have le: "next_id b6 \<le> next_id b9" "next_id b8 \<le> next_id b9" "next_id b \<le> next_id b5" "next_id b \<le> next_id b7"
      using ids by linarith+
    have ne: "insert_block b8 \<noteq> insert_block b6" using L(10) by (rule not_sym)
    have "\<exists>prev' R'. reaches (target G) D F (Running (if k = 0 then n else Suc n) 0 (insert_block b4) R1 m) (here b' prev' R' m)
        \<and> agree (next_id b) R1 R' \<and> value_in (target G) R' v = x"
    proof (cases "k = 0")
      case True
      obtain y where y: "eval_expr G T m f = Some y" "flat_value G y = x" using arm True by auto
      have "blocks b7 ! insert_block b7 = []" unfolding i by (rule L(8))
      note arm_value [OF sims(3) gs(3) f y(1) L(3) this held7 in8 L(4) i(3) L(9) final ne _ refl le(2), of "insert_block b4"]
      then show ?thesis using agree_mono [OF _ le(4)] unfolding b' [symmetric] v i y(2) if_P [OF True] by blast
    next
      case False
      obtain y where y: "eval_expr G T m t = Some y" "flat_value G y = x" using arm False by auto
      have "blocks b5 ! insert_block b5 = []" unfolding i by (rule L(7))
      note arm_value [OF sims(2) gs(2) t y(1) L(2) this held5 in6 L(4) i(3) L(9) final ne _ types le(1), of "insert_block b4"]
      then show ?thesis using agree_mono [OF _ le(3)] unfolding b' [symmetric] v i y(2) if_not_P [OF False] by blast
    qed
    then obtain prev2 R2 where r: "reaches (target G) D F (Running (if k = 0 then n else Suc n) 0 (insert_block b4) R1 m) (here b' prev2 R2 m)"
        "agree (next_id b) R1 R2" "value_in (target G) R2 v = x" by blast
    have "runs (target G) D F b R m b' R2 m" unfolding runs_def using reaches_trans [OF branch r(1)] by blast
    moreover have "agree (next_id b) R R2" using agree_trans [OF agree1 r(2)] by simp
    ultimately show ?thesis using r(3) unfolding computed_def by blast
  qed
qed

section \<open>All expressions\<close>

lemma simulatesI:
  assumes "\<And>f b v b' R x. create_expr G e = Some f \<Longrightarrow> emit_expr G f b = Some (v, b') \<Longrightarrow> wfb b \<Longrightarrow> inside b' F
      \<Longrightarrow> temps_held G b R T \<Longrightarrow> eval_expr G T m e = Some x \<Longrightarrow> \<exists>R'. computed G D F m b R v b' x R'"
  shows "simulates G D F T m e"
  using assms unfolding simulates_def by blast

lemma computed_refl: "value_in (target G) R v = x \<Longrightarrow> computed G D F m b R v b x R"
  by (simp add: computed_def)

lemma CtxBase_value: "computed G D F m b R CtxBase b (value_of G CtxBase) R"
  by (simp add: computed_refl value_of_in value_in_def)

lemma readCtx_computed:
  assumes "readCtx off t b = Some (v, b')" and "wfb b" and "inside b' F" and t: "vexTy2LLVM t = Some t'" and a: "ctx_field off t' = Some a"
  shows "\<exists>R'. computed G D F m b R v b' (t', read_ctx a t' m) R'"
proof -
  obtain p d where g: "getCtxByteGEP off t' b = Some (p, d)" and v: "v = Inst (next_id d) (accessed_type p)"
      "b' = numbered (LoadI (next_id d) p) d"
    using assms(1) t by (auto simp: readCtx_def Create_numbered bind_eq_Some_conv)
  note spec = getCtxByteGEP_spec [OF g assms(2)]
  have "computed G D F m b R CtxBase d (value_of G CtxBase) R"
    using CtxBase_value [of G D F m b R] spec reaches_refl by (fastforce simp: computed_def runs_def here_def)
  moreover have "emitted b CtxBase d" using spec getCtxByteGEP_grows [OF g assms(2)] by (simp add: emitted_def)
  moreover have "read_ptr (target G) R p m = Some (read_ctx a t' m)" using field_value(1) [OF a] spec by simp
  ultimately show ?thesis
    using computed_load [of G D F m b R CtxBase d "value_of G CtxBase" R p "read_ctx a t' m" t'] assms(3) spec unfolding v by auto
qed

lemma simulates_Get: "simulates G D F T m (Iex_Get off t)"
  by (rule simulatesI) (auto simp: bind_eq_Some_conv intro: readCtx_computed)

lemma simulates_GetI:
  assumes "simulates G D F T m ix"
  shows "simulates G D F T m (Iex_GetI base t n ix bias)"
proof (rule simulatesI)
  fix f b v b' R x
  assume h: "create_expr G (Iex_GetI base t n ix bias) = Some f" "emit_expr G f b = Some (v, b')" "wfb b" "inside b' F"
    "temps_held G b R T" "eval_expr G T m (Iex_GetI base t n ix bias) = Some x"
  obtain t' g where t: "vexTy2LLVM t = Some t'" and g: "create_expr G ix = Some g" and f: "f = ExprGetI base n g bias t'"
    using h(1) by (auto simp: bind_eq_Some_conv)
  obtain u d where u: "emit_expr G g b = Some (u, d)" and r: "readCtxI base bias n u t' d = Some (v, b')"
    using h(2) f by (auto simp: bind_eq_Some_conv)
  obtain j where j: "ctx_index base bias n u t' = Some j" and v: "v = Inst (next_id d) t'"
      "b' = numbered (LoadI (next_id d) (CtxPtr j t')) d"
    using r by (auto simp: readCtxI_def getCtxTyGEP_def Create_numbered bind_eq_Some_conv)
  obtain y a where y: "eval_expr G T m ix = Some y" "ctx_element base bias n y t' = Some a" "x = (t', read_ctx a t' m)"
    using h(6) t by (auto simp: bind_eq_Some_conv)
  have e: "emitted b u d" using emit_expr_emitted [OF u h(3)] .
  have "inside d F" using inside_grows [OF grows_numbered] h(4) unfolding v(2) by blast
  then obtain R1 where c: "computed G D F m b R u d y R1"
    using simulatesD [OF assms g u h(3) _ h(5) y(1)] by blast
  have "read_ptr (target G) R1 (CtxPtr j t') m = Some (read_ctx a t' m)"
    using ctx_index_value(1) [OF j] y(2) computed_value [OF c] by simp
  from computed_load [OF c e h(4) [unfolded v(2)] this lanes_read(1)] show "\<exists>R'. computed G D F m b R v b' x R'"
    unfolding v y(3) by blast
qed

lemma simulates_RdTmp: "simulates G D F T m (Iex_RdTmp r)"
proof (rule simulatesI)
  fix f b v b' R x
  assume "create_expr G (Iex_RdTmp r) = Some f" "emit_expr G f b = Some (v, b')" "temps_held G b R T"
    "eval_expr G T m (Iex_RdTmp r) = Some x"
  then have "b' = b" and v: "reg_values b r = Some v" and x: "T r = Some x"
    by (auto simp: bind_eq_Some_conv getRegValue_def)
  moreover have "value_in (target G) R v = x"
    using \<open>temps_held G b R T\<close> v x unfolding temps_held_def by fastforce
  ultimately show "\<exists>R'. computed G D F m b R v b' x R'" using computed_refl by blast
qed

lemma createConst_Some: "createConst c = Some f \<Longrightarrow> f = ExprConst c"
  by (cases c) auto

lemma simulates_Const: "simulates G D F T m (Iex_Const c)"
proof (rule simulatesI)
  fix f b v b' R x
  assume "create_expr G (Iex_Const c) = Some f" "emit_expr G f b = Some (v, b')" "eval_expr G T m (Iex_Const c) = Some x"
  then have "emit_const c = Some v" "b' = b" "eval_const c = Some x"
    using createConst_Some [of c f] by (auto simp: bind_eq_Some_conv)
  then show "\<exists>R'. computed G D F m b R v b' x R'" using computed_refl const_value by blast
qed

lemma simulates_Load:
  assumes "\<not> fake_vsys_reads G" and "simulates G D F T m a"
  shows "simulates G D F T m (Iex_Load lend t a)"
proof (rule simulatesI)
  fix f b v b' R x
  assume h: "create_expr G (Iex_Load lend t a) = Some f" "emit_expr G f b = Some (v, b')" "wfb b" "inside b' F"
    "temps_held G b R T" "eval_expr G T m (Iex_Load lend t a) = Some x"
  obtain g where g: "create_expr G a = Some g" and f: "f = ExprLoad t g"
    using h(1) by (auto simp: bind_eq_Some_conv split: if_splits)
  obtain t' u d where t: "vexTy2LLVM t = Some t'" and u: "emit_expr G g b = Some (u, d)" and v: "v = Inst (next_id d) t'"
      "b' = numbered (LoadI (next_id d) (MemPtr (relocate G (widen_addr G u)) t')) d"
    using h(2) f assms(1) by (auto simp: bind_eq_Some_conv load_irty_def load_ty_loads)
  obtain y p where y: "eval_expr G T m a = Some y" "guest_address G y = Some p" "x = (t', read_mem p t' m)"
    using h(6) t by (auto simp: bind_eq_Some_conv split: if_splits)
  have e: "emitted b u d" using emit_expr_emitted [OF u h(3)] .
  have "inside d F" using inside_grows [OF grows_numbered] h(4) unfolding v(2) by blast
  then obtain R1 where c: "computed G D F m b R u d y R1"
    using simulatesD [OF assms(2) g u h(3) _ h(5) y(1)] by blast
  have "read_ptr (target G) R1 (MemPtr (relocate G (widen_addr G u)) t') m = Some (read_mem p t' m)"
    by (rule ptr_value(1)) (simp add: y(2) computed_value [OF c])
  from computed_load [OF c e h(4) [unfolded v(2)] this lanes_read(2)] show "\<exists>R'. computed G D F m b R v b' x R'"
    unfolding v y(3) by blast
qed

lemma simulates_CCall:
  assumes "\<And>a. a \<in> set as \<Longrightarrow> simulates G D F T m a"
  shows "simulates G D F T m (Iex_CCall p as)"
proof (rule simulatesI)
  fix f b v b' R x
  assume h: "create_expr G (Iex_CCall p as) = Some f" "emit_expr G f b = Some (v, b')" "wfb b" "inside b' F"
    "temps_held G b R T" "eval_expr G T m (Iex_CCall p as) = Some x"
  obtain fs t where fs: "create_exprs G as = Some fs" and t: "helper_type G p = Some t" and f: "f = ExprCCall p t fs"
    using h(1) by (auto simp: bind_eq_Some_conv)
  obtain vs where vs: "emit_exprs G fs b = Some (vs, b')" and v: "v = PureCall p t vs"
    using h(2) f by (auto simp: bind_eq_Some_conv)
  obtain xs where xs: "eval_exprs G T m as = Some xs" and x: "x = (t, fit t (pure_helper (target G) p (map snd xs)))"
    using h(6) t by (auto simp: bind_eq_Some_conv)
  obtain R' where R': "runs (target G) D F b R m b' R' m" "agree (next_id b) R R'" "map (value_in (target G) R') vs = xs"
    using simulates_list [OF assms fs vs h(3-5) xs] by blast
  have "map snd xs = map (ev (target G) R') vs" using R'(3) by (auto simp: value_in_def)
  then have "value_in (target G) R' v = x" by (simp add: v x value_in_def)
  then show "\<exists>R'. computed G D F m b R v b' x R'" using R' by (auto simp: computed_def)
qed

lemma simulates_operator:
  assumes "\<And>a. a \<in> set es \<Longrightarrow> simulates G D F T m a" and "length es = arity k"
    and "\<And>f. create_expr G e = Some f \<Longrightarrow> \<exists>fs. create_exprs G es = Some fs \<and> f = createOp k p fs"
    and "\<And>x. eval_expr G T m e = Some x \<Longrightarrow> \<exists>xs. eval_exprs G T m es = Some xs \<and> op_value G k p xs = Some x"
  shows "simulates G D F T m e"
proof (rule simulatesI)
  fix f b v b' R x
  assume h: "create_expr G e = Some f" "emit_expr G f b = Some (v, b')" "wfb b" "inside b' F" "temps_held G b R T" "eval_expr G T m e = Some x"
  obtain fs where fs: "create_exprs G es = Some fs" "f = createOp k p fs" using assms(3) [OF h(1)] by blast
  obtain xs where xs: "eval_exprs G T m es = Some xs" "op_value G k p xs = Some x" using assms(4) [OF h(6)] by blast
  show "\<exists>R'. computed G D F m b R v b' x R'"
    by (rule simulates_op [OF assms(1) fs(1) assms(2) h(2) [unfolded fs(2)] h(3-5) xs])
qed

lemma expression_simulated: "\<not> fake_vsys_reads G \<Longrightarrow> simulates G D F T m e"
proof (induction e)
  case (Iex_Qop p a b c d)
  show ?case by (rule simulates_operator [of "[a, b, c, d]" _ _ _ _ _ QopK _ p]) (use Iex_Qop in \<open>auto simp: bind_eq_Some_conv\<close>)
next
  case (Iex_Triop p a b c)
  show ?case by (rule simulates_operator [of "[a, b, c]" _ _ _ _ _ TriopK _ p]) (use Iex_Triop in \<open>auto simp: bind_eq_Some_conv\<close>)
next
  case (Iex_Binop p a b)
  show ?case by (rule simulates_operator [of "[a, b]" _ _ _ _ _ BinopK _ p]) (use Iex_Binop in \<open>auto simp: bind_eq_Some_conv\<close>)
next
  case (Iex_Unop p a)
  show ?case by (rule simulates_operator [of "[a]" _ _ _ _ _ UnopK _ p]) (use Iex_Unop in \<open>auto simp: bind_eq_Some_conv\<close>)
next
  case (Iex_Const c)
  show ?case by (rule simulates_Const)
next
  case Iex_GSPTR
  show ?case by (rule simulatesI) (auto simp del: split_paired_All split_paired_Ex, metis CtxBase_value)
next
  case Iex_Binder
  show ?case by (rule simulatesI) simp
qed (use simulates_Get simulates_GetI simulates_RdTmp simulates_Load simulates_CCall simulates_conditional in auto)

end
