(* ===== verification/Stmtgen.thy ===== *)
theory Stmtgen
  imports Codegen
begin

text \<open>
  The code emitted for a statement does what the statement does: it either ends at the next
  point of insertion with the guest's state and the temporaries the reference interpreter
  gives, or returns from the function when the statement leaves the block. The reference
  interpreter takes the meaning of the operators from the translator's tables; these are the
  subject of \<open>Vexop_Facts\<close>. A compare-and-swap of two words is read as it is emitted
  (\<open>exec_emitted\<close>), which is not what it means.
\<close>

section \<open>How a statement extends the function\<close>

definition proceeds :: "builder \<Rightarrow> builder \<Rightarrow> bool" where
  "proceeds b b' \<longleftrightarrow> wfb b' \<and> touches {insert_block b} b b'
     \<and> (insert_block b' = insert_block b \<or> length (blocks b) \<le> insert_block b')"

lemma proceeds_refl [simp]: "wfb b \<Longrightarrow> proceeds b b"
  by (simp add: proceeds_def)

lemma proceeds_trans [trans]:
  assumes "proceeds b b'" and "proceeds b' b''"
  shows "proceeds b b''"
proof -
  have t: "touches {insert_block b} b b'" "touches {insert_block b'} b' b''" using assms by (auto simp: proceeds_def)
  have "touches {insert_block b} b b''"
    by (rule touches_mono [OF touches_trans [OF t]]) (use assms in \<open>auto simp: proceeds_def\<close>)
  moreover have "insert_block b'' = insert_block b \<or> length (blocks b) \<le> insert_block b''"
    using assms touches_length [OF t(1)] by (auto simp: proceeds_def)
  ultimately show ?thesis using assms(2) by (simp add: proceeds_def)
qed

lemma proceeds_wf: "proceeds b b' \<Longrightarrow> wfb b'"
  and proceeds_extends: "proceeds b b' \<Longrightarrow> extends b b'"
  by (simp_all add: proceeds_def touches_def)

lemma inside_proceeds: "proceeds b b' \<Longrightarrow> inside b' F \<Longrightarrow> inside b F"
  by (rule inside_extends [OF proceeds_extends])

lemma proceeds_emitted: "emitted b v b' \<Longrightarrow> proceeds b b'"
  by (simp add: emitted_def grows_def proceeds_def)

lemma proceeds_continues: "continues b b' \<Longrightarrow> proceeds b b'"
  by (simp add: continues_def grows_def proceeds_def)

lemma proceeds_set: "setRegValue r v b = Some b' \<Longrightarrow> wfb b \<Longrightarrow> below (next_id b) v \<Longrightarrow> proceeds b b'"
  using setRegValue_wf [of r v b b'] by (auto simp: proceeds_def touches_def)

lemma proceeds_added [simp]: "wfb b \<Longrightarrow> proceeds b (add_inst i b)" "wfb b \<Longrightarrow> proceeds b (numbered i b)"
    "wfb b \<Longrightarrow> proceeds b (new_block b)"
  using grows_numbered [of b i] by (simp_all add: proceeds_def grows_def)

text \<open>Two new blocks: one for what a guard admits, one where the code goes on. The guard
  may be emitted before the blocks are made or after.\<close>

definition forked :: "builder \<Rightarrow> nat \<Rightarrow> builder \<Rightarrow> bool" where
  "forked b n b0 \<longleftrightarrow> proceeds b b0 \<and> length (blocks b) \<le> n \<and> Suc n < length (blocks b0)
     \<and> insert_block b0 \<notin> {n, Suc n} \<and> blocks b0 ! n = [] \<and> blocks b0 ! Suc n = []"

lemma forked_after: "proceeds b b' \<Longrightarrow> forked b (length (blocks b')) (new_block (new_block b'))"
proof -
  assume p: "proceeds b b'"
  have w: "wfb b'" using p by (rule proceeds_wf)
  have "proceeds b' (new_block (new_block b'))"
    using w by (auto intro: proceeds_trans [OF proceeds_added(3) proceeds_added(3)])
  then have "proceeds b (new_block (new_block b'))" by (rule proceeds_trans [OF p])
  moreover have "length (blocks b) \<le> length (blocks b')" using p touches_length by (auto simp: proceeds_def)
  ultimately show ?thesis using w by (auto simp: forked_def blocks_new_block wfb_def)
qed

lemma forked_before:
  assumes "wfb b" and "proceeds (new_block (new_block b)) b0"
  shows "forked b (length (blocks b)) b0"
proof -
  have f: "forked b (length (blocks b)) (new_block (new_block b))" using assms(1) by (intro forked_after) simp
  have t: "touches {insert_block b} (new_block (new_block b)) b0" "length (blocks b) + 2 \<le> length (blocks b0)"
    using assms(2) touches_length [of "{insert_block b}" "new_block (new_block b)" b0] by (auto simp: proceeds_def)
  show ?thesis
    using f assms proceeds_trans [of b "new_block (new_block b)" b0] touches_block [OF t(1)] t(2)
    by (auto simp: forked_def proceeds_def wfb_def)
qed

definition fork :: "irvalue \<Rightarrow> nat \<Rightarrow> builder \<Rightarrow> builder" where
  "fork v n b = SetInsertPoint n (add_inst (CondBrI v n (Suc n)) b)"

definition join :: "irinst \<Rightarrow> nat \<Rightarrow> builder \<Rightarrow> builder" where
  "join i n b = SetInsertPoint (Suc n) (add_inst i b)"

lemma fork_wf: "forked b n b0 \<Longrightarrow> wfb (fork v n b0)"
proof -
  assume f: "forked b n b0"
  then have "wfb b0" by (auto simp: forked_def intro: proceeds_wf)
  then show ?thesis using f by (auto simp: fork_def forked_def intro!: wf_SetInsertPoint)
qed

lemma fork_layout:
  assumes f: "forked b n b0" and p: "proceeds (fork v n b0) b3"
  shows "wfb b0" and "wfb (fork v n b0)" and "blocks (fork v n b0) ! n = []" and "extends b0 (fork v n b0)"
    and "blocks (join i n b3) ! Suc n = []" and "extends b3 (join i n b3)" and "wfb b3" and "proceeds b (join i n b3)"
proof -
  have w0: "wfb b0" and n: "Suc n < length (blocks b0)" and ib: "insert_block b0 \<notin> {n, Suc n}"
    and e: "blocks b0 ! n = []" "blocks b0 ! Suc n = []" and len: "length (blocks b) \<le> n" and pb: "proceeds b b0"
    using f by (auto simp: forked_def intro: proceeds_wf)
  show "wfb b0" by (rule w0)
  show "wfb (fork v n b0)" using f by (rule fork_wf)
  show "blocks (fork v n b0) ! n = []" using n ib e by (simp add: fork_def blocks_add_inst)
  have t2: "touches {insert_block b0} b0 (fork v n b0)" by (simp add: fork_def)
  then show "extends b0 (fork v n b0)" by (rule touches_extends)
  have e2: "blocks (fork v n b0) ! Suc n = []" using n ib e by (simp add: fork_def blocks_add_inst)
  have t3: "touches {n} (fork v n b0) b3" and i3: "insert_block b3 = n \<or> length (blocks b0) \<le> insert_block b3" and w3: "wfb b3"
    using p by (auto simp: proceeds_def fork_def)
  have l3: "length (blocks b0) \<le> length (blocks b3)" using touches_length [OF t3] by (simp add: fork_def)
  have t4: "touches {insert_block b3} b3 (join i n b3)" by (simp add: join_def)
  then show "extends b3 (join i n b3)" by (rule touches_extends)
  show "wfb b3" by (rule w3)
  show "blocks (join i n b3) ! Suc n = []"
    using e2 n l3 i3 touches_block [OF t3, of "Suc n"] by (auto simp: join_def fork_def blocks_add_inst)
  have tb: "touches {insert_block b} b b0" using pb by (simp add: proceeds_def)
  have "touches ({insert_block b} \<union> {insert_block b0} \<union> {n} \<union> {insert_block b3}) b (join i n b3)"
    by (rule touches_trans [OF touches_trans [OF touches_trans [OF tb t2] t3] t4])
  then have "touches {insert_block b} b (join i n b3)"
    by (rule touches_mono) (use pb len i3 touches_length [OF tb] in \<open>auto simp: proceeds_def\<close>)
  moreover have "wfb (join i n b3)" using w3 n l3 by (auto simp: join_def intro!: wf_SetInsertPoint)
  ultimately show "proceeds b (join i n b3)" using len by (simp add: proceeds_def join_def)
qed

text \<open>What the branches do when the code runs.\<close>

lemma fork_runs:
  assumes f: "forked b n b0" and p: "proceeds (fork v n b0) b3" and in4: "inside (join i n b3) F" and v: "ev E R v = [Some c]"
  shows "c \<noteq> 0 \<Longrightarrow> runs E D F b0 R m (fork v n b0) R m" and "c = 0 \<Longrightarrow> runs E D F b0 R m (join i n b3) R m"
proof -
  note L = fork_layout [OF f p]
  have "inside (fork v n b0) F" by (rule inside_proceeds [OF p inside_extends [OF L(6) in4]])
  then have i: "inside (add_inst (CondBrI v n (Suc n)) b0) F" by (simp add: fork_def)
  have "reaches E D F (here b0 prev R m) (Running (if c = 0 then Suc n else n) 0 (insert_block b0) R m)" for prev
    by (rule runs_branch [OF i L(1) v])
  moreover have "here (fork v n b0) prev R m = Running n 0 prev R m" "here (join i n b3) prev R m = Running (Suc n) 0 prev R m" for prev
    using L(3) L(5) [of i] by (simp_all add: here_def fork_def join_def)
  ultimately show "c \<noteq> 0 \<Longrightarrow> runs E D F b0 R m (fork v n b0) R m" and "c = 0 \<Longrightarrow> runs E D F b0 R m (join i n b3) R m"
    unfolding runs_def by metis+
qed

lemma join_runs:
  assumes f: "forked b n b0" and p: "proceeds (fork v n b0) b3" and in4: "inside (join (BrI (Suc n)) n b3) F"
  shows "runs E D F b3 R m (join (BrI (Suc n)) n b3) R m"
proof -
  note L = fork_layout [OF f p]
  have "reaches E D F (here b3 prev R m) (Running (Suc n) 0 (insert_block b3) R m)" for prev
    by (rule runs_jump) (use in4 L(7) in \<open>simp_all add: join_def\<close>)
  moreover have "here (join (BrI (Suc n)) n b3) prev R m = Running (Suc n) 0 prev R m" for prev
    using L(5) [of "BrI (Suc n)"] by (simp add: here_def join_def)
  ultimately show ?thesis unfolding runs_def by metis
qed

lemma inside_fork: "forked b n b0 \<Longrightarrow> proceeds (fork v n b0) b3 \<Longrightarrow> inside (join i n b3) F \<Longrightarrow> inside b3 F \<and> inside b0 F"
  by (meson fork_layout(4,6) inside_extends inside_proceeds)

section \<open>The code of each statement\<close>

lemmas forks = builder_steps fork_def [symmetric] join_def [symmetric] Let_def

lemma emit_cas_steps:
  assumes "emit_cas G old a x n None b = Some b'"
  obtains va b1 ve b2 vl b3 vn b5 k where "emit_expr G a b = Some (va, b1)" "emit_expr G x b1 = Some (ve, b2)"
    "load_ty G va (getType ve) b2 = Some (vl, b3)" "k = length (blocks b3)"
    "emit_expr G n (fork (ICmp ICmpEQ ve vl) k (new_block (new_block b3))) = Some (vn, b5)"
    "setRegValue old vl (join (BrI (Suc k)) k (store G va vn b5)) = Some b'"
  using assms by (auto simp: emit_cas_def cas_match_def forks bind_eq_Some_conv)

lemma emit_cas_double_steps:
  assumes "emit_cas G old a x n (Some (oldH, xH, nH)) b = Some b'"
  obtains va b1 ve b2 vl b3 veH b4 vlH b5 vn b6 vn' b7 b8 v k where "emit_expr G a b = Some (va, b1)" "emit_expr G x b1 = Some (ve, b2)"
    "load_ty G va (getType ve) b2 = Some (vl, b3)" "emit_expr G xH b3 = Some (veH, b4)"
    "load_ty G (high_addr va (getType ve)) (getType ve) b4 = Some (vlH, b5)" "k = length (blocks b5)"
    "v = ICmp ICmpEQ (ICmp ICmpEQ ve vl) (ICmp ICmpEQ veH vlH)"
    "emit_expr G n (fork v k (new_block (new_block b5))) = Some (vn, b6)"
    "emit_expr G n (store G va vn b6) = Some (vn', b7)"
    "setRegValue old vl (join (BrI (Suc k)) k (store G (high_addr va (getType ve)) vn' b7)) = Some b8"
    "setRegValue oldH vlH b8 = Some b'"
  using assms by (auto simp: emit_cas_def cas_match_def forks bind_eq_Some_conv)

lemma emit_call_steps:
  assumes "emit_call G types f t as tmp b = Some b'"
  obtains v0 vs b1 p a0 b2 where "emit_exprs G as b = Some (v0 # vs, b1)" "helper_param G f = Some p" "CreatePointerCast v0 p = Some a0"
    "b2 = numbered (CallI (next_id b1) t f (a0 # vs)) b1"
    "case tmp of None \<Rightarrow> b' = b2 | Some r \<Rightarrow> \<exists>tt. getRegType types r = Some tt \<and> setRegValue r (fit_result (Inst (next_id b1) t) tt) b2 = Some b'"
proof -
  obtain us b1 where us: "emit_exprs G as b = Some (us, b1)"
    using assms by (auto simp: emit_call_def bind_eq_Some_conv)
  then obtain v0 vs where "us = v0 # vs" using assms by (cases us) (auto simp: emit_call_def bind_eq_Some_conv)
  then show thesis using that us assms by (auto simp: emit_call_def Create_numbered bind_eq_Some_conv split: option.splits)
qed

lemma emit_dirty_steps:
  assumes "emit_dirty G types g f t as tmp b = Some b'"
  obtains vg b1 where "emit_expr G g b = Some (vg, b1)" "isOneValue G vg" "emit_call G types f t as tmp b1 = Some b'"
  | vg b1 b3 k where "emit_expr G g b = Some (vg, b1)" "k = length (blocks b1)"
    "emit_call G types f t as tmp (fork vg k (new_block (new_block b1))) = Some b3" "b' = join (BrI (Suc k)) k b3"
  using assms by (auto simp: emit_dirty_def forks bind_eq_Some_conv split: if_splits)

lemma emit_exit_steps:
  assumes "emit_exit G g et jk dst b = Some b'"
  obtains vg b1 b3 k where "k = length (blocks b)" "emit_expr G g (new_block (new_block b)) = Some (vg, b1)"
    "(if jk \<noteq> Ijk_Boring then setExitType G et (fork vg k b1) else Some (fork vg k b1)) = Some b3"
    "b' = join (RetI (get_c 64 (uint dst))) k b3"
  using assms by (auto simp: emit_exit_def forks bind_eq_Some_conv simp del: if_split cong: if_cong)

lemma emit_storeg_steps:
  assumes "emit_storeg G a d g b = Some b'"
  obtains vg b1 va b3 vd b4 k where "emit_expr G g b = Some (vg, b1)" "k = length (blocks b1)"
    "emit_expr G a (fork vg k (new_block (new_block b1))) = Some (va, b3)" "emit_expr G d b3 = Some (vd, b4)"
    "b' = join (BrI (Suc k)) k (store G va vd b4)"
  using assms by (auto simp: emit_storeg_def forks bind_eq_Some_conv)

lemma emitStore_steps:
  assumes "emitStore G r a d b = Some b'"
  obtains va b3 vd b4 k where "k = length (blocks b)"
    "emit_expr G a (fork getLinked k (new_block (new_block b))) = Some (va, b3)" "emit_expr G d b3 = Some (vd, b4)"
    "setRegValue r getLinked (join (BrI (Suc k)) k (store G va vd b4)) = Some b'"
  using assms by (auto simp: emitStore_def forks bind_eq_Some_conv)

lemma emitLoad_steps:
  assumes "emitLoad G types r a b = Some b'"
  obtains va b1 t v b2 where "emit_expr G a b = Some (va, b1)" "getRegType types r = Some t" "load_ty G va t b1 = Some (v, b2)"
    "setRegValue r v b2 = Some b'"
  using assms by (auto simp: emitLoad_def markLinked_def bind_eq_Some_conv)

lemma emit_loadg_steps:
  assumes "emit_loadg G cvt r a alt g b = Some b'"
  obtains vg b1 va b2 vt b3 t vl b5 k b6 b7 where "emit_expr G g b = Some (vg, b1)" "emit_expr G a b1 = Some (va, b2)"
    "emit_expr G alt b2 = Some (vt, b3)" "k = length (blocks b3)" "loadg_type cvt = Some t"
    "load_ty G va t (fork vg k (new_block (new_block (new_block b3)))) = Some (vl, b5)"
    "b6 = join (BrI (Suc (Suc k))) k b5" "b7 = SetInsertPoint (Suc (Suc k)) (add_inst (BrI (Suc (Suc k))) b6)"
    "getType vt = getType (loadg_widen cvt vl)"
    "setRegValue r (Inst (next_id b7) (getType (loadg_widen cvt vl)))
       (numbered (PhiI (next_id b7) (getType (loadg_widen cvt vl)) [(loadg_widen cvt vl, k), (vt, Suc k)]) b7) = Some b'"
  using assms by (auto simp: emit_loadg_def forks Create_numbered numeral_eq_Suc bind_eq_Some_conv split: if_splits)

section \<open>Every statement proceeds\<close>

lemma expr_proceeds: "emit_expr G f b = Some (v, b') \<Longrightarrow> wfb b \<Longrightarrow> proceeds b b'"
  by (rule proceeds_emitted [OF emit_expr_emitted])

lemma load_proceeds: "load_ty G a t b = Some (v, b') \<Longrightarrow> wfb b \<Longrightarrow> proceeds b b'"
  using load_ty_continues proceeds_continues by blast

lemma store_proceeds: "wfb b \<Longrightarrow> proceeds b (store G a v b)"
  by (rule proceeds_continues [OF store_continues])

lemma below_proceeds: "below (next_id b) v \<Longrightarrow> proceeds b b' \<Longrightarrow> below (next_id b') v"
  using below_mono extends_ids proceeds_extends by blast

lemma expr_below: "emit_expr G f b = Some (v, b') \<Longrightarrow> wfb b \<Longrightarrow> below (next_id b') v"
  using emit_expr_emitted by (simp add: emitted_def)

lemma load_below: "load_ty G a t b = Some (v, b') \<Longrightarrow> wfb b \<Longrightarrow> below (next_id b') v"
  using load_ty_continues by blast

lemma fork_simps [simp]: "next_id (fork v n b) = next_id b" "reg_values (fork v n b) = reg_values b"
    "next_id (join i n b) = next_id b" "reg_values (join i n b) = reg_values b"
  by (simp_all add: fork_def join_def)

lemma below_fit_result: "below n v \<Longrightarrow> below n (fit_result v t)"
  by (simp add: fit_result_def Let_def)

lemma call_proceeds:
  assumes "emit_call G types f t as tmp b = Some b'" and "wfb b"
  shows "proceeds b b'"
  using assms(1)
proof (rule emit_call_steps)
  fix v0 vs b1 p a0 b2
  assume as: "emit_exprs G as b = Some (v0 # vs, b1)" and b2: "b2 = numbered (CallI (next_id b1) t f (a0 # vs)) b1"
    and tmp: "case tmp of None \<Rightarrow> b' = b2 | Some r \<Rightarrow> \<exists>tt. getRegType types r = Some tt \<and> setRegValue r (fit_result (Inst (next_id b1) t) tt) b2 = Some b'"
  have g: "wfb b1 \<and> grows b b1" using emitted_list [OF _ as assms(2)] emit_expr_emitted by blast
  then have "proceeds b b1" by (simp add: proceeds_def grows_def)
  moreover have "proceeds b1 b2" using g b2 by simp
  moreover have "proceeds b2 b'"
    using tmp g b2 by (cases tmp) (auto intro!: proceeds_set below_fit_result)
  ultimately show ?thesis using proceeds_trans by blast
qed

text \<open>A guarded body, with the guard evaluated before the new blocks are made.\<close>

lemma guarded_proceeds:
  assumes "proceeds b b1" and "k = length (blocks b1)"
    and body: "wfb (fork v k (new_block (new_block b1))) \<Longrightarrow> proceeds (fork v k (new_block (new_block b1))) b3"
  shows "proceeds b (join i k b3)" and "forked b k (new_block (new_block b1))" and "proceeds (fork v k (new_block (new_block b1))) b3"
proof -
  show f: "forked b k (new_block (new_block b1))" unfolding assms(2) by (rule forked_after [OF assms(1)])
  show p: "proceeds (fork v k (new_block (new_block b1))) b3" by (rule body [OF fork_wf [OF f]])
  show "proceeds b (join i k b3)" by (rule fork_layout(8) [OF f p])
qed

lemma dirty_proceeds:
  assumes "emit_dirty G types g f t as tmp b = Some b'" and "wfb b"
  shows "proceeds b b'"
  using assms(1)
proof (cases rule: emit_dirty_steps)
  case (1 vg b1)
  then show ?thesis using expr_proceeds [OF 1(1) assms(2)] call_proceeds [OF 1(3)] proceeds_trans proceeds_wf by blast
next
  case (2 vg b1 b3 k)
  show ?thesis unfolding 2(4)
    by (rule guarded_proceeds(1) [OF expr_proceeds [OF 2(1) assms(2)] 2(2) call_proceeds [OF 2(3)]])
qed

lemma storeg_proceeds:
  assumes "emit_storeg G a d g b = Some b'" and "wfb b"
  shows "proceeds b b'"
  using assms(1)
proof (cases rule: emit_storeg_steps)
  case (1 vg b1 va b3 vd b4 k)
  have "proceeds (fork vg k (new_block (new_block b1))) (store G va vd b4)" if "wfb (fork vg k (new_block (new_block b1)))"
    using expr_proceeds [OF 1(3) that] expr_proceeds [OF 1(4)] store_proceeds proceeds_trans proceeds_wf by blast
  from guarded_proceeds(1) [OF expr_proceeds [OF 1(1) assms(2)] 1(2) this] show ?thesis unfolding 1(5) .
qed

lemma emitStore_proceeds:
  assumes "emitStore G r a d b = Some b'" and "wfb b"
  shows "proceeds b b'"
  using assms(1)
proof (cases rule: emitStore_steps)
  case (1 va b3 vd b4 k)
  have "proceeds (fork getLinked k (new_block (new_block b))) (store G va vd b4)" if "wfb (fork getLinked k (new_block (new_block b)))"
    using expr_proceeds [OF 1(2) that] expr_proceeds [OF 1(3)] store_proceeds proceeds_trans proceeds_wf by blast
  then have p: "proceeds b (join (BrI (Suc k)) k (store G va vd b4))"
    by (rule guarded_proceeds(1) [OF proceeds_refl [OF assms(2)] 1(1)])
  have "proceeds (join (BrI (Suc k)) k (store G va vd b4)) b'"
    by (rule proceeds_set [OF 1(4) proceeds_wf [OF p]]) (simp add: getLinked_def)
  then show ?thesis using p proceeds_trans by blast
qed

lemma exit_proceeds:
  assumes "emit_exit G g et jk dst b = Some b'" and "wfb b"
  shows "proceeds b b'"
  using assms(1)
proof (cases rule: emit_exit_steps)
  case (1 vg b1 b3 k)
  have f: "forked b k b1" unfolding 1(1) by (rule forked_before [OF assms(2) expr_proceeds [OF 1(2)]]) (simp add: assms(2))
  have "proceeds (fork vg k b1) b3" using 1(3) fork_wf [OF f, of vg] setExitType_continues proceeds_continues by (fastforce split: if_splits)
  then show ?thesis unfolding 1(4) by (rule fork_layout(8) [OF f])
qed

lemma guarded_set:
  assumes "forked b k b0" and "proceeds (fork v k b0) b3" and "setRegValue r u (join i k b3) = Some b'" and "below (next_id b0) u"
  shows "proceeds b b'"
proof -
  have j: "proceeds b (join i k b3)" by (rule fork_layout(8) [OF assms(1,2)])
  have "next_id b0 \<le> next_id b3" using extends_ids [OF proceeds_extends [OF assms(2)]] by simp
  then have "proceeds (join i k b3) b'"
    using proceeds_set [OF assms(3) proceeds_wf [OF j]] below_mono [OF assms(4)] by simp
  then show ?thesis using j proceeds_trans by blast
qed

lemma cas_proceeds:
  assumes "emit_cas G old a x n None b = Some b'" and "wfb b"
  shows "proceeds b b'"
  using assms(1)
proof (cases rule: emit_cas_steps)
  case (1 va b1 ve b2 vl b3 vn b5 k)
  have p1: "proceeds b b1" by (rule expr_proceeds [OF 1(1) assms(2)])
  have p2: "proceeds b1 b2" by (rule expr_proceeds [OF 1(2) proceeds_wf [OF p1]])
  have p3: "proceeds b2 b3" by (rule load_proceeds [OF 1(3) proceeds_wf [OF p2]])
  have "proceeds (fork (ICmp ICmpEQ ve vl) k (new_block (new_block b3))) (store G va vn b5)"
      if "wfb (fork (ICmp ICmpEQ ve vl) k (new_block (new_block b3)))"
    using expr_proceeds [OF 1(5) that] store_proceeds proceeds_trans proceeds_wf by blast
  note g = guarded_proceeds [OF proceeds_trans [OF p1 proceeds_trans [OF p2 p3]] 1(4) this]
  show ?thesis
    by (rule guarded_set [OF g(2,3) 1(6)]) (use load_below [OF 1(3) proceeds_wf [OF p2]] in simp_all)
qed

lemma cas_double_proceeds:
  assumes "emit_cas G old a x n (Some (oldH, xH, nH)) b = Some b'" and "wfb b"
  shows "proceeds b b'"
  using assms(1)
proof (cases rule: emit_cas_double_steps)
  case (1 va b1 ve b2 vl b3 veH b4 vlH b5 vn b6 vn' b7 b8 v k)
  have p1: "proceeds b b1" by (rule expr_proceeds [OF 1(1) assms(2)])
  have p2: "proceeds b1 b2" by (rule expr_proceeds [OF 1(2) proceeds_wf [OF p1]])
  have p3: "proceeds b2 b3" by (rule load_proceeds [OF 1(3) proceeds_wf [OF p2]])
  have p4: "proceeds b3 b4" by (rule expr_proceeds [OF 1(4) proceeds_wf [OF p3]])
  have p5: "proceeds b4 b5" by (rule load_proceeds [OF 1(5) proceeds_wf [OF p4]])
  have "proceeds (fork v k (new_block (new_block b5))) (store G (high_addr va (getType ve)) vn' b7)"
      if w: "wfb (fork v k (new_block (new_block b5)))"
  proof -
    have p6: "proceeds (fork v k (new_block (new_block b5))) b6" by (rule expr_proceeds [OF 1(8) w])
    have p7: "proceeds b6 (store G va vn b6)" by (rule store_proceeds [OF proceeds_wf [OF p6]])
    have p8: "proceeds (store G va vn b6) b7" by (rule expr_proceeds [OF 1(9) proceeds_wf [OF p7]])
    show ?thesis
      by (rule proceeds_trans [OF p6 proceeds_trans [OF p7 proceeds_trans [OF p8 store_proceeds [OF proceeds_wf [OF p8]]]]])
  qed
  note g = guarded_proceeds [OF proceeds_trans [OF p1 proceeds_trans [OF p2 proceeds_trans [OF p3 proceeds_trans [OF p4 p5]]]] 1(6) this]
  have b: "below (next_id b5) vl" "below (next_id b5) vlH"
    using below_proceeds [OF load_below [OF 1(3) proceeds_wf [OF p2]] proceeds_trans [OF p4 p5]] load_below [OF 1(5) proceeds_wf [OF p4]] by auto
  have p8: "proceeds b b8" by (rule guarded_set [OF g(2,3) 1(10)]) (use b in simp_all)
  have "next_id b5 \<le> next_id b8"
    using extends_ids [OF proceeds_extends [OF g(3)]] setRegValue_wf [OF 1(10) proceeds_wf [OF g(1)]] b(1) below_mono [of "next_id b5" vl]
    by simp
  then have "proceeds b8 b'" using proceeds_set [OF 1(11) proceeds_wf [OF p8]] below_mono [OF b(2)] by blast
  then show ?thesis using p8 proceeds_trans by blast
qed

lemma emitLoad_proceeds:
  assumes "emitLoad G types r a b = Some b'" and "wfb b"
  shows "proceeds b b'"
  using assms(1)
proof (cases rule: emitLoad_steps)
  case (1 va b1 t v b2)
  have p1: "proceeds b b1" by (rule expr_proceeds [OF 1(1) assms(2)])
  have p2: "proceeds b1 b2" by (rule load_proceeds [OF 1(3) proceeds_wf [OF p1]])
  have "proceeds b2 b'" by (rule proceeds_set [OF 1(4) proceeds_wf [OF p2] load_below [OF 1(3) proceeds_wf [OF p1]]])
  then show ?thesis using proceeds_trans [OF p1 p2] proceeds_trans by blast
qed

lemma load_ty_continues': "load_ty G a t b = Some (v, b') \<Longrightarrow> wfb b \<Longrightarrow> continues b b'"
  using load_ty_continues by blast

text \<open>The load of a guarded load: a block each for the load and for the alternative, and
  one where the value is chosen.\<close>

lemma loadg_layout:
  assumes "proceeds b b3" and k: "k = length (blocks b3)" and load: "load_ty G va t (fork vg k (new_block (new_block (new_block b3)))) = Some (vl, b5)"
    and b6: "b6 = join (BrI (Suc (Suc k))) k b5" and b7: "b7 = SetInsertPoint (Suc (Suc k)) (add_inst (BrI (Suc (Suc k))) b6)"
  shows "forked b k (new_block (new_block (new_block b3)))" and "proceeds (fork vg k (new_block (new_block (new_block b3)))) b5"
    and "wfb b6" and "blocks b6 ! Suc k = []" and "extends b6 b7" and "wfb b7" and "blocks b7 ! Suc (Suc k) = []" and "proceeds b b7"
    and "insert_block b5 = k"
proof -
  let ?b4 = "new_block (new_block (new_block b3))"
  have w3: "wfb b3" using assms(1) by (rule proceeds_wf)
  have "forked b k (new_block (new_block b3))" unfolding k by (rule forked_after [OF assms(1)])
  then show f: "forked b k ?b4" using proceeds_trans [of b "new_block (new_block b3)" ?b4] w3
    by (auto simp: forked_def blocks_new_block)
  have c: "continues (fork vg k ?b4) b5" by (rule load_ty_continues' [OF load fork_wf [OF f]])
  then show p: "proceeds (fork vg k ?b4) b5" by (rule proceeds_continues)
  show i5: "insert_block b5 = k" using c by (simp add: continues_def fork_def)
  note L = fork_layout [OF f p]
  show w6: "wfb b6" unfolding b6 by (rule proceeds_wf [OF L(8)])
  show e6: "blocks b6 ! Suc k = []" unfolding b6 by (rule L(5))
  show x: "extends b6 b7" unfolding b7 by (rule touches_extends [OF touches_jump])
  have ib: "insert_block b3 < k" using w3 unfolding k by (simp add: wfb_def)
  have "blocks ?b4 ! Suc (Suc k) = []" unfolding k by (simp add: blocks_new_block)
  then have "blocks (fork vg k ?b4) ! Suc (Suc k) = []" using ib k by (simp add: fork_def blocks_add_inst)
  moreover have "touches {k} (fork vg k ?b4) b5" using c by (simp add: continues_def grows_def fork_def)
  moreover have "Suc (Suc k) < length (blocks (fork vg k ?b4))" unfolding k by (simp add: fork_def)
  ultimately have e5: "blocks b5 ! Suc (Suc k) = []" and l5: "Suc (Suc k) < length (blocks b5)"
    using touches_block [of "{k}" "fork vg k ?b4" b5 "Suc (Suc k)"] touches_length [of "{k}" "fork vg k ?b4" b5] by auto
  show e7: "blocks b7 ! Suc (Suc k) = []"
    using e5 l5 i5 unfolding b7 b6 by (simp add: join_def blocks_add_inst)
  show w7: "wfb b7" unfolding b7 using w6 l5 by (auto simp: b6 join_def intro!: wf_SetInsertPoint)
  have "proceeds b b6" unfolding b6 by (rule L(8))
  moreover have "length (blocks b) \<le> k" using f by (simp add: forked_def)
  moreover have "touches ({insert_block b} \<union> {insert_block b6}) b b7"
    using \<open>proceeds b b6\<close> by (intro touches_trans [of _ _ b6]) (simp_all add: proceeds_def b7)
  then have "touches {insert_block b} b b7"
    by (rule touches_mono) (use \<open>length (blocks b) \<le> k\<close> in \<open>auto simp: b6 join_def\<close>)
  ultimately show "proceeds b b7" using w7 by (simp add: proceeds_def b7)
qed

lemma loadg_proceeds:
  assumes "emit_loadg G cvt r a alt g b = Some b'" and "wfb b"
  shows "proceeds b b'"
  using assms(1)
proof (cases rule: emit_loadg_steps)
  case (1 vg b1 va b2 vt b3 t vl b5 k b6 b7)
  have p1: "proceeds b b1" by (rule expr_proceeds [OF 1(1) assms(2)])
  have p2: "proceeds b1 b2" by (rule expr_proceeds [OF 1(2) proceeds_wf [OF p1]])
  have p3: "proceeds b2 b3" by (rule expr_proceeds [OF 1(3) proceeds_wf [OF p2]])
  note L = loadg_layout [OF proceeds_trans [OF p1 proceeds_trans [OF p2 p3]] 1(4,6-8)]
  let ?phi = "numbered (PhiI (next_id b7) (getType (loadg_widen cvt vl)) [(loadg_widen cvt vl, k), (vt, Suc k)]) b7"
  have "proceeds b7 ?phi" using L(6) by simp
  moreover have "proceeds ?phi b'" by (rule proceeds_set [OF 1(10)]) (use L(6) in simp_all)
  ultimately show ?thesis using L(8) proceeds_trans by blast
qed

lemma stmt_proceeds: "emit_stmt G types f b = Some b' \<Longrightarrow> wfb b \<Longrightarrow> proceeds b b'"
proof (cases f)
  case (StmtPut off e)
  assume h: "emit_stmt G types f b = Some b'" "wfb b"
  obtain v b1 where v: "emit_expr G e b = Some (v, b1)" "writeCtx off v b1 = Some b'"
    using h(1) StmtPut by (auto simp: bind_eq_Some_conv)
  then show ?thesis
    using expr_proceeds [OF v(1) h(2)] writeCtx_continues [OF v(2)] proceeds_continues proceeds_trans proceeds_wf by blast
next
  case (StmtPutI base n ix bias e)
  assume h: "emit_stmt G types f b = Some b'" "wfb b"
  obtain v b1 i b2 where v: "emit_expr G e b = Some (v, b1)" "emit_expr G ix b1 = Some (i, b2)" "writeCtxI base bias n i v b2 = Some b'"
    using h(1) StmtPutI by (auto simp: bind_eq_Some_conv)
  have p: "proceeds b b1" by (rule expr_proceeds [OF v(1) h(2)])
  have "proceeds b1 b2" by (rule expr_proceeds [OF v(2) proceeds_wf [OF p]])
  then show ?thesis using p writeCtxI_continues [OF v(3)] proceeds_continues proceeds_trans proceeds_wf by blast
next
  case (StmtWrTmp r e)
  assume h: "emit_stmt G types f b = Some b'" "wfb b"
  obtain v b1 where v: "emit_expr G e b = Some (v, b1)" "setRegValue r v b1 = Some b'"
    using h(1) StmtWrTmp by (auto simp: bind_eq_Some_conv)
  have p: "proceeds b b1" by (rule expr_proceeds [OF v(1) h(2)])
  show ?thesis by (rule proceeds_trans [OF p proceeds_set [OF v(2) proceeds_wf [OF p] expr_below [OF v(1) h(2)]]])
next
  case (StmtStore l a d)
  assume h: "emit_stmt G types f b = Some b'" "wfb b"
  obtain v b1 u b2 where v: "emit_expr G d b = Some (v, b1)" "emit_expr G a b1 = Some (u, b2)" "b' = store G u v b2"
    using h(1) StmtStore by (auto simp: bind_eq_Some_conv)
  have p: "proceeds b b1" by (rule expr_proceeds [OF v(1) h(2)])
  have q: "proceeds b1 b2" by (rule expr_proceeds [OF v(2) proceeds_wf [OF p]])
  show ?thesis unfolding v(3) by (rule proceeds_trans [OF p proceeds_trans [OF q store_proceeds [OF proceeds_wf [OF q]]]])
next
  case (StmtCAS old a x n hi)
  then show "emit_stmt G types f b = Some b' \<Longrightarrow> wfb b \<Longrightarrow> proceeds b b'"
    using cas_proceeds cas_double_proceeds by (cases hi) auto
qed (auto simp: memFence_def builder_steps intro: dirty_proceeds storeg_proceeds loadg_proceeds exit_proceeds emitStore_proceeds emitLoad_proceeds
  split: option.splits)

lemma stmts_proceed: "emit_stmts G types fs b = Some b' \<Longrightarrow> wfb b \<Longrightarrow> proceeds b b'"
proof (induction fs arbitrary: b)
  case (Cons f fs)
  then obtain d where d: "emit_stmt G types f b = Some d" "emit_stmts G types fs d = Some b'"
    by (auto simp: bind_eq_Some_conv)
  then have "proceeds b d" using stmt_proceeds Cons.prems(2) by blast
  then show ?case using Cons.IH [OF d(2)] proceeds_wf proceeds_trans by blast
qed simp

section \<open>What a statement does\<close>

definition follows :: "genllvm \<Rightarrow> dirty_env \<Rightarrow> irinst list list \<Rightarrow> builder \<Rightarrow> regfile \<Rightarrow> guest_mem \<Rightarrow> builder \<Rightarrow> outcome \<Rightarrow> bool" where
  "follows G D F b R m b' r \<longleftrightarrow> (case r of
     Next T' m' \<Rightarrow> \<exists>R'. runs (target G) D F b R m b' R' m' \<and> temps_held G b' R' T'
   | Leave xs m' \<Rightarrow> \<forall>prev. reaches (target G) D F (here b prev R m) (Returned xs m'))"

lemma follows_Next: "runs (target G) D F b R m b' R' m' \<Longrightarrow> temps_held G b' R' T' \<Longrightarrow> follows G D F b R m b' (Next T' m')"
  by (auto simp: follows_def)

lemma expression_runs:
  assumes "\<not> fake_vsys_reads G" and "create_expr G e = Some f" and v: "emit_expr G f b = Some (v, b')" and "wfb b"
    and "inside b' F" and "temps_held G b R T" and "eval_expr G T m e = Some x"
  obtains R' where "runs (target G) D F b R m b' R' m" "agree (next_id b) R R'" "value_in (target G) R' v = x" "temps_held G b' R' T"
proof -
  obtain R' where c: "computed G D F m b R v b' x R'"
    using simulatesD [OF expression_simulated [OF assms(1)] assms(2-7)] by blast
  show thesis
    by (rule that [OF computed_runs [OF c] computed_agree [OF c] computed_value [OF c]
      temps_computed [OF assms(6,4) emit_expr_emitted [OF v assms(4)] c]])
qed

lemma value_later: "below (next_id b) v \<Longrightarrow> value_in E R v = x \<Longrightarrow> agree (next_id b) R R' \<Longrightarrow> value_in E R' v = x"
  using value_in_agree by simp

lemma temps_set:
  assumes "setRegValue r v b = Some b'" and "temps_held G b R T" and "value_in (target G) R v = x"
  shows "temps_held G b' R (T(r \<mapsto> x))"
  using assms unfolding temps_held_def by (auto simp: setRegValue_def split: if_splits)

lemma set_runs: "setRegValue r v b = Some b' \<Longrightarrow> runs E D F b R m b' R m"
  using reaches_refl by (auto simp: runs_def here_def setRegValue_def split: if_splits)

lemma inside_set: "setRegValue r v b = Some b' \<Longrightarrow> inside b' F \<Longrightarrow> inside b F"
  by (auto simp: inside_def setRegValue_def split: if_splits)

lemma set_below_ids: "setRegValue r v b = Some b' \<Longrightarrow> next_id b' = next_id b"
  by (auto simp: setRegValue_def split: if_splits)

lemma load_runs:
  assumes "\<not> fake_vsys_reads G" and l: "load_ty G a t b = Some (v, b')" and "wfb b" and "inside b' F"
    and "temps_held G b R T" and a: "value_in (target G) R a = x" "guest_address G x = Some p"
  obtains R' where "runs (target G) D F b R m b' R' m" "agree (next_id b) R R'" "value_in (target G) R' v = (t, read_mem p t m)"
    "temps_held G b' R' T"
proof -
  have v: "v = Inst (next_id b) t" "b' = numbered (LoadI (next_id b) (MemPtr (relocate G (widen_addr G a)) t)) b"
    using l load_ty_loads [OF assms(1)] by auto
  let ?R = "R(next_id b := read_mem p t m)"
  have "read_ptr (target G) R (MemPtr (relocate G (widen_addr G a)) t) m = Some (read_mem p t m)"
    by (rule ptr_value(1)) (simp add: a)
  then have "runs (target G) D F b R m b' ?R m" using assms(3,4) unfolding v(2) by (intro runs_load)
  moreover have "temps_held G b' ?R T" by (rule temps_later [OF assms(5,3)]) (simp_all add: v)
  ultimately show thesis using that value_in_Inst [OF lanes_read(2)] unfolding v(1) by simp
qed

lemma store_runs:
  assumes "inside (store G a v b) F" and "wfb b" and a: "value_in (target G) R a = x" and v: "value_in (target G) R v = y"
    and s: "store_value G x y m = Some m'"
  shows "runs (target G) D F b R m (store G a v b) R m'"
proof -
  obtain p where p: "guest_address G x = Some p" "m' = write_mem p (fst y) (snd y) m"
    using s by (auto simp: store_value_def)
  have "write_ptr (target G) R (MemPtr (relocate G (widen_addr G a)) (getType v)) (ev (target G) R v) m = Some m'"
    using ptr_value(2) [of G "target G" R a p] p a v by (cases y) (simp add: value_in_def)
  then show ?thesis using assms(1,2) by (simp add: store_def builder_steps runs_store)
qed

lemma temps_store: "temps_held G b R T \<Longrightarrow> temps_held G (store G a v b) R T"
  by (auto simp: temps_held_def store_def builder_steps)

lemma temps_cong: "temps_held G b R T \<Longrightarrow> reg_values b' = reg_values b \<Longrightarrow> temps_held G b' R T"
  by (simp add: temps_held_def)

section \<open>Accesses of the guest context\<close>

lemma writeCtx_runs:
  assumes w: "writeCtx off v b = Some b'" and "wfb b" and "inside b' F" and "value_in (target G) R v = x" and a: "ctx_field off (fst x) = Some a"
  shows "runs (target G) D F b R m b' R (write_ctx a (fst x) (snd x) m)" and "reg_values b' = reg_values b"
proof -
  obtain p d where g: "getCtxByteGEP off (getType v) b = Some (p, d)" and b': "b' = add_inst (StoreI v p) d"
    using w by (auto simp: writeCtx_def builder_steps bind_eq_Some_conv)
  note spec = getCtxByteGEP_spec [OF g assms(2)]
  have t: "getType v = fst x" "ev (target G) R v = snd x" using assms(4) by (auto simp: value_in_def)
  have "write_ptr (target G) R p (ev (target G) R v) m = Some (write_ctx a (fst x) (snd x) m)"
    using spec field_value(2) [OF a] t by simp
  then have "runs (target G) D F d R m b' R (write_ctx a (fst x) (snd x) m)"
    using assms(3) spec unfolding b' by (intro runs_store) simp_all
  moreover have "here d prev R m = here b prev R m" for prev using spec by (simp add: here_def)
  ultimately show "runs (target G) D F b R m b' R (write_ctx a (fst x) (snd x) m)" by (simp add: runs_def)
  show "reg_values b' = reg_values b" using spec b' by simp
qed

lemma writeCtxI_runs:
  assumes w: "writeCtxI base bias n ix v b = Some b'" and "wfb b" and "inside b' F" and "value_in (target G) R v = x"
    and "value_in (target G) R ix = i" and a: "ctx_element base bias n i (fst x) = Some a"
  shows "runs (target G) D F b R m b' R (write_ctx a (fst x) (snd x) m)" and "reg_values b' = reg_values b"
proof -
  obtain j where j: "ctx_index base bias n ix (getType v) = Some j" and b': "b' = add_inst (StoreI v (CtxPtr j (getType v))) b"
    using w by (auto simp: writeCtxI_def getCtxTyGEP_def builder_steps bind_eq_Some_conv)
  have t: "getType v = fst x" "ev (target G) R v = snd x" using assms(4) by (auto simp: value_in_def)
  have "write_ptr (target G) R (CtxPtr j (getType v)) (ev (target G) R v) m = Some (write_ctx a (fst x) (snd x) m)"
    using ctx_index_value(2) [OF j] a assms(5) t by simp
  then show "runs (target G) D F b R m b' R (write_ctx a (fst x) (snd x) m)"
    using assms(2,3) unfolding b' by (intro runs_store) simp_all
  show "reg_values b' = reg_values b" by (simp add: b')
qed

section \<open>Each statement\<close>

definition stmt_simulated :: "genllvm \<Rightarrow> dirty_env \<Rightarrow> irinst list list \<Rightarrow> IRType list \<Rightarrow> temps \<Rightarrow> guest_mem \<Rightarrow> IRStmt \<Rightarrow> bool" where
  "stmt_simulated G D F types T m s \<longleftrightarrow> (\<forall>f b b' R r. create_stmt G s = Some f \<longrightarrow> emit_stmt G types f b = Some b' \<longrightarrow> wfb b
     \<longrightarrow> inside b' F \<longrightarrow> temps_held G b R T \<longrightarrow> exec_stmt G D types T m s = Some r \<longrightarrow> follows G D F b R m b' r)"

lemma stmt_simulatedI:
  assumes "\<And>f b b' R r. create_stmt G s = Some f \<Longrightarrow> emit_stmt G types f b = Some b' \<Longrightarrow> wfb b \<Longrightarrow> inside b' F
      \<Longrightarrow> temps_held G b R T \<Longrightarrow> exec_stmt G D types T m s = Some r \<Longrightarrow> follows G D F b R m b' r"
  shows "stmt_simulated G D F types T m s"
  using assms unfolding stmt_simulated_def by blast

lemma Put_simulated:
  assumes fake: "\<not> fake_vsys_reads G"
  shows "stmt_simulated G D F types T m (Ist_Put off e)"
proof (rule stmt_simulatedI)
  fix f b b' R r
  assume h: "create_stmt G (Ist_Put off e) = Some f" "emit_stmt G types f b = Some b'" "wfb b" "inside b' F" "temps_held G b R T"
    "exec_stmt G D types T m (Ist_Put off e) = Some r"
  obtain g where g: "create_expr G e = Some g" "f = StmtPut off g" using h(1) by (auto simp: bind_eq_Some_conv split: if_splits)
  obtain v b1 where v: "emit_expr G g b = Some (v, b1)" "writeCtx off v b1 = Some b'" using h(2) g(2) by (auto simp: bind_eq_Some_conv)
  obtain x a where x: "eval_expr G T m e = Some x" "ctx_field off (fst x) = Some a" "r = Next T (write_ctx a (fst x) (snd x) m)"
    using h(6) by (auto simp: bind_eq_Some_conv)
  have w1: "wfb b1" using expr_proceeds [OF v(1) h(3)] by (rule proceeds_wf)
  have i1: "inside b1 F" by (rule inside_proceeds [OF proceeds_continues [OF writeCtx_continues [OF v(2) w1]] h(4)])
  obtain R1 where R1: "runs (target G) D F b R m b1 R1 m" "value_in (target G) R1 v = x" "temps_held G b1 R1 T"
    using expression_runs [OF fake g(1) v(1) h(3) i1 h(5) x(1)] by blast
  note W = writeCtx_runs [OF v(2) w1 h(4) R1(2) x(2)]
  show "follows G D F b R m b' r" unfolding x(3)
    by (rule follows_Next [OF runs_trans [OF R1(1) W(1)] temps_cong [OF R1(3) W(2)]])
qed

lemma PutI_simulated:
  assumes fake: "\<not> fake_vsys_reads G"
  shows "stmt_simulated G D F types T m (Ist_PutI base n ix bias e)"
proof (rule stmt_simulatedI)
  fix f b b' R r
  assume h: "create_stmt G (Ist_PutI base n ix bias e) = Some f" "emit_stmt G types f b = Some b'" "wfb b" "inside b' F" "temps_held G b R T"
    "exec_stmt G D types T m (Ist_PutI base n ix bias e) = Some r"
  obtain g gi where g: "create_expr G e = Some g" "create_expr G ix = Some gi" "f = StmtPutI base n gi bias g"
    using h(1) by (auto simp: bind_eq_Some_conv split: if_splits)
  obtain v b1 u b2 where v: "emit_expr G g b = Some (v, b1)" "emit_expr G gi b1 = Some (u, b2)" "writeCtxI base bias n u v b2 = Some b'"
    using h(2) g(3) by (auto simp: bind_eq_Some_conv)
  obtain x i a where x: "eval_expr G T m e = Some x" "eval_expr G T m ix = Some i" "ctx_element base bias n i (fst x) = Some a"
      "r = Next T (write_ctx a (fst x) (snd x) m)"
    using h(6) by (auto simp: bind_eq_Some_conv)
  have w1: "wfb b1" using expr_proceeds [OF v(1) h(3)] by (rule proceeds_wf)
  have p2: "proceeds b1 b2" by (rule expr_proceeds [OF v(2) w1])
  have i2: "inside b2 F" by (rule inside_proceeds [OF proceeds_continues [OF writeCtxI_continues [OF v(3) proceeds_wf [OF p2]]] h(4)])
  obtain R1 where R1: "runs (target G) D F b R m b1 R1 m" "value_in (target G) R1 v = x" "temps_held G b1 R1 T"
    using expression_runs [OF fake g(1) v(1) h(3) inside_proceeds [OF p2 i2] h(5) x(1)] by blast
  obtain R2 where R2: "runs (target G) D F b1 R1 m b2 R2 m" "agree (next_id b1) R1 R2" "value_in (target G) R2 u = i" "temps_held G b2 R2 T"
    using expression_runs [OF fake g(2) v(2) w1 i2 R1(3) x(2)] by blast
  have "value_in (target G) R2 v = x" by (rule value_later [OF expr_below [OF v(1) h(3)] R1(2) R2(2)])
  note W = writeCtxI_runs [OF v(3) proceeds_wf [OF p2] h(4) this R2(3) x(3)]
  show "follows G D F b R m b' r" unfolding x(4)
    by (rule follows_Next [OF runs_trans [OF runs_trans [OF R1(1) R2(1)] W(1)] temps_cong [OF R2(4) W(2)]])
qed

lemma WrTmp_simulated:
  assumes fake: "\<not> fake_vsys_reads G"
  shows "stmt_simulated G D F types T m (Ist_WrTmp t e)"
proof (rule stmt_simulatedI)
  fix f b b' R r
  assume h: "create_stmt G (Ist_WrTmp t e) = Some f" "emit_stmt G types f b = Some b'" "wfb b" "inside b' F" "temps_held G b R T"
    "exec_stmt G D types T m (Ist_WrTmp t e) = Some r"
  obtain g where g: "create_expr G e = Some g" "f = StmtWrTmp t g" using h(1) by (auto simp: bind_eq_Some_conv)
  obtain v b1 where v: "emit_expr G g b = Some (v, b1)" "setRegValue t v b1 = Some b'" using h(2) g(2) by (auto simp: bind_eq_Some_conv)
  obtain x where x: "eval_expr G T m e = Some x" "r = Next (T(t \<mapsto> x)) m" using h(6) by (auto simp: bind_eq_Some_conv)
  obtain R1 where R1: "runs (target G) D F b R m b1 R1 m" "value_in (target G) R1 v = x" "temps_held G b1 R1 T"
    using expression_runs [OF fake g(1) v(1) h(3) inside_set [OF v(2) h(4)] h(5) x(1)] by blast
  show "follows G D F b R m b' r" unfolding x(2)
    by (rule follows_Next [OF runs_trans [OF R1(1) set_runs [OF v(2)]] temps_set [OF v(2) R1(3,2)]])
qed

text \<open>An address and a value, evaluated one after the other, and the store.\<close>

lemma pair_stored:
  assumes fake: "\<not> fake_vsys_reads G" and c: "create_expr G e = Some f" "create_expr G e' = Some f'"
    and v: "emit_expr G f b = Some (v, b1)" "emit_expr G f' b1 = Some (u, b2)" and w: "wfb b" and t: "temps_held G b R T"
    and x: "eval_expr G T m e = Some x" "eval_expr G T m e' = Some y"
    and st: "st = store G v u b2 \<and> store_value G x y m = Some m' \<or> st = store G u v b2 \<and> store_value G y x m = Some m'"
    and i: "inside st F"
  obtains R' where "runs (target G) D F b R m st R' m'" "agree (next_id b) R R'" "temps_held G st R' T"
proof -
  have p1: "proceeds b b1" by (rule expr_proceeds [OF v(1) w])
  have p2: "proceeds b1 b2" by (rule expr_proceeds [OF v(2) proceeds_wf [OF p1]])
  have "proceeds b2 st" using st store_proceeds [OF proceeds_wf [OF p2]] by auto
  then have i2: "inside b2 F" using i inside_proceeds by blast
  obtain R1 where R1: "runs (target G) D F b R m b1 R1 m" "agree (next_id b) R R1" "value_in (target G) R1 v = x" "temps_held G b1 R1 T"
    using expression_runs [OF fake c(1) v(1) w inside_proceeds [OF p2 i2] t x(1)] by blast
  obtain R2 where R2: "runs (target G) D F b1 R1 m b2 R2 m" "agree (next_id b1) R1 R2" "value_in (target G) R2 u = y" "temps_held G b2 R2 T"
    using expression_runs [OF fake c(2) v(2) proceeds_wf [OF p1] i2 R1(4) x(2)] by blast
  have v': "value_in (target G) R2 v = x" by (rule value_later [OF expr_below [OF v(1) w] R1(3) R2(2)])
  have "runs (target G) D F b2 R2 m st R2 m'"
    using st store_runs [of G _ _ b2 F R2 _ _ m m' D] v' R2(3) i proceeds_wf [OF p2] by blast
  moreover have "temps_held G st R2 T" using st temps_store [OF R2(4)] by auto
  moreover have "agree (next_id b) R R2" using agree_trans [OF R1(2) R2(2)] extends_ids [OF proceeds_extends [OF p1]] by simp
  ultimately show thesis using that runs_trans [OF R1(1) R2(1)] runs_trans by blast
qed

lemma Store_simulated:
  assumes fake: "\<not> fake_vsys_reads G"
  shows "stmt_simulated G D F types T m (Ist_Store l a d)"
proof (rule stmt_simulatedI)
  fix f b b' R r
  assume h: "create_stmt G (Ist_Store l a d) = Some f" "emit_stmt G types f b = Some b'" "wfb b" "inside b' F" "temps_held G b R T"
    "exec_stmt G D types T m (Ist_Store l a d) = Some r"
  obtain ga gd where g: "create_expr G a = Some ga" "create_expr G d = Some gd" "f = StmtStore l ga gd"
    using h(1) by (auto simp: bind_eq_Some_conv)
  obtain v b1 u b2 where v: "emit_expr G gd b = Some (v, b1)" "emit_expr G ga b1 = Some (u, b2)" "b' = store G u v b2"
    using h(2) g(3) by (auto simp: bind_eq_Some_conv)
  obtain x y m' where x: "eval_expr G T m d = Some x" "eval_expr G T m a = Some y" "store_value G y x m = Some m'" "r = Next T m'"
    using h(6) by (auto simp: bind_eq_Some_conv split: if_splits)
  obtain R' where "runs (target G) D F b R m b' R' m'" "temps_held G b' R' T"
    using pair_stored [OF fake g(2,1) v(1,2) h(3,5) x(1,2) _ h(4), of m'] v(3) x(3) by blast
  then show "follows G D F b R m b' r" unfolding x(4) by (rule follows_Next)
qed

lemma LLSC_simulated:
  assumes fake: "\<not> fake_vsys_reads G"
  shows "stmt_simulated G D F types T m (Ist_LLSC t a None)"
proof (rule stmt_simulatedI)
  fix f b b' R r
  assume h: "create_stmt G (Ist_LLSC t a None) = Some f" "emit_stmt G types f b = Some b'" "wfb b" "inside b' F" "temps_held G b R T"
    "exec_stmt G D types T m (Ist_LLSC t a None) = Some r"
  obtain ga where g: "create_expr G a = Some ga" "f = StmtLLSC t ga None"
    using h(1) by (auto simp: bind_eq_Some_conv create_opt_def)
  have "emitLoad G types t ga b = Some b'" using h(2) g(2) by simp
  then obtain va b1 tt v b2 where v: "emit_expr G ga b = Some (va, b1)" "getRegType types t = Some tt" "load_ty G va tt b1 = Some (v, b2)"
      "setRegValue t v b2 = Some b'" by (rule emitLoad_steps)
  obtain x p where x: "eval_expr G T m a = Some x" "guest_address G x = Some p" "r = Next (T(t \<mapsto> (tt, read_mem p tt m))) m"
    using h(6) v(2) by (auto simp: bind_eq_Some_conv)
  have w1: "wfb b1" using expr_proceeds [OF v(1) h(3)] by (rule proceeds_wf)
  have i2: "inside b2 F" by (rule inside_set [OF v(4) h(4)])
  obtain R1 where R1: "runs (target G) D F b R m b1 R1 m" "value_in (target G) R1 va = x" "temps_held G b1 R1 T"
    using expression_runs [OF fake g(1) v(1) h(3) inside_proceeds [OF load_proceeds [OF v(3) w1] i2] h(5) x(1)] by blast
  obtain R2 where R2: "runs (target G) D F b1 R1 m b2 R2 m" "value_in (target G) R2 v = (tt, read_mem p tt m)" "temps_held G b2 R2 T"
    using load_runs [OF fake v(3) w1 i2 R1(3,2) x(2)] by blast
  show "follows G D F b R m b' r" unfolding x(3)
    by (rule follows_Next [OF runs_trans [OF runs_trans [OF R1(1) R2(1)] set_runs [OF v(4)]] temps_set [OF v(4) R2(3,2)]])
qed

section \<open>Guarded statements\<close>

lemma new_blocks_run: "wfb b \<Longrightarrow> runs E D F b R m (new_block (new_block b)) R m"
  using reaches_refl by (auto simp: runs_def here_def blocks_new_block wfb_def)

lemma inside_new: "inside (new_block b) F \<Longrightarrow> inside b F"
  by (rule inside_grows [OF grows_new_block])

lemma temps_forked [simp]: "temps_held G (new_block b) R T = temps_held G b R T" "temps_held G (fork v n b) R T = temps_held G b R T"
    "temps_held G (join i n b) R T = temps_held G b R T"
  by (simp_all add: temps_held_def)

lemma guard_valueE:
  assumes "guard_value G T m g = Some c"
  obtains t k where "eval_expr G T m g = Some (t, [Some k])" "c \<longleftrightarrow> k \<noteq> 0"
  using assms by (auto simp: guard_value_def split: option.splits list.splits)

lemma value_in_lane: "value_in E R v = (t, xs) \<Longrightarrow> ev E R v = xs"
  by (simp add: value_in_def)

lemma admitted:
  assumes "forked b n b0" and "proceeds (fork v n b0) b3" and "inside (join (BrI (Suc n)) n b3) F" and "ev E R v = [Some k]" and "k \<noteq> 0"
    and "runs E D F (fork v n b0) R m b3 R' m'"
  shows "runs E D F b0 R m (join (BrI (Suc n)) n b3) R' m'"
  by (rule runs_trans [OF runs_trans [OF fork_runs(1) [OF assms(1-5)] assms(6)] join_runs [OF assms(1-3)]])

lemma StoreG_simulated:
  assumes fake: "\<not> fake_vsys_reads G"
  shows "stmt_simulated G D F types T m (Ist_StoreG l a d g)"
proof (rule stmt_simulatedI)
  fix f b b' R r
  assume h: "create_stmt G (Ist_StoreG l a d g) = Some f" "emit_stmt G types f b = Some b'" "wfb b" "inside b' F" "temps_held G b R T"
    "exec_stmt G D types T m (Ist_StoreG l a d g) = Some r"
  obtain ga gd gg where c: "create_expr G a = Some ga" "create_expr G d = Some gd" "create_expr G g = Some gg" "f = StmtStoreG ga gd gg"
    using h(1) by (auto simp: bind_eq_Some_conv split: if_splits)
  have "emit_storeg G ga gd gg b = Some b'" using h(2) c(4) by simp
  then obtain vg b1 va b3 vd b4 n where v: "emit_expr G gg b = Some (vg, b1)" "n = length (blocks b1)"
      "emit_expr G ga (fork vg n (new_block (new_block b1))) = Some (va, b3)" "emit_expr G gd b3 = Some (vd, b4)"
      "b' = join (BrI (Suc n)) n (store G va vd b4)" by (rule emit_storeg_steps)
  have p1: "proceeds b b1" by (rule expr_proceeds [OF v(1) h(3)])
  have "proceeds (fork vg n (new_block (new_block b1))) (store G va vd b4)" if "wfb (fork vg n (new_block (new_block b1)))"
    using expr_proceeds [OF v(3) that] expr_proceeds [OF v(4)] store_proceeds proceeds_trans proceeds_wf by blast
  note G = guarded_proceeds(2,3) [OF p1 v(2) this]
  note i = inside_fork [OF G h(4) [unfolded v(5)]]
  have w1: "wfb b1" using p1 by (rule proceeds_wf)
  have i1: "inside b1 F"
    by (rule inside_proceeds [OF proceeds_trans [OF proceeds_added(3) [OF w1] proceeds_added(3)]]) (use i w1 in simp_all)
  obtain q where q: "guard_value G T m g = Some q" using h(6) by (auto simp: bind_eq_Some_conv)
  then obtain tg k where k: "eval_expr G T m g = Some (tg, [Some k])" "q \<longleftrightarrow> k \<noteq> 0" by (rule guard_valueE)
  obtain R1 where R1: "runs (target G) D F b R m b1 R1 m" "value_in (target G) R1 vg = (tg, [Some k])" "temps_held G b1 R1 T"
    using expression_runs [OF fake c(3) v(1) h(3) i1 h(5) k(1)] by blast
  note start = runs_trans [OF R1(1) new_blocks_run [OF w1]]
  note lane = value_in_lane [OF R1(2)]
  show "follows G D F b R m b' r"
  proof (cases "k = 0")
    case True
    have r: "r = Next T m" using h(6) q k(2) True by (auto split: if_splits)
    have "temps_held G b' R1 T"
      using temps_cong [OF R1(3), of b'] G(2) v(5) emit_expr_emitted [OF v(3) fork_wf [OF G(1)]]
        emit_expr_emitted [OF v(4) emitted_wfb [OF emit_expr_emitted [OF v(3) fork_wf [OF G(1)]]]]
      by (simp add: emitted_def grows_def store_def builder_steps)
    then show ?thesis unfolding r
      using follows_Next [OF runs_trans [OF start fork_runs(2) [OF G h(4) [unfolded v(5)] lane True]]] v(5) by blast
  next
    case False
    obtain x y m' where x: "eval_expr G T m a = Some x" "eval_expr G T m d = Some y" "store_value G x y m = Some m'" "r = Next T m'"
      using h(6) q k(2) False by (auto simp: bind_eq_Some_conv split: if_splits)
    have t: "temps_held G (fork vg n (new_block (new_block b1))) R1 T" using R1(3) by simp
    obtain R2 where R2: "runs (target G) D F (fork vg n (new_block (new_block b1))) R1 m (store G va vd b4) R2 m'"
        "temps_held G (store G va vd b4) R2 T"
      using pair_stored [OF fake c(1,2) v(3,4) fork_wf [OF G(1)] t x(1,2) _ conjunct1 [OF i], of m'] x(3) by blast
    from admitted [OF G h(4) [unfolded v(5)] lane False R2(1)] show ?thesis
      unfolding x(4) v(5) using follows_Next [OF runs_trans [OF start]] R2(2) by simp
  qed
qed

lemma getLinked_value [simp]: "ev E R getLinked = [Some 1]" "value_in E R getLinked = (get_i 1, [Some 1])"
  by (simp_all add: getLinked_def value_in_def)

lemma create_expr_null: "create_expr G e = Some ExprNULL \<Longrightarrow> e = Iex_Binder"
  by (cases e) (auto simp: createOp_def bind_eq_Some_conv split: if_splits option.splits dest: createConst_Some)

lemma SC_simulated:
  assumes fake: "\<not> fake_vsys_reads G"
  shows "stmt_simulated G D F types T m (Ist_LLSC t a (Some d))"
proof (rule stmt_simulatedI)
  fix f b b' R r
  assume h: "create_stmt G (Ist_LLSC t a (Some d)) = Some f" "emit_stmt G types f b = Some b'" "wfb b" "inside b' F" "temps_held G b R T"
    "exec_stmt G D types T m (Ist_LLSC t a (Some d)) = Some r"
  obtain x y m' where x: "eval_expr G T m a = Some x" "eval_expr G T m d = Some y" "store_value G x y m = Some m'"
      "r = Next (T(t \<mapsto> (get_i 1, [Some 1]))) m'"
    using h(6) by (auto simp: bind_eq_Some_conv)
  obtain ga gd where c: "create_expr G a = Some ga" "create_expr G d = Some gd"
      "f = StmtLLSC t ga (if gd = ExprNULL then None else Some gd)"
    using h(1) by (auto simp: bind_eq_Some_conv create_opt_def)
  have "gd \<noteq> ExprNULL" using create_expr_null [of G d] c(2) x(2) by auto
  then have "emitStore G t ga gd b = Some b'" using h(2) c(3) by simp
  then obtain va b3 vd b4 n where v: "n = length (blocks b)"
      "emit_expr G ga (fork getLinked n (new_block (new_block b))) = Some (va, b3)" "emit_expr G gd b3 = Some (vd, b4)"
      "setRegValue t getLinked (join (BrI (Suc n)) n (store G va vd b4)) = Some b'" by (rule emitStore_steps)
  have "proceeds (fork getLinked n (new_block (new_block b))) (store G va vd b4)" if "wfb (fork getLinked n (new_block (new_block b)))"
    using expr_proceeds [OF v(2) that] expr_proceeds [OF v(3)] store_proceeds proceeds_trans proceeds_wf by blast
  note G = guarded_proceeds(2,3) [OF proceeds_refl [OF h(3)] v(1) this]
  have i: "inside (join (BrI (Suc n)) n (store G va vd b4)) F" by (rule inside_set [OF v(4) h(4)])
  have t: "temps_held G (fork getLinked n (new_block (new_block b))) R T" using h(5) by simp
  obtain R2 where R2: "runs (target G) D F (fork getLinked n (new_block (new_block b))) R m (store G va vd b4) R2 m'"
      "temps_held G (store G va vd b4) R2 T"
    using pair_stored [OF fake c(1,2) v(2,3) fork_wf [OF G(1)] t x(1,2) _ conjunct1 [OF inside_fork [OF G i]], of m'] x(3) by blast
  have "runs (target G) D F b R m b' R2 m'"
    by (rule runs_trans [OF runs_trans [OF new_blocks_run [OF h(3)] admitted [OF G i getLinked_value(1) _ R2(1)]] set_runs [OF v(4)]]) simp_all
  moreover have "temps_held G b' R2 (T(t \<mapsto> (get_i 1, [Some 1])))"
    by (rule temps_set [OF v(4) _ getLinked_value(2)]) (simp add: R2(2))
  ultimately show "follows G D F b R m b' r" unfolding x(4) by (rule follows_Next)
qed

lemma equal_values_ev:
  assumes "equal_values x y = Some c" and "value_in E R u = x" and "value_in E R v = y"
  shows "ev E R (ICmp ICmpEQ u v) = [Some (of_bool c)]"
  using assms by (auto simp: equal_values_def value_in_def split: list.splits option.splits ty.splits scalar_ty.splits if_splits)

lemma CAS_simulated:
  assumes fake: "\<not> fake_vsys_reads G"
  shows "stmt_simulated G D F types T m (Ist_CAS t a e d None)"
proof (rule stmt_simulatedI)
  fix f b b' R r
  assume h: "create_stmt G (Ist_CAS t a e d None) = Some f" "emit_stmt G types f b = Some b'" "wfb b" "inside b' F" "temps_held G b R T"
    "exec_stmt G D types T m (Ist_CAS t a e d None) = Some r"
  obtain ga ge gd where c: "create_expr G a = Some ga" "create_expr G e = Some ge" "create_expr G d = Some gd" "f = StmtCAS t ga ge gd None"
    using h(1) by (auto simp: bind_eq_Some_conv)
  have "emit_cas G t ga ge gd None b = Some b'" using h(2) c(4) by simp
  then obtain va b1 ve b2 vl b3 vn b5 n where v: "emit_expr G ga b = Some (va, b1)" "emit_expr G ge b1 = Some (ve, b2)"
    "load_ty G va (getType ve) b2 = Some (vl, b3)" "n = length (blocks b3)"
    "emit_expr G gd (fork (ICmp ICmpEQ ve vl) n (new_block (new_block b3))) = Some (vn, b5)"
    "setRegValue t vl (join (BrI (Suc n)) n (store G va vn b5)) = Some b'" by (rule emit_cas_steps)
  obtain x y p q where x: "eval_expr G T m a = Some x" "eval_expr G T m e = Some y" "guest_address G x = Some p"
      "equal_values y (fst y, read_mem p (fst y) m) = Some q"
      "if q then \<exists>z m'. eval_expr G T m d = Some z \<and> store_value G x z m = Some m' \<and> r = Next (T(t \<mapsto> (fst y, read_mem p (fst y) m))) m'
       else r = Next (T(t \<mapsto> (fst y, read_mem p (fst y) m))) m"
    using h(6) by (auto simp: swap_value_def Let_def bind_eq_Some_conv split: if_splits)
  have p1: "proceeds b b1" by (rule expr_proceeds [OF v(1) h(3)])
  have p2: "proceeds b1 b2" by (rule expr_proceeds [OF v(2) proceeds_wf [OF p1]])
  have p3: "proceeds b2 b3" by (rule load_proceeds [OF v(3) proceeds_wf [OF p2]])
  have w3: "wfb b3" by (rule proceeds_wf [OF p3])
  let ?fork = "fork (ICmp ICmpEQ ve vl) n (new_block (new_block b3))"
  have "proceeds ?fork (store G va vn b5)" if "wfb ?fork"
    using expr_proceeds [OF v(5) that] store_proceeds proceeds_trans proceeds_wf by blast
  note G = guarded_proceeds(2,3) [OF proceeds_trans [OF p1 proceeds_trans [OF p2 p3]] v(4) this]
  have i: "inside (join (BrI (Suc n)) n (store G va vn b5)) F" by (rule inside_set [OF v(6) h(4)])
  have i3: "inside b3 F"
    by (rule inside_proceeds [OF proceeds_trans [OF proceeds_added(3) [OF w3] proceeds_added(3)]]) (use inside_fork [OF G i] w3 in simp_all)
  note i2 = inside_proceeds [OF p3 i3] note i1 = inside_proceeds [OF p2 i2]
  obtain R1 where R1: "runs (target G) D F b R m b1 R1 m" "value_in (target G) R1 va = x" "temps_held G b1 R1 T"
    using expression_runs [OF fake c(1) v(1) h(3) i1 h(5) x(1)] by blast
  obtain R2 where R2: "runs (target G) D F b1 R1 m b2 R2 m" "agree (next_id b1) R1 R2" "value_in (target G) R2 ve = y" "temps_held G b2 R2 T"
    using expression_runs [OF fake c(2) v(2) proceeds_wf [OF p1] i2 R1(3) x(2)] by blast
  have a2: "value_in (target G) R2 va = x" by (rule value_later [OF expr_below [OF v(1) h(3)] R1(2) R2(2)])
  have te: "getType ve = fst y" using R2(3) by (auto simp: value_in_def)
  obtain R3 where R3: "runs (target G) D F b2 R2 m b3 R3 m" "agree (next_id b2) R2 R3"
      "value_in (target G) R3 vl = (fst y, read_mem p (fst y) m)" "temps_held G b3 R3 T"
    using load_runs [OF fake v(3) proceeds_wf [OF p2] i3 R2(4) a2 x(3)] unfolding te by blast
  have a3: "value_in (target G) R3 va = x" "value_in (target G) R3 ve = y"
    by (rule value_later [OF below_proceeds [OF expr_below [OF v(1) h(3)] p2] a2 R3(2)])
       (rule value_later [OF expr_below [OF v(2) proceeds_wf [OF p1]] R2(3) R3(2)])
  note lane = equal_values_ev [OF x(4) a3(2) R3(3)]
  note start = runs_trans [OF runs_trans [OF runs_trans [OF R1(1) R2(1)] R3(1)] new_blocks_run [OF w3]]
  have w4: "wfb ?fork" by (rule fork_wf [OF G(1)])
  have e5: "emitted ?fork vn b5" by (rule emit_expr_emitted [OF v(5) w4])
  have old: "temps_held G b' R' (T(t \<mapsto> (fst y, read_mem p (fst y) m)))"
    if "agree (next_id b3) R3 R'" for R'
  proof (rule temps_set [OF v(6)])
    show "temps_held G (join (BrI (Suc n)) n (store G va vn b5)) R' T"
      using temps_later [OF R3(4) w3 _ that, of "join (BrI (Suc n)) n (store G va vn b5)"] e5
      by (simp add: emitted_def grows_def store_def builder_steps)
    show "value_in (target G) R' vl = (fst y, read_mem p (fst y) m)"
      by (rule value_later [OF load_below [OF v(3) proceeds_wf [OF p2]] R3(3) that])
  qed
  show "follows G D F b R m b' r"
  proof (cases q)
    case False
    have "runs (target G) D F b R m b' R3 m"
      by (rule runs_trans [OF runs_trans [OF start fork_runs(2) [OF G i lane]] set_runs [OF v(6)]]) (simp_all add: False)
    then show ?thesis using x(5) False old [of R3] by (auto intro: follows_Next)
  next
    case True
    then obtain z m' where z: "eval_expr G T m d = Some z" "store_value G x z m = Some m'"
        "r = Next (T(t \<mapsto> (fst y, read_mem p (fst y) m))) m'" using x(5) by auto
    have t: "temps_held G ?fork R3 T" using R3(4) by simp
    have st: "inside (store G va vn b5) F" using inside_fork [OF G i] by blast
    obtain R4 where R4: "runs (target G) D F ?fork R3 m b5 R4 m" "agree (next_id b3) R3 R4" "value_in (target G) R4 vn = z"
      using expression_runs [OF fake c(3) v(5) w4 inside_proceeds [OF store_proceeds [OF emitted_wfb [OF e5]] st] t z(1)] by auto
    have "value_in (target G) R4 va = x"
      by (rule value_later [OF below_proceeds [OF expr_below [OF v(1) h(3)] proceeds_trans [OF p2 p3]] a3(1) R4(2)])
    note body = runs_trans [OF R4(1) store_runs [OF st emitted_wfb [OF e5] this R4(3) z(2)]]
    have "runs (target G) D F b R m b' R4 m'"
      by (rule runs_trans [OF runs_trans [OF start admitted [OF G i lane _ body]] set_runs [OF v(6)]]) (simp_all add: True)
    then show ?thesis unfolding z(3) by (rule follows_Next [OF _ old [OF R4(2)]])
  qed
qed

lemma exit_type_fits: "exit_type_of jk = Some k \<Longrightarrow> take_bit 8 k = k"
  by (cases jk) (auto simp: exit_types)

lemma setExitType_runs:
  assumes "setExitType G k b = Some b'" and "wfb b" and "inside b' F" and "take_bit 8 k = k" and "write_exit_type G k m = Some m'"
  shows "runs (target G) D F b R m b' R m'" and "reg_values b' = reg_values b"
proof -
  obtain a where a: "ctx_field (exit_type_offset G) (get_i 8) = Some a" "m' = write_ctx a (get_i 8) [Some k] m"
    using assms(5) by (auto simp: write_exit_type_def)
  have v: "value_in (target G) R (get_c 8 k) = (get_i 8, [Some k])" for R using assms(4) by (simp add: value_in_def)
  note W = writeCtx_runs [OF assms(1) [unfolded setExitType_def] assms(2,3) v]
  show "runs (target G) D F b R m b' R m'" using W(1) a by simp
  show "reg_values b' = reg_values b" using W(2) a by simp
qed

lemma Exit_simulated:
  assumes fake: "\<not> fake_vsys_reads G"
  shows "stmt_simulated G D F types T m (Ist_Exit g jk dst)"
proof (rule stmt_simulatedI)
  fix f b b' R r
  assume h: "create_stmt G (Ist_Exit g jk dst) = Some f" "emit_stmt G types f b = Some b'" "wfb b" "inside b' F" "temps_held G b R T"
    "exec_stmt G D types T m (Ist_Exit g jk dst) = Some r"
  obtain gg et where c: "create_expr G g = Some gg" "exit_type_of jk = Some et" "f = StmtExit gg et jk (exit_dst G dst)"
    using h(1) by (auto simp: bind_eq_Some_conv)
  have "emit_exit G gg et jk (exit_dst G dst) b = Some b'" using h(2) c(3) by simp
  then obtain vg b1 b3 n where v: "n = length (blocks b)" "emit_expr G gg (new_block (new_block b)) = Some (vg, b1)"
      "(if jk \<noteq> Ijk_Boring then setExitType G et (fork vg n b1) else Some (fork vg n b1)) = Some b3"
      "b' = join (RetI (get_c 64 (uint (exit_dst G dst)))) n b3" by (rule emit_exit_steps)
  have w: "wfb (new_block (new_block b))" using h(3) by simp
  have f: "forked b n b1" unfolding v(1) by (rule forked_before [OF h(3) expr_proceeds [OF v(2) w]])
  have w2: "wfb (fork vg n b1)" by (rule fork_wf [OF f])
  have p: "proceeds (fork vg n b1) b3" using v(3) w2 setExitType_continues proceeds_continues by (fastforce split: if_splits)
  have i: "inside b3 F" "inside b1 F" using inside_fork [OF f p h(4) [unfolded v(4)]] by simp_all
  obtain q where q: "guard_value G T m g = Some q" using h(6) by (auto simp: bind_eq_Some_conv)
  then obtain tg k where k: "eval_expr G T m g = Some (tg, [Some k])" "q \<longleftrightarrow> k \<noteq> 0" by (rule guard_valueE)
  have t: "temps_held G (new_block (new_block b)) R T" using h(5) by simp
  obtain R1 where R1: "runs (target G) D F (new_block (new_block b)) R m b1 R1 m" "value_in (target G) R1 vg = (tg, [Some k])"
      "temps_held G b1 R1 T"
    using expression_runs [OF fake c(1) v(2) w i(2) t k(1)] by blast
  note start = runs_trans [OF new_blocks_run [OF h(3)] R1(1)]
  note lane = value_in_lane [OF R1(2)]
  show "follows G D F b R m b' r"
  proof (cases "k = 0")
    case True
    have r: "r = Next T m" using h(6) q k(2) True c(2) by auto
    have "reg_values b3 = reg_values b1"
      using v(3) setExitType_continues [OF _ w2] by (fastforce simp: continues_def grows_def split: if_splits)
    then have "temps_held G b' R1 T" using temps_cong [OF R1(3)] by (simp add: v(4))
    then show ?thesis unfolding r
      using follows_Next [OF runs_trans [OF start fork_runs(2) [OF f p h(4) [unfolded v(4)] lane True]]] v(4) by blast
  next
    case False
    let ?dst = "[Some (uint (exit_dst G dst))]"
    obtain m' where m': "r = Leave ?dst m'" "if jk = Ijk_Boring then m' = m else write_exit_type G et m = Some m'"
      using h(6) q k(2) False c(2) by (auto split: if_splits)
    have "runs (target G) D F (fork vg n b1) R1 m b3 R1 m'"
      using v(3) m'(2) setExitType_runs(1) [OF _ w2 i(1) exit_type_fits [OF c(2)]] by (auto split: if_splits)
    note r3 = runs_trans [OF runs_trans [OF start fork_runs(1) [OF f p h(4) [unfolded v(4)] lane False]] this]
    have ret: "reaches (target G) D F (here b3 prev R1 m') (Returned ?dst m')" for prev
    proof (rule reaches_step)
      have "inside (add_inst (RetI (get_c 64 (uint (exit_dst G dst)))) b3) F" using h(4) v(4) by (simp add: join_def)
      then show "exec_step (target G) D F (here b3 prev R1 m') = Some (Returned ?dst m')"
        using fork_layout(7) [OF f p] by (simp add: step_added uint_fits)
    qed
    have "reaches (target G) D F (here b prev R m) (Returned ?dst m')" for prev
      using r3 ret reaches_trans unfolding runs_def by blast
    then show ?thesis by (simp add: m'(1) follows_def)
  qed
qed

section \<open>Calls\<close>

context value_relation
begin

lemma pointer_cast: "Q a b \<Longrightarrow> rel_option Q (CreatePointerCast a p) (CreatePointerCast b p)"
  by (auto simp: CreatePointerCast_def dest: types intro!: cast)

lemma fitted: "Q a b \<Longrightarrow> Q (fit_result a t) (fit_result b t)"
proof -
  assume q: "Q a b"
  then have "getType a = getType b" by (rule types)
  then show ?thesis using q unfolding fit_result_def Let_def by (auto intro: cast)
qed

end

lemma pointer_cast_value:
  assumes "CreatePointerCast v p = Some a" and "value_in (target G) R v = x"
    and "map_option (value_of G) (CreatePointerCast (const_of x) p) = Some y"
  shows "value_in (target G) R a = y"
  using alike.pointer_cast [OF alike_const [OF assms(2)], of "\<lambda>i. []" p] assms(1,3) value_in_alike
  by (auto elim!: option.rel_cases)

lemma fit_result_value: "value_in (target G) (R(i := xs)) (fit_result (Inst i t) tt) = value_of G (fit_result (ConstantV t xs) tt)"
  by (rule value_in_alike [OF alike.fitted]) (simp add: alike_def)

lemma create_exprs_args: "emit_exprs G fs b = Some (vs, b') \<Longrightarrow> length vs = length fs"
  by (induction fs arbitrary: b vs) (auto simp: bind_eq_Some_conv)

lemma call_follows:
  assumes fake: "\<not> fake_vsys_reads G" and call: "emit_call G types f t as tmp b = Some b'" and w: "wfb b" and i: "inside b' F"
    and held: "temps_held G b R T" and c: "helper_type G f = Some t" "create_exprs G es = Some as"
    and r: "call_value G D types T m f es tmp = Some r"
  shows "\<exists>T' m' R'. r = Next T' m' \<and> runs (target G) D F b R m b' R' m' \<and> temps_held G b' R' T'"
  using call
proof (rule emit_call_steps)
  fix v0 vs b1 p a0 b2
  assume v: "emit_exprs G as b = Some (v0 # vs, b1)" "helper_param G f = Some p" "CreatePointerCast v0 p = Some a0"
    and b2: "b2 = numbered (CallI (next_id b1) t f (a0 # vs)) b1"
    and tmp: "case tmp of None \<Rightarrow> b' = b2 | Some r \<Rightarrow> \<exists>tt. getRegType types r = Some tt \<and> setRegValue r (fit_result (Inst (next_id b1) t) tt) b2 = Some b'"
  have g: "wfb b1 \<and> grows b b1" using emitted_list [OF _ v(1) w] emit_expr_emitted by blast
  obtain zs where zs: "eval_exprs G T m es = Some zs" using r by (auto simp: call_value_def bind_eq_Some_conv)
  then obtain y ys where y: "zs = y # ys" using r c v(2) by (cases zs) (simp_all add: call_value_def)
  obtain x0 where x0: "map_option (value_of G) (CreatePointerCast (const_of y) p) = Some x0"
    using r c v(2) zs y by (simp add: call_value_def bind_eq_Some_conv) blast
  obtain res m' where d: "D f (map snd (x0 # ys)) m = (res, m')" by (cases "D f (map snd (x0 # ys)) m")
  have xs: "eval_exprs G T m es = Some (y # ys)" using zs y by simp
  have r': "case tmp of None \<Rightarrow> r = Next T m' | Some q \<Rightarrow> \<exists>tt. getRegType types q = Some tt
      \<and> r = Next (T(q \<mapsto> value_of G (fit_result (ConstantV t res) tt))) m'"
  proof (cases tmp)
    case None
    then show ?thesis using r c v(2) xs x0 d by (simp add: call_value_def del: map_option_eq_Some)
  next
    case (Some q)
    then show ?thesis using r c v(2) xs x0 d
      by (cases "getRegType types q") (simp_all add: call_value_def del: map_option_eq_Some)
  qed
  have i2: "inside b2 F"
    using tmp i inside_set by (cases tmp) (simp, fastforce)
  have i1: "inside b1 F" using i2 inside_grows [OF grows_numbered] b2 by blast
  have "\<exists>R1. runs (target G) D F b R m b1 R1 m \<and> agree (next_id b) R R1 \<and> map (value_in (target G) R1) (v0 # vs) = y # ys"
    by (rule simulates_list [OF expression_simulated [OF fake] c(2) v(1) w i1 held xs])
  then obtain R1 where R1: "runs (target G) D F b R m b1 R1 m" "agree (next_id b) R R1" "map (value_in (target G) R1) (v0 # vs) = y # ys"
    by (elim exE conjE)
  have t1: "temps_held G b1 R1 T" by (rule temps_later [OF held w _ R1(2)]) (use g in \<open>simp add: grows_def\<close>)
  have "map (ev (target G) R1) (a0 # vs) = map snd (x0 # ys)"
    using pointer_cast_value [OF v(3) _ x0, of R1] R1(3) by (auto simp: value_in_def)
  then have step: "runs (target G) D F b1 R1 m b2 (R1(next_id b1 := res)) m'"
    using i2 g d unfolding runs_def b2 by (auto simp: step_numbered here_numbered intro!: exI reaches_step)
  note run2 = runs_trans [OF R1(1) step]
  have t2: "temps_held G b2 (R1(next_id b1 := res)) T"
    by (rule temps_later [OF t1]) (use g b2 in simp_all)
  show ?thesis
  proof (cases tmp)
    case None
    then show ?thesis using tmp r' run2 t2 by auto
  next
    case (Some q)
    then obtain tt where tt: "setRegValue q (fit_result (Inst (next_id b1) t) tt) b2 = Some b'"
        "r = Next (T(q \<mapsto> value_of G (fit_result (ConstantV t res) tt))) m'"
      using tmp r' by auto
    show ?thesis
      using tt(2) runs_trans [OF run2 set_runs [OF tt(1)]] temps_set [OF tt(1) t2 fit_result_value] by auto
  qed
qed

text \<open>A call that is not made leaves the temporaries that are set as they are.\<close>

lemma call_keeps:
  assumes "emit_call G types f t as tmp b = Some b'" and "wfb b" and "reg_values b q = Some v"
  shows "reg_values b' q = Some v"
  using assms(1)
proof (rule emit_call_steps)
  fix v0 vs b1 p a0 b2
  assume as: "emit_exprs G as b = Some (v0 # vs, b1)" and b2: "b2 = numbered (CallI (next_id b1) t f (a0 # vs)) b1"
    and tmp: "case tmp of None \<Rightarrow> b' = b2 | Some r \<Rightarrow> \<exists>tt. getRegType types r = Some tt \<and> setRegValue r (fit_result (Inst (next_id b1) t) tt) b2 = Some b'"
  have "grows b b1" using emitted_list [OF _ as assms(2)] emit_expr_emitted by blast
  then have "reg_values b2 q = Some v" using assms(3) b2 by (simp add: grows_def)
  then show ?thesis using tmp by (cases tmp) (auto simp: setRegValue_def split: if_splits)
qed

lemma temps_kept: "(\<And>q v. reg_values b q = Some v \<Longrightarrow> reg_values b' q = Some v) \<Longrightarrow> temps_held G b R T \<Longrightarrow> temps_held G b' R T"
  unfolding temps_held_def by blast

lemma isOne_guard: "isOneValue G v \<Longrightarrow> ev (target G) R v = [Some 1]"
  by (simp add: isOneValue_def ev_isConstant [of v "target G" R "\<lambda>i. []"])

lemma Dirty_simulated:
  assumes fake: "\<not> fake_vsys_reads G"
  shows "stmt_simulated G D F types T m (Ist_Dirty g p es tmp)"
proof (rule stmt_simulatedI)
  fix f b b' R r
  assume h: "create_stmt G (Ist_Dirty g p es tmp) = Some f" "emit_stmt G types f b = Some b'" "wfb b" "inside b' F" "temps_held G b R T"
    "exec_stmt G D types T m (Ist_Dirty g p es tmp) = Some r"
  obtain gg t as where c: "create_expr G g = Some gg" "helper_type G p = Some t" "create_exprs G es = Some as" "f = StmtDirty gg p t as tmp"
    using h(1) by (auto simp: bind_eq_Some_conv)
  obtain q where q: "guard_value G T m g = Some q" using h(6) by (auto simp: bind_eq_Some_conv)
  then obtain tg k where k: "eval_expr G T m g = Some (tg, [Some k])" "q \<longleftrightarrow> k \<noteq> 0" by (rule guard_valueE)
  have r: "if k \<noteq> 0 then call_value G D types T m p es tmp = Some r else r = Next T m" using h(6) q k(2) by (simp split: if_splits)
  have "emit_dirty G types gg p t as tmp b = Some b'" using h(2) c(4) by simp
  then show "follows G D F b R m b' r"
  proof (cases rule: emit_dirty_steps)
    case (1 vg b1)
    have p1: "proceeds b b1" by (rule expr_proceeds [OF 1(1) h(3)])
    have i1: "inside b1 F" by (rule inside_proceeds [OF call_proceeds [OF 1(3) proceeds_wf [OF p1]] h(4)])
    obtain R1 where R1: "runs (target G) D F b R m b1 R1 m" "value_in (target G) R1 vg = (tg, [Some k])" "temps_held G b1 R1 T"
      using expression_runs [OF fake c(1) 1(1) h(3) i1 h(5) k(1)] by blast
    have "k = 1" using value_in_lane [OF R1(2)] isOne_guard [OF 1(2), of R1] by simp
    then have "call_value G D types T m p es tmp = Some r" using r by simp
    from call_follows [OF fake 1(3) proceeds_wf [OF p1] h(4) R1(3) c(2,3) this] show ?thesis
      using follows_Next [OF runs_trans [OF R1(1)]] by blast
  next
    case (2 vg b1 b3 n)
    have p1: "proceeds b b1" by (rule expr_proceeds [OF 2(1) h(3)])
    have w1: "wfb b1" using p1 by (rule proceeds_wf)
    let ?fork = "fork vg n (new_block (new_block b1))"
    note G = guarded_proceeds(2,3) [OF p1 2(2) call_proceeds [OF 2(3)]]
    note i = inside_fork [OF G h(4) [unfolded 2(4)]]
    have i1: "inside b1 F"
      by (rule inside_proceeds [OF proceeds_trans [OF proceeds_added(3) [OF w1] proceeds_added(3)]]) (use i w1 in simp_all)
    obtain R1 where R1: "runs (target G) D F b R m b1 R1 m" "value_in (target G) R1 vg = (tg, [Some k])" "temps_held G b1 R1 T"
      using expression_runs [OF fake c(1) 2(1) h(3) i1 h(5) k(1)] by blast
    note start = runs_trans [OF R1(1) new_blocks_run [OF w1]]
    note lane = value_in_lane [OF R1(2)]
    show ?thesis
    proof (cases "k = 0")
      case True
      have "temps_held G b3 R1 T" by (rule temps_kept [OF call_keeps [OF 2(3) fork_wf [OF G(1)]]]) (use R1(3) in simp_all)
      then have "temps_held G b' R1 T" by (simp add: 2(4))
      moreover have "runs (target G) D F b R m b' R1 m"
        unfolding 2(4) by (rule runs_trans [OF start fork_runs(2) [OF G h(4) [unfolded 2(4)] lane True]])
      moreover have "r = Next T m" using r True by simp
      ultimately show ?thesis using follows_Next by blast
    next
      case False
      have t: "temps_held G ?fork R1 T" using R1(3) by simp
      have "call_value G D types T m p es tmp = Some r" using r False by simp
      from call_follows [OF fake 2(3) fork_wf [OF G(1)] conjunct1 [OF i] t c(2,3) this]
      obtain T' m' R2 where R2: "r = Next T' m'" "runs (target G) D F ?fork R1 m b3 R2 m'" "temps_held G b3 R2 T'" by blast
      have "runs (target G) D F b R m b' R2 m'"
        unfolding 2(4) by (rule runs_trans [OF start admitted [OF G h(4) [unfolded 2(4)] lane False R2(2)]])
      then show ?thesis unfolding R2(1) by (rule follows_Next) (simp add: 2(4) R2(3))
    qed
  qed
qed

section \<open>Guarded loads\<close>

lemma loadg_value_of:
  assumes "value_in E R v = (t, read_mem p t m)" and "loadg_type cvt = Some t" and "loadg_value cvt (read_mem p t m) = Some z"
  shows "value_in E R (loadg_widen cvt v) = z"
proof -
  have ok: "lanes_ok t (read_mem p t m)" by simp
  have v: "getType v = t" "ev E R v = read_mem p t m" using assms(1) by (simp_all add: value_in_def)
  have "take_bit 32 k = k" if "take_bit n k = k" "n \<le> 32" for k :: int and n
    using that take_bit_take_bit [of 32 n k] by (simp add: min_def)
  then have widened: "map_option (take_bit 32) x = x" if "map_option (take_bit n) x = x" "n \<le> 32" for x :: lane and n
    using that by (cases x) auto
  show ?thesis
  proof (cases "\<exists>w. t = get_i w")
    case True
    then obtain w x where x: "t = get_i w" "read_mem p t m = [x]" "map_option (take_bit w) x = x"
      using ok by (auto simp: lanes_ok_def length_Suc_conv)
    have "w \<le> 32" using assms(2) x(1) by (cases cvt) (auto simp: vexTy2LLVM_def)
    then show ?thesis
      using assms(2,3) v x widened [OF x(3)] by (cases cvt) (auto simp: value_in_def fit_def vexTy2LLVM_def loadg_value_def option.map_comp o_def)
  next
    case False
    then show ?thesis using assms v by (cases cvt) (auto simp: value_in_def loadg_value_def vexTy2LLVM_def)
  qed
qed

lemma LoadG_simulated:
  assumes fake: "\<not> fake_vsys_reads G"
  shows "stmt_simulated G D F types T m (Ist_LoadG l cvt d a alt g)"
proof (rule stmt_simulatedI)
  fix f b b' R r
  assume h: "create_stmt G (Ist_LoadG l cvt d a alt g) = Some f" "emit_stmt G types f b = Some b'" "wfb b" "inside b' F" "temps_held G b R T"
    "exec_stmt G D types T m (Ist_LoadG l cvt d a alt g) = Some r"
  obtain ga gt gg where c: "create_expr G a = Some ga" "create_expr G alt = Some gt" "create_expr G g = Some gg" "f = StmtLoadG cvt d ga gt gg"
    using h(1) by (auto simp: bind_eq_Some_conv split: if_splits)
  have "emit_loadg G cvt d ga gt gg b = Some b'" using h(2) c(4) by simp
  then obtain vg b1 va b2 vt b3 n t vl b5 b6 b7 where v: "emit_expr G gg b = Some (vg, b1)" "emit_expr G ga b1 = Some (va, b2)"
    "emit_expr G gt b2 = Some (vt, b3)" "n = length (blocks b3)" "loadg_type cvt = Some t"
    "load_ty G va t (fork vg n (new_block (new_block (new_block b3)))) = Some (vl, b5)"
    "b6 = join (BrI (Suc (Suc n))) n b5" "b7 = SetInsertPoint (Suc (Suc n)) (add_inst (BrI (Suc (Suc n))) b6)"
    "getType vt = getType (loadg_widen cvt vl)"
    "setRegValue d (Inst (next_id b7) (getType (loadg_widen cvt vl)))
       (numbered (PhiI (next_id b7) (getType (loadg_widen cvt vl)) [(loadg_widen cvt vl, n), (vt, Suc n)]) b7) = Some b'"
    by (rule emit_loadg_steps)
  let ?b4 = "new_block (new_block (new_block b3))"
  let ?phi = "numbered (PhiI (next_id b7) (getType (loadg_widen cvt vl)) [(loadg_widen cvt vl, n), (vt, Suc n)]) b7"
  obtain q where q: "guard_value G T m g = Some q" using h(6) by (auto simp: bind_eq_Some_conv)
  then obtain tg k where k: "eval_expr G T m g = Some (tg, [Some k])" "q \<longleftrightarrow> k \<noteq> 0" by (rule guard_valueE)
  obtain x y where x: "eval_expr G T m a = Some x" "eval_expr G T m alt = Some y" using h(6) by (auto simp: bind_eq_Some_conv)
  have p1: "proceeds b b1" by (rule expr_proceeds [OF v(1) h(3)])
  have p2: "proceeds b1 b2" by (rule expr_proceeds [OF v(2) proceeds_wf [OF p1]])
  have p3: "proceeds b2 b3" by (rule expr_proceeds [OF v(3) proceeds_wf [OF p2]])
  have w3: "wfb b3" by (rule proceeds_wf [OF p3])
  note L = loadg_layout [OF proceeds_trans [OF p1 proceeds_trans [OF p2 p3]] v(4,6-8)]
  have i: "inside ?phi F" by (rule inside_set [OF v(10) h(4)])
  have i7: "inside b7 F" using inside_grows [OF grows_numbered i] .
  have i6: "inside (add_inst (BrI (Suc (Suc n))) b6) F" using i7 v(8) by simp
  have i6': "inside b6 F" by (rule inside_extends [OF L(5) i7])
  have i5: "inside (join (BrI (Suc (Suc n))) n b5) F" using i6' v(7) by simp
  note i45 = inside_fork [OF L(1,2) i5]
  have i3: "inside b3 F" using i45 by (simp add: inside_new)
  note i2 = inside_proceeds [OF p3 i3] note i1 = inside_proceeds [OF p2 i2]
  obtain R1 where R1: "runs (target G) D F b R m b1 R1 m" "value_in (target G) R1 vg = (tg, [Some k])" "temps_held G b1 R1 T"
    using expression_runs [OF fake c(3) v(1) h(3) i1 h(5) k(1)] by blast
  obtain R2 where R2: "runs (target G) D F b1 R1 m b2 R2 m" "agree (next_id b1) R1 R2" "value_in (target G) R2 va = x" "temps_held G b2 R2 T"
    using expression_runs [OF fake c(1) v(2) proceeds_wf [OF p1] i2 R1(3) x(1)] by blast
  obtain R3 where R3: "runs (target G) D F b2 R2 m b3 R3 m" "agree (next_id b2) R2 R3" "value_in (target G) R3 vt = y" "temps_held G b3 R3 T"
    using expression_runs [OF fake c(2) v(3) proceeds_wf [OF p2] i3 R2(4) x(2)] by blast
  have a3: "value_in (target G) R3 va = x" by (rule value_later [OF expr_below [OF v(2) proceeds_wf [OF p1]] R2(3) R3(2)])
  have "value_in (target G) R2 vg = (tg, [Some k])" by (rule value_later [OF expr_below [OF v(1) h(3)] R1(2) R2(2)])
  then have "value_in (target G) R3 vg = (tg, [Some k])"
    by (rule value_later [OF below_proceeds [OF expr_below [OF v(1) h(3)] p2] _ R3(2)])
  note lane = value_in_lane [OF this]
  have "runs (target G) D F b3 R3 m ?b4 R3 m" using w3 reaches_refl by (auto simp: runs_def here_def blocks_new_block wfb_def)
  note start = runs_trans [OF runs_trans [OF runs_trans [OF R1(1) R2(1)] R3(1)] this]
  have chosen: "\<exists>prev' R'. reaches (target G) D F (Running (Suc (Suc n)) 0 prev R0 m) (here b' prev' R' m)
      \<and> temps_held G b' R' (T(d \<mapsto> z))"
    if "prev = n \<and> u = loadg_widen cvt vl \<or> prev = Suc n \<and> u = vt" "getType u = getType (loadg_widen cvt vl)"
      "value_in (target G) R0 u = z" "temps_held G b7 R0 T" for prev u R0 z
  proof -
    let ?R = "R0(next_id b7 := ev (target G) R0 u)"
    have ne: "n \<noteq> Suc n" by simp
    note C = chosen_value [OF i L(6) ne that(1,2)]
    have "Running (Suc (Suc n)) 0 prev R0 m = here b7 prev R0 m" using L(7) v(8) by (simp add: here_def)
    moreover have "temps_held G ?phi ?R T" by (rule temps_later [OF that(4) L(6)]) simp_all
    then have "temps_held G b' ?R (T(d \<mapsto> z))"
      by (rule temps_set [OF v(10)]) (use C(2) that(3) in simp)
    moreover have "here b' prev' ?R m = here ?phi prev' ?R m" for prev' using v(10) by (auto simp: here_def setRegValue_def split: if_splits)
    ultimately show ?thesis using C(1) by metis
  qed
  have kept: "reg_values b5 = reg_values b3"
    using load_ty_continues' [OF v(6) fork_wf [OF L(1)]] by (simp add: continues_def grows_def)
  have t7: "temps_held G b7 R0 T" if "agree (next_id b3) R3 R0" for R0
    by (rule temps_later [OF R3(4) w3 _ that]) (simp add: v(7,8) kept)
  have "\<exists>R'. runs (target G) D F ?b4 R3 m b' R' m \<and> (\<exists>z. r = Next (T(d \<mapsto> z)) m \<and> temps_held G b' R' (T(d \<mapsto> z)))"
  proof (cases "k = 0")
    case True
    have r: "r = Next (T(d \<mapsto> y)) m" using h(6) q k(2) x True by (auto split: if_splits)
    have "runs (target G) D F ?b4 R3 m b6 R3 m" unfolding v(7) by (rule fork_runs(2) [OF L(1,2) i5 lane True])
    moreover have "reaches (target G) D F (here b6 prev R3 m) (Running (Suc (Suc n)) 0 (Suc n) R3 m)" for prev
      using runs_jump [OF i6 L(3)] by (simp add: v(7) join_def)
    moreover obtain prev' R' where "reaches (target G) D F (Running (Suc (Suc n)) 0 (Suc n) R3 m) (here b' prev' R' m)"
        "temps_held G b' R' (T(d \<mapsto> y))"
      using chosen [of "Suc n" vt R3 y] v(9) R3(3) t7 by auto
    ultimately show ?thesis unfolding r runs_def using reaches_trans by metis
  next
    case False
    obtain p z where z: "guest_address G x = Some p" "loadg_value cvt (read_mem p t m) = Some z" "r = Next (T(d \<mapsto> z)) m"
      using h(6) q k(2) x v(5) False by (auto simp: bind_eq_Some_conv split: if_splits)
    have t4: "temps_held G (fork vg n ?b4) R3 T" using R3(4) by (simp add: temps_held_def)
    obtain R4 where R4: "runs (target G) D F (fork vg n ?b4) R3 m b5 R4 m" "agree (next_id (fork vg n ?b4)) R3 R4"
        "value_in (target G) R4 vl = (t, read_mem p t m)"
      by (rule load_runs [OF fake v(6) fork_wf [OF L(1)] conjunct1 [OF i45] t4 a3 z(1)])
    have a4: "agree (next_id b3) R3 R4" using R4(2) by simp
    have "runs (target G) D F ?b4 R3 m b5 R4 m" by (rule runs_trans [OF fork_runs(1) [OF L(1,2) i5 lane False] R4(1)])
    moreover have "reaches (target G) D F (here b5 prev R4 m) (Running (Suc (Suc n)) 0 n R4 m)" for prev
      using runs_jump [of "Suc (Suc n)" b5 F "target G" D prev R4 m] i5 proceeds_wf [OF L(2)] by (simp add: join_def L(9))
    moreover obtain prev' R' where "reaches (target G) D F (Running (Suc (Suc n)) 0 n R4 m) (here b' prev' R' m)"
        "temps_held G b' R' (T(d \<mapsto> z))"
      using chosen [of n "loadg_widen cvt vl" R4 z] loadg_value_of [OF R4(3) v(5) z(2)] t7 [OF a4] by auto
    ultimately show ?thesis unfolding z(3) runs_def using reaches_trans by metis
  qed
  then show "follows G D F b R m b' r" using runs_trans [OF start] follows_Next by blast
qed

section \<open>All statements, and blocks\<close>

section \<open>A compare-and-swap of two words\<close>

text \<open>What the emitted code makes of it: both words are loaded and compared, the store is done
  when the two comparisons agree with each other, so also when neither word matches, and
  both places receive the new low word, evaluated once more for the second; the new high word
  is not used.\<close>

definition swap_emitted :: "genllvm \<Rightarrow> temps \<Rightarrow> guest_mem \<Rightarrow> nat \<Rightarrow> IRExpr \<Rightarrow> IRExpr \<Rightarrow> IRExpr \<Rightarrow> nat \<Rightarrow> IRExpr \<Rightarrow> outcome option" where
  "swap_emitted G T m oldLo a expdLo dataLo oldHi expdHi = do {
     x \<leftarrow> eval_expr G T m a;
     e \<leftarrow> eval_expr G T m expdLo;
     p \<leftarrow> guest_address G x;
     let old = (fst e, read_mem p (fst e) m);
     same \<leftarrow> equal_values e old;
     eH \<leftarrow> eval_expr G T m expdHi;
     let xH = next_word x (fst e);
     pH \<leftarrow> guest_address G xH;
     let oldH = (fst e, read_mem pH (fst e) m);
     sameH \<leftarrow> equal_values eH oldH;
     if same = sameH then do {
       d \<leftarrow> eval_expr G T m dataLo;
       m1 \<leftarrow> store_value G x d m;
       d' \<leftarrow> eval_expr G T m1 dataLo;
       m2 \<leftarrow> store_value G xH d' m1;
       Some (Next (T(oldLo \<mapsto> old, oldHi \<mapsto> oldH)) m2) }
     else Some (Next (T(oldLo \<mapsto> old, oldHi \<mapsto> oldH)) m) }"

text \<open>The reference interpreter with this meaning of the statement.\<close>

definition exec_emitted :: "genllvm \<Rightarrow> dirty_env \<Rightarrow> IRType list \<Rightarrow> temps \<Rightarrow> guest_mem \<Rightarrow> IRStmt \<Rightarrow> outcome option" where
  "exec_emitted G D types T m s = (case s of
     Ist_CAS oldLo a expdLo dataLo (Some (oldHi, expdHi, dataHi)) \<Rightarrow> swap_emitted G T m oldLo a expdLo dataLo oldHi expdHi
   | _ \<Rightarrow> exec_stmt G D types T m s)"

fun exec_emitteds :: "genllvm \<Rightarrow> dirty_env \<Rightarrow> IRType list \<Rightarrow> temps \<Rightarrow> guest_mem \<Rightarrow> IRStmt list \<Rightarrow> outcome option" where
  "exec_emitteds G D types T m [] = Some (Next T m)"
| "exec_emitteds G D types T m (s # ss) = (case exec_emitted G D types T m s of
     Some (Next T' m') \<Rightarrow> exec_emitteds G D types T' m' ss
   | r \<Rightarrow> r)"

text \<open>Without such a statement it is the reference interpreter.\<close>

fun single_word :: "IRStmt \<Rightarrow> bool" where
  "single_word (Ist_CAS t a e d hi) = (hi = None)"
| "single_word s = True"

lemma exec_single: "single_word s \<Longrightarrow> exec_emitted G D types T m s = exec_stmt G D types T m s"
  by (cases s) (simp_all add: exec_emitted_def)

lemma execs_single: "list_all single_word ss \<Longrightarrow> exec_emitteds G D types T m ss = exec_stmts G D types T m ss"
  by (induction ss arbitrary: T m) (auto simp: exec_single split: option.splits outcome.splits)

lemma high_addr_value:
  assumes "value_in E R va = x" and "guest_address G (next_word x t) = Some p"
  shows "value_in E R (high_addr va t) = next_word x t"
proof -
  obtain a where a: "next_word x t = (get_i (if is32Bit G then 32 else 64), [Some a])"
    using assms(2) by (auto simp: guest_address_def split: prod.splits list.splits option.splits if_splits)
  define w :: nat where "w = (if is32Bit G then 32 else 64)"
  obtain k where k: "x = (get_i w, [Some k])" using a by (cases x) (auto simp: next_word_def w_def)
  have "ev E R (high_addr va t) = [Some (take_bit w (k + int (store_bytes t)))]"
    using assms(1) k by (simp add: value_in_def high_addr_def getBitWidth_def store_bytes_def take_bit_add)
      (metis mod_add_right_eq take_bit_eq_mod)
  moreover have "getType (high_addr va t) = get_i w" using assms(1) k by (simp add: value_in_def high_addr_def)
  ultimately show ?thesis by (simp add: value_in_def k next_word_def)
qed


text \<open>The values a swap of two words compares, and the words it found.\<close>

definition compared :: "genllvm \<Rightarrow> temps \<Rightarrow> guest_mem \<Rightarrow> IRExpr \<Rightarrow> IRExpr \<Rightarrow> IRExpr \<Rightarrow> vval \<times> vval \<times> vval \<times> vval \<times> vval \<Rightarrow> bool" where
  "compared G T m a e eH = (\<lambda>(x, y, old, yH, oldH). eval_expr G T m a = Some x \<and> eval_expr G T m e = Some y \<and> eval_expr G T m eH = Some yH
     \<and> (\<exists>p pH. guest_address G x = Some p \<and> old = (fst y, read_mem p (fst y) m)
          \<and> guest_address G (next_word x (fst y)) = Some pH \<and> oldH = (fst y, read_mem pH (fst y) m)))"

lemma swap_emittedE:
  assumes "swap_emitted G T m t a e d tH eH = Some r"
  obtains x y old yH oldH q qH where "compared G T m a e eH (x, y, old, yH, oldH)" "equal_values y old = Some q" "equal_values yH oldH = Some qH"
    "q = qH \<Longrightarrow> \<exists>z m1 z' m2. eval_expr G T m d = Some z \<and> store_value G x z m = Some m1 \<and> eval_expr G T m1 d = Some z'
       \<and> store_value G (next_word x (fst y)) z' m1 = Some m2 \<and> r = Next (T(t \<mapsto> old, tH \<mapsto> oldH)) m2"
    "q \<noteq> qH \<Longrightarrow> r = Next (T(t \<mapsto> old, tH \<mapsto> oldH)) m"
  using assms that by (auto simp: swap_emitted_def compared_def Let_def bind_eq_Some_conv split: if_splits)

lemma compared_runs:
  assumes fake: "\<not> fake_vsys_reads G" and c: "create_expr G a = Some ga" "create_expr G e = Some ge" "create_expr G eH = Some gH"
    and v: "emit_expr G ga b = Some (va, b1)" "emit_expr G ge b1 = Some (ve, b2)" "load_ty G va (getType ve) b2 = Some (vl, b3)"
      "emit_expr G gH b3 = Some (veH, b4)" "load_ty G (high_addr va (getType ve)) (getType ve) b4 = Some (vlH, b5)"
    and w: "wfb b" and i: "inside b5 F" and t: "temps_held G b R T" and x: "compared G T m a e eH (x, y, old, yH, oldH)"
  obtains R5 where "runs (target G) D F b R m b5 R5 m" "temps_held G b5 R5 T" "value_in (target G) R5 va = x" "value_in (target G) R5 ve = y"
    "value_in (target G) R5 vl = old" "value_in (target G) R5 veH = yH" "value_in (target G) R5 vlH = oldH"
proof -
  obtain p pH where p: "guest_address G x = Some p" "old = (fst y, read_mem p (fst y) m)"
      "guest_address G (next_word x (fst y)) = Some pH" "oldH = (fst y, read_mem pH (fst y) m)"
    and ev: "eval_expr G T m a = Some x" "eval_expr G T m e = Some y" "eval_expr G T m eH = Some yH"
    using x by (auto simp: compared_def)
  have p1: "proceeds b b1" by (rule expr_proceeds [OF v(1) w])
  have p2: "proceeds b1 b2" by (rule expr_proceeds [OF v(2) proceeds_wf [OF p1]])
  have p3: "proceeds b2 b3" by (rule load_proceeds [OF v(3) proceeds_wf [OF p2]])
  have p4: "proceeds b3 b4" by (rule expr_proceeds [OF v(4) proceeds_wf [OF p3]])
  have p5: "proceeds b4 b5" by (rule load_proceeds [OF v(5) proceeds_wf [OF p4]])
  note i4 = inside_proceeds [OF p5 i] note i3 = inside_proceeds [OF p4 i4]
  note i2 = inside_proceeds [OF p3 i3] note i1 = inside_proceeds [OF p2 i2]
  note ba = expr_below [OF v(1) w] note be = expr_below [OF v(2) proceeds_wf [OF p1]]
  note bl = load_below [OF v(3) proceeds_wf [OF p2]] note bH = expr_below [OF v(4) proceeds_wf [OF p3]]
  obtain R1 where R1: "runs (target G) D F b R m b1 R1 m" "value_in (target G) R1 va = x" "temps_held G b1 R1 T"
    using expression_runs [OF fake c(1) v(1) w i1 t ev(1)] by blast
  obtain R2 where R2: "runs (target G) D F b1 R1 m b2 R2 m" "agree (next_id b1) R1 R2" "value_in (target G) R2 ve = y" "temps_held G b2 R2 T"
    using expression_runs [OF fake c(2) v(2) proceeds_wf [OF p1] i2 R1(3) ev(2)] by blast
  have te: "getType ve = fst y" using R2(3) by (auto simp: value_in_def)
  note a2 = value_later [OF ba R1(2) R2(2)]
  obtain R3 where R3: "runs (target G) D F b2 R2 m b3 R3 m" "agree (next_id b2) R2 R3" "value_in (target G) R3 vl = old" "temps_held G b3 R3 T"
    using load_runs [OF fake v(3) proceeds_wf [OF p2] i3 R2(4) a2 p(1)] unfolding te p(2) by blast
  note a3 = value_later [OF below_proceeds [OF ba p2] a2 R3(2)] note e3 = value_later [OF be R2(3) R3(2)]
  obtain R4 where R4: "runs (target G) D F b3 R3 m b4 R4 m" "agree (next_id b3) R3 R4" "value_in (target G) R4 veH = yH" "temps_held G b4 R4 T"
    using expression_runs [OF fake c(3) v(4) proceeds_wf [OF p3] i4 R3(4) ev(3)] by blast
  note ba3 = below_proceeds [OF ba proceeds_trans [OF p2 p3]]
  note a4 = value_later [OF ba3 a3 R4(2)] note e4 = value_later [OF below_proceeds [OF be p3] e3 R4(2)]
  note l4 = value_later [OF bl R3(3) R4(2)]
  have "value_in (target G) R4 (high_addr va (fst y)) = next_word x (fst y)" by (rule high_addr_value [OF a4 p(3)])
  then obtain R5 where R5: "runs (target G) D F b4 R4 m b5 R5 m" "agree (next_id b4) R4 R5" "value_in (target G) R5 vlH = oldH" "temps_held G b5 R5 T"
    using load_runs [OF fake v(5) proceeds_wf [OF p4] i R4(4) _ p(3)] unfolding te p(4) by blast
  show thesis
    by (rule that [OF runs_trans [OF runs_trans [OF runs_trans [OF runs_trans [OF R1(1) R2(1)] R3(1)] R4(1)] R5(1)] R5(4)
        value_later [OF below_proceeds [OF ba3 p4] a4 R5(2)] value_later [OF below_proceeds [OF be proceeds_trans [OF p3 p4]] e4 R5(2)]
        value_later [OF below_proceeds [OF bl p4] l4 R5(2)] value_later [OF bH R4(3) R5(2)] R5(3)])
qed

text \<open>Both stores of the new low word.\<close>

lemma both_stored:
  assumes fake: "\<not> fake_vsys_reads G" and c: "create_expr G d = Some gd"
    and v: "emit_expr G gd b = Some (vn, b1)" "emit_expr G gd (store G va vn b1) = Some (vn', b2)"
    and w: "wfb b" and i: "inside (store G vH vn' b2) F" and t: "temps_held G b R T"
    and below: "below (next_id b) va" "below (next_id b) vH"
    and x: "value_in (target G) R va = x" "value_in (target G) R vH = xH"
    and s: "eval_expr G T m d = Some z" "store_value G x z m = Some m1" "eval_expr G T m1 d = Some z'" "store_value G xH z' m1 = Some m2"
  obtains R' where "runs (target G) D F b R m (store G vH vn' b2) R' m2" "agree (next_id b) R R'"
proof -
  have p1: "proceeds b b1" by (rule expr_proceeds [OF v(1) w])
  have p2: "proceeds b1 (store G va vn b1)" by (rule store_proceeds [OF proceeds_wf [OF p1]])
  have p3: "proceeds (store G va vn b1) b2" by (rule expr_proceeds [OF v(2) proceeds_wf [OF p2]])
  note i3 = inside_proceeds [OF store_proceeds [OF proceeds_wf [OF p3]] i]
  note i2 = inside_proceeds [OF p3 i3] note i1 = inside_proceeds [OF p2 i2]
  obtain R1 where R1: "runs (target G) D F b R m b1 R1 m" "agree (next_id b) R R1" "value_in (target G) R1 vn = z" "temps_held G b1 R1 T"
    using expression_runs [OF fake c v(1) w i1 t s(1)] by blast
  note a1 = value_later [OF below(1) x(1) R1(2)]
  have stored: "runs (target G) D F b1 R1 m (store G va vn b1) R1 m1" by (rule store_runs [OF i2 proceeds_wf [OF p1] a1 R1(3) s(2)])
  obtain R2 where R2: "runs (target G) D F (store G va vn b1) R1 m1 b2 R2 m1" "agree (next_id (store G va vn b1)) R1 R2" "value_in (target G) R2 vn' = z'"
    using expression_runs [OF fake c v(2) proceeds_wf [OF p2] i3 temps_store [OF R1(4)] s(3)] by blast
  have "agree (next_id b) R1 R2"
    using R2(2) extends_ids [OF proceeds_extends [OF proceeds_trans [OF p1 p2]]] by (auto simp: agree_def)
  then have "agree (next_id b) R R2" using R1(2) by (auto simp: agree_def)
  moreover have "runs (target G) D F b2 R2 m1 (store G vH vn' b2) R2 m2"
    by (rule store_runs [OF i proceeds_wf [OF p3] value_later [OF below(2) x(2) \<open>agree (next_id b) R R2\<close>] R2(3) s(4)])
  ultimately show thesis using that runs_trans [OF runs_trans [OF runs_trans [OF R1(1) stored] R2(1)]] by blast
qed


lemma equal_values_bit:
  assumes "equal_values x y = Some c" and "value_in E R u = x" and "value_in E R v = y"
  shows "value_in E R (ICmp ICmpEQ u v) = (get_i 1, [Some (of_bool c)])"
proof -
  have "getType (ICmp ICmpEQ u v) = get_i 1"
    using assms(1,2) by (auto simp: equal_values_def value_in_def split: list.splits option.splits ty.splits scalar_ty.splits if_splits)
  then show ?thesis using equal_values_ev [OF assms] by (simp add: value_in_def)
qed

lemma equal_bits:
  "value_in E R u = (get_i 1, [Some (of_bool c)]) \<Longrightarrow> value_in E R v = (get_i 1, [Some (of_bool d)]) \<Longrightarrow>
   ev E R (ICmp ICmpEQ u v) = [Some (of_bool (c = d))]"
  by (cases c; cases d) (simp_all add: value_in_def)

lemma CAS2_follows:
  assumes fake: "\<not> fake_vsys_reads G"
    and h: "create_stmt G (Ist_CAS t a e d (Some (tH, eH, dH))) = Some f" "emit_stmt G types f b = Some b'" "wfb b" "inside b' F" "temps_held G b R T"
    and r: "swap_emitted G T m t a e d tH eH = Some r"
  shows "follows G D F b R m b' r"
proof -
  obtain ga ge gd gH nH where c: "create_expr G a = Some ga" "create_expr G e = Some ge" "create_expr G d = Some gd" "create_expr G eH = Some gH"
      "f = StmtCAS t ga ge gd (Some (tH, gH, nH))"
    using h(1) by (auto simp: bind_eq_Some_conv)
  have "emit_cas G t ga ge gd (Some (tH, gH, nH)) b = Some b'" using h(2) c(5) by simp
  then obtain va b1 ve b2 vl b3 veH b4 vlH b5 vn b6 vn' b7 b8 v n where v: "emit_expr G ga b = Some (va, b1)" "emit_expr G ge b1 = Some (ve, b2)"
    "load_ty G va (getType ve) b2 = Some (vl, b3)" "emit_expr G gH b3 = Some (veH, b4)"
    "load_ty G (high_addr va (getType ve)) (getType ve) b4 = Some (vlH, b5)" "n = length (blocks b5)"
    "v = ICmp ICmpEQ (ICmp ICmpEQ ve vl) (ICmp ICmpEQ veH vlH)"
    "emit_expr G gd (fork v n (new_block (new_block b5))) = Some (vn, b6)"
    "emit_expr G gd (store G va vn b6) = Some (vn', b7)"
    "setRegValue t vl (join (BrI (Suc n)) n (store G (high_addr va (getType ve)) vn' b7)) = Some b8"
    "setRegValue tH vlH b8 = Some b'" by (rule emit_cas_double_steps)
  obtain x y old yH oldH q qH where x: "compared G T m a e eH (x, y, old, yH, oldH)" "equal_values y old = Some q" "equal_values yH oldH = Some qH"
    "q = qH \<Longrightarrow> \<exists>z m1 z' m2. eval_expr G T m d = Some z \<and> store_value G x z m = Some m1 \<and> eval_expr G T m1 d = Some z'
       \<and> store_value G (next_word x (fst y)) z' m1 = Some m2 \<and> r = Next (T(t \<mapsto> old, tH \<mapsto> oldH)) m2"
    "q \<noteq> qH \<Longrightarrow> r = Next (T(t \<mapsto> old, tH \<mapsto> oldH)) m"
    using r by (rule swap_emittedE) blast
  let ?fork = "fork v n (new_block (new_block b5))" and ?vH = "high_addr va (getType ve)"
  let ?st = "store G ?vH vn' b7"
  have p1: "proceeds b b1" by (rule expr_proceeds [OF v(1) h(3)])
  have p2: "proceeds b1 b2" by (rule expr_proceeds [OF v(2) proceeds_wf [OF p1]])
  have p3: "proceeds b2 b3" by (rule load_proceeds [OF v(3) proceeds_wf [OF p2]])
  have p4: "proceeds b3 b4" by (rule expr_proceeds [OF v(4) proceeds_wf [OF p3]])
  have p5: "proceeds b4 b5" by (rule load_proceeds [OF v(5) proceeds_wf [OF p4]])
  have w5: "wfb b5" by (rule proceeds_wf [OF p5])
  have body: "proceeds ?fork ?st" if "wfb ?fork"
    using expr_proceeds [OF v(8) that] expr_proceeds [OF v(9)] store_proceeds proceeds_trans proceeds_wf by metis
  note G = guarded_proceeds(2,3) [OF proceeds_trans [OF p1 proceeds_trans [OF p2 proceeds_trans [OF p3 proceeds_trans [OF p4 p5]]]] v(6) body]
  have i: "inside (join (BrI (Suc n)) n ?st) F" by (rule inside_set [OF v(10) inside_set [OF v(11) h(4)]])
  note st = conjunct1 [OF inside_fork [OF G i]]
  have i5: "inside b5 F"
    by (rule inside_proceeds [OF proceeds_trans [OF proceeds_added(3) [OF w5] proceeds_added(3)]]) (use inside_fork [OF G i] w5 in simp_all)
  obtain R5 where R5: "runs (target G) D F b R m b5 R5 m" "temps_held G b5 R5 T" "value_in (target G) R5 va = x" "value_in (target G) R5 ve = y"
    "value_in (target G) R5 vl = old" "value_in (target G) R5 veH = yH" "value_in (target G) R5 vlH = oldH"
    by (rule compared_runs [OF fake c(1,2,4) v(1-5) h(3) i5 h(5) x(1)])
  note start = runs_trans [OF R5(1) new_blocks_run [OF w5]]
  have lane: "ev (target G) R5 v = [Some (of_bool (q = qH))]"
    unfolding v(7) by (rule equal_bits [OF equal_values_bit [OF x(2) R5(4,5)] equal_values_bit [OF x(3) R5(6,7)]])
  have w6: "wfb ?fork" by (rule fork_wf [OF G(1)])
  have e6: "emitted ?fork vn b6" by (rule emit_expr_emitted [OF v(8) w6])
  have e7: "emitted (store G va vn b6) vn' b7"
    by (rule emit_expr_emitted [OF v(9) proceeds_wf [OF store_proceeds [OF emitted_wfb [OF e6]]]])
  have keep: "reg_values (join (BrI (Suc n)) n ?st) = reg_values b5"
    using e6 e7 by (simp add: emitted_def grows_def store_def builder_steps)
  note below = below_proceeds [OF load_below [OF v(3) proceeds_wf [OF p2]] proceeds_trans [OF p4 p5]] load_below [OF v(5) proceeds_wf [OF p4]]
  have old: "temps_held G b' R' (T(t \<mapsto> old, tH \<mapsto> oldH))" if "agree (next_id b5) R5 R'" for R'
    by (rule temps_set [OF v(11) temps_set [OF v(10) temps_later [OF R5(2) w5 keep that]]])
       (rule value_later [OF below(1) R5(5) that], rule value_later [OF below(2) R5(7) that])
  show ?thesis
  proof (cases "q = qH")
    case False
    then have zero: "of_bool (q = qH) = (0 :: int)" by (cases q; cases qH) simp_all
    have "runs (target G) D F b R m b' R5 m"
      by (rule runs_trans [OF runs_trans [OF runs_trans [OF start fork_runs(2) [OF G i lane zero]] set_runs [OF v(10)]] set_runs [OF v(11)]])
    then show ?thesis unfolding x(5) [OF False] using old [OF agree_refl] by (rule follows_Next)
  next
    case True
    then have one: "of_bool (q = qH) \<noteq> (0 :: int)" by simp
    obtain z m1 z' m2 where z: "eval_expr G T m d = Some z" "store_value G x z m = Some m1" "eval_expr G T m1 d = Some z'"
       "store_value G (next_word x (fst y)) z' m1 = Some m2" "r = Next (T(t \<mapsto> old, tH \<mapsto> oldH)) m2" using x(4) [OF True] by blast
    have te: "getType ve = fst y" using R5(4) by (auto simp: value_in_def)
    obtain pH where "guest_address G (next_word x (fst y)) = Some pH" using x(1) by (auto simp: compared_def)
    then have high: "value_in (target G) R5 ?vH = next_word x (fst y)" unfolding te by (rule high_addr_value [OF R5(3)])
    have ba: "below (next_id b5) va"
      by (rule below_proceeds [OF expr_below [OF v(1) h(3)] proceeds_trans [OF p2 proceeds_trans [OF p3 proceeds_trans [OF p4 p5]]]])
    then have bH: "below (next_id b5) ?vH" by (simp add: high_addr_def)
    have t: "temps_held G ?fork R5 T" using R5(2) by simp
    obtain R6 where R6: "runs (target G) D F ?fork R5 m ?st R6 m2" "agree (next_id b5) R5 R6"
      using both_stored [OF fake c(3) v(8,9) w6 st t _ _ R5(3) high z(1-4)] ba bH by (auto simp del: runs_refl)
    have "runs (target G) D F b R m b' R6 m2"
      by (rule runs_trans [OF runs_trans [OF runs_trans [OF start admitted [OF G i lane one R6(1)]] set_runs [OF v(10)]] set_runs [OF v(11)]])
    then show ?thesis unfolding z(5) using old [OF R6(2)] by (rule follows_Next)
  qed
qed

lemma skipped: "temps_held G b R T \<Longrightarrow> follows G D F b R m b (Next T m)"
  using follows_Next [OF runs_refl] .

lemma statement_simulated:
  assumes fake: "\<not> fake_vsys_reads G" and "single_word s"
  shows "stmt_simulated G D F types T m s"
proof (cases s)
  case (Ist_CAS t a e d hi)
  then show ?thesis using assms(2) CAS_simulated [OF fake] by simp
next
  case (Ist_LLSC t a d)
  then show ?thesis using LLSC_simulated [OF fake] SC_simulated [OF fake] by (cases d) simp_all
next
  case Ist_MBE
  have "follows G D F b R m (memFence b) (Next T m)" if "wfb b" "inside (memFence b) F" "temps_held G b R T" for b R
  proof (rule follows_Next)
    show "runs (target G) D F b R m (memFence b) R m"
      using that by (auto simp: memFence_def builder_steps runs_def step_added here_added intro!: exI reaches_step)
    show "temps_held G (memFence b) R T" by (rule temps_cong [OF that(3)]) (simp add: memFence_def builder_steps)
  qed
  then show ?thesis unfolding stmt_simulated_def Ist_MBE by auto
next
  case Ist_NoOp
  then show ?thesis using skipped by (auto simp: stmt_simulated_def)
next
  case (Ist_IMark a n)
  then show ?thesis using skipped by (auto simp: stmt_simulated_def)
next
  case Ist_AbiHint
  then show ?thesis using skipped by (auto simp: stmt_simulated_def)
next
  case Ist_other
  then show ?thesis by (simp add: stmt_simulated_def)
qed (simp_all add: Put_simulated [OF fake] PutI_simulated [OF fake] WrTmp_simulated [OF fake] Store_simulated [OF fake]
    Dirty_simulated [OF fake] Exit_simulated [OF fake] StoreG_simulated [OF fake] LoadG_simulated [OF fake])

lemma statement_follows:
  assumes fake: "\<not> fake_vsys_reads G"
    and h: "create_stmt G s = Some f" "emit_stmt G types f b = Some b'" "wfb b" "inside b' F" "temps_held G b R T"
    and r: "exec_emitted G D types T m s = Some r"
  shows "follows G D F b R m b' r"
proof (cases "single_word s")
  case True
  then show ?thesis
    using statement_simulated [OF fake True] h r exec_single [OF True] unfolding stmt_simulated_def by metis
next
  case False
  then obtain t a e d tH eH dH where s: "s = Ist_CAS t a e d (Some (tH, eH, dH))" by (cases s) auto
  have "swap_emitted G T m t a e d tH eH = Some r" using r by (simp add: s exec_emitted_def)
  then show ?thesis by (rule CAS2_follows [OF fake h(1) [unfolded s] h(2-5)])
qed

lemma create_stmts_those: "loadInstructions G ss ([], None) = Some (fs, im) \<Longrightarrow> those (map (create_stmt G) ss) = Some fs \<and> im = load_imarks fs None"
  by (auto simp: loadInstructions_split)

lemma statements_follow:
  assumes fake: "\<not> fake_vsys_reads G" and "those (map (create_stmt G) ss) = Some fs"
    and "emit_stmts G types fs b = Some b'" and "wfb b" and "inside b' F" and "temps_held G b R T"
    and "exec_emitteds G D types T m ss = Some r"
  shows "follows G D F b R m b' r"
  using assms(2-)
proof (induction ss arbitrary: fs b R T m)
  case Nil
  then show ?case using follows_Next [OF runs_refl] by auto
next
  case (Cons s ss)
  obtain f fs' where f: "create_stmt G s = Some f" and fs: "those (map (create_stmt G) ss) = Some fs'" "fs = f # fs'"
    using Cons.prems(1) by (auto split: option.splits)
  obtain d where d: "emit_stmt G types f b = Some d" "emit_stmts G types fs' d = Some b'"
    using Cons.prems(2) fs(2) by (auto simp: bind_eq_Some_conv)
  have p: "proceeds b d" by (rule stmt_proceeds [OF d(1) Cons.prems(3)])
  have i: "inside d F" by (rule inside_proceeds [OF stmts_proceed [OF d(2) proceeds_wf [OF p]] Cons.prems(4)])
  obtain o1 where o1: "exec_emitted G D types T m s = Some o1" using Cons.prems(6) by (auto split: option.splits)
  have first: "follows G D F b R m d o1"
    by (rule statement_follows [OF fake f d(1) Cons.prems(3) i Cons.prems(5) o1])
  show ?case
  proof (cases o1)
    case (Next T1 m1)
    obtain R1 where R1: "runs (target G) D F b R m d R1 m1" "temps_held G d R1 T1" using first Next by (auto simp: follows_def)
    have "exec_emitteds G D types T1 m1 ss = Some r" using Cons.prems(6) o1 Next by simp
    then have rest: "follows G D F d R1 m1 b' r"
      using Cons.IH [OF fs(1) d(2) proceeds_wf [OF p] Cons.prems(4) R1(2)] by simp
    show ?thesis
    proof (cases r)
      case (Next T2 m2)
      then show ?thesis using rest runs_trans [OF R1(1)] by (auto simp: follows_def)
    next
      case (Leave xs m2)
      then show ?thesis using rest R1(1) reaches_trans unfolding follows_def runs_def by fastforce
    qed
  next
    case (Leave xs m1)
    then have "r = o1" using Cons.prems(6) o1 by simp
    then show ?thesis using first Leave by (simp add: follows_def)
  qed
qed

end
