(* ===== verification/Layout.thy ===== *)
theory Layout
  imports Stmtgen
begin

text \<open>
  The shape of an emitted function: each of its basic blocks has one terminator, at its
  end, and every branch goes to a block of the function. While the function is under
  construction some blocks are pending: they were made and wait for their instructions.
\<close>

section \<open>Functions\<close>

fun terminator :: "irinst \<Rightarrow> bool" where
  "terminator (BrI k) = True"
| "terminator (CondBrI v k l) = True"
| "terminator (RetI v) = True"
| "terminator i = False"

fun targets_below :: "nat \<Rightarrow> irinst \<Rightarrow> bool" where
  "targets_below n (BrI k) = (k < n)"
| "targets_below n (CondBrI v k l) = (k < n \<and> l < n)"
| "targets_below n i = True"

definition straight :: "irinst list \<Rightarrow> bool" where
  "straight is = list_all (\<lambda>i. \<not> terminator i) is"

definition finished :: "irinst list \<Rightarrow> bool" where
  "finished is \<longleftrightarrow> is \<noteq> [] \<and> terminator (last is) \<and> straight (butlast is)"

definition function_ok :: "irinst list list \<Rightarrow> bool" where
  "function_ok F \<longleftrightarrow> F \<noteq> [] \<and> list_all (\<lambda>is. finished is \<and> list_all (targets_below (length F)) is) F"

text \<open>An order of the blocks in which every branch goes forward.\<close>

fun jumps :: "irinst \<Rightarrow> nat set" where
  "jumps (BrI k) = {k}"
| "jumps (CondBrI v k l) = {k, l}"
| "jumps i = {}"

definition forward :: "irinst list list \<Rightarrow> nat list \<Rightarrow> bool" where
  "forward F os \<longleftrightarrow> distinct os \<and> (\<forall>as k bs. os = as @ k # bs \<longrightarrow> jumps (last (F ! k)) \<inter> set (as @ [k]) = {})"

lemma forward_Nil [simp]: "forward F []"
  by (simp add: forward_def)

lemma forwardD: "forward F os \<Longrightarrow> os = as @ k # bs \<Longrightarrow> jumps (last (F ! k)) \<inter> set (as @ [k]) = {}"
  unfolding forward_def by blast

lemma forward_snoc:
  assumes "forward F os" and "k \<notin> set os" and "jumps (last (F ! k)) \<inter> insert k (set os) = {}"
  shows "forward F (os @ [k])"
  unfolding forward_def
proof (intro conjI allI impI)
  show "distinct (os @ [k])" using assms(1,2) by (simp add: forward_def)
  fix as j bs assume eq: "os @ [k] = as @ j # bs"
  show "jumps (last (F ! j)) \<inter> set (as @ [j]) = {}"
  proof (cases bs rule: rev_cases)
    case Nil
    then show ?thesis using eq assms(3) by auto
  next
    case (snoc cs c)
    then have "os = as @ j # cs" using eq by simp
    then show ?thesis using assms(1) unfolding forward_def by blast
  qed
qed

lemma forward_cong: "forward F os \<Longrightarrow> (\<And>k. k \<in> set os \<Longrightarrow> last (F' ! k) = last (F ! k)) \<Longrightarrow> forward F' os"
  by (auto simp: forward_def)

section \<open>Functions under construction\<close>

definition pending :: "nat set \<Rightarrow> builder \<Rightarrow> bool" where
  "pending P b \<longleftrightarrow> insert_block b < length (blocks b) \<and> insert_block b \<notin> P \<and> (\<forall>k\<in>P. k < length (blocks b))
     \<and> (\<forall>k<length (blocks b). (if k = insert_block b \<or> k \<in> P then straight (blocks b ! k) else finished (blocks b ! k))
          \<and> list_all (targets_below (length (blocks b))) (blocks b ! k))
     \<and> (\<exists>os. set os = {k. k < length (blocks b) \<and> k \<noteq> insert_block b \<and> k \<notin> P} \<and> forward (blocks b) os)"

text \<open>Instructions are added to the block the builder is at, which is not one of the finished.\<close>

lemma pending_same:
  assumes "pending P b" and "insert_block b' = insert_block b" and "length (blocks b') = length (blocks b)"
    and "\<And>k. k < length (blocks b) \<Longrightarrow> k \<noteq> insert_block b \<Longrightarrow> blocks b' ! k = blocks b ! k"
    and "straight (blocks b' ! insert_block b)" and "list_all (targets_below (length (blocks b))) (blocks b' ! insert_block b)"
  shows "pending P b'"
proof -
  obtain os where "set os = {k. k < length (blocks b) \<and> k \<noteq> insert_block b \<and> k \<notin> P}" "forward (blocks b) os"
    using assms(1) by (auto simp: pending_def)
  then have "\<exists>os. set os = {k. k < length (blocks b') \<and> k \<noteq> insert_block b' \<and> k \<notin> P} \<and> forward (blocks b') os"
    using assms(2-4) by (intro exI [of _ os]) (auto elim: forward_cong)
  moreover have "\<forall>k<length (blocks b'). (if k = insert_block b' \<or> k \<in> P then straight (blocks b' ! k) else finished (blocks b' ! k))
          \<and> list_all (targets_below (length (blocks b'))) (blocks b' ! k)"
  proof (intro allI impI)
    fix k assume "k < length (blocks b')"
    then show "(if k = insert_block b' \<or> k \<in> P then straight (blocks b' ! k) else finished (blocks b' ! k))
          \<and> list_all (targets_below (length (blocks b'))) (blocks b' ! k)"
      using assms by (cases "k = insert_block b") (simp_all add: pending_def)
  qed
  ultimately show ?thesis using assms(1-3) by (simp add: pending_def)
qed

lemma targets_mono: "targets_below n i \<Longrightarrow> n \<le> m \<Longrightarrow> targets_below m i"
  by (cases i) auto

lemma straight_simps [simp]: "straight []" "straight (is @ [i]) \<longleftrightarrow> straight is \<and> \<not> terminator i" "finished (is @ [i]) \<longleftrightarrow> straight is \<and> terminator i"
  by (auto simp: straight_def finished_def)

lemma pending_cong: "pending P b \<Longrightarrow> blocks b' = blocks b \<Longrightarrow> insert_block b' = insert_block b \<Longrightarrow> pending P b'"
  by (simp add: pending_def)

lemma pending_here: "pending P b \<Longrightarrow> insert_block b < length (blocks b) \<and> straight (blocks b ! insert_block b)
    \<and> list_all (targets_below (length (blocks b))) (blocks b ! insert_block b)"
  by (auto simp: pending_def)

lemma pending_add: "pending P b \<Longrightarrow> \<not> terminator i \<Longrightarrow> targets_below 0 i \<Longrightarrow> pending P (add_inst i b)"
  by (rule pending_same [of P b]) (use pending_here [of P b] in \<open>auto simp: blocks_add_inst intro: targets_mono\<close>)

lemma pending_numbered: "pending P b \<Longrightarrow> \<not> terminator i \<Longrightarrow> targets_below 0 i \<Longrightarrow> pending P (numbered i b)"
  by (rule pending_same [of P b]) (use pending_here [of P b] in \<open>auto simp: blocks_numbered intro: targets_mono\<close>)

lemma pending_new:
  assumes p: "pending P b"
  shows "pending (insert (length (blocks b)) P) (new_block b)"
proof -
  have "list_all (targets_below (Suc (length (blocks b)))) (blocks b ! k)" if "k < length (blocks b)" for k
    using p that by (auto simp: pending_def list_all_iff intro: targets_mono [of "length (blocks b)"])
  then have "(if k = insert_block b \<or> k = length (blocks b) \<or> k \<in> P then straight (blocks (new_block b) ! k)
      else finished (blocks (new_block b) ! k)) \<and> list_all (targets_below (Suc (length (blocks b)))) (blocks (new_block b) ! k)"
    if "k < Suc (length (blocks b))" for k
    using p that by (cases "k = length (blocks b)") (simp_all add: pending_def blocks_new_block)
  moreover obtain os where os: "set os = {k. k < length (blocks b) \<and> k \<noteq> insert_block b \<and> k \<notin> P}" "forward (blocks b) os"
    using p unfolding pending_def by blast
  have "forward (blocks (new_block b)) os" by (rule forward_cong [OF os(2)]) (use os(1) in \<open>simp add: blocks_new_block\<close>)
  moreover have "set os = {k. k < Suc (length (blocks b)) \<and> k \<noteq> insert_block b \<and> k \<noteq> length (blocks b) \<and> k \<notin> P}"
    unfolding os(1) by auto
  moreover have "insert_block b < Suc (length (blocks b))" "insert_block b \<noteq> length (blocks b)" "insert_block b \<notin> P"
      "\<forall>k\<in>P. k < Suc (length (blocks b))"
    using p unfolding pending_def by (simp_all add: less_SucI)
  ultimately show ?thesis unfolding pending_def by (intro conjI exI [of _ os]) simp_all
qed

text \<open>A terminator finishes the block; it may branch to the pending ones only.\<close>

lemma pending_jump:
  assumes p: "pending P b" and "k \<in> P" and "terminator i" and "jumps i \<subseteq> P"
  shows "pending (P - {k}) (SetInsertPoint k (add_inst i b))"
proof -
  let ?b = "SetInsertPoint k (add_inst i b)"
  have ib: "insert_block b < length (blocks b)" "insert_block b \<notin> P" "\<forall>k\<in>P. k < length (blocks b)" using p by (auto simp: pending_def)
  have "targets_below (length (blocks b)) i" using assms(3,4) ib(3) by (cases i) auto
  then have "\<forall>j<length (blocks b). (if j = k \<or> j \<in> P - {k} then straight (blocks ?b ! j) else finished (blocks ?b ! j))
          \<and> list_all (targets_below (length (blocks b))) (blocks ?b ! j)"
    using p assms(2,3) by (auto simp: pending_def blocks_add_inst)
  moreover obtain os where os: "set os = {k. k < length (blocks b) \<and> k \<noteq> insert_block b \<and> k \<notin> P}" "forward (blocks b) os"
    using p by (auto simp: pending_def)
  have "forward (blocks ?b) (os @ [insert_block b])"
    by (rule forward_snoc [OF forward_cong [OF os(2)]]) (use os(1) ib assms(4) in \<open>auto simp: blocks_add_inst\<close>)
  moreover have "set (os @ [insert_block b]) = {j. j < length (blocks b) \<and> j \<noteq> k \<and> j \<notin> P - {k}}"
    using os(1) ib assms(2) by auto
  ultimately show ?thesis using ib assms(2) unfolding pending_def
    by (intro conjI exI [of _ "os @ [insert_block b]"]) auto
qed

lemma pending_fork: "pending P b \<Longrightarrow> n \<in> P \<Longrightarrow> Suc n \<in> P \<Longrightarrow> pending (P - {n}) (fork v n b)"
  unfolding fork_def by (rule pending_jump) simp_all

lemma pending_join: "pending P b \<Longrightarrow> Suc n \<in> P \<Longrightarrow> terminator i \<Longrightarrow> jumps i \<subseteq> P \<Longrightarrow> pending (P - {Suc n}) (join i n b)"
  unfolding join_def by (rule pending_jump)

lemma pending_target: "pending P b \<Longrightarrow> k \<in> P \<Longrightarrow> k < length (blocks b)"
  by (simp add: pending_def)

lemma pending_fresh: "pending P b \<Longrightarrow> length (blocks b) \<le> k \<Longrightarrow> k \<notin> P"
  by (auto simp: pending_def)

lemma pending_start: "pending {} beginBB"
  by (auto simp: pending_def beginBB_def intro!: exI [of _ "[]"])

lemma pending_end: "pending {} b \<Longrightarrow> function_ok (endBB v b)"
proof -
  assume p: "pending {} b"
  then have ne: "blocks (add_inst (RetI v) b) \<noteq> []" by (auto simp: pending_def add_inst_def)
  have "finished (blocks (add_inst (RetI v) b) ! k) \<and> list_all (targets_below (length (blocks b))) (blocks (add_inst (RetI v) b) ! k)"
    if "k < length (blocks b)" for k
    using p that by (auto simp: pending_def blocks_add_inst)
  then show ?thesis using ne by (simp add: function_ok_def endBB_def builder_steps list_all_length)
qed

section \<open>Expressions\<close>

lemma getCtxByteGEP_blocks: "getCtxByteGEP off t b = Some (p, b') \<Longrightarrow> blocks b' = blocks b \<and> insert_block b' = insert_block b"
  by (auto simp: getCtxByteGEP_def Let_def split: if_splits option.splits)

lemma pending_gep: "getCtxByteGEP off t b = Some (p, b') \<Longrightarrow> pending P b \<Longrightarrow> pending P b'"
  using getCtxByteGEP_blocks pending_cong by blast

lemma pending_readCtx: "readCtx off t b = Some (v, b') \<Longrightarrow> pending P b \<Longrightarrow> pending P b'"
  by (auto simp: readCtx_def Create_numbered bind_eq_Some_conv intro!: pending_numbered intro: pending_gep)

lemma pending_readCtxI: "readCtxI off bias n ix t b = Some (v, b') \<Longrightarrow> pending P b \<Longrightarrow> pending P b'"
  by (auto simp: readCtxI_def Create_numbered bind_eq_Some_conv intro!: pending_numbered)

lemma pending_writeCtx: "writeCtx off v b = Some b' \<Longrightarrow> pending P b \<Longrightarrow> pending P b'"
  by (auto simp: writeCtx_def builder_steps bind_eq_Some_conv intro!: pending_add intro: pending_gep)

lemma pending_writeCtxI: "writeCtxI off bias n ix v b = Some b' \<Longrightarrow> pending P b \<Longrightarrow> pending P b'"
  by (auto simp: writeCtxI_def builder_steps bind_eq_Some_conv intro!: pending_add)

lemma pending_load: "load_ty G a t b = Some (v, b') \<Longrightarrow> pending P b \<Longrightarrow> pending P b'"
  by (auto simp: load_ty_def Create_numbered Let_def intro!: pending_numbered split: option.splits if_splits)

lemma pending_store: "pending P b \<Longrightarrow> pending P (store G a v b)"
  by (simp add: store_def builder_steps pending_add)

lemma pending_set: "setRegValue r v b = Some b' \<Longrightarrow> pending P b \<Longrightarrow> pending P b'"
  by (auto simp: setRegValue_def split: if_splits elim!: pending_cong)

lemma pending_exprs:
  assumes "\<And>e b v b'. e \<in> set es \<Longrightarrow> emit_expr G e b = Some (v, b') \<Longrightarrow> pending P b \<Longrightarrow> pending P b'"
    and "emit_exprs G es b = Some (vs, b')" and "pending P b"
  shows "pending P b'"
  using assms
proof (induction es arbitrary: b vs)
  case (Cons e es)
  obtain u d us where "emit_expr G e b = Some (u, d)" and r: "emit_exprs G es d = Some (us, b')"
    using Cons.prems(2) by (auto simp: bind_eq_Some_conv)
  then have "pending P d" using Cons.prems(1) [of e b u d] Cons.prems(3) by simp
  then show ?case by (intro Cons.IH [of d us]) (use Cons.prems(1) r in \<open>simp_all, blast\<close>)
qed simp

text \<open>The three blocks of a conditional are made, filled and left one after the other.\<close>

lemma pending_conditional:
  assumes emit: "emit_expr G (ExprMux0X c f t) b = Some (v, b')" and p: "pending P b"
    and IH: "\<And>Q d u d'. emit_expr G c d = Some (u, d') \<Longrightarrow> pending Q d \<Longrightarrow> pending Q d'"
      "\<And>Q d u d'. emit_expr G t d = Some (u, d') \<Longrightarrow> pending Q d \<Longrightarrow> pending Q d'"
      "\<And>Q d u d'. emit_expr G f d = Some (u, d') \<Longrightarrow> pending Q d \<Longrightarrow> pending Q d'"
  shows "pending P b'"
  using emit
proof (rule emit_conditional)
  define n where "n = length (blocks b)"
  let ?b3 = "new_block (new_block (new_block b))"
  fix cv v1 v0 and b4 b6 b8 :: builder
  let ?b5 = "SetInsertPoint (Suc (length (blocks b))) (add_inst (CondBrI (ICmp ICmpEQ cv
       (get_c (getBitWidth (getType cv)) 0)) (length (blocks b)) (Suc (length (blocks b)))) b4)"
  let ?b7 = "SetInsertPoint (length (blocks b)) (add_inst (BrI (Suc (Suc (length (blocks b))))) b6)"
  let ?b9 = "SetInsertPoint (Suc (Suc (length (blocks b)))) (add_inst (BrI (Suc (Suc (length (blocks b))))) b8)"
  assume c: "emit_expr G c ?b3 = Some (cv, b4)" and t: "emit_expr G t ?b5 = Some (v1, b6)" and f: "emit_expr G f ?b7 = Some (v0, b8)"
    and b': "b' = numbered (PhiI (next_id b8) (getType (flattenType v0)) [(flattenType v0, insert_block b8), (flattenType v1, insert_block b6)]) ?b9"
  have fresh: "n \<notin> P" "Suc n \<notin> P" "Suc (Suc n) \<notin> P" using pending_fresh [OF p] by (simp_all add: n_def)
  have "pending (insert (Suc (Suc n)) (insert (Suc n) (insert n P))) ?b3"
    using pending_new [OF pending_new [OF pending_new [OF p]]] by (simp add: n_def)
  then have p4: "pending (insert (Suc (Suc n)) (insert (Suc n) (insert n P))) b4" by (rule IH(1) [OF c])
  have "pending (insert (Suc (Suc n)) (insert n P)) ?b5"
    using pending_jump [OF p4, of "Suc n"] pending_target [OF p4] fresh by (auto simp: n_def insert_Diff_if)
  then have p6: "pending (insert (Suc (Suc n)) (insert n P)) b6" by (rule IH(2) [OF t])
  have "pending (insert (Suc (Suc n)) P) ?b7"
    using pending_jump [OF p6, of n] pending_target [OF p6] fresh by (auto simp: n_def insert_Diff_if)
  then have p8: "pending (insert (Suc (Suc n)) P) b8" by (rule IH(3) [OF f])
  have "pending P ?b9"
    using pending_jump [OF p8, of "Suc (Suc n)"] pending_target [OF p8] fresh by (auto simp: n_def insert_Diff_if)
  then show ?thesis unfolding b' by (rule pending_numbered) simp_all
qed

lemma pending_expr: "emit_expr G e b = Some (v, b') \<Longrightarrow> pending P b \<Longrightarrow> pending P b'"
proof (induction e arbitrary: b v b' P)
  case (ExprOp k p as)
  then obtain vs where "emit_exprs G as b = Some (vs, b')" by (auto simp: bind_eq_Some_conv)
  from pending_exprs [OF ExprOp.IH this ExprOp.prems(2)] show ?case .
next
  case (ExprCCall f t as)
  then obtain vs where "emit_exprs G as b = Some (vs, b')" by (auto simp: bind_eq_Some_conv)
  from pending_exprs [OF ExprCCall.IH this ExprCCall.prems(2)] show ?case .
next
  case (ExprMux0X c f t)
  show ?case by (rule pending_conditional [OF ExprMux0X.prems]) (use ExprMux0X.IH in blast)+
qed (auto simp: bind_eq_Some_conv load_irty_def simp del: emit_expr.simps(10) intro: pending_readCtx pending_readCtxI pending_load)

section \<open>Statements\<close>

lemma pending_guarded:
  assumes p: "pending P b" and n: "n = length (blocks b)" and i: "i = BrI (Suc n)"
    and body: "\<And>Q. pending Q (fork v n (new_block (new_block b))) \<Longrightarrow> pending Q b3"
  shows "pending P (join i n b3)"
proof -
  have fresh: "n \<notin> P" "Suc n \<notin> P" using pending_fresh [OF p] by (simp_all add: n)
  have "pending (insert (Suc n) (insert n P)) (new_block (new_block b))"
    using pending_new [OF pending_new [OF p]] by (simp add: n)
  then have "pending (insert (Suc n) (insert n P) - {n}) (fork v n (new_block (new_block b)))"
    by (rule pending_fork) simp_all
  then have "pending (insert (Suc n) P) (fork v n (new_block (new_block b)))" using fresh by (simp add: insert_Diff_if)
  then have q: "pending (insert (Suc n) P) b3" by (rule body)
  show ?thesis using pending_join [OF q, of n i] pending_target [OF q] fresh i by (simp add: insert_Diff_if)
qed

lemma pending_call: "emit_call G types f t as tmp b = Some b' \<Longrightarrow> pending P b \<Longrightarrow> pending P b'"
proof (rule emit_call_steps, assumption)
  fix v0 vs b1 p a0 b2
  assume as: "emit_exprs G as b = Some (v0 # vs, b1)" and b2: "b2 = numbered (CallI (next_id b1) t f (a0 # vs)) b1" and p: "pending P b"
    and tmp: "case tmp of None \<Rightarrow> b' = b2 | Some r \<Rightarrow> \<exists>tt. getRegType types r = Some tt \<and> setRegValue r (fit_result (Inst (next_id b1) t) tt) b2 = Some b'"
  have "pending P b1" by (rule pending_exprs [OF pending_expr as p])
  then have "pending P b2" unfolding b2 by (rule pending_numbered) simp_all
  then show "pending P b'" using tmp pending_set by (cases tmp) auto
qed

lemma pending_exit:
  assumes "emit_exit G g et jk dst b = Some b'" and p: "pending P b"
  shows "pending P b'"
  using assms(1)
proof (cases rule: emit_exit_steps)
  case (1 vg b1 b3 n)
  have fresh: "n \<notin> P" "Suc n \<notin> P" using pending_fresh [OF p] 1(1) by simp_all
  have "pending (insert (Suc n) (insert n P)) (new_block (new_block b))"
    using pending_new [OF pending_new [OF p]] by (simp add: 1(1))
  then have "pending (insert (Suc n) (insert n P)) b1" by (rule pending_expr [OF 1(2)])
  then have "pending (insert (Suc n) (insert n P) - {n}) (fork vg n b1)" by (rule pending_fork) simp_all
  then have "pending (insert (Suc n) P) (fork vg n b1)" using fresh by (simp add: insert_Diff_if)
  then have "pending (insert (Suc n) P) b3"
    using 1(3) pending_writeCtx by (auto simp: setExitType_def split: if_splits)
  from pending_join [OF this, of n "RetI (get_c 64 (uint dst))"] show ?thesis using fresh 1(4) by (simp add: insert_Diff_if)
qed

lemma pending_storeg:
  assumes "emit_storeg G a d g b = Some b'" and p: "pending P b"
  shows "pending P b'"
  using assms(1)
proof (cases rule: emit_storeg_steps)
  case (1 vg b1 va b3 vd b4 n)
  show ?thesis unfolding 1(5)
    by (rule pending_guarded [OF pending_expr [OF 1(1) p] 1(2) refl]) (rule pending_store [OF pending_expr [OF 1(4) pending_expr [OF 1(3)]]])
qed

lemma pending_emitStore:
  assumes "emitStore G r a d b = Some b'" and p: "pending P b"
  shows "pending P b'"
  using assms(1)
proof (cases rule: emitStore_steps)
  case (1 va b3 vd b4 n)
  show ?thesis
    by (rule pending_set [OF 1(4) pending_guarded [OF p 1(1) refl]]) (rule pending_store [OF pending_expr [OF 1(3) pending_expr [OF 1(2)]]])
qed

lemma pending_emitLoad: "emitLoad G types r a b = Some b' \<Longrightarrow> pending P b \<Longrightarrow> pending P b'"
  by (elim emitLoad_steps) (use pending_set pending_load pending_expr in blast)

lemma pending_dirty: "emit_dirty G types g f t as tmp b = Some b' \<Longrightarrow> pending P b \<Longrightarrow> pending P b'"
proof (elim emit_dirty_steps)
  fix vg b1 assume "emit_expr G g b = Some (vg, b1)" "emit_call G types f t as tmp b1 = Some b'" "pending P b"
  then show "pending P b'" using pending_expr pending_call by blast
next
  fix vg b1 b3 k assume h: "emit_expr G g b = Some (vg, b1)" "k = length (blocks b1)"
    "emit_call G types f t as tmp (fork vg k (new_block (new_block b1))) = Some b3" "b' = join (BrI (Suc k)) k b3" "pending P b"
  show "pending P b'" unfolding h(4)
    by (rule pending_guarded [OF pending_expr [OF h(1,5)] h(2) refl pending_call [OF h(3)]])
qed

lemma pending_cas:
  assumes "emit_cas G old a x n None b = Some b'" and p: "pending P b"
  shows "pending P b'"
  using assms(1)
proof (cases rule: emit_cas_steps)
  case (1 va b1 ve b2 vl b3 vn b5 k)
  have "pending P b3" by (rule pending_load [OF 1(3) pending_expr [OF 1(2) pending_expr [OF 1(1) p]]])
  from pending_guarded [OF this 1(4) refl pending_store [OF pending_expr [OF 1(5)]]] show ?thesis
    by (rule pending_set [OF 1(6)])
qed

lemma pending_cas_double:
  assumes "emit_cas G old a x n (Some (oldH, xH, nH)) b = Some b'" and p: "pending P b"
  shows "pending P b'"
  using assms(1)
proof (cases rule: emit_cas_double_steps)
  case (1 va b1 ve b2 vl b3 veH b4 vlH b5 vn b6 vn' b7 b8 v k)
  have "pending P b5"
    by (rule pending_load [OF 1(5) pending_expr [OF 1(4) pending_load [OF 1(3) pending_expr [OF 1(2) pending_expr [OF 1(1) p]]]]])
  from pending_guarded [OF this 1(6) refl pending_store [OF pending_expr [OF 1(9) pending_store [OF pending_expr [OF 1(8)]]]]]
  show ?thesis by (rule pending_set [OF 1(11) pending_set [OF 1(10)]])
qed

lemma pending_loadg:
  assumes "emit_loadg G cvt r a alt g b = Some b'" and p: "pending P b"
  shows "pending P b'"
  using assms(1)
proof (cases rule: emit_loadg_steps)
  case (1 vg b1 va b2 vt b3 t vl b5 n b6 b7)
  have p3: "pending P b3" by (rule pending_expr [OF 1(3) pending_expr [OF 1(2) pending_expr [OF 1(1) p]]])
  have fresh: "n \<notin> P" "Suc n \<notin> P" "Suc (Suc n) \<notin> P" using pending_fresh [OF p3] 1(4) by simp_all
  have "pending (insert (Suc (Suc n)) (insert (Suc n) (insert n P))) (new_block (new_block (new_block b3)))"
    using pending_new [OF pending_new [OF pending_new [OF p3]]] by (simp add: 1(4))
  then have "pending (insert (Suc (Suc n)) (insert (Suc n) (insert n P)) - {n}) (fork vg n (new_block (new_block (new_block b3))))"
    by (rule pending_fork) simp_all
  then have "pending (insert (Suc (Suc n)) (insert (Suc n) P)) (fork vg n (new_block (new_block (new_block b3))))"
    using fresh by (simp add: insert_Diff_if)
  then have p5: "pending (insert (Suc (Suc n)) (insert (Suc n) P)) b5" by (rule pending_load [OF 1(6)])
  have "pending (insert (Suc (Suc n)) (insert (Suc n) P) - {Suc n}) b6"
    unfolding 1(7) by (rule pending_join [OF p5]) (use pending_target [OF p5] in simp_all)
  then have p6: "pending (insert (Suc (Suc n)) P) b6" using fresh by (simp add: insert_Diff_if)
  have "pending P b7"
    using pending_jump [OF p6, of "Suc (Suc n)" "BrI (Suc (Suc n))"] pending_target [OF p6] fresh 1(8) by (simp add: insert_Diff_if)
  then show ?thesis by (intro pending_set [OF 1(10)] pending_numbered) simp_all
qed

lemma pending_stmt:
  assumes e: "emit_stmt G types f b = Some b'" and p: "pending P b"
  shows "pending P b'"
proof (cases f)
  case (StmtPutI base n ix bias d)
  then obtain v b1 u b2 where v: "emit_expr G d b = Some (v, b1)" "emit_expr G ix b1 = Some (u, b2)" "writeCtxI base bias n u v b2 = Some b'"
    using e by (auto simp: bind_eq_Some_conv)
  show ?thesis by (rule pending_writeCtxI [OF v(3) pending_expr [OF v(2) pending_expr [OF v(1) p]]])
next
  case (StmtStore l a d)
  then obtain v b1 u b2 where v: "emit_expr G d b = Some (v, b1)" "emit_expr G a b1 = Some (u, b2)" "b' = store G u v b2"
    using e by (auto simp: bind_eq_Some_conv)
  show ?thesis unfolding v(3) by (rule pending_store [OF pending_expr [OF v(2) pending_expr [OF v(1) p]]])
next
  case (StmtCAS old a x n hi)
  then show ?thesis using e p pending_cas pending_cas_double by (cases hi) auto
next
  case (StmtLLSC r a d)
  then show ?thesis using e p pending_emitLoad pending_emitStore by (cases d) auto
qed (use assms in \<open>auto simp: bind_eq_Some_conv memFence_def builder_steps
  intro: pending_expr pending_writeCtx pending_set pending_dirty pending_exit pending_storeg pending_loadg intro!: pending_add\<close>)

lemma pending_stmts: "emit_stmts G types fs b = Some b' \<Longrightarrow> pending P b \<Longrightarrow> pending P b'"
  by (induction fs arbitrary: b) (auto simp: bind_eq_Some_conv dest: pending_stmt)

lemma emitted_end:
  assumes "emit_sb G sb = Some F"
  obtains v b where "pending {} b" "F = endBB v b"
proof -
  obtain b1 v b2 t b3 where b: "emit_stmts G (reg_types sb) (stmts sb) beginBB = Some b1" "emit_expr G (jump_expr sb) b1 = Some (v, b2)"
      "(case t of None \<Rightarrow> Some b2 | Some t \<Rightarrow> setExitType G t b2) = Some b3" "F = endBB v b3"
    using assms by (auto simp: emit_sb_def bind_eq_Some_conv)
  have "pending {} b2" by (rule pending_expr [OF b(2) pending_stmts [OF b(1) pending_start]])
  then have "pending {} b3" using b(3) pending_writeCtx by (auto simp: setExitType_def split: option.splits)
  then show thesis using b(4) that by blast
qed

lemma emitted_function_ok: "emit_sb G sb = Some F \<Longrightarrow> function_ok F"
  by (elim emitted_end) (simp add: pending_end)

section \<open>No loops\<close>

lemma pending_order:
  assumes "pending {} b"
  shows "\<exists>os. set os = {..<length (endBB v b)} \<and> forward (endBB v b) os"
proof -
  let ?F = "blocks (add_inst (RetI v) b)"
  obtain os where os: "set os = {k. k < length (blocks b) \<and> k \<noteq> insert_block b}" "forward (blocks b) os"
    using assms unfolding pending_def by auto
  have ib: "insert_block b < length (blocks b)" using assms by (simp add: pending_def)
  have "forward ?F (os @ [insert_block b])"
    by (rule forward_snoc [OF forward_cong [OF os(2)]]) (use os(1) ib in \<open>auto simp: blocks_add_inst\<close>)
  moreover have "set (os @ [insert_block b]) = {..<length ?F}" using os(1) ib by auto
  ultimately show ?thesis unfolding endBB_def builder_steps by blast
qed

text \<open>How many instructions can still be executed from a place in a function.\<close>

definition instructions_from :: "irinst list list \<Rightarrow> nat list \<Rightarrow> nat \<Rightarrow> nat" where
  "instructions_from F os k = sum_list (map (\<lambda>j. length (F ! j)) (dropWhile (\<lambda>j. j \<noteq> k) os))"

lemma instructions_after:
  assumes "os = as @ k # bs" and "j \<in> set bs" and "forward F os"
  shows "instructions_from F os j + length (F ! k) \<le> instructions_from F os k"
proof -
  have d: "distinct os" using assms(3) by (simp add: forward_def)
  then have k: "dropWhile (\<lambda>i. i \<noteq> k) os = k # bs" using assms(1) by (auto simp: dropWhile_append)
  have "\<forall>i\<in>set (as @ [k]). i \<noteq> j" using d assms(1,2) by auto
  then have "dropWhile (\<lambda>i. i \<noteq> j) ((as @ [k]) @ bs) = dropWhile (\<lambda>i. i \<noteq> j) bs"
    by (intro dropWhile_append2) blast
  then have "dropWhile (\<lambda>i. i \<noteq> j) os = dropWhile (\<lambda>i. i \<noteq> j) bs" using assms(1) by simp
  moreover have "sum_list (map f (dropWhile P xs)) \<le> sum_list (map f xs)" for f :: "nat \<Rightarrow> nat" and P xs
    by (induction xs) auto
  ultimately show ?thesis by (simp add: instructions_from_def k)
qed

lemma straight_jump:
  assumes "finished is" and "pc < length is" and "terminator (is ! pc)"
  shows "pc = length is - 1 \<and> is ! pc = last is"
proof -
  have "\<not> pc < length is - 1" using assms by (auto simp: finished_def straight_def list_all_length nth_butlast)
  then have "pc = length is - 1" using assms(2) by linarith
  then show ?thesis using assms(1) by (simp add: finished_def last_conv_nth)
qed

lemma exec_inst_place:
  assumes "exec_inst E D i k pc prev R m = Some c"
  shows "\<not> terminator i \<and> (\<exists>R' m'. c = Running k (pc + 1) prev R' m')
    \<or> terminator i \<and> (\<exists>j R' m'. j \<in> jumps i \<and> c = Running j 0 k R' m') \<or> (\<exists>xs m'. c = Returned xs m')"
  using assms by (cases i) (auto split: prod.splits list.splits option.splits if_splits)

lemma bounded_run:
  assumes ok: "function_ok F" and os: "set os = {..<length F}" "forward F os"
    and c: "k < length F" "pc < length (F ! k)" and n: "instructions_from F os k - pc \<le> n"
  shows "run_function n E D F (Running k pc prev R m) = None \<or> (\<exists>xs m'. run_function n E D F (Running k pc prev R m) = Some (Returned xs m'))"
  using c n
proof (induction n arbitrary: k pc prev R m)
  case 0
  obtain as bs where "os = as @ k # bs" using os(1) 0 by (metis lessThan_iff split_list)
  moreover have "distinct os" using os(2) by (simp add: forward_def)
  ultimately have "dropWhile (\<lambda>i. i \<noteq> k) os = k # bs" by (auto simp: dropWhile_append)
  then show ?case using 0 by (simp add: instructions_from_def)
next
  case (Suc n)
  obtain as bs where split: "os = as @ k # bs" using os(1) Suc.prems(1) by (metis lessThan_iff split_list)
  have fin: "finished (F ! k)" "list_all (targets_below (length F)) (F ! k)" using ok Suc.prems(1) by (simp_all add: function_ok_def list_all_length)
  have ends: "run_function n E D F (Returned xs m') = Some (Returned xs m')" for xs m' by (cases n) auto
  show ?case
  proof (cases "exec_inst E D (F ! k ! pc) k pc prev R m")
    case (Some c)
    then have run: "run_function (Suc n) E D F (Running k pc prev R m) = run_function n E D F c" using Suc.prems by simp
    consider (step) R' m' where "\<not> terminator (F ! k ! pc)" "c = Running k (pc + 1) prev R' m'"
      | (jump) j R' m' where "terminator (F ! k ! pc)" "j \<in> jumps (F ! k ! pc)" "c = Running j 0 k R' m'"
      | (ret) xs m' where "c = Returned xs m'"
      using exec_inst_place [OF Some] by blast
    then show ?thesis
    proof cases
      case step
      have "pc \<noteq> length (F ! k) - 1" using step(1) fin(1) by (auto simp: finished_def last_conv_nth)
      then show ?thesis using Suc.IH [of k "pc + 1"] Suc.prems step(2) run by simp
    next
      case jump
      have pc: "pc = length (F ! k) - 1" "F ! k ! pc = last (F ! k)" using straight_jump [OF fin(1) Suc.prems(2) jump(1)] by auto
      have "targets_below (length F) (F ! k ! pc)" using fin(2) Suc.prems(2) by (simp add: list_all_length)
      then have j: "j < length F" using jump(2) by (cases "F ! k ! pc") auto
      have "jumps (last (F ! k)) \<inter> set (as @ [k]) = {}" by (rule forwardD [OF os(2) split])
      then have out: "j \<notin> set (as @ [k])" using jump(2) unfolding pc(2) by (rule disjoint_iff [THEN iffD1, rule_format])
      have "j \<in> set os" using j unfolding os(1) by simp
      then have "j \<in> set bs" using out unfolding split by simp
      from instructions_after [OF split this os(2)] have "instructions_from F os j - 0 \<le> n" using Suc.prems pc(1) by linarith
      moreover have "0 < length (F ! j)" using ok j by (simp add: function_ok_def list_all_length finished_def)
      ultimately show ?thesis using Suc.IH [OF j, of 0] jump(3) run by simp
    next
      case ret
      then show ?thesis using run ends by simp
    qed
  qed (use Suc.prems in simp)
qed

lemma instructions_bound: "set os = {..<length F} \<Longrightarrow> forward F os \<Longrightarrow> instructions_from F os k \<le> length (concat F)"
proof -
  assume os: "set os = {..<length F}" "forward F os"
  have "sum_list (map f (dropWhile P xs)) \<le> sum_list (map f xs)" for f :: "nat \<Rightarrow> nat" and P xs
    by (induction xs) auto
  then have "instructions_from F os k \<le> sum_list (map (\<lambda>j. length (F ! j)) os)" by (simp add: instructions_from_def)
  also have "\<dots> = (\<Sum>j<length F. length (F ! j))"
    using os sum_list_distinct_conv_sum_set [of os "\<lambda>j. length (F ! j)"] by (simp add: forward_def)
  also have "\<dots> = length (concat F)" by (simp add: length_concat sum_list_sum_nth atLeast0LessThan)
  finally show ?thesis .
qed

lemma emitted_function_ends:
  assumes "emit_sb G sb = Some F" and "length (concat F) \<le> n"
  shows "run_function n E D F (Running 0 0 0 R m) = None \<or> (\<exists>xs m'. run_function n E D F (Running 0 0 0 R m) = Some (Returned xs m'))"
  using assms(1)
proof (rule emitted_end)
  fix v b assume b: "pending {} b" "F = endBB v b"
  obtain os where os: "set os = {..<length F}" "forward F os" using pending_order [OF b(1)] b(2) by blast
  have ok: "function_ok F" by (rule emitted_function_ok [OF assms(1)])
  then have "0 < length F" "0 < length (F ! 0)" by (auto simp: function_ok_def list_all_length finished_def)
  then show ?thesis using bounded_run [OF ok os] instructions_bound [OF os, of 0] assms(2) by simp
qed

end
