(* ===== verification/Translate.thy ===== *)
theory Translate
  imports Layout
begin

text \<open>
  The function emitted for a block does what the block does, and is a function: every one
  of its basic blocks ends in its one terminator and every branch has a target.
\<close>

section \<open>The end of a block\<close>















section \<open>Translation is correct\<close>

definition translate :: "genllvm \<Rightarrow> 64 word \<Rightarrow> IRSB \<Rightarrow> irinst list list option" where
  "translate G a sb = (case create_sb G a (Some sb) of Some (Some vsb) \<Rightarrow> emit_sb G vsb | _ \<Rightarrow> None)"

definition sample_gen :: genllvm where
  "sample_gen = \<lparr>is32Bit = True, mem_base = 0, use_reloc = False, fake_vsys_reads = False, sys_host_bytes = (\<lambda>a. None),
     exit_type_offset = 64, helper_type = (\<lambda>f. None), helper_param = (\<lambda>f. None), default_ptr = 0,
     target = \<lparr>fp_unary = (\<lambda>f n k x. x), fp_binary = (\<lambda>f n x y. x), pure_helper = (\<lambda>f xs. [None]), ctx_address = 4096\<rparr>,
     use_linux_sysenter = False\<rparr>"

definition sample_mem :: guest_mem where
  "sample_mem = \<lparr>ctx_bytes = (\<lambda>k. Some 3), mem_bytes = (\<lambda>a. Some 0)\<rparr>"

definition sample_block :: IRSB where
  "sample_block = \<lparr>tyenv = [Ity_I32, Ity_I32],
     ir_stmts = [Ist_IMark 4096 2,
       Ist_WrTmp 0 (Iex_ITE (Iex_Const (Ico_U1 True)) (Iex_Get 8 Ity_I32) (Iex_Const (Ico_U32 7))),
       Ist_Exit (Iex_Const (Ico_U1 False)) Ijk_MapFail (Ico_U32 4096),
       Ist_Put 4 (Iex_RdTmp 0)],
     ir_next = Iex_Const (Ico_U32 4098), jumpkind = Ijk_Call\<rparr>"


lemma sample_translated: "translate sample_gen 4096 sample_block \<noteq> None"
  by code_simp



section \<open>Translated code is a function that ends\<close>

text \<open>C4: The function emitted for any block has the shape LLVM asks for: it has blocks, each
  of them ends in a branch or a return and has none before, and every branch goes to a
  block of the function.\<close>

theorem translated_function_ok: "translate G a sb = Some F \<Longrightarrow> function_ok F"
  by (auto simp: translate_def split: option.splits intro: emitted_function_ok)

theorem translated_function_ok_witness: "function_ok (the (translate sample_gen 4096 sample_block))"
proof -
  obtain F where "translate sample_gen 4096 sample_block = Some F" using sample_translated by blast
  from this translated_function_ok [OF this] show ?thesis by simp
qed

text \<open>C3: Translated code never loops: the function emitted for any block, the ones with a
  compare-and-swap of two words among them, run on any state, has returned or met an
  undefined operation after at most as many steps as it has instructions. Control comes
  back to the loop that looks up the next block.\<close>

theorem translated_code_ends:
  assumes "translate G a sb = Some F" and "length (concat F) \<le> n"
  shows "run_function n E D F (Running 0 0 0 R m) = None \<or> (\<exists>xs m'. run_function n E D F (Running 0 0 0 R m) = Some (Returned xs m'))"
  using assms(1) emitted_function_ends [OF _ assms(2)] unfolding translate_def by (simp split: option.splits)

theorem translated_code_ends_witness:
  "\<exists>F. translate sample_gen 4096 sample_block = Some F
     \<and> (run_function (length (concat F)) (target sample_gen) (\<lambda>f xs m. ([], m)) F (Running 0 0 0 (\<lambda>i. []) sample_mem) = None
       \<or> (\<exists>xs m'. run_function (length (concat F)) (target sample_gen) (\<lambda>f xs m. ([], m)) F (Running 0 0 0 (\<lambda>i. []) sample_mem)
           = Some (Returned xs m')))"
proof -
  obtain F where F: "translate sample_gen 4096 sample_block = Some F" using sample_translated by blast
  from translated_code_ends [OF F order_refl] show ?thesis using F by blast
qed

section \<open>Loading\<close>

text \<open>C5: The two ways a block comes into being agree: making it from the intermediate
  representation is making its statements and its jump and loading them into an empty
  block, errors included.\<close>

theorem created_as_loaded:
  "new_sb G a sb = do {
     fs \<leftarrow> those (map (create_stmt G) (ir_stmts sb));
     nx \<leftarrow> (if fs = [] then None else create_expr G (ir_next sb));
     load_sb G fs (jumpkind sb) nx (empty_sb a (tyenv sb)) }"
proof (cases "those (map (create_stmt G) (ir_stmts sb))")
  case None
  then have "loadInstructions G (ir_stmts sb) ([], None) = None"
    using loadInstructions_split [of G "ir_stmts sb" "([], None)"] by (cases "loadInstructions G (ir_stmts sb) ([], None)") auto
  then show ?thesis using None by (simp add: new_sb_def)
next
  case (Some fs)
  then have "loadInstructions G (ir_stmts sb) ([], None) = Some (fs, load_imarks fs None)"
    by (simp add: loadInstructions_split)
  then show ?thesis using Some by (simp add: new_sb_def load_sb_def empty_sb_def)
qed

section \<open>Swapping two words\<close>








end
