(* ===== verification/Execution.thy ===== *)
theory Execution
  imports Vexexec Translate
begin

text \<open>
  The loop, the caches, the translator and the emitted code together: the code that the
  loop runs for an address is the machine code of the function that was generated from
  the block cached for the address, so that, when the machine code of this function does
  what the function does, a step of the loop does what the block does.
\<close>

section \<open>Code and functions\<close>










section \<open>Coherence of every state of the loop\<close>







section \<open>The code of a step\<close>





section \<open>A step of the loop is a step of the block\<close>





section \<open>A guest whose block calls\<close>

definition call_block :: IRSB where
  "call_block = \<lparr>tyenv = [], ir_stmts = [Ist_IMark 4096 2, Ist_Put 4 (Iex_Const (Ico_U8 7))],
     ir_next = Iex_Const (Ico_U32 4098), jumpkind = Ijk_Call\<rparr>"

definition after_call :: "'r guest \<Rightarrow> 'r guest" where
  "after_call g = g\<lparr>state_data := (state_data g)(4 := 7, 64 := 6)\<rparr>"

definition call_env :: "(IRSB, 64 word \<Rightarrow> 8 word, Mapping) exec_env" where
  "call_env = \<lparr>jit_env = \<lparr>xlate_code = (\<lambda>n h p. Some call_block), rand_value = (\<lambda>n. n), renamed = (\<lambda>names s. s), ret_addrs = (\<lambda>f. []), machine_code = (\<lambda>f. 0x1000)\<rparr>,
     state_byte_c = 64, getHostPtr = (\<lambda>mm p. p + 0x100000), lookupMapping = (\<lambda>m p. None), recordMapping = (\<lambda>m mm. m),
     run_code = (\<lambda>c g. ([], 4098, after_call g)), host_allows = (\<lambda>x. True), getEndAddr_of = (\<lambda>vsb. 4098),
     sc_apply = (\<lambda>g mm. ((0, False), g, mm)), setSyscallResult = (\<lambda>r g. g), getPC = (\<lambda>g. 4096)\<rparr>"

definition call_start :: "(IRSB, 64 word \<Rightarrow> 8 word, Mapping) VexExec" where
  "call_start = new_VexExec call_env TRACE_OFF None \<lparr>state_data = (\<lambda>k. 0), ram = (\<lambda>a. 0)\<rparr> demo_page"


lemma call_start_sel [simp]: "next_addr call_start = 4096" "gs call_start = \<lparr>state_data = (\<lambda>k. 0), ram = (\<lambda>a. 0)\<rparr>"
  by (simp_all add: call_start_def new_VexExec_def beginStepping_def call_env_def)








end
