(* ===== verification/Vexxlate.thy ===== *)
theory Vexxlate
  imports Vexsb Fragcache
begin

text \<open>
  The front end (vexxlate.cc): the bytes of the guest are lifted by the VEX library, which is
  a parameter, the lifted block is made into the translator's, and it is refused when it
  has an operator without an instance. A 32-bit guest's code that the library cannot decode is
  searched for the system call of Windows, which is taken for Linux's. Reading or writing
  outside an array is a fault.
\<close>

section \<open>Operators without an instance\<close>

text \<open>How often \<open>createOp\<close> has counted such an operator up when an object has been made.\<close>

fun unknown_ops :: "vexexpr \<Rightarrow> nat" where
  "unknown_ops (ExprGetI base n ix bias t) = unknown_ops ix"
| "unknown_ops (ExprOp k p as) = sum_list (map unknown_ops as)"
| "unknown_ops (ExprUnknownOp k as) = Suc (sum_list (map unknown_ops as))"
| "unknown_ops (ExprLoad t a) = unknown_ops a"
| "unknown_ops (ExprCCall f t as) = sum_list (map unknown_ops as)"
| "unknown_ops (ExprMux0X c f t) = unknown_ops c + unknown_ops f + unknown_ops t"
| "unknown_ops e = 0"

fun stmt_exprs :: "vexstmt \<Rightarrow> vexexpr list" where
  "stmt_exprs (StmtPut off e) = [e]"
| "stmt_exprs (StmtPutI base n ix bias e) = [ix, e]"
| "stmt_exprs (StmtWrTmp r e) = [e]"
| "stmt_exprs (StmtStore isLE a d) = [a, d]"
| "stmt_exprs (StmtCAS t a x n hi) = [a, x, n] @ (case hi of None \<Rightarrow> [] | Some (tH, xH, nH) \<Rightarrow> [xH, nH])"
| "stmt_exprs (StmtLLSC r a d) = [a] @ (case d of None \<Rightarrow> [] | Some d \<Rightarrow> [d])"
| "stmt_exprs (StmtDirty g f t as tmp) = g # as"
| "stmt_exprs (StmtExit g et jk dst) = [g]"
| "stmt_exprs (StmtStoreG a d g) = [a, d, g]"
| "stmt_exprs (StmtLoadG cvt r a alt g) = [a, alt, g]"
| "stmt_exprs s = []"

text \<open>The expression for the next address is made even where the end of the block replaces it.\<close>

definition counted_ops :: "genllvm \<Rightarrow> IRSB \<Rightarrow> vexsb \<Rightarrow> nat" where
  "counted_ops G irsb sb = sum_list (map unknown_ops (concat (map stmt_exprs (stmts sb))))
     + (case create_expr G (ir_next irsb) of None \<Rightarrow> 0 | Some e \<Rightarrow> unknown_ops e)"

section \<open>State\<close>

datatype VexArch = VexArchAMD64 | VexArchX86 | VexArchARM | VexArchMIPS32

text \<open>Memory from a pointer on; where there is nothing to read there is no byte.\<close>

type_synonym guest_buf = "nat \<Rightarrow> 8 word option"

record VexAbiInfo =
  guest_stack_redzone_size :: int
  guest_amd64_assume_fs_is_const :: bool
  guest_amd64_assume_gs_is_const :: bool

text \<open>The library lifts a block, or cannot read the guest's memory.\<close>

record xlate_env =
  LibVEX_Translate :: "VexArch \<Rightarrow> VexAbiInfo \<Rightarrow> guest_buf \<Rightarrow> 64 word \<Rightarrow> IRSB option"
  the_gen :: genllvm
  frag_hash :: hash_env

record VexXlate =
  arch :: VexArch
  frag_cache :: "FragCache option"
  frag_log :: "bytes option"
  unhandled_expr_c :: "32 word"

section \<open>Patching\<close>

fun find_int2e :: "guest_buf \<Rightarrow> nat \<Rightarrow> nat \<Rightarrow> fault + nat option" where
  "find_int2e gb i 0 = Inr None"
| "find_int2e gb i (Suc n) = (case gb i of
     None \<Rightarrow> Inl Past_end
   | Some x \<Rightarrow> if x = 0xcd
       then (case gb (i + 1) of None \<Rightarrow> Inl Past_end | Some y \<Rightarrow> if y = 0x2e then Inr (Some i) else find_int2e gb (i + 1) n)
       else find_int2e gb (i + 1) n)"

text \<open>The 128 bytes of the copy.\<close>

definition dumb_buf :: "guest_buf \<Rightarrow> nat \<Rightarrow> fault + guest_buf" where
  "dumb_buf gb i = (if (\<exists>k<128. gb k = None) \<or> 128 \<le> i + 1 then Inl Past_end
     else Inr (\<lambda>k. if k = i + 1 then Some 0x80 else if k < 128 then gb k else None))"

definition patchBadDecode :: "xlate_env \<Rightarrow> guest_buf \<Rightarrow> VexXlate \<Rightarrow> fault + guest_buf option" where
  "patchBadDecode E gb s = (if arch s = VexArchX86
     then and_then (find_int2e gb 0 128) (\<lambda>r. case r of
       None \<Rightarrow> Inr None
     | Some i \<Rightarrow> and_then (dumb_buf gb i) (\<lambda>b. Inr (Some b)))
     else Inr None)"

section \<open>Translating\<close>

definition abi_of :: "VexArch \<Rightarrow> VexAbiInfo" where
  "abi_of a = \<lparr>guest_stack_redzone_size = (if a = VexArchX86 then 0 else 128), guest_amd64_assume_fs_is_const = True,
     guest_amd64_assume_gs_is_const = (a \<noteq> VexArchX86)\<rparr>"

text \<open>The first \<open>n\<close> bytes.\<close>

definition get_bytes :: "guest_buf \<Rightarrow> nat \<Rightarrow> fault + bytes" where
  "get_bytes gb n = (case those (map gb [0..<n]) of None \<Rightarrow> Inl Past_end | Some bs \<Rightarrow> Inr bs)"

definition note_fragment :: "xlate_env \<Rightarrow> guest_buf \<Rightarrow> nat \<Rightarrow> VexXlate \<Rightarrow> fault + VexXlate" where
  "note_fragment E gb n s = (if n = 0 then Inr s else
     and_then (case frag_cache s of
         None \<Rightarrow> Inr s
       | Some c \<Rightarrow> and_then (get_bytes gb n) (\<lambda>bs. and_then (addFragment (frag_hash E) bs n c) (\<lambda>(_, c). Inr (s\<lparr>frag_cache := Some c\<rparr>)))) (\<lambda>s.
     case frag_log s of
       None \<Rightarrow> Inr s
     | Some l \<Rightarrow> Inr (case get_bytes gb n of Inl f \<Rightarrow> s | Inr bs \<Rightarrow> s\<lparr>frag_log := Some (l @ bs)\<rparr>)))"

text \<open>What is done with a block the translator has made.\<close>

definition take_block :: "xlate_env \<Rightarrow> guest_buf \<Rightarrow> IRSB \<Rightarrow> vexsb \<Rightarrow> VexXlate \<Rightarrow> fault + vexsb option \<times> VexXlate" where
  "take_block E gb irsb sb s = (
     let c = unhandled_expr_c s + of_nat (counted_ops (the_gen E) irsb sb); s' = s\<lparr>unhandled_expr_c := c\<rparr>
     in case getSize sb of
          None \<Rightarrow> Inl Assert_failed
        | Some n \<Rightarrow> and_then (note_fragment E gb (unat n) s') (\<lambda>s'.
            if unhandled_expr_c s \<noteq> c then Inr (None, s') else Inr (Some sb, s')))"

text \<open>How often the search for the system call of Windows can succeed.\<close>

definition int2e_at :: "guest_buf \<Rightarrow> nat \<Rightarrow> bool" where
  "int2e_at gb i \<longleftrightarrow> gb i = Some 0xcd \<and> gb (i + 1) = Some 0x2e"

lemma find_int2e_at: "find_int2e gb i n = Inr (Some j) \<Longrightarrow> i \<le> j \<and> j < i + n \<and> int2e_at gb j"
proof (induction n arbitrary: i)
  case (Suc n)
  show ?case
  proof (cases "int2e_at gb i")
    case True
    then have "j = i" using Suc.prems by (simp add: int2e_at_def)
    then show ?thesis using True by simp
  next
    case False
    then have "find_int2e gb (i + 1) n = Inr (Some j)" using Suc.prems by (auto simp: int2e_at_def split: option.splits if_splits)
    from Suc.IH [OF this] show ?thesis by simp
  qed
qed simp

lemma patched_less:
  assumes "patchBadDecode E gb s = Inr (Some b)"
  shows "card {i. i < 128 \<and> int2e_at b i} < card {i. i < 128 \<and> int2e_at gb i}"
proof (rule psubset_card_mono)
  obtain j where j: "find_int2e gb 0 128 = Inr (Some j)" "dumb_buf gb j = Inr b"
    using assms by (auto simp: patchBadDecode_def split: if_splits option.splits)
  then have b: "b = (\<lambda>k. if k = j + 1 then Some 0x80 else if k < 128 then gb k else None)" by (auto simp: dumb_buf_def split: if_splits)
  have at: "j < 128" "int2e_at gb j" using find_int2e_at [OF j(1)] by auto
  have "int2e_at gb i" if "int2e_at b i" for i using that by (auto simp: int2e_at_def b split: if_splits)
  moreover have "\<not> int2e_at b j" by (simp add: int2e_at_def b)
  ultimately show "{i. i < 128 \<and> int2e_at b i} \<subset> {i. i < 128 \<and> int2e_at gb i}" using at by auto
qed simp

function xlate :: "xlate_env \<Rightarrow> guest_buf \<Rightarrow> 64 word \<Rightarrow> VexXlate \<Rightarrow> fault + vexsb option \<times> VexXlate" where
  "xlate E gb a s = (case LibVEX_Translate E (arch s) (abi_of (arch s)) gb a of
     None \<Rightarrow> Inr (None, s)
   | Some irsb \<Rightarrow> (case create_sb (the_gen E) a (Some irsb) of
       None \<Rightarrow> Inl Assert_failed
     | Some None \<Rightarrow> (case patchBadDecode E gb s of
         Inl f \<Rightarrow> Inl f
       | Inr None \<Rightarrow> Inr (None, s)
       | Inr (Some b) \<Rightarrow> xlate E b a s)
     | Some (Some sb) \<Rightarrow> take_block E gb irsb sb s))"
  by pat_completeness auto

termination
  by (relation "measure (\<lambda>(E, gb, a, s). card {i. i < 128 \<and> int2e_at gb i})") (auto dest: patched_less)

declare xlate.simps [simp del]

section \<open>What is translated\<close>

text \<open>Code in which some of the system calls of Windows have become Linux's.\<close>

definition patched :: "guest_buf \<Rightarrow> guest_buf \<Rightarrow> bool" where
  "patched gb b \<longleftrightarrow> (\<forall>k. b k = gb k \<or> (0 < k \<and> gb (k - 1) = Some 0xcd \<and> gb k = Some 0x2e \<and> b k = Some 0x80) \<or> (128 \<le> k \<and> b k = None))"

lemma patched_refl [simp]: "patched gb gb"
  by (simp add: patched_def)

lemma patched_once:
  assumes "patchBadDecode E gb s = Inr (Some b)"
  shows "patched gb b \<and> arch s = VexArchX86"
proof -
  obtain j where j: "find_int2e gb 0 128 = Inr (Some j)" "dumb_buf gb j = Inr b" and x: "arch s = VexArchX86"
    using assms by (auto simp: patchBadDecode_def split: if_splits option.splits)
  then have "int2e_at gb j" using find_int2e_at by blast
  then show ?thesis using j(2) x by (auto simp: patched_def dumb_buf_def int2e_at_def split: if_splits)
qed

lemma patched_trans: "patched a b \<Longrightarrow> patched b c \<Longrightarrow> patched a c"
  unfolding patched_def
proof
  fix k
  assume ab: "\<forall>k. b k = a k \<or> (0 < k \<and> a (k - 1) = Some 0xcd \<and> a k = Some 0x2e \<and> b k = Some 0x80) \<or> (128 \<le> k \<and> b k = None)"
    and bc: "\<forall>k. c k = b k \<or> (0 < k \<and> b (k - 1) = Some 0xcd \<and> b k = Some 0x2e \<and> c k = Some 0x80) \<or> (128 \<le> k \<and> c k = None)"
  show "c k = a k \<or> (0 < k \<and> a (k - 1) = Some 0xcd \<and> a k = Some 0x2e \<and> c k = Some 0x80) \<or> (128 \<le> k \<and> c k = None)"
    using spec [OF ab, of k] spec [OF ab, of "k - 1"] spec [OF bc, of k] by auto
qed

lemma take_block_Some:
  assumes "take_block E gb irsb sb s = Inr (Some v, s')"
  shows "v = sb \<and> (of_nat (counted_ops (the_gen E) irsb sb) :: 32 word) = 0"
  using assms by (auto simp: take_block_def Let_def split: option.splits if_splits)

text \<open>C11: A block the front end gives out is the translation of the guest's bytes at the
  address, in which at most system calls of Windows (\<open>int 0x2e\<close>) have become Linux's
  (\<open>int 0x80\<close>), and these only for a 32-bit x86 guest; and none of the operators in it is one
  the code generator has no instance for, unless a multiple of \<open>2 ^ 32\<close> of them is.\<close>

theorem front_end_blocks:
  assumes "xlate E gb a s = Inr (Some sb, s')"
  shows "\<exists>b irsb. patched gb b \<and> (b \<noteq> gb \<longrightarrow> arch s = VexArchX86)
    \<and> LibVEX_Translate E (arch s) (abi_of (arch s)) b a = Some irsb \<and> create_sb (the_gen E) a (Some irsb) = Some (Some sb)
    \<and> 2 ^ 32 dvd counted_ops (the_gen E) irsb sb"
  using assms
proof (induction E gb a s rule: xlate.induct)
  case (1 E gb a s)
  obtain irsb v where i: "LibVEX_Translate E (arch s) (abi_of (arch s)) gb a = Some irsb"
      and c: "create_sb (the_gen E) a (Some irsb) = Some v"
    using 1(2) by (subst (asm) xlate.simps) (auto split: option.splits)
  show ?case
  proof (cases v)
    case None
    then obtain b where b: "patchBadDecode E gb s = Inr (Some b)" "xlate E b a s = Inr (Some sb, s')"
      using 1(2) i c by (subst (asm) xlate.simps) (auto split: sum.splits option.splits)
    have "create_sb (the_gen E) a (Some irsb) = Some None" using c None by simp
    from 1(1) [OF i this _ _ _ b(2)] b(1) show ?thesis using patched_once [OF b(1)] patched_trans by blast
  next
    case (Some w)
    then have "take_block E gb irsb w s = Inr (Some sb, s')" using 1(2) i c by (subst (asm) xlate.simps) simp
    from take_block_Some [OF this] have "sb = w" "2 ^ 32 dvd counted_ops (the_gen E) irsb w"
      by (simp_all add: word_of_nat_eq_0_iff)
    then show ?thesis using i c Some patched_refl [of gb] by blast
  qed
qed

section \<open>A call of Windows\<close>

definition win_code :: guest_buf where
  "win_code k = (if k = 0 then Some 0xcd else if k = 1 then Some 0x2e else Some 0x90)"

text \<open>A library that does not know \<open>int 0x2e\<close>.\<close>

definition win_env :: xlate_env where
  "win_env = \<lparr>LibVEX_Translate = (\<lambda>a i gb p. Some \<lparr>tyenv = [], ir_stmts = [Ist_IMark p 2], ir_next = Iex_Const (Ico_U32 4098),
       jumpkind = (if gb 1 = Some 0x80 then Ijk_Sys_int128 else Ijk_NoDecode)\<rparr>),
     the_gen = \<lparr>is32Bit = True, mem_base = 0, use_reloc = False, fake_vsys_reads = False, sys_host_bytes = (\<lambda>a. None),
       exit_type_offset = 64, helper_type = (\<lambda>f. None), helper_param = (\<lambda>f. None), default_ptr = 0,
       target = \<lparr>fp_unary = (\<lambda>f n k x. x), fp_binary = (\<lambda>f n x y. x), pure_helper = (\<lambda>f xs. [None]), ctx_address = 4096\<rparr>,
       use_linux_sysenter = False\<rparr>,
     frag_hash = \<lparr>sha1 = (\<lambda>b. b), behind_digest = (\<lambda>n. [])\<rparr>\<rparr>"

definition win_xlate :: VexXlate where
  "win_xlate = \<lparr>arch = VexArchX86, frag_cache = None, frag_log = Some [], unhandled_expr_c = 0\<rparr>"

definition linux_code :: guest_buf where
  "linux_code k = (if k = 1 then Some 0x80 else if k < 128 then win_code k else None)"

lemma win_patch: "patchBadDecode win_env win_code win_xlate = Inr (Some linux_code)"
proof -
  have "find_int2e win_code 0 (Suc 127) = Inr (Some 0)" by (subst find_int2e.simps) (simp add: win_code_def)
  moreover have n: "(128 :: nat) = Suc 127" by simp
  ultimately have "find_int2e win_code 0 128 = Inr (Some 0)" unfolding n by (simp only:)
  moreover have "dumb_buf win_code 0 = Inr linux_code" by (simp add: dumb_buf_def linux_code_def [abs_def] win_code_def)
  ultimately show ?thesis by (simp add: patchBadDecode_def win_xlate_def)
qed

lemma win_declined: "create_sb (the_gen win_env) 4096 (LibVEX_Translate win_env a i win_code 4096) = Some None"
  by (simp add: win_env_def win_code_def create_sb_def)

lemma win_step: "xlate win_env win_code 4096 win_xlate = xlate win_env linux_code 4096 win_xlate"
proof -
  obtain irsb where i: "LibVEX_Translate win_env (arch win_xlate) (abi_of (arch win_xlate)) win_code 4096 = Some irsb" by (simp add: win_env_def)
  then show ?thesis using win_declined [of "arch win_xlate" "abi_of (arch win_xlate)"]
    by (subst xlate.simps) (simp add: win_patch)
qed

lemma linux_one: "linux_code (Suc 0) = Some 0x80"
  by (simp add: linux_code_def)

lemma linux_bytes: "get_bytes linux_code 2 = Inr [0xcd, 0x80]"
  by (simp add: get_bytes_def linux_code_def win_code_def upt_rec)

lemma win_result: "\<exists>sb s. xlate win_env win_code 4096 win_xlate = Inr (Some sb, s) \<and> isSyscall sb \<and> frag_log s = Some [0xcd, 0x80]"
  unfolding win_step
  by (subst xlate.simps)
    (simp add: win_env_def win_xlate_def linux_one create_sb_def new_sb_def loadJump_def linux_bytes empty_sb_def isSyscall_def
      take_block_def getSize_def getEndAddr_def counted_ops_def note_fragment_def Let_def)

theorem front_end_blocks_witness:
  "\<exists>sb s b. xlate win_env win_code 4096 win_xlate = Inr (Some sb, s) \<and> isSyscall sb \<and> patched win_code b"
proof -
  obtain sb s where x: "xlate win_env win_code 4096 win_xlate = Inr (Some sb, s)" "isSyscall sb" using win_result by blast
  from front_end_blocks [OF x(1)] x show ?thesis by blast
qed

end
